(* ===== verification/Prelude.thy ===== *)
theory Prelude
  imports Main "HOL-Library.Word"
begin

text \<open>
  Vocabulary shared by every theory of the development: the machine integer
  types of the program (\<open>src/util/misc.h\<close>), the fact collections the
  components use for automation, and generic lemmas on lists, folds, words
  and maps that several components need.
\<close>

unbundle bit_operations_syntax

subsection \<open>Machine integers\<close>

text \<open>The fixed width integer types of \<open>util/misc.h\<close>; a signed value is the
same word read with \<open>sint\<close>.\<close>

type_synonym byte_t = "8 word"
type_synonym word_t = "16 word"
type_synonym dword_t = "32 word"
type_synonym qword_t = "64 word"
type_synonym addr_t = dword_t
type_synonym page_t = dword_t
type_synonym pages_t = dword_t

subsection \<open>Fact collections\<close>

text \<open>\<open>frame\<close>: what an operation leaves alone. \<open>lookups\<close>: what a
lookup returns after an update. \<open>wf\<close>: preservation of the invariants.\<close>

named_theorems frame
named_theorems lookups
named_theorems wf

subsection \<open>Folds over a list of steps\<close>

lemma fold_invariant:
  assumes "\<And>x s. x \<in> set xs \<Longrightarrow> P s \<Longrightarrow> P (f x s)" and "P s"
  shows "P (fold f xs s)"
  using assms by (induction xs arbitrary: s) auto

lemma fold_unchanged:
  assumes "\<And>x s. x \<in> set xs \<Longrightarrow> g (f x s) = g s"
  shows "g (fold f xs s) = g s"
  using assms by (induction xs arbitrary: s) auto

subsection \<open>Words\<close>

lemma word_eq_iff_top_bottom:
  fixes a b :: "'a::len word"
  assumes "drop_bit n a = drop_bit n b" and "a AND mask n = b AND mask n"
  shows "a = b"
proof (rule bit_eqI)
  fix k
  show "bit a k = bit b k"
  proof (cases "k < n")
    case True
    then show ?thesis
      using arg_cong[OF assms(2), of "\<lambda>w. bit w k"]
      by (auto simp: bit_and_iff bit_mask_iff dest: bit_imp_le_length)
  next
    case False
    then show ?thesis
      using arg_cong[OF assms(1), of "\<lambda>w. bit w (k - n)"] by (simp add: bit_drop_bit_eq)
  qed
qed

text \<open>The simplifier reads the bits of a numeral word off the integer numeral.\<close>

lemma bit_mask_numerals:
  "bit (0xfff :: int) n \<longleftrightarrow> n < 12" "bit (0x3ff :: int) n \<longleftrightarrow> n < 10"
  "bit (0xfffff :: int) n \<longleftrightarrow> n < 20"
  "bit (0xfffff000 :: int) n \<longleftrightarrow> 12 \<le> n \<and> n < 32"
proof -
  have m: "bit (2 ^ k - 1 :: int) n \<longleftrightarrow> n < k" for k n
    using bit_mask_iff[of k n, where 'a = int] by (simp add: mask_eq_exp_minus_1)
  show "bit (0xfff :: int) n \<longleftrightarrow> n < 12" "bit (0x3ff :: int) n \<longleftrightarrow> n < 10"
    "bit (0xfffff :: int) n \<longleftrightarrow> n < 20"
    using m[of 12 n] m[of 10 n] m[of 20 n] by simp_all
  have "bit (push_bit 12 (2 ^ 20 - 1) :: int) n \<longleftrightarrow> 12 \<le> n \<and> n < 32"
    by (simp only: bit_push_bit_iff m) auto
  then show "bit (0xfffff000 :: int) n \<longleftrightarrow> 12 \<le> n \<and> n < 32" by simp
qed

lemma unat_less_numeral_power: "unat (w :: dword_t) < 4294967296"
  by (rule order_less_le_trans[OF unsigned_less]) simp

lemma unat_ucast_qword: "unat (ucast (w :: dword_t) :: qword_t) = unat w"
  using unat_less_numeral_power[of w] by (simp add: unsigned_ucast_eq take_bit_nat_eq_self)

lemma ucast_qword_inject: "(ucast (a :: dword_t) :: qword_t) = ucast b \<Longrightarrow> a = b"
  by (metis unat_ucast_qword word_unat_eq_iff)

lemma unat_of_nat_dword: "n < 2 ^ 32 \<Longrightarrow> unat (of_nat n :: dword_t) = n"
  by (simp add: unsigned_of_nat take_bit_nat_eq_self)

lemma unat_pred: "w \<noteq> 0 \<Longrightarrow> unat (w - 1 :: 'a::len word) = unat w - 1"
  by (rule unat_minus_one)

lemma unat_pred_less: "a < w \<Longrightarrow> unat (w - 1 :: 'a::len word) < unat w"
  using unat_minus_one[of w] by (cases "w = 0") (auto simp: unat_gt_0)

lemma unat_succ_less: "w < a \<Longrightarrow> unat (w + 1 :: 'a::len word) = Suc (unat w)"
proof -
  assume "w < a"
  then have "Suc (unat w) < 2 ^ LENGTH('a)"
    by (metis unsigned_less word_less_nat_alt less_trans_Suc)
  then show ?thesis by (simp add: unat_word_ariths)
qed

lemma unat_less_of_less: "w < a \<Longrightarrow> unat (w :: 'a::len word) < unat a"
  by (simp add: word_less_nat_alt)

subsection \<open>Counted references\<close>

text \<open>The C code counts references in 32-bit atomics. A count that stands for
the cardinality of a set of references behaves as expected while the set has
fewer than \<open>2 ^ 32\<close> members.\<close>

lemma of_nat_card_insert:
  assumes "finite A" "x \<notin> A"
  shows "(of_nat (card (insert x A)) :: dword_t) = of_nat (card A) + 1"
  using assms by (simp add: add.commute)

lemma of_nat_card_remove:
  assumes "finite A" "x \<in> A"
  shows "(of_nat (card (A - {x})) :: dword_t) = of_nat (card A) - 1"
proof -
  have "card A = Suc (card (A - {x}))"
    using assms by (metis card.remove)
  then show ?thesis by simp
qed

lemma of_nat_card_eq_0:
  assumes "finite A" "card A < 2 ^ 32"
  shows "(of_nat (card A) :: dword_t) = 0 \<longleftrightarrow> A = {}"
proof -
  have "(of_nat (card A) :: dword_t) = 0 \<longleftrightarrow> card A = 0"
    using assms(2) by (simp add: word_of_nat_eq_0_iff dvd_eq_mod_eq_0)
  then show ?thesis using assms(1) by simp
qed

end
