(* ===== verification/Errno.thy ===== *)
theory Errno
  imports Prelude
begin

text \<open>
  Error numbers of the emulated kernel (\<open>src/kernel/user-errno.h\<close>) and the
  translation of the host's error numbers into them
  (\<open>src/kernel/user-errno.c\<close>). The macros are plain C integers, so they are
  HOL integers here; a host error number is named by its \<open>errno.h\<close>
  macro, since its value depends on the host.
\<close>

subsection \<open>The macros of user-errno.h that the model uses\<close>

text \<open>The macro \<open>_EPERM\<close> is written \<open>EPERM\<close>, and so on.\<close>

abbreviation (input) EPERM :: int where "EPERM \<equiv> - 1"
abbreviation (input) ENOENT :: int where "ENOENT \<equiv> - 2"
abbreviation (input) ESRCH :: int where "ESRCH \<equiv> - 3"
abbreviation (input) EINTR :: int where "EINTR \<equiv> - 4"
abbreviation (input) EIO :: int where "EIO \<equiv> - 5"
abbreviation (input) ENXIO :: int where "ENXIO \<equiv> - 6"
abbreviation (input) E2BIG :: int where "E2BIG \<equiv> - 7"
abbreviation (input) ENOEXEC :: int where "ENOEXEC \<equiv> - 8"
abbreviation (input) EBADF :: int where "EBADF \<equiv> - 9"
abbreviation (input) ECHILD :: int where "ECHILD \<equiv> - 10"
abbreviation (input) EAGAIN :: int where "EAGAIN \<equiv> - 11"
abbreviation (input) ENOMEM :: int where "ENOMEM \<equiv> - 12"
abbreviation (input) EACCES :: int where "EACCES \<equiv> - 13"
abbreviation (input) EFAULT :: int where "EFAULT \<equiv> - 14"
abbreviation (input) EBUSY :: int where "EBUSY \<equiv> - 16"
abbreviation (input) EEXIST :: int where "EEXIST \<equiv> - 17"
abbreviation (input) EXDEV :: int where "EXDEV \<equiv> - 18"
abbreviation (input) ENODEV :: int where "ENODEV \<equiv> - 19"
abbreviation (input) ENOTDIR :: int where "ENOTDIR \<equiv> - 20"
abbreviation (input) EISDIR :: int where "EISDIR \<equiv> - 21"
abbreviation (input) EINVAL :: int where "EINVAL \<equiv> - 22"
abbreviation (input) EMFILE :: int where "EMFILE \<equiv> - 24"
abbreviation (input) ENOTTY :: int where "ENOTTY \<equiv> - 25"
abbreviation (input) ESPIPE :: int where "ESPIPE \<equiv> - 29"
abbreviation (input) EROFS :: int where "EROFS \<equiv> - 30"
abbreviation (input) EPIPE :: int where "EPIPE \<equiv> - 32"
abbreviation (input) ERANGE :: int where "ERANGE \<equiv> - 34"
abbreviation (input) ENAMETOOLONG :: int where "ENAMETOOLONG \<equiv> - 36"
abbreviation (input) ENOSYS :: int where "ENOSYS \<equiv> - 38"
abbreviation (input) ENOTEMPTY :: int where "ENOTEMPTY \<equiv> - 39"
abbreviation (input) ELOOP :: int where "ELOOP \<equiv> - 40"
abbreviation (input) EPROTONOSUPPORT :: int where "EPROTONOSUPPORT \<equiv> 93"
abbreviation (input) ESOCKTNOSUPPORT :: int where "ESOCKTNOSUPPORT \<equiv> 94"
abbreviation (input) EAFNOSUPPORT :: int where "EAFNOSUPPORT \<equiv> - 97"
abbreviation (input) ETIMEDOUT :: int where "ETIMEDOUT \<equiv> - 110"
abbreviation (input) EINPROGRESS :: int where "EINPROGRESS \<equiv> - 115"
abbreviation (input) EADDRINUSE :: int where "EADDRINUSE \<equiv> - 98"
abbreviation (input) ENOTSOCK :: int where "ENOTSOCK \<equiv> - 88"
abbreviation (input) EPROTO :: int where "EPROTO \<equiv> - 71"
abbreviation (input) ENOPROTOOPT :: int where "ENOPROTOOPT \<equiv> - 92"

text \<open>A C \<open>int\<close> returned by a system call, as the register value the guest sees.\<close>

definition ret32 :: "int \<Rightarrow> dword_t" where
  "ret32 i = word_of_int i"

subsection \<open>err_map\<close>

type_synonym host_errno = string

text \<open>The cases of the switch in \<open>err_map\<close>: \<open>ERRCASE(E)\<close> returns the macro
\<open>_E\<close> of user-errno.h.\<close>

definition errcases :: "(host_errno \<times> int) list" where
  "errcases =
   [(''EPERM'', - 1), (''ENOENT'', - 2), (''ESRCH'', - 3), (''EINTR'', - 4), (''EIO'', - 5),
    (''ENXIO'', - 6), (''E2BIG'', - 7), (''ENOEXEC'', - 8), (''EBADF'', - 9),
    (''ECHILD'', - 10), (''EAGAIN'', - 11), (''ENOMEM'', - 12), (''EACCES'', - 13),
    (''EFAULT'', - 14), (''ENOTBLK'', - 15), (''EBUSY'', - 16), (''EEXIST'', - 17),
    (''EXDEV'', - 18), (''ENODEV'', - 19), (''ENOTDIR'', - 20), (''EISDIR'', - 21),
    (''EINVAL'', - 22), (''ENFILE'', - 23), (''EMFILE'', - 24), (''ENOTTY'', - 25),
    (''ETXTBSY'', - 26), (''EFBIG'', - 27), (''ENOSPC'', - 28), (''ESPIPE'', - 29),
    (''EROFS'', - 30), (''EMLINK'', - 31), (''EPIPE'', - 32), (''EDOM'', - 33),
    (''ERANGE'', - 34), (''EDEADLK'', - 35), (''ENAMETOOLONG'', - 36), (''ENOLCK'', - 37),
    (''ENOSYS'', - 38), (''ENOTEMPTY'', - 39), (''ELOOP'', - 40), (''ENOSTR'', - 60),
    (''ENODATA'', - 61), (''ETIME'', - 62), (''ENOSR'', - 63), (''EREMOTE'', - 66),
    (''ENOLINK'', - 67), (''EPROTO'', - 71), (''EMULTIHOP'', - 72), (''EBADMSG'', - 74),
    (''EOVERFLOW'', - 75), (''EILSEQ'', - 84), (''EUSERS'', - 87), (''ENOTSOCK'', - 88),
    (''EDESTADDRREQ'', - 89), (''EMSGSIZE'', - 90), (''EPROTOTYPE'', - 91),
    (''ENOPROTOOPT'', - 92), (''EPROTONOSUPPORT'', 93), (''ESOCKTNOSUPPORT'', 94),
    (''EOPNOTSUPP'', - 95), (''EPFNOSUPPORT'', - 96), (''EAFNOSUPPORT'', - 97),
    (''EADDRINUSE'', - 98), (''EADDRNOTAVAIL'', - 99), (''ENETDOWN'', - 100),
    (''ENETUNREACH'', - 101), (''ENETRESET'', - 102), (''ECONNABORTED'', - 103),
    (''ECONNRESET'', - 104), (''ENOBUFS'', - 105), (''EISCONN'', - 106),
    (''ENOTCONN'', - 107), (''ESHUTDOWN'', - 108), (''ETOOMANYREFS'', - 109),
    (''ETIMEDOUT'', - 110), (''ECONNREFUSED'', - 111), (''EHOSTDOWN'', - 112),
    (''EHOSTUNREACH'', - 113), (''EALREADY'', - 114), (''EINPROGRESS'', - 115),
    (''ESTALE'', - 116), (''EDQUOT'', - 122)]"

definition err_map :: "host_errno \<Rightarrow> int" where
  "err_map err = (case map_of errcases err of Some code \<Rightarrow> code | None \<Rightarrow> - 1337)"

text \<open>\<open>errno_map\<close> sends SIGPIPE to the current task when the host reports
EPIPE: the first component says whether the signal is sent.\<close>

definition errno_map :: "host_errno \<Rightarrow> bool \<times> int" where
  "errno_map errno = (errno = ''EPIPE'', err_map errno)"

subsection \<open>What callers rely on\<close>

lemma errcases_distinct: "distinct (map fst errcases)"
  by (simp add: errcases_def)

lemma errcases_injective: "distinct (map snd errcases)"
  by (simp add: errcases_def)

lemma errcases_sign:
  "list_all (\<lambda>(e, c). c < 0 \<longleftrightarrow> e \<notin> {''EPROTONOSUPPORT'', ''ESOCKTNOSUPPORT''}) errcases"
  by (simp add: errcases_def)

lemma errcases_range: "list_all (\<lambda>(e, c). - 122 \<le> c \<and> c \<le> 94 \<and> c \<noteq> 0) errcases"
  by (simp add: errcases_def)

lemma err_map_cases:
  obtains "err_map err = - 1337" "map_of errcases err = None"
  | c where "err_map err = c" "(err, c) \<in> set errcases"
  by (cases "map_of errcases err") (auto simp: err_map_def dest: map_of_SomeD)

lemma err_map_listed: "(err, c) \<in> set errcases \<Longrightarrow> err_map err = c"
  using errcases_distinct by (simp add: err_map_def)

lemma err_map_neg:
  assumes "err \<noteq> ''EPROTONOSUPPORT''" "err \<noteq> ''ESOCKTNOSUPPORT''"
  shows "err_map err < 0"
  using assms errcases_sign
  by (cases err rule: err_map_cases) (auto simp: list_all_iff)

text \<open>\<open>err_map\<close> translates every host error to a negative number, so that
callers can tell it from success, with exactly two exceptions: the protocol
errors EPROTONOSUPPORT and ESOCKTNOSUPPORT, whose macros lack the minus sign,
come out positive and look like results to every caller that tests
\<open>err < 0\<close>.\<close>
lemma err_map_negative_iff:
  "err_map err < 0 \<longleftrightarrow> err \<notin> {''EPROTONOSUPPORT'', ''ESOCKTNOSUPPORT''}"
proof (cases "err \<in> {''EPROTONOSUPPORT'', ''ESOCKTNOSUPPORT''}")
  case True
  moreover have "err_map ''EPROTONOSUPPORT'' = 93" "err_map ''ESOCKTNOSUPPORT'' = 94"
    by (rule err_map_listed, simp add: errcases_def)+
  ultimately show ?thesis by auto
next
  case False
  then show ?thesis using err_map_neg by simp
qed

text \<open>No two listed host errors are confused: \<open>err_map\<close> is injective on
the errors its switch lists.\<close>
lemma err_map_injective: "inj_on err_map (fst ` set errcases)"
proof (rule inj_onI)
  fix x y
  assume "x \<in> fst ` set errcases" "y \<in> fst ` set errcases" and eq: "err_map x = err_map y"
  then obtain c d where xy: "(x, c) \<in> set errcases" "(y, d) \<in> set errcases"
    by auto
  then have "err_map x = c" "err_map y = d"
    by (simp_all add: err_map_listed)
  then have "(x, c) \<in> set errcases" "(y, c) \<in> set errcases"
    using xy eq by auto
  then show "x = y"
    using errcases_injective by (metis inj_onD[of snd] distinct_map prod.inject snd_conv)
qed

end
