(* ===== verification/Memory.thy ===== *)
theory Memory
  imports Errno
begin

text \<open>
  The guest's address spaces (\<open>src/emu/memory.h\<close>, \<open>src/emu/memory.c\<close>): the
  two-level page directory of \<open>struct mem\<close>, the reference-counted host
  allocations \<open>struct data\<close> behind the pages, and the operations on both.

  The state \<open>vm\<close> holds every live \<open>struct mem\<close> and \<open>struct data\<close> under
  the name of its allocation, and the bytes of every live host mapping. A host
  pointer is a mapping and a 64-bit offset into it; \<open>NULL\<close> and \<open>MAP_FAILED\<close> are
  option and sum values. The host (\<open>mmap\<close>, \<open>mprotect\<close>, \<open>malloc\<close> where its
  result is tested) answers from the oracle \<open>vm_host\<close>, one answer for each
  call; the unchecked \<open>calloc\<close>s succeed. \<open>vm_ub\<close> is set when the C code would run
  into undefined behaviour: a page directory index outside the table, a
  reference to a freed \<open>struct data\<close>, a copy to \<open>MAP_FAILED\<close>. The lock of
  \<open>struct mem\<close> makes each operation atomic and is left out.
\<close>

subsection \<open>Data\<close>

type_synonym mem_id = nat
type_synonym data_id = nat
type_synonym hptr = "nat \<times> qword_t"

abbreviation (input) BAD_PAGE :: page_t where "BAD_PAGE \<equiv> 0x10000"
abbreviation (input) MEM_PAGES :: dword_t where "MEM_PAGES \<equiv> 0x100000"
abbreviation (input) MEM_PGDIR_SIZE :: dword_t where "MEM_PGDIR_SIZE \<equiv> 0x400"
abbreviation (input) PAGE_BITS :: nat where "PAGE_BITS \<equiv> 12"
abbreviation (input) PAGE_SIZE :: dword_t where "PAGE_SIZE \<equiv> 0x1000"

abbreviation (input) P_READ :: dword_t where "P_READ \<equiv> 1"
abbreviation (input) P_WRITE :: dword_t where "P_WRITE \<equiv> 2"
abbreviation (input) P_EXEC :: dword_t where "P_EXEC \<equiv> 4"
abbreviation (input) P_GROWSDOWN :: dword_t where "P_GROWSDOWN \<equiv> 8"
abbreviation (input) P_COW :: dword_t where "P_COW \<equiv> 16"
abbreviation (input) P_COMPILED :: dword_t where "P_COMPILED \<equiv> 32"
abbreviation (input) P_ANON :: dword_t where "P_ANON \<equiv> 64"

definition PAGE :: "addr_t \<Rightarrow> page_t" where
  "PAGE addr = drop_bit PAGE_BITS addr"

definition PGOFFSET :: "addr_t \<Rightarrow> dword_t" where
  "PGOFFSET addr = addr AND (PAGE_SIZE - 1)"

definition PAGE_ROUND_UP :: "dword_t \<Rightarrow> pages_t" where
  "PAGE_ROUND_UP bytes = (bytes - 1) div PAGE_SIZE + 1"

definition BYTES_ROUND_DOWN :: "dword_t \<Rightarrow> dword_t" where
  "BYTES_ROUND_DOWN bytes = push_bit PAGE_BITS (PAGE bytes)"

definition BYTES_ROUND_UP :: "dword_t \<Rightarrow> dword_t" where
  "BYTES_ROUND_UP bytes = push_bit PAGE_BITS (PAGE_ROUND_UP bytes)"

definition PGDIR_TOP :: "page_t \<Rightarrow> dword_t" where
  "PGDIR_TOP page = drop_bit 10 page"

definition PGDIR_BOTTOM :: "page_t \<Rightarrow> dword_t" where
  "PGDIR_BOTTOM page = page AND (MEM_PGDIR_SIZE - 1)"

record data =
  d_data :: hptr
  d_size :: qword_t
  d_refcount :: dword_t

record pt_entry =
  pt_data :: "data_id option"
  pt_offset :: qword_t
  pt_flags :: dword_t

record mem =
  mem_refcount :: dword_t
  mem_changes :: dword_t
  mem_pgdir :: "dword_t \<Rightarrow> (dword_t \<Rightarrow> pt_entry) option"
  mem_pgdir_used :: int
  mem_vdso :: addr_t
  mem_start_brk :: addr_t
  mem_brk :: addr_t

text \<open>A live host mapping: its length and its bytes.\<close>

record region =
  r_size :: qword_t
  r_bytes :: "qword_t \<Rightarrow> byte_t"

record vm =
  vm_mems :: "mem_id \<Rightarrow> mem option"
  vm_datas :: "data_id \<Rightarrow> data option"
  vm_regions :: "nat \<Rightarrow> region option"
  vm_next :: nat
  vm_host :: "nat \<Rightarrow> host_errno option"
  vm_calls :: nat
  vm_ub :: bool

datatype access = MEM_READ | MEM_WRITE

subsection \<open>The page directory\<close>

text \<open>An unallocated slot of the zeroed directory.\<close>

definition pt_zero :: pt_entry where
  "pt_zero = \<lparr>pt_data = None, pt_offset = 0, pt_flags = 0\<rparr>"

definition mem_pt :: "mem \<Rightarrow> page_t \<Rightarrow> pt_entry option" where
  "mem_pt mem page =
    (case mem_pgdir mem (PGDIR_TOP page) of
       None \<Rightarrow> None
     | Some pgdir \<Rightarrow>
         let entry = pgdir (PGDIR_BOTTOM page)
         in if pt_data entry = None then None else Some entry)"

definition mem_pt_new :: "page_t \<Rightarrow> mem \<Rightarrow> mem" where
  "mem_pt_new page mem =
    (case mem_pgdir mem (PGDIR_TOP page) of
       None \<Rightarrow> mem\<lparr>mem_pgdir := (mem_pgdir mem)(PGDIR_TOP page \<mapsto> (\<lambda>_. pt_zero)),
                   mem_pgdir_used := mem_pgdir_used mem + 1\<rparr>
     | Some _ \<Rightarrow> mem)"

text \<open>A store through the pointer that \<open>mem_pt_new\<close> or \<open>mem_pt\<close> returned.\<close>

definition mem_pt_store :: "page_t \<Rightarrow> pt_entry \<Rightarrow> mem \<Rightarrow> mem" where
  "mem_pt_store page entry mem =
    (case mem_pgdir mem (PGDIR_TOP page) of
       None \<Rightarrow> mem
     | Some pgdir \<Rightarrow> mem\<lparr>mem_pgdir :=
         (mem_pgdir mem)(PGDIR_TOP page \<mapsto> pgdir(PGDIR_BOTTOM page := entry))\<rparr>)"

definition mem_pt_put :: "page_t \<Rightarrow> pt_entry \<Rightarrow> mem \<Rightarrow> mem" where
  "mem_pt_put page entry mem = mem_pt_store page entry (mem_pt_new page mem)"

definition mem_pt_del :: "page_t \<Rightarrow> mem \<Rightarrow> mem" where
  "mem_pt_del page mem =
    (case mem_pt mem page of
       None \<Rightarrow> mem
     | Some entry \<Rightarrow> mem_pt_store page (entry\<lparr>pt_data := None\<rparr>) mem)"

definition mem_changed :: "mem \<Rightarrow> mem" where
  "mem_changed mem = mem\<lparr>mem_changes := mem_changes mem + 1\<rparr>"

subsection \<open>The state and the host\<close>

definition upd_mem :: "mem_id \<Rightarrow> (mem \<Rightarrow> mem) \<Rightarrow> vm \<Rightarrow> vm" where
  "upd_mem m f v = v\<lparr>vm_mems := (vm_mems v)(m := map_option f (vm_mems v m))\<rparr>"

definition vm_pt :: "vm \<Rightarrow> mem_id \<Rightarrow> page_t \<Rightarrow> pt_entry option" where
  "vm_pt v m page = (case vm_mems v m of None \<Rightarrow> None | Some mem \<Rightarrow> mem_pt mem page)"

text \<open>Every loop below indexes the directory with its page first.\<close>

definition pt_access :: "page_t \<Rightarrow> vm \<Rightarrow> vm" where
  "pt_access page v = (if page < MEM_PAGES then v else v\<lparr>vm_ub := True\<rparr>)"

text \<open>The pages of \<open>for (page = start; page < start + pages; page++)\<close>, the
bound computed in 32 bits.\<close>

definition page_range :: "page_t \<Rightarrow> pages_t \<Rightarrow> page_t list" where
  "page_range start pages = map of_nat [unat start ..< unat (start + pages)]"

definition host_call :: "vm \<Rightarrow> host_errno option \<times> vm" where
  "host_call v = (vm_host v (vm_calls v), v\<lparr>vm_calls := Suc (vm_calls v)\<rparr>)"

text \<open>Anonymous private \<open>mmap\<close>: fresh zeroed memory, or \<open>MAP_FAILED\<close> with errno.\<close>

definition host_mmap :: "qword_t \<Rightarrow> vm \<Rightarrow> (host_errno + hptr) \<times> vm" where
  "host_mmap len v =
    (case host_call v of
       (Some e, v) \<Rightarrow> (Inl e, v)
     | (None, v) \<Rightarrow>
         (Inr (vm_next v, 0),
          v\<lparr>vm_regions := (vm_regions v)(vm_next v \<mapsto> \<lparr>r_size = len, r_bytes = (\<lambda>_. 0)\<rparr>),
            vm_next := Suc (vm_next v)\<rparr>))"

text \<open>\<open>munmap(data->data, data->size)\<close> of a whole mapping.\<close>

definition host_munmap :: "hptr \<Rightarrow> vm \<Rightarrow> vm" where
  "host_munmap p v = v\<lparr>vm_regions := (vm_regions v)(fst p := None)\<rparr>"

definition host_load :: "hptr \<Rightarrow> vm \<Rightarrow> byte_t" where
  "host_load p v = (case vm_regions v (fst p) of None \<Rightarrow> 0 | Some r \<Rightarrow> r_bytes r (snd p))"

definition host_store :: "hptr \<Rightarrow> byte_t \<Rightarrow> vm \<Rightarrow> vm" where
  "host_store p b v = v\<lparr>vm_regions := (vm_regions v)(fst p :=
     map_option (r_bytes_update (\<lambda>f. f(snd p := b))) (vm_regions v (fst p)))\<rparr>"

text \<open>\<open>memcpy(dst, src, PAGE_SIZE)\<close> between two mappings.\<close>

definition host_copy_page :: "hptr \<Rightarrow> hptr \<Rightarrow> vm \<Rightarrow> vm" where
  "host_copy_page dst src v = v\<lparr>vm_regions := (vm_regions v)(fst dst :=
     map_option (r_bytes_update (\<lambda>f i. if i - snd dst < 4096
       then host_load (fst src, snd src + (i - snd dst)) v else f i)) (vm_regions v (fst dst)))\<rparr>"

subsection \<open>Reference counts of host allocations\<close>

definition data_retain :: "data_id \<Rightarrow> vm \<Rightarrow> vm" where
  "data_retain d v =
    (case vm_datas v d of
       None \<Rightarrow> v\<lparr>vm_ub := True\<rparr>
     | Some data \<Rightarrow>
         v\<lparr>vm_datas := (vm_datas v)(d \<mapsto> data\<lparr>d_refcount := d_refcount data + 1\<rparr>)\<rparr>)"

definition data_release :: "data_id \<Rightarrow> vm \<Rightarrow> vm" where
  "data_release d v =
    (case vm_datas v d of
       None \<Rightarrow> v\<lparr>vm_ub := True\<rparr>
     | Some data \<Rightarrow>
         if d_refcount data - 1 = 0
         then (host_munmap (d_data data) v)\<lparr>vm_datas := (vm_datas v)(d := None)\<rparr>
         else v\<lparr>vm_datas := (vm_datas v)(d \<mapsto> data\<lparr>d_refcount := d_refcount data - 1\<rparr>)\<rparr>)"

subsection \<open>Mapping and unmapping\<close>

text \<open>The loops that look for a page that is not mapped, or one that is.\<close>

fun scan_mapped :: "mem_id \<Rightarrow> page_t list \<Rightarrow> vm \<Rightarrow> bool \<times> vm" where
  "scan_mapped m [] v = (True, v)"
| "scan_mapped m (page # pages) v =
    (let v = pt_access page v
     in if vm_pt v m page = None then (False, v) else scan_mapped m pages v)"

fun scan_hole :: "mem_id \<Rightarrow> page_t list \<Rightarrow> vm \<Rightarrow> bool \<times> vm" where
  "scan_hole m [] v = (True, v)"
| "scan_hole m (page # pages) v =
    (let v = pt_access page v
     in if vm_pt v m page \<noteq> None then (False, v) else scan_hole m pages v)"

definition pt_is_hole :: "mem_id \<Rightarrow> page_t \<Rightarrow> pages_t \<Rightarrow> vm \<Rightarrow> bool \<times> vm" where
  "pt_is_hole m start pages v = scan_hole m (page_range start pages) v"

text \<open>One step of the unmapping loop of \<open>pt_unmap\<close>.\<close>

definition unmap_page :: "mem_id \<Rightarrow> page_t \<Rightarrow> vm \<Rightarrow> vm" where
  "unmap_page m page v0 =
    (let v = pt_access page v0
     in case vm_pt v m page of
          None \<Rightarrow> v
        | Some pt \<Rightarrow>
            (case pt_data pt of
               None \<Rightarrow> v
             | Some data \<Rightarrow> data_release data (upd_mem m (mem_pt_del page) v)))"

definition pt_unmap :: "mem_id \<Rightarrow> page_t \<Rightarrow> pages_t \<Rightarrow> bool \<Rightarrow> vm \<Rightarrow> int \<times> vm" where
  "pt_unmap m start pages force v =
    (let (ok, v) = (if force then (True, v) else scan_mapped m (page_range start pages) v)
     in if \<not> ok then (- 1, v)
        else (0, upd_mem m mem_changed (fold (unmap_page m) (page_range start pages) v)))"

text \<open>One step of the loop of \<open>pt_map\<close>.\<close>

definition map_page :: "mem_id \<Rightarrow> data_id \<Rightarrow> page_t \<Rightarrow> dword_t \<Rightarrow> page_t \<Rightarrow> vm \<Rightarrow> vm" where
  "map_page m data start flags page v0 =
    (let v = pt_access page v0;
         v = (if vm_pt v m page \<noteq> None then snd (pt_unmap m page 1 False v) else v);
         v = data_retain data v
     in upd_mem m (mem_pt_put page
          \<lparr>pt_data = Some data, pt_offset = ucast (push_bit PAGE_BITS (page - start)),
           pt_flags = flags\<rparr>) v)"

definition pt_map :: "mem_id \<Rightarrow> page_t \<Rightarrow> pages_t \<Rightarrow> host_errno + hptr \<Rightarrow> dword_t \<Rightarrow> vm \<Rightarrow> int \<times> vm"
where
  "pt_map m start pages memory flags v =
    (case memory of
       Inl errno \<Rightarrow> (snd (errno_map errno), v)
     | Inr ptr \<Rightarrow>
         (case host_call v of
            (Some _, v) \<Rightarrow> (ENOMEM, v)
          | (None, v) \<Rightarrow>
              (let data = vm_next v;
                   v = v\<lparr>vm_next := Suc data, vm_datas := (vm_datas v)(data \<mapsto>
                         \<lparr>d_data = ptr, d_size = ucast (pages * PAGE_SIZE), d_refcount = 0\<rparr>)\<rparr>
               in (0, fold (map_page m data start flags) (page_range start pages) v))))"

definition pt_map_nothing :: "mem_id \<Rightarrow> page_t \<Rightarrow> pages_t \<Rightarrow> dword_t \<Rightarrow> vm \<Rightarrow> int \<times> vm" where
  "pt_map_nothing m start pages flags v =
    (if pages = 0 then (0, v)
     else let (memory, v) = host_mmap (ucast (pages * PAGE_SIZE)) v
          in pt_map m start pages memory (flags OR P_ANON) v)"

subsection \<open>Holes\<close>

text \<open>The scan of \<open>pt_find_hole\<close>, downwards from \<open>page\<close>; \<open>hole_end\<close> is only
read after \<open>in_hole\<close> has been set, which assigns it.\<close>

function find_hole_from :: "mem \<Rightarrow> pages_t \<Rightarrow> bool \<Rightarrow> page_t \<Rightarrow> page_t \<Rightarrow> page_t" where
  "find_hole_from mem len in_hole hole_end page =
    (if page > 0x40000 then
       let (in_hole, hole_end) =
             (if \<not> in_hole \<and> mem_pt mem page = None then (True, page + 1) else (in_hole, hole_end))
       in if mem_pt mem page \<noteq> None then find_hole_from mem len False hole_end (page - 1)
          else if hole_end - page = len then page
          else find_hole_from mem len in_hole hole_end (page - 1)
     else BAD_PAGE)"
  by auto
termination
  by (relation "measure (\<lambda>(_, _, _, _, page). unat page)")
    (auto simp: unat_pred_less)

definition pt_find_hole :: "mem \<Rightarrow> pages_t \<Rightarrow> page_t" where
  "pt_find_hole mem len = find_hole_from mem len False 0 0xf7ffd"

subsection \<open>Protection, copy-on-write and access\<close>

fun set_flags_loop :: "mem_id \<Rightarrow> dword_t \<Rightarrow> page_t list \<Rightarrow> vm \<Rightarrow> int \<times> vm" where
  "set_flags_loop m flags [] v = (0, upd_mem m mem_changed v)"
| "set_flags_loop m flags (page # pages) v0 =
    (let v = pt_access page v0
     in case vm_pt v m page of
          None \<Rightarrow> (0, v\<lparr>vm_ub := True\<rparr>)
        | Some entry \<Rightarrow>
            (let old_flags = pt_flags entry;
                 v = upd_mem m (mem_pt_store page (entry\<lparr>pt_flags := flags\<rparr>)) v
             in if (flags AND NOT old_flags) AND (P_READ OR P_WRITE) \<noteq> 0
                then (case host_call v of
                        (Some errno, v) \<Rightarrow> (snd (errno_map errno), v)
                      | (None, v) \<Rightarrow> set_flags_loop m flags pages v)
                else set_flags_loop m flags pages v))"

definition pt_set_flags :: "mem_id \<Rightarrow> page_t \<Rightarrow> pages_t \<Rightarrow> dword_t \<Rightarrow> vm \<Rightarrow> int \<times> vm" where
  "pt_set_flags m start pages flags v =
    (case scan_mapped m (page_range start pages) v of
       (False, v) \<Rightarrow> (ENOMEM, v)
     | (True, v) \<Rightarrow> set_flags_loop m flags (page_range start pages) v)"

text \<open>One step of the loop of \<open>pt_copy_on_write\<close>; \<open>entry\<close> points into the
directory of \<open>src\<close>, so it is read again after the target page is unmapped.\<close>

definition cow_page :: "mem_id \<Rightarrow> mem_id \<Rightarrow> page_t \<times> page_t \<Rightarrow> vm \<Rightarrow> vm" where
  "cow_page src dst = (\<lambda>(src_page, dst_page) v0.
    (let v = pt_access src_page v0
     in case vm_pt v src src_page of
          None \<Rightarrow> v
        | Some _ \<Rightarrow>
            (let v = snd (pt_unmap dst dst_page 1 True v)
             in case vm_pt v src src_page of
                  None \<Rightarrow> v\<lparr>vm_ub := True\<rparr>
                | Some entry \<Rightarrow>
                    (let entry = entry\<lparr>pt_flags := (pt_flags entry OR P_COW) AND NOT P_COMPILED\<rparr>;
                         v = upd_mem src (mem_pt_store src_page entry) v;
                         v = (case pt_data entry of
                                None \<Rightarrow> v\<lparr>vm_ub := True\<rparr> | Some d \<Rightarrow> data_retain d v);
                         v = pt_access dst_page v
                     in upd_mem dst (mem_pt_put dst_page entry) v))))"

definition pt_copy_on_write ::
  "mem_id \<Rightarrow> page_t \<Rightarrow> mem_id \<Rightarrow> page_t \<Rightarrow> page_t \<Rightarrow> vm \<Rightarrow> int \<times> vm" where
  "pt_copy_on_write src src_start dst dst_start pages v =
    (0, upd_mem dst mem_changed (upd_mem src mem_changed
          (fold (cow_page src dst)
             (map (\<lambda>p. (p, dst_start + (p - src_start))) (page_range src_start pages)) v)))"

text \<open>The search of \<open>mem_ptr\<close> for the next mapped page above a hole.\<close>

function next_mapped :: "vm \<Rightarrow> mem_id \<Rightarrow> page_t \<Rightarrow> pt_entry option" where
  "next_mapped v m p =
    (if p < MEM_PAGES
     then (case vm_pt v m p of None \<Rightarrow> next_mapped v m (p + 1) | Some entry \<Rightarrow> Some entry)
     else None)"
  by auto
termination
  by (relation "measure (\<lambda>(_, _, p). 1048576 - unat p)")
    (auto simp: unat_succ_less[where a = MEM_PAGES] dest: unat_less_of_less[where a = MEM_PAGES])

definition entry_ptr :: "pt_entry \<Rightarrow> vm \<Rightarrow> hptr option" where
  "entry_ptr entry v =
    (case pt_data entry of
       None \<Rightarrow> None
     | Some d \<Rightarrow> map_option (\<lambda>data. (fst (d_data data), snd (d_data data) + pt_offset entry))
                  (vm_datas v d))"

text \<open>Breaking a copy-on-write page. The result of \<open>mmap\<close> is not tested before
the copy, and the result of \<open>pt_map\<close> is dropped.\<close>

definition cow_break :: "mem_id \<Rightarrow> page_t \<Rightarrow> pt_entry \<Rightarrow> vm \<Rightarrow> vm" where
  "cow_break m page entry v =
    (case entry_ptr entry v of
       None \<Rightarrow> v\<lparr>vm_ub := True\<rparr>
     | Some src \<Rightarrow>
         (case host_mmap (ucast PAGE_SIZE) v of
            (Inl _, v) \<Rightarrow> v\<lparr>vm_ub := True\<rparr>
          | (Inr copy, v) \<Rightarrow>
              snd (pt_map m page 1 (Inr copy) (pt_flags entry AND NOT P_COW)
                (host_copy_page copy src v))))"

definition mem_ptr :: "mem_id \<Rightarrow> addr_t \<Rightarrow> access \<Rightarrow> vm \<Rightarrow> hptr option \<times> vm" where
  "mem_ptr m addr type v0 =
    (let page = PAGE addr;
         (present, v) =
           (if vm_pt v0 m page \<noteq> None then (True, v0)
            else case next_mapped v0 m (page + 1) of
                   None \<Rightarrow> (False, v0)
                 | Some next \<Rightarrow>
                     if pt_flags next AND P_GROWSDOWN = 0 then (False, v0)
                     else (True, snd (pt_map_nothing m page 1 (P_WRITE OR P_GROWSDOWN) v0)))
     in case (if present then vm_pt v m page else None) of
          None \<Rightarrow> (None, v)
        | Some entry \<Rightarrow>
            if type = MEM_WRITE \<and> pt_flags entry AND P_WRITE = 0 then (None, v)
            else
              let v = (if type = MEM_WRITE \<and> pt_flags entry AND P_COW \<noteq> 0
                       then cow_break m page entry v else v)
              in (case vm_pt v m page of
                    None \<Rightarrow> (None, v\<lparr>vm_ub := True\<rparr>)
                  | Some entry \<Rightarrow>
                      (case entry_ptr entry v of
                         None \<Rightarrow> (None, v\<lparr>vm_ub := True\<rparr>)
                       | Some p \<Rightarrow> (Some (fst p, snd p + ucast (PGOFFSET addr)), v))))"

subsection \<open>Lifetime of an address space\<close>

definition mem_new :: "vm \<Rightarrow> mem_id option \<times> vm" where
  "mem_new v =
    (case host_call v of
       (Some _, v) \<Rightarrow> (None, v)
     | (None, v) \<Rightarrow>
         (Some (vm_next v),
          v\<lparr>vm_next := Suc (vm_next v), vm_mems := (vm_mems v)(vm_next v \<mapsto>
             \<lparr>mem_refcount = 1, mem_changes = 0, mem_pgdir = (\<lambda>_. None), mem_pgdir_used = 0,
              mem_vdso = 0, mem_start_brk = 0, mem_brk = 0\<rparr>)\<rparr>))"

definition mem_retain :: "mem_id \<Rightarrow> vm \<Rightarrow> vm" where
  "mem_retain m v = upd_mem m (mem_refcount_update (\<lambda>n. n + 1)) v"

definition mem_release :: "mem_id \<Rightarrow> vm \<Rightarrow> vm" where
  "mem_release m v0 =
    (let v = upd_mem m (mem_refcount_update (\<lambda>n. n - 1)) v0
     in case vm_mems v m of
          None \<Rightarrow> v\<lparr>vm_ub := True\<rparr>
        | Some mem \<Rightarrow>
            if mem_refcount mem = 0
            then (let v = snd (pt_unmap m 0 MEM_PAGES True v)
                  in v\<lparr>vm_mems := (vm_mems v)(m := None)\<rparr>)
            else v)"

declare find_hole_from.simps [simp del] next_mapped.simps [simp del]

end
