(* ===== verification/Page_Table.thy ===== *)
theory Page_Table
  imports Memory
begin

text \<open>
  What the page directory and the loops over it do to the lookup \<open>vm_pt\<close>: each
  step writes one page of one address space and leaves every other page alone.
  The locale \<open>page_writer\<close> states that contract once; its interpretations are
  the unmapping loop and the store of a page table entry.
\<close>

subsection \<open>Page numbers\<close>

lemma page_eqI: "PGDIR_TOP p = PGDIR_TOP q \<Longrightarrow> PGDIR_BOTTOM p = PGDIR_BOTTOM q \<Longrightarrow> p = q"
  using word_eq_iff_top_bottom[of 10 p q]
  by (auto simp: PGDIR_TOP_def PGDIR_BOTTOM_def mask_eq_exp_minus_1)

lemma page_range_Nil [simp]: "page_range start 0 = []"
  by (simp add: page_range_def)

lemma page_range_one: "page_range page 1 = (if page + 1 = 0 then [] else [page])"
proof (cases "page + 1 = 0")
  case False
  then have "unat (page + 1) = Suc (unat page)"
    by (metis add.commute unatSuc)
  then show ?thesis using False by (simp add: page_range_def)
qed (simp add: page_range_def)

lemma distinct_page_range: "distinct (page_range start pages)"
proof -
  have "inj_on (of_nat :: nat \<Rightarrow> page_t) {unat start ..< unat (start + pages)}"
  proof (rule inj_onI)
    fix x y
    assume "x \<in> {unat start ..< unat (start + pages)}" "y \<in> {unat start ..< unat (start + pages)}"
    then have "x < 2 ^ 32" "y < 2 ^ 32"
      using unat_less_numeral_power[of "start + pages"] by simp_all
    moreover assume "(of_nat x :: page_t) = of_nat y"
    ultimately show "x = y" by (metis unat_of_nat_dword)
  qed
  then show ?thesis by (simp add: page_range_def distinct_map)
qed

text \<open>A range that ends inside the directory is the plain interval.\<close>

lemma mem_page_range:
  assumes "unat start + unat pages < 2 ^ 32"
  shows "q \<in> set (page_range start pages) \<longleftrightarrow> unat start \<le> unat q \<and> unat q < unat start + unat pages"
proof -
  have sum: "unat (start + pages) = unat start + unat pages"
    using assms by (simp add: unat_word_ariths)
  show ?thesis
  proof
    assume "q \<in> set (page_range start pages)"
    then obtain n where "q = of_nat n" "unat start \<le> n" "n < unat start + unat pages"
      by (auto simp: page_range_def sum)
    then show "unat start \<le> unat q \<and> unat q < unat start + unat pages"
      using assms by (simp add: unat_of_nat_dword)
  next
    assume "unat start \<le> unat q \<and> unat q < unat start + unat pages"
    then show "q \<in> set (page_range start pages)"
      by (auto simp: page_range_def sum image_iff intro!: bexI[of _ "unat q"])
  qed
qed

abbreviation in_space :: "page_t \<Rightarrow> pages_t \<Rightarrow> bool" where
  "in_space start pages \<equiv> unat start + unat pages \<le> 1048576"

lemma page_range_bounded:
  assumes "in_space start pages" "q \<in> set (page_range start pages)"
  shows "q < MEM_PAGES"
  using assms mem_page_range[of start pages q] by (auto simp: word_less_nat_alt)

subsection \<open>Lookups in one directory\<close>

lemma mem_pt_new_pt [lookups]: "mem_pt (mem_pt_new page mem) q = mem_pt mem q"
  by (auto simp: mem_pt_new_def mem_pt_def pt_zero_def Let_def split: option.splits)

lemma mem_pt_SomeD:
  "mem_pt mem p = Some e \<Longrightarrow> pt_data e \<noteq> None \<and> mem_pgdir mem (PGDIR_TOP p) \<noteq> None"
  by (auto simp: mem_pt_def Let_def split: option.splits if_splits)

lemma mem_pt_store_pt:
  "mem_pgdir mem (PGDIR_TOP page) \<noteq> None \<Longrightarrow>
   mem_pt (mem_pt_store page e mem) q =
     (if q = page then (if pt_data e = None then None else Some e) else mem_pt mem q)"
  by (auto simp: mem_pt_store_def mem_pt_def Let_def dest: page_eqI split: option.splits if_splits)

lemma mem_pt_new_dir: "mem_pgdir (mem_pt_new page mem) (PGDIR_TOP page) \<noteq> None"
  by (auto simp: mem_pt_new_def split: option.splits)

lemma mem_pt_put_pt [lookups]:
  "pt_data e \<noteq> None \<Longrightarrow>
   mem_pt (mem_pt_put page e mem) q = (if q = page then Some e else mem_pt mem q)"
  by (auto simp: mem_pt_put_def mem_pt_store_pt mem_pt_new_dir mem_pt_new_pt)

lemma mem_pt_del_pt [lookups]:
  "mem_pt (mem_pt_del page mem) q = (if q = page then None else mem_pt mem q)"
  by (auto simp: mem_pt_del_def mem_pt_store_pt dest: mem_pt_SomeD split: option.splits)

lemma mem_changed_pt [lookups]: "mem_pt (mem_changed mem) q = mem_pt mem q"
  by (simp add: mem_changed_def mem_pt_def)

subsection \<open>Lookups in the state\<close>

lemma upd_mem_frame [simp]:
  "vm_datas (upd_mem m f v) = vm_datas v" "vm_regions (upd_mem m f v) = vm_regions v"
  "vm_next (upd_mem m f v) = vm_next v" "vm_ub (upd_mem m f v) = vm_ub v"
  "vm_host (upd_mem m f v) = vm_host v" "vm_calls (upd_mem m f v) = vm_calls v"
  "dom (vm_mems (upd_mem m f v)) = dom (vm_mems v)"
  by (auto simp: upd_mem_def dom_def)

lemma upd_mem_live [simp]: "vm_mems (upd_mem m f v) m' = None \<longleftrightarrow> vm_mems v m' = None"
  by (simp add: upd_mem_def)

lemma vm_pt_frame:
  "vm_mems v = vm_mems w \<Longrightarrow> vm_pt v m p = vm_pt w m p"
  by (simp add: vm_pt_def)

lemma vm_pt_live: "vm_pt v m p = Some e \<Longrightarrow> vm_mems v m \<noteq> None"
  by (auto simp: vm_pt_def split: option.splits)

lemma vm_pt_data: "vm_pt v m p = Some e \<Longrightarrow> \<exists>d. pt_data e = Some d"
  by (auto simp: vm_pt_def dest: mem_pt_SomeD split: option.splits)

lemma vm_pt_put [lookups]:
  "vm_mems v m \<noteq> None \<Longrightarrow> pt_data e \<noteq> None \<Longrightarrow>
   vm_pt (upd_mem m (mem_pt_put page e) v) m' q =
     (if m' = m \<and> q = page then Some e else vm_pt v m' q)"
  by (auto simp: vm_pt_def upd_mem_def lookups split: option.splits)

lemma vm_pt_store [lookups]:
  assumes "vm_pt v m page = Some e0" "pt_data e \<noteq> None"
  shows "vm_pt (upd_mem m (mem_pt_store page e) v) m' q =
    (if m' = m \<and> q = page then Some e else vm_pt v m' q)"
  using assms by (auto simp: vm_pt_def upd_mem_def mem_pt_store_pt dest: mem_pt_SomeD
      split: option.splits)

lemma vm_pt_del [lookups]:
  "vm_pt (upd_mem m (mem_pt_del page) v) m' q =
    (if m' = m \<and> q = page then None else vm_pt v m' q)"
  by (auto simp: vm_pt_def upd_mem_def lookups split: option.splits)

lemma vm_pt_changed [lookups]: "vm_pt (upd_mem m mem_changed v) m' q = vm_pt v m' q"
  by (auto simp: vm_pt_def upd_mem_def lookups split: option.splits)

lemma pt_access_frame [simp]:
  "vm_mems (pt_access p v) = vm_mems v" "vm_datas (pt_access p v) = vm_datas v"
  "vm_regions (pt_access p v) = vm_regions v" "vm_next (pt_access p v) = vm_next v"
  "vm_host (pt_access p v) = vm_host v" "vm_calls (pt_access p v) = vm_calls v"
  "vm_pt (pt_access p v) m q = vm_pt v m q"
  by (simp_all add: pt_access_def vm_pt_def)

lemma pt_access_in [simp]: "p < MEM_PAGES \<Longrightarrow> pt_access p v = v"
  by (simp add: pt_access_def)

lemma data_retain_frame [simp]:
  "vm_mems (data_retain d v) = vm_mems v" "vm_regions (data_retain d v) = vm_regions v"
  "vm_next (data_retain d v) = vm_next v" "vm_pt (data_retain d v) m q = vm_pt v m q"
  by (auto simp: data_retain_def vm_pt_def split: option.splits)

lemma data_release_frame [simp]:
  "vm_mems (data_release d v) = vm_mems v" "vm_next (data_release d v) = vm_next v"
  "vm_pt (data_release d v) m q = vm_pt v m q"
  by (auto simp: data_release_def host_munmap_def vm_pt_def Let_def split: option.splits)

lemma vm_pt_unmap_page [lookups]:
  "vm_pt (unmap_page m page v) m' q = (if m' = m \<and> q = page then None else vm_pt v m' q)"
  by (auto simp: unmap_page_def Let_def lookups dest: vm_pt_data split: option.splits)

lemma unmap_page_live [simp]: "vm_mems (unmap_page m page v) m' = None \<longleftrightarrow> vm_mems v m' = None"
  by (auto simp: unmap_page_def Let_def split: option.splits)

lemma unmap_page_dom [simp]: "dom (vm_mems (unmap_page m page v)) = dom (vm_mems v)"
  by (simp add: dom_def)

subsection \<open>Loops that write one page at each step\<close>

locale page_writer =
  fixes get :: "'s \<Rightarrow> 'k \<Rightarrow> 'e option"
    and step :: "'i \<Rightarrow> 's \<Rightarrow> 's"
    and key :: "'i \<Rightarrow> 'k"
    and val :: "'i \<Rightarrow> 'e option"
    and adm :: "'s \<Rightarrow> bool"
  assumes get_step: "adm s \<Longrightarrow> get (step i s) k = (if k = key i then val i else get s k)"
    and adm_step: "adm s \<Longrightarrow> adm (step i s)"
    and key_inj: "key i = key j \<Longrightarrow> i = j"
begin

lemma adm_fold: "adm s \<Longrightarrow> adm (fold step xs s)"
  by (induction xs arbitrary: s) (simp_all add: adm_step)

lemma get_fold_other:
  "adm s \<Longrightarrow> k \<notin> key ` set xs \<Longrightarrow> get (fold step xs s) k = get s k"
  by (induction xs arbitrary: s) (auto simp: adm_step get_step)

lemma get_fold_key:
  "adm s \<Longrightarrow> i \<in> set xs \<Longrightarrow> get (fold step xs s) (key i) = val i"
proof (induction xs arbitrary: s)
  case (Cons x xs)
  show ?case
  proof (cases "i \<in> set xs")
    case True
    then show ?thesis using Cons by (simp add: adm_step)
  next
    case False
    then have "key i \<notin> key ` set xs" using key_inj by auto
    then show ?thesis using Cons.prems False by (auto simp: get_fold_other adm_step get_step)
  qed
qed simp

lemma get_fold:
  "adm s \<Longrightarrow> get (fold step xs s) (key i) = (if i \<in> set xs then val i else get s (key i))"
  using key_inj by (auto simp: get_fold_key intro!: get_fold_other)

end

interpretation unmapping: page_writer
  "\<lambda>v k. vm_pt v (fst k) (snd k)" "unmap_page m" "Pair m" "\<lambda>_. None" "\<lambda>_. True" for m
  by unfold_locales (auto simp: lookups)

end
