(* ===== verification/Refcounts.thy ===== *)
theory Refcounts
  imports Page_Table
begin

text \<open>
  The invariant of the address spaces: every \<open>struct data\<close> is counted by the
  page table entries that refer to it, every entry lies inside a live host
  mapping, no two allocations share a mapping. The steps of \<open>pt_unmap\<close>,
  \<open>pt_map\<close> and \<open>pt_copy_on_write\<close> preserve it, so no mapping is freed while a
  page refers to it and none is kept when the last page is gone.
\<close>

subsection \<open>The invariant\<close>

definition refs :: "vm \<Rightarrow> data_id \<Rightarrow> (mem_id \<times> page_t) set" where
  "refs v d = {(m, p). \<exists>e. vm_pt v m p = Some e \<and> pt_data e = Some d}"

definition counted :: "vm \<Rightarrow> bool" where
  "counted v \<longleftrightarrow> (\<forall>d x. vm_datas v d = Some x \<longrightarrow> d_refcount x = of_nat (card (refs v d)))"

definition sized :: "data \<Rightarrow> region \<Rightarrow> bool" where
  "sized x r \<longleftrightarrow> unat (snd (d_data x)) + unat (d_size x) \<le> unat (r_size r)"

definition entry_ok :: "vm \<Rightarrow> pt_entry \<Rightarrow> bool" where
  "entry_ok v e \<longleftrightarrow> (\<exists>d x r. pt_data e = Some d \<and> vm_datas v d = Some x \<and>
     vm_regions v (fst (d_data x)) = Some r \<and> sized x r \<and>
     unat (pt_offset e) + 4096 \<le> unat (d_size x) \<and> pt_offset e AND 0xfff = 0)"

definition backed :: "vm \<Rightarrow> bool" where
  "backed v \<longleftrightarrow> (\<forall>m p e. vm_pt v m p = Some e \<longrightarrow> entry_ok v e)"

definition owned :: "vm \<Rightarrow> bool" where
  "owned v \<longleftrightarrow> (\<forall>d d' x x'. vm_datas v d = Some x \<longrightarrow> vm_datas v d' = Some x' \<longrightarrow>
     fst (d_data x) = fst (d_data x') \<longrightarrow> d = d')"

definition bounded :: "vm \<Rightarrow> bool" where
  "bounded v \<longleftrightarrow> finite (dom (vm_mems v)) \<and> card (dom (vm_mems v)) < 4096 \<and>
     (\<forall>m p e. vm_pt v m p = Some e \<longrightarrow> p < MEM_PAGES)"

definition fresh :: "vm \<Rightarrow> bool" where
  "fresh v \<longleftrightarrow> (\<forall>i \<ge> vm_next v. vm_mems v i = None \<and> vm_datas v i = None \<and> vm_regions v i = None) \<and>
     (\<forall>d x. vm_datas v d = Some x \<longrightarrow> fst (d_data x) < vm_next v)"

definition wf_vm :: "vm \<Rightarrow> bool" where
  "wf_vm v \<longleftrightarrow> counted v \<and> backed v \<and> owned v \<and> bounded v \<and> fresh v"

lemma backedE:
  assumes "backed v" "vm_pt v m p = Some e"
  obtains d x r where "pt_data e = Some d" "vm_datas v d = Some x"
    "vm_regions v (fst (d_data x)) = Some r" "sized x r"
    "unat (pt_offset e) + 4096 \<le> unat (d_size x)" "pt_offset e AND 0xfff = 0"
  using assms unfolding backed_def entry_ok_def by blast

lemma wf_vmD:
  assumes "wf_vm v"
  shows "counted v" "backed v" "owned v" "bounded v" "fresh v"
  using assms by (simp_all add: wf_vm_def)

subsection \<open>References\<close>

lemma finite_refs: "bounded v \<Longrightarrow> finite (refs v d)"
  by (rule finite_subset[of _ "dom (vm_mems v) \<times> UNIV"])
    (auto simp: refs_def bounded_def dest: vm_pt_live)

lemma card_refs:
  assumes "bounded v"
  shows "card (refs v d) < 2 ^ 32"
proof -
  let ?P = "{p :: page_t. p < MEM_PAGES}"
  have "inj_on unat ?P" by (rule inj_onI) (simp add: word_unat_eq_iff)
  moreover have "unat ` ?P \<subseteq> {..< 1048576}"
    by (auto simp: word_less_nat_alt)
  ultimately have "card ?P \<le> 1048576"
    using card_mono[of "{..< 1048576 :: nat}" "unat ` ?P"] by (simp add: card_image)
  moreover have "card (dom (vm_mems v)) \<le> 4095"
    using assms by (simp add: bounded_def)
  ultimately have "card (dom (vm_mems v) \<times> ?P) \<le> 4095 * 1048576"
    unfolding card_cartesian_product by (rule mult_le_mono[rotated])
  moreover have "refs v d \<subseteq> dom (vm_mems v) \<times> ?P"
    using assms by (auto simp: refs_def bounded_def dest: vm_pt_live)
  then have "card (refs v d) \<le> card (dom (vm_mems v) \<times> ?P)"
    using assms by (intro card_mono) (auto simp: bounded_def)
  ultimately show ?thesis by simp
qed

lemma refs_unmap_page: "refs (unmap_page m p v) d = refs v d - {(m, p)}"
  by (auto simp: refs_def lookups split: if_splits)

lemma refs_cong:
  "(\<And>m p. vm_pt v m p = vm_pt w m p) \<Longrightarrow> refs v d = refs w d"
  by (simp add: refs_def)

subsection \<open>Unmapping one page\<close>

lemma unmap_page_hole:
  "vm_pt v m p = None \<Longrightarrow> unmap_page m p v = pt_access p v"
  by (simp add: unmap_page_def)

lemma wf_pt_access [wf]: "wf_vm v \<Longrightarrow> wf_vm (pt_access p v)"
  by (simp add: wf_vm_def counted_def backed_def entry_ok_def owned_def bounded_def fresh_def
      refs_def)

lemma unmap_page_data:
  assumes "vm_pt v m p = Some e" "pt_data e = Some d" "vm_datas v d = Some x"
  shows "vm_datas (unmap_page m p v) = (vm_datas v)(d :=
           if d_refcount x - 1 = 0 then None else Some (x\<lparr>d_refcount := d_refcount x - 1\<rparr>))"
    and "vm_regions (unmap_page m p v) = (if d_refcount x - 1 = 0
           then (vm_regions v)(fst (d_data x) := None) else vm_regions v)"
    and "vm_next (unmap_page m p v) = vm_next v"
    and "vm_ub (unmap_page m p v) = (vm_ub v \<or> \<not> p < MEM_PAGES)"
  using assms
  by (auto simp: unmap_page_def data_release_def host_munmap_def pt_access_def vm_pt_def Let_def)

lemma wf_unmap_page [wf]:
  assumes "wf_vm v"
  shows "wf_vm (unmap_page m p v)"
proof (cases "vm_pt v m p")
  case None
  then show ?thesis using assms by (simp add: unmap_page_hole wf)
next
  case (Some e)
  obtain d x r where e: "pt_data e = Some d" "vm_datas v d = Some x"
    "vm_regions v (fst (d_data x)) = Some r"
    using backedE[OF wf_vmD(2)[OF assms] Some] by blast
  let ?w = "unmap_page m p v"
  note eff = unmap_page_data[OF Some e(1,2)]
  have b: "bounded ?w"
    using assms by (auto simp: wf_vm_def bounded_def lookups split: if_splits)
  have mem: "(m, p) \<in> refs v d" using Some e by (simp add: refs_def)
  have cnt: "d_refcount x = of_nat (card (refs v d))"
    using assms e by (simp add: wf_vm_def counted_def)
  have fin: "finite (refs v d)" using assms by (simp add: wf_vm_def finite_refs)
  have dec: "d_refcount x - 1 = of_nat (card (refs ?w d))"
    using of_nat_card_remove[OF fin mem] by (simp add: cnt refs_unmap_page)
  have zero: "d_refcount x - 1 = 0 \<longleftrightarrow> refs ?w d = {}"
    unfolding dec using b by (intro of_nat_card_eq_0 finite_refs card_refs)
  have other: "refs ?w d' = refs v d'" if "d' \<noteq> d" for d'
  proof -
    have "(m, p) \<notin> refs v d'" using that Some e by (simp add: refs_def)
    then show ?thesis by (simp add: refs_unmap_page)
  qed
  have "counted ?w"
    using assms dec by (auto simp: counted_def wf_vm_def eff other split: if_splits)
  moreover have "backed ?w"
    unfolding backed_def
  proof (intro allI impI)
    fix m' p' e'
    assume pt: "vm_pt ?w m' p' = Some e'"
    then have old: "vm_pt v m' p' = Some e'" by (auto simp: lookups split: if_splits)
    obtain d' x' r' where e': "pt_data e' = Some d'" "vm_datas v d' = Some x'"
      "vm_regions v (fst (d_data x')) = Some r'" "sized x' r'"
      "unat (pt_offset e') + 4096 \<le> unat (d_size x')" "pt_offset e' AND 0xfff = 0"
      using backedE[OF wf_vmD(2)[OF assms] old] by blast
    show "entry_ok ?w e'"
    proof (cases "d_refcount x - 1 = 0")
      case True
      then have "d' \<noteq> d" using zero pt e' by (auto simp: refs_def)
      moreover from this have "fst (d_data x') \<noteq> fst (d_data x)"
        using assms e e' by (auto simp: wf_vm_def owned_def)
      ultimately show ?thesis using e' True by (auto simp: entry_ok_def eff)
    next
      case False
      then show ?thesis
        using e' e by (cases "d' = d") (auto simp: entry_ok_def eff sized_def)
    qed
  qed
  moreover have "owned ?w"
    using assms e by (auto simp: wf_vm_def owned_def eff split: if_splits)
  moreover have "fresh ?w"
    using assms e by (auto simp: wf_vm_def fresh_def eff split: if_splits)
  ultimately show ?thesis using b by (simp add: wf_vm_def)
qed

lemma unmap_page_ub:
  assumes "wf_vm v" "p < MEM_PAGES"
  shows "vm_ub (unmap_page m p v) = vm_ub v"
proof (cases "vm_pt v m p")
  case (Some e)
  then show ?thesis
    using backedE[OF wf_vmD(2)[OF assms(1)] Some] assms(2) by (metis unmap_page_data(4))
qed (use assms in \<open>simp add: unmap_page_hole\<close>)

lemma unmap_page_host [simp]:
  "vm_host (unmap_page m p v) = vm_host v" "vm_calls (unmap_page m p v) = vm_calls v"
  "vm_next (unmap_page m p v) = vm_next v"
  by (auto simp: unmap_page_def data_release_def host_munmap_def Let_def split: option.splits)

subsection \<open>pt_unmap\<close>

lemma wf_changed [wf]: "wf_vm (upd_mem m mem_changed v) = wf_vm v"
proof -
  have "refs (upd_mem m mem_changed v) d = refs v d" for d by (rule refs_cong) (simp add: lookups)
  then show ?thesis
    by (simp add: wf_vm_def counted_def backed_def entry_ok_def owned_def bounded_def fresh_def
        lookups)
qed

lemma wf_ub [wf, simp]: "wf_vm (v\<lparr>vm_ub := b\<rparr>) = wf_vm v"
proof -
  have "vm_pt (v\<lparr>vm_ub := b\<rparr>) = vm_pt v" by (simp add: vm_pt_def fun_eq_iff)
  then show ?thesis
    by (simp add: wf_vm_def counted_def backed_def entry_ok_def owned_def bounded_def fresh_def
        refs_def)
qed

lemma vm_pt_ub [simp]: "vm_pt (v\<lparr>vm_ub := b\<rparr>) m p = vm_pt v m p"
  by (simp add: vm_pt_def)

lemma scan_mapped_fst: "fst (scan_mapped m ps v) \<longleftrightarrow> (\<forall>p \<in> set ps. vm_pt v m p \<noteq> None)"
  by (induction ps arbitrary: v) (auto simp: Let_def)

lemma scan_mapped_state: "snd (scan_mapped m ps v) \<in> {v, v\<lparr>vm_ub := True\<rparr>}"
proof (induction ps arbitrary: v)
  case (Cons p ps)
  then show ?case
    using Cons[of v] Cons[of "v\<lparr>vm_ub := True\<rparr>"] by (simp add: Let_def pt_access_def)
qed simp

lemma scan_mapped_in [simp]:
  "\<forall>p \<in> set ps. p < MEM_PAGES \<Longrightarrow> snd (scan_mapped m ps v) = v"
  by (induction ps) (auto simp: Let_def)

lemma scan_hole_fst: "fst (scan_hole m ps v) \<longleftrightarrow> (\<forall>p \<in> set ps. vm_pt v m p = None)"
  by (induction ps arbitrary: v) (auto simp: Let_def)

lemma scan_hole_in [simp]:
  "\<forall>p \<in> set ps. p < MEM_PAGES \<Longrightarrow> snd (scan_hole m ps v) = v"
  by (induction ps) (auto simp: Let_def)

lemma wf_unmap_pages [wf]: "wf_vm v \<Longrightarrow> wf_vm (fold (unmap_page m) ps v)"
  by (rule fold_invariant) (auto intro: wf_unmap_page)

lemma wf_pt_unmap [wf]:
  assumes "wf_vm v"
  shows "wf_vm (snd (pt_unmap m start pages force v))"
proof -
  have "wf_vm (snd (scan_mapped m ps v))" for ps
    using scan_mapped_state[of m ps v] assms by auto
  then show ?thesis
    using assms by (auto simp: pt_unmap_def wf wf_unmap_pages split: prod.splits) (metis snd_conv wf_unmap_pages)+
qed

lemma unmap_pages_pt:
  "vm_pt (fold (unmap_page m) ps v) m' q = (if m' = m \<and> q \<in> set ps then None else vm_pt v m' q)"
  using unmapping.get_fold[where s = v and m = m and xs = ps and i = q]
    unmapping.get_fold_other[where s = v and m = m and xs = ps and k = "(m', q)"]
  by auto

lemma unmap_pages_ub:
  "wf_vm v \<Longrightarrow> \<forall>p \<in> set ps. p < MEM_PAGES \<Longrightarrow> vm_ub (fold (unmap_page m) ps v) = vm_ub v"
  by (induction ps arbitrary: v) (simp_all add: wf unmap_page_ub)

lemma pt_unmap_frame [simp]:
  "vm_mems (snd (pt_unmap m start pages force v)) m' = None \<longleftrightarrow> vm_mems v m' = None"
  "vm_next (snd (pt_unmap m start pages force v)) = vm_next v"
  "vm_host (snd (pt_unmap m start pages force v)) = vm_host v"
  "vm_calls (snd (pt_unmap m start pages force v)) = vm_calls v"
proof -
  have scan: "snd (scan_mapped m ps v) \<in> {v, v\<lparr>vm_ub := True\<rparr>}" for ps
    by (rule scan_mapped_state)
  have fold: "vm_mems (fold (unmap_page m) ps w) m' = None \<longleftrightarrow> vm_mems w m' = None"
    "vm_next (fold (unmap_page m) ps w) = vm_next w"
    "vm_host (fold (unmap_page m) ps w) = vm_host w"
    "vm_calls (fold (unmap_page m) ps w) = vm_calls w" for ps w
    by (rule fold_unchanged, simp)+
  show "vm_mems (snd (pt_unmap m start pages force v)) m' = None \<longleftrightarrow> vm_mems v m' = None"
    "vm_next (snd (pt_unmap m start pages force v)) = vm_next v"
    "vm_host (snd (pt_unmap m start pages force v)) = vm_host v"
    "vm_calls (snd (pt_unmap m start pages force v)) = vm_calls v"
    using scan[of "page_range start pages"]
    by (auto simp: pt_unmap_def fold split: prod.splits)
qed

text \<open>On a range inside the directory the check reads no slot beyond it, so
\<open>pt_unmap\<close> is all or nothing.\<close>

lemma scan_mapped_eq:
  "\<forall>p \<in> set ps. p < MEM_PAGES \<Longrightarrow>
   scan_mapped m ps v = ((\<forall>p \<in> set ps. vm_pt v m p \<noteq> None), v)"
  by (rule prod_eqI) (simp_all add: scan_mapped_fst)

lemma scan_hole_eq:
  "\<forall>p \<in> set ps. p < MEM_PAGES \<Longrightarrow>
   scan_hole m ps v = ((\<forall>p \<in> set ps. vm_pt v m p = None), v)"
  by (rule prod_eqI) (simp_all add: scan_hole_fst)

lemma pt_unmap_in_space:
  assumes "in_space start pages"
  shows "pt_unmap m start pages force v =
    (if force \<or> (\<forall>p \<in> set (page_range start pages). vm_pt v m p \<noteq> None)
     then (0, upd_mem m mem_changed (fold (unmap_page m) (page_range start pages) v))
     else (- 1, v))"
  using page_range_bounded[OF assms] by (simp add: pt_unmap_def scan_mapped_eq)

lemma pt_unmap_pt:
  assumes "in_space start pages" "fst (pt_unmap m start pages force v) = 0"
  shows "vm_pt (snd (pt_unmap m start pages force v)) m' q =
    (if m' = m \<and> q \<in> set (page_range start pages) then None else vm_pt v m' q)"
  using assms by (auto simp: pt_unmap_in_space lookups unmap_pages_pt split: if_splits)

lemma pt_unmap_ub:
  assumes "wf_vm v" "in_space start pages"
  shows "vm_ub (snd (pt_unmap m start pages force v)) = vm_ub v"
  using assms page_range_bounded[OF assms(2)] by (simp add: pt_unmap_in_space unmap_pages_ub)

end
