(* ===== verification/Mappings.thy ===== *)
theory Mappings
  imports Refcounts
begin

text \<open>
  The guest's view of an address space, and the operations that map pages:
  \<open>pt_map\<close>, \<open>pt_map_nothing\<close>, \<open>pt_find_hole\<close> and \<open>pt_is_hole\<close>. Each step
  keeps the view of every page it does not write.
\<close>

subsection \<open>The guest's view\<close>

definition page_ptr :: "vm \<Rightarrow> mem_id \<Rightarrow> page_t \<Rightarrow> hptr option" where
  "page_ptr v m p = (case vm_pt v m p of None \<Rightarrow> None | Some e \<Rightarrow> entry_ptr e v)"

definition guest :: "vm \<Rightarrow> mem_id \<Rightarrow> addr_t \<Rightarrow> byte_t option" where
  "guest v m a = map_option (\<lambda>p. host_load (fst p, snd p + ucast (PGOFFSET a)) v)
     (page_ptr v m (PAGE a))"

text \<open>\<open>kept v w k\<close>: the page \<open>k\<close> has the same entry, the same host address
and the same bytes in both states.\<close>

definition kept :: "vm \<Rightarrow> vm \<Rightarrow> mem_id \<times> page_t \<Rightarrow> bool" where
  "kept v w k \<longleftrightarrow> vm_pt w (fst k) (snd k) = vm_pt v (fst k) (snd k) \<and>
     page_ptr w (fst k) (snd k) = page_ptr v (fst k) (snd k) \<and>
     (\<forall>p. page_ptr v (fst k) (snd k) = Some p \<longrightarrow> vm_regions w (fst p) = vm_regions v (fst p))"

lemma kept_refl [simp]: "kept v v k"
  by (simp add: kept_def)

lemma kept_trans: "kept v w k \<Longrightarrow> kept w u k \<Longrightarrow> kept v u k"
  by (auto simp: kept_def)

lemma kept_guest: "kept v w (m, PAGE a) \<Longrightarrow> guest w m a = guest v m a"
  by (cases "page_ptr v m (PAGE a)") (auto simp: kept_def guest_def host_load_def)

lemma kept_vm_pt: "kept v w (m, p) \<Longrightarrow> vm_pt w m p = vm_pt v m p"
  by (simp add: kept_def)

lemma page_ptr_wf:
  assumes "wf_vm v" "vm_pt v m p = Some e"
  obtains d x r where "pt_data e = Some d" "vm_datas v d = Some x"
    "vm_regions v (fst (d_data x)) = Some r"
    "page_ptr v m p = Some (fst (d_data x), snd (d_data x) + pt_offset e)"
proof -
  obtain d x r where "pt_data e = Some d" "vm_datas v d = Some x"
    "vm_regions v (fst (d_data x)) = Some r"
    using backedE[OF wf_vmD(2)[OF assms(1)] assms(2)] by blast
  then show thesis using assms(2) by (intro that) (simp_all add: page_ptr_def entry_ptr_def)
qed

lemma page_ptr_None_iff:
  assumes "wf_vm v"
  shows "page_ptr v m p = None \<longleftrightarrow> vm_pt v m p = None"
proof (cases "vm_pt v m p")
  case (Some e)
  then show ?thesis by (auto elim: page_ptr_wf[OF assms])
qed (simp add: page_ptr_def)

lemma guest_None_iff: "wf_vm v \<Longrightarrow> guest v m a = None \<longleftrightarrow> vm_pt v m (PAGE a) = None"
  by (simp add: guest_def page_ptr_None_iff)

subsection \<open>Steps keep the other pages\<close>

lemma kept_upd_mem:
  assumes "\<And>m' q. vm_pt (upd_mem m f v) m' q = vm_pt v m' q"
  shows "kept v (upd_mem m f v) k"
  using assms by (auto simp: kept_def page_ptr_def entry_ptr_def split: option.splits)

lemma kept_changed [simp]: "kept v (upd_mem m mem_changed v) k"
  by (rule kept_upd_mem) (simp add: lookups)

lemma kept_pt_access [simp]: "kept v (pt_access p v) k"
  by (auto simp: kept_def page_ptr_def entry_ptr_def split: option.splits)

lemma kept_unmap_page:
  assumes "wf_vm v" "k \<noteq> (m, p)"
  shows "kept v (unmap_page m p v) k"
proof (cases "vm_pt v m p")
  case None
  then show ?thesis by (simp add: unmap_page_hole)
next
  case (Some e)
  obtain m' q where k: "k = (m', q)" by (cases k)
  obtain d x r where e: "pt_data e = Some d" "vm_datas v d = Some x"
    "vm_regions v (fst (d_data x)) = Some r"
    using backedE[OF wf_vmD(2)[OF assms(1)] Some] by blast
  note eff = unmap_page_data[OF Some e(1,2)]
  have same: "vm_pt (unmap_page m p v) m' q = vm_pt v m' q"
    using assms(2) k by (auto simp: lookups)
  show ?thesis
  proof (cases "vm_pt v m' q")
    case None
    then show ?thesis using same by (simp add: kept_def k page_ptr_def)
  next
    case (Some e')
    then have ok: "entry_ok (unmap_page m p v) e'"
      using wf_unmap_page[OF assms(1), of m p] same by (metis wf_vmD(2) backed_def)
    then show ?thesis
      using Some same e by (auto simp: kept_def k page_ptr_def entry_ptr_def entry_ok_def eff
          split: if_splits)
  qed
qed

lemma kept_unmap_pages:
  assumes "wf_vm v" "\<forall>p \<in> set ps. k \<noteq> (m, p)"
  shows "kept v (fold (unmap_page m) ps v) k"
  using assms
proof (induction ps arbitrary: v)
  case (Cons p ps)
  then show ?case
    using kept_trans[OF kept_unmap_page[of v k m p] Cons.IH[of "unmap_page m p v"]]
    by (simp add: wf)
qed simp

lemma kept_pt_unmap:
  assumes "wf_vm v" "in_space start pages" "k \<notin> Pair m ` set (page_range start pages)"
  shows "kept v (snd (pt_unmap m start pages force v)) k"
  using assms kept_trans[OF kept_unmap_pages[of v "page_range start pages" k m] kept_changed]
  by (auto simp: pt_unmap_in_space)

subsection \<open>Binding a page to an allocation\<close>

text \<open>The last two statements of the loops of \<open>pt_map\<close> and \<open>pt_copy_on_write\<close>.\<close>

definition bind_page :: "mem_id \<Rightarrow> page_t \<Rightarrow> pt_entry \<Rightarrow> data_id \<Rightarrow> vm \<Rightarrow> vm" where
  "bind_page m page e d v = upd_mem m (mem_pt_put page e) (data_retain d v)"

lemma bind_page_frame [simp]:
  "vm_mems (bind_page m page e d v) m' = None \<longleftrightarrow> vm_mems v m' = None"
  "vm_regions (bind_page m page e d v) = vm_regions v"
  "vm_next (bind_page m page e d v) = vm_next v"
  "vm_host (bind_page m page e d v) = vm_host v"
  "vm_calls (bind_page m page e d v) = vm_calls v"
  by (simp_all add: bind_page_def data_retain_def split: option.splits)

lemma vm_pt_bind [lookups]:
  "vm_mems v m \<noteq> None \<Longrightarrow> pt_data e = Some d' \<Longrightarrow>
   vm_pt (bind_page m page e d v) m' q = (if m' = m \<and> q = page then Some e else vm_pt v m' q)"
  by (simp add: bind_page_def lookups)

lemma bind_page_datas:
  "vm_datas v d = Some x \<Longrightarrow>
   vm_datas (bind_page m page e d v) = (vm_datas v)(d \<mapsto> x\<lparr>d_refcount := d_refcount x + 1\<rparr>)"
  "vm_datas v d = Some x \<Longrightarrow> vm_ub (bind_page m page e d v) = vm_ub v"
  by (simp_all add: bind_page_def data_retain_def)

lemma entry_ok_bind:
  assumes "vm_datas v d = Some x"
  shows "entry_ok (bind_page m page e d v) e' = entry_ok v e'"
  using assms by (auto simp: entry_ok_def bind_page_datas sized_def split: if_splits)

lemma wf_bind:
  assumes v: "wf_vm v" and m: "vm_mems v m \<noteq> None" and hole: "vm_pt v m page = None"
    and page: "page < MEM_PAGES" and e: "pt_data e = Some d" and ok: "entry_ok v e"
  shows "wf_vm (bind_page m page e d v)"
proof -
  let ?w = "bind_page m page e d v"
  obtain x where x: "vm_datas v d = Some x" using ok e by (auto simp: entry_ok_def)
  note pt = vm_pt_bind[OF m e]
  have b: "bounded ?w"
    using wf_vmD(4)[OF v] page by (auto simp: bounded_def pt dom_def)
  have refs: "refs ?w d' = (if d' = d then insert (m, page) (refs v d) else refs v d')" for d'
    using hole e by (auto simp: refs_def pt)
  have "(m, page) \<notin> refs v d" using hole by (simp add: refs_def)
  then have "counted ?w"
    using wf_vmD(1)[OF v] x of_nat_card_insert[of "refs v d" "(m, page)"]
      finite_refs[OF wf_vmD(4)[OF v]]
    by (auto simp: counted_def refs bind_page_datas[OF x])
  moreover have "backed ?w"
    using wf_vmD(2)[OF v] ok by (auto simp: backed_def entry_ok_bind[OF x] pt)
  moreover have "owned ?w"
    using wf_vmD(3)[OF v] x by (auto simp: owned_def bind_page_datas[OF x])
  moreover have "fresh ?w"
    using wf_vmD(5)[OF v] x by (auto simp: fresh_def bind_page_datas[OF x])
  ultimately show ?thesis using b by (simp add: wf_vm_def)
qed

lemma kept_bind:
  assumes "vm_mems v m \<noteq> None" "vm_datas v d = Some x" "pt_data e = Some d" "k \<noteq> (m, page)"
  shows "kept v (bind_page m page e d v) k"
  using assms by (cases k)
    (auto simp: kept_def page_ptr_def vm_pt_bind entry_ptr_def bind_page_datas
      split: option.splits)

subsection \<open>One step of pt_map\<close>

text \<open>The allocation \<open>d\<close> is alive in both states, at the same host address and
with the same bytes.\<close>

definition stable :: "vm \<Rightarrow> vm \<Rightarrow> data_id \<Rightarrow> bool" where
  "stable v w d \<longleftrightarrow> (\<exists>x x'. vm_datas v d = Some x \<and> vm_datas w d = Some x' \<and>
     d_data x' = d_data x \<and> d_size x' = d_size x \<and>
     vm_regions w (fst (d_data x)) = vm_regions v (fst (d_data x)))"

lemma stable_trans: "stable v w d \<Longrightarrow> stable w u d \<Longrightarrow> stable v u d"
  by (auto simp: stable_def)

lemma stable_entry_ok:
  "stable v w d \<Longrightarrow> pt_data e = Some d \<Longrightarrow> entry_ok w e = entry_ok v e"
  by (auto simp: stable_def entry_ok_def sized_def)

lemma stable_entry_ptr:
  "stable v w d \<Longrightarrow> pt_data e = Some d \<Longrightarrow> entry_ptr e w = entry_ptr e v"
  by (auto simp: stable_def entry_ptr_def)

lemma stable_unmap_page:
  assumes "wf_vm v" "vm_datas v d = Some x" "(m, page) \<notin> refs v d"
  shows "stable v (unmap_page m page v) d"
proof (cases "vm_pt v m page")
  case None
  then show ?thesis using assms by (simp add: unmap_page_hole stable_def)
next
  case (Some e)
  obtain d0 x0 r where e: "pt_data e = Some d0" "vm_datas v d0 = Some x0"
    "vm_regions v (fst (d_data x0)) = Some r"
    using backedE[OF wf_vmD(2)[OF assms(1)] Some] by blast
  have "d0 \<noteq> d" using assms(3) Some e by (auto simp: refs_def)
  then have "fst (d_data x0) \<noteq> fst (d_data x)"
    using wf_vmD(3)[OF assms(1)] assms(2) e by (auto simp: owned_def)
  then show ?thesis
    using \<open>d0 \<noteq> d\<close> assms(2) by (auto simp: stable_def unmap_page_data[OF Some e(1,2)])
qed

lemma stable_changed: "stable v w d \<Longrightarrow> stable v (upd_mem m mem_changed w) d"
  by (simp add: stable_def)

lemma stable_bind: "vm_datas v d = Some x \<Longrightarrow> stable v (bind_page m page e d v) d"
  by (simp add: stable_def bind_page_datas)

text \<open>The page as \<open>pt_map\<close> finds it: unmapped first when it is in use.\<close>

definition clear_page :: "mem_id \<Rightarrow> page_t \<Rightarrow> vm \<Rightarrow> vm" where
  "clear_page m page v =
    (if vm_pt v m page = None then v else upd_mem m mem_changed (unmap_page m page v))"

lemma page_range_single [simp]: "page < MEM_PAGES \<Longrightarrow> page_range page 1 = [page]"
proof -
  assume "page < MEM_PAGES"
  then have "page + 1 \<noteq> 0" using unat_succ_less[of page MEM_PAGES] by auto
  then show ?thesis by (simp add: page_range_one)
qed

lemma in_space_single: "page < MEM_PAGES \<Longrightarrow> in_space page 1"
  by (simp add: word_less_nat_alt)

lemma pt_unmap_single:
  assumes "page < MEM_PAGES"
  shows "pt_unmap m page 1 force v =
    (if force \<or> vm_pt v m page \<noteq> None then (0, upd_mem m mem_changed (unmap_page m page v))
     else (- 1, v))"
  using pt_unmap_in_space[OF in_space_single[OF assms], of m force v] assms by simp

definition map_entry :: "data_id \<Rightarrow> page_t \<Rightarrow> dword_t \<Rightarrow> page_t \<Rightarrow> pt_entry" where
  "map_entry d start flags page =
    \<lparr>pt_data = Some d, pt_offset = ucast (push_bit PAGE_BITS (page - start)), pt_flags = flags\<rparr>"

lemma map_entry_data [simp]: "pt_data (map_entry d start flags page) = Some d"
  by (simp add: map_entry_def)

lemma map_page_eq:
  "page < MEM_PAGES \<Longrightarrow> map_page m d start flags page v =
     bind_page m page (map_entry d start flags page) d (clear_page m page v)"
  by (simp add: map_page_def bind_page_def clear_page_def map_entry_def pt_unmap_single Let_def)

lemma clear_page:
  assumes "wf_vm v"
  shows "wf_vm (clear_page m page v)"
    and "vm_pt (clear_page m page v) m' q =
           (if m' = m \<and> q = page then None else vm_pt v m' q)"
    and "vm_mems (clear_page m page v) m' = None \<longleftrightarrow> vm_mems v m' = None"
    and "k \<noteq> (m, page) \<Longrightarrow> kept v (clear_page m page v) k"
    and "page < MEM_PAGES \<Longrightarrow> vm_ub (clear_page m page v) = vm_ub v"
    and "vm_datas v d = Some x \<Longrightarrow> (m, page) \<notin> refs v d \<Longrightarrow> stable v (clear_page m page v) d"
  using assms kept_trans[OF kept_unmap_page[OF assms] kept_changed]
  by (auto simp: clear_page_def wf lookups unmap_page_ub stable_def[of v v]
      intro!: stable_changed stable_unmap_page)

text \<open>What a run of \<open>pt_map\<close> steps over \<open>ps\<close> needs.\<close>

definition bindable :: "mem_id \<Rightarrow> data_id \<Rightarrow> (page_t \<Rightarrow> pt_entry) \<Rightarrow> page_t list \<Rightarrow> vm \<Rightarrow> bool" where
  "bindable m d ent ps v \<longleftrightarrow> wf_vm v \<and> vm_mems v m \<noteq> None \<and> vm_datas v d \<noteq> None \<and>
     (\<forall>p \<in> set ps. p < MEM_PAGES \<and> (m, p) \<notin> refs v d \<and> entry_ok v (ent p))"

lemma map_page_step:
  assumes "bindable m d (map_entry d start flags) (page # ps) v" "page \<notin> set ps"
  defines "w \<equiv> map_page m d start flags page v"
  shows "bindable m d (map_entry d start flags) ps w"
    and "vm_pt w m' q =
           (if m' = m \<and> q = page then Some (map_entry d start flags page) else vm_pt v m' q)"
    and "k \<noteq> (m, page) \<Longrightarrow> kept v w k"
    and "stable v w d"
    and "vm_ub w = vm_ub v"
proof -
  let ?e = "map_entry d start flags page" and ?c = "clear_page m page v"
  have v: "wf_vm v" "vm_mems v m \<noteq> None" "page < MEM_PAGES" "entry_ok v ?e" "(m, page) \<notin> refs v d"
    using assms by (auto simp: bindable_def)
  obtain x where x: "vm_datas v d = Some x" using assms by (auto simp: bindable_def)
  have w: "w = bind_page m page ?e d ?c" using v by (simp add: w_def map_page_eq)
  have st: "stable v ?c d" by (rule clear_page(6)[OF v(1) x v(5)])
  then obtain y where y: "vm_datas ?c d = Some y" by (auto simp: stable_def)
  have live: "vm_mems ?c m \<noteq> None" using v by (simp add: clear_page(3))
  show sw: "stable v w d" unfolding w by (rule stable_trans[OF st stable_bind[OF y]])
  show pt: "vm_pt w m' q = (if m' = m \<and> q = page then Some ?e else vm_pt v m' q)" for m' q
    unfolding w using live v by (simp add: vm_pt_bind clear_page(2))
  have wfw: "wf_vm w"
    unfolding w using v live stable_entry_ok[OF st, of ?e]
    by (intro wf_bind) (auto simp: clear_page)
  show "vm_ub w = vm_ub v" unfolding w using v y by (simp add: bind_page_datas clear_page)
  show "k \<noteq> (m, page) \<Longrightarrow> kept v w k"
    unfolding w using v live y by (blast intro: kept_trans[OF clear_page(4) kept_bind] map_entry_data)
  show "bindable m d (map_entry d start flags) ps w"
    using assms(1,2) wfw pt sw stable_entry_ok[OF sw, of "map_entry d start flags p" for p]
    by (auto simp: bindable_def refs_def stable_def w clear_page v)
qed

subsection \<open>pt_map\<close>

lemma map_pages:
  assumes "bindable m d (map_entry d start flags) ps v" "distinct ps"
  defines "w \<equiv> fold (map_page m d start flags) ps v"
  shows "wf_vm w"
    and "vm_pt w m' q =
           (if m' = m \<and> q \<in> set ps then Some (map_entry d start flags q) else vm_pt v m' q)"
    and "k \<notin> Pair m ` set ps \<Longrightarrow> kept v w k"
    and "stable v w d"
    and "vm_ub w = vm_ub v"
proof -
  have "wf_vm (fold (map_page m d start flags) ps v) \<and>
    (\<forall>m' q. vm_pt (fold (map_page m d start flags) ps v) m' q =
       (if m' = m \<and> q \<in> set ps then Some (map_entry d start flags q) else vm_pt v m' q)) \<and>
    (\<forall>k. k \<notin> Pair m ` set ps \<longrightarrow> kept v (fold (map_page m d start flags) ps v) k) \<and>
    stable v (fold (map_page m d start flags) ps v) d \<and>
    vm_ub (fold (map_page m d start flags) ps v) = vm_ub v"
    using assms(1,2)
  proof (induction ps arbitrary: v)
    case Nil
    then show ?case by (auto simp: bindable_def stable_def)
  next
    case (Cons p ps)
    let ?w = "map_page m d start flags p v"
    have "p \<notin> set ps" "distinct ps" using Cons.prems by auto
    note step = map_page_step[OF Cons.prems(1) this(1)]
    note ih = Cons.IH[OF step(1) \<open>distinct ps\<close>]
    show ?case
      using ih step(2,5) stable_trans[OF step(4)] kept_trans[OF step(3)] by auto
  qed
  then show "wf_vm w" "vm_ub w = vm_ub v" "stable v w d"
    "vm_pt w m' q =
       (if m' = m \<and> q \<in> set ps then Some (map_entry d start flags q) else vm_pt v m' q)"
    "k \<notin> Pair m ` set ps \<Longrightarrow> kept v w k"
    by (simp_all add: w_def del: split_paired_All)
qed

lemma wf_cong:
  assumes "vm_mems v = vm_mems w" "vm_datas v = vm_datas w" "vm_regions v = vm_regions w"
    "vm_next v = vm_next w"
  shows "wf_vm v = wf_vm w"
proof -
  have "vm_pt v = vm_pt w" using assms(1) by (simp add: vm_pt_def fun_eq_iff)
  then show ?thesis
    using assms by (simp add: wf_vm_def counted_def backed_def entry_ok_def owned_def bounded_def
        fresh_def refs_def)
qed

text \<open>A host mapping that no allocation refers to yet, with room for the pages.\<close>

definition spare :: "hptr \<Rightarrow> pages_t \<Rightarrow> vm \<Rightarrow> bool" where
  "spare ptr pages v \<longleftrightarrow> (\<exists>r. vm_regions v (fst ptr) = Some r \<and>
     unat (snd ptr) + 4096 * unat pages \<le> unat (r_size r)) \<and>
     (\<forall>d x. vm_datas v d = Some x \<longrightarrow> fst (d_data x) \<noteq> fst ptr)"

text \<open>The state in which the loop of \<open>pt_map\<close> starts.\<close>

definition with_data :: "hptr \<Rightarrow> pages_t \<Rightarrow> vm \<Rightarrow> vm" where
  "with_data ptr pages v = v\<lparr>vm_calls := Suc (vm_calls v), vm_next := Suc (vm_next v),
     vm_datas := (vm_datas v)(vm_next v \<mapsto>
       \<lparr>d_data = ptr, d_size = ucast (pages * PAGE_SIZE), d_refcount = 0\<rparr>)\<rparr>"

lemma pt_map_eq:
  "pt_map m start pages (Inr ptr) flags v =
    (if vm_host v (vm_calls v) \<noteq> None then (ENOMEM, v\<lparr>vm_calls := Suc (vm_calls v)\<rparr>)
     else (0, fold (map_page m (vm_next v) start flags) (page_range start pages)
                (with_data ptr pages v)))"
  by (simp add: pt_map_def host_call_def with_data_def Let_def split: option.splits)

lemma with_data_frame [simp]:
  "vm_mems (with_data ptr pages v) = vm_mems v"
  "vm_regions (with_data ptr pages v) = vm_regions v"
  "vm_ub (with_data ptr pages v) = vm_ub v"
  "vm_host (with_data ptr pages v) = vm_host v"
  "vm_pt (with_data ptr pages v) m p = vm_pt v m p"
  "vm_datas (with_data ptr pages v) (vm_next v) =
     Some \<lparr>d_data = ptr, d_size = ucast (pages * PAGE_SIZE), d_refcount = 0\<rparr>"
  by (simp_all add: with_data_def vm_pt_def)

lemma refs_fresh: "wf_vm v \<Longrightarrow> vm_next v \<le> d \<Longrightarrow> refs v d = {}"
  using wf_vmD(2,5) by (fastforce simp: refs_def fresh_def elim: backedE)

lemma entry_ok_with_data: "wf_vm v \<Longrightarrow> entry_ok v e \<Longrightarrow> entry_ok (with_data ptr pages v) e"
  using wf_vmD(5)[of v] by (auto simp: entry_ok_def with_data_def fresh_def)

lemma wf_with_data:
  assumes v: "wf_vm v" and s: "spare ptr pages v"
  shows "wf_vm (with_data ptr pages v)"
proof -
  let ?w = "with_data ptr pages v"
  have refs: "refs ?w d = refs v d" for d by (rule refs_cong) simp
  have "counted ?w"
    using wf_vmD(1)[OF v] refs_fresh[OF v, of "vm_next v"]
    by (auto simp: counted_def refs) (auto simp: with_data_def split: if_splits)
  moreover have "backed ?w"
    using wf_vmD(2)[OF v] v by (auto simp: backed_def entry_ok_with_data)
  moreover have "owned ?w"
    using wf_vmD(3)[OF v] s by (auto simp: owned_def with_data_def spare_def split: if_splits; blast)
  moreover have "bounded ?w" using wf_vmD(4)[OF v] by (simp add: bounded_def)
  moreover have "fst ptr < vm_next v"
    using wf_vmD(5)[OF v] s by (metis fresh_def linorder_not_less option.distinct(1) spare_def)
  then have "fresh ?w"
    using wf_vmD(5)[OF v] by (auto simp: fresh_def with_data_def split: if_splits)
      (metis less_SucI)
  ultimately show ?thesis by (simp add: wf_vm_def)
qed

lemma kept_with_data:
  assumes "wf_vm v"
  shows "kept v (with_data ptr pages v) k"
proof (cases "vm_pt v (fst k) (snd k)")
  case (Some e)
  then show ?thesis
    using backedE[OF wf_vmD(2)[OF assms] Some] wf_vmD(5)[OF assms]
    by (auto simp: kept_def page_ptr_def entry_ptr_def with_data_def fresh_def vm_pt_def
        split: option.splits)
qed (simp add: kept_def page_ptr_def)

text \<open>Offsets inside a mapping of less than the whole address space.\<close>

lemma unat_shifted_page:
  assumes "unat (w :: dword_t) < 1048576"
  shows "unat (ucast (push_bit PAGE_BITS w) :: qword_t) = 4096 * unat w"
proof -
  have "unat (push_bit PAGE_BITS w) = 4096 * unat w"
    using assms by (simp add: unsigned_push_bit_eq take_bit_nat_eq_self push_bit_nat_def)
  then show ?thesis using assms by (simp add: unsigned_ucast_eq take_bit_nat_eq_self)
qed

lemma unat_page_offset:
  assumes "unat start + unat pages \<le> 1048576" "p \<in> set (page_range start pages)"
  shows "unat (ucast (push_bit PAGE_BITS (p - start)) :: qword_t) = 4096 * (unat p - unat start)"
proof -
  have p: "unat start \<le> unat p" "unat p < unat start + unat pages"
    using mem_page_range[of start pages p] assms by auto
  then have "unat (p - start) = unat p - unat start"
    by (simp add: unat_sub word_le_nat_alt)
  moreover have "unat p - unat start < 1048576" using p assms by simp
  ultimately show ?thesis using unat_shifted_page[of "p - start"] by simp
qed

lemma page_offset_aligned:
  "(ucast (push_bit PAGE_BITS (p :: dword_t)) :: qword_t) AND 0xfff = 0"
proof -
  have "(ucast (push_bit PAGE_BITS p) :: qword_t) AND mask 12 = 0"
    by (rule bit_eqI) (auto simp: bit_and_iff bit_mask_iff bit_ucast_iff bit_push_bit_iff)
  then show ?thesis by (simp add: mask_eq_exp_minus_1)
qed

lemma unat_map_size:
  "pages < MEM_PAGES \<Longrightarrow> unat (ucast (pages * PAGE_SIZE) :: qword_t) = 4096 * unat pages"
  by (simp add: unsigned_ucast_eq unat_word_ariths take_bit_nat_eq_self word_less_nat_alt)

lemma map_entry_ok:
  assumes "wf_vm v" "spare ptr pages v" "in_space start pages" "pages < MEM_PAGES"
    and "p \<in> set (page_range start pages)"
  shows "entry_ok (with_data ptr pages v) (map_entry (vm_next v) start flags p)"
proof -
  have "unat start \<le> unat p" "unat p < unat start + unat pages"
    using mem_page_range[of start pages p] assms by auto
  then have "4096 * (unat p - unat start) + 4096 \<le> 4096 * unat pages" by linarith
  then show ?thesis
    using assms page_offset_aligned[of "p - start"]
    by (auto simp: entry_ok_def map_entry_def spare_def sized_def unat_page_offset unat_map_size)
qed

lemma map_bindable:
  assumes "wf_vm v" "vm_mems v m \<noteq> None" "spare ptr pages v" "in_space start pages"
    "pages < MEM_PAGES"
  shows "bindable m (vm_next v) (map_entry (vm_next v) start flags) (page_range start pages)
    (with_data ptr pages v)"
proof -
  have "refs (with_data ptr pages v) d = refs v d" for d by (rule refs_cong) simp
  then show ?thesis
    using assms refs_fresh[OF assms(1), of "vm_next v"] page_range_bounded[OF assms(4)]
    by (auto simp: bindable_def wf_with_data map_entry_ok)
qed

lemma pt_map_facts:
  fixes flags :: dword_t
  assumes v: "wf_vm v" "vm_mems v m \<noteq> None" "spare ptr pages v" "in_space start pages"
      "pages < MEM_PAGES"
    and host: "vm_host v (vm_calls v) = None"
  defines "w \<equiv> snd (pt_map m start pages (Inr ptr) flags v)"
  shows "fst (pt_map m start pages (Inr ptr) flags v) = 0"
    and "wf_vm w"
    and "vm_pt w m' q = (if m' = m \<and> q \<in> set (page_range start pages)
           then Some (map_entry (vm_next v) start flags q) else vm_pt v m' q)"
    and "k \<notin> Pair m ` set (page_range start pages) \<Longrightarrow> kept v w k"
    and "q \<in> set (page_range start pages) \<Longrightarrow>
           page_ptr w m q = Some (fst ptr, snd ptr + pt_offset (map_entry (vm_next v) start flags q))"
    and "vm_regions w (fst ptr) = vm_regions v (fst ptr)"
    and "vm_ub w = vm_ub v"
proof -
  let ?v = "with_data ptr pages v"
  let ?f = "map_page m (vm_next v) start flags"
  have w: "w = fold ?f (page_range start pages) ?v" using host by (simp add: w_def pt_map_eq)
  note run = map_pages[OF map_bindable[OF v, of flags] distinct_page_range, folded w]
  show "fst (pt_map m start pages (Inr ptr) flags v) = 0" using host by (simp add: pt_map_eq)
  show "wf_vm w" "vm_ub w = vm_ub v" using run(1,5) by simp_all
  show pt: "vm_pt w m' q = (if m' = m \<and> q \<in> set (page_range start pages)
      then Some (map_entry (vm_next v) start flags q) else vm_pt v m' q)" for m' q
    using run(2) by simp
  show "k \<notin> Pair m ` set (page_range start pages) \<Longrightarrow> kept v w k"
    using kept_trans[OF kept_with_data[OF v(1)] run(3)] by simp
  show "vm_regions w (fst ptr) = vm_regions v (fst ptr)"
    using run(4) by (auto simp: stable_def)
  show "q \<in> set (page_range start pages) \<Longrightarrow>
      page_ptr w m q = Some (fst ptr, snd ptr + pt_offset (map_entry (vm_next v) start flags q))"
    using pt[of m q] stable_entry_ptr[OF run(4), of "map_entry (vm_next v) start flags q"]
    by (simp add: page_ptr_def) (simp add: entry_ptr_def)
qed

end
