(* ===== verification/Holes.thy ===== *)
theory Holes
  imports Mappings
begin

text \<open>
  The search of \<open>pt_find_hole\<close> (\<open>src/emu/memory.c\<close>) for a range of unmapped
  pages, and \<open>sys_mmap2\<close> without an address, which takes it.
\<close>

subsection \<open>pt_find_hole\<close>

definition hole_at :: "mem \<Rightarrow> pages_t \<Rightarrow> page_t \<Rightarrow> bool" where
  "hole_at mem len s \<longleftrightarrow> 0x40000 < s \<and> unat s + unat len \<le> 0xf7ffe \<and>
     (\<forall>q. unat s \<le> unat q \<and> unat q < unat s + unat len \<longrightarrow> mem_pt mem q = None)"

text \<open>What the scan knows when it reaches \<open>page\<close>.\<close>

definition scan_inv :: "mem \<Rightarrow> pages_t \<Rightarrow> bool \<Rightarrow> page_t \<Rightarrow> page_t \<Rightarrow> bool" where
  "scan_inv mem len in_hole hole_end page \<longleftrightarrow> unat page < 0xf7ffe \<and>
    (if in_hole then
       unat page < unat hole_end \<and> unat hole_end < unat page + 1 + unat len \<and>
       unat hole_end \<le> 0xf7ffe \<and>
       (\<forall>q. unat page < unat q \<and> unat q < unat hole_end \<longrightarrow> mem_pt mem q = None) \<and>
       (unat hole_end = 0xf7ffe \<or> mem_pt mem hole_end \<noteq> None)
     else unat page + 1 = 0xf7ffe \<or> mem_pt mem (page + 1) \<noteq> None)"

lemma not_hole_at:
  "unat s \<le> unat q \<Longrightarrow> unat q < unat s + unat len \<Longrightarrow> mem_pt mem q \<noteq> None \<Longrightarrow> \<not> hole_at mem len s"
  by (auto simp: hole_at_def)

definition greatest_hole :: "mem \<Rightarrow> pages_t \<Rightarrow> page_t \<Rightarrow> page_t \<Rightarrow> bool" where
  "greatest_hole mem len page r \<longleftrightarrow>
    (if r = BAD_PAGE then (\<forall>s. unat s \<le> unat page \<longrightarrow> \<not> hole_at mem len s)
     else hole_at mem len r \<and> unat r \<le> unat page \<and>
       (\<forall>s. unat r < unat s \<and> unat s \<le> unat page \<longrightarrow> \<not> hole_at mem len s))"

lemma greatest_hole_step:
  assumes "greatest_hole mem len (page - 1) r" "\<not> hole_at mem len page" "page \<noteq> 0"
  shows "greatest_hole mem len page r"
proof -
  have less: "unat s \<le> unat page \<longleftrightarrow> unat s \<le> unat (page - 1) \<or> s = page" for s
    using unat_pred[OF assms(3)] assms(3) by (auto simp: word_unat_eq_iff unat_eq_0[symmetric])
  show ?thesis
    using assms(1,2) less by (auto simp: greatest_hole_def split: if_splits)
qed

lemma find_hole_mapped:
  "page > 0x40000 \<Longrightarrow> mem_pt mem page = Some e \<Longrightarrow>
   find_hole_from mem len in_hole hole_end page = find_hole_from mem len False hole_end (page - 1)"
  by (subst find_hole_from.simps) simp

lemma find_hole_unmapped:
  assumes "page > 0x40000" "mem_pt mem page = None"
    "he = (if in_hole then hole_end else page + 1)"
  shows "find_hole_from mem len in_hole hole_end page =
    (if he - page = len then page else find_hole_from mem len True he (page - 1))"
  using assms by (subst find_hole_from.simps) simp

lemma find_hole_from_greatest:
  assumes "scan_inv mem len in_hole hole_end page" "0 < len"
  shows "greatest_hole mem len page (find_hole_from mem len in_hole hole_end page)"
  using assms(1)
proof (induction "unat page" arbitrary: in_hole hole_end page rule: less_induct)
  case less
  show ?case
  proof (cases "page > 0x40000")
    case False
    then show ?thesis
      by (auto simp: find_hole_from.simps greatest_hole_def hole_at_def word_less_nat_alt)
  next
    case True
    then have nz: "page \<noteq> 0" and big: "unat page > 0x40000" by (auto simp: word_less_nat_alt)
    have pm: "unat (page - 1) = unat page - 1" "unat (page - 1) < unat page"
      using unat_pred[OF nz] big by simp_all
    have pp: "unat (page + 1) = unat page + 1"
      using less.prems by (simp add: scan_inv_def unat_word_ariths)
    have one: "0 < unat len" using assms(2) by (simp add: word_less_nat_alt)
    show ?thesis
    proof (cases "mem_pt mem page")
      case (Some e)
      have "scan_inv mem len False hole_end (page - 1)"
        using less.prems Some pm big by (auto simp: scan_inv_def split: if_splits)
      moreover have "\<not> hole_at mem len page"
        using Some one by (intro not_hole_at[of page page]) auto
      ultimately show ?thesis
        unfolding find_hole_mapped[OF True Some]
        using less.hyps[OF pm(2)] nz by (blast intro: greatest_hole_step)
    next
      case None
      define he where "he = (if in_hole then hole_end else page + 1)"
      have he: "unat page < unat he" "unat he \<le> unat page + unat len" "unat he \<le> 0xf7ffe"
        "unat he = 0xf7ffe \<or> mem_pt mem he \<noteq> None"
        using less.prems one pp by (auto simp: he_def scan_inv_def split: if_splits)
      have holes: "mem_pt mem q = None" if "unat page \<le> unat q" "unat q < unat he" for q
      proof (cases "q = page")
        case False
        then have "unat page < unat q" using that by (simp add: word_unat_eq_iff)
        then show ?thesis using less.prems that pp by (auto simp: he_def scan_inv_def split: if_splits)
      qed (simp add: None)
      have diff: "unat (he - page) = unat he - unat page"
        using he by (simp add: unat_sub word_le_nat_alt)
      note eq = find_hole_unmapped[OF True None he_def, of len]
      show ?thesis
      proof (cases "he - page = len")
        case True
        then have "hole_at mem len page"
          using he holes diff \<open>page > 0x40000\<close> by (auto simp: hole_at_def)
        moreover have "page \<noteq> BAD_PAGE" using \<open>page > 0x40000\<close> by auto
        ultimately show ?thesis using True eq by (auto simp: greatest_hole_def)
      next
        case False
        then have lt: "unat he < unat page + unat len"
          using he diff by (metis add_diff_cancel_left' le_neq_implies_less word_unat_eq_iff)
        have "scan_inv mem len True he (page - 1)"
          unfolding scan_inv_def using less.prems he(1,3,4) holes lt pm big
          by (auto simp: scan_inv_def)
        moreover have "\<not> hole_at mem len page"
          using he lt not_hole_at[of page he len mem] by (auto simp: hole_at_def)
        ultimately show ?thesis
          using less.hyps[OF pm(2)] nz eq False by (simp add: greatest_hole_step)
      qed
    qed
  qed
qed

lemma scan_inv_start: "scan_inv mem len False hole_end 0xf7ffd"
  by (simp add: scan_inv_def)

lemma pt_find_hole_spec:
  assumes "0 < len"
  shows "if pt_find_hole mem len = BAD_PAGE then \<forall>s. \<not> hole_at mem len s
    else hole_at mem len (pt_find_hole mem len) \<and>
      (\<forall>s. pt_find_hole mem len < s \<longrightarrow> \<not> hole_at mem len s)"
proof -
  have range: "unat s \<le> unat (0xf7ffd :: page_t)" if "hole_at mem len s" for s
    using that assms by (simp add: hole_at_def word_less_nat_alt)
  show ?thesis
    using find_hole_from_greatest[OF scan_inv_start[of mem len 0] assms] range
    unfolding greatest_hole_def pt_find_hole_def word_less_nat_alt by (auto split: if_splits)
qed

definition mem_empty :: mem where
  "mem_empty = \<lparr>mem_refcount = 1, mem_changes = 0, mem_pgdir = (\<lambda>_. None), mem_pgdir_used = 0,
     mem_vdso = 0, mem_start_brk = 0, mem_brk = 0\<rparr>"

lemma mem_pt_empty [simp]: "mem_pt mem_empty p = None"
  by (simp add: mem_pt_def mem_empty_def)

lemma find_hole_empty: "pt_find_hole mem_empty 2 = 0xf7ffc"
  by (simp add: pt_find_hole_def find_hole_unmapped)

subsection \<open>pt_is_hole\<close>

lemma pt_is_hole_eq:
  "in_space start pages \<Longrightarrow>
   pt_is_hole m start pages v = ((\<forall>p \<in> set (page_range start pages). vm_pt v m p = None), v)"
  using page_range_bounded by (simp add: pt_is_hole_def scan_hole_eq)

subsection \<open>pt_map_nothing\<close>

lemma host_mmap_ok:
  "vm_host v (vm_calls v) = None \<Longrightarrow> host_mmap len v = (Inr (vm_next v, 0),
     v\<lparr>vm_calls := Suc (vm_calls v),
       vm_regions := (vm_regions v)(vm_next v \<mapsto> \<lparr>r_size = len, r_bytes = (\<lambda>_. 0)\<rparr>),
       vm_next := Suc (vm_next v)\<rparr>)"
  by (simp add: host_mmap_def host_call_def)

text \<open>The state after a host mapping has been created.\<close>

definition with_region :: "region \<Rightarrow> vm \<Rightarrow> vm" where
  "with_region r v = v\<lparr>vm_calls := Suc (vm_calls v),
     vm_regions := (vm_regions v)(vm_next v \<mapsto> r), vm_next := Suc (vm_next v)\<rparr>"

lemma with_region_frame [simp]:
  "vm_mems (with_region r v) = vm_mems v" "vm_datas (with_region r v) = vm_datas v"
  "vm_host (with_region r v) = vm_host v" "vm_calls (with_region r v) = Suc (vm_calls v)"
  "vm_ub (with_region r v) = vm_ub v" "vm_pt (with_region r v) m p = vm_pt v m p"
  "vm_next (with_region r v) = Suc (vm_next v)"
  "vm_regions (with_region r v) = (vm_regions v)(vm_next v \<mapsto> r)"
  by (simp_all add: with_region_def vm_pt_def)

lemma data_not_fresh: "wf_vm v \<Longrightarrow> vm_datas v d = Some x \<Longrightarrow> fst (d_data x) \<noteq> vm_next v"
  using wf_vmD(5)[of v] unfolding fresh_def by (metis less_irrefl)

lemma wf_with_region:
  assumes "wf_vm v"
  shows "wf_vm (with_region r v)"
proof -
  have "refs (with_region r v) d = refs v d" for d by (rule refs_cong) simp
  moreover have "entry_ok (with_region r v) e" if "entry_ok v e" for e
    using that data_not_fresh[OF assms] by (fastforce simp: entry_ok_def)
  ultimately show ?thesis
    using assms by (auto simp: wf_vm_def counted_def backed_def owned_def bounded_def fresh_def
        intro: less_SucI)
qed

lemma kept_with_region:
  assumes "wf_vm v"
  shows "kept v (with_region r v) k"
proof (cases "vm_pt v (fst k) (snd k)")
  case (Some e)
  then show ?thesis
    using data_not_fresh[OF assms]
    by (auto simp: kept_def page_ptr_def entry_ptr_def split: option.splits)
qed (simp add: kept_def page_ptr_def)

lemma spare_with_region:
  assumes "wf_vm v" "4096 * unat pages \<le> unat (r_size r)"
  shows "spare (vm_next v, 0) pages (with_region r v)"
  using assms data_not_fresh[OF assms(1)] by (auto simp: spare_def)

lemma pt_map_nothing_eq:
  assumes "pages \<noteq> 0" "vm_host v (vm_calls v) = None"
  shows "pt_map_nothing m start pages flags v =
    pt_map m start pages (Inr (vm_next v, 0)) (flags OR P_ANON)
      (with_region \<lparr>r_size = ucast (pages * PAGE_SIZE), r_bytes = (\<lambda>_. 0)\<rparr> v)"
  using assms by (simp add: pt_map_nothing_def host_mmap_ok with_region_def)

lemma err_map_nonzero: "err_map e \<noteq> 0"
  using errcases_range by (cases e rule: err_map_cases) (auto simp: list_all_iff)

text \<open>Both host calls of \<open>pt_map_nothing\<close> are answered with success.\<close>

definition host_ready :: "vm \<Rightarrow> bool" where
  "host_ready v \<longleftrightarrow> vm_host v (vm_calls v) = None \<and> vm_host v (Suc (vm_calls v)) = None"

lemma pt_map_nothing_facts:
  fixes flags :: dword_t
  assumes v: "wf_vm v" "vm_mems v m \<noteq> None" "in_space start pages" "pages < MEM_PAGES" "pages \<noteq> 0"
    and host: "host_ready v"
  defines "w \<equiv> snd (pt_map_nothing m start pages flags v)"
  shows "fst (pt_map_nothing m start pages flags v) = 0"
    and "wf_vm w"
    and "vm_pt w m' q = (if m' = m \<and> q \<in> set (page_range start pages)
           then Some (map_entry (Suc (vm_next v)) start (flags OR P_ANON) q) else vm_pt v m' q)"
    and "k \<notin> Pair m ` set (page_range start pages) \<Longrightarrow> kept v w k"
    and "PAGE a \<in> set (page_range start pages) \<Longrightarrow> guest w m a = Some 0"
    and "vm_ub w = vm_ub v"
proof -
  let ?r = "\<lparr>r_size = ucast (pages * PAGE_SIZE) :: qword_t, r_bytes = (\<lambda>_. 0 :: byte_t)\<rparr>"
  let ?v = "with_region ?r v"
  have sp: "spare (vm_next v, 0) pages ?v"
    by (rule spare_with_region) (use v in \<open>simp_all add: unat_map_size\<close>)
  have eq: "pt_map_nothing m start pages flags v =
      pt_map m start pages (Inr (vm_next v, 0)) (flags OR P_ANON) ?v"
    using v host by (simp add: pt_map_nothing_eq host_ready_def)
  have call: "vm_host ?v (vm_calls ?v) = None" using host by (simp add: host_ready_def)
  note facts = pt_map_facts[OF wf_with_region[OF v(1)] _ sp v(3,4) call, where m = m and flags = "flags OR P_ANON",
      folded eq, folded w_def]
  show "fst (pt_map_nothing m start pages flags v) = 0" "wf_vm w" "vm_ub w = vm_ub v"
    using facts(1,2,7) v by simp_all
  show "vm_pt w m' q = (if m' = m \<and> q \<in> set (page_range start pages)
           then Some (map_entry (Suc (vm_next v)) start (flags OR P_ANON) q) else vm_pt v m' q)"
    using facts(3) v by simp
  show "k \<notin> Pair m ` set (page_range start pages) \<Longrightarrow> kept v w k"
    using kept_trans[OF kept_with_region[OF v(1)] facts(4)] v by simp
  show "PAGE a \<in> set (page_range start pages) \<Longrightarrow> guest w m a = Some 0"
    using facts(5)[of "PAGE a"] facts(6) v by (simp add: guest_def host_load_def)
qed

end
