(* ===== verification/Access.thy ===== *)
theory Access
  imports Holes
begin

text \<open>
  Access to guest memory: \<open>mem_ptr\<close> with its two repairs of the page table (a
  stack that grows down, a copy-on-write page that is written), and what a
  store through the pointer it returns does to the guest's view. A page table
  entry that may be written is exclusive: no other page of any address space
  shows the same host bytes.
\<close>

subsection \<open>Sharing\<close>

definition cow_entry :: "pt_entry \<Rightarrow> bool" where
  "cow_entry e \<longleftrightarrow> pt_flags e AND P_COW \<noteq> 0"

definition writable_entry :: "pt_entry \<Rightarrow> bool" where
  "writable_entry e \<longleftrightarrow> pt_flags e AND P_WRITE \<noteq> 0 \<and> \<not> cow_entry e"

definition same_frame :: "pt_entry \<Rightarrow> pt_entry \<Rightarrow> bool" where
  "same_frame e e' \<longleftrightarrow> pt_data e = pt_data e' \<and> pt_offset e = pt_offset e'"

text \<open>Pages that show the same host bytes are all marked copy-on-write.\<close>

definition cow_ok :: "vm \<Rightarrow> bool" where
  "cow_ok v \<longleftrightarrow> (\<forall>m p m' p' e e'. vm_pt v m p = Some e \<longrightarrow> vm_pt v m' p' = Some e' \<longrightarrow>
     (m, p) \<noteq> (m', p') \<longrightarrow> same_frame e e' \<longrightarrow> cow_entry e \<and> cow_entry e')"

definition exclusive :: "vm \<Rightarrow> mem_id \<Rightarrow> page_t \<Rightarrow> bool" where
  "exclusive v m p \<longleftrightarrow> (\<exists>e. vm_pt v m p = Some e \<and>
     (\<forall>m' p' e'. (m', p') \<noteq> (m, p) \<longrightarrow> vm_pt v m' p' = Some e' \<longrightarrow> \<not> same_frame e e'))"

lemma cow_ok_exclusive:
  "cow_ok v \<Longrightarrow> vm_pt v m p = Some e \<Longrightarrow> \<not> cow_entry e \<Longrightarrow> exclusive v m p"
  unfolding cow_ok_def exclusive_def by blast

lemma cow_ok_cong: "(\<And>m p. vm_pt w m p = vm_pt v m p) \<Longrightarrow> cow_ok w = cow_ok v"
  by (simp add: cow_ok_def)

subsection \<open>Stores\<close>

lemma add_offset_inject:
  assumes "a AND 0xfff = (0 :: qword_t)" "b AND 0xfff = 0"
    and "a + ucast (PGOFFSET x) = b + ucast (PGOFFSET y)"
  shows "a = b \<and> PGOFFSET x = PGOFFSET y"
proof -
  have or: "c + ucast (PGOFFSET z) = c OR ucast (PGOFFSET z)" if "c AND 0xfff = (0 :: qword_t)" for c z
  proof (rule disjunctive_add)
    fix n
    have "\<not> bit (c AND 0xfff) n" using that by simp
    moreover have "bit (0xfff :: qword_t) n \<longleftrightarrow> n < 12"
      using bit_mask_iff[of 12 n, where 'a = qword_t] by (auto simp: mask_eq_exp_minus_1)
    moreover have "bit (0xfff :: dword_t) n \<longleftrightarrow> n < 12"
      using bit_mask_iff[of 12 n, where 'a = dword_t] by (auto simp: mask_eq_exp_minus_1)
    ultimately show "\<not> bit c n \<or> \<not> bit (ucast (PGOFFSET z) :: qword_t) n"
      by (auto simp: bit_and_iff bit_ucast_iff PGOFFSET_def)
  qed
  have low: "(ucast (PGOFFSET z) :: qword_t) AND 0xfff = ucast (PGOFFSET z)" for z
  proof (rule bit_eqI)
    fix n
    have "bit (0xfff :: qword_t) n \<longleftrightarrow> n < 12"
      using bit_mask_iff[of 12 n, where 'a = qword_t] by (auto simp: mask_eq_exp_minus_1)
    moreover have "bit (0xfff :: dword_t) n \<longleftrightarrow> n < 12"
      using bit_mask_iff[of 12 n, where 'a = dword_t] by (auto simp: mask_eq_exp_minus_1)
    ultimately show "bit ((ucast (PGOFFSET z) :: qword_t) AND 0xfff) n = bit (ucast (PGOFFSET z) :: qword_t) n"
      by (auto simp: bit_and_iff bit_ucast_iff PGOFFSET_def)
  qed
  have "(a OR ucast (PGOFFSET x)) AND 0xfff = ucast (PGOFFSET x)"
    "(b OR ucast (PGOFFSET y)) AND 0xfff = ucast (PGOFFSET y)"
    using assms(1,2) low by (simp_all add: bit.conj_disj_distrib2)
  then have "(ucast (PGOFFSET x) :: qword_t) = ucast (PGOFFSET y)"
    using assms or by metis
  moreover from this have "a = b" using assms(3) by simp
  ultimately show ?thesis using ucast_qword_inject by blast
qed

lemma addr_eqI: "PAGE a = PAGE b \<Longrightarrow> PGOFFSET a = PGOFFSET b \<Longrightarrow> a = b"
  using word_eq_iff_top_bottom[of 12 a b]
  by (simp add: PAGE_def PGOFFSET_def mask_eq_exp_minus_1)

lemma host_store_frame [simp]:
  "vm_mems (host_store p b v) = vm_mems v" "vm_datas (host_store p b v) = vm_datas v"
  "vm_next (host_store p b v) = vm_next v" "vm_ub (host_store p b v) = vm_ub v"
  "vm_host (host_store p b v) = vm_host v" "vm_calls (host_store p b v) = vm_calls v"
  "vm_pt (host_store p b v) m q = vm_pt v m q"
  "vm_regions (host_store p b v) i = None \<longleftrightarrow> vm_regions v i = None"
  by (simp_all add: host_store_def vm_pt_def)

lemma page_ptr_store [simp]: "page_ptr (host_store p b v) m q = page_ptr v m q"
  by (simp add: page_ptr_def entry_ptr_def split: option.splits)

lemma host_store_size:
  "map_option r_size (vm_regions (host_store p b v) i) = map_option r_size (vm_regions v i)"
  by (simp add: host_store_def option.map_comp comp_def)

lemma entry_ok_size:
  "entry_ok v e \<longleftrightarrow> (\<exists>d x n. pt_data e = Some d \<and> vm_datas v d = Some x \<and>
     map_option r_size (vm_regions v (fst (d_data x))) = Some n \<and>
     unat (snd (d_data x)) + unat (d_size x) \<le> unat n \<and>
     unat (pt_offset e) + 4096 \<le> unat (d_size x) \<and> pt_offset e AND 0xfff = 0)"
  unfolding entry_ok_def sized_def by (simp add: map_option_eq_Some) blast

lemma entry_ok_store [simp]: "entry_ok (host_store p b v) e = entry_ok v e"
  unfolding entry_ok_size host_store_size host_store_frame ..

lemma wf_store [simp, wf]: "wf_vm (host_store p b v) = wf_vm v"
proof -
  have "refs (host_store p b v) d = refs v d" for d by (rule refs_cong) simp
  then show ?thesis
    by (simp add: wf_vm_def counted_def backed_def owned_def bounded_def fresh_def)
qed

lemma cow_ok_store [simp]: "cow_ok (host_store p b v) = cow_ok v"
  by (rule cow_ok_cong) simp

lemma exclusive_store [simp]: "exclusive (host_store p b v) m q = exclusive v m q"
  by (simp add: exclusive_def)

lemma host_load_store:
  "vm_regions v (fst p) \<noteq> None \<Longrightarrow>
   host_load q (host_store p b v) = (if q = p then b else host_load q v)"
  by (auto simp: host_load_def host_store_def split: option.splits prod.splits) (auto simp: prod_eq_iff)

text \<open>A store to an exclusive page changes one byte of the guest's memory.\<close>

lemma guest_store:
  assumes v: "wf_vm v" and ex: "exclusive v m (PAGE a)"
    and ptr: "page_ptr v m (PAGE a) = Some p"
  shows "guest (host_store (fst p, snd p + ucast (PGOFFSET a)) b v) m' a' =
    (if m' = m \<and> a' = a then Some b else guest v m' a')"
proof -
  obtain e where e: "vm_pt v m (PAGE a) = Some e"
    and sole: "\<And>m' p' e'. (m', p') \<noteq> (m, PAGE a) \<Longrightarrow> vm_pt v m' p' = Some e' \<Longrightarrow> \<not> same_frame e e'"
    using ex by (auto simp: exclusive_def)
  obtain d x r where x: "pt_data e = Some d" "vm_datas v d = Some x"
    "vm_regions v (fst (d_data x)) = Some r" "pt_offset e AND 0xfff = 0"
    using backedE[OF wf_vmD(2)[OF v] e] by blast
  have p: "p = (fst (d_data x), snd (d_data x) + pt_offset e)"
    using ptr e x by (simp add: page_ptr_def entry_ptr_def)
  show ?thesis
  proof (cases "vm_pt v m' (PAGE a')")
    case None
    then show ?thesis using e by (auto simp: guest_def page_ptr_def)
  next
    case (Some e')
    obtain d' x' r' where x': "pt_data e' = Some d'" "vm_datas v d' = Some x'"
      "vm_regions v (fst (d_data x')) = Some r'" "pt_offset e' AND 0xfff = 0"
      using backedE[OF wf_vmD(2)[OF v] Some] by blast
    let ?q = "(fst (d_data x'), snd (d_data x') + pt_offset e' + ucast (PGOFFSET a'))"
    have ptr': "page_ptr v m' (PAGE a') = Some (fst (d_data x'), snd (d_data x') + pt_offset e')"
      using Some x' by (simp add: page_ptr_def entry_ptr_def)
    have iff: "?q = (fst p, snd p + ucast (PGOFFSET a)) \<longleftrightarrow> m' = m \<and> a' = a"
    proof
      assume eq: "?q = (fst p, snd p + ucast (PGOFFSET a))"
      then have "fst (d_data x') = fst (d_data x)" by (simp add: p)
      then have d: "d' = d" "x' = x"
        using wf_vmD(3)[OF v] x(1,2) x'(1,2) unfolding owned_def by (blast, metis option.inject)
      have "snd (d_data x') + pt_offset e' + ucast (PGOFFSET a') =
          snd (d_data x) + pt_offset e + ucast (PGOFFSET a)"
        using eq unfolding p by simp
      then have "pt_offset e' + ucast (PGOFFSET a') = pt_offset e + ucast (PGOFFSET a)"
        unfolding d by (simp only: add.assoc add_left_cancel)
      then have off: "pt_offset e' = pt_offset e" "PGOFFSET a' = PGOFFSET a"
        using add_offset_inject[OF x'(4) x(4)] by auto
      then have "same_frame e e'" using x(1) x'(1) d by (simp add: same_frame_def)
      then have "m' = m" "PAGE a' = PAGE a" using sole[of m' "PAGE a'"] Some by auto
      then show "m' = m \<and> a' = a" using off addr_eqI by blast
    next
      assume same: "m' = m \<and> a' = a"
      then have "e' = e" using e Some by simp
      then have "d' = d" using x(1) x'(1) by simp
      then have "x' = x" using x(2) x'(2) by simp
      then show "?q = (fst p, snd p + ucast (PGOFFSET a))"
        using same \<open>e' = e\<close> by (simp add: p)
    qed
    have g: "guest w m' a' = Some (host_load ?q w)" if "page_ptr w m' (PAGE a') = page_ptr v m' (PAGE a')" for w
      using that ptr' by (simp add: guest_def)
    have reg: "vm_regions v (fst (fst p, snd p + ucast (PGOFFSET a))) \<noteq> None" using x p by simp
    show ?thesis
      unfolding g[OF page_ptr_store] g[OF refl] host_load_store[OF reg] iff by simp
  qed
qed

end
