(* ===== verification/Mem_Ptr.thy ===== *)
theory Mem_Ptr
  imports Access
begin

text \<open>
  \<open>mem_ptr\<close>: when it returns a pointer, what the pointer shows, and that the
  repairs it makes are invisible to every address space.
\<close>

subsection \<open>Growing down\<close>

lemma next_mapped_None:
  "next_mapped v m p = None \<longleftrightarrow> (\<forall>q. unat p \<le> unat q \<and> q < MEM_PAGES \<longrightarrow> vm_pt v m q = None)"
proof (induction v m p rule: next_mapped.induct)
  case (1 v m p)
  show ?case
  proof (cases "p < MEM_PAGES \<and> vm_pt v m p = None")
    case True
    then have "unat p \<le> unat q \<longleftrightarrow> q = p \<or> unat (p + 1) \<le> unat q" for q
      using unat_succ_less[of p MEM_PAGES] by (auto simp: word_unat_eq_iff)
    then show ?thesis
      using 1 True by (subst next_mapped.simps) auto
  next
    case False
    then show ?thesis
      by (subst next_mapped.simps) (auto simp: word_less_nat_alt split: option.splits)
  qed
qed

lemma next_mapped_Some:
  "next_mapped v m p = Some e \<Longrightarrow> \<exists>q. unat p \<le> unat q \<and> q < MEM_PAGES \<and> vm_pt v m q = Some e \<and>
     (\<forall>q'. unat p \<le> unat q' \<and> unat q' < unat q \<longrightarrow> vm_pt v m q' = None)"
proof (induction v m p rule: next_mapped.induct)
  case (1 v m p)
  show ?case
  proof (cases "p < MEM_PAGES \<and> vm_pt v m p = None")
    case True
    then have le: "unat p \<le> unat q \<longleftrightarrow> q = p \<or> unat (p + 1) \<le> unat q" for q
      using unat_succ_less[of p MEM_PAGES] by (auto simp: word_unat_eq_iff)
    moreover have "next_mapped v m (p + 1) = Some e"
      using 1(2) True by (subst (asm) next_mapped.simps) simp
    ultimately show ?thesis using 1(1) True by (metis (no_types, lifting))
  next
    case False
    then have "p < MEM_PAGES" "vm_pt v m p = Some e"
      using 1(2) by (auto simp: next_mapped.simps[of v m p] split: if_splits option.splits)
    then show ?thesis by (intro exI[of _ p]) auto
  qed
qed

subsection \<open>Breaking copy-on-write\<close>

lemma unat_PAGE_SIZE [simp]: "(ucast PAGE_SIZE :: qword_t) = 0x1000"
  by simp

lemma PGOFFSET_less: "(ucast (PGOFFSET a) :: qword_t) < 4096"
proof -
  have "PGOFFSET a \<le> 0xfff" by (simp add: PGOFFSET_def word_and_le1)
  then have "unat (PGOFFSET a) < 4096" by (simp add: word_le_nat_alt)
  then show ?thesis by (simp add: word_less_nat_alt unat_ucast_qword)
qed

lemma cow_break_eq:
  assumes "wf_vm v" "vm_pt v m page = Some e" "entry_ptr e v = Some src"
    and "vm_host v (vm_calls v) = None"
  shows "cow_break m page e v = snd (pt_map m page 1 (Inr (vm_next v, 0))
    (pt_flags e AND NOT P_COW) (with_region
      \<lparr>r_size = 0x1000, r_bytes = (\<lambda>i. if i < 4096 then host_load (fst src, snd src + i) v else 0)\<rparr> v))"
proof -
  have "fst src \<noteq> vm_next v"
    using assms(3) data_not_fresh[OF assms(1)] by (auto simp: entry_ptr_def split: option.splits)
  then have "host_copy_page (vm_next v, 0) src (with_region \<lparr>r_size = 0x1000, r_bytes = (\<lambda>_. 0)\<rparr> v) =
      with_region \<lparr>r_size = 0x1000, r_bytes = (\<lambda>i. if i < 4096
        then host_load (fst src, snd src + i) v else 0)\<rparr> v"
    by (intro vm.equality)
      (simp_all add: host_copy_page_def with_region_def host_load_def fun_eq_iff cong: if_cong)
  then show ?thesis
    using assms by (simp add: cow_break_def host_mmap_ok flip: with_region_def)
qed

lemma cow_break_facts:
  assumes v: "wf_vm v" "vm_pt v m page = Some e" "host_ready v"
  defines "w \<equiv> cow_break m page e v"
  shows "wf_vm w"
    and "vm_pt w m' q = (if m' = m \<and> q = page
           then Some (map_entry (Suc (vm_next v)) page (pt_flags e AND NOT P_COW) page)
           else vm_pt v m' q)"
    and "k \<noteq> (m, page) \<Longrightarrow> kept v w k"
    and "guest w m' a = guest v m' a"
    and "vm_ub w = vm_ub v"
proof -
  obtain src where src: "page_ptr v m page = Some src"
    using page_ptr_wf[OF v(1,2)] by blast
  then have src': "entry_ptr e v = Some src" using v(2) by (simp add: page_ptr_def)
  define r where "r = \<lparr>r_size = 0x1000 :: qword_t, r_bytes = (\<lambda>i. if i < 4096
    then host_load (fst src, snd src + i) v else 0)\<rparr>"
  have eq: "w = snd (pt_map m page 1 (Inr (vm_next v, 0)) (pt_flags e AND NOT P_COW) (with_region r v))"
    using v src' by (simp add: w_def r_def cow_break_eq host_ready_def)
  have page: "page < MEM_PAGES" using wf_vmD(4)[OF v(1)] v(2) by (auto simp: bounded_def)
  have live: "vm_mems (with_region r v) m \<noteq> None" using v(2) vm_pt_live by simp
  have sp: "spare (vm_next v, 0) 1 (with_region r v)"
    by (rule spare_with_region[OF v(1)]) (simp add: r_def)
  have call: "vm_host (with_region r v) (vm_calls (with_region r v)) = None"
    using v(3) by (simp add: host_ready_def)
  have one: "(1 :: pages_t) < MEM_PAGES" by simp
  note facts = pt_map_facts[OF wf_with_region[OF v(1)] live sp in_space_single[OF page] one call,
      where flags = "pt_flags e AND NOT P_COW", folded eq]
  have range: "set (page_range page 1) = {page}" using page by simp
  show "wf_vm w" "vm_ub w = vm_ub v" using facts(2,7) by simp_all
  show pt: "vm_pt w m' q = (if m' = m \<and> q = page
     then Some (map_entry (Suc (vm_next v)) page (pt_flags e AND NOT P_COW) page) else vm_pt v m' q)"
    for m' q
    using facts(3) by (simp add: range)
  show keep: "k \<noteq> (m, page) \<Longrightarrow> kept v w k" for k
    using kept_trans[OF kept_with_region[OF v(1)] facts(4)] by (simp add: range)
  show "guest w m' a = guest v m' a"
  proof (cases "(m', PAGE a) = (m, page)")
    case True
    have "page_ptr w m page = Some (vm_next v, 0)"
      using facts(5)[of page] by (simp add: range map_entry_def)
    then show ?thesis
      using True facts(6) src PGOFFSET_less[of a]
      by (simp add: guest_def host_load_def r_def)
  next
    case False
    then show ?thesis using kept_guest[OF keep] by simp
  qed
qed

text \<open>Pages bound to an allocation that did not exist before are exclusive.\<close>

lemma cow_ok_fresh:
  assumes v: "wf_vm v" "cow_ok v" and d: "vm_datas v d = None"
    and pt: "\<And>m' q. vm_pt w m' q = (if m' = m \<and> q \<in> S then Some (ent q) else vm_pt v m' q)"
    and ent: "\<And>q. q \<in> S \<Longrightarrow> pt_data (ent q) = Some d"
    and inj: "\<And>p q. p \<in> S \<Longrightarrow> q \<in> S \<Longrightarrow> pt_offset (ent p) = pt_offset (ent q) \<Longrightarrow> p = q"
  shows "cow_ok w" and "q \<in> S \<Longrightarrow> exclusive w m q"
proof -
  have new: "\<not> same_frame e' (ent q)" "\<not> same_frame (ent q) e'"
    if pt': "vm_pt v m' p = Some e'" and q: "q \<in> S" for m' p e' q
  proof -
    obtain d' x where "pt_data e' = Some d'" "vm_datas v d' = Some x"
      using backedE[OF wf_vmD(2)[OF v(1)] pt'] by blast
    then show "\<not> same_frame e' (ent q)" "\<not> same_frame (ent q) e'"
      using d ent[OF q] by (auto simp: same_frame_def)
  qed
  have sole: "\<not> same_frame (ent q) e'" "\<not> same_frame e' (ent q)"
    if "q \<in> S" "vm_pt w m' q' = Some e'" "(m', q') \<noteq> (m, q)" for q m' q' e'
    using that new inj[of q q'] by (auto simp: pt same_frame_def split: if_splits)
  show "cow_ok w"
    unfolding cow_ok_def
  proof (intro allI impI)
    fix m1 p1 m2 p2 e1 e2
    assume a: "vm_pt w m1 p1 = Some e1" "vm_pt w m2 p2 = Some e2" "(m1, p1) \<noteq> (m2, p2)"
      "same_frame e1 e2"
    have "\<not> (m1 = m \<and> p1 \<in> S)" using sole(1)[of p1 m2 p2 e2] a pt[of m1 p1] by auto
    moreover have "\<not> (m2 = m \<and> p2 \<in> S)" using sole(2)[of p2 m1 p1 e1] a pt[of m2 p2] by auto
    ultimately show "cow_entry e1 \<and> cow_entry e2"
      using a v(2) unfolding cow_ok_def pt by (metis (full_types))
  qed
  show "q \<in> S \<Longrightarrow> exclusive w m q"
    unfolding exclusive_def using sole pt by (metis (full_types))
qed

lemma fresh_data: "wf_vm v \<Longrightarrow> vm_next v \<le> d \<Longrightarrow> vm_datas v d = None"
  using wf_vmD(5) by (simp add: fresh_def)

lemma cow_ok_break:
  assumes "wf_vm v" "vm_pt v m page = Some e" "host_ready v" "cow_ok v"
  shows "cow_ok (cow_break m page e v)"
    and "exclusive (cow_break m page e v) m page"
  using cow_ok_fresh[OF assms(1,4) fresh_data[OF assms(1), of "Suc (vm_next v)"],
      where S = "{page}" and w = "cow_break m page e v" and m = m
      and ent = "map_entry (Suc (vm_next v)) page (pt_flags e AND NOT P_COW)"]
    cow_break_facts(2)[OF assms(1-3)]
  by simp_all

lemma cow_ok_map_nothing:
  fixes flags :: dword_t
  assumes v: "wf_vm v" "vm_mems v m \<noteq> None" "in_space start pages" "pages < MEM_PAGES" "pages \<noteq> 0"
    and host: "host_ready v" and "cow_ok v"
  shows "cow_ok (snd (pt_map_nothing m start pages flags v))"
    and "q \<in> set (page_range start pages) \<Longrightarrow>
      exclusive (snd (pt_map_nothing m start pages flags v)) m q"
proof -
  let ?ent = "map_entry (Suc (vm_next v)) start (flags OR P_ANON)"
  have inj: "p = q" if "p \<in> set (page_range start pages)" "q \<in> set (page_range start pages)"
    "pt_offset (?ent p) = pt_offset (?ent q)" for p q
  proof -
    have "4096 * (unat p - unat start) = 4096 * (unat q - unat start)"
      using that unat_page_offset[OF v(3)] by (metis map_entry_def pt_entry.select_convs(2))
    moreover have "unat start \<le> unat p" "unat start \<le> unat q"
      using that mem_page_range[of start pages] v(3) by simp_all
    ultimately have "unat p = unat q" by linarith
    then show ?thesis by (simp add: word_unat_eq_iff)
  qed
  show "cow_ok (snd (pt_map_nothing m start pages flags v))"
    "q \<in> set (page_range start pages) \<Longrightarrow>
      exclusive (snd (pt_map_nothing m start pages flags v)) m q"
    using cow_ok_fresh[OF v(1) assms(7) fresh_data[OF v(1), of "Suc (vm_next v)"]
        pt_map_nothing_facts(3)[OF v host] _ inj] by simp_all
qed

subsection \<open>mem_ptr\<close>

text \<open>The four ways through \<open>mem_ptr\<close> when the host has memory to give.\<close>

definition grows :: "vm \<Rightarrow> mem_id \<Rightarrow> page_t \<Rightarrow> bool" where
  "grows v m page \<longleftrightarrow> (\<exists>e. next_mapped v m (page + 1) = Some e \<and> pt_flags e AND P_GROWSDOWN \<noteq> 0)"

definition addr_ptr :: "vm \<Rightarrow> mem_id \<Rightarrow> addr_t \<Rightarrow> hptr option" where
  "addr_ptr v m a = map_option (\<lambda>q. (fst q, snd q + ucast (PGOFFSET a))) (page_ptr v m (PAGE a))"

lemma PAGE_less: "PAGE a < MEM_PAGES"
proof -
  have "unat (PAGE a) = unat a div 4096"
    by (simp add: PAGE_def unat_drop_bit_eq drop_bit_nat_def)
  moreover have "unat a div 4096 < 1048576"
    using unat_less_numeral_power[of a] by (simp add: div_less_iff_less_mult)
  ultimately show ?thesis by (simp add: word_less_nat_alt)
qed

definition grown :: "mem_id \<Rightarrow> page_t \<Rightarrow> vm \<Rightarrow> vm" where
  "grown m page v = snd (pt_map_nothing m page 1 (P_WRITE OR P_GROWSDOWN) v)"

lemma grown_10: "grown m page v = snd (pt_map_nothing m page 1 10 v)"
  by (simp add: grown_def)

lemma map_entry_flags [simp]: "pt_flags (map_entry d start flags page) = flags"
  by (simp add: map_entry_def)

lemma grown_facts:
  assumes v: "wf_vm v" "vm_mems v m \<noteq> None" "host_ready v" "page < MEM_PAGES"
  shows "wf_vm (grown m page v)"
    and "vm_pt (grown m page v) m' q = (if m' = m \<and> q = page
           then Some (map_entry (Suc (vm_next v)) page 74 page) else vm_pt v m' q)"
    and "vm_ub (grown m page v) = vm_ub v"
    and "guest (grown m page v) m' a =
           (if m' = m \<and> PAGE a = page then Some 0 else guest v m' a)"
    and "cow_ok v \<Longrightarrow> cow_ok (grown m page v)"
    and "cow_ok v \<Longrightarrow> exclusive (grown m page v) m page"
proof -
  have one: "(1 :: pages_t) < MEM_PAGES" "(1 :: pages_t) \<noteq> 0" by simp_all
  note facts = pt_map_nothing_facts[OF v(1,2) in_space_single[OF v(4)] one v(3),
      where flags = "P_WRITE OR P_GROWSDOWN", folded grown_def]
  note cow = cow_ok_map_nothing[OF v(1,2) in_space_single[OF v(4)] one v(3),
      where flags = "P_WRITE OR P_GROWSDOWN", folded grown_def]
  show "wf_vm (grown m page v)" "vm_ub (grown m page v) = vm_ub v"
    "cow_ok v \<Longrightarrow> cow_ok (grown m page v)"
    "cow_ok v \<Longrightarrow> exclusive (grown m page v) m page"
    using facts(2,6) cow v(4) by simp_all
  show "vm_pt (grown m page v) m' q = (if m' = m \<and> q = page
           then Some (map_entry (Suc (vm_next v)) page 74 page) else vm_pt v m' q)"
    using facts(3) v(4) by simp
  show "guest (grown m page v) m' a = (if m' = m \<and> PAGE a = page then Some 0 else guest v m' a)"
    using facts(5)[of a] kept_guest[OF facts(4)[of "(m', PAGE a)"]] v(4) by auto
qed

lemma mem_ptr_cases:
  assumes v: "wf_vm v" "vm_mems v m \<noteq> None" "host_ready v"
  obtains (fault) "mem_ptr m a t v = (None, v)"
      "vm_pt v m (PAGE a) = None \<and> \<not> grows v m (PAGE a) \<or>
       t = MEM_WRITE \<and> (\<exists>e. vm_pt v m (PAGE a) = Some e \<and> pt_flags e AND P_WRITE = 0)"
    | (plain) e where "mem_ptr m a t v = (addr_ptr v m a, v)" "vm_pt v m (PAGE a) = Some e"
      "t = MEM_WRITE \<Longrightarrow> writable_entry e"
    | (cow) e where "vm_pt v m (PAGE a) = Some e" "t = MEM_WRITE" "pt_flags e AND P_WRITE \<noteq> 0"
      "mem_ptr m a t v = (addr_ptr (cow_break m (PAGE a) e v) m a, cow_break m (PAGE a) e v)"
    | (grow) "vm_pt v m (PAGE a) = None" "grows v m (PAGE a)"
      "mem_ptr m a t v = (addr_ptr (grown m (PAGE a) v) m a, grown m (PAGE a) v)"
proof (cases "vm_pt v m (PAGE a)")
  case (Some e)
  have ptr: "entry_ptr e v \<noteq> None"
    using page_ptr_None_iff[OF v(1), of m "PAGE a"] Some by (simp add: page_ptr_def)
  show thesis
  proof (cases "t = MEM_WRITE \<and> pt_flags e AND P_WRITE = 0")
    case True
    then show thesis using Some by (intro fault) (simp_all add: mem_ptr_def Let_def)
  next
    case wr: False
    show thesis
    proof (cases "t = MEM_WRITE \<and> cow_entry e")
      case True
      let ?w = "cow_break m (PAGE a) e v"
      note facts = cow_break_facts[OF v(1) Some v(3)]
      obtain e' where e': "vm_pt ?w m (PAGE a) = Some e'" using facts(2) by simp
      then have "entry_ptr e' ?w \<noteq> None"
        using page_ptr_None_iff[OF facts(1), of m "PAGE a"] by (simp add: page_ptr_def)
      then show thesis
        using Some True wr e'
        by (intro cow) (auto simp: mem_ptr_def Let_def cow_entry_def addr_ptr_def page_ptr_def
            split: option.splits)
    next
      case False
      then have "t = MEM_WRITE \<Longrightarrow> writable_entry e" using wr by (simp add: writable_entry_def)
      then show thesis
        using Some False wr ptr
        by (intro plain) (auto simp: mem_ptr_def Let_def cow_entry_def addr_ptr_def page_ptr_def
            split: option.splits)
    qed
  qed
next
  case None
  show thesis
  proof (cases "grows v m (PAGE a)")
    case True
    let ?w = "grown m (PAGE a) v"
    note facts = grown_facts[OF v PAGE_less, of a]
    let ?e = "map_entry (Suc (vm_next v)) (PAGE a) 74 (PAGE a)"
    have e: "vm_pt ?w m (PAGE a) = Some ?e" using facts(2) by simp
    then have ptr: "entry_ptr ?e ?w \<noteq> None"
      using page_ptr_None_iff[OF facts(1), of m "PAGE a"] by (simp add: page_ptr_def)
    obtain nx where "next_mapped v m (PAGE a + 1) = Some nx" "pt_flags nx AND P_GROWSDOWN \<noteq> 0"
      using True by (auto simp: grows_def)
    then have "mem_ptr m a t v = (case entry_ptr ?e ?w of None \<Rightarrow> (None, ?w\<lparr>vm_ub := True\<rparr>)
        | Some p \<Rightarrow> (Some (fst p, snd p + ucast (PGOFFSET a)), ?w))"
      using None e by (simp add: mem_ptr_def Let_def flip: grown_10)
    then show thesis
      using None True e ptr by (intro grow) (auto simp: addr_ptr_def page_ptr_def)
  next
    case False
    then show thesis
      using None by (intro fault) (auto simp: mem_ptr_def grows_def Let_def split: option.splits)
  qed
qed

text \<open>What a caller gets with a pointer returned by \<open>mem_ptr\<close>.\<close>

definition ptr_result :: "vm \<Rightarrow> mem_id \<Rightarrow> addr_t \<Rightarrow> access \<Rightarrow> hptr \<Rightarrow> vm \<Rightarrow> bool" where
  "ptr_result v m a t p w \<longleftrightarrow> wf_vm w \<and> cow_ok w \<and> vm_ub w = vm_ub v \<and> addr_ptr w m a = Some p \<and>
     (t = MEM_WRITE \<longrightarrow> exclusive w m (PAGE a)) \<and>
     (\<forall>m' a'. guest w m' a' = (if m' = m \<and> PAGE a' = PAGE a \<and> vm_pt v m (PAGE a) = None
        then Some 0 else guest v m' a'))"

lemma mem_ptr_result:
  assumes v: "wf_vm v" "vm_mems v m \<noteq> None" "host_ready v" "cow_ok v"
    and ptr: "mem_ptr m a t v = (Some p, w)"
  shows "ptr_result v m a t p w"
proof (rule mem_ptr_cases[OF v(1-3), where a = a and t = t])
  fix e
  assume "mem_ptr m a t v = (addr_ptr v m a, v)" and e: "vm_pt v m (PAGE a) = Some e"
    and wr: "t = MEM_WRITE \<Longrightarrow> writable_entry e"
  then have "w = v" "addr_ptr v m a = Some p" using ptr by simp_all
  moreover have "exclusive v m (PAGE a)" if "t = MEM_WRITE"
    using cow_ok_exclusive[OF v(4) e] wr that by (simp add: writable_entry_def)
  ultimately show ?thesis using v e by (simp add: ptr_result_def)
next
  fix e
  let ?w = "cow_break m (PAGE a) e v"
  assume e: "vm_pt v m (PAGE a) = Some e" and "mem_ptr m a t v = (addr_ptr ?w m a, ?w)"
  then have "w = ?w" "addr_ptr w m a = Some p" using ptr by auto
  then show ?thesis
    using cow_break_facts[OF v(1) e v(3)] cow_ok_break[OF v(1) e v(3,4)] e
    by (simp add: ptr_result_def)
next
  let ?w = "grown m (PAGE a) v"
  assume none: "vm_pt v m (PAGE a) = None" and "mem_ptr m a t v = (addr_ptr ?w m a, ?w)"
  then have "w = ?w" "addr_ptr w m a = Some p" using ptr by auto
  then show ?thesis
    using grown_facts[OF v(1-3) PAGE_less, of a] v(4) none by (simp add: ptr_result_def)
qed (use ptr in simp_all)

text \<open>No pointer: the state is as before.\<close>

lemma addr_ptr_None: "wf_vm v \<Longrightarrow> addr_ptr v m a = None \<longleftrightarrow> vm_pt v m (PAGE a) = None"
  by (simp add: addr_ptr_def page_ptr_None_iff)

definition faults :: "vm \<Rightarrow> mem_id \<Rightarrow> addr_t \<Rightarrow> access \<Rightarrow> bool" where
  "faults v m a t \<longleftrightarrow> (case vm_pt v m (PAGE a) of
     None \<Rightarrow> \<not> grows v m (PAGE a)
   | Some e \<Rightarrow> t = MEM_WRITE \<and> pt_flags e AND P_WRITE = 0)"

lemma mem_ptr_faults:
  assumes v: "wf_vm v" "vm_mems v m \<noteq> None" "host_ready v"
  shows "fst (mem_ptr m a t v) = None \<longleftrightarrow> faults v m a t"
    and "faults v m a t \<Longrightarrow> mem_ptr m a t v = (None, v)"
proof -
  have "if faults v m a t then mem_ptr m a t v = (None, v) else fst (mem_ptr m a t v) \<noteq> None"
  proof (rule mem_ptr_cases[OF v, where a = a and t = t])
    fix e
    assume "mem_ptr m a t v = (addr_ptr v m a, v)" "vm_pt v m (PAGE a) = Some e"
      "t = MEM_WRITE \<Longrightarrow> writable_entry e"
    then show ?thesis by (auto simp: faults_def addr_ptr_None[OF v(1)] writable_entry_def)
  next
    fix e
    let ?w = "cow_break m (PAGE a) e v"
    assume e: "vm_pt v m (PAGE a) = Some e" "pt_flags e AND P_WRITE \<noteq> 0"
      and m: "mem_ptr m a t v = (addr_ptr ?w m a, ?w)"
    have "addr_ptr ?w m a \<noteq> None"
      using cow_break_facts[OF v(1) e(1) v(3)] by (simp add: addr_ptr_None)
    then show ?thesis using e m by (simp add: faults_def)
  next
    let ?w = "grown m (PAGE a) v"
    assume a: "vm_pt v m (PAGE a) = None" "grows v m (PAGE a)"
      and m: "mem_ptr m a t v = (addr_ptr ?w m a, ?w)"
    have "addr_ptr ?w m a \<noteq> None"
      using grown_facts[OF v PAGE_less, of a] by (simp add: addr_ptr_None)
    then show ?thesis using a m by (simp add: faults_def)
  qed (auto simp: faults_def)
  then show "fst (mem_ptr m a t v) = None \<longleftrightarrow> faults v m a t"
    "faults v m a t \<Longrightarrow> mem_ptr m a t v = (None, v)"
    by (auto split: if_splits)
qed

end
