(* ===== verification/Cow.thy ===== *)
theory Cow
  imports Mem_Ptr
begin

text \<open>
  Copy-on-write: \<open>pt_copy_on_write\<close> (called by fork on the whole address space)
  and \<open>pt_set_flags\<close> (called by mprotect). The copy shows the same bytes as the
  original, all the pages it shares are marked, and so both stay exclusive
  owners of what they write.
\<close>

subsection \<open>The view of a page\<close>

definition seen :: "vm \<Rightarrow> vm \<Rightarrow> mem_id \<times> page_t \<Rightarrow> bool" where
  "seen v w k \<longleftrightarrow> page_ptr w (fst k) (snd k) = page_ptr v (fst k) (snd k) \<and>
     (\<forall>p. page_ptr v (fst k) (snd k) = Some p \<longrightarrow> vm_regions w (fst p) = vm_regions v (fst p))"

lemma kept_seen: "kept v w k \<Longrightarrow> seen v w k"
  by (simp add: kept_def seen_def)

lemma seen_refl [simp]: "seen v v k"
  by (simp add: seen_def)

lemma seen_trans: "seen v w k \<Longrightarrow> seen w u k \<Longrightarrow> seen v u k"
  by (auto simp: seen_def)

lemma seen_guest: "seen v w (m, PAGE a) \<Longrightarrow> guest w m a = guest v m a"
  by (cases "page_ptr v m (PAGE a)") (auto simp: seen_def guest_def host_load_def)

subsection \<open>Changing the flags of an entry\<close>

lemma store_flags:
  assumes v: "wf_vm v" and e: "vm_pt v m page = Some e"
    and e': "e' = e\<lparr>pt_flags := fl\<rparr>"
  defines "w \<equiv> upd_mem m (mem_pt_store page e') v"
  shows "wf_vm w"
    and "vm_pt w m' q = (if m' = m \<and> q = page then Some e' else vm_pt v m' q)"
    and "seen v w k"
    and "k \<noteq> (m, page) \<Longrightarrow> kept v w k"
proof -
  obtain d where d: "pt_data e = Some d" using vm_pt_data[OF e] by blast
  have d': "pt_data e' \<noteq> None" using d e' by simp
  show pt: "vm_pt w m' q = (if m' = m \<and> q = page then Some e' else vm_pt v m' q)" for m' q
    unfolding w_def by (rule vm_pt_store[OF e d'])
  have ok: "entry_ok w e'' = entry_ok v e''" for e'' by (simp add: entry_ok_def w_def)
  have "refs w d = refs v d" for d
    using e e' by (auto simp: refs_def pt split: if_splits)
  moreover have "entry_ok v e'"
    using wf_vmD(2)[OF v] e e' by (auto simp: backed_def entry_ok_def)
  moreover have "backed w"
    using wf_vmD(2)[OF v] calculation(2) by (auto simp: backed_def ok pt split: if_splits)
  moreover have "bounded w"
    using wf_vmD(4)[OF v] e by (auto simp: bounded_def pt split: if_splits) (simp add: w_def)+
  ultimately show "wf_vm w"
    using wf_vmD[OF v] by (simp add: wf_vm_def counted_def owned_def fresh_def w_def)
  have datas: "vm_datas w = vm_datas v" by (simp add: w_def)
  have ptr: "page_ptr w m' q = page_ptr v m' q" for m' q
    unfolding page_ptr_def pt entry_ptr_def datas using e e' by (auto split: option.splits)
  then show "seen v w k" by (simp add: seen_def w_def)
  show "k \<noteq> (m, page) \<Longrightarrow> kept v w k"
    using ptr pt by (cases k) (auto simp: kept_def w_def)
qed

subsection \<open>One step of pt_copy_on_write\<close>

definition cow_flags :: "pt_entry \<Rightarrow> pt_entry" where
  "cow_flags e = e\<lparr>pt_flags := (pt_flags e OR P_COW) AND NOT P_COMPILED\<rparr>"

lemma cow_flags_sel [simp]: "pt_data (cow_flags e) = pt_data e" "pt_offset (cow_flags e) = pt_offset e"
  by (simp_all add: cow_flags_def)

lemma cow_entry_bit: "cow_entry e \<longleftrightarrow> bit (pt_flags e) 4"
  using and_exp_eq_0_iff_not_bit[of "pt_flags e" 4] by (simp add: cow_entry_def)

lemma cow_flags_cow [simp]: "cow_entry (cow_flags e)"
  by (simp add: cow_entry_bit cow_flags_def bit_and_iff bit_or_iff bit_not_iff)

lemma cow_page_eq:
  assumes "src \<noteq> dst" "sp < MEM_PAGES" "dp < MEM_PAGES" "vm_pt v src sp = Some e" "pt_data e = Some d"
  shows "cow_page src dst (sp, dp) v = bind_page dst dp (cow_flags e) d
    (upd_mem src (mem_pt_store sp (cow_flags e)) (upd_mem dst mem_changed (unmap_page dst dp v)))"
  using assms by (simp add: cow_page_def pt_unmap_single lookups bind_page_def cow_flags_def Let_def)

lemma cow_page_facts:
  assumes v: "wf_vm v" "cow_ok v" "vm_mems v dst \<noteq> None" and ne: "src \<noteq> dst"
    and pages: "sp < MEM_PAGES" "dp < MEM_PAGES" and e: "vm_pt v src sp = Some e"
  defines "w \<equiv> cow_page src dst (sp, dp) v"
  shows "wf_vm w" and "cow_ok w" and "vm_ub w = vm_ub v"
    and "vm_pt w m q = (if m = src \<and> q = sp \<or> m = dst \<and> q = dp then Some (cow_flags e) else vm_pt v m q)"
    and "k \<noteq> (dst, dp) \<Longrightarrow> seen v w k"
    and "page_ptr w dst dp = page_ptr v src sp"
    and "vm_mems w m = None \<longleftrightarrow> vm_mems v m = None"
proof -
  let ?e = "cow_flags e"
  obtain d where d: "pt_data e = Some d" using vm_pt_data[OF e] by blast
  define v1 where "v1 = upd_mem dst mem_changed (unmap_page dst dp v)"
  define v2 where "v2 = upd_mem src (mem_pt_store sp ?e) v1"
  have w: "w = bind_page dst dp ?e d v2"
    using ne pages e d by (simp add: w_def cow_page_eq v2_def v1_def)
  have v1: "wf_vm v1" "vm_ub v1 = vm_ub v"
    using v pages by (simp_all add: v1_def wf unmap_page_ub)
  have pt1: "vm_pt v1 m q = (if m = dst \<and> q = dp then None else vm_pt v m q)" for m q
    by (simp add: v1_def lookups)
  have e1: "vm_pt v1 src sp = Some e" using e ne by (simp add: pt1)
  note st = store_flags[OF v1(1) e1 cow_flags_def[of e], folded v2_def]
  have ok: "entry_ok v2 ?e"
    using wf_vmD(2)[OF st(1)] st(2)[of src sp] by (auto simp: backed_def)
  obtain x where x: "vm_datas v2 d = Some x" using ok d by (auto simp: entry_ok_def)
  have live: "vm_mems v2 dst \<noteq> None" using v(3) by (simp add: v2_def v1_def)
  have hole: "vm_pt v2 dst dp = None" using ne by (simp add: st(2) pt1)
  have d': "pt_data ?e = Some d" using d by simp
  show "wf_vm w" unfolding w by (rule wf_bind[OF st(1) live hole pages(2) d' ok])
  show "vm_ub w = vm_ub v" using v1 x by (simp add: w bind_page_datas v2_def)
  show pt: "vm_pt w m q = (if m = src \<and> q = sp \<or> m = dst \<and> q = dp then Some ?e else vm_pt v m q)"
    for m q
    unfolding w vm_pt_bind[OF live d'] using ne by (auto simp: st(2) pt1)
  have keep: "kept v v1 k" if "k \<noteq> (dst, dp)" for k
    unfolding v1_def by (rule kept_trans[OF kept_unmap_page[OF v(1) that] kept_changed])
  show sees: "seen v w k" if "k \<noteq> (dst, dp)" for k
    unfolding w using that
    by (blast intro: seen_trans kept_seen keep st(3) kept_bind[OF live x d'])
  have "page_ptr w dst dp = page_ptr w src sp"
    using pt[of dst dp] pt[of src sp] by (simp add: page_ptr_def)
  also have "\<dots> = page_ptr v src sp" using sees[of "(src, sp)"] ne by (simp add: seen_def)
  finally show "page_ptr w dst dp = page_ptr v src sp" .
  show "vm_mems w m = None \<longleftrightarrow> vm_mems v m = None" by (simp add: w v2_def v1_def)
  show "cow_ok w"
    unfolding cow_ok_def
  proof (intro allI impI)
    fix m1 p1 m2 p2 e1 e2
    assume a: "vm_pt w m1 p1 = Some e1" "vm_pt w m2 p2 = Some e2" "(m1, p1) \<noteq> (m2, p2)"
      "same_frame e1 e2"
    have shared: "cow_entry e'" if "vm_pt v m' p' = Some e'" "(m', p') \<noteq> (src, sp)"
      "same_frame e e'" for m' p' e'
      using v(2) e that unfolding cow_ok_def by blast
    have old: "cow_entry f1" if "vm_pt w k1 l1 = Some f1" "vm_pt w k2 l2 = Some f2"
      "(k1, l1) \<noteq> (k2, l2)" "same_frame f1 f2" for k1 l1 k2 l2 f1 f2
    proof (cases "f1 = ?e")
      case False
      then have 1: "vm_pt v k1 l1 = Some f1" "(k1, l1) \<noteq> (src, sp)"
        using that(1) by (auto simp: pt split: if_splits)
      show ?thesis
      proof (cases "f2 = ?e")
        case True
        then have "same_frame e f1" using that(4) by (simp add: same_frame_def)
        then show ?thesis using shared 1 by blast
      next
        case False
        then have "vm_pt v k2 l2 = Some f2" using that(2) by (auto simp: pt split: if_splits)
        then show ?thesis using v(2) 1 that(3,4) unfolding cow_ok_def by blast
      qed
    qed simp
    show "cow_entry e1 \<and> cow_entry e2"
      using old[OF a] old[OF a(2,1)] a(3,4) by (auto simp: same_frame_def)
  qed
qed

lemma cow_page_hole:
  "sp < MEM_PAGES \<Longrightarrow> vm_pt v src sp = None \<Longrightarrow> cow_page src dst (sp, dp) v = v"
  by (simp add: cow_page_def)

subsection \<open>pt_copy_on_write on the same range of two address spaces\<close>

lemma cow_pages:
  assumes "wf_vm v" "cow_ok v" "vm_mems v dst \<noteq> None" "src \<noteq> dst" "distinct ps"
    "\<forall>p \<in> set ps. p < MEM_PAGES"
  defines "w \<equiv> fold (cow_page src dst) (map (\<lambda>p. (p, p)) ps) v"
  shows "wf_vm w \<and> cow_ok w \<and> vm_ub w = vm_ub v \<and>
    (\<forall>k. \<not> (\<exists>p \<in> set ps. k = (dst, p) \<and> vm_pt v src p \<noteq> None) \<longrightarrow> seen v w k) \<and>
    (\<forall>p \<in> set ps. vm_pt v src p \<noteq> None \<longrightarrow> page_ptr w dst p = page_ptr v src p) \<and>
    (\<forall>m. vm_mems w m = None \<longleftrightarrow> vm_mems v m = None)"
  unfolding w_def using assms(1-6)
proof (induction ps arbitrary: v)
  case (Cons p ps)
  have p: "p < MEM_PAGES" "p \<notin> set ps" using Cons.prems by auto
  show ?case
  proof (cases "vm_pt v src p")
    case None
    then show ?thesis using Cons p by (simp add: cow_page_hole)
  next
    case (Some e)
    define w where "w = cow_page src dst (p, p) v"
    note step = cow_page_facts[OF Cons.prems(1-4) p(1) p(1) Some, folded w_def]
    define u where "u = fold (cow_page src dst) (map (\<lambda>p. (p, p)) ps) w"
    have ih: "wf_vm u \<and> cow_ok u \<and> vm_ub u = vm_ub w \<and>
      (\<forall>k. \<not> (\<exists>p \<in> set ps. k = (dst, p) \<and> vm_pt w src p \<noteq> None) \<longrightarrow> seen w u k) \<and>
      (\<forall>p \<in> set ps. vm_pt w src p \<noteq> None \<longrightarrow> page_ptr u dst p = page_ptr w src p) \<and>
      (\<forall>m. vm_mems u m = None \<longleftrightarrow> vm_mems w m = None)"
      unfolding u_def by (rule Cons.IH) (use Cons.prems step in simp_all)
    have src: "vm_pt w src q = None \<longleftrightarrow> vm_pt v src q = None" for q
      using Some Cons.prems(4) by (auto simp: step(4))
    have srcp: "page_ptr w src q = page_ptr v src q" for q
      using step(5)[of "(src, q)"] Cons.prems(4) by (simp add: seen_def)
    have "seen v u k" if "\<not> (\<exists>q \<in> set (p # ps). k = (dst, q) \<and> vm_pt v src q \<noteq> None)" for k
    proof (rule seen_trans)
      show "seen v w k" using that Some step(5) by auto
      show "seen w u k" using that src ih by (metis list.set_intros(2))
    qed
    moreover have "page_ptr u dst q = page_ptr v src q"
      if "q \<in> set (p # ps)" "vm_pt v src q \<noteq> None" for q
    proof (cases "q = p")
      case True
      then have "seen w u (dst, q)" using ih p by auto
      then show ?thesis using True step(6) by (simp add: seen_def)
    next
      case False
      then show ?thesis using that ih src srcp by auto
    qed
    ultimately show ?thesis
      using ih step(3,7) by (simp add: w_def[symmetric] u_def[symmetric])
  qed
qed simp

lemma cow_changed [simp]: "cow_ok (upd_mem m mem_changed v) = cow_ok v"
  by (rule cow_ok_cong) (simp add: lookups)

lemma pt_copy_on_write_facts:
  assumes v: "wf_vm v" "cow_ok v" "vm_mems v dst \<noteq> None" and ne: "src \<noteq> dst"
    and range: "in_space start pages"
  defines "w \<equiv> snd (pt_copy_on_write src start dst start pages v)"
  shows "wf_vm w" and "cow_ok w" and "vm_ub w = vm_ub v"
    and "guest w m a = (if m = dst \<and> PAGE a \<in> set (page_range start pages) \<and>
           vm_pt v src (PAGE a) \<noteq> None then guest v src a else guest v m a)"
proof -
  define ps where "ps = page_range start pages"
  define u where "u = fold (cow_page src dst) (map (\<lambda>p. (p, p)) ps) v"
  have w: "w = upd_mem dst mem_changed (upd_mem src mem_changed u)"
    by (simp add: w_def pt_copy_on_write_def u_def ps_def)
  have run: "wf_vm u \<and> cow_ok u \<and> vm_ub u = vm_ub v \<and>
    (\<forall>k. \<not> (\<exists>p \<in> set ps. k = (dst, p) \<and> vm_pt v src p \<noteq> None) \<longrightarrow> seen v u k) \<and>
    (\<forall>p \<in> set ps. vm_pt v src p \<noteq> None \<longrightarrow> page_ptr u dst p = page_ptr v src p) \<and>
    (\<forall>m. vm_mems u m = None \<longleftrightarrow> vm_mems v m = None)"
    unfolding u_def
    by (rule cow_pages) (use v ne range page_range_bounded in \<open>auto simp: ps_def distinct_page_range\<close>)
  show "wf_vm w" "cow_ok w" "vm_ub w = vm_ub v" using run by (simp_all add: w wf)
  have wu: "guest w m a = guest u m a" for m a
    unfolding w using kept_trans[OF kept_changed kept_changed] by (rule kept_guest)
  show "guest w m a = (if m = dst \<and> PAGE a \<in> set (page_range start pages) \<and>
           vm_pt v src (PAGE a) \<noteq> None then guest v src a else guest v m a)"
  proof (cases "m = dst \<and> PAGE a \<in> set ps \<and> vm_pt v src (PAGE a) \<noteq> None")
    case True
    then have "page_ptr u dst (PAGE a) = page_ptr u src (PAGE a)"
      using run ne by (auto simp: seen_def)
    then have "guest u dst a = guest u src a" by (simp add: guest_def)
    also have "\<dots> = guest v src a" using run ne by (auto intro: seen_guest)
    finally show ?thesis using True by (simp add: wu ps_def)
  next
    case False
    then have "guest u m a = guest v m a" using run by (auto intro: seen_guest)
    then show ?thesis using False by (auto simp: wu ps_def)
  qed
qed

end
