(* ===== verification/Lifetime.thy ===== *)
theory Lifetime
  imports Cow
begin

text \<open>
  \<open>pt_set_flags\<close>, and the life of an address space from \<open>mem_new\<close> to the
  \<open>mem_release\<close> that drops the last reference.
\<close>

subsection \<open>pt_set_flags\<close>

lemma wf_calls [simp]: "wf_vm (v\<lparr>vm_calls := n\<rparr>) = wf_vm v"
  by (rule wf_cong) simp_all

lemma seen_calls: "seen v w k \<Longrightarrow> seen v (w\<lparr>vm_calls := n\<rparr>) k"
  by (simp add: seen_def page_ptr_def vm_pt_def entry_ptr_def cong: option.case_cong)

lemma vm_pt_calls [simp]: "vm_pt (v\<lparr>vm_calls := n\<rparr>) m p = vm_pt v m p"
  by (simp add: vm_pt_def)

definition flag_page :: "mem_id \<Rightarrow> dword_t \<Rightarrow> page_t \<Rightarrow> pt_entry \<Rightarrow> vm \<Rightarrow> vm" where
  "flag_page m flags page e v = upd_mem m (mem_pt_store page (e\<lparr>pt_flags := flags\<rparr>)) v"

definition set_flags_ok :: "mem_id \<Rightarrow> dword_t \<Rightarrow> page_t list \<Rightarrow> vm \<Rightarrow> int \<times> vm \<Rightarrow> bool" where
  "set_flags_ok m flags ps v r \<longleftrightarrow> wf_vm (snd r) \<and> (\<forall>m' q. seen v (snd r) (m', q)) \<and>
    vm_ub (snd r) = vm_ub v \<and>
    (\<forall>m' q. (m' = m \<and> q \<in> set ps) \<or> vm_pt (snd r) m' q = vm_pt v m' q) \<and>
    (fst r = 0 \<longrightarrow> (\<forall>p \<in> set ps. map_option pt_flags (vm_pt (snd r) m p) = Some flags))"

lemma set_flags_loop_Cons:
  fixes flags :: dword_t
  assumes "page < MEM_PAGES" "vm_pt v m page = Some e"
  defines "w \<equiv> flag_page m flags page e v"
  shows "set_flags_loop m flags (page # pages) v =
    (if (flags AND NOT (pt_flags e)) AND (P_READ OR P_WRITE) \<noteq> 0
     then case vm_host w (vm_calls w) of
            Some errno \<Rightarrow> (err_map errno, w\<lparr>vm_calls := Suc (vm_calls w)\<rparr>)
          | None \<Rightarrow> set_flags_loop m flags pages (w\<lparr>vm_calls := Suc (vm_calls w)\<rparr>)
     else set_flags_loop m flags pages w)"
  using assms(1,2) by (simp add: w_def flag_page_def Let_def host_call_def errno_map_def
      split: option.splits)

lemma set_flags_loop_ok:
  assumes "wf_vm v" "\<forall>p \<in> set ps. p < MEM_PAGES \<and> vm_pt v m p \<noteq> None"
  shows "set_flags_ok m flags ps v (set_flags_loop m flags ps v)"
  using assms
proof (induction ps arbitrary: v)
  case Nil
  then show ?case by (auto simp: set_flags_ok_def wf lookups kept_seen)
next
  case (Cons page ps)
  obtain e where e: "vm_pt v m page = Some e" using Cons.prems by auto
  have p: "page < MEM_PAGES" using Cons.prems by auto
  define w where "w = flag_page m flags page e v"
  note st = store_flags[OF Cons.prems(1) e refl, where fl = flags, folded flag_page_def, folded w_def]
  have ub: "vm_ub w = vm_ub v" by (simp add: w_def flag_page_def)
  have go: "set_flags_ok m flags (page # ps) v (set_flags_loop m flags ps u)"
    if u: "wf_vm u" "\<And>k. seen v u k" "vm_ub u = vm_ub v" "\<And>m' q. vm_pt u m' q = vm_pt w m' q" for u
  proof -
    have "set_flags_ok m flags ps u (set_flags_loop m flags ps u)"
      by (rule Cons.IH) (use u st(2) Cons.prems in auto)
    then show ?thesis
      unfolding set_flags_ok_def
      using u st(2) seen_trans[OF u(2)] by (auto split: if_splits)
  qed
  have err: "set_flags_ok m flags (page # ps) v (err_map errno, w\<lparr>vm_calls := n\<rparr>)" for errno n
    using st err_map_nonzero by (auto simp: set_flags_ok_def ub intro: seen_calls)
  show ?case
    unfolding set_flags_loop_Cons[OF p e] w_def[symmetric]
    using err go st(1,2,3) ub by (auto split: option.splits intro!: go intro: seen_calls)
qed

lemma pt_set_flags_facts:
  assumes "wf_vm v" "in_space start pages"
  shows "if \<forall>p \<in> set (page_range start pages). vm_pt v m p \<noteq> None
    then set_flags_ok m flags (page_range start pages) v (pt_set_flags m start pages flags v)
    else pt_set_flags m start pages flags v = (ENOMEM, v)"
  using page_range_bounded[OF assms(2)] set_flags_loop_ok[OF assms(1)]
  by (auto simp: pt_set_flags_def scan_mapped_eq split: bool.splits)

subsection \<open>mem_new, mem_retain, mem_release\<close>

lemma upd_mem_pt_same:
  assumes "\<And>mem p. mem_pt (f mem) p = mem_pt mem p"
  shows "vm_pt (upd_mem m f v) m' q = vm_pt v m' q"
  using assms by (auto simp: vm_pt_def upd_mem_def split: option.splits)

lemma wf_upd_mem_same:
  assumes "\<And>mem p. mem_pt (f mem) p = mem_pt mem p"
  shows "wf_vm (upd_mem m f v) = wf_vm v"
proof -
  have "refs (upd_mem m f v) d = refs v d" for d
    by (rule refs_cong) (rule upd_mem_pt_same[OF assms])
  then show ?thesis
    by (simp add: wf_vm_def counted_def backed_def entry_ok_def owned_def bounded_def fresh_def
        upd_mem_pt_same[OF assms])
qed

lemma mem_pt_refcount [simp]: "mem_pt (mem_refcount_update f mem) p = mem_pt mem p"
  by (simp add: mem_pt_def)

lemma wf_mem_retain [wf]: "wf_vm (mem_retain m v) = wf_vm v"
  unfolding mem_retain_def by (rule wf_upd_mem_same) simp

definition drop_mem :: "mem_id \<Rightarrow> vm \<Rightarrow> vm" where
  "drop_mem m v = v\<lparr>vm_mems := (vm_mems v)(m := None)\<rparr>"

lemma drop_mem_frame [simp]:
  "vm_mems (drop_mem m v) = (vm_mems v)(m := None)" "vm_datas (drop_mem m v) = vm_datas v"
  "vm_regions (drop_mem m v) = vm_regions v" "vm_next (drop_mem m v) = vm_next v"
  "vm_ub (drop_mem m v) = vm_ub v"
  by (simp_all add: drop_mem_def)

lemma vm_pt_drop: "vm_pt (drop_mem m v) m' q = (if m' = m then None else vm_pt v m' q)"
  by (simp add: drop_mem_def vm_pt_def)

lemma wf_drop_mem:
  assumes "wf_vm v" "\<And>q. vm_pt v m q = None"
  shows "wf_vm (drop_mem m v)"
proof -
  have pt: "vm_pt (drop_mem m v) m' q = vm_pt v m' q" for m' q
    using assms(2) by (auto simp: vm_pt_drop)
  then have refs: "refs (drop_mem m v) d = refs v d" for d by (intro refs_cong) simp
  have "card (dom (vm_mems (drop_mem m v))) \<le> card (dom (vm_mems v))"
    using wf_vmD(4)[OF assms(1)] by (intro card_mono) (auto simp: bounded_def)
  then have "bounded (drop_mem m v)"
    using wf_vmD(4)[OF assms(1)] by (auto simp: bounded_def pt)
  then show ?thesis
    using assms(1) by (auto simp: wf_vm_def counted_def backed_def entry_ok_def owned_def fresh_def refs pt)
qed

lemma in_space_all: "in_space 0 MEM_PAGES"
  by simp

lemma mem_release_last:
  assumes "vm_mems v m = Some mem" "mem_refcount mem = 1"
  shows "mem_release m v = drop_mem m (snd (pt_unmap m 0 MEM_PAGES True
    (upd_mem m (mem_refcount_update (\<lambda>n. n - 1)) v)))"
  using assms by (simp add: mem_release_def drop_mem_def upd_mem_def Let_def)

lemma mem_release_other:
  assumes "vm_mems v m = Some mem" "mem_refcount mem \<noteq> 1"
  shows "mem_release m v = upd_mem m (mem_refcount_update (\<lambda>n. n - 1)) v"
  using assms by (simp add: mem_release_def upd_mem_def Let_def)

lemma set_page_range_all: "p < MEM_PAGES \<Longrightarrow> p \<in> set (page_range 0 MEM_PAGES)"
  by (simp add: mem_page_range word_less_nat_alt)

lemma kept_drop_mem: "fst k \<noteq> m \<Longrightarrow> kept v (drop_mem m v) k"
  by (simp add: kept_def vm_pt_drop page_ptr_def entry_ptr_def cong: option.case_cong)

lemma kept_upd_mem_same:
  assumes "\<And>mem p. mem_pt (f mem) p = mem_pt mem p"
  shows "kept v (upd_mem m f v) k"
  by (rule kept_upd_mem) (rule upd_mem_pt_same[OF assms])

lemma mem_release_facts:
  assumes v: "wf_vm v" and mem: "vm_mems v m = Some mem"
  shows "wf_vm (mem_release m v)"
    and "vm_ub (mem_release m v) = vm_ub v"
    and "mem_refcount mem = 1 \<Longrightarrow> vm_mems (mem_release m v) m = None"
    and "m' \<noteq> m \<or> mem_refcount mem \<noteq> 1 \<Longrightarrow> kept v (mem_release m v) (m', q)"
proof -
  let ?v = "upd_mem m (mem_refcount_update (\<lambda>n. n - 1)) v"
  let ?w = "snd (pt_unmap m 0 MEM_PAGES True ?v)"
  have v': "wf_vm ?v" using v by (subst wf_upd_mem_same) simp_all
  have keep: "kept v ?v k" for k by (rule kept_upd_mem_same) simp
  have w: "wf_vm ?w" using v' by (rule wf_pt_unmap)
  have res: "fst (pt_unmap m 0 MEM_PAGES True ?v) = 0"
    by (simp add: pt_unmap_in_space[OF in_space_all])
  have empty: "vm_pt ?w m q = None" for q
  proof (cases "vm_pt ?w m q")
    case (Some e)
    then have "q < MEM_PAGES" using wf_vmD(4)[OF w] by (auto simp: bounded_def)
    then show ?thesis
      using pt_unmap_pt[OF in_space_all res, of m q] set_page_range_all by simp
  qed
  have "wf_vm (mem_release m v) \<and> vm_ub (mem_release m v) = vm_ub v \<and>
    (mem_refcount mem = 1 \<longrightarrow> vm_mems (mem_release m v) m = None) \<and>
    (m' \<noteq> m \<or> mem_refcount mem \<noteq> 1 \<longrightarrow> kept v (mem_release m v) (m', q))"
  proof (cases "mem_refcount mem = 1")
    case True
    have "kept v (drop_mem m ?w) (m', q)" if "m' \<noteq> m"
      using that kept_drop_mem[of "(m', q)" m ?w] kept_pt_unmap[OF v' in_space_all, of "(m', q)" m True]
      by (auto intro: kept_trans[OF keep] kept_trans)
    then show ?thesis
      using True wf_drop_mem[OF w empty] pt_unmap_ub[OF v' in_space_all, of m True]
      by (simp add: mem_release_last[OF mem])
  next
    case False
    then show ?thesis using v' keep by (simp add: mem_release_other[OF mem])
  qed
  then show "wf_vm (mem_release m v)" "vm_ub (mem_release m v) = vm_ub v"
    "mem_refcount mem = 1 \<Longrightarrow> vm_mems (mem_release m v) m = None"
    "m' \<noteq> m \<or> mem_refcount mem \<noteq> 1 \<Longrightarrow> kept v (mem_release m v) (m', q)"
    by auto
qed

end
