(* ===== verification/Usermem.thy ===== *)
theory Usermem
  imports Lifetime
begin

text \<open>
  Access to the memory of a task from the kernel (\<open>src/kernel/user.c\<close>): bytes
  and strings copied one byte at a time through \<open>mem_ptr\<close>. A function returns
  the C result, what it has written to its buffer, and the state; \<open>current\<close> is
  represented by the address space \<open>m\<close> of the current task.
\<close>

subsection \<open>Definitions\<close>

fun user_read_task :: "mem_id \<Rightarrow> addr_t \<Rightarrow> nat \<Rightarrow> vm \<Rightarrow> int \<times> byte_t list \<times> vm" where
  "user_read_task m addr 0 v = (0, [], v)"
| "user_read_task m addr (Suc count) v =
    (case mem_ptr m addr MEM_READ v of
       (None, v) \<Rightarrow> (1, [], v)
     | (Some ptr, v) \<Rightarrow>
         (let b = host_load ptr v;
              (res, buf, v) = user_read_task m (addr + 1) count v
          in (res, b # buf, v)))"

fun user_write_task :: "mem_id \<Rightarrow> addr_t \<Rightarrow> byte_t list \<Rightarrow> vm \<Rightarrow> int \<times> vm" where
  "user_write_task m addr [] v = (0, v)"
| "user_write_task m addr (b # buf) v =
    (case mem_ptr m addr MEM_WRITE v of
       (None, v) \<Rightarrow> (1, v)
     | (Some ptr, v) \<Rightarrow> user_write_task m (addr + 1) buf (host_store ptr b v))"

text \<open>The loop of \<open>user_read_string\<close>: it stops after \<open>max\<close> bytes or at the
terminator, which is copied too.\<close>

fun read_string_loop :: "mem_id \<Rightarrow> addr_t \<Rightarrow> nat \<Rightarrow> vm \<Rightarrow> int \<times> byte_t list \<times> vm" where
  "read_string_loop m addr 0 v = (0, [], v)"
| "read_string_loop m addr (Suc maxlen) v =
    (case user_read_task m addr 1 v of
       (res, buf, v) \<Rightarrow>
         if res \<noteq> 0 then (1, buf, v)
         else if buf = [0] then (0, buf, v)
         else (let (res, rest, v) = read_string_loop m (addr + 1) maxlen v in (res, buf @ rest, v)))"

definition user_read_string :: "mem_id \<Rightarrow> addr_t \<Rightarrow> nat \<Rightarrow> vm \<Rightarrow> int \<times> byte_t list \<times> vm" where
  "user_read_string m addr maxlen v = (if addr = 0 then (1, [], v) else read_string_loop m addr maxlen v)"

text \<open>A C string is the list of its characters without the terminator.\<close>

fun write_string_loop :: "mem_id \<Rightarrow> addr_t \<Rightarrow> byte_t list \<Rightarrow> vm \<Rightarrow> int \<times> vm" where
  "write_string_loop m addr [] v =
    (let (res, v) = user_write_task m addr [0] v in (if res \<noteq> 0 then 1 else 0, v))"
| "write_string_loop m addr (b # buf) v =
    (let (res, v) = user_write_task m addr [b] v
     in if res \<noteq> 0 then (1, v) else write_string_loop m (addr + 1) buf v)"

definition user_write_string :: "mem_id \<Rightarrow> addr_t \<Rightarrow> byte_t list \<Rightarrow> vm \<Rightarrow> int \<times> vm" where
  "user_write_string m addr buf v = (if addr = 0 then (1, v) else write_string_loop m addr buf v)"

subsection \<open>The state a task runs in\<close>

text \<open>The address space is alive and well formed, and the host has memory.\<close>

definition task_ok :: "mem_id \<Rightarrow> vm \<Rightarrow> bool" where
  "task_ok m v \<longleftrightarrow> wf_vm v \<and> cow_ok v \<and> vm_mems v m \<noteq> None \<and> (\<forall>n. vm_host v n = None)"

lemma task_ok_ready: "task_ok m v \<Longrightarrow> host_ready v"
  by (simp add: task_ok_def host_ready_def)

lemma fold_host [simp]:
  "vm_host (fold (map_page m d start flags) ps v) = vm_host v"
  by (rule fold_unchanged) (simp add: map_page_def data_retain_def Let_def split: option.splits)

lemma pt_map_host [simp]: "vm_host (snd (pt_map m start pages memory flags v)) = vm_host v"
  by (auto simp: pt_map_def host_call_def Let_def split: sum.splits option.splits)

lemma pt_map_nothing_host [simp]: "vm_host (snd (pt_map_nothing m start pages flags v)) = vm_host v"
  by (auto simp: pt_map_nothing_def host_mmap_def host_call_def Let_def split: option.splits prod.splits)

lemma host_copy_host [simp]: "vm_host (host_copy_page dst src v) = vm_host v"
  by (simp add: host_copy_page_def)

lemma cow_break_host [simp]: "vm_host (cow_break m page e v) = vm_host v"
  by (auto simp: cow_break_def host_mmap_def host_call_def split: option.splits)

lemma mem_ptr_host: "vm_host (snd (mem_ptr m a t v)) = vm_host v"
  by (simp add: mem_ptr_def Let_def split: option.splits)

lemma map_page_live [simp]:
  "vm_mems (map_page m d start flags page v) m' = None \<longleftrightarrow> vm_mems v m' = None"
  by (auto simp: map_page_def Let_def)

lemma fold_live [simp]:
  "vm_mems (fold (map_page m d start flags) ps v) m' = None \<longleftrightarrow> vm_mems v m' = None"
  by (rule fold_unchanged) simp

lemma pt_map_live [simp]:
  "vm_mems (snd (pt_map m start pages memory flags v)) m' = None \<longleftrightarrow> vm_mems v m' = None"
  by (auto simp: pt_map_def host_call_def Let_def split: sum.splits option.splits)

lemma pt_map_nothing_live [simp]:
  "vm_mems (snd (pt_map_nothing m start pages flags v)) m' = None \<longleftrightarrow> vm_mems v m' = None"
  by (auto simp: pt_map_nothing_def host_mmap_def host_call_def Let_def split: option.splits prod.splits)

lemma cow_break_live [simp]:
  "vm_mems (cow_break m page e v) m' = None \<longleftrightarrow> vm_mems v m' = None"
  by (auto simp: cow_break_def host_mmap_def host_call_def host_copy_page_def split: option.splits)

lemma mem_ptr_live: "vm_mems (snd (mem_ptr m a t v)) m' = None \<longleftrightarrow> vm_mems v m' = None"
  by (simp add: mem_ptr_def Let_def split: option.splits)

subsection \<open>Memory that is written byte by byte\<close>

locale byte_memory =
  fixes ok :: "'s \<Rightarrow> bool"
    and rd :: "'s \<Rightarrow> addr_t \<Rightarrow> byte_t option"
    and wr :: "addr_t \<Rightarrow> byte_t \<Rightarrow> 's \<Rightarrow> 's option"
  assumes wr_ok: "ok s \<Longrightarrow> wr a b s = Some s' \<Longrightarrow> ok s'"
    and wr_same: "ok s \<Longrightarrow> wr a b s = Some s' \<Longrightarrow> rd s' a = Some b"
    and wr_other: "ok s \<Longrightarrow> wr a b s = Some s' \<Longrightarrow> a' \<noteq> a \<Longrightarrow> rd s a' = Some c \<Longrightarrow> rd s' a' = Some c"
begin

fun wr_list :: "addr_t \<Rightarrow> byte_t list \<Rightarrow> 's \<Rightarrow> 's option" where
  "wr_list a [] s = Some s"
| "wr_list a (b # bs) s = (case wr a b s of None \<Rightarrow> None | Some s' \<Rightarrow> wr_list (a + 1) bs s')"

lemma wr_list_ok: "ok s \<Longrightarrow> wr_list a bs s = Some s' \<Longrightarrow> ok s'"
  by (induction bs arbitrary: a s) (auto dest: wr_ok split: option.splits)

lemma wr_list_other:
  "ok s \<Longrightarrow> wr_list a bs s = Some s' \<Longrightarrow> (\<And>i. i < length bs \<Longrightarrow> a' \<noteq> a + of_nat i) \<Longrightarrow>
   rd s a' = Some c \<Longrightarrow> rd s' a' = Some c"
proof (induction bs arbitrary: a s)
  case (Cons b bs)
  obtain t where t: "wr a b s = Some t" "wr_list (a + 1) bs t = Some s'"
    using Cons.prems(2) by (auto split: option.splits)
  have "a' \<noteq> a" using Cons.prems(3)[of 0] by simp
  moreover have "a' \<noteq> (a + 1) + of_nat i" if "i < length bs" for i
    using Cons.prems(3)[of "Suc i"] that by (simp add: add.assoc)
  ultimately show ?case
    using Cons.IH[OF wr_ok[OF Cons.prems(1) t(1)] t(2)] wr_other[OF Cons.prems(1) t(1)] Cons.prems(4)
    by blast
qed simp

lemma wr_list_same:
  "ok s \<Longrightarrow> wr_list a bs s = Some s' \<Longrightarrow> length bs \<le> 2 ^ 32 \<Longrightarrow> i < length bs \<Longrightarrow>
   rd s' (a + of_nat i) = Some (bs ! i)"
proof (induction bs arbitrary: a s i)
  case (Cons b bs)
  obtain t where t: "wr a b s = Some t" "wr_list (a + 1) bs t = Some s'"
    using Cons.prems(2) by (auto split: option.splits)
  have okt: "ok t" by (rule wr_ok[OF Cons.prems(1) t(1)])
  show ?case
  proof (cases i)
    case 0
    have "a \<noteq> (a + 1) + of_nat j" if "j < length bs" for j
    proof
      assume "a = (a + 1) + of_nat j"
      then have "of_nat (Suc j) = (0 :: dword_t)" by (simp add: add.assoc)
      then show False
        using that Cons.prems(3) unat_of_nat_dword[of "Suc j"] by (simp del: of_nat_Suc)
    qed
    then show ?thesis
      using 0 wr_list_other[OF okt t(2)] wr_same[OF Cons.prems(1) t(1)] by simp
  next
    case (Suc j)
    then show ?thesis
      using Cons.IH[OF okt t(2), of j] Cons.prems(3,4) by (simp add: add.assoc)
  qed
qed simp

end

definition poke :: "mem_id \<Rightarrow> addr_t \<Rightarrow> byte_t \<Rightarrow> vm \<Rightarrow> vm option" where
  "poke m a b v = (case mem_ptr m a MEM_WRITE v of
     (None, _) \<Rightarrow> None | (Some ptr, v) \<Rightarrow> Some (host_store ptr b v))"

lemma mem_ptr_ok:
  assumes "task_ok m v" "mem_ptr m a t v = (Some p, w)"
  shows "ptr_result v m a t p w" "task_ok m w"
  using mem_ptr_result[of v m a t p w] mem_ptr_host[of m a t v] mem_ptr_live[of m a t v m] assms
  by (auto simp: task_ok_def host_ready_def ptr_result_def)

lemma task_ok_store [simp]: "task_ok m (host_store p b v) = task_ok m v"
  by (simp add: task_ok_def)

lemma poke_guest:
  assumes v: "task_ok m v" and poke: "poke m a b v = Some w"
  shows "task_ok m w"
    and "guest w m' a' = (if m' = m \<and> a' = a then Some b
           else if m' = m \<and> PAGE a' = PAGE a \<and> vm_pt v m (PAGE a) = None then Some 0
           else guest v m' a')"
proof -
  obtain p u where u: "mem_ptr m a MEM_WRITE v = (Some p, u)" "w = host_store p b u"
    using poke by (auto simp: poke_def split: prod.splits option.splits)
  note r = mem_ptr_ok[OF v u(1)]
  show "task_ok m w" using r by (simp add: u(2))
  obtain q where q: "page_ptr u m (PAGE a) = Some q" "p = (fst q, snd q + ucast (PGOFFSET a))"
    using r(1) by (auto simp: ptr_result_def addr_ptr_def)
  show "guest w m' a' = (if m' = m \<and> a' = a then Some b
      else if m' = m \<and> PAGE a' = PAGE a \<and> vm_pt v m (PAGE a) = None then Some 0
      else guest v m' a')"
    using r(1) guest_store[of u m a q b m' a'] q by (simp add: u(2) ptr_result_def)
qed

lemma guest_hole: "vm_pt v m (PAGE a) = None \<Longrightarrow> guest v m a = None"
  by (simp add: guest_def page_ptr_def)

interpretation task_memory: byte_memory "task_ok m" "\<lambda>v. guest v m" "poke m" for m
  by unfold_locales (auto simp: poke_guest guest_hole)

lemma user_write_wr_list:
  "user_write_task m a bs v = (0, w) \<longleftrightarrow> task_memory.wr_list m a bs v = Some w"
  by (induction bs arbitrary: a v) (auto simp: poke_def split: prod.splits option.splits)

lemma user_write_ok: "task_ok m v \<Longrightarrow> user_write_task m a bs v = (0, w) \<Longrightarrow> task_ok m w"
  using task_memory.wr_list_ok by (auto simp: user_write_wr_list)

lemma user_write_code: "fst (user_write_task m a bs v) \<in> {0, 1}"
  by (induction bs arbitrary: a v) (auto split: prod.splits option.splits)

text \<open>Reading mapped memory changes nothing.\<close>

lemma user_read_mapped:
  assumes v: "wf_vm v" and mapped: "\<And>i. i < n \<Longrightarrow> guest v m (a + of_nat i) \<noteq> None"
  shows "user_read_task m a n v = (0, map (\<lambda>i. the (guest v m (a + of_nat i))) [0..<n], v)"
  using mapped
proof (induction n arbitrary: a)
  case (Suc n)
  have g: "guest v m a \<noteq> None" using Suc.prems[of 0] by simp
  then obtain e where e: "vm_pt v m (PAGE a) = Some e" using guest_None_iff[OF v] by auto
  obtain q where q: "page_ptr v m (PAGE a) = Some q" using page_ptr_wf[OF v e] by blast
  then have ptr: "mem_ptr m a MEM_READ v = (Some (fst q, snd q + ucast (PGOFFSET a)), v)"
    using e by (simp add: mem_ptr_def page_ptr_def)
  have ih: "user_read_task m (a + 1) n v =
      (0, map (\<lambda>i. the (guest v m (a + 1 + of_nat i))) [0..<n], v)"
    using Suc.IH[of "a + 1"] Suc.prems[of "Suc i" for i] by (simp add: add.assoc)
  have "host_load (fst q, snd q + ucast (PGOFFSET a)) v = the (guest v m a)"
    using q by (simp add: guest_def)
  then show ?case
    by (simp add: ptr ih map_upt_Suc add.assoc del: upt_Suc)
qed simp

text \<open>What was written is read back, also from a later state that shows the same
bytes there.\<close>

lemma user_write_read_back:
  assumes "task_ok m v" "user_write_task m a bs v = (0, w)" "length bs \<le> 2 ^ 32"
    and u: "wf_vm u" "\<And>i. i < length bs \<Longrightarrow> guest u m (a + of_nat i) = guest w m (a + of_nat i)"
  shows "user_read_task m a (length bs) u = (0, bs, u)"
proof -
  have wr: "task_memory.wr_list m a bs v = Some w" using assms(2) by (simp add: user_write_wr_list)
  have same: "guest u m (a + of_nat i) = Some (bs ! i)" if "i < length bs" for i
    using task_memory.wr_list_same[OF assms(1) wr assms(3) that] u(2)[OF that] by simp
  have "user_read_task m a (length bs) u = (0, map (\<lambda>i. the (guest u m (a + of_nat i))) [0..<length bs], u)"
    by (rule user_read_mapped[OF u(1)]) (simp add: same)
  moreover have "map (\<lambda>i. the (guest u m (a + of_nat i))) [0..<length bs] = bs"
    by (rule nth_equalityI) (simp_all add: same)
  ultimately show ?thesis by simp
qed

text \<open>A write and its faults leave every other address space alone.\<close>

lemma user_write_isolated:
  assumes "task_ok m v" "m' \<noteq> m"
  shows "guest (snd (user_write_task m a bs v)) m' x = guest v m' x"
  using assms(1)
proof (induction bs arbitrary: a v)
  case (Cons b bs)
  show ?case
  proof (cases "poke m a b v")
    case None
    then have "fst (mem_ptr m a MEM_WRITE v) = None"
      by (auto simp: poke_def split: prod.splits option.splits)
    then have "mem_ptr m a MEM_WRITE v = (None, v)"
      using mem_ptr_faults[of v m a MEM_WRITE] Cons.prems task_ok_ready by (auto simp: task_ok_def)
    then show ?thesis by simp
  next
    case (Some u)
    then obtain p t where "mem_ptr m a MEM_WRITE v = (Some p, t)" "u = host_store p b t"
      by (auto simp: poke_def split: prod.splits option.splits)
    then show ?thesis
      using Cons.IH[OF poke_guest(1)[OF Cons.prems Some]] poke_guest(2)[OF Cons.prems Some] assms(2)
      by simp
  qed
qed simp

subsection \<open>Strings\<close>

lemma user_read_cstring:
  assumes v: "wf_vm v" and "0 \<notin> set s" "length s < n"
    and mem: "\<And>i. i \<le> length s \<Longrightarrow> guest v m (a + of_nat i) = Some ((s @ [0]) ! i)"
  shows "read_string_loop m a n v = (0, s @ [0], v)"
  using assms(2-)
proof (induction s arbitrary: a n)
  case Nil
  then obtain k where "n = Suc k" by (cases n) auto
  then show ?case
    using user_read_mapped[OF v, of 1 m a] Nil.prems(3)[of 0] by simp
next
  case (Cons b s)
  then obtain k where n: "n = Suc k" "length s < k" by (cases n) auto
  have one: "user_read_task m a 1 v = (0, [b], v)"
    using user_read_mapped[OF v, of 1 m a] Cons.prems(3)[of 0] by simp
  have "read_string_loop m (a + 1) k v = (0, s @ [0], v)"
    using Cons.IH[where a = "a + 1" and n = k] Cons.prems(1) Cons.prems(3)[of "Suc i" for i] n by (auto simp: add.assoc)
  then show ?case using one Cons.prems(1) by (simp add: n)
qed

lemma write_string_loop_eq:
  "write_string_loop m a s v = (let (res, w) = user_write_task m a (s @ [0]) v in (if res \<noteq> 0 then 1 else 0, w))"
  by (induction s arbitrary: a v) (auto simp: Let_def split: prod.splits option.splits)

end
