(* ===== verification/Tlb.thy ===== *)
theory Tlb
  imports Usermem
begin

text \<open>
  The software TLB of the emulator (\<open>src/emu/tlb.h\<close>, \<open>src/emu/tlb.c\<close>): a
  direct-mapped cache of host addresses in front of \<open>mem_ptr\<close>. The coherence
  invariant says that every entry that can hit shows what the page table
  shows; it is preserved by every access, so an access through the TLB reads
  and writes the same bytes as one through the page table.
\<close>

subsection \<open>Definitions\<close>

text \<open>\<open>te_data_minus_addr\<close> is a host address minus a guest address, in 64-bit
arithmetic inside the host mapping.\<close>

record tlb_entry =
  te_page :: page_t
  te_page_if_writable :: page_t
  te_data_minus_addr :: hptr

abbreviation (input) TLB_BITS :: nat where "TLB_BITS \<equiv> 10"
abbreviation (input) TLB_SIZE :: dword_t where "TLB_SIZE \<equiv> 0x400"
abbreviation (input) TLB_PAGE_EMPTY :: page_t where "TLB_PAGE_EMPTY \<equiv> 1"

record tlb =
  tlb_mem :: mem_id
  tlb_dirty_page :: page_t
  tlb_entries :: "dword_t \<Rightarrow> tlb_entry"

definition TLB_INDEX :: "addr_t \<Rightarrow> dword_t" where
  "TLB_INDEX addr = (drop_bit PAGE_BITS addr AND (TLB_SIZE - 1)) XOR drop_bit (PAGE_BITS + TLB_BITS) addr"

definition TLB_PAGE :: "addr_t \<Rightarrow> page_t" where
  "TLB_PAGE addr = addr AND 0xfffff000"

definition tlb_flush :: "tlb \<Rightarrow> tlb" where
  "tlb_flush tlb = tlb\<lparr>tlb_entries := (\<lambda>i. if i < TLB_SIZE
     then \<lparr>te_page = 1, te_page_if_writable = 1, te_data_minus_addr = (0, 0)\<rparr>
     else tlb_entries tlb i)\<rparr>"

definition tlb_init :: "mem_id \<Rightarrow> tlb \<Rightarrow> tlb" where
  "tlb_init mem tlb = tlb_flush (tlb\<lparr>tlb_mem := mem, tlb_dirty_page := TLB_PAGE_EMPTY\<rparr>)"

definition entry_address :: "tlb_entry \<Rightarrow> addr_t \<Rightarrow> hptr" where
  "entry_address entry addr =
    (fst (te_data_minus_addr entry), snd (te_data_minus_addr entry) + ucast addr)"

definition tlb_handle_miss ::
  "addr_t \<Rightarrow> access \<Rightarrow> tlb \<times> vm \<Rightarrow> hptr option \<times> tlb \<times> vm" where
  "tlb_handle_miss addr type = (\<lambda>(tlb, v).
    (case mem_ptr (tlb_mem tlb) (TLB_PAGE addr) type v of
       (None, v) \<Rightarrow> (None, tlb, v)
     | (Some ptr, v) \<Rightarrow>
         (let page = TLB_PAGE addr;
              ent = \<lparr>te_page = page,
                     te_page_if_writable = (if type = MEM_WRITE then page else TLB_PAGE_EMPTY),
                     te_data_minus_addr = (fst ptr, snd ptr - ucast page)\<rparr>
          in (Some (entry_address ent addr),
              tlb\<lparr>tlb_dirty_page := page,
                  tlb_entries := (tlb_entries tlb)(TLB_INDEX addr := ent)\<rparr>, v))))"

definition tlb_read_ptr :: "addr_t \<Rightarrow> tlb \<times> vm \<Rightarrow> hptr option \<times> tlb \<times> vm" where
  "tlb_read_ptr addr = (\<lambda>(tlb, v).
    (let entry = tlb_entries tlb (TLB_INDEX addr)
     in if te_page entry = TLB_PAGE addr then (Some (entry_address entry addr), tlb, v)
        else tlb_handle_miss addr MEM_READ (tlb, v)))"

definition tlb_write_ptr :: "addr_t \<Rightarrow> tlb \<times> vm \<Rightarrow> hptr option \<times> tlb \<times> vm" where
  "tlb_write_ptr addr = (\<lambda>(tlb, v).
    (let entry = tlb_entries tlb (TLB_INDEX addr)
     in if te_page_if_writable entry = TLB_PAGE addr
        then (Some (entry_address entry addr), tlb\<lparr>tlb_dirty_page := TLB_PAGE addr\<rparr>, v)
        else tlb_handle_miss addr MEM_WRITE (tlb, v)))"

text \<open>\<open>memcpy\<close> from and to host memory.\<close>

definition host_loads :: "hptr \<Rightarrow> nat \<Rightarrow> vm \<Rightarrow> byte_t list" where
  "host_loads p n v = map (\<lambda>i. host_load (fst p, snd p + of_nat i) v) [0..<n]"

fun host_stores :: "hptr \<Rightarrow> byte_t list \<Rightarrow> vm \<Rightarrow> vm" where
  "host_stores p [] v = v"
| "host_stores p (b # bs) v = host_stores (fst p, snd p + 1) bs (host_store p b v)"

text \<open>The first address of the next page.\<close>

definition next_page :: "addr_t \<Rightarrow> addr_t" where
  "next_page addr = push_bit PAGE_BITS (PAGE addr + 1)"

definition tlb_read_cross_page :: "addr_t \<Rightarrow> nat \<Rightarrow> tlb \<times> vm \<Rightarrow> byte_t list option \<times> tlb \<times> vm" where
  "tlb_read_cross_page addr len s0 =
    (case tlb_read_ptr addr s0 of
       (ptr1, s1) \<Rightarrow>
    (case tlb_read_ptr (next_page addr) s1 of
       (ptr2, s2) \<Rightarrow>
    (case (ptr1, ptr2) of
       (Some p1, Some p2) \<Rightarrow>
         (let part1 = unat (PAGE_SIZE - PGOFFSET addr)
          in (Some (host_loads p1 part1 (snd s2) @ host_loads p2 (len - part1) (snd s2)), s2))
     | _ \<Rightarrow> (None, s2))))"

definition tlb_write_cross_page :: "addr_t \<Rightarrow> byte_t list \<Rightarrow> tlb \<times> vm \<Rightarrow> bool \<times> tlb \<times> vm" where
  "tlb_write_cross_page addr val s0 =
    (case tlb_write_ptr addr s0 of
       (ptr1, s1) \<Rightarrow>
    (case tlb_write_ptr (next_page addr) s1 of
       (ptr2, s2) \<Rightarrow>
    (case (ptr1, ptr2) of
       (Some p1, Some p2) \<Rightarrow>
         (let part1 = unat (PAGE_SIZE - PGOFFSET addr)
          in (True, fst s2, host_stores p2 (drop part1 val) (host_stores p1 (take part1 val) (snd s2))))
     | _ \<Rightarrow> (False, s2))))"

text \<open>\<open>tlb_read\<close> and \<open>tlb_write\<close>: \<open>len\<close> and the length of \<open>val\<close> are the C
parameter \<open>size\<close>.\<close>

definition tlb_read :: "addr_t \<Rightarrow> nat \<Rightarrow> tlb \<times> vm \<Rightarrow> byte_t list option \<times> tlb \<times> vm" where
  "tlb_read addr len s =
    (if PGOFFSET addr > PAGE_SIZE - of_nat len then tlb_read_cross_page addr len s
     else case tlb_read_ptr addr s of
            (None, s) \<Rightarrow> (None, s)
          | (Some ptr, s) \<Rightarrow> (Some (host_loads ptr len (snd s)), s))"

definition tlb_write :: "addr_t \<Rightarrow> byte_t list \<Rightarrow> tlb \<times> vm \<Rightarrow> bool \<times> tlb \<times> vm" where
  "tlb_write addr val s =
    (if PGOFFSET addr > PAGE_SIZE - of_nat (length val) then tlb_write_cross_page addr val s
     else case tlb_write_ptr addr s of
            (None, s) \<Rightarrow> (False, s)
          | (Some ptr, s) \<Rightarrow> (True, fst s, host_stores ptr val (snd s)))"

subsection \<open>Indices and pages\<close>

lemma TLB_INDEX_less: "TLB_INDEX addr < TLB_SIZE"
proof -
  have "take_bit 10 (TLB_INDEX addr) = TLB_INDEX addr"
    by (rule bit_eqI) (auto simp: bit_take_bit_iff TLB_INDEX_def bit_xor_iff bit_and_iff
        bit_drop_bit_eq bit_mask_numerals dest: bit_imp_le_length)
  then have "unat (TLB_INDEX addr) < 2 ^ 10"
    by (metis take_bit_nat_less_exp unsigned_take_bit_eq)
  then show ?thesis by (simp add: word_less_nat_alt)
qed

lemma PAGE_TLB_PAGE [simp]: "PAGE (TLB_PAGE a) = PAGE a"
  by (rule bit_eqI) (auto simp: PAGE_def TLB_PAGE_def bit_drop_bit_eq bit_and_iff bit_mask_numerals
      dest: bit_imp_le_length)

lemma PGOFFSET_TLB_PAGE [simp]: "PGOFFSET (TLB_PAGE a) = 0"
  by (rule bit_eqI) (auto simp: PGOFFSET_def TLB_PAGE_def bit_and_iff bit_mask_numerals)

lemma TLB_PAGE_eq_iff: "TLB_PAGE a = TLB_PAGE b \<longleftrightarrow> PAGE a = PAGE b"
  by (metis PAGE_TLB_PAGE PGOFFSET_TLB_PAGE addr_eqI)

lemma TLB_INDEX_PAGE: "TLB_INDEX a = (PAGE a AND 0x3ff) XOR drop_bit 10 (PAGE a)"
  by (simp add: TLB_INDEX_def PAGE_def)

lemma TLB_INDEX_cong: "PAGE a = PAGE b \<Longrightarrow> TLB_INDEX a = TLB_INDEX b"
  by (simp add: TLB_INDEX_PAGE)

lemma TLB_PAGE_not_empty: "TLB_PAGE a \<noteq> 1"
proof
  assume "TLB_PAGE a = 1"
  then have "PGOFFSET 1 = 0" by (metis PGOFFSET_TLB_PAGE)
  then show False by (simp add: PGOFFSET_def)
qed

lemma addr_split: "TLB_PAGE a + PGOFFSET a = a"
proof -
  have "TLB_PAGE a + PGOFFSET a = TLB_PAGE a OR PGOFFSET a"
    by (rule disjunctive_add) (auto simp: TLB_PAGE_def PGOFFSET_def bit_and_iff bit_mask_numerals)
  also have "\<dots> = a"
    by (rule bit_eqI) (auto simp: TLB_PAGE_def PGOFFSET_def bit_or_iff bit_and_iff bit_mask_numerals
        dest: bit_imp_le_length)
  finally show ?thesis .
qed

lemma ucast_addr: "(ucast a :: qword_t) = ucast (TLB_PAGE a) + ucast (PGOFFSET a)"
proof -
  have "(ucast (TLB_PAGE a) + ucast (PGOFFSET a) :: qword_t) = ucast (TLB_PAGE a) OR ucast (PGOFFSET a)"
    by (rule disjunctive_add)
      (auto simp: TLB_PAGE_def PGOFFSET_def bit_ucast_iff bit_and_iff bit_mask_numerals)
  also have "\<dots> = ucast a"
    by (rule bit_eqI) (auto simp: TLB_PAGE_def PGOFFSET_def bit_or_iff bit_ucast_iff bit_and_iff
        bit_mask_numerals dest: bit_imp_le_length)
  finally show ?thesis by simp
qed

lemma unat_PAGE: "unat (PAGE a) = unat a div 4096"
  by (simp add: PAGE_def unat_drop_bit_eq drop_bit_nat_def)

lemma unat_PGOFFSET: "unat (PGOFFSET a) = unat a mod 4096"
proof -
  have "PGOFFSET a = take_bit 12 a" by (simp add: PGOFFSET_def take_bit_eq_mask mask_eq_exp_minus_1)
  then show ?thesis by (simp add: unsigned_take_bit_eq take_bit_nat_def)
qed

text \<open>Addresses inside one page.\<close>

lemma addr_in_page:
  assumes "unat (PGOFFSET a) + i < 4096"
  shows "PAGE (a + of_nat i) = PAGE a"
    and "unat (PGOFFSET (a + of_nat i)) = unat (PGOFFSET a) + i"
    and "(ucast (PGOFFSET (a + of_nat i)) :: qword_t) = ucast (PGOFFSET a) + of_nat i"
proof -
  have i: "unat a mod 4096 + i < 4096" using assms by (simp add: unat_PGOFFSET)
  have "unat a div 4096 < 1048576"
    using unat_less_numeral_power[of a] by (simp add: div_less_iff_less_mult)
  moreover have "unat a = 4096 * (unat a div 4096) + unat a mod 4096" by simp
  ultimately have lt: "unat a + i < 4294967296" using i by linarith
  then have sum: "unat (a + of_nat i) = unat a + i"
    by (simp add: unat_word_ariths unat_of_nat_dword)
  have "(unat a + i) div 4096 = unat a div 4096" "(unat a + i) mod 4096 = unat a mod 4096 + i"
    using i by (metis div_add1_eq div_less mod_add_left_eq add.right_neutral div_mod_decomp
      add.assoc div_mult_self3 zero_neq_numeral, metis i mod_add_left_eq mod_less)
  then have "unat (PAGE (a + of_nat i)) = unat (PAGE a)"
    "unat (PGOFFSET (a + of_nat i)) = unat (PGOFFSET a) + i"
    by (simp_all add: unat_PAGE unat_PGOFFSET sum)
  moreover have "unat (of_nat i :: qword_t) = i"
    using i by (simp add: unsigned_of_nat take_bit_nat_eq_self)
  ultimately show "PAGE (a + of_nat i) = PAGE a"
    "unat (PGOFFSET (a + of_nat i)) = unat (PGOFFSET a) + i"
    "(ucast (PGOFFSET (a + of_nat i)) :: qword_t) = ucast (PGOFFSET a) + of_nat i"
    using assms by (simp_all add: word_unat_eq_iff unat_ucast_qword unat_word_ariths)
qed

lemma next_page_TLB_PAGE: "next_page a = TLB_PAGE a + 4096"
proof -
  have "TLB_PAGE a = push_bit 12 (PAGE a)"
    by (rule bit_eqI) (auto simp: TLB_PAGE_def PAGE_def bit_and_iff bit_push_bit_iff
        bit_drop_bit_eq bit_mask_numerals dest: bit_imp_le_length)
  then show ?thesis by (simp add: next_page_def push_bit_eq_mult algebra_simps)
qed

lemma next_page_addr: "next_page a = a + of_nat (4096 - unat (PGOFFSET a))"
proof -
  have "unat (PGOFFSET a) \<le> 4096" by (simp add: unat_PGOFFSET less_imp_le)
  then have "(of_nat (4096 - unat (PGOFFSET a)) :: dword_t) = 4096 - PGOFFSET a"
    by (simp add: of_nat_diff)
  moreover have "a + (4096 - PGOFFSET a) = TLB_PAGE a + PGOFFSET a + (4096 - PGOFFSET a)"
    by (simp only: addr_split)
  ultimately show ?thesis by (simp add: next_page_TLB_PAGE)
qed

lemma PGOFFSET_next_page [simp]: "PGOFFSET (next_page a) = 0"
  by (rule bit_eqI) (auto simp: PGOFFSET_def next_page_def bit_and_iff bit_mask_numerals
      bit_push_bit_iff)

lemma PAGE_next_page: "PAGE (next_page a) \<noteq> PAGE a"
proof
  assume "PAGE (next_page a) = PAGE a"
  then have "TLB_PAGE (next_page a) = TLB_PAGE a" by (simp add: TLB_PAGE_eq_iff)
  then have "next_page a = TLB_PAGE a" using addr_split[of "next_page a"] by simp
  moreover note next_page_TLB_PAGE[of a]
  ultimately show False by simp
qed

subsection \<open>Coherence\<close>

definition tlb_entry_ok :: "vm \<Rightarrow> mem_id \<Rightarrow> dword_t \<Rightarrow> tlb_entry \<Rightarrow> bool" where
  "tlb_entry_ok v m i ent \<longleftrightarrow>
    (te_page ent \<noteq> TLB_PAGE_EMPTY \<longrightarrow> (\<exists>a. te_page ent = TLB_PAGE a \<and> TLB_INDEX a = i \<and>
       page_ptr v m (PAGE a) = Some (fst (te_data_minus_addr ent),
         snd (te_data_minus_addr ent) + ucast (TLB_PAGE a)))) \<and>
    (te_page_if_writable ent \<noteq> TLB_PAGE_EMPTY \<longrightarrow> te_page_if_writable ent = te_page ent \<and>
       (\<exists>e. vm_pt v m (PAGE (te_page ent)) = Some e \<and> writable_entry e))"

definition tlb_ok :: "tlb \<Rightarrow> vm \<Rightarrow> bool" where
  "tlb_ok tlb v \<longleftrightarrow> task_ok (tlb_mem tlb) v \<and>
     (\<forall>i < TLB_SIZE. tlb_entry_ok v (tlb_mem tlb) i (tlb_entries tlb i))"

lemma tlb_ok_entry:
  "tlb_ok tlb v \<Longrightarrow> tlb_entry_ok v (tlb_mem tlb) (TLB_INDEX a) (tlb_entries tlb (TLB_INDEX a))"
  by (simp add: tlb_ok_def TLB_INDEX_less)

lemma tlb_ok_flush: "task_ok m v \<Longrightarrow> tlb_ok (tlb_init m tlb) v"
  by (simp add: tlb_ok_def tlb_init_def tlb_flush_def tlb_entry_ok_def)

lemma entry_address_hit:
  assumes "tlb_entry_ok v m i ent" "te_page ent = TLB_PAGE a"
  shows "addr_ptr v m a = Some (entry_address ent a)"
proof -
  obtain b where b: "te_page ent = TLB_PAGE b" "page_ptr v m (PAGE b) =
      Some (fst (te_data_minus_addr ent), snd (te_data_minus_addr ent) + ucast (TLB_PAGE b))"
    using assms TLB_PAGE_not_empty[of a] unfolding tlb_entry_ok_def by metis
  then have "PAGE b = PAGE a" "TLB_PAGE b = TLB_PAGE a"
    using assms(2) TLB_PAGE_eq_iff by metis+
  then show ?thesis
    using b(2) by (simp add: addr_ptr_def entry_address_def ucast_addr[of a] add.assoc)
qed

text \<open>\<open>mem_ptr\<close> keeps every other page, and a page it returns for writing may be
written.\<close>

lemma mem_ptr_kept:
  assumes v: "task_ok m v" and ptr: "mem_ptr m a t v = (r, w)" and k: "k \<noteq> (m, PAGE a)"
  shows "kept v w k"
proof -
  have v': "wf_vm v" "vm_mems v m \<noteq> None" "host_ready v"
    using v task_ok_ready by (auto simp: task_ok_def)
  show ?thesis
  proof (rule mem_ptr_cases[OF v', where a = a and t = t])
    fix e
    assume "vm_pt v m (PAGE a) = Some e"
      and "mem_ptr m a t v = (addr_ptr (cow_break m (PAGE a) e v) m a, cow_break m (PAGE a) e v)"
    then show ?thesis using cow_break_facts(3)[OF v'(1) _ v'(3)] ptr k by auto
  next
    assume "mem_ptr m a t v = (addr_ptr (grown m (PAGE a) v) m a, grown m (PAGE a) v)"
    moreover have "(1 :: pages_t) < MEM_PAGES" "(1 :: pages_t) \<noteq> 0" by simp_all
    ultimately show ?thesis
      using pt_map_nothing_facts(4)[OF v'(1,2) in_space_single[OF PAGE_less] _ _ v'(3)] ptr k
      by (auto simp: grown_def PAGE_less)
  qed (use ptr in auto)
qed

lemma writable_map_entry:
  "f AND 2 \<noteq> 0 \<Longrightarrow> writable_entry (map_entry d s (f AND NOT P_COW) p)"
  "writable_entry (map_entry d s 74 p)"
proof -
  have "bit (f AND NOT 16) 1 = bit f 1" "\<not> bit (f AND NOT 16 :: dword_t) 4"
    by (simp_all add: bit_and_iff bit_not_iff)
  then show "f AND 2 \<noteq> 0 \<Longrightarrow> writable_entry (map_entry d s (f AND NOT P_COW) p)"
    using and_exp_eq_0_iff_not_bit[of f 1] and_exp_eq_0_iff_not_bit[of "f AND NOT 16" 1]
    by (simp add: writable_entry_def cow_entry_bit)
qed (simp add: writable_entry_def cow_entry_def)

lemma mem_ptr_writable:
  assumes v: "task_ok m v" and ptr: "mem_ptr m a MEM_WRITE v = (Some p, w)"
  shows "\<exists>e. vm_pt w m (PAGE a) = Some e \<and> writable_entry e"
proof -
  have v': "wf_vm v" "vm_mems v m \<noteq> None" "host_ready v"
    using v task_ok_ready by (auto simp: task_ok_def)
  show ?thesis
  proof (rule mem_ptr_cases[OF v', where a = a and t = MEM_WRITE])
    fix e
    assume e: "vm_pt v m (PAGE a) = Some e" "pt_flags e AND P_WRITE \<noteq> 0"
      and "mem_ptr m a MEM_WRITE v = (addr_ptr (cow_break m (PAGE a) e v) m a, cow_break m (PAGE a) e v)"
    then have "w = cow_break m (PAGE a) e v" using ptr by simp
    then show ?thesis
      using cow_break_facts(2)[OF v'(1) e(1) v'(3), of m "PAGE a"] writable_map_entry(1)[OF e(2)]
      by simp
  next
    assume "mem_ptr m a MEM_WRITE v = (addr_ptr (grown m (PAGE a) v) m a, grown m (PAGE a) v)"
    then show ?thesis
      using grown_facts(2)[OF v' PAGE_less, of a m "PAGE a"] writable_map_entry(2) ptr by auto
  qed (use ptr in auto)
qed

definition extends :: "vm \<Rightarrow> vm \<Rightarrow> bool" where
  "extends v w \<longleftrightarrow> (\<forall>m a. guest v m a \<noteq> None \<longrightarrow> guest w m a = guest v m a)"

lemma extends_refl [simp]: "extends v v"
  by (simp add: extends_def)

lemma extends_trans: "extends v w \<Longrightarrow> extends w u \<Longrightarrow> extends v u"
  by (simp add: extends_def)

text \<open>The outcome of a lookup of \<open>addr\<close> through the TLB.\<close>

definition ptr_step :: "addr_t \<Rightarrow> access \<Rightarrow> tlb \<times> vm \<Rightarrow> hptr option \<times> tlb \<times> vm \<Rightarrow> bool" where
  "ptr_step addr type s r \<longleftrightarrow>
    (let m = tlb_mem (fst s); v = snd s; p = fst r; w = snd (snd r)
     in tlb_ok (fst (snd r)) w \<and> tlb_mem (fst (snd r)) = m \<and> extends v w \<and>
        (\<forall>q. q \<noteq> PAGE addr \<longrightarrow> kept v w (m, q)) \<and>
        (case p of
           None \<Rightarrow> w = v
         | Some x \<Rightarrow> addr_ptr w m addr = Some x \<and> (type = MEM_WRITE \<longrightarrow>
             (\<exists>e. vm_pt w m (PAGE addr) = Some e \<and> writable_entry e))))"

lemma writable_exclusive:
  "task_ok m v \<Longrightarrow> vm_pt v m p = Some e \<Longrightarrow> writable_entry e \<Longrightarrow> exclusive v m p"
  using cow_ok_exclusive by (simp add: task_ok_def writable_entry_def)

lemma tlb_handle_miss_step:
  assumes ok: "tlb_ok tlb v"
  shows "ptr_step addr type (tlb, v) (tlb_handle_miss addr type (tlb, v))"
proof -
  let ?m = "tlb_mem tlb"
  have v: "task_ok ?m v" using ok by (simp add: tlb_ok_def)
  show ?thesis
  proof (cases "mem_ptr ?m (TLB_PAGE addr) type v")
    case (Pair r w)
    show ?thesis
    proof (cases r)
      case None
      then have "w = v"
        using mem_ptr_faults[of v ?m "TLB_PAGE addr" type] v Pair task_ok_ready
        by (auto simp: task_ok_def)
      then show ?thesis
        using Pair None ok by (simp add: ptr_step_def tlb_handle_miss_def)
    next
      case (Some p)
      note res = mem_ptr_ok[OF v Pair[unfolded Some]]
      have keep: "kept v w (?m, q)" if "q \<noteq> PAGE addr" for q
        using mem_ptr_kept[OF v Pair, of "(?m, q)"] that by simp
      have ext: "extends v w"
        unfolding extends_def
      proof (intro allI impI)
        fix m' a'
        assume "guest v m' a' \<noteq> None"
        then have "\<not> (m' = ?m \<and> PAGE a' = PAGE addr \<and> vm_pt v ?m (PAGE addr) = None)"
          using guest_hole by metis
        then show "guest w m' a' = guest v m' a'"
          using res(1) by (auto simp: ptr_result_def)
      qed
      have pp: "page_ptr w ?m (PAGE addr) = Some p"
        using res(1) by (cases p) (auto simp: ptr_result_def addr_ptr_def)
      define ent where "ent = \<lparr>te_page = TLB_PAGE addr,
        te_page_if_writable = (if type = MEM_WRITE then TLB_PAGE addr else TLB_PAGE_EMPTY),
        te_data_minus_addr = (fst p, snd p - ucast (TLB_PAGE addr))\<rparr>"
      have wr: "\<exists>e. vm_pt w ?m (PAGE addr) = Some e \<and> writable_entry e" if "type = MEM_WRITE"
        using mem_ptr_writable[OF v, of "TLB_PAGE addr"] Pair Some that by simp
      have new: "tlb_entry_ok w ?m (TLB_INDEX addr) ent"
        using pp wr by (auto simp: tlb_entry_ok_def ent_def)
      have old: "tlb_entry_ok w ?m i (tlb_entries tlb i)"
        if "i < TLB_SIZE" "i \<noteq> TLB_INDEX addr" for i
      proof -
        have e: "tlb_entry_ok v ?m i (tlb_entries tlb i)" using ok that by (simp add: tlb_ok_def)
        show ?thesis
        proof (cases "te_page (tlb_entries tlb i) = TLB_PAGE_EMPTY")
          case True
          then show ?thesis using e by (auto simp: tlb_entry_ok_def)
        next
          case False
          then obtain b where b: "te_page (tlb_entries tlb i) = TLB_PAGE b" "TLB_INDEX b = i"
            using e by (auto simp: tlb_entry_ok_def)
          then have "PAGE b \<noteq> PAGE addr" using TLB_INDEX_cong that(2) by blast
          then have k: "kept v w (?m, PAGE b)" by (rule keep)
          then have "page_ptr w ?m (PAGE b) = page_ptr v ?m (PAGE b)"
            "vm_pt w ?m (PAGE b) = vm_pt v ?m (PAGE b)"
            by (simp_all add: kept_def)
          moreover have "PAGE c = PAGE b" if "te_page (tlb_entries tlb i) = TLB_PAGE c" for c
            using that b(1) TLB_PAGE_eq_iff by metis
          ultimately show ?thesis
            using e b(1) unfolding tlb_entry_ok_def by (metis PAGE_TLB_PAGE)
        qed
      qed
      have addr: "addr_ptr w ?m addr = Some (entry_address ent addr)"
        by (rule entry_address_hit[OF new]) (simp add: ent_def)
      have r: "tlb_handle_miss addr type (tlb, v) = (Some (entry_address ent addr),
          tlb\<lparr>tlb_dirty_page := TLB_PAGE addr,
              tlb_entries := (tlb_entries tlb)(TLB_INDEX addr := ent)\<rparr>, w)"
        using Pair Some by (simp add: tlb_handle_miss_def ent_def Let_def)
      show ?thesis
        unfolding r ptr_step_def
        using res keep ext addr new old wr by (auto simp: tlb_ok_def ptr_result_def)
    qed
  qed
qed

lemma tlb_read_ptr_step:
  assumes ok: "tlb_ok tlb v"
  shows "ptr_step addr MEM_READ (tlb, v) (tlb_read_ptr addr (tlb, v))"
proof (cases "te_page (tlb_entries tlb (TLB_INDEX addr)) = TLB_PAGE addr")
  case True
  then show ?thesis
    using ok entry_address_hit[OF tlb_ok_entry[OF ok] True]
    by (simp add: ptr_step_def tlb_read_ptr_def)
next
  case False
  then show ?thesis using tlb_handle_miss_step[OF ok] by (simp add: tlb_read_ptr_def)
qed

lemma tlb_write_ptr_step:
  assumes ok: "tlb_ok tlb v"
  shows "ptr_step addr MEM_WRITE (tlb, v) (tlb_write_ptr addr (tlb, v))"
proof (cases "te_page_if_writable (tlb_entries tlb (TLB_INDEX addr)) = TLB_PAGE addr")
  case True
  let ?ent = "tlb_entries tlb (TLB_INDEX addr)"
  have wr: "te_page ?ent = TLB_PAGE addr"
    "\<exists>e. vm_pt v (tlb_mem tlb) (PAGE addr) = Some e \<and> writable_entry e"
    using tlb_ok_entry[OF ok, of addr] True TLB_PAGE_not_empty[of addr]
    unfolding tlb_entry_ok_def by (metis, metis PAGE_TLB_PAGE)
  then show ?thesis
    using ok entry_address_hit[OF tlb_ok_entry[OF ok] wr(1)] True
    by (simp add: ptr_step_def tlb_write_ptr_def Let_def tlb_ok_def)
next
  case False
  then show ?thesis using tlb_handle_miss_step[OF ok] by (simp add: tlb_write_ptr_def)
qed

subsection \<open>Reads and writes\<close>

definition guest_bytes :: "vm \<Rightarrow> mem_id \<Rightarrow> addr_t \<Rightarrow> nat \<Rightarrow> byte_t option list" where
  "guest_bytes v m a n = map (\<lambda>i. guest v m (a + of_nat i)) [0..<n]"

lemma guest_addr_ptr: "addr_ptr v m a = Some p \<Longrightarrow> guest v m a = Some (host_load p v)"
  by (auto simp: addr_ptr_def guest_def)

lemma addr_ptr_plus:
  assumes "unat (PGOFFSET a) + i < 4096" "addr_ptr v m a = Some p"
  shows "addr_ptr v m (a + of_nat i) = Some (fst p, snd p + of_nat i)"
  using assms addr_in_page(1,3)[OF assms(1)] by (auto simp: addr_ptr_def)

lemma host_loads_guest:
  assumes "unat (PGOFFSET a) + n \<le> 4096" "addr_ptr v m a = Some p"
  shows "map Some (host_loads p n v) = guest_bytes v m a n"
proof -
  have "guest v m (a + of_nat i) = Some (host_load (fst p, snd p + of_nat i) v)" if "i < n" for i
    using that assms by (intro guest_addr_ptr addr_ptr_plus) simp_all
  then show ?thesis by (simp add: host_loads_def guest_bytes_def)
qed

lemma guest_bytes_append:
  "guest_bytes v m a (i + j) = guest_bytes v m a i @ guest_bytes v m (a + of_nat i) j"
  by (rule nth_equalityI) (auto simp: guest_bytes_def nth_append add.assoc simp flip: of_nat_add)

text \<open>The test for a crossing access, for the sizes the emulator uses.\<close>

lemma cross_page_iff:
  assumes "0 < n" "n \<le> 4096"
  shows "PGOFFSET a > PAGE_SIZE - of_nat n \<longleftrightarrow> 4096 < unat (PGOFFSET a) + n"
proof -
  have "unat (PAGE_SIZE - of_nat n) = 4096 - n"
    using assms by (simp add: unat_sub word_le_nat_alt unat_of_nat_dword)
  then show ?thesis using assms by (auto simp: word_less_nat_alt)
qed

lemma addr_ptr_kept: "kept v w (m, PAGE a) \<Longrightarrow> addr_ptr w m a = addr_ptr v m a"
  by (simp add: kept_def addr_ptr_def)

lemma tlb_read_single:
  assumes ok: "tlb_ok tlb v" and n: "0 < n" "n \<le> 4096" "unat (PGOFFSET a) + n \<le> 4096"
    and r: "tlb_read a n (tlb, v) = (Some bs, tlb', w)"
  shows "tlb_ok tlb' w \<and> tlb_mem tlb' = tlb_mem tlb \<and> extends v w \<and>
    map Some bs = guest_bytes w (tlb_mem tlb) a n"
proof -
  have "\<not> PGOFFSET a > PAGE_SIZE - of_nat n" using cross_page_iff[OF n(1,2)] n(3) by simp
  then obtain p where p: "tlb_read_ptr a (tlb, v) = (Some p, tlb', w)" "bs = host_loads p n w"
    using r by (auto simp: tlb_read_def split: prod.splits option.splits)
  then show ?thesis
    using tlb_read_ptr_step[OF ok, of a] host_loads_guest[OF n(3), of w "tlb_mem tlb" p]
    by (simp add: ptr_step_def Let_def)
qed

lemma tlb_read_cross:
  assumes ok: "tlb_ok tlb v" and n: "0 < n" "n \<le> 4096" "4096 < unat (PGOFFSET a) + n"
    and r: "tlb_read a n (tlb, v) = (Some bs, tlb', w)"
  shows "tlb_ok tlb' w \<and> tlb_mem tlb' = tlb_mem tlb \<and> extends v w \<and>
    map Some bs = guest_bytes w (tlb_mem tlb) a n"
proof -
  let ?m = "tlb_mem tlb" and ?k = "4096 - unat (PGOFFSET a)"
  have off: "unat (PGOFFSET a) < 4096" by (simp add: unat_PGOFFSET)
  have part: "unat (PAGE_SIZE - PGOFFSET a) = ?k"
    using off by (simp add: unat_sub word_le_nat_alt)
  have "PGOFFSET a > PAGE_SIZE - of_nat n" using cross_page_iff[OF n(1,2)] n(3) by simp
  then have r': "tlb_read_cross_page a n (tlb, v) = (Some bs, tlb', w)"
    using r by (simp add: tlb_read_def)
  obtain o1 t1 v1 where s1: "tlb_read_ptr a (tlb, v) = (o1, t1, v1)" by (cases "tlb_read_ptr a (tlb, v)") auto
  obtain o2 t2 v2 where s2: "tlb_read_ptr (next_page a) (t1, v1) = (o2, t2, v2)"
    by (cases "tlb_read_ptr (next_page a) (t1, v1)") auto
  obtain p1 p2 where p: "o1 = Some p1" "o2 = Some p2" "tlb' = t2" "w = v2"
    "bs = host_loads p1 ?k w @ host_loads p2 (n - ?k) w"
    using r' s1 s2 by (auto simp: tlb_read_cross_page_def part Let_def split: option.splits)
  have st1: "ptr_step a MEM_READ (tlb, v) (Some p1, t1, v1)"
    using tlb_read_ptr_step[OF ok, of a] s1 p by simp
  then have ok1: "tlb_ok t1 v1" "tlb_mem t1 = ?m" "addr_ptr v1 ?m a = Some p1" "extends v v1"
    by (simp_all add: ptr_step_def Let_def)
  have st2: "ptr_step (next_page a) MEM_READ (t1, v1) (Some p2, t2, v2)"
    using tlb_read_ptr_step[OF ok1(1), of "next_page a"] s2 p by simp
  then have ok2: "tlb_ok t2 v2" "tlb_mem t2 = ?m" "addr_ptr v2 ?m (next_page a) = Some p2"
    "extends v1 v2" "kept v1 v2 (?m, PAGE a)"
    using PAGE_next_page[of a] ok1(2) by (simp_all add: ptr_step_def Let_def)
  have "map Some (host_loads p1 ?k v2) = guest_bytes v2 ?m a ?k"
    by (rule host_loads_guest) (use off ok1(3) addr_ptr_kept[OF ok2(5)] in simp_all)
  moreover have "map Some (host_loads p2 (n - ?k) v2) = guest_bytes v2 ?m (next_page a) (n - ?k)"
    by (rule host_loads_guest) (use n ok2(3) in simp_all)
  moreover have "n = ?k + (n - ?k)" using n(3) off by simp
  ultimately have "map Some bs = guest_bytes w ?m a n"
    using guest_bytes_append[of w ?m a ?k "n - ?k"] p by (simp add: next_page_addr)
  then show ?thesis using ok2 p extends_trans[OF ok1(4) ok2(4)] by simp
qed

lemma addr_ptr_store [simp]: "addr_ptr (host_store p b v) m a = addr_ptr v m a"
  by (simp add: addr_ptr_def)

lemma host_stores_frame [simp]:
  "vm_pt (host_stores p bs v) m q = vm_pt v m q" "page_ptr (host_stores p bs v) m q = page_ptr v m q"
  "task_ok m (host_stores p bs v) = task_ok m v" "exclusive (host_stores p bs v) m q = exclusive v m q"
  "addr_ptr (host_stores p bs v) m a = addr_ptr v m a"
  by (induction bs arbitrary: p v) simp_all

lemma tlb_ok_stores [simp]: "tlb_ok tlb (host_stores p bs v) = tlb_ok tlb v"
  by (simp add: tlb_ok_def tlb_entry_ok_def)

text \<open>The guest's memory with the bytes \<open>bs\<close> written at \<open>a\<close>.\<close>

definition written :: "mem_id \<Rightarrow> addr_t \<Rightarrow> byte_t list \<Rightarrow> vm \<Rightarrow> vm \<Rightarrow> bool" where
  "written m a bs v w \<longleftrightarrow>
    (\<forall>i < length bs. guest w m (a + of_nat i) = Some (bs ! i)) \<and>
    (\<forall>m' a'. (m' \<noteq> m \<or> (\<forall>i < length bs. a' \<noteq> a + of_nat i)) \<longrightarrow> guest w m' a' = guest v m' a')"

lemma offset_ne:
  assumes "unat (PGOFFSET a) + i < 4096" "j < i"
  shows "a + of_nat j \<noteq> a + of_nat i"
proof
  assume "a + of_nat j = a + of_nat i"
  then have "(of_nat j :: dword_t) = of_nat i" by simp
  then show False using assms unat_of_nat_dword[of i] unat_of_nat_dword[of j] by simp
qed

lemma host_stores_written:
  assumes "task_ok m v" "exclusive v m (PAGE a)" "addr_ptr v m a = Some p"
    "unat (PGOFFSET a) + length bs \<le> 4096"
  shows "written m a bs v (host_stores p bs v)"
  using assms
proof (induction bs arbitrary: a p v)
  case (Cons b bs)
  let ?v = "host_store p b v"
  obtain q where q: "page_ptr v m (PAGE a) = Some q" "p = (fst q, snd q + ucast (PGOFFSET a))"
    using Cons.prems(3) by (auto simp: addr_ptr_def)
  have st: "guest ?v m' a' = (if m' = m \<and> a' = a then Some b else guest v m' a')" for m' a'
    unfolding q(2) by (rule guest_store) (use Cons.prems q in \<open>simp_all add: task_ok_def\<close>)
  show ?case
  proof (cases bs)
    case Nil
    then show ?thesis by (simp add: written_def st)
  next
    case (Cons c cs)
    have off: "unat (PGOFFSET a) + 1 < 4096" using Cons Cons.prems(4) by simp
    have page: "PAGE (a + 1) = PAGE a" using addr_in_page(1)[OF off] by simp
    have "unat (PGOFFSET (a + 1)) = unat (PGOFFSET a) + 1"
      using addr_in_page(2)[OF off] by simp
    then have w: "written m (a + 1) bs ?v (host_stores (fst p, snd p + 1) bs ?v)"
      using Cons.prems page addr_ptr_plus[OF off Cons.prems(3)]
      by (intro Cons.IH) simp_all
    let ?w = "host_stores p (b # bs) v"
    have ne: "a \<noteq> (a + 1) + of_nat j" if "j < length bs" for j
      using offset_ne[of a "Suc j" 0] Cons.prems(4) that by (simp add: add.assoc)
    have "guest ?w m a = Some b"
      using w ne by (simp add: written_def st)
    moreover have "guest ?w m (a + of_nat (Suc j)) = Some (bs ! j)" if "j < length bs" for j
      using w that by (simp add: written_def add.assoc)
    ultimately have "guest ?w m (a + of_nat i) = Some ((b # bs) ! i)" if "i < length (b # bs)" for i
      using that by (cases i) simp_all
    moreover have "guest ?w m' a' = guest v m' a'"
      if "m' \<noteq> m \<or> (\<forall>i < length (b # bs). a' \<noteq> a + of_nat i)" for m' a'
    proof -
      have "m' \<noteq> m \<or> a' \<noteq> a" using that by force
      moreover have "m' \<noteq> m \<or> (\<forall>j < length bs. a' \<noteq> (a + 1) + of_nat j)"
      proof (rule disjCI, rule ccontr)
        assume "\<not> m' \<noteq> m" "\<not> (\<forall>j < length bs. a' \<noteq> (a + 1) + of_nat j)"
        then obtain j where "j < length bs" "a' = a + of_nat (Suc j)" "m' = m" by (auto simp: add.assoc)
        then show False using that by (metis Suc_mono length_Cons)
      qed
      ultimately show ?thesis using w st[of m' a'] unfolding written_def by auto
    qed
    ultimately show ?thesis by (simp add: written_def)
  qed
qed (simp add: written_def)

lemma written_append:
  assumes "written m a xs v w" "written m (a + of_nat (length xs)) ys w u"
    and "length xs + length ys \<le> 4096"
  shows "written m a (xs @ ys) v u"
proof -
  have ne: "a + of_nat i \<noteq> a + of_nat (length xs) + of_nat j" if "i < length xs" "j < length ys" for i j
  proof
    assume "a + of_nat i = a + of_nat (length xs) + of_nat j"
    then have "(of_nat i :: dword_t) = of_nat (length xs + j)" by (simp add: add.assoc)
    then show False
      using that assms(3) unat_of_nat_dword[of i] unat_of_nat_dword[of "length xs + j"] by simp
  qed
  have "guest u m (a + of_nat i) = Some ((xs @ ys) ! i)" if i: "i < length (xs @ ys)" for i
  proof (cases "i < length xs")
    case True
    then have "guest u m (a + of_nat i) = guest w m (a + of_nat i)"
      using assms(2) ne unfolding written_def by blast
    then show ?thesis using assms(1) True by (simp add: written_def nth_append)
  next
    case False
    define j where "j = i - length xs"
    have j: "i = length xs + j" "j < length ys" using i False by (simp_all add: j_def)
    have "guest u m (a + of_nat (length xs) + of_nat j) = Some (ys ! j)"
      using assms(2) j(2) unfolding written_def by blast
    then show ?thesis by (simp add: j(1) add.assoc)
  qed
  moreover have "guest u m' a' = guest v m' a'"
    if o: "m' \<noteq> m \<or> (\<forall>i < length (xs @ ys). a' \<noteq> a + of_nat i)" for m' a'
  proof -
    have "m' \<noteq> m \<or> (\<forall>i < length xs. a' \<noteq> a + of_nat i)" using o by auto
    moreover have "m' \<noteq> m \<or> (\<forall>j < length ys. a' \<noteq> a + of_nat (length xs) + of_nat j)"
    proof (rule disjCI)
      assume "\<not> (\<forall>j < length ys. a' \<noteq> a + of_nat (length xs) + of_nat j)"
      then obtain j where j: "j < length ys" "a' = a + of_nat (length xs + j)"
        by (auto simp: add.assoc)
      then have "length xs + j < length (xs @ ys)" by simp
      then show "m' \<noteq> m" using o j(2) by blast
    qed
    ultimately have "guest u m' a' = guest w m' a'" "guest w m' a' = guest v m' a'"
      using assms(1,2) unfolding written_def by blast+
    then show ?thesis by simp
  qed
  ultimately show ?thesis unfolding written_def by blast
qed

lemma tlb_write_written:
  assumes ok: "tlb_ok tlb v" and n: "0 < length bs" "length bs \<le> 4096"
    and r: "tlb_write a bs (tlb, v) = (True, tlb', w)"
  shows "tlb_ok tlb' w \<and> tlb_mem tlb' = tlb_mem tlb \<and>
    (\<exists>u. extends v u \<and> written (tlb_mem tlb) a bs u w \<and>
       (u = snd (snd (tlb_write_ptr a (tlb, v))) \<or>
        u = snd (snd (tlb_write_ptr (next_page a) (snd (tlb_write_ptr a (tlb, v)))))))"
proof -
  let ?m = "tlb_mem tlb" and ?k = "4096 - unat (PGOFFSET a)"
  note cross = cross_page_iff[OF n, of a]
  have off: "unat (PGOFFSET a) < 4096" by (simp add: unat_PGOFFSET)
  have part: "unat (PAGE_SIZE - PGOFFSET a) = ?k"
    using off by (simp add: unat_sub word_le_nat_alt)
  show ?thesis
  proof (cases "4096 < unat (PGOFFSET a) + length bs")
    case False
    then obtain p u where p: "tlb_write_ptr a (tlb, v) = (Some p, tlb', u)" "w = host_stores p bs u"
      using r cross by (auto simp: tlb_write_def split: prod.splits option.splits)
    have st: "ptr_step a MEM_WRITE (tlb, v) (Some p, tlb', u)"
      using tlb_write_ptr_step[OF ok, of a] p by simp
    then have u: "task_ok ?m u" "addr_ptr u ?m a = Some p"
      "\<exists>e. vm_pt u ?m (PAGE a) = Some e \<and> writable_entry e"
      unfolding ptr_step_def tlb_ok_def Let_def by force+
    have "written ?m a bs u w"
      unfolding p(2)
      by (rule host_stores_written) (use False u writable_exclusive in auto)
    then show ?thesis using st p by (auto simp: ptr_step_def Let_def)
  next
    case True
    obtain o1 t1 v1 where s1: "tlb_write_ptr a (tlb, v) = (o1, t1, v1)"
      by (cases "tlb_write_ptr a (tlb, v)") auto
    obtain o2 t2 v2 where s2: "tlb_write_ptr (next_page a) (t1, v1) = (o2, t2, v2)"
      by (cases "tlb_write_ptr (next_page a) (t1, v1)") auto
    have "tlb_write_cross_page a bs (tlb, v) = (True, tlb', w)"
      using r cross True by (simp add: tlb_write_def)
    then obtain p1 p2 where p: "o1 = Some p1" "o2 = Some p2" "tlb' = t2"
      "w = host_stores p2 (drop ?k bs) (host_stores p1 (take ?k bs) v2)"
      using s1 s2 by (auto simp: tlb_write_cross_page_def part Let_def split: option.splits)
    have st1: "ptr_step a MEM_WRITE (tlb, v) (Some p1, t1, v1)"
      using tlb_write_ptr_step[OF ok, of a] s1 p by simp
    then have ok1: "tlb_ok t1 v1" "tlb_mem t1 = ?m" "addr_ptr v1 ?m a = Some p1" "extends v v1"
      "\<exists>e. vm_pt v1 ?m (PAGE a) = Some e \<and> writable_entry e"
      by (simp_all add: ptr_step_def Let_def)
    have st2: "ptr_step (next_page a) MEM_WRITE (t1, v1) (Some p2, t2, v2)"
      using tlb_write_ptr_step[OF ok1(1), of "next_page a"] s2 p by simp
    then have ok2: "tlb_ok t2 v2" "tlb_mem t2 = ?m" "addr_ptr v2 ?m (next_page a) = Some p2"
      "extends v1 v2" "kept v1 v2 (?m, PAGE a)" "\<exists>e. vm_pt v2 ?m (PAGE (next_page a)) = Some e \<and> writable_entry e"
      using PAGE_next_page[of a] ok1(2) by (simp_all add: ptr_step_def Let_def)
    have t: "task_ok ?m v2" using ok2(1,2) by (auto simp: tlb_ok_def)
    have ex: "exclusive v2 ?m (PAGE a)" "exclusive v2 ?m (PAGE (next_page a))"
      using ok1(5) ok2(6) kept_vm_pt[OF ok2(5)] writable_exclusive[OF t] by auto
    have w1: "written ?m a (take ?k bs) v2 (host_stores p1 (take ?k bs) v2)"
      using t ex addr_ptr_kept[OF ok2(5)] ok1(3) off by (intro host_stores_written) simp_all
    have "length (take ?k bs) = ?k" using True by simp
    then have np: "a + of_nat (length (take ?k bs)) = next_page a" by (simp add: next_page_addr)
    have w2: "written ?m (a + of_nat (length (take ?k bs))) (drop ?k bs)
        (host_stores p1 (take ?k bs) v2) w"
      unfolding p(4) np using t ok2(3) ex(2) n
      by (intro host_stores_written) simp_all
    have "written ?m a bs v2 w"
      using written_append[OF w1 w2] n True by simp
    moreover have "v2 = snd (snd (tlb_write_ptr (next_page a) (snd (tlb_write_ptr a (tlb, v)))))"
      by (simp add: s1 s2)
    moreover have "tlb_ok tlb' w \<and> tlb_mem tlb' = tlb_mem tlb" using ok2 p by simp
    ultimately show ?thesis using extends_trans[OF ok1(4) ok2(4)] by blast
  qed
qed

end
