(* ===== verification/Mmap.thy ===== *)
theory Mmap
  imports Tlb
begin

text \<open>
  The memory system calls (\<open>src/kernel/mmap.c\<close>). \<open>m\<close> is the address space of
  the current task. A call returns the register value of the C result. The
  file table is a parameter: \<open>files fd\<close> is \<open>None\<close> when \<open>f_get\<close> finds no file,
  \<open>Some None\<close> when the file's operations have no \<open>mmap\<close>, and otherwise the
  \<open>mmap\<close> operation of the file.
\<close>

abbreviation (input) MMAP_PRIVATE :: dword_t where "MMAP_PRIVATE \<equiv> 0x2"
abbreviation (input) MMAP_ANONYMOUS :: dword_t where "MMAP_ANONYMOUS \<equiv> 0x20"
abbreviation (input) MREMAP_MAYMOVE :: dword_t where "MREMAP_MAYMOVE \<equiv> 1"
abbreviation (input) MREMAP_FIXED :: dword_t where "MREMAP_FIXED \<equiv> 2"

type_synonym file_mmap =
  "page_t \<Rightarrow> pages_t \<Rightarrow> dword_t \<Rightarrow> dword_t \<Rightarrow> dword_t \<Rightarrow> vm \<Rightarrow> int \<times> vm"
type_synonym files = "dword_t \<Rightarrow> file_mmap option option"

definition mem_of :: "vm \<Rightarrow> mem_id \<Rightarrow> mem" where
  "mem_of v m = the (vm_mems v m)"

text \<open>The mapping itself, once the page has been chosen.\<close>

definition mmap_at ::
  "files \<Rightarrow> mem_id \<Rightarrow> page_t \<Rightarrow> pages_t \<Rightarrow> dword_t \<Rightarrow> dword_t \<Rightarrow> dword_t \<Rightarrow> dword_t \<Rightarrow> vm \<Rightarrow> addr_t \<times> vm"
where
  "mmap_at files m page pages prot flags fd_no offset v =
    (if flags AND MMAP_ANONYMOUS \<noteq> 0 then
       if flags AND MMAP_PRIVATE = 0 then (ret32 EINVAL, v)
       else case pt_map_nothing m page pages prot v of
              (err, v) \<Rightarrow> if err < 0 then (ret32 err, v) else (push_bit PAGE_BITS page, v)
     else case files fd_no of
            None \<Rightarrow> (ret32 EBADF, v)
          | Some None \<Rightarrow> (ret32 ENODEV, v)
          | Some (Some fmmap) \<Rightarrow>
              (case fmmap page pages offset prot flags v of
                 (err, v) \<Rightarrow> if err < 0 then (ret32 err, v) else (push_bit PAGE_BITS page, v)))"

definition do_mmap ::
  "files \<Rightarrow> mem_id \<Rightarrow> addr_t \<Rightarrow> dword_t \<Rightarrow> dword_t \<Rightarrow> dword_t \<Rightarrow> dword_t \<Rightarrow> dword_t \<Rightarrow> vm \<Rightarrow> addr_t \<times> vm"
where
  "do_mmap files m addr len prot flags fd_no offset v =
    (let pages = PAGE_ROUND_UP len
     in if addr = 0 then
          (let page = pt_find_hole (mem_of v m) pages
           in if page = BAD_PAGE then (ret32 ENOMEM, v)
              else mmap_at files m page pages prot flags fd_no offset v)
        else if PGOFFSET addr \<noteq> 0 then (ret32 EINVAL, v)
        else mmap_at files m (PAGE addr) pages prot flags fd_no offset v)"

definition mmap_common ::
  "files \<Rightarrow> mem_id \<Rightarrow> addr_t \<Rightarrow> dword_t \<Rightarrow> dword_t \<Rightarrow> dword_t \<Rightarrow> dword_t \<Rightarrow> dword_t \<Rightarrow> vm \<Rightarrow> addr_t \<times> vm"
where
  "mmap_common files m addr len prot flags fd_no offset v =
    (if len = 0 then (ret32 EINVAL, v)
     else if prot AND NOT (P_READ OR P_WRITE OR P_EXEC) \<noteq> 0 then (ret32 EINVAL, v)
     else do_mmap files m addr len prot flags fd_no offset v)"

definition sys_mmap2 ::
  "files \<Rightarrow> mem_id \<Rightarrow> addr_t \<Rightarrow> dword_t \<Rightarrow> dword_t \<Rightarrow> dword_t \<Rightarrow> dword_t \<Rightarrow> dword_t \<Rightarrow> vm \<Rightarrow> addr_t \<times> vm"
where
  "sys_mmap2 files m addr len prot flags fd_no offset v =
    mmap_common files m addr len prot flags fd_no (push_bit PAGE_BITS offset) v"

record mmap_arg_struct =
  arg_addr :: addr_t
  arg_len :: dword_t
  arg_prot :: dword_t
  arg_flags :: dword_t
  arg_fd :: dword_t
  arg_offset :: dword_t

definition sys_mmap :: "files \<Rightarrow> mem_id \<Rightarrow> mmap_arg_struct \<Rightarrow> vm \<Rightarrow> addr_t \<times> vm" where
  "sys_mmap files m args v =
    mmap_common files m (arg_addr args) (arg_len args) (arg_prot args) (arg_flags args)
      (arg_fd args) (arg_offset args) v"

definition sys_munmap :: "mem_id \<Rightarrow> addr_t \<Rightarrow> dword_t \<Rightarrow> vm \<Rightarrow> dword_t \<times> vm" where
  "sys_munmap m addr len v =
    (if PGOFFSET addr \<noteq> 0 then (ret32 EINVAL, v)
     else if len = 0 then (ret32 EINVAL, v)
     else case pt_unmap m (PAGE addr) (PAGE_ROUND_UP len) False v of
            (err, v) \<Rightarrow> if err < 0 then (ret32 EINVAL, v) else (0, v))"

text \<open>The check of \<open>sys_mremap\<close> that all pages have the flags of the first one,
as written: \<open>entry == NULL && entry->flags != pt_flags\<close> follows a null pointer
when a page is missing, and never looks at a page that is there.\<close>

fun mremap_check :: "mem_id \<Rightarrow> page_t list \<Rightarrow> vm \<Rightarrow> vm" where
  "mremap_check m [] v = v"
| "mremap_check m (page # pages) v =
    (let v = pt_access page v
     in if vm_pt v m page = None then v\<lparr>vm_ub := True\<rparr> else mremap_check m pages v)"

definition sys_mremap :: "mem_id \<Rightarrow> addr_t \<Rightarrow> dword_t \<Rightarrow> dword_t \<Rightarrow> dword_t \<Rightarrow> vm \<Rightarrow> dword_t \<times> vm" where
  "sys_mremap m addr old_len new_len flags v =
    (if PGOFFSET addr \<noteq> 0 then (ret32 EINVAL, v)
     else if flags AND NOT (MREMAP_MAYMOVE OR MREMAP_FIXED) \<noteq> 0 then (ret32 EINVAL, v)
     else if flags AND MREMAP_FIXED \<noteq> 0 then (ret32 EINVAL, v)
     else
       let old_pages = PAGE old_len; new_pages = PAGE new_len
       in if new_pages \<le> old_pages then
            (case pt_unmap m (PAGE addr + new_pages) (old_pages - new_pages) False v of
               (err, v) \<Rightarrow> if err < 0 then (ret32 EFAULT, v) else (addr, v))
          else case vm_pt v m (PAGE addr) of
            None \<Rightarrow> (ret32 EFAULT, v)
          | Some entry \<Rightarrow>
              (let pt_flags = pt_flags entry;
                   v = mremap_check m (page_range (PAGE addr) old_pages) v
               in if pt_flags AND P_ANON = 0 then (ret32 EFAULT, v)
                  else
                    let extra_start = PAGE addr + old_pages; extra_pages = new_pages - old_pages
                    in case pt_is_hole m extra_start extra_pages v of
                         (False, v) \<Rightarrow> (ret32 ENOMEM, v)
                       | (True, v) \<Rightarrow>
                           (case pt_map_nothing m extra_start extra_pages pt_flags v of
                              (err, v) \<Rightarrow> if err < 0 then (ret32 err, v) else (addr, v))))"

definition sys_mprotect :: "mem_id \<Rightarrow> addr_t \<Rightarrow> dword_t \<Rightarrow> dword_t \<Rightarrow> vm \<Rightarrow> dword_t \<times> vm" where
  "sys_mprotect m addr len prot v =
    (if PGOFFSET addr \<noteq> 0 then (ret32 EINVAL, v)
     else if prot AND NOT (P_READ OR P_WRITE OR P_EXEC) \<noteq> 0 then (ret32 EINVAL, v)
     else case pt_set_flags m (PAGE addr) (PAGE_ROUND_UP len) prot v of (err, v) \<Rightarrow> (ret32 err, v))"

definition sys_madvise :: "addr_t \<Rightarrow> dword_t \<Rightarrow> dword_t \<Rightarrow> vm \<Rightarrow> dword_t \<times> vm" where
  "sys_madvise addr len advice v = (0, v)"

definition sys_mbind :: "addr_t \<Rightarrow> dword_t \<Rightarrow> dword_t \<Rightarrow> addr_t \<Rightarrow> dword_t \<Rightarrow> dword_t \<Rightarrow> vm \<Rightarrow> dword_t \<times> vm"
where
  "sys_mbind addr len mode nodemask maxnode flags v = (0, v)"

definition sys_mlock :: "addr_t \<Rightarrow> dword_t \<Rightarrow> vm \<Rightarrow> dword_t \<times> vm" where
  "sys_mlock addr len v = (0, v)"

definition sys_brk :: "mem_id \<Rightarrow> addr_t \<Rightarrow> vm \<Rightarrow> addr_t \<times> vm" where
  "sys_brk m new_brk v =
    (let mem = mem_of v m; old_brk = mem_brk mem
     in if new_brk \<noteq> 0 \<and> new_brk < mem_start_brk mem then (ret32 EINVAL, v)
        else if new_brk = 0 then (old_brk, v)
        else
          let (err, v) =
            (if new_brk > old_brk then
               pt_map_nothing m (PAGE_ROUND_UP old_brk)
                 (PAGE_ROUND_UP new_brk - PAGE_ROUND_UP old_brk) P_WRITE v
             else if new_brk < old_brk then
               (0, snd (pt_unmap m (PAGE new_brk) (PAGE old_brk) True v))
             else (0, v))
          in if err < 0 then (ret32 err, v)
             else (new_brk, upd_mem m (mem_brk_update (\<lambda>_. new_brk)) v))"

end
