(* ===== verification/Demo.thy ===== *)
theory Demo
  imports Mmap
begin

text \<open>
  A small concrete system: two address spaces, the first with two writable
  anonymous pages at 0x10000, the second empty or a copy-on-write copy. The
  theorems about memory are applied to it.
\<close>

subsection \<open>Two empty address spaces\<close>

definition vm_boot :: vm where
  "vm_boot = \<lparr>vm_mems = [0 \<mapsto> mem_empty, 1 \<mapsto> mem_empty], vm_datas = (\<lambda>_. None),
     vm_regions = (\<lambda>_. None), vm_next = 2, vm_host = (\<lambda>_. None), vm_calls = 0, vm_ub = False\<rparr>"

lemma vm_boot_sel [simp]:
  "vm_mems vm_boot = [0 \<mapsto> mem_empty, 1 \<mapsto> mem_empty]" "vm_datas vm_boot d = None"
  "vm_regions vm_boot r = None" "vm_next vm_boot = 2" "vm_host vm_boot n = None"
  "vm_ub vm_boot = False" "vm_pt vm_boot m p = None"
  by (auto simp: vm_boot_def vm_pt_def split: option.splits)

lemma vm_boot_ok: "m < 2 \<Longrightarrow> task_ok m vm_boot"
  by (auto simp: task_ok_def wf_vm_def counted_def backed_def owned_def bounded_def fresh_def
      cow_ok_def less_2_cases_iff)

subsection \<open>Two pages in the first one\<close>

definition vm_demo :: vm where
  "vm_demo = snd (pt_map_nothing 0 0x10 2 P_WRITE vm_boot)"

lemma demo_range: "set (page_range 0x10 2) = {0x10, 0x11}"
  by (auto simp: page_range_def upt_rec)

lemma vm_demo_facts:
  "wf_vm vm_demo" "cow_ok vm_demo"
  "vm_pt vm_demo m q = (if m = 0 \<and> q \<in> {0x10, 0x11} then Some (map_entry 3 0x10 66 q) else None)"
  "PAGE a \<in> {0x10, 0x11} \<Longrightarrow> guest vm_demo 0 a = Some 0"
  "vm_ub vm_demo = False" "vm_mems vm_demo m = None \<longleftrightarrow> m \<noteq> 0 \<and> m \<noteq> 1"
  "vm_host vm_demo n = None"
proof -
  have v: "wf_vm vm_boot" "vm_mems vm_boot 0 \<noteq> None" "cow_ok vm_boot"
    using vm_boot_ok[of 0] by (simp_all add: task_ok_def)
  have host: "host_ready vm_boot" by (simp add: host_ready_def)
  have s: "in_space 0x10 2" "(2 :: pages_t) < MEM_PAGES" "(2 :: pages_t) \<noteq> 0" by simp_all
  note f = pt_map_nothing_facts[OF v(1,2) s host, where flags = P_WRITE, folded vm_demo_def,
      unfolded demo_range]
  show "wf_vm vm_demo" "vm_ub vm_demo = False"
    "PAGE a \<in> {0x10, 0x11} \<Longrightarrow> guest vm_demo 0 a = Some 0"
    using f by simp_all
  show "vm_pt vm_demo m q = (if m = 0 \<and> q \<in> {0x10, 0x11} then Some (map_entry 3 0x10 66 q) else None)"
    using f(3)[of m q] by simp
  show "cow_ok vm_demo"
    unfolding vm_demo_def by (rule cow_ok_map_nothing(1)[OF v(1,2) s host v(3)])
  show "vm_mems vm_demo m = None \<longleftrightarrow> m \<noteq> 0 \<and> m \<noteq> 1" "vm_host vm_demo n = None"
    by (auto simp: vm_demo_def)
qed

lemma vm_demo_ok: "m < 2 \<Longrightarrow> task_ok m vm_demo"
  by (auto simp: task_ok_def vm_demo_facts less_2_cases_iff)

subsection \<open>Writing what may be written\<close>

definition can_write :: "vm \<Rightarrow> mem_id \<Rightarrow> addr_t \<Rightarrow> bool" where
  "can_write v m a \<longleftrightarrow> (\<exists>e. vm_pt v m (PAGE a) = Some e \<and> pt_flags e AND P_WRITE \<noteq> 0)"

lemma poke_can_write:
  assumes v: "task_ok m v" and a: "can_write v m a"
  obtains w where "poke m a b v = Some w" "task_ok m w"
    "\<And>a'. can_write v m a' \<Longrightarrow> can_write w m a'"
proof -
  have "\<not> faults v m a MEM_WRITE" using a by (auto simp: can_write_def faults_def)
  then have "fst (mem_ptr m a MEM_WRITE v) \<noteq> None"
    using mem_ptr_faults(1)[of v m a MEM_WRITE] v task_ok_ready[OF v] unfolding task_ok_def by blast
  then obtain p u where p: "mem_ptr m a MEM_WRITE v = (Some p, u)" by (metis option.exhaust prod.exhaust_sel)
  then have poke: "poke m a b v = Some (host_store p b u)" by (simp add: poke_def)
  have "can_write (host_store p b u) m a'" if "can_write v m a'" for a'
  proof (cases "PAGE a' = PAGE a")
    case True
    then show ?thesis
      using mem_ptr_writable[OF v p] by (auto simp: can_write_def writable_entry_def)
  next
    case False
    then show ?thesis
      using mem_ptr_kept[OF v p, of "(m, PAGE a')"] that by (simp add: can_write_def kept_def)
  qed
  then show thesis using that poke poke_guest(1)[OF v poke] by blast
qed

lemma user_write_succeeds:
  assumes "task_ok m v" "\<And>i. i < length bs \<Longrightarrow> can_write v m (a + of_nat i)"
  shows "\<exists>w. user_write_task m a bs v = (0, w)"
  using assms
proof (induction bs arbitrary: a v)
  case (Cons b bs)
  have "can_write v m a" using Cons.prems(2)[of 0] by simp
  then obtain u where u: "poke m a b v = Some u" "task_ok m u"
    "\<And>a'. can_write v m a' \<Longrightarrow> can_write u m a'"
    using poke_can_write[OF Cons.prems(1)] by blast
  have "can_write u m (a + 1 + of_nat i)" if "i < length bs" for i
    using u(3) Cons.prems(2)[of "Suc i"] that by (simp add: add.assoc)
  then obtain w where "user_write_task m (a + 1) bs u = (0, w)" using Cons.IH[OF u(2)] by blast
  then show ?case using u(1) by (auto simp: poke_def split: prod.splits option.splits)
qed simp

lemma demo_can_write: "PAGE a \<in> {0x10, 0x11} \<Longrightarrow> can_write vm_demo 0 a"
  by (auto simp: can_write_def vm_demo_facts)

lemma demo_write: "\<exists>w. user_write_task 0 0x10ffe [1, 2, 3, 4] vm_demo = (0, w)"
proof (rule user_write_succeeds[OF vm_demo_ok])
  fix i
  assume "i < length [1, 2, 3, 4 :: byte_t]"
  then have "i \<in> {0, 1, 2, 3}" by auto
  then show "can_write vm_demo 0 (0x10ffe + of_nat i)"
    by (intro demo_can_write) (auto simp: PAGE_def)
qed simp

subsection \<open>A TLB in front of it\<close>

definition tlb_demo :: tlb where
  "tlb_demo = tlb_init 0 \<lparr>tlb_mem = 0, tlb_dirty_page = 1,
     tlb_entries = (\<lambda>_. \<lparr>te_page = 1, te_page_if_writable = 1, te_data_minus_addr = (0, 0)\<rparr>)\<rparr>"

lemma tlb_demo_ok: "tlb_ok tlb_demo vm_demo"
  unfolding tlb_demo_def by (rule tlb_ok_flush) (rule vm_demo_ok, simp)

lemma tlb_miss_some:
  assumes "tlb_ok tlb v" "can_write v (tlb_mem tlb) a"
  shows "fst (tlb_handle_miss a t (tlb, v)) \<noteq> None"
proof -
  have v: "task_ok (tlb_mem tlb) v" using assms(1) by (simp add: tlb_ok_def)
  have "\<not> faults v (tlb_mem tlb) (TLB_PAGE a) t" using assms(2) by (auto simp: can_write_def faults_def)
  then have "fst (mem_ptr (tlb_mem tlb) (TLB_PAGE a) t v) \<noteq> None"
    using mem_ptr_faults(1)[of v "tlb_mem tlb" "TLB_PAGE a" t] v task_ok_ready[OF v]
    unfolding task_ok_def by blast
  then show ?thesis by (auto simp: tlb_handle_miss_def Let_def split: prod.splits option.splits)
qed

lemma tlb_ptr_some:
  assumes "tlb_ok tlb v" "can_write v (tlb_mem tlb) a"
  shows "fst (tlb_read_ptr a (tlb, v)) \<noteq> None" "fst (tlb_write_ptr a (tlb, v)) \<noteq> None"
  using tlb_miss_some[OF assms] by (simp_all add: tlb_read_ptr_def tlb_write_ptr_def Let_def)

lemma tlb_demo_mem [simp]: "tlb_mem tlb_demo = 0"
  by (simp add: tlb_demo_def tlb_init_def tlb_flush_def)

subsection \<open>A forked copy\<close>

definition vm_forked :: vm where
  "vm_forked = snd (pt_copy_on_write 0 0x10 1 0x10 1 vm_demo)"

lemma fork_range: "set (page_range 0x10 1) = {0x10}"
  by (auto simp: page_range_def upt_rec)

lemma vm_forked_step:
  "vm_forked = upd_mem 1 mem_changed (upd_mem 0 mem_changed (cow_page 0 1 (0x10, 0x10) vm_demo))"
  by (simp add: vm_forked_def pt_copy_on_write_def page_range_def upt_rec)

lemma vm_forked_facts:
  "wf_vm vm_forked" "cow_ok vm_forked" "vm_host vm_forked n = None"
  "vm_mems vm_forked m = None \<longleftrightarrow> m \<noteq> 0 \<and> m \<noteq> 1"
  "vm_pt vm_forked m q =
     (if q = 0x10 \<and> (m = 0 \<or> m = 1) then Some (cow_flags (map_entry 3 0x10 66 0x10))
      else vm_pt vm_demo m q)"
proof -
  have e: "vm_pt vm_demo 0 0x10 = Some (map_entry 3 0x10 66 0x10)" by (simp add: vm_demo_facts)
  have live: "vm_mems vm_demo 1 \<noteq> None" by (simp add: vm_demo_facts)
  have lt: "(0x10 :: page_t) < MEM_PAGES" by simp
  note f = cow_page_facts[OF vm_demo_facts(1,2) live zero_neq_one lt lt e]
  show "wf_vm vm_forked" "cow_ok vm_forked"
    using f(1,2) by (simp_all add: vm_forked_step wf)
  show "vm_mems vm_forked m = None \<longleftrightarrow> m \<noteq> 0 \<and> m \<noteq> 1"
    using f(7) by (simp add: vm_forked_step vm_demo_facts(6))
  show "vm_pt vm_forked m q = (if q = 0x10 \<and> (m = 0 \<or> m = 1)
      then Some (cow_flags (map_entry 3 0x10 66 0x10)) else vm_pt vm_demo m q)"
    using f(4)[of m q] by (auto simp: vm_forked_step lookups)
  show "vm_host vm_forked n = None"
    using e by (simp add: vm_forked_step cow_page_eq vm_demo_facts)
qed

lemma vm_forked_ok: "m < 2 \<Longrightarrow> task_ok m vm_forked"
  by (auto simp: task_ok_def vm_forked_facts less_2_cases_iff)

end
