(* ===== verification/Memory_Props.thy ===== *)
theory Memory_Props
  imports Demo
begin

text \<open>
  What the memory subsystem guarantees: the properties of the page table, of
  access to guest memory, of the TLB and of the memory system calls, each
  with an application to the concrete systems of the theory Demo.
\<close>

subsection \<open>Mapping and unmapping\<close>

lemma pt_unmap_spec:
  assumes "wf_vm v" "in_space start pages" "pt_unmap m start pages force v = (r, w)"
  shows "if force \<or> (\<forall>p \<in> set (page_range start pages). vm_pt v m p \<noteq> None)
    then r = 0 \<and> wf_vm w \<and> vm_ub w = vm_ub v \<and> (\<forall>m' a. guest w m' a =
      (if m' = m \<and> PAGE a \<in> set (page_range start pages) then None else guest v m' a))
    else r = - 1 \<and> w = v"
proof (cases "force \<or> (\<forall>p \<in> set (page_range start pages). vm_pt v m p \<noteq> None)")
  case True
  then have r: "fst (pt_unmap m start pages force v) = 0"
    by (simp add: pt_unmap_in_space[OF assms(2)])
  have w: "w = snd (pt_unmap m start pages force v)" using assms(3) by simp
  have "guest w m' a = (if m' = m \<and> PAGE a \<in> set (page_range start pages) then None else guest v m' a)"
    for m' a
  proof (cases "m' = m \<and> PAGE a \<in> set (page_range start pages)")
    case True
    then show ?thesis
      using pt_unmap_pt[OF assms(2) r, of m' "PAGE a"] by (simp add: w guest_hole)
  next
    case False
    then have "(m', PAGE a) \<notin> Pair m ` set (page_range start pages)" by auto
    from kept_guest[OF kept_pt_unmap[OF assms(1,2) this, of force]] show ?thesis
      unfolding if_not_P[OF False] w .
  qed
  moreover have "wf_vm w" unfolding w by (rule wf_pt_unmap[OF assms(1)])
  moreover have "vm_ub w = vm_ub v" unfolding w by (rule pt_unmap_ub[OF assms(1,2)])
  moreover have "r = 0" using r assms(3) by simp
  ultimately show ?thesis unfolding if_P[OF True] by blast
next
  case False
  show ?thesis
    using assms(3) unfolding pt_unmap_in_space[OF assms(2)] if_not_P[OF False] by simp
qed

text \<open>C25. \<open>pt_unmap\<close> is all or nothing: without force, a range with a hole in
it is refused with -1 and the state does not change; otherwise every page of
the range is gone, every other page of every address space keeps its bytes
even where it shares a mapping with a page that went, the reference counts
stay exact and no freed mapping is touched.\<close>
theorem pt_unmap_all_or_nothing:
  assumes "wf_vm v" "in_space start pages" "pt_unmap m start pages force v = (r, w)"
  shows "if force \<or> (\<forall>p \<in> set (page_range start pages). vm_pt v m p \<noteq> None)
    then r = 0 \<and> wf_vm w \<and> vm_ub w = vm_ub v \<and> (\<forall>m' a. guest w m' a =
      (if m' = m \<and> PAGE a \<in> set (page_range start pages) then None else guest v m' a))
    else r = - 1 \<and> w = v"
  by (rule pt_unmap_spec[OF assms])

theorem pt_unmap_all_or_nothing_witness:
  "pt_unmap 0 0x11 1 False vm_demo = (0, snd (pt_unmap 0 0x11 1 False vm_demo)) \<and>
   guest (snd (pt_unmap 0 0x11 1 False vm_demo)) 0 0x11000 = None \<and>
   guest (snd (pt_unmap 0 0x11 1 False vm_demo)) 0 0x10000 = Some 0 \<and>
   pt_unmap 0 0x11 2 False vm_demo = (- 1, vm_demo)"
proof -
  have r: "set (page_range 0x11 1) = {0x11}" "set (page_range 0x11 2) = {0x11, 0x12}"
    by (auto simp: page_range_def upt_rec)
  obtain a b where ab: "pt_unmap 0 0x11 1 False vm_demo = (a, b)" by (cases "pt_unmap 0 0x11 1 False vm_demo")
  obtain c d where cd: "pt_unmap 0 0x11 2 False vm_demo = (c, d)" by (cases "pt_unmap 0 0x11 2 False vm_demo")
  have s: "in_space 0x11 1" "in_space 0x11 2" by simp_all
  show ?thesis
    using pt_unmap_all_or_nothing[OF vm_demo_facts(1) s(1) ab]
      pt_unmap_all_or_nothing[OF vm_demo_facts(1) s(2) cd] vm_demo_facts(4)[where a = "0x10000"]
    by (simp add: ab cd r vm_demo_facts(3) PAGE_def)
qed

text \<open>\<open>pt_map_nothing\<close> replaces the range by zeroed memory and changes no
other byte of any address space; reference counts stay exact.\<close>
lemma pt_map_nothing_zeroed:
  fixes flags :: dword_t
  assumes "wf_vm v" "cow_ok v" "vm_mems v m \<noteq> None" "host_ready v"
    and "in_space start pages" "pages < MEM_PAGES" "pages \<noteq> 0"
    and "pt_map_nothing m start pages flags v = (r, w)"
  shows "r = 0 \<and> wf_vm w \<and> cow_ok w \<and> vm_ub w = vm_ub v \<and> (\<forall>m' a. guest w m' a =
    (if m' = m \<and> PAGE a \<in> set (page_range start pages) then Some 0 else guest v m' a))"
proof -
  note f = pt_map_nothing_facts[OF assms(1,3,5-7,4), where flags = flags]
  have w: "r = fst (pt_map_nothing m start pages flags v)" "w = snd (pt_map_nothing m start pages flags v)"
    using assms(8) by simp_all
  have "guest w m' a = (if m' = m \<and> PAGE a \<in> set (page_range start pages) then Some 0 else guest v m' a)"
    for m' a
    using f(5)[of a] kept_guest[OF f(4)[of "(m', PAGE a)"]] by (auto simp: w)
  then show ?thesis
    using f(1,2,6) cow_ok_map_nothing(1)[OF assms(1,3,5-7,4,2)] by (simp add: w)
qed

lemma pt_map_nothing_zeroed_witness:
  "\<exists>w. pt_map_nothing 1 0x20 1 P_WRITE vm_demo = (0, w) \<and> guest w 1 0x20004 = Some 0 \<and>
     guest w 0 0x10000 = Some 0"
proof -
  obtain r w where rw: "pt_map_nothing 1 0x20 1 P_WRITE vm_demo = (r, w)"
    by (cases "pt_map_nothing 1 0x20 1 P_WRITE vm_demo")
  have "vm_mems vm_demo 1 \<noteq> None" "host_ready vm_demo" "in_space 0x20 1" "(1 :: pages_t) < MEM_PAGES"
    "(1 :: pages_t) \<noteq> 0"
    by (simp_all add: vm_demo_facts host_ready_def)
  moreover have "set (page_range 0x20 1) = {0x20}" by (auto simp: page_range_def upt_rec)
  ultimately show ?thesis
    using pt_map_nothing_zeroed[OF vm_demo_facts(1,2) _ _ _ _ _ rw] rw vm_demo_facts(4)[where a = "0x10000"]
    by (simp add: PAGE_def)
qed

text \<open>\<open>pt_find_hole\<close> returns the highest run of \<open>len\<close> unmapped pages that
starts above page 0x40000 and ends at or below page 0xf7ffe, and \<open>BAD_PAGE\<close>
exactly when there is none.\<close>
lemma pt_find_hole_greatest:
  assumes "0 < len"
  shows "if pt_find_hole mem len = BAD_PAGE then \<forall>s. \<not> hole_at mem len s
    else hole_at mem len (pt_find_hole mem len) \<and>
      (\<forall>s. pt_find_hole mem len < s \<longrightarrow> \<not> hole_at mem len s)"
  by (rule pt_find_hole_spec[OF assms])

lemma pt_find_hole_greatest_witness:
  "hole_at mem_empty 2 0xf7ffc \<and> \<not> hole_at mem_empty 2 0xf7ffd"
  using pt_find_hole_greatest[of 2 mem_empty] by (simp add: find_hole_empty)

subsection \<open>Fork\<close>

text \<open>C24. \<open>pt_copy_on_write\<close> over the whole address space, as fork calls it: the
child sees exactly the parent's bytes (and keeps its own where the parent has
none), nobody else sees a difference, the reference counts stay exact and
every page that is now shared is marked copy-on-write.\<close>
theorem fork_shares_memory:
  assumes "wf_vm v" "cow_ok v" "vm_mems v child \<noteq> None" "parent \<noteq> child"
    and "pt_copy_on_write parent 0 child 0 MEM_PAGES v = (r, w)"
  shows "r = 0 \<and> wf_vm w \<and> cow_ok w \<and> vm_ub w = vm_ub v \<and> (\<forall>m a. guest w m a =
    (if m = child \<and> guest v parent a \<noteq> None then guest v parent a else guest v m a))"
proof -
  note f = pt_copy_on_write_facts[OF assms(1-4) in_space_all]
  have w: "w = snd (pt_copy_on_write parent 0 child 0 MEM_PAGES v)" "r = 0"
    using assms(5) by (simp_all add: pt_copy_on_write_def)
  have "guest w m a = (if m = child \<and> guest v parent a \<noteq> None then guest v parent a else guest v m a)"
    for m a
    using f(4)[of m a] guest_None_iff[OF assms(1), of parent a] set_page_range_all[OF PAGE_less, of a]
    by (auto simp: w)
  then show ?thesis using f(1-3) by (simp add: w)
qed

theorem fork_shares_memory_witness:
  "\<exists>w. pt_copy_on_write 0 0 1 0 MEM_PAGES vm_demo = (0, w) \<and> guest w 1 0x10000 = Some 0"
proof -
  obtain r w where rw: "pt_copy_on_write 0 0 1 0 MEM_PAGES vm_demo = (r, w)"
    by (cases "pt_copy_on_write 0 0 1 0 MEM_PAGES vm_demo")
  have "vm_mems vm_demo 1 \<noteq> None" by (simp add: vm_demo_facts)
  then show ?thesis
    using fork_shares_memory[OF vm_demo_facts(1,2) _ zero_neq_one rw] rw vm_demo_facts(4)[where a = "0x10000"]
    by (simp add: PAGE_def)
qed

subsection \<open>Access to guest memory\<close>

text \<open>The repairs of \<open>mem_ptr\<close> are invisible: a pointer it returns shows
the byte the guest had there (zero on a page by which a stack grows down),
no other byte of any address space changes, and no other page shows the host
memory behind a pointer returned for writing; without a pointer nothing
changes, and that happens exactly on a page that is neither mapped nor below a
growing region, or on a write to a page without write permission.\<close>
lemma mem_ptr_transparent:
  assumes "task_ok m v" "mem_ptr m a t v = (p, w)"
  shows "(p = None \<longleftrightarrow> faults v m a t) \<and> (p = None \<longrightarrow> w = v) \<and>
    (\<forall>q. p = Some q \<longrightarrow> wf_vm w \<and> cow_ok w \<and> vm_ub w = vm_ub v \<and> addr_ptr w m a = Some q \<and>
       (t = MEM_WRITE \<longrightarrow> exclusive w m (PAGE a)) \<and>
       (\<forall>m' a'. guest w m' a' = (if m' = m \<and> PAGE a' = PAGE a \<and> vm_pt v m (PAGE a) = None
          then Some 0 else guest v m' a')))"
proof -
  have v: "wf_vm v" "vm_mems v m \<noteq> None" "host_ready v"
    using assms(1) task_ok_ready by (auto simp: task_ok_def)
  show ?thesis
    using mem_ptr_faults[OF v, of a t] mem_ptr_ok(1)[OF assms(1), of a t] assms(2)
    by (cases p) (auto simp: ptr_result_def)
qed

lemma mem_ptr_transparent_witness:
  "(\<exists>q w. mem_ptr 0 0x10004 MEM_WRITE vm_demo = (Some q, w) \<and> addr_ptr w 0 0x10004 = Some q) \<and>
   mem_ptr 1 0x10004 MEM_READ vm_boot = (None, vm_boot)"
proof -
  obtain p w where pw: "mem_ptr 0 0x10004 MEM_WRITE vm_demo = (p, w)"
    by (cases "mem_ptr 0 0x10004 MEM_WRITE vm_demo")
  obtain q u where qu: "mem_ptr 1 0x10004 MEM_READ vm_boot = (q, u)"
    by (cases "mem_ptr 1 0x10004 MEM_READ vm_boot")
  have "\<not> faults vm_demo 0 0x10004 MEM_WRITE" by (simp add: faults_def vm_demo_facts PAGE_def)
  moreover have "next_mapped vm_boot 1 (PAGE 0x10004 + 1) = None" by (simp add: next_mapped_None)
  then have "faults vm_boot 1 0x10004 MEM_READ" by (simp add: faults_def grows_def)
  ultimately show ?thesis
    using mem_ptr_transparent[OF vm_demo_ok pw] mem_ptr_transparent[OF vm_boot_ok qu] pw qu
    by (cases p) auto
qed

text \<open>What \<open>user_write\<close> reports as written is read back by \<open>user_read\<close>, byte
for byte and without touching the state, for buffers of up to the whole address
space.\<close>
lemma user_write_read:
  assumes "task_ok m v" "user_write_task m a bs v = (0, w)" "length bs \<le> 2 ^ 32"
  shows "user_read_task m a (length bs) w = (0, bs, w)"
  by (rule user_write_read_back[OF assms]) (use user_write_ok[OF assms(1,2)] in \<open>simp_all add: task_ok_def\<close>)

lemma user_write_read_witness:
  "\<exists>w. user_write_task 0 0x10ffe [1, 2, 3, 4] vm_demo = (0, w) \<and>
     user_read_task 0 0x10ffe 4 w = (0, [1, 2, 3, 4], w)"
proof -
  obtain w where w: "user_write_task 0 0x10ffe [1, 2, 3, 4] vm_demo = (0, w)"
    using demo_write by blast
  have "user_read_task 0 0x10ffe (length [1, 2, 3, 4 :: byte_t]) w = (0, [1, 2, 3, 4], w)"
    by (rule user_write_read[OF vm_demo_ok w]) simp_all
  moreover have "length [1, 2, 3, 4 :: byte_t] = 4" by simp
  ultimately show ?thesis using w by metis
qed

text \<open>A string written by \<open>user_write_string\<close> is read back by
\<open>user_read_string\<close> with its terminator, whenever the reader's buffer has room.\<close>
lemma user_string_roundtrip:
  assumes "task_ok m v" "user_write_string m a s v = (0, w)" "0 \<notin> set s"
    and "length s < maxlen" "length s < 2 ^ 32"
  shows "user_read_string m a maxlen w = (0, s @ [0], w)"
proof -
  have a: "a \<noteq> 0" and wr: "user_write_task m a (s @ [0]) v = (0, w)"
    using assms(2) by (auto simp: user_write_string_def write_string_loop_eq split: prod.splits if_splits)
  have wr': "task_memory.wr_list m a (s @ [0]) v = Some w" using wr by (simp add: user_write_wr_list)
  have "guest w m (a + of_nat i) = Some ((s @ [0]) ! i)" if "i \<le> length s" for i
    by (rule task_memory.wr_list_same[OF assms(1) wr']) (use that assms(5) in simp_all)
  moreover have "wf_vm w" using user_write_ok[OF assms(1) wr] by (simp add: task_ok_def)
  ultimately show ?thesis
    using a assms(3,4) by (simp add: user_read_string_def user_read_cstring)
qed

lemma user_string_roundtrip_witness:
  "\<exists>w. user_write_string 0 0x10ffe [0x68, 0x69, 0x21] vm_demo = (0, w) \<and>
     user_read_string 0 0x10ffe 16 w = (0, [0x68, 0x69, 0x21, 0], w)"
proof -
  have "\<exists>w. user_write_task 0 0x10ffe [0x68, 0x69, 0x21, 0] vm_demo = (0, w)"
  proof (rule user_write_succeeds[OF vm_demo_ok])
    fix i
    assume "i < length [0x68, 0x69, 0x21, 0 :: byte_t]"
    then have "i \<in> {0, 1, 2, 3}" by auto
    then show "can_write vm_demo 0 (0x10ffe + of_nat i)"
      by (intro demo_can_write) (auto simp: PAGE_def)
  qed simp
  then obtain w where w: "user_write_string 0 0x10ffe [0x68, 0x69, 0x21] vm_demo = (0, w)"
    by (auto simp: user_write_string_def write_string_loop_eq)
  show ?thesis using user_string_roundtrip[OF vm_demo_ok w, of 16] w by simp
qed

subsection \<open>The TLB\<close>

text \<open>C4. The TLB is coherent for reads: \<open>tlb_read\<close> returns the bytes that
\<open>user_read\<close> finds in the page table, also across a page boundary, hit or miss;
the coherence invariant survives and no mapped byte changes.\<close>
theorem tlb_read_coherent:
  assumes "tlb_ok tlb v" "0 < n" "n \<le> 4096" "tlb_read a n (tlb, v) = (Some bs, tlb', w)"
  shows "tlb_ok tlb' w \<and> extends v w \<and> user_read_task (tlb_mem tlb) a n w = (0, bs, w)"
proof -
  have r: "tlb_ok tlb' w \<and> tlb_mem tlb' = tlb_mem tlb \<and> extends v w \<and>
    map Some bs = guest_bytes w (tlb_mem tlb) a n"
    using tlb_read_single[OF assms(1-3) _ assms(4)] tlb_read_cross[OF assms(1-3) _ assms(4)]
    by linarith
  then have len: "length bs = n" by (metis guest_bytes_def length_map diff_zero length_upt)
  have nth: "guest w (tlb_mem tlb) (a + of_nat i) = Some (bs ! i)" if "i < n" for i
    using r that len by (metis (no_types, lifting) guest_bytes_def nth_map add_0 diff_zero length_upt nth_upt)
  have "wf_vm w" using r by (simp add: tlb_ok_def task_ok_def)
  then have "user_read_task (tlb_mem tlb) a n w =
      (0, map (\<lambda>i. the (guest w (tlb_mem tlb) (a + of_nat i))) [0..<n], w)"
    by (rule user_read_mapped) (simp add: nth)
  moreover have "map (\<lambda>i. the (guest w (tlb_mem tlb) (a + of_nat i))) [0..<n] = bs"
    by (rule nth_equalityI) (simp_all add: nth len)
  ultimately show ?thesis using r by simp
qed

theorem tlb_read_coherent_witness:
  "\<exists>bs tlb w. tlb_read 0x10010 4 (tlb_demo, vm_demo) = (Some bs, tlb, w) \<and> tlb_ok tlb w \<and>
     user_read_task 0 0x10010 4 w = (0, bs, w)"
proof -
  have "PAGE 0x10010 = 0x10" "PGOFFSET 0x10010 = 0x10" by (simp_all add: PAGE_def PGOFFSET_def)
  moreover from this obtain p t u where "tlb_read_ptr 0x10010 (tlb_demo, vm_demo) = (Some p, t, u)"
    using tlb_ptr_some(1)[OF tlb_demo_ok, of "0x10010"] demo_can_write[of "0x10010"]
    by (metis insertI1 option.exhaust prod.exhaust_sel tlb_demo_mem)
  ultimately obtain bs tlb w where r: "tlb_read 0x10010 4 (tlb_demo, vm_demo) = (Some bs, tlb, w)"
    by (simp add: tlb_read_def)
  show ?thesis using tlb_read_coherent[OF tlb_demo_ok _ _ r] r by (auto simp: tlb_demo_def tlb_init_def tlb_flush_def)
qed

text \<open>C3. The TLB is coherent for writes: after \<open>tlb_write\<close> the bytes are read
back through the page table, also across a page boundary; every other mapped
byte of every address space is unchanged and the invariant survives.\<close>
theorem tlb_write_coherent:
  assumes "tlb_ok tlb v" "0 < length bs" "length bs \<le> 4096"
    and "tlb_write a bs (tlb, v) = (True, tlb', w)"
  shows "tlb_ok tlb' w \<and> user_read_task (tlb_mem tlb) a (length bs) w = (0, bs, w) \<and>
    (\<forall>m' a' c. (m' \<noteq> tlb_mem tlb \<or> (\<forall>i < length bs. a' \<noteq> a + of_nat i)) \<longrightarrow>
       guest v m' a' = Some c \<longrightarrow> guest w m' a' = Some c)"
proof -
  obtain u where u: "tlb_ok tlb' w" "extends v u" "written (tlb_mem tlb) a bs u w"
    using tlb_write_written[OF assms] by blast
  have nth: "guest w (tlb_mem tlb) (a + of_nat i) = Some (bs ! i)" if "i < length bs" for i
    using u(3) that by (simp add: written_def)
  have "wf_vm w" using u(1) by (simp add: tlb_ok_def task_ok_def)
  then have "user_read_task (tlb_mem tlb) a (length bs) w =
      (0, map (\<lambda>i. the (guest w (tlb_mem tlb) (a + of_nat i))) [0..<length bs], w)"
    by (rule user_read_mapped) (simp add: nth)
  moreover have "map (\<lambda>i. the (guest w (tlb_mem tlb) (a + of_nat i))) [0..<length bs] = bs"
    by (rule nth_equalityI) (simp_all add: nth)
  moreover have "guest w m' a' = Some c"
    if "m' \<noteq> tlb_mem tlb \<or> (\<forall>i < length bs. a' \<noteq> a + of_nat i)" "guest v m' a' = Some c" for m' a' c
    using u(2,3) that unfolding written_def extends_def by (metis option.distinct(1))
  ultimately show ?thesis using u(1) by (intro conjI allI impI) (simp, simp, blast)
qed

theorem tlb_write_coherent_witness:
  "\<exists>tlb w. tlb_write 0x10010 [1, 2, 3, 4] (tlb_demo, vm_demo) = (True, tlb, w) \<and> tlb_ok tlb w \<and>
     user_read_task 0 0x10010 4 w = (0, [1, 2, 3, 4], w)"
proof -
  have "PAGE 0x10010 = 0x10" "PGOFFSET 0x10010 = 0x10" by (simp_all add: PAGE_def PGOFFSET_def)
  moreover from this obtain p t u where "tlb_write_ptr 0x10010 (tlb_demo, vm_demo) = (Some p, t, u)"
    using tlb_ptr_some(2)[OF tlb_demo_ok, of "0x10010"] demo_can_write[of "0x10010"]
    by (metis insertI1 option.exhaust prod.exhaust_sel tlb_demo_mem)
  ultimately obtain tlb w where r: "tlb_write 0x10010 [1, 2, 3, 4] (tlb_demo, vm_demo) = (True, tlb, w)"
    by (simp add: tlb_write_def)
  have "user_read_task 0 0x10010 (length [1, 2, 3, 4 :: byte_t]) w = (0, [1, 2, 3, 4], w) \<and> tlb_ok tlb w"
    using tlb_write_coherent[OF tlb_demo_ok _ _ r] by (simp add: tlb_demo_def tlb_init_def tlb_flush_def del: user_read_task.simps)
  moreover have "length [1, 2, 3, 4 :: byte_t] = 4" by simp
  ultimately show ?thesis using r by metis
qed

end
