(* ===== verification/Mmap_Props.thy ===== *)
theory Mmap_Props
  imports Memory_Props
begin

text \<open>
  What the memory system calls guarantee, and four places where they do not do
  what they are meant to: a range that leaves the page directory, the shrinking
  \<open>brk\<close>, and \<open>mprotect\<close> on a page shared with a forked process.
\<close>

subsection \<open>Rounding\<close>

lemma unat_PAGE_ROUND_UP: "0 < len \<Longrightarrow> unat (PAGE_ROUND_UP len) = (unat len - 1) div 4096 + 1"
proof -
  assume "0 < len"
  then have m: "unat (len - 1) = unat len - 1" by (intro unat_pred) auto
  have "(unat len - 1) div 4096 < 1048576"
    using unat_less_numeral_power[of len] by (simp add: div_less_iff_less_mult)
  then show ?thesis
    by (simp add: PAGE_ROUND_UP_def unat_word_ariths unat_div m)
qed

text \<open>Rounding a length up to pages gives the least multiple of the page
size that covers it, for every length up to the last page boundary.\<close>
lemma page_round_up_least:
  assumes "0 < len" "len \<le> 0xfffff000"
  shows "unat len \<le> unat (BYTES_ROUND_UP len) \<and> unat (BYTES_ROUND_UP len) < unat len + 4096 \<and>
    PGOFFSET (BYTES_ROUND_UP len) = 0"
proof -
  define k where "k = (unat len - 1) div 4096 + 1"
  have len: "0 < unat len" "unat len \<le> 4294963200"
    using assms by (simp_all add: word_less_nat_alt word_le_nat_alt)
  have k: "unat len \<le> 4096 * k" "4096 * k < unat len + 4096" "k \<le> 1048575"
  proof -
    define d r where "d = (unat len - 1) div 4096" and "r = (unat len - 1) mod 4096"
    have "unat len - 1 = 4096 * d + r" "r < 4096" by (simp_all add: d_def r_def)
    then have d: "unat len = 4096 * d + r + 1" "r < 4096" using len by linarith+
    show "unat len \<le> 4096 * k" unfolding k_def d_def[symmetric] using d by simp
    show "4096 * k < unat len + 4096" unfolding k_def d_def[symmetric] using d by simp
    show "k \<le> 1048575" unfolding k_def d_def[symmetric] using d len by simp
  qed
  have "unat (PAGE_ROUND_UP len) = k" using unat_PAGE_ROUND_UP[OF assms(1)] by (simp add: k_def)
  then have u: "unat (BYTES_ROUND_UP len) = 4096 * k"
    using k(3) by (simp add: BYTES_ROUND_UP_def unsigned_push_bit_eq take_bit_nat_eq_self push_bit_nat_def)
  have "unat (PGOFFSET (BYTES_ROUND_UP len)) = 0" by (simp add: unat_PGOFFSET u)
  then show ?thesis using u k by (simp add: unat_eq_0)
qed

subsection \<open>mmap\<close>

lemma hole_at_space:
  "hole_at mem pages page \<Longrightarrow> in_space page pages \<and> pages < MEM_PAGES"
  by (auto simp: hole_at_def word_less_nat_alt)

lemma hole_at_range:
  assumes "hole_at mem pages page" "q \<in> set (page_range page pages)"
  shows "mem_pt mem q = None"
  using assms mem_page_range[of page pages q] hole_at_space[OF assms(1)] by (simp add: hole_at_def)

lemma mem_of_pt: "vm_mems v m \<noteq> None \<Longrightarrow> mem_pt (mem_of v m) q = vm_pt v m q"
  by (auto simp: mem_of_def vm_pt_def)

lemma not_BAD_PAGE: "0 < len \<Longrightarrow> pt_find_hole mem len \<noteq> BAD_PAGE \<Longrightarrow> hole_at mem len (pt_find_hole mem len)"
  using pt_find_hole_spec[of len mem] by simp

text \<open>C26. An anonymous private \<open>mmap2\<close> without a hint either finds no room and
changes nothing, or returns the page-aligned address of a range below
0xf7ffe000 in which nothing was mapped, and which now reads as zeros; nothing
else changes for any task.\<close>
theorem mmap_anonymous_fresh:
  assumes "task_ok m v" "0 < len" "prot AND NOT (P_READ OR P_WRITE OR P_EXEC) = 0"
    and "sys_mmap2 files m 0 len prot (MMAP_PRIVATE OR MMAP_ANONYMOUS) fd off v = (r, w)"
  shows "(r = ret32 ENOMEM \<and> w = v) \<or>
    (\<exists>page. r = push_bit PAGE_BITS page \<and> 0x40000 < page \<and>
      unat page + unat (PAGE_ROUND_UP len) \<le> 0xf7ffe \<and> task_ok m w \<and>
      (\<forall>m' a. if m' = m \<and> PAGE a \<in> set (page_range page (PAGE_ROUND_UP len))
         then guest v m' a = None \<and> guest w m' a = Some 0 else guest w m' a = guest v m' a))"
proof -
  define pages where "pages = PAGE_ROUND_UP len"
  define page where "page = pt_find_hole (mem_of v m) pages"
  have v: "wf_vm v" "vm_mems v m \<noteq> None" "cow_ok v" "host_ready v"
    using assms(1) task_ok_ready[OF assms(1)] by (auto simp: task_ok_def)
  have "unat pages \<noteq> 0" using unat_PAGE_ROUND_UP[OF assms(2)] by (simp add: pages_def)
  then have pos: "0 < pages" "pages \<noteq> 0" by (auto simp: word_less_nat_alt)
  have call: "(r, w) = (if page = BAD_PAGE then (ret32 ENOMEM, v)
    else case pt_map_nothing m page pages prot v of
           (err, v) \<Rightarrow> if err < 0 then (ret32 err, v) else (push_bit PAGE_BITS page, v))"
    using assms(2,3,4) by (cases "page = BAD_PAGE") (simp_all add: sys_mmap2_def mmap_common_def
        do_mmap_def mmap_at_def pages_def[symmetric] page_def[symmetric] word_gt_0 Let_def)
  show ?thesis
  proof (cases "page = BAD_PAGE")
    case True
    then show ?thesis using call by simp
  next
    case False
    then have hole: "hole_at (mem_of v m) pages page"
      using not_BAD_PAGE[OF pos(1)] by (simp add: page_def)
    note sp = hole_at_space[OF hole, THEN conjunct1] hole_at_space[OF hole, THEN conjunct2]
    obtain err u where map: "pt_map_nothing m page pages prot v = (err, u)" by (cases "pt_map_nothing m page pages prot v")
    note f = pt_map_nothing_facts[OF v(1,2) sp pos(2) v(4), where flags = prot, unfolded map fst_conv snd_conv]
    have rw: "r = push_bit PAGE_BITS page" "w = u" using call False map f(1) by simp_all
    have "task_ok m u"
      using f(2) cow_ok_map_nothing(1)[OF v(1,2) sp pos(2) v(4,3), where flags = prot]
        pt_map_nothing_live[of m page pages prot v m] pt_map_nothing_host[of m page pages prot v]
        map assms(1) by (auto simp: task_ok_def)
    moreover have "if m' = m \<and> PAGE a \<in> set (page_range page pages)
         then guest v m' a = None \<and> guest u m' a = Some 0 else guest u m' a = guest v m' a" for m' a
    proof (cases "m' = m \<and> PAGE a \<in> set (page_range page pages)")
      case True
      then have "guest v m a = None"
        using hole_at_range[OF hole] mem_of_pt[OF v(2)] by (intro guest_hole) simp
      then show ?thesis using True f(5) by simp
    next
      case False
      then have "(m', PAGE a) \<notin> Pair m ` set (page_range page pages)" by auto
      from kept_guest[OF f(4)[OF this]] show ?thesis unfolding if_not_P[OF False] .
    qed
    ultimately show ?thesis
      using hole rw by (intro disjI2 exI[of _ page]) (simp add: hole_at_def pages_def)
  qed
qed

lemma page_round_up_least_witness:
  "0x1001 \<le> unat (BYTES_ROUND_UP 0x1001) \<and> unat (BYTES_ROUND_UP 0x1001) < 0x2001"
  using page_round_up_least[of "0x1001"] by simp

lemma PGOFFSET_push [simp]: "PGOFFSET (push_bit PAGE_BITS p) = 0"
  by (rule bit_eqI) (auto simp: PGOFFSET_def bit_and_iff bit_mask_numerals bit_push_bit_iff)

lemma page_not_errno: "push_bit PAGE_BITS p \<noteq> ret32 ENOMEM"
proof
  assume "push_bit PAGE_BITS p = ret32 ENOMEM"
  then have "PGOFFSET (ret32 ENOMEM) = 0" by (metis PGOFFSET_push)
  then show False by (simp add: PGOFFSET_def ret32_def)
qed

text \<open>The result of the call in the small system, where room is never short.\<close>

theorem mmap_anonymous_fresh_witness:
  "\<exists>w page. sys_mmap2 (\<lambda>_. None) 1 0 0x1800 P_WRITE (MMAP_PRIVATE OR MMAP_ANONYMOUS) 0 0 vm_demo
     = (push_bit PAGE_BITS page, w) \<and> task_ok 1 w \<and> 0x40000 < page"
proof -
  obtain r w where rw: "sys_mmap2 (\<lambda>_. None) 1 0 0x1800 P_WRITE (MMAP_PRIVATE OR MMAP_ANONYMOUS) 0 0 vm_demo
     = (r, w)" by (metis prod.exhaust_sel)
  have "mem_pt (mem_of vm_demo 1) q = None" for q
    by (subst mem_of_pt) (simp_all add: vm_demo_facts)
  then have "hole_at (mem_of vm_demo 1) 2 0x50000" by (simp add: hole_at_def)
  then have page: "pt_find_hole (mem_of vm_demo 1) 2 \<noteq> BAD_PAGE"
    using pt_find_hole_spec[of 2 "mem_of vm_demo 1"] by (auto split: if_splits)
  have "fst (pt_map_nothing 1 (pt_find_hole (mem_of vm_demo 1) 2) 2 P_WRITE vm_demo) = 0"
    using pt_map_nothing_facts(1)[OF vm_demo_facts(1) _ _ _ _ task_ok_ready[OF vm_demo_ok],
        of 1 "pt_find_hole (mem_of vm_demo 1) 2" 2 1]
      hole_at_space[OF not_BAD_PAGE[OF _ page]] by (simp add: vm_demo_facts)
  then have "r = push_bit PAGE_BITS (pt_find_hole (mem_of vm_demo 1) 2)"
    using rw page by (simp add: sys_mmap2_def mmap_common_def do_mmap_def mmap_at_def
        PAGE_ROUND_UP_def Let_def split: prod.splits)
  then show ?thesis
    using mmap_anonymous_fresh[OF vm_demo_ok _ _ rw] rw page_not_errno by auto
qed

subsection \<open>munmap\<close>

text \<open>\<open>munmap\<close> of an aligned, non-empty range that ends inside the
address space: the call succeeds and the whole range is gone, or some page was
not mapped and the call fails with EINVAL and changes nothing.\<close>
lemma munmap_range:
  assumes "task_ok m v" "PGOFFSET addr = 0" "0 < len" "unat addr + unat len \<le> 0x100000000"
    and "sys_munmap m addr len v = (r, w)"
  shows "if \<forall>p \<in> set (page_range (PAGE addr) (PAGE_ROUND_UP len)). vm_pt v m p \<noteq> None
    then r = 0 \<and> wf_vm w \<and> vm_ub w = vm_ub v \<and> (\<forall>m' a. guest w m' a = (if m' = m \<and>
      PAGE a \<in> set (page_range (PAGE addr) (PAGE_ROUND_UP len)) then None else guest v m' a))
    else r = ret32 EINVAL \<and> w = v"
proof -
  have len: "0 < unat len" using assms(3) by (simp add: word_less_nat_alt)
  obtain q where q: "unat addr = 4096 * q"
    using assms(2) unat_PGOFFSET[of addr] by (metis mod_eq_0_iff_dvd dvdE unat_0)
  define d t where "d = (unat len - 1) div 4096" and "t = (unat len - 1) mod 4096"
  have "unat len - 1 = 4096 * d + t" "t < 4096" by (simp_all add: d_def t_def)
  then have "unat len = 4096 * d + t + 1" using len by linarith
  then have "q + (d + 1) \<le> 1048576" using assms(4) q by linarith
  then have sp: "in_space (PAGE addr) (PAGE_ROUND_UP len)"
    using q unat_PAGE_ROUND_UP[OF assms(3)] by (simp add: unat_PAGE d_def)
  obtain e u where eu: "pt_unmap m (PAGE addr) (PAGE_ROUND_UP len) False v = (e, u)"
    by (metis prod.exhaust_sel)
  have rw: "(r, w) = (if e < 0 then (ret32 EINVAL, u) else (0, u))"
    using assms(2,3,5) by (simp add: sys_munmap_def eu word_gt_0)
  have v: "wf_vm v" using assms(1) by (simp add: task_ok_def)
  show ?thesis
  proof (cases "\<forall>p \<in> set (page_range (PAGE addr) (PAGE_ROUND_UP len)). vm_pt v m p \<noteq> None")
    case True
    then show ?thesis using pt_unmap_spec[OF v sp eu] rw by simp
  next
    case False
    then have "e = - 1 \<and> u = v" using pt_unmap_spec[OF v sp eu] by auto
    then show ?thesis using rw unfolding if_not_P[OF False] by simp
  qed
qed

lemma munmap_range_witness:
  "\<exists>w. sys_munmap 0 0x10000 0x2000 vm_demo = (0, w) \<and> guest w 0 0x10000 = None \<and>
     sys_munmap 0 0x10000 0x3000 vm_demo = (ret32 EINVAL, vm_demo)"
proof -
  obtain r w where a: "sys_munmap 0 0x10000 0x2000 vm_demo = (r, w)" by (metis prod.exhaust_sel)
  obtain s u where b: "sys_munmap 0 0x10000 0x3000 vm_demo = (s, u)" by (metis prod.exhaust_sel)
  have o: "PGOFFSET 0x10000 = 0" "PAGE 0x10000 = 0x10" "PAGE_ROUND_UP 0x2000 = 2" "PAGE_ROUND_UP 0x3000 = 3"
    by (simp_all add: PGOFFSET_def PAGE_def PAGE_ROUND_UP_def)
  have r: "set (page_range 0x10 3) = {0x10, 0x11, 0x12}"
    by (auto simp: page_range_def upt_rec)
  have "r = 0 \<and> guest w 0 0x10000 = None"
    using munmap_range[OF vm_demo_ok o(1) _ _ a] by (simp add: o demo_range vm_demo_facts(3))
  moreover have "s = ret32 EINVAL \<and> u = vm_demo"
    using munmap_range[OF vm_demo_ok o(1) _ _ b] by (simp add: o r vm_demo_facts(3))
  ultimately show ?thesis using a b by simp
qed

text \<open>\<open>munmap\<close> does not check that the range ends inside the address
space: two pages from the last page of the address space index the page
directory out of bounds as soon as that last page is mapped.\<close>
lemma munmap_out_of_bounds:
  assumes "vm_pt v m 0xfffff \<noteq> None"
  shows "vm_ub (snd (sys_munmap m 0xfffff000 0x2000 v))"
proof -
  have o: "PGOFFSET 0xfffff000 = 0" "PAGE 0xfffff000 = 0xfffff" "PAGE_ROUND_UP 0x2000 = 2"
    by (simp_all add: PGOFFSET_def PAGE_def PAGE_ROUND_UP_def)
  have r: "page_range 0xfffff 2 = [0xfffff, 0x100000]"
    by (simp add: page_range_def upt_rec)
  have keep: "vm_ub (fold (unmap_page m) ps v)" if "vm_ub v" for ps v
    by (rule fold_invariant) (use that in \<open>auto simp: unmap_page_def data_release_def host_munmap_def
      pt_access_def Let_def split: option.splits\<close>)
  then show ?thesis
    using assms keep[of _ "[0xfffff, 0x100000]"]
    by (auto simp: sys_munmap_def o pt_unmap_def r pt_access_def Let_def simp del: fold.simps
        split: prod.splits option.splits)
qed

lemma munmap_out_of_bounds_witness:
  "vm_ub (snd (sys_munmap 0 0xfffff000 0x2000 (snd (pt_map_nothing 0 0xfffff 1 P_WRITE vm_boot))))"
proof (rule munmap_out_of_bounds)
  have t: "task_ok 0 vm_boot" by (rule vm_boot_ok) simp
  then have v: "wf_vm vm_boot" "vm_mems vm_boot 0 \<noteq> None" "host_ready vm_boot"
    using task_ok_ready[OF t] by (auto simp: task_ok_def)
  have s: "in_space 0xfffff 1" "(1 :: pages_t) < MEM_PAGES" "(1 :: pages_t) \<noteq> 0" by simp_all
  have "set (page_range 0xfffff 1) = {0xfffff}" by (auto simp: page_range_def upt_rec)
  then show "vm_pt (snd (pt_map_nothing 0 0xfffff 1 P_WRITE vm_boot)) 0 0xfffff \<noteq> None"
    using pt_map_nothing_facts(3)[OF v(1,2) s v(3)] by simp
qed

subsection \<open>brk\<close>

lemma mem_pt_brk [simp]: "mem_pt (mem_brk_update f mem) p = mem_pt mem p"
  by (simp add: mem_pt_def)

lemma guest_brk [simp]: "guest (upd_mem m (mem_brk_update f) v) m' a = guest v m' a"
  by (rule kept_guest) (rule kept_upd_mem_same, simp)

text \<open>Growing the heap keeps every byte that was mapped outside the new
pages, maps the new pages as zeros up to the new break, and moves the break.\<close>
lemma brk_grow:
  assumes "task_ok m v" "new_brk \<noteq> 0" "mem_start_brk (mem_of v m) \<le> new_brk"
    and "mem_brk (mem_of v m) < new_brk" "unat new_brk \<le> 0xfffff000"
    and "sys_brk m new_brk v = (r, w)"
  defines "first \<equiv> PAGE_ROUND_UP (mem_brk (mem_of v m))"
  assumes "first < PAGE_ROUND_UP new_brk" "0 < first"
  shows "r = new_brk \<and> mem_brk (mem_of w m) = new_brk \<and> wf_vm w \<and>
    (\<forall>m' a. guest w m' a = (if m' = m \<and> unat first \<le> unat (PAGE a) \<and>
       unat (PAGE a) < unat (PAGE_ROUND_UP new_brk) then Some 0 else guest v m' a))"
proof -
  have v: "wf_vm v" "vm_mems v m \<noteq> None" "host_ready v"
    using assms(1) task_ok_ready[OF assms(1)] by (auto simp: task_ok_def)
  define pages where "pages = PAGE_ROUND_UP new_brk - first"
  have new: "unat (PAGE_ROUND_UP new_brk) \<le> 1048575"
    using unat_PAGE_ROUND_UP[of new_brk] assms(2,5) by (simp add: word_gt_0)
  have pages: "unat first + unat pages = unat (PAGE_ROUND_UP new_brk)"
    using assms(8) by (simp add: pages_def unat_sub less_imp_le word_less_nat_alt)
  then have sp: "in_space first pages" "pages < MEM_PAGES" "pages \<noteq> 0"
    using new assms(8) by (auto simp: word_less_nat_alt)
  obtain e u where eu: "pt_map_nothing m first pages P_WRITE v = (e, u)" by (metis prod.exhaust_sel)
  note f = pt_map_nothing_facts[OF v(1,2) sp v(3), where flags = P_WRITE, unfolded eu fst_conv snd_conv]
  have rw: "r = new_brk" "w = upd_mem m (mem_brk_update (\<lambda>_. new_brk)) u"
    using assms(2,3,4,6) leD[OF assms(3)] eu f(1) by (auto simp: sys_brk_def Let_def first_def pages_def)
  have live: "vm_mems u m \<noteq> None" using pt_map_nothing_live[of m first pages P_WRITE v m] eu v by simp
  have "guest w m' a = (if m' = m \<and> unat first \<le> unat (PAGE a) \<and>
       unat (PAGE a) < unat (PAGE_ROUND_UP new_brk) then Some 0 else guest v m' a)" for m' a
  proof -
    have mem: "PAGE a \<in> set (page_range first pages) \<longleftrightarrow>
        unat first \<le> unat (PAGE a) \<and> unat (PAGE a) < unat (PAGE_ROUND_UP new_brk)"
      using mem_page_range[of first pages "PAGE a"] sp(1) pages by simp
    show ?thesis
    proof (cases "m' = m \<and> PAGE a \<in> set (page_range first pages)")
      case True
      then show ?thesis using f(5)[of a] mem by (simp add: rw)
    next
      case False
      then have "(m', PAGE a) \<notin> Pair m ` set (page_range first pages)" by auto
      from kept_guest[OF f(4)[OF this]] show ?thesis using False mem by (auto simp: rw)
    qed
  qed
  moreover have "mem_brk (mem_of w m) = new_brk"
    using live by (auto simp: rw mem_of_def upd_mem_def)
  moreover have "wf_vm w" unfolding rw using f(2) by (subst wf_upd_mem_same) simp_all
  ultimately show ?thesis using rw by blast
qed

definition vm_heap :: vm where
  "vm_heap = upd_mem 0 (\<lambda>mem. mem\<lparr>mem_start_brk := 0x11000, mem_brk := 0x12000\<rparr>) vm_demo"

lemma vm_heap_facts:
  "task_ok 0 vm_heap" "mem_start_brk (mem_of vm_heap 0) = 0x11000" "mem_brk (mem_of vm_heap 0) = 0x12000"
proof -
  let ?f = "\<lambda>mem :: mem. mem\<lparr>mem_start_brk := 0x11000, mem_brk := 0x12000\<rparr>"
  have pt: "mem_pt (?f mem) p = mem_pt mem p" for mem p by (simp add: mem_pt_def)
  have "wf_vm vm_heap" unfolding vm_heap_def by (simp only: wf_upd_mem_same[OF pt] vm_demo_facts(1))
  moreover have "cow_ok vm_heap"
    unfolding vm_heap_def by (simp only: cow_ok_cong[OF upd_mem_pt_same[OF pt]] vm_demo_facts(2))
  moreover have "vm_mems vm_heap 0 \<noteq> None"
    by (simp only: vm_heap_def upd_mem_live vm_demo_facts) simp
  moreover have "vm_host vm_heap n = None" for n by (simp add: vm_heap_def vm_demo_facts)
  ultimately show "task_ok 0 vm_heap" by (simp add: task_ok_def)
  obtain mem where "vm_mems vm_demo 0 = Some mem" using vm_demo_facts(6)[of 0] by auto
  then show "mem_start_brk (mem_of vm_heap 0) = 0x11000" "mem_brk (mem_of vm_heap 0) = 0x12000"
    by (simp_all add: vm_heap_def mem_of_def upd_mem_def)
qed

lemma brk_grow_witness:
  "\<exists>w. sys_brk 0 0x13800 vm_heap = (0x13800, w) \<and> guest w 0 0x137ff = Some 0"
proof -
  obtain r w where rw: "sys_brk 0 0x13800 vm_heap = (r, w)" by (metis prod.exhaust_sel)
  show ?thesis
    using brk_grow[OF vm_heap_facts(1) _ _ _ _ rw] rw
    by (simp add: vm_heap_facts PAGE_ROUND_UP_def PAGE_def)
qed

text \<open>Shrinking the heap unmaps \<open>PAGE (old_brk)\<close> many pages, not the pages
up to the old break: the page that holds the new break is gone with the part
of the heap below it, and so is everything mapped in the pages after the heap,
as many as there are pages below the new break.\<close>
lemma brk_shrink_unmaps_too_much:
  assumes "wf_vm v" "new_brk \<noteq> 0" "mem_start_brk (mem_of v m) \<le> new_brk"
    and "new_brk < mem_brk (mem_of v m)" "in_space (PAGE new_brk) (PAGE (mem_brk (mem_of v m)))"
    and "sys_brk m new_brk v = (r, w)"
  shows "r = new_brk \<and> (\<forall>a. unat (PAGE new_brk) \<le> unat (PAGE a) \<longrightarrow>
    unat (PAGE a) < unat (PAGE new_brk) + unat (PAGE (mem_brk (mem_of v m))) \<longrightarrow> guest w m a = None)"
proof -
  define pages where "pages = PAGE (mem_brk (mem_of v m))"
  obtain e u where eu: "pt_unmap m (PAGE new_brk) pages True v = (e, u)" by (metis prod.exhaust_sel)
  have rw: "r = new_brk" "w = upd_mem m (mem_brk_update (\<lambda>_. new_brk)) u"
    using assms(2,3,4,6) leD[OF assms(3)] less_not_sym[OF assms(4)] eu
    by (auto simp: sys_brk_def Let_def pages_def)
  have "guest u m a = None" if "unat (PAGE new_brk) \<le> unat (PAGE a)"
    "unat (PAGE a) < unat (PAGE new_brk) + unat pages" for a
  proof -
    have "PAGE a \<in> set (page_range (PAGE new_brk) pages)"
      using that mem_page_range[of "PAGE new_brk" pages "PAGE a"] assms(5) by (simp add: pages_def)
    then show ?thesis using pt_unmap_spec[OF assms(1,5)[folded pages_def] eu] by simp
  qed
  then show ?thesis by (simp add: rw pages_def)
qed

text \<open>The heap of the witness is 0x11000 to 0x12000; after \<open>brk(0x11800)\<close> its
remaining half is unmapped too.\<close>

lemma brk_shrink_unmaps_too_much_witness:
  "\<exists>w. sys_brk 0 0x11800 vm_heap = (0x11800, w) \<and> guest w 0 0x11000 = None"
proof -
  obtain r w where rw: "sys_brk 0 0x11800 vm_heap = (r, w)" by (metis prod.exhaust_sel)
  have "wf_vm vm_heap" using vm_heap_facts(1) by (simp add: task_ok_def)
  then show ?thesis
    using brk_shrink_unmaps_too_much[OF _ _ _ _ _ rw] rw
    by (simp add: vm_heap_facts PAGE_def)
qed

subsection \<open>mprotect\<close>

lemma same_frame_ptr: "same_frame e e' \<Longrightarrow> entry_ptr e v = entry_ptr e' v"
  by (simp add: entry_ptr_def same_frame_def cong: option.case_cong)

text \<open>\<open>mprotect\<close> overwrites all flags of a page and so forgets that the page
is shared copy-on-write: after a fork, a task that makes such a page writable
again writes straight into the other task's memory.\<close>
lemma mprotect_forgets_cow:
  assumes "task_ok m v" "m' \<noteq> m" "vm_pt v m (PAGE a) = Some e" "vm_pt v m' (PAGE a) = Some e'"
    and "same_frame e e'"
    and "sys_mprotect m (TLB_PAGE a) 0x1000 (P_READ OR P_WRITE) v = (0, w)"
  shows "\<exists>u. user_write_task m a [b] w = (0, u) \<and> guest u m' a = Some b"
proof -
  have v: "wf_vm v" using assms(1) by (simp add: task_ok_def)
  have one: "PAGE_ROUND_UP 0x1000 = 1" by (simp add: PAGE_ROUND_UP_def)
  obtain err u where eu: "pt_set_flags m (PAGE a) 1 3 v = (err, u)" by (metis prod.exhaust_sel)
  have range: "set (page_range (PAGE a) 1) = {PAGE a}" using PAGE_less by simp
  have "set_flags_ok m 3 [PAGE a] v (err, u)"
    using pt_set_flags_facts[OF v in_space_single[OF PAGE_less], of a m 3] assms(3) eu PAGE_less[of a]
    by simp
  moreover have "u = w" "ret32 err = 0"
    using assms(6) eu by (simp_all add: sys_mprotect_def one)
  ultimately have ok: "set_flags_ok m 3 [PAGE a] v (err, w)" by simp
  have "pt_set_flags m (PAGE a) 1 3 v = set_flags_loop m 3 [PAGE a] v"
    using assms(3) PAGE_less[of a] by (simp add: pt_set_flags_def del: set_flags_loop.simps)
  then have "err = 0"
    using assms(1) eu set_flags_loop_Cons[OF PAGE_less assms(3), of 3 "[]"]
    by (simp add: flag_page_def task_ok_def del: set_flags_loop.simps(2) split: if_splits)
  obtain q where q: "page_ptr v m (PAGE a) = Some q" using page_ptr_wf[OF v assms(3)] by blast
  have q': "page_ptr v m' (PAGE a) = Some q"
    using q assms(3,4) same_frame_ptr[OF assms(5), of v] by (simp add: page_ptr_def)
  have w: "page_ptr w m (PAGE a) = Some q" "page_ptr w m' (PAGE a) = Some q"
    using ok q q' by (simp_all add: set_flags_ok_def seen_def)
  obtain e1 where e1: "vm_pt w m (PAGE a) = Some e1" "pt_flags e1 = 3"
    using ok \<open>err = 0\<close> by (auto simp: set_flags_ok_def)
  have "wf_vm w" using ok by (simp add: set_flags_ok_def)
  then have reg: "vm_regions w (fst q) \<noteq> None"
    using page_ptr_wf[OF _ e1(1)] w(1) by (metis fst_conv option.distinct(1) option.inject)
  have "mem_ptr m a MEM_WRITE w = (Some (fst q, snd q + ucast (PGOFFSET a)), w)"
    using e1 w(1) by (simp add: mem_ptr_def page_ptr_def)
  then have "user_write_task m a [b] w = (0, host_store (fst q, snd q + ucast (PGOFFSET a)) b w)"
    by simp
  moreover have "guest (host_store (fst q, snd q + ucast (PGOFFSET a)) b w) m' a = Some b"
    using w(2) reg by (simp add: guest_def host_load_store)
  ultimately show ?thesis by blast
qed

lemma mprotect_forgets_cow_witness:
  "\<exists>w u. sys_mprotect 1 0x10000 0x1000 (P_READ OR P_WRITE) vm_forked = (0, w) \<and>
     user_write_task 1 0x10010 [7] w = (0, u) \<and> guest u 0 0x10010 = Some 7"
proof -
  have o: "PAGE 0x10010 = 0x10" "TLB_PAGE 0x10010 = 0x10000" "PAGE 0x10000 = 0x10" "PGOFFSET 0x10000 = 0"
    "PAGE_ROUND_UP 0x1000 = 1"
    by (simp_all add: PAGE_def TLB_PAGE_def PGOFFSET_def PAGE_ROUND_UP_def)
  let ?e = "cow_flags (map_entry 3 0x10 66 0x10)"
  have e: "vm_pt vm_forked 1 0x10 = Some ?e" "vm_pt vm_forked 0 0x10 = Some ?e"
    by (simp_all add: vm_forked_facts)
  obtain err w where ew: "pt_set_flags 1 0x10 1 3 vm_forked = (err, w)" by (metis prod.exhaust_sel)
  have lt: "(0x10 :: page_t) < MEM_PAGES" by simp
  have "err = 0"
    using ew e(1) set_flags_loop_Cons[OF lt e(1), of 3 "[]"]
    by (simp add: pt_set_flags_def flag_page_def vm_forked_facts del: set_flags_loop.simps(2) split: if_splits)
  then have mp: "sys_mprotect 1 0x10000 0x1000 (P_READ OR P_WRITE) vm_forked = (0, w)"
    using ew by (simp add: sys_mprotect_def o ret32_def)
  then show ?thesis
    using mprotect_forgets_cow[of 1 vm_forked 0 "0x10010" ?e ?e w 7] e vm_forked_ok[of 1]
    by (auto simp: o same_frame_def)
qed

end
