(* ===== verification/Bitcount.thy ===== *)
theory Bitcount
  imports Prelude
begin

text \<open>
  The bit counting builtins of the compiler that the emulator calls
  (\<open>__builtin_clzl\<close>, \<open>__builtin_ctzl\<close>, \<open>__builtin_clz\<close>,
  \<open>__builtin_ctz\<close>, \<open>__builtin_parity\<close>), as executable functions on words, with
  the facts that characterise them. The builtins leave the count of a zero
  argument undefined; here it is the width, and every caller is modelled with
  its own test for zero.
\<close>

text \<open>Zeros of \<open>w\<close> from bit \<open>n - 1\<close> downwards, and from bit \<open>k\<close> upwards
looking at \<open>n\<close> bits.\<close>

primrec clz_below :: "nat \<Rightarrow> 'a::len word \<Rightarrow> nat" where
  "clz_below 0 w = 0"
| "clz_below (Suc n) w = (if bit w n then 0 else Suc (clz_below n w))"

primrec ctz_from :: "nat \<Rightarrow> nat \<Rightarrow> 'a::len word \<Rightarrow> nat" where
  "ctz_from 0 k w = 0"
| "ctz_from (Suc n) k w = (if bit w k then 0 else Suc (ctz_from n (Suc k) w))"

definition clz :: "'a::len word \<Rightarrow> nat" where
  "clz w = clz_below LENGTH('a) w"

definition ctz :: "'a::len word \<Rightarrow> nat" where
  "ctz w = ctz_from LENGTH('a) 0 w"

primrec odd_ones :: "nat \<Rightarrow> 'a::len word \<Rightarrow> bool" where
  "odd_ones 0 w = False"
| "odd_ones (Suc n) w = (bit w n \<noteq> odd_ones n w)"

definition parity :: "'a::len word \<Rightarrow> bool" where
  "parity w = odd_ones LENGTH('a) w"

lemma clz_below_le: "clz_below n w \<le> n"
  by (induction n) auto

lemma clz_below_zero: "i < clz_below n w \<Longrightarrow> \<not> bit w (n - Suc i)"
proof (induction n arbitrary: i)
  case (Suc n)
  then show ?case by (cases i) (auto split: if_splits)
qed simp

lemma clz_below_one: "clz_below n w < n \<Longrightarrow> bit w (n - Suc (clz_below n w))"
  by (induction n) (auto split: if_splits)

lemma clz_le: "clz (w :: 'a::len word) \<le> LENGTH('a)"
  by (simp add: clz_def clz_below_le)

lemma clz_upper_zero:
  fixes w :: "'a::len word"
  assumes "LENGTH('a) - clz w \<le> i"
  shows "\<not> bit w i"
proof (cases "i < LENGTH('a)")
  case True
  then have "LENGTH('a) - Suc i < clz w" using assms clz_le[of w] by linarith
  from clz_below_zero[OF this[unfolded clz_def]] True show ?thesis by simp
next
  case False
  then show ?thesis by (auto dest: bit_imp_le_length)
qed

lemma clz_top_one:
  fixes w :: "'a::len word"
  shows "clz w < LENGTH('a) \<Longrightarrow> bit w (LENGTH('a) - Suc (clz w))"
  using clz_below_one[of "LENGTH('a)" w] by (simp add: clz_def)

lemma clz_eq_length_iff: "clz (w :: 'a::len word) = LENGTH('a) \<longleftrightarrow> w = 0"
proof
  assume "clz w = LENGTH('a)"
  then have "\<not> bit w i" for i by (intro clz_upper_zero) simp
  then show "w = 0" by (intro bit_eqI) simp
next
  assume "w = 0"
  then have "\<not> clz w < LENGTH('a)" using clz_top_one[of w] by auto
  then show "clz w = LENGTH('a)" using clz_le[of w] by simp
qed

lemma clz_bounds:
  fixes w :: "'a::len word"
  shows "unat w < 2 ^ (LENGTH('a) - clz w)"
    and "w \<noteq> 0 \<Longrightarrow> 2 ^ (LENGTH('a) - Suc (clz w)) \<le> unat w"
proof -
  let ?k = "LENGTH('a) - clz w"
  have "i < ?k" if "bit w i" for i
    using clz_upper_zero[of w i] that by (meson not_le)
  then have "take_bit ?k w = w"
    by (intro bit_eqI) (auto simp: bit_take_bit_iff)
  then have "unat w = take_bit ?k (unat w)" by (metis unsigned_take_bit_eq)
  then show "unat w < 2 ^ ?k" by (metis take_bit_nat_less_exp)
  assume "w \<noteq> 0"
  then have "clz w < LENGTH('a)" using clz_eq_length_iff[of w] clz_le[of w] by linarith
  from clz_top_one[OF this] have "bit (unat w) (LENGTH('a) - Suc (clz w))"
    by (simp add: bit_unsigned_iff)
  then show "2 ^ (LENGTH('a) - Suc (clz w)) \<le> unat w"
    by (metis bit_iff_odd div_less even_zero not_le)
qed

lemma ctz_from_le: "ctz_from n k w \<le> n"
  by (induction n arbitrary: k) auto

lemma ctz_from_zero: "i < ctz_from n k w \<Longrightarrow> \<not> bit w (k + i)"
proof (induction n arbitrary: i k)
  case (Suc n)
  then show ?case using Suc.IH[of "i - 1" "Suc k"] by (cases i) (auto split: if_splits)
qed simp

lemma ctz_from_one: "ctz_from n k w < n \<Longrightarrow> bit w (k + ctz_from n k w)"
proof (induction n arbitrary: k)
  case (Suc n)
  then show ?case using Suc.IH[of "Suc k"] by (auto split: if_splits)
qed simp

lemma ctz_lower_zero: "i < ctz w \<Longrightarrow> \<not> bit w i"
  using ctz_from_zero[of i _ 0 w] by (simp add: ctz_def)

lemma ctz_one:
  fixes w :: "'a::len word"
  assumes "w \<noteq> 0"
  shows "ctz w < LENGTH('a)" and "bit w (ctz w)"
proof -
  have le: "ctz w \<le> LENGTH('a)" by (simp add: ctz_def ctz_from_le)
  obtain i where i: "bit w i" using assms by (metis bit_eqI bit_0_eq bot_apply bot_bool_def)
  then have "ctz w \<le> i" using ctz_lower_zero[of i w] by (metis not_le)
  moreover have "i < LENGTH('a)" using i by (rule bit_imp_le_length)
  ultimately show lt: "ctz w < LENGTH('a)" by simp
  then show "bit w (ctz w)" using ctz_from_one[of "LENGTH('a)" 0 w] by (simp add: ctz_def)
qed

lemma ctz_unique:
  fixes w :: "'a::len word"
  assumes "bit w n" and "\<And>i. i < n \<Longrightarrow> \<not> bit w i"
  shows "ctz w = n"
proof -
  have "w \<noteq> 0" using assms(1) by auto
  from ctz_one[OF this] ctz_lower_zero[of n w] assms show ?thesis
    by (metis linorder_neqE_nat)
qed

lemma clz_unique:
  fixes w :: "'a::len word"
  assumes "bit w (LENGTH('a) - Suc n)" and "\<And>i. LENGTH('a) - n \<le> i \<Longrightarrow> \<not> bit w i" and "n < LENGTH('a)"
  shows "clz w = n"
proof (rule antisym)
  show "clz w \<le> n"
  proof (rule ccontr)
    assume "\<not> clz w \<le> n"
    then have "\<not> bit w (LENGTH('a) - Suc n)" by (intro clz_upper_zero) simp
    with assms(1) show False by simp
  qed
  show "n \<le> clz w"
  proof (rule ccontr)
    assume n: "\<not> n \<le> clz w"
    then have "bit w (LENGTH('a) - Suc (clz w))" using assms(3) by (intro clz_top_one) simp
    moreover have "\<not> bit w (LENGTH('a) - Suc (clz w))" using n assms(3) by (intro assms(2)) simp
    ultimately show False by simp
  qed
qed

end
