(* ===== verification/Uint128.thy ===== *)
theory Uint128
  imports Bitcount
begin

text \<open>
  128-bit arithmetic (\<open>src/emu/uint128.c\<close>), in the version that is compiled
  with compiler support for \<open>__int128\<close> and the functions shared by both
  versions. A \<open>bool *overflow\<close> parameter is an option (\<open>None\<close> for a null
  pointer), and the value stored through it is returned with the result.
  \<open>int128_t\<close> is the same word read with \<open>sint\<close>, so the two conversions are
  the identity.
\<close>

type_synonym uint128_t = "128 word"

subsection \<open>Definitions\<close>

definition uint128_to_int128 :: "uint128_t \<Rightarrow> uint128_t" where
  "uint128_to_int128 x = x"

definition int128_to_uint128 :: "uint128_t \<Rightarrow> uint128_t" where
  "int128_to_uint128 x = x"

definition uint128_from_uint64 :: "qword_t \<Rightarrow> uint128_t" where
  "uint128_from_uint64 x = ucast x"

definition uint128_to_uint64 :: "uint128_t \<Rightarrow> qword_t \<times> bool" where
  "uint128_to_uint64 x = (let result = ucast x in (result, ucast (result :: qword_t) \<noteq> x))"

definition uint128_compare :: "uint128_t \<Rightarrow> uint128_t \<Rightarrow> int" where
  "uint128_compare x y = (if x < y then - 1 else if x > y then 1 else 0)"

function count_lz_loop :: "uint128_t \<Rightarrow> nat \<Rightarrow> uint128_t \<Rightarrow> nat" where
  "count_lz_loop v j msk =
    (if j < 128 \<and> msk AND v = 0 then count_lz_loop v (j + 1) (drop_bit 1 msk) else j)"
  by auto
termination
  by (relation "measure (\<lambda>(_, j, _). 128 - j)") auto

definition uint128_count_leading_zeros :: "uint128_t \<Rightarrow> nat" where
  "uint128_count_leading_zeros x = count_lz_loop x 0 (push_bit 127 1)"

definition uint128_ones_complement :: "uint128_t \<Rightarrow> uint128_t" where
  "uint128_ones_complement x = NOT x"

definition uint128_and :: "uint128_t \<Rightarrow> uint128_t \<Rightarrow> uint128_t" where
  "uint128_and x y = x AND y"

definition uint128_or :: "uint128_t \<Rightarrow> uint128_t \<Rightarrow> uint128_t" where
  "uint128_or x y = x OR y"

definition uint128_shift_left :: "uint128_t \<Rightarrow> nat \<Rightarrow> uint128_t" where
  "uint128_shift_left x count = push_bit count x"

definition uint128_shift_right :: "uint128_t \<Rightarrow> nat \<Rightarrow> uint128_t" where
  "uint128_shift_right x count = drop_bit count x"

definition uint128_add :: "uint128_t \<Rightarrow> uint128_t \<Rightarrow> uint128_t \<times> bool" where
  "uint128_add x y = (let result = x + y in (result, result < x \<or> result < y))"

definition int128_signed_add :: "uint128_t \<Rightarrow> uint128_t \<Rightarrow> uint128_t \<times> bool" where
  "int128_signed_add x y =
    (let xs = sint x < 0; ys = sint y < 0; result = x + y
     in (result, xs = ys \<and> xs \<noteq> (sint result < 0)))"

definition uint128_sub :: "uint128_t \<Rightarrow> uint128_t \<Rightarrow> uint128_t \<times> bool" where
  "uint128_sub x y = (let tmp = - y in int128_signed_add x tmp)"

definition uint128_mul :: "uint128_t \<Rightarrow> uint128_t \<Rightarrow> uint128_t \<times> bool" where
  "uint128_mul x y =
    (let xh = drop_bit 64 x; xl = ucast (ucast x :: qword_t);
         yh = drop_bit 64 y; yl = ucast (ucast y :: qword_t);
         result = x * y
     in (result, drop_bit 64 (drop_bit 64 (xl * yl) + xh * yl + yh * xl) + xh * yh \<noteq> 0))"

definition uint128_twos_complement :: "uint128_t \<Rightarrow> uint128_t \<times> bool" where
  "uint128_twos_complement x =
    int128_signed_add (uint128_to_int128 (uint128_ones_complement x))
      (uint128_to_int128 (uint128_from_uint64 1))"

definition uint128_signed_sub :: "uint128_t \<Rightarrow> uint128_t \<Rightarrow> uint128_t \<times> bool" where
  "uint128_signed_sub x y =
    (let tmp = uint128_to_int128 (fst (uint128_twos_complement (int128_to_uint128 y)))
     in int128_signed_add x tmp)"

text \<open>One turn of the division loop on \<open>(top, quotient, remainder)\<close>. The sum
with 1 in the carry branch is dropped, as in the source.\<close>

definition div_step :: "uint128_t \<Rightarrow> uint128_t \<times> uint128_t \<times> uint128_t \<Rightarrow> uint128_t \<times> uint128_t \<times> uint128_t"
where
  "div_step divisor = (\<lambda>(top, quotient, remainder).
    (let remainder = fst (uint128_add remainder remainder);
         (top, addOverflow) = uint128_add top top;
         dropped = (if addOverflow then fst (uint128_add remainder (uint128_from_uint64 1)) else 0);
         quotient = fst (uint128_add quotient quotient)
     in if uint128_compare remainder divisor \<ge> 0
        then (top, fst (uint128_add quotient (uint128_from_uint64 1)),
              int128_to_uint128 (fst (uint128_signed_sub (uint128_to_int128 remainder)
                (uint128_to_int128 divisor))))
        else (top, quotient, remainder)))"

definition div_quotient :: "uint128_t \<Rightarrow> uint128_t \<Rightarrow> uint128_t" where
  "div_quotient dividend divisor =
    (let bits = uint128_count_leading_zeros dividend
     in fst (snd (((div_step divisor) ^^ (128 - bits))
          (uint128_shift_left dividend bits, uint128_from_uint64 0, uint128_from_uint64 0))))"

text \<open>\<open>uint128_div\<close> reads \<open>*overflow\<close> before it writes it, without testing the
pointer: \<open>None\<close> is the access to a null pointer.\<close>

definition uint128_div :: "bool option \<Rightarrow> uint128_t \<Rightarrow> uint128_t \<Rightarrow> (uint128_t \<times> bool) option" where
  "uint128_div overflow dividend divisor =
    (let allzero = (uint128_compare divisor (uint128_from_uint64 0) = 0);
         quotient = div_quotient dividend divisor
     in case overflow of
          None \<Rightarrow> None
        | Some old \<Rightarrow> Some (quotient, if old then allzero else old))"

declare count_lz_loop.simps [simp del]

subsection \<open>Leading zeros\<close>

lemma push_bit_one_and: "push_bit n (1 :: uint128_t) AND v = 0 \<longleftrightarrow> \<not> bit v n" if "n < 128"
  using that and_exp_eq_0_iff_not_bit[of v n] by (simp add: push_bit_eq_mult and.commute)

lemma count_lz_loop_below:
  "n \<le> 128 \<Longrightarrow> count_lz_loop v (128 - n) (if n = 0 then 0 else push_bit (n - 1) 1) = 128 - n + clz_below n v"
proof (induction n)
  case 0
  then show ?case by (simp add: count_lz_loop.simps)
next
  case (Suc n)
  have step: "drop_bit (Suc 0) (push_bit n (1 :: uint128_t)) = (if n = 0 then 0 else push_bit (n - 1) 1)"
    using Suc.prems
    by (intro bit_eqI) (auto simp del: push_bit_of_1 simp: bit_drop_bit_eq bit_push_bit_iff bit_1_iff)
  have "128 - Suc n + 1 = 128 - n" using Suc.prems by simp
  then show ?case
    using Suc push_bit_one_and[of n v]
    by (subst count_lz_loop.simps) (auto simp: step simp del: push_bit_of_1)
qed

lemma uint128_count_leading_zeros_eq: "uint128_count_leading_zeros x = clz x"
  using count_lz_loop_below[of 128 x] by (simp add: uint128_count_leading_zeros_def clz_def)

subsection \<open>Addition, subtraction, multiplication\<close>

lemma uint128_sub_fst: "fst (uint128_sub x y) = x - y"
  by (simp add: uint128_sub_def int128_signed_add_def Let_def)

lemma uint128_signed_sub_fst: "fst (uint128_signed_sub x y) = x - y"
  by (simp add: uint128_signed_sub_def uint128_twos_complement_def int128_signed_add_def Let_def
      uint128_to_int128_def int128_to_uint128_def uint128_ones_complement_def uint128_from_uint64_def
      not_eq_complement)

lemma uint128_add_overflow: "snd (uint128_add x y) \<longleftrightarrow> 2 ^ 128 \<le> unat x + unat y"
proof -
  have b: "unat x < 2 ^ 128" "unat y < 2 ^ 128"
    using unsigned_less[of x, where 'a = nat] unsigned_less[of y, where 'a = nat] by simp_all
  show ?thesis
  proof (cases "unat x + unat y < 2 ^ 128")
    case True
    then have "unat (x + y) = unat x + unat y" by (simp add: unat_word_ariths)
    then show ?thesis using True by (simp add: uint128_add_def Let_def word_less_nat_alt)
  next
    case False
    then have "unat (x + y) = unat x + unat y - 2 ^ 128"
      using b by (simp add: unat_word_ariths le_mod_geq)
    then have "unat (x + y) < unat x" using False b by linarith
    then show ?thesis using False by (simp add: uint128_add_def Let_def word_less_nat_alt)
  qed
qed

text \<open>The schoolbook product on 64-bit halves, and what its high part says.\<close>

lemma schoolbook_high:
  fixes xh xl yh yl :: nat
  defines "B \<equiv> (2 :: nat) ^ 64"
  assumes "xl < B" "yl < B"
  shows "(xh * B + xl) * (yh * B + yl) < B * B
    \<longleftrightarrow> xh * yh = 0 \<and> (xl * yl) div B + xh * yl + yh * xl < B"
proof -
  have B: "0 < B" by (simp add: B_def)
  have split: "(xh * B + xl) * (yh * B + yl) = (xh * yh * B + xh * yl + yh * xl) * B + xl * yl"
    by (simp add: algebra_simps)
  have "(xh * B + xl) * (yh * B + yl) < B * B
      \<longleftrightarrow> ((xh * yh * B + xh * yl + yh * xl) * B + xl * yl) div B < B"
    by (simp only: split div_less_iff_less_mult[OF B])
  also have "((xh * yh * B + xh * yl + yh * xl) * B + xl * yl) div B
      = xh * yh * B + xh * yl + yh * xl + (xl * yl) div B"
    using B by simp
  finally show ?thesis using B by (cases "xh * yh") (auto simp: algebra_simps)
qed

lemma ucast_ucast_qword: "unat (ucast (ucast (x :: uint128_t) :: qword_t) :: uint128_t) = unat x mod 2 ^ 64"
  by (simp add: unsigned_ucast_eq take_bit_eq_mod unat_mod)

lemma qword_product_bound:
  assumes "a < (2 :: nat) ^ 64" "b < 2 ^ 64"
  shows "a * b + (2 ^ 64 - 1) < 2 ^ 128"
proof -
  have "a * b \<le> (2 ^ 64 - 1) * (2 ^ 64 - 1)" using assms by (intro mult_le_mono) auto
  then show ?thesis by (rule le_less_trans[OF add_right_mono]) simp
qed

lemma drop_bit_nonzero_iff: "drop_bit n (w :: 'a::len word) = 0 \<longleftrightarrow> unat w < 2 ^ n"
proof -
  have "drop_bit n w = 0 \<longleftrightarrow> unat (drop_bit n w) = 0" by (simp add: unsigned_eq_0_iff)
  also have "unat (drop_bit n w) = unat w div 2 ^ n" by (simp only: unat_drop_bit_eq) (simp add: drop_bit_eq_div)
  finally show ?thesis by (simp add: div_eq_0_iff)
qed

lemma uint128_mul_overflow: "snd (uint128_mul x y) \<longleftrightarrow> 2 ^ 128 \<le> unat x * unat y"
proof -
  define xh xl yh yl where "xh = unat x div 2 ^ 64" "xl = unat x mod 2 ^ 64"
    "yh = unat y div 2 ^ 64" "yl = unat y mod 2 ^ 64"
  note d = xh_xl_yh_yl_def
  have bx: "unat x < 2 ^ 128" and by': "unat y < 2 ^ 128"
    using unsigned_less[of x, where 'a = nat] unsigned_less[of y, where 'a = nat] by simp_all
  have b: "xh < 2 ^ 64" "xl < 2 ^ 64" "yh < 2 ^ 64" "yl < 2 ^ 64"
    using bx by' by (simp_all add: d div_less_iff_less_mult)
  define wxh wxl wyh wyl :: uint128_t where "wxh = drop_bit 64 x" "wxl = ucast (ucast x :: qword_t)"
    "wyh = drop_bit 64 y" "wyl = ucast (ucast y :: qword_t)"
  note wd = wxh_wxl_wyh_wyl_def
  have u: "unat wxh = xh" "unat wxl = xl" "unat wyh = yh" "unat wyl = yl"
    by (simp_all only: wd d ucast_ucast_qword unat_drop_bit_eq drop_bit_eq_div[where 'a = nat])
  have m: "unat (p * q) = unat p * unat q" if "unat p < 2 ^ 64" "unat q < 2 ^ 64" for p q :: uint128_t
    using qword_product_bound[OF that] by (simp add: unat_word_ariths)
  have prods: "unat (wxl * wyl) = xl * yl" "unat (wxh * wyl) = xh * yl" "unat (wyh * wxl) = yh * xl"
    "unat (wxh * wyh) = xh * yh"
    using m[of wxl wyl] m[of wxh wyl] m[of wyh wxl] m[of wxh wyh] b by (simp_all add: u)
  let ?c = "drop_bit 64 (wxl * wyl) + wxh * wyl + wyh * wxl"
  have snd_eq: "snd (uint128_mul x y) \<longleftrightarrow> drop_bit 64 ?c + wxh * wyh \<noteq> 0"
    by (simp add: uint128_mul_def Let_def wd)
  have c_small: "unat (drop_bit 64 ?c) < 2 ^ 64"
    using unsigned_less[of ?c, where 'a = nat] by (simp only: unat_drop_bit_eq) (simp add: drop_bit_eq_div div_less_iff_less_mult)
  have "unat (drop_bit 64 ?c + wxh * wyh) = unat (drop_bit 64 ?c) + xh * yh"
    using qword_product_bound[OF b(1) b(3)] c_small prods(4) by (simp add: unat_word_ariths)
  then have zero: "drop_bit 64 ?c + wxh * wyh = 0 \<longleftrightarrow> xh * yh = 0 \<and> unat ?c < 2 ^ 64"
    by (metis add_is_0 unsigned_eq_0_iff drop_bit_nonzero_iff)
  have hi: "unat (drop_bit 64 (wxl * wyl)) = (xl * yl) div 2 ^ 64"
    by (simp only: unat_drop_bit_eq prods) (simp add: drop_bit_eq_div)
  have hi_small: "(xl * yl) div 2 ^ 64 < 2 ^ 64"
    using mult_strict_mono[OF b(2) b(4)] by (simp add: div_less_iff_less_mult)
  have cross: "unat ?c = (xl * yl) div 2 ^ 64 + xh * yl + yh * xl" if "xh * yh = 0"
    using that hi hi_small prods qword_product_bound[OF b(1) b(4)] qword_product_bound[OF b(3) b(2)]
    by (auto simp: unat_word_ariths)
  have "snd (uint128_mul x y) \<longleftrightarrow> \<not> (xh * yh = 0 \<and> (xl * yl) div 2 ^ 64 + xh * yl + yh * xl < 2 ^ 64)"
    unfolding snd_eq zero using cross by (cases "xh * yh = 0") (simp_all only: simp_thms not_True_eq_False)
  also have "\<dots> \<longleftrightarrow> \<not> (xh * 2 ^ 64 + xl) * (yh * 2 ^ 64 + yl) < 2 ^ 64 * 2 ^ 64"
    using schoolbook_high[OF b(2) b(4), of xh yh] by simp
  also have "\<dots> \<longleftrightarrow> 2 ^ 128 \<le> unat x * unat y"
    by (simp add: d not_less)
  finally show ?thesis .
qed

end
