(* ===== verification/Float80.thy ===== *)
theory Float80
  imports Uint128
begin

text \<open>
  The 80-bit floating point numbers of the emulator (\<open>src/emu/float80.h\<close>,
  \<open>src/emu/float80.c\<close>). The thread's rounding mode is a parameter \<open>rm\<close> of the
  functions that read it; \<open>f80_mod\<close> passes another one on where the code sets
  it and restores it. Where an assertion of the code may fail, or the division
  of \<open>uint128.c\<close> reads through a null pointer, the result is an option and
  \<open>None\<close> is the end of the process. C integers that hold exponents and shift
  counts are \<open>int\<close> and \<open>nat\<close>; their values stay far below the width of \<open>int\<close>
  except in \<open>f80_scale\<close>, whose overflow is undefined in C.
\<close>

subsection \<open>Definitions\<close>

record float80 =
  signif :: qword_t
  fexp :: "15 word"
  fsign :: bool

datatype f80_rounding_mode = round_to_nearest | round_down | round_up | round_chop

definition F80_NAN :: float80 where
  "F80_NAN = \<lparr>signif = 0xc000000000000000, fexp = 0x7fff, fsign = False\<rparr>"

definition F80_INF :: float80 where
  "F80_INF = \<lparr>signif = 0x8000000000000000, fexp = 0x7fff, fsign = False\<rparr>"

definition f80_zero :: float80 where
  "f80_zero = \<lparr>signif = 0, fexp = 0, fsign = False\<rparr>"

abbreviation (input) BIAS80 :: dword_t where "BIAS80 \<equiv> 0x3fff"
abbreviation (input) EXP_MIN :: "15 word" where "EXP_MIN \<equiv> 1"
abbreviation (input) EXP_SPECIAL :: "15 word" where "EXP_SPECIAL \<equiv> 0x7fff"
abbreviation (input) EXP_DENORMAL :: "15 word" where "EXP_DENORMAL \<equiv> 0"
abbreviation (input) CURSED_BIT :: qword_t where "CURSED_BIT \<equiv> 0x8000000000000000"

definition bias :: "int \<Rightarrow> dword_t" where
  "bias e = of_int e + BIAS80"

definition unbias :: "dword_t \<Rightarrow> int" where
  "unbias e = sint (e - BIAS80)"

definition unbias_denormal :: "dword_t \<Rightarrow> int" where
  "unbias_denormal e = (if e = ucast EXP_DENORMAL then unbias (ucast EXP_MIN) else unbias e)"

text \<open>\<open>-1ul\<close> has 64 bits on the targets of the program.\<close>

definition u128_shift_right_round :: "f80_rounding_mode \<Rightarrow> uint128_t \<Rightarrow> nat \<Rightarrow> bool \<Rightarrow> uint128_t" where
  "u128_shift_right_round rm i shift sign =
    (if shift = 0 then i
     else if shift > 127 then uint128_from_uint64 0
     else
       (let guard = fst (uint128_to_uint64 (uint128_and (uint128_shift_right i (shift - 1))
                          (uint128_from_uint64 1))) \<noteq> 0;
            rest = fst (uint128_to_uint64 (uint128_and i (uint128_ones_complement
                          (uint128_shift_left (uint128_from_uint64 (- 1)) (shift - 1)))));
            i = uint128_shift_right i shift;
            incremented = fst (uint128_add i (uint128_from_uint64 1))
        in case rm of
             round_up \<Rightarrow> if \<not> sign then incremented else i
           | round_down \<Rightarrow> if sign then incremented else i
           | round_to_nearest \<Rightarrow>
               if guard then
                 if rest \<noteq> 0 then incremented
                 else if fst (uint128_to_uint64 i) AND 1 \<noteq> 0 then incremented else i
               else i
           | round_chop \<Rightarrow> i))"

definition f80_shift_left :: "float80 \<Rightarrow> nat \<Rightarrow> float80" where
  "f80_shift_left f shift = f\<lparr>signif := push_bit shift (signif f), fexp := fexp f - of_nat shift\<rparr>"

definition f80_shift_right :: "f80_rounding_mode \<Rightarrow> float80 \<Rightarrow> nat \<Rightarrow> float80" where
  "f80_shift_right rm f shift =
    f\<lparr>signif := (if shift > 63 then 0
        else fst (uint128_to_uint64 (u128_shift_right_round rm (uint128_from_uint64 (signif f)) shift (fsign f)))),
      fexp := fexp f + of_nat shift\<rparr>"

definition f80_is_supported :: "float80 \<Rightarrow> bool" where
  "f80_is_supported f =
    (if fexp f = EXP_DENORMAL then drop_bit 63 (signif f) = 0 else drop_bit 63 (signif f) = 1)"

definition f80_isnan :: "float80 \<Rightarrow> bool" where
  "f80_isnan f \<longleftrightarrow> fexp f = EXP_SPECIAL \<and> signif f AND drop_bit 1 (- 1) \<noteq> 0"

definition f80_isinf :: "float80 \<Rightarrow> bool" where
  "f80_isinf f \<longleftrightarrow> fexp f = EXP_SPECIAL \<and> signif f AND drop_bit 1 (- 1) = 0"

definition f80_iszero :: "float80 \<Rightarrow> bool" where
  "f80_iszero f \<longleftrightarrow> fexp f = EXP_DENORMAL \<and> signif f = 0"

definition f80_isdenormal :: "float80 \<Rightarrow> bool" where
  "f80_isdenormal f \<longleftrightarrow> fexp f = EXP_DENORMAL \<and> signif f \<noteq> 0"

definition f80_normalize :: "float80 \<Rightarrow> float80 option" where
  "f80_normalize f =
    (if (fexp f = EXP_DENORMAL \<or> fexp f = EXP_SPECIAL) \<and> \<not> f80_is_supported f then None
     else if fexp f = EXP_DENORMAL then Some f
     else
       (let shift = (if signif f = 0 then 64 else clz (signif f))
        in if int (unat (fexp f)) - int shift < 1
           then Some ((f80_shift_left f (unat (fexp f) - 1))\<lparr>fexp := EXP_DENORMAL\<rparr>)
           else Some (f80_shift_left f shift)))"

definition u128_normalize_round :: "f80_rounding_mode \<Rightarrow> uint128_t \<Rightarrow> int \<Rightarrow> bool \<Rightarrow> float80" where
  "u128_normalize_round rm sig e sign =
    (let shift = uint128_count_leading_zeros (uint128_shift_right sig 64);
         shift = (if uint128_compare (uint128_shift_right sig 64) (uint128_from_uint64 0) = 0
                  then 64 + clz (fst (uint128_to_uint64 sig)) else shift);
         shift = (if uint128_compare sig (uint128_from_uint64 0) = 0 then 128 else shift);
         low = e - int shift < unbias (ucast EXP_MIN);
         sig = (if low then (if e > unbias (ucast EXP_MIN)
                             then uint128_shift_left sig (nat (e - unbias (ucast EXP_MIN))) else sig)
                else uint128_shift_left sig shift);
         e = (if low then unbias (ucast EXP_DENORMAL) else e - int shift);
         fe = ucast (bias e) :: 15 word;
         sig = u128_shift_right_round rm sig 64 sign;
         carry = (uint128_compare (uint128_shift_right sig 64) (uint128_from_uint64 0) \<noteq> 0)
     in \<lparr>signif = fst (uint128_to_uint64 (if carry then uint128_shift_right sig 1 else sig)),
         fexp = (if carry then fe + 1 else fe),
         fsign = sign\<rparr>)"

text \<open>An \<open>int64_t\<close> is a 64-bit word here.\<close>

definition f80_from_int :: "qword_t \<Rightarrow> float80 option" where
  "f80_from_int i =
    f80_normalize
      \<lparr>signif = (if sint i < 0 then - i else i),
       fexp = (if i = 0 then 0 else ucast (bias 63)),
       fsign = (sint i < 0)\<rparr>"

abbreviation (input) INT64_MAX :: qword_t where "INT64_MAX \<equiv> 0x7fffffffffffffff"
abbreviation (input) INT64_MIN :: qword_t where "INT64_MIN \<equiv> 0x8000000000000000"

definition f80_to_int :: "f80_rounding_mode \<Rightarrow> float80 \<Rightarrow> qword_t" where
  "f80_to_int rm f =
    (if \<not> f80_is_supported f then INT64_MIN
     else if ucast (fexp f) > bias 63 then (if \<not> fsign f then INT64_MAX else INT64_MIN)
     else
       (let f = f80_shift_right rm f (unat (bias 63 - ucast (fexp f)))
        in if \<not> fsign f then signif f else - signif f))"

text \<open>A \<open>double\<close> is its 64 bits; \<open>memcpy\<close> to and from the bit field view is
\<open>double_bits_of\<close> and \<open>double_of_bits\<close>.\<close>

record double_bits =
  db_signif :: "52 word"
  db_exp :: "11 word"
  db_sign :: bool

definition double_bits_of :: "qword_t \<Rightarrow> double_bits" where
  "double_bits_of d = \<lparr>db_signif = ucast d, db_exp = ucast (drop_bit 52 d), db_sign = bit d 63\<rparr>"

definition double_of_bits :: "double_bits \<Rightarrow> qword_t" where
  "double_of_bits db =
    ucast (db_signif db) OR push_bit 52 (ucast (db_exp db)) OR (if db_sign db then push_bit 63 1 else 0)"

abbreviation (input) NAN :: qword_t where "NAN \<equiv> 0x7ff8000000000000"
abbreviation (input) INFINITY :: qword_t where "INFINITY \<equiv> 0x7ff0000000000000"

definition f80_from_double :: "qword_t \<Rightarrow> float80 option" where
  "f80_from_double d =
    (let db = double_bits_of d;
         e = (if db_exp db = 0x7ff then EXP_SPECIAL
              else if db_exp db = 0 then (if db_signif db = 0 then 0 else ucast (bias (1 - 0x3ff)))
              else ucast (bias (int (unat (db_exp db)) - 0x3ff)));
         s = push_bit 11 (ucast (db_signif db))
     in f80_normalize
          \<lparr>signif = (if db_exp db \<noteq> 0 then s OR CURSED_BIT else s), fexp = e, fsign = db_sign db\<rparr>)"

definition f80_to_double :: "f80_rounding_mode \<Rightarrow> float80 \<Rightarrow> qword_t" where
  "f80_to_double rm f =
    (if \<not> f80_is_supported f then NAN
     else
       (let new_exp = unbias (ucast (fexp f)) + 0x3ff
        in if fexp f \<noteq> EXP_SPECIAL \<and> new_exp > 0x7fe
           then (if \<not> fsign f then INFINITY else INFINITY OR push_bit 63 1)
           else
             (let new_exp = (if fexp f = EXP_SPECIAL then 0x7ff else new_exp);
                  sign = fsign f;
                  f = (if new_exp \<le> 0
                       then f80_shift_right rm (f\<lparr>signif := drop_bit 1 (signif f)\<rparr>) (nat (- new_exp)) else f);
                  new_exp = (if new_exp \<le> 0 then unbias (ucast (fexp f)) + 0x3ff else new_exp);
                  e = of_int new_exp :: 11 word;
                  s = fst (uint128_to_uint64 (u128_shift_right_round rm
                        (uint128_from_uint64 (signif f)) 11 (fsign f)));
                  carry = (s AND push_bit 53 1 \<noteq> 0)
              in double_of_bits
                   \<lparr>db_signif = ucast (if carry then drop_bit 1 s else s),
                    db_exp = (if carry then e + 1 else e), db_sign = sign\<rparr>)))"

definition f80_neg :: "float80 \<Rightarrow> float80" where
  "f80_neg f = f\<lparr>fsign := \<not> fsign f\<rparr>"

definition f80_abs :: "float80 \<Rightarrow> float80" where
  "f80_abs f = f\<lparr>fsign := False\<rparr>"

definition f80_add :: "f80_rounding_mode \<Rightarrow> float80 \<Rightarrow> float80 \<Rightarrow> float80 option" where
  "f80_add rm a b =
    (if \<not> f80_is_supported a \<or> \<not> f80_is_supported b then Some F80_NAN
     else
       (let (a, b) = (if fexp a < fexp b then (b, a) else (a, b))
        in if f80_isnan a then Some a
           else
             (let flipped = fsign a;
                  b = (if flipped then f80_neg b else b);
                  a = (if flipped then f80_neg a else a);
                  a_signif = uint128_shift_left (uint128_from_uint64 (signif a)) 64;
                  b_signif = uint128_shift_left (uint128_from_uint64 (signif b)) 64;
                  b_signif = u128_shift_right_round rm b_signif (unat (fexp a) - unat (fexp b)) (fsign a);
                  e = unbias (ucast (fexp a));
                  finish = (\<lambda>sig e sign.
                    (let f = u128_normalize_round rm sig e sign;
                         f = (if flipped then f80_neg f else f)
                     in if f80_is_supported f then Some f else None))
              in if \<not> fsign b
                 then
                   (if f80_isinf a then finish a_signif e (fsign a)
                    else
                      (let (sum, overflow) = uint128_add a_signif b_signif
                       in if overflow
                          then finish (uint128_or (u128_shift_right_round rm sum 1 (fsign a))
                                 (uint128_shift_left (uint128_from_uint64 1) 127)) (e + 1) (fsign a)
                          else finish sum e (fsign a)))
                 else if f80_isinf a \<and> f80_isinf b then Some F80_NAN
                 else
                   (let larger = (uint128_compare a_signif b_signif \<ge> 0);
                        sig = (if larger then fst (uint128_sub a_signif b_signif)
                               else fst (uint128_sub b_signif a_signif));
                        sign = (if larger then fsign a else True)
                    in if fst (uint128_to_uint64 sig) = 0 then Some f80_zero
                       else finish sig e sign))))"

definition f80_sub :: "f80_rounding_mode \<Rightarrow> float80 \<Rightarrow> float80 \<Rightarrow> float80 option" where
  "f80_sub rm a b = f80_add rm a (f80_neg b)"

definition f80_mul :: "f80_rounding_mode \<Rightarrow> float80 \<Rightarrow> float80 \<Rightarrow> float80" where
  "f80_mul rm a b =
    (if \<not> f80_is_supported a \<or> \<not> f80_is_supported b then F80_NAN
     else if f80_isnan a then F80_NAN
     else if f80_isnan b then F80_NAN
     else if f80_isinf a \<or> f80_isinf b then
       (if f80_iszero a \<or> f80_iszero b then F80_NAN
        else F80_INF\<lparr>fsign := fsign a \<noteq> fsign b\<rparr>)
     else
       (let f_exp = unbias_denormal (ucast (fexp a)) + unbias_denormal (ucast (fexp b)) + 1;
            f_signif = fst (uint128_mul (uint128_from_uint64 (signif a)) (uint128_from_uint64 (signif b)));
            f = u128_normalize_round rm f_signif f_exp (fsign a \<noteq> fsign b)
        in f\<lparr>fsign := fsign a \<noteq> fsign b\<rparr>))"

definition f80_div :: "f80_rounding_mode \<Rightarrow> float80 \<Rightarrow> float80 \<Rightarrow> float80 option" where
  "f80_div rm a b =
    (if \<not> f80_is_supported a \<or> \<not> f80_is_supported b then Some F80_NAN
     else if f80_isnan a then Some F80_NAN
     else if f80_isnan b then Some F80_NAN
     else if f80_isinf a \<and> f80_isinf b then Some F80_NAN
     else
       (let signed = (\<lambda>f. f\<lparr>fsign := fsign a \<noteq> fsign b\<rparr>)
        in if f80_isinf a then Some (signed F80_INF)
           else if f80_isinf b then Some (signed f80_zero)
           else if f80_iszero b then Some (signed (if f80_iszero a then F80_NAN else F80_INF))
           else
             (let b_trailing = ctz (signif b)
              in case uint128_div None (uint128_shift_left (uint128_from_uint64 (signif a)) 64)
                        (uint128_shift_right (uint128_from_uint64 (signif b)) b_trailing) of
                   None \<Rightarrow> None
                 | Some (sig, _) \<Rightarrow>
                     (let e = unbias_denormal (ucast (fexp a)) - unbias_denormal (ucast (fexp b))
                                + 63 - int b_trailing
                      in Some (signed (u128_normalize_round rm sig e (fsign a \<noteq> fsign b)))))))"

definition f80_mod :: "f80_rounding_mode \<Rightarrow> float80 \<Rightarrow> float80 \<Rightarrow> float80 option" where
  "f80_mod rm x y =
    Option.bind (f80_div rm x y) (\<lambda>quotient.
    Option.bind (f80_from_int (f80_to_int round_chop quotient)) (\<lambda>quotient.
    f80_sub rm x (f80_mul rm quotient y)))"

definition f80_uncomparable :: "float80 \<Rightarrow> float80 \<Rightarrow> bool" where
  "f80_uncomparable a b =
    (if \<not> f80_is_supported a \<or> \<not> f80_is_supported b then True
     else if f80_isnan a \<or> f80_isnan b then True
     else False)"

definition f80_lt :: "f80_rounding_mode \<Rightarrow> float80 \<Rightarrow> float80 \<Rightarrow> bool option" where
  "f80_lt rm a b =
    (if f80_uncomparable a b then Some False
     else if f80_isinf a \<and> f80_isinf b \<and> fsign a = fsign b then Some False
     else if f80_iszero a \<and> f80_iszero b \<and> fsign a \<noteq> fsign b then Some True
     else map_option fsign (f80_sub rm a b))"

definition f80_eq :: "float80 \<Rightarrow> float80 \<Rightarrow> bool" where
  "f80_eq a b =
    (if f80_uncomparable a b then False
     else
       (let a = (if f80_iszero a then a\<lparr>fsign := False\<rparr> else a);
            b = (if f80_iszero a then b\<lparr>fsign := False\<rparr> else b)
        in fsign a = fsign b \<and> fexp a = fexp b \<and> signif a = signif b))"

definition f80_lte :: "f80_rounding_mode \<Rightarrow> float80 \<Rightarrow> float80 \<Rightarrow> bool option" where
  "f80_lte rm a b = map_option (\<lambda>lt. lt \<or> f80_eq a b) (f80_lt rm a b)"

definition f80_gt :: "f80_rounding_mode \<Rightarrow> float80 \<Rightarrow> float80 \<Rightarrow> bool option" where
  "f80_gt rm a b = map_option Not (f80_lte rm a b)"

definition f80_scale :: "f80_rounding_mode \<Rightarrow> float80 \<Rightarrow> int \<Rightarrow> float80" where
  "f80_scale rm x scale =
    (if \<not> f80_is_supported x \<or> f80_isnan x then F80_NAN
     else u128_normalize_round rm (uint128_shift_left (uint128_from_uint64 (signif x)) 64)
            (unbias (ucast (fexp x)) + scale) (fsign x))"

text \<open>\<open>f80_log2\<close>: each loop of the code is one of the functions below. \<open>None\<close>
is no result: the process ends, or the loop does not.\<close>

partial_function (option) log2_below_one ::
  "f80_rounding_mode \<Rightarrow> float80 \<Rightarrow> float80 \<Rightarrow> int \<Rightarrow> float80 \<Rightarrow> (int \<times> float80) option" where
  "log2_below_one rm one two ipart x =
    Option.bind (f80_lt rm x one) (\<lambda>c.
      if c then log2_below_one rm one two (ipart - 1) (f80_mul rm x two) else Some (ipart, x))"

partial_function (option) log2_above_two ::
  "f80_rounding_mode \<Rightarrow> float80 \<Rightarrow> int \<Rightarrow> float80 \<Rightarrow> (int \<times> float80) option" where
  "log2_above_two rm two ipart x =
    Option.bind (f80_gt rm x two) (\<lambda>c.
      if c then Option.bind (f80_div rm x two) (log2_above_two rm two (ipart + 1)) else Some (ipart, x))"

partial_function (option) log2_square ::
  "f80_rounding_mode \<Rightarrow> float80 \<Rightarrow> float80 \<Rightarrow> float80 \<Rightarrow> float80 \<Rightarrow> (float80 \<times> float80) option" where
  "log2_square rm zero two x bt =
    Option.bind (f80_lte rm x two) (\<lambda>c1.
    Option.bind (if c1 then f80_gt rm bt zero else Some False) (\<lambda>c.
      if c then Option.bind (f80_div rm bt two) (log2_square rm zero two (f80_mul rm x x))
      else Some (x, bt)))"

partial_function (option) log2_bits ::
  "f80_rounding_mode \<Rightarrow> float80 \<Rightarrow> float80 \<Rightarrow> float80 \<Rightarrow> float80 \<Rightarrow> float80 \<Rightarrow> float80 option" where
  "log2_bits rm zero two x bt res =
    Option.bind (f80_gt rm bt zero) (\<lambda>c.
      if \<not> c then Some res
      else Option.bind (log2_square rm zero two x bt) (\<lambda>(x, bt).
        Option.bind (f80_add rm res bt) (\<lambda>new.
          if res = new then Some new
          else Option.bind (f80_div rm x two) (\<lambda>x. log2_bits rm zero two x bt new))))"

definition f80_log2 :: "f80_rounding_mode \<Rightarrow> float80 \<Rightarrow> float80 option" where
  "f80_log2 rm x =
    Option.bind (f80_from_int 0) (\<lambda>zero.
    Option.bind (f80_from_int 1) (\<lambda>one.
    Option.bind (f80_from_int 2) (\<lambda>two.
      if f80_isnan x then Some F80_NAN
      else Option.bind (f80_lte rm x zero) (\<lambda>c.
        if c then Some F80_NAN
        else
          Option.bind (log2_below_one rm one two 0 x) (\<lambda>(ipart, x).
          Option.bind (log2_above_two rm two ipart x) (\<lambda>(ipart, x).
          Option.bind (f80_from_int (of_int ipart)) (\<lambda>res.
          log2_bits rm zero two x one res)))))))"

text \<open>C division truncates towards zero. The loop of \<open>f80_sqrt\<close> runs at most
101 times.\<close>

primrec sqrt_newton ::
  "nat \<Rightarrow> f80_rounding_mode \<Rightarrow> float80 \<Rightarrow> float80 \<Rightarrow> float80 \<Rightarrow> float80 option" where
  "sqrt_newton 0 rm x two guess = Some guess"
| "sqrt_newton (Suc n) rm x two guess =
    Option.bind (f80_div rm x guess) (\<lambda>q.
    Option.bind (f80_add rm guess q) (\<lambda>s.
    Option.bind (f80_div rm s two) (\<lambda>new.
      if f80_eq new guess then Some new else sqrt_newton n rm x two new)))"

definition f80_sqrt :: "f80_rounding_mode \<Rightarrow> float80 \<Rightarrow> float80 option" where
  "f80_sqrt rm x =
    (if f80_isnan x \<or> fsign x then Some F80_NAN
     else
       (let e = unbias (ucast (fexp x));
            half = (if e < 0 then - ((- e) div 2) else e div 2);
            guess = x\<lparr>fexp := ucast (bias half)\<rparr>
        in Option.bind (f80_from_int 2) (\<lambda>two. sqrt_newton 101 rm x two guess)))"

end
