(* ===== verification/Float80_Facts.thy ===== *)
theory Float80_Facts
  imports Float80
begin

text \<open>
  Facts about the 80-bit numbers: rounding shifts against rounding half to even
  on natural numbers, and the conversions from and to integers and doubles.
\<close>

subsection \<open>Rounding\<close>

lemma fst_to_uint64 [simp]: "fst (uint128_to_uint64 x) = ucast x"
  by (simp add: uint128_to_uint64_def Let_def)

lemma fst_uint128_add [simp]: "fst (uint128_add x y) = x + y"
  by (simp add: uint128_add_def Let_def)

lemmas uint128_ops = uint128_and_def uint128_or_def uint128_ones_complement_def
  uint128_shift_left_def uint128_shift_right_def uint128_from_uint64_def

lemma guard_bit:
  "(ucast (drop_bit n (i :: uint128_t) AND 1) :: qword_t) \<noteq> 0 \<longleftrightarrow> bit i n"
proof -
  have "(ucast (drop_bit n i AND 1) :: qword_t) = (if bit i n then 1 else 0)"
  proof (rule bit_eqI)
    fix k
    show "bit (ucast (drop_bit n i AND 1) :: qword_t) k = bit (if bit i n then 1 else 0 :: qword_t) k"
      by (cases "k = 0") (simp_all add: bit_ucast_iff bit_and_iff bit_drop_bit_eq bit_1_iff)
  qed
  then show ?thesis by simp
qed

lemma sticky_bits:
  assumes "n \<le> 64"
  shows "(ucast ((i :: uint128_t) AND NOT (push_bit n (ucast (- 1 :: qword_t)))) :: qword_t) \<noteq> 0
    \<longleftrightarrow> take_bit n i \<noteq> 0"
proof -
  have eq: "(ucast (i AND NOT (push_bit n (ucast (- 1 :: qword_t)))) :: qword_t) = ucast (take_bit n i)"
    using assms
    by (intro bit_eqI) (auto simp: bit_ucast_iff bit_and_iff bit_not_iff bit_push_bit_iff bit_take_bit_iff)
  have "(ucast (take_bit n i) :: qword_t) = 0 \<longleftrightarrow> take_bit n i = 0"
  proof
    assume z: "(ucast (take_bit n i) :: qword_t) = 0"
    show "take_bit n i = 0"
    proof (rule bit_eqI)
      fix k
      have "\<not> bit (ucast (take_bit n i) :: qword_t) k" using z by simp
      then show "bit (take_bit n i) k = bit 0 k"
        using assms by (auto simp: bit_ucast_iff bit_take_bit_iff)
    qed
  qed simp
  then show ?thesis by (simp only: eq)
qed

text \<open>The nearest multiple of \<open>2 ^ s\<close>, ties to an even quotient.\<close>

definition round_half_even :: "nat \<Rightarrow> nat \<Rightarrow> nat" where
  "round_half_even n s =
    (let q = n div 2 ^ s; r = n mod 2 ^ s
     in if 2 ^ s < 2 * r \<or> 2 * r = 2 ^ s \<and> odd q then q + 1 else q)"

lemma halves_of_remainder:
  fixes n :: nat
  assumes "0 < s"
  shows "2 ^ s < 2 * (n mod 2 ^ s) \<longleftrightarrow> bit n (s - 1) \<and> take_bit (s - 1) n \<noteq> 0"
    and "2 * (n mod 2 ^ s) = 2 ^ s \<longleftrightarrow> bit n (s - 1) \<and> take_bit (s - 1) n = 0"
proof -
  obtain k where k: "s = Suc k" using assms by (cases s) auto
  have r: "n mod 2 ^ s = take_bit k n + (if bit n k then 2 ^ k else 0)"
    using take_bit_Suc_from_most[of k n] by (simp add: k take_bit_eq_mod add.commute)
  have lt: "take_bit k n < 2 ^ k" by (rule take_bit_nat_less_exp)
  show "2 ^ s < 2 * (n mod 2 ^ s) \<longleftrightarrow> bit n (s - 1) \<and> take_bit (s - 1) n \<noteq> 0"
    "2 * (n mod 2 ^ s) = 2 ^ s \<longleftrightarrow> bit n (s - 1) \<and> take_bit (s - 1) n = 0"
    unfolding r using lt[THEN less_imp_le] lt[THEN less_imp_neq] by (auto simp: k not_less)
qed

lemma unat_drop_bit: "unat (drop_bit s (i :: 'a::len word)) = unat i div 2 ^ s"
  by (simp only: unat_drop_bit_eq) (simp add: drop_bit_eq_div)

lemma unat_drop_bit_inc:
  fixes i :: uint128_t
  assumes "0 < s"
  shows "unat (drop_bit s i + 1) = unat i div 2 ^ s + 1"
proof -
  have "unat i div 2 ^ s \<le> unat i div 2 ^ 1"
    using assms by (intro div_le_mono2) (auto simp: power_increasing[of 1 s "2 :: nat", simplified])
  also have "\<dots> < 2 ^ 127" using unsigned_less[of i, where 'a = nat] by simp
  finally show ?thesis by (simp add: unat_word_ariths unat_drop_bit)
qed

lemma even_quotient_bit:
  "(ucast (drop_bit s (i :: uint128_t)) :: qword_t) AND 1 \<noteq> 0 \<longleftrightarrow> odd (unat i div 2 ^ s)"
proof -
  have "(ucast (drop_bit s i) :: qword_t) AND 1 = (if bit i s then 1 else 0)"
  proof (rule bit_eqI)
    fix k
    show "bit ((ucast (drop_bit s i) :: qword_t) AND 1) k = bit (if bit i s then 1 else 0 :: qword_t) k"
      by (cases "k = 0") (simp_all add: bit_ucast_iff bit_and_iff bit_drop_bit_eq bit_1_iff)
  qed
  moreover have "bit i s \<longleftrightarrow> bit (unat i) s" by (auto simp: bit_unsigned_iff dest: bit_imp_le_length)
  ultimately show ?thesis by (simp add: bit_iff_odd)
qed

lemma shift_right_round_nearest:
  assumes "0 < s" "s \<le> 65"
  shows "unat (u128_shift_right_round round_to_nearest i s sign) = round_half_even (unat i) s"
proof -
  obtain k where k: "s = Suc k" "k \<le> 64" using assms by (cases s) auto
  have bits: "bit i k \<longleftrightarrow> bit (unat i) k"
    by (auto simp: bit_unsigned_iff dest: bit_imp_le_length)
  have low: "take_bit k i = 0 \<longleftrightarrow> take_bit k (unat i) = 0"
    by (metis unsigned_take_bit_eq unsigned_0 unsigned_eq_0_iff)
  note h = halves_of_remainder[OF assms(1), of "unat i", unfolded k(1) diff_Suc_1, folded low bits]
  show ?thesis
    unfolding round_half_even_def Let_def h k(1)
    using k(2) unat_drop_bit_inc[of "Suc k" i]
    by (auto simp: u128_shift_right_round_def Let_def uint128_ops guard_bit
        sticky_bits even_quotient_bit unat_drop_bit)
qed

text \<open>Of the bits that are shifted out below the highest one the code looks at the lowest 64
only, in a variable of 64 bits. For shifts beyond 65 some are left out.\<close>

definition seen_bits :: "nat \<Rightarrow> uint128_t \<Rightarrow> uint128_t" where
  "seen_bits s i = i AND NOT (push_bit 64 (mask (s - 65)))"

lemma bit_seen_bits: "bit (seen_bits s i) n \<longleftrightarrow> bit i n \<and> \<not> (64 \<le> n \<and> n < s - 1)"
  by (auto simp: seen_bits_def bit_simps dest: bit_imp_le_length)

lemma sticky_bits_all:
  assumes "64 \<le> n" "n < 127"
  shows "(ucast ((i :: uint128_t) AND NOT (push_bit n (ucast (- 1 :: qword_t)))) :: qword_t) \<noteq> 0
    \<longleftrightarrow> take_bit n (seen_bits (Suc n) i) \<noteq> 0"
proof -
  have "(ucast (i AND NOT (push_bit n (ucast (- 1 :: qword_t)))) :: qword_t) = ucast i"
    using assms by (intro bit_eqI) (auto simp: bit_simps)
  moreover have "take_bit n (seen_bits (Suc n) i) = take_bit 64 i"
    using assms by (intro bit_eqI) (auto simp: bit_seen_bits bit_simps)
  moreover have "(ucast i :: qword_t) = 0 \<longleftrightarrow> take_bit 64 i = 0"
  proof -
    have "(ucast i :: qword_t) = 0 \<longleftrightarrow> (\<forall>n < 64. \<not> bit i n)"
      by (auto simp: bit_eq_iff bit_simps)
    also have "\<dots> \<longleftrightarrow> take_bit 64 i = 0" by (auto simp: bit_eq_iff bit_simps)
    finally show ?thesis .
  qed
  ultimately show ?thesis by simp
qed

lemma shift_right_round_seen:
  assumes "0 < s" "s \<le> 127"
  shows "unat (u128_shift_right_round round_to_nearest i s sign) = round_half_even (unat (seen_bits s i)) s"
proof (cases "s \<le> 65")
  case True
  then have "seen_bits s i = i" by (simp add: seen_bits_def)
  then show ?thesis using shift_right_round_nearest[OF assms(1) True] by simp
next
  case False
  then obtain k where k: "s = Suc k" "64 \<le> k" "k < 127" using assms by (cases s) auto
  let ?j = "seen_bits s i"
  have same: "drop_bit s i = drop_bit s ?j" "bit i k \<longleftrightarrow> bit ?j k"
    using k by (auto intro!: bit_eqI simp: bit_seen_bits bit_simps)
  have bits: "bit ?j k \<longleftrightarrow> bit (unat ?j) k"
    by (auto simp: bit_unsigned_iff dest: bit_imp_le_length)
  have low: "take_bit k ?j = 0 \<longleftrightarrow> take_bit k (unat ?j) = 0"
    by (metis unsigned_take_bit_eq unsigned_0 unsigned_eq_0_iff)
  note h = halves_of_remainder[OF assms(1), of "unat ?j", unfolded k(1) diff_Suc_1, folded low[unfolded k(1)] bits[unfolded k(1)]]
  show ?thesis
    unfolding round_half_even_def Let_def k(1) h
    using k unat_drop_bit_inc[of "Suc k" ?j] same
    by (auto simp: u128_shift_right_round_def Let_def uint128_ops guard_bit
        sticky_bits_all even_quotient_bit unat_drop_bit)
qed

lemma shift_right_round_exact:
  assumes "rm = round_to_nearest \<or> rm = round_chop" "take_bit s i = 0" "s \<le> 127"
  shows "u128_shift_right_round rm i s sign = drop_bit s i"
proof (cases s)
  case (Suc k)
  have "\<not> bit (take_bit s i) k" using assms(2) by simp
  then have "\<not> bit i k" by (simp add: bit_take_bit_iff Suc)
  then show ?thesis
    using assms Suc by (auto simp: u128_shift_right_round_def Let_def uint128_ops guard_bit)
qed (simp add: u128_shift_right_round_def)

subsection \<open>Integers\<close>

lemma push_clz_drop:
  fixes m :: "'a::len word"
  assumes "c \<le> clz m"
  shows "drop_bit c (push_bit c m) = m"
proof (rule bit_eqI)
  fix n
  assume "possible_bit TYPE('a word) n"
  have "bit m n \<Longrightarrow> n + c < LENGTH('a)"
    using clz_upper_zero[of m n] clz_le[of m] assms by (metis add.commute le_diff_conv le_trans linorder_not_le nat_add_left_cancel_le)
  then show "bit (drop_bit c (push_bit c m)) n = bit m n"
    by (auto simp: bit_drop_bit_eq bit_push_bit_iff add.commute)
qed

lemma normalized_top_bit:
  assumes "(m :: qword_t) \<noteq> 0"
  shows "drop_bit 63 (push_bit (clz m) m) = 1"
proof (rule bit_eqI)
  fix n
  have c: "clz m < 64" using clz_eq_length_iff[of m] clz_le[of m] assms by simp
  then have "bit m (63 - clz m)" using clz_top_one[of m] by simp
  then show "bit (drop_bit 63 (push_bit (clz m) m)) n = bit 1 n"
    using c by (cases "n = 0") (auto simp: bit_drop_bit_eq bit_push_bit_iff bit_1_iff dest: bit_imp_le_length)
qed

lemma take_bit_pushed: "take_bit c (ucast (push_bit c (m :: qword_t)) :: uint128_t) = 0"
  by (rule bit_eqI) (auto simp: bit_take_bit_iff bit_ucast_iff bit_push_bit_iff)

lemma drop_bit_ucast_128: "(ucast (drop_bit c (ucast (x :: qword_t) :: uint128_t)) :: qword_t) = drop_bit c x"
  by (rule bit_eqI) (auto simp: bit_ucast_iff bit_drop_bit_eq dest: bit_imp_le_length)

lemma round_pushed:
  fixes x :: qword_t
  assumes "rm = round_to_nearest \<or> rm = round_chop" "k \<le> clz x" "k < 64"
  shows "ucast (u128_shift_right_round rm (ucast (push_bit k x)) k s) = x"
  using assms push_clz_drop[of k x]
  by (subst shift_right_round_exact) (auto simp: take_bit_pushed drop_bit_ucast_128)

lemma bias_63: "bias 63 = 0x403e" "(ucast (bias 63) :: 15 word) = 0x403e"
  by (simp_all add: bias_def)

lemma unat_exp_minus:
  assumes "c \<le> unat (e :: 15 word)"
  shows "unat (e - of_nat c) = unat e - c"
proof -
  have "c < 2 ^ 15" using assms unsigned_less[of e, where 'a = nat] by simp
  then have "unat (of_nat c :: 15 word) = c" by (simp add: unsigned_of_nat take_bit_nat_eq_self)
  then show ?thesis using assms unat_sub[of "of_nat c" e] by (simp add: word_le_nat_alt)
qed

lemma unat_ucast_exp [simp]: "unat (ucast (e :: 15 word) :: dword_t) = unat e"
proof -
  have "unat e < 2 ^ 32" using unsigned_less[of e, where 'a = nat] by simp
  then show ?thesis by (simp add: unsigned_ucast_eq take_bit_nat_eq_self)
qed

lemma f80_from_int_normal:
  assumes "i \<noteq> 0"
  defines "m \<equiv> (if sint i < 0 then - i else i)"
  shows "f80_from_int i = Some \<lparr>signif = push_bit (clz m) m, fexp = 0x403e - of_nat (clz m), fsign = sint i < 0\<rparr>"
    and "m \<noteq> 0" and "clz m < 64"
proof -
  show m: "m \<noteq> 0" using assms by auto
  then show c: "clz m < 64" using clz_eq_length_iff[of m] clz_le[of m] by simp
  then show "f80_from_int i = Some \<lparr>signif = push_bit (clz m) m, fexp = 0x403e - of_nat (clz m), fsign = sint i < 0\<rparr>"
    using m assms(1) unfolding f80_from_int_def m_def[symmetric]
    by (auto simp: f80_normalize_def bias_63 f80_shift_left_def Let_def)
qed

lemma to_int_from_int:
  assumes "rm = round_to_nearest \<or> rm = round_chop"
  shows "map_option (f80_to_int rm) (f80_from_int i) = Some i"
proof (cases "i = 0")
  case True
  have "drop_bit 0x403e (0 :: uint128_t) = 0" by simp
  then show ?thesis
    using True by (simp add: f80_from_int_def f80_normalize_def f80_is_supported_def f80_to_int_def
        bias_63 f80_shift_right_def Let_def)
next
  case False
  define m where "m = (if sint i < 0 then - i else i)"
  note f = f80_from_int_normal[OF False, folded m_def]
  let ?c = "clz m"
  let ?e = "0x403e - of_nat ?c :: 15 word"
  let ?f = "\<lparr>signif = push_bit ?c m, fexp = ?e, fsign = sint i < 0\<rparr>"
  have e: "unat ?e = 0x403e - ?c" using unat_exp_minus[of ?c "0x403e"] f(3) by simp
  have "?e \<noteq> 0"
  proof
    assume "?e = 0"
    then have "unat ?e = 0" by (simp only: unsigned_0)
    with e f(3) show False by simp
  qed
  then have sup: "f80_is_supported ?f" using normalized_top_bit[OF f(2)] by (simp add: f80_is_supported_def)
  have le: "\<not> (ucast ?e :: dword_t) > bias 63"
    using e by (simp add: word_less_nat_alt bias_63)
  have "unat (bias 63 - (ucast ?e :: dword_t)) = ?c"
    using le e f(3) by (subst unat_sub) (auto simp: bias_63)
  moreover have "ucast (u128_shift_right_round rm (ucast (push_bit ?c m)) ?c s) = m" for s
    using round_pushed[OF assms order_refl f(3)] .
  ultimately have "f80_to_int rm ?f = (if \<not> sint i < 0 then m else - m)"
    using sup le f(3) by (simp add: f80_to_int_def f80_shift_right_def uint128_ops Let_def)
  then show ?thesis using f(1) by (simp add: m_def)
qed

subsection \<open>Doubles\<close>

lemma bit_qword_powers:
  "bit (0x8000000000000000 :: int) n \<longleftrightarrow> n = 63" "bit (0x20000000000000 :: int) n \<longleftrightarrow> n = 53"
  using bit_exp_iff[where 'a = int, of 63 n] bit_exp_iff[where 'a = int, of 53 n] by auto

lemma double_bits_inverse: "double_of_bits (double_bits_of d) = d"
proof (rule bit_eqI)
  fix n
  assume "possible_bit TYPE(64 word) n"
  then have "n < 64" by simp
  then consider "n < 52" | "52 \<le> n" "n < 63" | "n = 63" by linarith
  then show "bit (double_of_bits (double_bits_of d)) n = bit d n"
    by cases (auto simp: double_of_bits_def double_bits_of_def bit_or_iff bit_ucast_iff
        bit_push_bit_iff bit_drop_bit_eq bit_1_iff bit_qword_powers)
qed

text \<open>The last step of \<open>f80_to_double\<close> on a significand with nothing below
its double precision part.\<close>

lemma double_significand:
  assumes "rm = round_to_nearest \<or> rm = round_chop" and "x = 0 \<or> x = push_bit 63 1"
  shows "fst (uint128_to_uint64 (u128_shift_right_round rm
      (uint128_from_uint64 (push_bit 11 (ucast (m :: 52 word)) OR x)) 11 sign))
    = ucast m OR drop_bit 11 x"
proof -
  have low: "take_bit 11 (ucast (push_bit 11 (ucast m :: qword_t) OR x) :: uint128_t) = 0"
    using assms(2)
    by (intro bit_eqI) (auto simp: bit_take_bit_iff bit_ucast_iff bit_or_iff bit_push_bit_iff bit_1_iff bit_qword_powers)
  have "drop_bit 11 (push_bit 11 (ucast m :: qword_t) OR x) = ucast m OR drop_bit 11 x"
    by (rule bit_eqI)
      (auto simp: bit_drop_bit_eq bit_ucast_iff bit_or_iff bit_push_bit_iff dest: bit_imp_le_length)
  then show ?thesis
    using shift_right_round_exact[OF assms(1) low, of sign]
    by (simp add: uint128_ops drop_bit_ucast_128)
qed

lemma double_significand_fits:
  assumes "x = 0 \<or> x = push_bit 63 1"
  shows "(ucast (m :: 52 word) OR drop_bit 11 x :: qword_t) AND push_bit 53 1 = 0"
    and "ucast (ucast m OR drop_bit 11 x :: qword_t) = m"
proof -
  show "(ucast m OR drop_bit 11 x :: qword_t) AND push_bit 53 1 = 0"
    using assms by (intro bit_eqI)
      (auto simp: bit_and_iff bit_or_iff bit_ucast_iff bit_drop_bit_eq bit_push_bit_iff bit_1_iff
        bit_qword_powers dest: bit_imp_le_length)
  show "ucast (ucast m OR drop_bit 11 x :: qword_t) = m"
    using assms by (intro bit_eqI)
      (auto simp: bit_or_iff bit_ucast_iff bit_drop_bit_eq bit_push_bit_iff bit_1_iff bit_qword_powers)
qed

lemma unat_exp_less: "unat (e :: 15 word) < 0x8000" "unat (e' :: 11 word) < 0x800"
  using unsigned_less[of e, where 'a = nat] unsigned_less[of e', where 'a = nat] by simp_all

lemma unat_bias_double:
  fixes e :: "11 word"
  shows "unat (ucast (bias (int (unat e) - 0x3ff)) :: 15 word) = unat e + 0x3c00"
proof -
  have "bias (int (unat e) - 0x3ff) = word_of_int (int (unat e + 0x3c00))"
    by (simp add: bias_def)
  then have "bias (int (unat e) - 0x3ff) = of_nat (unat e + 0x3c00)"
    by (simp only: of_int_of_nat_eq)
  then show ?thesis
    using unat_exp_less(2)[of e] by (simp only: unsigned_ucast_eq unsigned_of_nat) (simp add: take_bit_eq_mod)
qed

lemma unbias_exp: "unbias (ucast (e :: 15 word)) = int (unat e) - 0x3fff"
proof -
  have "(ucast e :: dword_t) = of_nat (unat e)" by simp
  then have "(ucast e :: dword_t) = word_of_int (int (unat e))" by (simp only: of_int_of_nat_eq)
  then have "ucast e - (0x3fff :: dword_t) = word_of_int (int (unat e) - 0x3fff)"
    by (simp only: wi_hom_syms word_of_int_numeral[symmetric])
  moreover have "sint (word_of_int (int (unat e) - 0x3fff) :: dword_t) = int (unat e) - 0x3fff"
    using unsigned_less[of e, where 'a = int] unsigned_greater_eq[of e, where 'a = int]
    by (simp only: sint_sbintrunc') (simp add: signed_take_bit_int_eq_self)
  ultimately show ?thesis by (simp only: unbias_def)
qed


lemma of_int_double_exp: "(of_int (int (unat (e :: 11 word))) :: 11 word) = e"
  by simp

text \<open>What \<open>f80_to_double\<close> gives back when the exponent is that of a normal
double (or of an infinity or a NaN), and what it does with a number that is a
denormal double.\<close>

lemma to_double_normal:
  assumes rm: "rm = round_to_nearest \<or> rm = round_chop" and e: "e \<noteq> 0"
    and f: "signif f = push_bit 11 (ucast m) OR push_bit 63 1" "fsign f = s"
      "if e = 0x7ff then fexp f = 0x7fff else unat (fexp f) = unat e + 0x3c00"
  shows "f80_to_double rm f = double_of_bits \<lparr>db_signif = m, db_exp = e, db_sign = s\<rparr>"
proof -
  have e_pos: "0 < unat e" using e by (simp add: unat_gt_0)
  have fexp: "fexp f \<noteq> 0"
    using f(3) by (auto split: if_splits)
  have top: "drop_bit 63 (signif f) = 1"
    unfolding f(1)
    by (rule bit_eqI) (auto simp: bit_drop_bit_eq bit_or_iff bit_push_bit_iff bit_ucast_iff bit_1_iff
        bit_qword_powers dest: bit_imp_le_length)
  then have sup: "f80_is_supported f" using fexp by (simp add: f80_is_supported_def)
  have sig: "ucast (u128_shift_right_round rm (uint128_from_uint64 (signif f)) 11 t)
      = (ucast m OR drop_bit 11 (push_bit 63 1) :: qword_t)" for t
    using double_significand[OF rm disjI2[OF refl], of m t] by (simp add: f(1))
  note fits = double_significand_fits[OF disjI2[OF refl], of m]
  show ?thesis
  proof (cases "e = 0x7ff")
    case True
    then show ?thesis
      using f(2,3) sup fits by (simp add: f80_to_double_def Let_def sig)
  next
    case False
    have "unat e \<noteq> unat (0x7ff :: 11 word)" using False word_unat_eq_iff[of e "0x7ff"] by blast
    then have lt: "unat e < 0x7ff" using unat_exp_less(2)[of e] by simp
    obtain N where n: "unbias (ucast (fexp f)) + 0x3ff = N" "0 < N" "N < 0x7ff" "of_int N = e"
    proof
      show "unbias (ucast (fexp f)) + 0x3ff = int (unat e)"
        using f(3) False by (simp add: unbias_exp)
      show "0 < int (unat e)" using e_pos by (simp only: of_nat_0_less_iff)
      show "int (unat e) < 0x7ff" using lt of_nat_less_iff[of "unat e" "0x7ff", where 'a = int] by (simp only: of_nat_numeral)
    qed simp
    have ns: "fexp f \<noteq> 0x7fff"
    proof
      assume "fexp f = 0x7fff"
      then have "unat (fexp f) = 0x7fff" by simp
      then show False using f(3) False lt by simp
    qed
    show ?thesis
      using f(2) sup fits ns n(2-4) by (simp add: f80_to_double_def Let_def sig n(1))
  qed
qed

lemma push_bit_half:
  fixes x :: qword_t
  assumes "Suc k \<le> clz x"
  shows "drop_bit 1 (push_bit (Suc k) x) = push_bit k x"
proof (rule bit_eqI)
  fix n
  assume "possible_bit TYPE(64 word) n"
  then have n: "n < 64" by simp
  show "bit (drop_bit 1 (push_bit (Suc k) x)) n = bit (push_bit k x) n"
  proof (cases "bit x (n - k)")
    case True
    then have "n - k < 64 - clz x" using clz_upper_zero[of x "n - k"] by (cases "64 - clz x \<le> n - k") auto
    then show ?thesis using True n assms clz_le[of x] by (auto simp: bit_drop_bit_eq bit_push_bit_iff simp del: push_bit_Suc)
  qed (use n in \<open>simp add: bit_drop_bit_eq bit_push_bit_iff del: push_bit_Suc\<close>)
qed

lemma to_double_denormal:
  assumes rm: "rm = round_to_nearest \<or> rm = round_chop"
    and sup: "f80_is_supported f" and c: "0 < c" "c < 64"
    and f: "signif f = push_bit c (push_bit 11 (ucast m))" "c \<le> clz (push_bit 11 (ucast m) :: qword_t)"
      "fsign f = s" "unat (fexp f) = 0x3c01 - c"
  shows "f80_to_double rm f = double_of_bits \<lparr>db_signif = m, db_exp = 0, db_sign = s\<rparr>"
proof -
  let ?s = "push_bit 11 (ucast m) :: qword_t"
  obtain k where k: "c = Suc k" using c(1) by (cases c) auto
  have kc': "Suc k \<le> clz ?s" using f(2) k by simp
  have half: "drop_bit 1 (signif f) = push_bit k ?s"
    using push_bit_half[OF kc'] by (simp add: f(1) k)
  have kc: "k \<le> clz ?s" using f(2) k by simp
  have sh: "f80_shift_right rm (f\<lparr>signif := drop_bit 1 (signif f)\<rparr>) k
      = f\<lparr>signif := ?s, fexp := fexp f + of_nat k\<rparr>"
    unfolding f80_shift_right_def half
    using k c(2) round_pushed[OF rm kc] by (simp add: uint128_ops del: push_bit_push_bit)
  have n: "unbias (ucast (fexp f)) + 0x3ff = 1 - int c"
    using f(4) c by (simp add: unbias_exp)
  have n': "nat (- (1 - int c)) = k" using k by simp
  have "unat (fexp f + of_nat k) = 0x3c00"
    using f(4) k c(2) by (simp add: unat_word_ariths unsigned_of_nat take_bit_nat_eq_self)
  then have e: "unbias (ucast (fexp f + of_nat k)) + 0x3ff = 0" by (simp add: unbias_exp)
  have ns: "fexp f \<noteq> 0x7fff"
  proof
    assume "fexp f = 0x7fff"
    then have "unat (fexp f) = 0x7fff" by simp
    then show False using f(4) by simp
  qed
  have sig: "ucast (u128_shift_right_round rm (uint128_from_uint64 ?s) 11 t) = (ucast m :: qword_t)" for t
    using double_significand[OF rm disjI1[OF refl], of m t] by simp
  have fits: "(ucast m :: qword_t) AND 0x20000000000000 = 0" "ucast (ucast m :: qword_t) = m"
    using double_significand_fits[OF disjI1[OF refl], of m] by simp_all
  show ?thesis
    using sup ns c(1) n' sh e f(3) fits
    by (simp add: f80_to_double_def Let_def n sig)
qed


lemma clz_top_set: "bit (x :: qword_t) 63 \<Longrightarrow> clz x = 0"
  by (rule clz_unique) (auto dest: bit_imp_le_length)

lemma top_set_shift:
  assumes "bit (x :: qword_t) 63"
  shows "drop_bit 63 x = 1"
  using assms by (intro bit_eqI) (auto simp: bit_drop_bit_eq bit_1_iff dest: bit_imp_le_length)

lemma normalize_normal:
  assumes "fexp f \<noteq> 0" "bit (signif f) 63"
  shows "f80_normalize f = Some f"
proof -
  have "0 < unat (fexp f)" using assms(1) by (simp add: unat_gt_0)
  then have "\<not> int (unat (fexp f)) < 1" by linarith
  moreover have "signif f \<noteq> 0" using assms(2) by auto
  ultimately show ?thesis
    using assms by (simp add: f80_normalize_def f80_is_supported_def top_set_shift clz_top_set
        f80_shift_left_def)
qed

lemma cursed_bit_set: "bit (x OR 0x8000000000000000 :: qword_t) 63"
  by (simp add: bit_or_iff)

lemma bias_double_nonzero:
  "(ucast (bias (int (unat (e :: 11 word)) - 0x3ff)) :: 15 word) \<noteq> 0"
proof
  assume "(ucast (bias (int (unat e) - 0x3ff)) :: 15 word) = 0"
  then have "unat (ucast (bias (int (unat e) - 0x3ff)) :: 15 word) = 0" by (simp only: unsigned_0)
  then show False by (simp only: unat_bias_double)
qed

lemma to_double_from_double:
  assumes rm: "rm = round_to_nearest \<or> rm = round_chop"
  shows "map_option (f80_to_double rm) (f80_from_double d) = Some d"
proof -
  define m e s where "m = db_signif (double_bits_of d)" "e = db_exp (double_bits_of d)"
    "s = db_sign (double_bits_of d)"
  note fields = m_e_s_def[symmetric]
  have db: "double_bits_of d = \<lparr>db_signif = m, db_exp = e, db_sign = s\<rparr>" by (simp add: m_e_s_def)
  have d: "double_of_bits \<lparr>db_signif = m, db_exp = e, db_sign = s\<rparr> = d"
    using double_bits_inverse[of d] by (simp only: db)
  let ?s = "push_bit 11 (ucast m) :: qword_t"
  consider (normal) "e \<noteq> 0" | (zero) "e = 0" "m = 0" | (denormal) "e = 0" "m \<noteq> 0" by blast
  then show ?thesis
  proof cases
    case normal
    define E :: "15 word" where "E = (if e = 0x7ff then 0x7fff else ucast (bias (int (unat e) - 0x3ff)))"
    let ?f = "\<lparr>signif = ?s OR push_bit 63 1, fexp = E, fsign = s\<rparr>"
    have "E \<noteq> 0" using bias_double_nonzero[of e] by (simp add: E_def)
    then have "f80_from_double d = Some ?f"
      using normal bias_double_nonzero[of e]
      by (cases "e = 0x7ff")
        (simp_all add: f80_from_double_def Let_def db E_def cursed_bit_set normalize_normal)
    moreover have "if e = 0x7ff then fexp ?f = 0x7fff else unat (fexp ?f) = unat e + 0x3c00"
      by (simp only: E_def unat_bias_double float80.simps if_True if_False refl split: if_split) simp
    then have "f80_to_double rm ?f = d"
      using to_double_normal[OF rm normal, of ?f m s] by (simp only: d float80.simps)
    ultimately show ?thesis by simp
  next
    case zero
    let ?f = "\<lparr>signif = 0, fexp = 0, fsign = s\<rparr>"
    have "f80_from_double d = Some ?f"
      using zero by (simp add: f80_from_double_def Let_def db f80_normalize_def f80_is_supported_def)
    moreover have "unbias 0 = - 16383" "unbias 15360 = - 1023"
      using unbias_exp[of 0] unbias_exp[of 15360] by simp_all
    then have "f80_to_double rm ?f = d"
      using zero d shift_right_round_exact[OF rm, of 11 0]
      by (simp add: f80_to_double_def f80_is_supported_def f80_shift_right_def uint128_ops Let_def)
    ultimately show ?thesis by simp
  next
    case denormal
    let ?c = "clz ?s"
    let ?f = "\<lparr>signif = push_bit ?c ?s, fexp = 0x3c01 - of_nat ?c, fsign = s\<rparr>"
    have "drop_bit 11 ?s = ucast m"
      by (rule bit_eqI) (auto simp: bit_drop_bit_eq bit_push_bit_iff bit_ucast_iff dest: bit_imp_le_length)
    moreover have "(ucast (ucast m :: qword_t) :: 52 word) = m"
      using double_significand_fits(2)[OF disjI1[OF refl], of m] by simp
    ultimately have s0: "?s \<noteq> 0" using denormal(2) by auto
    have "\<not> bit ?s 63" by (auto simp: bit_push_bit_iff bit_ucast_iff dest: bit_imp_le_length)
    then have "?c \<noteq> 0" using clz_top_one[of ?s] by (intro notI) simp
    then have c: "0 < ?c" "?c < 64"
      using s0 clz_eq_length_iff[of ?s] clz_le[of ?s] by simp_all
    have e: "unat (0x3c01 - of_nat ?c :: 15 word) = 0x3c01 - ?c"
      using unat_exp_minus[of ?c "0x3c01"] c by simp
    have "(0x3c01 - of_nat ?c :: 15 word) \<noteq> 0"
    proof
      assume "(0x3c01 - of_nat ?c :: 15 word) = 0"
      then have "unat (0x3c01 - of_nat ?c :: 15 word) = 0" by (simp only: unsigned_0)
      with e c show False by simp
    qed
    then have sup: "f80_is_supported ?f" using normalized_top_bit[OF s0] by (simp add: f80_is_supported_def)
    have "f80_from_double d = Some ?f"
      using denormal s0 c by (simp add: f80_from_double_def Let_def db f80_normalize_def bias_def f80_shift_left_def)
    moreover have "f80_to_double rm ?f = d"
      using to_double_denormal[OF rm sup c, of m s] d e denormal by simp
    ultimately show ?thesis by simp
  qed
qed

end
