(* ===== verification/Arith_Props.thy ===== *)
theory Arith_Props
  imports Float80_Facts
begin

text \<open>
  What the arithmetic of the emulator guarantees, and where it does not compute
  what it is meant to.
\<close>

subsection \<open>Division\<close>

lemma div_step_zero:
  assumes "divisor \<noteq> 0"
  shows "snd (div_step divisor (t, 0, 0)) = (0, 0)"
  using assms
  by (simp add: div_step_def uint128_add_def uint128_compare_def uint128_from_uint64_def Let_def word_gt_0)

lemma div_loop_zero:
  assumes "divisor \<noteq> 0"
  shows "snd ((div_step divisor ^^ n) (t, 0, 0)) = (0, 0)"
proof (induction n)
  case (Suc n)
  obtain u where "(div_step divisor ^^ n) (t, 0, 0) = (u, 0, 0)"
    using Suc by (metis prod.collapse)
  then show ?case using div_step_zero[OF assms, of u] by simp
qed simp

lemma div_quotient_zero: "divisor \<noteq> 0 \<Longrightarrow> div_quotient dividend divisor = 0"
  using div_loop_zero[of divisor] by (simp add: div_quotient_def Let_def uint128_from_uint64_def)

subsection \<open>Addition\<close>

lemma compare_shifted: "fst (uint128_to_uint64 (push_bit 64 (ucast (x :: qword_t)) :: uint128_t)) = 0"
  by (simp, rule bit_eqI) (auto simp: bit_ucast_iff bit_push_bit_iff)

lemma sub_shifted:
  "fst (uint128_to_uint64 (fst (uint128_sub (push_bit 64 (ucast (x :: qword_t))) (push_bit 64 (ucast (y :: qword_t)))))) = 0"
proof -
  have "fst (uint128_sub (push_bit 64 (ucast x)) (push_bit 64 (ucast y)))
      = (push_bit 64 (ucast x - ucast y) :: uint128_t)"
    by (simp only: uint128_sub_fst push_bit_eq_mult right_diff_distrib left_diff_distrib)
  then show ?thesis
    by (simp only: fst_to_uint64) (rule bit_eqI, auto simp: bit_ucast_iff bit_push_bit_iff)
qed

lemma isinf_cong:
  assumes "f80_is_supported a" "f80_is_supported b" "fexp a = fexp b" "\<not> f80_isnan a" "\<not> f80_isnan b"
  shows "f80_isinf a = f80_isinf b"
  using assms by (auto simp: f80_isinf_def f80_isnan_def)

lemma add_opposite_equal_exponents:
  assumes "f80_is_supported a" "f80_is_supported b" "fexp a = fexp b" "fexp a \<noteq> 0x7fff" "fsign a \<noteq> fsign b"
  shows "f80_add rm a b = Some f80_zero"
  using assms sub_shifted
  by (auto simp: f80_add_def Let_def f80_isnan_def f80_isinf_def f80_neg_def u128_shift_right_round_def
      uint128_shift_left_def uint128_from_uint64_def simp del: fst_to_uint64 split: if_splits)


lemma top_half_set:
  assumes "bit (x :: qword_t) 63"
  defines "X \<equiv> push_bit 64 (ucast x) :: uint128_t"
  shows "snd (uint128_add X X)" and "drop_bit 1 (X + X) OR push_bit 127 1 = X"
    and "clz (drop_bit 64 X) = 64" and "drop_bit 64 X \<noteq> 0" and "X \<noteq> 0" and "push_bit 64 X = 0"
    and "take_bit 1 (X + X) = 0"
proof -
  have top: "bit X 127" using assms(1) by (simp add: X_def bit_push_bit_iff bit_ucast_iff)
  then have "bit (unat X) 127" by (simp add: bit_unsigned_iff)
  then have "2 ^ 127 \<le> unat X" by (metis bit_iff_odd div_less even_zero not_le)
  then show "snd (uint128_add X X)" by (simp add: uint128_add_overflow)
  have dbl: "X + X = push_bit 1 X" by (simp add: push_bit_eq_mult)
  show "drop_bit 1 (X + X) OR push_bit 127 1 = X"
  proof (unfold dbl, rule bit_eqI)
    fix n
    assume "possible_bit TYPE(128 word) n"
    then have "n < 128" by simp
    then consider "n < 127" | "n = 127" by linarith
    then show "bit (drop_bit 1 (push_bit 1 X) OR push_bit 127 1) n = bit X n"
      using top by cases (simp_all add: bit_or_iff bit_drop_bit_eq bit_push_bit_iff bit_1_iff
          del: push_bit_of_1 push_bit_Suc)
  qed
  show "clz (drop_bit 64 X) = 64"
    using top by (intro clz_unique) (auto simp: bit_drop_bit_eq dest: bit_imp_le_length)
  show "X \<noteq> 0" using top by auto
  show "drop_bit 64 X \<noteq> 0"
  proof
    assume "drop_bit 64 X = 0"
    then have "\<not> bit (drop_bit 64 X) 63" by simp
    then show False using top by (simp add: bit_drop_bit_eq)
  qed
  show "push_bit 64 X = 0" by (rule bit_eqI) (auto simp: X_def bit_push_bit_iff bit_ucast_iff dest: bit_imp_le_length)
  show "take_bit 1 (X + X) = 0" unfolding dbl by (rule bit_eqI) (auto simp: bit_take_bit_iff bit_push_bit_iff)
qed

lemma round_low_clear:
  assumes "rm \<noteq> round_up" "take_bit s i = 0" "s \<le> 127"
  shows "u128_shift_right_round rm i s False = drop_bit s i"
proof (cases "rm = round_down")
  case True
  then show ?thesis using assms(3)
    by (auto simp: u128_shift_right_round_def Let_def uint128_ops)
next
  case False
  then have "rm = round_to_nearest \<or> rm = round_chop" using assms(1) by (cases rm) auto
  then show ?thesis using shift_right_round_exact assms(2,3) by blast
qed

lemma normalize_loses_significand:
  assumes "rm \<noteq> round_up" "bit (x :: qword_t) 63" "- 16318 \<le> e"
  shows "u128_normalize_round rm (push_bit 64 (ucast x)) e False
    = \<lparr>signif = 0, fexp = ucast (bias (e - 64)), fsign = False\<rparr>"
proof -
  note t = top_half_set[OF assms(2)]
  have "unbias 1 = - 16382" using unbias_exp[of 1] by simp
  then show ?thesis
    using assms(3) round_low_clear[OF assms(1), of 64 0] t(3-6)
    by (simp add: u128_normalize_round_def uint128_count_leading_zeros_eq uint128_ops uint128_compare_def
        Let_def word_gt_0 del: push_bit_push_bit)
qed


lemma double_aborts:
  assumes x: "f80_is_supported x" "\<not> f80_isnan x" "\<not> f80_isinf x" "64 \<le> fexp x"
    and rm: "rm \<noteq> round_up"
  shows "f80_add rm x x = None"
proof -
  define X where "X = (push_bit 64 (ucast (signif x)) :: uint128_t)"
  have e: "64 \<le> unat (fexp x)" using x(4) by (simp add: word_le_nat_alt)
  have sp: "fexp x \<noteq> 0x7fff" using x(2,3) by (auto simp: f80_isnan_def f80_isinf_def)
  have nz: "fexp x \<noteq> 0" using x(4) by auto
  have top: "bit (signif x) 63"
  proof -
    have "bit (drop_bit 63 (signif x)) 0" using x(1) nz by (simp add: f80_is_supported_def)
    then show ?thesis by (simp add: bit_drop_bit_eq)
  qed
  note t = top_half_set[OF top, folded X_def]
  define E where "E = unbias (ucast (fexp x))"
  have E: "E = int (unat (fexp x)) - 0x3fff" by (simp add: E_def unbias_exp)
  have norm: "u128_normalize_round rm X (E + 1) False
      = \<lparr>signif = 0, fexp = ucast (bias (E + 1 - 64)), fsign = False\<rparr>"
    unfolding X_def
  proof (rule normalize_loses_significand[OF rm top])
    show "- 16318 \<le> E + 1" using e E by linarith
  qed
  have "bias (E + 1 - 64) = word_of_int (int (unat (fexp x) - 63))"
    using e by (simp add: bias_def E of_nat_diff)
  then have "bias (E + 1 - 64) = of_nat (unat (fexp x) - 63)" by (simp only: of_int_of_nat_eq)
  then have "unat (ucast (bias (E + 1 - 64)) :: 15 word) = unat (fexp x) - 63"
    using unat_exp_less(1)[of "fexp x"]
    by (simp only: unsigned_ucast_eq unsigned_of_nat) (simp add: take_bit_eq_mod)
  then have nz': "(ucast (bias (E + 1 - 64)) :: 15 word) \<noteq> 0"
    using e by (intro notI) simp
  then have bad: "\<not> f80_is_supported \<lparr>signif = 0, fexp = ucast (bias (E + 1 - 64)), fsign = s\<rparr>" for s
    by (simp add: f80_is_supported_def)
  have rnd: "u128_shift_right_round rm (X + X) 1 False = drop_bit 1 (X + X)"
    using round_low_clear[OF rm t(7)] by simp
  show ?thesis
  proof -
    obtain Y where Y: "X + X = Y" by blast
    have A: "uint128_add X X = (Y, True)" using t(1) Y by (intro prod_eqI) simp_all
    have shl: "uint128_shift_left (uint128_from_uint64 (signif x)) 64 = X"
      by (simp add: X_def uint128_ops)
    have sup: "f80_is_supported (f80_neg x)" using x(1) by (simp add: f80_is_supported_def f80_neg_def)
    have res: "uint128_or (u128_shift_right_round rm Y (Suc 0) False)
        (uint128_shift_left (uint128_from_uint64 1) 127) = X"
      using t(2) rnd by (simp add: uint128_ops Y)
    have zero: "u128_shift_right_round rm Y 0 s = Y" for Y s by (simp add: u128_shift_right_round_def)
    show ?thesis
    proof (cases "fsign x")
      case True
      then show ?thesis
        using x(1-3) bad norm
        by (simp add: f80_add_def Let_def f80_neg_def shl zero f80_isinf_def A res E_def[symmetric])
    next
      case False
      then show ?thesis
        using x(1-3) bad norm
        by (simp add: f80_add_def Let_def shl zero A res E_def[symmetric])
    qed
  qed
qed


subsection \<open>Properties\<close>

text \<open>The overflow flag of \<open>uint128_mul\<close>, computed from 64-bit halves in
wrapping 128-bit arithmetic, is set exactly when the product of the two numbers
does not fit 128 bits.\<close>
lemma uint128_mul_overflow_flag:
  "snd (uint128_mul x y) \<longleftrightarrow> 2 ^ 128 \<le> unat x * unat y"
  by (rule uint128_mul_overflow)

text \<open>C37. \<open>u128_shift_right_round\<close> in the mode to nearest rounds half to even what it sees of
the value: of the bits that are shifted out it does not look at those from 64 up to the
second highest. So it is the rounding half to even of the value divided by a power of two for
shifts of 1 to 65, which are all when a result is rounded; \<open>f80_add\<close>, which aligns with
shifts beyond that, gets 0 for 3/4, for example. Shifts beyond 127 give 0.\<close>
theorem rounding_is_half_even:
  "unat (u128_shift_right_round round_to_nearest i s sign) =
    (if s = 0 then unat i else if 127 < s then 0 else round_half_even (unat (seen_bits s i)) s) \<and>
   seen_bits 65 i = i \<and> (\<forall>n. bit (seen_bits s i) n = (bit i n \<and> (n < 64 \<or> s - 1 \<le> n)))"
  using shift_right_round_seen[of s i sign]
  by (auto simp: u128_shift_right_round_def uint128_ops bit_seen_bits seen_bits_def[of 65])

theorem rounding_is_half_even_witness:
  "unat (u128_shift_right_round round_to_nearest 7 1 False) = 4
   \<and> unat (u128_shift_right_round round_to_nearest 5 1 False) = 2
   \<and> unat (u128_shift_right_round round_to_nearest (push_bit 64 3) 66 False) = 0"
  using rounding_is_half_even[of 7 1 False] rounding_is_half_even[of 5 1 False]
    rounding_is_half_even[of "push_bit 64 3" 66 False]
  by (simp add: round_half_even_def seen_bits_def)

text \<open>Every 64-bit integer survives the conversion to an 80-bit number and
back in the modes to nearest and chop, the most negative one included; the
conversion never trips the assertion of \<open>f80_normalize\<close>.\<close>
lemma f80_int_roundtrip:
  assumes "rm = round_to_nearest \<or> rm = round_chop"
  shows "map_option (f80_to_int rm) (f80_from_int i) = Some i"
  by (rule to_int_from_int[OF assms])

lemma f80_int_roundtrip_witness:
  "map_option (f80_to_int round_chop) (f80_from_int 0x8000000000000000) = Some 0x8000000000000000"
  by (rule f80_int_roundtrip) simp

text \<open>C38. Every double, zeros, denormals, infinities and NaNs included, survives
the conversion to an 80-bit number and back bit for bit, in the modes to nearest
and chop.\<close>
theorem f80_double_roundtrip:
  assumes "rm = round_to_nearest \<or> rm = round_chop"
  shows "map_option (f80_to_double rm) (f80_from_double d) = Some d"
  by (rule to_double_from_double[OF assms])

theorem f80_double_roundtrip_witness:
  "map_option (f80_to_double round_to_nearest) (f80_from_double 1) = Some 1"
  by (rule f80_double_roundtrip) simp

text \<open>The division loop of \<open>uint128_div\<close> adds the bit shifted out of the
dividend to a value it then drops, so the remainder never grows: the quotient
by any nonzero divisor is 0.\<close>
lemma uint128_div_is_zero:
  assumes "divisor \<noteq> 0"
  shows "map_option fst (uint128_div (Some old) dividend divisor) = Some 0"
  using div_quotient_zero[OF assms] by (simp add: uint128_div_def Let_def)

lemma uint128_div_is_zero_witness:
  "map_option fst (uint128_div (Some False) 84 2) = Some 0"
  by (rule uint128_div_is_zero) simp

text \<open>\<open>f80_div\<close> divides by calling \<open>uint128_div\<close> with a null overflow
pointer, which that function reads: the process ends exactly for the operands
that need a division, finite supported numbers with a nonzero divisor.\<close>
lemma f80_div_crashes_iff:
  "f80_div rm a b = None \<longleftrightarrow>
     f80_is_supported a \<and> f80_is_supported b \<and> \<not> f80_isnan a \<and> \<not> f80_isnan b
     \<and> \<not> f80_isinf a \<and> \<not> f80_isinf b \<and> \<not> f80_iszero b"
  by (auto simp: f80_div_def uint128_div_def Let_def)

text \<open>Numbers with the same exponent are subtracted to +0 whatever their
significands, because the difference is tested for zero in its low 64 bits only;
\<open>f80_lt\<close>, which looks at the sign of the difference, never finds one of them
less than the other.\<close>
lemma f80_sub_equal_exponents:
  assumes "f80_is_supported a" "f80_is_supported b" "fexp a = fexp b" "fexp a \<noteq> 0x7fff" "fsign a = fsign b"
  shows "f80_sub rm a b = Some f80_zero \<and> f80_lt rm a b = Some False"
proof -
  have "f80_is_supported (f80_neg b)" "fexp a = fexp (f80_neg b)" "fsign a \<noteq> fsign (f80_neg b)"
    using assms by (simp_all add: f80_is_supported_def f80_neg_def)
  then have "f80_sub rm a b = Some f80_zero"
    using add_opposite_equal_exponents assms(1,4) by (simp add: f80_sub_def)
  then show ?thesis using assms(5) by (simp add: f80_lt_def f80_zero_def)
qed

lemma f80_sub_equal_exponents_witness:
  "f80_sub round_to_nearest \<lparr>signif = 0xc000000000000000, fexp = 0x3fff, fsign = False\<rparr>
     \<lparr>signif = 0x8000000000000000, fexp = 0x3fff, fsign = False\<rparr> = Some f80_zero
   \<and> f80_lt round_to_nearest \<lparr>signif = 0xc000000000000000, fexp = 0x3fff, fsign = False\<rparr>
     \<lparr>signif = 0x8000000000000000, fexp = 0x3fff, fsign = False\<rparr> = Some False"
  by (rule f80_sub_equal_exponents) (simp_all add: f80_is_supported_def)

text \<open>Adding a normal number to itself fails the assertion at the end of
\<open>f80_add\<close>: \<open>u128_normalize_round\<close> counts the leading zeros of the high half in
128 bits, shifts the significand out and leaves the integer bit clear.\<close>
lemma f80_doubling_aborts:
  assumes "f80_is_supported x" "\<not> f80_isnan x" "\<not> f80_isinf x" "64 \<le> fexp x" "rm \<noteq> round_up"
  shows "f80_add rm x x = None"
  by (rule double_aborts[OF assms])

lemma f80_doubling_aborts_witness:
  "f80_add round_to_nearest \<lparr>signif = 0x8000000000000000, fexp = 0x3fff, fsign = False\<rparr>
     \<lparr>signif = 0x8000000000000000, fexp = 0x3fff, fsign = False\<rparr> = None"
  by (rule f80_doubling_aborts) (simp_all add: f80_is_supported_def f80_isnan_def f80_isinf_def)

end
