(* ===== verification/Fd_Table.thy ===== *)
theory Fd_Table
  imports Errno
begin

text \<open>
  File descriptors (\<open>src/fs/fd.c\<close>): open file objects with their reference
  counts, the descriptor tables that refer to them, and the calls that change a
  table. Objects and tables live in two heaps whose addresses are not used
  again. \<open>fd_bad\<close> records undefined behaviour or a failed assertion. The host's
  \<open>malloc\<close> answers from an oracle where its result is tested. The operations of
  a file (\<open>fd->ops\<close>) are parameters: the result of its \<open>close\<close>, and the optional
  \<open>getflags\<close> and \<open>setflags\<close>. The waiters of \<open>poll\<close> that a closed file leaves are
  not modelled. Counts are natural numbers, positive for every live object.
\<close>

subsection \<open>State\<close>

record fd_obj =
  fd_refcount :: nat
  fd_flags :: dword_t

record fdtable =
  ft_refcount :: nat
  ft_size :: dword_t
  ft_files :: "dword_t \<Rightarrow> nat option"
  ft_cloexec :: "dword_t \<Rightarrow> bool"

text \<open>\<open>fd_current\<close> is the table of the current task and \<open>fd_nofile\<close> its limit
\<open>RLIMIT_NOFILE\<close>.\<close>

record fds =
  fd_heap :: "nat \<Rightarrow> fd_obj option"
  fd_tables :: "nat \<Rightarrow> fdtable option"
  fd_current :: nat
  fd_nofile :: qword_t
  fd_next :: nat
  fd_host :: "nat \<Rightarrow> bool"
  fd_calls :: nat
  fd_bad :: bool

record file_ops =
  op_close :: "nat \<Rightarrow> int"
  op_getflags :: "(nat \<Rightarrow> int) option"
  op_setflags :: "(nat \<Rightarrow> dword_t \<Rightarrow> int) option"

abbreviation (input) O_APPEND :: dword_t where "O_APPEND \<equiv> 0x400"
abbreviation (input) O_NONBLOCK :: dword_t where "O_NONBLOCK \<equiv> 0x800"
abbreviation (input) O_CLOEXEC :: dword_t where "O_CLOEXEC \<equiv> 0x80000"

definition bad :: "fds \<Rightarrow> fds" where
  "bad s = s\<lparr>fd_bad := True\<rparr>"

definition upd_table :: "nat \<Rightarrow> (fdtable \<Rightarrow> fdtable) \<Rightarrow> fds \<Rightarrow> fds" where
  "upd_table t f s =
    (case fd_tables s t of None \<Rightarrow> bad s | Some tb \<Rightarrow> s\<lparr>fd_tables := (fd_tables s)(t \<mapsto> f tb)\<rparr>)"

definition upd_fd :: "nat \<Rightarrow> (fd_obj \<Rightarrow> fd_obj) \<Rightarrow> fds \<Rightarrow> fds" where
  "upd_fd fd f s =
    (case fd_heap s fd of None \<Rightarrow> bad s | Some x \<Rightarrow> s\<lparr>fd_heap := (fd_heap s)(fd \<mapsto> f x)\<rparr>)"

definition host_malloc :: "fds \<Rightarrow> bool \<times> fds" where
  "host_malloc s = (fd_host s (fd_calls s), s\<lparr>fd_calls := Suc (fd_calls s)\<rparr>)"

subsection \<open>Open files\<close>

definition fd_create :: "fds \<Rightarrow> nat \<times> fds" where
  "fd_create s =
    (fd_next s, s\<lparr>fd_heap := (fd_heap s)(fd_next s \<mapsto> \<lparr>fd_refcount = 1, fd_flags = 0\<rparr>),
                  fd_next := Suc (fd_next s)\<rparr>)"

definition fd_retain :: "nat \<Rightarrow> fds \<Rightarrow> fds" where
  "fd_retain fd = upd_fd fd (\<lambda>x. x\<lparr>fd_refcount := fd_refcount x + 1\<rparr>)"

definition fd_close :: "file_ops \<Rightarrow> nat \<Rightarrow> fds \<Rightarrow> int \<times> fds" where
  "fd_close ops fd s =
    (case fd_heap s fd of
       None \<Rightarrow> (0, bad s)
     | Some x \<Rightarrow>
         if fd_refcount x = 1 then (op_close ops fd, s\<lparr>fd_heap := (fd_heap s)(fd := None)\<rparr>)
         else (0, s\<lparr>fd_heap := (fd_heap s)(fd \<mapsto> x\<lparr>fd_refcount := fd_refcount x - 1\<rparr>)\<rparr>))"

subsection \<open>Tables\<close>

text \<open>Resizing copies the close-on-exec bits by whole bytes. A table of size 0 has
no arrays.\<close>

definition resized :: "dword_t \<Rightarrow> fdtable \<Rightarrow> fdtable" where
  "resized sz tb =
    tb\<lparr>ft_files := (\<lambda>f. if f < ft_size tb then ft_files tb f else None),
       ft_cloexec := (\<lambda>f. ft_size tb \<noteq> 0 \<and> drop_bit 3 f \<le> drop_bit 3 (ft_size tb - 1) \<and> ft_cloexec tb f),
       ft_size := sz\<rparr>"

definition fdtable_resize :: "nat \<Rightarrow> dword_t \<Rightarrow> fds \<Rightarrow> int \<times> fds" where
  "fdtable_resize t sz s =
    (case fd_tables s t of
       None \<Rightarrow> (0, bad s)
     | Some tb \<Rightarrow>
         if sz \<le> ft_size tb then (0, bad s)
         else case host_malloc s of
                (False, s) \<Rightarrow> (ENOMEM, s)
              | (True, s) \<Rightarrow>
                  (case host_malloc s of
                     (False, s) \<Rightarrow> (ENOMEM, s)
                   | (True, s) \<Rightarrow> (0, upd_table t (resized sz) s)))"

definition fdtable_new :: "dword_t \<Rightarrow> fds \<Rightarrow> (int + nat) \<times> fds" where
  "fdtable_new sz s =
    (case host_malloc s of
       (False, s) \<Rightarrow> (Inl ENOMEM, s)
     | (True, s) \<Rightarrow>
         (let t = fd_next s;
              s = s\<lparr>fd_tables := (fd_tables s)(t \<mapsto> \<lparr>ft_refcount = 1, ft_size = 0, ft_files = (\<lambda>_. None),
                                                  ft_cloexec = (\<lambda>_. False)\<rparr>),
                    fd_next := Suc t\<rparr>
          in case fdtable_resize t sz s of
               (err, s) \<Rightarrow>
                 if err < 0 then (Inl err, s\<lparr>fd_tables := (fd_tables s)(t := None)\<rparr>) else (Inr t, s)))"

definition retain_slot :: "nat \<Rightarrow> dword_t \<Rightarrow> fds \<Rightarrow> fds" where
  "retain_slot t f s =
    (case fd_tables s t of
       None \<Rightarrow> bad s
     | Some tb \<Rightarrow> (case ft_files tb f of None \<Rightarrow> s | Some fd \<Rightarrow> fd_retain fd s))"

definition slots_below :: "dword_t \<Rightarrow> dword_t list" where
  "slots_below sz = map of_nat [0..<unat sz]"

definition fdtable_copy :: "nat \<Rightarrow> fds \<Rightarrow> (int + nat) \<times> fds" where
  "fdtable_copy t s =
    (case fd_tables s t of
       None \<Rightarrow> (Inl 0, bad s)
     | Some tb \<Rightarrow>
         (case fdtable_new (ft_size tb) s of
            (Inl err, s) \<Rightarrow> (Inl err, s)
          | (Inr n, s) \<Rightarrow>
              (let s = upd_table n (\<lambda>x. x\<lparr>ft_files := ft_files tb\<rparr>) s;
                   s = fold (retain_slot n) (slots_below (ft_size tb)) s
               in (Inr n, upd_table n (\<lambda>x. x\<lparr>ft_cloexec := ft_cloexec tb\<rparr>) s))))"

subsection \<open>The current table\<close>

definition cur :: "fds \<Rightarrow> fdtable option" where
  "cur s = fd_tables s (fd_current s)"

definition f_get :: "dword_t \<Rightarrow> fds \<Rightarrow> nat option" where
  "f_get f s =
    (case cur s of None \<Rightarrow> None | Some tb \<Rightarrow> if f < ft_size tb then ft_files tb f else None)"

definition put_slot :: "dword_t \<Rightarrow> nat option \<Rightarrow> fds \<Rightarrow> fds" where
  "put_slot f x s =
    (case cur s of
       None \<Rightarrow> bad s
     | Some tb \<Rightarrow>
         if f < ft_size tb then upd_table (fd_current s) (\<lambda>tb. tb\<lparr>ft_files := (ft_files tb)(f := x)\<rparr>) s
         else bad s)"

definition put_cloexec :: "dword_t \<Rightarrow> bool \<Rightarrow> fds \<Rightarrow> fds" where
  "put_cloexec f b s =
    (case cur s of
       None \<Rightarrow> bad s
     | Some tb \<Rightarrow>
         if f < ft_size tb then upd_table (fd_current s) (\<lambda>tb. tb\<lparr>ft_cloexec := (ft_cloexec tb)(f := b)\<rparr>) s
         else bad s)"

definition f_close :: "file_ops \<Rightarrow> dword_t \<Rightarrow> fds \<Rightarrow> int \<times> fds" where
  "f_close ops f s =
    (case f_get f s of
       None \<Rightarrow> (EBADF, s)
     | Some fd \<Rightarrow>
         (case fd_close ops fd s of
            (err, s) \<Rightarrow> (err, put_cloexec f False (put_slot f None s))))"

definition fdtable_release :: "file_ops \<Rightarrow> nat \<Rightarrow> fds \<Rightarrow> fds" where
  "fdtable_release ops t s =
    (case fd_tables s t of
       None \<Rightarrow> bad s
     | Some tb \<Rightarrow>
         (let s = upd_table t (\<lambda>x. x\<lparr>ft_refcount := ft_refcount x - 1\<rparr>) s
          in if ft_refcount tb = 1
             then (let s = fold (\<lambda>f s. snd (f_close ops f s)) (slots_below (ft_size tb)) s
                   in s\<lparr>fd_tables := (fd_tables s)(t := None)\<rparr>)
             else s))"

definition fdtable_expand :: "dword_t \<Rightarrow> fds \<Rightarrow> int \<times> fds" where
  "fdtable_expand hi s =
    (case cur s of
       None \<Rightarrow> (0, bad s)
     | Some tb \<Rightarrow>
         if hi + 1 \<le> ft_size tb then (0, s)
         else if ucast (hi + 1) > fd_nofile s then (EMFILE, s)
         else fdtable_resize (fd_current s) (hi + 1) s)"

text \<open>The scan for a free slot: the first one from \<open>f\<close> below \<open>sz\<close>, compared
without sign, or where the scan stops.\<close>

function free_slot :: "fdtable \<Rightarrow> dword_t \<Rightarrow> dword_t \<Rightarrow> dword_t" where
  "free_slot tb sz f =
    (if f < sz \<and> ft_files tb f \<noteq> None then free_slot tb sz (f + 1) else f)"
  by auto
termination
  by (relation "measure (\<lambda>(_, sz, f). unat sz - unat f)")
    (auto simp: unat_succ_less word_less_nat_alt)

declare free_slot.simps [simp del]

definition slot_limit :: "fds \<Rightarrow> fdtable \<Rightarrow> dword_t" where
  "slot_limit s tb =
    (let limit = ucast (fd_nofile s) in if limit > ft_size tb then ft_size tb else limit)"

definition pick_slot :: "dword_t \<Rightarrow> fds \<Rightarrow> int \<times> fds" where
  "pick_slot start s =
    (case cur s of
       None \<Rightarrow> (0, bad s)
     | Some tb \<Rightarrow>
         (let f = free_slot tb (slot_limit s tb) start
          in if f \<ge> slot_limit s tb
             then case fdtable_expand f s of (err, s) \<Rightarrow> (if err < 0 then err else sint f, s)
             else (sint f, s)))"

definition f_install_start :: "file_ops \<Rightarrow> nat \<Rightarrow> dword_t \<Rightarrow> fds \<Rightarrow> int \<times> fds" where
  "f_install_start ops fd start s =
    (case pick_slot start s of
       (r, s) \<Rightarrow>
         if r \<ge> 0 then (r, put_cloexec (word_of_int r) False (put_slot (word_of_int r) (Some fd) s))
         else (r, snd (fd_close ops fd s)))"

definition f_install :: "file_ops \<Rightarrow> nat \<Rightarrow> fds \<Rightarrow> int \<times> fds" where
  "f_install ops fd = f_install_start ops fd 0"

definition f_install_flags :: "file_ops \<Rightarrow> nat \<Rightarrow> dword_t \<Rightarrow> fds \<Rightarrow> int \<times> fds" where
  "f_install_flags ops fd flags s =
    (case f_install ops fd s of
       (f, s) \<Rightarrow>
         if f \<ge> 0 then
           (let s = (if flags AND O_CLOEXEC \<noteq> 0 then put_cloexec (word_of_int f) True s else s)
            in (f, if flags AND O_NONBLOCK \<noteq> 0
                   then upd_fd fd (\<lambda>x. x\<lparr>fd_flags := fd_flags x OR O_NONBLOCK\<rparr>) s else s))
         else (f, s))"

subsection \<open>System calls\<close>

definition sys_dup :: "file_ops \<Rightarrow> dword_t \<Rightarrow> fds \<Rightarrow> int \<times> fds" where
  "sys_dup ops f s =
    (case f_get f s of None \<Rightarrow> (EBADF, s) | Some fd \<Rightarrow> f_install ops fd (fd_retain fd s))"

definition sys_dup2 :: "file_ops \<Rightarrow> dword_t \<Rightarrow> dword_t \<Rightarrow> fds \<Rightarrow> int \<times> fds" where
  "sys_dup2 ops f new_f s =
    (case f_get f s of
       None \<Rightarrow> (EBADF, s)
     | Some fd \<Rightarrow>
         (case fdtable_expand new_f s of
            (err, s) \<Rightarrow>
              if err < 0 then (err, s)
              else (sint new_f, put_slot new_f (Some fd) (fd_retain fd (snd (f_close ops new_f s))))))"

definition sys_fcntl64 :: "file_ops \<Rightarrow> dword_t \<Rightarrow> dword_t \<Rightarrow> dword_t \<Rightarrow> fds \<Rightarrow> int \<times> fds" where
  "sys_fcntl64 ops f cmd arg s =
    (case f_get f s of
       None \<Rightarrow> (EBADF, s)
     | Some fd \<Rightarrow>
         if cmd = 0 then f_install_start ops fd arg (fd_retain fd s)
         else if cmd = 1 then (of_bool (case cur s of None \<Rightarrow> False | Some tb \<Rightarrow> ft_cloexec tb f), s)
         else if cmd = 2 then (0, put_cloexec f (arg AND 1 \<noteq> 0) s)
         else if cmd = 3 then
           (case op_getflags ops of
              None \<Rightarrow> (case fd_heap s fd of None \<Rightarrow> (0, bad s) | Some x \<Rightarrow> (uint (fd_flags x), s))
            | Some g \<Rightarrow> (g fd, s))
         else if cmd = 4 then
           (case op_setflags ops of
              None \<Rightarrow> (0, upd_fd fd (\<lambda>x. x\<lparr>fd_flags := arg AND (O_APPEND OR O_NONBLOCK)\<rparr>) s)
            | Some g \<Rightarrow> (g fd arg, s))
         else (EINVAL, s))"

end
