(* ===== verification/Fd_Facts.thy ===== *)
theory Fd_Facts
  imports Fd_Table
begin

text \<open>
  The reference counts of open files are right: every count is the number of
  slots that refer to the file plus the references \<open>held\<close> elsewhere (a call in
  progress, the working directory), no slot refers to a closed file, and only
  occupied slots are marked close-on-exec. Each operation on a table is shown to
  keep this, moving a held reference into the table or out of it.
\<close>

subsection \<open>References\<close>

definition fd_refs :: "fds \<Rightarrow> nat \<Rightarrow> (nat \<times> dword_t) set" where
  "fd_refs s fd = {(t, f). \<exists>tb. fd_tables s t = Some tb \<and> ft_files tb f = Some fd}"

definition table_ok :: "fdtable \<Rightarrow> bool" where
  "table_ok tb \<longleftrightarrow> (\<forall>f. ft_files tb f \<noteq> None \<longrightarrow> f < ft_size tb) \<and> (\<forall>f. ft_cloexec tb f \<longrightarrow> ft_files tb f \<noteq> None)"

definition count_at :: "fd_obj option \<Rightarrow> (nat \<times> dword_t) set \<Rightarrow> nat \<Rightarrow> bool" where
  "count_at x R n \<longleftrightarrow>
    (case x of None \<Rightarrow> R = {} \<and> n = 0
             | Some x \<Rightarrow> fd_refcount x = card R + n \<and> 0 < fd_refcount x)"

definition counts_ok :: "(nat \<Rightarrow> nat) \<Rightarrow> fds \<Rightarrow> bool" where
  "counts_ok held s \<longleftrightarrow> (\<forall>fd. count_at (fd_heap s fd) (fd_refs s fd) (held fd))"

definition fds_ok :: "(nat \<Rightarrow> nat) \<Rightarrow> fds \<Rightarrow> bool" where
  "fds_ok held s \<longleftrightarrow>
    \<not> fd_bad s \<and> cur s \<noteq> None \<and> finite (dom (fd_tables s)) \<and> counts_ok held s
    \<and> (\<forall>t tb. fd_tables s t = Some tb \<longrightarrow> table_ok tb)
    \<and> (\<forall>i \<ge> fd_next s. fd_heap s i = None \<and> fd_tables s i = None)"

text \<open>The limit of open files is a 32-bit number and the table is within it.\<close>

definition limit_ok :: "fds \<Rightarrow> bool" where
  "limit_ok s \<longleftrightarrow> uint (fd_nofile s) < 2 ^ 32
     \<and> (\<forall>tb. cur s = Some tb \<longrightarrow> uint (ft_size tb) \<le> uint (fd_nofile s))"

lemma counts_ok_change:
  assumes "counts_ok held s"
    and "\<And>x. x \<noteq> fd \<Longrightarrow> fd_heap s' x = fd_heap s x \<and> fd_refs s' x = fd_refs s x"
    and "count_at (fd_heap s' fd) (fd_refs s' fd) n"
  shows "counts_ok (held(fd := n)) s'"
  using assms by (simp add: counts_ok_def)

lemma fds_ok_counts: "fds_ok held s \<Longrightarrow> counts_ok held s"
  by (simp add: fds_ok_def)

lemma fds_ok_count_at: "fds_ok held s \<Longrightarrow> count_at (fd_heap s fd) (fd_refs s fd) (held fd)"
  by (simp add: fds_ok_def counts_ok_def)

lemma finite_fd_refs: "finite (dom (fd_tables s)) \<Longrightarrow> finite (fd_refs s fd)"
  by (rule finite_subset[of _ "dom (fd_tables s) \<times> UNIV"]) (auto simp: fd_refs_def)

lemma fd_refs_put:
  assumes "fd_tables s t = Some tb"
  shows "fd_refs (s\<lparr>fd_tables := (fd_tables s)(t \<mapsto> tb\<lparr>ft_files := (ft_files tb)(f := x)\<rparr>)\<rparr>) fd
    = (if x = Some fd then insert (t, f) (fd_refs s fd) else fd_refs s fd - {(t, f)})"
  using assms by (auto simp: fd_refs_def split: if_splits)

lemma fd_refs_same:
  assumes "\<And>t. map_option ft_files (fd_tables s' t) = map_option ft_files (fd_tables s t)"
  shows "fd_refs s' fd = fd_refs s fd"
proof -
  have "(\<exists>tb. fd_tables s' t = Some tb \<and> ft_files tb f = Some fd)
      \<longleftrightarrow> (\<exists>tb. fd_tables s t = Some tb \<and> ft_files tb f = Some fd)" for t f
    using assms[of t] by (cases "fd_tables s' t"; cases "fd_tables s t") auto
  then show ?thesis by (simp add: fd_refs_def)
qed

lemma fd_refs_heap [simp]:
  "fd_refs (s\<lparr>fd_heap := h\<rparr>) = fd_refs s" "fd_refs (s\<lparr>fd_next := n\<rparr>) = fd_refs s"
  "fd_refs (s\<lparr>fd_calls := n\<rparr>) = fd_refs s"
  by (simp_all add: fd_refs_def fun_eq_iff)

lemma cur_frame [simp]:
  "cur (s\<lparr>fd_heap := h\<rparr>) = cur s" "cur (s\<lparr>fd_next := n\<rparr>) = cur s" "cur (s\<lparr>fd_calls := n\<rparr>) = cur s"
  by (simp_all add: cur_def)

lemma fds_ok_heap:
  assumes "fds_ok held s" "s' = s\<lparr>fd_heap := h\<rparr>" "counts_ok held' s'"
    and "\<And>i. fd_heap s i = None \<Longrightarrow> h i = None"
  shows "fds_ok held' s'"
  using assms by (simp add: fds_ok_def)

lemma fds_ok_table:
  assumes "fds_ok held s" "s' = s\<lparr>fd_tables := (fd_tables s)(fd_current s \<mapsto> tb)\<rparr>" "counts_ok held' s'" "table_ok tb"
  shows "fds_ok held' s'"
proof -
  have "fd_current s < fd_next s"
    using assms(1) by (metis fds_ok_def cur_def not_le)
  then show ?thesis using assms by (simp add: fds_ok_def cur_def)
qed

text \<open>A held reference is one to a live file, and so is a slot.\<close>

lemma held_live:
  assumes "fds_ok held s" "0 < held fd"
  obtains x where "fd_heap s fd = Some x" "fd_refcount x = card (fd_refs s fd) + held fd"
  using fds_ok_count_at[OF assms(1), of fd] assms(2)
  by (auto simp: count_at_def split: option.splits)

lemma slot_live:
  assumes "fds_ok held s" "f_get f s = Some fd"
  obtains x where "fd_heap s fd = Some x" "fd_refcount x = card (fd_refs s fd) + held fd"
proof -
  have "(fd_current s, f) \<in> fd_refs s fd"
    using assms(2) by (auto simp: fd_refs_def f_get_def cur_def split: option.splits if_splits)
  then show ?thesis
    using that fds_ok_count_at[OF assms(1), of fd] by (auto simp: count_at_def split: option.splits)
qed

lemma fds_ok_finite: "fds_ok held s \<Longrightarrow> finite (fd_refs s fd)"
  by (auto simp: fds_ok_def intro: finite_fd_refs)

subsection \<open>Files\<close>

lemma fd_close_frame [simp]:
  "fd_tables (snd (fd_close ops fd s)) = fd_tables s" "fd_current (snd (fd_close ops fd s)) = fd_current s"
  "fd_nofile (snd (fd_close ops fd s)) = fd_nofile s" "cur (snd (fd_close ops fd s)) = cur s"
  "fd_next (snd (fd_close ops fd s)) = fd_next s" "fd_refs (snd (fd_close ops fd s)) = fd_refs s"
  by (auto simp: fd_close_def bad_def cur_def fd_refs_def fun_eq_iff split: option.splits)

lemma fd_close_ok:
  assumes ok: "fds_ok held s" and held: "0 < held fd"
  shows "fds_ok (held(fd := held fd - 1)) (snd (fd_close ops fd s))"
proof -
  obtain x where x: "fd_heap s fd = Some x" and n: "fd_refcount x = card (fd_refs s fd) + held fd"
    by (rule held_live[OF ok held])
  define h where "h = (if fd_refcount x = 1 then (fd_heap s)(fd := None)
      else (fd_heap s)(fd \<mapsto> x\<lparr>fd_refcount := fd_refcount x - 1\<rparr>))"
  have c: "snd (fd_close ops fd s) = s\<lparr>fd_heap := h\<rparr>" using x by (simp add: fd_close_def h_def)
  have at: "count_at (h fd) (fd_refs s fd) (held fd - 1)"
  proof (cases "fd_refcount x = 1")
    case True
    then have "card (fd_refs s fd) = 0" "held fd = 1" using n held by linarith+
    then show ?thesis using True fds_ok_finite[OF ok, of fd] by (simp add: h_def count_at_def)
  next
    case False
    then have "fd_refcount x - 1 = card (fd_refs s fd) + (held fd - 1)" "0 < fd_refcount x - 1"
      using n held by linarith+
    then show ?thesis using False by (simp add: h_def count_at_def)
  qed
  have "counts_ok (held(fd := held fd - 1)) (s\<lparr>fd_heap := h\<rparr>)"
    by (rule counts_ok_change[OF fds_ok_counts[OF ok]]) (use at in \<open>simp_all add: h_def\<close>)
  then show ?thesis unfolding c by (rule fds_ok_heap[OF ok refl]) (use x in \<open>auto simp: h_def split: if_splits\<close>)
qed

lemma fd_retain_ok:
  assumes ok: "fds_ok held s" and x: "fd_heap s fd = Some x"
  shows "fds_ok (held(fd := held fd + 1)) (fd_retain fd s)"
proof -
  have r: "fd_retain fd s = s\<lparr>fd_heap := (fd_heap s)(fd \<mapsto> x\<lparr>fd_refcount := fd_refcount x + 1\<rparr>)\<rparr>"
    using x by (simp add: fd_retain_def upd_fd_def)
  have "counts_ok (held(fd := held fd + 1)) (fd_retain fd s)"
    using fds_ok_count_at[OF ok, of fd] x
    by (intro counts_ok_change[OF fds_ok_counts[OF ok]]) (auto simp: r count_at_def)
  then show ?thesis using x by (intro fds_ok_heap[OF ok r]) (auto split: if_splits)
qed

lemma fd_retain_frame [simp]:
  "fd_tables (fd_retain fd s) = fd_tables s" "fd_current (fd_retain fd s) = fd_current s"
  "fd_nofile (fd_retain fd s) = fd_nofile s" "cur (fd_retain fd s) = cur s"
  "f_get f (fd_retain fd s) = f_get f s"
  by (auto simp: fd_retain_def upd_fd_def bad_def cur_def f_get_def split: option.splits)

lemma fd_create_ok:
  assumes ok: "fds_ok held s" and c: "fd_create s = (fd, s')"
  shows "fds_ok (held(fd := 1)) s'" "held fd = 0"
proof -
  have none: "fd_heap s fd = None" using assms by (simp add: fds_ok_def fd_create_def)
  then have e: "fd_refs s fd = {}" and h: "held fd = 0"
    using fds_ok_count_at[OF ok, of fd] by (auto simp: count_at_def)
  have s': "s' = s\<lparr>fd_heap := (fd_heap s)(fd \<mapsto> \<lparr>fd_refcount = 1, fd_flags = 0\<rparr>), fd_next := Suc fd\<rparr>"
    using c by (auto simp: fd_create_def)
  have "counts_ok (held(fd := 1)) s'"
    using e by (intro counts_ok_change[OF fds_ok_counts[OF ok]]) (auto simp: s' count_at_def)
  then show "fds_ok (held(fd := 1)) s'" using ok c by (auto simp: fds_ok_def s' fd_create_def)
  show "held fd = 0" by (rule h)
qed

subsection \<open>Slots of the current table\<close>

lemma put_slot_some:
  assumes ok: "fds_ok held s" and held: "0 < held fd" and tb: "cur s = Some tb"
    and f: "f < ft_size tb" "ft_files tb f = None"
  shows "fds_ok (held(fd := held fd - 1)) (put_slot f (Some fd) s)"
    "f_get f (put_slot f (Some fd) s) = Some fd"
proof -
  let ?tb = "tb\<lparr>ft_files := (ft_files tb)(f := Some fd)\<rparr>"
  let ?s = "s\<lparr>fd_tables := (fd_tables s)(fd_current s \<mapsto> ?tb)\<rparr>"
  have s: "put_slot f (Some fd) s = ?s" using tb f by (simp add: put_slot_def upd_table_def cur_def)
  have t: "fd_tables s (fd_current s) = Some tb" using tb by (simp add: cur_def)
  have new: "(fd_current s, f) \<notin> fd_refs s x" for x using f t by (auto simp: fd_refs_def)
  have refs: "fd_refs ?s x = (if x = fd then insert (fd_current s, f) (fd_refs s x) else fd_refs s x)" for x
    using fd_refs_put[OF t, of f "Some fd" x] new[of x] by auto
  obtain x where x: "fd_heap s fd = Some x" "fd_refcount x = card (fd_refs s fd) + held fd"
    by (rule held_live[OF ok held])
  have "counts_ok (held(fd := held fd - 1)) ?s"
    using x held new fds_ok_finite[OF ok, of fd]
    by (intro counts_ok_change[OF fds_ok_counts[OF ok]]) (auto simp: refs count_at_def)
  moreover have "table_ok ?tb" using ok t f by (auto simp: fds_ok_def table_ok_def)
  ultimately show "fds_ok (held(fd := held fd - 1)) (put_slot f (Some fd) s)"
    unfolding s by (intro fds_ok_table[OF ok refl])
  show "f_get f (put_slot f (Some fd) s) = Some fd"
    unfolding s using f t by (simp add: f_get_def cur_def)
qed

text \<open>Emptying a slot.\<close>

definition empty_slot :: "dword_t \<Rightarrow> fds \<Rightarrow> fds" where
  "empty_slot f s = put_cloexec f False (put_slot f None s)"

lemma empty_slot_ok:
  assumes ok: "fds_ok held s" and get: "f_get f s = Some fd"
  shows "fds_ok (held(fd := held fd + 1)) (empty_slot f s)" "f_get f (empty_slot f s) = None"
proof -
  obtain tb where tb: "cur s = Some tb" "f < ft_size tb" "ft_files tb f = Some fd"
    using get by (auto simp: f_get_def split: option.splits if_splits)
  let ?tb = "tb\<lparr>ft_files := (ft_files tb)(f := None), ft_cloexec := (ft_cloexec tb)(f := False)\<rparr>"
  let ?s = "s\<lparr>fd_tables := (fd_tables s)(fd_current s \<mapsto> ?tb)\<rparr>"
  have t: "fd_tables s (fd_current s) = Some tb" using tb by (simp add: cur_def)
  have s: "empty_slot f s = ?s"
    using tb t by (simp add: empty_slot_def put_slot_def put_cloexec_def upd_table_def cur_def)
  have old: "(fd_current s, f) \<in> fd_refs s fd" using tb t by (auto simp: fd_refs_def)
  have refs: "fd_refs ?s x = fd_refs s x - {(fd_current s, f)}" for x
    using t by (auto simp: fd_refs_def split: if_splits)
  have other: "fd_refs s x - {(fd_current s, f)} = fd_refs s x" if "x \<noteq> fd" for x
    using that tb t by (auto simp: fd_refs_def)
  obtain x where x: "fd_heap s fd = Some x" and n: "fd_refcount x = card (fd_refs s fd) + held fd"
    by (rule slot_live[OF ok get])
  have "card (fd_refs s fd) = Suc (card (fd_refs s fd - {(fd_current s, f)}))"
    using old fds_ok_finite[OF ok, of fd] by (rule card.remove[rotated])
  then have "fd_refcount x = card (fd_refs s fd - {(fd_current s, f)}) + (held fd + 1)" "0 < fd_refcount x"
    using n by linarith+
  then have "count_at (fd_heap ?s fd) (fd_refs ?s fd) (held fd + 1)"
    using x unfolding refs by (simp add: count_at_def)
  then have "counts_ok (held(fd := held fd + 1)) ?s"
    by (rule counts_ok_change[OF fds_ok_counts[OF ok], rotated]) (simp add: refs other)
  moreover have "table_ok ?tb" using ok t by (auto simp: fds_ok_def table_ok_def)
  ultimately show "fds_ok (held(fd := held fd + 1)) (empty_slot f s)"
    unfolding s by (intro fds_ok_table[OF ok refl])
  show "f_get f (empty_slot f s) = None"
    unfolding s using t by (simp add: f_get_def cur_def)
qed

text \<open>Closing a file and emptying its slot can be done in either order.\<close>

lemma f_close_empty:
  assumes "f_get f s = Some fd"
  shows "snd (f_close ops f s) = snd (fd_close ops fd (empty_slot f s))"
proof -
  obtain tb where t: "fd_tables s (fd_current s) = Some tb" "f < ft_size tb"
    using assms by (auto simp: f_get_def cur_def split: option.splits if_splits)
  then show ?thesis
    using assms by (cases "fd_heap s fd")
      (simp_all add: f_close_def empty_slot_def split_beta put_slot_def put_cloexec_def cur_def upd_table_def
        fd_close_def bad_def)
qed

lemma put_slot_frame [simp]:
  "fd_nofile (put_slot f x s) = fd_nofile s" "fd_nofile (put_cloexec f b s) = fd_nofile s"
  "fd_nofile (empty_slot f s) = fd_nofile s" "fd_current (put_slot f x s) = fd_current s"
  "fd_current (put_cloexec f b s) = fd_current s" "fd_current (empty_slot f s) = fd_current s"
  "map_option ft_size (cur (put_slot f x s)) = map_option ft_size (cur s)"
  "map_option ft_size (cur (put_cloexec f b s)) = map_option ft_size (cur s)"
  "map_option ft_size (cur (empty_slot f s)) = map_option ft_size (cur s)"
  by (auto simp: put_slot_def put_cloexec_def empty_slot_def upd_table_def bad_def cur_def split: option.splits)

lemma limit_ok_cong:
  assumes "fd_nofile s' = fd_nofile s" "map_option ft_size (cur s') = map_option ft_size (cur s)"
  shows "limit_ok s' = limit_ok s"
  using assms by (cases "cur s'"; cases "cur s") (auto simp: limit_ok_def)

lemma limit_ok_frame [simp]:
  "limit_ok (put_slot f x s) = limit_ok s" "limit_ok (put_cloexec f b s) = limit_ok s"
  "limit_ok (empty_slot f s) = limit_ok s" "limit_ok (snd (fd_close ops fd s)) = limit_ok s"
  "limit_ok (fd_retain fd s) = limit_ok s"
  by (rule limit_ok_cong; simp)+

lemma f_close_ok:
  assumes "fds_ok held s"
  shows "fds_ok held (snd (f_close ops f s))" "limit_ok (snd (f_close ops f s)) = limit_ok s"
    "f_get f (snd (f_close ops f s)) = None"
proof -
  have "fds_ok held (snd (f_close ops f s)) \<and> f_get f (snd (f_close ops f s)) = None
    \<and> limit_ok (snd (f_close ops f s)) = limit_ok s"
  proof (cases "f_get f s")
    case None
    then show ?thesis using assms by (simp add: f_close_def)
  next
    case (Some fd)
    have "fds_ok ((held(fd := held fd + 1))(fd := (held(fd := held fd + 1)) fd - 1)) (snd (fd_close ops fd (empty_slot f s)))"
      using empty_slot_ok(1)[OF assms Some] by (rule fd_close_ok) simp
    then have "fds_ok held (snd (f_close ops f s))" unfolding f_close_empty[OF Some] by simp
    moreover have "f_get f (snd (f_close ops f s)) = None"
      using empty_slot_ok(2)[OF assms Some] unfolding f_close_empty[OF Some] by (simp add: f_get_def)
    ultimately show ?thesis unfolding f_close_empty[OF Some] by simp
  qed
  then show "fds_ok held (snd (f_close ops f s))" "limit_ok (snd (f_close ops f s)) = limit_ok s"
    "f_get f (snd (f_close ops f s)) = None" by auto
qed

lemma put_cloexec_ok:
  assumes ok: "fds_ok held s" and f: "f_get f s \<noteq> None"
  shows "fds_ok held (put_cloexec f b s)" "f_get g (put_cloexec f b s) = f_get g s"
proof -
  obtain tb where tb: "cur s = Some tb" "f < ft_size tb" "ft_files tb f \<noteq> None"
    using f by (auto simp: f_get_def split: option.splits if_splits)
  then have t: "fd_tables s (fd_current s) = Some tb" by (simp add: cur_def)
  let ?tb = "tb\<lparr>ft_cloexec := (ft_cloexec tb)(f := b)\<rparr>"
  have s: "put_cloexec f b s = s\<lparr>fd_tables := (fd_tables s)(fd_current s \<mapsto> ?tb)\<rparr>" (is "_ = ?s")
    using tb t by (simp add: put_cloexec_def upd_table_def)
  have "fd_refs ?s fd = fd_refs s fd" for fd using t by (intro fd_refs_same) auto
  then have "counts_ok held ?s" using fds_ok_counts[OF ok] by (simp add: counts_ok_def)
  moreover have "table_ok ?tb" using ok t tb by (auto simp: fds_ok_def table_ok_def)
  ultimately show "fds_ok held (put_cloexec f b s)" unfolding s by (intro fds_ok_table[OF ok refl])
  show "f_get g (put_cloexec f b s) = f_get g s" unfolding s using t by (simp add: f_get_def cur_def)
qed

subsection \<open>Growing\<close>

lemma host_malloc_ok:
  assumes "fds_ok held s" "host_malloc s = (b, s')"
  shows "fds_ok held s'" "cur s' = cur s" "fd_nofile s' = fd_nofile s" "fd_current s' = fd_current s"
proof -
  have s': "s' = s\<lparr>fd_calls := Suc (fd_calls s)\<rparr>" using assms(2) by (auto simp: host_malloc_def)
  then show "fds_ok held s'" "cur s' = cur s" "fd_nofile s' = fd_nofile s" "fd_current s' = fd_current s"
    using assms(1) by (simp_all add: fds_ok_def counts_ok_def)
qed

lemma drop_bit_below: "(f :: dword_t) < n \<Longrightarrow> drop_bit 3 f \<le> drop_bit 3 (n - 1)"
proof -
  assume "f < n"
  then have "unat f \<le> unat (n - 1)" using unat_pred[of n] by (cases "n = 0") (simp_all add: word_less_nat_alt)
  then show ?thesis
    unfolding word_le_nat_alt unsigned_drop_bit_eq by (simp add: drop_bit_eq_div div_le_mono take_bit_nat_eq_self unat_less_numeral_power)
qed

lemma resized_ok:
  assumes "table_ok tb" "ft_size tb < n"
  shows "table_ok (resized n tb)" "ft_files (resized n tb) = ft_files tb" "ft_cloexec (resized n tb) = ft_cloexec tb"
    "ft_size (resized n tb) = n"
proof -
  have b: "ft_files tb f = None" if "\<not> f < ft_size tb" for f using assms(1) that by (auto simp: table_ok_def)
  have c: "f < ft_size tb" if "ft_cloexec tb f" for f using assms(1) that by (auto simp: table_ok_def)
  show f: "ft_files (resized n tb) = ft_files tb" using b by (auto simp: resized_def fun_eq_iff)
  show e: "ft_cloexec (resized n tb) = ft_cloexec tb"
    using c drop_bit_below by (auto simp: resized_def fun_eq_iff)
  show "ft_size (resized n tb) = n" by (simp add: resized_def)
  then show "table_ok (resized n tb)"
    using assms unfolding table_ok_def f e by (auto intro: less_trans)
qed

lemma fdtable_resize_ok:
  assumes ok: "fds_ok held s" and tb: "cur s = Some tb" and n: "ft_size tb < n"
    and r: "fdtable_resize (fd_current s) n s = (err, s')"
  shows "fds_ok held s'" "fd_nofile s' = fd_nofile s" "fd_current s' = fd_current s"
    "err = 0 \<and> cur s' = Some (resized n tb) \<or> err = ENOMEM \<and> cur s' = Some tb"
proof -
  have t: "fd_tables s (fd_current s) = Some tb" using tb by (simp add: cur_def)
  obtain b1 s1 where m1: "host_malloc s = (b1, s1)" by (cases "host_malloc s")
  obtain b2 s2 where m2: "host_malloc s1 = (b2, s2)" by (cases "host_malloc s1")
  note h1 = host_malloc_ok[OF ok m1]
  note h2 = host_malloc_ok[OF h1(1) m2]
  let ?s = "s2\<lparr>fd_tables := (fd_tables s2)(fd_current s2 \<mapsto> resized n tb)\<rparr>"
  have t2: "fd_tables s2 (fd_current s2) = Some tb" using tb h1 h2 by (simp add: cur_def)
  have tok: "table_ok tb" using ok t by (simp add: fds_ok_def)
  have "fd_refs ?s fd = fd_refs s2 fd" for fd
    using t2 resized_ok(2)[OF tok n] by (intro fd_refs_same) auto
  then have "counts_ok held ?s" using fds_ok_counts[OF h2(1)] by (simp add: counts_ok_def)
  then have final: "fds_ok held ?s" using resized_ok(1)[OF tok n] by (intro fds_ok_table[OF h2(1) refl])
  have e: "(err, s') = (if b1 then if b2 then (0, ?s) else (ENOMEM, s2) else (ENOMEM, s1))"
    using r t n[unfolded not_le[symmetric]] t2 h1 h2
    by (cases b1; cases b2) (simp_all add: fdtable_resize_def m1 m2 upd_table_def)
  then show "fds_ok held s'" "fd_nofile s' = fd_nofile s" "fd_current s' = fd_current s"
    "err = 0 \<and> cur s' = Some (resized n tb) \<or> err = ENOMEM \<and> cur s' = Some tb"
    using final h1 h2 tb by (auto simp: cur_def split: if_splits)
qed

lemma nofile_small:
  assumes "uint n < 2 ^ 32"
  shows "uint (ucast (n :: qword_t) :: dword_t) = uint n" "(ucast (h :: dword_t) > n) = (uint h > uint n)"
proof -
  have "uint h < 2 ^ 32" by (rule order_less_le_trans[OF unsigned_less]) simp
  then have "take_bit 64 (uint h) = uint h" by (simp add: take_bit_int_eq_self)
  then show "uint (ucast (n :: qword_t) :: dword_t) = uint n" "(ucast (h :: dword_t) > n) = (uint h > uint n)"
    using assms by (simp_all add: unsigned_ucast_eq word_less_def take_bit_int_eq_self)
qed

lemma fdtable_expand_ok:
  assumes ok: "fds_ok held s" and lim: "limit_ok s" and tb: "cur s = Some tb"
    and r: "fdtable_expand hi s = (err, s')"
  shows "fds_ok held s' \<and> limit_ok s' \<and> fd_current s' = fd_current s
    \<and> (\<exists>tb'. cur s' = Some tb' \<and> ft_files tb' = ft_files tb \<and> (err \<ge> 0 \<longrightarrow> hi + 1 \<le> ft_size tb')
          \<and> (hi + 1 \<le> ft_size tb \<longrightarrow> tb' = tb))
    \<and> (err = 0 \<or> err = ENOMEM \<or> err = EMFILE)"
proof -
  have nf: "uint (fd_nofile s) < 2 ^ 32" using lim by (simp add: limit_ok_def)
  have tok: "table_ok tb" using ok tb by (simp add: fds_ok_def cur_def)
  consider (fits) "hi + 1 \<le> ft_size tb" | (over) "ft_size tb < hi + 1" "uint (fd_nofile s) < uint (hi + 1)"
    | (grow) "ft_size tb < hi + 1" "uint (hi + 1) \<le> uint (fd_nofile s)"
    by fastforce
  then show ?thesis
  proof cases
    case fits
    then show ?thesis using ok lim tb r by (simp add: fdtable_expand_def)
  next
    case over
    then show ?thesis
      using ok lim tb r nofile_small(2)[OF nf, of "hi + 1"]
      by (simp add: fdtable_expand_def not_le[symmetric] del: not_le)
  next
    case grow
    then have r': "fdtable_resize (fd_current s) (hi + 1) s = (err, s')"
      using tb r nofile_small(2)[OF nf, of "hi + 1"]
      by (simp add: fdtable_expand_def not_le[symmetric] del: not_le)
    note res = fdtable_resize_ok[OF ok tb grow(1) r']
    show ?thesis
      using res grow lim tb resized_ok[OF tok grow(1)] by (auto simp: limit_ok_def not_le)
  qed
qed

subsection \<open>Installing\<close>

lemma free_slot_free: "free_slot tb sz f < sz \<Longrightarrow> ft_files tb (free_slot tb sz f) = None"
proof (induction tb sz f rule: free_slot.induct)
  case (1 tb sz f)
  show ?case
  proof (cases "f < sz \<and> ft_files tb f \<noteq> None")
    case True
    then have "free_slot tb sz f = free_slot tb sz (f + 1)" by (subst free_slot.simps) simp
    then show ?thesis using 1 True by simp
  next
    case False
    then have "free_slot tb sz f = f" by (subst free_slot.simps) auto
    then show ?thesis using 1(2) False by simp
  qed
qed

lemma pick_slot_ok:
  assumes ok: "fds_ok held s" and lim: "limit_ok s" and r: "pick_slot start s = (r, s')"
  shows "fds_ok held s'" "limit_ok s'"
    "r \<ge> 0 \<Longrightarrow> \<exists>f tb. r = sint f \<and> cur s' = Some tb \<and> f < ft_size tb \<and> ft_files tb f = None"
proof -
  obtain tb where tb: "cur s = Some tb" using ok by (auto simp: fds_ok_def)
  have tok: "table_ok tb" using ok tb by (simp add: fds_ok_def cur_def)
  have nf: "uint (fd_nofile s) < 2 ^ 32" using lim by (simp add: limit_ok_def)
  have sz: "slot_limit s tb = ft_size tb"
    using lim tb nofile_small(1)[OF nf]
    by (auto simp: slot_limit_def Let_def limit_ok_def word_less_def word_uint_eq_iff)
  define f where "f = free_slot tb (ft_size tb) start"
  have free: "ft_files tb f = None"
    using free_slot_free[of tb "ft_size tb" start] tok by (auto simp: f_def table_ok_def)
  have "fds_ok held s' \<and> limit_ok s'
    \<and> (r \<ge> 0 \<longrightarrow> r = sint f \<and> (\<exists>tb. cur s' = Some tb \<and> f < ft_size tb \<and> ft_files tb f = None))"
  proof (cases "ft_size tb \<le> f")
    case True
    obtain err s1 where x: "fdtable_expand f s = (err, s1)" by (cases "fdtable_expand f s")
    obtain tb' where x': "fds_ok held s1" "limit_ok s1" "cur s1 = Some tb'" "ft_files tb' = ft_files tb"
      "err \<ge> 0 \<longrightarrow> f + 1 \<le> ft_size tb'"
      using fdtable_expand_ok[OF ok lim tb x] by blast
    have "f < ft_size tb'" if "err \<ge> 0" "sint f \<ge> 0"
    proof -
      have "f \<noteq> - 1" using that(2) by auto
      then have "f + 1 \<noteq> 0" by (simp add: eq_neg_iff_add_eq_0)
      then have "f < f + 1" using unat_pred[of "f + 1"] by (simp add: word_less_nat_alt unat_gt_0)
      then show ?thesis using x'(5) that(1) by (meson less_le_trans)
    qed
    moreover have "r = (if err < 0 then err else sint f)" "s' = s1"
      using r True by (simp_all add: pick_slot_def tb sz x flip: f_def)
    ultimately show ?thesis using x' free by (auto split: if_splits)
  next
    case False
    then have "r = sint f" "s' = s" using r by (simp_all add: pick_slot_def tb sz flip: f_def)
    then show ?thesis using ok lim tb free False by (simp add: not_le)
  qed
  then show "fds_ok held s'" "limit_ok s'"
    "r \<ge> 0 \<Longrightarrow> \<exists>f tb. r = sint f \<and> cur s' = Some tb \<and> f < ft_size tb \<and> ft_files tb f = None"
    by blast+
qed

lemma f_install_start_ok:
  assumes ok: "fds_ok held s" and lim: "limit_ok s" and held: "0 < held fd"
    and r: "f_install_start ops fd start s = (r, s')"
  shows "fds_ok (held(fd := held fd - 1)) s' \<and> limit_ok s' \<and> (r \<ge> 0 \<longrightarrow> f_get (word_of_int r) s' = Some fd)"
proof -
  obtain q s1 where p: "pick_slot start s = (q, s1)" by (cases "pick_slot start s")
  note ps = pick_slot_ok[OF ok lim p]
  show ?thesis
  proof (cases "q \<ge> 0")
    case True
    then obtain f tb where t: "q = sint f" "cur s1 = Some tb" "f < ft_size tb" "ft_files tb f = None"
      using ps(3) by blast
    note put = put_slot_some[OF ps(1) held t(2-4)]
    have "f_get f (put_slot f (Some fd) s1) \<noteq> None" using put(2) by simp
    note c = put_cloexec_ok[OF put(1) this, where b = False]
    have "r = sint f" "s' = put_cloexec f False (put_slot f (Some fd) s1)"
      using r True t(1) by (simp_all add: f_install_start_def p)
    then show ?thesis using c put(2) ps(2) by simp
  next
    case False
    then have "r = q" "s' = snd (fd_close ops fd s1)" using r by (simp_all add: f_install_start_def p)
    then show ?thesis using False ps fd_close_ok[OF ps(1) held, of ops] by simp
  qed
qed

subsection \<open>Calls\<close>

lemma dup_install:
  assumes ok: "fds_ok held s" and lim: "limit_ok s" and x: "fd_heap s fd = Some x"
  shows "fds_ok held (snd (f_install_start ops fd start (fd_retain fd s)))
    \<and> limit_ok (snd (f_install_start ops fd start (fd_retain fd s)))"
proof -
  have h: "(held(fd := held fd + 1))(fd := (held(fd := held fd + 1)) fd - 1) = held" by simp
  obtain r s' where r: "f_install_start ops fd start (fd_retain fd s) = (r, s')"
    by (cases "f_install_start ops fd start (fd_retain fd s)")
  have "0 < (held(fd := held fd + 1)) fd" by simp
  from f_install_start_ok[OF fd_retain_ok[OF ok x] _ this r, unfolded h] lim r show ?thesis by simp
qed

lemma f_get_close_other:
  assumes "f \<noteq> g"
  shows "f_get f (snd (f_close ops g s)) = f_get f s"
proof (cases "f_get g s")
  case None
  then show ?thesis by (simp add: f_close_def)
next
  case (Some fd)
  then show ?thesis
    using assms unfolding f_close_empty[OF Some]
    by (auto simp: f_get_def empty_slot_def put_slot_def put_cloexec_def upd_table_def cur_def
        split: option.splits if_splits)
qed

lemma sys_dup_ok:
  assumes "fds_ok held s" "limit_ok s"
  shows "fds_ok held (snd (sys_dup ops f s)) \<and> limit_ok (snd (sys_dup ops f s))"
proof (cases "f_get f s")
  case None
  then show ?thesis using assms by (simp add: sys_dup_def)
next
  case (Some fd)
  obtain x where x: "fd_heap s fd = Some x" by (rule slot_live[OF assms(1) Some])
  show ?thesis using Some dup_install[OF assms x, of ops 0] by (simp add: sys_dup_def f_install_def)
qed

lemma fcntl_ok:
  assumes ok: "fds_ok held s" and lim: "limit_ok s"
  shows "fds_ok held (snd (sys_fcntl64 ops f cmd arg s)) \<and> limit_ok (snd (sys_fcntl64 ops f cmd arg s))"
proof (cases "f_get f s")
  case None
  then show ?thesis using assms by (simp add: sys_fcntl64_def)
next
  case (Some fd)
  obtain x where x: "fd_heap s fd = Some x" by (rule slot_live[OF ok Some])
  let ?s = "s\<lparr>fd_heap := (fd_heap s)(fd \<mapsto> x\<lparr>fd_flags := arg AND (O_APPEND OR O_NONBLOCK)\<rparr>)\<rparr>"
  have "counts_ok (held(fd := held fd)) ?s"
    using fds_ok_count_at[OF ok, of fd] x
    by (intro counts_ok_change[OF fds_ok_counts[OF ok]]) (auto simp: count_at_def)
  then have setfl: "fds_ok held ?s" using x by (intro fds_ok_heap[OF ok refl]) (auto split: if_splits)
  have "limit_ok ?s = limit_ok s" by (rule limit_ok_cong) simp_all
  then show ?thesis
    using ok lim Some x dup_install[OF ok lim x, of ops arg] setfl put_cloexec_ok(1)[OF ok, of f "arg AND 1 \<noteq> 0"]
    by (simp add: sys_fcntl64_def upd_fd_def split: option.splits)
qed

lemma sys_dup2_ok:
  assumes ok: "fds_ok held s" and lim: "limit_ok s" and ne: "f \<noteq> g" and g: "0 \<le> sint g"
  shows "fds_ok held (snd (sys_dup2 ops f g s)) \<and> limit_ok (snd (sys_dup2 ops f g s))"
proof (cases "f_get f s")
  case None
  then show ?thesis using assms by (simp add: sys_dup2_def)
next
  case (Some fd)
  obtain tb where tb: "cur s = Some tb" "f < ft_size tb" "ft_files tb f = Some fd"
    using Some by (auto simp: f_get_def split: option.splits if_splits)
  obtain err s1 where x: "fdtable_expand g s = (err, s1)" by (cases "fdtable_expand g s")
  obtain tb1 where s1: "fds_ok held s1" "limit_ok s1" "cur s1 = Some tb1" "ft_files tb1 = ft_files tb"
    "err \<ge> 0 \<longrightarrow> g + 1 \<le> ft_size tb1"
    using fdtable_expand_ok[OF ok lim tb(1) x] by blast
  show ?thesis
  proof (cases "err < 0")
    case True
    then show ?thesis using Some x s1 by (simp add: sys_dup2_def)
  next
    case False
    have "g \<noteq> - 1" using g by auto
    then have "g + 1 \<noteq> 0" by (simp add: eq_neg_iff_add_eq_0)
    then have "g < g + 1" using unat_pred[of "g + 1"] by (simp add: word_less_nat_alt unat_gt_0)
    then have g1: "g < ft_size tb1" using s1(5) False by auto
    let ?s = "snd (f_close ops g s1)"
    note cl = f_close_ok[OF s1(1), where ops = ops and f = g]
    have size: "map_option ft_size (cur ?s) = Some (ft_size tb1)"
    proof (cases "f_get g s1")
      case None
      then show ?thesis using s1 by (simp add: f_close_def)
    next
      case (Some fd')
      then show ?thesis using s1 by (simp add: f_close_empty)
    qed
    then obtain tb2 where tb2: "cur ?s = Some tb2" "ft_size tb2 = ft_size tb1" by (cases "cur ?s") auto
    have free: "ft_files tb2 g = None" using cl(3) tb2 g1 by (simp add: f_get_def)
    have "table_ok tb1" using s1(1,3) by (simp add: fds_ok_def cur_def)
    then have "f_get f s1 = Some fd" using s1(3,4) tb by (auto simp: f_get_def table_ok_def)
    then have "f_get f ?s = Some fd" by (simp add: f_get_close_other[OF ne])
    then obtain x where xx: "fd_heap ?s fd = Some x" by (rule slot_live[OF cl(1)])
    have h: "(held(fd := held fd + 1))(fd := (held(fd := held fd + 1)) fd - 1) = held" by simp
    note ret = fd_retain_ok[OF cl(1) xx]
    have "fds_ok held (put_slot g (Some fd) (fd_retain fd ?s))"
      using tb2 g1 free put_slot_some(1)[OF ret, of fd tb2 g, unfolded h] by simp
    then show ?thesis
      using Some x False cl(2) s1(2) by (simp add: sys_dup2_def)
  qed
qed

text \<open>Opening a file: a new object goes into the table.\<close>

definition open_file :: "file_ops \<Rightarrow> dword_t \<Rightarrow> fds \<Rightarrow> int \<times> fds" where
  "open_file ops flags s = (case fd_create s of (fd, s) \<Rightarrow> f_install_flags ops fd flags s)"

lemma open_file_ok:
  assumes ok: "fds_ok held s" and lim: "limit_ok s"
  shows "fds_ok held (snd (open_file ops flags s)) \<and> limit_ok (snd (open_file ops flags s))"
proof -
  obtain fd s1 where c: "fd_create s = (fd, s1)" by (cases "fd_create s")
  note cr = fd_create_ok[OF ok c]
  have lim1: "limit_ok s1" using lim c by (auto simp: fd_create_def limit_ok_def)
  have h: "(held(fd := 1))(fd := (held(fd := 1)) fd - 1) = held" using cr(2) by auto
  obtain f s2 where i: "f_install_start ops fd 0 s1 = (f, s2)" by (cases "f_install_start ops fd 0 s1")
  have "0 < (held(fd := 1)) fd" by simp
  note ins = f_install_start_ok[OF cr(1) lim1 this i, unfolded h]
  define s3 where "s3 = (if flags AND O_CLOEXEC \<noteq> 0 then put_cloexec (word_of_int f) True s2 else s2)"
  have s3: "fds_ok held s3 \<and> limit_ok s3 \<and> f_get (word_of_int f) s3 = Some fd" if "f \<ge> 0"
    using ins that put_cloexec_ok[of held s2 "word_of_int f"] by (auto simp: s3_def)
  have fin: "fds_ok held (upd_fd fd (\<lambda>x. x\<lparr>fd_flags := fd_flags x OR O_NONBLOCK\<rparr>) s3)
      \<and> limit_ok (upd_fd fd (\<lambda>x. x\<lparr>fd_flags := fd_flags x OR O_NONBLOCK\<rparr>) s3)" if "f \<ge> 0"
  proof -
    have ok3: "fds_ok held s3" and g3: "f_get (word_of_int f) s3 = Some fd" using s3 that by auto
    obtain x where x: "fd_heap s3 fd = Some x" by (rule slot_live[OF ok3 g3])
    let ?s = "s3\<lparr>fd_heap := (fd_heap s3)(fd \<mapsto> x\<lparr>fd_flags := fd_flags x OR O_NONBLOCK\<rparr>)\<rparr>"
    have u: "upd_fd fd (\<lambda>x. x\<lparr>fd_flags := fd_flags x OR O_NONBLOCK\<rparr>) s3 = ?s" using x by (simp add: upd_fd_def)
    have "counts_ok (held(fd := held fd)) ?s"
      using fds_ok_count_at[OF ok3, of fd] x
      by (intro counts_ok_change[OF fds_ok_counts[OF ok3]]) (auto simp: count_at_def)
    then have "fds_ok held ?s" using x by (intro fds_ok_heap[OF ok3 refl]) (auto split: if_splits)
    moreover have "limit_ok ?s = limit_ok s3" by (rule limit_ok_cong) simp_all
    ultimately show ?thesis using s3 that unfolding u by blast
  qed
  have "snd (open_file ops flags s) = (if f \<ge> 0 then (if flags AND O_NONBLOCK \<noteq> 0
      then upd_fd fd (\<lambda>x. x\<lparr>fd_flags := fd_flags x OR O_NONBLOCK\<rparr>) s3 else s3) else s2)"
    by (simp add: open_file_def c f_install_flags_def f_install_def i s3_def Let_def)
  then show ?thesis using fin s3 ins by auto
qed

text \<open>A sequence of calls.\<close>

datatype fd_call = Open dword_t | Close dword_t | Dup dword_t | Dup2 dword_t dword_t | Fcntl dword_t dword_t dword_t

definition run_call :: "file_ops \<Rightarrow> fd_call \<Rightarrow> fds \<Rightarrow> fds" where
  "run_call ops c s = snd
    (case c of
       Open flags \<Rightarrow> open_file ops flags s
     | Close f \<Rightarrow> f_close ops f s
     | Dup f \<Rightarrow> sys_dup ops f s
     | Dup2 f g \<Rightarrow> sys_dup2 ops f g s
     | Fcntl f cmd arg \<Rightarrow> sys_fcntl64 ops f cmd arg s)"

text \<open>\<open>dup2\<close> is defined for two different descriptors, the second not negative.\<close>

definition defined_call :: "fd_call \<Rightarrow> bool" where
  "defined_call c \<longleftrightarrow> (case c of Dup2 f g \<Rightarrow> f \<noteq> g \<and> 0 \<le> sint g | _ \<Rightarrow> True)"

lemma run_call_ok:
  assumes "fds_ok held s" "limit_ok s" "defined_call c"
  shows "fds_ok held (run_call ops c s) \<and> limit_ok (run_call ops c s)"
  using assms open_file_ok[OF assms(1,2)] f_close_ok[OF assms(1)] sys_dup_ok[OF assms(1,2)]
    sys_dup2_ok[OF assms(1,2)] fcntl_ok[OF assms(1,2)]
  by (cases c) (auto simp: run_call_def defined_call_def)

lemma run_calls_ok:
  assumes "fds_ok held s" "limit_ok s" "\<forall>c \<in> set cs. defined_call c"
  shows "fds_ok held (fold (run_call ops) cs s) \<and> limit_ok (fold (run_call ops) cs s)"
  using assms run_call_ok by (induction cs arbitrary: s) auto

subsection \<open>Two faults\<close>

lemma dup2_same_descriptor:
  assumes "f_get f s = Some fd" "fd_heap s fd = Some x" "fd_refcount x = 1"
  shows "fd_bad (snd (sys_dup2 ops f f s))" "fd_heap (snd (sys_dup2 ops f f s)) fd = None"
    "f_get f (snd (sys_dup2 ops f f s)) = Some fd"
proof -
  obtain tb where tb: "cur s = Some tb" "f < ft_size tb" "ft_files tb f = Some fd"
    using assms(1) by (auto simp: f_get_def split: option.splits if_splits)
  then have t: "fd_tables s (fd_current s) = Some tb" by (simp add: cur_def)
  have "unat (f + 1) \<le> unat (ft_size tb)" using unat_succ_less[OF tb(2)] tb(2) by (simp add: word_less_nat_alt)
  then have e: "fdtable_expand f s = (0, s)" using tb by (simp add: fdtable_expand_def word_le_nat_alt)
  let ?tb = "tb\<lparr>ft_files := (ft_files tb)(f := None), ft_cloexec := (ft_cloexec tb)(f := False)\<rparr>"
  let ?s = "s\<lparr>fd_heap := (fd_heap s)(fd := None), fd_tables := (fd_tables s)(fd_current s \<mapsto> ?tb)\<rparr>"
  have c: "snd (f_close ops f s) = ?s"
    unfolding f_close_empty[OF assms(1)] using assms t tb
    by (simp add: empty_slot_def put_slot_def put_cloexec_def upd_table_def cur_def fd_close_def)
  have "snd (sys_dup2 ops f f s) = put_slot f (Some fd) (bad ?s)"
    using assms(1) by (simp add: sys_dup2_def e c fd_retain_def upd_fd_def)
  then show "fd_bad (snd (sys_dup2 ops f f s))" "fd_heap (snd (sys_dup2 ops f f s)) fd = None"
    "f_get f (snd (sys_dup2 ops f f s)) = Some fd"
    using tb by (simp_all add: put_slot_def bad_def cur_def upd_table_def f_get_def)
qed

lemma f_get_close_none: "f_get f s = None \<Longrightarrow> f_get f (snd (f_close ops g s)) = None"
  using f_get_close_other[of f g ops s] by (cases "f = g") (simp_all add: f_close_def)

lemma close_all:
  assumes "fds_ok held s"
  shows "fds_ok held (fold (\<lambda>f s. snd (f_close ops f s)) fs s)
    \<and> (\<forall>f. f \<in> set fs \<or> f_get f s = None \<longrightarrow> f_get f (fold (\<lambda>f s. snd (f_close ops f s)) fs s) = None)"
  using assms
proof (induction fs arbitrary: s)
  case (Cons g fs)
  note cl = f_close_ok[OF Cons.prems, where ops = ops and f = g]
  show ?case using Cons.IH[OF cl(1)] cl(3) f_get_close_none[of _ s ops g] by auto
qed simp

text \<open>Releasing the last reference to a table that is not the current one closes
descriptors of the current one.\<close>

lemma release_other_table:
  assumes ok: "fds_ok held s" and t: "fd_tables s t = Some tb" "ft_refcount tb = 1" "t \<noteq> fd_current s"
    and f: "f < ft_size tb"
  shows "f_get f (fdtable_release ops t s) = None"
proof -
  let ?s = "s\<lparr>fd_tables := (fd_tables s)(t \<mapsto> tb\<lparr>ft_refcount := ft_refcount tb - 1\<rparr>)\<rparr>"
  have "fd_refs ?s fd = fd_refs s fd" for fd using t by (intro fd_refs_same) auto
  then have ok': "fds_ok held ?s"
    using ok t by (auto simp: fds_ok_def counts_ok_def cur_def table_ok_def)
  let ?r = "fold (\<lambda>f s. snd (f_close ops f s)) (slots_below (ft_size tb)) ?s"
  have "f \<in> set (slots_below (ft_size tb))"
    using f by (auto simp: slots_below_def word_less_nat_alt intro!: image_eqI[of f of_nat "unat f"])
  then have none: "f_get f ?r = None" using close_all[OF ok', of ops] by blast
  have cur: "fd_current ?r = fd_current s"
    by (rule trans[OF fold_unchanged]) (simp_all add: f_close_def split_beta split: option.splits)
  have "fdtable_release ops t s = ?r\<lparr>fd_tables := (fd_tables ?r)(t := None)\<rparr>"
    using t by (simp add: fdtable_release_def upd_table_def Let_def)
  then show ?thesis using none t(3) cur by (auto simp: f_get_def cur_def)
qed

subsection \<open>A table to start from\<close>

definition fds_demo :: fds where
  "fds_demo = \<lparr>fd_heap = (\<lambda>i. if i = 1 then Some \<lparr>fd_refcount = 1, fd_flags = 0\<rparr> else None),
     fd_tables = (\<lambda>i. if i = 0 then Some \<lparr>ft_refcount = 1, ft_size = 3,
        ft_files = (\<lambda>f. if f = 0 then Some 1 else None), ft_cloexec = (\<lambda>_. False)\<rparr> else None),
     fd_current = 0, fd_nofile = 1024, fd_next = 2, fd_host = (\<lambda>_. True), fd_calls = 0, fd_bad = False\<rparr>"

definition no_ops :: file_ops where
  "no_ops = \<lparr>op_close = (\<lambda>_. 0), op_getflags = None, op_setflags = None\<rparr>"

lemma fds_demo_ok: "fds_ok (\<lambda>_. 0) fds_demo" "limit_ok fds_demo"
proof -
  have r: "fd_refs fds_demo fd = (if fd = 1 then {(0, 0)} else {})" for fd
    by (auto simp: fd_refs_def fds_demo_def split: if_splits)
  have "counts_ok (\<lambda>_. 0) fds_demo"
    unfolding counts_ok_def r by (auto simp: count_at_def fds_demo_def)
  then show "fds_ok (\<lambda>_. 0) fds_demo"
    by (auto simp: fds_ok_def fds_demo_def cur_def table_ok_def dom_def)
  show "limit_ok fds_demo" by (simp add: limit_ok_def fds_demo_def cur_def)
qed

end
