(* ===== verification/Klog.thy ===== *)
theory Klog
  imports Usermem
begin

text \<open>
  The kernel log of \<open>src/kernel/log.c\<close>: a ring buffer of bytes that \<open>printk\<close>
  appends lines to and the \<open>syslog\<close> call reads. The contents of the ring are
  refined to a list of which the oldest bytes are forgotten. Sizes stay far
  below the range of \<open>size_t\<close> and are natural numbers. The output of a line on
  the console of the host (\<open>log_line\<close>) is left out.
\<close>

subsection \<open>The ring\<close>

definition LOG_BUF :: nat where
  "LOG_BUF = 2 ^ 20"

record klog =
  log_buf :: "nat \<Rightarrow> byte_t"
  log_head :: nat
  log_size :: nat

definition copy_to :: "nat \<Rightarrow> byte_t list \<Rightarrow> (nat \<Rightarrow> byte_t) \<Rightarrow> nat \<Rightarrow> byte_t" where
  "copy_to p bs buf i = (if p \<le> i \<and> i < p + length bs then bs ! (i - p) else buf i)"

definition copy_from :: "nat \<Rightarrow> nat \<Rightarrow> (nat \<Rightarrow> byte_t) \<Rightarrow> byte_t list" where
  "copy_from p n buf = map (\<lambda>i. buf (p + i)) [0..<n]"

definition log_tail :: "klog \<Rightarrow> nat" where
  "log_tail k = (log_head k + log_size k) mod LOG_BUF"

text \<open>The body of the loop of \<open>log_buf_append\<close>, for a chunk of the message.\<close>

definition append_chunk :: "nat \<Rightarrow> byte_t list \<Rightarrow> klog \<Rightarrow> klog" where
  "append_chunk log_p bs k =
    (let k = k\<lparr>log_buf := copy_to log_p bs (log_buf k), log_size := log_size k + length bs\<rparr>
     in if log_size k > LOG_BUF
        then k\<lparr>log_head := (log_head k + log_size k - LOG_BUF) mod LOG_BUF, log_size := LOG_BUF\<rparr>
        else k)"

function append_loop :: "nat \<Rightarrow> byte_t list \<Rightarrow> klog \<Rightarrow> klog" where
  "append_loop log_p msg k =
    (if msg = [] then k
     else let len = min (LOG_BUF - log_tail k) (length msg)
          in append_loop ((log_p + len) mod LOG_BUF) (drop len msg) (append_chunk log_p (take len msg) k))"
  by auto
termination
  by (relation "measure (\<lambda>(_, msg, _). length msg)") (auto simp: log_tail_def LOG_BUF_def)

definition log_buf_append :: "byte_t list \<Rightarrow> klog \<Rightarrow> klog" where
  "log_buf_append msg k = append_loop (log_tail k) msg k"

definition output_line :: "byte_t list \<Rightarrow> klog \<Rightarrow> klog" where
  "output_line line k = log_buf_append [10] (log_buf_append line k)"

text \<open>\<open>vprintk\<close>: \<open>pending\<close> is the thread's buffer and \<open>text\<close> the formatted
message, without null bytes. A text that does not fit the buffer of 4096
bytes overruns it.\<close>

function print_lines :: "byte_t list \<Rightarrow> klog \<Rightarrow> byte_t list \<times> klog" where
  "print_lines b k =
    (if 10 \<in> set b
     then print_lines (tl (dropWhile (\<lambda>c. c \<noteq> 10) b)) (output_line (takeWhile (\<lambda>c. c \<noteq> 10) b) k)
     else (b, k))"
  by auto
termination
proof (relation "measure (\<lambda>(b, _). length b)", goal_cases)
  case (2 b k)
  then have "b \<noteq> []" by auto
  moreover have "length (dropWhile (\<lambda>c. c \<noteq> 10) b) \<le> length b" by (rule length_dropWhile_le)
  ultimately show ?case by (cases b) auto
qed simp

definition vprintk :: "byte_t list \<Rightarrow> byte_t list \<times> klog \<Rightarrow> (byte_t list \<times> klog) option" where
  "vprintk msg = (\<lambda>(pending, k).
    (if length (pending @ msg) < 4096 then Some (print_lines (pending @ msg) k) else None))"

subsection \<open>The system call\<close>

text \<open>The loop of \<open>syslog_read\<close>, which limits each piece by the distance of
\<open>log_head\<close>, not of \<open>log_p\<close>, to the end of the ring. \<open>log_head\<close> is always inside the
ring.\<close>

function read_loop :: "klog \<Rightarrow> nat \<Rightarrow> nat \<Rightarrow> byte_t list" where
  "read_loop k log_p remaining =
    (if remaining = 0 \<or> LOG_BUF \<le> log_head k then []
     else let len = min remaining (LOG_BUF - log_head k)
          in copy_from log_p len (log_buf k) @ read_loop k ((log_p + len) mod LOG_BUF) (remaining - len))"
  by auto
termination
  by (relation "measure (\<lambda>(_, _, remaining). remaining)") (auto simp: LOG_BUF_def)

text \<open>The comparison of \<open>total\<close> with \<open>log_size\<close> is unsigned, so a negative number
counts as a large one. The parameter \<open>start\<close> is not used.\<close>

definition syslog_read :: "mem_id \<Rightarrow> klog \<Rightarrow> nat \<Rightarrow> addr_t \<Rightarrow> int \<Rightarrow> vm \<Rightarrow> int \<times> vm" where
  "syslog_read m k start buf_addr count v =
    (let count = (if count < 0 \<or> count > int (log_size k) then log_size k else nat count)
     in case user_write_task m buf_addr (read_loop k (log_head k) count) v of
          (res, v) \<Rightarrow> (if res \<noteq> 0 then - 1 else int count, v))"

definition syslog_read_all :: "mem_id \<Rightarrow> klog \<Rightarrow> addr_t \<Rightarrow> addr_t \<Rightarrow> vm \<Rightarrow> int \<times> vm" where
  "syslog_read_all m k buf_addr len v =
    (let len = (if unat len > log_size k then log_size k else unat len)
     in syslog_read m k ((log_head k + log_size k - len) mod LOG_BUF) buf_addr (int len) v)"

definition log_clear :: "klog \<Rightarrow> klog" where
  "log_clear k = k\<lparr>log_head := 0, log_size := 0\<rparr>"

definition do_syslog :: "mem_id \<Rightarrow> int \<Rightarrow> addr_t \<Rightarrow> dword_t \<Rightarrow> klog \<times> vm \<Rightarrow> int \<times> klog \<times> vm" where
  "do_syslog m type buf_addr len = (\<lambda>(k, v).
    (if type = 2 then
       (case syslog_read m k (log_head k) buf_addr (sint len) v of
          (n, v) \<Rightarrow>
            if n < 0 then (EFAULT, k, v)
            else (n, k\<lparr>log_head := (log_head k + nat n) mod LOG_BUF, log_size := log_size k - nat n\<rparr>, v))
     else if type = 3 then
       (case syslog_read_all m k buf_addr len v of (n, v) \<Rightarrow> (n, k, v))
     else if type = 4 then
       (case syslog_read_all m k buf_addr len v of (n, v) \<Rightarrow> (n, log_clear k, v))
     else if type = 5 then (0, log_clear k, v)
     else if type = 9 then (int (log_size k), k, v)
     else if type = 10 then (int LOG_BUF, k, v)
     else if type \<in> {0, 1, 6, 7, 8} then (0, k, v)
     else (EINVAL, k, v)))"

declare append_loop.simps [simp del] print_lines.simps [simp del] read_loop.simps [simp del]

subsection \<open>The ring as a list\<close>

definition log_contents :: "klog \<Rightarrow> byte_t list" where
  "log_contents k = map (\<lambda>i. log_buf k ((log_head k + i) mod LOG_BUF)) [0..<log_size k]"

definition log_ok :: "klog \<Rightarrow> bool" where
  "log_ok k \<longleftrightarrow> log_head k < LOG_BUF \<and> log_size k \<le> LOG_BUF"

definition take_last :: "nat \<Rightarrow> 'a list \<Rightarrow> 'a list" where
  "take_last n xs = drop (length xs - n) xs"

lemma LOG_BUF_pos [simp]: "0 < LOG_BUF"
  by (simp add: LOG_BUF_def)

lemma log_tail_less [simp]: "log_tail k < LOG_BUF"
  by (simp add: log_tail_def)

lemma length_log_contents [simp]: "length (log_contents k) = log_size k"
  by (simp add: log_contents_def)

lemma length_take_last [simp]: "length (take_last n xs) = min (length xs) n"
  by (simp add: take_last_def)

lemma take_last_take_last: "take_last n (take_last n xs @ ys) = take_last n (xs @ ys)"
  by (cases "length xs \<le> n") (auto simp: take_last_def add.commute)

lemma add_mod_neq:
  fixes a d n :: nat
  assumes "0 < d" "d < n"
  shows "(a + d) mod n \<noteq> a mod n"
proof
  assume "(a + d) mod n = a mod n"
  then have "n dvd d" using mod_eq_dvd_iff_nat[of a "a + d" n] by simp
  then show False using assms by (auto dest: dvd_imp_le)
qed

text \<open>What a chunk that ends before the end of the ring leaves at the position
of the \<open>j\<close>th byte of the new contents.\<close>

lemma chunk_byte:
  assumes "log_ok k" "log_tail k + length bs \<le> LOG_BUF"
    and j: "j < log_size k + length bs" "log_size k + length bs \<le> j + LOG_BUF"
  shows "copy_to (log_tail k) bs (log_buf k) ((log_head k + j) mod LOG_BUF) = (log_contents k @ bs) ! j"
proof (cases "j < log_size k")
  case True
  have ne: "(log_head k + j) mod LOG_BUF \<noteq> log_tail k + t" if "t < length bs" for t
  proof -
    let ?d = "log_size k - j + t"
    have "(log_head k + j + ?d) mod LOG_BUF = (log_head k + log_size k + t) mod LOG_BUF"
      using True by (simp add: add.assoc)
    also have "\<dots> = (log_tail k + t) mod LOG_BUF" by (simp add: log_tail_def mod_add_left_eq)
    also have "\<dots> = log_tail k + t" using that assms(2) by simp
    finally have "(log_head k + j + ?d) mod LOG_BUF = log_tail k + t" .
    moreover have "0 < ?d" "?d < LOG_BUF" using True that j by auto
    ultimately show ?thesis using add_mod_neq[of ?d LOG_BUF "log_head k + j"] by metis
  qed
  have "\<not> (log_tail k \<le> (log_head k + j) mod LOG_BUF \<and> (log_head k + j) mod LOG_BUF < log_tail k + length bs)"
    using ne[of "(log_head k + j) mod LOG_BUF - log_tail k"] by (auto simp: less_diff_conv2)
  then show ?thesis using True by (auto simp: copy_to_def nth_append log_contents_def)
next
  case False
  define t where "t = j - log_size k"
  have t: "j = log_size k + t" "t < length bs" using False j by (simp_all add: t_def)
  have "(log_head k + j) mod LOG_BUF = (log_tail k + t) mod LOG_BUF"
    by (simp add: t log_tail_def mod_add_left_eq add.assoc)
  also have "\<dots> = log_tail k + t" using t assms(2) by simp
  finally show ?thesis using t by (simp add: copy_to_def nth_append)
qed

lemma append_chunk_contents:
  assumes "log_ok k" "log_tail k + length bs \<le> LOG_BUF"
  defines "k' \<equiv> append_chunk (log_tail k) bs k"
  shows "log_contents k' = take_last LOG_BUF (log_contents k @ bs)" "log_ok k'"
    "log_tail k' = (log_tail k + length bs) mod LOG_BUF"
proof -
  let ?n = "log_size k + length bs" and ?e = "log_size k + length bs - LOG_BUF"
  have k': "log_buf k' = copy_to (log_tail k) bs (log_buf k)" "log_size k' = min ?n LOG_BUF"
    "log_head k' = (log_head k + ?e) mod LOG_BUF"
    using assms(1) by (auto simp: k'_def append_chunk_def log_ok_def Let_def min_def)
  show "log_ok k'" by (simp add: log_ok_def k')
  show "log_tail k' = (log_tail k + length bs) mod LOG_BUF"
  proof (cases "?n \<le> LOG_BUF")
    case True
    then show ?thesis by (simp add: log_tail_def k' mod_simps add.assoc)
  next
    case False
    then have "log_head k + ?e + LOG_BUF = log_head k + ?n" by simp
    then have "(log_head k + ?e) mod LOG_BUF = (log_head k + ?n) mod LOG_BUF"
      by (metis mod_add_self2)
    then show ?thesis using False by (simp add: log_tail_def k' mod_simps add.assoc)
  qed
  show "log_contents k' = take_last LOG_BUF (log_contents k @ bs)"
  proof (rule nth_equalityI)
    show "length (log_contents k') = length (take_last LOG_BUF (log_contents k @ bs))"
      by (simp add: k')
    fix i assume "i < length (log_contents k')"
    then have i: "i < min ?n LOG_BUF" by (simp add: k')
    then have j: "?e + i < ?n" "?n \<le> ?e + i + LOG_BUF" by auto
    have "log_contents k' ! i = copy_to (log_tail k) bs (log_buf k) ((log_head k + (?e + i)) mod LOG_BUF)"
      using i by (simp add: log_contents_def k' mod_simps add.assoc)
    also have "\<dots> = (log_contents k @ bs) ! (?e + i)"
      by (rule chunk_byte[OF assms(1,2) j])
    also have "\<dots> = take_last LOG_BUF (log_contents k @ bs) ! i"
      using i by (simp only: take_last_def length_append length_log_contents) (subst nth_drop; simp)
    finally show "log_contents k' ! i = take_last LOG_BUF (log_contents k @ bs) ! i" .
  qed
qed

lemma append_loop_contents:
  assumes "log_ok k"
  shows "log_contents (append_loop (log_tail k) msg k) = take_last LOG_BUF (log_contents k @ msg)"
    "log_ok (append_loop (log_tail k) msg k)"
proof -
  have "log_contents (append_loop p msg k) = take_last LOG_BUF (log_contents k @ msg)
      \<and> log_ok (append_loop p msg k)" if "log_ok k" "p = log_tail k" for p
    using that
  proof (induction p msg k rule: append_loop.induct)
    case (1 p msg k)
    show ?case
    proof (cases "msg = []")
      case True
      then show ?thesis using 1 by (simp add: append_loop.simps take_last_def log_ok_def)
    next
      case False
      let ?len = "min (LOG_BUF - log_tail k) (length msg)"
      let ?k = "append_chunk (log_tail k) (take ?len msg) k"
      have "log_tail k \<le> LOG_BUF" by (rule less_imp_le) simp
      then have fits: "log_tail k + length (take ?len msg) \<le> LOG_BUF" by (auto simp: min_def)
      note c = append_chunk_contents[OF 1(2) fits]
      have len: "length (take ?len msg) = ?len" by simp
      have "log_contents (append_loop ((p + ?len) mod LOG_BUF) (drop ?len msg) (append_chunk p (take ?len msg) k))
          = take_last LOG_BUF (log_contents ?k @ drop ?len msg)
          \<and> log_ok (append_loop ((p + ?len) mod LOG_BUF) (drop ?len msg) (append_chunk p (take ?len msg) k))"
        using 1(1)[OF False refl] c(2,3) 1(3) unfolding len by simp
      moreover have "append_loop p msg k
          = append_loop ((p + ?len) mod LOG_BUF) (drop ?len msg) (append_chunk p (take ?len msg) k)"
        using False by (subst append_loop.simps) (simp add: Let_def)
      ultimately show ?thesis unfolding c(1) take_last_take_last by simp
    qed
  qed
  then show "log_contents (append_loop (log_tail k) msg k) = take_last LOG_BUF (log_contents k @ msg)"
    "log_ok (append_loop (log_tail k) msg k)" using assms by auto
qed

lemma log_buf_append_contents:
  assumes "log_ok k"
  shows "log_contents (log_buf_append msg k) = take_last LOG_BUF (log_contents k @ msg)"
    "log_ok (log_buf_append msg k)"
  using append_loop_contents[OF assms] by (simp_all add: log_buf_append_def)

lemma output_line_contents:
  assumes "log_ok k"
  shows "log_contents (output_line line k) = take_last LOG_BUF (log_contents k @ line @ [10])"
    "log_ok (output_line line k)"
  using log_buf_append_contents[OF assms, of line] log_buf_append_contents(1)[of "log_buf_append line k" "[10]"]
    log_buf_append_contents(2)[of "log_buf_append line k" "[10]"]
  by (simp_all add: output_line_def take_last_take_last)

text \<open>\<open>printk\<close>: the complete lines go into the ring, the rest stays pending.\<close>

lemma print_lines_contents:
  assumes "log_ok k" "print_lines b k = (rest, k')"
  shows "\<exists>don. b = don @ rest \<and> 10 \<notin> set rest \<and> (don = [] \<or> last don = 10)
    \<and> log_contents k' = take_last LOG_BUF (log_contents k @ don) \<and> log_ok k'"
  using assms
proof (induction b k rule: print_lines.induct)
  case (1 b k)
  let ?line = "takeWhile (\<lambda>c. c \<noteq> 10) b" and ?d = "dropWhile (\<lambda>c. c \<noteq> 10) b"
  show ?case
  proof (cases "10 \<in> set b")
    case True
    then have "?d \<noteq> []" by auto
    then have "?d = 10 # tl ?d" using hd_dropWhile[of "\<lambda>c. c \<noteq> 10" b] by (cases ?d) auto
    then have b: "b = ?line @ 10 # tl ?d" using takeWhile_dropWhile_id[of "\<lambda>c. c \<noteq> 10" b] by simp
    note o = output_line_contents[OF 1(2), of ?line]
    have "print_lines (tl ?d) (output_line ?line k) = (rest, k')"
      using 1(3) True by (subst (asm) print_lines.simps) simp
    from 1(1)[OF True o(2) this] obtain don where d:
      "tl ?d = don @ rest" "10 \<notin> set rest" "don = [] \<or> last don = 10"
      "log_contents k' = take_last LOG_BUF (log_contents (output_line ?line k) @ don)" "log_ok k'"
      by blast
    show ?thesis
    proof (intro exI[of _ "?line @ 10 # don"] conjI)
      show "b = (?line @ 10 # don) @ rest" using b d(1) by simp
      show "log_contents k' = take_last LOG_BUF (log_contents k @ ?line @ 10 # don)"
        using d(4) unfolding o(1) take_last_take_last by simp
    qed (use d in auto)
  next
    case False
    then show ?thesis
      using 1 by (subst (asm) print_lines.simps) (auto simp: take_last_def log_ok_def)
  qed
qed

lemma read_loop_contents:
  assumes "log_ok k" "got + remaining \<le> log_size k" "got = 0 \<or> LOG_BUF \<le> log_head k + got"
  shows "read_loop k ((log_head k + got) mod LOG_BUF) remaining = take remaining (drop got (log_contents k))"
  using assms(2,3)
proof (induction remaining arbitrary: got rule: less_induct)
  case (less remaining)
  have head: "log_head k < LOG_BUF" and size: "log_size k \<le> LOG_BUF"
    using assms(1) by (simp_all add: log_ok_def)
  show ?case
  proof (cases "remaining = 0")
    case True
    then show ?thesis by (simp add: read_loop.simps)
  next
    case False
    define len where "len = min remaining (LOG_BUF - log_head k)"
    define p where "p = (log_head k + got) mod LOG_BUF"
    have len: "0 < len" "len \<le> remaining" "len \<le> LOG_BUF - log_head k" "len < remaining \<Longrightarrow> len = LOG_BUF - log_head k"
      using False head by (auto simp: len_def)
    have step: "read_loop k p remaining
        = copy_from p len (log_buf k) @ read_loop k ((p + len) mod LOG_BUF) (remaining - len)"
      using False head by (subst read_loop.simps) (simp add: Let_def len_def)
    have "p + len \<le> LOG_BUF"
    proof (cases "got = 0")
      case True
      then show ?thesis using len head by (simp add: p_def)
    next
      case got: False
      then have g: "LOG_BUF \<le> log_head k + got" using less.prems by simp
      have "got \<le> LOG_BUF" using less.prems size by simp
      then have "log_head k + got - LOG_BUF < LOG_BUF" using head by simp
      then have "p = log_head k + got - LOG_BUF" using g by (simp add: p_def le_mod_geq)
      then show ?thesis using g less.prems len(2) size head by simp
    qed
    then have idx: "p + i = (log_head k + (got + i)) mod LOG_BUF" if "i < len" for i
      using that mod_less[of "p + i" LOG_BUF] by (simp add: p_def mod_add_left_eq add.assoc)
    have "copy_from p len (log_buf k) = take len (drop got (log_contents k))"
      using less.prems len
      by (intro nth_equalityI) (auto simp: copy_from_def log_contents_def idx)
    moreover have "read_loop k ((p + len) mod LOG_BUF) (remaining - len)
        = take (remaining - len) (drop (got + len) (log_contents k))"
    proof (cases "len < remaining")
      case True
      have "(p + len) mod LOG_BUF = (log_head k + (got + len)) mod LOG_BUF"
        by (simp add: p_def mod_add_left_eq add.assoc)
      moreover have "read_loop k ((log_head k + (got + len)) mod LOG_BUF) (remaining - len)
          = take (remaining - len) (drop (got + len) (log_contents k))"
        using True less.prems len by (intro less.IH) auto
      ultimately show ?thesis by simp
    next
      case False
      then show ?thesis using len by (simp add: read_loop.simps)
    qed
    ultimately have "read_loop k p remaining
        = take len (drop got (log_contents k)) @ take (remaining - len) (drop (got + len) (log_contents k))"
      using step by simp
    also have "\<dots> = take (len + (remaining - len)) (drop got (log_contents k))"
      by (simp only: take_add drop_drop add.commute)
    finally show ?thesis using len by (simp add: p_def)
  qed
qed

lemma read_loop_head:
  "log_ok k \<Longrightarrow> n \<le> log_size k \<Longrightarrow> read_loop k (log_head k) n = take n (log_contents k)"
  using read_loop_contents[of k 0 n] by (simp add: log_ok_def)

text \<open>What \<open>SYSLOG_ACTION_READ\<close> takes out of the ring.\<close>

lemma drop_contents:
  assumes "log_ok k" "n \<le> log_size k"
  shows "log_contents (k\<lparr>log_head := (log_head k + n) mod LOG_BUF, log_size := log_size k - n\<rparr>)
    = drop n (log_contents k)"
  using assms(2) by (intro nth_equalityI) (auto simp: log_contents_def mod_simps add.assoc)

definition log_demo :: klog where
  "log_demo = \<lparr>log_buf = (\<lambda>_. 0), log_head = 0, log_size = 0\<rparr>"

lemma log_demo_ok: "log_ok log_demo" "log_contents log_demo = []"
  by (simp_all add: log_ok_def log_demo_def log_contents_def)

end
