(* ===== verification/Path.thy ===== *)
theory Path
  imports Errno
begin

text \<open>
  Path names (\<open>src/fs/path.c\<close>) and the table of mounts (\<open>src/fs/mount.c\<close>, the
  first functions of \<open>src/fs/generic.c\<close>). A path is the list of its characters,
  without the terminator. What a file system answers (\<open>getpath\<close>, \<open>readlink\<close>,
  \<open>mount\<close>) is a parameter. \<open>Bad\<close> stands for an access outside a buffer or a
  failed assertion; the expansion of symbolic links, which the code does by
  recursion without a bound, takes fuel.
\<close>

subsection \<open>Normalized paths\<close>

abbreviation (input) slash :: char where "slash \<equiv> CHR 0x2f"
abbreviation (input) dot :: char where "dot \<equiv> CHR 0x2e"
abbreviation (input) MAX_PATH :: nat where "MAX_PATH \<equiv> 4096"

abbreviation no_slash :: "string \<Rightarrow> bool" where
  "no_slash c \<equiv> slash \<notin> set c"

function path_is_normalized :: "string \<Rightarrow> bool" where
  "path_is_normalized path =
    (case path of
       [] \<Rightarrow> True
     | c # path \<Rightarrow>
         c = slash \<and> \<not> (path \<noteq> [] \<and> hd path = slash) \<and> path_is_normalized (dropWhile (\<lambda>c. c \<noteq> slash) path))"
  by auto
termination
  by (relation "measure length") (auto simp: less_Suc_eq_le length_dropWhile_le)

definition skip_slashes :: "string \<Rightarrow> string" where
  "skip_slashes = dropWhile (\<lambda>c. c = slash)"

subsection \<open>Mounts\<close>

record mount =
  mnt_point :: string
  mnt_source :: string
  mnt_fs :: nat
  mnt_refcount :: dword_t

definition under_mount :: "string \<Rightarrow> mount \<Rightarrow> bool" where
  "under_mount path m \<longleftrightarrow>
    (let n = length (mnt_point m)
     in take n path = mnt_point m \<and> (drop n path = [] \<or> hd (drop n path) = slash))"

text \<open>The list of mounts is searched from its head; a search that fails leaves the
list. The reference that a search takes on its result until \<open>mount_release\<close> is in the
state of theory \<open>Vfs\<close>. \<open>mnt_refcount\<close> is an unsigned that wraps around.\<close>

definition mount_find :: "string \<Rightarrow> mount list \<Rightarrow> mount option" where
  "mount_find path ms = (if path_is_normalized path then find (under_mount path) ms else None)"

definition find_mount_and_trim_path :: "mount list \<Rightarrow> string \<Rightarrow> (mount \<times> string) option" where
  "find_mount_and_trim_path ms path =
    map_option (\<lambda>m. (m, drop (length (mnt_point m)) path)) (mount_find path ms)"

definition contains_mount_point :: "mount list \<Rightarrow> string \<Rightarrow> bool" where
  "contains_mount_point ms path \<longleftrightarrow>
    (\<exists>m \<in> set ms. take (length path) (mnt_point m) = path
       \<and> (drop (length path) (mnt_point m) = [] \<or> hd (drop (length path) (mnt_point m)) = slash))"

fun insert_mount :: "mount \<Rightarrow> mount list \<Rightarrow> mount list" where
  "insert_mount new [] = [new]"
| "insert_mount new (m # ms) =
    (if length (mnt_point m) \<le> length (mnt_point new) then new # m # ms else m # insert_mount new ms)"

text \<open>\<open>alloc\<close> is the outcome of \<open>malloc\<close> and \<open>fs_mount\<close> what the file system's own
operation returns, if it has one.\<close>

definition do_mount :: "bool \<Rightarrow> int option \<Rightarrow> nat \<Rightarrow> string \<Rightarrow> string \<Rightarrow> mount list \<Rightarrow> int \<times> mount list" where
  "do_mount alloc fs_mount fs source point ms =
    (if \<not> alloc then (ENOMEM, ms)
     else case fs_mount of
            Some err \<Rightarrow> if err < 0 then (err, ms)
              else (0, insert_mount \<lparr>mnt_point = point, mnt_source = source, mnt_fs = fs, mnt_refcount = 0\<rparr> ms)
          | None \<Rightarrow> (0, insert_mount \<lparr>mnt_point = point, mnt_source = source, mnt_fs = fs, mnt_refcount = 0\<rparr> ms))"

definition mount_remove :: "mount \<Rightarrow> mount list \<Rightarrow> int \<times> mount list" where
  "mount_remove m ms = (if mnt_refcount m \<noteq> 0 then (EBUSY, ms) else (0, remove1 m ms))"

definition do_umount :: "string \<Rightarrow> mount list \<Rightarrow> int \<times> mount list" where
  "do_umount point ms =
    (case find (\<lambda>m. mnt_point m = point) ms of None \<Rightarrow> (EINVAL, ms) | Some m \<Rightarrow> mount_remove m ms)"

subsection \<open>Normalization\<close>

datatype path_result = Path string | Path_err int | Bad | Too_many_links

record open_dir =
  dir_path :: "int + string"
  dir_mount :: string

definition generic_getpath :: "open_dir \<Rightarrow> int + string" where
  "generic_getpath fd =
    (case dir_path fd of
       Inl err \<Rightarrow> Inl err
     | Inr buf \<Rightarrow>
         if length buf + length (dir_mount fd) \<ge> MAX_PATH then Inl ENAMETOOLONG
         else Inr (if dir_mount fd @ buf = [] then [slash] else dir_mount fd @ buf))"

text \<open>The base of a relative path; a task that starts up has no directories yet.\<close>

datatype at_fd = No_at | At_pwd | At_dir open_dir

record fs_env =
  fs_root :: "open_dir option"
  fs_pwd :: "open_dir option"
  fs_mounts :: "mount list"
  fs_readlink :: "mount \<Rightarrow> string \<Rightarrow> nat \<Rightarrow> string option"

definition base_dir :: "fs_env \<Rightarrow> at_fd \<Rightarrow> string \<Rightarrow> open_dir option" where
  "base_dir env at path =
    (if path \<noteq> [] \<and> hd path = slash then fs_root env
     else case at of At_pwd \<Rightarrow> fs_pwd env | At_dir d \<Rightarrow> Some d | No_at \<Rightarrow> None)"

text \<open>Copying a component: \<open>p\<close>, the output and \<open>n\<close> after the loop.\<close>

fun copy_component :: "string \<Rightarrow> string \<Rightarrow> int \<Rightarrow> string \<times> string \<times> int" where
  "copy_component [] out n = ([], out, n)"
| "copy_component (c # p) out n =
    (if c = slash then (c # p, out, n)
     else if n - 1 > 0 then copy_component p (out @ [c]) (n - 1)
     else (c # p, out, n - 1))"

text \<open>Deleting the last component, down to the last slash; without one the loop
leaves the buffer.\<close>

definition drop_last :: "string \<Rightarrow> string option" where
  "drop_last out =
    (case dropWhile (\<lambda>c. c \<noteq> slash) (rev out) of [] \<Rightarrow> None | _ # r \<Rightarrow> Some (rev r))"

definition is_dot :: "string \<Rightarrow> bool" where
  "is_dot p \<longleftrightarrow> p \<noteq> [] \<and> hd p = dot \<and> (tl p = [] \<or> hd (tl p) = slash)"

definition is_dot_dot :: "string \<Rightarrow> bool" where
  "is_dot_dot p \<longleftrightarrow> take 2 p = [dot, dot] \<and> (drop 2 p = [] \<or> hd (drop 2 p) = slash)"

text \<open>What \<open>readlink\<close> says of the path written so far, of which \<open>room\<close> bytes are
left for the answer.\<close>

definition possible_symlink :: "fs_env \<Rightarrow> string \<Rightarrow> nat \<Rightarrow> string option option" where
  "possible_symlink env out room =
    (case find_mount_and_trim_path (fs_mounts env) out of
       None \<Rightarrow> None
     | Some (m, path) \<Rightarrow>
         if path_is_normalized path then Some (map_option (take room) (fs_readlink env m path room)) else None)"

lemma copy_component_length: "copy_component p out n = (p', out', n') \<Longrightarrow> length p' \<le> length p \<and> length out \<le> length out'"
  by (induction p out n rule: copy_component.induct) (auto split: if_splits)

lemma length_skip_slashes: "length (skip_slashes p) \<le> length p"
  by (simp add: skip_slashes_def length_dropWhile_le)

lemma component_step:
  assumes "copy_component p (out @ [slash]) m = (p', out', n')" "length out < MAX_PATH"
  shows "length (skip_slashes p') < length p
    \<or> length (skip_slashes p') = length p \<and> MAX_PATH - length out' < MAX_PATH - length out"
  using copy_component_length[OF assms(1)] length_skip_slashes[of p'] assms(2) by auto

function norm_loop :: "fs_env \<Rightarrow> bool \<Rightarrow> nat \<Rightarrow> string \<Rightarrow> string \<Rightarrow> int \<Rightarrow> path_result" where
  "norm_loop env follow links p out n =
    (if p = [] then (if length out \<ge> MAX_PATH \<or> \<not> path_is_normalized out then Bad else Path out)
     else if is_dot p then norm_loop env follow links (skip_slashes (drop 1 p)) out n
     else if is_dot_dot p then
       (case drop_last out of
          None \<Rightarrow> Bad
        | Some out' \<Rightarrow>
            norm_loop env follow links (skip_slashes (drop 2 p)) out' (n + int (length out - length out')))
     else if length out \<ge> MAX_PATH then Bad
     else
       (case copy_component p (out @ [slash]) (n - 1) of
          (p', out', n') \<Rightarrow>
            if n' = 0 then Path_err ENAMETOOLONG
            else if \<not> (follow \<or> skip_slashes p' \<noteq> []) then norm_loop env follow links (skip_slashes p') out' n'
            else if length out' \<ge> MAX_PATH then Bad
            else
              (case possible_symlink env out' (MAX_PATH - Suc (length out)) of
                 None \<Rightarrow> Bad
               | Some None \<Rightarrow> norm_loop env follow links (skip_slashes p') out' n'
               | Some (Some target) \<Rightarrow>
                   if length out + 1 + length target \<ge> MAX_PATH then Bad
                   else
                     (let expanded = (if target \<noteq> [] \<and> hd target = slash then target else out @ slash # target)
                            @ slash # skip_slashes p'
                      in if length expanded \<ge> MAX_PATH then Bad
                         else case links of
                                0 \<Rightarrow> Too_many_links
                              | Suc links \<Rightarrow>
                                  norm_loop env follow links (skip_slashes expanded) [] (int MAX_PATH - 1)))))"
  by auto
termination
proof (relation "measures [\<lambda>(env, follow, links, p, out, n). links, \<lambda>(env, follow, links, p, out, n). length p,
    \<lambda>(env, follow, links, p, out, n). MAX_PATH - length out]", goal_cases)
  case (2 env follow links p out n)
  then show ?case using length_skip_slashes[of "drop 1 p"] by (cases p) (auto simp: is_dot_def)
next
  case (3 env follow links p out n out')
  then show ?case using length_skip_slashes[of "drop 2 p"] by (cases p) (auto simp: is_dot_dot_def)
next
  case 4
  then show ?case using component_step[OF sym] by (fastforce simp: not_le)
next
  case 5
  then show ?case using component_step[OF sym] by (fastforce simp: not_le)
qed auto

declare path_is_normalized.simps [simp del] norm_loop.simps [simp del]

definition path_normalize :: "fs_env \<Rightarrow> nat \<Rightarrow> at_fd \<Rightarrow> string \<Rightarrow> bool \<Rightarrow> path_result" where
  "path_normalize env links at path follow =
    (case (if at = No_at then Inr []
           else case base_dir env at path of None \<Rightarrow> Inr [] | Some d \<Rightarrow> generic_getpath d) of
       Inl err \<Rightarrow> Path_err err
     | Inr at_path \<Rightarrow>
         if \<not> path_is_normalized at_path then Bad
         else
           (let out = (if at_path = [slash] then [] else at_path)
            in norm_loop env follow links (skip_slashes path) out (int MAX_PATH - 1 - int (length out))))"

end
