(* ===== verification/Path_Facts.thy ===== *)
theory Path_Facts
  imports Path
begin

text \<open>
  \<open>path_normalize\<close> without symbolic links against a reference: the path is cut at
  its slashes, empty components and \<open>.\<close> are dropped and \<open>..\<close> removes the last
  component. And the list of mounts: it stays sorted, so that the first mount
  found is the one with the longest point.
\<close>

subsection \<open>Components\<close>

fun pieces :: "string \<Rightarrow> string list" where
  "pieces [] = [[]]"
| "pieces (c # p) =
    (if c = slash then [] # pieces p
     else case pieces p of [] \<Rightarrow> [[c]] | q # qs \<Rightarrow> (c # q) # qs)"

definition components :: "string \<Rightarrow> string list" where
  "components p = filter (\<lambda>c. c \<noteq> []) (pieces p)"

definition join :: "string list \<Rightarrow> string" where
  "join st = concat (map (\<lambda>c. slash # c) st)"

fun resolve :: "string list \<Rightarrow> string list \<Rightarrow> string list option" where
  "resolve st [] = Some st"
| "resolve st (c # cs) =
    (if c = [dot] then resolve st cs
     else if c = [dot, dot] then (if st = [] then None else resolve (butlast st) cs)
     else resolve (st @ [c]) cs)"

definition proper :: "string list \<Rightarrow> bool" where
  "proper st \<longleftrightarrow> (\<forall>c \<in> set st. c \<noteq> [] \<and> no_slash c)"

lemma pieces_no_slash: "no_slash c \<Longrightarrow> pieces c = [c]"
  by (induction c) auto

lemma pieces_slash: "no_slash c \<Longrightarrow> pieces (c @ slash # p) = c # pieces p"
  by (induction c) auto

lemma components_skip [simp]: "components (skip_slashes p) = components p"
  by (induction p) (auto simp: skip_slashes_def components_def)

lemma no_slash_takeWhile: "no_slash (takeWhile (\<lambda>c. c \<noteq> slash) p)"
  by (auto dest: set_takeWhileD)

lemma components_step:
  assumes "p \<noteq> []" "hd p \<noteq> slash"
  shows "components p = takeWhile (\<lambda>c. c \<noteq> slash) p # components (dropWhile (\<lambda>c. c \<noteq> slash) p)"
    "takeWhile (\<lambda>c. c \<noteq> slash) p \<noteq> []"
proof -
  let ?c = "takeWhile (\<lambda>c. c \<noteq> slash) p" and ?r = "dropWhile (\<lambda>c. c \<noteq> slash) p"
  show ne: "?c \<noteq> []" using assms by (cases p) auto
  have p: "p = ?c @ ?r" by simp
  show "components p = ?c # components ?r"
  proof (cases "?r = []")
    case True
    then have "p = ?c" using p by (metis append_Nil2)
    then have "pieces p = [?c]" using pieces_no_slash[OF no_slash_takeWhile, of p] by simp
    moreover have "components ?r = []" unfolding True by (simp add: components_def)
    ultimately show ?thesis using ne by (simp add: components_def)
  next
    case False
    then have r: "?r = slash # tl ?r" using hd_dropWhile[of "\<lambda>c. c \<noteq> slash" p] by (cases ?r) auto
    then have "pieces p = ?c # pieces (tl ?r)"
      using pieces_slash[OF no_slash_takeWhile, of p "tl ?r"] p by metis
    moreover have "pieces ?r = [] # pieces (tl ?r)" by (subst r) simp
    ultimately show ?thesis using ne by (simp add: components_def)
  qed
qed

lemma join_snoc [simp]: "join (st @ [c]) = join st @ slash # c"
  by (simp add: join_def)

lemma join_Nil [simp]: "join [] = []"
  by (simp add: join_def)

lemma drop_last_join:
  assumes "proper st"
  shows "drop_last (join st) = (if st = [] then None else Some (join (butlast st)))"
proof (cases st rule: rev_cases)
  case Nil
  then show ?thesis by (simp add: drop_last_def)
next
  case (snoc ys c)
  then have "no_slash c" using assms by (simp add: proper_def)
  then have "dropWhile (\<lambda>c. c \<noteq> slash) (rev (join st)) = slash # rev (join ys)"
    by (simp add: snoc dropWhile_append)
  then show ?thesis by (simp add: drop_last_def snoc)
qed

lemma normalized_slash:
  "path_is_normalized (slash # p) \<longleftrightarrow>
     (p = [] \<or> hd p \<noteq> slash) \<and> path_is_normalized (dropWhile (\<lambda>c. c \<noteq> slash) p)"
  by (subst path_is_normalized.simps) auto

lemma join_Cons: "join (c # st) = slash # c @ join st"
  by (simp add: join_def)

lemma join_normalized: "proper st \<Longrightarrow> path_is_normalized (join st)"
proof (induction st)
  case Nil
  then show ?case by (simp add: path_is_normalized.simps)
next
  case (Cons c st)
  then have c: "c \<noteq> []" "no_slash c" and st: "proper st" by (simp_all add: proper_def)
  have j: "join st = [] \<or> hd (join st) = slash" by (cases st) (simp_all add: join_Cons)
  have "dropWhile (\<lambda>c. c \<noteq> slash) (c @ join st) = join st"
    using c(2) j by (simp add: dropWhile_append) (cases "join st"; auto)
  moreover have "hd c \<noteq> slash" using c hd_in_set by metis
  ultimately show ?case using Cons.IH[OF st] c by (auto simp: join_Cons normalized_slash hd_append)
qed

lemma normalized_suffix:
  "path_is_normalized (a @ slash # b) \<Longrightarrow> path_is_normalized (slash # b)"
proof (induction a rule: length_induct)
  case (1 a)
  show ?case
  proof (cases a)
    case Nil
    then show ?thesis using 1 by simp
  next
    case (Cons x a')
    have "dropWhile (\<lambda>c. c \<noteq> slash) (a' @ slash # b) = dropWhile (\<lambda>c. c \<noteq> slash) a' @ slash # b"
      by (induction a') auto
    then have "path_is_normalized (dropWhile (\<lambda>c. c \<noteq> slash) a' @ slash # b)"
      using 1(2) by (simp add: Cons path_is_normalized.simps[of "x # _"])
    moreover have "length (dropWhile (\<lambda>c. c \<noteq> slash) a') < length a"
      by (simp add: Cons less_Suc_eq_le length_dropWhile_le)
    ultimately show ?thesis using 1(1) by blast
  qed
qed

subsection \<open>The loop\<close>

lemma copy_component_all:
  assumes "int (length p) < n"
  shows "copy_component p out n =
    (dropWhile (\<lambda>c. c \<noteq> slash) p, out @ takeWhile (\<lambda>c. c \<noteq> slash) p,
     n - int (length (takeWhile (\<lambda>c. c \<noteq> slash) p)))"
  using assms by (induction p arbitrary: out n) auto

lemma dots:
  assumes "p \<noteq> []" "hd p \<noteq> slash"
  shows "is_dot p \<longleftrightarrow> takeWhile (\<lambda>c. c \<noteq> slash) p = [dot]"
    "is_dot_dot p \<longleftrightarrow> takeWhile (\<lambda>c. c \<noteq> slash) p = [dot, dot]"
    "is_dot p \<Longrightarrow> drop 1 p = dropWhile (\<lambda>c. c \<noteq> slash) p"
    "is_dot_dot p \<Longrightarrow> drop 2 p = dropWhile (\<lambda>c. c \<noteq> slash) p"
proof -
  obtain a q where p: "p = a # q" using assms(1) by (cases p) auto
  show "is_dot p \<longleftrightarrow> takeWhile (\<lambda>c. c \<noteq> slash) p = [dot]"
    using assms(2) by (cases q) (auto simp: is_dot_def p)
  show "is_dot p \<Longrightarrow> drop 1 p = dropWhile (\<lambda>c. c \<noteq> slash) p"
    by (cases q) (auto simp: is_dot_def p)
  show "is_dot_dot p \<Longrightarrow> drop 2 p = dropWhile (\<lambda>c. c \<noteq> slash) p"
    by (cases q; cases "tl q") (auto simp: is_dot_dot_def p)
  show "is_dot_dot p \<longleftrightarrow> takeWhile (\<lambda>c. c \<noteq> slash) p = [dot, dot]"
    using assms(2) by (cases q; cases "tl q") (auto simp: is_dot_dot_def p)
qed

text \<open>A root mount and no symbolic links.\<close>

definition no_links :: "fs_env \<Rightarrow> bool" where
  "no_links env \<longleftrightarrow> (\<forall>m p n. fs_readlink env m p n = None) \<and> (\<exists>m \<in> set (fs_mounts env). mnt_point m = [])"

lemma mount_find_some:
  assumes "path_is_normalized path" "\<exists>m \<in> set ms. mnt_point m = []"
  obtains m where "mount_find path ms = Some m" "m \<in> set ms" "under_mount path m"
proof -
  have "path = [] \<or> hd path = slash"
    using assms(1) by (subst (asm) path_is_normalized.simps) (auto split: list.splits)
  then have "under_mount path m" if "mnt_point m = []" for m
    using that by (auto simp: under_mount_def)
  then have "\<exists>m \<in> set ms. under_mount path m" using assms(2) by blast
  then have "find (under_mount path) ms \<noteq> None" by (auto simp: find_None_iff)
  then obtain m where "find (under_mount path) ms = Some m" by auto
  then show ?thesis using that assms(1) by (auto simp: mount_find_def find_Some_iff in_set_conv_nth)
qed

lemma no_links_readlink:
  assumes "no_links env" "path_is_normalized out"
  shows "possible_symlink env out room = Some None"
proof -
  obtain m where m: "mount_find out (fs_mounts env) = Some m" "under_mount out m"
    using mount_find_some[OF assms(2)] assms(1) unfolding no_links_def by metis
  let ?n = "length (mnt_point m)"
  have "path_is_normalized (drop ?n out)"
  proof (cases "drop ?n out")
    case Nil
    then show ?thesis by (simp add: path_is_normalized.simps)
  next
    case (Cons c r)
    then have "c = slash" using m(2) unfolding under_mount_def Let_def Cons by simp
    then have "out = take ?n out @ slash # r" using Cons by (metis append_take_drop_id)
    then show ?thesis using normalized_suffix[of "take ?n out" r] assms(2) Cons \<open>c = slash\<close> by simp
  qed
  then show ?thesis
    using assms(1) by (simp add: possible_symlink_def find_mount_and_trim_path_def m no_links_def)
qed

lemma norm_loop_step:
  assumes "p \<noteq> []" "\<not> is_dot p" "\<not> is_dot_dot p" "\<not> MAX_PATH \<le> length out"
    and "copy_component p (out @ [slash]) (n - 1) = (p', out', n')" "n' \<noteq> 0" "\<not> MAX_PATH \<le> length out'"
    and "possible_symlink env out' (MAX_PATH - Suc (length out)) = Some None"
  shows "norm_loop env follow links p out n = norm_loop env follow links (skip_slashes p') out' n'"
  using assms by (subst norm_loop.simps) simp

lemma norm_loop_resolves:
  assumes "no_links env" "proper st" "p = [] \<or> hd p \<noteq> slash" "length (join st) + length p + (if p = [] then 0 else 1) < MAX_PATH - 1"
  shows "norm_loop env follow links p (join st) (int MAX_PATH - 1 - int (length (join st)))
    = (case resolve st (components p) of None \<Rightarrow> Bad | Some st \<Rightarrow> Path (join st))"
  using assms(2-)
proof (induction "length p" arbitrary: p st rule: less_induct)
  case less
  let ?c = "takeWhile (\<lambda>c. c \<noteq> slash) p" and ?r = "dropWhile (\<lambda>c. c \<noteq> slash) p"
  let ?q = "skip_slashes ?r"
  show ?case
  proof (cases "p = []")
    case True
    then show ?thesis
      using less.prems join_normalized[OF less.prems(1)]
      by (subst norm_loop.simps) (simp add: components_def)
  next
    case False
    then have hd: "hd p \<noteq> slash" using less.prems(2) by simp
    note comp = components_step[OF False hd] and d = dots[OF False hd]
    have len: "length p = length ?c + length ?r" by (metis length_append takeWhile_dropWhile_id)
    have q: "length ?q \<le> length ?r" "?q = [] \<or> hd ?q \<noteq> slash"
      using length_skip_slashes[of ?r] hd_dropWhile[of "\<lambda>c. c = slash" ?r] by (auto simp: skip_slashes_def)
    have shorter: "length ?q < length p" using len q comp(2) by (cases ?c) auto
    have n: "path_is_normalized (join st)" by (rule join_normalized[OF less.prems(1)])
    consider (dot) "is_dot p" | (dotdot) "\<not> is_dot p" "is_dot_dot p" | (name) "\<not> is_dot p" "\<not> is_dot_dot p" by blast
    then show ?thesis
    proof cases
      case dot
      have "length (join st) + length ?q + (if ?q = [] then 0 else 1) < MAX_PATH - 1"
        using less.prems(3) shorter False by simp
      note ih = less.hyps[OF shorter less.prems(1) q(2) this]
      have "?c = [CHR 0x2e]" using dot d(1) by blast
      then have "components p = [CHR 0x2e] # components ?q" using comp(1) by simp
      then show ?thesis
        using dot d(3) False ih by (subst norm_loop.simps) simp
    next
      case dotdot
      have c: "components p = [CHR 0x2e, CHR 0x2e] # components ?q" using comp(1) d(2) dotdot by simp
      show ?thesis
      proof (cases "st = []")
        case True
        then show ?thesis
          using dotdot False c drop_last_join[OF less.prems(1)] by (subst norm_loop.simps) simp
      next
        case ne: False
        let ?st = "butlast st"
        have st: "st = ?st @ [last st]" using ne by simp
        have pr: "proper ?st" using less.prems(1) by (auto simp: proper_def dest: in_set_butlastD)
        have l: "length (join ?st) \<le> length (join st)" by (subst st, simp del: append_butlast_last_id)
        then have "length (join ?st) + length ?q + (if ?q = [] then 0 else 1) < MAX_PATH - 1"
          using less.prems(3) shorter False by simp
        note ih = less.hyps[OF shorter pr q(2) this]
        have "int MAX_PATH - 1 - int (length (join st)) + int (length (join st) - length (join ?st))
            = int MAX_PATH - 1 - int (length (join ?st))" using l by simp
        then show ?thesis
          using dotdot d(4) False ne c drop_last_join[OF less.prems(1)] ih by (subst norm_loop.simps) simp
      qed
    next
      case name
      let ?st = "st @ [?c]"
      have pr: "proper ?st" using less.prems(1) comp(2) no_slash_takeWhile by (auto simp: proper_def)
      have fit: "length (join ?st) + length ?q + (if ?q = [] then 0 else 1) < MAX_PATH - 1"
      proof (cases "?r = []")
        case True
        have qe: "?q = []" unfolding True by (simp add: skip_slashes_def)
        have "length (join st) + length ?c + 1 < MAX_PATH - 1" using less.prems(3) len False by simp
        then show ?thesis unfolding qe by simp
      next
        case r: False
        then obtain r' where r': "?r = slash # r'"
          using hd_dropWhile[of "\<lambda>c. c \<noteq> slash" p] by (cases ?r) auto
        have "?q = skip_slashes r'" unfolding r' by (simp add: skip_slashes_def)
        then have "length ?q \<le> length r'" using length_skip_slashes[of r'] by simp
        moreover have "length p = length ?c + Suc (length r')" unfolding len r' by simp
        ultimately have "length (join st) + (Suc (length ?c) + length ?q) + 1 < MAX_PATH - 1"
          using less.prems(3) False by simp
        then show ?thesis by simp
      qed
      note ih = less.hyps[OF shorter pr q(2) fit]
      have room: "int (length p) < int MAX_PATH - 1 - int (length (join st)) - 1" using less.prems(3) False by simp
      have copy: "copy_component p (join st @ [slash]) (int MAX_PATH - 1 - int (length (join st)) - 1)
          = (?r, join ?st, int MAX_PATH - 1 - int (length (join ?st)))"
        using copy_component_all[OF room, of "join st @ [slash]"] by simp
      have c: "components p = ?c # components ?q" using comp(1) by simp
      have "?c \<noteq> [CHR 0x2e]" "?c \<noteq> [CHR 0x2e, CHR 0x2e]" using d(1,2) name by auto
      then have res: "resolve st (components p) = resolve ?st (components ?q)" unfolding c by simp
      have small: "\<not> MAX_PATH \<le> length (join st)" "\<not> MAX_PATH \<le> length (join ?st)"
        "int MAX_PATH - 1 - int (length (join ?st)) \<noteq> 0"
        using fit by auto
      have link: "possible_symlink env (join ?st) k = Some None" for k
        by (rule no_links_readlink[OF assms(1) join_normalized[OF pr]])
      have "norm_loop env follow links p (join st) (int MAX_PATH - 1 - int (length (join st)))
          = norm_loop env follow links ?q (join ?st) (int MAX_PATH - 1 - int (length (join ?st)))"
        by (rule norm_loop_step[OF False name small(1) copy small(3,2) link])
      then show ?thesis unfolding res ih .
    qed
  qed
qed

lemma path_normalize_resolves_base:
  assumes env: "no_links env" and at: "at \<noteq> No_at"
    and base: "base_dir env at path = Some d" "generic_getpath d = Inr (if st = [] then [slash] else join st)"
    and st: "proper st" and len: "length (join st) + length path < MAX_PATH - 2"
  shows "path_normalize env links at path follow
    = (case resolve st (components path) of None \<Rightarrow> Bad | Some st \<Rightarrow> Path (join st))"
proof -
  have q: "skip_slashes path = [] \<or> hd (skip_slashes path) \<noteq> slash"
    using hd_dropWhile[of "\<lambda>c. c = slash" path] by (auto simp: skip_slashes_def)
  have l: "length (join st) + length (skip_slashes path) + (if skip_slashes path = [] then 0 else 1) < MAX_PATH - 1"
    using len length_skip_slashes[of path] by simp
  have root: "path_is_normalized [slash]" using normalized_slash[of "[]"] by (simp add: path_is_normalized.simps)
  have ne: "join st \<noteq> [slash]" if "st \<noteq> []"
    using st that by (cases st) (auto simp: join_Cons proper_def)
  have "path_normalize env links at path follow
      = norm_loop env follow links (skip_slashes path) (join st) (int MAX_PATH - 1 - int (length (join st)))"
    using at base ne join_normalized[OF st] root by (auto simp: path_normalize_def Let_def)
  then show ?thesis using norm_loop_resolves[OF env st q l] by simp
qed

subsection \<open>What it returns\<close>

text \<open>Names of files, none of them a dot or two: symbolic links or not, this is what the result
is made of, and what is left of it behind the point of a mount.\<close>

definition plain :: "string list \<Rightarrow> bool" where
  "plain ns \<longleftrightarrow> proper ns \<and> [dot] \<notin> set ns \<and> [dot, dot] \<notin> set ns"

lemma plain_Nil [simp]: "plain []"
  by (simp add: plain_def proper_def)

lemma plain_butlast: "plain ns \<Longrightarrow> plain (butlast ns)"
  by (auto simp: plain_def proper_def dest: in_set_butlastD)

lemma components_slash [simp]: "components (slash # p) = components p"
  by (simp add: components_def)

lemma join_head: "st = [] \<or> join st = slash # tl (join st)"
  by (cases st) (simp_all add: join_Cons)

lemma components_name: "c \<noteq> [] \<Longrightarrow> no_slash c \<Longrightarrow> components (c @ join st) = c # components (join st)"
  using join_head[of st]
proof
  assume c: "c \<noteq> []" "no_slash c" and st: "join st = slash # tl (join st)"
  show ?thesis using c by (subst (1 2) st) (simp add: components_def pieces_slash)
qed (simp add: components_def pieces_no_slash)

lemma components_join: "proper st \<Longrightarrow> components (join st) = st"
  by (induction st) (simp_all add: join_Cons components_name proper_def components_def[of "[]"])

lemma two_slashes: "\<not> path_is_normalized (a @ [slash, slash])"
  using normalized_suffix[of a "[slash]"] by (auto simp: normalized_slash)

lemma not_found: "\<not> path_is_normalized out \<Longrightarrow> possible_symlink env out room = None"
  by (simp add: possible_symlink_def find_mount_and_trim_path_def mount_find_def)

lemma copy_component_cases:
  assumes "copy_component p out n = (p', out', n')"
  shows "n' = 0 \<or> n \<le> 0 \<and> n' < 0 \<and> p' = p \<and> out' = out \<and> p \<noteq> [] \<and> hd p \<noteq> slash \<or> p' = dropWhile (\<lambda>c. c \<noteq> slash) p \<and> out' = out @ takeWhile (\<lambda>c. c \<noteq> slash) p"
  using assms by (induction p out n rule: copy_component.induct) (auto split: if_splits)

lemma stuck:
  assumes "p \<noteq> []" "hd p \<noteq> slash" "\<not> is_dot p" "\<not> is_dot_dot p" "n \<le> 0"
  shows "norm_loop env follow links p (a @ [slash]) n = Bad"
proof -
  have "skip_slashes p = p" using assms(1,2) by (cases p) (simp_all add: skip_slashes_def)
  moreover have "copy_component p (a @ [slash, slash]) (n - 1) = (p, a @ [slash, slash], n - 2)"
    using assms(1,2,5) by (cases p) simp_all
  ultimately show ?thesis
    using assms not_found[OF two_slashes] by (subst norm_loop.simps) simp
qed

lemma skip_slashes_head: "skip_slashes p = [] \<or> hd (skip_slashes p) \<noteq> slash"
  using hd_dropWhile[of "\<lambda>c. c = slash" p] by (auto simp: skip_slashes_def)

lemma plain_name:
  assumes "plain st" "p \<noteq> []" "hd p \<noteq> slash" "\<not> is_dot p" "\<not> is_dot_dot p"
  shows "plain (st @ [takeWhile (\<lambda>c. c \<noteq> slash) p])"
  using assms dots(1,2)[OF assms(2,3)] components_step(2)[OF assms(2,3)] no_slash_takeWhile[of p]
  by (auto simp: plain_def proper_def)

text \<open>One turn of the loop leads to another state of that kind, of the same or of a new path.\<close>

lemma norm_loop_next:
  assumes r: "norm_loop env follow links p (join st) n = Path q" and st: "plain st" and p: "p \<noteq> []" "hd p \<noteq> slash"
  shows "\<exists>links' p' st' n'. norm_loop env follow links' p' (join st') n' = Path q \<and> plain st' \<and> (p' = [] \<or> hd p' \<noteq> slash) \<and>
    (links' < links \<or> links' = links \<and> length p' < length p)"
proof -
  let ?r = "dropWhile (\<lambda>c. c \<noteq> slash) p"
  have shorter: "length (skip_slashes ?r) < length p"
    using p length_skip_slashes[of ?r] length_dropWhile_le[of "\<lambda>c. c \<noteq> slash" "tl p"] by (cases p) auto
  note d = dots[OF p]
  consider (dot) "is_dot p" | (up) "\<not> is_dot p" "is_dot_dot p" | (name) "\<not> is_dot p" "\<not> is_dot_dot p" by blast
  then show ?thesis
  proof cases
    case dot
    then have "norm_loop env follow links (skip_slashes ?r) (join st) n = Path q"
      using r p d(3) by (subst (asm) norm_loop.simps) simp
    then show ?thesis using st shorter skip_slashes_head[of ?r] by blast
  next
    case up
    have ne: "st \<noteq> []"
    proof
      assume "st = []"
      then show False using r up p by (subst (asm) norm_loop.simps) (simp add: drop_last_def)
    qed
    then have "drop_last (join st) = Some (join (butlast st))" using drop_last_join[of st] st by (simp add: plain_def)
    then have "\<exists>n'. norm_loop env follow links (skip_slashes ?r) (join (butlast st)) n' = Path q"
      using r up p d(4) by (subst (asm) norm_loop.simps) auto
    then show ?thesis using plain_butlast[OF st] shorter skip_slashes_head[of ?r] by blast
  next
    case name
    obtain p' out' n' where c: "copy_component p (join st @ [slash]) (n - 1) = (p', out', n')" by (metis prod_cases3)
    note u = r[unfolded norm_loop.simps[of env follow links p "join st" n]]
    have n': "n' \<noteq> 0" using u p name c by (auto split: if_splits)
    show ?thesis
    proof (cases "p' = ?r \<and> out' = join (st @ [takeWhile (\<lambda>c. c \<noteq> slash) p])")
      case True
      have "norm_loop env follow links (skip_slashes p') out' n' = Path q \<or>
          (\<exists>l x. links = Suc l \<and> norm_loop env follow l (skip_slashes x) [] (int MAX_PATH - 1) = Path q)"
        using u p name c n' by (auto simp: Let_def split: if_splits option.splits nat.splits)
      then show ?thesis
      proof
        assume "norm_loop env follow links (skip_slashes p') out' n' = Path q"
        then show ?thesis using True plain_name[OF st p name] shorter skip_slashes_head[of ?r] by blast
      next
        assume "\<exists>l x. links = Suc l \<and> norm_loop env follow l (skip_slashes x) [] (int MAX_PATH - 1) = Path q"
        then show ?thesis using skip_slashes_head plain_Nil join_Nil by (metis lessI)
      qed
    next
      case False
      then have s: "n \<le> 1" "p' = p" "out' = join st @ [slash]"
        using copy_component_cases[OF c] n' by auto
      have "n' \<le> 0" using c s(1) p by (cases p) auto
      moreover have "skip_slashes p = p" using p by (cases p) (simp_all add: skip_slashes_def)
      ultimately have "norm_loop env follow links p (join st @ [slash]) n' = Path q \<or>
          (\<exists>l x. links = Suc l \<and> norm_loop env follow l (skip_slashes x) [] (int MAX_PATH - 1) = Path q)"
        using u p name c n' s(2,3) by (auto simp: Let_def split: if_splits option.splits nat.splits)
      moreover have "norm_loop env follow links p (join st @ [slash]) n' = Bad" using stuck[OF p name \<open>n' \<le> 0\<close>] .
      ultimately show ?thesis using skip_slashes_head plain_Nil join_Nil by (metis lessI path_result.distinct(3))
    qed
  qed
qed

lemma norm_loop_plain:
  assumes "norm_loop env follow links p (join st) n = Path q" "plain st" "p = [] \<or> hd p \<noteq> slash"
  shows "\<exists>ns. plain ns \<and> q = join ns"
  using assms
proof (induction "(links, p)" arbitrary: links p st n rule: wf_induct_rule[OF wf_measures[of "[fst, length \<circ> snd]"]])
  case less: 1
  show ?case
  proof (cases "p = []")
    case True
    then show ?thesis using less.prems by (subst (asm) norm_loop.simps) (auto split: if_splits)
  next
    case False
    then obtain l p' st' n' where "norm_loop env follow l p' (join st') n' = Path q" "plain st'" "p' = [] \<or> hd p' \<noteq> slash"
      "l < links \<or> l = links \<and> length p' < length p"
      using norm_loop_next[OF less.prems(1,2) False] less.prems(3) by blast
    then show ?thesis using less.hyps[of l p' st' n'] by simp
  qed
qed

lemma path_normalize_plain:
  assumes "path_normalize env links at path follow = Path q"
    and "\<And>d p. base_dir env at path = Some d \<Longrightarrow> generic_getpath d = Inr p \<Longrightarrow> p = [slash] \<or> (\<exists>st. plain st \<and> p = join st)"
  shows "\<exists>ns. plain ns \<and> q = join ns"
proof -
  let ?base = "if at = No_at then Inr [] else case base_dir env at path of None \<Rightarrow> Inr [] | Some d \<Rightarrow> generic_getpath d"
  obtain p where b: "?base = Inr p" using assms(1) by (cases ?base) (auto simp: path_normalize_def)
  then have p: "p = [] \<or> p = [slash] \<or> (\<exists>st. plain st \<and> p = join st)"
    using assms(2) by (auto split: if_splits option.splits)
  have q: "norm_loop env follow links (skip_slashes path) (if p = [slash] then [] else p)
      (int MAX_PATH - 1 - int (length (if p = [slash] then [] else p))) = Path q"
    using assms(1) unfolding path_normalize_def b by (simp add: Let_def split: if_splits)
  obtain st where "plain st" "(if p = [slash] then [] else p) = join st"
    using p plain_Nil join_Nil by metis
  then show ?thesis using norm_loop_plain[OF q[unfolded \<open>_ = join st\<close>]] skip_slashes_head by blast
qed

lemma trim_plain:
  assumes "plain ns" "find_mount_and_trim_path ms (join ns) = Some (m, p)"
  shows "\<exists>st. plain st \<and> p = join st"
proof -
  have cut: "\<exists>j. drop k (join ns) = join (drop j ns)" if "proper ns" "drop k (join ns) = [] \<or> hd (drop k (join ns)) = slash" for k ns
    using that
  proof (induction ns arbitrary: k)
    case (Cons c ns)
    show ?case
    proof (cases "k \<le> length c \<and> k \<noteq> 0")
      case True
      then have "drop k (join (c # ns)) = drop (k - 1) c @ join ns" by (cases k) (simp_all add: join_Cons)
      then show ?thesis
      proof (cases "drop (k - 1) c = []")
        case False
        then have "hd (drop (k - 1) c) \<in> set c" using hd_in_set in_set_dropD by metis
        then show ?thesis using Cons.prems False \<open>drop k (join (c # ns)) = _\<close> by (auto simp: proper_def)
      qed (metis append_Nil drop0 drop_Suc_Cons)
    next
      case False
      show ?thesis
      proof (cases "k = 0")
        case True then show ?thesis by (metis drop0)
      next
        case k: False
        then have "drop k (join (c # ns)) = drop (k - Suc (length c)) (join ns)"
          using False by (cases k) (simp_all add: join_Cons)
        then show ?thesis using Cons.IH[of "k - Suc (length c)"] Cons.prems by (metis drop_Suc_Cons list.set_intros(2) proper_def)
      qed
    qed
  qed simp
  have "p = drop (length (mnt_point m)) (join ns)" "under_mount (join ns) m"
    using assms(2) by (auto simp: find_mount_and_trim_path_def mount_find_def find_Some_iff split: if_splits)
  then obtain j where "p = join (drop j ns)" using cut[of ns "length (mnt_point m)"] assms(1) by (auto simp: under_mount_def Let_def plain_def)
  moreover have "plain (drop j ns)" using assms(1) by (auto simp: plain_def proper_def dest: in_set_dropD)
  ultimately show ?thesis by blast
qed

subsection \<open>Paths that are too long\<close>

lemma copy_component_cut:
  assumes "no_slash p" "0 < n" "n \<le> int (length p)"
  shows "\<exists>p' out'. copy_component p out n = (p', out', 0)"
  using assms by (induction p arbitrary: out n) auto

text \<open>A name that does not fit is an error; but when the directory leaves a single byte, only the
slash is stored, the name is met again, and the slashes run behind the end of the buffer.\<close>

lemma long_name:
  assumes "at \<noteq> No_at" "base_dir env at path = Some d" "generic_getpath d = Inr [slash]"
    and path: "no_slash path" "MAX_PATH - 2 \<le> length path"
  shows "path_normalize env links at path follow = Path_err ENAMETOOLONG"
proof -
  have p: "path \<noteq> []" "hd path \<noteq> slash" using path by (cases path; force)+
  have w: "takeWhile (\<lambda>c. c \<noteq> slash) path = path" using path(1) by (simp add: takeWhile_eq_all_conv) blast
  have "\<not> is_dot path" "\<not> is_dot_dot path" using dots(1,2)[OF p] path(2) unfolding w by auto
  moreover obtain p' out' where "copy_component path [slash] (int MAX_PATH - 1 - 1) = (p', out', 0)"
    using copy_component_cut[of path "int MAX_PATH - 1 - 1" "[slash]"] path by auto
  moreover have "skip_slashes path = path" using p by (cases path) (simp_all add: skip_slashes_def)
  ultimately have "norm_loop env follow links path [] (int MAX_PATH - 1) = Path_err ENAMETOOLONG"
    using p(1) by (subst norm_loop.simps) simp
  moreover have "path_is_normalized [slash]" using normalized_slash[of "[]"] by (simp add: path_is_normalized.simps)
  ultimately show ?thesis using assms(1-3) \<open>skip_slashes path = path\<close> by (simp add: path_normalize_def)
qed

lemma no_room:
  assumes "p \<noteq> []" "hd p \<noteq> slash" "\<not> is_dot p" "\<not> is_dot_dot p" "length out < MAX_PATH" "no_links env"
  shows "norm_loop env follow links p out 1 = Bad"
proof -
  have s: "skip_slashes p = p" using assms(1,2) by (cases p) (simp_all add: skip_slashes_def)
  have c: "copy_component p (out @ [slash]) 0 = (p, out @ [slash], - 1)" using assms(1,2) by (cases p) simp_all
  show ?thesis
  proof (cases "path_is_normalized (out @ [slash])")
    case True
    then have "possible_symlink env (out @ [slash]) k = Some None" for k by (rule no_links_readlink[OF assms(6)])
    then show ?thesis using assms s c stuck[OF assms(1-4), of "- 1" env follow links out] by (subst norm_loop.simps) simp
  next
    case False
    then show ?thesis using assms s c not_found[OF False] by (subst norm_loop.simps) simp
  qed
qed

subsection \<open>The list of mounts\<close>

definition mounts_sorted :: "mount list \<Rightarrow> bool" where
  "mounts_sorted ms \<longleftrightarrow> sorted_wrt (\<lambda>m n. length (mnt_point n) \<le> length (mnt_point m)) ms"

lemma set_insert_mount [simp]: "set (insert_mount m ms) = insert m (set ms)"
  by (induction ms) auto

lemma insert_mount_sorted: "mounts_sorted ms \<Longrightarrow> mounts_sorted (insert_mount m ms)"
  by (induction ms) (auto simp: mounts_sorted_def)

lemma find_first:
  assumes "mounts_sorted ms" "find P ms = Some m" "n \<in> set ms" "P n"
  shows "length (mnt_point n) \<le> length (mnt_point m)"
  using assms by (induction ms) (auto simp: mounts_sorted_def split: if_splits)

lemma find_insert_mount:
  assumes "P m" "\<And>n. n \<in> set ms \<Longrightarrow> P n \<Longrightarrow> length (mnt_point n) \<le> length (mnt_point m)"
  shows "find P (insert_mount m ms) = Some m"
  using assms by (induction ms) (auto split: if_splits)

lemma under_mount_length: "under_mount path m \<Longrightarrow> length (mnt_point m) \<le> length path"
  by (metis length_take min.cobounded1 under_mount_def)

end
