(* ===== verification/Kernel_Props.thy ===== *)
theory Kernel_Props
  imports Fd_Facts Klog Path_Facts
begin

text \<open>
  Properties of the descriptor tables, the kernel log, the path names and the
  mounts.
\<close>

subsection \<open>Descriptors\<close>

text \<open>C27. The reference counts of open files stay right in every sequence of
opens, closes, dups, dup2s of different non-negative descriptors and fcntls, from
any state where they are: a count is the number of slots that refer to the file
plus the references held elsewhere, no slot refers to a closed file, only
occupied slots are close-on-exec, and nothing undefined happens. The table must
be within the limit of open files.\<close>
theorem descriptors_counted:
  assumes "fds_ok held s" "limit_ok s" "\<forall>c \<in> set cs. defined_call c"
  shows "fds_ok held (fold (run_call ops) cs s)"
  using run_calls_ok[OF assms] by blast

theorem descriptors_counted_witness:
  "fds_ok (\<lambda>_. 0) (fold (run_call no_ops) [Open O_CLOEXEC, Dup 0, Dup2 0 7, Close 0, Fcntl 7 0 1] fds_demo)"
  by (rule descriptors_counted[OF fds_demo_ok]) (simp add: defined_call_def)

text \<open>\<open>dup2\<close> of a descriptor onto itself closes the file before it takes a
reference: when the descriptor holds the only one, the count of a freed object
is incremented, and the slot is left referring to it.\<close>
lemma dup2_onto_itself:
  assumes "f_get f s = Some fd" "fd_heap s fd = Some x" "fd_refcount x = 1"
  shows "fd_bad (snd (sys_dup2 ops f f s)) \<and> fd_heap (snd (sys_dup2 ops f f s)) fd = None
    \<and> f_get f (snd (sys_dup2 ops f f s)) = Some fd"
  using dup2_same_descriptor[OF assms] by blast

lemma dup2_onto_itself_witness:
  "\<not> fd_bad fds_demo \<and> fd_bad (snd (sys_dup2 no_ops 0 0 fds_demo))"
  using dup2_onto_itself[of 0 fds_demo 1 "\<lparr>fd_refcount = 1, fd_flags = 0\<rparr>" no_ops]
  by (simp add: fds_demo_def f_get_def cur_def)

subsection \<open>The log\<close>

text \<open>C32. \<open>printk\<close> of a text that fits its buffer: of the pending bytes and the
text, everything up to the last newline goes into the ring, the rest, without a
newline, stays pending; and the ring holds the newest bytes, as many as it has
room for, of all that was printed, in order.\<close>
theorem printk_fills_log:
  assumes "log_ok k" "length pending + length msg < 4096"
  shows "\<exists>lines rest k'. vprintk msg (pending, k) = Some (rest, k') \<and> pending @ msg = lines @ rest
    \<and> 10 \<notin> set rest \<and> (lines = [] \<or> last lines = 10) \<and> log_ok k'
    \<and> log_contents k' = take_last LOG_BUF (log_contents k @ lines)"
proof -
  obtain rest k' where p: "print_lines (pending @ msg) k = (rest, k')" by (cases "print_lines (pending @ msg) k")
  then have "vprintk msg (pending, k) = Some (rest, k')" using assms(2) by (simp add: vprintk_def)
  then show ?thesis using print_lines_contents[OF assms(1) p] by blast
qed

theorem printk_fills_log_witness:
  "\<exists>k'. vprintk [104, 105, 10, 33] ([], log_demo) = Some ([33], k') \<and> log_contents k' = [104, 105, 10]"
proof -
  obtain ls rest k' where r: "vprintk [104, 105, 10, 33] ([], log_demo) = Some (rest, k')"
    "[104, 105, 10, 33] = ls @ rest" "10 \<notin> set rest" "ls = [] \<or> last ls = 10"
    "log_contents k' = take_last LOG_BUF (log_contents log_demo @ ls)"
    using printk_fills_log[OF log_demo_ok(1), of "[]" "[104, 105, 10, 33]"] by auto
  have "ls = [104, 105, 10] \<and> rest = [33]"
    using r(2-4) by (auto simp: Cons_eq_append_conv split: if_splits)
  then show ?thesis using r(1,5) by (auto simp: log_demo_ok take_last_def LOG_BUF_def)
qed

subsection \<open>Paths\<close>


definition env_demo :: fs_env where
  "env_demo = \<lparr>fs_root = Some \<lparr>dir_path = Inr [], dir_mount = []\<rparr>,
     fs_pwd = Some \<lparr>dir_path = Inr ''/home'', dir_mount = []\<rparr>,
     fs_mounts = [\<lparr>mnt_point = ''/proc'', mnt_source = [], mnt_fs = 1, mnt_refcount = 0\<rparr>,
       \<lparr>mnt_point = [], mnt_source = [], mnt_fs = 0, mnt_refcount = 0\<rparr>],
     fs_readlink = (\<lambda>_ _ _. None)\<rparr>"


text \<open>Mounting keeps the list of mounts in descending order of the length of
their points, and the mount found for a normalized path is one that it lies under,
with the longest point of all such mounts; a new mount is found for its own
point, before any older one.\<close>
lemma mount_find_longest:
  assumes "mounts_sorted ms" "path_is_normalized path" "\<exists>m \<in> set ms. mnt_point m = []"
    "path_is_normalized point"
  shows "(\<exists>m. mount_find path ms = Some m \<and> m \<in> set ms \<and> under_mount path m
      \<and> (\<forall>n \<in> set ms. under_mount path n \<longrightarrow> length (mnt_point n) \<le> length (mnt_point m)))
    \<and> mounts_sorted (snd (do_mount True None fs source point ms))
    \<and> mount_find point (snd (do_mount True None fs source point ms))
        = Some \<lparr>mnt_point = point, mnt_source = source, mnt_fs = fs, mnt_refcount = 0\<rparr>"
proof -
  let ?new = "\<lparr>mnt_point = point, mnt_source = source, mnt_fs = fs, mnt_refcount = 0\<rparr>"
  obtain m where m: "mount_find path ms = Some m" "m \<in> set ms" "under_mount path m"
    by (rule mount_find_some[OF assms(2,3)])
  have "length (mnt_point n) \<le> length (mnt_point m)" if "n \<in> set ms" "under_mount path n" for n
    using find_first[OF assms(1), of "under_mount path" m n] that m(1) assms(2) by (simp add: mount_find_def)
  moreover have "find (under_mount point) (insert_mount ?new ms) = Some ?new"
    by (rule find_insert_mount) (simp_all add: under_mount_length, simp add: under_mount_def)
  ultimately show ?thesis
    using m insert_mount_sorted[OF assms(1), of ?new] assms(4) by (auto simp: do_mount_def mount_find_def)
qed

lemma mount_find_longest_witness:
  "mount_find ''/sys'' (snd (do_mount True None 2 [] ''/sys'' (fs_mounts env_demo)))
    = Some \<lparr>mnt_point = ''/sys'', mnt_source = [], mnt_fs = 2, mnt_refcount = 0\<rparr>"
  using mount_find_longest[of "fs_mounts env_demo" "[]" "''/sys''" 2 "[]"]
  by (simp add: mounts_sorted_def env_demo_def path_is_normalized.simps)

end
