(* ===== verification/Cpu.thy ===== *)
theory Cpu
  imports Float80
begin

text \<open>
  The state of an emulated CPU (\<open>src/emu/cpu.h\<close>), its registers by number and
  size (\<open>src/emu/regid.h\<close>), the flags that are computed lazily from the last
  result, the interrupt numbers and \<open>cpuid\<close>.

  The C unions are modelled by one of their members and functions for the
  others: a general register is its 32-bit member, \<open>eflags\<close>, \<open>fsw\<close> and \<open>fcw\<close>
  are words whose bit fields are read and written by position. Truth values in
  bit fields of one bit are \<open>bool\<close>.
\<close>

subsection \<open>Registers\<close>

datatype reg32 = reg_eax | reg_ecx | reg_edx | reg_ebx | reg_esp | reg_ebp | reg_esi | reg_edi | reg_none

definition reg32_of :: "dword_t \<Rightarrow> reg32" where
  "reg32_of n =
    (if n = 0 then reg_eax else if n = 1 then reg_ecx else if n = 2 then reg_edx
     else if n = 3 then reg_ebx else if n = 4 then reg_esp else if n = 5 then reg_ebp
     else if n = 6 then reg_esi else if n = 7 then reg_edi else reg_none)"

text \<open>\<open>f80_mode\<close> is the thread's rounding mode, a thread local of \<open>float80.c\<close>.
\<open>cpu_fp\<close> is an array of 8.\<close>

record cpu_state =
  cpu_regs :: "reg32 \<Rightarrow> dword_t"
  cpu_xmm :: "reg32 \<Rightarrow> uint128_t"
  cpu_eip :: dword_t
  cpu_eflags :: dword_t
  cpu_cf :: byte_t
  cpu_of :: byte_t
  cpu_res :: dword_t
  cpu_op1 :: dword_t
  cpu_op2 :: dword_t
  cpu_pf_res :: bool
  cpu_zf_res :: bool
  cpu_sf_res :: bool
  cpu_af_ops :: bool
  cpu_fp :: "nat \<Rightarrow> float80"
  cpu_fsw :: word_t
  cpu_fcw :: word_t
  cpu_gs :: word_t
  cpu_tls_ptr :: addr_t
  cpu_segfault_addr :: addr_t
  cpu_trapno :: dword_t
  f80_mode :: f80_rounding_mode

definition put_bit :: "nat \<Rightarrow> bool \<Rightarrow> 'a::len word \<Rightarrow> 'a word" where
  "put_bit n b w = (if b then w OR push_bit n 1 else w AND NOT (push_bit n 1))"

text \<open>\<open>regptr_from_reg\<close>: the 8-bit register of a number is the low byte of one of
the first four registers, or the second byte. A register of a given size in bits
is read and written inside its 32-bit register.\<close>

fun byte_reg :: "reg32 \<Rightarrow> reg32 \<times> nat" where
  "byte_reg reg_esp = (reg_eax, 8)"
| "byte_reg reg_ebp = (reg_ecx, 8)"
| "byte_reg reg_esi = (reg_edx, 8)"
| "byte_reg reg_edi = (reg_ebx, 8)"
| "byte_reg r = (r, 0)"

definition regptr_from_reg :: "reg32 \<Rightarrow> nat \<Rightarrow> reg32 \<times> nat" where
  "regptr_from_reg r z = (if z = 8 then byte_reg r else (r, 0))"

definition read_part :: "reg32 \<times> nat \<Rightarrow> nat \<Rightarrow> cpu_state \<Rightarrow> dword_t" where
  "read_part p z cpu = take_bit z (drop_bit (snd p) (cpu_regs cpu (fst p)))"

definition replace_bits :: "nat \<Rightarrow> nat \<Rightarrow> dword_t \<Rightarrow> dword_t \<Rightarrow> dword_t" where
  "replace_bits k z v w = (w AND NOT (push_bit k (mask z))) OR push_bit k (take_bit z v)"

definition write_part :: "reg32 \<times> nat \<Rightarrow> nat \<Rightarrow> dword_t \<Rightarrow> cpu_state \<Rightarrow> cpu_state" where
  "write_part p z v cpu =
    cpu\<lparr>cpu_regs := (cpu_regs cpu)(fst p := replace_bits (snd p) z v (cpu_regs cpu (fst p)))\<rparr>"

definition REGISTER :: "reg32 \<Rightarrow> nat \<Rightarrow> cpu_state \<Rightarrow> dword_t" where
  "REGISTER r z = read_part (regptr_from_reg r z) z"

definition set_REGISTER :: "reg32 \<Rightarrow> nat \<Rightarrow> dword_t \<Rightarrow> cpu_state \<Rightarrow> cpu_state" where
  "set_REGISTER r z = write_part (regptr_from_reg r z) z"

subsection \<open>Flags\<close>

abbreviation (input) PF_bit :: nat where "PF_bit \<equiv> 2"
abbreviation (input) AF_bit :: nat where "AF_bit \<equiv> 4"
abbreviation (input) ZF_bit :: nat where "ZF_bit \<equiv> 6"
abbreviation (input) SF_bit :: nat where "SF_bit \<equiv> 7"
abbreviation (input) IF_bit :: nat where "IF_bit \<equiv> 9"
abbreviation (input) DF_bit :: nat where "DF_bit \<equiv> 10"
abbreviation (input) OF_bit :: nat where "OF_bit \<equiv> 11"

definition put_flag :: "nat \<Rightarrow> bool \<Rightarrow> cpu_state \<Rightarrow> cpu_state" where
  "put_flag n b cpu = cpu\<lparr>cpu_eflags := put_bit n b (cpu_eflags cpu)\<rparr>"

definition ZF :: "cpu_state \<Rightarrow> bool" where
  "ZF cpu = (if cpu_zf_res cpu then cpu_res cpu = 0 else bit (cpu_eflags cpu) ZF_bit)"

definition SF :: "cpu_state \<Rightarrow> bool" where
  "SF cpu = (if cpu_sf_res cpu then sint (cpu_res cpu) < 0 else bit (cpu_eflags cpu) SF_bit)"

definition CF :: "cpu_state \<Rightarrow> byte_t" where
  "CF cpu = cpu_cf cpu"

definition OF_val :: "cpu_state \<Rightarrow> byte_t" where
  "OF_val cpu = cpu_of cpu"

definition PF :: "cpu_state \<Rightarrow> bool" where
  "PF cpu = (if cpu_pf_res cpu then \<not> parity (cpu_res cpu AND 0xff) else bit (cpu_eflags cpu) PF_bit)"

definition AF :: "cpu_state \<Rightarrow> bool" where
  "AF cpu = (if cpu_af_ops cpu
     then drop_bit 4 (cpu_op1 cpu XOR cpu_op2 cpu XOR cpu_res cpu) AND 1 \<noteq> 0
     else bit (cpu_eflags cpu) AF_bit)"

text \<open>A byte stored in a field of one bit keeps its lowest bit.\<close>

definition collapse_flags :: "cpu_state \<Rightarrow> cpu_state" where
  "collapse_flags cpu =
    (let cpu = put_flag ZF_bit (ZF cpu) cpu;
         cpu = put_flag SF_bit (SF cpu) cpu;
         cpu = put_flag PF_bit (PF cpu) cpu;
         cpu = cpu\<lparr>cpu_zf_res := False, cpu_sf_res := False, cpu_pf_res := False\<rparr>;
         cpu = put_flag OF_bit (bit (cpu_of cpu) 0) cpu;
         cpu = put_flag 0 (bit (cpu_cf cpu) 0) cpu;
         cpu = put_flag AF_bit (AF cpu) cpu;
         cpu = cpu\<lparr>cpu_af_ops := False\<rparr>;
         cpu = put_flag 1 True cpu;
         cpu = put_flag 3 False (put_flag 5 False cpu)
     in put_flag IF_bit True cpu)"

definition expand_flags :: "cpu_state \<Rightarrow> cpu_state" where
  "expand_flags cpu =
    cpu\<lparr>cpu_of := of_bool (bit (cpu_eflags cpu) OF_bit), cpu_cf := of_bool (bit (cpu_eflags cpu) 0),
      cpu_zf_res := False, cpu_sf_res := False, cpu_pf_res := False, cpu_af_ops := False\<rparr>"

subsection \<open>Interrupts and cpuid\<close>

abbreviation (input) INT_DIV :: int where "INT_DIV \<equiv> 0"
abbreviation (input) INT_UNDEFINED :: int where "INT_UNDEFINED \<equiv> 6"
abbreviation (input) INT_GPF :: int where "INT_GPF \<equiv> 13"
abbreviation (input) INT_TIMER :: int where "INT_TIMER \<equiv> 32"
abbreviation (input) INT_SYSCALL :: int where "INT_SYSCALL \<equiv> 0x80"

definition do_cpuid :: "cpu_state \<Rightarrow> cpu_state" where
  "do_cpuid cpu =
    (let r = cpu_regs cpu
     in cpu\<lparr>cpu_regs :=
          (if r reg_eax = 0
           then r(reg_eax := 1, reg_ebx := 0x756e6547, reg_edx := 0x49656e69, reg_ecx := 0x6c65746e)
           else r(reg_eax := 0, reg_ebx := 0, reg_ecx := 0, reg_edx := 0))\<rparr>)"

subsection \<open>Registers and parts of registers\<close>

lemma bit_put_bit: "n < LENGTH('a) \<Longrightarrow> bit (put_bit n b (w :: 'a::len word)) k = (if k = n then b else bit w k)"
  by (cases "k = n") (auto simp: put_bit_def bit_or_iff bit_and_iff bit_not_iff bit_push_bit_iff bit_1_iff
      simp del: push_bit_of_1 dest: bit_imp_le_length)

lemma replace_bits_bit:
  "k + z \<le> 32 \<Longrightarrow> bit (replace_bits k z v w) n = (if k \<le> n \<and> n < k + z then bit v (n - k) else bit w n)"
  by (auto simp: replace_bits_def bit_or_iff bit_and_iff bit_not_iff bit_push_bit_iff bit_mask_iff
      bit_take_bit_iff dest: bit_imp_le_length)

lemma read_part_write_part_same:
  assumes "snd p + z \<le> 32"
  shows "read_part p z (write_part p z v cpu) = take_bit z v"
  using assms
  by (intro bit_eqI) (auto simp: read_part_def write_part_def bit_take_bit_iff bit_drop_bit_eq replace_bits_bit)

lemma read_part_write_part_disjoint:
  assumes "snd p + z \<le> 32"
    and "fst q \<noteq> fst p \<or> snd q + y \<le> snd p \<or> snd p + z \<le> snd q"
  shows "read_part q y (write_part p z v cpu) = read_part q y cpu"
  using assms
  by (intro bit_eqI) (auto simp: read_part_def write_part_def bit_take_bit_iff bit_drop_bit_eq replace_bits_bit)

lemma write_part_frame [simp]:
  "cpu_eip (write_part p z v cpu) = cpu_eip cpu" "cpu_eflags (write_part p z v cpu) = cpu_eflags cpu"
  "cpu_cf (write_part p z v cpu) = cpu_cf cpu" "cpu_of (write_part p z v cpu) = cpu_of cpu"
  "cpu_res (write_part p z v cpu) = cpu_res cpu"
  "cpu_zf_res (write_part p z v cpu) = cpu_zf_res cpu" "cpu_sf_res (write_part p z v cpu) = cpu_sf_res cpu"
  "cpu_pf_res (write_part p z v cpu) = cpu_pf_res cpu" "cpu_af_ops (write_part p z v cpu) = cpu_af_ops cpu"
  by (simp_all add: write_part_def)

lemma set_REGISTER_same:
  "z = 8 \<or> z = 16 \<or> z = 32 \<Longrightarrow> REGISTER r z (set_REGISTER r z v cpu) = take_bit z v"
  unfolding REGISTER_def set_REGISTER_def
  by (rule read_part_write_part_same) (cases r; auto simp: regptr_from_reg_def)

subsection \<open>Flags, collapsed and expanded\<close>

lemma put_flag_sel [simp]:
  "cpu_eflags (put_flag n b cpu) = put_bit n b (cpu_eflags cpu)"
  "cpu_regs (put_flag n b cpu) = cpu_regs cpu" "cpu_cf (put_flag n b cpu) = cpu_cf cpu"
  "cpu_of (put_flag n b cpu) = cpu_of cpu" "cpu_res (put_flag n b cpu) = cpu_res cpu"
  "cpu_op1 (put_flag n b cpu) = cpu_op1 cpu" "cpu_op2 (put_flag n b cpu) = cpu_op2 cpu"
  "cpu_zf_res (put_flag n b cpu) = cpu_zf_res cpu" "cpu_sf_res (put_flag n b cpu) = cpu_sf_res cpu"
  "cpu_pf_res (put_flag n b cpu) = cpu_pf_res cpu" "cpu_af_ops (put_flag n b cpu) = cpu_af_ops cpu"
  by (simp_all add: put_flag_def)

lemmas flag_defs = ZF_def SF_def PF_def AF_def CF_def OF_val_def

lemma collapse_flags_keeps:
  "ZF (collapse_flags cpu) = ZF cpu" "SF (collapse_flags cpu) = SF cpu"
  "PF (collapse_flags cpu) = PF cpu" "AF (collapse_flags cpu) = AF cpu"
  "CF (collapse_flags cpu) = CF cpu" "OF_val (collapse_flags cpu) = OF_val cpu"
  by (simp_all add: collapse_flags_def Let_def flag_defs bit_put_bit)

lemma expand_collapse_flags:
  assumes "cpu_cf cpu \<le> 1" "cpu_of cpu \<le> 1"
  shows "CF (expand_flags (collapse_flags cpu)) = CF cpu" "OF_val (expand_flags (collapse_flags cpu)) = OF_val cpu"
    "ZF (expand_flags (collapse_flags cpu)) = ZF cpu" "SF (expand_flags (collapse_flags cpu)) = SF cpu"
    "PF (expand_flags (collapse_flags cpu)) = PF cpu" "AF (expand_flags (collapse_flags cpu)) = AF cpu"
proof -
  have b: "(of_bool (bit w 0) :: byte_t) = w" if "w \<le> 1" for w :: byte_t
  proof -
    from that have "w = 0 \<or> w = 1" by (simp add: word_le_nat_alt) (metis One_nat_def le_SucE le_zero_eq unsigned_0 unsigned_1 word_unat_eq_iff)
    then show ?thesis by auto
  qed
  show "CF (expand_flags (collapse_flags cpu)) = CF cpu" "OF_val (expand_flags (collapse_flags cpu)) = OF_val cpu"
    using b[OF assms(1)] b[OF assms(2)]
    by (simp_all add: collapse_flags_def expand_flags_def Let_def CF_def OF_val_def bit_put_bit)
  show "ZF (expand_flags (collapse_flags cpu)) = ZF cpu" "SF (expand_flags (collapse_flags cpu)) = SF cpu"
    "PF (expand_flags (collapse_flags cpu)) = PF cpu" "AF (expand_flags (collapse_flags cpu)) = AF cpu"
    by (simp_all add: collapse_flags_def expand_flags_def Let_def flag_defs bit_put_bit)
qed

end
