(* ===== verification/Fpu.thy ===== *)
theory Fpu
  imports Cpu
begin

text \<open>
  The x87 register stack and the operations of \<open>src/emu/fpu.c\<close> and
  \<open>src/emu/fpu.h\<close>. \<open>ST(i)\<close> is \<open>cpu->fp[cpu->top + i]\<close>, an access outside the
  array of 8 when the sum exceeds 7. \<open>None\<close> is the end of the process: such an
  access, or a failed operation of \<open>float80.c\<close>. An operation that stores through
  a pointer returns the value; one that reads through a pointer takes it. A
  \<open>float\<close> and a \<open>double\<close> are their bits.
\<close>

subsection \<open>Single precision\<close>

text \<open>The conversions between \<open>float\<close> and \<open>double\<close> that C performs implicitly,
on IEEE bit patterns. Widening is exact (a NaN keeps its payload and is quiet);
narrowing rounds to nearest, ties to even.\<close>

definition float_to_double :: "dword_t \<Rightarrow> qword_t" where
  "float_to_double w =
    (let s = push_bit 63 (drop_bit 31 (ucast w)) :: qword_t;
         e = unat (take_bit 8 (drop_bit 23 w));
         m = take_bit 23 (ucast w) :: qword_t
     in if e = 0xff then s OR push_bit 52 0x7ff OR push_bit 29 m OR (if m = 0 then 0 else push_bit 51 1)
        else if e \<noteq> 0 then s OR push_bit 52 (of_nat (e + 896)) OR push_bit 29 m
        else if m = 0 then s
        else
          (let k = clz m - 40 \<comment> \<open>distance of the leading one from bit 23\<close>
           in s OR push_bit 52 (of_nat (897 - k)) OR push_bit 29 (take_bit 23 (push_bit k m))))"

definition double_to_float :: "qword_t \<Rightarrow> dword_t" where
  "double_to_float d =
    (let s = push_bit 31 (ucast (drop_bit 63 d)) :: dword_t;
         e = unat (take_bit 11 (drop_bit 52 d));
         m = take_bit 52 d
     in if e = 0x7ff
        then s OR push_bit 23 0xff OR (if m = 0 then 0 else push_bit 22 1 OR ucast (drop_bit 29 m))
        else
          (let full = (if e = 0 then m else m OR push_bit 52 1);
               shift = (if e \<ge> 897 then 29 else min 60 (29 + (897 - max 1 e)));
               q = drop_bit shift full; r = take_bit shift full; half = push_bit (shift - 1) 1;
               q = (if r > half \<or> r = half \<and> bit q 0 then q + 1 else q);
               packed = ucast q + (if e \<ge> 897 then push_bit 23 (of_nat (e - 897)) else 0) :: dword_t
           in if e \<ge> 1151 \<or> packed \<ge> push_bit 23 0xff then s OR push_bit 23 0xff else s OR packed))"

subsection \<open>The register stack\<close>

datatype fpu_const = fconst_one | fconst_log2t | fconst_log2e | fconst_pi | fconst_log2 | fconst_ln2 | fconst_zero

fun fpu_consts :: "fpu_const \<Rightarrow> float80" where
  "fpu_consts fconst_one = \<lparr>signif = 0x8000000000000000, fexp = 0x3fff, fsign = False\<rparr>"
| "fpu_consts fconst_log2t = \<lparr>signif = 0xd49a784bcd1b8afe, fexp = 0x4000, fsign = False\<rparr>"
| "fpu_consts fconst_log2e = \<lparr>signif = 0xb8aa3b295c17f0bc, fexp = 0x3fff, fsign = False\<rparr>"
| "fpu_consts fconst_pi = \<lparr>signif = 0xc90fdaa22168c235, fexp = 0x4000, fsign = False\<rparr>"
| "fpu_consts fconst_log2 = \<lparr>signif = 0x9a209a84fbcff799, fexp = 0x3ffd, fsign = False\<rparr>"
| "fpu_consts fconst_ln2 = \<lparr>signif = 0xb17217f7d1cf79ac, fexp = 0x3ffe, fsign = False\<rparr>"
| "fpu_consts fconst_zero = \<lparr>signif = 0, fexp = 0, fsign = False\<rparr>"

text \<open>Bit fields of \<open>fsw\<close>: \<open>c0\<close>, \<open>c1\<close>, \<open>c2\<close> at 8, 9, 10, \<open>top\<close> at 11 to 13,
\<open>c3\<close> at 14. The field \<open>rc\<close> of \<open>fcw\<close> is at 10 and 11.\<close>

definition fpu_top :: "cpu_state \<Rightarrow> nat" where
  "fpu_top cpu = unat (take_bit 3 (drop_bit 11 (cpu_fsw cpu)))"

definition set_top :: "nat \<Rightarrow> cpu_state \<Rightarrow> cpu_state" where
  "set_top t cpu =
    cpu\<lparr>cpu_fsw := (cpu_fsw cpu AND NOT (push_bit 11 7)) OR push_bit 11 (of_nat (t mod 8))\<rparr>"

definition put_fsw :: "nat \<Rightarrow> bool \<Rightarrow> cpu_state \<Rightarrow> cpu_state" where
  "put_fsw n b cpu = cpu\<lparr>cpu_fsw := put_bit n b (cpu_fsw cpu)\<rparr>"

abbreviation (input) fsw_c0 :: nat where "fsw_c0 \<equiv> 8"
abbreviation (input) fsw_c1 :: nat where "fsw_c1 \<equiv> 9"
abbreviation (input) fsw_c2 :: nat where "fsw_c2 \<equiv> 10"
abbreviation (input) fsw_c3 :: nat where "fsw_c3 \<equiv> 14"

definition ST :: "nat \<Rightarrow> cpu_state \<Rightarrow> float80 option" where
  "ST i cpu = (if fpu_top cpu + i < 8 then Some (cpu_fp cpu (fpu_top cpu + i)) else None)"

definition set_ST :: "nat \<Rightarrow> float80 \<Rightarrow> cpu_state \<Rightarrow> cpu_state option" where
  "set_ST i f cpu =
    (if fpu_top cpu + i < 8 then Some (cpu\<lparr>cpu_fp := (cpu_fp cpu)(fpu_top cpu + i := f)\<rparr>) else None)"

text \<open>\<open>ST(i) = g(ST(i))\<close>.\<close>

definition update_ST :: "nat \<Rightarrow> (float80 \<Rightarrow> float80 option) \<Rightarrow> cpu_state \<Rightarrow> cpu_state option" where
  "update_ST i g cpu =
    Option.bind (ST i cpu) (\<lambda>f. Option.bind (g f) (\<lambda>f'. set_ST i f' cpu))"

definition fpu_push :: "float80 \<Rightarrow> cpu_state \<Rightarrow> cpu_state option" where
  "fpu_push f cpu = set_ST 0 f (set_top (fpu_top cpu + 7) cpu)"

definition fpu_pop :: "cpu_state \<Rightarrow> cpu_state" where
  "fpu_pop cpu = set_top (fpu_top cpu + 1) cpu"

definition fpu_xch :: "nat \<Rightarrow> cpu_state \<Rightarrow> cpu_state option" where
  "fpu_xch i cpu =
    Option.bind (ST 0 cpu) (\<lambda>tmp. Option.bind (ST i cpu) (\<lambda>f.
      Option.bind (set_ST 0 f cpu) (set_ST i tmp)))"

subsection \<open>Loads and stores\<close>

definition fpu_ld :: "nat \<Rightarrow> cpu_state \<Rightarrow> cpu_state option" where
  "fpu_ld i cpu =
    (let pushed = set_top (fpu_top cpu + 7) cpu
     in Option.bind (ST i cpu) (\<lambda>f. set_ST 0 f pushed))"

definition fpu_ldc :: "fpu_const \<Rightarrow> cpu_state \<Rightarrow> cpu_state option" where
  "fpu_ldc c = fpu_push (fpu_consts c)"

text \<open>An integer operand of 16, 32 or 64 bits is sign extended to 64.\<close>

definition fpu_ild16 :: "word_t \<Rightarrow> cpu_state \<Rightarrow> cpu_state option" where
  "fpu_ild16 i cpu = Option.bind (f80_from_int (scast i)) (\<lambda>f. fpu_push f cpu)"

definition fpu_ild32 :: "dword_t \<Rightarrow> cpu_state \<Rightarrow> cpu_state option" where
  "fpu_ild32 i cpu = Option.bind (f80_from_int (scast i)) (\<lambda>f. fpu_push f cpu)"

definition fpu_ild64 :: "qword_t \<Rightarrow> cpu_state \<Rightarrow> cpu_state option" where
  "fpu_ild64 i cpu = Option.bind (f80_from_int i) (\<lambda>f. fpu_push f cpu)"

definition fpu_ldm32 :: "dword_t \<Rightarrow> cpu_state \<Rightarrow> cpu_state option" where
  "fpu_ldm32 w cpu = Option.bind (f80_from_double (float_to_double w)) (\<lambda>f. fpu_push f cpu)"

definition fpu_ldm64 :: "qword_t \<Rightarrow> cpu_state \<Rightarrow> cpu_state option" where
  "fpu_ldm64 d cpu = Option.bind (f80_from_double d) (\<lambda>f. fpu_push f cpu)"

definition fpu_ldm80 :: "float80 \<Rightarrow> cpu_state \<Rightarrow> cpu_state option" where
  "fpu_ldm80 f = fpu_push f"

definition fpu_st :: "nat \<Rightarrow> cpu_state \<Rightarrow> cpu_state option" where
  "fpu_st i cpu = Option.bind (ST 0 cpu) (\<lambda>f. set_ST i f cpu)"

definition fpu_ist16 :: "cpu_state \<Rightarrow> word_t option" where
  "fpu_ist16 cpu = map_option (\<lambda>f. ucast (f80_to_int (f80_mode cpu) f)) (ST 0 cpu)"

definition fpu_ist32 :: "cpu_state \<Rightarrow> dword_t option" where
  "fpu_ist32 cpu = map_option (\<lambda>f. ucast (f80_to_int (f80_mode cpu) f)) (ST 0 cpu)"

definition fpu_ist64 :: "cpu_state \<Rightarrow> qword_t option" where
  "fpu_ist64 cpu = map_option (f80_to_int (f80_mode cpu)) (ST 0 cpu)"

definition fpu_stm32 :: "cpu_state \<Rightarrow> dword_t option" where
  "fpu_stm32 cpu = map_option (\<lambda>f. double_to_float (f80_to_double (f80_mode cpu) f)) (ST 0 cpu)"

definition fpu_stm64 :: "cpu_state \<Rightarrow> qword_t option" where
  "fpu_stm64 cpu = map_option (f80_to_double (f80_mode cpu)) (ST 0 cpu)"

definition fpu_stm80 :: "cpu_state \<Rightarrow> float80 option" where
  "fpu_stm80 cpu = ST 0 cpu"

subsection \<open>Arithmetic\<close>

definition fpu_prem :: "cpu_state \<Rightarrow> cpu_state option" where
  "fpu_prem cpu =
    Option.bind (ST 1 cpu) (\<lambda>y.
    map_option (put_fsw fsw_c2 False) (update_ST 0 (\<lambda>x. f80_mod (f80_mode cpu) x y) cpu))"

definition fpu_scale :: "cpu_state \<Rightarrow> cpu_state option" where
  "fpu_scale cpu =
    Option.bind (ST 1 cpu) (\<lambda>s.
      (let scale = sint (ucast (f80_to_int round_chop s) :: dword_t)
       in update_ST 0 (\<lambda>f. Some (f80_scale (f80_mode cpu) f scale)) cpu))"

definition fpu_rndint :: "cpu_state \<Rightarrow> cpu_state option" where
  "fpu_rndint cpu =
    Option.bind (ST 0 cpu) (\<lambda>f.
      if f80_isinf f \<or> f80_isnan f then Some cpu
      else update_ST 0 (\<lambda>f. f80_from_int (f80_to_int (f80_mode cpu) f)) cpu)"

definition fpu_sqrt :: "cpu_state \<Rightarrow> cpu_state option" where
  "fpu_sqrt cpu = update_ST 0 (f80_sqrt (f80_mode cpu)) cpu"

definition fpu_yl2x :: "cpu_state \<Rightarrow> cpu_state option" where
  "fpu_yl2x cpu =
    Option.bind (ST 0 cpu) (\<lambda>x. Option.bind (f80_log2 (f80_mode cpu) x) (\<lambda>l.
      map_option fpu_pop (update_ST 1 (\<lambda>y. Some (f80_mul (f80_mode cpu) y l)) cpu)))"

text \<open>\<open>exp2m1\<close> is the value of the expression \<open>pow(2, x) - 1\<close> of the C library
on doubles.\<close>

definition fpu_2xm1 :: "(qword_t \<Rightarrow> qword_t) \<Rightarrow> cpu_state \<Rightarrow> cpu_state option" where
  "fpu_2xm1 exp2m1 cpu =
    update_ST 0 (\<lambda>f. f80_from_double (exp2m1 (f80_to_double (f80_mode cpu) f))) cpu"

definition fpu_comparei :: "float80 \<Rightarrow> cpu_state \<Rightarrow> cpu_state option" where
  "fpu_comparei x cpu =
    Option.bind (ST 0 cpu) (\<lambda>f. Option.bind (f80_lt (f80_mode cpu) f x) (\<lambda>lt.
      (let eq = f80_eq f x; un = f80_uncomparable f x;
           cpu = cpu\<lparr>cpu_zf_res := False, cpu_pf_res := False\<rparr>;
           cpu = put_flag ZF_bit (un \<or> eq) (put_flag PF_bit un cpu)
       in Some (cpu\<lparr>cpu_cf := of_bool (un \<or> lt)\<rparr>))))"

definition fpu_compare :: "float80 \<Rightarrow> cpu_state \<Rightarrow> cpu_state option" where
  "fpu_compare x cpu =
    Option.bind (ST 0 cpu) (\<lambda>f. Option.bind (f80_lt (f80_mode cpu) f x) (\<lambda>lt.
      (let eq = f80_eq f x; un = f80_uncomparable f x
       in Some (put_fsw fsw_c0 (un \<or> lt) (put_fsw fsw_c3 (un \<or> eq) (put_fsw fsw_c2 un (put_fsw fsw_c1 False cpu)))))))"

definition fpu_com :: "nat \<Rightarrow> cpu_state \<Rightarrow> cpu_state option" where
  "fpu_com i cpu = Option.bind (ST i cpu) (\<lambda>x. fpu_compare x cpu)"

definition fpu_comi :: "nat \<Rightarrow> cpu_state \<Rightarrow> cpu_state option" where
  "fpu_comi i cpu = Option.bind (ST i cpu) (\<lambda>x. fpu_comparei x cpu)"

definition fpu_comm32 :: "dword_t \<Rightarrow> cpu_state \<Rightarrow> cpu_state option" where
  "fpu_comm32 w cpu = Option.bind (f80_from_double (float_to_double w)) (\<lambda>x. fpu_compare x cpu)"

definition fpu_comm64 :: "qword_t \<Rightarrow> cpu_state \<Rightarrow> cpu_state option" where
  "fpu_comm64 d cpu = Option.bind (f80_from_double d) (\<lambda>x. fpu_compare x cpu)"

definition fpu_tst :: "cpu_state \<Rightarrow> cpu_state option" where
  "fpu_tst = fpu_compare (fpu_consts fconst_zero)"

definition fpu_abs :: "cpu_state \<Rightarrow> cpu_state option" where
  "fpu_abs = update_ST 0 (\<lambda>f. Some (f80_abs f))"

definition fpu_chs :: "cpu_state \<Rightarrow> cpu_state option" where
  "fpu_chs = update_ST 0 (\<lambda>f. Some (f80_neg f))"

definition fpu_add :: "nat \<Rightarrow> nat \<Rightarrow> cpu_state \<Rightarrow> cpu_state option" where
  "fpu_add srci dsti cpu =
    Option.bind (ST srci cpu) (\<lambda>src. update_ST dsti (\<lambda>dst. f80_add (f80_mode cpu) dst src) cpu)"

definition fpu_sub :: "nat \<Rightarrow> nat \<Rightarrow> cpu_state \<Rightarrow> cpu_state option" where
  "fpu_sub srci dsti cpu =
    Option.bind (ST srci cpu) (\<lambda>src. update_ST dsti (\<lambda>dst. f80_sub (f80_mode cpu) dst src) cpu)"

definition fpu_subr :: "nat \<Rightarrow> nat \<Rightarrow> cpu_state \<Rightarrow> cpu_state option" where
  "fpu_subr srci dsti cpu =
    Option.bind (ST srci cpu) (\<lambda>src. update_ST dsti (\<lambda>dst. f80_sub (f80_mode cpu) src dst) cpu)"

definition fpu_mul :: "nat \<Rightarrow> nat \<Rightarrow> cpu_state \<Rightarrow> cpu_state option" where
  "fpu_mul srci dsti cpu =
    Option.bind (ST srci cpu) (\<lambda>src. update_ST dsti (\<lambda>dst. Some (f80_mul (f80_mode cpu) dst src)) cpu)"

definition fpu_div :: "nat \<Rightarrow> nat \<Rightarrow> cpu_state \<Rightarrow> cpu_state option" where
  "fpu_div srci dsti cpu =
    Option.bind (ST srci cpu) (\<lambda>src. update_ST dsti (\<lambda>dst. f80_div (f80_mode cpu) dst src) cpu)"

definition fpu_divr :: "nat \<Rightarrow> nat \<Rightarrow> cpu_state \<Rightarrow> cpu_state option" where
  "fpu_divr srci dsti cpu =
    Option.bind (ST srci cpu) (\<lambda>src. update_ST dsti (\<lambda>dst. f80_div (f80_mode cpu) src dst) cpu)"

text \<open>With a memory operand.\<close>

definition fpu_iadd16 :: "word_t \<Rightarrow> cpu_state \<Rightarrow> cpu_state option" where
  "fpu_iadd16 i cpu =
    Option.bind (f80_from_int (scast i)) (\<lambda>x. update_ST 0 (\<lambda>st. f80_add (f80_mode cpu) st x) cpu)"

definition fpu_isub16 :: "word_t \<Rightarrow> cpu_state \<Rightarrow> cpu_state option" where
  "fpu_isub16 i cpu =
    Option.bind (f80_from_int (scast i)) (\<lambda>x. update_ST 0 (\<lambda>st. f80_sub (f80_mode cpu) st x) cpu)"

definition fpu_isubr16 :: "word_t \<Rightarrow> cpu_state \<Rightarrow> cpu_state option" where
  "fpu_isubr16 i cpu =
    Option.bind (f80_from_int (scast i)) (\<lambda>x. update_ST 0 (\<lambda>st. f80_sub (f80_mode cpu) x st) cpu)"

definition fpu_imul16 :: "word_t \<Rightarrow> cpu_state \<Rightarrow> cpu_state option" where
  "fpu_imul16 i cpu =
    Option.bind (f80_from_int (scast i)) (\<lambda>x. update_ST 0 (\<lambda>st. Some (f80_mul (f80_mode cpu) st x)) cpu)"

definition fpu_idiv16 :: "word_t \<Rightarrow> cpu_state \<Rightarrow> cpu_state option" where
  "fpu_idiv16 i cpu =
    Option.bind (f80_from_int (scast i)) (\<lambda>x. update_ST 0 (\<lambda>st. f80_div (f80_mode cpu) st x) cpu)"

definition fpu_idivr16 :: "word_t \<Rightarrow> cpu_state \<Rightarrow> cpu_state option" where
  "fpu_idivr16 i cpu =
    Option.bind (f80_from_int (scast i)) (\<lambda>x. update_ST 0 (\<lambda>st. f80_div (f80_mode cpu) x st) cpu)"

definition fpu_iadd32 :: "dword_t \<Rightarrow> cpu_state \<Rightarrow> cpu_state option" where
  "fpu_iadd32 i cpu =
    Option.bind (f80_from_int (scast i)) (\<lambda>x. update_ST 0 (\<lambda>st. f80_add (f80_mode cpu) st x) cpu)"

definition fpu_isub32 :: "dword_t \<Rightarrow> cpu_state \<Rightarrow> cpu_state option" where
  "fpu_isub32 i cpu =
    Option.bind (f80_from_int (scast i)) (\<lambda>x. update_ST 0 (\<lambda>st. f80_sub (f80_mode cpu) st x) cpu)"

definition fpu_isubr32 :: "dword_t \<Rightarrow> cpu_state \<Rightarrow> cpu_state option" where
  "fpu_isubr32 i cpu =
    Option.bind (f80_from_int (scast i)) (\<lambda>x. update_ST 0 (\<lambda>st. f80_sub (f80_mode cpu) x st) cpu)"

definition fpu_imul32 :: "dword_t \<Rightarrow> cpu_state \<Rightarrow> cpu_state option" where
  "fpu_imul32 i cpu =
    Option.bind (f80_from_int (scast i)) (\<lambda>x. update_ST 0 (\<lambda>st. Some (f80_mul (f80_mode cpu) st x)) cpu)"

definition fpu_idiv32 :: "dword_t \<Rightarrow> cpu_state \<Rightarrow> cpu_state option" where
  "fpu_idiv32 i cpu =
    Option.bind (f80_from_int (scast i)) (\<lambda>x. update_ST 0 (\<lambda>st. f80_div (f80_mode cpu) st x) cpu)"

definition fpu_idivr32 :: "dword_t \<Rightarrow> cpu_state \<Rightarrow> cpu_state option" where
  "fpu_idivr32 i cpu =
    Option.bind (f80_from_int (scast i)) (\<lambda>x. update_ST 0 (\<lambda>st. f80_div (f80_mode cpu) x st) cpu)"

definition fpu_addm32 :: "dword_t \<Rightarrow> cpu_state \<Rightarrow> cpu_state option" where
  "fpu_addm32 w cpu =
    Option.bind (f80_from_double (float_to_double w)) (\<lambda>x. update_ST 0 (\<lambda>st. f80_add (f80_mode cpu) st x) cpu)"

definition fpu_subm32 :: "dword_t \<Rightarrow> cpu_state \<Rightarrow> cpu_state option" where
  "fpu_subm32 w cpu =
    Option.bind (f80_from_double (float_to_double w)) (\<lambda>x. update_ST 0 (\<lambda>st. f80_sub (f80_mode cpu) st x) cpu)"

definition fpu_subrm32 :: "dword_t \<Rightarrow> cpu_state \<Rightarrow> cpu_state option" where
  "fpu_subrm32 w cpu =
    Option.bind (f80_from_double (float_to_double w)) (\<lambda>x. update_ST 0 (\<lambda>st. f80_sub (f80_mode cpu) x st) cpu)"

definition fpu_mulm32 :: "dword_t \<Rightarrow> cpu_state \<Rightarrow> cpu_state option" where
  "fpu_mulm32 w cpu =
    Option.bind (f80_from_double (float_to_double w)) (\<lambda>x. update_ST 0 (\<lambda>st. Some (f80_mul (f80_mode cpu) st x)) cpu)"

definition fpu_divm32 :: "dword_t \<Rightarrow> cpu_state \<Rightarrow> cpu_state option" where
  "fpu_divm32 w cpu =
    Option.bind (f80_from_double (float_to_double w)) (\<lambda>x. update_ST 0 (\<lambda>st. f80_div (f80_mode cpu) st x) cpu)"

definition fpu_divrm32 :: "dword_t \<Rightarrow> cpu_state \<Rightarrow> cpu_state option" where
  "fpu_divrm32 w cpu =
    Option.bind (f80_from_double (float_to_double w)) (\<lambda>x. update_ST 0 (\<lambda>st. f80_div (f80_mode cpu) x st) cpu)"

definition fpu_addm64 :: "qword_t \<Rightarrow> cpu_state \<Rightarrow> cpu_state option" where
  "fpu_addm64 w cpu =
    Option.bind (f80_from_double w) (\<lambda>x. update_ST 0 (\<lambda>st. f80_add (f80_mode cpu) st x) cpu)"

definition fpu_subm64 :: "qword_t \<Rightarrow> cpu_state \<Rightarrow> cpu_state option" where
  "fpu_subm64 w cpu =
    Option.bind (f80_from_double w) (\<lambda>x. update_ST 0 (\<lambda>st. f80_sub (f80_mode cpu) st x) cpu)"

definition fpu_subrm64 :: "qword_t \<Rightarrow> cpu_state \<Rightarrow> cpu_state option" where
  "fpu_subrm64 w cpu =
    Option.bind (f80_from_double w) (\<lambda>x. update_ST 0 (\<lambda>st. f80_sub (f80_mode cpu) x st) cpu)"

definition fpu_mulm64 :: "qword_t \<Rightarrow> cpu_state \<Rightarrow> cpu_state option" where
  "fpu_mulm64 w cpu =
    Option.bind (f80_from_double w) (\<lambda>x. update_ST 0 (\<lambda>st. Some (f80_mul (f80_mode cpu) st x)) cpu)"

definition fpu_divm64 :: "qword_t \<Rightarrow> cpu_state \<Rightarrow> cpu_state option" where
  "fpu_divm64 w cpu =
    Option.bind (f80_from_double w) (\<lambda>x. update_ST 0 (\<lambda>st. f80_div (f80_mode cpu) st x) cpu)"

definition fpu_divrm64 :: "qword_t \<Rightarrow> cpu_state \<Rightarrow> cpu_state option" where
  "fpu_divrm64 w cpu =
    Option.bind (f80_from_double w) (\<lambda>x. update_ST 0 (\<lambda>st. f80_div (f80_mode cpu) x st) cpu)"

subsection \<open>Control\<close>

definition rounding_of :: "word_t \<Rightarrow> f80_rounding_mode" where
  "rounding_of fcw =
    (let rc = take_bit 2 (drop_bit 10 fcw)
     in if rc = 0 then round_to_nearest else if rc = 1 then round_down
        else if rc = 2 then round_up else round_chop)"

definition fpu_stcw16 :: "cpu_state \<Rightarrow> word_t" where
  "fpu_stcw16 cpu = cpu_fcw cpu"

definition fpu_ldcw16 :: "word_t \<Rightarrow> cpu_state \<Rightarrow> cpu_state" where
  "fpu_ldcw16 i cpu = cpu\<lparr>cpu_fcw := i, f80_mode := rounding_of i\<rparr>"

text \<open>\<open>atan2\<close> is the function of the C library on doubles.\<close>

definition fpu_patan :: "(qword_t \<Rightarrow> qword_t \<Rightarrow> qword_t) \<Rightarrow> cpu_state \<Rightarrow> cpu_state option" where
  "fpu_patan atan2 cpu =
    Option.bind (ST 0 cpu) (\<lambda>x.
      map_option fpu_pop (update_ST 1 (\<lambda>y.
        f80_from_double (atan2 (f80_to_double (f80_mode cpu) y) (f80_to_double (f80_mode cpu) x))) cpu))"

definition fpu_xam :: "cpu_state \<Rightarrow> cpu_state option" where
  "fpu_xam cpu =
    Option.bind (ST 0 cpu) (\<lambda>f.
      (let outflags =
             (if \<not> f80_is_supported f then 0
              else if f80_isnan f then 1
              else if f80_isinf f then 3
              else if f80_iszero f then 4
              else if f80_isdenormal f then 6
              else 2) :: dword_t
       in Some (put_fsw fsw_c3 (bit outflags 2) (put_fsw fsw_c2 (bit outflags 1)
            (put_fsw fsw_c0 (bit outflags 0) (put_fsw fsw_c1 (fsign f) cpu))))))"

end
