(* ===== verification/Machine.thy ===== *)
theory Machine
  imports Fpu Tlb
begin

text \<open>
  The machine that \<open>src/emu/interp.c\<close> steps: the CPU, the TLB and the memory
  behind it, and the local variables of the decoder. A piece of the interpreter
  is a function on the machine with these outcomes: it goes on with a value, it
  returns an interrupt (keeping what it has changed), the behaviour of the
  process is undefined or the process ends, or the bound on the number of
  instruction prefixes given to the decoder is used up. The ModRM byte is decoded as in
  \<open>src/emu/modrm.h\<close>, and operands are read and written as by the macros \<open>get\<close>
  and \<open>set\<close>.
\<close>

subsection \<open>Little endian values\<close>

fun word_of_bytes :: "byte_t list \<Rightarrow> 'a::len word" where
  "word_of_bytes [] = 0"
| "word_of_bytes (b # bs) = ucast b OR push_bit 8 (word_of_bytes bs)"

fun bytes_of_word :: "nat \<Rightarrow> 'a::len word \<Rightarrow> byte_t list" where
  "bytes_of_word 0 w = []"
| "bytes_of_word (Suc n) w = ucast w # bytes_of_word n (drop_bit 8 w)"

subsection \<open>ModRM\<close>

datatype modrm_type = modrm_reg | modrm_mem | modrm_mem_si

text \<open>\<open>mr_reg\<close> and \<open>mr_base\<close> are the unions of a register number and an opcode;
8 is \<open>reg_none\<close>. Members the code leaves unset are 0.\<close>

record modrm =
  mr_reg :: dword_t
  mr_type :: modrm_type
  mr_base :: dword_t
  mr_offset :: dword_t
  mr_index :: dword_t
  mr_shift :: nat

abbreviation (input) reg_none_number :: dword_t where "reg_none_number \<equiv> 8"
abbreviation (input) rm_sib :: dword_t where "rm_sib \<equiv> 4"
abbreviation (input) rm_none :: dword_t where "rm_none \<equiv> 4"
abbreviation (input) rm_disp32 :: dword_t where "rm_disp32 \<equiv> 5"

datatype mode = mode_disp0 | mode_disp8 | mode_disp32 | mode_reg

definition MOD :: "byte_t \<Rightarrow> nat" where
  "MOD b = unat (drop_bit 6 (b AND 0xc0))"

definition REG :: "byte_t \<Rightarrow> dword_t" where
  "REG b = ucast (drop_bit 3 (b AND 0x38))"

definition RM :: "byte_t \<Rightarrow> dword_t" where
  "RM b = ucast (b AND 0x07)"

definition mode_of :: "nat \<Rightarrow> mode" where
  "mode_of n = (if n = 0 then mode_disp0 else if n = 1 then mode_disp8
     else if n = 2 then mode_disp32 else mode_reg)"

text \<open>\<open>READ(thing)\<close> on the pointer \<open>ip\<close> and the memory.\<close>

definition READ :: "nat \<Rightarrow> addr_t \<times> tlb \<times> vm \<Rightarrow> byte_t list option \<times> addr_t \<times> tlb \<times> vm" where
  "READ n = (\<lambda>(ip, s).
    (case tlb_read ip n s of
       (None, s) \<Rightarrow> (None, ip, s)
     | (Some bs, s) \<Rightarrow> (Some bs, ip + of_nat n, s)))"

text \<open>The last part: the displacement.\<close>

definition modrm_offset ::
  "modrm \<Rightarrow> mode \<Rightarrow> addr_t \<times> tlb \<times> vm \<Rightarrow> modrm option \<times> addr_t \<times> tlb \<times> vm" where
  "modrm_offset mr md s =
    (case md of
       mode_disp0 \<Rightarrow> (Some (mr\<lparr>mr_offset := 0\<rparr>), s)
     | mode_disp8 \<Rightarrow>
         (case READ 1 s of
            (None, s) \<Rightarrow> (None, s)
          | (Some bs, s) \<Rightarrow> (Some (mr\<lparr>mr_offset := scast (word_of_bytes bs :: byte_t)\<rparr>), s))
     | mode_disp32 \<Rightarrow>
         (case READ 4 s of
            (None, s) \<Rightarrow> (None, s)
          | (Some bs, s) \<Rightarrow> (Some (mr\<lparr>mr_offset := word_of_bytes bs\<rparr>), s))
     | mode_reg \<Rightarrow> (Some mr, s))"

text \<open>What a SIB byte does to the decoded operand.\<close>

definition sib_decode :: "byte_t \<Rightarrow> modrm \<Rightarrow> mode \<Rightarrow> modrm \<times> mode" where
  "sib_decode sib_byte mr md =
    (let none = (RM sib_byte = rm_disp32 \<and> md = mode_disp0);
         mr = mr\<lparr>mr_base := (if none then reg_none_number else RM sib_byte),
                 mr_index := REG sib_byte, mr_shift := MOD sib_byte\<rparr>
     in (if mr_index mr \<noteq> rm_none then mr\<lparr>mr_type := modrm_mem_si\<rparr> else mr,
         if none then mode_disp32 else md))"

definition modrm_decode32 :: "addr_t \<times> tlb \<times> vm \<Rightarrow> modrm option \<times> addr_t \<times> tlb \<times> vm" where
  "modrm_decode32 s =
    (case READ 1 s of
       (None, s) \<Rightarrow> (None, s)
     | (Some bs, s) \<Rightarrow>
         (let modrm_byte = word_of_bytes bs;
              md = mode_of (MOD modrm_byte);
              mr = \<lparr>mr_reg = REG modrm_byte, mr_type = modrm_mem, mr_base = RM modrm_byte,
                    mr_offset = 0, mr_index = 0, mr_shift = 0\<rparr>
          in if md = mode_reg then modrm_offset (mr\<lparr>mr_type := modrm_reg\<rparr>) md s
             else if mr_base mr = rm_disp32 \<and> md = mode_disp0
             then modrm_offset (mr\<lparr>mr_base := reg_none_number\<rparr>) mode_disp32 s
             else if mr_base mr = rm_sib
             then (case READ 1 s of
                     (None, s) \<Rightarrow> (None, s)
                   | (Some bs, s) \<Rightarrow>
                       (case sib_decode (word_of_bytes bs) mr md of
                          (mr, md) \<Rightarrow> modrm_offset mr md s))
             else modrm_offset mr md s))"

subsection \<open>The machine and its code\<close>

text \<open>\<open>host\<close> holds what the interpreter takes from the outside: the successive
values of the time stamp counter and the C library function \<open>atan2\<close>.\<close>

record host =
  host_tsc :: "nat \<Rightarrow> qword_t"
  host_atan2 :: "qword_t \<Rightarrow> qword_t \<Rightarrow> qword_t"

record machine =
  m_cpu :: cpu_state
  m_mem :: "tlb \<times> vm"
  m_tsc :: nat
  l_addr :: addr_t
  l_imm :: qword_t
  l_modrm :: modrm
  l_saved_ip :: dword_t

datatype 'a outcome = Ok 'a machine | Interrupt int machine | Crash | No_fuel

type_synonym 'a code = "machine \<Rightarrow> 'a outcome"

definition ret :: "'a \<Rightarrow> 'a code" where
  "ret x = Ok x"

definition bnd :: "'a code \<Rightarrow> ('a \<Rightarrow> 'b code) \<Rightarrow> 'b code" where
  "bnd c f m =
    (case c m of Ok x m \<Rightarrow> f x m | Interrupt n m \<Rightarrow> Interrupt n m | Crash \<Rightarrow> Crash | No_fuel \<Rightarrow> No_fuel)"

text \<open>A block of statements.\<close>

fun block :: "unit code list \<Rightarrow> unit code" where
  "block [] = ret ()"
| "block (c # cs) = bnd c (\<lambda>_. block cs)"

definition from_cpu :: "(cpu_state \<Rightarrow> 'a) \<Rightarrow> 'a code" where
  "from_cpu f m = Ok (f (m_cpu m)) m"

definition on_cpu :: "(cpu_state \<Rightarrow> cpu_state) \<Rightarrow> unit code" where
  "on_cpu f m = Ok () (m\<lparr>m_cpu := f (m_cpu m)\<rparr>)"

text \<open>An FPU operation that may end the process.\<close>

definition try_cpu :: "(cpu_state \<Rightarrow> cpu_state option) \<Rightarrow> unit code" where
  "try_cpu f m = (case f (m_cpu m) of None \<Rightarrow> Crash | Some c \<Rightarrow> Ok () (m\<lparr>m_cpu := c\<rparr>))"

definition the_value :: "'a option \<Rightarrow> 'a code" where
  "the_value x = (case x of None \<Rightarrow> (\<lambda>m. Crash) | Some v \<Rightarrow> ret v)"

definition raise_interrupt :: "int \<Rightarrow> 'a code" where
  "raise_interrupt n = Interrupt n"

definition only_if :: "bool \<Rightarrow> unit code \<Rightarrow> unit code" where
  "only_if b c = (if b then c else ret ())"

definition UNDEFINED :: "'a code" where
  "UNDEFINED m = Interrupt INT_UNDEFINED (m\<lparr>m_cpu := (m_cpu m)\<lparr>cpu_eip := l_saved_ip m\<rparr>\<rparr>)"

subsection \<open>Memory\<close>

definition fault :: "addr_t \<Rightarrow> 'a code" where
  "fault a m = Interrupt INT_GPF
     (m\<lparr>m_cpu := (m_cpu m)\<lparr>cpu_eip := l_saved_ip m, cpu_segfault_addr := a\<rparr>\<rparr>)"

definition mem_read_bytes :: "addr_t \<Rightarrow> nat \<Rightarrow> byte_t list code" where
  "mem_read_bytes a n m =
    (case tlb_read a n (m_mem m) of
       (None, s) \<Rightarrow> fault a (m\<lparr>m_mem := s\<rparr>)
     | (Some bs, s) \<Rightarrow> Ok bs (m\<lparr>m_mem := s\<rparr>))"

definition mem_write_bytes :: "addr_t \<Rightarrow> byte_t list \<Rightarrow> unit code" where
  "mem_write_bytes a bs m =
    (case tlb_write a bs (m_mem m) of
       (False, s) \<Rightarrow> fault a (m\<lparr>m_mem := s\<rparr>)
     | (True, s) \<Rightarrow> Ok () (m\<lparr>m_mem := s\<rparr>))"

text \<open>\<open>mem_read\<close> and \<open>mem_write\<close> of a value of \<open>z\<close> bits.\<close>

definition mem_read :: "addr_t \<Rightarrow> nat \<Rightarrow> 'a::len word code" where
  "mem_read a z = bnd (mem_read_bytes a (z div 8)) (\<lambda>bs. ret (word_of_bytes bs))"

definition mem_write :: "addr_t \<Rightarrow> 'a::len word \<Rightarrow> nat \<Rightarrow> unit code" where
  "mem_write a v z = mem_write_bytes a (bytes_of_word (z div 8) v)"

subsection \<open>Instruction bytes\<close>

definition READIMM_value :: "nat \<Rightarrow> qword_t code" where
  "READIMM_value z =
    bnd (from_cpu cpu_eip) (\<lambda>ip.
    bnd (mem_read ip z) (\<lambda>v.
    bnd (on_cpu (\<lambda>c. c\<lparr>cpu_eip := cpu_eip c + of_nat (z div 8)\<rparr>)) (\<lambda>_. ret v)))"

definition READINSN :: "byte_t code" where
  "READINSN = bnd (READIMM_value 8) (\<lambda>v. ret (ucast v))"

definition set_imm :: "qword_t \<Rightarrow> unit code" where
  "set_imm v m = Ok () (m\<lparr>l_imm := v\<rparr>)"

definition READIMM :: "nat \<Rightarrow> unit code" where
  "READIMM z = bnd (READIMM_value z) set_imm"

definition READIMM8 :: "unit code" where
  "READIMM8 = bnd (READIMM_value 8) (\<lambda>v. set_imm (scast (ucast v :: byte_t)))"

definition add_addr :: "addr_t \<Rightarrow> unit code" where
  "add_addr a m = Ok () (m\<lparr>l_addr := l_addr m + a\<rparr>)"

definition READADDR :: "unit code" where
  "READADDR = bnd (READIMM_value 32) (\<lambda>v. add_addr (ucast v))"

definition SEG_GS :: "unit code" where
  "SEG_GS = bnd (from_cpu cpu_tls_ptr) add_addr"

definition base_register :: "modrm \<Rightarrow> reg32" where
  "base_register mr = reg32_of (mr_base mr)"

definition modrm_compute :: "bool code" where
  "modrm_compute m =
    (case modrm_decode32 (cpu_eip (m_cpu m), m_mem m) of
       (r, ip, s) \<Rightarrow>
         (let m = m\<lparr>m_cpu := (m_cpu m)\<lparr>cpu_eip := ip\<rparr>, m_mem := s\<rparr>
          in case r of
               None \<Rightarrow> Ok False m
             | Some mr \<Rightarrow>
                 (let m = m\<lparr>l_modrm := mr\<rparr>;
                      R = (\<lambda>n. REGISTER (reg32_of n) 32 (m_cpu m))
                  in if mr_type mr = modrm_reg then Ok True m
                     else Ok True (m\<lparr>l_addr := l_addr m
                       + (if mr_base mr \<noteq> reg_none_number then R (mr_base mr) else 0) + mr_offset mr
                       + (if mr_type mr = modrm_mem_si then push_bit (mr_shift mr) (R (mr_index mr)) else 0)\<rparr>))))"

definition READMODRM :: "unit code" where
  "READMODRM = bnd modrm_compute (\<lambda>ok m.
    if ok then Ok () m
    else Interrupt INT_GPF (m\<lparr>m_cpu := (m_cpu m)\<lparr>cpu_segfault_addr := cpu_eip (m_cpu m),
           cpu_eip := l_saved_ip m\<rparr>\<rparr>))"

definition READMODRM_MEM :: "unit code" where
  "READMODRM_MEM = bnd READMODRM (\<lambda>_ m.
    if mr_type (l_modrm m) = modrm_reg then UNDEFINED m else Ok () m)"

subsection \<open>Operands\<close>

datatype operand =
    Modrm_reg | Modrm_val | Imm | Mem_addr | Mem_si | Mem_di | Gpr reg32
  | Eip | Eflags | Gs | Const dword_t | Addr

definition is_memory :: "operand \<Rightarrow> machine \<Rightarrow> bool" where
  "is_memory x m \<longleftrightarrow> x = Modrm_val \<and> mr_type (l_modrm m) \<noteq> modrm_reg"

text \<open>\<open>get(what, z)\<close> for 8, 16 and 32 bits: the value, zero extended. \<open>Gpr\<close> is
\<open>reg_a\<close> to \<open>reg_sp\<close>, always the low part of the register.\<close>

definition get_op :: "operand \<Rightarrow> nat \<Rightarrow> dword_t code" where
  "get_op x z m =
    (case x of
       Modrm_reg \<Rightarrow> Ok (REGISTER (reg32_of (mr_reg (l_modrm m))) z (m_cpu m)) m
     | Modrm_val \<Rightarrow>
         (if mr_type (l_modrm m) = modrm_reg
          then Ok (REGISTER (base_register (l_modrm m)) z (m_cpu m)) m
          else mem_read (l_addr m) z m)
     | Imm \<Rightarrow> Ok (take_bit z (ucast (l_imm m))) m
     | Mem_addr \<Rightarrow> mem_read (l_addr m) z m
     | Mem_si \<Rightarrow> mem_read (cpu_regs (m_cpu m) reg_esi) z m
     | Mem_di \<Rightarrow> mem_read (cpu_regs (m_cpu m) reg_edi) z m
     | Gpr r \<Rightarrow> Ok (take_bit z (cpu_regs (m_cpu m) r)) m
     | Eip \<Rightarrow> Ok (cpu_eip (m_cpu m)) m
     | Eflags \<Rightarrow> Ok (cpu_eflags (m_cpu m)) m
     | Gs \<Rightarrow> Ok (ucast (cpu_gs (m_cpu m))) m
     | Const c \<Rightarrow> Ok c m
     | Addr \<Rightarrow> Ok (l_addr m) m)"

text \<open>The macros \<open>set_mem_si\<close> and \<open>set_mem_di\<close> lack a parameter and cannot be
used; immediates, constants and the computed address have no \<open>set\<close>.\<close>

definition set_op :: "operand \<Rightarrow> dword_t \<Rightarrow> nat \<Rightarrow> unit code" where
  "set_op x v z m =
    (case x of
       Modrm_reg \<Rightarrow> on_cpu (set_REGISTER (reg32_of (mr_reg (l_modrm m))) z v) m
     | Modrm_val \<Rightarrow>
         (if mr_type (l_modrm m) = modrm_reg
          then on_cpu (set_REGISTER (base_register (l_modrm m)) z v) m
          else mem_write (l_addr m) v z m)
     | Mem_addr \<Rightarrow> mem_write (l_addr m) v z m
     | Gpr r \<Rightarrow> on_cpu (write_part (r, 0) z v) m
     | Eip \<Rightarrow> on_cpu (\<lambda>c. c\<lparr>cpu_eip := v\<rparr>) m
     | Eflags \<Rightarrow> on_cpu (\<lambda>c. c\<lparr>cpu_eflags := v\<rparr>) m
     | Gs \<Rightarrow> on_cpu (\<lambda>c. c\<lparr>cpu_gs := ucast v\<rparr>) m
     | _ \<Rightarrow> Crash)"

text \<open>The 128-bit versions.\<close>

definition get128 :: "operand \<Rightarrow> uint128_t code" where
  "get128 x m =
    (if x = Modrm_reg then Ok (cpu_xmm (m_cpu m) (reg32_of (mr_reg (l_modrm m)))) m
     else if x = Modrm_val then
       (if mr_type (l_modrm m) = modrm_reg then Ok (cpu_xmm (m_cpu m) (base_register (l_modrm m))) m
        else mem_read (l_addr m) 128 m)
     else Crash)"

definition set_xmm :: "reg32 \<Rightarrow> uint128_t \<Rightarrow> unit code" where
  "set_xmm r v = on_cpu (\<lambda>c. c\<lparr>cpu_xmm := (cpu_xmm c)(r := v)\<rparr>)"

definition set128 :: "operand \<Rightarrow> uint128_t \<Rightarrow> unit code" where
  "set128 x v m =
    (if x = Modrm_reg then set_xmm (reg32_of (mr_reg (l_modrm m))) v m
     else if x = Modrm_val then
       (if mr_type (l_modrm m) = modrm_reg then set_xmm (base_register (l_modrm m)) v m
        else mem_write (l_addr m) v 128 m)
     else Crash)"

end
