(* ===== verification/Creds.thy ===== *)
theory Creds
  imports Machine
begin

text \<open>
  The credentials of a task and the calls that read and change them
  (\<open>src/kernel/getset.c\<close>). \<open>m\<close> is the address space of the current task. A
  user or group id is an unsigned 32-bit number, and \<open>-1\<close> the largest one.
\<close>

subsection \<open>Values in user memory\<close>

text \<open>\<open>user_get\<close> and \<open>user_put\<close> of a 32-bit variable, and of a structure that
consists of such members.\<close>

definition bytes_of_dwords :: "dword_t list \<Rightarrow> byte_t list" where
  "bytes_of_dwords ws = concat (map (bytes_of_word 4) ws)"

fun dwords_of_bytes :: "nat \<Rightarrow> byte_t list \<Rightarrow> dword_t list" where
  "dwords_of_bytes 0 bs = []"
| "dwords_of_bytes (Suc n) bs = word_of_bytes (take 4 bs) # dwords_of_bytes n (drop 4 bs)"

definition user_put_dwords :: "mem_id \<Rightarrow> addr_t \<Rightarrow> dword_t list \<Rightarrow> vm \<Rightarrow> int \<times> vm" where
  "user_put_dwords m a ws v = user_write_task m a (bytes_of_dwords ws) v"

definition user_get_dwords :: "mem_id \<Rightarrow> addr_t \<Rightarrow> nat \<Rightarrow> vm \<Rightarrow> dword_t list option \<times> vm" where
  "user_get_dwords m a n v =
    (case user_read_task m a (4 * n) v of
       (err, bs, v) \<Rightarrow> (if err \<noteq> 0 then None else Some (dwords_of_bytes n bs), v))"

definition user_put32 :: "mem_id \<Rightarrow> addr_t \<Rightarrow> dword_t \<Rightarrow> vm \<Rightarrow> int \<times> vm" where
  "user_put32 m a w v = user_write_task m a (bytes_of_word 4 w) v"

subsection \<open>The credentials\<close>

abbreviation (input) MAX_GROUPS :: dword_t where "MAX_GROUPS \<equiv> 32"

record creds =
  cr_uid :: dword_t
  cr_gid :: dword_t
  cr_euid :: dword_t
  cr_egid :: dword_t
  cr_suid :: dword_t
  cr_sgid :: dword_t
  cr_ngroups :: dword_t
  cr_groups :: "dword_t list"

definition superuser :: "creds \<Rightarrow> bool" where
  "superuser c \<longleftrightarrow> cr_euid c = 0"

subsection \<open>User ids\<close>

definition sys_getuid32 :: "creds \<Rightarrow> dword_t" where
  "sys_getuid32 c = cr_uid c"

definition sys_getuid :: "creds \<Rightarrow> dword_t" where
  "sys_getuid c = cr_uid c AND 0xffff"

definition sys_geteuid32 :: "creds \<Rightarrow> dword_t" where
  "sys_geteuid32 c = cr_euid c"

definition sys_geteuid :: "creds \<Rightarrow> dword_t" where
  "sys_geteuid c = cr_euid c AND 0xffff"

definition sys_setuid :: "dword_t \<Rightarrow> creds \<Rightarrow> int \<times> creds" where
  "sys_setuid uid c =
    (if superuser c then (0, c\<lparr>cr_uid := uid, cr_suid := uid, cr_euid := uid\<rparr>)
     else if uid \<noteq> cr_uid c \<and> uid \<noteq> cr_suid c then (EPERM, c)
     else (0, c\<lparr>cr_euid := uid\<rparr>))"

text \<open>An id that an unprivileged task may not take.\<close>

definition foreign :: "dword_t \<Rightarrow> dword_t \<times> dword_t \<times> dword_t \<Rightarrow> bool" where
  "foreign x ids \<longleftrightarrow> x \<noteq> - 1 \<and> x \<noteq> fst ids \<and> x \<noteq> fst (snd ids) \<and> x \<noteq> snd (snd ids)"

definition uids :: "creds \<Rightarrow> dword_t \<times> dword_t \<times> dword_t" where
  "uids c = (cr_uid c, cr_euid c, cr_suid c)"

definition gids :: "creds \<Rightarrow> dword_t \<times> dword_t \<times> dword_t" where
  "gids c = (cr_gid c, cr_egid c, cr_sgid c)"

definition sys_setresuid :: "dword_t \<Rightarrow> dword_t \<Rightarrow> dword_t \<Rightarrow> creds \<Rightarrow> int \<times> creds" where
  "sys_setresuid ruid euid suid c =
    (if \<not> superuser c \<and> (foreign ruid (uids c) \<or> foreign euid (uids c) \<or> foreign suid (uids c))
     then (EPERM, c)
     else (let c = (if ruid \<noteq> - 1 then c\<lparr>cr_uid := ruid\<rparr> else c);
               c = (if euid \<noteq> - 1 then c\<lparr>cr_euid := euid\<rparr> else c)
           in (0, if suid \<noteq> - 1 then c\<lparr>cr_suid := suid\<rparr> else c)))"

text \<open>\<open>getresuid\<close> and \<open>getresgid\<close> write the saved id to the second address.\<close>

definition put_three ::
  "mem_id \<Rightarrow> (addr_t \<times> dword_t) \<Rightarrow> (addr_t \<times> dword_t) \<Rightarrow> (addr_t \<times> dword_t) \<Rightarrow> vm \<Rightarrow> int \<times> vm"
where
  "put_three m p q r v =
    (case user_put32 m (fst p) (snd p) v of
       (err, v) \<Rightarrow>
         if err \<noteq> 0 then (EFAULT, v)
         else case user_put32 m (fst q) (snd q) v of
                (err, v) \<Rightarrow>
                  if err \<noteq> 0 then (EFAULT, v)
                  else case user_put32 m (fst r) (snd r) v of
                         (err, v) \<Rightarrow> if err \<noteq> 0 then (EFAULT, v) else (0, v))"

definition sys_getresuid :: "mem_id \<Rightarrow> addr_t \<Rightarrow> addr_t \<Rightarrow> addr_t \<Rightarrow> creds \<Rightarrow> vm \<Rightarrow> int \<times> vm" where
  "sys_getresuid m ruid_addr euid_addr suid_addr c =
    put_three m (ruid_addr, cr_uid c) (euid_addr, cr_euid c) (euid_addr, cr_suid c)"

subsection \<open>Group ids\<close>

definition sys_getgid32 :: "creds \<Rightarrow> dword_t" where
  "sys_getgid32 c = cr_gid c"

definition sys_getgid :: "creds \<Rightarrow> dword_t" where
  "sys_getgid c = cr_gid c AND 0xffff"

definition sys_getegid32 :: "creds \<Rightarrow> dword_t" where
  "sys_getegid32 c = cr_egid c"

definition sys_getegid :: "creds \<Rightarrow> dword_t" where
  "sys_getegid c = cr_egid c AND 0xffff"

definition sys_setgid :: "dword_t \<Rightarrow> creds \<Rightarrow> int \<times> creds" where
  "sys_setgid gid c =
    (if superuser c then (0, c\<lparr>cr_gid := gid, cr_sgid := gid, cr_egid := gid\<rparr>)
     else if gid \<noteq> cr_gid c \<and> gid \<noteq> cr_sgid c then (EPERM, c)
     else (0, c\<lparr>cr_egid := gid\<rparr>))"

definition sys_setresgid :: "dword_t \<Rightarrow> dword_t \<Rightarrow> dword_t \<Rightarrow> creds \<Rightarrow> int \<times> creds" where
  "sys_setresgid rgid egid sgid c =
    (if \<not> superuser c \<and> (foreign rgid (gids c) \<or> foreign egid (gids c) \<or> foreign sgid (gids c))
     then (EPERM, c)
     else (let c = (if rgid \<noteq> - 1 then c\<lparr>cr_gid := rgid\<rparr> else c);
               c = (if egid \<noteq> - 1 then c\<lparr>cr_egid := egid\<rparr> else c)
           in (0, if sgid \<noteq> - 1 then c\<lparr>cr_sgid := sgid\<rparr> else c)))"

definition sys_getresgid :: "mem_id \<Rightarrow> addr_t \<Rightarrow> addr_t \<Rightarrow> addr_t \<Rightarrow> creds \<Rightarrow> vm \<Rightarrow> int \<times> vm" where
  "sys_getresgid m rgid_addr egid_addr sgid_addr c =
    put_three m (rgid_addr, cr_gid c) (egid_addr, cr_egid c) (egid_addr, cr_sgid c)"

text \<open>The array has 32 elements; a caller that asks for more gets what follows it
in \<open>struct task\<close>, which is \<open>None\<close> here.\<close>

definition sys_getgroups :: "mem_id \<Rightarrow> dword_t \<Rightarrow> addr_t \<Rightarrow> creds \<Rightarrow> vm \<Rightarrow> (int \<times> vm) option" where
  "sys_getgroups m sz list c v =
    (if sz = 0 then Some (sint (cr_ngroups c), v)
     else if sz < cr_ngroups c then Some (EINVAL, v)
     else if MAX_GROUPS < sz then None
     else case user_put_dwords m list (take (unat sz) (cr_groups c)) v of
            (err, v) \<Rightarrow> Some (if err \<noteq> 0 then EFAULT else 0, v))"

text \<open>A fault leaves the bytes that were read before it in the array.\<close>

definition sys_setgroups :: "mem_id \<Rightarrow> dword_t \<Rightarrow> addr_t \<Rightarrow> creds \<Rightarrow> vm \<Rightarrow> int \<times> creds \<times> vm" where
  "sys_setgroups m sz list c v =
    (if MAX_GROUPS < sz then (EINVAL, c, v)
     else case user_read_task m list (4 * unat sz) v of
            (err, bs, v) \<Rightarrow>
              (let old = bytes_of_dwords (cr_groups c);
                   c = c\<lparr>cr_groups := dwords_of_bytes 32 (bs @ drop (length bs) old)\<rparr>
               in if err \<noteq> 0 then (EFAULT, c, v) else (0, c\<lparr>cr_ngroups := sz\<rparr>, v)))"

subsection \<open>What a task can do to its credentials\<close>

inductive cred_step :: "creds \<Rightarrow> creds \<Rightarrow> bool" where
  setuid: "cred_step c (snd (sys_setuid uid c))"
| setresuid: "cred_step c (snd (sys_setresuid ruid euid suid c))"
| setgid: "cred_step c (snd (sys_setgid gid c))"
| setresgid: "cred_step c (snd (sys_setresgid rgid egid sgid c))"
| setgroups: "cred_step c (fst (snd (sys_setgroups m sz list c v)))"

inductive_cases cred_stepE: "cred_step c d"

definition ids_of :: "dword_t \<times> dword_t \<times> dword_t \<Rightarrow> dword_t set" where
  "ids_of t = {fst t, fst (snd t), snd (snd t)}"

text \<open>The ids that a task without privileges holds, and those it may end up with.\<close>

definition within :: "creds \<Rightarrow> creds \<Rightarrow> bool" where
  "within c d \<longleftrightarrow> ids_of (uids d) \<subseteq> ids_of (uids c) \<and> ids_of (gids d) \<subseteq> ids_of (gids c)"

lemmas cred_defs = within_def ids_of_def uids_def gids_def

lemma within_refl: "within c c"
  by (simp add: within_def)

lemma within_trans: "within c d \<Longrightarrow> within d e \<Longrightarrow> within c e"
  unfolding within_def by blast

lemma setuid_within: "\<not> superuser c \<Longrightarrow> within c (snd (sys_setuid uid c))"
  by (auto simp: sys_setuid_def cred_defs)

lemma setgid_within: "\<not> superuser c \<Longrightarrow> within c (snd (sys_setgid gid c))"
  by (auto simp: sys_setgid_def cred_defs)

lemma setresuid_within: "\<not> superuser c \<Longrightarrow> within c (snd (sys_setresuid r e s c))"
  by (auto simp: sys_setresuid_def foreign_def cred_defs Let_def)

lemma setresgid_within: "\<not> superuser c \<Longrightarrow> within c (snd (sys_setresgid r e s c))"
  by (auto simp: sys_setresgid_def foreign_def cred_defs Let_def)

lemma setgroups_within: "within c (fst (snd (sys_setgroups m sz list c v)))"
  by (auto simp: sys_setgroups_def cred_defs Let_def split: prod.splits)

lemma cred_step_within: "cred_step c d \<Longrightarrow> \<not> superuser c \<Longrightarrow> within c d"
  by (erule cred_stepE)
    (simp_all add: setuid_within setgid_within setresuid_within setresgid_within setgroups_within)

lemma within_not_superuser: "within c d \<Longrightarrow> 0 \<notin> ids_of (uids c) \<Longrightarrow> \<not> superuser d"
  by (auto simp: superuser_def cred_defs)

lemma cred_steps_within:
  assumes "cred_step\<^sup>*\<^sup>* c d" "0 \<notin> ids_of (uids c)"
  shows "within c d"
  using assms(1)
proof (induction rule: rtranclp_induct)
  case base
  show ?case by (rule within_refl)
next
  case (step d e)
  then show ?case
    using cred_step_within within_not_superuser[OF _ assms(2)] within_trans by blast
qed

end
