(* ===== verification/Task.thy ===== *)
theory Task
  imports Creds Mmap Fd_Table
begin

text \<open>
  The state of the kernel: tasks, thread groups, signal handlers and the table
  of process ids (\<open>src/kernel/task.h\<close>, \<open>src/kernel/task.c\<close>), and the working
  directories that tasks share (\<open>src/kernel/fs_info.c\<close>).

  A structure that is allocated and freed lives in a heap under a name that is
  not used again. The intrusive lists are lists of such names, kept where their
  heads are; the heads of the lists of children survive the task they belong to,
  as its memory is still linked. \<open>k_bad\<close> records undefined behaviour (a null or
  freed pointer, an index outside an array), a failed assertion, or a loop that
  does not end. What the kernel asks of the host's threads is recorded in
  \<open>k_events\<close>, newest first.
\<close>

subsection \<open>State\<close>

record sigaction =
  sa_handler :: addr_t
  sa_flags :: dword_t
  sa_restorer :: addr_t
  sa_mask :: qword_t

record sighand =
  sh_refcount :: nat
  sh_action :: "nat \<Rightarrow> sigaction"
  sh_altstack :: addr_t
  sh_altstack_size :: dword_t
  sh_on_altstack :: bool

record fs_info =
  fi_refcount :: nat
  fi_umask :: word_t
  fi_pwd :: nat
  fi_root :: nat

record timeval =
  tv_sec :: dword_t
  tv_usec :: dword_t

text \<open>The members of \<open>struct rusage_\<close> after the times are never assigned.\<close>

record rusage =
  ru_utime :: timeval
  ru_stime :: timeval
  ru_rest :: "dword_t list"

record rlimit =
  rl_cur :: qword_t
  rl_max :: qword_t

record tgroup =
  g_threads :: "nat list"
  g_leader :: nat
  g_rusage :: rusage
  g_sid :: dword_t
  g_pgid :: dword_t
  g_tty :: "nat option"
  g_has_timer :: bool
  g_timer :: "nat option"
  g_limits :: "nat \<Rightarrow> rlimit"
  g_doing_group_exit :: bool
  g_group_exit_code :: dword_t
  g_children_rusage :: rusage

record task =
  t_cpu :: cpu_state
  t_mem :: mem_id
  t_group :: nat
  t_pid :: dword_t
  t_tgid :: dword_t
  t_creds :: creds
  t_did_exec :: bool
  t_comm :: string
  t_files :: nat
  t_fs :: nat
  t_sighand :: nat
  t_blocked :: qword_t
  t_queued :: qword_t
  t_pending :: qword_t
  t_parent :: "nat option"
  t_clear_tid :: addr_t
  t_exit_code :: dword_t
  t_zombie :: bool
  t_vfork_done :: bool
  t_exit_signal :: nat

record pid =
  p_task :: "nat option"
  p_session :: "nat list"
  p_pgroup :: "nat list"

datatype event =
    Wake nat
  | Start nat
  | Kill_thread nat
  | Timer_off nat
  | Child_exit nat
  | Futex_notify mem_id addr_t bool
  | Unmount_all
  | Exit_hook int
  | Printed

text \<open>The globals: \<open>k_pids\<close> is an array of \<open>MAX_PID + 1\<close> elements (the element
after it stands for the memory behind it), \<open>k_sigreturn\<close> the result of
\<open>vdso_symbol\<close> for the signal trampoline, \<open>k_ttys\<close> the reference counts of
terminals, \<open>k_usage\<close> the successive answers of the host about the processor
time of a thread.\<close>

record kern =
  k_vm :: vm
  k_fds :: fds
  k_ops :: file_ops
  k_fsinfos :: "nat \<Rightarrow> fs_info option"
  k_sighands :: "nat \<Rightarrow> sighand option"
  k_groups :: "nat \<Rightarrow> tgroup option"
  k_tasks :: "nat \<Rightarrow> task option"
  k_children :: "nat \<Rightarrow> nat list"
  k_pids :: "nat \<Rightarrow> pid"
  k_cur_pid :: nat
  k_current :: nat
  k_next :: nat
  k_ttys :: "nat \<Rightarrow> nat"
  k_sigreturn :: addr_t
  k_xsave_extra :: dword_t
  k_fxsave_extra :: dword_t
  k_usage :: "nat \<Rightarrow> rusage"
  k_usages :: nat
  k_events :: "event list"
  k_bad :: bool

abbreviation (input) MAX_PID :: nat where "MAX_PID \<equiv> 1024"
abbreviation (input) RLIMIT_NOFILE :: nat where "RLIMIT_NOFILE \<equiv> 7"
abbreviation (input) RLIMIT_NLIMITS :: nat where "RLIMIT_NLIMITS \<equiv> 16"

definition kbad :: "kern \<Rightarrow> kern" where
  "kbad k = k\<lparr>k_bad := True\<rparr>"

definition kevent :: "event \<Rightarrow> kern \<Rightarrow> kern" where
  "kevent e k = k\<lparr>k_events := e # k_events k\<rparr>"

definition upd_task :: "nat \<Rightarrow> (task \<Rightarrow> task) \<Rightarrow> kern \<Rightarrow> kern" where
  "upd_task t f k =
    (case k_tasks k t of None \<Rightarrow> kbad k | Some x \<Rightarrow> k\<lparr>k_tasks := (k_tasks k)(t \<mapsto> f x)\<rparr>)"

definition upd_group :: "nat \<Rightarrow> (tgroup \<Rightarrow> tgroup) \<Rightarrow> kern \<Rightarrow> kern" where
  "upd_group g f k =
    (case k_groups k g of None \<Rightarrow> kbad k | Some x \<Rightarrow> k\<lparr>k_groups := (k_groups k)(g \<mapsto> f x)\<rparr>)"

definition upd_sighand :: "nat \<Rightarrow> (sighand \<Rightarrow> sighand) \<Rightarrow> kern \<Rightarrow> kern" where
  "upd_sighand h f k =
    (case k_sighands k h of None \<Rightarrow> kbad k | Some x \<Rightarrow> k\<lparr>k_sighands := (k_sighands k)(h \<mapsto> f x)\<rparr>)"

definition upd_pid :: "nat \<Rightarrow> (pid \<Rightarrow> pid) \<Rightarrow> kern \<Rightarrow> kern" where
  "upd_pid i f k = k\<lparr>k_pids := (k_pids k)(i := f (k_pids k i))\<rparr>"

definition kmalloc :: "kern \<Rightarrow> bool \<times> kern" where
  "kmalloc k = (case host_malloc (k_fds k) of (ok, s) \<Rightarrow> (ok, k\<lparr>k_fds := s\<rparr>))"

text \<open>Members of the current task; a current task without a structure has none.\<close>

definition zero_cpu :: cpu_state where
  "zero_cpu = \<lparr>cpu_regs = (\<lambda>_. 0), cpu_xmm = (\<lambda>_. 0), cpu_eip = 0, cpu_eflags = 0, cpu_cf = 0, cpu_of = 0,
     cpu_res = 0, cpu_op1 = 0, cpu_op2 = 0, cpu_pf_res = False, cpu_zf_res = False, cpu_sf_res = False,
     cpu_af_ops = False, cpu_fp = (\<lambda>_. \<lparr>signif = 0, fexp = 0, fsign = False\<rparr>), cpu_fsw = 0, cpu_fcw = 0,
     cpu_gs = 0, cpu_tls_ptr = 0, cpu_segfault_addr = 0, cpu_trapno = 0, f80_mode = round_to_nearest\<rparr>"

definition zero_creds :: creds where
  "zero_creds = \<lparr>cr_uid = 0, cr_gid = 0, cr_euid = 0, cr_egid = 0, cr_suid = 0, cr_sgid = 0,
     cr_ngroups = 0, cr_groups = replicate 32 0\<rparr>"

definition zero_task :: task where
  "zero_task = \<lparr>t_cpu = zero_cpu, t_mem = 0, t_group = 0, t_pid = 0, t_tgid = 0, t_creds = zero_creds,
     t_did_exec = False, t_comm = [], t_files = 0, t_fs = 0, t_sighand = 0, t_blocked = 0, t_queued = 0, t_pending = 0,
     t_parent = None, t_clear_tid = 0, t_exit_code = 0, t_zombie = False, t_vfork_done = False,
     t_exit_signal = 0\<rparr>"

definition zero_rusage :: rusage where
  "zero_rusage = \<lparr>ru_utime = \<lparr>tv_sec = 0, tv_usec = 0\<rparr>, ru_stime = \<lparr>tv_sec = 0, tv_usec = 0\<rparr>,
     ru_rest = replicate 14 0\<rparr>"

definition get_task :: "nat \<Rightarrow> kern \<Rightarrow> task" where
  "get_task t k = (case k_tasks k t of None \<Rightarrow> zero_task | Some x \<Rightarrow> x)"

definition cur_task :: "kern \<Rightarrow> task" where
  "cur_task k = get_task (k_current k) k"

definition cur_group :: "kern \<Rightarrow> tgroup option" where
  "cur_group k = k_groups k (t_group (cur_task k))"

text \<open>An operation on the memory, and one on the files as the current task sees
them.\<close>

definition on_vm :: "(vm \<Rightarrow> 'a \<times> vm) \<Rightarrow> kern \<Rightarrow> 'a \<times> kern" where
  "on_vm f k = (case f (k_vm k) of (r, v) \<Rightarrow> (r, k\<lparr>k_vm := v\<rparr>))"

definition task_fds :: "kern \<Rightarrow> fds" where
  "task_fds k = (k_fds k)\<lparr>fd_current := t_files (cur_task k),
     fd_nofile := (case cur_group k of None \<Rightarrow> 0 | Some g \<Rightarrow> rl_cur (g_limits g RLIMIT_NOFILE))\<rparr>"

definition on_fds :: "(fds \<Rightarrow> 'a \<times> fds) \<Rightarrow> kern \<Rightarrow> 'a \<times> kern" where
  "on_fds f k = (case f (task_fds k) of (r, s) \<Rightarrow> (r, k\<lparr>k_fds := s\<rparr>))"

definition do_fds :: "(fds \<Rightarrow> fds) \<Rightarrow> kern \<Rightarrow> kern" where
  "do_fds f k = k\<lparr>k_fds := f (task_fds k)\<rparr>"

subsection \<open>Process ids\<close>

definition pid_empty :: "pid \<Rightarrow> bool" where
  "pid_empty p \<longleftrightarrow> p_task p = None \<and> p_session p = [] \<and> p_pgroup p = []"

definition pid_get :: "dword_t \<Rightarrow> kern \<Rightarrow> nat option" where
  "pid_get nr k =
    (if nr > 1025 then None
     else if pid_empty (k_pids k (unat nr)) then None else Some (unat nr))"

definition pid_get_task_zombie :: "dword_t \<Rightarrow> kern \<Rightarrow> nat option" where
  "pid_get_task_zombie nr k = (case pid_get nr k of None \<Rightarrow> None | Some i \<Rightarrow> p_task (k_pids k i))"

definition pid_get_task :: "dword_t \<Rightarrow> kern \<Rightarrow> nat option" where
  "pid_get_task nr k =
    (case pid_get_task_zombie nr k of
       None \<Rightarrow> None | Some t \<Rightarrow> if t_zombie (get_task t k) then None else Some t)"

text \<open>The loop that looks for a free id. After 1025 steps it has seen all of
them, and without a free one it goes on forever: \<open>None\<close>.\<close>

fun find_pid :: "nat \<Rightarrow> nat \<Rightarrow> kern \<Rightarrow> nat option" where
  "find_pid 0 cur_pid k = None"
| "find_pid (Suc n) cur_pid k =
    (let next = (if cur_pid + 1 > MAX_PID then 0 else cur_pid + 1)
     in if pid_empty (k_pids k next) then Some next else find_pid n next k)"

definition task_create :: "nat option \<Rightarrow> kern \<Rightarrow> nat option \<times> kern" where
  "task_create parent k =
    (case find_pid 1025 (k_cur_pid k) k of
       None \<Rightarrow> (None, kbad k)
     | Some i \<Rightarrow>
         (let k = upd_pid i (\<lambda>p. p\<lparr>p_session := [], p_pgroup := []\<rparr>) (k\<lparr>k_cur_pid := i\<rparr>)
          in case kmalloc k of
               (False, k) \<Rightarrow> (None, k)
             | (True, k) \<Rightarrow>
                 (let t = k_next k;
                      x = (case parent of None \<Rightarrow> zero_task | Some p \<Rightarrow> get_task p k)
                        \<lparr>t_pid := of_nat i, t_did_exec := False\<rparr>;
                      x = (case parent of None \<Rightarrow> x | Some p \<Rightarrow> x\<lparr>t_parent := Some p\<rparr>);
                      k = k\<lparr>k_next := Suc t, k_tasks := (k_tasks k)(t \<mapsto> x),
                            k_children := (k_children k)(t := [])\<rparr>;
                      k = upd_pid i (\<lambda>p. p\<lparr>p_task := Some t\<rparr>) k
                  in (Some t, case parent of
                        None \<Rightarrow> k
                      | Some p \<Rightarrow> k\<lparr>k_children := (k_children k)(p := t # k_children k p)\<rparr>))))"

text \<open>\<open>list_remove(&task->siblings)\<close> touches the neighbours: the head of the list,
which is inside the parent, when the task is the first or the last child. A task
that was created without a parent is linked to itself. \<open>owner\<close> is the task whose
list it is in.\<close>

definition unlink_child :: "nat \<Rightarrow> nat \<Rightarrow> kern \<Rightarrow> kern" where
  "unlink_child owner t k =
    (let cs = k_children k owner;
         k' = k\<lparr>k_children := (k_children k)(owner := remove1 t cs)\<rparr>
     in if (hd cs = t \<or> last cs = t) \<and> k_tasks k owner = None then kbad k' else k')"

definition child_owner :: "nat \<Rightarrow> kern \<Rightarrow> nat option" where
  "child_owner t k = find (\<lambda>p. t \<in> set (k_children k p)) [0..<k_next k]"

definition task_destroy :: "nat \<Rightarrow> kern \<Rightarrow> kern" where
  "task_destroy t k =
    (case k_tasks k t of
       None \<Rightarrow> kbad k
     | Some x \<Rightarrow>
         (let k = (case child_owner t k of None \<Rightarrow> k | Some p \<Rightarrow> unlink_child p t k)
          in case pid_get (t_pid x) k of
               None \<Rightarrow> kbad k
             | Some i \<Rightarrow>
                 (upd_pid i (\<lambda>p. p\<lparr>p_task := None\<rparr>) k)\<lparr>k_tasks := (k_tasks k)(t := None)\<rparr>))"

definition task_start :: "nat \<Rightarrow> kern \<Rightarrow> kern" where
  "task_start t = kevent (Start t)"

subsection \<open>The lists of sessions and process groups\<close>

text \<open>\<open>list_remove\<close> of a group from whichever list it is in; a node that is in no
list has null pointers. \<open>insert_after\<close> is \<open>list_add\<close> behind another node.\<close>

definition in_pgroup :: "nat \<Rightarrow> kern \<Rightarrow> bool" where
  "in_pgroup g k \<longleftrightarrow> (\<exists>i \<in> {0..MAX_PID}. g \<in> set (p_pgroup (k_pids k i)))"

definition in_session :: "nat \<Rightarrow> kern \<Rightarrow> bool" where
  "in_session g k \<longleftrightarrow> (\<exists>i \<in> {0..MAX_PID}. g \<in> set (p_session (k_pids k i)))"

definition all_pids :: "(pid \<Rightarrow> pid) \<Rightarrow> kern \<Rightarrow> kern" where
  "all_pids f k = k\<lparr>k_pids := (\<lambda>i. if i \<le> MAX_PID then f (k_pids k i) else k_pids k i)\<rparr>"

definition remove_pgroup :: "nat \<Rightarrow> kern \<Rightarrow> kern" where
  "remove_pgroup g k =
    (if in_pgroup g k then all_pids (\<lambda>p. p\<lparr>p_pgroup := remove1 g (p_pgroup p)\<rparr>) k else kbad k)"

definition remove_session :: "nat \<Rightarrow> kern \<Rightarrow> kern" where
  "remove_session g k =
    (if in_session g k then all_pids (\<lambda>p. p\<lparr>p_session := remove1 g (p_session p)\<rparr>) k else kbad k)"

fun insert_after :: "'a \<Rightarrow> 'a \<Rightarrow> 'a list \<Rightarrow> 'a list" where
  "insert_after x y [] = []"
| "insert_after x y (z # zs) = (if z = x then z # y # zs else z # insert_after x y zs)"

definition join_groups :: "nat \<Rightarrow> nat \<Rightarrow> kern \<Rightarrow> kern" where
  "join_groups old g k =
    (let k' = all_pids (\<lambda>p. p\<lparr>p_pgroup := insert_after old g (p_pgroup p),
                              p_session := insert_after old g (p_session p)\<rparr>) k
     in if in_pgroup old k \<and> in_session old k then k' else kbad k')"

subsection \<open>fs_info.c\<close>

definition fs_info_copy :: "nat \<Rightarrow> kern \<Rightarrow> nat option \<times> kern" where
  "fs_info_copy f k =
    (case kmalloc k of
       (False, k) \<Rightarrow> (None, kbad k)
     | (True, k) \<Rightarrow>
         (case k_fsinfos k f of
            None \<Rightarrow> (None, kbad k)
          | Some fs \<Rightarrow>
              (let n = k_next k;
                   k = k\<lparr>k_next := Suc n, k_fsinfos := (k_fsinfos k)(n \<mapsto> fs\<lparr>fi_refcount := 1\<rparr>)\<rparr>;
                   k = do_fds (fd_retain (fi_pwd fs)) k
               in (Some n, do_fds (fd_retain (fi_root fs)) k))))"

definition fs_info_release :: "nat \<Rightarrow> kern \<Rightarrow> kern" where
  "fs_info_release f k =
    (case k_fsinfos k f of
       None \<Rightarrow> kbad k
     | Some fs \<Rightarrow>
         if fi_refcount fs = 1 then
           (let k = snd (on_fds (fd_close (k_ops k) (fi_pwd fs)) k);
                k = snd (on_fds (fd_close (k_ops k) (fi_root fs)) k)
            in k\<lparr>k_fsinfos := (k_fsinfos k)(f := None)\<rparr>)
         else k\<lparr>k_fsinfos := (k_fsinfos k)(f \<mapsto> fs\<lparr>fi_refcount := fi_refcount fs - 1\<rparr>)\<rparr>)"

end
