(* ===== verification/Signal.thy ===== *)
theory Signal
  imports Task
begin

text \<open>
  Signals (\<open>src/kernel/user-signal.c\<close>): what is done with a signal that is sent,
  the calls that block signals, set handlers and the alternate stack, and
  \<open>kill\<close>. The delivery to a handler is in the theory Deliver. A signal number
  that comes from the guest as a C \<open>int\<close> is an integer.
\<close>

abbreviation (input) NUM_SIGS :: nat where "NUM_SIGS \<equiv> 64"
abbreviation (input) SIG_DFL :: addr_t where "SIG_DFL \<equiv> 0"
abbreviation (input) SIG_IGN :: addr_t where "SIG_IGN \<equiv> 1"
abbreviation (input) SIGINT :: nat where "SIGINT \<equiv> 2"
abbreviation (input) SIGILL :: nat where "SIGILL \<equiv> 4"
abbreviation (input) SIGKILL :: nat where "SIGKILL \<equiv> 9"
abbreviation (input) SIGSEGV :: nat where "SIGSEGV \<equiv> 11"
abbreviation (input) SIGALRM :: nat where "SIGALRM \<equiv> 14"
abbreviation (input) SIGCHLD :: nat where "SIGCHLD \<equiv> 17"
abbreviation (input) SIGCONT :: nat where "SIGCONT \<equiv> 18"
abbreviation (input) SIGSTOP :: nat where "SIGSTOP \<equiv> 19"
abbreviation (input) SIGURG :: nat where "SIGURG \<equiv> 23"
abbreviation (input) SIGWINCH :: nat where "SIGWINCH \<equiv> 28"
abbreviation (input) SIGIO :: nat where "SIGIO \<equiv> 29"
abbreviation (input) SIGSYS :: nat where "SIGSYS \<equiv> 31"

subsection \<open>Sending\<close>

definition signal_is_blockable :: "nat \<Rightarrow> bool" where
  "signal_is_blockable sig \<longleftrightarrow> sig \<noteq> SIGKILL \<and> sig \<noteq> SIGSTOP"

datatype signal_effect = SIGNAL_IGNORE | SIGNAL_KILL | SIGNAL_CALL_HANDLER

definition default_action :: "nat \<Rightarrow> signal_effect" where
  "default_action sig =
    (if sig \<in> {SIGURG, SIGCONT, SIGCHLD, SIGIO, SIGWINCH} then SIGNAL_IGNORE else SIGNAL_KILL)"

definition signal_action :: "sighand \<Rightarrow> nat \<Rightarrow> signal_effect" where
  "signal_action sh sig =
    (if signal_is_blockable sig then
       (let h = sa_handler (sh_action sh sig)
        in if h = SIG_IGN then SIGNAL_IGNORE
           else if h \<noteq> SIG_DFL then SIGNAL_CALL_HANDLER else default_action sig)
     else default_action sig)"

definition sigbit :: "nat \<Rightarrow> qword_t" where
  "sigbit sig = push_bit sig 1"

definition deliver_signal :: "nat \<Rightarrow> nat \<Rightarrow> kern \<Rightarrow> kern" where
  "deliver_signal t sig k =
    (let k' = upd_task t (\<lambda>x. x\<lparr>t_pending := t_pending x OR sigbit sig\<rparr>) k
     in if t \<noteq> k_current k then kevent (Wake t) k' else k')"

text \<open>The number may come from the low byte of the flags of \<open>clone\<close>, and is not
checked against the size of the array of handlers.\<close>

definition send_signal :: "nat \<Rightarrow> nat \<Rightarrow> kern \<Rightarrow> kern" where
  "send_signal t sig k =
    (if sig = 0 then k
     else case k_tasks k t of
            None \<Rightarrow> kbad k
          | Some x \<Rightarrow>
              if t_zombie x then k
              else case k_sighands k (t_sighand x) of
                     None \<Rightarrow> kbad k
                   | Some sh \<Rightarrow>
                       if sig \<ge> NUM_SIGS then kbad k
                       else if signal_action sh sig \<noteq> SIGNAL_IGNORE then
                         if t_blocked x AND sigbit sig \<noteq> 0 \<and> signal_is_blockable sig
                         then upd_task t (\<lambda>x. x\<lparr>t_queued := t_queued x OR sigbit sig\<rparr>) k
                         else deliver_signal t sig k
                       else k)"

definition group_leader :: "kern \<Rightarrow> nat \<Rightarrow> nat option" where
  "group_leader k g = map_option g_leader (k_groups k g)"

definition signal_leader :: "nat \<Rightarrow> nat \<Rightarrow> kern \<Rightarrow> kern" where
  "signal_leader sig g k =
    (case group_leader k g of None \<Rightarrow> kbad k | Some t \<Rightarrow> send_signal t sig k)"

definition send_group_signal :: "dword_t \<Rightarrow> nat \<Rightarrow> kern \<Rightarrow> int \<times> kern" where
  "send_group_signal pgid sig k =
    (case pid_get pgid k of
       None \<Rightarrow> (ESRCH, k)
     | Some i \<Rightarrow> (0, fold (signal_leader sig) (p_pgroup (k_pids k i)) k))"

definition sys_kill :: "dword_t \<Rightarrow> dword_t \<Rightarrow> kern \<Rightarrow> int \<times> kern" where
  "sys_kill pid sig k =
    (if sig \<ge> 64 then (EINVAL, k)
     else case cur_group k of
            None \<Rightarrow> (0, kbad k)
          | Some g \<Rightarrow>
              (let pid = (if pid = 0 then - g_pgid g else pid)
               in if sint pid < 0 then send_group_signal (- pid) (unat sig) k
                  else case pid_get_task pid k of
                         None \<Rightarrow> (ESRCH, k)
                       | Some t \<Rightarrow> (0, send_signal t (unat sig) k)))"

definition sys_tkill :: "dword_t \<Rightarrow> dword_t \<Rightarrow> kern \<Rightarrow> int \<times> kern" where
  "sys_tkill tid sig = sys_kill tid sig"

subsection \<open>Sets of handlers\<close>

definition sighand_new :: "kern \<Rightarrow> nat option \<times> kern" where
  "sighand_new k =
    (case kmalloc k of
       (False, k) \<Rightarrow> (None, k)
     | (True, k) \<Rightarrow>
         (let h = k_next k
          in (Some h, k\<lparr>k_next := Suc h, k_sighands := (k_sighands k)(h \<mapsto>
               \<lparr>sh_refcount = 1,
                sh_action = (\<lambda>_. \<lparr>sa_handler = 0, sa_flags = 0, sa_restorer = 0, sa_mask = 0\<rparr>),
                sh_altstack = 0, sh_altstack_size = 0, sh_on_altstack = False\<rparr>)\<rparr>)))"

definition sighand_copy :: "nat \<Rightarrow> kern \<Rightarrow> nat option \<times> kern" where
  "sighand_copy h k =
    (case sighand_new k of
       (None, k) \<Rightarrow> (None, k)
     | (Some n, k) \<Rightarrow>
         (case k_sighands k h of
            None \<Rightarrow> (Some n, kbad k)
          | Some sh \<Rightarrow> (Some n, upd_sighand n (\<lambda>x. x\<lparr>sh_action := sh_action sh\<rparr>) k)))"

definition sighand_release :: "nat \<Rightarrow> kern \<Rightarrow> kern" where
  "sighand_release h k =
    (case k_sighands k h of
       None \<Rightarrow> kbad k
     | Some sh \<Rightarrow>
         if sh_refcount sh = 1 then k\<lparr>k_sighands := (k_sighands k)(h := None)\<rparr>
         else upd_sighand h (\<lambda>x. x\<lparr>sh_refcount := sh_refcount x - 1\<rparr>) k)"

definition do_sigaction :: "int \<Rightarrow> sigaction option \<Rightarrow> kern \<Rightarrow> (int + sigaction) \<times> kern" where
  "do_sigaction sig action k =
    (if sig \<ge> 64 then (Inl EINVAL, k)
     else if sig < 0 then (Inl 0, kbad k)
     else if \<not> signal_is_blockable (nat sig) then (Inl EINVAL, k)
     else case k_sighands k (t_sighand (cur_task k)) of
            None \<Rightarrow> (Inl 0, kbad k)
          | Some sh \<Rightarrow>
              (Inr (sh_action sh (nat sig)),
               case action of
                 None \<Rightarrow> k
               | Some a \<Rightarrow> upd_sighand (t_sighand (cur_task k))
                   (\<lambda>x. x\<lparr>sh_action := (sh_action x)(nat sig := a)\<rparr>) k))"

text \<open>\<open>struct sigaction_\<close> and a mask in user memory.\<close>

definition qword_of :: "dword_t \<Rightarrow> dword_t \<Rightarrow> qword_t" where
  "qword_of low high = ucast low OR push_bit 32 (ucast high)"

definition dwords_of :: "qword_t \<Rightarrow> dword_t list" where
  "dwords_of q = [ucast q, ucast (drop_bit 32 q)]"

fun sigaction_of :: "dword_t list \<Rightarrow> sigaction" where
  "sigaction_of (h # f # r # a # b # _) =
    \<lparr>sa_handler = h, sa_flags = f, sa_restorer = r, sa_mask = qword_of a b\<rparr>"
| "sigaction_of _ = \<lparr>sa_handler = 0, sa_flags = 0, sa_restorer = 0, sa_mask = 0\<rparr>"

definition dwords_of_sigaction :: "sigaction \<Rightarrow> dword_t list" where
  "dwords_of_sigaction a = [sa_handler a, sa_flags a, sa_restorer a] @ dwords_of (sa_mask a)"

definition kget :: "addr_t \<Rightarrow> nat \<Rightarrow> kern \<Rightarrow> dword_t list option \<times> kern" where
  "kget a n k = on_vm (user_get_dwords (t_mem (cur_task k)) a n) k"

definition kput :: "addr_t \<Rightarrow> dword_t list \<Rightarrow> kern \<Rightarrow> int \<times> kern" where
  "kput a ws k = on_vm (user_put_dwords (t_mem (cur_task k)) a ws) k"

definition sys_rt_sigaction :: "dword_t \<Rightarrow> addr_t \<Rightarrow> addr_t \<Rightarrow> dword_t \<Rightarrow> kern \<Rightarrow> int \<times> kern" where
  "sys_rt_sigaction signum action_addr oldaction_addr sigset_size k =
    (if sigset_size \<noteq> 8 then (EINVAL, k)
     else case (if action_addr \<noteq> 0 then kget action_addr 5 k else (Some [], k)) of
            (None, k) \<Rightarrow> (EFAULT, k)
          | (Some ws, k) \<Rightarrow>
              (case do_sigaction (sint signum) (if action_addr \<noteq> 0 then Some (sigaction_of ws) else None) k of
                 (Inl err, k) \<Rightarrow> (err, k)
               | (Inr old, k) \<Rightarrow>
                   if oldaction_addr \<noteq> 0 then
                     (case kput oldaction_addr (dwords_of_sigaction old) k of
                        (err, k) \<Rightarrow> (if err \<noteq> 0 then EFAULT else 0, k))
                   else (0, k)))"

definition sys_sigaction :: "dword_t \<Rightarrow> addr_t \<Rightarrow> addr_t \<Rightarrow> kern \<Rightarrow> int \<times> kern" where
  "sys_sigaction signum action_addr oldaction_addr = sys_rt_sigaction signum action_addr oldaction_addr 1"

subsection \<open>Masks\<close>

definition new_mask :: "dword_t \<Rightarrow> qword_t \<Rightarrow> qword_t \<Rightarrow> qword_t option" where
  "new_mask how sigs old =
    (if how = 0 then Some (old OR sigs)
     else if how = 1 then Some (old AND NOT sigs)
     else if how = 2 then Some sigs else None)"

text \<open>Signals that become unblocked move from queued to pending, and back.\<close>

definition change_mask :: "qword_t \<Rightarrow> task \<Rightarrow> task" where
  "change_mask new x =
    (let unblocked = t_blocked x AND NOT new;
         pending = t_pending x OR (t_queued x AND unblocked);
         queued = t_queued x AND NOT unblocked;
         blocked = new AND NOT (t_blocked x)
     in x\<lparr>t_blocked := new, t_queued := queued OR (pending AND blocked),
          t_pending := pending AND NOT blocked\<rparr>)"

definition do_sigprocmask :: "dword_t \<Rightarrow> qword_t \<Rightarrow> kern \<Rightarrow> (int + qword_t) \<times> kern" where
  "do_sigprocmask how sigs k =
    (let old = t_blocked (cur_task k)
     in case new_mask how sigs old of
          None \<Rightarrow> (Inl EINVAL, k)
        | Some new \<Rightarrow> (Inr old, upd_task (k_current k) (change_mask new) k))"

definition sys_rt_sigprocmask :: "dword_t \<Rightarrow> addr_t \<Rightarrow> addr_t \<Rightarrow> dword_t \<Rightarrow> kern \<Rightarrow> int \<times> kern" where
  "sys_rt_sigprocmask how set_addr oldset_addr sz k =
    (if sz \<noteq> 8 then (EINVAL, k)
     else case kget set_addr 2 k of
            (None, k) \<Rightarrow> (EFAULT, k)
          | (Some ws, k) \<Rightarrow>
              (case do_sigprocmask how (qword_of (ws ! 0) (ws ! 1)) k of
                 (Inl err, k) \<Rightarrow> (err, k)
               | (Inr old, k) \<Rightarrow>
                   if oldset_addr \<noteq> 0 then
                     (case kput oldset_addr (dwords_of old) k of
                        (err, k) \<Rightarrow> (if err \<noteq> 0 then EFAULT else 0, k))
                   else (0, k)))"

subsection \<open>The alternate stack\<close>

abbreviation (input) SS_ONSTACK :: dword_t where "SS_ONSTACK \<equiv> 1"
abbreviation (input) SS_DISABLE :: dword_t where "SS_DISABLE \<equiv> 2"

definition old_stack :: "sighand \<Rightarrow> dword_t list" where
  "old_stack sh =
    [sh_altstack sh,
     (if sh_altstack sh = 0 then SS_DISABLE else 0) OR (if sh_on_altstack sh then SS_ONSTACK else 0),
     sh_altstack_size sh]"

fun set_stack :: "dword_t list \<Rightarrow> sighand \<Rightarrow> sighand" where
  "set_stack (stack # flags # sz # _) sh =
    (if flags AND SS_DISABLE \<noteq> 0 then sh\<lparr>sh_altstack := 0\<rparr>
     else sh\<lparr>sh_altstack := stack, sh_altstack_size := sz\<rparr>)"
| "set_stack _ sh = sh"

definition sys_sigaltstack :: "addr_t \<Rightarrow> addr_t \<Rightarrow> kern \<Rightarrow> int \<times> kern" where
  "sys_sigaltstack ss_addr old_ss_addr k =
    (case k_sighands k (t_sighand (cur_task k)) of
       None \<Rightarrow> (0, kbad k)
     | Some sh \<Rightarrow>
         (case (if old_ss_addr \<noteq> 0 then kput old_ss_addr (old_stack sh) k else (0, k)) of
            (err, k) \<Rightarrow>
              if err \<noteq> 0 then (EFAULT, k)
              else if ss_addr = 0 then (0, k)
              else if sh_on_altstack sh then (EPERM, k)
              else case kget ss_addr 3 k of
                     (None, k) \<Rightarrow> (EFAULT, k)
                   | (Some ws, k) \<Rightarrow> (0, upd_sighand (t_sighand (cur_task k)) (set_stack ws) k)))"

end
