(* ===== verification/Group.thy ===== *)
theory Group
  imports Signal
begin

text \<open>
  Process groups and sessions (\<open>src/kernel/group.c\<close>), resource limits and usage
  (\<open>src/kernel/resource.c\<close>), thread local storage (\<open>src/kernel/tls.c\<close>), and the
  calls of \<open>src/kernel/getset.c\<close> that return the ids of tasks.
\<close>

subsection \<open>Ids\<close>

definition sys_getpid :: "kern \<Rightarrow> dword_t" where
  "sys_getpid k = t_tgid (cur_task k)"

definition sys_gettid :: "kern \<Rightarrow> dword_t" where
  "sys_gettid k = t_pid (cur_task k)"

definition sys_getppid :: "kern \<Rightarrow> dword_t" where
  "sys_getppid k = (case t_parent (cur_task k) of None \<Rightarrow> 0 | Some p \<Rightarrow> t_pid (get_task p k))"

definition sys_set_tid_address :: "addr_t \<Rightarrow> kern \<Rightarrow> dword_t \<times> kern" where
  "sys_set_tid_address tid k =
    (sys_getpid k, upd_task (k_current k) (\<lambda>x. x\<lparr>t_clear_tid := tid\<rparr>) k)"

subsection \<open>Process groups and sessions\<close>

text \<open>The checks of \<open>setpgid\<close> in their order. The group joins the list of the
process id of the task, whatever \<open>pgid\<close> is.\<close>

definition same_session :: "tgroup \<Rightarrow> dword_t \<Rightarrow> kern \<Rightarrow> bool" where
  "same_session tg pgid k =
    (case pid_get pgid k of
       None \<Rightarrow> False
     | Some i \<Rightarrow>
         (case p_pgroup (k_pids k i) of
            [] \<Rightarrow> False
          | g # _ \<Rightarrow> (case k_groups k g of None \<Rightarrow> False | Some other \<Rightarrow> g_sid tg = g_sid other)))"

definition move_to_group :: "nat \<Rightarrow> nat \<Rightarrow> dword_t \<Rightarrow> kern \<Rightarrow> kern" where
  "move_to_group i g pgid k =
    (let k = remove_pgroup g k;
         k = upd_group g (\<lambda>x. x\<lparr>g_pgid := pgid\<rparr>) k
     in upd_pid i (\<lambda>p. p\<lparr>p_pgroup := g # p_pgroup p\<rparr>) k)"

definition setpgid_task :: "nat \<Rightarrow> nat \<Rightarrow> dword_t \<Rightarrow> dword_t \<Rightarrow> kern \<Rightarrow> int \<times> kern" where
  "setpgid_task i t nr pgid k =
    (let x = get_task t k
     in case k_groups k (t_group x) of
          None \<Rightarrow> (0, kbad k)
        | Some tg \<Rightarrow>
            if nr \<noteq> pgid \<and> \<not> same_session tg pgid k then (EPERM, k)
            else if t \<noteq> k_current k \<and> t_parent x \<noteq> Some (k_current k) then (ESRCH, k)
            else if g_sid tg = t_pid (get_task (g_leader tg) k) then (EPERM, k)
            else (0, if g_pgid tg \<noteq> pgid then move_to_group i (t_group x) pgid k else k))"

definition sys_setpgid :: "dword_t \<Rightarrow> dword_t \<Rightarrow> kern \<Rightarrow> int \<times> kern" where
  "sys_setpgid nr0 pgid0 k =
    (let nr = (if nr0 = 0 then t_pid (cur_task k) else nr0);
         pgid = (if pgid0 = 0 then nr else pgid0)
     in case pid_get nr k of
          None \<Rightarrow> (0, kbad k)
        | Some i \<Rightarrow>
            (case p_task (k_pids k i) of
               None \<Rightarrow> (ESRCH, k)
             | Some t \<Rightarrow> setpgid_task i t nr pgid k))"

definition sys_setpgrp :: "kern \<Rightarrow> int \<times> kern" where
  "sys_setpgrp = sys_setpgid 0 0"

definition sys_getpgid :: "dword_t \<Rightarrow> kern \<Rightarrow> int \<times> kern" where
  "sys_getpgid nr k =
    (if nr \<noteq> 0 then (EPERM, k)
     else case cur_group k of None \<Rightarrow> (0, kbad k) | Some g \<Rightarrow> (sint (g_pgid g), k))"

definition sys_getpgrp :: "kern \<Rightarrow> int \<times> kern" where
  "sys_getpgrp = sys_getpgid 0"

definition sys_setsid :: "kern \<Rightarrow> int \<times> kern" where
  "sys_setsid k =
    (let x = cur_task k; g = t_group x
     in case k_groups k g of
          None \<Rightarrow> (0, kbad k)
        | Some tg \<Rightarrow>
            (let new_sid = t_pid (get_task (g_leader tg) k)
             in if g_pgid tg = new_sid \<or> g_sid tg = new_sid then (EPERM, k)
                else case pid_get (t_pid x) k of
                       None \<Rightarrow> (0, kbad k)
                     | Some i \<Rightarrow>
                         (let k = all_pids (\<lambda>p. p\<lparr>p_session := remove1 g (p_session p),
                                               p_pgroup := remove1 g (p_pgroup p)\<rparr>) k;
                              k = upd_pid i (\<lambda>p. p\<lparr>p_session := g # p_session p, p_pgroup := g # p_pgroup p\<rparr>) k
                          in (sint new_sid,
                              upd_group g (\<lambda>x. x\<lparr>g_sid := new_sid, g_pgid := new_sid, g_tty := None\<rparr>) k))))"

definition sys_getsid :: "kern \<Rightarrow> int \<times> kern" where
  "sys_getsid k = (case cur_group k of None \<Rightarrow> (0, kbad k) | Some g \<Rightarrow> (sint (g_sid g), k))"

subsection \<open>Limits\<close>

text \<open>Both functions ignore the task they are given.\<close>

definition rlimit_get :: "nat \<Rightarrow> dword_t \<Rightarrow> kern \<Rightarrow> rlimit \<times> kern" where
  "rlimit_get task resource k =
    (case cur_group k of
       None \<Rightarrow> (\<lparr>rl_cur = 0, rl_max = 0\<rparr>, kbad k)
     | Some g \<Rightarrow> (g_limits g (unat resource), if unat resource < RLIMIT_NLIMITS then k else kbad k))"

definition rlimit_set :: "nat \<Rightarrow> dword_t \<Rightarrow> rlimit \<Rightarrow> kern \<Rightarrow> kern" where
  "rlimit_set task resource limit k =
    (if unat resource < RLIMIT_NLIMITS
     then upd_group (t_group (cur_task k)) (\<lambda>g. g\<lparr>g_limits := (g_limits g)(unat resource := limit)\<rparr>) k
     else kbad k)"

definition rlimit_cur :: "dword_t \<Rightarrow> kern \<Rightarrow> qword_t" where
  "rlimit_cur resource k = rl_cur (fst (rlimit_get (k_current k) resource k))"

definition sys_getrlimit :: "dword_t \<Rightarrow> addr_t \<Rightarrow> kern \<Rightarrow> int \<times> kern" where
  "sys_getrlimit resource rlim_addr k =
    (case rlimit_get (k_current k) resource k of
       (l, k) \<Rightarrow>
         (case kput rlim_addr (dwords_of (rl_cur l) @ dwords_of (rl_max l)) k of
            (err, k) \<Rightarrow> (if err \<noteq> 0 then EFAULT else 0, k)))"

definition sys_setrlimit :: "dword_t \<Rightarrow> addr_t \<Rightarrow> kern \<Rightarrow> int \<times> kern" where
  "sys_setrlimit resource rlim_addr k =
    (case kget rlim_addr 4 k of
       (None, k) \<Rightarrow> (EFAULT, k)
     | (Some ws, k) \<Rightarrow>
         (0, rlimit_set (k_current k) resource
               \<lparr>rl_cur = qword_of (ws ! 0) (ws ! 1), rl_max = qword_of (ws ! 2) (ws ! 3)\<rparr> k))"

definition sys_prlimit :: "dword_t \<Rightarrow> dword_t \<Rightarrow> addr_t \<Rightarrow> addr_t \<Rightarrow> kern \<Rightarrow> int \<times> kern" where
  "sys_prlimit pid resource new_limit_addr old_limit_addr k =
    (if pid \<noteq> 0 then (EINVAL, k)
     else case (if old_limit_addr \<noteq> 0 then sys_getrlimit resource old_limit_addr k else (0, k)) of
            (err, k) \<Rightarrow>
              if err < 0 then (err, k)
              else case (if new_limit_addr \<noteq> 0 then sys_setrlimit resource new_limit_addr k else (0, k)) of
                     (err, k) \<Rightarrow> if err < 0 then (err, k) else (0, k))"

subsection \<open>Usage\<close>

definition rusage_get_current :: "kern \<Rightarrow> rusage \<times> kern" where
  "rusage_get_current k = (k_usage k (k_usages k), k\<lparr>k_usages := Suc (k_usages k)\<rparr>)"

definition timeval_add :: "timeval \<Rightarrow> timeval \<Rightarrow> timeval" where
  "timeval_add dst src =
    (let usec = tv_usec dst + tv_usec src; sec = tv_sec dst + tv_sec src
     in if usec \<ge> 1000000 then \<lparr>tv_sec = sec + 1, tv_usec = usec - 1000000\<rparr>
        else \<lparr>tv_sec = sec, tv_usec = usec\<rparr>)"

definition rusage_add :: "rusage \<Rightarrow> rusage \<Rightarrow> rusage" where
  "rusage_add dst src =
    dst\<lparr>ru_utime := timeval_add (ru_utime dst) (ru_utime src),
        ru_stime := timeval_add (ru_stime dst) (ru_stime src)\<rparr>"

definition dwords_of_rusage :: "rusage \<Rightarrow> dword_t list" where
  "dwords_of_rusage r =
    [tv_sec (ru_utime r), tv_usec (ru_utime r), tv_sec (ru_stime r), tv_usec (ru_stime r)] @ ru_rest r"

definition put_rusage :: "addr_t \<Rightarrow> rusage \<Rightarrow> kern \<Rightarrow> int \<times> kern" where
  "put_rusage a r k = (case kput a (dwords_of_rusage r) k of (err, k) \<Rightarrow> (if err \<noteq> 0 then EFAULT else 0, k))"

definition sys_getrusage :: "dword_t \<Rightarrow> addr_t \<Rightarrow> kern \<Rightarrow> int \<times> kern" where
  "sys_getrusage who rusage_addr k =
    (if who = 0 then (case rusage_get_current k of (r, k) \<Rightarrow> put_rusage rusage_addr r k)
     else if who = - 1 then
       (case cur_group k of
          None \<Rightarrow> (0, kbad k) | Some g \<Rightarrow> put_rusage rusage_addr (g_children_rusage g) k)
     else (EINVAL, k))"

text \<open>\<open>cpus\<close> is the host's number of processors. The set is an array on the stack
that is not cleared: \<open>old\<close> is what it holds before.\<close>

definition set_bit_of :: "nat \<Rightarrow> byte_t list \<Rightarrow> byte_t list" where
  "set_bit_of i bs = bs[i div 8 := bs ! (i div 8) OR push_bit (i mod 8) 1]"

definition sys_sched_getaffinity ::
  "dword_t \<Rightarrow> byte_t list \<Rightarrow> dword_t \<Rightarrow> dword_t \<Rightarrow> addr_t \<Rightarrow> kern \<Rightarrow> int \<times> kern"
where
  "sys_sched_getaffinity cpus old pid cpusetsize cpuset_addr k =
    (if pid \<noteq> 0 \<and> pid_get_task pid k = None then (ESRCH, k)
     else let n = (if cpus > cpusetsize * 8 then cpusetsize * 8 else cpus);
              bs = fold set_bit_of [0..<unat n] (take (unat cpusetsize) old)
          in case on_vm (user_write_task (t_mem (cur_task k)) cpuset_addr bs) k of
               (err, k) \<Rightarrow> (if err \<noteq> 0 then EFAULT else 0, k))"

subsection \<open>Thread local storage\<close>

definition task_set_thread_area :: "nat \<Rightarrow> addr_t \<Rightarrow> kern \<Rightarrow> int \<times> kern" where
  "task_set_thread_area t u_info k =
    (case on_vm (user_get_dwords (t_mem (get_task t k)) u_info 4) k of
       (None, k) \<Rightarrow> (EFAULT, k)
     | (Some ws, k) \<Rightarrow>
         (let k = upd_task t (\<lambda>x. x\<lparr>t_cpu := (t_cpu x)\<lparr>cpu_tls_ptr := ws ! 1\<rparr>\<rparr>) k;
              ws = (if ws ! 0 = - 1 then ws[0 := 0xc] else ws)
          in case kput u_info ws k of (err, k) \<Rightarrow> (if err \<noteq> 0 then EFAULT else 0, k)))"

definition sys_set_thread_area :: "addr_t \<Rightarrow> kern \<Rightarrow> int \<times> kern" where
  "sys_set_thread_area u_info k = task_set_thread_area (k_current k) u_info k"

end
