(* ===== verification/Process.thy ===== *)
theory Process
  imports Group
begin

text \<open>
  Creating tasks (\<open>src/kernel/fork.c\<close>), ending them and waiting for them
  (\<open>src/kernel/exit.c\<close>), and the first one (\<open>src/kernel/init.c\<close>). A call that
  waits takes as an argument what the other threads do while it sleeps, one
  change of the state for each time it is woken; with no change left it has not
  returned yet, which is \<open>None\<close>.
\<close>

subsection \<open>fork.c\<close>

abbreviation (input) CSIGNAL :: dword_t where "CSIGNAL \<equiv> 0x000000ff"
abbreviation (input) CLONE_VM :: dword_t where "CLONE_VM \<equiv> 0x00000100"
abbreviation (input) CLONE_FS :: dword_t where "CLONE_FS \<equiv> 0x00000200"
abbreviation (input) CLONE_FILES :: dword_t where "CLONE_FILES \<equiv> 0x00000400"
abbreviation (input) CLONE_SIGHAND :: dword_t where "CLONE_SIGHAND \<equiv> 0x00000800"
abbreviation (input) CLONE_VFORK :: dword_t where "CLONE_VFORK \<equiv> 0x00004000"
abbreviation (input) CLONE_THREAD :: dword_t where "CLONE_THREAD \<equiv> 0x00010000"
abbreviation (input) CLONE_SETTLS :: dword_t where "CLONE_SETTLS \<equiv> 0x00080000"
abbreviation (input) CLONE_PARENT_SETTID :: dword_t where "CLONE_PARENT_SETTID \<equiv> 0x00100000"
abbreviation (input) CLONE_CHILD_CLEARTID :: dword_t where "CLONE_CHILD_CLEARTID \<equiv> 0x00200000"
abbreviation (input) CLONE_CHILD_SETTID :: dword_t where "CLONE_CHILD_SETTID \<equiv> 0x01000000"

text \<open>\<open>VM | FILES | FS | SIGHAND | SYSVSEM | VFORK | THREAD | SETTLS | CHILD_SETTID |
PARENT_SETTID | CHILD_CLEARTID | DETACHED\<close>\<close>

abbreviation (input) IMPLEMENTED_FLAGS :: dword_t where "IMPLEMENTED_FLAGS \<equiv> 0x017d4f00"

definition has :: "dword_t \<Rightarrow> dword_t \<Rightarrow> bool" where
  "has flags f \<longleftrightarrow> flags AND f \<noteq> 0"

definition tgroup_copy :: "nat \<Rightarrow> kern \<Rightarrow> nat \<times> kern" where
  "tgroup_copy old k =
    (let g = k_next k; k = k\<lparr>k_next := Suc g\<rparr>
     in case k_groups k old of
          None \<Rightarrow> (g, kbad k)
        | Some og \<Rightarrow>
            (let k = k\<lparr>k_groups := (k_groups k)(g \<mapsto> og\<lparr>g_threads := [], g_has_timer := False,
                         g_timer := None, g_doing_group_exit := False,
                         g_children_rusage := zero_rusage\<rparr>)\<rparr>;
                 k = join_groups old g k
             in (g, case g_tty og of
                      None \<Rightarrow> k
                    | Some y \<Rightarrow> k\<lparr>k_ttys := (k_ttys k)(y := k_ttys k y + 1)\<rparr>)))"

definition copy_mem :: "nat \<Rightarrow> dword_t \<Rightarrow> kern \<Rightarrow> kern" where
  "copy_mem t flags k =
    (let m = t_mem (get_task t k)
     in if has flags CLONE_VM then k\<lparr>k_vm := mem_retain m (k_vm k)\<rparr>
        else case on_vm mem_new k of
               (None, k) \<Rightarrow> kbad k
             | (Some n, k) \<Rightarrow>
                 (let k = upd_task t (\<lambda>x. x\<lparr>t_mem := n\<rparr>) k;
                      old = mem_of (k_vm k) m;
                      v = upd_mem n (\<lambda>x. x\<lparr>mem_vdso := mem_vdso old, mem_brk := mem_brk old,
                                           mem_start_brk := mem_start_brk old\<rparr>) (k_vm k)
                  in k\<lparr>k_vm := snd (pt_copy_on_write m 0 n 0 MEM_PAGES v)\<rparr>))"

definition copy_files :: "nat \<Rightarrow> dword_t \<Rightarrow> kern \<Rightarrow> int \<times> kern" where
  "copy_files t flags k =
    (let f = t_files (get_task t k)
     in if has flags CLONE_FILES
        then (0, do_fds (upd_table f (\<lambda>x. x\<lparr>ft_refcount := ft_refcount x + 1\<rparr>)) k)
        else case on_fds (fdtable_copy f) k of
               (Inl err, k) \<Rightarrow> (err, k)
             | (Inr n, k) \<Rightarrow> (0, upd_task t (\<lambda>x. x\<lparr>t_files := n\<rparr>) k))"

definition copy_fs :: "nat \<Rightarrow> dword_t \<Rightarrow> kern \<Rightarrow> bool \<times> kern" where
  "copy_fs t flags k =
    (let f = t_fs (get_task t k)
     in if has flags CLONE_FS
        then (True, case k_fsinfos k f of
                      None \<Rightarrow> kbad k
                    | Some fs \<Rightarrow> k\<lparr>k_fsinfos := (k_fsinfos k)(f \<mapsto> fs\<lparr>fi_refcount := fi_refcount fs + 1\<rparr>)\<rparr>)
        else case fs_info_copy f k of
               (None, k) \<Rightarrow> (False, k)
             | (Some n, k) \<Rightarrow> (True, upd_task t (\<lambda>x. x\<lparr>t_fs := n\<rparr>) k))"

definition copy_sighand :: "nat \<Rightarrow> dword_t \<Rightarrow> kern \<Rightarrow> bool \<times> kern" where
  "copy_sighand t flags k =
    (let h = t_sighand (get_task t k)
     in if has flags CLONE_SIGHAND
        then (True, upd_sighand h (\<lambda>x. x\<lparr>sh_refcount := sh_refcount x + 1\<rparr>) k)
        else case sighand_copy h k of
               (None, k) \<Rightarrow> (False, k)
             | (Some n, k) \<Rightarrow> (True, upd_task t (\<lambda>x. x\<lparr>t_sighand := n\<rparr>) k))"

definition copy_group :: "nat \<Rightarrow> dword_t \<Rightarrow> kern \<Rightarrow> kern" where
  "copy_group t flags k =
    (let old = t_group (get_task t k);
         k = (if has flags CLONE_THREAD then k
              else case tgroup_copy old k of
                     (g, k) \<Rightarrow> upd_group g (\<lambda>x. x\<lparr>g_leader := t\<rparr>)
                       (upd_task t (\<lambda>x. x\<lparr>t_group := g, t_tgid := t_pid x\<rparr>) k))
     in upd_group (t_group (get_task t k)) (\<lambda>x. x\<lparr>g_threads := t # g_threads x\<rparr>) k)"

text \<open>The stores of the new task's id.\<close>

definition copy_ids :: "nat \<Rightarrow> dword_t \<Rightarrow> addr_t \<Rightarrow> addr_t \<Rightarrow> addr_t \<Rightarrow> kern \<Rightarrow> int \<times> kern" where
  "copy_ids t flags ptid_addr tls_addr ctid_addr k =
    (case (if has flags CLONE_SETTLS then task_set_thread_area t tls_addr k else (0, k)) of
       (err, k) \<Rightarrow>
         if err < 0 then (err, k)
         else case (if has flags CLONE_CHILD_SETTID
                    then on_vm (user_put32 (t_mem (get_task t k)) ctid_addr (t_pid (get_task t k))) k
                    else (0, k)) of
                (err, k) \<Rightarrow>
                  if err \<noteq> 0 then (EFAULT, k)
                  else case (if has flags CLONE_PARENT_SETTID
                             then on_vm (user_put32 (t_mem (cur_task k)) ptid_addr (t_pid (get_task t k))) k
                             else (0, k)) of
                         (err, k) \<Rightarrow>
                           if err \<noteq> 0 then (EFAULT, k)
                           else (0, upd_task t (\<lambda>x. x\<lparr>t_exit_signal := unat (flags AND CSIGNAL),
                                  t_clear_tid := (if has flags CLONE_CHILD_CLEARTID then ctid_addr
                                                  else t_clear_tid x)\<rparr>) k))"

text \<open>The labels of the error exits fall through into each other.\<close>

definition fail_free_mem :: "nat \<Rightarrow> kern \<Rightarrow> kern" where
  "fail_free_mem t k = k\<lparr>k_vm := mem_release (t_mem (get_task t k)) (k_vm k)\<rparr>"

definition fail_free_files :: "nat \<Rightarrow> kern \<Rightarrow> kern" where
  "fail_free_files t k =
    fail_free_mem t (do_fds (fdtable_release (k_ops k) (t_files (get_task t k))) k)"

definition fail_free_fs :: "nat \<Rightarrow> kern \<Rightarrow> kern" where
  "fail_free_fs t k = fail_free_files t (fs_info_release (t_fs (get_task t k)) k)"

definition fail_free_sighand :: "nat \<Rightarrow> kern \<Rightarrow> kern" where
  "fail_free_sighand t k = fail_free_fs t (sighand_release (t_sighand (get_task t k)) k)"

definition copy_task ::
  "nat \<Rightarrow> dword_t \<Rightarrow> addr_t \<Rightarrow> addr_t \<Rightarrow> addr_t \<Rightarrow> addr_t \<Rightarrow> kern \<Rightarrow> int \<times> kern"
where
  "copy_task t flags stack ptid_addr tls_addr ctid_addr k =
    (let k = upd_task t (\<lambda>x. x\<lparr>t_vfork_done := False,
               t_cpu := (if stack \<noteq> 0 then (t_cpu x)\<lparr>cpu_regs := (cpu_regs (t_cpu x))(reg_esp := stack)\<rparr>
                         else t_cpu x)\<rparr>) k
     in case copy_files t flags (copy_mem t flags k) of
          (err, k) \<Rightarrow>
            if err < 0 then (err, fail_free_mem t k)
            else case copy_fs t flags k of
                   (False, k) \<Rightarrow> (ENOMEM, fail_free_files t k)
                 | (True, k) \<Rightarrow>
                     (case copy_sighand t flags k of
                        (False, k) \<Rightarrow> (ENOMEM, fail_free_fs t k)
                      | (True, k) \<Rightarrow>
                          (case copy_ids t flags ptid_addr tls_addr ctid_addr (copy_group t flags k) of
                             (err, k) \<Rightarrow> if err < 0 then (err, fail_free_sighand t k) else (0, k))))"

fun wait_vfork :: "nat \<Rightarrow> (kern \<Rightarrow> kern) list \<Rightarrow> kern \<Rightarrow> kern option" where
  "wait_vfork t [] k = (if t_vfork_done (get_task t k) then Some k else None)"
| "wait_vfork t (other # others) k =
    (if t_vfork_done (get_task t k) then Some k else wait_vfork t others (other k))"

definition sys_clone ::
  "(kern \<Rightarrow> kern) list \<Rightarrow> dword_t \<Rightarrow> addr_t \<Rightarrow> addr_t \<Rightarrow> addr_t \<Rightarrow> addr_t \<Rightarrow> kern \<Rightarrow> (int \<times> kern) option"
where
  "sys_clone others flags stack ptid tls ctid k =
    (if flags AND NOT CSIGNAL AND NOT IMPLEMENTED_FLAGS \<noteq> 0 then Some (EINVAL, k)
     else if has flags CLONE_SIGHAND \<and> \<not> has flags CLONE_VM then Some (EINVAL, k)
     else if has flags CLONE_THREAD \<and> \<not> has flags CLONE_SIGHAND then Some (EINVAL, k)
     else case task_create (Some (k_current k)) k of
            (None, k) \<Rightarrow> Some (ENOMEM, k)
          | (Some t, k) \<Rightarrow>
              (case copy_task t flags stack ptid tls ctid k of
                 (err, k) \<Rightarrow>
                   if err < 0 then Some (err, task_destroy t k)
                   else (let k = upd_task t (\<lambda>x. x\<lparr>t_cpu := (t_cpu x)
                                   \<lparr>cpu_regs := (cpu_regs (t_cpu x))(reg_eax := 0)\<rparr>\<rparr>) k;
                             r = sint (t_pid (get_task t k));
                             k = task_start t k
                         in if has flags CLONE_VFORK
                            then map_option (Pair r) (wait_vfork t others k) else Some (r, k))))"

definition sys_fork :: "kern \<Rightarrow> (int \<times> kern) option" where
  "sys_fork = sys_clone [] (of_nat SIGCHLD) 0 0 0 0"

definition sys_vfork :: "(kern \<Rightarrow> kern) list \<Rightarrow> kern \<Rightarrow> (int \<times> kern) option" where
  "sys_vfork others = sys_clone others (CLONE_VFORK OR CLONE_VM OR of_nat SIGCHLD) 0 0 0 0"

definition vfork_notify :: "nat \<Rightarrow> kern \<Rightarrow> kern" where
  "vfork_notify t = upd_task t (\<lambda>x. x\<lparr>t_vfork_done := True\<rparr>)"

subsection \<open>Exit\<close>

definition exit_tgroup :: "nat \<Rightarrow> kern \<Rightarrow> bool \<times> kern" where
  "exit_tgroup t k =
    (let g = t_group (get_task t k)
     in case k_groups k g of
          None \<Rightarrow> (False, kbad k)
        | Some tg \<Rightarrow>
            (let k = upd_group g (\<lambda>x. x\<lparr>g_threads := remove1 t (g_threads x)\<rparr>) k
             in if remove1 t (g_threads tg) = [] then
                  (let k = (case g_timer tg of None \<Rightarrow> k | Some y \<Rightarrow> kevent (Timer_off y) k)
                   in (True, remove_session g (remove_pgroup g k)))
                else (False, k)))"

definition halt_system :: "int \<Rightarrow> kern \<Rightarrow> kern" where
  "halt_system status k =
    (let live = [t. i \<leftarrow> [2..<MAX_PID], t \<leftarrow> (case pid_get_task (of_nat i) k of None \<Rightarrow> [] | Some t \<Rightarrow> [t])];
         k = fold (\<lambda>t. kevent (Kill_thread t)) live k
     in kevent (Exit_hook status) (kevent Unmount_all k))"

text \<open>\<open>do_exit\<close> does not return: the current thread ends with the state given.
Waking the futex of \<open>clear_tid\<close> creates it and puts it back, so that only the
notification remains.\<close>

definition clear_tid_wake :: "kern \<Rightarrow> kern" where
  "clear_tid_wake k =
    (let x = cur_task k; a = t_clear_tid x
     in if a = 0 then k
        else case on_vm (user_put32 (t_mem x) a 0) k of
               (err, k) \<Rightarrow> if err = 0 then kevent (Futex_notify (t_mem x) a False) k else k)"

definition release_resources :: "kern \<Rightarrow> kern" where
  "release_resources k =
    (let x = cur_task k;
         k = k\<lparr>k_vm := mem_release (t_mem x) (k_vm k)\<rparr>;
         k = do_fds (fdtable_release (k_ops k) (t_files x)) k;
         k = fs_info_release (t_fs x) k
     in sighand_release (t_sighand x) k)"

text \<open>The children get a new parent, but stay in the list of the old one.\<close>

definition reparent_children :: "nat \<Rightarrow> kern \<Rightarrow> kern" where
  "reparent_children t k =
    (let new_parent = pid_get_task 1 k
     in fold (\<lambda>c. upd_task c (\<lambda>x. x\<lparr>t_parent := new_parent\<rparr>)) (k_children k t) k)"

definition notify_parent :: "int \<Rightarrow> nat \<Rightarrow> kern \<Rightarrow> kern" where
  "notify_parent status leader k =
    (case t_parent (get_task leader k) of
       None \<Rightarrow> halt_system status k
     | Some p \<Rightarrow>
         (let k = upd_task leader (\<lambda>x. x\<lparr>t_zombie := True\<rparr>) k;
              k = kevent (Child_exit (t_group (get_task p k))) k
          in send_signal p (t_exit_signal (get_task leader k)) k))"

definition do_exit :: "dword_t \<Rightarrow> kern \<Rightarrow> kern" where
  "do_exit status k =
    (case exit_tgroup (k_current k) (release_resources (clear_tid_wake k)) of
       (group_dead, k) \<Rightarrow>
         (let t = k_current k;
              k = upd_task t (\<lambda>x. x\<lparr>t_exit_code := status\<rparr>) (vfork_notify t k)
          in case rusage_get_current k of
               (ru, k) \<Rightarrow>
                 (let g = t_group (get_task t k);
                      k = upd_group g (\<lambda>x. x\<lparr>g_rusage := rusage_add (g_rusage x) ru\<rparr>) k
                  in case group_leader k g of
                       None \<Rightarrow> kbad k
                     | Some leader \<Rightarrow>
                         (let k = (if group_dead then notify_parent (sint status) leader (reparent_children t k)
                                   else k)
                          in if t \<noteq> leader then task_destroy t k else k))))"

definition do_exit_group :: "dword_t \<Rightarrow> kern \<Rightarrow> kern" where
  "do_exit_group status k =
    (let g = t_group (cur_task k)
     in case k_groups k g of
          None \<Rightarrow> kbad k
        | Some tg \<Rightarrow>
            (let exiting = g_doing_group_exit tg;
                 k = (if exiting then k
                      else upd_group g (\<lambda>x. x\<lparr>g_doing_group_exit := True, g_group_exit_code := status\<rparr>) k);
                 k = fold (\<lambda>t. send_signal t SIGKILL) (g_threads tg) k
             in do_exit (if exiting then g_group_exit_code tg else status) k))"

definition sys_exit :: "dword_t \<Rightarrow> kern \<Rightarrow> kern" where
  "sys_exit status = do_exit (push_bit 8 status)"

definition sys_exit_group :: "dword_t \<Rightarrow> kern \<Rightarrow> kern" where
  "sys_exit_group status = do_exit_group (push_bit 8 status)"

subsection \<open>Wait\<close>

text \<open>The result is 0 when the task cannot be reaped, 1 when it was reaped, and an
error, with the lock of the group still held, when a store failed.\<close>

definition reap_if_zombie :: "nat \<Rightarrow> addr_t \<Rightarrow> addr_t \<Rightarrow> kern \<Rightarrow> int \<times> kern" where
  "reap_if_zombie t status_addr rusage_addr k =
    (let x = get_task t k; g = t_group x
     in if group_leader k g \<noteq> Some t then (0, kbad k)
        else if \<not> t_zombie x then (0, k)
        else case k_groups k g of
               None \<Rightarrow> (0, kbad k)
             | Some tg \<Rightarrow>
                 (let exit_code = (if g_doing_group_exit tg then g_group_exit_code tg else t_exit_code x)
                  in case (if status_addr \<noteq> 0 then kput status_addr [exit_code] k else (0, k)) of
                       (err, k) \<Rightarrow>
                         if err \<noteq> 0 then (EFAULT, k)
                         else let k = upd_group (t_group (cur_task k))
                                  (\<lambda>x. x\<lparr>g_children_rusage := rusage_add (g_children_rusage x) (g_rusage tg)\<rparr>) k
                              in case (if rusage_addr \<noteq> 0 then put_rusage rusage_addr (g_rusage tg) k else (0, k)) of
                                   (err, k) \<Rightarrow>
                                     if err \<noteq> 0 then (EFAULT, k)
                                     else (1, task_destroy t (k\<lparr>k_groups := (k_groups k)(g := None)\<rparr>))))"

text \<open>The loop over the children; \<open>nr\<close> is overwritten with the id of each child
that is looked at.\<close>

fun wait_children :: "nat list \<Rightarrow> dword_t \<Rightarrow> addr_t \<Rightarrow> addr_t \<Rightarrow> kern \<Rightarrow> bool \<times> dword_t \<times> kern" where
  "wait_children [] nr status_addr rusage_addr k = (False, nr, k)"
| "wait_children (t # ts) nr status_addr rusage_addr k =
    (if group_leader k (t_group (get_task t k)) \<noteq> Some t
     then wait_children ts nr status_addr rusage_addr k
     else case reap_if_zombie t status_addr rusage_addr k of
            (r, k') \<Rightarrow> if r \<noteq> 0 then (True, t_pid (get_task t k), k')
                       else wait_children ts (t_pid (get_task t k)) status_addr rusage_addr k')"

text \<open>One pass from the label \<open>retry\<close>: an error, the id that was found, or the id
to look for after waiting.\<close>

datatype attempt = Wait_error int | Found dword_t | Not_yet dword_t

definition wait_attempt :: "dword_t \<Rightarrow> addr_t \<Rightarrow> addr_t \<Rightarrow> kern \<Rightarrow> attempt \<times> kern" where
  "wait_attempt nr status_addr rusage_addr k =
    (if nr = - 1 then
       (if k_children k (k_current k) = [] then (Wait_error ECHILD, k)
        else case wait_children (k_children k (k_current k)) nr status_addr rusage_addr k of
               (found, nr, k) \<Rightarrow> (if found then Found nr else Not_yet nr, k))
     else case pid_get_task_zombie nr k of
            None \<Rightarrow> (Wait_error ECHILD, k)
          | Some t \<Rightarrow>
              (case t_parent (get_task t k) of
                 None \<Rightarrow> (Wait_error 0, kbad k)
               | Some p \<Rightarrow>
                   if t_group (get_task p k) \<noteq> t_group (cur_task k) then (Wait_error ECHILD, k)
                   else case group_leader k (t_group (get_task t k)) of
                          None \<Rightarrow> (Wait_error 0, kbad k)
                        | Some leader \<Rightarrow>
                            (case reap_if_zombie leader status_addr rusage_addr k of
                               (r, k) \<Rightarrow> (if r \<noteq> 0 then Found nr else Not_yet nr, k))))"

text \<open>\<open>wait_for\<close> is interrupted when a signal is pending before or after it sleeps.\<close>

fun wait_loop ::
  "(kern \<Rightarrow> kern) list \<Rightarrow> dword_t \<Rightarrow> addr_t \<Rightarrow> dword_t \<Rightarrow> addr_t \<Rightarrow> kern \<Rightarrow> (int \<times> kern) option"
where
  "wait_loop others nr status_addr options rusage_addr k =
    (case wait_attempt nr status_addr rusage_addr k of
       (Wait_error err, k) \<Rightarrow> Some (err, k)
     | (Found nr, k) \<Rightarrow> Some (sint nr, k)
     | (Not_yet nr, k) \<Rightarrow>
         if options AND 1 \<noteq> 0 then Some (ECHILD, k)
         else if t_pending (cur_task k) \<noteq> 0 then Some (EINTR, k)
         else case others of
                [] \<Rightarrow> None
              | other # others \<Rightarrow>
                  (let k = other k
                   in if t_pending (cur_task k) \<noteq> 0 then Some (EINTR, k)
                      else wait_loop others nr status_addr options rusage_addr k))"

definition sys_wait4 ::
  "(kern \<Rightarrow> kern) list \<Rightarrow> dword_t \<Rightarrow> addr_t \<Rightarrow> dword_t \<Rightarrow> addr_t \<Rightarrow> kern \<Rightarrow> (int \<times> kern) option"
where
  "sys_wait4 = wait_loop"

definition sys_waitpid ::
  "(kern \<Rightarrow> kern) list \<Rightarrow> dword_t \<Rightarrow> addr_t \<Rightarrow> dword_t \<Rightarrow> kern \<Rightarrow> (int \<times> kern) option"
where
  "sys_waitpid others pid status_addr options = sys_wait4 others pid status_addr options 0"

subsection \<open>The first process\<close>

text \<open>\<open>create_first_process\<close> (\<open>src/kernel/init.c\<close>). \<open>root\<close> is the file that opening
the root directory gives; a null pointer, when memory runs out, is followed.\<close>

definition init_tgroup :: tgroup where
  "init_tgroup = \<lparr>g_threads = [], g_leader = 0, g_rusage = zero_rusage, g_sid = 0, g_pgid = 0,
     g_tty = None, g_has_timer = False, g_timer = None, g_limits = (\<lambda>_. \<lparr>rl_cur = 0, rl_max = 0\<rparr>),
     g_doing_group_exit = False, g_group_exit_code = 0, g_children_rusage = zero_rusage\<rparr>"

definition first_limits :: "nat \<Rightarrow> rlimit" where
  "first_limits i = \<lparr>rl_cur = (if i = RLIMIT_NOFILE then 1024 else - 1), rl_max = - 1\<rparr>"

definition first_resources :: "nat \<Rightarrow> nat \<Rightarrow> kern \<Rightarrow> kern" where
  "first_resources root t k =
    (let f = k_next k;
         k = k\<lparr>k_next := Suc f, k_fsinfos := (k_fsinfos k)(f \<mapsto>
               \<lparr>fi_refcount = 1, fi_umask = 18, fi_pwd = root, fi_root = root\<rparr>)\<rparr>;
         k = k\<lparr>k_fds := upd_fd root (\<lambda>x. x\<lparr>fd_refcount := 2\<rparr>) (k_fds k)\<rparr>;
         (r, fs) = fdtable_new 3 (k_fds k);
         k = k\<lparr>k_fds := fs\<rparr>;
         k = upd_task t (\<lambda>x. x\<lparr>t_fs := f\<rparr>) k;
         k = (case r of Inl _ \<Rightarrow> kbad k | Inr tb \<Rightarrow> upd_task t (\<lambda>x. x\<lparr>t_files := tb\<rparr>) k);
         (h, k) = sighand_new k
     in case h of None \<Rightarrow> kbad k | Some h \<Rightarrow> upd_task t (\<lambda>x. x\<lparr>t_sighand := h\<rparr>) k)"

definition create_first_process :: "nat \<Rightarrow> kern \<Rightarrow> kern" where
  "create_first_process root k =
    (case task_create None k of
       (None, k) \<Rightarrow> kbad k
     | (Some t, k) \<Rightarrow>
         (let k = k\<lparr>k_current := t\<rparr>;
              (m, k) = on_vm mem_new k;
              k = (case m of None \<Rightarrow> kbad k | Some m \<Rightarrow> upd_task t (\<lambda>x. x\<lparr>t_mem := m\<rparr>) k);
              g = k_next k;
              k = k\<lparr>k_next := Suc g, k_groups := (k_groups k)(g \<mapsto> init_tgroup\<lparr>g_threads := [t], g_leader := t\<rparr>)\<rparr>;
              k = upd_task t (\<lambda>x. x\<lparr>t_group := g, t_tgid := t_pid x\<rparr>) k;
              k = first_resources root t k;
              k = upd_group g (\<lambda>x. x\<lparr>g_limits := first_limits\<rparr>) k
          in snd (sys_setsid k)))"

end
