(* ===== verification/Deliver.thy ===== *)
theory Deliver
  imports Process
begin

text \<open>
  The delivery of signals to handlers of the guest and the return from them
  (\<open>src/kernel/user-signal.c\<close>). The frame that is put on the guest's stack is a
  record of the members the code assigns; the other members are zero. In memory
  it is a sequence of 183 double words.
\<close>

subsection \<open>The frame\<close>

record sigframe =
  fr_pretcode :: dword_t
  fr_sig :: dword_t
  fr_di :: dword_t
  fr_si :: dword_t
  fr_bp :: dword_t
  fr_sp :: dword_t
  fr_bx :: dword_t
  fr_dx :: dword_t
  fr_cx :: dword_t
  fr_ax :: dword_t
  fr_trapno :: dword_t
  fr_ip :: dword_t
  fr_flags :: dword_t
  fr_sp_at_signal :: dword_t
  fr_oldmask :: dword_t
  fr_extramask :: dword_t

text \<open>\<open>struct sigframe_\<close>: the return address and the signal; the segment
registers, the general registers, trap number, error, instruction pointer, code
segment, flags, stack pointer and segment, FPU pointer, mask and cr2 of
\<open>struct sigcontext_\<close>; the 624 bytes of \<open>struct fpstate_\<close>; the upper half of
the mask, and the three instructions of \<open>retcode\<close>: 0xb858, 173 and 0x80cd.\<close>

definition dwords_of_frame :: "sigframe \<Rightarrow> dword_t list" where
  "dwords_of_frame f =
    [fr_pretcode f, fr_sig f, 0, 0, 0, 0, fr_di f, fr_si f, fr_bp f, fr_sp f, fr_bx f, fr_dx f,
     fr_cx f, fr_ax f, fr_trapno f, 0, fr_ip f, 0, fr_flags f, fr_sp_at_signal f, 0, 0,
     fr_oldmask f, 0]
    @ replicate 156 0 @ [fr_extramask f, 0x00adb858, 0x80cd0000]"

definition frame_of_dwords :: "dword_t list \<Rightarrow> sigframe" where
  "frame_of_dwords ws =
    \<lparr>fr_pretcode = ws ! 0, fr_sig = ws ! 1, fr_di = ws ! 6, fr_si = ws ! 7, fr_bp = ws ! 8,
     fr_sp = ws ! 9, fr_bx = ws ! 10, fr_dx = ws ! 11, fr_cx = ws ! 12, fr_ax = ws ! 13,
     fr_trapno = ws ! 14, fr_ip = ws ! 16, fr_flags = ws ! 18, fr_sp_at_signal = ws ! 19,
     fr_oldmask = ws ! 22, fr_extramask = ws ! 180\<rparr>"

definition frame_size :: dword_t where
  "frame_size = 732"

definition make_frame :: "nat \<Rightarrow> addr_t \<Rightarrow> task \<Rightarrow> sigframe" where
  "make_frame sig pretcode x =
    (let cpu = t_cpu x; r = cpu_regs cpu
     in \<lparr>fr_pretcode = pretcode, fr_sig = of_nat sig, fr_di = r reg_edi, fr_si = r reg_esi,
         fr_bp = r reg_ebp, fr_sp = r reg_esp, fr_bx = r reg_ebx, fr_dx = r reg_edx,
         fr_cx = r reg_ecx, fr_ax = r reg_eax, fr_trapno = cpu_trapno cpu, fr_ip = cpu_eip cpu,
         fr_flags = cpu_eflags (collapse_flags cpu), fr_sp_at_signal = r reg_esp,
         fr_oldmask = ucast (t_blocked x), fr_extramask = ucast (drop_bit 32 (t_blocked x))\<rparr>)"

subsection \<open>Delivery\<close>

text \<open>Where the frame goes. The alternate stack is entered at its lowest address.\<close>

definition frame_address :: "kern \<Rightarrow> sighand \<Rightarrow> dword_t \<Rightarrow> addr_t" where
  "frame_address k sh esp =
    (let sp = (if sh_altstack sh \<noteq> 0 then sh_altstack sh else esp);
         sp = (if k_xsave_extra k \<noteq> 0
               then ((sp - k_xsave_extra k) AND NOT 0x3f) - k_fxsave_extra k else sp);
         sp = sp - frame_size
     in ((sp + 4) AND NOT 0xf) - 4)"

definition call_handler :: "nat \<Rightarrow> addr_t \<Rightarrow> addr_t \<Rightarrow> task \<Rightarrow> task" where
  "call_handler sig handler sp x =
    (let cpu = collapse_flags (t_cpu x)
     in x\<lparr>t_cpu := cpu\<lparr>cpu_regs := (cpu_regs cpu)(reg_eax := of_nat sig, reg_esp := sp), cpu_eip := handler\<rparr>,
          t_blocked := t_blocked x OR sigbit sig\<rparr>)"

text \<open>The flag says whether the thread goes on. A frame that cannot be written is
ignored.\<close>

definition receive_signal :: "nat \<Rightarrow> kern \<Rightarrow> bool \<times> kern" where
  "receive_signal sig k =
    (let t = k_current k;
         k = upd_task t (\<lambda>x. x\<lparr>t_pending := t_pending x AND NOT (sigbit sig)\<rparr>) k;
         x = get_task t k
     in case k_sighands k (t_sighand x) of
          None \<Rightarrow> (True, kbad k)
        | Some sh \<Rightarrow>
            (case signal_action sh sig of
               SIGNAL_IGNORE \<Rightarrow> (True, k)
             | SIGNAL_KILL \<Rightarrow> (False, do_exit_group (of_nat sig) k)
             | SIGNAL_CALL_HANDLER \<Rightarrow>
                 if k_sigreturn k = 0 then (True, kbad k)
                 else
                   let frame = make_frame sig (mem_vdso (mem_of (k_vm k) (t_mem x)) + k_sigreturn k) x;
                       sp = frame_address k sh (cpu_regs (t_cpu x) reg_esp);
                       k = upd_task t (call_handler sig (sa_handler (sh_action sh sig)) sp) k;
                       k = (if sh_altstack sh \<noteq> 0
                            then upd_sighand (t_sighand x) (\<lambda>s. s\<lparr>sh_on_altstack := True\<rparr>) k else k)
                   in (True, snd (kput sp (dwords_of_frame frame) k))))"

fun receive_loop :: "nat list \<Rightarrow> kern \<Rightarrow> bool \<times> kern" where
  "receive_loop [] k = (True, k)"
| "receive_loop (sig # sigs) k =
    (if t_pending (cur_task k) AND sigbit sig \<noteq> 0 then
       case receive_signal sig k of
         (goes_on, k) \<Rightarrow> if goes_on then receive_loop sigs k else (False, k)
     else receive_loop sigs k)"

definition receive_signals :: "kern \<Rightarrow> bool \<times> kern" where
  "receive_signals k = (if t_pending (cur_task k) \<noteq> 0 then receive_loop [0..<NUM_SIGS] k else (True, k))"

subsection \<open>Return from a handler\<close>

text \<open>The carry and overflow flags, which are not kept in \<open>eflags\<close>, are those of the
handler.\<close>

definition restore_cpu :: "sigframe \<Rightarrow> cpu_state \<Rightarrow> cpu_state" where
  "restore_cpu f cpu =
    (let cpu = cpu\<lparr>cpu_regs := (cpu_regs cpu)(reg_eax := fr_ax f, reg_ebx := fr_bx f, reg_ecx := fr_cx f,
                      reg_edx := fr_dx f, reg_edi := fr_di f, reg_esi := fr_si f, reg_ebp := fr_bp f,
                      reg_esp := fr_sp f), cpu_eip := fr_ip f\<rparr>
     in (collapse_flags cpu)\<lparr>cpu_eflags := fr_flags f\<rparr>)"

definition sys_rt_sigreturn :: "kern \<Rightarrow> int \<times> kern" where
  "sys_rt_sigreturn k =
    (let t = k_current k
     in case kget (cpu_regs (t_cpu (cur_task k)) reg_esp - 8) 183 k of
          (None, k) \<Rightarrow> (0, kbad k)
        | (Some ws, k) \<Rightarrow>
            (let f = frame_of_dwords ws;
                 k = upd_task t (\<lambda>x. x\<lparr>t_cpu := restore_cpu f (t_cpu x)\<rparr>) k;
                 k = upd_sighand (t_sighand (get_task t k)) (\<lambda>s. s\<lparr>sh_on_altstack := False\<rparr>) k;
                 k = snd (do_sigprocmask 2 (qword_of (fr_oldmask f) (fr_extramask f)) k)
             in (sint (cpu_regs (t_cpu (get_task t k)) reg_eax), k)))"

end
