(* ===== verification/Syscall.thy ===== *)
theory Syscall
  imports Deliver
begin

text \<open>
  The table of system calls and the handling of interrupts
  (\<open>src/kernel/calls.c\<close>). The calls that are modelled are found under their
  names; the others are a parameter.
\<close>

subsection \<open>The table\<close>

abbreviation (input) NUM_SYSCALLS :: nat where "NUM_SYSCALLS \<equiv> 400"

definition syscall_entries :: "(nat \<times> string) list" where
  "syscall_entries =
   [(1, ''sys_exit''), (2, ''sys_fork''), (3, ''sys_read''), (4, ''sys_write''),
    (5, ''sys_open''), (6, ''sys_close''), (7, ''sys_waitpid''), (9, ''sys_link''),
    (10, ''sys_unlink''), (11, ''_sys_execve''), (12, ''sys_chdir''), (13, ''sys_time''),
    (14, ''sys_mknod''), (15, ''sys_chmod''), (19, ''sys_lseek''), (20, ''sys_getpid''),
    (21, ''sys_mount''), (23, ''sys_setuid''), (24, ''sys_getuid''), (33, ''sys_access''),
    (37, ''sys_kill''), (38, ''sys_rename''), (39, ''sys_mkdir''), (40, ''sys_rmdir''),
    (41, ''sys_dup''), (42, ''sys_pipe''), (43, ''sys_times''), (45, ''sys_brk''),
    (46, ''sys_setgid''), (47, ''sys_getgid''), (49, ''sys_geteuid''), (50, ''sys_getegid''),
    (52, ''sys_umount2''), (54, ''sys_ioctl''), (57, ''sys_setpgid''), (60, ''sys_umask''),
    (61, ''sys_chroot''), (63, ''sys_dup2''), (64, ''sys_getppid''), (65, ''sys_getpgrp''),
    (66, ''sys_setsid''), (74, ''sys_sethostname''), (75, ''sys_setrlimit''),
    (76, ''sys_getrlimit''), (77, ''sys_getrusage''), (78, ''sys_gettimeofday''),
    (79, ''sys_settimeofday''), (80, ''sys_getgroups''), (81, ''sys_setgroups''),
    (83, ''sys_symlink''), (85, ''sys_readlink''), (90, ''sys_mmap''), (91, ''sys_munmap''),
    (94, ''sys_fchmod''), (96, ''sys_getpriority''), (97, ''sys_setpriority''),
    (102, ''sys_socketcall''), (103, ''sys_syslog''), (104, ''sys_setitimer''),
    (114, ''sys_wait4''), (116, ''sys_sysinfo''), (118, ''sys_fsync''), (120, ''sys_clone''),
    (122, ''sys_uname''), (125, ''sys_mprotect''), (132, ''sys_getpgid''), (133, ''sys_fchdir''),
    (140, ''sys__llseek''), (142, ''sys_select''), (143, ''sys_flock''), (145, ''sys_readv''),
    (146, ''sys_writev''), (147, ''sys_getsid''), (148, ''sys_fsync''), (150, ''sys_mlock''),
    (158, ''sys_sched_yield''), (162, ''sys_nanosleep''), (163, ''sys_mremap''),
    (168, ''sys_poll''), (172, ''sys_prctl''), (173, ''sys_rt_sigreturn''),
    (174, ''sys_rt_sigaction''), (175, ''sys_rt_sigprocmask''), (180, ''sys_pread''),
    (183, ''sys_getcwd''), (184, ''sys_capget''), (185, ''sys_capset''),
    (186, ''sys_sigaltstack''), (187, ''sys_sendfile''), (190, ''sys_vfork''),
    (192, ''sys_mmap2''), (193, ''sys_truncate64''), (194, ''sys_ftruncate64''),
    (195, ''sys_stat64''), (196, ''sys_lstat64''), (197, ''sys_fstat64''), (198, ''sys_lchown''),
    (199, ''sys_getuid32''), (200, ''sys_getgid32''), (201, ''sys_geteuid32''),
    (202, ''sys_getegid32''), (205, ''sys_getgroups''), (206, ''sys_setgroups''),
    (207, ''sys_fchown32''), (208, ''sys_setresuid''), (209, ''sys_getresuid''),
    (210, ''sys_setresgid''), (211, ''sys_getresgid''), (212, ''sys_chown32''),
    (213, ''sys_setuid''), (214, ''sys_setgid''), (219, ''sys_madvise''),
    (220, ''sys_getdents64''), (221, ''sys_fcntl64''), (224, ''sys_gettid''),
    (238, ''sys_tkill''), (239, ''sys_sendfile64''), (240, ''sys_futex''),
    (242, ''sys_sched_getaffinity''), (243, ''sys_set_thread_area''), (252, ''sys_exit_group''),
    (254, ''sys_epoll_create0''), (255, ''sys_epoll_ctl''), (256, ''sys_epoll_wait''),
    (258, ''sys_set_tid_address''), (264, ''sys_clock_settime''), (265, ''sys_clock_gettime''),
    (266, ''sys_clock_getres''), (268, ''sys_statfs64''), (269, ''sys_fstatfs64''),
    (272, ''syscall_success_stub''), (274, ''sys_mbind''), (295, ''sys_openat''),
    (296, ''sys_mkdirat''), (298, ''sys_fchownat''), (300, ''sys_fstatat64''),
    (301, ''sys_unlinkat''), (302, ''sys_renameat''), (303, ''sys_linkat''),
    (304, ''sys_symlinkat''), (305, ''sys_readlinkat''), (306, ''sys_fchmodat''),
    (307, ''sys_faccessat''), (308, ''sys_pselect''), (309, ''sys_ppoll''),
    (319, ''sys_epoll_pwait''), (320, ''sys_utimensat''), (322, ''sys_timerfd_create''),
    (323, ''sys_eventfd''), (324, ''sys_fallocate''), (328, ''sys_eventfd2''),
    (329, ''sys_epoll_create''), (331, ''sys_pipe2''), (340, ''sys_prlimit''),
    (355, ''sys_getrandom''), (377, ''sys_copy_file_range'')]"

definition syscall_table :: "nat \<Rightarrow> string option" where
  "syscall_table n = (if 226 \<le> n \<and> n \<le> 237 then Some ''sys_xattr_stub'' else map_of syscall_entries n)"

subsection \<open>The calls\<close>

text \<open>A call returns a value for \<open>eax\<close>, or ends the thread, or sleeps longer than
the other threads are given to run.\<close>

datatype call_result = Returned dword_t kern | Ended kern | Asleep

record world =
  w_others :: "(kern \<Rightarrow> kern) list"
  w_files :: files
  w_cpus :: dword_t
  w_stack :: "byte_t list"
  w_rest :: "string \<Rightarrow> (nat \<Rightarrow> dword_t) \<Rightarrow> kern \<Rightarrow> call_result"

definition int_call :: "int \<times> kern \<Rightarrow> call_result" where
  "int_call r = Returned (ret32 (fst r)) (snd r)"

definition dword_call :: "dword_t \<times> kern \<Rightarrow> call_result" where
  "dword_call r = Returned (fst r) (snd r)"

definition waiting :: "(int \<times> kern) option \<Rightarrow> call_result" where
  "waiting r = (case r of None \<Rightarrow> Asleep | Some x \<Rightarrow> int_call x)"

definition mem_call :: "(mem_id \<Rightarrow> vm \<Rightarrow> dword_t \<times> vm) \<Rightarrow> kern \<Rightarrow> call_result" where
  "mem_call f k = dword_call (on_vm (f (t_mem (cur_task k))) k)"

definition put_creds :: "creds \<Rightarrow> kern \<Rightarrow> kern" where
  "put_creds c k = upd_task (k_current k) (\<lambda>x. x\<lparr>t_creds := c\<rparr>) k"

definition cred_call :: "(creds \<Rightarrow> int \<times> creds) \<Rightarrow> kern \<Rightarrow> call_result" where
  "cred_call f k = (case f (t_creds (cur_task k)) of (r, c) \<Rightarrow> int_call (r, put_creds c k))"

definition ids_call :: "(mem_id \<Rightarrow> creds \<Rightarrow> vm \<Rightarrow> int \<times> vm) \<Rightarrow> kern \<Rightarrow> call_result" where
  "ids_call f k = int_call (on_vm (f (t_mem (cur_task k)) (t_creds (cur_task k))) k)"

definition getgroups_call :: "dword_t \<Rightarrow> addr_t \<Rightarrow> kern \<Rightarrow> call_result" where
  "getgroups_call sz list k =
    (case sys_getgroups (t_mem (cur_task k)) sz list (t_creds (cur_task k)) (k_vm k) of
       None \<Rightarrow> Returned 0 (kbad k) | Some (r, v) \<Rightarrow> int_call (r, k\<lparr>k_vm := v\<rparr>))"

definition setgroups_call :: "dword_t \<Rightarrow> addr_t \<Rightarrow> kern \<Rightarrow> call_result" where
  "setgroups_call sz list k =
    (case sys_setgroups (t_mem (cur_task k)) sz list (t_creds (cur_task k)) (k_vm k) of
       (r, c, v) \<Rightarrow> int_call (r, put_creds c (k\<lparr>k_vm := v\<rparr>)))"

definition known_calls :: "world \<Rightarrow> (string \<times> ((nat \<Rightarrow> dword_t) \<Rightarrow> kern \<Rightarrow> call_result)) list" where
  "known_calls w =
   [(''sys_exit'', \<lambda>a k. Ended (sys_exit (a 0) k)),
    (''sys_fork'', \<lambda>a k. waiting (sys_fork k)),
    (''sys_close'', \<lambda>a k. int_call (on_fds (f_close (k_ops k) (a 0)) k)),
    (''sys_waitpid'', \<lambda>a k. waiting (sys_waitpid (w_others w) (a 0) (a 1) (a 2) k)),
    (''sys_getpid'', \<lambda>a k. Returned (sys_getpid k) k),
    (''sys_setuid'', \<lambda>a k. cred_call (sys_setuid (a 0)) k),
    (''sys_getuid'', \<lambda>a k. Returned (sys_getuid (t_creds (cur_task k))) k),
    (''sys_kill'', \<lambda>a k. int_call (sys_kill (a 0) (a 1) k)),
    (''sys_dup'', \<lambda>a k. int_call (on_fds (sys_dup (k_ops k) (a 0)) k)),
    (''sys_brk'', \<lambda>a k. mem_call (\<lambda>m. sys_brk m (a 0)) k),
    (''sys_setgid'', \<lambda>a k. cred_call (sys_setgid (a 0)) k),
    (''sys_getgid'', \<lambda>a k. Returned (sys_getgid (t_creds (cur_task k))) k),
    (''sys_geteuid'', \<lambda>a k. Returned (sys_geteuid (t_creds (cur_task k))) k),
    (''sys_getegid'', \<lambda>a k. Returned (sys_getegid (t_creds (cur_task k))) k),
    (''sys_setpgid'', \<lambda>a k. int_call (sys_setpgid (a 0) (a 1) k)),
    (''sys_dup2'', \<lambda>a k. int_call (on_fds (sys_dup2 (k_ops k) (a 0) (a 1)) k)),
    (''sys_getppid'', \<lambda>a k. Returned (sys_getppid k) k),
    (''sys_getpgrp'', \<lambda>a k. int_call (sys_getpgrp k)),
    (''sys_setsid'', \<lambda>a k. int_call (sys_setsid k)),
    (''sys_setrlimit'', \<lambda>a k. int_call (sys_setrlimit (a 0) (a 1) k)),
    (''sys_getrlimit'', \<lambda>a k. int_call (sys_getrlimit (a 0) (a 1) k)),
    (''sys_getrusage'', \<lambda>a k. int_call (sys_getrusage (a 0) (a 1) k)),
    (''sys_getgroups'', \<lambda>a k. getgroups_call (a 0) (a 1) k),
    (''sys_setgroups'', \<lambda>a k. setgroups_call (a 0) (a 1) k),
    (''sys_munmap'', \<lambda>a k. mem_call (\<lambda>m. sys_munmap m (a 0) (a 1)) k),
    (''sys_wait4'', \<lambda>a k. waiting (sys_wait4 (w_others w) (a 0) (a 1) (a 2) (a 3) k)),
    (''sys_clone'', \<lambda>a k. waiting (sys_clone (w_others w) (a 0) (a 1) (a 2) (a 3) (a 4) k)),
    (''sys_mprotect'', \<lambda>a k. mem_call (\<lambda>m. sys_mprotect m (a 0) (a 1) (a 2)) k),
    (''sys_getpgid'', \<lambda>a k. int_call (sys_getpgid (a 0) k)),
    (''sys_getsid'', \<lambda>a k. int_call (sys_getsid k)),
    (''sys_mlock'', \<lambda>a k. mem_call (\<lambda>m. sys_mlock (a 0) (a 1)) k),
    (''sys_sched_yield'', \<lambda>a k. Returned 0 k),
    (''sys_mremap'', \<lambda>a k. mem_call (\<lambda>m. sys_mremap m (a 0) (a 1) (a 2) (a 3)) k),
    (''sys_prctl'', \<lambda>a k. Returned (ret32 EINVAL) k),
    (''sys_rt_sigreturn'', \<lambda>a k. int_call (sys_rt_sigreturn k)),
    (''sys_rt_sigaction'', \<lambda>a k. int_call (sys_rt_sigaction (a 0) (a 1) (a 2) (a 3) k)),
    (''sys_rt_sigprocmask'', \<lambda>a k. int_call (sys_rt_sigprocmask (a 0) (a 1) (a 2) (a 3) k)),
    (''sys_capget'', \<lambda>a k. Returned 0 k),
    (''sys_capset'', \<lambda>a k. Returned 0 k),
    (''sys_sigaltstack'', \<lambda>a k. int_call (sys_sigaltstack (a 0) (a 1) k)),
    (''sys_vfork'', \<lambda>a k. waiting (sys_vfork (w_others w) k)),
    (''sys_mmap2'', \<lambda>a k. mem_call (\<lambda>m. sys_mmap2 (w_files w) m (a 0) (a 1) (a 2) (a 3) (a 4) (a 5)) k),
    (''sys_getuid32'', \<lambda>a k. Returned (sys_getuid32 (t_creds (cur_task k))) k),
    (''sys_getgid32'', \<lambda>a k. Returned (sys_getgid32 (t_creds (cur_task k))) k),
    (''sys_geteuid32'', \<lambda>a k. Returned (sys_geteuid32 (t_creds (cur_task k))) k),
    (''sys_getegid32'', \<lambda>a k. Returned (sys_getegid32 (t_creds (cur_task k))) k),
    (''sys_setresuid'', \<lambda>a k. cred_call (sys_setresuid (a 0) (a 1) (a 2)) k),
    (''sys_getresuid'', \<lambda>a k. ids_call (\<lambda>m. sys_getresuid m (a 0) (a 1) (a 2)) k),
    (''sys_setresgid'', \<lambda>a k. cred_call (sys_setresgid (a 0) (a 1) (a 2)) k),
    (''sys_getresgid'', \<lambda>a k. ids_call (\<lambda>m. sys_getresgid m (a 0) (a 1) (a 2)) k),
    (''sys_madvise'', \<lambda>a k. mem_call (\<lambda>m. sys_madvise (a 0) (a 1) (a 2)) k),
    (''sys_fcntl64'', \<lambda>a k. int_call (on_fds (sys_fcntl64 (k_ops k) (a 0) (a 1) (a 2)) k)),
    (''sys_gettid'', \<lambda>a k. Returned (sys_gettid k) k),
    (''sys_tkill'', \<lambda>a k. int_call (sys_tkill (a 0) (a 1) k)),
    (''sys_sched_getaffinity'', \<lambda>a k. int_call (sys_sched_getaffinity (w_cpus w) (w_stack w) (a 0) (a 1) (a 2) k)),
    (''sys_set_thread_area'', \<lambda>a k. int_call (sys_set_thread_area (a 0) k)),
    (''sys_exit_group'', \<lambda>a k. Ended (sys_exit_group (a 0) k)),
    (''sys_set_tid_address'', \<lambda>a k. dword_call (sys_set_tid_address (a 0) k)),
    (''syscall_success_stub'', \<lambda>a k. Returned 0 k),
    (''sys_mbind'', \<lambda>a k. mem_call (\<lambda>m. sys_mbind (a 0) (a 1) (a 2) (a 3) (a 4) (a 5)) k),
    (''sys_getpriority'', \<lambda>a k. Returned 20 k),
    (''sys_setpriority'', \<lambda>a k. Returned 0 k),
    (''sys_prlimit'', \<lambda>a k. int_call (sys_prlimit (a 0) (a 1) (a 2) (a 3) k))]"

definition call :: "world \<Rightarrow> string \<Rightarrow> (nat \<Rightarrow> dword_t) \<Rightarrow> kern \<Rightarrow> call_result" where
  "call w name = (case map_of (known_calls w) name of None \<Rightarrow> w_rest w name | Some f \<Rightarrow> f)"

subsection \<open>Interrupts\<close>

definition set_eax :: "dword_t \<Rightarrow> kern \<Rightarrow> kern" where
  "set_eax r k = upd_task (k_current k)
     (\<lambda>x. x\<lparr>t_cpu := (t_cpu x)\<lparr>cpu_regs := (cpu_regs (t_cpu x))(reg_eax := r)\<rparr>\<rparr>) k"

definition syscall_args :: "cpu_state \<Rightarrow> nat \<Rightarrow> dword_t" where
  "syscall_args cpu n = cpu_regs cpu ([reg_ebx, reg_ecx, reg_edx, reg_esi, reg_edi, reg_ebp] ! n)"

text \<open>The number is a C \<open>int\<close>: a negative one passes the check and reads outside
the table.\<close>

definition do_syscall :: "world \<Rightarrow> kern \<Rightarrow> call_result" where
  "do_syscall w k =
    (let cpu = t_cpu (cur_task k); n = sint (cpu_regs cpu reg_eax)
     in if n \<ge> int NUM_SYSCALLS then Returned 0 (send_signal (k_current k) SIGSYS (kevent Printed k))
        else if n < 0 then Returned 0 (kbad k)
        else case syscall_table (nat n) of
               None \<Rightarrow> Returned 0 (send_signal (k_current k) SIGSYS (kevent Printed k))
             | Some name \<Rightarrow>
                 (case call w name (syscall_args cpu) k of
                    Returned r k \<Rightarrow> Returned r (set_eax r k) | r \<Rightarrow> r))"

text \<open>The bytes at the instruction pointer that are printed.\<close>

fun print_code :: "nat \<Rightarrow> addr_t \<Rightarrow> kern \<Rightarrow> kern" where
  "print_code 0 a k = k"
| "print_code (Suc n) a k =
    (case on_vm (\<lambda>v. case user_read_task (t_mem (cur_task k)) a 1 v of (err, _, v) \<Rightarrow> (err, v)) k of
       (err, k) \<Rightarrow> if err \<noteq> 0 then k else print_code n (a + 1) (kevent Printed k))"

definition handle_interrupt :: "world \<Rightarrow> int \<Rightarrow> kern \<Rightarrow> call_result" where
  "handle_interrupt w interrupt k =
    (let r = (if interrupt = INT_SYSCALL then do_syscall w k
              else if interrupt = INT_GPF
              then Returned 0 (deliver_signal (k_current k) SIGSEGV (kevent Printed k))
              else if interrupt = INT_UNDEFINED
              then (let k = print_code 8 (cpu_eip (t_cpu (cur_task k))) (kevent Printed k)
                    in Returned 0 (deliver_signal (k_current k) SIGILL (kevent Printed k)))
              else if interrupt \<noteq> INT_TIMER then Ended (sys_exit (word_of_int interrupt) (kevent Printed k))
              else Returned 0 k)
     in case r of
          Returned x k \<Rightarrow> (case receive_signals k of (True, k) \<Rightarrow> Returned x k | (False, k) \<Rightarrow> Ended k)
        | r \<Rightarrow> r)"

end
