(* ===== verification/Kern_Facts.thy ===== *)
theory Kern_Facts
  imports Syscall
begin

text \<open>
  The invariant of the kernel state. The table of process ids and the tasks
  refer to each other: the slot of an id names a task that exists and has that
  id, and every task is in the slot of its id, so that no two tasks have one id.
  And a signal is queued only while it is blocked, so that none waits that could
  be delivered. Most operations touch neither (\<open>calm\<close>); a task changes only in
  ways that keep its id and its queue in order (\<open>tame\<close>).
\<close>

subsection \<open>The invariant\<close>

definition mask_ok :: "task \<Rightarrow> bool" where
  "mask_ok x \<longleftrightarrow> t_queued x AND NOT (t_blocked x) = 0"

definition slot_task :: "kern \<Rightarrow> nat \<Rightarrow> nat option" where
  "slot_task k i = p_task (k_pids k i)"

definition kern_ok :: "kern \<Rightarrow> bool" where
  "kern_ok k \<longleftrightarrow>
    (\<forall>t x. k_tasks k t = Some x \<longrightarrow>
       mask_ok x \<and> t < k_next k \<and> unat (t_pid x) \<le> MAX_PID \<and> slot_task k (unat (t_pid x)) = Some t) \<and>
    (\<forall>i t. i \<le> MAX_PID \<longrightarrow> slot_task k i = Some t \<longrightarrow>
       (\<exists>x. k_tasks k t = Some x \<and> t_pid x = of_nat i))"

definition calm :: "kern \<Rightarrow> kern \<Rightarrow> bool" where
  "calm k k' \<longleftrightarrow> k_tasks k' = k_tasks k \<and> slot_task k' = slot_task k \<and> k_next k \<le> k_next k'"

definition tame :: "(task \<Rightarrow> task) \<Rightarrow> bool" where
  "tame f \<longleftrightarrow> (\<forall>x. t_pid (f x) = t_pid x \<and> (mask_ok x \<longrightarrow> mask_ok (f x)))"

named_theorems calms
named_theorems keeps

lemma calm_refl [calms]: "calm k k"
  by (simp add: calm_def)

lemma calm_trans: "calm k k' \<Longrightarrow> calm k' k'' \<Longrightarrow> calm k k''"
  by (auto simp: calm_def)

lemma kern_ok_calm: "kern_ok k \<Longrightarrow> calm k k' \<Longrightarrow> kern_ok k'"
proof -
  assume k: "kern_ok k" and c: "calm k k'"
  then have "k_tasks k' = k_tasks k" "slot_task k' = slot_task k" "k_next k \<le> k_next k'"
    by (simp_all add: calm_def)
  then show "kern_ok k'"
    using k unfolding kern_ok_def by (simp, meson order_less_le_trans)
qed

lemma kern_ok_task:
  assumes "kern_ok k" "k_tasks k t = Some x"
  shows "mask_ok x" "t < k_next k" "unat (t_pid x) \<le> MAX_PID" "slot_task k (unat (t_pid x)) = Some t"
  using assms unfolding kern_ok_def by blast+

lemma kern_ok_slot:
  assumes "kern_ok k" "i \<le> MAX_PID" "slot_task k i = Some t"
  obtains x where "k_tasks k t = Some x" "t_pid x = of_nat i"
  using assms unfolding kern_ok_def by blast

lemma kern_ok_upd_task [keeps]: "tame f \<Longrightarrow> kern_ok k \<Longrightarrow> kern_ok (upd_task t f k)"
proof -
  assume f: "tame f" and k: "kern_ok k"
  show ?thesis
  proof (cases "k_tasks k t")
    case None
    have "calm k (kbad k)" by (simp add: calm_def kbad_def slot_task_def fun_eq_iff)
    then show ?thesis using None kern_ok_calm[OF k] by (simp add: upd_task_def)
  next
    case (Some x)
    let ?k = "k\<lparr>k_tasks := (k_tasks k)(t \<mapsto> f x)\<rparr>"
    have slot: "slot_task ?k = slot_task k" by (simp add: slot_task_def fun_eq_iff)
    have fx: "t_pid (f x) = t_pid x" "mask_ok (f x)"
      using f kern_ok_task(1)[OF k Some] by (simp_all add: tame_def)
    have "mask_ok y \<and> u < k_next k \<and> unat (t_pid y) \<le> MAX_PID \<and> slot_task k (unat (t_pid y)) = Some u"
      if "k_tasks ?k u = Some y" for u y
      using that fx kern_ok_task[OF k Some] kern_ok_task[OF k, of u y] by (cases "u = t") auto
    moreover have "\<exists>y. k_tasks ?k u = Some y \<and> t_pid y = of_nat i" if i: "i \<le> MAX_PID" "slot_task k i = Some u" for i u
    proof -
      obtain y where "k_tasks k u = Some y" "t_pid y = of_nat i" using kern_ok_slot[OF k i] by blast
      then show ?thesis using fx Some by auto
    qed
    ultimately show ?thesis
      by (simp add: upd_task_def Some kern_ok_def slot)
  qed
qed

lemma kern_ok_unique:
  assumes "kern_ok k" "k_tasks k t = Some x" "k_tasks k u = Some y" "t_pid x = t_pid y"
  shows "t = u"
  using assms unfolding kern_ok_def by (metis option.inject)

subsection \<open>Operations that leave the tasks alone\<close>

lemma slot_task_updates [simp]:
  "slot_task (kbad k) = slot_task k" "slot_task (kevent e k) = slot_task k"
  "slot_task (k\<lparr>k_vm := v\<rparr>) = slot_task k" "slot_task (k\<lparr>k_fds := fs\<rparr>) = slot_task k"
  "slot_task (k\<lparr>k_groups := gs\<rparr>) = slot_task k" "slot_task (k\<lparr>k_fsinfos := fi\<rparr>) = slot_task k"
  "slot_task (k\<lparr>k_sighands := sh\<rparr>) = slot_task k" "slot_task (k\<lparr>k_ttys := ty\<rparr>) = slot_task k"
  "slot_task (k\<lparr>k_current := t\<rparr>) = slot_task k" "slot_task (k\<lparr>k_children := ch\<rparr>) = slot_task k"
  "slot_task (k\<lparr>k_cur_pid := cp\<rparr>) = slot_task k" "slot_task (k\<lparr>k_next := nx\<rparr>) = slot_task k"
  "slot_task (k\<lparr>k_usages := u\<rparr>) = slot_task k" "slot_task (k\<lparr>k_tasks := ts\<rparr>) = slot_task k"
  by (simp_all add: slot_task_def kbad_def kevent_def fun_eq_iff)

lemma calm_updates [calms]:
  "calm k (kbad k)" "calm k (kevent e k)" "calm k (upd_group g f k)" "calm k (upd_sighand h s k)"
  "calm k (k\<lparr>k_vm := v\<rparr>)" "calm k (k\<lparr>k_fds := fs\<rparr>)" "calm k (k\<lparr>k_groups := gs\<rparr>)"
  "calm k (k\<lparr>k_fsinfos := fi\<rparr>)" "calm k (k\<lparr>k_sighands := sh\<rparr>)" "calm k (k\<lparr>k_ttys := ty\<rparr>)"
  "calm k (k\<lparr>k_current := t\<rparr>)" "calm k (k\<lparr>k_children := ch\<rparr>)" "calm k (k\<lparr>k_cur_pid := cp\<rparr>)"
  "calm k (k\<lparr>k_next := Suc (k_next k)\<rparr>)" "calm k (k\<lparr>k_usages := u\<rparr>)"
  by (simp_all add: calm_def upd_group_def upd_sighand_def split: option.splits)
    (simp_all add: kbad_def kevent_def)

lemma calm_upd_pid [calms]: "(\<And>p. p_task (f p) = p_task p) \<Longrightarrow> calm k (upd_pid i f k)"
  by (auto simp: calm_def upd_pid_def slot_task_def)

lemma calm_all_pids [calms]: "(\<And>p. p_task (f p) = p_task p) \<Longrightarrow> calm k (all_pids f k)"
  by (auto simp: calm_def all_pids_def slot_task_def)

lemma calm_kmalloc [calms]: "calm k (snd (kmalloc k))"
  by (simp add: kmalloc_def calms split: prod.split)

lemma calm_on_vm [calms]: "calm k (snd (on_vm f k))"
  by (simp add: on_vm_def calms split: prod.split)

lemma calm_on_fds [calms]: "calm k (snd (on_fds f k))" "calm k (do_fds h k)"
  by (simp_all add: on_fds_def do_fds_def calms split: prod.split)

lemma calm_user [calms]: "calm k (snd (kget a n k))" "calm k (snd (kput a ws k))"
  by (simp_all add: kget_def kput_def calms)

lemma calm_groups [calms]: "calm k (remove_pgroup g k)" "calm k (remove_session g k)" "calm k (join_groups o' g k)"
  by (simp_all add: remove_pgroup_def remove_session_def join_groups_def Let_def calms
      calm_trans[OF calm_all_pids calm_updates(1)])

lemma calm_sighands [calms]:
  "calm k (snd (sighand_new k))" "calm k (sighand_release h k)"
proof -
  obtain b k1 where m: "kmalloc k = (b, k1)" by (cases "kmalloc k")
  then have "calm k k1" using calm_kmalloc[of k] by simp
  then show "calm k (snd (sighand_new k))"
    by (auto simp: sighand_new_def m Let_def calm_def split: bool.splits)
  show "calm k (sighand_release h k)"
    by (simp add: sighand_release_def calms split: option.split)
qed

lemma calm_sighand_copy [calms]: "calm k (snd (sighand_copy h k))"
proof -
  obtain r k1 where n: "sighand_new k = (r, k1)" by (cases "sighand_new k")
  then have "calm k k1" using calm_sighands(1)[of k] by simp
  then show ?thesis
    by (simp add: sighand_copy_def n calm_trans[OF _ calm_updates(1)] calm_trans[OF _ calm_updates(4)] split: option.split)
qed

lemma calm_do_sigaction [calms]: "calm k (snd (do_sigaction sig a k))"
  by (simp add: do_sigaction_def calms split: option.split)

lemma calm_fs_info [calms]: "calm k (fs_info_release f k)" "calm k (snd (fs_info_copy f k))"
proof -
  show "calm k (fs_info_release f k)"
    by (simp add: fs_info_release_def Let_def calms calm_trans[OF calm_trans[OF calm_on_fds(1) calm_on_fds(1)] calm_updates(8)]
        split: option.split)
  obtain b k1 where m: "kmalloc k = (b, k1)" by (cases "kmalloc k")
  then have c: "calm k k1" using calm_kmalloc[of k] by simp
  have "calm k1 (k1\<lparr>k_next := Suc (k_next k1), k_fsinfos := fi\<rparr>)" for fi
    by (simp add: calm_def slot_task_def fun_eq_iff)
  then show "calm k (snd (fs_info_copy f k))"
    by (simp add: fs_info_copy_def m Let_def c calm_trans[OF c calm_updates(1)]
        calm_trans[OF c calm_trans[OF _ calm_trans[OF calm_on_fds(2) calm_on_fds(2)]]] split: bool.split option.split)
qed

lemma calm_tgroup_copy [calms]: "calm k (snd (tgroup_copy g k))"
proof -
  have c: "calm k (join_groups g h (k\<lparr>k_next := Suc (k_next k), k_groups := gs\<rparr>))" for h gs
    by (rule calm_trans[OF _ calm_groups(3)]) (simp add: calm_def slot_task_def fun_eq_iff)
  show ?thesis
    by (simp add: tgroup_copy_def Let_def c calm_trans[OF c calm_updates(10)]
        calm_trans[OF calm_updates(14) calm_updates(1)] split: option.split)
qed

lemma calm_rusage [calms]: "calm k (snd (rusage_get_current k))" "calm k (snd (put_rusage a r k))"
proof -
  obtain e k1 where p: "kput a (dwords_of_rusage r) k = (e, k1)" by (cases "kput a (dwords_of_rusage r) k")
  then show "calm k (snd (put_rusage a r k))"
    using calm_user(2)[of k a "dwords_of_rusage r"] by (simp add: put_rusage_def)
qed (simp add: rusage_get_current_def calms)

lemma calm_move_to_group [calms]: "calm k (move_to_group i g p k)"
  unfolding move_to_group_def Let_def
  by (rule calm_trans[OF calm_trans[OF calm_groups(1) calm_updates(3)] calm_upd_pid]) simp

lemma calm_setpgid_task [calms]: "calm k (snd (setpgid_task i t nr pgid k))"
proof (cases "k_groups k (t_group (get_task t k))")
  case None
  then show ?thesis by (simp add: setpgid_task_def Let_def calms)
next
  case (Some tg)
  have "calm k (snd (if a then (EPERM, k) else if b then (ESRCH, k) else if c then (EPERM, k)
      else (0, if d then move_to_group i g pgid k else k)))" for a b c d g
    by (simp add: calms)
  then show ?thesis unfolding setpgid_task_def Let_def Some option.case .
qed

lemma calm_setpgid [calms]: "calm k (snd (sys_setpgid nr pgid k))"
proof -
  have "calm k (snd (case pid_get a k of None \<Rightarrow> (0, kbad k)
      | Some i \<Rightarrow> (case p_task (k_pids k i) of None \<Rightarrow> (ESRCH, k) | Some t \<Rightarrow> setpgid_task i t a b k)))" for a b
    by (simp add: calms split: option.split)
  then show ?thesis unfolding sys_setpgid_def Let_def .
qed

lemma calm_setsid [calms]: "calm k (snd (sys_setsid k))"
proof -
  have "calm k (upd_group g f (upd_pid i (\<lambda>p. p\<lparr>p_session := g # p_session p, p_pgroup := g # p_pgroup p\<rparr>)
      (all_pids (\<lambda>p. p\<lparr>p_session := remove1 g (p_session p), p_pgroup := remove1 g (p_pgroup p)\<rparr>) k)))"
    for g f i
    by (rule calm_trans[OF calm_trans[OF calm_all_pids calm_upd_pid] calm_updates(3)]) simp_all
  then show ?thesis
    by (simp add: sys_setsid_def Let_def calms split: option.split)
qed

subsection \<open>Signals\<close>

lemma calm_keeps: "calm k k' \<Longrightarrow> kern_ok k \<Longrightarrow> kern_ok k'"
  by (rule kern_ok_calm)

lemma mask_okI: "(\<And>n. bit (t_queued x) n \<Longrightarrow> bit (t_blocked x) n) \<Longrightarrow> mask_ok x"
  unfolding mask_ok_def by (rule bit_eqI) (auto simp: bit_and_iff bit_not_iff)

lemma mask_okD: "mask_ok x \<Longrightarrow> bit (t_queued x) n \<Longrightarrow> bit (t_blocked x) n"
proof -
  assume "mask_ok x" "bit (t_queued x) n"
  moreover from this(1) have "\<not> bit (t_queued x AND NOT (t_blocked x)) n" by (simp add: mask_ok_def)
  ultimately show ?thesis by (auto simp: bit_and_iff bit_not_iff dest: bit_imp_le_length)
qed

lemma bit_sigbit: "n < 64 \<Longrightarrow> bit (sigbit sig) n \<longleftrightarrow> n = sig"
  by (auto simp: sigbit_def bit_push_bit_iff bit_1_iff simp del: push_bit_of_1)

lemma sigbit_nonzero: "sig < 64 \<Longrightarrow> b AND sigbit sig \<noteq> 0 \<longleftrightarrow> bit b sig"
  by (metis and_exp_eq_0_iff_not_bit push_bit_of_1 sigbit_def)

lemma tame_updates [simp]:
  "tame (\<lambda>x. x\<lparr>t_pending := p x\<rparr>)" "tame (\<lambda>x. x\<lparr>t_cpu := c x\<rparr>)" "tame (\<lambda>x. x\<lparr>t_creds := cr x\<rparr>)"
  "tame (\<lambda>x. x\<lparr>t_mem := m x\<rparr>)" "tame (\<lambda>x. x\<lparr>t_files := fl x\<rparr>)" "tame (\<lambda>x. x\<lparr>t_fs := fs x\<rparr>)"
  "tame (\<lambda>x. x\<lparr>t_sighand := sh x\<rparr>)" "tame (\<lambda>x. x\<lparr>t_group := g x, t_tgid := tg x\<rparr>)"
  "tame (\<lambda>x. x\<lparr>t_vfork_done := vd x, t_cpu := c x\<rparr>)" "tame (\<lambda>x. x\<lparr>t_vfork_done := vd x\<rparr>)"
  "tame (\<lambda>x. x\<lparr>t_parent := pa x\<rparr>)" "tame (\<lambda>x. x\<lparr>t_exit_code := ec x\<rparr>)" "tame (\<lambda>x. x\<lparr>t_zombie := z x\<rparr>)"
  "tame (\<lambda>x. x\<lparr>t_clear_tid := ct x\<rparr>)" "tame (\<lambda>x. x\<lparr>t_exit_signal := es x, t_clear_tid := ct x\<rparr>)"
  by (simp_all add: tame_def mask_ok_def)

lemma tame_change_mask [simp]: "tame (change_mask new)"
  unfolding tame_def
proof (intro allI conjI impI)
  fix x
  show "t_pid (change_mask new x) = t_pid x" by (simp add: change_mask_def Let_def)
  assume "mask_ok x"
  then show "mask_ok (change_mask new x)"
    by (intro mask_okI)
      (auto simp: change_mask_def Let_def bit_and_iff bit_or_iff bit_not_iff dest: mask_okD)
qed

lemma tame_call_handler [simp]: "tame (call_handler sig h sp)"
  unfolding tame_def
proof (intro allI conjI impI)
  fix x
  show "t_pid (call_handler sig h sp x) = t_pid x" by (simp add: call_handler_def Let_def)
  assume "mask_ok x"
  then show "mask_ok (call_handler sig h sp x)"
    by (intro mask_okI) (auto simp: call_handler_def Let_def bit_or_iff dest: mask_okD)
qed

lemma ok_deliver [keeps]: "kern_ok k \<Longrightarrow> kern_ok (deliver_signal t sig k)"
  by (simp add: deliver_signal_def Let_def kern_ok_upd_task kern_ok_calm[OF _ calm_updates(2)])

text \<open>A signal is queued only if the task that it is sent to blocks it.\<close>

lemma ok_queue:
  assumes k: "kern_ok k" and x: "k_tasks k t = Some x" "t_blocked x AND sigbit sig \<noteq> 0" "sig < 64"
  shows "kern_ok (upd_task t (\<lambda>x. x\<lparr>t_queued := t_queued x OR sigbit sig\<rparr>) k)"
proof -
  let ?f = "\<lambda>y. if y = x then x\<lparr>t_queued := t_queued x OR sigbit sig\<rparr> else y"
  have b: "bit (t_blocked x) sig" using x(2,3) sigbit_nonzero by blast
  have "mask_ok (x\<lparr>t_queued := t_queued x OR sigbit sig\<rparr>)" if "mask_ok x"
  proof (rule mask_okI)
    fix n
    assume n: "bit (t_queued (x\<lparr>t_queued := t_queued x OR sigbit sig\<rparr>)) n"
    then have "n < 64" using bit_imp_le_length[of "t_queued x OR sigbit sig" n] by simp
    then show "bit (t_blocked (x\<lparr>t_queued := t_queued x OR sigbit sig\<rparr>)) n"
      using n b mask_okD[OF that] bit_sigbit by (auto simp: bit_or_iff)
  qed
  then have "tame ?f" by (simp add: tame_def)
  from kern_ok_upd_task[OF this k, of t] show ?thesis using x(1) by (simp add: upd_task_def)
qed

lemma ok_send [keeps]: "kern_ok k \<Longrightarrow> kern_ok (send_signal t sig k)"
  by (simp add: send_signal_def ok_deliver ok_queue kern_ok_calm[OF _ calm_updates(1)] split: option.split)

lemma ok_fold: "(\<And>x k. kern_ok k \<Longrightarrow> kern_ok (f x k)) \<Longrightarrow> kern_ok k \<Longrightarrow> kern_ok (fold f xs k)"
  by (rule fold_invariant)

lemma ok_leader [keeps]: "kern_ok k \<Longrightarrow> kern_ok (signal_leader sig g k)"
  by (simp add: signal_leader_def ok_send kern_ok_calm[OF _ calm_updates(1)] split: option.split)

lemma ok_group_signal [keeps]: "kern_ok k \<Longrightarrow> kern_ok (snd (send_group_signal pgid sig k))"
  by (simp add: send_group_signal_def ok_fold ok_leader split: option.split)

lemma ok_kill [keeps]: "kern_ok k \<Longrightarrow> kern_ok (snd (sys_kill pid sig k))"
  by (simp add: sys_kill_def Let_def ok_group_signal ok_send kern_ok_calm[OF _ calm_updates(1)] split: option.split)

lemma ok_procmask [keeps]: "kern_ok k \<Longrightarrow> kern_ok (snd (do_sigprocmask how sigs k))"
  by (simp add: do_sigprocmask_def Let_def kern_ok_upd_task split: option.split)

subsection \<open>Tasks that come and go\<close>

lemma find_pid_empty: "find_pid n c0 k = Some i \<Longrightarrow> i \<le> MAX_PID \<and> pid_empty (k_pids k i)"
  by (induction n arbitrary: c0) (auto simp: Let_def split: if_splits)

lemma get_task_mask: "kern_ok k \<Longrightarrow> mask_ok (get_task t k)"
  by (auto simp: get_task_def zero_task_def mask_ok_def dest: kern_ok_task(1) split: option.splits)

lemma ok_new_task:
  assumes k: "kern_ok k" and i: "i \<le> MAX_PID" "slot_task k i = None"
    and x: "mask_ok x" "t_pid x = of_nat i"
    and k': "k_tasks k' = (k_tasks k)(k_next k \<mapsto> x)" "k_next k' = Suc (k_next k)"
      "slot_task k' = (slot_task k)(i \<mapsto> k_next k)"
  shows "kern_ok k'"
proof -
  have pid: "unat (t_pid x) = i" using i x by (simp add: unat_of_nat_dword)
  have "mask_ok y \<and> u < k_next k' \<and> unat (t_pid y) \<le> MAX_PID \<and> slot_task k' (unat (t_pid y)) = Some u"
    if u: "k_tasks k' u = Some y" for u y
  proof (cases "u = k_next k")
    case True
    then show ?thesis using u k' x pid i by simp
  next
    case False
    then have "k_tasks k u = Some y" using u k' by simp
    from kern_ok_task[OF k this] show ?thesis using i k' by auto
  qed
  moreover have "\<exists>y. k_tasks k' u = Some y \<and> t_pid y = of_nat j" if j: "j \<le> MAX_PID" "slot_task k' j = Some u" for j u
  proof (cases "j = i")
    case True
    then show ?thesis using j k' x by simp
  next
    case False
    then obtain y where "k_tasks k u = Some y" "t_pid y = of_nat j"
      using j k' kern_ok_slot[OF k j(1)] by (metis fun_upd_other)
    then show ?thesis using k' kern_ok_task(2)[OF k] by auto
  qed
  ultimately show ?thesis unfolding kern_ok_def by blast
qed

lemma ok_task_create [keeps]: "kern_ok k \<Longrightarrow> kern_ok (snd (task_create parent k))"
proof (cases "find_pid 1025 (k_cur_pid k) k")
  case None
  assume "kern_ok k"
  then show ?thesis using None kern_ok_calm[OF _ calm_updates(1)] by (simp add: task_create_def)
next
  case (Some i)
  assume k: "kern_ok k"
  define k1 where "k1 = upd_pid i (\<lambda>p. p\<lparr>p_session := [], p_pgroup := []\<rparr>) (k\<lparr>k_cur_pid := i\<rparr>)"
  obtain b k2 where m: "kmalloc k1 = (b, k2)" by (cases "kmalloc k1")
  have c: "calm k k1" unfolding k1_def by (rule calm_trans[OF calm_updates(13) calm_upd_pid]) simp
  moreover have "calm k1 k2" using calm_kmalloc[of k1] m by simp
  ultimately have k2: "kern_ok k2" and same: "slot_task k2 = slot_task k"
    using kern_ok_calm[OF k calm_trans] by (simp_all add: calm_def)
  have i: "i \<le> MAX_PID" "slot_task k2 i = None"
    using find_pid_empty[OF Some] same by (simp_all add: slot_task_def pid_empty_def)
  have slot: "slot_task (upd_pid i (\<lambda>p. p\<lparr>p_task := Some t\<rparr>) k') = (slot_task k')(i \<mapsto> t)" for t k'
    by (auto simp: slot_task_def upd_pid_def fun_eq_iff)
  have upd: "k_tasks (upd_pid i f k') = k_tasks k'" "k_next (upd_pid i f k') = k_next k'" for f k'
    by (simp_all add: upd_pid_def)
  have new: "kern_ok (upd_pid i (\<lambda>p. p\<lparr>p_task := Some (k_next k2)\<rparr>) (k2\<lparr>k_next := Suc (k_next k2),
      k_tasks := (k_tasks k2)(k_next k2 \<mapsto> x), k_children := ch\<rparr>))" (is "kern_ok (?new x ch)")
    if "mask_ok x" "t_pid x = of_nat i" for x ch
    by (rule ok_new_task[OF k2 i that]) (simp_all add: slot upd)
  have mask: "mask_ok (get_task p k2\<lparr>t_pid := q, t_did_exec := r, t_parent := u\<rparr>)"
    "mask_ok (zero_task\<lparr>t_pid := q, t_did_exec := r\<rparr>)" for p q r u
    using get_task_mask[OF k2, of p] by (simp_all add: zero_task_def mask_ok_def)
  have "kern_ok (snd (if b then (Some (k_next k2), case parent of
        None \<Rightarrow> ?new (zero_task\<lparr>t_pid := of_nat i, t_did_exec := False\<rparr>) ch
      | Some p \<Rightarrow> (?new (get_task p k2\<lparr>t_pid := of_nat i, t_did_exec := False, t_parent := Some p\<rparr>) ch)
          \<lparr>k_children := ch' p\<rparr>) else (None, k2)))" for ch ch'
    using new mask k2 by (simp add: kern_ok_calm[OF _ calm_updates(12)] split: option.split)
  then show ?thesis
    by (cases parent; cases b) (simp_all add: task_create_def Some m Let_def flip: k1_def)
qed

lemma calm_unlink [calms]: "calm k (unlink_child p t k)"
  unfolding unlink_child_def Let_def
  by (simp add: calms calm_trans[OF calm_updates(12) calm_updates(1)])

lemma ok_task_destroy [keeps]: "kern_ok k \<Longrightarrow> kern_ok (task_destroy t k)"
proof (cases "k_tasks k t")
  case None
  assume "kern_ok k"
  then show ?thesis using None kern_ok_calm[OF _ calm_updates(1)] by (simp add: task_destroy_def)
next
  case (Some x)
  assume k: "kern_ok k"
  define k1 where "k1 = (case child_owner t k of None \<Rightarrow> k | Some p \<Rightarrow> unlink_child p t k)"
  have c: "calm k k1" by (simp add: k1_def calms split: option.split)
  then have k1: "kern_ok k1" "k_tasks k1 t = Some x" using k Some kern_ok_calm by (auto simp: calm_def)
  note x = kern_ok_task[OF k1]
  have "pid_get (t_pid x) k1 = Some (unat (t_pid x))"
  proof -
    have "p_task (k_pids k1 (unat (t_pid x))) = Some t" using x(4) by (simp add: slot_task_def)
    then show ?thesis using x(3) by (auto simp: pid_get_def pid_empty_def word_less_nat_alt)
  qed
  then have d: "task_destroy t k = (upd_pid (unat (t_pid x)) (\<lambda>p. p\<lparr>p_task := None\<rparr>) k1)\<lparr>k_tasks := (k_tasks k1)(t := None)\<rparr>"
    using Some by (simp add: task_destroy_def Let_def upd_pid_def flip: k1_def)
  let ?k = "task_destroy t k"
  have f: "k_tasks ?k = (k_tasks k1)(t := None)" "k_next ?k = k_next k1"
    "slot_task ?k = (slot_task k1)(unat (t_pid x) := None)"
    by (auto simp: d upd_pid_def slot_task_def fun_eq_iff)
  have "slot_task ?k (unat (t_pid y)) = Some u" if "k_tasks k1 u = Some y" "u \<noteq> t" for u y
    using that kern_ok_task[OF k1(1)] x(4) f by (metis fun_upd_other option.inject)
  moreover have "\<exists>y. k_tasks ?k u = Some y \<and> t_pid y = of_nat i" if i: "i \<le> MAX_PID" "slot_task ?k i = Some u" for i u
  proof -
    have n: "i \<noteq> unat (t_pid x)" "slot_task k1 i = Some u" using i f by (auto split: if_splits)
    obtain y where y: "k_tasks k1 u = Some y" "t_pid y = of_nat i" using kern_ok_slot[OF k1(1) i(1) n(2)] by blast
    then have "u \<noteq> t" using k1(2) n(1) i(1) by (auto simp: unat_of_nat_dword)
    then show ?thesis using y f by simp
  qed
  ultimately show ?thesis
    using kern_ok_task[OF k1(1)] unfolding kern_ok_def f(1,2) by (auto split: if_splits)
qed

subsection \<open>The invariant through the control flow\<close>

lemma ok_cases [keeps]:
  "(b \<Longrightarrow> kern_ok k) \<Longrightarrow> (\<not> b \<Longrightarrow> kern_ok k') \<Longrightarrow> kern_ok (if b then k else k')"
  "kern_ok k \<Longrightarrow> (\<And>x. kern_ok (f x)) \<Longrightarrow> kern_ok (case q of None \<Rightarrow> k | Some x \<Rightarrow> f x)"
  "kern_ok (snd p) \<Longrightarrow> (\<And>a k. kern_ok k \<Longrightarrow> kern_ok (g a k)) \<Longrightarrow> kern_ok (case p of (a, k) \<Rightarrow> g a k)"
  "kern_ok k \<Longrightarrow> (\<And>k. kern_ok k \<Longrightarrow> kern_ok (h k)) \<Longrightarrow> kern_ok (let k = k in h k)"
  by (auto split: option.splits prod.splits)

lemma ok_snd_cases [keeps]:
  "(b \<Longrightarrow> kern_ok (snd q)) \<Longrightarrow> (\<not> b \<Longrightarrow> kern_ok (snd q')) \<Longrightarrow> kern_ok (snd (if b then q else q'))"
  "kern_ok (snd q) \<Longrightarrow> (\<And>x. kern_ok (snd (f x))) \<Longrightarrow> kern_ok (snd (case r of None \<Rightarrow> q | Some x \<Rightarrow> f x))"
  "kern_ok (snd p) \<Longrightarrow> (\<And>a k. kern_ok k \<Longrightarrow> kern_ok (snd (g a k))) \<Longrightarrow>
    kern_ok (snd (case p of (a, k) \<Rightarrow> g a k))"
  "(\<And>x. kern_ok (snd (fi x))) \<Longrightarrow> (\<And>x. kern_ok (snd (fr x))) \<Longrightarrow>
    kern_ok (snd (case t of Inl x \<Rightarrow> fi x | Inr x \<Rightarrow> fr x))"
  "kern_ok k \<Longrightarrow> (\<And>k. kern_ok k \<Longrightarrow> kern_ok (snd (h k))) \<Longrightarrow> kern_ok (snd (let k = k in h k))"
  "kern_ok k \<Longrightarrow> kern_ok (snd (a, k))"
  by (auto split: option.splits prod.splits sum.splits)

text \<open>Local variables that are not the state.\<close>

lemma ok_lets [keeps]:
  "(\<And>x. kern_ok (snd (h1 x))) \<Longrightarrow> kern_ok (snd (let x = (e1 :: dword_t list) in h1 x))"
  "(\<And>x. kern_ok (snd (h2 x))) \<Longrightarrow> kern_ok (snd (let x = (e2 :: nat) in h2 x))"
  "(\<And>x. kern_ok (snd (h3 x))) \<Longrightarrow> kern_ok (snd (let x = (e3 :: task) in h3 x))"
  "(\<And>x. kern_ok (snd (h4 x))) \<Longrightarrow> kern_ok (snd (let x = (e4 :: dword_t) in h4 x))"
  "(\<And>x. kern_ok (f2 x)) \<Longrightarrow> kern_ok (let x = (e2 :: nat) in f2 x)"
  "(\<And>x. kern_ok (f3 x)) \<Longrightarrow> kern_ok (let x = (e3 :: task) in f3 x)"
  "(\<And>x. kern_ok (f4 x)) \<Longrightarrow> kern_ok (let x = (e4 :: dword_t) in f4 x)"
  "(\<And>x. kern_ok (f5 x)) \<Longrightarrow> kern_ok (let x = (e5 :: mem) in f5 x)"
  "(\<And>x. kern_ok (f6 x)) \<Longrightarrow> kern_ok (let x = (e6 :: vm) in f6 x)"
  "(\<And>x. kern_ok (f7 x)) \<Longrightarrow> kern_ok (let x = (e7 :: bool) in f7 x)"
  "(\<And>x. kern_ok (f8 x)) \<Longrightarrow> kern_ok (let x = (e8 :: nat option) in f8 x)"
  "(\<And>x. kern_ok (f9 x)) \<Longrightarrow> kern_ok (let x = (e9 :: nat list) in f9 x)"
  "(\<And>x. kern_ok (snd (ha x))) \<Longrightarrow> kern_ok (snd (let x = (ea :: sigframe) in ha x))"
  by simp_all

lemmas ok_calm [keeps] =
  calm_updates [THEN calm_keeps] calm_upd_pid [THEN calm_keeps] calm_all_pids [THEN calm_keeps]
  calm_kmalloc [THEN calm_keeps] calm_on_vm [THEN calm_keeps] calm_on_fds [THEN calm_keeps]
  calm_user [THEN calm_keeps] calm_groups [THEN calm_keeps] calm_sighands [THEN calm_keeps]
  calm_sighand_copy [THEN calm_keeps] calm_do_sigaction [THEN calm_keeps] calm_fs_info [THEN calm_keeps]
  calm_tgroup_copy [THEN calm_keeps] calm_rusage [THEN calm_keeps] calm_setpgid [THEN calm_keeps]
  calm_setsid [THEN calm_keeps]

lemmas tame_all [keeps] = tame_updates tame_change_mask tame_call_handler

subsection \<open>Clone\<close>

lemma ok_thread_area [keeps]: "kern_ok k \<Longrightarrow> kern_ok (snd (task_set_thread_area t u k))"
  unfolding task_set_thread_area_def by (intro keeps | assumption)+

lemma ok_copies [keeps]:
  assumes "kern_ok k"
  shows "kern_ok (copy_mem t flags k)" "kern_ok (snd (copy_files t flags k))"
    "kern_ok (snd (copy_fs t flags k))" "kern_ok (snd (copy_sighand t flags k))"
    "kern_ok (copy_group t flags k)"
  unfolding copy_mem_def copy_files_def copy_fs_def copy_sighand_def copy_group_def Let_def
  by (intro keeps assms | assumption)+

lemma ok_copy_ids [keeps]: "kern_ok k \<Longrightarrow> kern_ok (snd (copy_ids t flags p tls c k))"
  unfolding copy_ids_def by (intro keeps | assumption)+

lemma ok_fails [keeps]:
  assumes "kern_ok k"
  shows "kern_ok (fail_free_mem t k)" "kern_ok (fail_free_files t k)" "kern_ok (fail_free_fs t k)"
    "kern_ok (fail_free_sighand t k)"
  unfolding fail_free_mem_def fail_free_files_def fail_free_fs_def fail_free_sighand_def
  by (intro keeps assms)+

lemma ok_copy_task [keeps]: "kern_ok k \<Longrightarrow> kern_ok (snd (copy_task t flags st p tls c k))"
proof -
  assume "kern_ok k"
  have b: "kern_ok (snd (case r of (True, k) \<Rightarrow> ft k | (False, k) \<Rightarrow> ff k))"
    if "kern_ok (snd r)" "\<And>k. kern_ok k \<Longrightarrow> kern_ok (snd (ft k))" "\<And>k. kern_ok k \<Longrightarrow> kern_ok (snd (ff k))"
    for r :: "bool \<times> kern" and ft ff :: "kern \<Rightarrow> int \<times> kern"
    using that by (auto split: prod.splits bool.splits)
  show ?thesis unfolding copy_task_def by (intro keeps b | fact | assumption)+
qed

lemma ok_wait_vfork:
  "wait_vfork t others k = Some k' \<Longrightarrow> kern_ok k \<Longrightarrow>
    (\<And>f k. f \<in> set others \<Longrightarrow> kern_ok k \<Longrightarrow> kern_ok (f k)) \<Longrightarrow> kern_ok k'"
  by (induction t others k rule: wait_vfork.induct) (auto split: if_splits)

lemma ok_sys_clone:
  assumes k: "kern_ok k" and others: "\<And>f k. f \<in> set others \<Longrightarrow> kern_ok k \<Longrightarrow> kern_ok (f k)"
    and r: "sys_clone others flags st p tls c k = Some (r, k')"
  shows "kern_ok k'"
proof -
  obtain t k1 where c: "task_create (Some (k_current k)) k = (t, k1)" by (cases "task_create (Some (k_current k)) k")
  have k1: "kern_ok k1" using ok_task_create[OF k, of "Some (k_current k)"] c by simp
  show ?thesis
  proof (cases t)
    case None
    then show ?thesis using r k k1 by (auto simp: sys_clone_def c split: if_splits)
  next
    case (Some t')
    obtain e k2 where d: "copy_task t' flags st p tls c k1 = (e, k2)" by (cases "copy_task t' flags st p tls c k1")
    have k2: "kern_ok k2" using ok_copy_task[OF k1, of t' flags st p tls c] d by simp
    have k3: "kern_ok (task_start t' (upd_task t' (\<lambda>x. x\<lparr>t_cpu := (t_cpu x)
                 \<lparr>cpu_regs := (cpu_regs (t_cpu x))(reg_eax := 0)\<rparr>\<rparr>) k2))"
      unfolding task_start_def by (intro keeps k2)
    have "kern_ok k4" if "wait_vfork t' others (task_start t' (upd_task t' (\<lambda>x. x\<lparr>t_cpu := (t_cpu x)
                 \<lparr>cpu_regs := (cpu_regs (t_cpu x))(reg_eax := 0)\<rparr>\<rparr>) k2)) = Some k4" for k4
      by (rule ok_wait_vfork[OF that k3]) (rule others)
    then show ?thesis
      using r k ok_task_destroy[OF k2, of t'] k3 by (auto simp: sys_clone_def c Some d Let_def split: if_splits)
  qed
qed

subsection \<open>Exit, wait and delivery\<close>

lemma ok_exit_parts [keeps]:
  assumes "kern_ok k"
  shows "kern_ok (vfork_notify t k)" "kern_ok (snd (exit_tgroup t k))" "kern_ok (clear_tid_wake k)"
    "kern_ok (release_resources k)"
  unfolding vfork_notify_def exit_tgroup_def clear_tid_wake_def release_resources_def
  by (intro keeps assms | assumption)+

lemma ok_halt [keeps]: "kern_ok k \<Longrightarrow> kern_ok (halt_system st k)"
  unfolding halt_system_def by (intro keeps ok_fold | assumption)+

lemma ok_reparent [keeps]: "kern_ok k \<Longrightarrow> kern_ok (reparent_children t k)"
  unfolding reparent_children_def by (intro keeps ok_fold | assumption)+

lemma ok_notify_parent [keeps]: "kern_ok k \<Longrightarrow> kern_ok (notify_parent st l k)"
  unfolding notify_parent_def by (intro keeps | assumption)+

lemma ok_exit [keeps]:
  assumes "kern_ok k"
  shows "kern_ok (do_exit st k)" "kern_ok (do_exit_group st k)" "kern_ok (sys_exit st k)" "kern_ok (sys_exit_group st k)"
  unfolding sys_exit_def sys_exit_group_def do_exit_group_def do_exit_def
  by (intro keeps ok_fold assms | assumption)+

lemma ok_reap [keeps]: "kern_ok k \<Longrightarrow> kern_ok (snd (reap_if_zombie t st ru k))"
  unfolding reap_if_zombie_def by (intro keeps | assumption)+

lemma ok_wait_children [keeps]: "kern_ok k \<Longrightarrow> kern_ok (snd (snd (wait_children ts nr st ru k)))"
proof (induction ts arbitrary: nr k)
  case (Cons t ts)
  then show ?case
    using ok_reap[OF Cons.prems, of t st ru] by (auto split: prod.splits)
qed simp

lemma ok_wait_attempt [keeps]: "kern_ok k \<Longrightarrow> kern_ok (snd (wait_attempt nr st ru k))"
proof -
  assume k: "kern_ok k"
  have a: "kern_ok (snd (case wait_children ts nr' st ru k of (found, nr, k) \<Rightarrow> (if found then Found nr else Not_yet nr, k)))"
    for ts nr'
    using ok_wait_children[OF k, of ts nr' st ru] by (auto split: prod.splits)
  have b: "kern_ok (snd (case reap_if_zombie l st ru k of (r, k) \<Rightarrow> (if r \<noteq> 0 then Found nr else Not_yet nr, k)))" for l
    using ok_reap[OF k, of l st ru] by (auto split: prod.splits)
  show ?thesis unfolding wait_attempt_def by (intro a b keeps k)
qed

lemma ok_wait_loop:
  "wait_loop others nr st opt ru k = Some (r, k') \<Longrightarrow> kern_ok k \<Longrightarrow>
    (\<And>f k. f \<in> set others \<Longrightarrow> kern_ok k \<Longrightarrow> kern_ok (f k)) \<Longrightarrow> kern_ok k'"
proof (induction others arbitrary: nr k)
  case Nil
  then show ?case
    using ok_wait_attempt[OF Nil.prems(2), of nr st ru] by (auto split: prod.splits attempt.splits if_splits)
next
  case (Cons other others)
  obtain a k1 where w: "wait_attempt nr st ru k = (a, k1)" by (cases "wait_attempt nr st ru k")
  have k1: "kern_ok k1" using ok_wait_attempt[OF Cons.prems(2), of nr st ru] w by simp
  have k2: "kern_ok (other k1)" using Cons.prems(3) k1 by simp
  have ih: "wait_loop others nr' st opt ru (other k1) = Some (r, k') \<Longrightarrow> kern_ok k'" for nr'
    using Cons.IH[OF _ k2] Cons.prems(3) by simp
  show ?case
    using Cons.prems(1) k1 k2 ih by (auto simp: w Let_def split: attempt.splits if_splits)
qed

lemma ok_receive_signal [keeps]: "kern_ok k \<Longrightarrow> kern_ok (snd (receive_signal sig k))"
proof -
  assume "kern_ok k"
  have c: "kern_ok (snd (case e of SIGNAL_IGNORE \<Rightarrow> a | SIGNAL_KILL \<Rightarrow> b | SIGNAL_CALL_HANDLER \<Rightarrow> c))"
    if "kern_ok (snd a)" "kern_ok (snd b)" "kern_ok (snd c)" for e and a b c :: "bool \<times> kern"
    using that by (cases e) auto
  show ?thesis unfolding receive_signal_def by (intro keeps c | fact | assumption)+
qed

lemma ok_receive_loop: "kern_ok k \<Longrightarrow> kern_ok (snd (receive_loop sigs k))"
proof (induction sigs arbitrary: k)
  case (Cons sig sigs)
  then show ?case using ok_receive_signal[OF Cons.prems, of sig] by (auto split: prod.splits)
qed simp

lemma ok_receive_signals [keeps]: "kern_ok k \<Longrightarrow> kern_ok (snd (receive_signals k))"
  by (simp add: receive_signals_def ok_receive_loop)

lemma ok_sigreturn [keeps]: "kern_ok k \<Longrightarrow> kern_ok (snd (sys_rt_sigreturn k))"
  unfolding sys_rt_sigreturn_def by (intro keeps | assumption)+

lemma ok_rt_sigprocmask [keeps]: "kern_ok k \<Longrightarrow> kern_ok (snd (sys_rt_sigprocmask how a b sz k))"
  unfolding sys_rt_sigprocmask_def by (intro keeps | assumption)+

lemma ok_rt_sigaction [keeps]: "kern_ok k \<Longrightarrow> kern_ok (snd (sys_rt_sigaction sg a b sz k))"
  unfolding sys_rt_sigaction_def by (intro keeps | assumption)+

lemma ok_sigaltstack [keeps]: "kern_ok k \<Longrightarrow> kern_ok (snd (sys_sigaltstack a b k))"
  unfolding sys_sigaltstack_def by (intro keeps | assumption)+

end
