(* ===== verification/Kern_Steps.thy ===== *)
theory Kern_Steps
  imports Kern_Facts
begin

text \<open>
  The invariant of the kernel over every interrupt: each modelled system call
  keeps it, so \<open>handle_interrupt\<close> does when the calls that are not modelled and
  the other threads do, and with it every state that is reached from the first
  process. The step relation interleaves the tasks: any live task may be the
  current one when the next interrupt is handled.
\<close>

subsection \<open>Results\<close>

definition result_ok :: "call_result \<Rightarrow> bool" where
  "result_ok r = (case r of Returned _ k \<Rightarrow> kern_ok k | Ended k \<Rightarrow> kern_ok k | Asleep \<Rightarrow> True)"

definition world_ok :: "world \<Rightarrow> bool" where
  "world_ok w \<longleftrightarrow> (\<forall>f \<in> set (w_others w). \<forall>k. kern_ok k \<longrightarrow> kern_ok (f k)) \<and>
    (\<forall>name a k. kern_ok k \<longrightarrow> result_ok (w_rest w name a k))"

lemma result_ok_simps [simp]:
  "result_ok (Returned x k) = kern_ok k" "result_ok (Ended k) = kern_ok k" "result_ok Asleep"
  by (simp_all add: result_ok_def)

lemma result_calls [simp]:
  "result_ok (int_call r) = kern_ok (snd r)" "result_ok (dword_call s) = kern_ok (snd s)"
  by (simp_all add: int_call_def dword_call_def)

lemma result_waiting: "(\<And>x k'. r = Some (x, k') \<Longrightarrow> kern_ok k') \<Longrightarrow> result_ok (waiting r)"
  by (cases r) (auto simp: waiting_def)

subsection \<open>Calls\<close>

lemma ok_put_creds [keeps]: "kern_ok k \<Longrightarrow> kern_ok (put_creds c k)"
  unfolding put_creds_def by (intro keeps)

lemma result_cred_call: "kern_ok k \<Longrightarrow> result_ok (cred_call f k)"
  by (simp add: cred_call_def ok_put_creds split: prod.split)

lemma result_mem_call: "kern_ok k \<Longrightarrow> result_ok (mem_call f k)"
  by (simp add: mem_call_def keeps)

lemma result_ids:
  assumes "kern_ok k"
  shows "result_ok (ids_call f k)" "result_ok (getgroups_call sz a k)" "result_ok (setgroups_call sz a k)"
  using assms
  by (simp_all add: ids_call_def getgroups_call_def setgroups_call_def keeps split: option.split prod.split)

lemma ok_limits [keeps]:
  assumes "kern_ok k"
  shows "kern_ok (snd (rlimit_get t r k))" "kern_ok (rlimit_set t r l k)"
  unfolding rlimit_get_def rlimit_set_def using assms
  by (simp_all add: keeps split: option.split)

lemma ok_rlimits [keeps]:
  assumes "kern_ok k"
  shows "kern_ok (snd (sys_getrlimit r a k))" "kern_ok (snd (sys_setrlimit r a k))"
  unfolding sys_getrlimit_def sys_setrlimit_def by (intro keeps assms | assumption)+

lemma ok_prlimit [keeps]: "kern_ok k \<Longrightarrow> kern_ok (snd (sys_prlimit p r a b k))"
  unfolding sys_prlimit_def by (intro keeps | assumption)+

lemma ok_getrusage [keeps]: "kern_ok k \<Longrightarrow> kern_ok (snd (sys_getrusage who a k))"
  unfolding sys_getrusage_def by (intro keeps | assumption)+

lemma ok_getaffinity [keeps]: "kern_ok k \<Longrightarrow> kern_ok (snd (sys_sched_getaffinity n old p sz a k))"
  unfolding sys_sched_getaffinity_def Let_def by (intro keeps | assumption)+

lemma ok_ids [keeps]:
  assumes "kern_ok k"
  shows "kern_ok (snd (sys_getpgid nr k))" "kern_ok (snd (sys_getpgrp k))" "kern_ok (snd (sys_getsid k))"
    "kern_ok (snd (sys_set_tid_address a k))" "kern_ok (snd (sys_set_thread_area a k))"
    "kern_ok (snd (sys_tkill p sg k))"
  unfolding sys_getpgrp_def sys_getpgid_def sys_getsid_def sys_set_tid_address_def sys_set_thread_area_def
    sys_tkill_def
  by (intro keeps assms)+

text \<open>One conjunct for each call of the table that is modelled.\<close>

lemma result_known_calls:
  assumes w: "world_ok w" and k: "kern_ok k"
  shows "\<forall>(name, f) \<in> set (known_calls w). result_ok (f a k)"
proof -
  have o: "f \<in> set (w_others w) \<Longrightarrow> kern_ok k' \<Longrightarrow> kern_ok (f k')" for f k'
    using w by (auto simp: world_ok_def)
  have waits: "result_ok (waiting (sys_waitpid (w_others w) p st op k))"
    "result_ok (waiting (sys_wait4 (w_others w) p st op ru k))" for p st op ru
    using ok_wait_loop[OF _ k] o by (auto simp: sys_waitpid_def sys_wait4_def intro!: result_waiting)
  have clones: "result_ok (waiting (sys_clone (w_others w) fl st p tls c k))" "result_ok (waiting (sys_fork k))"
    "result_ok (waiting (sys_vfork (w_others w) k))" for fl st p tls c
    unfolding sys_fork_def sys_vfork_def
    by (rule result_waiting, erule ok_sys_clone[OF k, rotated], simp add: o)+
  note calls = waits clones result_cred_call[OF k] result_mem_call[OF k] result_ids[OF k]
    ok_exit ok_kill ok_ids ok_rlimits ok_prlimit ok_getrusage ok_getaffinity ok_sigreturn ok_rt_sigaction
    ok_rt_sigprocmask ok_sigaltstack ok_calm
  show ?thesis
    unfolding known_calls_def by (simp add: calls k)
qed

lemma result_call: "world_ok w \<Longrightarrow> kern_ok k \<Longrightarrow> result_ok (call w name a k)"
  using result_known_calls[of w k a]
  by (auto simp: call_def world_ok_def split: option.split dest: map_of_SomeD)

subsection \<open>Interrupts\<close>

lemma ok_set_eax [keeps]: "kern_ok k \<Longrightarrow> kern_ok (set_eax r k)"
  unfolding set_eax_def by (intro keeps)

lemma result_do_syscall:
  assumes w: "world_ok w" and k: "kern_ok k"
  shows "result_ok (do_syscall w k)"
proof -
  have s: "kern_ok (send_signal t SIGSYS (kevent Printed k))" for t by (intro keeps k)
  have "result_ok (case call w name a k of Returned r k \<Rightarrow> Returned r (set_eax r k) | Ended k \<Rightarrow> Ended k
      | Asleep \<Rightarrow> Asleep)" for name a
    using result_call[OF w k, of name a] by (auto simp: ok_set_eax split: call_result.splits)
  then show ?thesis by (simp add: do_syscall_def Let_def s keeps k split: option.split)
qed

lemma ok_print_code [keeps]: "kern_ok k \<Longrightarrow> kern_ok (print_code n a k)"
proof (induction n arbitrary: a k)
  case (Suc n)
  show ?case unfolding print_code.simps(2) by (intro keeps Suc.IH | fact | assumption)+
qed simp

lemma result_handle_interrupt:
  assumes w: "world_ok w" and k: "kern_ok k"
  shows "result_ok (handle_interrupt w n k)"
proof -
  have after: "result_ok (case r of Returned x k \<Rightarrow> (case receive_signals k of (True, k) \<Rightarrow> Returned x k | (False, k) \<Rightarrow> Ended k)
      | Ended k \<Rightarrow> Ended k | Asleep \<Rightarrow> Asleep)" if "result_ok r" for r
    using that by (cases r) (auto split: prod.splits bool.splits dest: ok_receive_signals)
  have "result_ok (do_syscall w k)" by (rule result_do_syscall[OF w k])
  moreover have "result_ok (Returned 0 (deliver_signal (k_current k) SIGSEGV (kevent Printed k)))"
    unfolding result_ok_simps by (intro keeps k)
  moreover have "result_ok (let k = print_code 8 (cpu_eip (t_cpu (cur_task k))) (kevent Printed k)
      in Returned 0 (deliver_signal (k_current k) SIGILL (kevent Printed k)))"
    unfolding result_ok_simps Let_def by (intro keeps k)
  moreover have "result_ok (Ended (sys_exit (word_of_int n) (kevent Printed k)))"
    unfolding result_ok_simps by (intro keeps k)
  ultimately show ?thesis unfolding handle_interrupt_def Let_def by (intro after) (simp add: k)
qed

subsection \<open>Runs\<close>

text \<open>A step is an interrupt handled for the current task, an instruction of the
guest, which changes only the CPU of the task and memory, or a switch to another
task.\<close>

inductive kstep :: "world \<Rightarrow> kern \<Rightarrow> kern \<Rightarrow> bool" for w where
  interrupt: "handle_interrupt w n k = Returned x k' \<Longrightarrow> kstep w k k'"
| thread_ends: "handle_interrupt w n k = Ended k' \<Longrightarrow> kstep w k k'"
| instruction: "kstep w k (upd_task (k_current k) (\<lambda>x. x\<lparr>t_cpu := c\<rparr>) (k\<lparr>k_vm := v\<rparr>))"
| switch: "k_tasks k t \<noteq> None \<Longrightarrow> kstep w k (k\<lparr>k_current := t\<rparr>)"

inductive_cases kstepE: "kstep w k k'"

lemma kstep_ok:
  assumes w: "world_ok w" and "kstep w k k'" and k: "kern_ok k"
  shows "kern_ok k'"
  using assms(2)
proof (cases rule: kstep.cases)
  case (interrupt n x)
  then show ?thesis using result_handle_interrupt[OF w k, of n] by simp
next
  case (thread_ends n)
  then show ?thesis using result_handle_interrupt[OF w k, of n] by simp
next
  case (instruction c v)
  show ?thesis unfolding instruction by (intro keeps k)
next
  case (switch t)
  show ?thesis unfolding switch by (intro keeps k)
qed

lemma ksteps_ok: "(kstep w)\<^sup>*\<^sup>* k k' \<Longrightarrow> world_ok w \<Longrightarrow> kern_ok k \<Longrightarrow> kern_ok k'"
  by (induction rule: rtranclp_induct) (auto intro: kstep_ok)

subsection \<open>The first process\<close>

definition empty_kern :: "kern \<Rightarrow> bool" where
  "empty_kern k \<longleftrightarrow> k_tasks k = (\<lambda>_. None) \<and> (\<forall>i. p_task (k_pids k i) = None)"

lemma empty_kern_ok: "empty_kern k \<Longrightarrow> kern_ok k"
  by (simp add: empty_kern_def kern_ok_def slot_task_def)

lemma ok_first_resources [keeps]:
  assumes "kern_ok k"
  shows "kern_ok (first_resources root t k)"
proof -
  have table: "kern_ok (case p of (r, fs) \<Rightarrow> g r fs)"
    if "\<And>r fs. kern_ok (g r fs)" for p :: "(int + nat) \<times> fds" and g
    using that by (cases p) simp
  have new: "kern_ok (case r of Inl _ \<Rightarrow> kbad k | Inr tb \<Rightarrow> upd_task t (\<lambda>x. x\<lparr>t_files := tb\<rparr>) k)"
    if "kern_ok k" for r :: "int + nat" and k
    using that by (simp add: keeps split: sum.split)
  have start: "kern_ok (k\<lparr>k_next := Suc (k_next k), k_fsinfos := fi\<rparr>)" for fi
    by (rule kern_ok_calm[OF assms]) (simp add: calm_def slot_task_def fun_eq_iff)
  show ?thesis
    unfolding first_resources_def Let_def by (intro keeps table new start | assumption)+
qed

lemma ok_create_first_process [keeps]:
  assumes "kern_ok k"
  shows "kern_ok (create_first_process root k)"
proof -
  have group: "kern_ok (k\<lparr>k_next := Suc (k_next k), k_groups := gs\<rparr>)" if "kern_ok k" for k gs
    by (rule kern_ok_calm[OF that]) (simp add: calm_def slot_task_def fun_eq_iff)
  show ?thesis
    unfolding create_first_process_def Let_def by (intro keeps group assms | assumption)+
qed

end
