(* ===== verification/Fork_Facts.thy ===== *)
theory Fork_Facts
  imports Kern_Facts
begin

text \<open>
  What \<open>fork\<close> makes: the steps of \<open>copy_task\<close> one by one, each with the member
  of the new task that it sets, and the child as a copy of its parent.
\<close>

subsection \<open>A new address space\<close>

lemma vm_pt_new_mem:
  assumes "vm_mems v n = None" "\<And>p. mem_pt mem p = None"
  shows "vm_pt (v\<lparr>vm_calls := c, vm_next := nx, vm_mems := (vm_mems v)(n \<mapsto> mem)\<rparr>) m q = vm_pt v m q"
  using assms by (auto simp: vm_pt_def)

lemma new_mem_facts:
  assumes v: "wf_vm v" "cow_ok v" "card (dom (vm_mems v)) < 4095" and host: "\<And>n. vm_host v n = None"
    and new: "mem_new v = (r, w)"
  shows "r = Some (vm_next v)" and "wf_vm w" and "cow_ok w" and "vm_mems w (vm_next v) \<noteq> None"
    and "vm_mems v (vm_next v) = None" and "vm_pt w m q = vm_pt v m q" and "guest w m a = guest v m a"
    and "vm_mems v m \<noteq> None \<Longrightarrow> vm_mems w m = vm_mems v m"
proof -
  let ?mem = "\<lparr>mem_refcount = 1, mem_changes = 0, mem_pgdir = (\<lambda>_. None), mem_pgdir_used = 0,
              mem_vdso = 0, mem_start_brk = 0, mem_brk = 0\<rparr>"
  let ?w = "v\<lparr>vm_calls := Suc (vm_calls v), vm_next := Suc (vm_next v),
              vm_mems := (vm_mems v)(vm_next v \<mapsto> ?mem)\<rparr>"
  have w: "r = Some (vm_next v)" "w = ?w"
    using new host by (simp_all add: mem_new_def host_call_def)
  show none: "vm_mems v (vm_next v) = None" using wf_vmD(5)[OF v(1)] by (simp add: fresh_def)
  have pt: "vm_pt w m q = vm_pt v m q" for m q
    unfolding w(2) by (rule vm_pt_new_mem[OF none]) (simp add: mem_pt_def)
  then show "vm_pt w m q = vm_pt v m q" .
  have refs: "refs w d = refs v d" for d by (rule refs_cong) (rule pt)
  have fin: "finite (dom (vm_mems v))" using wf_vmD(4)[OF v(1)] by (simp add: bounded_def)
  have "card (dom (vm_mems w)) \<le> Suc (card (dom (vm_mems v)))"
    using fin by (simp add: w card_insert_if)
  then show "wf_vm w"
    using v(1,3) fin by (auto simp: wf_vm_def counted_def backed_def entry_ok_def owned_def bounded_def fresh_def pt refs)
      (auto simp: w intro: less_SucI)
  show "cow_ok w" using v(2) by (simp add: cow_ok_def pt)
  show "r = Some (vm_next v)" "vm_mems w (vm_next v) \<noteq> None" by (simp_all add: w)
  show "guest w m a = guest v m a"
    unfolding guest_def page_ptr_def pt by (simp add: w entry_ptr_def host_load_def cong: option.case_cong)
  show "vm_mems v m \<noteq> None \<Longrightarrow> vm_mems w m = vm_mems v m" using none by (auto simp: w)
qed

text \<open>The pages that \<open>fork\<close> shares, seen from both sides.\<close>

lemma fork_pages:
  assumes "wf_vm v" "cow_ok v" "vm_mems v child \<noteq> None" "parent \<noteq> child" "\<And>a. guest v child a = None"
  defines "w \<equiv> snd (pt_copy_on_write parent 0 child 0 MEM_PAGES v)"
  shows "wf_vm w" "cow_ok w" "guest w m a = guest v (if m = child then parent else m) a"
proof -
  note f = pt_copy_on_write_facts[OF assms(1-4) in_space_all]
  show "wf_vm w" "cow_ok w" using f(1,2) by (simp_all add: w_def)
  show "guest w m a = guest v (if m = child then parent else m) a"
    using f(4)[of m a] guest_None_iff[OF assms(1), of parent a] set_page_range_all[OF PAGE_less, of a] assms(5)[of a]
    by (auto simp: w_def)
qed

subsection \<open>The steps\<close>

text \<open>\<open>moves t f k k'\<close>: nothing but the task \<open>t\<close> changes among the tasks, by \<open>f\<close>, and
neither the memory nor the current task do.\<close>

definition moves :: "nat \<Rightarrow> (task \<Rightarrow> task) \<Rightarrow> kern \<Rightarrow> kern \<Rightarrow> bool" where
  "moves t f k k' \<longleftrightarrow> k_tasks k' = (k_tasks k)(t := map_option f (k_tasks k t)) \<and>
     k_vm k' = k_vm k \<and> k_current k' = k_current k"

abbreviation quiet :: "kern \<Rightarrow> kern \<Rightarrow> bool" where
  "quiet k k' \<equiv> k_tasks k' = k_tasks k \<and> k_vm k' = k_vm k \<and> k_current k' = k_current k"

lemma moves_id: "quiet k k' \<Longrightarrow> moves t (\<lambda>x. x) k k'"
  by (auto simp: moves_def map_option.id[unfolded id_def])

lemma moves_upd_task: "moves t f k (upd_task t f k)"
  by (auto simp: moves_def upd_task_def kbad_def split: option.split)

lemma moves_trans: "moves t f k k1 \<Longrightarrow> moves t g k1 k2 \<Longrightarrow> moves t (\<lambda>x. g (f x)) k k2"
  by (auto simp: moves_def option.map_comp comp_def)

lemma moves_quiet: "moves t f k k1 \<Longrightarrow> quiet k1 k2 \<Longrightarrow> moves t f k k2" "quiet k k1 \<Longrightarrow> moves t f k1 k2 \<Longrightarrow> moves t f k k2"
  by (auto simp: moves_def)

lemma quiet_updates:
  "quiet k (kbad k)" "quiet k (kevent e k)" "quiet k (upd_group g gf k)" "quiet k (upd_sighand h hf k)"
  "quiet k (upd_pid i pf k)" "quiet k (all_pids pf k)" "quiet k (snd (kmalloc k))"
  "quiet k (snd (on_fds (ff :: fds \<Rightarrow> 'a \<times> fds) k))" "quiet k (do_fds df k)" "quiet k (join_groups old g k)"
  by (auto simp: kbad_def kevent_def upd_group_def upd_sighand_def upd_pid_def all_pids_def kmalloc_def on_fds_def
      do_fds_def join_groups_def Let_def split: option.splits prod.splits)

lemma quiet_sighand: "quiet k (snd (sighand_new k))" "quiet k (snd (sighand_copy h k))"
proof -
  show new: "quiet k (snd (sighand_new k))" for k
    using quiet_updates(7)[of k] by (auto simp: sighand_new_def Let_def split: prod.splits bool.splits)
  show "quiet k (snd (sighand_copy h k))"
    using new[of k] quiet_updates(1,4) by (auto simp: sighand_copy_def split: prod.splits option.splits)
qed

lemma quiet_fs_info: "quiet k (snd (fs_info_copy f k))"
  using quiet_updates(7)[of k] quiet_updates(1,9)
  by (auto simp: fs_info_copy_def Let_def split: prod.splits option.splits bool.splits)

lemma quiet_tgroup_copy: "quiet k (snd (tgroup_copy g k))"
  using quiet_updates(1,10) by (auto simp: tgroup_copy_def Let_def split: option.splits)

lemma copy_files_moves:
  assumes "copy_files t flags k = (err, k')" "0 \<le> err"
  shows "\<exists>n. moves t (\<lambda>x. x\<lparr>t_files := n x\<rparr>) k k'"
proof (cases "has flags CLONE_FILES")
  case True
  then have "moves t (\<lambda>x. x) k k'" using assms(1) quiet_updates(9) by (auto simp: copy_files_def Let_def intro!: moves_id)
  then show ?thesis by (intro exI[of _ t_files]) simp
next
  case False
  obtain r k1 where c: "on_fds (fdtable_copy (t_files (get_task t k))) k = (r, k1)"
    by (cases "on_fds (fdtable_copy (t_files (get_task t k))) k")
  have q: "quiet k k1" using quiet_updates(8)[of "fdtable_copy (t_files (get_task t k))" k] by (simp add: c)
  show ?thesis
  proof (cases r)
    case (Inl e)
    then have "moves t (\<lambda>x. x) k k'" using False assms(1) c q by (simp add: copy_files_def Let_def moves_id)
    then show ?thesis by (intro exI[of _ t_files]) simp
  next
    case (Inr n)
    then have "moves t (\<lambda>x. x\<lparr>t_files := n\<rparr>) k k'"
      using False assms(1) c moves_quiet(2)[OF q moves_upd_task] by (auto simp: copy_files_def Let_def)
    then show ?thesis by (intro exI[of _ "\<lambda>_. n"])
  qed
qed

lemma copy_fs_moves:
  assumes "copy_fs t flags k = (True, k')"
  shows "\<exists>n. moves t (\<lambda>x. x\<lparr>t_fs := n x\<rparr>) k k'"
proof (cases "has flags CLONE_FS")
  case True
  then have "moves t (\<lambda>x. x) k k'"
    using assms quiet_updates(1) by (auto simp: copy_fs_def Let_def intro!: moves_id split: option.splits)
  then show ?thesis by (intro exI[of _ t_fs]) simp
next
  case False
  obtain r k1 where c: "fs_info_copy (t_fs (get_task t k)) k = (r, k1)" by (cases "fs_info_copy (t_fs (get_task t k)) k")
  then obtain n where r: "r = Some n" "k' = upd_task t (\<lambda>x. x\<lparr>t_fs := n\<rparr>) k1"
    using assms False by (auto simp: copy_fs_def Let_def split: option.splits)
  have "quiet k k1" using quiet_fs_info[of "t_fs (get_task t k)" k] by (simp add: c)
  then have "moves t (\<lambda>x. x\<lparr>t_fs := n\<rparr>) k k'" using moves_quiet(2)[OF _ moves_upd_task] r by blast
  then show ?thesis by (intro exI[of _ "\<lambda>_. n"])
qed

lemma copy_sighand_moves:
  assumes "copy_sighand t flags k = (True, k')"
  shows "\<exists>n. moves t (\<lambda>x. x\<lparr>t_sighand := n x\<rparr>) k k'"
proof (cases "has flags CLONE_SIGHAND")
  case True
  then have "moves t (\<lambda>x. x) k k'"
    using assms quiet_updates(4) by (auto simp: copy_sighand_def Let_def intro!: moves_id)
  then show ?thesis by (intro exI[of _ t_sighand]) simp
next
  case False
  obtain r k1 where c: "sighand_copy (t_sighand (get_task t k)) k = (r, k1)"
    by (cases "sighand_copy (t_sighand (get_task t k)) k")
  then obtain n where r: "r = Some n" "k' = upd_task t (\<lambda>x. x\<lparr>t_sighand := n\<rparr>) k1"
    using assms False by (auto simp: copy_sighand_def Let_def split: option.splits)
  have "quiet k k1" using quiet_sighand(2)[of "t_sighand (get_task t k)" k] by (simp add: c)
  then have "moves t (\<lambda>x. x\<lparr>t_sighand := n\<rparr>) k k'" using moves_quiet(2)[OF _ moves_upd_task] r by blast
  then show ?thesis by (intro exI[of _ "\<lambda>_. n"])
qed

lemma copy_group_moves:
  assumes "\<not> has flags CLONE_THREAD"
  shows "\<exists>g. moves t (\<lambda>x. x\<lparr>t_group := g, t_tgid := t_pid x\<rparr>) k (copy_group t flags k)"
proof -
  obtain g k1 where c: "tgroup_copy (t_group (get_task t k)) k = (g, k1)"
    by (cases "tgroup_copy (t_group (get_task t k)) k")
  have "quiet k k1" using quiet_tgroup_copy[of "t_group (get_task t k)" k] by (simp add: c)
  then have "moves t (\<lambda>x. x\<lparr>t_group := g, t_tgid := t_pid x\<rparr>) k
      (upd_group h f (upd_group g j (upd_task t (\<lambda>x. x\<lparr>t_group := g, t_tgid := t_pid x\<rparr>) k1)))" for h f j
    by (intro moves_quiet(1)[OF moves_quiet(1)[OF moves_quiet(2)[OF _ moves_upd_task] quiet_updates(3)] quiet_updates(3)])
  then show ?thesis using assms by (auto simp: copy_group_def Let_def c)
qed

lemma cow_page_frame:
  "vm_mems (cow_page src dst ps v) m = None \<longleftrightarrow> vm_mems v m = None" "vm_host (cow_page src dst ps v) = vm_host v"
  by (simp_all add: cow_page_def pt_access_def data_retain_def Let_def split: prod.split option.split)

lemma copy_on_write_frame:
  "vm_mems (snd (pt_copy_on_write src a dst b n v)) m = None \<longleftrightarrow> vm_mems v m = None"
  "vm_host (snd (pt_copy_on_write src a dst b n v)) = vm_host v"
proof -
  have "vm_mems (fold (cow_page src dst) ps v) m = None \<longleftrightarrow> vm_mems v m = None" for ps
    by (induction ps arbitrary: v) (simp_all add: cow_page_frame)
  then show "vm_mems (snd (pt_copy_on_write src a dst b n v)) m = None \<longleftrightarrow> vm_mems v m = None"
    by (simp add: pt_copy_on_write_def)
  have "vm_host (fold (cow_page src dst) ps v) = vm_host v" for ps
    by (rule fold_unchanged) (rule cow_page_frame)
  then show "vm_host (snd (pt_copy_on_write src a dst b n v)) = vm_host v"
    by (simp add: pt_copy_on_write_def)
qed

text \<open>The memory of the child, with no call of the host failing.\<close>

definition shares :: "kern \<Rightarrow> mem_id \<Rightarrow> mem_id \<Rightarrow> kern \<Rightarrow> bool" where
  "shares k m n k' \<longleftrightarrow> n \<noteq> m \<and> task_ok n (k_vm k') \<and> task_ok m (k_vm k') \<and>
     (\<forall>m' a. guest (k_vm k') m' a = guest (k_vm k) (if m' = n then m else m') a)"

lemma copy_mem_moves:
  assumes fork: "\<not> has flags CLONE_VM" and x: "k_tasks k t = Some x"
    and v: "task_ok (t_mem x) (k_vm k)" "card (dom (vm_mems (k_vm k))) < 4095"
  shows "\<exists>n. k_tasks (copy_mem t flags k) = (k_tasks k)(t \<mapsto> x\<lparr>t_mem := n\<rparr>) \<and>
    k_current (copy_mem t flags k) = k_current k \<and> shares k (t_mem x) n (copy_mem t flags k)"
proof -
  let ?m = "t_mem x"
  have ok: "wf_vm (k_vm k)" "cow_ok (k_vm k)" "\<And>n. vm_host (k_vm k) n = None" "vm_mems (k_vm k) ?m \<noteq> None"
    using v(1) by (simp_all add: task_ok_def)
  obtain r w where new: "mem_new (k_vm k) = (r, w)" by (cases "mem_new (k_vm k)")
  let ?n = "vm_next (k_vm k)"
  note f = new_mem_facts[OF ok(1,2) v(2) ok(3) new]
  have ne: "?m \<noteq> ?n" using f(5) ok(4) by auto
  define g :: "mem \<Rightarrow> mem" where "g = (\<lambda>y. y\<lparr>mem_vdso := mem_vdso (mem_of w ?m), mem_brk := mem_brk (mem_of w ?m),
                            mem_start_brk := mem_start_brk (mem_of w ?m)\<rparr>)"
  let ?u = "upd_mem ?n g w"
  have g: "mem_pt (g mem) p = mem_pt mem p" for mem p by (simp add: g_def mem_pt_def)
  have pt: "vm_pt ?u m p = vm_pt (k_vm k) m p" for m p by (simp add: upd_mem_pt_same[OF g] f(6))
  have u: "wf_vm ?u" "cow_ok ?u" using f(2,3) by (simp_all add: wf_upd_mem_same[OF g] cow_ok_def upd_mem_pt_same[OF g])
  have gu: "guest ?u m a = guest (k_vm k) m a" for m a
    by (rule trans[OF kept_guest[OF kept_upd_mem_same[OF g]] f(7)])
  have live: "vm_mems ?u ?n \<noteq> None" "vm_mems ?u ?m \<noteq> None"
    using f(4) f(8)[OF ok(4)] ok(4) ne by (auto simp: upd_mem_def split: option.splits)
  have empty: "guest ?u ?n a = None" for a
    using f(5) guest_None_iff[OF ok(1), of ?n a] by (simp add: gu vm_pt_def)
  note p = fork_pages[OF u live(1) ne empty]
  let ?w = "snd (pt_copy_on_write ?m 0 ?n 0 MEM_PAGES ?u)"
  have c: "copy_mem t flags k = k\<lparr>k_tasks := (k_tasks k)(t \<mapsto> x\<lparr>t_mem := ?n\<rparr>), k_vm := ?w\<rparr>"
    using fork x by (simp add: copy_mem_def Let_def on_vm_def new f(1) upd_task_def get_task_def g_def)
  have "vm_host w = vm_host (k_vm k)" using new by (auto simp: mem_new_def host_call_def split: option.splits)
  then have mems: "vm_mems ?w m = None \<longleftrightarrow> vm_mems ?u m = None" "vm_host ?w i = None" for m i
    using ok(3) by (simp_all add: copy_on_write_frame)
  show ?thesis
    using ne p live mems by (intro exI[of _ ?n]) (auto simp: c shares_def task_ok_def gu)
qed

subsection \<open>The child\<close>

definition child_of :: "nat \<Rightarrow> task \<Rightarrow> nat \<Rightarrow> task \<Rightarrow> bool" where
  "child_of p x t y \<longleftrightarrow> t_parent y = Some p \<and> t_tgid y = t_pid y \<and>
     t_cpu y = (t_cpu x)\<lparr>cpu_regs := (cpu_regs (t_cpu x))(reg_eax := 0)\<rparr> \<and> t_creds y = t_creds x \<and>
     t_blocked y = t_blocked x \<and> t_queued y = t_queued x \<and> t_pending y = t_pending x \<and> \<not> t_did_exec y"

definition fork_flags :: "dword_t \<Rightarrow> bool" where
  "fork_flags flags \<longleftrightarrow> \<not> has flags CLONE_VM \<and> \<not> has flags CLONE_THREAD \<and> \<not> has flags CLONE_SETTLS \<and>
     \<not> has flags CLONE_CHILD_SETTID \<and> \<not> has flags CLONE_PARENT_SETTID \<and> \<not> has flags CLONE_CHILD_CLEARTID"

text \<open>\<open>copy_task\<close> with the flags of \<open>fork\<close>, when it succeeds.\<close>

lemma copy_task_fork:
  assumes flags: "fork_flags flags"
    and c: "copy_task t flags 0 p tls ct k = (err, k')" "0 \<le> err"
    and x: "k_tasks k t = Some x"
    and v: "task_ok (t_mem x) (k_vm k)" "card (dom (vm_mems (k_vm k))) < 4095"
  shows "\<exists>m f fs sh g. k_tasks k' = (k_tasks k)(t \<mapsto> x\<lparr>t_vfork_done := False, t_mem := m, t_files := f,
      t_fs := fs, t_sighand := sh, t_group := g, t_tgid := t_pid x, t_exit_signal := unat (flags AND CSIGNAL)\<rparr>) \<and>
    shares k (t_mem x) m k' \<and> k_current k' = k_current k"
proof -
  have no: "\<not> has flags CLONE_VM" "\<not> has flags CLONE_THREAD" "\<not> has flags CLONE_SETTLS"
    "\<not> has flags CLONE_CHILD_SETTID" "\<not> has flags CLONE_PARENT_SETTID" "\<not> has flags CLONE_CHILD_CLEARTID"
    using flags by (simp_all add: fork_flags_def)
  let ?k0 = "upd_task t (t_vfork_done_update (\<lambda>_. False)) k"
  let ?x = "x\<lparr>t_vfork_done := False\<rparr>"
  let ?k1 = "copy_mem t flags ?k0"
  have k0: "k_tasks ?k0 t = Some ?x" "k_tasks ?k0 = (k_tasks k)(t \<mapsto> ?x)" "k_vm ?k0 = k_vm k" "k_current ?k0 = k_current k"
    using x by (simp_all add: upd_task_def)
  obtain m where k1: "k_tasks ?k1 = (k_tasks k)(t \<mapsto> ?x\<lparr>t_mem := m\<rparr>)" "k_current ?k1 = k_current k"
    "shares ?k0 (t_mem x) m ?k1"
    using copy_mem_moves[OF no(1) k0(1)] v k0 by auto
  obtain e2 k2 where f2: "copy_files t flags ?k1 = (e2, k2)" by (cases "copy_files t flags ?k1")
  have e2: "0 \<le> e2" and c2: "(case copy_fs t flags k2 of (False, k) \<Rightarrow> (ENOMEM, fail_free_files t k) | (True, k) \<Rightarrow>
      (case copy_sighand t flags k of (False, k) \<Rightarrow> (ENOMEM, fail_free_fs t k)
       | (True, k) \<Rightarrow> (case copy_ids t flags p tls ct (copy_group t flags k) of
                (err, k) \<Rightarrow> if err < 0 then (err, fail_free_sighand t k) else (0, k)))) = (err, k')"
    using c by (auto simp: copy_task_def Let_def f2 split: if_splits)
  obtain b3 k3 where f3: "copy_fs t flags k2 = (b3, k3)" by (cases "copy_fs t flags k2")
  then have b3: "b3" using c2 c(2) by (cases b3) auto
  obtain b4 k4 where f4: "copy_sighand t flags k3 = (b4, k4)" by (cases "copy_sighand t flags k3")
  then have b4: "b4" using c2 c(2) f3 b3 by (cases b4) auto
  let ?k5 = "copy_group t flags k4"
  have k': "k' = upd_task t (\<lambda>x. x\<lparr>t_exit_signal := unat (flags AND CSIGNAL), t_clear_tid := t_clear_tid x\<rparr>) ?k5"
    using c2 f3 f4 b3 b4 c(2) by (simp add: copy_ids_def no)
  obtain f where m2: "moves t (\<lambda>x. x\<lparr>t_files := f x\<rparr>) ?k1 k2" using copy_files_moves[OF f2 e2] by blast
  obtain fs where m3: "moves t (\<lambda>x. x\<lparr>t_fs := fs x\<rparr>) k2 k3" using copy_fs_moves[of t flags k2 k3] f3 b3 by auto
  obtain sh where m4: "moves t (\<lambda>x. x\<lparr>t_sighand := sh x\<rparr>) k3 k4" using copy_sighand_moves[of t flags k3 k4] f4 b4 by auto
  obtain g where m5: "moves t (\<lambda>x. x\<lparr>t_group := g, t_tgid := t_pid x\<rparr>) k4 ?k5"
    using copy_group_moves[OF no(2)] by blast
  have m6: "moves t (\<lambda>x. x\<lparr>t_exit_signal := unat (flags AND CSIGNAL), t_clear_tid := t_clear_tid x\<rparr>) ?k5 k'"
    unfolding k' by (rule moves_upd_task)
  note all = moves_trans[OF moves_trans[OF moves_trans[OF moves_trans[OF m2 m3] m4] m5] m6]
  then have vm: "k_vm k' = k_vm ?k1" "k_current k' = k_current k" by (simp_all add: moves_def k1)
  have "shares k (t_mem x) m k'" using k1(3) vm k0(3) by (simp add: shares_def)
  moreover obtain f' fs' sh' where "k_tasks k' = (k_tasks k)(t \<mapsto> x\<lparr>t_vfork_done := False, t_mem := m, t_files := f',
      t_fs := fs', t_sighand := sh', t_group := g, t_tgid := t_pid x, t_exit_signal := unat (flags AND CSIGNAL)\<rparr>)"
    using all by (auto simp: moves_def k1(1) fun_upd_idem)
  ultimately show ?thesis using vm(2) by simp blast
qed

lemma task_create_task:
  assumes k: "kern_ok k" and x: "k_tasks k p = Some x" and c: "task_create (Some p) k = (Some t, k')"
  shows "k_tasks k t = None" "k_current k' = k_current k" "k_vm k' = k_vm k"
    "\<exists>i. k_tasks k' = (k_tasks k)(t \<mapsto> x\<lparr>t_pid := of_nat i, t_did_exec := False, t_parent := Some p\<rparr>) \<and>
       slot_task k i = None \<and> i \<le> MAX_PID"
proof -
  obtain i where i: "find_pid 1025 (k_cur_pid k) k = Some i" using c by (auto simp: task_create_def split: option.splits)
  define k1 where "k1 = upd_pid i (\<lambda>p. p\<lparr>p_session := [], p_pgroup := []\<rparr>) (k\<lparr>k_cur_pid := i\<rparr>)"
  obtain b k2 where m: "kmalloc k1 = (b, k2)" by (cases "kmalloc k1")
  have b: "b" using c i m by (auto simp: task_create_def Let_def k1_def split: bool.splits)
  have "k_next k2 = k_next k1" using m by (auto simp: kmalloc_def split: prod.splits)
  then have q: "quiet k k2" "k_next k2 = k_next k"
    using quiet_updates(7)[of k1] m by (auto simp: k1_def upd_pid_def)
  have k': "t = k_next k" "k_tasks k' = (k_tasks k)(t \<mapsto> x\<lparr>t_pid := of_nat i, t_did_exec := False, t_parent := Some p\<rparr>)"
    "k_current k' = k_current k" "k_vm k' = k_vm k"
    using c b x q unfolding task_create_def i option.case Let_def k1_def[symmetric] m
    by (auto simp: get_task_def upd_pid_def)
  show "k_tasks k t = None" using kern_ok_task(2)[OF k, of t] k'(1) by (cases "k_tasks k t") auto
  show "k_current k' = k_current k" "k_vm k' = k_vm k" by (fact k')+
  show "\<exists>i. k_tasks k' = (k_tasks k)(t \<mapsto> x\<lparr>t_pid := of_nat i, t_did_exec := False, t_parent := Some p\<rparr>) \<and>
       slot_task k i = None \<and> i \<le> MAX_PID"
    using find_pid_empty[OF i] k'(2) by (auto simp: slot_task_def pid_empty_def)
qed

lemma sys_fork_child:
  assumes k: "kern_ok k" and x: "k_tasks k (k_current k) = Some x"
    and v: "task_ok (t_mem x) (k_vm k)" "card (dom (vm_mems (k_vm k))) < 4095"
    and f: "sys_fork k = Some (r, k')" "0 \<le> r"
  shows "\<exists>t y. k_tasks k t = None \<and> k_tasks k' = (k_tasks k)(t \<mapsto> y) \<and> child_of (k_current k) x t y \<and>
    r = sint (t_pid y) \<and> slot_task k (unat (t_pid y)) = None \<and> shares k (t_mem x) (t_mem y) k'"
proof -
  let ?flags = "of_nat SIGCHLD :: dword_t"
  have flags: "fork_flags ?flags" "\<not> has ?flags CLONE_SIGHAND" "\<not> has ?flags CLONE_VFORK"
    "?flags AND NOT CSIGNAL AND NOT IMPLEMENTED_FLAGS = 0"
    by (simp_all add: fork_flags_def has_def)
  obtain t k1 where c: "task_create (Some (k_current k)) k = (t, k1)" by (cases "task_create (Some (k_current k)) k")
  obtain u where t: "t = Some u"
    using f flags c by (cases t) (auto simp: sys_fork_def sys_clone_def fork_flags_def)
  obtain i where k1: "k_tasks k1 = (k_tasks k)(u \<mapsto> x\<lparr>t_pid := of_nat i, t_did_exec := False, t_parent := Some (k_current k)\<rparr>)"
    "slot_task k i = None" "i \<le> MAX_PID" and new: "k_tasks k u = None" "k_vm k1 = k_vm k" "k_current k1 = k_current k"
    using task_create_task[OF k x c[unfolded t]] by blast
  obtain e k2 where d: "copy_task u ?flags 0 0 0 0 k1 = (e, k2)" by (cases "copy_task u ?flags 0 0 0 0 k1")
  have e: "0 \<le> e" and k': "k' = task_start u (upd_task u (\<lambda>x. x\<lparr>t_cpu := (t_cpu x)
      \<lparr>cpu_regs := (cpu_regs (t_cpu x))(reg_eax := 0)\<rparr>\<rparr>) k2)"
    and r: "r = sint (t_pid (get_task u (upd_task u (\<lambda>x. x\<lparr>t_cpu := (t_cpu x)
      \<lparr>cpu_regs := (cpu_regs (t_cpu x))(reg_eax := 0)\<rparr>\<rparr>) k2)))"
    using f flags c t d by (auto simp: sys_fork_def sys_clone_def Let_def fork_flags_def simp del: of_nat_numeral split: if_splits)
  obtain m fl fs sh g where k2: "k_tasks k2 = (k_tasks k1)(u \<mapsto> x\<lparr>t_pid := of_nat i, t_did_exec := False,
      t_parent := Some (k_current k), t_vfork_done := False, t_mem := m, t_files := fl,
      t_fs := fs, t_sighand := sh, t_group := g, t_tgid := of_nat i, t_exit_signal := unat (?flags AND CSIGNAL)\<rparr>)"
    and sh: "shares k1 (t_mem x) m k2"
    using copy_task_fork[OF flags(1) d e, of "x\<lparr>t_pid := of_nat i, t_did_exec := False, t_parent := Some (k_current k)\<rparr>"]
      k1(1) v new by auto
  have pid: "unat (of_nat i :: dword_t) = i" using k1(3) by (simp add: unat_of_nat_dword)
  have "shares k (t_mem x) m k'"
    using sh k' new by (simp add: shares_def task_start_def kevent_def upd_task_def k2)
  then show ?thesis
    using new k1 k2 pid
    by (intro exI[of _ u] exI conjI) (auto simp: k' r task_start_def kevent_def upd_task_def get_task_def child_of_def)
qed

end
