(* ===== verification/Signal_Facts.thy ===== *)
theory Signal_Facts
  imports Kern_Facts Demo
begin

text \<open>
  Signals over time: one that is blocked when it is sent waits in the queue and
  becomes pending when it is unblocked; a handler that is called finds the
  interrupted state in its frame, and \<open>sigreturn\<close> puts it back.
\<close>

subsection \<open>Words and bytes\<close>

lemma length_bytes_of_dword: "length (bytes_of_word n w) = n"
  by (induction n arbitrary: w) simp_all

lemma word_of_bytes_take: "word_of_bytes (bytes_of_word n (w :: 'a::len word)) = (take_bit (8 * n) w :: 'a word)"
proof (induction n arbitrary: w)
  case (Suc n)
  have "(ucast (ucast w :: byte_t) :: 'a word) OR push_bit 8 (take_bit (8 * n) (drop_bit 8 w)) = take_bit (8 * Suc n) w"
    by (rule bit_word_eqI) (auto simp: bit_simps)
  then show ?case using Suc by simp
qed simp

lemma word_of_bytes_of_dword: "word_of_bytes (bytes_of_word 4 (w :: dword_t)) = w"
  by (simp add: word_of_bytes_take take_bit_word_eq_self del: bytes_of_word.simps)

lemma dwords_bytes: "dwords_of_bytes (length ws) (bytes_of_dwords ws) = ws"
  by (induction ws) (simp_all add: bytes_of_dwords_def length_bytes_of_dword word_of_bytes_of_dword)

lemma length_bytes_of_dwords: "length (bytes_of_dwords ws) = 4 * length ws"
  by (induction ws) (simp_all add: bytes_of_dwords_def length_bytes_of_dword)

subsection \<open>What is written to the guest\<close>

lemma user_dwords_back:
  assumes "task_ok m v" "user_put_dwords m a ws v = (0, w)" "length ws \<le> 2 ^ 30"
    and "wf_vm u" "\<And>i. i < 4 * length ws \<Longrightarrow> guest u m (a + of_nat i) = guest w m (a + of_nat i)"
  shows "user_get_dwords m a (length ws) u = (Some ws, u)"
  using user_write_read_back[of m v a "bytes_of_dwords ws" w u] assms
  by (simp add: user_put_dwords_def user_get_dwords_def length_bytes_of_dwords dwords_bytes)

subsection \<open>Handlers\<close>

lemma length_frame: "length (dwords_of_frame f) = 183"
  by (simp add: dwords_of_frame_def)

lemma frame_of_dwords_of: "frame_of_dwords (dwords_of_frame f) = f"
  by (simp add: frame_of_dwords_def dwords_of_frame_def nth_append)

lemma qword_of_halves: "qword_of (ucast q) (ucast (drop_bit 32 q)) = q"
  unfolding qword_of_def by (rule bit_word_eqI) (auto simp: bit_simps)

text \<open>Collapsing the flags does not touch the other registers, nor read them.\<close>

lemma put_flag_regs:
  "put_flag n b (cpu\<lparr>cpu_regs := r\<rparr>) = (put_flag n b cpu)\<lparr>cpu_regs := r\<rparr>"
  "ZF (cpu\<lparr>cpu_regs := r\<rparr>) = ZF cpu" "SF (cpu\<lparr>cpu_regs := r\<rparr>) = SF cpu" "PF (cpu\<lparr>cpu_regs := r\<rparr>) = PF cpu"
  "AF (cpu\<lparr>cpu_regs := r\<rparr>) = AF cpu"
  by (simp_all add: put_flag_def flag_defs)

lemma put_flag_others:
  "cpu_regs (put_flag n b cpu) = cpu_regs cpu" "cpu_eip (put_flag n b cpu) = cpu_eip cpu"
  "cpu_cf (put_flag n b cpu) = cpu_cf cpu" "cpu_of (put_flag n b cpu) = cpu_of cpu"
  by (simp_all add: put_flag_def)

lemma collapse_regs: "collapse_flags (cpu\<lparr>cpu_regs := r\<rparr>) = (collapse_flags cpu)\<lparr>cpu_regs := r\<rparr>"
proof -
  have u: "cpu\<lparr>cpu_regs := r, cpu_zf_res := a, cpu_sf_res := b, cpu_pf_res := c\<rparr> = (cpu\<lparr>cpu_zf_res := a, cpu_sf_res := b, cpu_pf_res := c\<rparr>)\<lparr>cpu_regs := r\<rparr>"
    "cpu\<lparr>cpu_regs := r, cpu_af_ops := d\<rparr> = (cpu\<lparr>cpu_af_ops := d\<rparr>)\<lparr>cpu_regs := r\<rparr>"
    "cpu_cf (cpu\<lparr>cpu_regs := r\<rparr>) = cpu_cf cpu" "cpu_of (cpu\<lparr>cpu_regs := r\<rparr>) = cpu_of cpu" for cpu r a b c d
    by simp_all
  show ?thesis unfolding collapse_flags_def Let_def put_flag_regs u ..
qed

lemma collapse_sel:
  "cpu_regs (collapse_flags cpu) = cpu_regs cpu" "cpu_eip (collapse_flags cpu) = cpu_eip cpu"
  "cpu_cf (collapse_flags cpu) = cpu_cf cpu" "cpu_of (collapse_flags cpu) = cpu_of cpu"
  by (simp_all add: collapse_flags_def Let_def put_flag_others)
text \<open>The delivery: the frame is written below the stack and the handler is
entered with the signal blocked.\<close>

lemma receive_signal_call:
  assumes x: "k_tasks k (k_current k) = Some x" and sh: "k_sighands k (t_sighand x) = Some sh"
    and act: "signal_action sh sig = SIGNAL_CALL_HANDLER" and tramp: "k_sigreturn k \<noteq> 0"
    and r: "receive_signal sig k = (b, k')"
    and sp_def: "sp = frame_address k sh (cpu_regs (t_cpu x) reg_esp)"
    and f_def: "f = make_frame sig (mem_vdso (mem_of (k_vm k) (t_mem x)) + k_sigreturn k) x"
    and y_def: "y = call_handler sig (sa_handler (sh_action sh sig)) sp (x\<lparr>t_pending := t_pending x AND NOT (sigbit sig)\<rparr>)"
  shows "b" "k_tasks k' (k_current k) = Some y" "k_current k' = k_current k"
    "k_vm k' = snd (user_put_dwords (t_mem x) sp (dwords_of_frame f) (k_vm k))"
proof -
  let ?x = "x\<lparr>t_pending := t_pending x AND NOT (sigbit sig)\<rparr>"
  let ?k1 = "k\<lparr>k_tasks := (k_tasks k)(k_current k \<mapsto> ?x)\<rparr>"
  have k1: "upd_task (k_current k) (\<lambda>x. x\<lparr>t_pending := t_pending x AND NOT (sigbit sig)\<rparr>) k = ?k1"
    by (simp add: upd_task_def x)
  have sp: "frame_address ?k1 sh z = frame_address k sh z" for z by (simp add: frame_address_def)
  have f: "make_frame sig pre ?x = make_frame sig pre x" for pre by (simp add: make_frame_def)
  define k3 where "k3 = (if sh_altstack sh \<noteq> 0 then upd_sighand (t_sighand x) (\<lambda>s. s\<lparr>sh_on_altstack := True\<rparr>)
      (k\<lparr>k_tasks := (k_tasks k)(k_current k \<mapsto> y)\<rparr>) else k\<lparr>k_tasks := (k_tasks k)(k_current k \<mapsto> y)\<rparr>)"
  have k3: "k_tasks k3 = (k_tasks k)(k_current k \<mapsto> y)" "k_vm k3 = k_vm k" "k_current k3 = k_current k"
    by (auto simp: k3_def upd_sighand_def kbad_def split: option.split)
  have y: "t_mem y = t_mem x" by (simp add: y_def call_handler_def Let_def)
  have "receive_signal sig k = (True, snd (kput sp (dwords_of_frame f) k3))"
    using sh act tramp
    by (simp add: receive_signal_def k1 get_task_def sp f x upd_task_def Let_def k3_def y_def sp_def f_def)
  then have "b" "k' = snd (kput sp (dwords_of_frame f) k3)" using r by auto
  then show "b" "k_tasks k' (k_current k) = Some y" "k_current k' = k_current k"
    "k_vm k' = snd (user_put_dwords (t_mem x) sp (dwords_of_frame f) (k_vm k))"
    by (simp_all add: kput_def on_vm_def cur_task_def get_task_def k3 y split: prod.split)
qed

lemma frame_in_memory:
  assumes "task_ok m v" "\<And>i. i < 732 \<Longrightarrow> can_write v m (sp + of_nat i)"
  shows "user_get_dwords m sp 183 (snd (user_put_dwords m sp (dwords_of_frame f) v)) =
    (Some (dwords_of_frame f), snd (user_put_dwords m sp (dwords_of_frame f) v))"
proof -
  have "\<exists>w. user_write_task m sp (bytes_of_dwords (dwords_of_frame f)) v = (0, w)"
    by (rule user_write_succeeds[OF assms(1)]) (use assms(2) in \<open>simp add: length_bytes_of_dwords length_frame\<close>)
  then obtain w where w: "user_put_dwords m sp (dwords_of_frame f) v = (0, w)" by (auto simp: user_put_dwords_def)
  moreover have "wf_vm w" using user_write_ok[OF assms(1)] w by (auto simp: user_put_dwords_def task_ok_def)
  ultimately show ?thesis using user_dwords_back[OF assms(1) w] by (simp add: length_frame)
qed

text \<open>Whatever the handler does, as long as the frame stays in place and the stack
pointer is where the trampoline leaves it.\<close>

lemma sigreturn_after_handler:
  assumes x: "k_tasks k (k_current k) = Some x" and sh: "k_sighands k (t_sighand x) = Some sh"
    and act: "signal_action sh sig = SIGNAL_CALL_HANDLER" and tramp: "k_sigreturn k \<noteq> 0"
    and v: "task_ok (t_mem x) (k_vm k)" and sp: "sp = frame_address k sh (cpu_regs (t_cpu x) reg_esp)"
    and stack: "\<And>i. i < 732 \<Longrightarrow> can_write (k_vm k) (t_mem x) (sp + of_nat i)"
    and k1: "receive_signal sig k = (b, k1)"
    and u: "wf_vm u" "\<And>i. i < 732 \<Longrightarrow> guest u (t_mem x) (sp + of_nat i) = guest (k_vm k1) (t_mem x) (sp + of_nat i)"
    and c: "cpu_regs c reg_esp = sp + 8"
    and k3: "sys_rt_sigreturn (upd_task (k_current k) (\<lambda>y. y\<lparr>t_cpu := c\<rparr>) (k1\<lparr>k_vm := u\<rparr>)) = (r, k3)"
  shows "\<exists>y. k_tasks k3 (k_current k) = Some y \<and> t_blocked y = t_blocked x \<and>
    t_cpu y = restore_cpu (make_frame sig (mem_vdso (mem_of (k_vm k) (t_mem x)) + k_sigreturn k) x) c \<and>
    r = sint (cpu_regs (t_cpu x) reg_eax)"
proof -
  let ?f = "make_frame sig (mem_vdso (mem_of (k_vm k) (t_mem x)) + k_sigreturn k) x"
  note d = receive_signal_call[OF x sh act tramp k1 sp refl refl]
  obtain y where y: "k_tasks k1 (k_current k) = Some y" "t_mem y = t_mem x"
    using d(2) by (simp add: call_handler_def Let_def)
  have "\<exists>w. user_write_task (t_mem x) sp (bytes_of_dwords (dwords_of_frame ?f)) (k_vm k) = (0, w)"
    by (rule user_write_succeeds[OF v]) (use stack in \<open>simp add: length_bytes_of_dwords length_frame\<close>)
  then obtain w where w: "user_put_dwords (t_mem x) sp (dwords_of_frame ?f) (k_vm k) = (0, w)"
    by (auto simp: user_put_dwords_def)
  then have "k_vm k1 = w" using d(4) by simp
  then have read: "user_get_dwords (t_mem x) sp 183 u = (Some (dwords_of_frame ?f), u)"
    using user_dwords_back[OF v w _ u(1)] u(2) by (simp add: length_frame)
  let ?k2 = "k1\<lparr>k_vm := u, k_tasks := (k_tasks k1)(k_current k \<mapsto> y\<lparr>t_cpu := c\<rparr>)\<rparr>"
  have k2: "upd_task (k_current k) (\<lambda>y. y\<lparr>t_cpu := c\<rparr>) (k1\<lparr>k_vm := u\<rparr>) = ?k2"
    by (simp add: upd_task_def y)
  have get: "kget (cpu_regs c reg_esp - 8) 183 ?k2 = (Some (dwords_of_frame ?f), ?k2)"
    using read by (simp add: kget_def on_vm_def cur_task_def get_task_def d(3) y(2) c)
  define k4 where "k4 = upd_sighand (t_sighand y) (\<lambda>s. s\<lparr>sh_on_altstack := False\<rparr>)
    (?k2\<lparr>k_tasks := (k_tasks k1)(k_current k \<mapsto> y\<lparr>t_cpu := restore_cpu ?f c\<rparr>)\<rparr>)"
  have k4: "k_tasks k4 = (k_tasks k1)(k_current k \<mapsto> y\<lparr>t_cpu := restore_cpu ?f c\<rparr>)" "k_current k4 = k_current k"
    by (simp_all add: k4_def upd_sighand_def kbad_def d(3) split: option.split)
  have "(r, k3) = (let k = snd (do_sigprocmask 2 (qword_of (fr_oldmask ?f) (fr_extramask ?f)) k4)
      in (sint (cpu_regs (t_cpu (get_task (k_current k1) k)) reg_eax), k))"
    using k3 unfolding k2
    by (auto simp: sys_rt_sigreturn_def Let_def get cur_task_def get_task_def d(3) y
        frame_of_dwords_of upd_task_def k4_def)
  also have "\<dots> = (sint (cpu_regs (restore_cpu ?f c) reg_eax),
      k4\<lparr>k_tasks := (k_tasks k4)(k_current k \<mapsto> change_mask (t_blocked x) (y\<lparr>t_cpu := restore_cpu ?f c\<rparr>))\<rparr>)"
    by (simp add: do_sigprocmask_def new_mask_def upd_task_def k4 d(3) get_task_def make_frame_def Let_def
        qword_of_halves change_mask_def cong: if_cong)
  finally show ?thesis
    by (simp add: change_mask_def Let_def restore_cpu_def make_frame_def collapse_sel)
qed

lemma restore_make_frame:
  "g \<noteq> reg_none \<Longrightarrow> cpu_regs (restore_cpu (make_frame sig pre x) c) g = cpu_regs (t_cpu x) g"
  "cpu_eip (restore_cpu (make_frame sig pre x) c) = cpu_eip (t_cpu x)"
  "cpu_eflags (restore_cpu (make_frame sig pre x) c) = cpu_eflags (collapse_flags (t_cpu x))"
  "cpu_cf (restore_cpu (make_frame sig pre x) c) = cpu_cf c"
  "cpu_of (restore_cpu (make_frame sig pre x) c) = cpu_of c"
  by (cases g; simp add: restore_cpu_def make_frame_def collapse_sel Let_def)+

subsection \<open>Blocked signals\<close>

lemma receive_loop_append:
  "receive_loop (xs @ ys) k = (case receive_loop xs k of (b, k) \<Rightarrow> if b then receive_loop ys k else (False, k))"
  by (induction xs arbitrary: k) (auto split: prod.splits)

lemma receive_loop_skip:
  "\<forall>s \<in> set xs. t_pending (cur_task k) AND sigbit s = 0 \<Longrightarrow> receive_loop xs k = (True, k)"
  by (induction xs) simp_all

text \<open>One pending signal.\<close>

lemma receive_one:
  assumes sig: "sig < 64" and x: "k_tasks k (k_current k) = Some x" "t_pending x = sigbit sig"
    and k': "receive_signal sig k = (True, k')" "k_current k' = k_current k"
      "k_tasks k' (k_current k) = Some y" "t_pending y = 0"
  shows "receive_signals k = (True, k')"
proof -
  have cur: "cur_task k = x" "cur_task k' = y" using x k' by (simp_all add: cur_task_def get_task_def)
  have bits: "sigbit sig AND sigbit s = 0 \<longleftrightarrow> s \<noteq> sig" if "s < 64" for s
    using sigbit_nonzero[OF that, of "sigbit sig"] bit_sigbit[OF that, of sig] by auto
  have "[0..<64] = [0..<sig] @ sig # [Suc sig..<64]"
    using sig by (metis le_add_diff_inverse less_imp_le_nat upt_add_eq_append upt_conv_Cons zero_le)
  moreover have "receive_loop [0..<sig] k = (True, k)"
    by (rule receive_loop_skip) (use sig bits in \<open>auto simp: cur x(2)\<close>)
  moreover have "receive_loop [Suc sig..<64] k' = (True, k')"
    by (rule receive_loop_skip) (simp add: cur k'(4))
  moreover have "sigbit sig \<noteq> 0" using bits[OF sig] by auto
  ultimately show ?thesis by (simp add: receive_signals_def receive_loop_append cur x(2) k'(1))
qed

lemma send_blocked:
  assumes x: "k_tasks k t = Some x" and sh: "k_sighands k (t_sighand x) = Some sh"
    and act: "signal_action sh sig = SIGNAL_CALL_HANDLER" and sig: "0 < sig" "sig < 64" "\<not> t_zombie x"
    and blocked: "bit (t_blocked x) sig"
  shows "send_signal t sig k = k\<lparr>k_tasks := (k_tasks k)(t \<mapsto> x\<lparr>t_queued := t_queued x OR sigbit sig\<rparr>)\<rparr>"
proof -
  have "signal_is_blockable sig" using act by (auto simp: signal_action_def default_action_def split: if_splits)
  then show ?thesis
    using assms by (simp add: send_signal_def upd_task_def sigbit_nonzero)
qed

lemma unblocked_pending:
  assumes "t_queued y = q OR sigbit sig" "t_pending y = 0" "bit (t_blocked y) sig" "sig < 64" "bit m sig"
    "q AND m AND NOT (sigbit sig) = 0"
  shows "t_pending (change_mask (t_blocked y AND NOT m) y) = sigbit sig"
    "t_queued (change_mask (t_blocked y AND NOT m) y) = q AND NOT (sigbit sig)"
proof -
  have others: "bit q n \<Longrightarrow> bit m n \<Longrightarrow> n = sig" if "n < 64" for n
    using assms(6) bit_sigbit[OF that, of sig] that by (auto simp: bit_eq_iff bit_simps)
  have "bit (t_pending (change_mask (t_blocked y AND NOT m) y)) n \<longleftrightarrow> bit (sigbit sig) n" if "n < 64" for n
    using assms(1-5) others[OF that] that by (auto simp: change_mask_def Let_def bit_simps bit_sigbit)
  then show "t_pending (change_mask (t_blocked y AND NOT m) y) = sigbit sig"
    by (intro bit_word_eqI) simp
  have "bit (t_queued (change_mask (t_blocked y AND NOT m) y)) n \<longleftrightarrow> bit (q AND NOT (sigbit sig)) n" if "n < 64" for n
    using assms(1-5) others[OF that] that by (auto simp: change_mask_def Let_def bit_simps bit_sigbit)
  then show "t_queued (change_mask (t_blocked y AND NOT m) y) = q AND NOT (sigbit sig)"
    by (intro bit_word_eqI) simp
qed

lemma unblock_handles:
  assumes x: "k_tasks k t = Some x" and sh: "k_sighands k (t_sighand x) = Some sh"
    and act: "signal_action sh sig = SIGNAL_CALL_HANDLER" and sig: "0 < sig" "sig < 64" "\<not> t_zombie x"
    and blocked: "bit (t_blocked x) sig" and none: "t_pending x = 0"
    and m: "bit m sig" "t_queued x AND m AND NOT (sigbit sig) = 0" and tramp: "k_sigreturn k \<noteq> 0"
  defines "k1 \<equiv> send_signal t sig k"
  shows "t_pending (get_task t k1) = 0 \<and> bit (t_queued (get_task t k1)) sig"
    and "\<exists>k2 y. receive_signals (snd (do_sigprocmask 1 m (k1\<lparr>k_current := t\<rparr>))) = (True, k2) \<and>
    k_tasks k2 t = Some y \<and> cpu_eip (t_cpu y) = sa_handler (sh_action sh sig) \<and>
    cpu_regs (t_cpu y) reg_eax = of_nat sig \<and> bit (t_blocked y) sig \<and> t_pending y = 0 \<and>
    t_queued y = t_queued x AND NOT (sigbit sig)"
proof -
  let ?x = "x\<lparr>t_queued := t_queued x OR sigbit sig\<rparr>"
  have k1: "k1 = k\<lparr>k_tasks := (k_tasks k)(t \<mapsto> ?x)\<rparr>"
    unfolding k1_def by (rule send_blocked[OF x sh act sig blocked])
  then show "t_pending (get_task t k1) = 0 \<and> bit (t_queued (get_task t k1)) sig"
    using sig by (simp add: get_task_def none bit_or_iff bit_sigbit)
  let ?y = "change_mask (t_blocked x AND NOT m) ?x"
  let ?k = "snd (do_sigprocmask 1 m (k1\<lparr>k_current := t\<rparr>))"
  have k: "?k = k\<lparr>k_tasks := (k_tasks k)(t \<mapsto> ?y), k_current := t\<rparr>"
    by (simp add: do_sigprocmask_def new_mask_def k1 cur_task_def get_task_def upd_task_def Let_def)
  have y: "t_pending ?y = sigbit sig" "t_queued ?y = t_queued x AND NOT (sigbit sig)" "t_sighand ?y = t_sighand x"
    using unblocked_pending[of ?x "t_queued x" sig m] blocked sig m none
    by (simp_all add: change_mask_def Let_def)
  obtain b k2 where r: "receive_signal sig ?k = (b, k2)" by (cases "receive_signal sig ?k")
  note c = receive_signal_call[of ?k ?y sh sig b k2, OF _ _ act _ r refl refl refl]
  have c': "b" "k_current k2 = k_current ?k"
    using c(1,3) sh tramp y(3) by (simp_all add: k)
  obtain z where z: "k_tasks k2 t = Some z" "t_pending z = 0" "t_queued z = t_queued x AND NOT (sigbit sig)"
    "bit (t_blocked z) sig" "cpu_eip (t_cpu z) = sa_handler (sh_action sh sig)" "cpu_regs (t_cpu z) reg_eax = of_nat sig"
    using c(2) sh tramp y sig by (simp add: k call_handler_def Let_def bit_or_iff bit_sigbit)
  have "receive_signals ?k = (True, k2)"
    by (rule receive_one[OF sig(2), where x = ?y and y = z]) (use r c' z y in \<open>simp_all add: k\<close>)
  then show "\<exists>k2 y. receive_signals ?k = (True, k2) \<and>
    k_tasks k2 t = Some y \<and> cpu_eip (t_cpu y) = sa_handler (sh_action sh sig) \<and>
    cpu_regs (t_cpu y) reg_eax = of_nat sig \<and> bit (t_blocked y) sig \<and> t_pending y = 0 \<and>
    t_queued y = t_queued x AND NOT (sigbit sig)"
    using z by blast
qed

end
