(* ===== verification/Wait_Facts.thy ===== *)
theory Wait_Facts
  imports Kern_Facts
begin

text \<open>
  What a parent gets from \<open>wait4\<close>, and what \<open>setpgid\<close> does to the lists of the
  process groups.
\<close>

subsection \<open>A task that is removed\<close>

lemma task_destroy_facts:
  assumes k: "kern_ok k" and x: "k_tasks k t = Some x"
  shows "k_tasks (task_destroy t k) = (k_tasks k)(t := None)"
    "slot_task (task_destroy t k) = (slot_task k)(unat (t_pid x) := None)"
    "k_groups (task_destroy t k) = k_groups k" "k_current (task_destroy t k) = k_current k"
proof -
  define k1 where "k1 = (case child_owner t k of None \<Rightarrow> k | Some p \<Rightarrow> unlink_child p t k)"
  have same: "k_groups k1 = k_groups k" "k_current k1 = k_current k"
    by (simp_all add: k1_def unlink_child_def Let_def kbad_def split: option.split)
  have c: "calm k k1" by (simp add: k1_def calms split: option.split)
  then have k1: "kern_ok k1" "k_tasks k1 = k_tasks k" "slot_task k1 = slot_task k"
    using k kern_ok_calm by (auto simp: calm_def)
  have "p_task (k_pids k1 (unat (t_pid x))) = Some t" "unat (t_pid x) \<le> MAX_PID"
    using kern_ok_task(3,4)[OF k x] k1(3) by (simp_all add: slot_task_def fun_eq_iff)
  then have "pid_get (t_pid x) k1 = Some (unat (t_pid x))"
    by (auto simp: pid_get_def pid_empty_def word_less_nat_alt)
  then have d: "task_destroy t k = (upd_pid (unat (t_pid x)) (\<lambda>p. p\<lparr>p_task := None\<rparr>) k1)\<lparr>k_tasks := (k_tasks k1)(t := None)\<rparr>"
    using x by (simp add: task_destroy_def Let_def upd_pid_def flip: k1_def)
  then show "k_tasks (task_destroy t k) = (k_tasks k)(t := None)"
    "k_groups (task_destroy t k) = k_groups k" "k_current (task_destroy t k) = k_current k"
    by (simp_all add: k1 same upd_pid_def)
  show "slot_task (task_destroy t k) = (slot_task k)(unat (t_pid x) := None)"
    using k1(3) by (auto simp: d upd_pid_def slot_task_def fun_eq_iff)
qed

lemma task_by_id:
  assumes "kern_ok k" "k_tasks k t = Some x"
  shows "pid_get_task_zombie (t_pid x) k = Some t" "t_pid x \<noteq> - 1"
proof -
  have x: "unat (t_pid x) \<le> MAX_PID" "p_task (k_pids k (unat (t_pid x))) = Some t"
    using kern_ok_task(3,4)[OF assms] by (simp_all add: slot_task_def)
  then show "pid_get_task_zombie (t_pid x) k = Some t"
    by (auto simp: pid_get_task_zombie_def pid_get_def pid_empty_def word_less_nat_alt)
  show "t_pid x \<noteq> - 1" using x(1) by (auto simp: unsigned_minus_1_eq_mask mask_eq_exp_minus_1)
qed

subsection \<open>Waiting\<close>

text \<open>What \<open>wait4\<close> stores for the caller.\<close>

definition stored :: "mem_id \<Rightarrow> addr_t \<Rightarrow> dword_t list \<Rightarrow> vm \<Rightarrow> int \<times> vm" where
  "stored m a ws v = (if a = 0 then (0, v) else user_put_dwords m a ws v)"

lemma kput_stored: "(if a \<noteq> 0 then kput a ws k else (0, k)) =
    (case stored (t_mem (cur_task k)) a ws (k_vm k) of (err, v) \<Rightarrow> (err, k\<lparr>k_vm := v\<rparr>))"
  by (simp add: stored_def kput_def on_vm_def)

definition exit_status :: "task \<Rightarrow> tgroup \<Rightarrow> dword_t" where
  "exit_status x tg = (if g_doing_group_exit tg then g_group_exit_code tg else t_exit_code x)"

lemma task_destroy_vm: "k_vm (task_destroy t k) = k_vm k"
  by (auto simp: task_destroy_def unlink_child_def Let_def kbad_def upd_pid_def split: option.split)

lemma reap_zombie:
  assumes k: "kern_ok k" and x: "k_tasks k t = Some x" "t_zombie x"
    and g: "k_groups k (t_group x) = Some tg" "g_leader tg = t" "t_group x \<noteq> t_group (cur_task k)"
    and own: "k_groups k (t_group (cur_task k)) = Some cg"
    and s: "stored (t_mem (cur_task k)) status [exit_status x tg] (k_vm k) = (e1, v1)"
    and u: "stored (t_mem (cur_task k)) ru (dwords_of_rusage (g_rusage tg)) v1 = (e2, v2)"
  shows "\<exists>r k'. reap_if_zombie t status ru k = (r, k') \<and> r \<noteq> 0 \<and> k_vm k' = (if e1 = 0 then v2 else v1) \<and>
    (if e1 = 0 \<and> e2 = 0
     then k_tasks k' = (k_tasks k)(t := None) \<and> slot_task k' = (slot_task k)(unat (t_pid x) := None) \<and>
       k_groups k' (t_group x) = None
     else k_tasks k' = k_tasks k \<and> slot_task k' = slot_task k \<and> k_groups k' (t_group x) = Some tg) \<and>
    k_groups k' (t_group (cur_task k)) = (if e1 = 0
      then Some (cg\<lparr>g_children_rusage := rusage_add (g_children_rusage cg) (g_rusage tg)\<rparr>) else Some cg)"
proof -
  let ?c = "cg\<lparr>g_children_rusage := rusage_add (g_children_rusage cg) (g_rusage tg)\<rparr>"
  let ?k1 = "k\<lparr>k_vm := v1\<rparr>" and ?k2 = "k\<lparr>k_vm := v2, k_groups := (k_groups k)(t_group (cur_task k) \<mapsto> ?c)\<rparr>"
  let ?k = "?k2\<lparr>k_groups := (k_groups ?k2)(t_group x := None)\<rparr>"
  have ok: "kern_ok ?k" by (rule kern_ok_calm[OF k]) (simp add: calm_def slot_task_def)
  have cur: "cur_task (k\<lparr>k_vm := a\<rparr>) = cur_task k" "cur_task (k\<lparr>k_vm := a, k_groups := b\<rparr>) = cur_task k" for a b
    by (simp_all add: cur_task_def get_task_def)
  have lead: "group_leader k (t_group x) = Some t" using g by (simp add: group_leader_def)
  have store1: "(if status \<noteq> 0 then kput status [exit_status x tg] k else (0, k)) = (e1, ?k1)"
    unfolding kput_stored s by simp
  have store2: "(if ru \<noteq> 0 then put_rusage ru (g_rusage tg) (?k1\<lparr>k_groups := (k_groups k)(t_group (cur_task k) \<mapsto> ?c)\<rparr>)
      else (0, ?k1\<lparr>k_groups := (k_groups k)(t_group (cur_task k) \<mapsto> ?c)\<rparr>)) = (if e2 = 0 then 0 else EFAULT, ?k2)"
    using u by (auto simp: put_rusage_def kput_def on_vm_def stored_def cur split: if_splits)
  have run: "reap_if_zombie t status ru k = (if e1 \<noteq> 0 then (EFAULT, ?k1) else if e2 \<noteq> 0 then (EFAULT, ?k2) else (1, task_destroy t ?k))"
    using x g(1,3) own lead store1 store2
    by (simp add: reap_if_zombie_def Let_def get_task_def exit_status_def[symmetric] upd_group_def cur)
  then show ?thesis
    using task_destroy_facts[OF ok, of t x] x g own by (auto simp: slot_task_def task_destroy_facts task_destroy_vm)
qed


lemma wait4_zombie_child:
  assumes "kern_ok k" "k_tasks k t = Some x" "t_zombie x"
    and "k_groups k (t_group x) = Some tg" "g_leader tg = t" "t_group x \<noteq> t_group (cur_task k)"
    and "k_groups k (t_group (cur_task k)) = Some cg"
    and "stored (t_mem (cur_task k)) status [exit_status x tg] (k_vm k) = (e1, v1)"
    and "stored (t_mem (cur_task k)) ru (dwords_of_rusage (g_rusage tg)) v1 = (e2, v2)"
    and "t_parent x = Some p" "t_group (get_task p k) = t_group (cur_task k)"
  shows "\<exists>k'. sys_wait4 others (t_pid x) status opt ru k = Some (sint (t_pid x), k') \<and>
    k_vm k' = (if e1 = 0 then v2 else v1) \<and>
    (if e1 = 0 \<and> e2 = 0
     then k_tasks k' = (k_tasks k)(t := None) \<and> slot_task k' = (slot_task k)(unat (t_pid x) := None) \<and>
       k_groups k' (t_group x) = None
     else k_tasks k' = k_tasks k \<and> slot_task k' = slot_task k \<and> k_groups k' (t_group x) = Some tg) \<and>
    k_groups k' (t_group (cur_task k)) = (if e1 = 0
      then Some (cg\<lparr>g_children_rusage := rusage_add (g_children_rusage cg) (g_rusage tg)\<rparr>) else Some cg)"
proof -
  obtain r k' where r: "reap_if_zombie t status ru k = (r, k')" "r \<noteq> 0" and k': "k_vm k' = (if e1 = 0 then v2 else v1) \<and>
    (if e1 = 0 \<and> e2 = 0
     then k_tasks k' = (k_tasks k)(t := None) \<and> slot_task k' = (slot_task k)(unat (t_pid x) := None) \<and>
       k_groups k' (t_group x) = None
     else k_tasks k' = k_tasks k \<and> slot_task k' = slot_task k \<and> k_groups k' (t_group x) = Some tg) \<and>
    k_groups k' (t_group (cur_task k)) = (if e1 = 0
      then Some (cg\<lparr>g_children_rusage := rusage_add (g_children_rusage cg) (g_rusage tg)\<rparr>) else Some cg)"
    using reap_zombie[OF assms(1-9)] by blast
  have "wait_attempt (t_pid x) status ru k = (Found (t_pid x), k')"
    using task_by_id[OF assms(1,2)] assms(2,4,5,10,11) r
    by (simp add: wait_attempt_def get_task_def group_leader_def)
  then have "sys_wait4 others (t_pid x) status opt ru k = Some (sint (t_pid x), k')"
    by (cases others) (simp_all add: sys_wait4_def)
  then show ?thesis using k' by blast
qed

subsection \<open>Process groups\<close>

text \<open>The group that changes joins the list of the id \<open>i\<close> of the task, whatever
process group it now says it is in.\<close>

lemma move_to_group_lists:
  assumes g: "k_groups k g = Some tg" and i: "i \<le> MAX_PID" "g \<in> set (p_pgroup (k_pids k i0))" "i0 \<le> MAX_PID"
    and dist: "\<And>j. distinct (p_pgroup (k_pids k j))"
  shows "k_groups (move_to_group i g pgid k) g = Some (tg\<lparr>g_pgid := pgid\<rparr>)"
    "g \<in> set (p_pgroup (k_pids (move_to_group i g pgid k) j)) \<longleftrightarrow> j = i \<or> (MAX_PID < j \<and> g \<in> set (p_pgroup (k_pids k j)))"
proof -
  have "in_pgroup g k" using i(2,3) by (auto simp: in_pgroup_def)
  then have r: "remove_pgroup g k = all_pids (\<lambda>p. p\<lparr>p_pgroup := remove1 g (p_pgroup p)\<rparr>) k"
    by (simp add: remove_pgroup_def)
  show "k_groups (move_to_group i g pgid k) g = Some (tg\<lparr>g_pgid := pgid\<rparr>)"
    by (simp add: move_to_group_def Let_def r all_pids_def upd_group_def g upd_pid_def)
  show "g \<in> set (p_pgroup (k_pids (move_to_group i g pgid k) j)) \<longleftrightarrow> j = i \<or> (MAX_PID < j \<and> g \<in> set (p_pgroup (k_pids k j)))"
    using dist i(1) by (auto simp: move_to_group_def Let_def r all_pids_def upd_group_def g upd_pid_def)
qed

end
