(* ===== verification/Kern_Demo.thy ===== *)
theory Kern_Demo
  imports Kern_Steps Fork_Facts Signal_Facts Wait_Facts Fd_Facts
begin

text \<open>
  A small concrete kernel to apply the theorems to: task 10 with id 1 is the
  leader of group 20, works in the address space 0 of Demo with its stack at
  0x11800, and handles signal 10; task 11 with id 2 is its child, the leader of
  group 21, and has ended.
\<close>

definition task_demo :: task where
  "task_demo = zero_task\<lparr>t_pid := 1, t_tgid := 1, t_group := 20, t_sighand := 30, t_fs := 40,
     t_cpu := zero_cpu\<lparr>cpu_regs := (\<lambda>_. 7)(reg_esp := 0x11800), cpu_eip := 0x8048000\<rparr>\<rparr>"

definition child_demo :: task where
  "child_demo = zero_task\<lparr>t_pid := 2, t_tgid := 2, t_group := 21, t_parent := Some 10, t_zombie := True\<rparr>"

definition group_demo :: tgroup where
  "group_demo = init_tgroup\<lparr>g_threads := [10], g_leader := 10, g_sid := 1, g_pgid := 1\<rparr>"

definition sighand_demo :: sighand where
  "sighand_demo = \<lparr>sh_refcount = 1,
     sh_action = (\<lambda>s. \<lparr>sa_handler = (if s = 10 then 0x8049000 else 0), sa_flags = 0, sa_restorer = 0, sa_mask = 0\<rparr>),
     sh_altstack = 0, sh_altstack_size = 0, sh_on_altstack = False\<rparr>"

definition kern_demo :: kern where
  "kern_demo = \<lparr>k_vm = vm_demo, k_fds = fds_demo, k_ops = no_ops,
     k_fsinfos = [40 \<mapsto> \<lparr>fi_refcount = 1, fi_umask = 0, fi_pwd = 1, fi_root = 1\<rparr>],
     k_sighands = [30 \<mapsto> sighand_demo], k_groups = [20 \<mapsto> group_demo, 21 \<mapsto> group_demo\<lparr>g_threads := [], g_leader := 11, g_pgid := 2\<rparr>],
     k_tasks = [10 \<mapsto> task_demo, 11 \<mapsto> child_demo], k_children = (\<lambda>t. if t = 10 then [11] else []),
     k_pids = (\<lambda>i. if i = 1 then \<lparr>p_task = Some 10, p_session = [20, 21], p_pgroup = [20]\<rparr>
               else if i = 2 then \<lparr>p_task = Some 11, p_session = [], p_pgroup = [21]\<rparr>
               else \<lparr>p_task = None, p_session = [], p_pgroup = []\<rparr>),
     k_cur_pid = 2, k_current = 10, k_next = 50, k_ttys = (\<lambda>_. 0), k_sigreturn = 0x400,
     k_xsave_extra = 0, k_fxsave_extra = 0, k_usage = (\<lambda>_. zero_rusage), k_usages = 0, k_events = [], k_bad = False\<rparr>"

lemma kern_demo_sel [simp]:
  "k_vm kern_demo = vm_demo" "k_fds kern_demo = fds_demo" "k_ops kern_demo = no_ops"
  "k_tasks kern_demo = [10 \<mapsto> task_demo, 11 \<mapsto> child_demo]" "k_current kern_demo = 10" "k_next kern_demo = 50"
  "k_sighands kern_demo = [30 \<mapsto> sighand_demo]" "k_sigreturn kern_demo = 0x400" "k_cur_pid kern_demo = 2"
  "k_groups kern_demo = [20 \<mapsto> group_demo, 21 \<mapsto> group_demo\<lparr>g_threads := [], g_leader := 11, g_pgid := 2\<rparr>]"
  "k_fsinfos kern_demo = [40 \<mapsto> \<lparr>fi_refcount = 1, fi_umask = 0, fi_pwd = 1, fi_root = 1\<rparr>]"
  "k_xsave_extra kern_demo = 0" "\<not> k_bad kern_demo"
  "k_pids kern_demo 1 = \<lparr>p_task = Some 10, p_session = [20, 21], p_pgroup = [20]\<rparr>"
  "k_pids kern_demo 2 = \<lparr>p_task = Some 11, p_session = [], p_pgroup = [21]\<rparr>"
  by (simp_all add: kern_demo_def)

lemma kern_demo_free: "i \<noteq> 1 \<Longrightarrow> i \<noteq> 2 \<Longrightarrow> k_pids kern_demo i = \<lparr>p_task = None, p_session = [], p_pgroup = []\<rparr>"
  by (simp add: kern_demo_def)

lemma task_demo_sel [simp]:
  "t_pid task_demo = 1" "t_group task_demo = 20" "t_sighand task_demo = 30" "t_mem task_demo = 0" "t_fs task_demo = 40"
  "t_files task_demo = 0" "t_blocked task_demo = 0" "t_pending task_demo = 0" "t_queued task_demo = 0" "\<not> t_zombie task_demo"
  "cpu_regs (t_cpu task_demo) reg_esp = 0x11800" "cpu_eip (t_cpu task_demo) = 0x8048000" "t_parent task_demo = None"
  "t_pid child_demo = 2" "t_group child_demo = 21" "t_parent child_demo = Some 10" "t_zombie child_demo"
  "t_queued child_demo = 0"
  by (simp_all add: task_demo_def child_demo_def zero_task_def)

lemma cur_demo [simp]: "cur_task kern_demo = task_demo" "get_task 10 kern_demo = task_demo" "get_task 11 kern_demo = child_demo"
  by (simp_all add: cur_task_def get_task_def)

lemma kern_demo_ok: "kern_ok kern_demo"
  by (auto simp: kern_ok_def slot_task_def mask_ok_def kern_demo_def split: if_splits)

lemma demo_handler: "signal_action sighand_demo 10 = SIGNAL_CALL_HANDLER"
  by (simp add: signal_action_def signal_is_blockable_def sighand_demo_def)

lemma demo_frame: "frame_address kern_demo sighand_demo 0x11800 = 0x1151c"
  by (simp add: frame_address_def sighand_demo_def frame_size_def)

subsection \<open>Fork on it\<close>

lemma find_pid_next: "c < MAX_PID \<Longrightarrow> pid_empty (k_pids k (Suc c)) \<Longrightarrow> find_pid 1025 c k = Some (Suc c)"
proof -
  assume "c < MAX_PID" "pid_empty (k_pids k (Suc c))"
  moreover have "find_pid (Suc 1024) c k = (let next = (if c + 1 > MAX_PID then 0 else c + 1)
     in if pid_empty (k_pids k next) then Some next else find_pid 1024 next k)"
    by (rule find_pid.simps)
  ultimately show ?thesis by simp
qed

lemma demo_next_pid: "find_pid 1025 2 kern_demo = Some 3"
  using find_pid_next[of 2 kern_demo] kern_demo_free[of 3] by (simp add: pid_empty_def)

text \<open>With memory and a free process id, \<open>fork\<close> succeeds.\<close>

definition mem_free :: "kern \<Rightarrow> bool" where
  "mem_free k \<longleftrightarrow> (\<forall>n. fd_host (k_fds k) n)"

lemma fd_host_retain [simp]: "fd_host (fd_retain i s) = fd_host s" "fd_host (retain_slot n f s) = fd_host s"
  by (simp_all add: retain_slot_def fd_retain_def upd_fd_def bad_def split: option.split)

lemma fdtable_copy_ok:
  assumes "\<And>n. fd_host s n" "fd_tables s t = Some tb" "0 < ft_size tb"
  shows "\<exists>n s'. fdtable_copy t s = (Inr n, s') \<and> fd_host s' = fd_host s"
proof -
  have h: "fd_host (fold (retain_slot n) xs s) = fd_host s" for n xs s
    by (rule fold_unchanged) simp
  show ?thesis
    using assms by (auto simp: fdtable_copy_def fdtable_new_def fdtable_resize_def host_malloc_def Let_def upd_table_def h
        not_le bad_def split: option.split)
qed

lemma copy_files_ok:
  assumes "mem_free k" "k_tasks k t = Some x" "fd_tables (k_fds k) (t_files x) = Some tb" "0 < ft_size tb"
    "\<not> has flags CLONE_FILES"
  shows "\<exists>k'. copy_files t flags k = (0, k') \<and> mem_free k' \<and> k_fsinfos k' = k_fsinfos k"
proof -
  obtain n s where "fdtable_copy (t_files x) (task_fds k) = (Inr n, s)" "fd_host s = fd_host (k_fds k)"
    using fdtable_copy_ok[of "task_fds k" "t_files x" tb] assms by (auto simp: task_fds_def mem_free_def)
  then show ?thesis
    using assms by (auto simp: copy_files_def on_fds_def get_task_def upd_task_def mem_free_def)
qed

lemma kmalloc_ok: "mem_free k \<Longrightarrow> \<exists>k'. kmalloc k = (True, k') \<and> mem_free k' \<and> k_fsinfos k' = k_fsinfos k"
  by (simp add: kmalloc_def host_malloc_def mem_free_def)

lemma demo_malloc: "fst (kmalloc kern_demo)"
  by (simp add: kmalloc_def host_malloc_def kern_demo_def fds_demo_def)

lemma copy_fs_ok:
  assumes "mem_free k" "k_tasks k t = Some x" "k_fsinfos k (t_fs x) \<noteq> None" "\<not> has flags CLONE_FS"
  shows "\<exists>k'. copy_fs t flags k = (True, k') \<and> mem_free k'"
proof -
  obtain k1 where "kmalloc k = (True, k1)" "mem_free k1" "k_fsinfos k1 = k_fsinfos k" using kmalloc_ok[OF assms(1)] by blast
  then show ?thesis
    using assms by (auto simp: copy_fs_def fs_info_copy_def get_task_def upd_task_def mem_free_def do_fds_def task_fds_def
        kbad_def Let_def split: option.splits)
qed

lemma copy_sighand_ok:
  assumes "mem_free k" "\<not> has flags CLONE_SIGHAND"
  shows "\<exists>k'. copy_sighand t flags k = (True, k')"
proof -
  obtain k1 where "kmalloc k = (True, k1)" using kmalloc_ok[OF assms(1)] by blast
  then show ?thesis
    using assms(2) by (auto simp: copy_sighand_def sighand_copy_def sighand_new_def Let_def split: option.splits)
qed

lemma copy_task_ok:
  assumes flags: "fork_flags flags" "\<not> has flags CLONE_SIGHAND" "\<not> has flags CLONE_FS" "\<not> has flags CLONE_FILES"
    and x: "k_tasks k t = Some x" "fd_tables (k_fds k) (t_files x) = Some tb" "0 < ft_size tb" "k_fsinfos k (t_fs x) \<noteq> None"
    and v: "task_ok (t_mem x) (k_vm k)" "card (dom (vm_mems (k_vm k))) < 4095" and free: "mem_free k"
  shows "\<exists>k'. copy_task t flags 0 p tls ct k = (0, k')"
proof -
  have no: "\<not> has flags CLONE_VM" "\<not> has flags CLONE_THREAD" "\<not> has flags CLONE_SETTLS"
    "\<not> has flags CLONE_CHILD_SETTID" "\<not> has flags CLONE_PARENT_SETTID" "\<not> has flags CLONE_CHILD_CLEARTID"
    using flags by (simp_all add: fork_flags_def)
  let ?k0 = "upd_task t (t_vfork_done_update (\<lambda>_. False)) k"
  let ?k1 = "copy_mem t flags ?k0"
  have k0: "k_tasks ?k0 t = Some (x\<lparr>t_vfork_done := False\<rparr>)" "k_vm ?k0 = k_vm k" "k_fds ?k0 = k_fds k" "k_fsinfos ?k0 = k_fsinfos k"
    using x(1) by (simp_all add: upd_task_def)
  then obtain m where k1: "k_tasks ?k1 t = Some (x\<lparr>t_vfork_done := False, t_mem := m\<rparr>)"
    using copy_mem_moves[OF no(1) k0(1)] v by auto
  have same: "k_fds ?k1 = k_fds k" "k_fsinfos ?k1 = k_fsinfos k"
    using no(1) k0(3,4) by (auto simp: copy_mem_def Let_def on_vm_def upd_task_def kbad_def split: option.splits prod.splits)
  then have free1: "mem_free ?k1" using free by (simp add: mem_free_def)
  obtain k2 where k2: "copy_files t flags ?k1 = (0, k2)" "mem_free k2" "k_fsinfos k2 = k_fsinfos k"
    using copy_files_ok[OF free1 k1 _ x(3) flags(4)] x(2) same by auto
  obtain f where "moves t (\<lambda>x. x\<lparr>t_files := f x\<rparr>) ?k1 k2" using copy_files_moves[OF k2(1)] by auto
  then have t2: "k_tasks k2 t = Some (x\<lparr>t_vfork_done := False, t_mem := m, t_files := f (x\<lparr>t_vfork_done := False, t_mem := m\<rparr>)\<rparr>)"
    using k1 by (simp add: moves_def)
  obtain k3 where k3: "copy_fs t flags k2 = (True, k3)" "mem_free k3"
    using copy_fs_ok[OF k2(2) t2 _ flags(3)] k2(3) x(4) by auto
  obtain k4 where "copy_sighand t flags k3 = (True, k4)" using copy_sighand_ok[OF k3(2) flags(2)] by blast
  then show ?thesis using k2 k3 by (simp add: copy_task_def Let_def copy_ids_def no)
qed

lemma demo_dom: "dom (vm_mems vm_demo) = {0, 1}"
  by (rule set_eqI) (simp add: domIff vm_demo_facts(6))

lemma demo_fork: "\<exists>k'. sys_fork kern_demo = Some (3, k')"
proof -
  let ?x = "task_demo\<lparr>t_pid := 3, t_parent := Some 10, t_did_exec := False\<rparr>"
  let ?f = "17 :: dword_t"
  have flags: "fork_flags ?f" "\<not> has ?f CLONE_SIGHAND" "\<not> has ?f CLONE_FS" "\<not> has ?f CLONE_FILES" "\<not> has ?f CLONE_VFORK"
    by (simp_all add: fork_flags_def has_def)
  define k1 where "k1 = snd (task_create (Some 10) kern_demo)"
  have k1: "task_create (Some 10) kern_demo = (Some 50, k1)" "k_tasks k1 50 = Some ?x" "k_fds k1 = fds_demo\<lparr>fd_calls := 1\<rparr>"
    "k_vm k1 = vm_demo" "k_current k1 = 10" "k_fsinfos k1 = k_fsinfos kern_demo"
    by (simp_all add: k1_def task_create_def demo_next_pid kmalloc_def host_malloc_def upd_pid_def Let_def fds_demo_def get_task_def)
  obtain k2 where k2: "copy_task 50 ?f 0 0 0 0 k1 = (0, k2)"
  proof -
    have "mem_free k1" "fd_tables (k_fds k1) 0 = fd_tables fds_demo 0"
      by (simp_all add: mem_free_def k1(3)) (simp add: fds_demo_def)
    then have "\<exists>k'. copy_task 50 ?f 0 0 0 0 k1 = (0, k')"
      using copy_task_ok[OF flags(1-4) k1(2), of "the (fd_tables fds_demo 0)" 0 0 0] vm_demo_ok[of 0]
      by (simp add: k1(4,6) demo_dom fds_demo_def)
    then show thesis using that by blast
  qed
  obtain y where "k_tasks k2 50 = Some y" "t_pid y = 3"
    using copy_task_fork[OF flags(1) k2 _ k1(2)] k1(4) vm_demo_ok[of 0] demo_dom by auto
  then have "get_task 50 (upd_task 50 (\<lambda>x. x\<lparr>t_cpu := (t_cpu x)\<lparr>cpu_regs := (cpu_regs (t_cpu x))(reg_eax := 0)\<rparr>\<rparr>) k2)
      = y\<lparr>t_cpu := (t_cpu y)\<lparr>cpu_regs := (cpu_regs (t_cpu y))(reg_eax := 0)\<rparr>\<rparr>"
    by (simp add: upd_task_def get_task_def)
  then show ?thesis
    using \<open>t_pid y = 3\<close> by (simp add: sys_fork_def sys_clone_def Let_def has_def k1(1) k2)
qed

end
