(* ===== verification/Interp.thy ===== *)
theory Interp
  imports Machine
begin

text \<open>
  The instruction macros of \<open>src/emu/interp.c\<close>, \<open>src/emu/interp/sse.h\<close> and
  \<open>src/emu/interp/fpu.h\<close>. \<open>z\<close> is the operand size in bits and \<open>oz\<close> the operand
  size of the decoder (\<open>OP_SIZE\<close>). Operands are read as often and in the order
  the macros read them. The arithmetic of C on operands of 8 and 16 bits is done
  in 32 bits after promotion; the 32-bit words below do the same, as no promoted
  value the macros compute is negative before it is truncated.
\<close>

subsection \<open>Arithmetic with overflow\<close>

datatype arith = add | sub | mul

definition exact :: "arith \<Rightarrow> int \<Rightarrow> int \<Rightarrow> int" where
  "exact what a b = (case what of add \<Rightarrow> a + b | sub \<Rightarrow> a - b | mul \<Rightarrow> a * b)"

definition sint_of :: "nat \<Rightarrow> dword_t \<Rightarrow> int" where
  "sint_of z a = signed_take_bit (z - 1) (uint a)"

definition uint_of :: "nat \<Rightarrow> dword_t \<Rightarrow> int" where
  "uint_of z a = take_bit z (uint a)"

text \<open>The result, sign extended from \<open>z\<close> bits, and the overflow.\<close>

definition unsigned_overflow :: "arith \<Rightarrow> nat \<Rightarrow> dword_t \<Rightarrow> dword_t \<Rightarrow> dword_t \<times> bool" where
  "unsigned_overflow what z a b =
    (let r = exact what (uint_of z a) (uint_of z b)
     in (word_of_int (signed_take_bit (z - 1) r), take_bit z r \<noteq> r))"

definition signed_overflow :: "arith \<Rightarrow> nat \<Rightarrow> dword_t \<Rightarrow> dword_t \<Rightarrow> dword_t \<times> bool" where
  "signed_overflow what z a b =
    (let r = exact what (sint_of z a) (sint_of z b)
     in (word_of_int (signed_take_bit (z - 1) r), signed_take_bit (z - 1) r \<noteq> r))"

definition SETRESFLAGS :: "cpu_state \<Rightarrow> cpu_state" where
  "SETRESFLAGS c = c\<lparr>cpu_zf_res := True, cpu_sf_res := True, cpu_pf_res := True\<rparr>"

definition SETRES :: "dword_t \<Rightarrow> nat \<Rightarrow> cpu_state \<Rightarrow> cpu_state" where
  "SETRES v z c = SETRESFLAGS (c\<lparr>cpu_res := word_of_int (sint_of z v)\<rparr>)"

definition ZEROAF :: "cpu_state \<Rightarrow> cpu_state" where
  "ZEROAF c = put_flag AF_bit False (c\<lparr>cpu_af_ops := False\<rparr>)"

definition zero_cf_of_af :: "cpu_state \<Rightarrow> cpu_state" where
  "zero_cf_of_af c = ZEROAF (c\<lparr>cpu_cf := 0, cpu_of := 0\<rparr>)"

definition put_cf :: "bool \<Rightarrow> cpu_state \<Rightarrow> cpu_state" where
  "put_cf b c = c\<lparr>cpu_cf := of_bool b\<rparr>"

definition put_of :: "bool \<Rightarrow> cpu_state \<Rightarrow> cpu_state" where
  "put_of b c = c\<lparr>cpu_of := of_bool b\<rparr>"

definition put_res :: "dword_t \<Rightarrow> cpu_state \<Rightarrow> cpu_state" where
  "put_res v c = c\<lparr>cpu_res := v\<rparr>"

subsection \<open>Moves\<close>

definition MOV :: "operand \<Rightarrow> operand \<Rightarrow> nat \<Rightarrow> unit code" where
  "MOV src dst z = bnd (get_op src z) (\<lambda>v. set_op dst v z)"

definition MOVZX :: "operand \<Rightarrow> operand \<Rightarrow> nat \<Rightarrow> nat \<Rightarrow> unit code" where
  "MOVZX src dst zs zd = bnd (get_op src zs) (\<lambda>v. set_op dst v zd)"

definition MOVSX :: "operand \<Rightarrow> operand \<Rightarrow> nat \<Rightarrow> nat \<Rightarrow> unit code" where
  "MOVSX src dst zs zd = bnd (get_op src zs) (\<lambda>v. set_op dst (word_of_int (sint_of zs v)) zd)"

definition XCHG :: "operand \<Rightarrow> operand \<Rightarrow> nat \<Rightarrow> unit code" where
  "XCHG src dst z =
    bnd (get_op src z) (\<lambda>tmp.
    bnd (get_op dst z) (\<lambda>v.
    bnd (set_op src v z) (\<lambda>_. set_op dst tmp z)))"

definition bytes_of_size :: "nat \<Rightarrow> dword_t" where
  "bytes_of_size z = of_nat (z div 8)"

definition add_reg :: "reg32 \<Rightarrow> dword_t \<Rightarrow> cpu_state \<Rightarrow> cpu_state" where
  "add_reg r n c = c\<lparr>cpu_regs := (cpu_regs c)(r := cpu_regs c r + n)\<rparr>"

definition PUSH :: "nat \<Rightarrow> operand \<Rightarrow> nat \<Rightarrow> unit code" where
  "PUSH oz thing z =
    bnd (from_cpu (\<lambda>c. cpu_regs c reg_esp - bytes_of_size oz)) (\<lambda>a.
    bnd (get_op thing z) (\<lambda>v.
    bnd (mem_write a v z) (\<lambda>_.
    on_cpu (add_reg reg_esp (- bytes_of_size oz)))))"

definition POP :: "nat \<Rightarrow> operand \<Rightarrow> nat \<Rightarrow> unit code" where
  "POP oz thing z =
    bnd (from_cpu (\<lambda>c. cpu_regs c reg_esp)) (\<lambda>a.
    bnd (mem_read a z) (\<lambda>v.
    bnd (set_op thing v z) (\<lambda>_.
    on_cpu (add_reg reg_esp (bytes_of_size oz)))))"

definition INT_imm :: "operand \<Rightarrow> unit code" where
  "INT_imm code = bnd (get_op code 8) (\<lambda>n. raise_interrupt (uint n))"

subsection \<open>Arithmetic and logic\<close>

definition SETAF :: "operand \<Rightarrow> operand \<Rightarrow> nat \<Rightarrow> unit code" where
  "SETAF a b z =
    bnd (get_op a z) (\<lambda>x.
    bnd (on_cpu (\<lambda>c. c\<lparr>cpu_op1 := x\<rparr>)) (\<lambda>_.
    bnd (get_op b z) (\<lambda>y.
    on_cpu (\<lambda>c. c\<lparr>cpu_op2 := y, cpu_af_ops := True\<rparr>))))"

text \<open>\<open>cpu->cf = unsigned_overflow(what, a, b, cpu->res, z)\<close> and the signed one
for \<open>of\<close>, on two operands.\<close>

definition overflow_to_cf :: "arith \<Rightarrow> operand \<Rightarrow> operand \<Rightarrow> nat \<Rightarrow> unit code" where
  "overflow_to_cf what a b z =
    bnd (get_op a z) (\<lambda>x. bnd (get_op b z) (\<lambda>y.
    (let (r, ov) = unsigned_overflow what z x y in on_cpu (\<lambda>c. put_cf ov (put_res r c)))))"

definition overflow_to_of :: "arith \<Rightarrow> operand \<Rightarrow> operand \<Rightarrow> nat \<Rightarrow> unit code" where
  "overflow_to_of what a b z =
    bnd (get_op a z) (\<lambda>x. bnd (get_op b z) (\<lambda>y.
    (let (r, ov) = signed_overflow what z x y in on_cpu (\<lambda>c. put_of ov (put_res r c)))))"

definition set_to_res :: "operand \<Rightarrow> nat \<Rightarrow> unit code" where
  "set_to_res dst z = bnd (from_cpu cpu_res) (\<lambda>v. set_op dst v z)"

definition TEST :: "operand \<Rightarrow> operand \<Rightarrow> nat \<Rightarrow> unit code" where
  "TEST src dst z =
    bnd (get_op dst z) (\<lambda>d. bnd (get_op src z) (\<lambda>s.
    on_cpu (\<lambda>c. zero_cf_of_af (SETRES (d AND s) z c))))"

definition ADD :: "operand \<Rightarrow> operand \<Rightarrow> nat \<Rightarrow> unit code" where
  "ADD src dst z = block
    [SETAF src dst z, overflow_to_cf add dst src z, overflow_to_of add dst src z,
     set_to_res dst z, on_cpu SETRESFLAGS]"

text \<open>The two assignments of \<open>ADC\<close> and \<open>SBB\<close>: the source operand is read again
for the second test unless the first one holds.\<close>

definition carry_test :: "bool \<Rightarrow> operand \<Rightarrow> nat \<Rightarrow> dword_t \<Rightarrow> bool code" where
  "carry_test ov src z edge =
    (if ov then ret True
     else bnd (from_cpu cpu_cf) (\<lambda>cf.
       if cf = 0 then ret False else bnd (get_op src z) (\<lambda>s. ret (s = edge))))"

definition carry_to_of :: "arith \<Rightarrow> operand \<Rightarrow> operand \<Rightarrow> nat \<Rightarrow> unit code" where
  "carry_to_of what src dst z =
    bnd (get_op dst z) (\<lambda>d. bnd (get_op src z) (\<lambda>s. bnd (from_cpu cpu_cf) (\<lambda>cf.
    (let (r, ov) = signed_overflow what z d (s + ucast cf)
     in bnd (on_cpu (put_res r)) (\<lambda>_.
        bnd (carry_test ov src z (mask (z - 1))) (\<lambda>o'. on_cpu (put_of o')))))))"

definition carry_to_cf :: "arith \<Rightarrow> operand \<Rightarrow> operand \<Rightarrow> nat \<Rightarrow> unit code" where
  "carry_to_cf what src dst z =
    bnd (get_op dst z) (\<lambda>d. bnd (get_op src z) (\<lambda>s. bnd (from_cpu cpu_cf) (\<lambda>cf.
    (let (r, ov) = unsigned_overflow what z d (s + ucast cf)
     in bnd (on_cpu (put_res r)) (\<lambda>_.
        bnd (carry_test ov src z (mask z)) (\<lambda>o'. on_cpu (put_cf o')))))))"

definition ADC :: "operand \<Rightarrow> operand \<Rightarrow> nat \<Rightarrow> unit code" where
  "ADC src dst z = block
    [SETAF src dst z, carry_to_of add src dst z, carry_to_cf add src dst z,
     set_to_res dst z, on_cpu SETRESFLAGS]"

definition SBB :: "operand \<Rightarrow> operand \<Rightarrow> nat \<Rightarrow> unit code" where
  "SBB src dst z = block
    [SETAF src dst z, carry_to_of sub src dst z, carry_to_cf sub src dst z,
     set_to_res dst z, on_cpu SETRESFLAGS]"

definition logic :: "(dword_t \<Rightarrow> dword_t \<Rightarrow> dword_t) \<Rightarrow> operand \<Rightarrow> operand \<Rightarrow> nat \<Rightarrow> unit code" where
  "logic f src dst z =
    bnd (get_op dst z) (\<lambda>d. bnd (get_op src z) (\<lambda>s.
    bnd (set_op dst (f d s) z) (\<lambda>_.
    bnd (on_cpu zero_cf_of_af) (\<lambda>_.
    bnd (get_op dst z) (\<lambda>v. on_cpu (SETRES v z))))))"

definition OR_insn :: "operand \<Rightarrow> operand \<Rightarrow> nat \<Rightarrow> unit code" where
  "OR_insn = logic (OR)"

definition AND_insn :: "operand \<Rightarrow> operand \<Rightarrow> nat \<Rightarrow> unit code" where
  "AND_insn = logic (AND)"

definition XOR_insn :: "operand \<Rightarrow> operand \<Rightarrow> nat \<Rightarrow> unit code" where
  "XOR_insn = logic (XOR)"

definition SUB :: "operand \<Rightarrow> operand \<Rightarrow> nat \<Rightarrow> unit code" where
  "SUB src dst z = block
    [SETAF src dst z, overflow_to_of sub dst src z, overflow_to_cf sub dst src z,
     set_to_res dst z, on_cpu SETRESFLAGS]"

definition CMP :: "operand \<Rightarrow> operand \<Rightarrow> nat \<Rightarrow> unit code" where
  "CMP src dst z = block
    [SETAF src dst z, overflow_to_cf sub dst src z, overflow_to_of sub dst src z, on_cpu SETRESFLAGS]"

definition keeping_cf :: "unit code \<Rightarrow> unit code" where
  "keeping_cf c = bnd (from_cpu cpu_cf) (\<lambda>tmp. bnd c (\<lambda>_. on_cpu (\<lambda>c. c\<lparr>cpu_cf := tmp\<rparr>)))"

definition INC :: "operand \<Rightarrow> nat \<Rightarrow> unit code" where
  "INC val z = keeping_cf (ADD (Const 1) val z)"

definition DEC :: "operand \<Rightarrow> nat \<Rightarrow> unit code" where
  "DEC val z = keeping_cf (SUB (Const 1) val z)"

text \<open>The flags after a multiplication: \<open>cf\<close> and \<open>of\<close>, all others cleared.\<close>

definition mul_flags :: "bool \<Rightarrow> cpu_state \<Rightarrow> cpu_state" where
  "mul_flags b c =
    put_flag ZF_bit False (put_flag SF_bit False (put_flag PF_bit False
      ((put_cf b (put_of b c))\<lparr>cpu_zf_res := False, cpu_sf_res := False, cpu_pf_res := False\<rparr>)))"

definition MUL1 :: "operand \<Rightarrow> nat \<Rightarrow> unit code" where
  "MUL1 val z =
    bnd (get_op (Gpr reg_eax) z) (\<lambda>a. bnd (get_op val z) (\<lambda>v.
    (let tmp = ucast a * ucast v :: qword_t
     in block [set_op (Gpr reg_eax) (ucast tmp) z, set_op (Gpr reg_edx) (ucast (drop_bit z tmp)) z,
               on_cpu (\<lambda>c. mul_flags (tmp \<noteq> ucast (ucast tmp :: dword_t)) (ZEROAF c))])))"

definition IMUL1 :: "operand \<Rightarrow> nat \<Rightarrow> unit code" where
  "IMUL1 val z =
    bnd (get_op (Gpr reg_eax) z) (\<lambda>a. bnd (get_op val z) (\<lambda>v.
    (let tmp = sint_of z a * sint_of z v
     in block [set_op (Gpr reg_eax) (word_of_int tmp) z, set_op (Gpr reg_edx) (word_of_int (drop_bit z tmp)) z,
               on_cpu (mul_flags (tmp \<noteq> signed_take_bit 31 tmp))])))"

definition IMUL2 :: "operand \<Rightarrow> operand \<Rightarrow> nat \<Rightarrow> unit code" where
  "IMUL2 val reg z =
    bnd (get_op reg z) (\<lambda>a. bnd (get_op val z) (\<lambda>b.
    (let (r, ov) = signed_overflow mul z a b
     in block [on_cpu (\<lambda>c. put_cf ov (put_of ov (put_res r c))), set_to_res reg z, on_cpu SETRESFLAGS])))"

definition IMUL3 :: "operand \<Rightarrow> operand \<Rightarrow> operand \<Rightarrow> nat \<Rightarrow> unit code" where
  "IMUL3 imm src dst z =
    bnd (get_op src z) (\<lambda>a. bnd (get_op imm z) (\<lambda>b.
    (let (r, ov) = signed_overflow mul z a b
     in block [on_cpu (\<lambda>c. put_cf ov (put_of ov (put_res r c))), set_to_res dst z,
               on_cpu (\<lambda>c. put_flag ZF_bit False (put_flag SF_bit False
                 (c\<lparr>cpu_pf_res := True, cpu_zf_res := False, cpu_sf_res := False\<rparr>)))])))"

text \<open>The second division reads the divisor again, after the remainder has been
stored; division by zero is undefined in C. \<open>INT64_MIN / -1\<close> does not occur: the
divisor of \<open>IDIV\<close> is unsigned and converts to a positive number.\<close>

definition c_div :: "int \<Rightarrow> int \<Rightarrow> int" where
  "c_div a b = (if a < 0 then - ((- a) div b) else a div b)"

definition DIV :: "operand \<Rightarrow> nat \<Rightarrow> unit code" where
  "DIV val z =
    bnd (get_op val z) (\<lambda>v.
    if v = 0 then raise_interrupt INT_DIV
    else
      bnd (get_op (Gpr reg_eax) z) (\<lambda>a. bnd (get_op (Gpr reg_edx) z) (\<lambda>d.
      (let dividend = uint a + uint d * 2 ^ z
       in bnd (get_op val z) (\<lambda>v.
          bnd (set_op (Gpr reg_edx) (word_of_int (dividend mod uint v)) z) (\<lambda>_.
          bnd (get_op val z) (\<lambda>v.
          if v = 0 then (\<lambda>m. Crash)
          else set_op (Gpr reg_eax) (word_of_int (dividend div uint v)) z)))))))"

definition IDIV :: "operand \<Rightarrow> nat \<Rightarrow> unit code" where
  "IDIV val z =
    bnd (get_op val z) (\<lambda>v.
    if v = 0 then raise_interrupt INT_DIV
    else
      bnd (get_op (Gpr reg_eax) z) (\<lambda>a. bnd (get_op (Gpr reg_edx) z) (\<lambda>d.
      (let dividend = signed_take_bit (2 * z - 1) (uint a + uint d * 2 ^ z)
       in bnd (get_op val z) (\<lambda>v.
          bnd (set_op (Gpr reg_edx) (word_of_int (dividend - uint v * c_div dividend (uint v))) z) (\<lambda>_.
          bnd (get_op val z) (\<lambda>v.
          if v = 0 then (\<lambda>m. Crash)
          else set_op (Gpr reg_eax) (word_of_int (c_div dividend (uint v))) z)))))))"

definition CVT :: "nat \<Rightarrow> unit code" where
  "CVT oz = bnd (get_op (Gpr reg_eax) oz) (\<lambda>a.
     set_op (Gpr reg_edx) (if a AND push_bit (oz - 1) 1 \<noteq> 0 then mask oz else 0) oz)"

text \<open>\<open>CVTE\<close> writes the lower half of the register with its lower half.\<close>

definition CVTE :: "nat \<Rightarrow> unit code" where
  "CVTE oz =
    bnd (from_cpu (read_part (reg_eax, 0) oz)) (\<lambda>v. on_cpu (write_part (reg_eax, 0) (oz div 2) v))"

subsection \<open>Shifts and rotates\<close>

text \<open>The shift macros do nothing when the count is 0 modulo the size; the count
is read twice.\<close>

definition shift_count :: "operand \<Rightarrow> nat \<Rightarrow> (nat \<Rightarrow> unit code) \<Rightarrow> unit code" where
  "shift_count count z body =
    bnd (get_op count 8) (\<lambda>n.
    if unat n mod z = 0 then ret ()
    else bnd (get_op count 8) (\<lambda>n. body (unat n mod z)))"

definition assign_cf :: "byte_t \<Rightarrow> unit code" where
  "assign_cf b = on_cpu (\<lambda>c. c\<lparr>cpu_cf := b\<rparr>)"

definition assign_of :: "byte_t \<Rightarrow> unit code" where
  "assign_of b = on_cpu (\<lambda>c. c\<lparr>cpu_of := b\<rparr>)"

definition ROL :: "nat \<Rightarrow> operand \<Rightarrow> operand \<Rightarrow> nat \<Rightarrow> unit code" where
  "ROL oz count val z = shift_count count z (\<lambda>cnt.
    bnd (get_op val z) (\<lambda>v. bnd (get_op val z) (\<lambda>w.
    bnd (set_op val (push_bit cnt v OR drop_bit (z - cnt) w) z) (\<lambda>_.
    bnd (get_op val z) (\<lambda>v.
    bnd (assign_cf (ucast (v AND 1))) (\<lambda>_.
    only_if (cnt = 1)
      (bnd (from_cpu cpu_cf) (\<lambda>cf. bnd (get_op val z) (\<lambda>v.
        assign_of (cf XOR ucast (drop_bit (oz - 1) v)))))))))))"

definition ROR :: "nat \<Rightarrow> operand \<Rightarrow> operand \<Rightarrow> nat \<Rightarrow> unit code" where
  "ROR oz count val z = shift_count count z (\<lambda>cnt.
    bnd (get_op val z) (\<lambda>v. bnd (get_op val z) (\<lambda>w.
    bnd (set_op val (drop_bit cnt v OR push_bit (z - cnt) w) z) (\<lambda>_.
    bnd (get_op val z) (\<lambda>v.
    bnd (assign_cf (ucast (drop_bit (oz - 1) v))) (\<lambda>_.
    only_if (cnt = 1)
      (bnd (from_cpu cpu_cf) (\<lambda>cf. bnd (get_op val z) (\<lambda>v.
        assign_of (cf XOR ucast (v AND 1)))))))))))"

text \<open>The end of the three plain shifts.\<close>

definition shift_result :: "operand \<Rightarrow> nat \<Rightarrow> unit code" where
  "shift_result val z = bnd (get_op val z) (\<lambda>v. on_cpu (\<lambda>c. ZEROAF (SETRES v z c)))"

definition SHL :: "operand \<Rightarrow> operand \<Rightarrow> nat \<Rightarrow> unit code" where
  "SHL count val z = shift_count count z (\<lambda>cnt.
    bnd (get_op val z) (\<lambda>v.
    bnd (assign_cf (ucast (drop_bit (z - 1) (push_bit (cnt - 1) v)))) (\<lambda>_.
    bnd (from_cpu cpu_cf) (\<lambda>cf. bnd (get_op val z) (\<lambda>v.
    bnd (assign_of (cf XOR ucast (drop_bit (z - 1) v))) (\<lambda>_.
    bnd (get_op val z) (\<lambda>v.
    bnd (set_op val (push_bit cnt v) z) (\<lambda>_. shift_result val z))))))))"

definition SHR :: "operand \<Rightarrow> operand \<Rightarrow> nat \<Rightarrow> unit code" where
  "SHR count val z = shift_count count z (\<lambda>cnt.
    bnd (get_op val z) (\<lambda>v.
    bnd (assign_cf (ucast (drop_bit (cnt - 1) v AND 1))) (\<lambda>_.
    bnd (get_op val z) (\<lambda>v.
    bnd (assign_of (ucast (drop_bit (z - 1) v))) (\<lambda>_.
    bnd (get_op val z) (\<lambda>v.
    bnd (set_op val (drop_bit cnt v) z) (\<lambda>_. shift_result val z)))))))"

definition SAR :: "operand \<Rightarrow> operand \<Rightarrow> nat \<Rightarrow> unit code" where
  "SAR count val z = shift_count count z (\<lambda>cnt.
    bnd (get_op val z) (\<lambda>v.
    bnd (assign_cf (ucast (drop_bit (cnt - 1) v AND 1))) (\<lambda>_.
    bnd (assign_of 0) (\<lambda>_.
    bnd (get_op val z) (\<lambda>v.
    bnd (set_op val (word_of_int (drop_bit cnt (sint_of z v))) z) (\<lambda>_. shift_result val z))))))"

definition SHRD :: "operand \<Rightarrow> operand \<Rightarrow> operand \<Rightarrow> nat \<Rightarrow> unit code" where
  "SHRD count extra dst z = shift_count count z (\<lambda>cnt.
    bnd (get_op dst z) (\<lambda>v.
    bnd (assign_cf (ucast (drop_bit (cnt - 1) v AND 1))) (\<lambda>_.
    bnd (get_op dst z) (\<lambda>v. bnd (get_op extra z) (\<lambda>e.
    block [on_cpu (put_res (drop_bit cnt v OR push_bit (z - cnt) e)), set_to_res dst z,
           on_cpu SETRESFLAGS])))))"

definition SHLD :: "operand \<Rightarrow> operand \<Rightarrow> operand \<Rightarrow> nat \<Rightarrow> unit code" where
  "SHLD count extra dst z = shift_count count z (\<lambda>cnt.
    bnd (get_op dst z) (\<lambda>v. bnd (get_op extra z) (\<lambda>e.
    block [on_cpu (put_res (push_bit cnt v OR drop_bit (z - cnt) e)), set_to_res dst z,
           on_cpu SETRESFLAGS])))"

definition NOT_insn :: "operand \<Rightarrow> nat \<Rightarrow> unit code" where
  "NOT_insn val z = bnd (get_op val z) (\<lambda>v. set_op val (NOT v) z)"

definition NEG :: "operand \<Rightarrow> nat \<Rightarrow> unit code" where
  "NEG val z = block
    [SETAF (Const 0) val z, overflow_to_of sub (Const 0) val z, overflow_to_cf sub (Const 0) val z,
     set_to_res val z, on_cpu SETRESFLAGS]"

subsection \<open>Bits\<close>

text \<open>\<open>get_bit\<close> of an operand in memory looks at the word the bit number
selects.\<close>

definition get_bit :: "operand \<Rightarrow> operand \<Rightarrow> nat \<Rightarrow> bool code" where
  "get_bit bt val z =
    bnd (\<lambda>m. if is_memory val m
             then bnd (get_op bt z) (\<lambda>b m. mem_read (l_addr m + of_nat (unat b div z * (z div 8))) z m) m
             else get_op val z m) (\<lambda>v.
    bnd (get_op bt z) (\<lambda>b. ret ((v :: dword_t) AND push_bit (unat b mod z) 1 \<noteq> 0)))"

definition msk :: "operand \<Rightarrow> nat \<Rightarrow> dword_t code" where
  "msk bt z = bnd (get_op bt z) (\<lambda>b. ret (push_bit (unat b mod z) 1))"

definition BT :: "operand \<Rightarrow> operand \<Rightarrow> nat \<Rightarrow> unit code" where
  "BT bt val z = bnd (get_bit bt val z) (\<lambda>b. on_cpu (put_cf b))"

definition change_bit :: "(dword_t \<Rightarrow> dword_t \<Rightarrow> dword_t) \<Rightarrow> operand \<Rightarrow> operand \<Rightarrow> nat \<Rightarrow> unit code" where
  "change_bit f bt val z =
    bnd (BT bt val z) (\<lambda>_. bnd (get_op val z) (\<lambda>v. bnd (msk bt z) (\<lambda>k. set_op val (f v k) z)))"

definition BTC :: "operand \<Rightarrow> operand \<Rightarrow> nat \<Rightarrow> unit code" where
  "BTC = change_bit (XOR)"

definition BTS :: "operand \<Rightarrow> operand \<Rightarrow> nat \<Rightarrow> unit code" where
  "BTS = change_bit (OR)"

definition BTR :: "operand \<Rightarrow> operand \<Rightarrow> nat \<Rightarrow> unit code" where
  "BTR = change_bit (\<lambda>v k. v AND NOT k)"

definition bit_scan :: "(dword_t \<Rightarrow> dword_t) \<Rightarrow> operand \<Rightarrow> operand \<Rightarrow> nat \<Rightarrow> unit code" where
  "bit_scan f src dst z =
    bnd (get_op src z) (\<lambda>v.
    bnd (on_cpu (\<lambda>c. put_flag ZF_bit (v = 0) (c\<lparr>cpu_zf_res := False\<rparr>))) (\<lambda>_.
    only_if (v \<noteq> 0) (bnd (get_op src z) (\<lambda>v. set_op dst (f v) z))))"

definition BSF :: "operand \<Rightarrow> operand \<Rightarrow> nat \<Rightarrow> unit code" where
  "BSF src dst z = bit_scan (\<lambda>v. of_nat (ctz v)) src dst z"

definition BSR :: "operand \<Rightarrow> operand \<Rightarrow> nat \<Rightarrow> unit code" where
  "BSR src dst z = bit_scan (\<lambda>v. of_nat z - of_nat (clz v)) src dst z"

subsection \<open>Strings\<close>

definition bump :: "reg32 \<Rightarrow> nat \<Rightarrow> cpu_state \<Rightarrow> cpu_state" where
  "bump r z c =
    add_reg r (if \<not> bit (cpu_eflags c) DF_bit then bytes_of_size z else - bytes_of_size z) c"

definition BUMP_SI :: "nat \<Rightarrow> unit code" where
  "BUMP_SI z = on_cpu (bump reg_esi z)"

definition BUMP_DI :: "nat \<Rightarrow> unit code" where
  "BUMP_DI z = on_cpu (bump reg_edi z)"

datatype string_op = movs | stos | lods | scas | cmps

definition STRING :: "string_op \<Rightarrow> nat \<Rightarrow> unit code" where
  "STRING sop z =
    (case sop of
       movs \<Rightarrow>
         block [bnd (get_op Mem_si z) (\<lambda>v. bnd (from_cpu (\<lambda>c. cpu_regs c reg_edi)) (\<lambda>a. mem_write a v z)),
                BUMP_SI z, BUMP_DI z]
     | stos \<Rightarrow>
         block [bnd (get_op (Gpr reg_eax) z) (\<lambda>v. bnd (from_cpu (\<lambda>c. cpu_regs c reg_edi)) (\<lambda>a. mem_write a v z)),
                BUMP_DI z]
     | lods \<Rightarrow> block [bnd (get_op Mem_si z) (\<lambda>v. set_op (Gpr reg_eax) v z), BUMP_SI z]
     | scas \<Rightarrow> block [CMP (Gpr reg_eax) Mem_di z, BUMP_DI z]
     | cmps \<Rightarrow> block [CMP Mem_di Mem_si z, BUMP_SI z, BUMP_DI z])"

text \<open>The repeat loops: \<open>stop\<close> is the test after an iteration. No string
operation changes \<open>ecx\<close>, so the fuel given by its value at the start is enough.\<close>

fun rep_loop :: "nat \<Rightarrow> (cpu_state \<Rightarrow> bool) \<Rightarrow> unit code \<Rightarrow> unit code" where
  "rep_loop 0 stop body = ret ()"
| "rep_loop (Suc n) stop body =
    bnd (from_cpu (\<lambda>c. cpu_regs c reg_ecx)) (\<lambda>cx.
    if cx = 0 then ret ()
    else
      bnd body (\<lambda>_.
      bnd (on_cpu (add_reg reg_ecx (- 1))) (\<lambda>_.
      bnd (from_cpu stop) (\<lambda>b. if b then ret () else rep_loop n stop body))))"

definition repeat :: "(cpu_state \<Rightarrow> bool) \<Rightarrow> string_op \<Rightarrow> nat \<Rightarrow> unit code" where
  "repeat stop sop z =
    bnd (from_cpu (\<lambda>c. cpu_regs c reg_ecx)) (\<lambda>cx. rep_loop (unat cx) stop (STRING sop z))"

definition REP :: "string_op \<Rightarrow> nat \<Rightarrow> unit code" where
  "REP = repeat (\<lambda>_. False)"

definition REPNZ :: "string_op \<Rightarrow> nat \<Rightarrow> unit code" where
  "REPNZ = repeat ZF"

definition REPZ :: "string_op \<Rightarrow> nat \<Rightarrow> unit code" where
  "REPZ = repeat (\<lambda>c. \<not> ZF c)"

definition CMPXCHG :: "operand \<Rightarrow> operand \<Rightarrow> nat \<Rightarrow> unit code" where
  "CMPXCHG src dst z =
    bnd (CMP (Gpr reg_eax) dst z) (\<lambda>_. bnd (from_cpu ZF) (\<lambda>e.
      if e then MOV src dst z else MOV dst (Gpr reg_eax) z))"

definition XADD :: "operand \<Rightarrow> operand \<Rightarrow> nat \<Rightarrow> unit code" where
  "XADD src dst z = block [XCHG src dst z, ADD src dst z]"

definition bswap32 :: "dword_t \<Rightarrow> dword_t" where
  "bswap32 w = word_of_bytes (rev (bytes_of_word 4 w))"

definition BSWAP :: "operand \<Rightarrow> unit code" where
  "BSWAP dst = bnd (get_op dst 32) (\<lambda>v. set_op dst (bswap32 v) 32)"

subsection \<open>Conditions and control transfer\<close>

datatype condition = cond_E | cond_B | cond_BE | cond_L | cond_LE | cond_O | cond_P | cond_S

text \<open>\<open>cf\<close> and \<open>of\<close> are bytes, and any value but 0 is true.\<close>

definition holds :: "condition \<Rightarrow> cpu_state \<Rightarrow> bool" where
  "holds cond c =
    (let SF_OF = of_bool (SF c) XOR OF_val c :: byte_t
     in case cond of
          cond_E \<Rightarrow> ZF c
        | cond_B \<Rightarrow> CF c \<noteq> 0
        | cond_BE \<Rightarrow> CF c OR of_bool (ZF c) \<noteq> 0
        | cond_L \<Rightarrow> SF_OF \<noteq> 0
        | cond_LE \<Rightarrow> SF_OF OR of_bool (ZF c) \<noteq> 0
        | cond_O \<Rightarrow> OF_val c \<noteq> 0
        | cond_P \<Rightarrow> PF c
        | cond_S \<Rightarrow> SF c)"

definition FIX_EIP :: "nat \<Rightarrow> unit code" where
  "FIX_EIP oz = on_cpu (\<lambda>c. if oz = 16 then c\<lparr>cpu_eip := cpu_eip c AND 0xffff\<rparr> else c)"

definition JMP :: "nat \<Rightarrow> operand \<Rightarrow> unit code" where
  "JMP oz loc = block [bnd (get_op loc oz) (\<lambda>v. on_cpu (\<lambda>c. c\<lparr>cpu_eip := v\<rparr>)), FIX_EIP oz]"

definition JMP_REL :: "nat \<Rightarrow> operand \<Rightarrow> unit code" where
  "JMP_REL oz offset =
    block [bnd (get_op offset oz) (\<lambda>v. on_cpu (\<lambda>c. c\<lparr>cpu_eip := cpu_eip c + v\<rparr>)), FIX_EIP oz]"

definition J_REL :: "nat \<Rightarrow> condition \<Rightarrow> operand \<Rightarrow> unit code" where
  "J_REL oz cond offset = bnd (from_cpu (holds cond)) (\<lambda>b. only_if b (JMP_REL oz offset))"

definition JN_REL :: "nat \<Rightarrow> condition \<Rightarrow> operand \<Rightarrow> unit code" where
  "JN_REL oz cond offset = bnd (from_cpu (holds cond)) (\<lambda>b. only_if (\<not> b) (JMP_REL oz offset))"

definition JCXZ_REL :: "nat \<Rightarrow> operand \<Rightarrow> unit code" where
  "JCXZ_REL oz offset = bnd (get_op (Gpr reg_ecx) oz) (\<lambda>v. only_if (v = 0) (JMP_REL oz offset))"

definition CALL :: "nat \<Rightarrow> operand \<Rightarrow> unit code" where
  "CALL oz loc = block [PUSH oz Eip oz, JMP oz loc]"

definition CALL_REL :: "nat \<Rightarrow> operand \<Rightarrow> unit code" where
  "CALL_REL oz offset = block [PUSH oz Eip oz, JMP_REL oz offset]"

definition RET_NEAR :: "nat \<Rightarrow> operand \<Rightarrow> unit code" where
  "RET_NEAR oz imm =
    block [POP oz Eip 32, FIX_EIP oz, bnd (get_op imm 16) (\<lambda>v. on_cpu (add_reg reg_esp v))]"

definition SET :: "bool \<Rightarrow> condition \<Rightarrow> operand \<Rightarrow> unit code" where
  "SET sense cond val = bnd (from_cpu (holds cond)) (\<lambda>b. set_op val (of_bool (b = sense)) 8)"

definition CMOV :: "bool \<Rightarrow> condition \<Rightarrow> operand \<Rightarrow> operand \<Rightarrow> nat \<Rightarrow> unit code" where
  "CMOV sense cond dst src z = bnd (from_cpu (holds cond)) (\<lambda>b. only_if (b = sense) (MOV dst src z))"

definition POPF :: "nat \<Rightarrow> unit code" where
  "POPF oz = block [POP oz Eflags 32, on_cpu expand_flags]"

definition PUSHF :: "nat \<Rightarrow> unit code" where
  "PUSHF oz = block [on_cpu collapse_flags, PUSH oz Eflags oz]"

definition STD :: "unit code" where
  "STD = on_cpu (put_flag DF_bit True)"

definition CLD :: "unit code" where
  "CLD = on_cpu (put_flag DF_bit False)"

abbreviation (input) AH_FLAG_MASK :: dword_t where "AH_FLAG_MASK \<equiv> 0xd5"

definition SAHF :: "unit code" where
  "SAHF = on_cpu (\<lambda>c.
    (let c = c\<lparr>cpu_eflags := cpu_eflags c AND (0xffffff00 OR NOT AH_FLAG_MASK)\<rparr>;
         c = c\<lparr>cpu_eflags := cpu_eflags c OR (read_part (reg_eax, 8) 8 c AND AH_FLAG_MASK)\<rparr>
     in expand_flags c))"

definition RDTSC :: "host \<Rightarrow> unit code" where
  "RDTSC h m =
    (let v = host_tsc h (m_tsc m);
         m = m\<lparr>m_tsc := m_tsc m + 1, l_imm := v\<rparr>
     in on_cpu (\<lambda>c. c\<lparr>cpu_regs := (cpu_regs c)(reg_eax := ucast (v AND 0xffffffff),
          reg_edx := ucast (drop_bit 32 v))\<rparr>) m)"

definition CPUID :: "unit code" where
  "CPUID = on_cpu do_cpuid"

end
