(* ===== verification/Interp_Fpu.thy ===== *)
theory Interp_Fpu
  imports Interp
begin

text \<open>
  The SSE macros (\<open>src/emu/interp/sse.h\<close>) and the FPU macros
  (\<open>src/emu/interp/fpu.h\<close>) of the interpreter. The FPU macros repeat the
  functions of \<open>src/emu/fpu.c\<close> with some differences: \<open>FLDCW\<close> leaves the
  rounding mode alone, the comparisons ignore NaNs, \<open>FUCOMI\<close> does not make the
  zero flag current.
\<close>

subsection \<open>SSE\<close>

definition qw :: "nat \<Rightarrow> uint128_t \<Rightarrow> qword_t" where
  "qw i v = ucast (drop_bit (64 * i) v)"

definition dw :: "nat \<Rightarrow> uint128_t \<Rightarrow> dword_t" where
  "dw i v = ucast (drop_bit (32 * i) v)"

definition xmm_of_qw :: "qword_t \<Rightarrow> qword_t \<Rightarrow> uint128_t" where
  "xmm_of_qw lo hi = ucast lo OR push_bit 64 (ucast hi)"

definition xmm_of_dw :: "dword_t \<Rightarrow> dword_t \<Rightarrow> dword_t \<Rightarrow> dword_t \<Rightarrow> uint128_t" where
  "xmm_of_dw a b c d =
    ucast a OR push_bit 32 (ucast b) OR push_bit 64 (ucast c) OR push_bit 96 (ucast d)"

text \<open>\<open>xmm_src = get(src,128); xmm_dst = get(dst,128); ...; set(dst, xmm_dst,128)\<close>.\<close>

definition xmm_update :: "(uint128_t \<Rightarrow> uint128_t \<Rightarrow> uint128_t) \<Rightarrow> operand \<Rightarrow> operand \<Rightarrow> unit code" where
  "xmm_update f src dst =
    bnd (get128 src) (\<lambda>s. bnd (get128 dst) (\<lambda>d. set128 dst (f s d)))"

definition CMPEQ :: "dword_t \<Rightarrow> dword_t \<Rightarrow> dword_t" where
  "CMPEQ src dst = (if dst = src then - 1 else src)"

definition PCMPEQD :: "operand \<Rightarrow> operand \<Rightarrow> unit code" where
  "PCMPEQD = xmm_update (\<lambda>s d. xmm_of_dw (CMPEQ (dw 0 s) (dw 0 d)) (CMPEQ (dw 1 s) (dw 1 d))
     (CMPEQ (dw 2 s) (dw 2 d)) (CMPEQ (dw 3 s) (dw 3 d)))"

text \<open>Shifting a 64-bit value by 64 or more is undefined in C.\<close>

definition PSRLQ :: "nat \<Rightarrow> operand \<Rightarrow> operand \<Rightarrow> unit code" where
  "PSRLQ oz count dst =
    bnd (get128 dst) (\<lambda>d. bnd (get_op count oz) (\<lambda>n.
    if n \<ge> 64 then (\<lambda>m. Crash)
    else set128 dst (xmm_of_qw (drop_bit (unat n) (qw 0 d)) (drop_bit (unat n) (qw 1 d)))))"

definition XORP :: "operand \<Rightarrow> operand \<Rightarrow> unit code" where
  "XORP = xmm_update (\<lambda>s d. xmm_of_qw (qw 0 d XOR qw 0 s) (qw 1 d XOR qw 1 s))"

definition PADD :: "operand \<Rightarrow> operand \<Rightarrow> unit code" where
  "PADD = xmm_update (\<lambda>s d. xmm_of_qw (qw 0 d + qw 0 s) (qw 1 d + qw 1 s))"

definition PSUB :: "operand \<Rightarrow> operand \<Rightarrow> unit code" where
  "PSUB = xmm_update (\<lambda>s d. xmm_of_qw (qw 0 d - qw 0 s) (qw 1 d - qw 1 s))"

definition MOVQ :: "operand \<Rightarrow> operand \<Rightarrow> unit code" where
  "MOVQ src dst =
    bnd (get128 dst) (\<lambda>d. bnd (get128 src) (\<lambda>s m.
    set128 dst (xmm_of_qw (qw 0 s) (if is_memory dst m then qw 1 d else 0)) m))"

definition MOVD :: "operand \<Rightarrow> operand \<Rightarrow> unit code" where
  "MOVD src dst = bnd (get128 src) (\<lambda>s. set_op dst (dw 0 s) 32)"

definition MOV128 :: "operand \<Rightarrow> operand \<Rightarrow> unit code" where
  "MOV128 src dst = bnd (get128 src) (set128 dst)"

text \<open>The conversion of a \<open>double\<close> to \<open>int32_t\<close> truncates; it is undefined when
the value does not fit.\<close>

definition double_to_int32 :: "qword_t \<Rightarrow> dword_t option" where
  "double_to_int32 d =
    (let e = unat (take_bit 11 (drop_bit 52 d));
         mag = (if e < 1023 then 0 else drop_bit (1075 - e) (uint (take_bit 52 d) + 2 ^ 52));
         v = (if bit d 63 then - mag else mag)
     in if e > 1054 \<or> v < - (2 ^ 31) \<or> v \<ge> 2 ^ 31 then None else Some (word_of_int v))"

definition CVTTSD2SI :: "operand \<Rightarrow> unit code" where
  "CVTTSD2SI dst =
    bnd (\<lambda>m. mem_read (l_addr m) 64 m) (\<lambda>d.
    bnd (the_value (double_to_int32 d)) (\<lambda>v. set_op dst v 32))"

subsection \<open>Floating point operands\<close>

definition float80_of_bytes :: "byte_t list \<Rightarrow> float80" where
  "float80_of_bytes bs =
    (let se = word_of_bytes (drop 8 bs) :: word_t
     in \<lparr>signif = word_of_bytes (take 8 bs), fexp = ucast se, fsign = bit se 15\<rparr>)"

definition bytes_of_float80 :: "float80 \<Rightarrow> byte_t list" where
  "bytes_of_float80 f =
    bytes_of_word 8 (signif f) @ bytes_of_word 2 (put_bit 15 (fsign f) (ucast (fexp f) :: word_t))"

text \<open>\<open>f80_from_float(get(mem_addr_real, z), z)\<close> and the store of
\<open>f80_to_float(f, z)\<close>.\<close>

definition get_mem_real :: "nat \<Rightarrow> float80 code" where
  "get_mem_real z m =
    (if z = 80 then bnd (mem_read_bytes (l_addr m) 10) (\<lambda>bs. ret (float80_of_bytes bs)) m
     else if z = 64 then bnd (mem_read (l_addr m) 64) (\<lambda>d. the_value (f80_from_double d)) m
     else bnd (mem_read (l_addr m) 32) (\<lambda>w. the_value (f80_from_double (float_to_double w))) m)"

definition set_mem_real :: "float80 \<Rightarrow> nat \<Rightarrow> unit code" where
  "set_mem_real f z m =
    (let d = f80_to_double (f80_mode (m_cpu m)) f
     in if z = 80 then mem_write_bytes (l_addr m) (bytes_of_float80 f) m
        else if z = 64 then mem_write (l_addr m) d 64 m
        else mem_write (l_addr m) (double_to_float d) 32 m)"

text \<open>\<open>f80_from_int((sint(z)) get(mem_addr, z))\<close>.\<close>

definition get_mem_int :: "nat \<Rightarrow> float80 code" where
  "get_mem_int z m =
    bnd (mem_read (l_addr m) z) (\<lambda>v :: qword_t.
      the_value (f80_from_int (word_of_int (signed_take_bit (z - 1) (uint v))))) m"

definition get_ST :: "nat \<Rightarrow> float80 code" where
  "get_ST i = bnd (from_cpu (ST i)) the_value"

subsection \<open>FPU arithmetic\<close>

type_synonym f80_op = "f80_rounding_mode \<Rightarrow> float80 \<Rightarrow> float80 \<Rightarrow> float80 option"

text \<open>Each operation as \<open>dst = op(dst, src)\<close>.\<close>

definition FADD :: f80_op where "FADD rm dst src = f80_add rm dst src"
definition FSUB :: f80_op where "FSUB rm dst src = f80_sub rm dst src"
definition FSUBR :: f80_op where "FSUBR rm dst src = f80_sub rm src dst"
definition FMUL :: f80_op where "FMUL rm dst src = Some (f80_mul rm dst src)"
definition FDIV :: f80_op where "FDIV rm dst src = f80_div rm dst src"
definition FDIVR :: f80_op where "FDIVR rm dst src = f80_div rm src dst"

text \<open>On two stack registers, and on \<open>ST(0)\<close> with a value from memory.\<close>

definition fpu_regs :: "f80_op \<Rightarrow> nat \<Rightarrow> nat \<Rightarrow> unit code" where
  "fpu_regs f src dst =
    bnd (get_ST src) (\<lambda>s. try_cpu (\<lambda>c. update_ST dst (\<lambda>d. f (f80_mode c) d s) c))"

definition fpu_real :: "f80_op \<Rightarrow> nat \<Rightarrow> unit code" where
  "fpu_real f z = bnd (get_mem_real z) (\<lambda>x. try_cpu (\<lambda>c. update_ST 0 (\<lambda>st. f (f80_mode c) st x) c))"

definition fpu_int :: "f80_op \<Rightarrow> nat \<Rightarrow> unit code" where
  "fpu_int f z = bnd (get_mem_int z) (\<lambda>x. try_cpu (\<lambda>c. update_ST 0 (\<lambda>st. f (f80_mode c) st x) c))"

definition FCHS :: "unit code" where "FCHS = try_cpu fpu_chs"
definition FABS :: "unit code" where "FABS = try_cpu fpu_abs"

definition FPREM :: "unit code" where
  "FPREM = bnd (get_ST 1) (\<lambda>y. try_cpu (\<lambda>c. update_ST 0 (\<lambda>x. f80_mod (f80_mode c) x y) c))"

definition FPOP :: "unit code" where "FPOP = on_cpu fpu_pop"
definition FPUSH :: "float80 \<Rightarrow> unit code" where "FPUSH f = try_cpu (fpu_push f)"
definition FXCH :: "nat \<Rightarrow> unit code" where "FXCH i = try_cpu (fpu_xch i)"

subsection \<open>FPU comparisons\<close>

definition FUCOMI :: "nat \<Rightarrow> unit code" where
  "FUCOMI i =
    bnd (get_ST 0) (\<lambda>a. bnd (get_ST i) (\<lambda>b. bnd (from_cpu f80_mode) (\<lambda>rm.
    bnd (on_cpu (put_flag ZF_bit (f80_eq a b))) (\<lambda>_.
    bnd (the_value (f80_lt rm a b)) (\<lambda>lt.
    on_cpu (\<lambda>c. put_flag PF_bit False ((put_cf lt c)\<lparr>cpu_pf_res := False\<rparr>)))))))"

definition F_COMPARE :: "float80 \<Rightarrow> unit code" where
  "F_COMPARE x =
    bnd (get_ST 0) (\<lambda>a. bnd (from_cpu f80_mode) (\<lambda>rm.
    bnd (the_value (f80_lt rm a x)) (\<lambda>lt.
    on_cpu (\<lambda>c. put_fsw fsw_c3 (f80_eq a x) (put_fsw fsw_c2 False (put_fsw fsw_c1 False
      (put_fsw fsw_c0 lt c)))))))"

definition FCOM :: "nat \<Rightarrow> unit code" where "FCOM i = bnd (get_ST i) F_COMPARE"
definition FCOMM :: "nat \<Rightarrow> unit code" where "FCOMM z = bnd (get_mem_real z) F_COMPARE"
definition FTST :: "unit code" where "FTST = F_COMPARE (fpu_consts fconst_zero)"

subsection \<open>FPU loads, stores and control\<close>

definition FILD :: "nat \<Rightarrow> unit code" where "FILD z = bnd (get_mem_int z) FPUSH"
definition FLD :: "nat \<Rightarrow> unit code" where "FLD i = bnd (get_ST i) FPUSH"
definition FLDM :: "nat \<Rightarrow> unit code" where "FLDM z = bnd (get_mem_real z) FPUSH"
definition FLDC :: "fpu_const \<Rightarrow> unit code" where "FLDC what = FPUSH (fpu_consts what)"
definition FSTM :: "nat \<Rightarrow> unit code" where "FSTM z = bnd (get_ST 0) (\<lambda>f. set_mem_real f z)"

definition FIST :: "nat \<Rightarrow> unit code" where
  "FIST z = bnd (get_ST 0) (\<lambda>f m. mem_write (l_addr m) (f80_to_int (f80_mode (m_cpu m)) f) z m)"

definition FST :: "nat \<Rightarrow> unit code" where "FST i = try_cpu (fpu_st i)"

definition FSTSW :: "operand \<Rightarrow> unit code" where
  "FSTSW dst = bnd (from_cpu (\<lambda>c. ucast (cpu_fsw c))) (\<lambda>v. set_op dst v 16)"

definition FSTCW :: "operand \<Rightarrow> unit code" where
  "FSTCW dst = bnd (from_cpu (\<lambda>c. ucast (cpu_fcw c))) (\<lambda>v. set_op dst v 16)"

definition FLDCW :: "operand \<Rightarrow> unit code" where
  "FLDCW dst = bnd (get_op dst 16) (\<lambda>v. on_cpu (\<lambda>c. c\<lparr>cpu_fcw := ucast v\<rparr>))"

definition FPATAN :: "host \<Rightarrow> unit code" where
  "FPATAN h = try_cpu (fpu_patan (host_atan2 h))"

end
