(* ===== verification/Decode.thy ===== *)
theory Decode
  imports Interp_Fpu
begin

text \<open>
  The instruction decoder of \<open>src/emu/decode.h\<close>, which \<open>src/emu/interp.c\<close>
  includes for the operand sizes 32 and 16, as one definition for each group of
  opcodes. The source lists most opcodes one by one; where a row of them differs
  in the register or the condition only, the definition takes it from the bits
  of the opcode. The jumps back to \<open>restart\<close> and the change of the operand size
  are recursion on a bound on the number of prefixes.
\<close>

subsection \<open>Rows of opcodes\<close>

type_synonym binary = "operand \<Rightarrow> operand \<Rightarrow> nat \<Rightarrow> unit code"

definition alu_op :: "nat \<Rightarrow> binary" where
  "alu_op n = [ADD, OR_insn, ADC, SBB, AND_insn, SUB, XOR_insn, CMP] ! (n mod 8)"

definition MAKE_OP :: "nat \<Rightarrow> binary \<Rightarrow> nat \<Rightarrow> unit code" where
  "MAKE_OP oz f n =
    (if n = 0 then block [READMODRM, f Modrm_reg Modrm_val 8]
     else if n = 1 then block [READMODRM, f Modrm_reg Modrm_val oz]
     else if n = 2 then block [READMODRM, f Modrm_val Modrm_reg 8]
     else if n = 3 then block [READMODRM, f Modrm_val Modrm_reg oz]
     else if n = 4 then block [READIMM8, f Imm (Gpr reg_eax) 8]
     else block [READIMM oz, f Imm (Gpr reg_eax) oz])"

definition condition_of :: "nat \<Rightarrow> condition" where
  "condition_of n =
    [cond_O, cond_B, cond_E, cond_BE, cond_S, cond_P, cond_L, cond_LE] ! (n div 2 mod 8)"

definition Jcc :: "nat \<Rightarrow> nat \<Rightarrow> unit code" where
  "Jcc oz n = (if even n then J_REL oz (condition_of n) Imm else JN_REL oz (condition_of n) Imm)"

definition modrm_opcode :: "(nat \<Rightarrow> unit code) \<Rightarrow> unit code" where
  "modrm_opcode f m = f (unat (mr_reg (l_modrm m))) m"

definition reg_op :: "nat \<Rightarrow> operand" where
  "reg_op n = Gpr (reg32_of (of_nat (n mod 8)))"

subsection \<open>Two-byte opcodes\<close>

definition decode_0f_low :: "host \<Rightarrow> nat \<Rightarrow> nat \<Rightarrow> unit code" where
  "decode_0f_low h oz n =
    (if 0x18 \<le> n \<and> n \<le> 0x1f then READMODRM
     else if n = 0x28 then block [READMODRM, MOV128 Modrm_val Modrm_reg]
     else if n = 0x29 then block [READMODRM, MOV128 Modrm_reg Modrm_val]
     else if n = 0x31 then RDTSC h
     else if 0x40 \<le> n \<and> n \<le> 0x4f
     then block [READMODRM, CMOV (even n) (condition_of n) Modrm_val Modrm_reg oz]
     else if n = 0x57 then block [READMODRM, XORP Modrm_val Modrm_reg]
     else if n = 0x73 then block [READMODRM, READIMM8, PSRLQ oz Imm Modrm_val]
     else if n = 0x76 then block [READMODRM, PCMPEQD Modrm_reg Modrm_val]
     else if n = 0x7e \<and> oz = 16 then block [READMODRM, MOVD Modrm_reg Modrm_val]
     else if 0x80 \<le> n \<and> n \<le> 0x8f then block [READIMM oz, Jcc oz n]
     else if 0x90 \<le> n \<and> n \<le> 0x9f then block [READMODRM, SET (even n) (condition_of n) Modrm_val]
     else UNDEFINED)"

definition GRP8 :: "operand \<Rightarrow> operand \<Rightarrow> nat \<Rightarrow> unit code" where
  "GRP8 bt val z = modrm_opcode (\<lambda>n.
    if n = 4 then BT bt val z else if n = 5 then BTS bt val z
    else if n = 6 then BTR bt val z else if n = 7 then BTC bt val z
    else UNDEFINED)"

definition decode_0f_high :: "nat \<Rightarrow> nat \<Rightarrow> unit code" where
  "decode_0f_high oz n =
    (if n = 0xa2 then CPUID
     else if n = 0xa3 then block [READMODRM, BT Modrm_reg Modrm_val oz]
     else if n = 0xa4 then block [READMODRM, READIMM8, SHLD Imm Modrm_reg Modrm_val oz]
     else if n = 0xa5 then block [READMODRM, SHLD (Gpr reg_ecx) Modrm_reg Modrm_val oz]
     else if n = 0xab then block [READMODRM, BTS Modrm_reg Modrm_val oz]
     else if n = 0xac then block [READMODRM, READIMM8, SHRD Imm Modrm_reg Modrm_val oz]
     else if n = 0xad then block [READMODRM, SHRD (Gpr reg_ecx) Modrm_reg Modrm_val oz]
     else if n = 0xaf then block [READMODRM, IMUL2 Modrm_val Modrm_reg oz]
     else if n = 0xb1 then block [READMODRM, CMPXCHG Modrm_reg Modrm_val oz]
     else if n = 0xb3 then block [READMODRM, BTR Modrm_reg Modrm_val oz]
     else if n = 0xb6 then block [READMODRM, MOVZX Modrm_val Modrm_reg 8 oz]
     else if n = 0xb7 then block [READMODRM, MOVZX Modrm_val Modrm_reg 16 oz]
     else if n = 0xba then block [READMODRM, READIMM8, GRP8 Imm Modrm_val oz]
     else if n = 0xbb then block [READMODRM, BTC Modrm_reg Modrm_val oz]
     else if n = 0xbc then block [READMODRM, BSF Modrm_val Modrm_reg oz]
     else if n = 0xbd then block [READMODRM, BSR Modrm_val Modrm_reg oz]
     else if n = 0xbe then block [READMODRM, MOVSX Modrm_val Modrm_reg 8 oz]
     else if n = 0xbf then block [READMODRM, MOVSX Modrm_val Modrm_reg 16 oz]
     else if n = 0xc0 then block [READMODRM, XADD Modrm_reg Modrm_val 8]
     else if n = 0xc1 then block [READMODRM, XADD Modrm_reg Modrm_val oz]
     else if 0xc8 \<le> n \<and> n \<le> 0xcf \<and> oz \<noteq> 16 then BSWAP (reg_op n)
     else if n = 0xd4 \<and> oz = 16 then block [READMODRM, PADD Modrm_val Modrm_reg]
     else if n = 0xd6 \<and> oz = 16 then block [READMODRM, MOVQ Modrm_reg Modrm_val]
     else if n = 0xfb then block [READMODRM, PSUB Modrm_val Modrm_reg]
     else UNDEFINED)"

definition decode_0f :: "host \<Rightarrow> nat \<Rightarrow> unit code" where
  "decode_0f h oz = bnd READINSN (\<lambda>insn.
    if unat insn < 0xa0 then decode_0f_low h oz (unat insn) else decode_0f_high oz (unat insn))"

subsection \<open>One-byte opcodes\<close>

definition decode_40_7f :: "nat \<Rightarrow> nat \<Rightarrow> unit code" where
  "decode_40_7f oz n =
    (if n < 0x48 then INC (reg_op n) oz
     else if n < 0x50 then DEC (reg_op n) oz
     else if n < 0x58 then PUSH oz (reg_op n) oz
     else if n < 0x60 then POP oz (reg_op n) oz
     else if n = 0x68 then block [READIMM oz, PUSH oz Imm oz]
     else if n = 0x69 then block [READMODRM, READIMM oz, IMUL3 Imm Modrm_val Modrm_reg oz]
     else if n = 0x6a then block [READIMM8, PUSH oz Imm oz]
     else if n = 0x6b then block [READMODRM, READIMM8, IMUL3 Imm Modrm_val Modrm_reg oz]
     else if 0x70 \<le> n then block [READIMM8, Jcc oz n]
     else UNDEFINED)"

definition GRP1 :: "operand \<Rightarrow> operand \<Rightarrow> nat \<Rightarrow> unit code" where
  "GRP1 src dst z = modrm_opcode (\<lambda>n. alu_op n src dst z)"

definition decode_80_9f :: "nat \<Rightarrow> nat \<Rightarrow> unit code" where
  "decode_80_9f oz n =
    (if n = 0x80 then block [READMODRM, READIMM8, GRP1 Imm Modrm_val 8]
     else if n = 0x81 then block [READMODRM, READIMM oz, GRP1 Imm Modrm_val oz]
     else if n = 0x83 then block [READMODRM, READIMM8, GRP1 Imm Modrm_val oz]
     else if n = 0x84 then block [READMODRM, TEST Modrm_reg Modrm_val 8]
     else if n = 0x85 then block [READMODRM, TEST Modrm_reg Modrm_val oz]
     else if n = 0x86 then block [READMODRM, XCHG Modrm_reg Modrm_val 8]
     else if n = 0x87 then block [READMODRM, XCHG Modrm_reg Modrm_val oz]
     else if n = 0x88 then block [READMODRM, MOV Modrm_reg Modrm_val 8]
     else if n = 0x89 then block [READMODRM, MOV Modrm_reg Modrm_val oz]
     else if n = 0x8a then block [READMODRM, MOV Modrm_val Modrm_reg 8]
     else if n = 0x8b then block [READMODRM, MOV Modrm_val Modrm_reg oz]
     else if n = 0x8d then block [READMODRM_MEM, MOV Addr Modrm_reg oz]
     else if n = 0x8c then block [READMODRM, modrm_opcode (\<lambda>r. if r \<noteq> 5 then UNDEFINED else MOV Gs Modrm_val 16)]
     else if n = 0x8e then block [READMODRM, modrm_opcode (\<lambda>r. if r \<noteq> 5 then UNDEFINED else MOV Modrm_val Gs 16)]
     else if n = 0x8f then block [READMODRM, POP oz Modrm_val oz]
     else if n = 0x90 then ret ()
     else if 0x91 \<le> n \<and> n \<le> 0x97 then XCHG (reg_op n) (Gpr reg_eax) oz
     else if n = 0x98 then CVTE oz
     else if n = 0x99 then CVT oz
     else if n = 0x9b then ret ()
     else if n = 0x9c then PUSHF oz
     else if n = 0x9d then POPF oz
     else if n = 0x9e then SAHF
     else UNDEFINED)"

definition decode_a0_bf :: "nat \<Rightarrow> nat \<Rightarrow> unit code" where
  "decode_a0_bf oz n =
    (if n = 0xa0 then block [READADDR, MOV Mem_addr (Gpr reg_eax) 8]
     else if n = 0xa1 then block [READADDR, MOV Mem_addr (Gpr reg_eax) oz]
     else if n = 0xa2 then block [READADDR, MOV (Gpr reg_eax) Mem_addr 8]
     else if n = 0xa3 then block [READADDR, MOV (Gpr reg_eax) Mem_addr oz]
     else if n = 0xa4 then STRING movs 8
     else if n = 0xa5 then STRING movs oz
     else if n = 0xa6 then STRING cmps 8
     else if n = 0xa7 then STRING cmps oz
     else if n = 0xa8 then block [READIMM8, TEST Imm (Gpr reg_eax) 8]
     else if n = 0xa9 then block [READIMM oz, TEST Imm (Gpr reg_eax) oz]
     else if n = 0xaa then STRING stos 8
     else if n = 0xab then STRING stos oz
     else if n = 0xac then STRING lods 8
     else if n = 0xad then STRING lods oz
     else if n = 0xae then STRING scas 8
     else if n = 0xaf then STRING scas oz
     else if n < 0xb8 then block [READIMM8, MOV Imm (reg_op n) 8]
     else block [READIMM oz, MOV Imm (reg_op n) oz])"

definition GRP2 :: "nat \<Rightarrow> operand \<Rightarrow> operand \<Rightarrow> nat \<Rightarrow> unit code" where
  "GRP2 oz count val z = modrm_opcode (\<lambda>n.
    if n = 0 then ROL oz count val z
    else if n = 1 then ROR oz count val z
    else if n = 2 \<or> n = 3 then UNDEFINED
    else if n = 5 then SHR count val z
    else if n = 7 then SAR count val z
    else SHL count val z)"

definition decode_c0_d3 :: "nat \<Rightarrow> nat \<Rightarrow> unit code" where
  "decode_c0_d3 oz n =
    (if n = 0xc0 then block [READMODRM, READIMM8, GRP2 oz Imm Modrm_val 8]
     else if n = 0xc1 then block [READMODRM, READIMM8, GRP2 oz Imm Modrm_val oz]
     else if n = 0xc2 then block [READIMM 16, RET_NEAR oz Imm]
     else if n = 0xc3 then RET_NEAR oz (Const 0)
     else if n = 0xc9 then block [MOV (Gpr reg_ebp) (Gpr reg_esp) oz, POP oz (Gpr reg_ebp) oz]
     else if n = 0xcd then block [READIMM8, INT_imm Imm]
     else if n = 0xc6 then block [READMODRM, READIMM8, MOV Imm Modrm_val 8]
     else if n = 0xc7 then block [READMODRM, READIMM oz, MOV Imm Modrm_val oz]
     else if n = 0xd0 then block [READMODRM, GRP2 oz (Const 1) Modrm_val 8]
     else if n = 0xd1 then block [READMODRM, GRP2 oz (Const 1) Modrm_val oz]
     else if n = 0xd2 then block [READMODRM, GRP2 oz (Gpr reg_ecx) Modrm_val 8]
     else if n = 0xd3 then block [READMODRM, GRP2 oz (Gpr reg_ecx) Modrm_val oz]
     else UNDEFINED)"

subsection \<open>FPU opcodes\<close>

text \<open>\<open>k\<close> is \<open>insn << 4 | modrm.opcode\<close>.\<close>

definition decode_fpu_mem :: "nat \<Rightarrow> unit code" where
  "decode_fpu_mem k =
    (if k = 0xd80 then fpu_real FADD 32
     else if k = 0xd81 then fpu_real FMUL 32
     else if k = 0xd82 then FCOMM 32
     else if k = 0xd83 then block [FCOMM 32, FPOP]
     else if k = 0xd84 then fpu_real FSUB 32
     else if k = 0xd85 then fpu_real FSUBR 32
     else if k = 0xd86 then fpu_real FDIV 32
     else if k = 0xd87 then fpu_real FDIVR 32
     else if k = 0xd90 then FLDM 32
     else if k = 0xd92 then FSTM 32
     else if k = 0xd93 then block [FSTM 32, FPOP]
     else if k = 0xd95 then FLDCW Mem_addr
     else if k = 0xd97 then FSTCW Mem_addr
     else if k = 0xda0 then fpu_int FADD 32
     else if k = 0xda1 then fpu_int FMUL 32
     else if k = 0xda4 then fpu_int FSUB 32
     else if k = 0xda5 then fpu_int FSUBR 32
     else if k = 0xda6 then fpu_int FDIV 32
     else if k = 0xda7 then fpu_int FDIVR 32
     else if k = 0xdb0 then FILD 32
     else if k = 0xdb2 then FIST 32
     else if k = 0xdb3 then block [FIST 32, FPOP]
     else if k = 0xdb7 then block [FSTM 80, FPOP]
     else if k = 0xdb5 then FLDM 80
     else if k = 0xdc0 then fpu_real FADD 64
     else if k = 0xdc1 then fpu_real FMUL 64
     else if k = 0xdc2 then FCOMM 64
     else if k = 0xdc3 then block [FCOMM 64, FPOP]
     else if k = 0xdd0 then FLDM 64
     else if k = 0xdc4 then fpu_real FSUB 64
     else if k = 0xdc5 then fpu_real FSUBR 64
     else if k = 0xdc6 then fpu_real FDIV 64
     else if k = 0xdc7 then fpu_real FDIVR 64
     else if k = 0xdd2 then FSTM 64
     else if k = 0xdd3 then block [FSTM 64, FPOP]
     else if k = 0xde1 then fpu_int FMUL 16
     else if k = 0xde6 then fpu_int FDIV 16
     else if k = 0xde7 then fpu_int FDIVR 16
     else if k = 0xdf0 then FILD 16
     else if k = 0xdf3 then block [FIST 16, FPOP]
     else if k = 0xdf5 then FILD 64
     else if k = 0xdf7 then block [FIST 64, FPOP]
     else UNDEFINED)"

text \<open>\<open>k\<close> is \<open>insn << 8 | modrm.opcode << 4 | modrm.rm_opcode\<close>. \<open>FRNDINT\<close>,
\<open>FSCALE\<close>, \<open>FYL2X\<close>, \<open>F2XM1\<close>, \<open>FSQRT\<close> and \<open>FXAM\<close> are undefined in the
interpreter.\<close>

definition decode_fpu_const :: "host \<Rightarrow> nat \<Rightarrow> unit code" where
  "decode_fpu_const h k =
    (if k = 0xd940 then FCHS
     else if k = 0xd941 then FABS
     else if k = 0xd944 then FCHS
     else if k = 0xd950 then FLDC fconst_one
     else if k = 0xd951 then FLDC fconst_log2t
     else if k = 0xd952 then FLDC fconst_log2e
     else if k = 0xd953 then FLDC fconst_pi
     else if k = 0xd954 then FLDC fconst_log2
     else if k = 0xd955 then FLDC fconst_ln2
     else if k = 0xd956 then FLDC fconst_zero
     else if k = 0xd963 then FPATAN h
     else if k = 0xd970 then FPREM
     else if k = 0xde31 then block [FCOM 1, FPOP, FPOP]
     else if k = 0xdf40 then FSTSW (Gpr reg_eax)
     else UNDEFINED)"

definition decode_fpu_reg :: "host \<Rightarrow> nat \<Rightarrow> nat \<Rightarrow> unit code" where
  "decode_fpu_reg h k i =
    (if k = 0xd80 then fpu_regs FADD i 0
     else if k = 0xd81 then fpu_regs FMUL i 0
     else if k = 0xd82 then FCOM i
     else if k = 0xd83 then block [FCOM i, FPOP]
     else if k = 0xd84 then fpu_regs FSUB i 0
     else if k = 0xd85 then fpu_regs FSUBR i 0
     else if k = 0xd86 then fpu_regs FDIV i 0
     else if k = 0xd87 then fpu_regs FDIVR i 0
     else if k = 0xd90 then FLD i
     else if k = 0xd91 then FXCH i
     else if k = 0xdb5 then FUCOMI i
     else if k = 0xdb6 then FUCOMI i
     else if k = 0xdc0 then fpu_regs FADD 0 i
     else if k = 0xdc1 then fpu_regs FMUL 0 i
     else if k = 0xdc4 then fpu_regs FSUBR 0 i
     else if k = 0xdc5 then fpu_regs FSUB 0 i
     else if k = 0xdc6 then fpu_regs FDIVR 0 i
     else if k = 0xdc7 then fpu_regs FDIV 0 i
     else if k = 0xdd3 then block [FST i, FPOP]
     else if k = 0xdd4 then FCOM i
     else if k = 0xdd5 then block [FCOM i, FPOP]
     else if k = 0xda5 then block [FCOM i, FPOP, FPOP]
     else if k = 0xde0 then block [fpu_regs FADD 0 i, FPOP]
     else if k = 0xde1 then block [fpu_regs FMUL 0 i, FPOP]
     else if k = 0xde4 then block [fpu_regs FSUBR 0 i, FPOP]
     else if k = 0xde5 then block [fpu_regs FSUB 0 i, FPOP]
     else if k = 0xde6 then block [fpu_regs FDIVR 0 i, FPOP]
     else if k = 0xde7 then block [fpu_regs FDIV 0 i, FPOP]
     else if k = 0xdf5 then block [FUCOMI i, FPOP]
     else decode_fpu_const h (16 * k + i))"

definition decode_fpu :: "host \<Rightarrow> nat \<Rightarrow> unit code" where
  "decode_fpu h insn = bnd READMODRM (\<lambda>_ m.
    (let k = 16 * insn + unat (mr_reg (l_modrm m))
     in if mr_type (l_modrm m) \<noteq> modrm_reg then decode_fpu_mem k m
        else decode_fpu_reg h k (unat (mr_base (l_modrm m))) m))"

subsection \<open>Prefixed groups\<close>

definition GRP1_ATOMIC :: "operand \<Rightarrow> operand \<Rightarrow> nat \<Rightarrow> unit code" where
  "GRP1_ATOMIC src dst z = modrm_opcode (\<lambda>n. if n \<le> 6 then alu_op n src dst z else UNDEFINED)"

definition GRP5_ATOMIC :: "operand \<Rightarrow> nat \<Rightarrow> unit code" where
  "GRP5_ATOMIC val z = modrm_opcode (\<lambda>n.
    if n = 0 then INC val z else if n = 1 then DEC val z else UNDEFINED)"

text \<open>The inner switch on the second byte has no default: an unknown one does
nothing.\<close>

definition lock_0f :: "nat \<Rightarrow> unit code" where
  "lock_0f oz = bnd READINSN (\<lambda>insn.
    (let n = unat insn
     in if n = 0xb1 then block [READMODRM_MEM, CMPXCHG Modrm_reg Modrm_val oz]
        else if n = 0xc0 then block [READMODRM_MEM, XADD Modrm_reg Modrm_val 8]
        else if n = 0xc1 then block [READMODRM_MEM, XADD Modrm_reg Modrm_val oz]
        else ret ()))"

definition lock_insn :: "nat \<Rightarrow> nat \<Rightarrow> unit code" where
  "lock_insn oz n =
    (if n < 0x38 \<and> n mod 8 = 0 then block [READMODRM_MEM, alu_op (n div 8) Modrm_reg Modrm_val 8]
     else if n < 0x38 \<and> n mod 8 = 1 then block [READMODRM_MEM, alu_op (n div 8) Modrm_reg Modrm_val oz]
     else if n = 0x80 then block [READMODRM_MEM, READIMM8, GRP1_ATOMIC Imm Modrm_val 8]
     else if n = 0x81 then block [READMODRM_MEM, READIMM oz, GRP1_ATOMIC Imm Modrm_val oz]
     else if n = 0x83 then block [READMODRM_MEM, READIMM8, GRP1_ATOMIC Imm Modrm_val oz]
     else if n = 0x0f then lock_0f oz
     else if n = 0xfe then block [READMODRM_MEM, GRP5_ATOMIC Modrm_val 8]
     else if n = 0xff then block [READMODRM_MEM, GRP5_ATOMIC Modrm_val oz]
     else UNDEFINED)"

fun lock_prefix :: "nat \<Rightarrow> nat \<Rightarrow> unit code" where
  "lock_prefix oz 0 = (\<lambda>m. No_fuel)"
| "lock_prefix oz (Suc fuel) = bnd READINSN (\<lambda>insn.
     if insn = 0x65 then bnd SEG_GS (\<lambda>_. lock_prefix oz fuel) else lock_insn oz (unat insn))"

definition decode_f2 :: "nat \<Rightarrow> unit code" where
  "decode_f2 oz = bnd READINSN (\<lambda>insn.
    (let n = unat insn
     in if n = 0x0f then bnd READINSN (\<lambda>insn.
          (let n = unat insn
           in if n = 0x2c then block [READMODRM_MEM, CVTTSD2SI Modrm_reg]
              else if 0x18 \<le> n \<and> n \<le> 0x1f then READMODRM
              else UNDEFINED))
        else if n = 0xa6 then REPNZ cmps 8
        else if n = 0xa7 then REPNZ cmps oz
        else if n = 0xae then REPNZ scas 8
        else if n = 0xaf then REPNZ scas oz
        else UNDEFINED))"

definition decode_f3 :: "nat \<Rightarrow> unit code" where
  "decode_f3 oz = bnd READINSN (\<lambda>insn.
    (let n = unat insn
     in if n = 0x0f then bnd READINSN (\<lambda>insn.
          (let n = unat insn
           in if n = 0x7e then block [READMODRM, MOVQ Modrm_val Modrm_reg]
              else if 0x18 \<le> n \<and> n \<le> 0x1f then READMODRM
              else if n = 0xbc then block [READMODRM, BSF Modrm_val Modrm_reg oz]
              else if n = 0xbd then block [READMODRM, BSR Modrm_val Modrm_reg oz]
              else UNDEFINED))
        else if n = 0x90 then ret ()
        else if n = 0xa4 then REP movs 8
        else if n = 0xa5 then REP movs oz
        else if n = 0xa6 then REPZ cmps 8
        else if n = 0xa7 then REPZ cmps oz
        else if n = 0xaa then REP stos 8
        else if n = 0xab then REP stos oz
        else if n = 0xac then REP lods 8
        else if n = 0xad then REP lods oz
        else if n = 0xae then REPZ scas 8
        else if n = 0xaf then REPZ scas oz
        else if n = 0xc3 then RET_NEAR oz (Const 0)
        else UNDEFINED))"

definition GRP3 :: "operand \<Rightarrow> unit code \<Rightarrow> nat \<Rightarrow> unit code" where
  "GRP3 val read_imm z = modrm_opcode (\<lambda>n.
    if n \<le> 1 then block [read_imm, TEST Imm val z]
    else if n = 2 then NOT_insn val z
    else if n = 3 then NEG val z
    else if n = 4 then MUL1 Modrm_val z
    else if n = 5 then IMUL1 Modrm_val z
    else if n = 6 then DIV Modrm_val z
    else IDIV Modrm_val z)"

definition GRP5 :: "nat \<Rightarrow> operand \<Rightarrow> nat \<Rightarrow> unit code" where
  "GRP5 oz val z = modrm_opcode (\<lambda>n.
    if n = 0 then INC val z
    else if n = 1 then DEC val z
    else if n = 2 then CALL oz val
    else if n = 4 then JMP oz val
    else if n = 6 then PUSH oz val z
    else UNDEFINED)"

definition decode_e0_ff :: "nat \<Rightarrow> nat \<Rightarrow> unit code" where
  "decode_e0_ff oz n =
    (if n = 0xe3 then block [READIMM8, JCXZ_REL oz Imm]
     else if n = 0xe8 then block [READIMM oz, CALL_REL oz Imm]
     else if n = 0xe9 then block [READIMM oz, JMP_REL oz Imm]
     else if n = 0xeb then block [READIMM8, JMP_REL oz Imm]
     else if n = 0xf2 then decode_f2 oz
     else if n = 0xf3 then decode_f3 oz
     else if n = 0xf6 then block [READMODRM, GRP3 Modrm_val READIMM8 8]
     else if n = 0xf7 then block [READMODRM, GRP3 Modrm_val (READIMM oz) oz]
     else if n = 0xfc then CLD
     else if n = 0xfd then STD
     else if n = 0xfe then block [READMODRM, GRP5 oz Modrm_val 8]
     else if n = 0xff then block [READMODRM, GRP5 oz Modrm_val oz]
     else UNDEFINED)"

subsection \<open>A step\<close>

definition decode_insn :: "host \<Rightarrow> nat \<Rightarrow> nat \<Rightarrow> nat \<Rightarrow> unit code" where
  "decode_insn h oz fuel n =
    (if n = 0x0f then decode_0f h oz
     else if n < 0x40 \<and> n mod 8 \<le> 5 then MAKE_OP oz (alu_op (n div 8)) (n mod 8)
     else if n < 0x40 then UNDEFINED
     else if n < 0x80 then decode_40_7f oz n
     else if n < 0xa0 then decode_80_9f oz n
     else if n < 0xc0 then decode_a0_bf oz n
     else if n < 0xd8 then decode_c0_d3 oz n
     else if n < 0xe0 then decode_fpu h n
     else if n = 0xf0 then lock_prefix oz fuel
     else decode_e0_ff oz n)"

definition DECLARE_LOCALS :: "unit code" where
  "DECLARE_LOCALS m = Ok () (m\<lparr>l_addr := 0, l_imm := 0, l_saved_ip := cpu_eip (m_cpu m)\<rparr>)"

fun restart :: "host \<Rightarrow> nat \<Rightarrow> nat \<Rightarrow> unit code" where
  "restart h oz 0 = (\<lambda>m. No_fuel)"
| "restart h oz (Suc fuel) = bnd READINSN (\<lambda>insn.
     if insn = 0x2e then restart h oz fuel
     else if insn = 0x65 then bnd SEG_GS (\<lambda>_. restart h oz fuel)
     else if insn = 0x66 then bnd DECLARE_LOCALS (\<lambda>_. restart h (48 - oz) fuel)
     else if insn = 0x67 then restart h oz fuel
     else decode_insn h oz fuel (unat insn))"

text \<open>\<open>cpu_step32\<close> and \<open>cpu_step16\<close>.\<close>

definition cpu_step :: "host \<Rightarrow> nat \<Rightarrow> nat \<Rightarrow> unit code" where
  "cpu_step h oz fuel = bnd DECLARE_LOCALS (\<lambda>_. restart h oz fuel)"

end
