(* ===== verification/Confine.thy ===== *)
theory Confine
  imports Decode
begin

text \<open>
  What every instruction does to memory, whatever it is. The only ways from the
  interpreter to memory are \<open>tlb_read\<close> and \<open>tlb_write\<close>; a relation between the
  state of TLB and memory before and after that both of them keep, and that is
  reflexive and transitive, is a \<open>memory_contract\<close>. It then holds across every
  instruction, through the decoder, the operands and the repeat loops.
\<close>

subsection \<open>Pieces of code that follow a relation\<close>

type_synonym tlb_relation = "tlb \<times> vm \<Rightarrow> tlb \<times> vm \<Rightarrow> bool"

definition good :: "tlb_relation \<Rightarrow> machine \<Rightarrow> 'a outcome \<Rightarrow> bool" where
  "good R m r \<longleftrightarrow>
    (case r of
       Ok _ m' \<Rightarrow> R (m_mem m) (m_mem m') | Interrupt _ m' \<Rightarrow> R (m_mem m) (m_mem m')
     | Crash \<Rightarrow> True | No_fuel \<Rightarrow> True)"

definition follows :: "tlb_relation \<Rightarrow> 'a code \<Rightarrow> bool" where
  "follows R c \<longleftrightarrow> (\<forall>m. good R m (c m))"

definition okz :: "nat \<Rightarrow> bool" where
  "okz z \<longleftrightarrow> 8 \<le> z \<and> z \<le> 128"

named_theorems obeys

lemma good_simps [simp]:
  "good R m (Ok x m') = R (m_mem m) (m_mem m')" "good R m (Interrupt n m') = R (m_mem m) (m_mem m')"
  "good R m Crash" "good R m No_fuel"
  by (simp_all add: good_def)

lemma followsI: "(\<And>m. good R m (c m)) \<Longrightarrow> follows R c"
  by (simp add: follows_def)

lemma followsD: "follows R c \<Longrightarrow> good R m (c m)"
  by (simp add: follows_def)

lemma follows_if [obeys]:
  "(b \<Longrightarrow> follows R c) \<Longrightarrow> (\<not> b \<Longrightarrow> follows R d) \<Longrightarrow> follows R (if b then c else d)"
  by simp

lemma follows_prod [obeys]: "(\<And>x y. follows R (f x y)) \<Longrightarrow> follows R (case p of (x, y) \<Rightarrow> f x y)"
  by (cases p) simp

lemma follows_Crash [obeys]: "follows R (\<lambda>m. Crash)" "follows R (\<lambda>m. No_fuel)"
  by (simp_all add: follows_def)

lemma okz_numerals [obeys]: "okz 8" "okz 16" "okz 32" "okz 64" "okz 80" "okz 128"
  by (simp_all add: okz_def)

lemma okz_div: "okz z \<Longrightarrow> 0 < z div 8 \<and> z div 8 \<le> 16"
  by (auto simp: okz_def)

locale memory_contract =
  fixes R :: tlb_relation
  assumes R_refl: "R s s"
    and R_trans: "R s t \<Longrightarrow> R t u \<Longrightarrow> R s u"
    and R_read: "0 < n \<Longrightarrow> n \<le> 16 \<Longrightarrow> R s (snd (tlb_read a n s))"
    and R_write: "0 < length bs \<Longrightarrow> length bs \<le> 16 \<Longrightarrow> R s (snd (tlb_write a bs s))"
begin

subsection \<open>The machine\<close>

lemma good_trans: "R (m_mem m) (m_mem m') \<Longrightarrow> good R m' r \<Longrightarrow> good R m r"
  by (cases r) (auto intro: R_trans)

lemma good_bnd: "good R m (c m) \<Longrightarrow> (\<And>x. follows R (f x)) \<Longrightarrow> good R m (bnd c f m)"
  by (cases "c m") (auto simp: bnd_def intro: good_trans followsD)

lemma follows_bnd [obeys]: "follows R c \<Longrightarrow> (\<And>x. follows R (f x)) \<Longrightarrow> follows R (bnd c f)"
  by (rule followsI) (rule good_bnd, rule followsD)

lemma follows_simple [obeys]:
  "follows R (ret x)" "follows R (from_cpu g)" "follows R (on_cpu h)" "follows R (try_cpu t)"
  "follows R (the_value v)" "follows R (raise_interrupt n)" "follows R UNDEFINED" "follows R (fault a)"
  "follows R (set_imm i)" "follows R (add_addr a)" "follows R DECLARE_LOCALS"
  by (auto simp: follows_def ret_def from_cpu_def on_cpu_def try_cpu_def the_value_def raise_interrupt_def
      UNDEFINED_def fault_def set_imm_def add_addr_def DECLARE_LOCALS_def R_refl split: option.splits)

lemma follows_only_if [obeys]: "follows R c \<Longrightarrow> follows R (only_if b c)"
  by (simp add: only_if_def follows_simple)

lemma follows_block_Nil [obeys]: "follows R (block [])"
  by (simp add: follows_simple)

lemma follows_block_Cons [obeys]: "follows R c \<Longrightarrow> follows R (block cs) \<Longrightarrow> follows R (block (c # cs))"
  by (simp add: follows_bnd)

subsection \<open>Memory and operands\<close>

lemma follows_read_bytes [obeys]: "0 < n \<Longrightarrow> n \<le> 16 \<Longrightarrow> follows R (mem_read_bytes a n)"
proof (rule followsI)
  fix m :: machine
  assume n: "0 < n" "n \<le> 16"
  obtain r s where t: "tlb_read a n (m_mem m) = (r, s)" by (cases "tlb_read a n (m_mem m)")
  then have "R (m_mem m) s" using R_read[OF n, of "m_mem m" a] by simp
  then show "good R m (mem_read_bytes a n m)"
    by (cases r) (simp_all add: mem_read_bytes_def t fault_def)
qed

lemma follows_write_bytes [obeys]:
  "0 < length bs \<Longrightarrow> length bs \<le> 16 \<Longrightarrow> follows R (mem_write_bytes a bs)"
proof (rule followsI)
  fix m :: machine
  assume n: "0 < length bs" "length bs \<le> 16"
  obtain r s where t: "tlb_write a bs (m_mem m) = (r, s)" by (cases "tlb_write a bs (m_mem m)")
  then have "R (m_mem m) s" using R_write[OF n, of "m_mem m" a] by simp
  then show "good R m (mem_write_bytes a bs m)"
    by (cases r) (simp_all add: mem_write_bytes_def t fault_def)
qed

lemma length_bytes_of_word [simp]: "length (bytes_of_word n w) = n"
  by (induction n arbitrary: w) simp_all

lemma follows_mem_read [obeys]: "okz z \<Longrightarrow> follows R (mem_read a z :: 'a::len word code)"
  unfolding mem_read_def using okz_div by (intro obeys) auto

lemma follows_mem_write [obeys]: "okz z \<Longrightarrow> follows R (mem_write a v z)"
  unfolding mem_write_def using okz_div by (intro obeys) auto

lemmas good_access =
  follows_mem_read [THEN followsD] follows_mem_write [THEN followsD]
  follows_simple(3) [THEN followsD]

lemma follows_get_op [obeys]: "okz z \<Longrightarrow> follows R (get_op x z)"
  by (rule followsI) (cases x; simp add: get_op_def R_refl good_access)

lemma follows_set_op [obeys]: "okz z \<Longrightarrow> follows R (set_op x v z)"
  by (rule followsI) (cases x; simp add: set_op_def good_access)

lemma follows_get128 [obeys]: "follows R (get128 x)"
  by (rule followsI) (simp add: get128_def R_refl good_access okz_numerals)

lemma follows_set128 [obeys]: "follows R (set128 x v)"
  by (rule followsI) (simp add: set128_def set_xmm_def good_access okz_numerals)

lemma follows_READIMM_value [obeys]: "okz z \<Longrightarrow> follows R (READIMM_value z)"
  unfolding READIMM_value_def by (intro obeys)

lemma follows_READ_imm [obeys]:
  "follows R READINSN" "okz z \<Longrightarrow> follows R (READIMM z)" "follows R READIMM8" "follows R READADDR"
  "follows R SEG_GS"
  by (auto simp: READINSN_def READIMM_def READIMM8_def READADDR_def SEG_GS_def intro!: obeys)

lemma R_READ: "READ n (ip, s) = (r, ip', s') \<Longrightarrow> 0 < n \<Longrightarrow> n \<le> 16 \<Longrightarrow> R s s'"
  using R_read[of n s ip] by (auto simp: READ_def split: prod.splits option.splits)

lemma R_modrm_offset: "modrm_offset mr md (ip, s) = (r, ip', s') \<Longrightarrow> R s s'"
proof -
  assume a: "modrm_offset mr md (ip, s) = (r, ip', s')"
  obtain r1 ip1 s1 where r1: "READ 1 (ip, s) = (r1, ip1, s1)" by (cases "READ 1 (ip, s)") auto
  obtain r4 ip4 s4 where r4: "READ 4 (ip, s) = (r4, ip4, s4)" by (cases "READ 4 (ip, s)") auto
  have "R s s1" "R s s4" using R_READ[OF r1] R_READ[OF r4] by simp_all
  then show ?thesis
    using a R_refl unfolding modrm_offset_def r1 r4 by (auto split: mode.splits option.splits)
qed

lemma R_modrm_decode32: "modrm_decode32 (ip, s) = (r, ip', s') \<Longrightarrow> R s s'"
proof -
  assume a: "modrm_decode32 (ip, s) = (r, ip', s')"
  obtain r1 ip1 s1 where r1: "READ 1 (ip, s) = (r1, ip1, s1)" by (cases "READ 1 (ip, s)") auto
  have s1: "R s s1" by (rule R_READ[OF r1]) simp_all
  obtain r2 ip2 s2 where r2: "READ 1 (ip1, s1) = (r2, ip2, s2)" by (cases "READ 1 (ip1, s1)") auto
  have s2: "R s1 s2" by (rule R_READ[OF r2]) simp_all
  have off: "modrm_offset mr md (ip1, s1) = (r, ip', s') \<Longrightarrow> R s s'"
    "modrm_offset mr md (ip2, s2) = (r, ip', s') \<Longrightarrow> R s s'" for mr md
    using R_modrm_offset s1 s2 R_trans by blast+
  show ?thesis
    using a s1 R_trans[OF s1 s2] off
    unfolding modrm_decode32_def r1 by (auto simp: r2[simplified] Let_def split: option.splits if_splits prod.splits)
qed

lemma follows_modrm_compute [obeys]: "follows R modrm_compute"
proof (rule followsI)
  fix m :: machine
  obtain r ip s where d: "modrm_decode32 (cpu_eip (m_cpu m), m_mem m) = (r, ip, s)"
    by (cases "modrm_decode32 (cpu_eip (m_cpu m), m_mem m)") auto
  show "good R m (modrm_compute m)"
    using R_modrm_decode32[OF d] by (cases r) (auto simp: modrm_compute_def d Let_def)
qed

lemma follows_READMODRM [obeys]: "follows R READMODRM"
  unfolding READMODRM_def by (rule follows_bnd[OF follows_modrm_compute]) (auto simp: follows_def R_refl)

lemma follows_READMODRM_MEM [obeys]: "follows R READMODRM_MEM"
  unfolding READMODRM_MEM_def
  by (rule follows_bnd[OF follows_READMODRM]) (auto simp: follows_def R_refl UNDEFINED_def)

subsection \<open>Instructions\<close>

lemma follows_moves [obeys]:
  assumes [obeys]: "okz z"
  shows "follows R (MOV src dst z)" "follows R (XCHG src dst z)" "follows R (PUSH oz src z)"
    "follows R (POP oz dst z)"
  unfolding MOV_def XCHG_def PUSH_def POP_def by (intro obeys)+

lemma follows_extending [obeys]:
  assumes [obeys]: "okz z" "okz y"
  shows "follows R (MOVZX src dst z y)" "follows R (MOVSX src dst z y)"
  unfolding MOVZX_def MOVSX_def by (intro obeys)+

lemma follows_INT_imm [obeys]: "follows R (INT_imm src)"
  unfolding INT_imm_def by (intro obeys)

lemma follows_alu_parts [obeys]:
  assumes [obeys]: "okz z"
  shows "follows R (SETAF a b z)" "follows R (overflow_to_cf what a b z)"
    "follows R (overflow_to_of what a b z)" "follows R (set_to_res dst z)"
    "follows R (carry_test ov a z edge)"
  unfolding SETAF_def overflow_to_cf_def overflow_to_of_def set_to_res_def carry_test_def Let_def
  by (intro obeys)+

lemma follows_carry [obeys]:
  assumes [obeys]: "okz z"
  shows "follows R (carry_to_of what a b z)" "follows R (carry_to_cf what a b z)"
  unfolding carry_to_of_def carry_to_cf_def Let_def by (intro obeys)+

lemma follows_alu [obeys]:
  assumes [obeys]: "okz z"
  shows "follows R (TEST a b z)" "follows R (ADD a b z)" "follows R (ADC a b z)" "follows R (SBB a b z)"
    "follows R (logic f a b z)" "follows R (SUB a b z)" "follows R (CMP a b z)"
  unfolding TEST_def ADD_def ADC_def SBB_def logic_def SUB_def CMP_def by (intro obeys)+

lemma follows_logic [obeys]:
  assumes [obeys]: "okz z"
  shows "follows R (OR_insn a b z)" "follows R (AND_insn a b z)" "follows R (XOR_insn a b z)"
  unfolding OR_insn_def AND_insn_def XOR_insn_def by (intro obeys)+

lemma follows_keeping_cf [obeys]: "follows R c \<Longrightarrow> follows R (keeping_cf c)"
  unfolding keeping_cf_def by (intro obeys)

lemma follows_muldiv [obeys]:
  assumes [obeys]: "okz z"
  shows "follows R (INC a z)" "follows R (DEC a z)" "follows R (MUL1 a z)" "follows R (IMUL1 a z)"
    "follows R (IMUL2 a b z)" "follows R (IMUL3 i a b z)" "follows R (DIV a z)" "follows R (IDIV a z)"
    "follows R (CVT z)" "follows R (CVTE z)"
  unfolding INC_def DEC_def MUL1_def IMUL1_def IMUL2_def IMUL3_def DIV_def IDIV_def CVT_def CVTE_def Let_def
  by (intro obeys)+

lemma follows_shift_count [obeys]: "(\<And>n. follows R (body n)) \<Longrightarrow> follows R (shift_count count z body)"
  unfolding shift_count_def by (intro obeys)

lemma follows_shifts [obeys]:
  assumes [obeys]: "okz z"
  shows "follows R (ROL oz count val z)" "follows R (ROR oz count val z)" "follows R (SHL count val z)"
    "follows R (SHR count val z)" "follows R (SAR count val z)" "follows R (SHRD count extra val z)"
    "follows R (SHLD count extra val z)" "follows R (NOT_insn val z)" "follows R (NEG val z)"
  unfolding ROL_def ROR_def SHL_def SHR_def SAR_def SHRD_def SHLD_def NOT_insn_def NEG_def
    assign_cf_def assign_of_def shift_result_def
  by (intro obeys)+

lemma follows_get_bit [obeys]: "okz z \<Longrightarrow> follows R (get_bit bt val z)"
proof -
  assume z: "okz z"
  note [obeys] = z
  have c: "follows R (bnd (get_op bt z)
      (\<lambda>b m. mem_read (l_addr m + of_nat (unat b div z * (z div 8))) z m :: dword_t outcome))"
    by (rule follows_bnd, intro obeys, rule followsI, rule good_access(1), rule z)
  have "follows R (\<lambda>m. if is_memory val m
      then bnd (get_op bt z) (\<lambda>b m. mem_read (l_addr m + of_nat (unat b div z * (z div 8))) z m :: dword_t outcome) m
      else get_op val z m)"
    unfolding follows_def
    by (intro allI, rule iffD2[OF if_split]) (use followsD[OF c] followsD[OF follows_get_op[OF z]] in blast)
  note [obeys] = this
  show ?thesis unfolding get_bit_def by (intro obeys)
qed

lemma follows_bits [obeys]:
  assumes [obeys]: "okz z"
  shows "follows R (BT bt val z)" "follows R (change_bit f bt val z)" "follows R (bit_scan g src dst z)"
  unfolding BT_def change_bit_def bit_scan_def msk_def by (intro obeys)+

lemma follows_bit_insns [obeys]:
  assumes [obeys]: "okz z"
  shows "follows R (BTC bt val z)" "follows R (BTS bt val z)" "follows R (BTR bt val z)"
    "follows R (BSF src dst z)" "follows R (BSR src dst z)"
  unfolding BTC_def BTS_def BTR_def BSF_def BSR_def by (intro obeys)+

lemma follows_STRING [obeys]:
  assumes [obeys]: "okz z"
  shows "follows R (STRING sop z)"
  by (cases sop) (simp_all only: STRING_def string_op.case BUMP_SI_def BUMP_DI_def, (intro obeys)+)

lemma follows_rep_loop [obeys]: "follows R body \<Longrightarrow> follows R (rep_loop n stop body)"
proof (induction n)
  case 0
  show ?case unfolding rep_loop.simps by (intro obeys)
next
  case (Suc n)
  note [obeys] = Suc.prems Suc.IH[OF Suc.prems]
  show ?case unfolding rep_loop.simps by (intro obeys)
qed

lemma follows_repeat [obeys]:
  assumes [obeys]: "okz z"
  shows "follows R (repeat stop sop z)" "follows R (REP sop z)" "follows R (REPZ sop z)"
    "follows R (REPNZ sop z)"
  unfolding REP_def REPZ_def REPNZ_def repeat_def by (intro obeys)+

lemma follows_exchanges [obeys]:
  assumes [obeys]: "okz z"
  shows "follows R (CMPXCHG src dst z)" "follows R (XADD src dst z)"
  unfolding CMPXCHG_def XADD_def by (intro obeys)+

lemma follows_bytes [obeys]: "follows R (BSWAP dst)" "follows R (SET sense cond dst)"
  unfolding BSWAP_def SET_def by (intro obeys)+

lemma follows_jumps [obeys]:
  assumes [obeys]: "okz oz"
  shows "follows R (JMP oz loc)" "follows R (JMP_REL oz loc)"
  unfolding JMP_def JMP_REL_def FIX_EIP_def by (intro obeys)+

lemma follows_control [obeys]:
  assumes [obeys]: "okz oz"
  shows "follows R (J_REL oz cond loc)" "follows R (JN_REL oz cond loc)" "follows R (JCXZ_REL oz loc)"
    "follows R (CALL oz loc)" "follows R (CALL_REL oz loc)" "follows R (RET_NEAR oz imm)"
    "follows R (CMOV sense cond a b oz)" "follows R (POPF oz)"
    "follows R (PUSHF oz)"
  unfolding J_REL_def JN_REL_def JCXZ_REL_def CALL_def CALL_REL_def RET_NEAR_def CMOV_def
    POPF_def PUSHF_def FIX_EIP_def
  by (intro obeys)+

lemma follows_flags [obeys]: "follows R STD" "follows R CLD" "follows R SAHF" "follows R CPUID"
  unfolding STD_def CLD_def SAHF_def CPUID_def by (intro obeys)+

lemma follows_RDTSC [obeys]: "follows R (RDTSC h)"
  by (rule followsI) (simp add: RDTSC_def Let_def on_cpu_def R_refl)

subsection \<open>SSE and FPU\<close>

lemma follows_xmm_update [obeys]: "follows R (xmm_update f src dst)"
  unfolding xmm_update_def by (intro obeys)

lemma follows_MOVQ [obeys]: "follows R (MOVQ src dst)"
  unfolding MOVQ_def
  by (rule follows_bnd, rule follows_get128, rule follows_bnd, rule follows_get128,
      rule followsI, rule followsD, rule follows_set128)

lemma follows_load64: "follows R (\<lambda>m. mem_read (l_addr m) 64 m)"
  by (rule followsI) (rule good_access, rule okz_numerals)

lemma follows_sse [obeys]:
  "follows R (PCMPEQD src dst)" "follows R (XORP src dst)" "follows R (PADD src dst)"
  "follows R (PSUB src dst)" "follows R (MOVD src dst)" "follows R (MOV128 src dst)"
  "follows R (CVTTSD2SI dst)"
  unfolding PCMPEQD_def XORP_def PADD_def PSUB_def MOVD_def MOV128_def CVTTSD2SI_def
  by (intro obeys follows_load64)+

lemma follows_PSRLQ [obeys]: "okz oz \<Longrightarrow> follows R (PSRLQ oz count dst)"
  unfolding PSRLQ_def by (intro obeys)

lemma follows_read_real:
  "follows R (bnd (mem_read_bytes a 10) (\<lambda>bs. ret (float80_of_bytes bs)))"
  "follows R (bnd (mem_read a 64) (\<lambda>d. the_value (f80_from_double d)))"
  "follows R (bnd (mem_read a 32) (\<lambda>w. the_value (f80_from_double (float_to_double w))))"
  by ((intro obeys), simp, simp, (intro obeys)+)

lemma follows_get_mem_real [obeys]: "follows R (get_mem_real z)"
  by (rule followsI) (simp add: get_mem_real_def follows_read_real[THEN followsD])

lemma length_bytes_of_float80 [simp]: "length (bytes_of_float80 f) = 10"
  by (simp add: bytes_of_float80_def del: bytes_of_word.simps)

lemma follows_set_mem_real [obeys]: "follows R (set_mem_real f z)"
  by (rule followsI)
    (simp add: set_mem_real_def Let_def good_access okz_numerals follows_write_bytes[THEN followsD])

lemma follows_get_mem_int [obeys]:
  assumes [obeys]: "okz z"
  shows "follows R (get_mem_int z)"
  unfolding get_mem_int_def by (rule followsI, rule followsD, intro obeys)

lemma follows_FIST [obeys]:
  assumes z: "okz z"
  shows "follows R (FIST z)"
  unfolding FIST_def get_ST_def
  by (intro follows_bnd follows_simple, rule followsI, rule good_access, rule z)

lemma follows_get_ST [obeys]: "follows R (get_ST i)"
  unfolding get_ST_def by (intro obeys)

lemma follows_fpu [obeys]:
  "follows R (fpu_regs f i j)" "follows R (fpu_real f z)" "follows R FCHS" "follows R FABS"
  "follows R FPREM" "follows R FPOP" "follows R (FPUSH x)" "follows R (FXCH i)" "follows R (FUCOMI i)"
  "follows R (F_COMPARE x)" "follows R (FST i)" "follows R (FSTSW d)" "follows R (FSTCW d)"
  "follows R (FLDCW d)" "follows R (FPATAN h)"
  unfolding fpu_regs_def fpu_real_def FCHS_def FABS_def FPREM_def FPOP_def FPUSH_def FXCH_def
    FUCOMI_def F_COMPARE_def FST_def FSTSW_def FSTCW_def FLDCW_def FPATAN_def
  by (intro obeys)+

lemma follows_fpu_moves [obeys]:
  "follows R (FCOM i)" "follows R (FCOMM z)" "follows R FTST" "follows R (FLD i)" "follows R (FLDM z)"
  "follows R (FLDC what)" "follows R (FSTM z)"
  unfolding FCOM_def FCOMM_def FTST_def FLD_def FLDM_def FLDC_def FSTM_def by (intro obeys)+

lemma follows_fpu_integers [obeys]:
  assumes [obeys]: "okz z"
  shows "follows R (FILD z)" "follows R (fpu_int f z)"
  unfolding FILD_def fpu_int_def by (intro obeys)+

subsection \<open>The decoder\<close>

lemma follows_alu_op [obeys]:
  assumes z: "okz z"
  shows "follows R (alu_op n a b z)"
proof -
  have "\<forall>f \<in> set [ADD, OR_insn, ADC, SBB, AND_insn, SUB, XOR_insn, CMP]. follows R (f a b z)"
    using z by (simp add: follows_alu follows_logic)
  moreover have "alu_op n \<in> set [ADD, OR_insn, ADC, SBB, AND_insn, SUB, XOR_insn, CMP]"
    unfolding alu_op_def by (rule nth_mem) simp
  ultimately show ?thesis by blast
qed

lemma follows_modrm_opcode [obeys]: "(\<And>n. follows R (f n)) \<Longrightarrow> follows R (modrm_opcode f)"
  by (simp add: modrm_opcode_def follows_def)

lemma follows_MAKE_OP [obeys]:
  assumes [obeys]: "okz oz" and f [obeys]: "\<And>a b z. okz z \<Longrightarrow> follows R (f a b z)"
  shows "follows R (MAKE_OP oz f n)"
  unfolding MAKE_OP_def by (intro obeys)

lemma follows_Jcc [obeys]: "okz oz \<Longrightarrow> follows R (Jcc oz n)"
  unfolding Jcc_def by (intro obeys)

lemma follows_groups [obeys]:
  assumes [obeys]: "okz z"
  shows "follows R (GRP8 bt val z)" "follows R (GRP1 src dst z)" "follows R (GRP2 oz count val z)"
    "follows R (GRP5_ATOMIC val z)" "follows R (GRP1_ATOMIC src dst z)"
    "follows R c \<Longrightarrow> follows R (GRP3 val c z)"
  unfolding GRP8_def GRP1_def GRP2_def GRP5_ATOMIC_def GRP1_ATOMIC_def GRP3_def
  by (intro obeys | assumption)+

lemma follows_GRP5 [obeys]:
  assumes [obeys]: "okz oz" "okz z"
  shows "follows R (GRP5 oz val z)"
  unfolding GRP5_def by (intro obeys)

lemma follows_decode_0f [obeys]:
  assumes [obeys]: "okz oz"
  shows "follows R (decode_0f_low h oz n)" "follows R (decode_0f_high oz n)" "follows R (decode_0f h oz)"
  unfolding decode_0f_def decode_0f_low_def decode_0f_high_def by (intro obeys)+

lemma follows_decode_bytes [obeys]:
  assumes [obeys]: "okz oz"
  shows "follows R (decode_40_7f oz n)" "follows R (decode_80_9f oz n)" "follows R (decode_a0_bf oz n)"
    "follows R (decode_c0_d3 oz n)"
  unfolding decode_40_7f_def decode_80_9f_def decode_a0_bf_def decode_c0_d3_def by (intro obeys)+

lemma follows_decode_fpu_parts [obeys]:
  "follows R (decode_fpu_mem k)" "follows R (decode_fpu_const h k)" "follows R (decode_fpu_reg h k i)"
  unfolding decode_fpu_reg_def decode_fpu_mem_def decode_fpu_const_def by (intro obeys)+

lemma follows_decode_fpu [obeys]: "follows R (decode_fpu h n)"
  unfolding decode_fpu_def
  by (rule follows_bnd[OF follows_READMODRM], rule followsI)
    (simp add: Let_def follows_decode_fpu_parts[THEN followsD])

lemma follows_lock_insn [obeys]:
  assumes [obeys]: "okz oz"
  shows "follows R (lock_insn oz n)"
  unfolding lock_insn_def lock_0f_def Let_def by (intro obeys)

lemma follows_lock_prefix [obeys]:
  assumes [obeys]: "okz oz"
  shows "follows R (lock_prefix oz fuel)"
proof (induction fuel)
  case 0
  show ?case unfolding lock_prefix.simps by (intro obeys)
next
  case (Suc fuel)
  note [obeys] = Suc.IH
  show ?case unfolding lock_prefix.simps by (intro obeys)
qed

lemma follows_decode_ff [obeys]:
  assumes [obeys]: "okz oz"
  shows "follows R (decode_f2 oz)" "follows R (decode_f3 oz)" "follows R (decode_e0_ff oz n)"
  unfolding decode_e0_ff_def decode_f2_def decode_f3_def Let_def by (intro obeys)+

lemma follows_decode_insn [obeys]:
  assumes [obeys]: "okz oz"
  shows "follows R (decode_insn h oz fuel n)"
  unfolding decode_insn_def by (intro obeys)

lemma follows_restart: "oz = 16 \<or> oz = 32 \<Longrightarrow> follows R (restart h oz fuel)"
proof (induction fuel arbitrary: oz)
  case 0
  show ?case unfolding restart.simps by (intro obeys)
next
  case (Suc fuel)
  have oz: "okz oz" "48 - oz = 16 \<or> 48 - oz = 32" using Suc.prems by (auto simp: okz_def)
  note [obeys] = Suc.IH[OF Suc.prems] Suc.IH[OF oz(2)] oz(1)
  show ?case unfolding restart.simps by (intro obeys)
qed

lemma follows_cpu_step: "oz = 16 \<or> oz = 32 \<Longrightarrow> follows R (cpu_step h oz fuel)"
  unfolding cpu_step_def by (intro follows_bnd follows_simple follows_restart)

end

end
