(* ===== verification/Isolation.thy ===== *)
theory Isolation
  imports Confine Memory_Props
begin

text \<open>
  Isolation of address spaces from the code that runs in another one: the
  contract of the theory Confine for the TLB and the page tables. It says that
  the TLB stays coherent and in its address space, that the bytes of every other
  address space are the same, and that no byte of its own gets unmapped.
\<close>

definition secure :: tlb_relation where
  "secure s t \<longleftrightarrow> (tlb_ok (fst s) (snd s) \<longrightarrow>
     tlb_ok (fst t) (snd t) \<and> tlb_mem (fst t) = tlb_mem (fst s) \<and>
     (\<forall>m a. m \<noteq> tlb_mem (fst s) \<longrightarrow> guest (snd t) m a = guest (snd s) m a) \<and>
     (\<forall>a. guest (snd s) (tlb_mem (fst s)) a \<noteq> None \<longrightarrow> guest (snd t) (tlb_mem (fst s)) a \<noteq> None))"

lemma secure_refl: "secure s s"
  by (simp add: secure_def)

lemma secure_trans: "secure s t \<Longrightarrow> secure t u \<Longrightarrow> secure s u"
  by (auto simp: secure_def)

subsection \<open>Pointers\<close>

lemma miss_others:
  assumes "tlb_ok tlb v" "m \<noteq> tlb_mem tlb"
  shows "guest (snd (snd (tlb_handle_miss a type (tlb, v)))) m x = guest v m x"
proof -
  have "task_ok (tlb_mem tlb) v" using assms(1) by (simp add: tlb_ok_def)
  then have "kept v (snd (mem_ptr (tlb_mem tlb) (TLB_PAGE a) type v)) (m, PAGE x)"
    using mem_ptr_kept assms(2) by (metis prod.collapse prod.inject)
  then show ?thesis
    by (auto simp: tlb_handle_miss_def Let_def kept_guest split: prod.splits option.splits)
qed

lemma secure_step:
  assumes "ptr_step a type s r"
    and "\<And>m x. tlb_ok (fst s) (snd s) \<Longrightarrow> m \<noteq> tlb_mem (fst s) \<Longrightarrow> guest (snd (snd r)) m x = guest (snd s) m x"
  shows "secure s (snd r)"
  using assms by (auto simp: secure_def ptr_step_def Let_def extends_def)

lemma secure_miss: "secure (tlb, v) (snd (tlb_handle_miss a type (tlb, v)))"
proof (cases "tlb_ok tlb v")
  case True
  show ?thesis
    by (rule secure_step[OF tlb_handle_miss_step[OF True]]) (use miss_others[OF True] in simp)
qed (simp add: secure_def)

lemma secure_read_ptr: "secure s (snd (tlb_read_ptr a s))"
  by (cases s) (simp add: tlb_read_ptr_def Let_def secure_refl secure_miss)

lemma secure_write_ptr: "secure s (snd (tlb_write_ptr a s))"
proof -
  have "secure (tlb, v) (tlb\<lparr>tlb_dirty_page := p\<rparr>, v)" for tlb v p
    by (simp add: secure_def tlb_ok_def)
  then show ?thesis by (cases s) (simp add: tlb_write_ptr_def Let_def secure_miss)
qed

lemma written_secure:
  assumes "secure (tlb, v) (t, u)" "written (tlb_mem tlb) a bs u w" "tlb_ok tlb v \<Longrightarrow> tlb_ok t' w \<and> tlb_mem t' = tlb_mem tlb"
  shows "secure (tlb, v) (t', w)"
proof -
  have "guest w (tlb_mem tlb) x \<noteq> None" if "guest u (tlb_mem tlb) x \<noteq> None" for x
    using assms(2) that unfolding written_def by (metis option.distinct(1))
  then show ?thesis
    using assms unfolding secure_def written_def by auto
qed

subsection \<open>Accesses\<close>

lemma secure_two:
  "f1 s = (p1, s1) \<Longrightarrow> f2 s1 = (p2, s2) \<Longrightarrow> (\<And>s. secure s (snd (f1 s))) \<Longrightarrow> (\<And>s. secure s (snd (f2 s))) \<Longrightarrow>
    secure s s2"
  by (metis secure_trans snd_conv)

lemma secure_read: "secure s (snd (tlb_read a n s))"
proof -
  have "secure s (snd (tlb_read_cross_page a n s))"
    unfolding tlb_read_cross_page_def
    by (auto split: prod.splits option.splits simp: Let_def
        dest: secure_two[where ?f1.0 = "tlb_read_ptr a" and ?f2.0 = "tlb_read_ptr (next_page a)",
          OF _ _ secure_read_ptr secure_read_ptr])
  then show ?thesis
    using secure_read_ptr[of s a] by (auto simp: tlb_read_def split: prod.splits option.splits)
qed

lemma secure_write:
  assumes "0 < length bs" "length bs \<le> 16"
  shows "secure s (snd (tlb_write a bs s))"
proof -
  obtain tlb v where s: "s = (tlb, v)" by (cases s)
  obtain ok t w where r: "tlb_write a bs (tlb, v) = (ok, t, w)" by (cases "tlb_write a bs (tlb, v)") auto
  have second: "secure s (snd (tlb_write_ptr (next_page a) (snd (tlb_write_ptr a s))))"
    using secure_write_ptr secure_trans by blast
  show ?thesis
  proof (cases "ok \<and> tlb_ok tlb v")
    case True
    then obtain u where u: "tlb_ok t w" "tlb_mem t = tlb_mem tlb" "written (tlb_mem tlb) a bs u w"
      "u = snd (snd (tlb_write_ptr a s)) \<or> u = snd (snd (tlb_write_ptr (next_page a) (snd (tlb_write_ptr a s))))"
      using tlb_write_written[of tlb v bs a t w] assms r s by auto
    then obtain t1 where "secure (tlb, v) (t1, u)"
      using secure_write_ptr[of s a] second s by (metis prod.collapse)
    from written_secure[OF this u(3)] u show ?thesis using r s by simp
  next
    case False
    have "secure s (t, w)" if "\<not> ok"
      using that r second secure_write_ptr[of s a] unfolding s
      by (auto simp: tlb_write_def tlb_write_cross_page_def Let_def split: if_splits prod.splits option.splits)
    then show ?thesis using False r s by (cases "tlb_ok tlb v") (auto simp: secure_def)
  qed
qed

subsection \<open>Every instruction\<close>

interpretation isolation: memory_contract secure
  by unfold_locales (auto intro: secure_refl secure_trans secure_read secure_write)

text \<open>What a step of the machine does to the coherence of the TLB and to the other
address spaces, whether it completes or is interrupted.\<close>

definition after_step :: "'a outcome \<Rightarrow> machine option" where
  "after_step r = (case r of Ok _ m \<Rightarrow> Some m | Interrupt _ m \<Rightarrow> Some m | Crash \<Rightarrow> None | No_fuel \<Rightarrow> None)"

lemma step_secure:
  assumes "oz = 16 \<or> oz = 32" "after_step (cpu_step h oz fuel m) = Some m'"
  shows "secure (m_mem m) (m_mem m')"
  using followsD[OF isolation.follows_cpu_step[OF assms(1)], of m h fuel] assms(2)
  by (auto simp: after_step_def split: outcome.splits)

text \<open>Any number of steps, with the interrupts and crashes that end a run.\<close>

inductive reaches :: "host \<Rightarrow> nat \<Rightarrow> machine \<Rightarrow> machine \<Rightarrow> bool" for h fuel where
  here: "reaches h fuel m m"
| step: "reaches h fuel m m' \<Longrightarrow> after_step (cpu_step h 32 fuel m') = Some m'' \<Longrightarrow> reaches h fuel m m''"

lemma reaches_secure: "reaches h fuel m m' \<Longrightarrow> secure (m_mem m) (m_mem m')"
proof (induction rule: reaches.induct)
  case (here m)
  show ?case by (rule secure_refl)
next
  case (step m m' m'')
  then show ?case using step_secure[of 32] secure_trans by blast
qed

end
