(* ===== verification/Run.thy ===== *)
theory Run
  imports Syscall Decode
begin

text \<open>
  The loop that runs the current task (\<open>cpu_run\<close> of \<open>src/emu/interp.c\<close>): it steps
  the CPU, handles the interrupt the step returns, or that of the timer after
  100000 steps without one, and flushes the TLB when the mappings have changed.
  A round is a function on the local variables of the loop and the kernel; the
  members of \<open>r_m\<close> other than the CPU and the memory are what the interpreter
  keeps between two steps.
\<close>

record runner =
  r_kern :: kern
  r_tlb :: tlb
  r_i :: nat
  r_changes :: dword_t
  r_m :: machine

datatype round = Goes_on runner | Thread_ends kern | Sleeps | Undefined | Fuel_used_up

definition changes_of :: "mem_id \<Rightarrow> vm \<Rightarrow> dword_t" where
  "changes_of m v = mem_changes (mem_of v m)"

text \<open>The machine the interpreter works on, and the state after its step.\<close>

definition load_machine :: "runner \<Rightarrow> machine" where
  "load_machine r =
    (r_m r)\<lparr>m_cpu := t_cpu (cur_task (r_kern r)), m_mem := (r_tlb r, k_vm (r_kern r))\<rparr>"

definition store_machine :: "machine \<Rightarrow> runner \<Rightarrow> runner" where
  "store_machine m r =
    (let k = (r_kern r)\<lparr>k_vm := snd (m_mem m)\<rparr>
     in r\<lparr>r_kern := upd_task (k_current k) (\<lambda>x. x\<lparr>t_cpu := m_cpu m\<rparr>) k, r_tlb := fst (m_mem m), r_m := m\<rparr>)"

definition refresh_tlb :: "runner \<Rightarrow> runner" where
  "refresh_tlb r =
    (let m = t_mem (cur_task (r_kern r));
         tlb = (if tlb_mem (r_tlb r) \<noteq> m then (r_tlb r)\<lparr>tlb_mem := m\<rparr> else r_tlb r);
         changes = changes_of m (k_vm (r_kern r))
     in if changes \<noteq> r_changes r then r\<lparr>r_tlb := tlb_flush tlb, r_changes := changes\<rparr>
        else r\<lparr>r_tlb := tlb\<rparr>)"

definition interrupted :: "world \<Rightarrow> int \<Rightarrow> runner \<Rightarrow> round" where
  "interrupted w n r =
    (let k = r_kern r;
         k = upd_task (k_current k) (\<lambda>x. x\<lparr>t_cpu := (t_cpu x)\<lparr>cpu_trapno := word_of_int n\<rparr>\<rparr>) k
     in case handle_interrupt w n k of
          Returned _ k \<Rightarrow> Goes_on (refresh_tlb (r\<lparr>r_kern := k\<rparr>))
        | Ended k \<Rightarrow> Thread_ends k
        | Asleep \<Rightarrow> Sleeps)"

definition run_round :: "host \<Rightarrow> world \<Rightarrow> nat \<Rightarrow> runner \<Rightarrow> round" where
  "run_round h w fuel r =
    (case cpu_step h 32 fuel (load_machine r) of
       Ok _ m \<Rightarrow>
         (let r = store_machine m r
          in if r_i r \<ge> 100000 then interrupted w INT_TIMER (r\<lparr>r_i := 0\<rparr>)
             else Goes_on (r\<lparr>r_i := r_i r + 1\<rparr>))
     | Interrupt n m \<Rightarrow> interrupted w n (store_machine m r)
     | Crash \<Rightarrow> Undefined
     | No_fuel \<Rightarrow> Fuel_used_up)"

text \<open>The start of \<open>cpu_run\<close>.\<close>

definition start_runner :: "machine \<Rightarrow> kern \<Rightarrow> runner" where
  "start_runner m k =
    (let mem = t_mem (cur_task k)
     in \<lparr>r_kern = k,
         r_tlb = tlb_flush \<lparr>tlb_mem = mem, tlb_dirty_page = 0,
           tlb_entries = (\<lambda>_. \<lparr>te_page = 0, te_page_if_writable = 0, te_data_minus_addr = (0, 0)\<rparr>)\<rparr>,
         r_i = 0, r_changes = changes_of mem (k_vm k), r_m = m\<rparr>)"

fun cpu_run :: "host \<Rightarrow> world \<Rightarrow> nat \<Rightarrow> nat \<Rightarrow> runner \<Rightarrow> round" where
  "cpu_run h w fuel 0 r = Goes_on r"
| "cpu_run h w fuel (Suc n) r =
    (case run_round h w fuel r of Goes_on r \<Rightarrow> cpu_run h w fuel n r | x \<Rightarrow> x)"

end
