(* ===== verification/Interp_Facts.thy ===== *)
theory Interp_Facts
  imports Decode
begin

text \<open>
  Facts about the instructions. An operand that behaves like a register is a
  locale: a \<open>source\<close> is read without effect, a \<open>place\<close> is also written. The
  effect of the arithmetic instructions is computed once in the locales, and
  holds of the registers by interpretation.
\<close>

subsection \<open>Running code\<close>

lemma bnd_Ok [simp]: "c m = Ok x n \<Longrightarrow> bnd c f m = f x n"
  by (simp add: bnd_def)

lemma run_simps [simp]:
  "ret x m = Ok x m" "from_cpu f m = Ok (f (m_cpu m)) m"
  "on_cpu g m = Ok () (m\<lparr>m_cpu := g (m_cpu m)\<rparr>)"
  by (simp_all add: ret_def from_cpu_def on_cpu_def)

lemma m_cpu_update_twice [simp]: "m\<lparr>m_cpu := c\<rparr>\<lparr>m_cpu := d\<rparr> = m\<lparr>m_cpu := d\<rparr>"
  by (cases m) simp

subsection \<open>Signed and unsigned values of \<open>z\<close> bits\<close>

abbreviation op_size :: "nat \<Rightarrow> bool" where
  "op_size z \<equiv> z = 8 \<or> z = 16 \<or> z = 32"

lemma signed_take_bit_cases:
  fixes r :: int
  assumes "- (2 * 2 ^ n) \<le> r" "r < 2 * 2 ^ n"
  shows "signed_take_bit n r = (if r < - (2 ^ n) then r + 2 * 2 ^ n else if r < 2 ^ n then r else r - 2 * 2 ^ n)"
proof -
  let ?M = "2 ^ n :: int"
  have s: "signed_take_bit n r = (r + ?M) mod (2 * ?M) - ?M"
    by (simp add: signed_take_bit_eq_take_bit_shift take_bit_eq_mod)
  have p: "0 < ?M" by simp
  show ?thesis
  proof (cases "r < - ?M")
    case True
    then have "(r + ?M) mod (2 * ?M) = r + 3 * ?M"
      using assms p by (subst mod_add_self2[symmetric]) (simp add: mod_pos_pos_trivial)
    then show ?thesis using True s by simp
  next
    case False
    show ?thesis
    proof (cases "r < ?M")
      case True
      then have "(r + ?M) mod (2 * ?M) = r + ?M" using False p by (intro mod_pos_pos_trivial) auto
      then show ?thesis using True False s by simp
    next
      case f2: False
      then have "(r - ?M) mod (2 * ?M) = r - ?M" using assms p by (intro mod_pos_pos_trivial) auto
      moreover have "(r - ?M + 2 * ?M) mod (2 * ?M) = (r - ?M) mod (2 * ?M)" by (rule mod_add_self2)
      moreover have "r - ?M + 2 * ?M = r + ?M" by simp
      ultimately have "(r + ?M) mod (2 * ?M) = r - ?M" by simp
      then show ?thesis using False f2 s by simp
    qed
  qed
qed

lemma signed_difference:
  fixes a b :: int
  assumes "- (2 ^ n) \<le> a" "a < 2 ^ n" "- (2 ^ n) \<le> b" "b < 2 ^ n"
  defines "r \<equiv> signed_take_bit n (a - b)"
  shows "(r < 0) \<noteq> (r \<noteq> a - b) \<longleftrightarrow> a < b" and "r = 0 \<longleftrightarrow> a = b"
proof -
  have r: "r = (if a - b < - (2 ^ n) then a - b + 2 * 2 ^ n else if a - b < 2 ^ n then a - b
      else a - b - 2 * 2 ^ n)"
    unfolding r_def using assms(1-4) by (intro signed_take_bit_cases) auto
  show "(r < 0) \<noteq> (r \<noteq> a - b) \<longleftrightarrow> a < b" "r = 0 \<longleftrightarrow> a = b"
    unfolding r using assms(1-4) by (auto split: if_splits)
qed

lemma sint_of_bounds: "- (2 ^ (z - 1)) \<le> sint_of z v" "sint_of z v < 2 ^ (z - 1)"
  by (simp_all add: sint_of_def signed_take_bit_int_greater_eq_minus_exp signed_take_bit_int_less_exp)

lemma uint_of_bounds: "0 \<le> uint_of z v" "uint_of z v < 2 ^ z"
  by (simp_all add: uint_of_def)

lemma sint_res:
  assumes "op_size z"
  shows "sint (word_of_int (signed_take_bit (z - 1) r) :: dword_t) = signed_take_bit (z - 1) r"
  using assms by (auto simp: sint_sbintrunc')

lemma res_zero:
  assumes "op_size z"
  shows "(word_of_int (signed_take_bit (z - 1) r) :: dword_t) = 0 \<longleftrightarrow> signed_take_bit (z - 1) r = 0"
  using sint_res[OF assms, of r] by (metis of_int_0 sint_0)

lemma unsigned_difference:
  fixes a b :: int
  assumes "0 \<le> a" "a < 2 ^ z" "0 \<le> b" "b < 2 ^ z"
  shows "take_bit z (a - b) \<noteq> a - b \<longleftrightarrow> a < b"
proof
  assume "take_bit z (a - b) \<noteq> a - b"
  then show "a < b" using assms by (cases "a < b") (auto simp: take_bit_int_eq_self_iff)
next
  assume "a < b"
  then show "take_bit z (a - b) \<noteq> a - b" using take_bit_nonnegative[of z "a - b"] by linarith
qed

lemma sint_uint_eq_iff:
  assumes "op_size z"
  shows "sint_of z a = sint_of z b \<longleftrightarrow> uint_of z a = uint_of z b"
proof -
  have z: "z = Suc (z - 1)" using assms by auto
  show ?thesis
    unfolding sint_of_def uint_of_def
    by (subst (3 4) z) (rule signed_take_bit_eq_iff_take_bit_eq)
qed


subsection \<open>Operands that behave like registers\<close>

locale source =
  fixes x :: operand and z :: nat and val :: "cpu_state \<Rightarrow> dword_t"
  assumes get_val: "get_op x z m = Ok (val (m_cpu m)) m"
    and val_regs: "cpu_regs c = cpu_regs d \<Longrightarrow> val c = val d"
    and val_bits: "take_bit z (val c) = val c"
    and size_ok: "op_size z"
begin

lemma uint_of_val: "uint_of z (val c) = uint (val c)"
  by (metis uint_of_def unsigned_take_bit_eq val_bits)

lemma val_flags [simp]:
  "val (put_cf b c) = val c" "val (put_of b c) = val c" "val (put_res r c) = val c"
  "val (SETRESFLAGS c) = val c" "val (put_flag n b c) = val c"
  "val (c\<lparr>cpu_op1 := u, cpu_op2 := v, cpu_af_ops := b\<rparr>) = val c" "val (c\<lparr>cpu_op1 := u\<rparr>) = val c"
  by (rule val_regs, simp add: put_cf_def put_of_def put_res_def SETRESFLAGS_def put_flag_def)+

end

locale place = source +
  fixes upd :: "dword_t \<Rightarrow> cpu_state \<Rightarrow> cpu_state"
  assumes set_upd: "set_op x v z m = Ok () (m\<lparr>m_cpu := upd v (m_cpu m)\<rparr>)"
    and val_upd: "val (upd v c) = take_bit z v"
    and upd_regs: "upd v c = c\<lparr>cpu_regs := cpu_regs (upd v c)\<rparr>"
begin

text \<open>Everything but the registers survives a write.\<close>

lemma upd_frame:
  "cpu_cf (upd v c) = cpu_cf c" "cpu_of (upd v c) = cpu_of c" "cpu_res (upd v c) = cpu_res c"
  "cpu_zf_res (upd v c) = cpu_zf_res c" "cpu_sf_res (upd v c) = cpu_sf_res c"
  "cpu_pf_res (upd v c) = cpu_pf_res c" "cpu_eflags (upd v c) = cpu_eflags c"
  "cpu_eip (upd v c) = cpu_eip c"
  by (subst upd_regs, simp)+

end

locale two_operands = s: source src z sval + d: source dst z dval for src dst z sval dval
begin

lemma SETAF_step:
  "SETAF src dst z m = Ok () (m\<lparr>m_cpu := (m_cpu m)\<lparr>cpu_op1 := sval (m_cpu m), cpu_op2 := dval (m_cpu m),
     cpu_af_ops := True\<rparr>\<rparr>)"
  by (simp add: SETAF_def s.get_val d.get_val)

lemma overflow_steps:
  "overflow_to_cf what dst src z m = Ok () (m\<lparr>m_cpu :=
     put_cf (snd (unsigned_overflow what z (dval (m_cpu m)) (sval (m_cpu m))))
      (put_res (fst (unsigned_overflow what z (dval (m_cpu m)) (sval (m_cpu m)))) (m_cpu m))\<rparr>)"
  "overflow_to_of what dst src z m = Ok () (m\<lparr>m_cpu :=
     put_of (snd (signed_overflow what z (dval (m_cpu m)) (sval (m_cpu m))))
      (put_res (fst (signed_overflow what z (dval (m_cpu m)) (sval (m_cpu m)))) (m_cpu m))\<rparr>)"
  by (simp_all add: overflow_to_cf_def overflow_to_of_def s.get_val d.get_val split_beta)

text \<open>\<open>CMP\<close>: the result and the flags are those of the difference.\<close>

lemma CMP_result:
  defines "r \<equiv> \<lambda>m. signed_overflow sub z (dval (m_cpu m)) (sval (m_cpu m))"
    and "u \<equiv> \<lambda>m. unsigned_overflow sub z (dval (m_cpu m)) (sval (m_cpu m))"
  obtains c where "CMP src dst z m = Ok () (m\<lparr>m_cpu := c\<rparr>)" "cpu_regs c = cpu_regs (m_cpu m)"
    "cpu_zf_res c" "cpu_sf_res c" "cpu_res c = fst (r m)"
    "cpu_cf c = of_bool (snd (u m))" "cpu_of c = of_bool (snd (r m))"
proof (rule that)
  show "CMP src dst z m = Ok () (m\<lparr>m_cpu := SETRESFLAGS (put_of (snd (r m)) (put_res (fst (r m))
      (put_cf (snd (u m)) (put_res (fst (u m)) ((m_cpu m)\<lparr>cpu_op1 := sval (m_cpu m),
        cpu_op2 := dval (m_cpu m), cpu_af_ops := True\<rparr>)))))\<rparr>)"
    by (simp add: CMP_def SETAF_step overflow_steps r_def u_def)
qed (simp_all add: SETRESFLAGS_def put_of_def put_res_def put_cf_def)

end

lemma signed_overflow_sub:
  assumes "op_size z"
  shows "(sint (fst (signed_overflow sub z a b)) < 0) \<noteq> snd (signed_overflow sub z a b)
      \<longleftrightarrow> sint_of z a < sint_of z b"
    and "fst (signed_overflow sub z a b) = 0 \<longleftrightarrow> sint_of z a = sint_of z b"
  using signed_difference[OF sint_of_bounds[of z a] sint_of_bounds[of z b]]
  by (simp_all only: signed_overflow_def exact_def Let_def fst_conv snd_conv arith.case
      sint_res[OF assms] res_zero[OF assms])

lemma unsigned_overflow_sub:
  "snd (unsigned_overflow sub z a b) \<longleftrightarrow> uint_of z a < uint_of z b"
  using unsigned_difference[OF uint_of_bounds[of z a] uint_of_bounds[of z b]]
  by (simp add: unsigned_overflow_def exact_def Let_def)

lemma one_bit_cases:
  "of_bool a XOR of_bool b = (of_bool (a \<noteq> b) :: byte_t)" "of_bool a OR of_bool b = (of_bool (a \<or> b) :: byte_t)"
  by (cases a; cases b; simp)+

lemma cmp_conditions:
  assumes "op_size z" and c: "cpu_zf_res c" "cpu_sf_res c" "cpu_res c = fst (signed_overflow sub z a b)"
    "cpu_cf c = of_bool (snd (unsigned_overflow sub z a b))" "cpu_of c = of_bool (snd (signed_overflow sub z a b))"
  shows "holds cond_E c \<longleftrightarrow> uint_of z a = uint_of z b"
    and "holds cond_B c \<longleftrightarrow> uint_of z a < uint_of z b"
    and "holds cond_BE c \<longleftrightarrow> uint_of z a \<le> uint_of z b"
    and "holds cond_L c \<longleftrightarrow> sint_of z a < sint_of z b"
    and "holds cond_LE c \<longleftrightarrow> sint_of z a \<le> sint_of z b"
  using signed_overflow_sub[OF assms(1), of a b] unsigned_overflow_sub[of z a b]
    sint_uint_eq_iff[OF assms(1), of a b]
  by (auto simp: holds_def Let_def ZF_def SF_def CF_def OF_val_def c one_bit_cases)


subsection \<open>Adding and subtracting\<close>

locale alu = s: source src z sval + d: place dst z dval upd for src dst z sval dval upd
begin

sublocale two_operands src dst z sval dval ..

lemma set_to_res_step:
  "set_to_res dst z m = Ok () (m\<lparr>m_cpu := upd (cpu_res (m_cpu m)) (m_cpu m)\<rparr>)"
  by (simp add: set_to_res_def d.set_upd)

text \<open>\<open>ADD\<close> and \<open>SUB\<close>: the destination gets the result, the flags are those of
the operation on the old values.\<close>

lemma ADD_result:
  defines "r \<equiv> \<lambda>m. signed_overflow add z (dval (m_cpu m)) (sval (m_cpu m))"
    and "u \<equiv> \<lambda>m. unsigned_overflow add z (dval (m_cpu m)) (sval (m_cpu m))"
  obtains c where "ADD src dst z m = Ok () (m\<lparr>m_cpu := c\<rparr>)" "dval c = take_bit z (fst (r m))"
    "cpu_zf_res c" "cpu_sf_res c" "cpu_res c = fst (r m)"
    "cpu_cf c = of_bool (snd (u m))" "cpu_of c = of_bool (snd (r m))"
proof (rule that)
  show "ADD src dst z m = Ok () (m\<lparr>m_cpu := SETRESFLAGS (upd (fst (r m)) (put_of (snd (r m)) (put_res (fst (r m))
      (put_cf (snd (u m)) (put_res (fst (u m)) ((m_cpu m)\<lparr>cpu_op1 := sval (m_cpu m),
        cpu_op2 := dval (m_cpu m), cpu_af_ops := True\<rparr>))))))\<rparr>)"
    by (simp add: ADD_def SETAF_step overflow_steps set_to_res_step r_def u_def)
      (simp add: put_of_def put_res_def)
qed (simp_all add: SETRESFLAGS_def put_of_def put_res_def put_cf_def d.upd_frame d.val_upd
    d.val_flags(4)[unfolded SETRESFLAGS_def])

lemma SUB_result:
  defines "r \<equiv> \<lambda>m. signed_overflow sub z (dval (m_cpu m)) (sval (m_cpu m))"
    and "u \<equiv> \<lambda>m. unsigned_overflow sub z (dval (m_cpu m)) (sval (m_cpu m))"
  obtains c where "SUB src dst z m = Ok () (m\<lparr>m_cpu := c\<rparr>)" "dval c = take_bit z (fst (u m))"
    "cpu_zf_res c" "cpu_sf_res c" "cpu_res c = fst (u m)"
    "cpu_cf c = of_bool (snd (u m))" "cpu_of c = of_bool (snd (r m))"
proof (rule that)
  show "SUB src dst z m = Ok () (m\<lparr>m_cpu := SETRESFLAGS (upd (fst (u m)) (put_cf (snd (u m)) (put_res (fst (u m))
      (put_of (snd (r m)) (put_res (fst (r m)) ((m_cpu m)\<lparr>cpu_op1 := sval (m_cpu m),
        cpu_op2 := dval (m_cpu m), cpu_af_ops := True\<rparr>))))))\<rparr>)"
    by (simp add: SUB_def SETAF_step overflow_steps set_to_res_step r_def u_def)
      (simp add: put_cf_def put_res_def)
qed (simp_all add: SETRESFLAGS_def put_of_def put_res_def put_cf_def d.upd_frame d.val_upd
    d.val_flags(4)[unfolded SETRESFLAGS_def])

end

subsection \<open>The registers are such operands\<close>

lemma take_bit_replace_bits: "take_bit z (replace_bits 0 z v w) = take_bit z v" if "z \<le> 32"
  using that by (intro bit_eqI) (auto simp: bit_take_bit_iff replace_bits_bit)

definition gpr_val :: "reg32 \<Rightarrow> nat \<Rightarrow> cpu_state \<Rightarrow> dword_t" where
  "gpr_val r z c = take_bit z (cpu_regs c r)"

lemma gpr_source: "op_size z \<Longrightarrow> source (Gpr r) z (gpr_val r z)"
  by unfold_locales (simp_all add: get_op_def gpr_val_def)

lemma gpr_place: "op_size z \<Longrightarrow> place (Gpr r) z (gpr_val r z) (write_part (r, 0) z)"
  by (intro place.intro gpr_source, assumption, unfold_locales)
    (auto simp: set_op_def gpr_val_def write_part_def take_bit_replace_bits)

interpretation dword_reg: place "Gpr r" 32 "gpr_val r 32" "write_part (r, 0) 32" for r
  by (rule gpr_place) simp

interpretation word_reg: place "Gpr r" 16 "gpr_val r 16" "write_part (r, 0) 16" for r
  by (rule gpr_place) simp

lemma gpr_alu: "op_size z \<Longrightarrow> alu (Gpr a) (Gpr d) z (gpr_val a z) (gpr_val d z) (write_part (d, 0) z)"
  by (intro alu.intro gpr_source gpr_place)

lemma gpr_two_operands: "op_size z \<Longrightarrow> two_operands (Gpr a) (Gpr d) z (gpr_val a z) (gpr_val d z)"
  by (intro two_operands.intro gpr_source)

interpretation dword_alu: alu "Gpr a" "Gpr d" 32 "gpr_val a 32" "gpr_val d 32" "write_part (d, 0) 32" for a d
  by (rule gpr_alu) simp

interpretation word_alu: alu "Gpr a" "Gpr d" 16 "gpr_val a 16" "gpr_val d 16" "write_part (d, 0) 16" for a d
  by (rule gpr_alu) simp

lemma gpr_val_range: "uint (gpr_val r z c) = uint_of z (cpu_regs c r)"
  "uint_of z (gpr_val r z c) = uint_of z (cpu_regs c r)"
  by (simp_all add: gpr_val_def uint_of_def unsigned_take_bit_eq)

lemma sint_of_gpr_val: "op_size z \<Longrightarrow> sint_of z (gpr_val r z c) = sint_of z (cpu_regs c r)"
  by (auto simp: gpr_val_def sint_of_def unsigned_take_bit_eq signed_take_bit_take_bit)

subsection \<open>Sums\<close>

lemma unsigned_overflow_add:
  "snd (unsigned_overflow add z a b) \<longleftrightarrow> 2 ^ z \<le> uint_of z a + uint_of z b"
  using uint_of_bounds[of z a] uint_of_bounds[of z b]
  by (auto simp: unsigned_overflow_def exact_def Let_def take_bit_int_eq_self_iff not_less)

lemma signed_overflow_add:
  "snd (signed_overflow add z a b) \<longleftrightarrow>
     \<not> (- (2 ^ (z - 1)) \<le> sint_of z a + sint_of z b \<and> sint_of z a + sint_of z b < 2 ^ (z - 1))"
  by (simp only: signed_overflow_def exact_def Let_def snd_conv arith.case signed_take_bit_int_eq_self_iff)

lemma uint_take_bit_res:
  assumes "op_size z"
  shows "uint (take_bit z (word_of_int (signed_take_bit (z - 1) r) :: dword_t)) = take_bit z r"
proof -
  have z: "z = Suc (z - 1)" using assms by auto
  have "uint (take_bit z (word_of_int (signed_take_bit (z - 1) r) :: dword_t))
      = take_bit z (take_bit 32 (signed_take_bit (z - 1) r))"
    by (simp add: unsigned_take_bit_eq unsigned_of_int)
  also have "\<dots> = take_bit z (signed_take_bit (z - 1) r)"
    using assms by (auto simp: take_bit_take_bit)
  also have "\<dots> = take_bit z r"
    using assms by (subst (1 3) z) (simp add: take_bit_signed_take_bit)
  finally show ?thesis .
qed

lemma take_bit_sint_sum:
  assumes "op_size z"
  shows "take_bit z (sint_of z a + sint_of z b) = take_bit z (uint_of z a + uint_of z b)"
proof -
  have "take_bit z (sint_of z v) = take_bit z (uint_of z v)" for v
    using assms by (auto simp: sint_of_def uint_of_def take_bit_signed_take_bit)
  then show ?thesis by (metis take_bit_add)
qed


subsection \<open>Adding with carry\<close>

context alu
begin

lemma carry_test_step:
  "carry_test ov src z edge m = Ok (ov \<or> cpu_cf (m_cpu m) \<noteq> 0 \<and> sval (m_cpu m) = edge) m"
  by (simp add: carry_test_def s.get_val)

lemma carry_steps:
  defines "t \<equiv> \<lambda>c. sval c + ucast (cpu_cf c)"
  shows "carry_to_of what src dst z m = Ok () (m\<lparr>m_cpu :=
      put_of (snd (signed_overflow what z (dval (m_cpu m)) (t (m_cpu m)))
          \<or> cpu_cf (m_cpu m) \<noteq> 0 \<and> sval (m_cpu m) = mask (z - 1))
        (put_res (fst (signed_overflow what z (dval (m_cpu m)) (t (m_cpu m)))) (m_cpu m))\<rparr>)"
    and "carry_to_cf what src dst z m = Ok () (m\<lparr>m_cpu :=
      put_cf (snd (unsigned_overflow what z (dval (m_cpu m)) (t (m_cpu m)))
          \<or> cpu_cf (m_cpu m) \<noteq> 0 \<and> sval (m_cpu m) = mask z)
        (put_res (fst (unsigned_overflow what z (dval (m_cpu m)) (t (m_cpu m)))) (m_cpu m))\<rparr>)"
proof -
  have cf: "cpu_cf (put_res r c) = cpu_cf c" for r c by (simp add: put_res_def)
  show "carry_to_of what src dst z m = Ok () (m\<lparr>m_cpu :=
      put_of (snd (signed_overflow what z (dval (m_cpu m)) (t (m_cpu m)))
          \<or> cpu_cf (m_cpu m) \<noteq> 0 \<and> sval (m_cpu m) = mask (z - 1))
        (put_res (fst (signed_overflow what z (dval (m_cpu m)) (t (m_cpu m)))) (m_cpu m))\<rparr>)"
    by (simp add: carry_to_of_def s.get_val d.get_val split_beta t_def carry_test_step cf)
  show "carry_to_cf what src dst z m = Ok () (m\<lparr>m_cpu :=
      put_cf (snd (unsigned_overflow what z (dval (m_cpu m)) (t (m_cpu m)))
          \<or> cpu_cf (m_cpu m) \<noteq> 0 \<and> sval (m_cpu m) = mask z)
        (put_res (fst (unsigned_overflow what z (dval (m_cpu m)) (t (m_cpu m)))) (m_cpu m))\<rparr>)"
    by (simp add: carry_to_cf_def s.get_val d.get_val split_beta t_def carry_test_step cf)
qed

lemma ADC_result:
  defines "t \<equiv> \<lambda>c. sval c + ucast (cpu_cf c)"
  defines "u \<equiv> \<lambda>m. unsigned_overflow add z (dval (m_cpu m)) (t (m_cpu m))"
  obtains c where "ADC src dst z m = Ok () (m\<lparr>m_cpu := c\<rparr>)" "dval c = take_bit z (fst (u m))"
    "cpu_zf_res c" "cpu_sf_res c" "cpu_res c = fst (u m)"
    "cpu_cf c = of_bool (snd (u m) \<or> cpu_cf (m_cpu m) \<noteq> 0 \<and> sval (m_cpu m) = mask z)"
    "cpu_of c = of_bool (snd (signed_overflow add z (dval (m_cpu m)) (t (m_cpu m)))
       \<or> cpu_cf (m_cpu m) \<noteq> 0 \<and> sval (m_cpu m) = mask (z - 1))"
proof (rule that)
  let ?o = "snd (signed_overflow add z (dval (m_cpu m)) (t (m_cpu m)))
       \<or> cpu_cf (m_cpu m) \<noteq> 0 \<and> sval (m_cpu m) = mask (z - 1)"
  let ?c = "snd (u m) \<or> cpu_cf (m_cpu m) \<noteq> 0 \<and> sval (m_cpu m) = mask z"
  have cf: "cpu_cf (put_of b (put_res r c)) = cpu_cf c" for b r c by (simp add: put_of_def put_res_def)
  show "ADC src dst z m = Ok () (m\<lparr>m_cpu := SETRESFLAGS (upd (fst (u m)) (put_cf ?c (put_res (fst (u m))
      (put_of ?o (put_res (fst (signed_overflow add z (dval (m_cpu m)) (t (m_cpu m))))
        ((m_cpu m)\<lparr>cpu_op1 := sval (m_cpu m), cpu_op2 := dval (m_cpu m), cpu_af_ops := True\<rparr>))))))\<rparr>)"
    by (simp add: ADC_def SETAF_step carry_steps set_to_res_step u_def t_def cf)
      (simp add: put_cf_def put_res_def)
qed (simp_all add: SETRESFLAGS_def put_of_def put_res_def put_cf_def d.upd_frame d.val_upd
    d.val_flags(4)[unfolded SETRESFLAGS_def])

end

lemma take_bit_dword [simp]: "take_bit 32 (w :: dword_t) = w"
  by (rule bit_eqI) (auto simp: bit_take_bit_iff dest: bit_imp_le_length)

lemma sint_of_32: "sint_of 32 (w :: dword_t) = sint w" "uint_of 32 (w :: dword_t) = uint w"
proof -
  have "uint w < 2 ^ 32" by (rule order_less_le_trans[OF unsigned_less]) simp
  then show "sint_of 32 w = sint w" "uint_of 32 w = uint w"
    by (simp_all add: sint_of_def uint_of_def sint_uint take_bit_int_eq_self)
qed

lemma gpr_val_32: "gpr_val r 32 c = cpu_regs c r"
  by (simp add: gpr_val_def)

lemma uint_carry:
  fixes s :: dword_t and cf :: byte_t
  assumes "cf = 0 \<or> cf = 1"
  shows "2 ^ 32 \<le> uint d + uint (s + ucast cf) \<or> cf \<noteq> 0 \<and> s = mask 32
    \<longleftrightarrow> 2 ^ 32 \<le> uint d + uint s + uint cf"
proof (cases "cf = 1 \<and> s = mask 32")
  case True
  moreover have "uint (mask 32 :: dword_t) = 2 ^ 32 - 1" by (simp add: mask_eq_exp_minus_1)
  ultimately show ?thesis using uint_ge_0[of d] by simp
next
  case False
  have "uint s + uint cf < 2 ^ 32"
  proof -
    have "uint s < 2 ^ 32" by (rule order_less_le_trans[OF unsigned_less]) simp
    moreover have "uint s \<noteq> 2 ^ 32 - 1" if "cf = 1"
    proof
      assume "uint s = 2 ^ 32 - 1"
      then have "s = mask 32" by (simp add: word_uint_eq_iff mask_eq_exp_minus_1)
      then show False using that False by simp
    qed
    ultimately show ?thesis using assms by auto
  qed
  then have "uint (s + ucast cf) = uint s + uint cf"
    using assms by (auto simp: uint_word_ariths mod_pos_pos_trivial)
  then show ?thesis using False assms by auto
qed

lemma sint_carry:
  fixes s :: dword_t and cf :: byte_t
  assumes "cf = 0 \<or> cf = 1" "\<not> (cf \<noteq> 0 \<and> s = mask 31)"
  shows "sint (s + ucast cf) = sint s + uint cf"
proof -
  have b: "sint s < 2 ^ 31" "- (2 ^ 31) \<le> sint s" using sint_lt[of s] sint_ge[of s] by simp_all
  have "sint s \<noteq> 2 ^ 31 - 1" if "cf = 1"
  proof
    assume "sint s = 2 ^ 31 - 1"
    then have "s = mask 31" by (intro signed_word_eqI) (simp add: mask_eq_exp_minus_1)
    then show False using that assms(2) by simp
  qed
  then have "sint s + uint cf < 2 ^ 31" using assms(1) b by auto
  moreover have "sint (s + ucast cf) = signed_take_bit 31 (sint s + uint cf)"
    using assms(1) by (auto simp: sint_word_ariths)
  moreover have "- (2 ^ 31) \<le> sint s + uint cf" using b uint_ge_0[of cf] by linarith
  ultimately show ?thesis by (simp add: signed_take_bit_int_eq_self)
qed


subsection \<open>What an instruction keeps\<close>

text \<open>\<open>keeps_reg r c\<close>: the code leaves a register alone when it goes on.
\<open>precise c\<close>: when it is stopped by an interrupt, that is a fault of a memory
access, the instruction pointer is back at the saved one and no general register
has changed. \<open>quiet c\<close>: it changes no general register and does not move the
saved instruction pointer.\<close>

definition keeps_reg :: "reg32 \<Rightarrow> 'a code \<Rightarrow> bool" where
  "keeps_reg r c \<longleftrightarrow> (\<forall>m x n. c m = Ok x n \<longrightarrow> cpu_regs (m_cpu n) r = cpu_regs (m_cpu m) r)"

definition quiet :: "'a code \<Rightarrow> bool" where
  "quiet c \<longleftrightarrow> (\<forall>m x n. c m = Ok x n \<longrightarrow>
     cpu_regs (m_cpu n) = cpu_regs (m_cpu m) \<and> l_saved_ip n = l_saved_ip m)"

definition precise :: "'a code \<Rightarrow> bool" where
  "precise c \<longleftrightarrow> (\<forall>m i n. c m = Interrupt i n \<longrightarrow>
     i = INT_GPF \<and> cpu_eip (m_cpu n) = l_saved_ip m \<and> cpu_regs (m_cpu n) = cpu_regs (m_cpu m))"

lemma keeps_bnd [intro]:
  assumes "keeps_reg r c" "\<And>x. keeps_reg r (f x)"
  shows "keeps_reg r (bnd c f)"
  using assms by (fastforce simp: keeps_reg_def bnd_def split: outcome.splits)

lemma quiet_bnd [intro]:
  assumes "quiet c" "\<And>x. quiet (f x)"
  shows "quiet (bnd c f)"
  using assms by (fastforce simp: quiet_def bnd_def split: outcome.splits)

lemma precise_bnd [intro]:
  assumes "precise c" "quiet c" "\<And>x. precise (f x)"
  shows "precise (bnd c f)"
  using assms unfolding precise_def quiet_def bnd_def
  by (fastforce split: outcome.splits)

lemma keeps_simple [simp]:
  "keeps_reg r (ret x)" "keeps_reg r (from_cpu g)"
  "keeps_reg r (on_cpu h) \<longleftrightarrow> (\<forall>m :: machine. cpu_regs (h (m_cpu m)) r = cpu_regs (m_cpu m) r)"
  by (auto simp: keeps_reg_def)

lemma quiet_simple [simp]:
  "quiet (ret x)" "quiet (from_cpu g)" "(\<And>c. cpu_regs (h c) = cpu_regs c) \<Longrightarrow> quiet (on_cpu h)"
  by (auto simp: quiet_def)

lemma precise_simple [simp]:
  "precise (ret x)" "precise (from_cpu g)" "precise (on_cpu h)"
  by (auto simp: precise_def)

lemma quiet_keeps: "quiet c \<Longrightarrow> keeps_reg r c"
  by (auto simp: quiet_def keeps_reg_def)

lemma memory_quiet [simp]:
  "quiet (mem_read_bytes a k)" "quiet (mem_write_bytes a bs)"
  "precise (mem_read_bytes a k)" "precise (mem_write_bytes a bs)"
  by (auto simp: quiet_def precise_def mem_read_bytes_def mem_write_bytes_def fault_def
      split: prod.splits option.splits bool.splits)

lemma mem_quiet [simp]:
  "quiet (mem_read a z)" "precise (mem_read a z)" "quiet (mem_write a v z)" "precise (mem_write a v z)"
  unfolding mem_read_def mem_write_def by (auto intro: quiet_bnd precise_bnd)

lemma get_op_quiet [simp]: "quiet (get_op x z)" "precise (get_op x z)"
proof -
  show "quiet (get_op x z)"
    unfolding quiet_def get_op_def
    by (cases x) (auto split: if_splits dest!: mem_quiet(1)[unfolded quiet_def, rule_format])
  show "precise (get_op x z)"
    unfolding precise_def get_op_def
    by (cases x) (auto split: if_splits dest!: mem_quiet(2)[unfolded precise_def, rule_format])
qed

lemma set_op_precise [simp]: "precise (set_op x v z)"
  unfolding precise_def set_op_def
  by (cases x) (auto split: if_splits dest!: mem_quiet(4)[unfolded precise_def, rule_format])

lemma write_part_other [simp]: "r \<noteq> fst p \<Longrightarrow> cpu_regs (write_part p z v c) r = cpu_regs c r"
  by (simp add: write_part_def)

lemma set_gpr_keeps: "r \<noteq> q \<Longrightarrow> keeps_reg r (set_op (Gpr q) v z)"
  by (auto simp: keeps_reg_def set_op_def)

subsection \<open>Reading an instruction\<close>

lemma reading_quiet [simp]: "quiet (READIMM_value z)" "precise (READIMM_value z)"
  unfolding READIMM_value_def by (auto intro!: quiet_bnd precise_bnd)

lemma setting_quiet [simp]:
  "quiet (set_imm v)" "precise (set_imm v)" "quiet (add_addr a)" "precise (add_addr a)"
  by (simp_all add: quiet_def precise_def set_imm_def add_addr_def)

lemma imm_quiet [simp]:
  "quiet READINSN" "precise READINSN" "quiet (READIMM z)" "precise (READIMM z)" "quiet READIMM8" "precise READIMM8"
  "quiet READADDR" "precise READADDR"
  unfolding READINSN_def READIMM_def READIMM8_def READADDR_def
  by (auto intro!: quiet_bnd precise_bnd)

lemma modrm_quiet [simp]: "quiet READMODRM" "precise READMODRM"
  by (auto simp: quiet_def precise_def READMODRM_def bnd_def modrm_compute_def Let_def
      split: outcome.splits prod.splits option.splits if_splits)

lemma precise_opcode [intro]: "(\<And>n. precise (f n)) \<Longrightarrow> precise (modrm_opcode f)"
  by (simp add: precise_def modrm_opcode_def)

lemma precise_ret_block [simp]: "precise (block [])" by simp

end
