(* ===== verification/Cpu_Props.thy ===== *)
theory Cpu_Props
  imports Interp_Facts Float80_Facts Decode Demo
begin

text \<open>
  What the instructions of the interpreter guarantee: results and flags of the
  arithmetic, conditions after a comparison, faults that leave the registers
  alone, repeat loops that end, and the x87 register stack.
\<close>

subsection \<open>Repeat loops\<close>

lemma STRING_keeps_ecx: "keeps_reg reg_ecx (STRING sop z)"
proof -
  have cmp: "keeps_reg reg_ecx (CMP a b z)" for a b
    unfolding CMP_def SETAF_def overflow_to_cf_def overflow_to_of_def block.simps
    by (intro keeps_bnd)
      (auto simp: quiet_keeps split_beta put_cf_def put_of_def put_res_def SETRESFLAGS_def intro!: keeps_bnd)
  show ?thesis
    unfolding STRING_def BUMP_SI_def BUMP_DI_def bump_def add_reg_def
    by (cases sop) (auto simp: quiet_keeps set_gpr_keeps cmp intro!: keeps_bnd)
qed

lemma rep_loop_enough:
  assumes "keeps_reg reg_ecx body" "unat (cpu_regs (m_cpu m) reg_ecx) \<le> n"
  shows "rep_loop n stop body m = rep_loop (unat (cpu_regs (m_cpu m) reg_ecx)) stop body m"
  using assms(2)
proof (induction n arbitrary: m)
  case (Suc n)
  show ?case
  proof (cases "cpu_regs (m_cpu m) reg_ecx = 0")
    case False
    then obtain k where k: "unat (cpu_regs (m_cpu m) reg_ecx) = Suc k"
      by (metis gr0_implies_Suc unat_gt_0)
    have step: "rep_loop n stop body (m1\<lparr>m_cpu := add_reg reg_ecx (- 1) (m_cpu m1)\<rparr>)
        = rep_loop k stop body (m1\<lparr>m_cpu := add_reg reg_ecx (- 1) (m_cpu m1)\<rparr>)"
      if "body m = Ok () m1" for m1
    proof -
      have "cpu_regs (m_cpu m1) reg_ecx = cpu_regs (m_cpu m) reg_ecx"
        using assms(1) that by (simp add: keeps_reg_def)
      then have "unat (cpu_regs (add_reg reg_ecx (- 1) (m_cpu m1)) reg_ecx) = k"
        using k False by (simp add: add_reg_def unat_minus_one)
      then show ?thesis
        using Suc.IH[of "m1\<lparr>m_cpu := add_reg reg_ecx (- 1) (m_cpu m1)\<rparr>"] Suc.prems k by simp
    qed
    show ?thesis
      unfolding k using False step
      by (cases "body m") (simp_all add: bnd_def)
  qed simp
qed simp

lemma rep_loop_ends:
  assumes "keeps_reg reg_ecx body" "unat (cpu_regs (m_cpu m) reg_ecx) = n"
    "rep_loop n stop body m = Ok () m'"
  shows "cpu_regs (m_cpu m') reg_ecx = 0 \<or> stop (m_cpu m')"
  using assms(2,3)
proof (induction n arbitrary: m)
  case 0
  then show ?case by (simp add: unsigned_eq_0_iff)
next
  case (Suc n)
  then have nz: "cpu_regs (m_cpu m) reg_ecx \<noteq> 0" by auto
  then obtain m1 where m1: "body m = Ok () m1" using Suc.prems(2) by (cases "body m") (auto simp: bnd_def)
  let ?m = "m1\<lparr>m_cpu := add_reg reg_ecx (- 1) (m_cpu m1)\<rparr>"
  have "cpu_regs (m_cpu m1) reg_ecx = cpu_regs (m_cpu m) reg_ecx"
    using assms(1) m1 by (simp add: keeps_reg_def)
  then have "unat (cpu_regs (m_cpu ?m) reg_ecx) = n"
    using Suc.prems(1) nz by (simp add: add_reg_def unat_minus_one)
  then show ?case
    using Suc.IH[of ?m] Suc.prems(2) nz m1 by (auto split: if_splits)
qed

subsection \<open>Precise instructions\<close>

lemma precise_last:
  assumes "precise c" "\<And>x m. \<exists>y n. f x m = Ok y n"
  shows "precise (bnd c f)"
  using assms unfolding precise_def bnd_def
  by (auto split: outcome.splits) (metis outcome.distinct(1))+

lemma overflow_quiet:
  "quiet (overflow_to_cf what a b z)" "precise (overflow_to_cf what a b z)"
  "quiet (overflow_to_of what a b z)" "precise (overflow_to_of what a b z)"
  "quiet (SETAF a b z)" "precise (SETAF a b z)"
  unfolding overflow_to_cf_def overflow_to_of_def SETAF_def
  by (auto simp: split_beta put_cf_def put_of_def put_res_def intro!: quiet_bnd precise_bnd)

lemma carry_quiet:
  "quiet (carry_to_cf what a b z)" "precise (carry_to_cf what a b z)"
  "quiet (carry_to_of what a b z)" "precise (carry_to_of what a b z)"
proof -
  have t: "quiet (carry_test ov a z e)" "precise (carry_test ov a z e)" for ov a e
    unfolding carry_test_def by (auto intro!: quiet_bnd precise_bnd)
  show "quiet (carry_to_cf what a b z)" "precise (carry_to_cf what a b z)"
    "quiet (carry_to_of what a b z)" "precise (carry_to_of what a b z)"
    unfolding carry_to_cf_def carry_to_of_def
    by (auto simp: split_beta put_cf_def put_of_def put_res_def t intro!: quiet_bnd precise_bnd)
qed

lemma precise_tail: "precise (block [set_to_res dst z, on_cpu SETRESFLAGS])"
  unfolding block.simps set_to_res_def
  by (rule precise_last) (auto intro!: precise_bnd simp: bnd_def)

lemma precise_block: "precise c \<Longrightarrow> quiet c \<Longrightarrow> precise (block cs) \<Longrightarrow> precise (block (c # cs))"
  by (simp add: precise_bnd)

lemmas precise_alu_rules = precise_tail precise_block overflow_quiet carry_quiet

lemma precise_alu:
  "precise (ADD src dst z)" "precise (SUB src dst z)" "precise (ADC src dst z)" "precise (SBB src dst z)"
  unfolding ADD_def SUB_def ADC_def SBB_def by (intro precise_alu_rules)+

lemma precise_CMP: "precise (CMP src dst z)"
  unfolding CMP_def
  by (intro precise_block overflow_quiet) (simp_all add: SETRESFLAGS_def precise_bnd)

lemma precise_moves: "precise (MOV src dst z)" "precise (PUSH oz src z)" "precise (POP oz dst z)"
proof -
  have tail: "\<exists>y n. on_cpu h m = Ok y n" for h and m :: machine by simp
  show "precise (MOV src dst z)" unfolding MOV_def by (intro precise_bnd) simp_all
  show "precise (PUSH oz src z)" unfolding PUSH_def by (intro precise_bnd) simp_all
  show "precise (POP oz dst z)"
    unfolding POP_def by (intro precise_bnd precise_last[OF _ tail]) simp_all
qed

lemma precise_logic: "precise (logic f src dst z)"
proof -
  have "precise (bnd (set_op dst v z) (\<lambda>_. bnd (on_cpu zero_cf_of_af) (\<lambda>_. bnd (get_op dst z) (\<lambda>v. on_cpu (SETRES v z)))))" for v
    unfolding precise_def
  proof (intro allI impI)
    fix m i n
    assume run: "bnd (set_op dst v z) (\<lambda>_. bnd (on_cpu zero_cf_of_af) (\<lambda>_. bnd (get_op dst z) (\<lambda>v. on_cpu (SETRES v z)))) m = Interrupt i n"
    show "i = INT_GPF \<and> cpu_eip (m_cpu n) = l_saved_ip m \<and> cpu_regs (m_cpu n) = cpu_regs (m_cpu m)"
    proof (cases "set_op dst v z m")
      case (Interrupt j m')
      then show ?thesis using run set_op_precise[of dst v z] by (auto simp: bnd_def precise_def)
    next
      case (Ok u m')
      let ?m = "m'\<lparr>m_cpu := zero_cf_of_af (m_cpu m')\<rparr>"
      have g: "get_op dst z ?m = Interrupt i n"
        using run Ok by (auto simp: bnd_def on_cpu_def split: outcome.splits)
      have r: "i = INT_GPF \<and> cpu_eip (m_cpu n) = l_saved_ip ?m \<and> cpu_regs (m_cpu n) = cpu_regs (m_cpu ?m)"
        using get_op_quiet(2)[of dst z] g by (simp add: precise_def)
      have "l_saved_ip m' = l_saved_ip m \<and> cpu_regs (m_cpu m') = cpu_regs (m_cpu m)"
        using Ok g mem_quiet(3)[unfolded quiet_def, rule_format, of "l_addr m" v z m u m'] by (auto simp: set_op_def get_op_def on_cpu_def split: operand.splits if_splits)
      then show ?thesis using r by (simp add: zero_cf_of_af_def ZEROAF_def)
    qed (use run in \<open>simp_all add: bnd_def\<close>)
  qed
  note tail = this
  show ?thesis unfolding logic_def
    by (rule precise_bnd[OF get_op_quiet(2,1)])+ (rule tail)
qed

lemma precise_TEST: "precise (TEST src dst z)"
  unfolding TEST_def by (intro precise_bnd) simp_all

lemma precise_alu_op: "precise (alu_op n src dst z)"
proof -
  have "n mod 8 = 0 \<or> n mod 8 = 1 \<or> n mod 8 = 2 \<or> n mod 8 = 3 \<or> n mod 8 = 4 \<or> n mod 8 = 5 \<or> n mod 8 = 6 \<or> n mod 8 = 7"
    by presburger
  then show ?thesis
    by (elim disjE) (simp_all add: alu_op_def precise_alu precise_CMP precise_logic OR_insn_def AND_insn_def XOR_insn_def)
qed

lemmas plain_insns = precise_alu precise_CMP precise_logic precise_TEST precise_alu_op precise_moves

lemma precise_fetch:
  "precise c \<Longrightarrow> precise (block [READMODRM, c])" "precise c \<Longrightarrow> precise (block [READMODRM, READIMM8, c])"
  "precise c \<Longrightarrow> precise (block [READMODRM, READIMM z, c])" "precise c \<Longrightarrow> precise (block [READIMM8, c])"
  "precise c \<Longrightarrow> precise (block [READIMM z, c])" "precise c \<Longrightarrow> precise (block [READADDR, c])"
  unfolding block.simps
  by (intro precise_bnd precise_last; simp)+

text \<open>The opcodes of the plain instructions: moves, stack, logic, addition and subtraction,
comparison and test, between registers, immediates and memory.\<close>

definition plain_opcode :: "nat \<Rightarrow> bool" where
  "plain_opcode n \<longleftrightarrow> n < 0x40 \<and> n mod 8 \<le> 5 \<or> 0x50 \<le> n \<and> n < 0x60 \<or>
     n \<in> {0x68, 0x6a, 0x80, 0x81, 0x83, 0x84, 0x85, 0x88, 0x89, 0x8a, 0x8b, 0x8f, 0xa8, 0xa9, 0xc6, 0xc7} \<or>
     0xa0 \<le> n \<and> n < 0xa4 \<or> 0xb0 \<le> n \<and> n < 0xc0"

lemma precise_MAKE_OP: "precise (MAKE_OP oz (alu_op k) n)"
  by (simp add: MAKE_OP_def precise_fetch precise_alu_op del: block.simps)

lemma precise_GRP1: "precise (GRP1 src dst z)"
  unfolding GRP1_def by (intro precise_opcode precise_alu_op)

lemma precise_decode: "plain_opcode n \<Longrightarrow> precise (decode_insn h oz fuel n)"
  unfolding plain_opcode_def
proof (elim disjE conjE)
  assume "n < 0x40" "n mod 8 \<le> 5"
  then show ?thesis by (auto simp: decode_insn_def precise_MAKE_OP)
next
  assume "0x50 \<le> n" "n < 0x60"
  then show ?thesis by (simp add: decode_insn_def decode_40_7f_def precise_moves)
next
  assume "n \<in> {0x68, 0x6a, 0x80, 0x81, 0x83, 0x84, 0x85, 0x88, 0x89, 0x8a, 0x8b, 0x8f, 0xa8, 0xa9, 0xc6, 0xc7}"
  then show ?thesis
    by (elim insertE emptyE)
      (simp_all add: decode_insn_def decode_40_7f_def decode_80_9f_def decode_a0_bf_def decode_c0_d3_def
        precise_fetch precise_GRP1 plain_insns del: block.simps)
next
  assume "0xa0 \<le> n" "n < 0xa4"
  then show ?thesis by (simp add: decode_insn_def decode_a0_bf_def precise_fetch precise_moves del: block.simps)
next
  assume "0xb0 \<le> n" "n < 0xc0"
  then show ?thesis by (simp add: decode_insn_def decode_a0_bf_def precise_fetch precise_moves del: block.simps)
qed

definition entered :: "machine \<Rightarrow> machine" where
  "entered m = m\<lparr>l_addr := 0, l_imm := 0, l_saved_ip := cpu_eip (m_cpu m)\<rparr>"

lemma entered_sel [simp]: "l_saved_ip (entered m) = cpu_eip (m_cpu m)" "m_cpu (entered m) = m_cpu m"
  by (simp_all add: entered_def)

lemma READINSN_next: "READINSN m = Ok b m' \<Longrightarrow> cpu_eip (m_cpu m') = cpu_eip (m_cpu m) + 1"
proof -
  have r: "mem_read a 8 m = Ok v n \<Longrightarrow> m_cpu n = m_cpu m" for a and v :: qword_t and n
    by (auto simp: mem_read_def mem_read_bytes_def fault_def bnd_def ret_def split: prod.splits option.splits outcome.splits)
  assume "READINSN m = Ok b m'"
  then show ?thesis
    by (auto simp: READINSN_def READIMM_value_def bnd_def ret_def from_cpu_def on_cpu_def dest: r split: outcome.splits)
qed

lemma restart_plain:
  assumes "READINSN m = Ok b m1" "plain_opcode (unat b)" "restart h oz fuel m = Interrupt i n"
  shows "i = INT_GPF \<and> cpu_eip (m_cpu n) = l_saved_ip m \<and> cpu_regs (m_cpu n) = cpu_regs (m_cpu m)"
proof (cases fuel)
  case (Suc f)
  have "b \<noteq> 0x2e" "b \<noteq> 0x65" "b \<noteq> 0x66" "b \<noteq> 0x67" using assms(2) by (auto simp: plain_opcode_def)
  then have "decode_insn h oz f (unat b) m1 = Interrupt i n"
    using assms(1,3) Suc by (simp add: bnd_def)
  moreover have "l_saved_ip m1 = l_saved_ip m" "cpu_regs (m_cpu m1) = cpu_regs (m_cpu m)"
    using imm_quiet(1) assms(1) by (auto simp: quiet_def)
  ultimately show ?thesis using precise_decode[OF assms(2), of h oz f] by (simp add: precise_def)
qed (use assms in simp)

subsection \<open>A fault\<close>

definition cpu_demo :: cpu_state where
  "cpu_demo = \<lparr>cpu_regs = (\<lambda>_. 0), cpu_xmm = (\<lambda>_. 0), cpu_eip = 0x8002, cpu_eflags = 0, cpu_cf = 0, cpu_of = 0,
     cpu_res = 0, cpu_op1 = 0, cpu_op2 = 0, cpu_pf_res = False, cpu_zf_res = False, cpu_sf_res = False,
     cpu_af_ops = False, cpu_fp = (\<lambda>_. f80_zero), cpu_fsw = 0, cpu_fcw = 0, cpu_gs = 0, cpu_tls_ptr = 0,
     cpu_segfault_addr = 0, cpu_trapno = 0, f80_mode = round_to_nearest\<rparr>"

definition machine_demo :: machine where
  "machine_demo = \<lparr>m_cpu = cpu_demo, m_mem = (tlb_demo, vm_boot), m_tsc = 0, l_addr = 0x5000, l_imm = 0,
     l_modrm = \<lparr>mr_reg = 0, mr_type = modrm_reg, mr_base = 0, mr_offset = 0, mr_index = 0, mr_shift = 0\<rparr>,
     l_saved_ip = 0x8000\<rparr>"

lemma demo_unmapped_read: "n \<le> 4096 \<Longrightarrow> tlb_read 0x5000 n (tlb_demo, vm_boot) = (None, tlb_demo, vm_boot)"
proof -
  assume n: "n \<le> 4096"
  have "next_mapped vm_boot 0 (PAGE 0x5000 + 1) = None" by (simp add: next_mapped_None)
  then have "faults vm_boot 0 0x5000 MEM_READ" by (simp add: faults_def grows_def)
  moreover have v: "wf_vm vm_boot" "vm_mems vm_boot 0 \<noteq> None" "host_ready vm_boot"
    using vm_boot_ok[of 0] by (auto simp: task_ok_def host_ready_def)
  ultimately have miss: "mem_ptr 0 0x5000 MEM_READ vm_boot = (None, vm_boot)"
    using mem_ptr_faults(2)[OF v] by blast
  have pg: "TLB_PAGE 0x5000 = 0x5000" by (simp add: TLB_PAGE_def)
  have "te_page (tlb_entries tlb_demo (TLB_INDEX 0x5000)) = 1"
    by (simp add: tlb_demo_def tlb_init_def tlb_flush_def)
  then show ?thesis
    using n by (simp add: tlb_read_def PGOFFSET_def tlb_read_ptr_def Let_def pg tlb_handle_miss_def miss)
qed

subsection \<open>The register stack\<close>

lemma fpu_top_set_top [simp]: "fpu_top (set_top t c) = t mod 8"
proof -
  have seven: "(7 :: word_t) = mask 3" by (simp add: mask_eq_exp_minus_1)
  have bits: "take_bit 3 (drop_bit 11 ((w AND NOT (push_bit 11 7)) OR push_bit 11 v)) = take_bit 3 v"
    for w v :: word_t
    unfolding seven
    by (rule bit_eqI)
      (auto simp: bit_take_bit_iff bit_drop_bit_eq bit_or_iff bit_and_iff bit_not_iff bit_push_bit_iff bit_mask_iff)
  have "fpu_top (set_top t c) = unat (take_bit 3 (of_nat (t mod 8) :: word_t))"
    unfolding fpu_top_def set_top_def using bits[of "cpu_fsw c" "of_nat (t mod 8)"] by simp
  also have "\<dots> = t mod 8"
    by (simp only: unsigned_take_bit_eq unsigned_of_nat) (simp add: take_bit_eq_mod)
  finally show ?thesis .
qed

lemma fpu_top_less: "fpu_top c < 8"
  using take_bit_nat_less_exp[of 3 "unat (drop_bit 11 (cpu_fsw c))"]
  by (simp add: fpu_top_def unsigned_take_bit_eq)

lemma set_top_sel [simp]: "cpu_fp (set_top t c) = cpu_fp c" "f80_mode (set_top t c) = f80_mode c"
  by (simp_all add: set_top_def)

text \<open>A push always has room: the top wraps around in three bits.\<close>

lemma fpu_push_some:
  obtains c' where "fpu_push f c = Some c'" "ST 0 c' = Some f" "f80_mode c' = f80_mode c"
    "fpu_top c' = (fpu_top c + 7) mod 8"
proof (rule that)
  let ?t = "(fpu_top c + 7) mod 8" and ?c = "set_top (fpu_top c + 7) c"
  show "fpu_push f c = Some (?c\<lparr>cpu_fp := (cpu_fp c)(?t := f)\<rparr>)"
    by (simp add: fpu_push_def set_ST_def)
  show "ST 0 (?c\<lparr>cpu_fp := (cpu_fp c)(?t := f)\<rparr>) = Some f"
    using fpu_top_set_top[of "fpu_top c + 7" c] by (simp add: ST_def fpu_top_def)
  show "fpu_top (?c\<lparr>cpu_fp := (cpu_fp c)(?t := f)\<rparr>) = ?t"
    using fpu_top_set_top[of "fpu_top c + 7" c] by (simp add: fpu_top_def)
qed simp

lemma fpu_int_memory:
  assumes "f80_mode c = round_to_nearest \<or> f80_mode c = round_chop"
  shows "Option.bind (fpu_ild64 i c) fpu_ist64 = Some i"
proof -
  obtain f where f: "f80_from_int i = Some f" "f80_to_int (f80_mode c) f = i"
    using to_int_from_int[OF assms, of i] by auto
  obtain c' where "fpu_push f c = Some c'" "ST 0 c' = Some f" "f80_mode c' = f80_mode c"
    by (rule fpu_push_some)
  then show ?thesis using f by (simp add: fpu_ild64_def fpu_ist64_def)
qed

lemma fpu_double_memory:
  assumes "f80_mode c = round_to_nearest \<or> f80_mode c = round_chop"
  shows "Option.bind (fpu_ldm64 d c) fpu_stm64 = Some d"
proof -
  obtain f where f: "f80_from_double d = Some f" "f80_to_double (f80_mode c) f = d"
    using to_double_from_double[OF assms, of d] by auto
  obtain c' where "fpu_push f c = Some c'" "ST 0 c' = Some f" "f80_mode c' = f80_mode c"
    by (rule fpu_push_some)
  then show ?thesis using f by (simp add: fpu_ldm64_def fpu_stm64_def)
qed

subsection \<open>Signed division\<close>

lemma c_div_small: "\<bar>a\<bar> < b \<Longrightarrow> c_div a b = 0"
  by (simp add: c_div_def)

lemma sint_from_uint: "sint (w :: dword_t) = (if uint w < 2 ^ 31 then uint w else uint w - 2 ^ 32)"
proof -
  have "uint w < 2 * 2 ^ 31" by (rule order_less_le_trans[OF unsigned_less]) simp
  then show ?thesis
    using signed_take_bit_cases[of 31 "uint w"] uint_ge_0[of w] by (simp add: sint_uint)
qed

lemma dividend_sign_extended:
  fixes a :: dword_t
  shows "signed_take_bit 63 (uint a + uint (if sint a < 0 then - 1 else 0 :: dword_t) * 2 ^ 32) = sint a"
proof -
  have u: "uint a < 2 ^ 32" by (rule order_less_le_trans[OF unsigned_less]) simp
  have m1: "uint (- 1 :: dword_t) = 2 ^ 32 - 1" by (simp add: unsigned_minus_1_eq_mask mask_eq_exp_minus_1)
  show ?thesis
  proof (cases "sint a < 0")
    case True
    then have "2 ^ 31 \<le> uint a" using sint_from_uint[of a] uint_ge_0[of a] by (auto split: if_splits)
    then show ?thesis
      using True u m1 signed_take_bit_cases[of 63 "uint a + (2 ^ 32 - 1) * 2 ^ 32"] sint_from_uint[of a]
      by simp
  next
    case False
    then have "uint a < 2 ^ 31" using sint_from_uint[of a] u by (auto split: if_splits)
    then have lt: "uint a < 2 ^ 63" by simp
    have "- (2 ^ 63) \<le> uint a" by (rule order_trans[OF _ uint_ge_0]) simp
    then have "signed_take_bit 63 (uint a) = uint a" using lt by (rule signed_take_bit_int_eq_self)
    then show ?thesis using False sint_from_uint[of a] \<open>uint a < 2 ^ 31\<close> by simp
  qed
qed

lemma write_part_dword: "write_part (r, 0) 32 v c = c\<lparr>cpu_regs := (cpu_regs c)(r := v)\<rparr>"
proof -
  have "replace_bits 0 32 v w = v" for w
    by (rule bit_eqI) (auto simp: replace_bits_bit dest: bit_imp_le_length)
  then show ?thesis by (simp add: write_part_def)
qed

lemma IDIV_negative_divisor:
  assumes r: "r \<noteq> reg_eax" "r \<noteq> reg_edx" and neg: "sint (cpu_regs (m_cpu m) r) < 0"
    and eax: "sint (cpu_regs (m_cpu m) reg_eax) \<noteq> - (2 ^ 31)"
    and edx: "cpu_regs (m_cpu m) reg_edx = (if sint (cpu_regs (m_cpu m) reg_eax) < 0 then - 1 else 0)"
  shows "IDIV (Gpr r) 32 m = Ok () (m\<lparr>m_cpu := (m_cpu m)\<lparr>cpu_regs :=
     (cpu_regs (m_cpu m))(reg_edx := cpu_regs (m_cpu m) reg_eax, reg_eax := 0)\<rparr>\<rparr>)"
proof -
  let ?a = "cpu_regs (m_cpu m) reg_eax" and ?v = "cpu_regs (m_cpu m) r"
  let ?D = "signed_take_bit 63 (uint ?a + uint (cpu_regs (m_cpu m) reg_edx) * 2 ^ 32)"
  have D: "?D = sint ?a" unfolding edx by (rule dividend_sign_extended)
  have v: "2 ^ 31 \<le> uint ?v" "?v \<noteq> 0"
    using neg sint_from_uint[of ?v] uint_ge_0[of ?v] by (auto split: if_splits)
  have "\<bar>sint ?a\<bar> < uint ?v"
    using sint_lt[of ?a] sint_ge[of ?a] eax v(1) by auto
  then have q: "c_div (sint ?a) (uint ?v) = 0" by (rule c_div_small)
  show ?thesis
    using r v(2) q D
    by (simp add: IDIV_def Let_def get_op_def set_op_def bnd_def write_part_dword fun_upd_twist)
qed

lemma CMP_outcome:
  assumes z: "op_size z"
  obtains c where "CMP (Gpr s) (Gpr d) z m = Ok () (m\<lparr>m_cpu := c\<rparr>)" "cpu_regs c = cpu_regs (m_cpu m)"
    "cpu_zf_res c" "cpu_sf_res c"
    "cpu_res c = fst (signed_overflow sub z (gpr_val d z (m_cpu m)) (gpr_val s z (m_cpu m)))"
    "cpu_cf c = of_bool (snd (unsigned_overflow sub z (gpr_val d z (m_cpu m)) (gpr_val s z (m_cpu m))))"
    "cpu_of c = of_bool (snd (signed_overflow sub z (gpr_val d z (m_cpu m)) (gpr_val s z (m_cpu m))))"
  by (rule two_operands.CMP_result[OF gpr_two_operands[OF z], of s d m])

lemma ADD_outcome:
  assumes z: "op_size z"
  obtains c where "ADD (Gpr s) (Gpr d) z m = Ok () (m\<lparr>m_cpu := c\<rparr>)"
    "gpr_val d z c = take_bit z (fst (signed_overflow add z (gpr_val d z (m_cpu m)) (gpr_val s z (m_cpu m))))"
    "cpu_zf_res c" "cpu_sf_res c"
    "cpu_res c = fst (signed_overflow add z (gpr_val d z (m_cpu m)) (gpr_val s z (m_cpu m)))"
    "cpu_cf c = of_bool (snd (unsigned_overflow add z (gpr_val d z (m_cpu m)) (gpr_val s z (m_cpu m))))"
    "cpu_of c = of_bool (snd (signed_overflow add z (gpr_val d z (m_cpu m)) (gpr_val s z (m_cpu m))))"
  by (rule alu.ADD_result[OF gpr_alu[OF z], of s d m])

lemma ADC_outcome:
  obtains c where "ADC (Gpr s) (Gpr d) 32 m = Ok () (m\<lparr>m_cpu := c\<rparr>)"
    "cpu_regs c d = fst (unsigned_overflow add 32 (cpu_regs (m_cpu m) d) (cpu_regs (m_cpu m) s + ucast (cpu_cf (m_cpu m))))"
    "cpu_cf c = of_bool (snd (unsigned_overflow add 32 (cpu_regs (m_cpu m) d) (cpu_regs (m_cpu m) s + ucast (cpu_cf (m_cpu m))))
       \<or> cpu_cf (m_cpu m) \<noteq> 0 \<and> cpu_regs (m_cpu m) s = mask 32)"
    "cpu_of c = of_bool (snd (signed_overflow add 32 (cpu_regs (m_cpu m) d) (cpu_regs (m_cpu m) s + ucast (cpu_cf (m_cpu m))))
       \<or> cpu_cf (m_cpu m) \<noteq> 0 \<and> cpu_regs (m_cpu m) s = mask 31)"
  by (rule dword_alu.ADC_result[of s d m]) (simp add: gpr_val_32)

text \<open>\<open>cbw\<close> and \<open>cwde\<close> do nothing: the lower half of the register is assigned
to itself and never sign extended.\<close>

lemma CVTE_does_nothing:
  assumes "oz = 16 \<or> oz = 32"
  shows "CVTE oz m = Ok () m"
proof -
  have "replace_bits 0 (oz div 2) (take_bit oz w) w = w" for w
    using assms by (intro bit_eqI) (auto simp: replace_bits_bit bit_take_bit_iff split: if_splits)
  then show ?thesis by (simp add: CVTE_def bnd_def write_part_def read_part_def)
qed

subsection \<open>Properties\<close>

text \<open>C35. After \<open>cmp\<close> of two registers of any operand size, the conditions of the
jumps read the flags as the comparison of the two values, unsigned and signed,
and no register has changed.\<close>
theorem CMP_conditions:
  assumes "op_size z"
  shows "\<exists>c. CMP (Gpr s) (Gpr d) z m = Ok () (m\<lparr>m_cpu := c\<rparr>) \<and> cpu_regs c = cpu_regs (m_cpu m)
     \<and> (holds cond_E c \<longleftrightarrow> uint_of z (cpu_regs c d) = uint_of z (cpu_regs c s))
     \<and> (holds cond_B c \<longleftrightarrow> uint_of z (cpu_regs c d) < uint_of z (cpu_regs c s))
     \<and> (holds cond_BE c \<longleftrightarrow> uint_of z (cpu_regs c d) \<le> uint_of z (cpu_regs c s))
     \<and> (holds cond_L c \<longleftrightarrow> sint_of z (cpu_regs c d) < sint_of z (cpu_regs c s))
     \<and> (holds cond_LE c \<longleftrightarrow> sint_of z (cpu_regs c d) \<le> sint_of z (cpu_regs c s))"
proof -
  obtain c where c: "CMP (Gpr s) (Gpr d) z m = Ok () (m\<lparr>m_cpu := c\<rparr>)" "cpu_regs c = cpu_regs (m_cpu m)"
    and f: "cpu_zf_res c" "cpu_sf_res c"
    "cpu_res c = fst (signed_overflow sub z (gpr_val d z (m_cpu m)) (gpr_val s z (m_cpu m)))"
    "cpu_cf c = of_bool (snd (unsigned_overflow sub z (gpr_val d z (m_cpu m)) (gpr_val s z (m_cpu m))))"
    "cpu_of c = of_bool (snd (signed_overflow sub z (gpr_val d z (m_cpu m)) (gpr_val s z (m_cpu m))))"
    by (rule CMP_outcome[OF assms, of s d m])
  show ?thesis
    using c cmp_conditions[OF assms f]
    by (intro exI[of _ c]) (simp add: gpr_val_range sint_of_gpr_val[OF assms])
qed

theorem CMP_conditions_witness:
  "\<exists>c. CMP (Gpr reg_ecx) (Gpr reg_eax) 32 machine_demo = Ok () (machine_demo\<lparr>m_cpu := c\<rparr>) \<and> holds cond_E c"
  using CMP_conditions[of 32 reg_ecx reg_eax machine_demo] by (auto simp: machine_demo_def cpu_demo_def)

text \<open>\<open>add\<close> of two registers of any operand size leaves the sum modulo the
size in the destination; the zero flag tells that it is 0, the carry flag that
the unsigned sum does not fit, the overflow flag that the signed sum does not.\<close>
lemma ADD_sums:
  assumes "op_size z"
  shows "\<exists>c. ADD (Gpr s) (Gpr d) z m = Ok () (m\<lparr>m_cpu := c\<rparr>)
     \<and> (let a = cpu_regs (m_cpu m) d; b = cpu_regs (m_cpu m) s; r = uint_of z (cpu_regs c d)
        in r = (uint_of z a + uint_of z b) mod 2 ^ z \<and> (ZF c \<longleftrightarrow> r = 0)
           \<and> (CF c \<noteq> 0 \<longleftrightarrow> 2 ^ z \<le> uint_of z a + uint_of z b)
           \<and> (OF_val c \<noteq> 0 \<longleftrightarrow>
              \<not> (- (2 ^ (z - 1)) \<le> sint_of z a + sint_of z b \<and> sint_of z a + sint_of z b < 2 ^ (z - 1))))"
proof -
  let ?a = "gpr_val d z (m_cpu m)" and ?b = "gpr_val s z (m_cpu m)"
  obtain c where c: "ADD (Gpr s) (Gpr d) z m = Ok () (m\<lparr>m_cpu := c\<rparr>)"
    "gpr_val d z c = take_bit z (fst (signed_overflow add z ?a ?b))" "cpu_zf_res c" "cpu_sf_res c"
    "cpu_res c = fst (signed_overflow add z ?a ?b)"
    "cpu_cf c = of_bool (snd (unsigned_overflow add z ?a ?b))"
    "cpu_of c = of_bool (snd (signed_overflow add z ?a ?b))"
    by (rule ADD_outcome[OF assms, of s d m])
  have res: "fst (signed_overflow add z ?a ?b)
      = word_of_int (signed_take_bit (z - 1) (sint_of z ?a + sint_of z ?b))"
    by (simp add: signed_overflow_def exact_def Let_def)
  have sum: "uint_of z (cpu_regs c d) = take_bit z (uint_of z ?a + uint_of z ?b)"
    using c(2) unfolding res
    by (metis gpr_val_range(1) uint_take_bit_res[OF assms] take_bit_sint_sum[OF assms])
  have "ZF c \<longleftrightarrow> uint_of z (cpu_regs c d) = 0"
  proof -
    have "ZF c \<longleftrightarrow> signed_take_bit (z - 1) (sint_of z ?a + sint_of z ?b) = signed_take_bit (z - 1) 0"
      using c(3,5) res_zero[OF assms] by (simp add: ZF_def res)
    also have "\<dots> \<longleftrightarrow> take_bit z (sint_of z ?a + sint_of z ?b) = take_bit z 0"
      using assms by (subst signed_take_bit_eq_iff_take_bit_eq) auto
    finally show ?thesis using sum take_bit_sint_sum[OF assms] by simp
  qed
  then show ?thesis
    using c sum unsigned_overflow_add[of z ?a ?b] signed_overflow_add[of z ?a ?b]
    by (intro exI[of _ c])
      (simp add: Let_def CF_def OF_val_def gpr_val_range sint_of_gpr_val[OF assms] take_bit_eq_mod)
qed

lemma ADD_sums_witness:
  "\<exists>c. ADD (Gpr reg_ecx) (Gpr reg_eax) 16 machine_demo = Ok () (machine_demo\<lparr>m_cpu := c\<rparr>) \<and> CF c = 0"
  using ADD_sums[of 16 reg_ecx reg_eax machine_demo]
  by (auto simp: machine_demo_def cpu_demo_def Let_def uint_of_def)

text \<open>\<open>adc\<close> of two 32-bit registers adds the carry flag too and sets it to
the carry of the exact sum. The overflow flag is that of the signed sum, except
that it is also set whenever the carry flag is set and the source is the largest
signed number, although the sum with a negative destination fits.\<close>
lemma ADC_sums:
  assumes "cpu_cf (m_cpu m) = 0 \<or> cpu_cf (m_cpu m) = 1"
  shows "\<exists>c. ADC (Gpr s) (Gpr d) 32 m = Ok () (m\<lparr>m_cpu := c\<rparr>)
     \<and> (let a = cpu_regs (m_cpu m) d; b = cpu_regs (m_cpu m) s; cf = cpu_cf (m_cpu m)
        in cpu_regs c d = a + b + ucast cf
           \<and> (CF c \<noteq> 0 \<longleftrightarrow> 2 ^ 32 \<le> uint a + uint b + uint cf)
           \<and> (OF_val c \<noteq> 0 \<longleftrightarrow>
              \<not> (- (2 ^ 31) \<le> sint a + sint b + uint cf \<and> sint a + sint b + uint cf < 2 ^ 31)
              \<or> cf = 1 \<and> b = 0x7fffffff))"
proof -
  let ?a = "cpu_regs (m_cpu m) d" and ?b = "cpu_regs (m_cpu m) s" and ?cf = "cpu_cf (m_cpu m)"
  obtain c where c: "ADC (Gpr s) (Gpr d) 32 m = Ok () (m\<lparr>m_cpu := c\<rparr>)"
    and reg: "cpu_regs c d = fst (unsigned_overflow add 32 ?a (?b + ucast ?cf))"
    and cf: "cpu_cf c = of_bool (snd (unsigned_overflow add 32 ?a (?b + ucast ?cf)) \<or> ?cf \<noteq> 0 \<and> ?b = mask 32)"
    and ovf: "cpu_of c = of_bool (snd (signed_overflow add 32 ?a (?b + ucast ?cf)) \<or> ?cf \<noteq> 0 \<and> ?b = mask 31)"
    by (rule ADC_outcome)
  have low: "(word_of_int (signed_take_bit 31 r) :: dword_t) = word_of_int r" for r
    using uint_take_bit_res[of 32 r] by (simp add: word_uint_eq_iff unsigned_of_int)
  have "cpu_regs c d = ?a + ?b + ucast ?cf"
    unfolding reg using of_int_add[of "uint ?a" "uint (?b + ucast ?cf)"]
    by (simp add: unsigned_overflow_def exact_def Let_def sint_of_32 low add.assoc)
  moreover have "CF c \<noteq> 0 \<longleftrightarrow> 2 ^ 32 \<le> uint ?a + uint ?b + uint ?cf"
    using uint_carry[OF assms, of ?a ?b] cf unsigned_overflow_add[of 32 ?a "?b + ucast ?cf"]
    by (simp add: CF_def sint_of_32)
  moreover have "OF_val c \<noteq> 0 \<longleftrightarrow>
      \<not> (- (2 ^ 31) \<le> sint ?a + sint ?b + uint ?cf \<and> sint ?a + sint ?b + uint ?cf < 2 ^ 31)
      \<or> ?cf = 1 \<and> ?b = 0x7fffffff"
  proof -
    have m31: "(mask 31 :: dword_t) = 0x7fffffff" by (simp add: mask_eq_exp_minus_1)
    show ?thesis
    proof (cases "?cf = 1 \<and> ?b = 0x7fffffff")
      case True
      then show ?thesis using ovf by (simp add: OF_val_def m31)
    next
      case False
      then have no: "\<not> (?cf \<noteq> 0 \<and> ?b = mask 31)" using assms m31 by auto
      then have "sint (?b + ucast ?cf) = sint ?b + uint ?cf" by (rule sint_carry[OF assms])
      moreover have "OF_val c \<noteq> 0 \<longleftrightarrow> snd (signed_overflow add 32 ?a (?b + ucast ?cf))"
        unfolding OF_val_def ovf using no by (simp del: One_nat_def)
      ultimately show ?thesis
        using False signed_overflow_add[of 32 ?a "?b + ucast ?cf"] by (simp add: sint_of_32 add.assoc) blast
    qed
  qed
  ultimately show ?thesis using c by (intro exI[of _ c]) (simp add: Let_def)
qed

lemma ADC_sums_witness:
  "\<exists>c. ADC (Gpr reg_ecx) (Gpr reg_eax) 32 machine_demo = Ok () (machine_demo\<lparr>m_cpu := c\<rparr>) \<and> cpu_regs c reg_eax = 0"
  using ADC_sums[of machine_demo reg_ecx reg_eax] by (auto simp: machine_demo_def cpu_demo_def Let_def)

text \<open>\<open>idiv\<close> divides by the unsigned value of its operand: with a negative
32-bit divisor, a sign extended dividend other than the least one gives the
quotient 0 and itself as the remainder.\<close>
lemma IDIV_by_negative:
  assumes "r \<noteq> reg_eax" "r \<noteq> reg_edx" "sint (cpu_regs (m_cpu m) r) < 0"
    "sint (cpu_regs (m_cpu m) reg_eax) \<noteq> - (2 ^ 31)"
    "cpu_regs (m_cpu m) reg_edx = (if sint (cpu_regs (m_cpu m) reg_eax) < 0 then - 1 else 0)"
  shows "IDIV (Gpr r) 32 m = Ok () (m\<lparr>m_cpu := (m_cpu m)\<lparr>cpu_regs :=
     (cpu_regs (m_cpu m))(reg_edx := cpu_regs (m_cpu m) reg_eax, reg_eax := 0)\<rparr>\<rparr>)"
  by (rule IDIV_negative_divisor[OF assms])

lemma IDIV_by_negative_witness:
  "\<exists>c. IDIV (Gpr reg_ecx) 32
      (machine_demo\<lparr>m_cpu := cpu_demo\<lparr>cpu_regs := (cpu_regs cpu_demo)(reg_eax := 6, reg_ecx := - 2)\<rparr>\<rparr>)
    = Ok () (machine_demo\<lparr>m_cpu := c\<rparr>) \<and> cpu_regs c reg_eax = 0 \<and> cpu_regs c reg_edx = 6"
  using IDIV_by_negative[of reg_ecx "machine_demo\<lparr>m_cpu := cpu_demo\<lparr>cpu_regs :=
      (cpu_regs cpu_demo)(reg_eax := 6, reg_ecx := - 2)\<rparr>\<rparr>"]
  by (intro exI[of _ "cpu_demo\<lparr>cpu_regs := (cpu_regs cpu_demo)(reg_eax := 0, reg_ecx := - 2, reg_edx := 6)\<rparr>"])
    (simp add: cpu_demo_def fun_upd_twist)

text \<open>C36. The repeated string operations end: the bound given by \<open>ecx\<close> is enough,
as any larger one gives the same outcome, and a loop that goes on to the next
instruction has counted \<open>ecx\<close> down to 0 or met its stop condition.\<close>
theorem repeat_ends:
  "(unat (cpu_regs (m_cpu m) reg_ecx) \<le> n \<longrightarrow> rep_loop n stop (STRING sop z) m = repeat stop sop z m)
   \<and> (repeat stop sop z m = Ok () m' \<longrightarrow> cpu_regs (m_cpu m') reg_ecx = 0 \<or> stop (m_cpu m'))"
  using rep_loop_enough[OF STRING_keeps_ecx, of m n stop sop z]
    rep_loop_ends[OF STRING_keeps_ecx refl, of m stop sop z m']
  by (simp add: repeat_def)

theorem repeat_ends_witness:
  "rep_loop 7 ZF (STRING scas 8) machine_demo = REPNZ scas 8 machine_demo
   \<and> cpu_regs (m_cpu machine_demo) reg_ecx = 0"
  using repeat_ends[where m = machine_demo and n = 7 and stop = ZF and sop = scas and z = 8] by (simp add: REPNZ_def machine_demo_def cpu_demo_def)

text \<open>A program at the end of the second page of \<open>vm_demo\<close>, where a zero byte starts an
addition whose second byte is not there.\<close>

definition machine_edge :: machine where
  "machine_edge = machine_demo\<lparr>m_cpu := cpu_demo\<lparr>cpu_eip := 0x11fff\<rparr>, m_mem := (tlb_demo, vm_demo)\<rparr>"

lemma edge_first: "\<exists>t. tlb_read 0x11fff 1 (tlb_demo, vm_demo) = (Some [0], t, vm_demo) \<and> tlb_ok t vm_demo \<and> tlb_mem t = 0"
proof -
  have pg: "TLB_PAGE 0x11fff = 0x11000" "PAGE 0x11000 = 0x11" "PAGE 0x11fff = 0x11" "PGOFFSET 0x11fff = 0xfff"
    by (simp_all add: TLB_PAGE_def PAGE_def PGOFFSET_def)
  have v: "wf_vm vm_demo" "vm_mems vm_demo 0 \<noteq> None" "host_ready vm_demo"
    using vm_demo_ok[of 0] by (auto simp: task_ok_def host_ready_def)
  have "vm_pt vm_demo 0 (PAGE 0x11000) \<noteq> None" by (simp add: pg vm_demo_facts)
  then have "\<exists>p. mem_ptr 0 0x11000 MEM_READ vm_demo = (Some p, vm_demo)"
  proof (cases rule: mem_ptr_cases[OF v, of "0x11000" MEM_READ])
    case (2 e)
    then show ?thesis using addr_ptr_None[OF v(1), of 0 "0x11000"] by (cases "addr_ptr vm_demo 0 0x11000") simp_all
  qed simp_all
  moreover have "te_page (tlb_entries tlb_demo (TLB_INDEX 0x11fff)) = 1"
    by (simp add: tlb_demo_def tlb_init_def tlb_flush_def)
  ultimately have "\<exists>p t. tlb_read_ptr 0x11fff (tlb_demo, vm_demo) = (Some p, t, vm_demo)"
    by (auto simp: tlb_read_ptr_def Let_def tlb_handle_miss_def pg simp del: split_paired_Ex)
  then obtain p t where "tlb_read_ptr 0x11fff (tlb_demo, vm_demo) = (Some p, t, vm_demo)" by blast
  then obtain bs where r: "tlb_read 0x11fff 1 (tlb_demo, vm_demo) = (Some bs, t, vm_demo)"
    by (simp add: tlb_read_def pg)
  then have "tlb_ok t vm_demo \<and> tlb_mem t = 0 \<and> map Some bs = guest_bytes vm_demo 0 0x11fff 1"
    using tlb_read_single[OF tlb_demo_ok _ _ _ r] by (simp add: pg)
  moreover from this have "bs = [0]" using vm_demo_facts(4)[of "0x11fff"] by (auto simp: guest_bytes_def pg)
  ultimately show ?thesis using r by blast
qed

lemma edge_second:
  assumes "tlb_ok t vm_demo" "tlb_mem t = 0"
  shows "tlb_read 0x12000 1 (t, vm_demo) = (None, t, vm_demo)"
proof -
  have pg: "TLB_PAGE 0x12000 = 0x12000" "PAGE 0x12000 = 0x12" "PGOFFSET 0x12000 = 0"
    by (simp_all add: TLB_PAGE_def PAGE_def PGOFFSET_def)
  have v: "wf_vm vm_demo" "vm_mems vm_demo 0 \<noteq> None" "host_ready vm_demo"
    using vm_demo_ok[of 0] by (auto simp: task_ok_def host_ready_def)
  have none: "vm_pt vm_demo 0 (PAGE 0x12000) = None" by (simp add: pg vm_demo_facts)
  have "next_mapped vm_demo 0 0x13 = None"
    by (auto simp: next_mapped_None vm_demo_facts)
  then have "faults vm_demo 0 0x12000 MEM_READ" using none by (simp add: faults_def grows_def pg)
  then have miss: "mem_ptr 0 0x12000 MEM_READ vm_demo = (None, vm_demo)" using mem_ptr_faults(2)[OF v] by blast
  have "te_page (tlb_entries t (TLB_INDEX 0x12000)) \<noteq> TLB_PAGE 0x12000"
    using entry_address_hit[OF tlb_ok_entry[OF assms(1)], of "0x12000" "0x12000"] assms(2) none addr_ptr_None[OF v(1), of 0 "0x12000"]
    by auto
  then show ?thesis
    by (simp add: tlb_read_def tlb_read_ptr_def Let_def tlb_handle_miss_def pg assms(2) miss)
qed

text \<open>C34. A fault is precise for the plain instructions, that is moves, stack operations, logic,
sums, differences, comparison and test: when such an instruction is stopped by an interrupt,
that is a page fault, and the instruction pointer is back at its first byte and no general
register has changed, so that it can be done again. Behind the prefix for the other operand
size it is not: the instruction pointer is behind the prefix, and the instruction would be
done again with the wrong size.\<close>
theorem faults_are_precise:
  assumes "plain_opcode (unat b)" "cpu_step h oz fuel m = Interrupt i n"
  shows "(READINSN (entered m) = Ok b m1 \<longrightarrow>
      i = INT_GPF \<and> cpu_eip (m_cpu n) = cpu_eip (m_cpu m) \<and> cpu_regs (m_cpu n) = cpu_regs (m_cpu m)) \<and>
    (READINSN (entered m) = Ok 0x66 m1 \<and> READINSN (entered m1) = Ok b m2 \<longrightarrow>
      i = INT_GPF \<and> cpu_eip (m_cpu n) = cpu_eip (m_cpu m) + 1 \<and> cpu_regs (m_cpu n) = cpu_regs (m_cpu m))"
proof -
  have run: "restart h oz fuel (entered m) = Interrupt i n"
    using assms(2) by (simp add: cpu_step_def bnd_def DECLARE_LOCALS_def entered_def)
  have "i = INT_GPF \<and> cpu_eip (m_cpu n) = cpu_eip (m_cpu m) + 1 \<and> cpu_regs (m_cpu n) = cpu_regs (m_cpu m)"
    if r: "READINSN (entered m) = Ok 0x66 m1" "READINSN (entered m1) = Ok b m2"
  proof -
    obtain f where "restart h (48 - oz) f (entered m1) = Interrupt i n"
      using run r(1) by (cases fuel) (auto simp: bnd_def DECLARE_LOCALS_def entered_def)
    note p = restart_plain[OF r(2) assms(1) this]
    have "cpu_regs (m_cpu m1) = cpu_regs (m_cpu m)"
      using imm_quiet(1) r(1) by (auto simp: quiet_def)
    then show ?thesis using p READINSN_next[OF r(1)] by simp
  qed
  then show ?thesis using restart_plain[OF _ assms(1) run, of m1] by auto
qed

theorem faults_are_precise_witness:
  "\<forall>h. \<exists>n. cpu_step h 32 1 machine_edge = Interrupt 13 n \<and> cpu_eip (m_cpu n) = 0x11fff"
proof
  fix h
  obtain t where t: "tlb_read 0x11fff 1 (tlb_demo, vm_demo) = (Some [0], t, vm_demo)" "tlb_ok t vm_demo" "tlb_mem t = 0"
    using edge_first by blast
  note second = edge_second[OF t(2,3)]
  obtain m1 where m1: "READINSN (entered machine_edge) = Ok 0 m1" "m_mem m1 = (t, vm_demo)" "cpu_eip (m_cpu m1) = 0x12000"
    using t(1) by (simp add: READINSN_def READIMM_value_def bnd_def from_cpu_def on_cpu_def ret_def mem_read_def mem_read_bytes_def
        machine_edge_def machine_demo_def cpu_demo_def entered_def)
  have "modrm_decode32 (0x12000, t, vm_demo) = (None, 0x12000, t, vm_demo)"
    by (simp add: modrm_decode32_def READ_def second[unfolded One_nat_def])
  then obtain i n where "READMODRM m1 = Interrupt i n"
    using m1 by (simp add: READMODRM_def bnd_def modrm_compute_def Let_def)
  then have "decode_insn h 32 0 0 m1 = Interrupt i n"
    by (simp add: decode_insn_def MAKE_OP_def bnd_def)
  then have s: "cpu_step h 32 1 machine_edge = Interrupt i n"
    using m1(1) by (simp add: cpu_step_def bnd_def DECLARE_LOCALS_def entered_def)
  have "plain_opcode (unat (0 :: byte_t))" by (simp add: plain_opcode_def)
  from faults_are_precise[OF this s] have "i = 13 \<and> cpu_eip (m_cpu n) = 0x11fff"
    using m1(1) by (simp add: machine_edge_def)
  then show "\<exists>n. cpu_step h 32 1 machine_edge = Interrupt 13 n \<and> cpu_eip (m_cpu n) = 0x11fff" using s by blast
qed

text \<open>Between \<open>pushf\<close> and \<open>popf\<close> nothing of the flags is lost: writing the
lazily computed flags into \<open>eflags\<close> and reading them back gives the same flags,
when the carry and the overflow are truth values.\<close>
lemma flags_roundtrip:
  assumes "cpu_cf cpu \<le> 1" "cpu_of cpu \<le> 1"
  defines "cpu' \<equiv> expand_flags (collapse_flags cpu)"
  shows "CF cpu' = CF cpu \<and> OF_val cpu' = OF_val cpu \<and> ZF cpu' = ZF cpu \<and> SF cpu' = SF cpu
    \<and> PF cpu' = PF cpu \<and> AF cpu' = AF cpu"
  unfolding cpu'_def using expand_collapse_flags[OF assms(1,2)] by simp

lemma flags_roundtrip_witness:
  "CF (expand_flags (collapse_flags (cpu_demo\<lparr>cpu_cf := 1\<rparr>))) = 1"
  using flags_roundtrip[of "cpu_demo\<lparr>cpu_cf := 1\<rparr>"] by (simp add: CF_def cpu_demo_def)

text \<open>Loading a 64-bit integer or a double from memory onto the x87 stack and
storing it back gives the same bits, in the modes to nearest and chop.\<close>
lemma fpu_memory_roundtrip:
  assumes "f80_mode c = round_to_nearest \<or> f80_mode c = round_chop"
  shows "Option.bind (fpu_ild64 i c) fpu_ist64 = Some i \<and> Option.bind (fpu_ldm64 d c) fpu_stm64 = Some d"
  using fpu_int_memory[OF assms] fpu_double_memory[OF assms] by blast

lemma fpu_memory_roundtrip_witness:
  "Option.bind (fpu_ild64 5 cpu_demo) fpu_ist64 = Some 5"
  using fpu_memory_roundtrip[of cpu_demo 5 0] by (simp add: cpu_demo_def)

end
