(* ===== verification/Process_Props.thy ===== *)
theory Process_Props
  imports Kern_Demo Isolation Run Cpu_Props
begin

text \<open>
  Properties of tasks, signals and system calls, and the confinement of a guest
  to its own address space.
\<close>

subsection \<open>Confinement\<close>

text \<open>C1. No program reaches out of its address space: from a coherent TLB, after any
number of instructions, faulting ones included, the TLB is coherent and in front of
the same address space, no byte of any other address space has changed, and no mapped
byte of its own has been unmapped.\<close>
theorem guest_confined:
  assumes "reaches h fuel m m'" "tlb_ok (fst (m_mem m)) (snd (m_mem m))"
  shows "tlb_ok (fst (m_mem m')) (snd (m_mem m')) \<and> tlb_mem (fst (m_mem m')) = tlb_mem (fst (m_mem m)) \<and>
    (\<forall>s a. s \<noteq> tlb_mem (fst (m_mem m)) \<longrightarrow> guest (snd (m_mem m')) s a = guest (snd (m_mem m)) s a) \<and>
    (\<forall>a. guest (snd (m_mem m)) (tlb_mem (fst (m_mem m))) a \<noteq> None \<longrightarrow>
       guest (snd (m_mem m')) (tlb_mem (fst (m_mem m))) a \<noteq> None)"
  using reaches_secure[OF assms(1)] assms(2) by (simp add: secure_def)

theorem guest_confined_witness:
  "\<forall>h. \<exists>m'. reaches h 1 (machine_demo\<lparr>m_cpu := cpu_demo\<lparr>cpu_eip := 0x5000\<rparr>\<rparr>) m' \<and> cpu_segfault_addr (m_cpu m') = 0x5000 \<and>
     tlb_ok (fst (m_mem m')) (snd (m_mem m'))"
proof
  fix h
  let ?m = "machine_demo\<lparr>m_cpu := cpu_demo\<lparr>cpu_eip := 0x5000\<rparr>\<rparr>"
  let ?n = "?m\<lparr>m_cpu := cpu_demo\<lparr>cpu_eip := 0x5000, cpu_segfault_addr := 0x5000\<rparr>, l_addr := 0, l_imm := 0, l_saved_ip := 0x5000\<rparr>"
  have "after_step (cpu_step h 32 (Suc 0) ?m) = Some ?n"
    by (simp add: cpu_step_def DECLARE_LOCALS_def READINSN_def READIMM_value_def from_cpu_def bnd_def mem_read_def
        mem_read_bytes_def machine_demo_def cpu_demo_def demo_unmapped_read fault_def after_step_def)
  then have r: "reaches h (Suc 0) ?m ?n" by (rule reaches.step[OF reaches.here])
  have "tlb_ok tlb_demo vm_boot"
    unfolding tlb_demo_def by (rule tlb_ok_flush) (rule vm_boot_ok, simp)
  then have "tlb_ok (fst (m_mem ?n)) (snd (m_mem ?n))"
    using guest_confined[OF r] by (simp add: machine_demo_def)
  then show "\<exists>m'. reaches h 1 ?m m' \<and> cpu_segfault_addr (m_cpu m') = 0x5000 \<and>
     tlb_ok (fst (m_mem m')) (snd (m_mem m'))" using r by (intro exI[of _ ?n]) simp
qed

subsection \<open>Credentials\<close>

text \<open>\<open>setgroups\<close> is not among the calls that test for privileges: every task gets the groups
that it asks for.\<close>

lemma setgroups_unchecked:
  assumes "user_read_task m list 4 v = (0, [0, 0, 0, 0], w)"
  shows "\<exists>d. sys_setgroups m 1 list c v = (0, d, w) \<and> cr_ngroups d = 1 \<and> hd (cr_groups d) = 0"
proof -
  have "hd (dwords_of_bytes 32 bs) = word_of_bytes (take 4 bs)" for bs
    using dwords_of_bytes.simps(2)[of 31 bs] by (simp only: Suc_numeral) simp
  moreover have "word_of_bytes [0, 0, 0, 0] = (0 :: dword_t)" by simp
  moreover have "user_read_task m list (4 * unat (1 :: dword_t)) v = (0, [0, 0, 0, 0], w)" using assms by (simp only: unat_1 mult_1_right)
  ultimately show ?thesis by (simp add: sys_setgroups_def Let_def del: user_read_task.simps dwords_of_bytes.simps)
qed

text \<open>C8. A task without privileges gains none in its user and group ids: whatever sequence of
\<open>setuid\<close>, \<open>setresuid\<close>, \<open>setgid\<close>, \<open>setresgid\<close> and \<open>setgroups\<close> it calls, its real, effective and
saved user ids stay among the three it held, the same holds for its group ids, and it is never the
superuser. Its supplementary groups are not confined (lemma \<open>setgroups_unchecked\<close>).\<close>
theorem credentials_confined:
  assumes "cred_step\<^sup>*\<^sup>* c d" "0 \<notin> ids_of (uids c)"
  shows "ids_of (uids d) \<subseteq> ids_of (uids c) \<and> ids_of (gids d) \<subseteq> ids_of (gids c) \<and> \<not> superuser d"
  using cred_steps_within[OF assms] within_not_superuser[OF _ assms(2)] by (simp add: within_def)

theorem credentials_confined_witness:
  "cr_uid (snd (sys_setuid 0 (zero_creds\<lparr>cr_uid := 5, cr_euid := 6, cr_suid := 7\<rparr>))) \<in> {5, 6, 7}"
proof -
  let ?c = "zero_creds\<lparr>cr_uid := 5, cr_euid := 6, cr_suid := 7\<rparr>"
  have "cred_step\<^sup>*\<^sup>* ?c (snd (sys_setuid 0 ?c))" by (rule r_into_rtranclp) (rule cred_step.setuid)
  from credentials_confined[OF this] show ?thesis by (simp add: ids_of_def uids_def)
qed

subsection \<open>The table of processes\<close>








subsection \<open>Fork\<close>

text \<open>What the memory of the tasks goes through: writes and reads that may fault, break
copy-on-write or grow a stack, new mappings and mappings that go, and what \<open>fork\<close> does, a new
address space and the pages of the parent in it.\<close>

inductive mem_step :: "vm \<Rightarrow> vm \<Rightarrow> bool" where
  Write: "vm_mems v m \<noteq> None \<Longrightarrow> mem_step v (snd (user_write_task m a bs v))"
| Read: "vm_mems v m \<noteq> None \<Longrightarrow> mem_step v (snd (snd (user_read_task m a n v)))"
| Map: "vm_mems v m \<noteq> None \<Longrightarrow> in_space start pages \<Longrightarrow> pages < MEM_PAGES \<Longrightarrow> pages \<noteq> 0 \<Longrightarrow>
    mem_step v (snd (pt_map_nothing m start pages flags v))"
| Unmap: "in_space start pages \<Longrightarrow> mem_step v (snd (pt_unmap m start pages force v))"
| New: "card (dom (vm_mems v)) < 4095 \<Longrightarrow> mem_step v (snd (mem_new v))"
| Fork: "vm_mems v child \<noteq> None \<Longrightarrow> parent \<noteq> child \<Longrightarrow> in_space start pages \<Longrightarrow>
    mem_step v (snd (pt_copy_on_write parent start child start pages v))"

definition shared_ok :: "vm \<Rightarrow> bool" where
  "shared_ok v \<longleftrightarrow> wf_vm v \<and> cow_ok v \<and> (\<forall>n. vm_host v n = None)"

lemma shared_task: "shared_ok v \<and> vm_mems v m \<noteq> None \<longleftrightarrow> task_ok m v"
  by (auto simp: shared_ok_def task_ok_def)

lemma task_shared: "task_ok m v \<Longrightarrow> shared_ok v"
  by (simp add: shared_ok_def task_ok_def)

lemma mem_ptr_None: "task_ok m v \<Longrightarrow> mem_ptr m a t v = (None, w) \<Longrightarrow> w = v"
  using mem_ptr_faults[of v m a t] task_ok_ready[of m v] by (auto simp: task_ok_def)

lemma user_write_task_ok: "task_ok m v \<Longrightarrow> task_ok m (snd (user_write_task m a bs v))"
  by (induction bs arbitrary: a v) (auto split: prod.split option.split dest: mem_ptr_None mem_ptr_ok(2))

lemma user_read_task_ok: "task_ok m v \<Longrightarrow> task_ok m (snd (snd (user_read_task m a n v)))"
proof (induction n arbitrary: a v)
  case (Suc n)
  obtain p w where p: "mem_ptr m a MEM_READ v = (p, w)" by fastforce
  then have "task_ok m w" using Suc.prems by (cases p) (auto dest: mem_ptr_None mem_ptr_ok(2))
  then show ?case using p Suc.IH[of w "a + 1"] by (cases p) (auto simp: Let_def split: prod.split)
qed simp

lemma fewer_pages: "cow_ok v \<Longrightarrow> (\<And>m p. vm_pt w m p = vm_pt v m p \<or> vm_pt w m p = None) \<Longrightarrow> cow_ok w"
  unfolding cow_ok_def by (metis option.distinct(1))

lemma pt_unmap_host: "vm_host (snd (pt_unmap m start pages force v)) = vm_host v"
proof -
  have "vm_host (snd (scan_mapped m ps v)) = vm_host v" for ps
    by (induction ps arbitrary: v) (simp_all add: pt_access_def Let_def)
  moreover have "vm_host (fold (unmap_page m) ps w) = vm_host w" for ps w
    by (rule fold_unchanged) (simp add: unmap_page_def pt_access_def data_release_def host_munmap_def Let_def split: option.split)
  ultimately show ?thesis by (simp add: pt_unmap_def Let_def split: prod.split) (metis snd_conv)
qed

lemma mem_step_ok:
  assumes "mem_step v w" "shared_ok v"
  shows "shared_ok w"
  using assms
proof induction
  case (Write v m a bs)
  then show ?case using user_write_task_ok shared_task task_shared by blast
next
  case (Read v m a n)
  then show ?case using user_read_task_ok shared_task task_shared by blast
next
  case (Map v m start pages flags)
  then have "host_ready v" by (simp add: shared_ok_def host_ready_def)
  then show ?case
    using pt_map_nothing_zeroed[of v m start pages flags] Map by (simp add: shared_ok_def prod_eq_iff)
next
  case (Unmap start pages v m force)
  have "vm_pt (snd (pt_unmap m start pages force v)) n p = vm_pt v n p \<or> vm_pt (snd (pt_unmap m start pages force v)) n p = None" for n p
    using pt_unmap_spec[of v start pages m force] pt_unmap_pt[OF Unmap(1), of m force v n p] Unmap
    by (cases "pt_unmap m start pages force v") (auto simp: shared_ok_def split: if_splits)
  then show ?case using fewer_pages wf_pt_unmap pt_unmap_host Unmap(2) by (auto simp: shared_ok_def)
next
  case (New v)
  obtain r w where "mem_new v = (r, w)" by fastforce
  moreover from this have "vm_host w = vm_host v" by (auto simp: mem_new_def host_call_def split: option.splits)
  ultimately show ?case using new_mem_facts(2,3)[of v r w] New by (simp add: shared_ok_def)
next
  case (Fork v child parent start pages)
  then show ?case
    using pt_copy_on_write_facts(1,2)[OF _ _ Fork(1-3)] by (simp add: shared_ok_def copy_on_write_frame)
qed

lemma mem_steps_ok: "mem_step\<^sup>*\<^sup>* v w \<Longrightarrow> shared_ok v \<Longrightarrow> shared_ok w"
  by (induction rule: rtranclp_induct) (auto intro: mem_step_ok)

text \<open>C7. Copy-on-write isolates address spaces: from memory with nothing mapped, after any
writes, reads, mappings and new address spaces, and \<open>fork\<close> as often as one likes, whatever a task
writes, and wherever it faults, no byte of any other address space changes. The host must
give memory whenever it is asked, since a copy that fails is not tested for. And \<open>mprotect\<close> is
not among the steps: it forgets that a page is shared, and then the claim fails (lemma
\<open>mprotect_forgets_cow\<close> of theory \<open>Mmap_Props\<close>).\<close>
theorem user_write_isolates:
  assumes "wf_vm v0" "\<forall>m p. vm_pt v0 m p = None" "\<forall>n. vm_host v0 n = None"
    and "mem_step\<^sup>*\<^sup>* v0 v" "vm_mems v m \<noteq> None" "m' \<noteq> m"
  shows "guest (snd (user_write_task m a bs v)) m' x = guest v m' x"
proof -
  have "shared_ok v0" using assms(1-3) by (simp add: shared_ok_def cow_ok_def)
  then have "shared_ok v" using mem_steps_ok[OF assms(4)] by blast
  with assms(5) have "task_ok m v" by (simp add: shared_task[symmetric])
  then show ?thesis using assms(6) by (rule user_write_isolated)
qed

theorem user_write_isolates_witness:
  "guest (snd (user_write_task 1 0x10000 [7] vm_forked)) 0 0x10000 = guest vm_forked 0 0x10000"
proof -
  have "mem_step vm_boot vm_demo" unfolding vm_demo_def by (rule mem_step.Map) simp_all
  moreover have "mem_step vm_demo vm_forked" unfolding vm_forked_def by (rule mem_step.Fork) (simp_all add: vm_demo_facts)
  ultimately have "mem_step\<^sup>*\<^sup>* vm_boot vm_forked" by (meson r_into_rtranclp rtranclp_trans)
  moreover have "wf_vm vm_boot" using vm_boot_ok[of 0] by (simp add: task_ok_def)
  ultimately show ?thesis by (intro user_write_isolates) (simp_all add: vm_forked_facts)
qed

text \<open>C5. When \<open>fork\<close> succeeds there is one more task, under a process id that was free,
which the call returns: a copy of the caller, whose child it is, with the same
registers except 0 in \<open>eax\<close>, the same credentials and signals, and an address space of
its own that shows the parent's memory byte for byte. The other tasks are as before,
and no address space has changed.\<close>
theorem fork_child:
  assumes "kern_ok k" "k_tasks k (k_current k) = Some x"
    and "task_ok (t_mem x) (k_vm k)" "card (dom (vm_mems (k_vm k))) < 4095"
    and "sys_fork k = Some (r, k')" "0 \<le> r"
  shows "\<exists>t y. k_tasks k t = None \<and> k_tasks k' = (k_tasks k)(t \<mapsto> y) \<and> child_of (k_current k) x t y \<and>
    r = sint (t_pid y) \<and> slot_task k (unat (t_pid y)) = None \<and> t_mem y \<noteq> t_mem x \<and>
    (\<forall>m a. guest (k_vm k') m a = guest (k_vm k) (if m = t_mem y then t_mem x else m) a)"
  using sys_fork_child[OF assms] unfolding shares_def by blast

theorem fork_child_witness:
  "\<exists>k' t y. sys_fork kern_demo = Some (3, k') \<and> k_tasks k' = [10 \<mapsto> task_demo, 11 \<mapsto> child_demo, t \<mapsto> y] \<and>
     guest (k_vm k') (t_mem y) 0x10000 = Some 0"
proof -
  obtain k' where k': "sys_fork kern_demo = Some (3, k')" using demo_fork by blast
  have "card (dom (vm_mems vm_demo)) < 4095" by (simp add: demo_dom)
  then show ?thesis
    using fork_child[OF kern_demo_ok _ _ _ k', of task_demo] k' vm_demo_ok[of 0] vm_demo_facts(4)[where a = "0x10000"]
    by (auto simp: PAGE_def) metis
qed

subsection \<open>Wait\<close>

text \<open>C11. \<open>wait4\<close> for a child that has ended, the leader of a group of its own whose parent is a
thread of the caller, returns its process id at once, whatever the
options. Where the exit status and the usage can be stored, or are not asked for, the task and
its group are gone, its id names no task any more, no other task has changed, and the child's
usage is added to that of the caller's children. Where a store faults the id is returned all
the same, and the child is still there; its usage may have been added.\<close>
theorem wait4_collects:
  assumes "kern_ok k" "k_tasks k t = Some x" "t_zombie x"
    and "k_groups k (t_group x) = Some tg" "g_leader tg = t" "t_group x \<noteq> t_group (cur_task k)"
    and "k_groups k (t_group (cur_task k)) = Some cg"
    and "stored (t_mem (cur_task k)) status [exit_status x tg] (k_vm k) = (e1, v1)"
    and "stored (t_mem (cur_task k)) ru (dwords_of_rusage (g_rusage tg)) v1 = (e2, v2)"
    and "t_parent x = Some p" "t_group (get_task p k) = t_group (cur_task k)"
  shows "\<exists>k'. sys_wait4 others (t_pid x) status opt ru k = Some (sint (t_pid x), k') \<and>
    k_vm k' = (if e1 = 0 then v2 else v1) \<and>
    (if e1 = 0 \<and> e2 = 0
     then k_tasks k' = (k_tasks k)(t := None) \<and> slot_task k' = (slot_task k)(unat (t_pid x) := None) \<and>
       k_groups k' (t_group x) = None
     else k_tasks k' = k_tasks k \<and> slot_task k' = slot_task k \<and> k_groups k' (t_group x) = Some tg) \<and>
    k_groups k' (t_group (cur_task k)) = (if e1 = 0
      then Some (cg\<lparr>g_children_rusage := rusage_add (g_children_rusage cg) (g_rusage tg)\<rparr>) else Some cg)"
  by (rule wait4_zombie_child[OF assms])

theorem wait4_collects_witness:
  "\<exists>k'. sys_wait4 [] 2 0x10010 0 0 kern_demo = Some (2, k') \<and> k_tasks k' = [10 \<mapsto> task_demo]"
proof -
  have "\<exists>w. user_write_task 0 0x10010 (bytes_of_dwords [c]) vm_demo = (0, w)" for c
  proof (rule user_write_succeeds[OF vm_demo_ok])
    fix i assume "i < length (bytes_of_dwords [c])"
    then have "i < 4" by (simp add: length_bytes_of_dwords)
    then have "i \<in> {0, 1, 2, 3}" by auto
    then show "can_write vm_demo 0 (0x10010 + of_nat i)" by (intro demo_can_write) (auto simp: PAGE_def)
  qed simp
  then obtain w where w: "stored 0 0x10010 [exit_status child_demo (group_demo\<lparr>g_threads := [], g_leader := 11, g_pgid := 2\<rparr>)] vm_demo = (0, w)"
    by (auto simp: stored_def user_put_dwords_def)
  then show ?thesis
    using wait4_collects[OF kern_demo_ok, of 11 child_demo "group_demo\<lparr>g_threads := [], g_leader := 11, g_pgid := 2\<rparr>"
        group_demo "0x10010" 0 w 0 0 w 10 "[]" 0]
    by (auto simp: stored_def fun_upd_twist)
qed

subsection \<open>Signals\<close>

lemma demo_stack:
  assumes "i < 732"
  shows "can_write vm_demo 0 (0x1151c + of_nat i)"
proof (rule demo_can_write)
  have "unat (0x1151c + of_nat i :: addr_t) = 0x1151c + i"
    using assms by (simp add: unat_word_ariths unat_of_nat_dword)
  then have "unat (PAGE (0x1151c + of_nat i)) = 0x11"
    using assms by (simp add: PAGE_def drop_bit_eq_div unat_div)
  then have "PAGE (0x1151c + of_nat i) = 0x11" by (intro word_unat_eq_iff[THEN iffD2]) simp
  then show "PAGE (0x1151c + of_nat i) \<in> {0x10, 0x11}" by simp
qed

text \<open>C6. A handler returns to where it was called from: whatever it does to the registers
and to memory, as long as it leaves the frame on the stack alone and the stack pointer
where the trampoline pops it, \<open>rt_sigreturn\<close> restores the general registers, the
instruction pointer, the flags and the mask of blocked signals, and returns the saved
\<open>eax\<close>, which the system call stores back. Only the carry and overflow flags, which
the CPU keeps outside \<open>eflags\<close>, stay those of the handler.\<close>
theorem handler_returns:
  assumes "k_tasks k (k_current k) = Some x" "k_sighands k (t_sighand x) = Some sh"
    and "signal_action sh sig = SIGNAL_CALL_HANDLER" "k_sigreturn k \<noteq> 0" "task_ok (t_mem x) (k_vm k)"
    and "sp = frame_address k sh (cpu_regs (t_cpu x) reg_esp)"
    and "\<And>i. i < 732 \<Longrightarrow> can_write (k_vm k) (t_mem x) (sp + of_nat i)"
    and "receive_signal sig k = (b, k1)"
    and "wf_vm u" "\<And>i. i < 732 \<Longrightarrow> guest u (t_mem x) (sp + of_nat i) = guest (k_vm k1) (t_mem x) (sp + of_nat i)"
    and "cpu_regs c reg_esp = sp + 8"
    and "sys_rt_sigreturn (upd_task (k_current k) (\<lambda>y. y\<lparr>t_cpu := c\<rparr>) (k1\<lparr>k_vm := u\<rparr>)) = (r, k3)"
  shows "\<exists>y. k_tasks k3 (k_current k) = Some y \<and> (\<forall>g. g \<noteq> reg_none \<longrightarrow> cpu_regs (t_cpu y) g = cpu_regs (t_cpu x) g) \<and>
    cpu_eip (t_cpu y) = cpu_eip (t_cpu x) \<and> cpu_eflags (t_cpu y) = cpu_eflags (collapse_flags (t_cpu x)) \<and>
    t_blocked y = t_blocked x \<and> r = sint (cpu_regs (t_cpu x) reg_eax) \<and>
    cpu_cf (t_cpu y) = cpu_cf c \<and> cpu_of (t_cpu y) = cpu_of c"
  using sigreturn_after_handler[OF assms] restore_make_frame by auto

theorem handler_returns_witness:
  "\<exists>k1 r k3 y. receive_signal 10 kern_demo = (True, k1) \<and>
     sys_rt_sigreturn (upd_task 10 (\<lambda>y. y\<lparr>t_cpu := zero_cpu\<lparr>cpu_regs := (\<lambda>_. 0)(reg_esp := 0x11524)\<rparr>\<rparr>) k1) = (r, k3) \<and>
     k_tasks k3 10 = Some y \<and> cpu_eip (t_cpu y) = 0x8048000 \<and> cpu_regs (t_cpu y) reg_esi = 7"
proof -
  let ?c = "zero_cpu\<lparr>cpu_regs := (\<lambda>_. 0)(reg_esp := 0x11524)\<rparr>"
  obtain b k1 where k1: "receive_signal 10 kern_demo = (b, k1)" by (cases "receive_signal 10 kern_demo")
  note d = receive_signal_call[of kern_demo task_demo sighand_demo 10 b k1, OF _ _ demo_handler _ k1 refl refl refl]
  obtain r k3 where k3: "sys_rt_sigreturn (upd_task 10 (\<lambda>y. y\<lparr>t_cpu := ?c\<rparr>) k1) = (r, k3)"
    by (cases "sys_rt_sigreturn (upd_task 10 (\<lambda>y. y\<lparr>t_cpu := ?c\<rparr>) k1)")
  have "\<exists>w. user_write_task 0 0x1151c (bytes_of_dwords (dwords_of_frame f)) vm_demo = (0, w)" for f
    by (rule user_write_succeeds[OF vm_demo_ok]) (simp_all add: demo_stack length_bytes_of_dwords length_frame)
  then have "wf_vm (k_vm k1)"
    using d(4) user_write_ok[OF vm_demo_ok[of 0]]
    by (auto simp: demo_frame user_put_dwords_def task_ok_def) (metis snd_conv)
  have id: "k1\<lparr>k_vm := k_vm k1\<rparr> = k1" by simp
  obtain y where "k_tasks k3 10 = Some y" "cpu_eip (t_cpu y) = 0x8048000" "cpu_regs (t_cpu y) reg_esi = cpu_regs (t_cpu task_demo) reg_esi"
    using handler_returns[where k = kern_demo and x = task_demo and sh = sighand_demo and sig = 10 and sp = "0x1151c"
        and b = b and ?k1.0 = k1 and u = "k_vm k1" and c = ?c and r = r and ?k3.0 = k3]
      k1 k3 \<open>wf_vm (k_vm k1)\<close> demo_handler demo_stack vm_demo_ok[of 0]
    by (auto simp: id demo_frame)
  moreover have "cpu_regs (t_cpu task_demo) reg_esi = 7" by (simp add: task_demo_def zero_task_def)
  ultimately show ?thesis using k1 k3 d(1) by auto
qed

lemma kill_entry: "syscall_table 37 = Some ''sys_kill''"
  by (simp add: syscall_table_def syscall_entries_def)

lemma kill_call: "call w ''sys_kill'' a k = int_call (sys_kill (a 0) (a 1) k)"
  by (simp add: call_def known_calls_def)

lemma sint_pid: "unat (p :: dword_t) \<le> 1024 \<Longrightarrow> sint p = int (unat p)"
proof -
  assume "unat p \<le> 1024"
  then have "uint p \<le> 1024" by (metis of_nat_le_iff of_nat_numeral uint_nat)
  then have "uint p < 2 ^ 31" by simp
  moreover have "- (2 ^ 31) \<le> uint p" by (rule order_trans[OF _ uint_ge_0]) simp
  ultimately show "sint p = int (unat p)"
    using signed_take_bit_int_eq_self[of 31 "uint p"] by (simp add: sint_uint)
qed

text \<open>C10. A signal raised by its receiver runs the handler before anything else. A task that has
nothing pending sends itself a signal that it handles and does not block (the vdso must have
\<open>sigreturn\<close>): after the interrupt
of \<open>kill\<close> it is at the handler, with the signal in \<open>eax\<close> and blocked. The stack pointer is at
the place of the frame, which \<open>frame_address\<close> puts below the old stack pointer, or below the
start of the alternate stack when one is set, and the frame is written there: the interrupted
registers, with the call's result 0 in place of \<open>eax\<close>. Where the place can be written, the
whole frame is in memory; that it cannot is not noticed.\<close>
theorem raise_runs_handler:
  assumes k: "kern_ok k" "k_tasks k (k_current k) = Some x" "k_groups k (t_group x) = Some g"
    and "k_sighands k (t_sighand x) = Some sh" "signal_action sh sig = SIGNAL_CALL_HANDLER" "0 < sig" "sig < 64"
    and "\<not> t_zombie x" "\<not> bit (t_blocked x) sig" "t_pending x = 0" "k_sigreturn k \<noteq> 0" "t_pid x \<noteq> 0"
    and "cpu_regs (t_cpu x) reg_eax = 37" "cpu_regs (t_cpu x) reg_ebx = t_pid x" "cpu_regs (t_cpu x) reg_ecx = of_nat sig"
  shows "\<exists>k' y. handle_interrupt w INT_SYSCALL k = Returned 0 k' \<and> k_tasks k' (k_current k) = Some y \<and>
    cpu_eip (t_cpu y) = sa_handler (sh_action sh sig) \<and> cpu_regs (t_cpu y) reg_eax = of_nat sig \<and> bit (t_blocked y) sig \<and>
    cpu_regs (t_cpu y) reg_esp = frame_address k sh (cpu_regs (t_cpu x) reg_esp) \<and>
    k_vm k' = snd (user_put_dwords (t_mem x) (frame_address k sh (cpu_regs (t_cpu x) reg_esp))
      (dwords_of_frame ((make_frame sig (mem_vdso (mem_of (k_vm k) (t_mem x)) + k_sigreturn k) x)\<lparr>fr_ax := 0\<rparr>)) (k_vm k)) \<and>
    (task_ok (t_mem x) (k_vm k) \<and>
       (\<forall>i < 732. can_write (k_vm k) (t_mem x) (frame_address k sh (cpu_regs (t_cpu x) reg_esp) + of_nat i)) \<longrightarrow>
     user_get_dwords (t_mem x) (frame_address k sh (cpu_regs (t_cpu x) reg_esp)) 183 (k_vm k') =
       (Some (dwords_of_frame ((make_frame sig (mem_vdso (mem_of (k_vm k) (t_mem x)) + k_sigreturn k) x)\<lparr>fr_ax := 0\<rparr>)), k_vm k'))"
proof -
  let ?x = "x\<lparr>t_pending := sigbit sig, t_cpu := (t_cpu x)\<lparr>cpu_regs := (cpu_regs (t_cpu x))(reg_eax := 0)\<rparr>\<rparr>"
  let ?k = "k\<lparr>k_tasks := (k_tasks k)(k_current k \<mapsto> ?x)\<rparr>"
  have pid: "unat (t_pid x) \<le> 1024" using kern_ok_task(3)[OF k(1,2)] by simp
  have cur: "cur_task k = x" "cur_group k = Some g" using k by (simp_all add: cur_task_def get_task_def cur_group_def)
  have "pid_get_task (t_pid x) k = Some (k_current k)"
    using task_by_id(1)[OF k(1,2)] assms(8) k(2) by (simp add: pid_get_task_def get_task_def)
  then have kill: "sys_kill (t_pid x) (of_nat sig) k = (0, send_signal (k_current k) sig k)"
    using pid assms(7,12) cur by (simp add: sys_kill_def sint_pid word_le_nat_alt unat_of_nat_dword)
  have send: "send_signal (k_current k) sig k = k\<lparr>k_tasks := (k_tasks k)(k_current k \<mapsto> x\<lparr>t_pending := sigbit sig\<rparr>)\<rparr>"
    using assms sigbit_nonzero[OF assms(7), of "t_blocked x"]
    by (simp add: send_signal_def deliver_signal_def upd_task_def)
  have call: "do_syscall w k = Returned 0 ?k"
    using assms(13-15) kill
    by (simp add: do_syscall_def cur kill_entry kill_call syscall_args_def int_call_def send set_eax_def upd_task_def ret32_def Let_def)
  obtain b k' where r: "receive_signal sig ?k = (b, k')" by (cases "receive_signal sig ?k")
  note d = receive_signal_call[of ?k ?x sh sig b k', OF _ _ assms(5) _ r refl refl refl]
  have d: "b" "k_current k' = k_current k"
    "k_tasks k' (k_current k) = Some (call_handler sig (sa_handler (sh_action sh sig)) (frame_address ?k sh (cpu_regs (t_cpu x) reg_esp)) (?x\<lparr>t_pending := 0\<rparr>))"
    "k_vm k' = snd (user_put_dwords (t_mem x) (frame_address ?k sh (cpu_regs (t_cpu x) reg_esp))
      (dwords_of_frame (make_frame sig (mem_vdso (mem_of (k_vm k) (t_mem x)) + k_sigreturn k) ?x)) (k_vm k))"
    using d assms(4,11) by simp_all
  have "receive_signals ?k = (True, k')"
  proof (rule receive_one[OF assms(7)])
    show "k_tasks ?k (k_current ?k) = Some ?x" "t_pending ?x = sigbit sig" by simp_all
    show "receive_signal sig ?k = (True, k')" "k_current k' = k_current ?k" using r d(1,2) by simp_all
    show "k_tasks k' (k_current ?k) = Some (call_handler sig (sa_handler (sh_action sh sig))
      (frame_address ?k sh (cpu_regs (t_cpu x) reg_esp)) (?x\<lparr>t_pending := 0\<rparr>))" using d(3) by simp
    show "t_pending (call_handler sig (sa_handler (sh_action sh sig))
      (frame_address ?k sh (cpu_regs (t_cpu x) reg_esp)) (?x\<lparr>t_pending := 0\<rparr>)) = 0"
      by (simp add: call_handler_def Let_def)
  qed
  then have "handle_interrupt w INT_SYSCALL k = Returned 0 k'"
    by (simp add: handle_interrupt_def call)
  moreover have "frame_address ?k sh e = frame_address k sh e" for e by (simp add: frame_address_def)
  moreover have "make_frame sig pre ?x = (make_frame sig pre x)\<lparr>fr_ax := 0\<rparr>" for pre
    by (simp add: make_frame_def collapse_regs collapse_sel Let_def)
  ultimately show ?thesis
    using d assms(7) frame_in_memory[of "t_mem x" "k_vm k"]
    by (simp add: call_handler_def Let_def bit_or_iff bit_sigbit)
qed

theorem raise_runs_handler_witness:
  "\<forall>w. \<exists>k' f. handle_interrupt w INT_SYSCALL (kern_demo\<lparr>k_tasks := [10 \<mapsto> task_demo
        \<lparr>t_cpu := (t_cpu task_demo)\<lparr>cpu_regs := (cpu_regs (t_cpu task_demo))(reg_eax := 37, reg_ebx := 1, reg_ecx := 10)\<rparr>\<rparr>,
        11 \<mapsto> child_demo]\<rparr>) = Returned 0 k' \<and>
    cpu_eip (t_cpu (get_task 10 k')) = 0x8049000 \<and> cpu_regs (t_cpu (get_task 10 k')) reg_esp = 0x1151c \<and>
    user_get_dwords 0 0x1151c 183 (k_vm k') = (Some (dwords_of_frame f), k_vm k') \<and> fr_ip f = 0x8048000"
proof
  fix w
  let ?x = "task_demo\<lparr>t_cpu := (t_cpu task_demo)\<lparr>cpu_regs := (cpu_regs (t_cpu task_demo))(reg_eax := 37, reg_ebx := 1, reg_ecx := 10)\<rparr>\<rparr>"
  let ?k = "kern_demo\<lparr>k_tasks := [10 \<mapsto> ?x, 11 \<mapsto> child_demo]\<rparr>"
  let ?f = "(make_frame 10 (mem_vdso (mem_of vm_demo 0) + k_sigreturn kern_demo) ?x)\<lparr>fr_ax := 0\<rparr>"
  have "kern_ok ?k" by (auto simp: kern_ok_def slot_task_def mask_ok_def kern_demo_def split: if_splits)
  moreover have "frame_address ?k sighand_demo 0x11800 = 0x1151c" using demo_frame by (simp add: frame_address_def)
  moreover have "fr_ip ?f = 0x8048000" by (simp add: make_frame_def Let_def task_demo_def zero_task_def)
  ultimately show "\<exists>k' f. handle_interrupt w INT_SYSCALL ?k = Returned 0 k' \<and>
      cpu_eip (t_cpu (get_task 10 k')) = 0x8049000 \<and> cpu_regs (t_cpu (get_task 10 k')) reg_esp = 0x1151c \<and>
      user_get_dwords 0 0x1151c 183 (k_vm k') = (Some (dwords_of_frame f), k_vm k') \<and> fr_ip f = 0x8048000"
    using raise_runs_handler[of ?k ?x group_demo sighand_demo 10 w] demo_handler demo_stack vm_demo_ok[of 0]
    by (auto simp: get_task_def sighand_demo_def intro!: exI[of _ ?f])
qed

text \<open>C9. A blocked signal is not lost. Sent to a task that blocks it and has nothing pending,
whichever task is running, it makes nothing pending and waits in the queue. When the task then
runs and unblocks it, with a mask that unblocks no other signal of the queue, its next return
to user mode enters the handler, with the signal in \<open>eax\<close> and blocked meanwhile; nothing is
pending then (for a process whose vdso has \<open>sigreturn\<close>), and the queue is what it was, without the signal.\<close>
theorem blocked_signal_arrives:
  assumes "k_tasks k t = Some x" "k_sighands k (t_sighand x) = Some sh"
    and "signal_action sh sig = SIGNAL_CALL_HANDLER" "0 < sig" "sig < 64" "\<not> t_zombie x"
    and "bit (t_blocked x) sig" "t_pending x = 0" "bit m sig" "t_queued x AND m AND NOT (sigbit sig) = 0" "k_sigreturn k \<noteq> 0"
  shows "t_pending (get_task t (send_signal t sig k)) = 0 \<and> bit (t_queued (get_task t (send_signal t sig k))) sig \<and>
    (\<exists>k2 y. receive_signals (snd (do_sigprocmask 1 m ((send_signal t sig k)\<lparr>k_current := t\<rparr>))) = (True, k2) \<and>
      k_tasks k2 t = Some y \<and> cpu_eip (t_cpu y) = sa_handler (sh_action sh sig) \<and>
      cpu_regs (t_cpu y) reg_eax = of_nat sig \<and> bit (t_blocked y) sig \<and> t_pending y = 0 \<and>
      t_queued y = t_queued x AND NOT (sigbit sig))"
  using unblock_handles[OF assms] by blast

theorem blocked_signal_arrives_witness:
  "\<exists>k2. receive_signals (snd (do_sigprocmask 1 0x400 ((send_signal 10 10
      (kern_demo\<lparr>k_current := 11, k_tasks := [10 \<mapsto> task_demo\<lparr>t_blocked := 0x1400, t_queued := 0x1000\<rparr>]\<rparr>))\<lparr>k_current := 10\<rparr>))) = (True, k2) \<and>
    cpu_eip (t_cpu (get_task 10 k2)) = 0x8049000 \<and> t_queued (get_task 10 k2) = 0x1000"
proof -
  let ?x = "task_demo\<lparr>t_blocked := 0x1400, t_queued := 0x1000\<rparr>"
  have "bit (0x1400 :: qword_t) 10" "bit (0x400 :: qword_t) 10" "(0x1000 :: qword_t) AND 0x400 AND NOT (sigbit 10) = 0"
    "(0x1000 :: qword_t) AND NOT (sigbit 10) = 0x1000"
    by (simp_all add: sigbit_def)
  then show ?thesis
    using blocked_signal_arrives[of "kern_demo\<lparr>k_current := 11, k_tasks := [10 \<mapsto> ?x]\<rparr>" 10 ?x sighand_demo 10 "0x400"] demo_handler
    by (auto simp: get_task_def sighand_demo_def)
qed

text \<open>The frame of a handler that runs on the alternate stack lies wholly below the
memory the program set aside for it: the code enters \<open>sigaltstack\<close>'s lowest address as
if it were the end, so not one byte of the stack is used.\<close>
lemma alternate_stack_unused:
  assumes "1024 \<le> sh_altstack sh" "k_xsave_extra k = 0"
  shows "unat (frame_address k sh esp) + 732 \<le> unat (sh_altstack sh)"
proof -
  let ?c = "sh_altstack sh - 728"
  let ?d = "?c AND NOT (mask 4)"
  have c: "unat ?c = unat (sh_altstack sh) - 728" "1024 \<le> unat (sh_altstack sh)"
    using assms(1) unat_sub[of 728 "sh_altstack sh"] by (simp_all add: word_le_nat_alt)
  have "?d + (?c AND mask 4) = ?d OR (?c AND mask 4)" by (rule disjunctive_add) (simp add: bit_simps)
  also have "\<dots> = ?c" by (rule bit_word_eqI) (auto simp: bit_simps)
  finally have "?d + (?c AND mask 4) = ?c" .
  then have "unat ?c \<le> unat ?d + unat (?c AND mask 4)" by (metis unat_word_ariths(1) mod_less_eq_dividend)
  moreover have "unat (?c AND mask 4) \<le> 15" using word_and_le1[of ?c "mask 4"] by (simp add: word_le_nat_alt mask_eq_exp_minus_1)
  moreover have "unat ?d \<le> unat ?c" using word_and_le2[of ?c] by (simp add: word_le_nat_alt)
  moreover have "unat (?d - 4) = unat ?d - 4" if "4 \<le> unat ?d" using unat_sub[of 4 ?d] that by (simp add: word_le_nat_alt)
  moreover have "sh_altstack sh \<noteq> 0" using assms(1) by auto
  then have "frame_address k sh esp = ?d - 4"
    using assms by (simp add: frame_address_def frame_size_def mask_eq_exp_minus_1 Let_def)
  ultimately show ?thesis using c by simp
qed

lemma alternate_stack_unused_witness:
  "unat (frame_address kern_demo (sighand_demo\<lparr>sh_altstack := 0x20000\<rparr>) 0x11800) + 732 \<le> 0x20000"
  using alternate_stack_unused[of "sighand_demo\<lparr>sh_altstack := 0x20000\<rparr>" kern_demo "0x11800"] by simp

subsection \<open>Failures\<close>

text \<open>\<open>wait4\<close> takes a fault on its status address for success: the id of the child
is returned although the child has not been reaped and is still a zombie.\<close>
lemma wait4_fault_reports_success:
  assumes "kern_ok k" "k_tasks k t = Some x" "t_zombie x"
    and "k_groups k (t_group x) = Some tg" "g_leader tg = t"
    and "t_parent x = Some p" "t_group (get_task p k) = t_group (cur_task k)" "status \<noteq> 0"
    and "\<And>code. fst (kput status [code] k) \<noteq> 0"
  shows "\<exists>k'. sys_wait4 others (t_pid x) status opt ru k = Some (sint (t_pid x), k') \<and> k_tasks k' t = Some x"
proof -
  let ?code = "if g_doing_group_exit tg then g_group_exit_code tg else t_exit_code x"
  obtain err k1 where put: "kput status [?code] k = (err, k1)" by (cases "kput status [?code] k")
  have "err \<noteq> 0" using assms(9)[of ?code] by (simp add: put)
  moreover have "k_tasks k1 = k_tasks k" using calm_user(2)[of k status "[?code]"] by (simp add: put calm_def)
  ultimately have "wait_attempt (t_pid x) status ru k = (Found (t_pid x), k1)" "k_tasks k1 t = Some x"
    using task_by_id[OF assms(1,2)] assms(2-8) put
    by (simp_all add: wait_attempt_def get_task_def group_leader_def reap_if_zombie_def Let_def)
  then show ?thesis by (cases others) (auto simp: sys_wait4_def)
qed

lemma wait4_fault_reports_success_witness:
  "\<exists>k'. sys_wait4 [] 2 0x50000 0 0 kern_demo = Some (2, k') \<and> k_tasks k' 11 = Some child_demo"
proof -
  have "next_mapped vm_demo 0 (PAGE 0x50000 + 1) = None" by (simp add: next_mapped_None vm_demo_facts PAGE_def)
  then have "faults vm_demo 0 0x50000 MEM_WRITE" by (simp add: faults_def grows_def vm_demo_facts PAGE_def)
  then have "fst (mem_ptr 0 0x50000 MEM_WRITE vm_demo) = None"
    using mem_ptr_faults(1)[of vm_demo 0 "0x50000" MEM_WRITE] vm_demo_ok[of 0] task_ok_ready[of 0 vm_demo]
    by (simp add: task_ok_def)
  then have "fst (kput 0x50000 [c] kern_demo) \<noteq> 0" for c
    by (auto simp: kput_def on_vm_def user_put_dwords_def bytes_of_dwords_def numeral_eq_Suc split: prod.splits option.splits)
  then show ?thesis
    using wait4_fault_reports_success[OF kern_demo_ok, of 11 child_demo _ 10 "0x50000" "[]" 0 0]
    by (auto simp: group_demo_def)
qed

text \<open>A process group that changes joins the wrong list: after \<open>setpgid\<close> the group
names its new process group, but is in the list of its own id, and not in that of the
process group, so that signals to the process group do not reach it.\<close>
lemma setpgid_joins_own_list:
  assumes "k_groups k g = Some tg" "i \<le> MAX_PID" "g \<in> set (p_pgroup (k_pids k i0))" "i0 \<le> MAX_PID"
    and "\<And>j. distinct (p_pgroup (k_pids k j))" "unat pgid \<noteq> i" "unat pgid \<le> MAX_PID"
  shows "k_groups (move_to_group i g pgid k) g = Some (tg\<lparr>g_pgid := pgid\<rparr>) \<and>
    g \<in> set (p_pgroup (k_pids (move_to_group i g pgid k) i)) \<and>
    g \<notin> set (p_pgroup (k_pids (move_to_group i g pgid k) (unat pgid)))"
  using move_to_group_lists[OF assms(1-5)] assms(6,7) by simp

lemma fdtable_release_current: "fd_current (fdtable_release ops t s) = fd_current s"
proof -
  have "fd_current (fold (\<lambda>f s. snd (f_close ops f s)) fs s) = fd_current s" for fs s
    by (rule fold_unchanged) (simp add: f_close_def split_beta split: option.splits)
  then show ?thesis by (simp add: fdtable_release_def upd_table_def Let_def bad_def split: option.split)
qed

lemma setpgid_joins_own_list_witness:
  "21 \<notin> set (p_pgroup (k_pids (move_to_group 2 21 1 kern_demo) 1))"
  using setpgid_joins_own_list[of kern_demo 21 _ 2 2 1]
  by (simp add: kern_demo_def)

text \<open>When \<open>clone\<close> fails after the descriptors are copied, the cleanup of the copy
closes the descriptors of the caller: each that the copy has is gone from the caller's
table.\<close>
lemma failed_clone_closes_parent:
  assumes "fds_ok held (task_fds k)" "fd_tables (k_fds k) (t_files (get_task t k)) = Some tb" "ft_refcount tb = 1"
    and "t_files (get_task t k) \<noteq> t_files (cur_task k)" "f < ft_size tb"
  shows "f_get f (task_fds (fail_free_files t k)) = None"
proof -
  have "f_get f (fdtable_release (k_ops k) (t_files (get_task t k)) (task_fds k)) = None"
    using release_other_table[OF assms(1)] assms(2-5) by (simp add: task_fds_def)
  then show ?thesis
    by (simp add: fail_free_files_def fail_free_mem_def do_fds_def task_fds_def f_get_def cur_def cur_task_def get_task_def
        fdtable_release_current)
qed

definition kern_two :: kern where
  "kern_two = kern_demo\<lparr>k_fds := fds_demo\<lparr>fd_heap := [1 \<mapsto> \<lparr>fd_refcount = 2, fd_flags = 0\<rparr>],
       fd_tables := (\<lambda>i. if i = 0 \<or> i = 5 then fd_tables fds_demo 0 else None), fd_next := 6\<rparr>,
     k_tasks := [10 \<mapsto> task_demo, 12 \<mapsto> task_demo\<lparr>t_files := 5\<rparr>]\<rparr>"

lemma kern_two_ok: "fds_ok (\<lambda>_. 0) (task_fds kern_two)"
proof -
  let ?s = "task_fds kern_two"
  have t: "fd_tables ?s = (\<lambda>i. if i = 0 \<or> i = 5 then Some \<lparr>ft_refcount = 1, ft_size = 3,
        ft_files = (\<lambda>f. if f = 0 then Some 1 else None), ft_cloexec = (\<lambda>_. False)\<rparr> else None)"
    and f: "fd_heap ?s = [1 \<mapsto> \<lparr>fd_refcount = 2, fd_flags = 0\<rparr>]" "fd_current ?s = 0" "\<not> fd_bad ?s" "fd_next ?s = 6"
    by (auto simp: task_fds_def kern_two_def fds_demo_def cur_task_def get_task_def)
  have r: "fd_refs ?s fd = (if fd = 1 then {(0, 0), (5, 0)} else {})" for fd
    by (auto simp: fd_refs_def t split: if_splits)
  have "counts_ok (\<lambda>_. 0) ?s"
    unfolding counts_ok_def r by (auto simp: count_at_def f)
  then show ?thesis
    by (auto simp: fds_ok_def t f cur_def table_ok_def dom_def)
qed

lemma failed_clone_closes_parent_witness:
  "f_get 0 (task_fds kern_two) = Some 1 \<and> f_get 0 (task_fds (fail_free_files 12 kern_two)) = None"
proof
  show "f_get 0 (task_fds kern_two) = Some 1"
    by (simp add: f_get_def cur_def task_fds_def kern_two_def fds_demo_def cur_task_def get_task_def)
  show "f_get 0 (task_fds (fail_free_files 12 kern_two)) = None"
    by (rule failed_clone_closes_parent[OF kern_two_ok, where tb = "the (fd_tables fds_demo 0)"])
      (simp_all add: kern_two_def fds_demo_def cur_task_def get_task_def)
qed

text \<open>The TLB can outlive its address space: when a system call has replaced the address
space and the new one happens to have changed as often as the loop remembers, the TLB is
labelled with the new address space but keeps the entries of the old one, and a cached
address is read from the old memory, mapped in the new one or not.\<close>
lemma stale_tlb_after_switch:
  assumes "changes_of (t_mem (cur_task (r_kern r))) (k_vm (r_kern r)) = r_changes r"
    and "te_page (tlb_entries (r_tlb r) (TLB_INDEX a)) = TLB_PAGE a"
  shows "tlb_mem (r_tlb (refresh_tlb r)) = t_mem (cur_task (r_kern r)) \<and>
    fst (tlb_read_ptr a (r_tlb (refresh_tlb r), v)) = Some (entry_address (tlb_entries (r_tlb r) (TLB_INDEX a)) a)"
  using assms by (simp add: refresh_tlb_def Let_def tlb_read_ptr_def)

lemma stale_tlb_after_switch_witness:
  "\<exists>r. t_mem (cur_task (r_kern r)) = 1 \<and> guest (k_vm (r_kern r)) 1 0x10000 = None \<and>
     fst (tlb_read_ptr 0x10000 (r_tlb (refresh_tlb r), k_vm (r_kern r))) = Some (3, 0)"
proof -
  let ?tlb = "tlb_demo\<lparr>tlb_entries := (\<lambda>_. \<lparr>te_page = 0x10000, te_page_if_writable = 1, te_data_minus_addr = (3, - 0x10000)\<rparr>)\<rparr>"
  let ?k = "kern_demo\<lparr>k_tasks := [10 \<mapsto> task_demo\<lparr>t_mem := 1\<rparr>]\<rparr>"
  define r where "r = \<lparr>r_kern = ?k, r_tlb = ?tlb, r_i = 0, r_changes = changes_of 1 vm_demo, r_m = machine_demo\<rparr>"
  have "t_mem (cur_task (r_kern r)) = 1" "guest (k_vm (r_kern r)) 1 0x10000 = None"
    using vm_demo_facts(1,3) by (simp_all add: r_def cur_task_def get_task_def guest_None_iff)
  moreover have "fst (tlb_read_ptr 0x10000 (r_tlb (refresh_tlb r), k_vm (r_kern r))) = Some (3, 0)"
    using stale_tlb_after_switch[of r "0x10000" "k_vm (r_kern r)"]
    by (simp add: r_def cur_task_def get_task_def TLB_PAGE_def entry_address_def)
  ultimately show ?thesis by blast
qed

end
