(* ===== verification/Utilities.thy ===== *)
theory Utilities
  imports Process
begin

text \<open>
  Utilities: the doubly linked lists that go through their elements
  (\<open>src/util/list.h\<close>) and waiting on a condition (\<open>src/util/sync.c\<close>). Where the
  code has such lists (children, sessions, process groups, mounts, sets of files, sleepers)
  the other theories have HOL lists or what the lists stand for. That the operations here
  do to linked nodes what theirs do to sequences is a property of this theory.
\<close>

subsection \<open>Lists\<close>

text \<open>The memory of lists gives the two members of every \<open>struct list\<close> by its name. A null
pointer that is followed is \<open>None\<close>.\<close>

record list_node =
  ln_next :: "nat option"
  ln_prev :: "nat option"

type_synonym links = "nat \<Rightarrow> list_node"

definition set_next :: "nat \<Rightarrow> nat option \<Rightarrow> links \<Rightarrow> links" where
  "set_next i x h = h(i := (h i)\<lparr>ln_next := x\<rparr>)"

definition set_prev :: "nat \<Rightarrow> nat option \<Rightarrow> links \<Rightarrow> links" where
  "set_prev i x h = h(i := (h i)\<lparr>ln_prev := x\<rparr>)"

definition list_init :: "nat \<Rightarrow> links \<Rightarrow> links" where
  "list_init l h = set_prev l (Some l) (set_next l (Some l) h)"

definition list_null :: "nat \<Rightarrow> links \<Rightarrow> bool" where
  "list_null l h \<longleftrightarrow> ln_next (h l) = None \<and> ln_prev (h l) = None"

definition list_empty :: "nat \<Rightarrow> links \<Rightarrow> bool" where
  "list_empty l h \<longleftrightarrow> ln_next (h l) = Some l \<or> list_null l h"

definition list_add_between :: "nat \<Rightarrow> nat \<Rightarrow> nat \<Rightarrow> links \<Rightarrow> links" where
  "list_add_between p n i h = set_prev n (Some i) (set_next i (Some n) (set_prev i (Some p) (set_next p (Some i) h)))"

definition list_add_before :: "nat \<Rightarrow> nat \<Rightarrow> links \<Rightarrow> links option" where
  "list_add_before l i h = map_option (\<lambda>p. list_add_between p l i h) (ln_prev (h l))"

definition list_add :: "nat \<Rightarrow> nat \<Rightarrow> links \<Rightarrow> links option" where
  "list_add l i h = map_option (\<lambda>n. list_add_between l n i h) (ln_next (h l))"

definition list_init_add :: "nat \<Rightarrow> nat \<Rightarrow> links \<Rightarrow> links option" where
  "list_init_add l i h = list_add l i (if list_null l h then list_init l h else h)"

definition list_remove :: "nat \<Rightarrow> links \<Rightarrow> links option" where
  "list_remove i h =
    (case ln_prev (h i) of
       None \<Rightarrow> None
     | Some p \<Rightarrow>
         (let h = set_next p (ln_next (h i)) h
          in case ln_next (h i) of
               None \<Rightarrow> None
             | Some n \<Rightarrow> (let h = set_prev n (ln_prev (h i)) h in Some (set_next i None (set_prev i None h)))))"

definition list_remove_safe :: "nat \<Rightarrow> links \<Rightarrow> links option" where
  "list_remove_safe i h = (if list_null i h then Some h else list_remove i h)"

text \<open>\<open>list_for_each\<close>: the elements from \<open>i\<close> on, up to the list itself. A list that does not
come back to itself, and takes more steps than \<open>fuel\<close>, gives \<open>None\<close>.\<close>

fun list_walk :: "nat \<Rightarrow> nat \<Rightarrow> nat option \<Rightarrow> links \<Rightarrow> nat list option" where
  "list_walk fuel l None h = None"
| "list_walk 0 l (Some i) h = (if i = l then Some [] else None)"
| "list_walk (Suc fuel) l (Some i) h =
    (if i = l then Some [] else map_option ((#) i) (list_walk fuel l (ln_next (h i)) h))"

definition list_for_each :: "nat \<Rightarrow> nat \<Rightarrow> links \<Rightarrow> nat list option" where
  "list_for_each fuel l h = list_walk fuel l (ln_next (h l)) h"

definition list_size :: "nat \<Rightarrow> nat \<Rightarrow> links \<Rightarrow> nat option" where
  "list_size fuel l h = map_option length (list_for_each fuel l h)"

subsection \<open>Lists stand for lists\<close>

definition linked :: "links \<Rightarrow> nat \<times> nat \<Rightarrow> bool" where
  "linked h ab \<longleftrightarrow> ln_next (h (fst ab)) = Some (snd ab) \<and> ln_prev (h (snd ab)) = Some (fst ab)"

definition list_at :: "links \<Rightarrow> nat \<Rightarrow> nat list \<Rightarrow> bool" where
  "list_at h l xs \<longleftrightarrow> distinct (l # xs) \<and> (\<forall>ab \<in> set (zip (l # xs) (xs @ [l])). linked h ab)"

lemma zip_split:
  assumes "length q = length ys"
  shows "zip (q @ p # bs) (ys @ n # r) = zip q ys @ (p, n) # zip bs r"
  using assms by simp

lemma list_at_split:
  assumes "l # as = q @ [p]" "bs @ [l] = n # r"
  shows "list_at h l (as @ bs) \<longleftrightarrow> distinct (l # as @ bs) \<and> linked h (p, n) \<and>
      (\<forall>ab \<in> set (zip q as). linked h ab) \<and> (\<forall>ab \<in> set (zip bs r). linked h ab)"
proof -
  have "length q = length as" using assms(1) by (metis add_right_cancel length_Cons length_append_singleton Suc_inject)
  then have "zip (l # as @ bs) ((as @ bs) @ [l]) = zip q as @ (p, n) # zip bs r"
    using zip_split[of q as p bs n r] assms by (metis append.assoc append_Cons append_Nil)
  then show ?thesis by (auto simp: list_at_def)
qed

lemma list_at_split_one:
  assumes "l # as = q @ [p]" "bs @ [l] = n # r"
  shows "list_at h l (as @ i # bs) \<longleftrightarrow> distinct (l # as @ i # bs) \<and> linked h (p, i) \<and> linked h (i, n) \<and>
      (\<forall>ab \<in> set (zip q as). linked h ab) \<and> (\<forall>ab \<in> set (zip bs r). linked h ab)"
  using list_at_split[OF assms(1), of "i # bs" i "bs @ [l]" h] assms(2) by auto

lemma segment_ends:
  assumes "l # as = q @ [p]" "bs @ [l] = n # r" "distinct (l # as @ bs)"
  shows "set q \<union> set as \<subseteq> set (l # as @ bs)" "p \<notin> set q" "n \<notin> set as" "p \<notin> set bs" "n \<notin> set r"
    "set bs \<union> set r \<subseteq> set (l # as @ bs)" "p \<in> set (l # as)" "n \<in> set (l # bs)"
proof -
  have d: "distinct (q @ [p])" "distinct (n # r)" using assms by (metis distinct.simps(2) distinct_append append_Cons)
      (use assms in \<open>metis distinct_append distinct1_rotate rotate1.simps(2) distinct.simps(2) Un_iff set_append\<close>)
  have s: "set q \<union> {p} = insert l (set as)" "insert n (set r) = insert l (set bs)"
    using assms(1,2) by (metis set_append list.simps(15) empty_set Un_insert_right sup_bot.right_neutral)
      (use assms(2) in \<open>metis Un_insert_right list.simps(15) set_append sup_bot.right_neutral empty_set\<close>)
  show "set q \<union> set as \<subseteq> set (l # as @ bs)" "set bs \<union> set r \<subseteq> set (l # as @ bs)" "p \<in> set (l # as)" "n \<in> set (l # bs)"
    using s by auto
  show "p \<notin> set q" "n \<notin> set r" using d by auto
  show "n \<notin> set as" "p \<notin> set bs" using s assms(3) by auto
qed

lemma linked_cong:
  assumes "ln_next (h' a) = ln_next (h a)" "ln_prev (h' b) = ln_prev (h b)"
  shows "linked h' (a, b) = linked h (a, b)"
  using assms by (simp add: linked_def)

text \<open>What is done between two neighbours \<open>p\<close> and \<open>n\<close> leaves the other links.\<close>

lemma segments_kept:
  assumes ends: "l # as = q @ [p]" "bs @ [l] = n # r" and d: "distinct (l # as @ bs)"
    and i: "i \<notin> set (l # as @ bs)"
    and others: "\<And>j. j \<noteq> p \<Longrightarrow> j \<noteq> i \<Longrightarrow> ln_next (h' j) = ln_next (h j)"
      "\<And>j. j \<noteq> n \<Longrightarrow> j \<noteq> i \<Longrightarrow> ln_prev (h' j) = ln_prev (h j)"
    and old: "\<forall>ab \<in> set (zip q as). linked h ab" "\<forall>ab \<in> set (zip bs r). linked h ab"
  shows "\<forall>ab \<in> set (zip q as). linked h' ab" "\<forall>ab \<in> set (zip bs r). linked h' ab"
proof -
  note s = segment_ends[OF ends d]
  have kept: "linked h' (a, b)" if "linked h (a, b)" "a \<noteq> p" "a \<noteq> i" "b \<noteq> n" "b \<noteq> i" for a b
    using that others linked_cong[of h' a h b] by simp
  have "linked h' (a, b)" if ab: "(a, b) \<in> set (zip q as)" for a b
  proof -
    have "a \<in> set q" "b \<in> set as" using set_zip_leftD[OF ab] set_zip_rightD[OF ab] by auto
    then show ?thesis using kept[of a b] old(1) ab s(1-3) i by (metis Un_iff subsetD)
  qed
  then show "\<forall>ab \<in> set (zip q as). linked h' ab" by auto
  have "linked h' (a, b)" if ab: "(a, b) \<in> set (zip bs r)" for a b
  proof -
    have "a \<in> set bs" "b \<in> set r" using set_zip_leftD[OF ab] set_zip_rightD[OF ab] by auto
    then show ?thesis using kept[of a b] old(2) ab s(4-6) i by (metis Un_iff subsetD)
  qed
  then show "\<forall>ab \<in> set (zip bs r). linked h' ab" by auto
qed

lemma list_at_insert:
  assumes h: "list_at h l (as @ bs)" and i: "i \<notin> set (l # as @ bs)"
    and ends: "l # as = q @ [p]" "bs @ [l] = n # r"
  shows "list_at (list_add_between p n i h) l (as @ i # bs)"
proof -
  have d: "distinct (l # as @ bs)" using h by (simp add: list_at_def)
  note s = segment_ends[OF ends d]
  let ?h = "list_add_between p n i h"
  have ne: "i \<noteq> p" "i \<noteq> n" using s(7,8) i by auto
  have new: "linked ?h (p, i)" "linked ?h (i, n)"
    using ne by (auto simp: linked_def list_add_between_def set_next_def set_prev_def)
  have "\<forall>ab \<in> set (zip q as). linked ?h ab" "\<forall>ab \<in> set (zip bs r). linked ?h ab"
    using segments_kept[OF ends d i, of ?h h] h[unfolded list_at_split[OF ends]]
    by (auto simp: list_add_between_def set_next_def set_prev_def)
  then show ?thesis using d i new unfolding list_at_split_one[OF ends] by auto
qed

lemma list_at_remove:
  assumes h: "list_at h l (as @ i # bs)"
  shows "\<exists>h'. list_remove i h = Some h' \<and> list_at h' l (as @ bs) \<and> list_null i h' \<and>
    (\<forall>j. j \<notin> set (l # as @ i # bs) \<longrightarrow> h' j = h j)"
proof -
  obtain q p where q: "l # as = q @ [p]" by (metis list.distinct(1) rev_exhaust)
  obtain n r where r: "bs @ [l] = n # r" by (metis append_is_Nil_conv list.distinct(1) list.exhaust)
  have d: "distinct (l # as @ bs)" "i \<notin> set (l # as @ bs)" using h by (auto simp: list_at_def)
  note s = segment_ends[OF q r d(1)] and split = h[unfolded list_at_split_one[OF q r]]
  have ne: "i \<noteq> p" "i \<noteq> n" using s(7,8) d(2) by auto
  define h' where "h' = set_next i None (set_prev i None (set_prev n (Some p) (set_next p (Some n) h)))"
  have run: "list_remove i h = Some h'"
    using split ne by (auto simp: list_remove_def h'_def linked_def Let_def set_next_def set_prev_def)
  have new: "linked h' (p, n)" using ne by (auto simp: linked_def h'_def set_next_def set_prev_def)
  have "\<forall>ab \<in> set (zip q as). linked h' ab" "\<forall>ab \<in> set (zip bs r). linked h' ab"
    using segments_kept[OF q r d, of h' h] split by (auto simp: h'_def set_next_def set_prev_def)
  then have "list_at h' l (as @ bs)" using d(1) new unfolding list_at_split[OF q r] by auto
  moreover have "list_null i h'" by (simp add: h'_def list_null_def set_next_def set_prev_def)
  moreover have "h' j = h j" if "j \<notin> set (l # as @ i # bs)" for j
    using that s(7,8) by (auto simp: h'_def set_next_def set_prev_def)
  ultimately show ?thesis using run by blast
qed

lemma list_at_frame:
  assumes "list_at h l xs" "\<And>j. j \<in> set (l # xs) \<Longrightarrow> h' j = h j"
  shows "list_at h' l xs"
proof -
  have "linked h' (a, b) = linked h (a, b)" if "(a, b) \<in> set (zip (l # xs) (xs @ [l]))" for a b
    using assms(2)[of a] assms(2)[of b] set_zip_leftD[OF that] set_zip_rightD[OF that]
    by (intro linked_cong) auto
  then show ?thesis using assms(1) by (auto simp: list_at_def)
qed

lemma list_walk_at:
  assumes "l \<notin> set zs" "\<forall>ab \<in> set (zip zs (tl (zs @ [l]))). linked h ab" "length zs \<le> fuel"
  shows "list_walk fuel l (Some (hd (zs @ [l]))) h = Some zs"
  using assms
proof (induction zs arbitrary: fuel)
  case Nil
  then show ?case by (cases fuel) auto
next
  case (Cons z zs)
  then obtain f where f: "fuel = Suc f" "length zs \<le> f" by (cases fuel) auto
  have next_z: "linked h (z, hd (zs @ [l]))" using Cons.prems(2) by (cases zs) auto
  have "list_walk f l (Some (hd (zs @ [l]))) h = Some zs"
    using Cons.prems f by (intro Cons.IH) (auto simp: hd_append split: if_splits, cases zs, auto)
  then show ?case using next_z f Cons.prems(1) by (simp add: linked_def)
qed

lemma list_for_each_at:
  assumes "list_at h l xs" "length xs \<le> fuel"
  shows "list_for_each fuel l h = Some xs"
proof -
  have "linked h (l, hd (xs @ [l]))" "\<forall>ab \<in> set (zip xs (tl (xs @ [l]))). linked h ab" "l \<notin> set xs"
    using assms(1) by (cases xs; auto simp: list_at_def)+
  then show ?thesis using list_walk_at[of l xs h fuel] assms(2) by (simp add: list_for_each_def linked_def)
qed

lemma list_empty_at: "list_at h l xs \<Longrightarrow> list_empty l h \<longleftrightarrow> xs = []"
  by (cases xs) (auto simp: list_at_def list_empty_def list_null_def linked_def)

subsection \<open>Calls on many lists\<close>

text \<open>What callers do with lists that share one memory, and what it means: the lists by
the name of their heads, and the nodes known to be null.\<close>

datatype list_call =
    Call_init nat
  | Call_add nat nat
  | Call_add_before nat nat
  | Call_init_add nat nat
  | Call_remove nat
  | Call_remove_safe nat

fun run_list_call :: "list_call \<Rightarrow> links \<Rightarrow> links option" where
  "run_list_call (Call_init l) h = Some (list_init l h)"
| "run_list_call (Call_add l i) h = list_add l i h"
| "run_list_call (Call_add_before l i) h = list_add_before l i h"
| "run_list_call (Call_init_add l i) h = list_init_add l i h"
| "run_list_call (Call_remove i) h = list_remove i h"
| "run_list_call (Call_remove_safe i) h = list_remove_safe i h"

fun run_list_calls :: "list_call list \<Rightarrow> links \<Rightarrow> links option" where
  "run_list_calls [] h = Some h"
| "run_list_calls (c # cs) h = Option.bind (run_list_call c h) (run_list_calls cs)"

type_synonym lists = "(nat \<times> nat list) list \<times> nat list"

definition list_nodes :: "(nat \<times> nat list) list \<Rightarrow> nat list" where
  "list_nodes ls = concat (map (\<lambda>(l, xs). l # xs) ls)"

definition change_list :: "nat \<Rightarrow> (nat list \<Rightarrow> nat list) \<Rightarrow> (nat \<times> nat list) list \<Rightarrow> (nat \<times> nat list) list" where
  "change_list l f ls = map (\<lambda>(m, xs). (m, if m = l then f xs else xs)) ls"

definition put_in :: "nat \<Rightarrow> nat \<Rightarrow> (nat list \<Rightarrow> nat list) \<Rightarrow> lists \<Rightarrow> lists" where
  "put_in l i f s = (change_list l f (fst s), removeAll i (snd s))"

definition take_out :: "nat \<Rightarrow> lists \<Rightarrow> lists" where
  "take_out i s = (map (\<lambda>(l, xs). (l, remove1 i xs)) (fst s), i # snd s)"

definition new_list :: "nat \<Rightarrow> lists \<Rightarrow> lists" where
  "new_list l s = ((l, []) # fst s, removeAll l (snd s))"

fun list_call_does :: "list_call \<Rightarrow> lists \<Rightarrow> lists" where
  "list_call_does (Call_init l) s = new_list l s"
| "list_call_does (Call_add l i) s = put_in l i ((#) i) s"
| "list_call_does (Call_add_before l i) s = put_in l i (\<lambda>xs. xs @ [i]) s"
| "list_call_does (Call_init_add l i) s = put_in l i ((#) i) (if l \<in> set (snd s) then new_list l s else s)"
| "list_call_does (Call_remove i) s = take_out i s"
| "list_call_does (Call_remove_safe i) s = (if i \<in> set (snd s) then s else take_out i s)"

text \<open>What the callers see to: an element is in one list at most.\<close>

fun list_call_valid :: "list_call \<Rightarrow> lists \<Rightarrow> bool" where
  "list_call_valid (Call_init l) s \<longleftrightarrow> l \<notin> set (list_nodes (fst s))"
| "list_call_valid (Call_add l i) s \<longleftrightarrow> l \<in> fst ` set (fst s) \<and> i \<notin> set (list_nodes (fst s))"
| "list_call_valid (Call_add_before l i) s \<longleftrightarrow> l \<in> fst ` set (fst s) \<and> i \<notin> set (list_nodes (fst s))"
| "list_call_valid (Call_init_add l i) s \<longleftrightarrow>
    (l \<in> set (snd s) \<or> l \<in> fst ` set (fst s)) \<and> i \<noteq> l \<and> i \<notin> set (list_nodes (fst s))"
| "list_call_valid (Call_remove i) s \<longleftrightarrow> (\<exists>(l, xs) \<in> set (fst s). i \<in> set xs)"
| "list_call_valid (Call_remove_safe i) s \<longleftrightarrow> i \<in> set (snd s) \<or> (\<exists>(l, xs) \<in> set (fst s). i \<in> set xs)"

fun list_calls_do :: "list_call list \<Rightarrow> lists \<Rightarrow> lists" where
  "list_calls_do [] s = s"
| "list_calls_do (c # cs) s = list_calls_do cs (list_call_does c s)"

fun list_calls_valid :: "list_call list \<Rightarrow> lists \<Rightarrow> bool" where
  "list_calls_valid [] s = True"
| "list_calls_valid (c # cs) s \<longleftrightarrow> list_call_valid c s \<and> list_calls_valid cs (list_call_does c s)"

definition lists_ok :: "links \<Rightarrow> lists \<Rightarrow> bool" where
  "lists_ok h s \<longleftrightarrow> (\<forall>(l, xs) \<in> set (fst s). list_at h l xs) \<and> distinct (list_nodes (fst s)) \<and>
    (\<forall>i \<in> set (snd s). list_null i h)"

lemma list_nodes_simps [simp]:
  "list_nodes [] = []"
  "list_nodes ((l, xs) # ls) = l # xs @ list_nodes ls"
  "list_nodes (ls @ ms) = list_nodes ls @ list_nodes ms"
  by (simp_all add: list_nodes_def)

lemma in_list_nodes: "(l, xs) \<in> set ls \<Longrightarrow> set (l # xs) \<subseteq> set (list_nodes ls)"
  by (force simp: list_nodes_def)

lemma list_at_not_null:
  assumes "list_at h l xs" "j \<in> set (l # xs)"
  shows "\<not> list_null j h"
proof -
  have "length (l # xs) = length (xs @ [l])" by simp
  then obtain b where "(j, b) \<in> set (zip (l # xs) (xs @ [l]))"
    using assms(2) by (metis in_set_impl_in_set_zip1)
  then show ?thesis using assms(1) by (fastforce simp: list_at_def linked_def list_null_def)
qed

lemma lists_ok_at:
  "lists_ok h (ls, zs) \<Longrightarrow> (l, xs) \<in> set ls \<Longrightarrow> list_at h l xs"
  by (auto simp: lists_ok_def)

text \<open>One list is changed, and the node that comes or goes.\<close>

lemma lists_ok_step:
  assumes ok: "lists_ok h (as @ (l, xs) # bs, zs)" and ys: "list_at h' l ys" "set ys \<subseteq> insert i (set xs)"
    and frame: "\<And>j. j \<notin> set (l # xs) \<Longrightarrow> j \<noteq> i \<Longrightarrow> h' j = h j"
    and i: "i \<notin> set (list_nodes (as @ bs))"
    and null: "\<forall>j \<in> set zs'. if j = i then list_null i h' else j \<in> set zs"
  shows "lists_ok h' (as @ (l, ys) # bs, zs')"
proof -
  have d: "distinct (list_nodes (as @ (l, xs) # bs))" and x: "list_at h l xs" using ok by (auto simp: lists_ok_def)
  have "list_at h' m ms" if m: "(m, ms) \<in> set (as @ bs)" for m ms
  proof (rule list_at_frame)
    show "list_at h m ms" using ok m by (auto simp: lists_ok_def)
    fix j assume "j \<in> set (m # ms)"
    then have "j \<in> set (list_nodes (as @ bs))" using in_list_nodes[OF m] by blast
    then show "h' j = h j" using d i frame[of j] by auto
  qed
  moreover have "distinct (list_nodes (as @ (l, ys) # bs))"
    using d i ys by (auto simp: list_at_def)
  moreover have "list_null j h'" if "j \<in> set zs'" for j
  proof (cases "j = i")
    case False
    then have "list_null j h" using null ok that by (auto simp: lists_ok_def)
    moreover from this have "h' j = h j" using frame[of j] list_at_not_null[OF x, of j] False by blast
    ultimately show ?thesis by (simp add: list_null_def)
  qed (use null that in auto)
  ultimately show ?thesis using ys(1) by (auto simp: lists_ok_def)
qed

lemma between_frame: "j \<noteq> p \<Longrightarrow> j \<noteq> n \<Longrightarrow> j \<noteq> i \<Longrightarrow> list_add_between p n i h j = h j"
  by (simp add: list_add_between_def set_next_def set_prev_def)

lemma list_add_at:
  assumes "list_at h l xs" "i \<notin> set (l # xs)"
  shows "\<exists>h'. list_add l i h = Some h' \<and> list_at h' l (i # xs) \<and> (\<forall>j. j \<notin> set (l # xs) \<longrightarrow> j \<noteq> i \<longrightarrow> h' j = h j)"
proof -
  obtain n r where r: "xs @ [l] = n # r" by (metis append_is_Nil_conv list.distinct(1) list.exhaust)
  have n: "n \<in> set (l # xs)" using r by (cases xs) auto
  have "ln_next (h l) = Some n"
    using list_at_split[of l "[]" "[]" l xs n r h] assms(1) r by (simp add: linked_def)
  moreover have "list_at (list_add_between l n i h) l (i # xs)"
    using list_at_insert[of h l "[]" xs i "[]" l n r] assms r by simp
  ultimately show ?thesis using n by (auto simp: list_add_def intro: between_frame)
qed

lemma list_add_before_at:
  assumes "list_at h l xs" "i \<notin> set (l # xs)"
  shows "\<exists>h'. list_add_before l i h = Some h' \<and> list_at h' l (xs @ [i]) \<and> (\<forall>j. j \<notin> set (l # xs) \<longrightarrow> j \<noteq> i \<longrightarrow> h' j = h j)"
proof -
  obtain q p where q: "l # xs = q @ [p]" by (metis list.distinct(1) rev_exhaust)
  have p: "p \<in> set (l # xs)" using q by auto
  have "ln_prev (h l) = Some p"
    using list_at_split[of l xs q p "[]" l "[]" h] assms(1) q by (simp add: linked_def)
  moreover have "list_at (list_add_between p l i h) l (xs @ [i])"
    using list_at_insert[of h l xs "[]" i q p l "[]"] assms q by simp
  ultimately show ?thesis using p by (auto simp: list_add_before_def intro: between_frame)
qed

lemma change_list_at:
  assumes "distinct (list_nodes (as @ (l, xs) # bs))"
  shows "change_list l f (as @ (l, xs) # bs) = as @ (l, f xs) # bs"
proof -
  have "m \<noteq> l" if "(m, ms) \<in> set as \<or> (m, ms) \<in> set bs" for m ms
    using that assms in_list_nodes[of m ms as] in_list_nodes[of m ms bs] by auto
  then have "(case x of (m, xs) \<Rightarrow> (m, if m = l then f xs else xs)) = x" if "x \<in> set as \<or> x \<in> set bs" for x
    using that by (cases x) auto
  then have "map (\<lambda>(m, xs). (m, if m = l then f xs else xs)) ls = ls" if "ls = as \<or> ls = bs" for ls
    using that by (intro map_idI) blast
  then show ?thesis by (simp add: change_list_def)
qed

lemma remove_list_at:
  assumes "distinct (list_nodes (as @ (l, xs) # bs))" "i \<in> set xs"
  shows "map (\<lambda>(l, xs). (l, remove1 i xs)) (as @ (l, xs) # bs) = as @ (l, remove1 i xs) # bs"
proof -
  have "i \<notin> set ms" if "(m, ms) \<in> set as \<or> (m, ms) \<in> set bs" for m ms
    using that assms in_list_nodes[of m ms as] in_list_nodes[of m ms bs] by auto
  then have "map (\<lambda>(l, xs). (l, remove1 i xs)) ls = ls" if "ls = as \<or> ls = bs" for ls
    using that by (intro map_idI) (auto intro: remove1_idem)
  then show ?thesis by simp
qed

lemma put_in_ok:
  assumes ok: "lists_ok h s" and l: "l \<in> fst ` set (fst s)" and i: "i \<notin> set (list_nodes (fst s))"
    and put: "\<And>xs. list_at h l xs \<Longrightarrow> i \<notin> set (l # xs) \<Longrightarrow> \<exists>h'. r = Some h' \<and> list_at h' l (f xs) \<and>
        (\<forall>j. j \<notin> set (l # xs) \<longrightarrow> j \<noteq> i \<longrightarrow> h' j = h j)"
    and f: "\<And>xs. set (f xs) = insert i (set xs)"
  shows "\<exists>h'. r = Some h' \<and> lists_ok h' (put_in l i f s)"
proof -
  obtain ls zs where s: "s = (ls, zs)" by (cases s)
  obtain xs where "(l, xs) \<in> set ls" using l s by auto
  then obtain as bs where ls: "ls = as @ (l, xs) # bs" by (metis split_list)
  have "list_at h l xs" "i \<notin> set (l # xs)" using ok i s ls by (auto simp: lists_ok_def)
  from put[OF this] obtain h' where h': "r = Some h'" "list_at h' l (f xs)"
      "\<forall>j. j \<notin> set (l # xs) \<longrightarrow> j \<noteq> i \<longrightarrow> h' j = h j" by blast
  have "lists_ok h' (as @ (l, f xs) # bs, removeAll i zs)"
    using h' i ls s f by (intro lists_ok_step[OF ok[unfolded s ls], where i = i]) auto
  moreover have "change_list l f ls = as @ (l, f xs) # bs"
    using change_list_at ok s ls by (metis lists_ok_def fst_conv)
  ultimately show ?thesis using h'(1) s by (simp add: put_in_def)
qed

lemma take_out_ok:
  assumes ok: "lists_ok h s" and i: "\<exists>(l, xs) \<in> set (fst s). i \<in> set xs"
  shows "\<exists>h'. list_remove i h = Some h' \<and> lists_ok h' (take_out i s)"
proof -
  obtain ls zs where s: "s = (ls, zs)" by (cases s)
  obtain l xs where l: "(l, xs) \<in> set ls" "i \<in> set xs" using i s by auto
  then obtain as bs where ls: "ls = as @ (l, xs) # bs" by (metis split_list)
  obtain ys ws where xs: "xs = ys @ i # ws" using l(2) by (metis split_list)
  have d: "distinct (list_nodes ls)" and at: "list_at h l xs" using ok s ls by (auto simp: lists_ok_def)
  from list_at_remove[OF at[unfolded xs]] obtain h' where h': "list_remove i h = Some h'"
      "list_at h' l (ys @ ws)" "list_null i h'" "\<And>j. j \<notin> set (l # xs) \<Longrightarrow> h' j = h j" unfolding xs by blast
  have "lists_ok h' (as @ (l, ys @ ws) # bs, i # zs)"
    using h' d ls xs s by (intro lists_ok_step[OF ok[unfolded s ls], where i = i]) auto
  moreover have "remove1 i xs = ys @ ws" using d ls xs by (auto simp: remove1_append)
  ultimately show ?thesis using h'(1) remove_list_at[of as l xs bs i] d l(2) ls s by (simp add: take_out_def)
qed

lemma new_list_ok:
  assumes "lists_ok h s" "l \<notin> set (list_nodes (fst s))"
  shows "lists_ok (list_init l h) (new_list l s)"
proof -
  have frame: "list_init l h j = h j" if "j \<noteq> l" for j
    using that by (simp add: list_init_def set_next_def set_prev_def)
  have "list_at (list_init l h) l []"
    by (simp add: list_at_def linked_def list_init_def set_next_def set_prev_def)
  moreover have "list_at (list_init l h) m ms" if m: "(m, ms) \<in> set (fst s)" for m ms
  proof (rule list_at_frame)
    show "list_at h m ms" using assms(1) m by (auto simp: lists_ok_def)
    show "list_init l h j = h j" if "j \<in> set (m # ms)" for j
      using that in_list_nodes[OF m] assms(2) by (intro frame) blast
  qed
  moreover have "list_null j (list_init l h)" if "j \<in> set (removeAll l (snd s))" for j
    using that assms(1) frame[of j] by (simp add: lists_ok_def list_null_def)
  moreover have "distinct (l # list_nodes (fst s))" using assms by (simp add: lists_ok_def)
  ultimately show ?thesis by (simp add: lists_ok_def new_list_def split_beta)
qed

lemma nodes_not_null:
  assumes "lists_ok h s" "i \<in> set (list_nodes (fst s))"
  shows "\<not> list_null i h"
proof -
  obtain l xs where "(l, xs) \<in> set (fst s)" "i \<in> set (l # xs)" using assms(2) by (auto simp: list_nodes_def)
  then show ?thesis using assms(1) list_at_not_null[of h l xs i] by (auto simp: lists_ok_def)
qed

lemma null_not_in: "lists_ok h s \<Longrightarrow> i \<in> set (snd s) \<Longrightarrow> i \<notin> set (list_nodes (fst s))"
  using nodes_not_null[of h s i] by (auto simp: lists_ok_def)

lemma head_in_nodes: "l \<in> fst ` set ls \<Longrightarrow> l \<in> set (list_nodes ls)"
  by (force simp: list_nodes_def)

lemma init_add_ok:
  assumes ok: "lists_ok h s" and c: "list_call_valid (Call_init_add l i) s"
  shows "\<exists>h'. list_init_add l i h = Some h' \<and> lists_ok h' (list_call_does (Call_init_add l i) s)"
proof -
  define s' where "s' = (if l \<in> set (snd s) then new_list l s else s)"
  have null: "list_null l h \<longleftrightarrow> l \<in> set (snd s)"
    using c ok nodes_not_null[OF ok head_in_nodes[of l "fst s"]]
    by (fastforce simp: lists_ok_def simp del: list_nodes_simps)
  have "lists_ok (if list_null l h then list_init l h else h) s'"
    using ok new_list_ok[OF ok] null_not_in[OF ok, of l] by (simp add: null s'_def)
  moreover have "l \<in> fst ` set (fst s')" "i \<notin> set (list_nodes (fst s'))"
    using c by (auto simp: s'_def new_list_def)
  ultimately show ?thesis
    using put_in_ok[of _ s' l i _ "(#) i", OF _ _ _ list_add_at] by (simp add: list_init_add_def s'_def)
qed

lemma list_call_ok:
  assumes ok: "lists_ok h s" and c: "list_call_valid c s"
  shows "\<exists>h'. run_list_call c h = Some h' \<and> lists_ok h' (list_call_does c s)"
proof (cases c)
  case (Call_init_add l i)
  then show ?thesis using init_add_ok[OF ok, of l i] c by simp
next
  case (Call_remove_safe i)
  then show ?thesis
  proof (cases "i \<in> set (snd s)")
    case True
    then have "list_null i h" using ok by (auto simp: lists_ok_def)
    then show ?thesis using True ok by (simp add: Call_remove_safe list_remove_safe_def)
  next
    case False
    then have e: "\<exists>(l, xs) \<in> set (fst s). i \<in> set xs" using c Call_remove_safe by simp
    then have "i \<in> set (list_nodes (fst s))" using in_list_nodes by fastforce
    then show ?thesis using False take_out_ok[OF ok e] nodes_not_null[OF ok, of i]
      by (simp add: Call_remove_safe list_remove_safe_def)
  qed
next
  case (Call_add l i)
  then show ?thesis using put_in_ok[OF ok, of l i "list_add l i h" "(#) i", OF _ _ list_add_at] c by simp
next
  case (Call_add_before l i)
  then show ?thesis
    using put_in_ok[OF ok, of l i "list_add_before l i h" "\<lambda>xs. xs @ [i]", OF _ _ list_add_before_at] c by simp
next
  case (Call_remove i)
  then show ?thesis using take_out_ok[OF ok, of i] c by simp
next
  case (Call_init l)
  then show ?thesis using new_list_ok[OF ok, of l] c by simp
qed

lemma list_calls_ok:
  "lists_ok h s \<Longrightarrow> list_calls_valid cs s \<Longrightarrow>
    \<exists>h'. run_list_calls cs h = Some h' \<and> lists_ok h' (list_calls_do cs s)"
proof (induction cs arbitrary: h s)
  case (Cons c cs)
  then obtain h' where "run_list_call c h = Some h'" "lists_ok h' (list_call_does c s)"
    using list_call_ok[of h s c] by auto
  then show ?case using Cons.IH[of h' "list_call_does c s"] Cons.prems by simp
qed simp

text \<open>C40. Whatever valid sequence of list_init, list_add, list_add_before, list_init_add,
list_remove and list_remove_safe is run on lists that share one memory: no null pointer is
followed, and what list_for_each goes through, list_size counts and list_empty answers
afterwards is what the same calls do to lists that are sequences. A node is null after it was
removed.\<close>

theorem lists_are_sequences:
  assumes "\<forall>i \<in> set zeroed. list_null i h" "list_calls_valid cs ([], zeroed)"
  shows "\<exists>h'. run_list_calls cs h = Some h' \<and>
    (\<forall>i \<in> set (snd (list_calls_do cs ([], zeroed))). list_null i h') \<and>
    (\<forall>(l, xs) \<in> set (fst (list_calls_do cs ([], zeroed))).
      (list_empty l h' \<longleftrightarrow> xs = []) \<and>
      (\<forall>fuel \<ge> length xs. list_for_each fuel l h' = Some xs \<and> list_size fuel l h' = Some (length xs)))"
proof -
  have "lists_ok h ([], zeroed)" using assms(1) by (simp add: lists_ok_def)
  from list_calls_ok[OF this assms(2)] obtain h' where h': "run_list_calls cs h = Some h'"
      "lists_ok h' (list_calls_do cs ([], zeroed))" by blast
  have at: "list_at h' l xs" if "(l, xs) \<in> set (fst (list_calls_do cs ([], zeroed)))" for l xs
    using h'(2) that by (auto simp: lists_ok_def)
  have "(list_empty l h' \<longleftrightarrow> xs = []) \<and>
      (\<forall>fuel \<ge> length xs. list_for_each fuel l h' = Some xs \<and> list_size fuel l h' = Some (length xs))"
    if "(l, xs) \<in> set (fst (list_calls_do cs ([], zeroed)))" for l xs
    using list_empty_at[OF at[OF that]] list_for_each_at[OF at[OF that]] by (simp add: list_size_def)
  then show ?thesis using h' by (intro exI[of _ h']) (auto simp: lists_ok_def)
qed

definition no_links :: links where
  "no_links = (\<lambda>_. \<lparr>ln_next = None, ln_prev = None\<rparr>)"

definition list_calls_demo :: "list_call list" where
  "list_calls_demo =
    [Call_init 0, Call_add 0 10, Call_add 0 11, Call_add_before 0 12, Call_init_add 1 20,
     Call_remove 10, Call_add_before 1 10, Call_remove_safe 30]"

theorem lists_are_sequences_witness:
  "\<exists>h. run_list_calls list_calls_demo no_links = Some h \<and> list_for_each 2 0 h = Some [11, 12] \<and>
    list_for_each 2 1 h = Some [20, 10]"
proof -
  have "list_calls_do list_calls_demo ([], [1, 30]) = ([(1, [20, 10]), (0, [11, 12])], [30])"
    by (simp add: list_calls_demo_def new_list_def put_in_def take_out_def change_list_def)
  moreover have "list_calls_valid list_calls_demo ([], [1, 30])"
    by (simp add: list_calls_demo_def new_list_def put_in_def take_out_def change_list_def)
  ultimately show ?thesis
    using lists_are_sequences[of "[1, 30]" no_links list_calls_demo] by (fastforce simp: no_links_def list_null_def)
qed

subsection \<open>Waiting\<close>

text \<open>A loop that waits until something is ready gets the list of what the other threads do
while it sleeps: one element for each time it is woken. \<open>None\<close> is a call that is still asleep
when they have done all that.\<close>

text \<open>\<open>wait_for\<close> is interrupted by a signal that is pending before or after the
sleep. The result is true for the loop that ends because it is ready.\<close>

fun wait_until ::
  "('s \<Rightarrow> bool) \<Rightarrow> ('s \<Rightarrow> bool) \<Rightarrow> ('s \<Rightarrow> 's) list \<Rightarrow> 's \<Rightarrow> (bool \<times> 's) option"
where
  "wait_until ready pending others s =
    (if ready s then Some (True, s)
     else if pending s then Some (False, s)
     else case others of
            [] \<Rightarrow> None
          | other # others \<Rightarrow>
              if pending (other s) then Some (False, other s)
              else wait_until ready pending others (other s))"

lemmas [simp del] = wait_until.simps

definition task_pending :: "kern \<Rightarrow> bool" where
  "task_pending k \<longleftrightarrow> t_pending (cur_task k) \<noteq> 0"

lemma wait_until_ready [simp]: "ready s \<Longrightarrow> wait_until ready pending others s = Some (True, s)"
  by (simp add: wait_until.simps)

lemma wait_until_result:
  "wait_until ready pending others s = Some (b, s') \<Longrightarrow> if b then ready s' else pending s'"
  by (induction ready pending others s rule: wait_until.induct)
    (subst (asm) (2) wait_until.simps, auto split: if_splits list.splits)

lemma wait_until_keeps:
  assumes "wait_until ready pending others s = Some (b, s')" "P s" "\<And>f x. f \<in> set others \<Longrightarrow> P x \<Longrightarrow> P (f x)"
  shows "P s'"
  using assms
  by (induction ready pending others s rule: wait_until.induct)
    (subst (asm) (2) wait_until.simps, auto split: if_splits list.splits)

end
