(* ===== verification/Tty.thy ===== *)
theory Tty
  imports Utilities
begin

text \<open>
  Terminals (\<open>src/fs/tty.c\<close>): the line discipline between what is typed and what
  a process reads, and the sessions that terminals belong to. A terminal is the
  record \<open>tty\<close>; its reference count is in \<open>k_ttys\<close> of the kernel, which \<open>fork\<close>
  changes as well. The driver (the terminal of the host) is a parameter where it
  is opened; what it is given to write is collected in \<open>tt_out\<close>. \<open>tt_wakes\<close>
  counts the calls of \<open>tty_wake\<close>. The type \<open>char\<close> is signed.
\<close>

subsection \<open>State\<close>

record winsize =
  ws_row :: word_t
  ws_col :: word_t
  ws_xpixel :: word_t
  ws_ypixel :: word_t

record termios =
  ts_iflags :: dword_t
  ts_oflags :: dword_t
  ts_cflags :: dword_t
  ts_lflags :: dword_t
  ts_line :: byte_t
  ts_cc :: "nat \<Rightarrow> byte_t"

abbreviation (input) VINTR :: nat where "VINTR \<equiv> 0"
abbreviation (input) VERASE :: nat where "VERASE \<equiv> 2"
abbreviation (input) VKILL :: nat where "VKILL \<equiv> 3"
abbreviation (input) VEOF :: nat where "VEOF \<equiv> 4"
abbreviation (input) VTIME :: nat where "VTIME \<equiv> 5"
abbreviation (input) VMIN :: nat where "VMIN \<equiv> 6"
abbreviation (input) VSTART :: nat where "VSTART \<equiv> 8"
abbreviation (input) VSTOP :: nat where "VSTOP \<equiv> 9"
abbreviation (input) VEOL :: nat where "VEOL \<equiv> 11"

abbreviation (input) ISIG :: dword_t where "ISIG \<equiv> 0x1"
abbreviation (input) ICANON :: dword_t where "ICANON \<equiv> 0x2"
abbreviation (input) ECHO :: dword_t where "ECHO \<equiv> 0x8"
abbreviation (input) ECHOE :: dword_t where "ECHOE \<equiv> 0x10"
abbreviation (input) ECHOK :: dword_t where "ECHOK \<equiv> 0x20"
abbreviation (input) ECHOCTL :: dword_t where "ECHOCTL \<equiv> 0x200"
abbreviation (input) INLCR :: dword_t where "INLCR \<equiv> 0x40"
abbreviation (input) IGNCR :: dword_t where "IGNCR \<equiv> 0x80"
abbreviation (input) ICRNL :: dword_t where "ICRNL \<equiv> 0x100"
abbreviation (input) OPOST :: dword_t where "OPOST \<equiv> 0x1"
abbreviation (input) ONLCR :: dword_t where "ONLCR \<equiv> 0x4"
abbreviation (input) OCRNL :: dword_t where "OCRNL \<equiv> 0x8"
abbreviation (input) ONLRET :: dword_t where "ONLRET \<equiv> 0x20"

abbreviation (input) TTY_VIRTUAL :: nat where "TTY_VIRTUAL \<equiv> 0"
abbreviation (input) TTY_PSEUDO :: nat where "TTY_PSEUDO \<equiv> 1"
abbreviation (input) TTY_BUF_SIZE :: nat where "TTY_BUF_SIZE \<equiv> 4096"

record tty =
  tt_buf :: "nat \<Rightarrow> byte_t"
  tt_flag :: "nat \<Rightarrow> bool"
  tt_bufsize :: nat
  tt_winsize :: winsize
  tt_termios :: termios
  tt_type :: nat
  tt_num :: nat
  tt_session :: dword_t
  tt_fg_group :: dword_t
  tt_fds :: "nat list"
  tt_out :: "byte_t list"
  tt_wakes :: nat

abbreviation (input) NL :: byte_t where "NL \<equiv> 10"
abbreviation (input) CR :: byte_t where "CR \<equiv> 13"

text \<open>A \<open>char\<close> against a control character, which is an unsigned \<open>char\<close>.\<close>

definition is_cc :: "nat \<Rightarrow> byte_t \<Rightarrow> tty \<Rightarrow> bool" where
  "is_cc v ch y \<longleftrightarrow> sint ch = uint (ts_cc (tt_termios y) v)"

definition lflag :: "dword_t \<Rightarrow> tty \<Rightarrow> bool" where
  "lflag f y \<longleftrightarrow> has (ts_lflags (tt_termios y)) f"

definition iflag :: "dword_t \<Rightarrow> tty \<Rightarrow> bool" where
  "iflag f y \<longleftrightarrow> has (ts_iflags (tt_termios y)) f"

definition driver_write :: "byte_t list \<Rightarrow> tty \<Rightarrow> tty" where
  "driver_write bs y = y\<lparr>tt_out := tt_out y @ bs\<rparr>"

subsection \<open>Input\<close>

definition tty_wake :: "tty \<Rightarrow> tty" where
  "tty_wake y = y\<lparr>tt_wakes := Suc (tt_wakes y)\<rparr>"

definition tty_push_char :: "byte_t \<Rightarrow> bool \<Rightarrow> tty \<Rightarrow> tty" where
  "tty_push_char ch flag y =
    (if tt_bufsize y \<ge> TTY_BUF_SIZE then y
     else y\<lparr>tt_buf := (tt_buf y)(tt_bufsize y := ch), tt_flag := (tt_flag y)(tt_bufsize y := flag),
            tt_bufsize := Suc (tt_bufsize y)\<rparr>)"

definition SHOULD_ECHOCTL :: "byte_t \<Rightarrow> tty \<Rightarrow> bool" where
  "SHOULD_ECHOCTL ch y \<longleftrightarrow> lflag ECHOCTL y \<and> (sint ch < 32 \<or> ch = 0x7f) \<and>
     \<not> (ch = 9 \<or> ch = NL \<or> is_cc VSTART ch y \<or> is_cc VSTOP ch y)"

text \<open>The search for interrupt characters. Each one drops what came before it, and
sets the index to 0, which the loop then increments. The result is the rest of
the input and how many were found.\<close>

function isig_loop :: "tty \<Rightarrow> byte_t list \<Rightarrow> nat \<Rightarrow> nat \<Rightarrow> byte_t list \<times> nat" where
  "isig_loop y input i n =
    (if i < length input
     then if is_cc VINTR (input ! i) y then isig_loop y (drop (i + 1) input) 1 (n + 1)
          else isig_loop y input (i + 1) n
     else (input, n))"
  by auto
termination
  by (relation "measure (\<lambda>(y, input, i, n). length input - i)") auto

declare isig_loop.simps [simp del]

text \<open>Deleting up to \<open>n\<close> characters, not past a flag.\<close>

fun erase_loop :: "nat \<Rightarrow> bool \<Rightarrow> tty \<Rightarrow> tty" where
  "erase_loop 0 echo y = y"
| "erase_loop (Suc n) echo y =
    (if tt_flag y (tt_bufsize y - 1) then y
     else (let y = y\<lparr>tt_bufsize := tt_bufsize y - 1\<rparr>;
               y = (if echo then driver_write [8, 32, 8] y else y);
               y = (if echo \<and> SHOULD_ECHOCTL (tt_buf y (tt_bufsize y)) y then driver_write [8, 32, 8] y else y)
           in erase_loop n echo y))"

definition canon_wake :: "byte_t \<Rightarrow> tty \<Rightarrow> tty" where
  "canon_wake ch y = tty_wake (tty_push_char ch True y)"

definition echo_char :: "byte_t \<Rightarrow> tty \<Rightarrow> tty" where
  "echo_char ch y =
    (if SHOULD_ECHOCTL ch y then driver_write [ch XOR 0x40] (driver_write [0x5e] y) else driver_write [ch] y)"

definition map_input :: "byte_t \<Rightarrow> tty \<Rightarrow> byte_t" where
  "map_input ch y =
    (if iflag INLCR y \<and> ch = NL then CR else if iflag ICRNL y \<and> ch = CR then NL else ch)"

definition canon_char :: "byte_t \<Rightarrow> tty \<Rightarrow> tty" where
  "canon_char ch y =
    (let echo = lflag ECHO y; ch = map_input ch y
     in if iflag IGNCR y \<and> ch = CR then y
        else if is_cc VERASE ch y \<or> is_cc VKILL ch y
        then (let one = is_cc VERASE ch y \<and> tt_bufsize y > 0;
                  echo = ((if one then lflag ECHOE y else lflag ECHOK y) \<and> lflag ECHO y)
              in erase_loop (if one then 1 else tt_bufsize y) echo y)
        else if is_cc VEOF ch y then canon_wake 0 y
        else if ch = NL \<or> is_cc VEOL ch y
        then canon_wake ch (if echo then driver_write [13, 10] y else y)
        else (let y = tty_push_char ch False y in if echo then echo_char ch y else y))"

text \<open>Without line editing the input is copied behind what the buffer holds. The
first result is false when the copy leaves the buffer: the room for it is
computed without sign, and is huge when the buffer is full.\<close>

definition raw_input :: "byte_t list \<Rightarrow> tty \<Rightarrow> bool \<times> tty" where
  "raw_input input y =
    (let room = (if tt_bufsize y \<le> TTY_BUF_SIZE - 1 then TTY_BUF_SIZE - 1 - tt_bufsize y else 2 ^ 64 - 1);
         input = take room input
     in (tt_bufsize y + length input \<le> TTY_BUF_SIZE,
         tty_wake (y\<lparr>tt_buf := (\<lambda>i. if tt_bufsize y \<le> i \<and> i < tt_bufsize y + length input
                                   then input ! (i - tt_bufsize y) else tt_buf y i),
                     tt_bufsize := tt_bufsize y + length input\<rparr>)))"

text \<open>All terminals: \<open>ts_tty\<close> the structures, \<open>ts_slots\<close> the table by type and
number, \<open>ts_file\<close> the terminal of an open file.\<close>

record terms =
  ts_kern :: kern
  ts_tty :: "nat \<Rightarrow> tty option"
  ts_slots :: "nat \<Rightarrow> nat \<Rightarrow> nat option"
  ts_file :: "nat \<Rightarrow> nat option"
  ts_next :: nat

definition tbad :: "terms \<Rightarrow> terms" where
  "tbad s = s\<lparr>ts_kern := kbad (ts_kern s)\<rparr>"

definition upd_tty :: "nat \<Rightarrow> (tty \<Rightarrow> tty) \<Rightarrow> terms \<Rightarrow> terms" where
  "upd_tty t f s =
    (case ts_tty s t of None \<Rightarrow> tbad s | Some y \<Rightarrow> s\<lparr>ts_tty := (ts_tty s)(t \<mapsto> f y)\<rparr>)"

definition on_kern :: "(kern \<Rightarrow> kern) \<Rightarrow> terms \<Rightarrow> terms" where
  "on_kern f s = s\<lparr>ts_kern := f (ts_kern s)\<rparr>"

definition tty_input :: "nat \<Rightarrow> byte_t list \<Rightarrow> terms \<Rightarrow> int \<times> terms" where
  "tty_input t input s =
    (case ts_tty s t of
       None \<Rightarrow> (0, tbad s)
     | Some y \<Rightarrow>
         (let (input, n) = (if lflag ISIG y then isig_loop y input 0 0 else (input, 0));
              s = (if tt_fg_group y \<noteq> 0
                   then on_kern ((\<lambda>k. snd (send_group_signal (tt_fg_group y) SIGINT k)) ^^ n) s else s)
          in (0, if lflag ICANON y then upd_tty t (fold canon_char input) s
                 else (let (fits, y) = raw_input input y; s = upd_tty t (\<lambda>_. y) s
                       in if fits then s else tbad s))))"

subsection \<open>Reading and writing\<close>

definition tty_read_into_buf :: "nat \<Rightarrow> tty \<Rightarrow> byte_t list \<times> tty" where
  "tty_read_into_buf n y =
    (let rest = tt_bufsize y - n
     in (map (tt_buf y) [0..<n],
         y\<lparr>tt_buf := (\<lambda>i. if i < rest then tt_buf y (i + n) else tt_buf y i),
           tt_flag := (\<lambda>i. if i < rest then tt_flag y (i + n) else tt_flag y i),
           tt_bufsize := rest\<rparr>))"

definition tty_canon_size :: "tty \<Rightarrow> nat option" where
  "tty_canon_size y = map_option Suc (find (tt_flag y) [0..<tt_bufsize y])"

text \<open>When a read may go on, and what it then takes from the buffer. \<open>canon\<close> and \<open>vmin\<close>
are what the settings were when the call began.\<close>

definition tty_ready :: "bool \<Rightarrow> nat \<Rightarrow> tty \<Rightarrow> bool" where
  "tty_ready canon vmin y \<longleftrightarrow> (if canon then tty_canon_size y \<noteq> None else tt_bufsize y \<ge> vmin)"

definition tty_take :: "bool \<Rightarrow> nat \<Rightarrow> tty \<Rightarrow> byte_t list \<times> tty" where
  "tty_take canon bufsize y =
    (let bufsize = (if canon
           then (case tty_canon_size y of None \<Rightarrow> bufsize
                 | Some c \<Rightarrow> min bufsize (if tt_buf y (c - 1) = 0 then c - 1 else c))
           else bufsize);
         (bs, y) = tty_read_into_buf (min bufsize (tt_bufsize y)) y
     in (bs, if tt_bufsize y > 0 \<and> tt_buf y 0 = 0 \<and> tt_flag y 0 then snd (tty_read_into_buf 1 y) else y))"

definition tty_of :: "nat \<Rightarrow> terms \<Rightarrow> tty option" where
  "tty_of fd s = (case ts_file s fd of None \<Rightarrow> None | Some t \<Rightarrow> ts_tty s t)"

text \<open>A nonzero \<open>VTIME\<close> without line editing is fatal.\<close>

definition tty_read ::
  "(terms \<Rightarrow> terms) list \<Rightarrow> nat \<Rightarrow> nat \<Rightarrow> terms \<Rightarrow> ((int + byte_t list) \<times> terms) option"
where
  "tty_read others fd bufsize s =
    (if bufsize = 0 then Some (Inr [], s)
     else case ts_file s fd of
            None \<Rightarrow> Some (Inl 0, tbad s)
          | Some t \<Rightarrow>
              (case ts_tty s t of
                 None \<Rightarrow> Some (Inl 0, tbad s)
               | Some y \<Rightarrow>
                   if \<not> lflag ICANON y \<and> ts_cc (tt_termios y) VTIME \<noteq> 0 then Some (Inl 0, tbad s)
                   else (case wait_until (\<lambda>s. case ts_tty s t of None \<Rightarrow> False
                                    | Some z \<Rightarrow> tty_ready (lflag ICANON y) (unat (ts_cc (tt_termios y) VMIN)) z)
                                (\<lambda>s. task_pending (ts_kern s)) others s of
                           None \<Rightarrow> None
                         | Some (False, s) \<Rightarrow> Some (Inl EINTR, s)
                         | Some (True, s) \<Rightarrow>
                             (let (bs, y) = tty_take (lflag ICANON y) bufsize (the (ts_tty s t))
                              in Some (Inr bs, upd_tty t (\<lambda>_. y) s)))))"

definition write_char :: "byte_t \<Rightarrow> tty \<Rightarrow> tty" where
  "write_char ch y =
    (let f = (\<lambda>x. has (ts_oflags (tt_termios y)) x)
     in if ch = CR \<and> f ONLRET then y
        else if ch = CR \<and> f OCRNL then driver_write [NL] y
        else if ch = NL \<and> f ONLCR then driver_write [NL] (driver_write [CR] y)
        else driver_write [ch] y)"

definition tty_write :: "nat \<Rightarrow> byte_t list \<Rightarrow> terms \<Rightarrow> int \<times> terms" where
  "tty_write fd bs s =
    (case ts_file s fd of
       None \<Rightarrow> (0, tbad s)
     | Some t \<Rightarrow>
         (int (length bs),
          upd_tty t (\<lambda>y. if has (ts_oflags (tt_termios y)) OPOST then fold write_char bs y
                         else driver_write bs y) s))"

definition tty_poll :: "nat \<Rightarrow> terms \<Rightarrow> int" where
  "tty_poll fd s =
    (case tty_of fd s of
       None \<Rightarrow> 0
     | Some y \<Rightarrow>
         if (if lflag ICANON y then tty_canon_size y \<noteq> None else tt_bufsize y > 0) then 5 else 4)"

subsection \<open>Opening and closing\<close>

text \<open>\<open>drivers\<close> is the optional \<open>open\<close> of the two drivers.\<close>

type_synonym tty_drivers = "nat \<Rightarrow> (tty \<Rightarrow> int \<times> tty) option"

definition new_tty :: "nat \<Rightarrow> nat \<Rightarrow> tty \<Rightarrow> tty" where
  "new_tty type num garbage =
    garbage\<lparr>tt_type := type, tt_num := num, tt_fds := [], tt_winsize := \<lparr>ws_row = 0, ws_col = 0, ws_xpixel = 0, ws_ypixel = 0\<rparr>,
      tt_flag := (\<lambda>_. False), tt_bufsize := 0, tt_out := [], tt_wakes := 0\<rparr>"

definition count_tty :: "nat \<Rightarrow> int \<Rightarrow> kern \<Rightarrow> kern" where
  "count_tty t n k = k\<lparr>k_ttys := (k_ttys k)(t := nat (int (k_ttys k t) + n))\<rparr>"

definition tty_get :: "tty_drivers \<Rightarrow> tty \<Rightarrow> nat \<Rightarrow> nat \<Rightarrow> terms \<Rightarrow> (int + nat) \<times> terms" where
  "tty_get drivers garbage type num s =
    (if num \<ge> 64 then (Inl 0, tbad s)
     else case ts_slots s type num of
       Some t \<Rightarrow> (Inr t, on_kern (count_tty t 1) s)
     | None \<Rightarrow>
         (case kmalloc (ts_kern s) of
            (False, k) \<Rightarrow> (Inl ENOMEM, s\<lparr>ts_kern := k\<rparr>)
          | (True, k) \<Rightarrow>
              (let t = ts_next s; s = s\<lparr>ts_kern := k, ts_next := Suc t\<rparr>;
                   (err, y) = (case drivers type of None \<Rightarrow> (0, new_tty type num garbage)
                               | Some f \<Rightarrow> f (new_tty type num garbage))
               in if err < 0 then (Inl err, s)
                  else (Inr t, on_kern (\<lambda>k. k\<lparr>k_ttys := (k_ttys k)(t := 1)\<rparr>)
                     (s\<lparr>ts_tty := (ts_tty s)(t \<mapsto> y\<lparr>tt_session := 0, tt_fg_group := 0\<rparr>),
                        ts_slots := (ts_slots s)(type := (ts_slots s type)(num := Some t))\<rparr>)))))"

definition tty_release :: "nat \<Rightarrow> terms \<Rightarrow> terms" where
  "tty_release t s =
    (case ts_tty s t of
       None \<Rightarrow> tbad s
     | Some y \<Rightarrow>
         (let s = on_kern (count_tty t (- 1)) s
          in if k_ttys (ts_kern s) t = 0
             then s\<lparr>ts_tty := (ts_tty s)(t := None),
                    ts_slots := (ts_slots s)(tt_type y := (ts_slots s (tt_type y))(tt_num y := None))\<rparr>
             else s))"

definition tty_set_controlling :: "nat \<Rightarrow> terms \<Rightarrow> terms" where
  "tty_set_controlling t s =
    (case cur_group (ts_kern s) of
       None \<Rightarrow> tbad s
     | Some g \<Rightarrow>
         if g_tty g = None
         then upd_tty t (\<lambda>y. y\<lparr>tt_session := g_sid g, tt_fg_group := g_pgid g\<rparr>)
                (on_kern (upd_group (t_group (cur_task (ts_kern s))) (\<lambda>g. g\<lparr>g_tty := Some t\<rparr>)) s)
         else s)"

text \<open>Other device numbers than those of terminals fail an assertion.\<close>

definition tty_open :: "tty_drivers \<Rightarrow> tty \<Rightarrow> nat \<Rightarrow> nat \<Rightarrow> nat \<Rightarrow> terms \<Rightarrow> int \<times> terms" where
  "tty_open drivers garbage major minor fd s =
    (case cur_group (ts_kern s) of
       None \<Rightarrow> (0, tbad s)
     | Some g \<Rightarrow>
         (case (if major = 5 \<and> minor = 0
                then (case g_tty g of None \<Rightarrow> (Inl ENXIO, s) | Some t \<Rightarrow> (Inr t, on_kern (count_tty t 1) s))
                else if major = 4 \<and> minor < 64 then tty_get drivers garbage TTY_VIRTUAL minor s
                else if 136 \<le> major \<and> major \<le> 143 then tty_get drivers garbage TTY_PSEUDO minor s
                else (Inl 0, tbad s)) of
            (Inl err, s) \<Rightarrow> (err, s)
          | (Inr t, s) \<Rightarrow>
              (let s = upd_tty t (\<lambda>y. y\<lparr>tt_fds := fd # tt_fds y\<rparr>) (s\<lparr>ts_file := (ts_file s)(fd \<mapsto> t)\<rparr>)
               in (0, if g_sid g = t_pid (cur_task (ts_kern s)) then tty_set_controlling t s else s))))"

definition tty_close :: "nat \<Rightarrow> terms \<Rightarrow> int \<times> terms" where
  "tty_close fd s =
    (0, case ts_file s fd of
          None \<Rightarrow> s
        | Some t \<Rightarrow> tty_release t (upd_tty t (\<lambda>y. y\<lparr>tt_fds := remove1 fd (tt_fds y)\<rparr>) s))"

subsection \<open>Control\<close>

text \<open>The argument of \<open>ioctl\<close> is a number, or the bytes it points to.\<close>

definition bytes_of_termios :: "termios \<Rightarrow> byte_t list" where
  "bytes_of_termios t =
    bytes_of_dwords [ts_iflags t, ts_oflags t, ts_cflags t, ts_lflags t] @ ts_line t # map (ts_cc t) [0..<19]"

definition termios_of_bytes :: "byte_t list \<Rightarrow> termios" where
  "termios_of_bytes bs =
    (let ws = dwords_of_bytes 4 bs
     in \<lparr>ts_iflags = ws ! 0, ts_oflags = ws ! 1, ts_cflags = ws ! 2, ts_lflags = ws ! 3,
         ts_line = bs ! 16, ts_cc = (\<lambda>i. if i < 19 then bs ! (17 + i) else 0)\<rparr>)"

definition bytes_of_winsize :: "winsize \<Rightarrow> byte_t list" where
  "bytes_of_winsize w =
    concat (map (bytes_of_word 2) [ws_row w, ws_col w, ws_xpixel w, ws_ypixel w])"

definition winsize_of_bytes :: "byte_t list \<Rightarrow> winsize" where
  "winsize_of_bytes bs =
    \<lparr>ws_row = word_of_bytes (take 2 bs), ws_col = word_of_bytes (take 2 (drop 2 bs)),
     ws_xpixel = word_of_bytes (take 2 (drop 4 bs)), ws_ypixel = word_of_bytes (take 2 (drop 6 bs))\<rparr>"

definition tty_ioctl_size :: "dword_t \<Rightarrow> int" where
  "tty_ioctl_size cmd =
    (if cmd \<in> {0x5401, 0x5402, 0x5404, 0x5403} then 36
     else if cmd \<in> {0x540b, 0x540e} then 0
     else if cmd \<in> {0x540f, 0x5410} then 4
     else if cmd \<in> {0x5413, 0x5414} then 8
     else if cmd = 0x541b then 4 else - 1)"

definition tty_is_current :: "nat \<Rightarrow> terms \<Rightarrow> bool" where
  "tty_is_current t s \<longleftrightarrow> (case cur_group (ts_kern s) of None \<Rightarrow> False | Some g \<Rightarrow> g_tty g = Some t)"

definition tiocsctty :: "nat \<Rightarrow> dword_t \<Rightarrow> terms \<Rightarrow> int \<times> terms" where
  "tiocsctty t force s =
    (let k = ts_kern s
     in case (cur_group k, ts_tty s t) of
          (Some g, Some y) \<Rightarrow>
            if g_sid g = t_pid (cur_task k) \<and> g_sid g = tt_session y then (0, s)
            else if g_tty g \<noteq> None then (EPERM, s)
            else if tt_session y = 0 then (0, tty_set_controlling t s)
            else if force = 1 \<and> superuser (t_creds (cur_task k))
            then (case pid_get (tt_session y) k of
                    None \<Rightarrow> (0, tbad s)
                  | Some i \<Rightarrow>
                      (0, tty_set_controlling t
                            (on_kern (fold (\<lambda>g. upd_group g (\<lambda>x. x\<lparr>g_tty := None\<rparr>)) (p_session (k_pids k i))) s)))
            else (EPERM, s)
        | _ \<Rightarrow> (0, tbad s))"

definition tty_set_winsize :: "nat \<Rightarrow> winsize \<Rightarrow> terms \<Rightarrow> terms" where
  "tty_set_winsize t w s =
    (let s = upd_tty t (\<lambda>y. y\<lparr>tt_winsize := w\<rparr>) s
     in case ts_tty s t of
          None \<Rightarrow> s
        | Some y \<Rightarrow>
            if tt_fg_group y \<noteq> 0
            then on_kern (\<lambda>k. snd (send_group_signal (tt_fg_group y) SIGWINCH k)) s else s)"

text \<open>\<open>val\<close> is the argument as a number, \<open>arg\<close> the bytes it points to; the results are
the error, the bytes afterwards and the new state.\<close>

definition tty_ioctl ::
  "nat \<Rightarrow> dword_t \<Rightarrow> dword_t \<Rightarrow> byte_t list \<Rightarrow> terms \<Rightarrow> int \<times> byte_t list \<times> terms"
where
  "tty_ioctl fd cmd val arg s =
    (case ts_file s fd of
       None \<Rightarrow> (0, arg, tbad s)
     | Some t \<Rightarrow>
         (case ts_tty s t of
            None \<Rightarrow> (0, arg, tbad s)
          | Some y \<Rightarrow>
              if cmd = 0x5401 then (0, bytes_of_termios (tt_termios y), s)
              else if cmd = 0x5404
              then (0, arg, upd_tty t (\<lambda>y. y\<lparr>tt_bufsize := 0, tt_termios := termios_of_bytes arg\<rparr>) s)
              else if cmd = 0x5403 \<or> cmd = 0x5402
              then (0, arg, upd_tty t (\<lambda>y. y\<lparr>tt_termios := termios_of_bytes arg\<rparr>) s)
              else if cmd = 0x540b
              then (if val = 0 \<or> val = 2 then (0, arg, upd_tty t (\<lambda>y. y\<lparr>tt_bufsize := 0\<rparr>) s)
                    else (if val = 1 then 0 else EINVAL, arg, s))
              else if cmd = 0x540e then (case tiocsctty t val s of (err, s) \<Rightarrow> (err, arg, s))
              else if cmd = 0x540f
              then (if \<not> tty_is_current t s \<or> tt_fg_group y = 0 then (ENOTTY, arg, s)
                    else (0, bytes_of_word 4 (tt_fg_group y), s))
              else if cmd = 0x5410
              then (if \<not> tty_is_current t s \<or> map_option g_sid (cur_group (ts_kern s)) \<noteq> Some (tt_session y)
                    then (ENOTTY, arg, s)
                    else (0, arg, upd_tty t (\<lambda>y. y\<lparr>tt_fg_group := word_of_bytes arg\<rparr>) s))
              else if cmd = 0x5413 then (0, bytes_of_winsize (tt_winsize y), s)
              else if cmd = 0x5414 then (0, arg, tty_set_winsize t (winsize_of_bytes arg) s)
              else if cmd = 0x541b then (0, bytes_of_word 4 (of_nat (tt_bufsize y) :: dword_t), s)
              else (0, arg, s)))"

end
