(* ===== verification/Tty_Facts.thy ===== *)
theory Tty_Facts
  imports Tty
begin

text \<open>
  The line discipline as an editor of a list. What the buffer of a terminal holds
  is a list of characters, each with the mark that ends a line (\<open>tty_text\<close>). A
  character that is typed edits the end of that list (\<open>edit\<close>): it is appended, or
  deletes characters back to the last mark.
\<close>

subsection \<open>The editor\<close>

type_synonym marked = "(byte_t \<times> bool) list"

definition tty_text :: "tty \<Rightarrow> marked" where
  "tty_text y = map (\<lambda>i. (tt_buf y i, tt_flag y i)) [0..<tt_bufsize y]"

definition append_char :: "byte_t \<Rightarrow> bool \<Rightarrow> marked \<Rightarrow> marked" where
  "append_char ch flag l = (if length l < TTY_BUF_SIZE then l @ [(ch, flag)] else l)"

definition erase_char :: "marked \<Rightarrow> marked" where
  "erase_char l = (if l \<noteq> [] \<and> \<not> snd (last l) then butlast l else l)"

definition kill_line :: "marked \<Rightarrow> marked" where
  "kill_line l = rev (dropWhile (\<lambda>c. \<not> snd c) (rev l))"

definition edit :: "tty \<Rightarrow> byte_t \<Rightarrow> marked \<Rightarrow> marked" where
  "edit y ch l =
    (let ch = map_input ch y
     in if iflag IGNCR y \<and> ch = CR then l
        else if is_cc VERASE ch y then erase_char l
        else if is_cc VKILL ch y then kill_line l
        else if is_cc VEOF ch y then append_char 0 True l
        else append_char ch (ch = NL \<or> is_cc VEOL ch y) l)"

lemma length_tty_text [simp]: "length (tty_text y) = tt_bufsize y"
  by (simp add: tty_text_def)

lemma tty_text_nth: "i < tt_bufsize y \<Longrightarrow> tty_text y ! i = (tt_buf y i, tt_flag y i)"
  by (simp add: tty_text_def)

lemma tty_text_cong:
  "tt_bufsize y = tt_bufsize z \<Longrightarrow> (\<And>i. i < tt_bufsize z \<Longrightarrow> tt_buf y i = tt_buf z i \<and> tt_flag y i = tt_flag z i) \<Longrightarrow>
   tty_text y = tty_text z"
  by (simp add: tty_text_def)

lemma tty_text_frame [simp]:
  "tty_text (driver_write bs y) = tty_text y" "tty_text (tty_wake y) = tty_text y"
  "tty_text (echo_char ch y) = tty_text y"
  by (simp_all add: tty_text_def driver_write_def tty_wake_def echo_char_def)

lemma tty_text_push [simp]:
  "tty_text (tty_push_char ch flag y) = append_char ch flag (tty_text y)"
  by (simp add: tty_push_char_def append_char_def tty_text_def)

lemma tty_text_shorter:
  "n \<le> tt_bufsize y \<Longrightarrow> tty_text (y\<lparr>tt_bufsize := n\<rparr>) = take n (tty_text y)"
  by (simp add: tty_text_def take_map)

lemma last_tty_text: "0 < tt_bufsize y \<Longrightarrow> last (tty_text y) = (tt_buf y (tt_bufsize y - 1), tt_flag y (tt_bufsize y - 1))"
  by (simp add: tty_text_def last_map last_conv_nth)

lemma kill_line_simps:
  "kill_line [] = []" "snd x \<Longrightarrow> kill_line (l @ [x]) = l @ [x]" "\<not> snd x \<Longrightarrow> kill_line (l @ [x]) = kill_line l"
  by (simp_all add: kill_line_def)

lemma erase_stuck: "erase_char l = l \<Longrightarrow> (erase_char ^^ n) l = l"
  by (induction n) simp_all

lemma erase_all: "length l \<le> n \<Longrightarrow> (erase_char ^^ n) l = kill_line l"
proof (induction n arbitrary: l)
  case (Suc n)
  show ?case
  proof (cases l rule: rev_cases)
    case Nil
    have "erase_char [] = []" by (simp add: erase_char_def)
    from erase_stuck[OF this] show ?thesis by (simp only: Nil kill_line_simps)
  next
    case (snoc ys x)
    show ?thesis
    proof (cases "snd x")
      case True
      then have "erase_char l = l" by (simp add: snoc erase_char_def)
      from erase_stuck[OF this] show ?thesis using True by (simp only: snoc kill_line_simps)
    next
      case False
      then have "erase_char l = ys" by (simp add: snoc erase_char_def)
      then show ?thesis using Suc False by (simp add: funpow_Suc_right snoc kill_line_simps del: funpow.simps)
    qed
  qed
qed (simp add: kill_line_simps)

lemma erase_step:
  assumes "0 < tt_bufsize y" "\<not> tt_flag y (tt_bufsize y - 1)"
  obtains z where "erase_loop (Suc n) echo y = erase_loop n echo z" "tt_bufsize z = tt_bufsize y - 1"
    "tty_text z = erase_char (tty_text y)"
proof -
  let ?y = "y\<lparr>tt_bufsize := tt_bufsize y - 1\<rparr>"
  let ?z = "if echo then (if SHOULD_ECHOCTL (tt_buf y (tt_bufsize y - 1)) (driver_write [8, 32, 8] ?y)
    then driver_write [8, 32, 8] (driver_write [8, 32, 8] ?y) else driver_write [8, 32, 8] ?y) else ?y"
  have l: "erase_char (tty_text y) = take (tt_bufsize y - 1) (tty_text y)"
    using last_tty_text[OF assms(1)] assms length_tty_text[of y]
    by (auto simp: erase_char_def butlast_conv_take simp del: length_tty_text)
  have "tty_text ?y = erase_char (tty_text y)" using tty_text_shorter[of "tt_bufsize y - 1" y] l by simp
  then show thesis using assms(2) by (intro that[of ?z]) (simp_all add: Let_def, simp_all add: driver_write_def)
qed

lemma erase_loop_text:
  "n \<le> tt_bufsize y \<Longrightarrow> tty_text (erase_loop n echo y) = (erase_char ^^ n) (tty_text y)"
proof (induction n arbitrary: y)
  case (Suc n)
  show ?case
  proof (cases "tt_flag y (tt_bufsize y - 1)")
    case True
    then have "erase_char (tty_text y) = tty_text y"
      using last_tty_text[of y] Suc.prems by (simp add: erase_char_def)
    then show ?thesis using True erase_stuck[of "tty_text y" "Suc n"] by simp
  next
    case False
    from Suc.prems have p: "0 < tt_bufsize y" by simp
    obtain z where z: "erase_loop (Suc n) echo y = erase_loop n echo z" "tt_bufsize z = tt_bufsize y - 1"
        "tty_text z = erase_char (tty_text y)"
      by (rule erase_step[OF p False])
    have "tty_text (erase_loop n echo z) = (erase_char ^^ n) (tty_text z)"
      using Suc by (simp add: z(2))
    then show ?thesis by (simp only: z funpow_Suc_right comp_apply)
  qed
qed simp

text \<open>The code is the editor, character by character.\<close>

lemma same_settings:
  "tt_termios (erase_loop n echo y) = tt_termios y" "tt_termios (driver_write bs y) = tt_termios y"
  "tt_termios (tty_push_char ch flag y) = tt_termios y" "tt_termios (tty_wake y) = tt_termios y"
  "tt_termios (echo_char ch y) = tt_termios y"
  by (induction n echo y rule: erase_loop.induct)
    (simp_all add: driver_write_def tty_push_char_def tty_wake_def echo_char_def Let_def)

lemma canon_char_settings [simp]: "tt_termios (canon_char ch y) = tt_termios y"
  by (simp add: canon_char_def canon_wake_def Let_def same_settings)

lemma erase_or_kill_text:
  "tty_text (erase_loop (if one \<and> tt_bufsize y > 0 then 1 else tt_bufsize y) echo y) =
   (if one then erase_char (tty_text y) else kill_line (tty_text y))"
proof (cases "one \<and> tt_bufsize y > 0")
  case True
  then show ?thesis using erase_loop_text[of 1 y echo] by simp
next
  case False
  have "tt_bufsize y = 0 \<Longrightarrow> tty_text y = []" by (simp add: tty_text_def)
  then show ?thesis
    using False erase_loop_text[of "tt_bufsize y" y echo] erase_all[of "tty_text y" "tt_bufsize y"]
    by (auto simp: erase_char_def kill_line_simps)
qed

lemma canon_char_text: "tty_text (canon_char ch y) = edit y ch (tty_text y)"
proof -
  define c where "c = map_input ch y"
  consider "iflag IGNCR y \<and> c = CR" | "\<not> (iflag IGNCR y \<and> c = CR)" "is_cc VERASE c y \<or> is_cc VKILL c y"
    | "\<not> (iflag IGNCR y \<and> c = CR)" "\<not> (is_cc VERASE c y \<or> is_cc VKILL c y)" by blast
  then show ?thesis
  proof cases
    case 1
    then have "canon_char ch y = y" "edit y ch = (\<lambda>l. l)"
      by (simp_all add: canon_char_def edit_def c_def[symmetric] fun_eq_iff)
    then show ?thesis by simp
  next
    case 2
    have "tty_text (canon_char ch y) =
        (if is_cc VERASE c y then erase_char (tty_text y) else kill_line (tty_text y))"
      unfolding canon_char_def Let_def c_def[symmetric] using 2
      by (simp only: if_True if_False erase_or_kill_text)
    then show ?thesis unfolding edit_def Let_def c_def[symmetric] using 2 by (cases "is_cc VERASE c y") (simp_all only: if_True if_False simp_thms)
  next
    case 3
    then have n: "(iflag IGNCR y \<and> c = CR) = False" "is_cc VERASE c y = False" "is_cc VKILL c y = False" by auto
    show ?thesis
      unfolding canon_char_def edit_def Let_def c_def[symmetric] n if_False simp_thms
      by (simp add: canon_wake_def)
  qed
qed

lemma edit_settings: "tt_termios y = tt_termios z \<Longrightarrow> edit y = edit z"
  by (simp add: edit_def fun_eq_iff map_input_def is_cc_def iflag_def)

lemma canon_input_text: "tty_text (fold canon_char input y) = fold (edit y) input (tty_text y)"
  by (induction input arbitrary: y) (simp_all add: canon_char_text edit_settings[OF canon_char_settings])

lemma canon_input_settings: "tt_termios (fold canon_char input y) = tt_termios y"
  by (induction input arbitrary: y) simp_all

subsection \<open>Lines\<close>

text \<open>The completed lines are everything up to the last mark; no input changes them.\<close>

definition completed :: "marked \<Rightarrow> marked" where
  "completed = kill_line"

lemma completed_append: "completed (completed l @ r) = completed l @ completed r"
  by (induction r rule: rev_induct) (auto simp: completed_def kill_line_simps append_assoc[symmetric] simp del: append_assoc,
      auto simp: kill_line_def)

lemma completed_prefix: "\<exists>r. l = completed l @ r \<and> (\<forall>c \<in> set r. \<not> snd c)"
proof -
  have "rev l = takeWhile (\<lambda>c. \<not> snd c) (rev l) @ dropWhile (\<lambda>c. \<not> snd c) (rev l)" by simp
  then have "l = kill_line l @ rev (takeWhile (\<lambda>c. \<not> snd c) (rev l))"
    unfolding kill_line_def by (metis rev_append rev_rev_ident)
  then show ?thesis by (metis completed_def set_rev set_takeWhileD)
qed

definition extends_lines :: "marked \<Rightarrow> marked \<Rightarrow> bool" where
  "extends_lines l l' \<longleftrightarrow> (\<exists>r. completed l' = completed l @ r)"

lemma extends_lines_refl: "extends_lines l l"
  by (simp add: extends_lines_def)

lemma extends_lines_trans: "extends_lines l m \<Longrightarrow> extends_lines m n \<Longrightarrow> extends_lines l n"
  by (auto simp: extends_lines_def)

lemma completed_snoc: "completed (l @ [c]) = (if snd c then l @ [c] else completed l)"
  by (simp add: completed_def kill_line_simps)

lemma extends_append: "extends_lines l (append_char ch flag l)"
proof -
  obtain r where "l = completed l @ r" using completed_prefix by blast
  then show ?thesis
    by (cases flag) (auto simp: append_char_def extends_lines_def completed_snoc, metis append.assoc)
qed

lemma completed_erase: "completed (erase_char l) = completed l" "completed (kill_line l) = completed l"
proof -
  show "completed (erase_char l) = completed l"
    by (cases l rule: rev_cases) (auto simp: erase_char_def completed_snoc)
  show "completed (kill_line l) = completed l"
    using completed_append[of l "[]"] by (simp add: completed_def kill_line_simps)
qed

lemma extends_edit: "extends_lines l (edit y ch l)"
  by (simp add: edit_def Let_def extends_lines_refl extends_append) (simp add: extends_lines_def completed_erase)

lemma extends_input: "extends_lines l (fold (edit y) input l)"
  by (induction input arbitrary: l) (auto intro: extends_lines_refl extends_lines_trans[OF extends_edit])

subsection \<open>Reading\<close>

lemma read_into_buf:
  assumes "n \<le> tt_bufsize y"
  shows "fst (tty_read_into_buf n y) = map fst (take n (tty_text y))"
    and "tty_text (snd (tty_read_into_buf n y)) = drop n (tty_text y)"
    and "tt_termios (snd (tty_read_into_buf n y)) = tt_termios y"
    and "tt_bufsize (snd (tty_read_into_buf n y)) = tt_bufsize y - n"
proof -
  show "fst (tty_read_into_buf n y) = map fst (take n (tty_text y))"
    using assms by (simp add: tty_read_into_buf_def Let_def tty_text_def take_map)
  show "tty_text (snd (tty_read_into_buf n y)) = drop n (tty_text y)"
    using assms by (intro nth_equalityI) (simp_all add: tty_read_into_buf_def Let_def tty_text_nth add.commute)
qed (simp_all add: tty_read_into_buf_def Let_def)

lemma canon_size_None: "tty_canon_size y = None \<longleftrightarrow> (\<forall>c \<in> set (tty_text y). \<not> snd c)"
  by (auto simp: tty_canon_size_def find_None_iff tty_text_def)

lemma canon_size_Some:
  assumes "tty_text y = l @ (x, True) # r" "\<forall>c \<in> set l. \<not> snd c"
  shows "tty_canon_size y = Some (Suc (length l))"
proof -
  have n: "length l < tt_bufsize y" using arg_cong[OF assms(1), of length] by simp
  have f: "tt_flag y i = snd ((l @ (x, True) # r) ! i)" if "i < tt_bufsize y" for i
    using that by (simp add: assms(1)[symmetric] tty_text_def)
  have "find (tt_flag y) [0..<tt_bufsize y] = Some (length l)"
    unfolding find_Some_iff using n assms(2) f by (intro exI[of _ "length l"]) (auto simp: nth_append)
  then show ?thesis by (simp add: tty_canon_size_def)
qed

text \<open>A read in line mode gives the first line, without the end of file that may end it,
and nothing of the next one.\<close>

definition line_bytes :: "marked \<Rightarrow> byte_t \<Rightarrow> byte_t list" where
  "line_bytes l x = map fst l @ (if x = 0 then [] else [x])"

lemma tty_take_line:
  assumes t: "tty_text y = l @ (x, True) # r" "\<forall>c \<in> set l. \<not> snd c" and n: "length l < n"
    and r: "x \<noteq> 0 \<longrightarrow> (r = [] \<or> hd r \<noteq> (0, True))"
  shows "fst (tty_take True n y) = line_bytes l x" "tty_text (snd (tty_take True n y)) = r"
proof -
  let ?c = "Suc (length l)"
  let ?m = "if x = 0 then length l else ?c"
  have len: "tt_bufsize y = length l + 1 + length r" using arg_cong[OF t(1), of length] by simp
  have "tty_text y ! length l = (x, True)" by (simp add: t(1))
  then have x: "tt_buf y (length l) = x" using len tty_text_nth[of "length l" y] by simp
  have m: "min (min n (if tt_buf y (?c - 1) = 0 then ?c - 1 else ?c)) (tt_bufsize y) = ?m" "?m \<le> tt_bufsize y"
    using n len x by auto
  obtain z where z: "tty_read_into_buf ?m y = (line_bytes l x, z)"
    using read_into_buf(1)[OF m(2)] t(1) by (cases "tty_read_into_buf ?m y") (auto simp: line_bytes_def)
  have zt: "tty_text z = (if x = 0 then (0, True) # r else r)"
    using read_into_buf(2)[OF m(2), unfolded z snd_conv] by (simp add: t(1) split: if_splits)
  then have size: "tt_bufsize z = (if x = 0 then Suc (length r) else length r)"
    using length_tty_text[of z] by (simp split: if_splits)
  have take: "tty_take True n y = (line_bytes l x,
      if tt_bufsize z > 0 \<and> tt_buf z 0 = 0 \<and> tt_flag z 0 then snd (tty_read_into_buf 1 z) else z)"
    unfolding tty_take_def canon_size_Some[OF t] by (simp only: if_True option.case Let_def m z prod.case)
  then show "fst (tty_take True n y) = line_bytes l x" by simp
  have h: "tt_bufsize z > 0 \<Longrightarrow> hd (tty_text z) = (tt_buf z 0, tt_flag z 0)"
    by (simp add: tty_text_def upt_rec)
  show "tty_text (snd (tty_take True n y)) = r"
  proof (cases "x = 0")
    case True
    then show ?thesis using h zt size read_into_buf(2)[of 1 z] by (simp add: take)
  next
    case False
    then show ?thesis using h zt size r by (cases r) (auto simp: take)
  qed
qed

end
