(* ===== verification/Tty_Props.thy ===== *)
theory Tty_Props
  imports Tty_Facts Kern_Demo
begin

text \<open>
  Properties of terminals: what is typed and what is read, and who a terminal
  belongs to.
\<close>

subsection \<open>Input as a whole\<close>

lemma isig_loop_none:
  "\<forall>c \<in> set (drop i input). \<not> is_cc VINTR c y \<Longrightarrow> isig_loop y input i n = (input, n)"
proof (induction y input i n rule: isig_loop.induct)
  case (1 y input i n)
  then show ?case
    by (subst isig_loop.simps) (auto simp: Cons_nth_drop_Suc[symmetric])
qed

lemma ts_tty_on_kern [simp]: "ts_tty (on_kern f s) = ts_tty s" "ts_file (on_kern f s) = ts_file s"
  by (simp_all add: on_kern_def)

text \<open>What is left of the input after the search for interrupt characters.\<close>

definition kept_input :: "tty \<Rightarrow> byte_t list \<Rightarrow> byte_t list" where
  "kept_input y input = (if lflag ISIG y then fst (isig_loop y input 0 0) else input)"

lemma tty_input_canon:
  assumes "ts_tty s t = Some y" "lflag ICANON y"
  shows "ts_tty (snd (tty_input t input s)) t = Some (fold canon_char (kept_input y input) y)"
    and "ts_file (snd (tty_input t input s)) = ts_file s"
  using assms by (simp_all add: tty_input_def kept_input_def upd_tty_def split: prod.splits)

text \<open>The whole input of a terminal in line mode.\<close>

lemma tty_input_text:
  assumes "ts_tty s t = Some y" "lflag ICANON y" "ts_tty (snd (tty_input t input s)) t = Some z"
  shows "tty_text z = fold (edit y) (kept_input y input) (tty_text y)" "tt_termios z = tt_termios y"
  using tty_input_canon(1)[OF assms(1,2), of input] assms(3) canon_input_text[of "kept_input y input" y]
    canon_input_settings[of "kept_input y input" y] by simp_all

lemma tty_read_line:
  assumes "ts_file s fd = Some t" "ts_tty s t = Some y" "lflag ICANON y" "0 < n"
    and "tty_text y = l @ (x, True) # r" "\<forall>c \<in> set l. \<not> snd c" "length l < n"
    and "x \<noteq> 0 \<longrightarrow> (r = [] \<or> hd r \<noteq> (0, True))"
  shows "\<exists>s' z. tty_read others fd n s = Some (Inr (line_bytes l x), s') \<and> ts_tty s' t = Some z \<and> tty_text z = r"
proof -
  have "tty_ready True m y" for m using canon_size_Some[OF assms(5,6)] by (simp add: tty_ready_def)
  moreover obtain z where z: "tty_take True n y = (line_bytes l x, z)" "tty_text z = r"
    using tty_take_line[OF assms(5-8)] by (cases "tty_take True n y") auto
  ultimately show ?thesis using assms(1-4) by (simp add: tty_read_def upd_tty_def)
qed

subsection \<open>What is typed is what is read\<close>

text \<open>The line that is left when the erase and kill characters have done their work.\<close>

definition edited :: "tty \<Rightarrow> byte_t list \<Rightarrow> byte_t list" where
  "edited y line =
    fold (\<lambda>c l. if is_cc VERASE c y then butlast l else if is_cc VKILL c y then [] else l @ [c]) line []"

definition in_line :: "tty \<Rightarrow> byte_t \<Rightarrow> bool" where
  "in_line y c \<longleftrightarrow> map_input c y = c \<and> c \<noteq> NL \<and> \<not> (iflag IGNCR y \<and> c = CR) \<and>
     \<not> is_cc VEOF c y \<and> \<not> is_cc VEOL c y \<and> \<not> (lflag ISIG y \<and> is_cc VINTR c y)"

definition newline_ends :: "tty \<Rightarrow> bool" where
  "newline_ends y \<longleftrightarrow> map_input NL y = NL \<and> \<not> is_cc VERASE NL y \<and> \<not> is_cc VKILL NL y \<and>
     \<not> is_cc VEOF NL y \<and> \<not> (lflag ISIG y \<and> is_cc VINTR NL y)"

lemma length_edited: "length (edited y line) \<le> length line"
  by (induction line rule: rev_induct) (auto simp: edited_def)

lemma edit_in_line:
  assumes "in_line y c" "length l < TTY_BUF_SIZE"
  shows "edit y c (map (\<lambda>c. (c, False)) l) = map (\<lambda>c. (c, False))
    (if is_cc VERASE c y then butlast l else if is_cc VKILL c y then [] else l @ [c])"
proof -
  have "edit y c m = (if is_cc VERASE c y then erase_char m else if is_cc VKILL c y then kill_line m
      else append_char c False m)" for m
    using assms(1) by (auto simp: edit_def in_line_def)
  moreover have "kill_line (map (\<lambda>c. (c, False)) l) = []"
    by (simp add: kill_line_def dropWhile_eq_Nil_conv)
  ultimately show ?thesis
    using assms(2) by (cases l rule: rev_cases) (simp_all add: erase_char_def append_char_def)
qed

lemma edited_text:
  "\<forall>c \<in> set line. in_line y c \<Longrightarrow> length line < TTY_BUF_SIZE \<Longrightarrow>
   fold (edit y) line [] = map (\<lambda>c. (c, False)) (edited y line)"
proof (induction line rule: rev_induct)
  case (snoc c line)
  have "length (edited y line) < TTY_BUF_SIZE" using length_edited[of y line] snoc.prems(2) by simp
  then show ?case using snoc edit_in_line[of y c "edited y line"] by (simp add: edited_def)
qed (simp add: edited_def)

text \<open>C20. A line that is typed is the line that is read: the erase character takes back
one character and the kill character all of them, the newline sends the line off, and
the next read returns it, and leaves nothing behind.\<close>
theorem typed_line_is_read:
  assumes "ts_file s fd = Some t" "ts_tty s t = Some y" "lflag ICANON y" "tt_bufsize y = 0"
    and "\<forall>c \<in> set line. in_line y c" "newline_ends y" "length line < 4096" "length line < n"
  shows "\<exists>s' z. tty_read others fd n (snd (tty_input t (line @ [NL]) s)) = Some (Inr (edited y line @ [NL]), s') \<and>
      ts_tty s' t = Some z \<and> tty_text z = []"
proof -
  let ?z = "fold canon_char (line @ [NL]) y"
  have "kept_input y (line @ [NL]) = line @ [NL]"
    using assms(5,6) isig_loop_none[of 0 "line @ [NL]" y 0]
    by (auto simp: kept_input_def in_line_def newline_ends_def)
  then have z: "ts_tty (snd (tty_input t (line @ [NL]) s)) t = Some ?z"
    using tty_input_canon[OF assms(2,3)] by simp
  have "length (edited y line) < 4096" using length_edited[of y line] assms(7) by simp
  then have typed: "tty_text ?z = map (\<lambda>c. (c, False)) (edited y line) @ (NL, True) # []"
    using canon_input_text[of "line @ [NL]" y] edited_text[OF assms(5,7)] assms(4,6)
    by (simp add: tty_text_def edit_def Let_def newline_ends_def append_char_def)
  have c: "lflag ICANON ?z" using assms(3) canon_input_settings[of "line @ [NL]" y] by (simp add: lflag_def)
  have l: "length (map (\<lambda>c. (c, False)) (edited y line)) < n" using length_edited[of y line] assms(8) by simp
  then have "0 < n" by simp
  from tty_read_line[OF _ z c this typed _ l]
  show ?thesis using assms(1) tty_input_canon(2)[OF assms(2,3)] by (simp add: line_bytes_def comp_def)
qed

text \<open>A terminal with the usual control characters, and the system it is in.\<close>

definition termios_demo :: termios where
  "termios_demo = \<lparr>ts_iflags = ICRNL, ts_oflags = OPOST, ts_cflags = 0, ts_lflags = 0x23b, ts_line = 0,
     ts_cc = (\<lambda>i. if i = VINTR then 3 else if i = VERASE then 0x7f else if i = VKILL then 0x15
                   else if i = VEOF then 4 else 0)\<rparr>"

definition tty_demo :: tty where
  "tty_demo = \<lparr>tt_buf = (\<lambda>_. 0), tt_flag = (\<lambda>_. False), tt_bufsize = 0,
     tt_winsize = \<lparr>ws_row = 25, ws_col = 80, ws_xpixel = 0, ws_ypixel = 0\<rparr>, tt_termios = termios_demo,
     tt_type = 0, tt_num = 0, tt_session = 1, tt_fg_group = 1, tt_fds = [7], tt_out = [], tt_wakes = 0\<rparr>"

definition terms_demo :: terms where
  "terms_demo = \<lparr>ts_kern = kern_demo, ts_tty = [30 \<mapsto> tty_demo], ts_slots = (\<lambda>_ _. None)(0 := (\<lambda>_. None)(0 := Some 30)),
     ts_file = [7 \<mapsto> 30], ts_next = 31\<rparr>"

lemmas demo_settings = tty_demo_def termios_demo_def is_cc_def lflag_def iflag_def has_def map_input_def

theorem typed_line_is_read_witness:
  "\<exists>s' z. tty_read [] 7 80 (snd (tty_input 30 [0x6c, 0x7a, 0x7f, 0x73, 0x0a] terms_demo)) =
     Some (Inr [0x6c, 0x73, 0x0a], s') \<and> ts_tty s' 30 = Some z \<and> tty_text z = []"
proof -
  have "edited tty_demo [0x6c, 0x7a, 0x7f, 0x73] = [0x6c, 0x73]"
    by (simp add: edited_def demo_settings)
  moreover have "\<forall>c \<in> set [0x6c, 0x7a, 0x7f, 0x73]. in_line tty_demo c" "newline_ends tty_demo" "lflag ICANON tty_demo"
    by (simp_all add: in_line_def newline_ends_def demo_settings)
  ultimately show ?thesis
    using typed_line_is_read[of terms_demo 7 30 tty_demo "[0x6c, 0x7a, 0x7f, 0x73]" 80 "[]"]
    by (simp add: terms_demo_def) (simp add: tty_demo_def)
qed

text \<open>Lines that are complete stay as they are: whatever is typed, however many erase
and kill characters, the lines that were ended before are still in the buffer, in
front of what has been added.\<close>
lemma completed_lines_stay:
  assumes "ts_tty s t = Some y" "lflag ICANON y" "ts_tty (snd (tty_input t input s)) t = Some z"
  shows "\<exists>r. completed (tty_text z) = completed (tty_text y) @ r"
  using extends_input[of "tty_text y" y "kept_input y input"] tty_input_text(1)[OF assms]
  by (simp add: extends_lines_def)

lemma completed_lines_stay_witness:
  "\<exists>z. ts_tty (snd (tty_input 30 [0x7f, 0x15, 0x7f] (upd_tty 30 (canon_char NL) terms_demo))) 30 = Some z \<and>
     hd (completed (tty_text z)) = (NL, True)"
proof -
  let ?s = "upd_tty 30 (canon_char NL) terms_demo"
  let ?y = "canon_char NL tty_demo"
  have y: "ts_tty ?s 30 = Some ?y" by (simp add: terms_demo_def upd_tty_def)
  have c: "lflag ICANON ?y" by (simp add: lflag_def) (simp add: demo_settings)
  have l: "tty_text ?y = [(NL, True)]"
  proof -
    have "tty_text tty_demo = []" by (simp add: tty_text_def tty_demo_def)
    then show ?thesis by (simp add: canon_char_text) (simp add: edit_def append_char_def demo_settings)
  qed
  obtain z where z: "ts_tty (snd (tty_input 30 [0x7f, 0x15, 0x7f] ?s)) 30 = Some z"
    using tty_input_canon[OF y c] by blast
  from completed_lines_stay[OF y c z] have "hd (completed (tty_text z)) = (NL, True)"
    by (auto simp: l completed_def kill_line_def)
  then show ?thesis using z by blast
qed

text \<open>A line that fills the buffer cannot be ended: when the 4096 characters are full
and hold no complete line, no newline and no end of file gets in, so a reader waits on,
whatever is typed short of erasing.\<close>
lemma full_line_never_ends:
  assumes "ts_tty s t = Some y" "lflag ICANON y" "tt_bufsize y = 4096" "\<forall>i < 4096. \<not> tt_flag y i"
    and "\<forall>c \<in> set input. \<not> is_cc VERASE (map_input c y) y \<and> \<not> is_cc VKILL (map_input c y) y"
    and "ts_tty (snd (tty_input t input s)) t = Some z"
  shows "\<not> tty_ready True vmin z"
proof -
  have "fold (edit y) xs (tty_text y) = tty_text y" if "set xs \<subseteq> set input" for xs
    using that assms(3,5) by (induction xs) (auto simp: edit_def Let_def append_char_def)
  moreover have "set (kept_input y input) \<subseteq> set input"
  proof -
    have "set (fst (isig_loop y xs i n)) \<subseteq> set xs" for y xs i n
    proof (induction y xs i n rule: isig_loop.induct)
      case (1 y xs i n)
      then show ?case by (subst isig_loop.simps) (auto dest: in_set_dropD)
    qed
    then show ?thesis by (simp add: kept_input_def)
  qed
  ultimately have "tty_text z = tty_text y" using tty_input_text(1)[OF assms(1,2,6)] by simp
  moreover have "\<forall>c \<in> set (tty_text y). \<not> snd c" using assms(3,4) by (auto simp: tty_text_def)
  ultimately show ?thesis by (simp add: tty_ready_def canon_size_None)
qed

lemma full_line_never_ends_witness:
  "\<exists>z. ts_tty (snd (tty_input 30 [NL, 4] (upd_tty 30 (\<lambda>y. y\<lparr>tt_bufsize := 4096\<rparr>) terms_demo))) 30 = Some z \<and>
     \<not> tty_ready True 1 z"
proof -
  let ?s = "upd_tty 30 (\<lambda>y. y\<lparr>tt_bufsize := 4096\<rparr>) terms_demo"
  let ?y = "tty_demo\<lparr>tt_bufsize := 4096\<rparr>"
  have y: "ts_tty ?s 30 = Some ?y" by (simp add: terms_demo_def upd_tty_def)
  have c: "lflag ICANON ?y" by (simp add: demo_settings)
  obtain z where z: "ts_tty (snd (tty_input 30 [NL, 4] ?s)) 30 = Some z"
    using tty_input_canon[OF y c] by blast
  moreover have "\<not> tty_ready True 1 z"
    by (rule full_line_never_ends[OF y c _ _ _ z]) (simp_all add: demo_settings)
  ultimately show ?thesis by blast
qed

text \<open>Several interrupt characters at once: the one that follows another is skipped.\<close>

lemma second_interrupt_is_input: "isig_loop tty_demo [3, 3, 0x78] 0 0 = ([3, 0x78], 1)"
  by (simp add: isig_loop.simps demo_settings)

subsection \<open>The controlling terminal\<close>

lemma cur_group_k_ttys [simp]: "cur_group (k\<lparr>k_ttys := x\<rparr>) = cur_group k" "cur_task (k\<lparr>k_ttys := x\<rparr>) = cur_task k"
  by (simp_all add: cur_group_def cur_task_def get_task_def)

lemma cur_group_kmalloc: "kmalloc k = (b, k') \<Longrightarrow> cur_group k' = cur_group k \<and> cur_task k' = cur_task k \<and> k_groups k' = k_groups k"
  by (auto simp: kmalloc_def cur_group_def cur_task_def get_task_def split: prod.splits)

lemma tty_get_new:
  assumes "num < 64" "ts_slots s type num = None" "fst (kmalloc (ts_kern s))"
    and "case drivers type of None \<Rightarrow> True | Some f \<Rightarrow> 0 \<le> fst (f (new_tty type num garbage))"
  shows "\<exists>s' y. tty_get drivers garbage type num s = (Inr (ts_next s), s') \<and> ts_tty s' (ts_next s) = Some y \<and>
    k_ttys (ts_kern s') (ts_next s) = 1 \<and> cur_group (ts_kern s') = cur_group (ts_kern s) \<and>
    cur_task (ts_kern s') = cur_task (ts_kern s) \<and> k_groups (ts_kern s') = k_groups (ts_kern s)"
proof -
  obtain k where k: "kmalloc (ts_kern s) = (True, k)" using assms(3) by (cases "kmalloc (ts_kern s)") auto
  from cur_group_kmalloc[OF this] show ?thesis
    using assms(1,2,4) by (auto simp: tty_get_def k Let_def on_kern_def not_less split: option.splits prod.splits)
qed

text \<open>A session can be left with a freed terminal: a session leader that opens its
first terminal gets it as controlling terminal without a reference being counted, so that
closing the file frees the terminal that the group still refers to.\<close>
lemma controlling_terminal_dangles:
  assumes "cur_group (ts_kern s) = Some g" "g_tty g = None" "g_sid g = t_pid (cur_task (ts_kern s))"
    and "num < 64" "ts_slots s 0 num = None" "fst (kmalloc (ts_kern s))"
    and "case drivers 0 of None \<Rightarrow> True | Some f \<Rightarrow> 0 \<le> fst (f (new_tty 0 num garbage))"
  shows "\<exists>s1 s2 t. tty_open drivers garbage 4 num fd s = (0, s1) \<and> tty_close fd s1 = (0, s2) \<and>
    map_option g_tty (cur_group (ts_kern s2)) = Some (Some t) \<and> ts_tty s2 t = None"
proof -
  let ?t = "ts_next s"
  obtain s' y where n: "tty_get drivers garbage 0 num s = (Inr ?t, s')" "ts_tty s' ?t = Some y" "k_ttys (ts_kern s') ?t = 1"
      "cur_group (ts_kern s') = Some g" "cur_task (ts_kern s') = cur_task (ts_kern s)"
      "k_groups (ts_kern s') = k_groups (ts_kern s)"
    using tty_get_new[where type = 0 and num = num and drivers = drivers and garbage = garbage, OF assms(4-7)] assms(1) by auto
  have g: "k_groups (ts_kern s) (t_group (cur_task (ts_kern s))) = Some g" using assms(1) by (simp add: cur_group_def)
  have o: "tty_open drivers garbage 4 num fd s = (0, tty_set_controlling ?t
      (upd_tty ?t (\<lambda>y. y\<lparr>tt_fds := fd # tt_fds y\<rparr>) (s'\<lparr>ts_file := (ts_file s')(fd \<mapsto> ?t)\<rparr>)))" (is "_ = (0, ?s1)")
    using assms(1,3,4) n by (simp add: tty_open_def upd_tty_def)
  have k: "k_ttys (ts_kern ?s1) ?t = 1" "ts_file ?s1 fd = Some ?t" "\<exists>z. ts_tty ?s1 ?t = Some z"
      "map_option g_tty (cur_group (ts_kern ?s1)) = Some (Some ?t)"
    using n assms(2) g
    by (simp_all add: tty_set_controlling_def upd_tty_def on_kern_def upd_group_def) (simp_all add: cur_group_def cur_task_def get_task_def)
  define s1 where "s1 = ?s1"
  have "\<exists>s2. tty_close fd s1 = (0, s2) \<and> map_option g_tty (cur_group (ts_kern s2)) = Some (Some ?t) \<and> ts_tty s2 ?t = None"
    using k unfolding s1_def[symmetric]
    by (auto simp: tty_close_def tty_release_def upd_tty_def on_kern_def count_tty_def)
  then show ?thesis using o unfolding s1_def[symmetric] by blast
qed

lemma controlling_terminal_dangles_witness:
  "\<exists>s1 s2 t. tty_open (\<lambda>_. None) tty_demo 4 1 8 terms_demo = (0, s1) \<and> tty_close 8 s1 = (0, s2) \<and>
    map_option g_tty (cur_group (ts_kern s2)) = Some (Some t) \<and> ts_tty s2 t = None"
  by (rule controlling_terminal_dangles[where g = group_demo])
    (simp_all add: terms_demo_def cur_group_def group_demo_def demo_malloc init_tgroup_def)

end
