(* ===== verification/Poll.thy ===== *)
theory Poll
  imports Utilities "HOL-Library.Signed_Division"
begin

text \<open>
  Waiting for files (\<open>src/fs/poll.c\<close>), and two kinds of files that exist to be
  waited for: event counters (\<open>src/kernel/eventfd.c\<close>) and timers
  (\<open>src/kernel/time.c\<close>). A set of files (\<open>struct poll\<close>) and its entries
  (\<open>struct poll_fd\<close>) live in heaps; an entry is in the list of its set and in that
  of its file. What the union in \<open>struct fd\<close> holds is a datatype that also says
  which operations the file has. Files of other kinds answer through a parameter.
\<close>

subsection \<open>State\<close>

datatype fd_data = Other | Eventfd qword_t | Epoll "nat option" | Timerfd qword_t

record poll_fd =
  pf_fd :: nat
  pf_poll :: nat
  pf_types :: dword_t
  pf_info :: qword_t

text \<open>\<open>po_pipe\<close> says that the notification pipe is open, \<open>po_notes\<close> how many bytes are
in it.\<close>

record poll =
  po_fds :: "nat list"
  po_waiters :: nat
  po_pipe :: bool
  po_notes :: nat

text \<open>\<open>io_watch\<close> is the list of entries of a file, \<open>io_asked\<close> the timeouts that were given
to the host, in milliseconds and newest first.\<close>

record io =
  io_kern :: kern
  io_data :: "nat \<Rightarrow> fd_data"
  io_polls :: "nat \<Rightarrow> poll option"
  io_entries :: "nat \<Rightarrow> poll_fd option"
  io_watch :: "nat \<Rightarrow> nat list"
  io_next :: nat
  io_asked :: "int list"

abbreviation (input) POLL_READ :: dword_t where "POLL_READ \<equiv> 1"
abbreviation (input) POLL_PRI :: dword_t where "POLL_PRI \<equiv> 2"
abbreviation (input) POLL_WRITE :: dword_t where "POLL_WRITE \<equiv> 4"
abbreviation (input) POLL_ERR :: dword_t where "POLL_ERR \<equiv> 8"
abbreviation (input) POLL_HUP :: dword_t where "POLL_HUP \<equiv> 16"
abbreviation (input) POLL_NVAL :: dword_t where "POLL_NVAL \<equiv> 32"

definition iobad :: "io \<Rightarrow> io" where
  "iobad s = s\<lparr>io_kern := kbad (io_kern s)\<rparr>"

definition upd_poll :: "nat \<Rightarrow> (poll \<Rightarrow> poll) \<Rightarrow> io \<Rightarrow> io" where
  "upd_poll p f s =
    (case io_polls s p of None \<Rightarrow> iobad s | Some x \<Rightarrow> s\<lparr>io_polls := (io_polls s)(p \<mapsto> f x)\<rparr>)"

definition io_malloc :: "io \<Rightarrow> bool \<times> io" where
  "io_malloc s = (case kmalloc (io_kern s) of (ok, k) \<Rightarrow> (ok, s\<lparr>io_kern := k\<rparr>))"

definition poll_of :: "nat \<Rightarrow> io \<Rightarrow> nat list" where
  "poll_of p s = (case io_polls s p of None \<Rightarrow> [] | Some x \<Rightarrow> po_fds x)"

subsection \<open>Sets of files\<close>

definition poll_create :: "io \<Rightarrow> nat option \<times> io" where
  "poll_create s =
    (case io_malloc s of
       (False, s) \<Rightarrow> (None, s)
     | (True, s) \<Rightarrow>
         (Some (io_next s),
          s\<lparr>io_next := Suc (io_next s),
            io_polls := (io_polls s)(io_next s \<mapsto> \<lparr>po_fds = [], po_waiters = 0, po_pipe = False, po_notes = 0\<rparr>)\<rparr>))"

definition poll_find_fd :: "nat \<Rightarrow> nat \<Rightarrow> io \<Rightarrow> nat option" where
  "poll_find_fd p fd s = find (\<lambda>e. map_option pf_fd (io_entries s e) = Some fd) (poll_of p s)"

definition poll_has_fd :: "nat \<Rightarrow> nat \<Rightarrow> io \<Rightarrow> bool" where
  "poll_has_fd p fd s \<longleftrightarrow> poll_find_fd p fd s \<noteq> None"

definition poll_add_fd :: "nat \<Rightarrow> nat \<Rightarrow> dword_t \<Rightarrow> qword_t \<Rightarrow> io \<Rightarrow> int \<times> io" where
  "poll_add_fd p fd types info s =
    (case io_malloc s of
       (False, s) \<Rightarrow> (ENOMEM, s)
     | (True, s) \<Rightarrow>
         (let e = io_next s;
              s = s\<lparr>io_next := Suc e,
                    io_entries := (io_entries s)(e \<mapsto> \<lparr>pf_fd = fd, pf_poll = p, pf_types = types, pf_info = info\<rparr>),
                    io_watch := (io_watch s)(fd := e # io_watch s fd)\<rparr>
          in (0, upd_poll p (\<lambda>x. x\<lparr>po_fds := e # po_fds x\<rparr>) s)))"

text \<open>Taking an entry out of both of its lists and freeing it.\<close>

definition drop_entry :: "nat \<Rightarrow> io \<Rightarrow> io" where
  "drop_entry e s =
    (case io_entries s e of
       None \<Rightarrow> iobad s
     | Some x \<Rightarrow>
         (let s = s\<lparr>io_watch := (io_watch s)(pf_fd x := remove1 e (io_watch s (pf_fd x)))\<rparr>;
              s = upd_poll (pf_poll x) (\<lambda>p. p\<lparr>po_fds := remove1 e (po_fds p)\<rparr>) s
          in s\<lparr>io_entries := (io_entries s)(e := None)\<rparr>))"

definition poll_del_fd :: "nat \<Rightarrow> nat \<Rightarrow> io \<Rightarrow> int \<times> io" where
  "poll_del_fd p fd s =
    (case poll_find_fd p fd s of None \<Rightarrow> (ENOENT, s) | Some e \<Rightarrow> (0, drop_entry e s))"

definition poll_mod_fd :: "nat \<Rightarrow> nat \<Rightarrow> dword_t \<Rightarrow> qword_t \<Rightarrow> io \<Rightarrow> int \<times> io" where
  "poll_mod_fd p fd types info s =
    (case poll_find_fd p fd s of
       None \<Rightarrow> (ENOENT, s)
     | Some e \<Rightarrow>
         (0, s\<lparr>io_entries := (io_entries s)
                 (e := map_option (\<lambda>x. x\<lparr>pf_types := types, pf_info := info\<rparr>) (io_entries s e))\<rparr>))"

definition notify_entry :: "nat \<Rightarrow> io \<Rightarrow> io" where
  "notify_entry e s =
    (case io_entries s e of
       None \<Rightarrow> iobad s
     | Some x \<Rightarrow> upd_poll (pf_poll x) (\<lambda>p. if po_pipe p then p\<lparr>po_notes := Suc (po_notes p)\<rparr> else p) s)"

definition poll_wake :: "nat \<Rightarrow> io \<Rightarrow> io" where
  "poll_wake fd s = fold notify_entry (io_watch s fd) s"

definition poll_destroy :: "nat \<Rightarrow> io \<Rightarrow> io" where
  "poll_destroy p s =
    (let s = fold drop_entry (poll_of p s) s in s\<lparr>io_polls := (io_polls s)(p := None)\<rparr>)"

subsection \<open>Counters and timers\<close>

definition fd_nonblocking :: "nat \<Rightarrow> io \<Rightarrow> bool" where
  "fd_nonblocking fd s \<longleftrightarrow>
    (case fd_heap (k_fds (io_kern s)) fd of None \<Rightarrow> False | Some x \<Rightarrow> fd_flags x AND O_NONBLOCK \<noteq> 0)"

definition io_pending :: "io \<Rightarrow> bool" where
  "io_pending s \<longleftrightarrow> task_pending (io_kern s)"

text \<open>The loops of both kinds ignore that \<open>wait_for\<close> is interrupted. While a signal is
pending it returns at once and keeps the lock, so the loop spins and nothing can
make it ready: it does not return.\<close>

fun counter_wait ::
  "(io \<Rightarrow> bool) \<Rightarrow> nat \<Rightarrow> (io \<Rightarrow> io) list \<Rightarrow> io \<Rightarrow> (bool \<times> io) option"
where
  "counter_wait ready fd others s =
    (if ready s then Some (True, s)
     else if fd_nonblocking fd s then Some (False, s)
     else if io_pending s then None
     else case others of [] \<Rightarrow> None | other # others \<Rightarrow> counter_wait ready fd others (other s))"

lemmas [simp del] = counter_wait.simps

definition counter :: "nat \<Rightarrow> io \<Rightarrow> qword_t" where
  "counter fd s = (case io_data s fd of Eventfd v \<Rightarrow> v | Timerfd v \<Rightarrow> v | _ \<Rightarrow> 0)"

definition eventfd_read ::
  "(io \<Rightarrow> io) list \<Rightarrow> nat \<Rightarrow> nat \<Rightarrow> io \<Rightarrow> ((int + qword_t) \<times> io) option"
where
  "eventfd_read others fd bufsize s =
    (if bufsize < 8 then Some (Inl EINVAL, s)
     else case counter_wait (\<lambda>s. counter fd s \<noteq> 0) fd others s of
            None \<Rightarrow> None
          | Some (False, s) \<Rightarrow> Some (Inl EAGAIN, s)
          | Some (True, s) \<Rightarrow>
              Some (Inr (counter fd s), poll_wake fd (s\<lparr>io_data := (io_data s)(fd := Eventfd 0)\<rparr>)))"

definition eventfd_write ::
  "(io \<Rightarrow> io) list \<Rightarrow> nat \<Rightarrow> qword_t \<Rightarrow> nat \<Rightarrow> io \<Rightarrow> (int \<times> io) option"
where
  "eventfd_write others fd increment bufsize s =
    (if bufsize < 8 then Some (EINVAL, s)
     else if increment = - 1 then Some (EINVAL, s)
     else case counter_wait (\<lambda>s. counter fd s < - 1 - increment) fd others s of
            None \<Rightarrow> None
          | Some (False, s) \<Rightarrow> Some (EAGAIN, s)
          | Some (True, s) \<Rightarrow>
              Some (8, poll_wake fd (s\<lparr>io_data := (io_data s)(fd := Eventfd (counter fd s + increment))\<rparr>)))"

definition eventfd_poll :: "qword_t \<Rightarrow> dword_t" where
  "eventfd_poll v = (if v > 0 then POLL_READ else 0) OR (if v < - 2 then POLL_WRITE else 0)"

definition timerfd_callback :: "nat \<Rightarrow> io \<Rightarrow> io" where
  "timerfd_callback fd s = poll_wake fd (s\<lparr>io_data := (io_data s)(fd := Timerfd (counter fd s + 1))\<rparr>)"

definition timerfd_read ::
  "(io \<Rightarrow> io) list \<Rightarrow> nat \<Rightarrow> nat \<Rightarrow> io \<Rightarrow> ((int + qword_t) \<times> io) option"
where
  "timerfd_read others fd bufsize s =
    (if bufsize < 8 then Some (Inl EINVAL, s)
     else case counter_wait (\<lambda>s. counter fd s \<noteq> 0) fd others s of
            None \<Rightarrow> None
          | Some (False, s) \<Rightarrow> Some (Inl EAGAIN, s)
          | Some (True, s) \<Rightarrow> Some (Inr (counter fd s), s\<lparr>io_data := (io_data s)(fd := Timerfd 0)\<rparr>))"

definition timerfd_poll :: "qword_t \<Rightarrow> dword_t" where
  "timerfd_poll v = (if v = 0 then POLL_READ else 0)"

subsection \<open>Waiting\<close>

text \<open>Whether a file is ready: \<open>other\<close> answers for the kinds that are not here, among
them epoll files, which have no operation for it, so that the host is asked about its
file 0. Its answer, like that of the host, is already restricted to what was asked.\<close>

type_synonym poll_ops = "nat \<Rightarrow> dword_t \<Rightarrow> io \<Rightarrow> dword_t"

definition fd_poll :: "poll_ops \<Rightarrow> nat \<Rightarrow> dword_t \<Rightarrow> io \<Rightarrow> dword_t" where
  "fd_poll other fd types s =
    (case io_data s fd of
       Eventfd v \<Rightarrow> eventfd_poll v AND types
     | Timerfd v \<Rightarrow> timerfd_poll v AND types
     | _ \<Rightarrow> other fd types s)"

text \<open>A callback gets its context, the file, the types and the info of the entry, and
says whether it counts.\<close>

type_synonym 'c poll_callback = "io \<Rightarrow> 'c \<Rightarrow> nat \<Rightarrow> dword_t \<Rightarrow> qword_t \<Rightarrow> bool \<times> 'c"

fun poll_scan ::
  "poll_ops \<Rightarrow> 'c poll_callback \<Rightarrow> nat list \<Rightarrow> nat \<Rightarrow> 'c \<Rightarrow> io \<Rightarrow> nat \<times> 'c \<times> io"
where
  "poll_scan other cb [] n c s = (n, c, s)"
| "poll_scan other cb (e # es) n c s =
    (case io_entries s e of
       None \<Rightarrow> (n, c, iobad s)
     | Some x \<Rightarrow>
         (let types = fd_poll other (pf_fd x) (pf_types x) s
          in if types = 0 then poll_scan other cb es n c s
             else (let s = (if types AND POLL_NVAL \<noteq> 0 then iobad s else s);
                       (counts, c) = cb s c (pf_fd x) types (pf_info x)
                   in poll_scan other cb es (if counts then Suc n else n) c s)))"

text \<open>What wakes the host's \<open>poll\<close>: an error, the timeout, a byte in the pipe, a byte that
another waiter has read first, a file of the host.\<close>

datatype wakeup = Poll_error int | Timed_out | Notified | Note_lost int | Host_ready

definition take_note :: "nat \<Rightarrow> io \<Rightarrow> io" where
  "take_note p = upd_poll p (\<lambda>x. x\<lparr>po_notes := po_notes x - 1\<rparr>)"

fun poll_loop ::
  "poll_ops \<Rightarrow> 'c poll_callback \<Rightarrow> nat \<Rightarrow> int \<Rightarrow> ((io \<Rightarrow> io) \<times> wakeup) list \<Rightarrow> 'c \<Rightarrow> io \<Rightarrow> (int \<times> 'c \<times> io) option"
where
  "poll_loop other cb p millis wakes c s =
    (case poll_scan other cb (poll_of p s) 0 c s of
       (n, c, s) \<Rightarrow>
         if n > 0 then Some (int n, c, s)
         else case wakes of
                [] \<Rightarrow> None
              | (f, w) # wakes \<Rightarrow>
                  (let s = f (s\<lparr>io_asked := millis # io_asked s\<rparr>)
                   in case w of
                        Poll_error e \<Rightarrow> Some (e, c, s)
                      | Timed_out \<Rightarrow> Some (0, c, s)
                      | Notified \<Rightarrow> poll_loop other cb p millis wakes c (take_note p s)
                      | Note_lost e \<Rightarrow> Some (e, c, s)
                      | Host_ready \<Rightarrow> poll_loop other cb p millis wakes c s))"

lemmas [simp del] = poll_loop.simps

definition timeout_millis :: "(int \<times> int) option \<Rightarrow> int" where
  "timeout_millis t =
    (case t of None \<Rightarrow> - 1
     | Some (sec, nsec) \<Rightarrow> sint (word_of_int (sec * 1000 + nsec sdiv 1000000) :: dword_t))"

text \<open>The first waiter opens the pipe, the last one closes it. \<open>pipe_err\<close> is what the host
says to the opening; when it fails the number of waiters stays raised.\<close>

definition poll_enter :: "int \<Rightarrow> nat \<Rightarrow> io \<Rightarrow> int \<times> io" where
  "poll_enter pipe_err p s =
    (case io_polls s p of
       None \<Rightarrow> (0, iobad s)
     | Some x \<Rightarrow>
         (let s' = upd_poll p (\<lambda>x. x\<lparr>po_waiters := Suc (po_waiters x)\<rparr>) s
          in if po_waiters x \<noteq> 0 then (0, s')
             else if po_pipe x then (0, iobad s')
             else if pipe_err < 0 then (pipe_err, s')
             else (0, upd_poll p (\<lambda>x. x\<lparr>po_pipe := True, po_notes := 0\<rparr>) s')))"

definition poll_leave :: "nat \<Rightarrow> io \<Rightarrow> io" where
  "poll_leave p = upd_poll p (\<lambda>x. if po_waiters x = 1 then x\<lparr>po_waiters := 0, po_pipe := False, po_notes := 0\<rparr>
                                   else x\<lparr>po_waiters := po_waiters x - 1\<rparr>)"

definition poll_wait ::
  "poll_ops \<Rightarrow> int \<Rightarrow> ((io \<Rightarrow> io) \<times> wakeup) list \<Rightarrow> 'c poll_callback \<Rightarrow> nat \<Rightarrow> (int \<times> int) option \<Rightarrow> 'c \<Rightarrow> io \<Rightarrow>
   (int \<times> 'c \<times> io) option"
where
  "poll_wait other pipe_err wakes cb p timeout c s =
    (case poll_enter pipe_err p s of
       (err, s) \<Rightarrow>
         if err < 0 then Some (err, c, s)
         else map_option (\<lambda>(r, c, s). (r, c, poll_leave p s))
                (poll_loop other cb p (timeout_millis timeout) wakes c s))"

subsection \<open>Closing\<close>

text \<open>What freeing a file does to the sets it is in, and the \<open>close\<close> of an epoll file.\<close>

definition forget_fd :: "nat \<Rightarrow> io \<Rightarrow> io" where
  "forget_fd fd s =
    (let s = fold drop_entry (io_watch s fd) s;
         s = (case io_data s fd of Epoll (Some p) \<Rightarrow> poll_destroy p s | Epoll None \<Rightarrow> iobad s | _ \<Rightarrow> s)
     in s\<lparr>io_data := (io_data s)(fd := Other)\<rparr>)"

definition io_close_fd :: "nat \<Rightarrow> io \<Rightarrow> io" where
  "io_close_fd fd s =
    (case fd_heap (k_fds (io_kern s)) fd of
       None \<Rightarrow> iobad s
     | Some x \<Rightarrow> if fd_refcount x = 1 then forget_fd fd s else s)"

definition io_close :: "dword_t \<Rightarrow> io \<Rightarrow> int \<times> io" where
  "io_close f s =
    (let k = io_kern s
     in case f_get f (task_fds k) of
          None \<Rightarrow> (EBADF, s)
        | Some fd \<Rightarrow>
            (let s = io_close_fd fd s
             in case on_fds (f_close (k_ops k) f) (io_kern s) of (err, k) \<Rightarrow> (err, s\<lparr>io_kern := k\<rparr>)))"

text \<open>A new file of the kernel's own, and its descriptor. When no descriptor is free the
file is closed again.\<close>

definition adhoc_fd_create :: "fd_data \<Rightarrow> io \<Rightarrow> nat \<times> io" where
  "adhoc_fd_create d s =
    (case on_fds fd_create (io_kern s) of
       (fd, k) \<Rightarrow> (fd, s\<lparr>io_kern := k, io_data := (io_data s)(fd := d), io_watch := (io_watch s)(fd := [])\<rparr>))"

definition io_install :: "nat \<Rightarrow> dword_t \<Rightarrow> io \<Rightarrow> int \<times> io" where
  "io_install fd flags s =
    (case on_fds (f_install_flags (k_ops (io_kern s)) fd flags) (io_kern s) of
       (r, k) \<Rightarrow> (r, (if r < 0 then forget_fd fd else id) (s\<lparr>io_kern := k\<rparr>)))"

definition sys_eventfd2 :: "dword_t \<Rightarrow> dword_t \<Rightarrow> io \<Rightarrow> int \<times> io" where
  "sys_eventfd2 initval flags s =
    (if flags AND NOT (O_CLOEXEC OR O_NONBLOCK) \<noteq> 0 then (EINVAL, s)
     else case adhoc_fd_create (Eventfd (ucast initval)) s of (fd, s) \<Rightarrow> io_install fd flags s)"

definition sys_eventfd :: "dword_t \<Rightarrow> io \<Rightarrow> int \<times> io" where
  "sys_eventfd initval = sys_eventfd2 initval 0"

text \<open>Only the clock with the number of \<open>ITIMER_REAL\<close> is known.\<close>

definition sys_timerfd_create :: "dword_t \<Rightarrow> dword_t \<Rightarrow> io \<Rightarrow> int \<times> io" where
  "sys_timerfd_create clockid flags s =
    (if clockid \<noteq> 0 then (EINVAL, s)
     else case adhoc_fd_create (Timerfd 0) s of (fd, s) \<Rightarrow> io_install fd flags s)"

end
