(* ===== verification/Epoll.thy ===== *)
theory Epoll
  imports Poll
begin

text \<open>
  The system calls that wait for files: \<open>select\<close>, \<open>poll\<close> and their variants
  (\<open>src/kernel/poll.c\<close>), and \<open>epoll\<close> (\<open>src/kernel/epoll.c\<close>). Sets of descriptors
  are lists of bytes (\<open>src/util/bits.h\<close>). \<open>w\<close> bundles what is outside: the answers
  of other files, the opening of the pipe and what happens while the call sleeps.
\<close>

record outside =
  out_poll :: poll_ops
  out_pipe :: int
  out_wakes :: "((io \<Rightarrow> io) \<times> wakeup) list"

subsection \<open>Access to the guest\<close>

definition io_get :: "addr_t \<Rightarrow> nat \<Rightarrow> io \<Rightarrow> dword_t list option \<times> io" where
  "io_get a n s = (case kget a n (io_kern s) of (r, k) \<Rightarrow> (r, s\<lparr>io_kern := k\<rparr>))"

definition io_read :: "addr_t \<Rightarrow> nat \<Rightarrow> io \<Rightarrow> byte_t list option \<times> io" where
  "io_read a n s =
    (case user_read_task (t_mem (cur_task (io_kern s))) a n (k_vm (io_kern s)) of
       (err, bs, v) \<Rightarrow> (if err \<noteq> 0 then None else Some bs, s\<lparr>io_kern := (io_kern s)\<lparr>k_vm := v\<rparr>\<rparr>))"

definition io_write :: "addr_t \<Rightarrow> byte_t list \<Rightarrow> io \<Rightarrow> int \<times> io" where
  "io_write a bs s =
    (case user_write_task (t_mem (cur_task (io_kern s))) a bs (k_vm (io_kern s)) of
       (err, v) \<Rightarrow> (err, s\<lparr>io_kern := (io_kern s)\<lparr>k_vm := v\<rparr>\<rparr>))"

definition io_f_get :: "dword_t \<Rightarrow> io \<Rightarrow> nat option" where
  "io_f_get f s = f_get f (task_fds (io_kern s))"

subsection \<open>Bit sets\<close>

definition BITS_SIZE :: "int \<Rightarrow> int" where
  "BITS_SIZE n = (n - 1) sdiv 8 + 1"

definition bit_test :: "nat \<Rightarrow> byte_t list \<Rightarrow> bool" where
  "bit_test i bs \<longleftrightarrow> bit (bs ! (i div 8)) (i mod 8)"

definition bit_set :: "nat \<Rightarrow> byte_t list \<Rightarrow> byte_t list" where
  "bit_set i bs = bs[i div 8 := bs ! (i div 8) OR push_bit (i mod 8) 1]"

subsection \<open>select\<close>

abbreviation (input) SELECT_READ :: dword_t where "SELECT_READ \<equiv> 25"
abbreviation (input) SELECT_WRITE :: dword_t where "SELECT_WRITE \<equiv> 12"
abbreviation (input) SELECT_EX :: dword_t where "SELECT_EX \<equiv> 2"

record select_context =
  sc_readfds :: "byte_t list"
  sc_writefds :: "byte_t list"
  sc_exceptfds :: "byte_t list"

definition user_read_or_zero :: "addr_t \<Rightarrow> nat \<Rightarrow> io \<Rightarrow> byte_t list option \<times> io" where
  "user_read_or_zero a n s = (if a = 0 then (Some (replicate n 0), s) else io_read a n s)"

definition select_event_callback :: "select_context poll_callback" where
  "select_event_callback s c fd types info =
    (let i = unat (ucast info :: dword_t);
         c = (if types AND SELECT_READ \<noteq> 0 then c\<lparr>sc_readfds := bit_set i (sc_readfds c)\<rparr> else c);
         c = (if types AND SELECT_WRITE \<noteq> 0 then c\<lparr>sc_writefds := bit_set i (sc_writefds c)\<rparr> else c);
         c = (if types AND SELECT_EX \<noteq> 0 then c\<lparr>sc_exceptfds := bit_set i (sc_exceptfds c)\<rparr> else c)
     in (types AND (SELECT_READ OR SELECT_WRITE OR SELECT_EX) \<noteq> 0, c))"

definition select_events :: "select_context \<Rightarrow> nat \<Rightarrow> dword_t" where
  "select_events c i =
    (if bit_test i (sc_readfds c) then SELECT_READ else 0) OR
    (if bit_test i (sc_writefds c) then SELECT_WRITE else 0) OR
    (if bit_test i (sc_exceptfds c) then SELECT_EX else 0)"

text \<open>Adding the descriptors: false for one that is not open. That an entry could not be
allocated is ignored.\<close>

fun select_add :: "select_context \<Rightarrow> nat \<Rightarrow> nat list \<Rightarrow> io \<Rightarrow> bool \<times> io" where
  "select_add c p [] s = (True, s)"
| "select_add c p (i # is) s =
    (if select_events c i = 0 then select_add c p is s
     else case io_f_get (of_nat i) s of
            None \<Rightarrow> (False, s)
          | Some fd \<Rightarrow> select_add c p is (snd (poll_add_fd p fd (select_events c i) (of_nat i) s)))"

text \<open>The three sets are read and the results written in order; a set without address is
neither.\<close>

definition read_sets :: "addr_t list \<Rightarrow> nat \<Rightarrow> io \<Rightarrow> byte_t list list option \<times> io" where
  "read_sets as n s =
    fold (\<lambda>a (r, s). case r of None \<Rightarrow> (None, s)
       | Some bss \<Rightarrow> (case user_read_or_zero a n s of
            (None, s) \<Rightarrow> (None, s) | (Some bs, s) \<Rightarrow> (Some (bss @ [bs]), s))) as (Some [], s)"

definition write_sets :: "(addr_t \<times> byte_t list) list \<Rightarrow> io \<Rightarrow> int \<times> io" where
  "write_sets xs s =
    fold (\<lambda>(a, bs) (err, s). if err \<noteq> 0 \<or> a = 0 then (err, s)
       else case io_write a bs s of (e, s) \<Rightarrow> (if e \<noteq> 0 then EFAULT else 0, s)) xs (0, s)"

definition get_timeout :: "addr_t \<Rightarrow> int \<Rightarrow> io \<Rightarrow> (int \<times> int) option option \<times> io" where
  "get_timeout a scale s =
    (if a = 0 then (Some None, s)
     else case io_get a 2 s of
            (None, s) \<Rightarrow> (None, s)
          | (Some ws, s) \<Rightarrow> (Some (Some (uint (ws ! 0), uint (word_of_int scale * ws ! 1))), s))"

definition run_select ::
  "outside \<Rightarrow> nat \<Rightarrow> select_context \<Rightarrow> (int \<times> int) option \<Rightarrow> io \<Rightarrow> (int \<times> select_context \<times> io) option"
where
  "run_select w nfds c timeout s =
    (case poll_create s of
       (None, s) \<Rightarrow> Some (ENOMEM, c, s)
     | (Some p, s) \<Rightarrow>
         (case select_add c p [0..<nfds] s of
            (False, s) \<Rightarrow> Some (EBADF, c, poll_destroy p s)
          | (True, s) \<Rightarrow>
              (let n = length (sc_readfds c);
                   c = \<lparr>sc_readfds = replicate n 0, sc_writefds = replicate n 0, sc_exceptfds = replicate n 0\<rparr>
               in map_option (\<lambda>(r, c, s). (r, c, poll_destroy p s))
                    (poll_wait (out_poll w) (out_pipe w) (out_wakes w) select_event_callback p timeout c s))))"

definition sys_select ::
  "outside \<Rightarrow> dword_t \<Rightarrow> addr_t \<Rightarrow> addr_t \<Rightarrow> addr_t \<Rightarrow> addr_t \<Rightarrow> io \<Rightarrow> (int \<times> io) option"
where
  "sys_select w nfds readfds_addr writefds_addr exceptfds_addr timeout_addr s =
    (let sz = BITS_SIZE (sint nfds)
     in if sz < 0 then Some (0, iobad s)
        else case read_sets [readfds_addr, writefds_addr, exceptfds_addr] (nat sz) s of
               (None, s) \<Rightarrow> Some (EFAULT, s)
             | (Some bss, s) \<Rightarrow>
                 (case get_timeout timeout_addr 1000 s of
                    (None, s) \<Rightarrow> Some (EFAULT, s)
                  | (Some timeout, s) \<Rightarrow>
                      map_option (\<lambda>(r, c, s).
                          if r < 0 then (r, s)
                          else case write_sets [(readfds_addr, sc_readfds c), (writefds_addr, sc_writefds c),
                                                (exceptfds_addr, sc_exceptfds c)] s of
                                 (err, s) \<Rightarrow> (if err \<noteq> 0 then err else r, s))
                        (run_select w (nat (sint nfds))
                           \<lparr>sc_readfds = bss ! 0, sc_writefds = bss ! 1, sc_exceptfds = bss ! 2\<rparr> timeout s)))"

subsection \<open>poll\<close>

record pollfd =
  pd_fd :: dword_t
  pd_events :: word_t
  pd_revents :: word_t

definition pollfds_of_bytes :: "nat \<Rightarrow> byte_t list \<Rightarrow> pollfd list" where
  "pollfds_of_bytes n bs =
    map (\<lambda>i. \<lparr>pd_fd = word_of_bytes (take 4 (drop (8 * i) bs)),
              pd_events = word_of_bytes (take 2 (drop (8 * i + 4) bs)),
              pd_revents = word_of_bytes (take 2 (drop (8 * i + 6) bs))\<rparr>) [0..<n]"

definition bytes_of_pollfds :: "pollfd list \<Rightarrow> byte_t list" where
  "bytes_of_pollfds ps =
    concat (map (\<lambda>p. bytes_of_word 4 (pd_fd p) @ bytes_of_word 2 (pd_events p) @ bytes_of_word 2 (pd_revents p)) ps)"

abbreviation (input) POLL_ALWAYS_LISTENING :: dword_t where "POLL_ALWAYS_LISTENING \<equiv> 56"

definition poll_event_callback :: "pollfd list poll_callback" where
  "poll_event_callback s ps fd types info =
    (\<exists>p \<in> set ps. io_f_get (pd_fd p) s = Some fd,
     map (\<lambda>p. if io_f_get (pd_fd p) s = Some fd
               then p\<lparr>pd_revents := ucast (types AND (ucast (pd_events p) OR POLL_ALWAYS_LISTENING))\<rparr> else p) ps)"

text \<open>One round of the loop that merges the descriptors of the same file. The member
\<open>revents\<close> marks those that are done.\<close>

definition poll_merge :: "nat \<Rightarrow> nat \<Rightarrow> pollfd list \<times> io \<Rightarrow> pollfd list \<times> io" where
  "poll_merge p i = (\<lambda>(ps, s).
    let x = ps ! i
    in if sint (pd_fd x) < 0 \<or> pd_revents x \<noteq> 0 then (ps, s)
       else (let ps = ps[i := x\<lparr>pd_revents := 1\<rparr>]
             in case io_f_get (pd_fd x) s of
                  None \<Rightarrow> (ps, s)
                | Some fd \<Rightarrow>
                    (let same = (\<lambda>y. pd_revents y = 0 \<and> io_f_get (pd_fd y) s = Some fd);
                         events = fold (\<lambda>y e. if same y then e OR ucast (pd_events y) else e) ps (ucast (pd_events x));
                         ps = map (\<lambda>y. if same y then y\<lparr>pd_revents := 1\<rparr> else y) ps
                     in (ps, snd (poll_add_fd p fd (events OR POLL_ALWAYS_LISTENING) 0 s)))))"

definition poll_unmark :: "io \<Rightarrow> pollfd \<Rightarrow> pollfd" where
  "poll_unmark s x = x\<lparr>pd_revents := (if io_f_get (pd_fd x) s = None then ucast POLL_NVAL else 0)\<rparr>"

definition millis_timeout :: "dword_t \<Rightarrow> (int \<times> int) option" where
  "millis_timeout t = (if t = - 1 then None else Some (uint t div 1000, uint (t mod 1000 * 1000000)))"

definition sys_poll :: "outside \<Rightarrow> addr_t \<Rightarrow> dword_t \<Rightarrow> dword_t \<Rightarrow> io \<Rightarrow> (int \<times> io) option" where
  "sys_poll w fds nfds timeout s =
    (let n = unat nfds
     in case (if fds \<noteq> 0 \<or> nfds \<noteq> 0 then io_read fds (8 * n) s else (Some [], s)) of
          (None, s) \<Rightarrow> Some (EFAULT, s)
        | (Some bs, s) \<Rightarrow>
            (case poll_create s of
               (None, s) \<Rightarrow> Some (ENOMEM, s)
             | (Some p, s) \<Rightarrow>
                 (let ps = map (\<lambda>x. x\<lparr>pd_revents := 0\<rparr>) (pollfds_of_bytes n bs);
                      (ps, s) = fold (poll_merge p) [0..<n] (ps, s);
                      ps = map (poll_unmark s) ps
                  in map_option (\<lambda>(r, ps, s).
                         let s = poll_destroy p s
                         in if r < 0 \<or> fds = 0 \<and> nfds = 0 then (r, s)
                            else case io_write fds (bytes_of_pollfds ps) s of
                                   (err, s) \<Rightarrow> (if err \<noteq> 0 then EFAULT else r, s))
                       (poll_wait (out_poll w) (out_pipe w) (out_wakes w) poll_event_callback p
                         (millis_timeout timeout) ps s))))"

subsection \<open>With a mask of signals\<close>

text \<open>Setting the mask for the time of a call. \<open>get\<close> gives the mask, if any, or an error.\<close>

definition with_mask :: "(int + qword_t option) \<times> io \<Rightarrow> (io \<Rightarrow> (int \<times> io) option) \<Rightarrow> (int \<times> io) option" where
  "with_mask m f =
    (case m of
       (Inl err, s) \<Rightarrow> Some (err, s)
     | (Inr None, s) \<Rightarrow> f s
     | (Inr (Some new), s) \<Rightarrow>
         (case do_sigprocmask 2 new (io_kern s) of
            (old, k) \<Rightarrow>
              map_option (\<lambda>(r, s). (r, case old of
                   Inl _ \<Rightarrow> s
                 | Inr old \<Rightarrow> s\<lparr>io_kern := snd (do_sigprocmask 2 old (io_kern s))\<rparr>))
                (f (s\<lparr>io_kern := k\<rparr>))))"

definition get_mask :: "addr_t \<Rightarrow> dword_t \<Rightarrow> io \<Rightarrow> (int + qword_t option) \<times> io" where
  "get_mask mask_addr mask_size s =
    (if mask_addr = 0 then (Inr None, s)
     else if mask_size \<noteq> 8 then (Inl EINVAL, s)
     else case io_get mask_addr 2 s of
            (None, s) \<Rightarrow> (Inl EFAULT, s)
          | (Some ws, s) \<Rightarrow> (Inr (Some (qword_of (ws ! 0) (ws ! 1))), s))"

definition sys_pselect ::
  "outside \<Rightarrow> dword_t \<Rightarrow> addr_t \<Rightarrow> addr_t \<Rightarrow> addr_t \<Rightarrow> addr_t \<Rightarrow> addr_t \<Rightarrow> io \<Rightarrow> (int \<times> io) option"
where
  "sys_pselect w nfds readfds writefds exceptfds timeout sigmask_addr s =
    (case io_get sigmask_addr 2 s of
       (None, s) \<Rightarrow> Some (EFAULT, s)
     | (Some ws, s) \<Rightarrow>
         with_mask (get_mask (ws ! 0) (ws ! 1) s) (sys_select w nfds readfds writefds exceptfds timeout))"

definition sys_ppoll ::
  "outside \<Rightarrow> addr_t \<Rightarrow> dword_t \<Rightarrow> addr_t \<Rightarrow> addr_t \<Rightarrow> dword_t \<Rightarrow> io \<Rightarrow> (int \<times> io) option"
where
  "sys_ppoll w fds nfds timeout_addr sigmask_addr sigsetsize s =
    (case (if timeout_addr = 0 then (Some (- 1), s)
           else case io_get timeout_addr 2 s of
                  (None, s) \<Rightarrow> (None, s)
                | (Some ws, s) \<Rightarrow> (Some (ws ! 0 * 1000 + ws ! 1 div 1000000), s)) of
       (None, s) \<Rightarrow> Some (EFAULT, s)
     | (Some timeout, s) \<Rightarrow>
         with_mask (get_mask sigmask_addr sigsetsize s) (sys_poll w fds nfds timeout))"

subsection \<open>epoll\<close>

definition sys_epoll_create :: "dword_t \<Rightarrow> io \<Rightarrow> int \<times> io" where
  "sys_epoll_create flags s =
    (if flags AND NOT O_CLOEXEC \<noteq> 0 then (EINVAL, s)
     else case adhoc_fd_create Other s of
            (fd, s) \<Rightarrow>
              (case poll_create s of
                 (p, s) \<Rightarrow> io_install fd flags (s\<lparr>io_data := (io_data s)(fd := Epoll p)\<rparr>)))"

definition sys_epoll_create0 :: "io \<Rightarrow> int \<times> io" where
  "sys_epoll_create0 = sys_epoll_create 0"

text \<open>\<open>struct epoll_event_\<close> is packed: the events and the two halves of the data.\<close>

definition sys_epoll_ctl :: "dword_t \<Rightarrow> dword_t \<Rightarrow> dword_t \<Rightarrow> addr_t \<Rightarrow> io \<Rightarrow> int \<times> io" where
  "sys_epoll_ctl epoll_f op_nr f event_addr s =
    (case io_f_get epoll_f s of
       None \<Rightarrow> (EBADF, s)
     | Some epoll \<Rightarrow>
         (case io_data s epoll of
            Epoll p \<Rightarrow>
              (case (io_f_get f s, p) of
                 (None, _) \<Rightarrow> (EBADF, s)
               | (_, None) \<Rightarrow> (0, iobad s)
               | (Some fd, Some p) \<Rightarrow>
                   if op_nr = 2 then poll_del_fd p fd s
                   else case io_get event_addr 3 s of
                          (None, s) \<Rightarrow> (EFAULT, s)
                        | (Some ws, s) \<Rightarrow>
                            if ws ! 0 AND 0xc0000000 \<noteq> 0 then (EINVAL, s)
                            else if op_nr = 1
                            then (if poll_has_fd p fd s then (EEXIST, s)
                                  else poll_add_fd p fd (ws ! 0) (qword_of (ws ! 1) (ws ! 2)) s)
                            else poll_mod_fd p fd (ws ! 0) (qword_of (ws ! 1) (ws ! 2)) s)
          | _ \<Rightarrow> (EINVAL, s)))"

text \<open>The context is the events so far and how many there is room for.\<close>

definition epoll_callback :: "((dword_t \<times> qword_t) list \<times> nat) poll_callback" where
  "epoll_callback s c fd types info =
    (case c of (events, max_events) \<Rightarrow>
       if length events \<ge> max_events then (False, c) else (True, (events @ [(types, info)], max_events)))"

definition bytes_of_events :: "(dword_t \<times> qword_t) list \<Rightarrow> byte_t list" where
  "bytes_of_events es = concat (map (\<lambda>(t, d). bytes_of_word 4 t @ bytes_of_word 8 d) es)"

definition epoll_timeout :: "dword_t \<Rightarrow> (int \<times> int) option" where
  "epoll_timeout t =
    (if t = - 1 then None else Some (sint t sdiv 1000, sint t smod 1000 * 1000000))"

definition sys_epoll_wait :: "outside \<Rightarrow> dword_t \<Rightarrow> addr_t \<Rightarrow> dword_t \<Rightarrow> dword_t \<Rightarrow> io \<Rightarrow> (int \<times> io) option" where
  "sys_epoll_wait w epoll_f events_addr max_events timeout s =
    (case io_f_get epoll_f s of
       None \<Rightarrow> Some (EBADF, s)
     | Some epoll \<Rightarrow>
         (case io_data s epoll of
            Epoll p \<Rightarrow>
              if sint max_events \<le> 0 then Some (EINVAL, s)
              else (case p of
                      None \<Rightarrow> Some (0, iobad s)
                    | Some p \<Rightarrow>
                        map_option (\<lambda>(r, (events, _), s).
                            if r < 0 then (r, s)
                            else case io_write events_addr (bytes_of_events (take (nat r) events)) s of
                                   (err, s) \<Rightarrow> (if err \<noteq> 0 then EFAULT else r, s))
                          (poll_wait (out_poll w) (out_pipe w) (out_wakes w) epoll_callback p (epoll_timeout timeout)
                            ([], nat (sint max_events)) s))
          | _ \<Rightarrow> Some (EINVAL, s)))"

definition sys_epoll_pwait ::
  "outside \<Rightarrow> dword_t \<Rightarrow> addr_t \<Rightarrow> dword_t \<Rightarrow> dword_t \<Rightarrow> addr_t \<Rightarrow> dword_t \<Rightarrow> io \<Rightarrow> (int \<times> io) option"
where
  "sys_epoll_pwait w epoll_f events_addr max_events timeout sigmask_addr sigsetsize s =
    with_mask (get_mask sigmask_addr sigsetsize s) (sys_epoll_wait w epoll_f events_addr max_events timeout)"

end
