(* ===== verification/Poll_Facts.thy ===== *)
theory Poll_Facts
  imports Epoll
begin

text \<open>
  The invariant of the sets of files: an entry is in the list of its set and in
  that of its file, once, and nowhere else, and its set exists. Every operation
  keeps it, so that no set is left with a file that has been freed.
\<close>

subsection \<open>The invariant\<close>

definition poll_list :: "io \<Rightarrow> nat \<Rightarrow> nat list option" where
  "poll_list s p = map_option po_fds (io_polls s p)"

definition polls_ok :: "io \<Rightarrow> bool" where
  "polls_ok s \<longleftrightarrow>
    (\<forall>p es. poll_list s p = Some es \<longrightarrow> distinct es \<and> p < io_next s) \<and>
    (\<forall>fd. distinct (io_watch s fd)) \<and>
    (\<forall>e y. io_entries s e = Some y \<longrightarrow> e < io_next s \<and> poll_list s (pf_poll y) \<noteq> None) \<and>
    (\<forall>p es e. poll_list s p = Some es \<longrightarrow> (e \<in> set es \<longleftrightarrow> (\<exists>y. io_entries s e = Some y \<and> pf_poll y = p))) \<and>
    (\<forall>fd e. e \<in> set (io_watch s fd) \<longleftrightarrow> (\<exists>y. io_entries s e = Some y \<and> pf_fd y = fd))"

lemma polls_okD:
  assumes "polls_ok s"
  shows "poll_list s p = Some es \<Longrightarrow> distinct es" "poll_list s p = Some es \<Longrightarrow> p < io_next s"
    and "distinct (io_watch s fd)"
    and "io_entries s e = Some y \<Longrightarrow> e < io_next s" "io_entries s e = Some y \<Longrightarrow> \<exists>es. poll_list s (pf_poll y) = Some es"
    and "poll_list s p = Some es \<Longrightarrow> e \<in> set es \<longleftrightarrow> (\<exists>y. io_entries s e = Some y \<and> pf_poll y = p)"
    and "e \<in> set (io_watch s fd) \<longleftrightarrow> (\<exists>y. io_entries s e = Some y \<and> pf_fd y = fd)"
  using assms unfolding polls_ok_def by blast+

text \<open>What the invariant looks at.\<close>

definition same_polls :: "io \<Rightarrow> io \<Rightarrow> bool" where
  "same_polls s s' \<longleftrightarrow> io_entries s' = io_entries s \<and> io_watch s' = io_watch s \<and> io_next s' = io_next s \<and>
     poll_list s' = poll_list s"

lemma same_polls_refl: "same_polls s s"
  by (simp add: same_polls_def)

lemma same_polls_trans: "same_polls s t \<Longrightarrow> same_polls t u \<Longrightarrow> same_polls s u"
  by (simp add: same_polls_def)

lemma same_polls_ok: "same_polls s s' \<Longrightarrow> polls_ok s \<Longrightarrow> polls_ok s'"
  by (simp add: same_polls_def polls_ok_def)

lemma same_polls_updates [simp]:
  "same_polls s (s\<lparr>io_kern := k\<rparr>)" "same_polls s (s\<lparr>io_data := d\<rparr>)" "same_polls s (s\<lparr>io_asked := a\<rparr>)" "same_polls s (iobad s)"
  by (simp_all add: same_polls_def iobad_def poll_list_def fun_eq_iff)

lemma same_polls_upd_poll:
  "(\<And>x. po_fds (f x) = po_fds x) \<Longrightarrow> same_polls s (upd_poll p f s)"
  by (simp add: same_polls_def upd_poll_def iobad_def poll_list_def fun_eq_iff split: option.splits)

lemma same_polls_take_note: "same_polls s (take_note p s)" "same_polls s (poll_leave p s)"
  unfolding take_note_def poll_leave_def by (rule same_polls_upd_poll; simp)+

lemma same_polls_notify: "same_polls s (notify_entry e s)"
  using same_polls_upd_poll[of "\<lambda>p. if po_pipe p then p\<lparr>po_notes := Suc (po_notes p)\<rparr> else p" s]
  by (simp add: notify_entry_def split: option.splits)

lemma same_polls_fold: "(\<And>x s. same_polls s (f x s)) \<Longrightarrow> same_polls s (fold f xs s)"
  by (induction xs arbitrary: s) (auto intro: same_polls_refl same_polls_trans)

lemma same_polls_wake: "same_polls s (poll_wake fd s)"
  by (simp add: poll_wake_def same_polls_fold same_polls_notify)

lemma same_polls_bad: "same_polls s t \<Longrightarrow> same_polls s (iobad t)"
  by (erule same_polls_trans) (rule same_polls_updates(4))

lemma same_polls_enter: "same_polls s (snd (poll_enter e p s))"
  by (auto simp: poll_enter_def Let_def split: option.splits
      intro!: same_polls_bad same_polls_trans[OF same_polls_upd_poll same_polls_upd_poll] same_polls_upd_poll)

lemma same_polls_malloc: "same_polls s (snd (io_malloc s))"
  by (simp add: io_malloc_def split: prod.splits)

subsection \<open>Entries\<close>

lemma ok_new_entry:
  assumes ok: "polls_ok s" and p: "poll_list s p = Some es" and y: "pf_poll y = p" "pf_fd y = fd"
  defines "e \<equiv> io_next s"
  shows "polls_ok (upd_poll p (\<lambda>x. x\<lparr>po_fds := e # po_fds x\<rparr>)
    (s\<lparr>io_next := Suc e, io_entries := (io_entries s)(e \<mapsto> y), io_watch := (io_watch s)(fd := e # io_watch s fd)\<rparr>))"
    (is "polls_ok ?s")
proof -
  have fresh: "io_entries s e = None" using polls_okD(4)[OF ok, of e] by (cases "io_entries s e") (auto simp: e_def)
  have w: "e \<notin> set (io_watch s f)" for f using polls_okD(7)[OF ok, of e] fresh by auto
  have l: "e \<notin> set fs" if "poll_list s q = Some fs" for q fs using polls_okD(6)[OF ok that, of e] fresh by auto
  have pl: "poll_list ?s = (poll_list s)(p \<mapsto> e # es)"
    using p by (auto simp: poll_list_def upd_poll_def fun_eq_iff)
  have r: "io_entries ?s = (io_entries s)(e \<mapsto> y)" "io_watch ?s = (io_watch s)(fd := e # io_watch s fd)" "io_next ?s = Suc e"
    using p by (auto simp: upd_poll_def poll_list_def)
  show ?thesis
    unfolding polls_ok_def pl r
  proof (intro conjI allI impI)
    fix q fs assume "((poll_list s)(p \<mapsto> e # es)) q = Some fs"
    then show "distinct fs" "q < Suc e"
      using polls_okD(1,2)[OF ok] l[OF p] p by (auto simp: e_def less_Suc_eq split: if_splits)
  next
    fix q fs f assume "((poll_list s)(p \<mapsto> e # es)) q = Some fs"
    then show "f \<in> set fs \<longleftrightarrow> (\<exists>z. ((io_entries s)(e \<mapsto> y)) f = Some z \<and> pf_poll z = q)"
      using polls_okD(6)[OF ok] l p y by (auto split: if_splits)
  next
    fix f z assume "((io_entries s)(e \<mapsto> y)) f = Some z"
    then show "f < Suc e" "((poll_list s)(p \<mapsto> e # es)) (pf_poll z) \<noteq> None"
      using polls_okD(4,5)[OF ok] y by (auto simp: e_def less_Suc_eq split: if_splits)
  next
    fix f show "distinct (((io_watch s)(fd := e # io_watch s fd)) f)"
      using polls_okD(3)[OF ok] w by simp
  next
    fix f g show "g \<in> set (((io_watch s)(fd := e # io_watch s fd)) f) \<longleftrightarrow>
        (\<exists>z. ((io_entries s)(e \<mapsto> y)) g = Some z \<and> pf_fd z = f)"
      using polls_okD(7)[OF ok] w y by auto
  qed
qed

lemma ok_add: "polls_ok s \<Longrightarrow> poll_list s p = Some es \<Longrightarrow> polls_ok (snd (poll_add_fd p fd types info s))"
  using same_polls_malloc[of s] ok_new_entry[of "snd (io_malloc s)" p es]
  by (auto simp: poll_add_fd_def Let_def same_polls_def dest: same_polls_ok[OF same_polls_malloc] split: prod.splits bool.splits)

lemma drop_entry_frame:
  assumes ok: "polls_ok s" and y: "io_entries s e = Some y"
  shows "io_entries (drop_entry e s) = (io_entries s)(e := None)"
    and "io_watch (drop_entry e s) = (io_watch s)(pf_fd y := remove1 e (io_watch s (pf_fd y)))"
    and "io_next (drop_entry e s) = io_next s" "io_data (drop_entry e s) = io_data s"
    and "poll_list (drop_entry e s) = (poll_list s)(pf_poll y := map_option (remove1 e) (poll_list s (pf_poll y)))"
  using polls_okD(5)[OF ok y] y
  by (auto simp: drop_entry_def Let_def upd_poll_def poll_list_def fun_eq_iff)

lemma ok_drop:
  assumes ok: "polls_ok s" and y: "io_entries s e = Some y"
  shows "polls_ok (drop_entry e s)"
  unfolding polls_ok_def drop_entry_frame[OF assms]
proof (intro conjI allI impI)
  fix q fs assume "((poll_list s)(pf_poll y := map_option (remove1 e) (poll_list s (pf_poll y)))) q = Some fs"
  then show "distinct fs" "q < io_next s"
    using polls_okD(1,2)[OF ok] by (auto split: if_splits)
next
  fix q fs f assume "((poll_list s)(pf_poll y := map_option (remove1 e) (poll_list s (pf_poll y)))) q = Some fs"
  then show "f \<in> set fs \<longleftrightarrow> (\<exists>z. ((io_entries s)(e := None)) f = Some z \<and> pf_poll z = q)"
    using polls_okD(1,6)[OF ok] y by (auto simp: set_remove1_eq split: if_splits)
next
  fix f z assume "((io_entries s)(e := None)) f = Some z"
  then have "io_entries s f = Some z" by (simp split: if_splits)
  from polls_okD(4,5)[OF ok this]
  show "f < io_next s" "((poll_list s)(pf_poll y := map_option (remove1 e) (poll_list s (pf_poll y)))) (pf_poll z) \<noteq> None"
    by auto
next
  fix f show "distinct (((io_watch s)(pf_fd y := remove1 e (io_watch s (pf_fd y)))) f)"
    using polls_okD(3)[OF ok] by simp
next
  fix f g show "g \<in> set (((io_watch s)(pf_fd y := remove1 e (io_watch s (pf_fd y)))) f) \<longleftrightarrow>
      (\<exists>z. ((io_entries s)(e := None)) g = Some z \<and> pf_fd z = f)"
    using polls_okD(3,7)[OF ok] y by (auto simp: set_remove1_eq)
qed

lemma drop_entries:
  "polls_ok s \<Longrightarrow> distinct es \<Longrightarrow> (\<forall>e \<in> set es. io_entries s e \<noteq> None) \<Longrightarrow>
   polls_ok (fold drop_entry es s) \<and>
   io_entries (fold drop_entry es s) = (\<lambda>e. if e \<in> set es then None else io_entries s e) \<and>
   io_data (fold drop_entry es s) = io_data s \<and>
   (\<forall>p. poll_list (fold drop_entry es s) p = None \<longleftrightarrow> poll_list s p = None) \<and>
   io_next (fold drop_entry es s) = io_next s"
proof (induction es arbitrary: s)
  case (Cons e es)
  obtain y where y: "io_entries s e = Some y" using Cons.prems(3) by auto
  note f = drop_entry_frame[OF Cons.prems(1) y]
  have ok: "polls_ok (drop_entry e s)" by (rule ok_drop[OF Cons.prems(1) y])
  have "distinct es" "\<forall>x \<in> set es. io_entries (drop_entry e s) x \<noteq> None"
    using Cons.prems(2,3) by (auto simp: f)
  from Cons.IH[OF ok this] show ?case by (auto simp: f)
qed simp

lemmas ok_drops = conjunct1[OF drop_entries] drop_entries[THEN conjunct2, THEN conjunct1]
  drop_entries[THEN conjunct2, THEN conjunct2, THEN conjunct1]
  drop_entries[THEN conjunct2, THEN conjunct2, THEN conjunct2, THEN conjunct1, THEN spec]
  drop_entries[THEN conjunct2, THEN conjunct2, THEN conjunct2, THEN conjunct2]

lemma ok_destroy:
  assumes ok: "polls_ok s" and p: "poll_list s p = Some es"
  shows "polls_ok (poll_destroy p s)"
    and "io_entries (poll_destroy p s) = (\<lambda>e. if e \<in> set es then None else io_entries s e)"
    and "io_next (poll_destroy p s) = io_next s" "io_data (poll_destroy p s) = io_data s"
proof -
  have es: "poll_of p s = es" using p by (auto simp: poll_of_def poll_list_def)
  have "distinct es" "\<forall>e \<in> set es. io_entries s e \<noteq> None"
    using polls_okD(1)[OF ok p] polls_okD(6)[OF ok p] by auto
  note d = ok_drops[OF ok this]
  let ?s = "fold drop_entry es s"
  show e: "io_entries (poll_destroy p s) = (\<lambda>e. if e \<in> set es then None else io_entries s e)"
    "io_next (poll_destroy p s) = io_next s" "io_data (poll_destroy p s) = io_data s"
    using d by (simp_all add: poll_destroy_def es Let_def)
  have l: "poll_list (poll_destroy p s) = (poll_list ?s)(p := None)"
    by (auto simp: poll_destroy_def es poll_list_def fun_eq_iff Let_def)
  have w: "io_watch (poll_destroy p s) = io_watch ?s" by (simp add: poll_destroy_def es Let_def)
  have gone: "io_entries ?s e = Some y \<Longrightarrow> pf_poll y \<noteq> p" for e y
    using polls_okD(6)[OF ok p, of e] by (auto simp: d(2) split: if_splits)
  show "polls_ok (poll_destroy p s)"
    unfolding polls_ok_def l w e(2) e(1)[folded d(2)]
  proof (intro conjI allI impI)
    fix q fs assume "((poll_list ?s)(p := None)) q = Some fs"
    then show "distinct fs" "q < io_next s"
      using polls_okD(1,2)[OF d(1)] d(5) by (auto split: if_splits)
  next
    fix q fs f assume "((poll_list ?s)(p := None)) q = Some fs"
    then show "f \<in> set fs \<longleftrightarrow> (\<exists>z. io_entries ?s f = Some z \<and> pf_poll z = q)"
      using polls_okD(6)[OF d(1)] by (auto split: if_splits)
  next
    fix f z assume z: "io_entries ?s f = Some z"
    show "f < io_next s" using polls_okD(4)[OF d(1) z] d(5) by simp
    show "((poll_list ?s)(p := None)) (pf_poll z) \<noteq> None"
      using polls_okD(5)[OF d(1) z] gone[OF z] by auto
  qed (use polls_okD(3,7)[OF d(1)] in auto)
qed

text \<open>A file that is freed is in no set any more.\<close>

lemma ok_forget:
  assumes ok: "polls_ok s" and p: "\<And>p. io_data s fd = Epoll (Some p) \<Longrightarrow> poll_list s p \<noteq> None"
  shows "polls_ok (forget_fd fd s)" "io_entries (forget_fd fd s) e = Some y \<Longrightarrow> pf_fd y \<noteq> fd"
proof -
  let ?s = "fold drop_entry (io_watch s fd) s"
  have w: "distinct (io_watch s fd)" "\<forall>e \<in> set (io_watch s fd). io_entries s e \<noteq> None"
    using polls_okD(3,7)[OF ok] by auto
  note d = ok_drops[OF ok w]
  have gone: "io_entries ?s e = Some y \<Longrightarrow> pf_fd y \<noteq> fd" for e y
    using polls_okD(7)[OF ok, of e fd] by (auto simp: d(2) split: if_splits)
  define t where "t = (case io_data ?s fd of Epoll (Some p) \<Rightarrow> poll_destroy p ?s | Epoll None \<Rightarrow> iobad ?s | _ \<Rightarrow> ?s)"
  have f: "forget_fd fd s = t\<lparr>io_data := (io_data t)(fd := Other)\<rparr>" by (simp add: forget_fd_def t_def Let_def)
  have "polls_ok t \<and> (\<forall>e y. io_entries t e = Some y \<longrightarrow> io_entries ?s e = Some y)"
  proof (cases "\<exists>p. io_data s fd = Epoll (Some p)")
    case True
    then obtain p where q: "io_data s fd = Epoll (Some p)" by blast
    then obtain es where "poll_list ?s p = Some es" using assms(2)[OF q] d(4)[of p] by auto
    from ok_destroy[OF d(1) this] show ?thesis using q by (auto simp: t_def d(3) split: if_splits)
  next
    case False
    then have "t = ?s \<or> t = iobad ?s" by (auto simp: t_def d(3) split: fd_data.splits option.splits)
    then show ?thesis using d(1) same_polls_ok[OF same_polls_updates(4)] by (auto simp: iobad_def)
  qed
  then show "polls_ok (forget_fd fd s)" "io_entries (forget_fd fd s) e = Some y \<Longrightarrow> pf_fd y \<noteq> fd"
    using same_polls_ok[OF same_polls_updates(2)] gone[of e y] by (auto simp: f)
qed

end
