(* ===== verification/Poll_Props.thy ===== *)
theory Poll_Props
  imports Poll_Facts Kern_Demo
begin

text \<open>
  Properties of waiting: what a counter holds, what a set of files reports, that a
  sleeping call is woken, and that a closed file is forgotten.
\<close>

subsection \<open>Counters\<close>

lemma io_data_wake [simp]: "io_data (poll_wake fd s) = io_data s"
proof -
  have "io_data (notify_entry e s) = io_data s" for e s
    by (simp add: notify_entry_def upd_poll_def iobad_def split: option.splits)
  then have "io_data (fold notify_entry es s) = io_data s" for es by (induction es arbitrary: s) simp_all
  then show ?thesis by (simp add: poll_wake_def)
qed

datatype counter_op = Get | Add qword_t

text \<open>One read or write: what was read, what was added, and the state. A call that is
refused or would sleep does nothing.\<close>

fun counter_step :: "nat \<Rightarrow> counter_op \<Rightarrow> io \<Rightarrow> nat \<times> nat \<times> io" where
  "counter_step fd Get s =
    (case eventfd_read [] fd 8 s of Some (Inr v, s') \<Rightarrow> (unat v, 0, s') | _ \<Rightarrow> (0, 0, s))"
| "counter_step fd (Add n) s =
    (case eventfd_write [] fd n 8 s of
       None \<Rightarrow> (0, 0, s) | Some (e, s') \<Rightarrow> if e = 8 then (0, unat n, s') else (0, 0, s))"

fun counter_run :: "nat \<Rightarrow> counter_op list \<Rightarrow> io \<Rightarrow> nat \<times> nat \<times> io" where
  "counter_run fd [] s = (0, 0, s)"
| "counter_run fd (x # xs) s =
    (let (r, w, s) = counter_step fd x s; (r', w', s) = counter_run fd xs s in (r + r', w + w', s))"

lemma counter_wait_none:
  "counter_wait ready fd [] s = Some (b, s') \<Longrightarrow> s' = s \<and> (b \<longleftrightarrow> ready s)"
  by (simp add: counter_wait.simps[of _ _ "[]"] split: if_splits)

lemma eventfd_read_step:
  assumes "eventfd_read [] fd 8 s = Some (Inr v, s')" "io_data s fd = Eventfd c"
  shows "v = c" "io_data s' fd = Eventfd 0"
  using assms counter_wait_none[of "\<lambda>s. counter fd s \<noteq> 0" fd s]
  by (auto simp: eventfd_read_def counter_def split: option.splits prod.splits bool.splits if_splits)

lemma eventfd_write_step:
  assumes "eventfd_write [] fd n 8 s = Some (8, s')" "io_data s fd = Eventfd c"
  shows "c < - 1 - n" "n \<noteq> - 1" "io_data s' fd = Eventfd (c + n)"
  using assms counter_wait_none[of "\<lambda>s. counter fd s < - 1 - n" fd s]
  by (auto simp: eventfd_write_def counter_def split: option.splits prod.splits bool.splits if_splits)

lemma room_in_counter:
  fixes c n :: qword_t
  assumes "c < - 1 - n"
  shows "unat (c + n) = unat c + unat n" "unat (c + n) < 2 ^ 64 - 1"
proof -
  have n: "unat n < 2 ^ 64" using unsigned_less[of n] by simp
  then have "unat (- 1 - n) = 2 ^ 64 - 1 - unat n"
    by (simp add: unat_sub_if' unsigned_minus_1_eq_mask mask_eq_exp_minus_1)
  then have "unat c + unat n < 2 ^ 64 - 1" using assms n by (simp add: word_less_nat_alt)
  then show "unat (c + n) = unat c + unat n" "unat (c + n) < 2 ^ 64 - 1" by (simp_all add: unat_add_lem[THEN iffD1])
qed

lemma counter_step_total:
  assumes "counter_step fd x s = (r, w, t)" "io_data s fd = Eventfd c" "c \<noteq> - 1"
  shows "\<exists>d. io_data t fd = Eventfd d \<and> d \<noteq> - 1 \<and> unat c + w = r + unat d"
proof (cases x)
  case Get
  then show ?thesis
    using assms eventfd_read_step[OF _ assms(2)] by (auto split: option.splits sum.splits prod.splits)
next
  case (Add n)
  have "c + n \<noteq> - 1" if "c < - 1 - n" using room_in_counter(2)[OF that] by (auto simp: unsigned_minus_1_eq_mask mask_eq_exp_minus_1)
  then show ?thesis
    using Add assms eventfd_write_step[OF _ assms(2)] room_in_counter(1)[of c n]
    by (fastforce split: option.splits prod.splits if_splits)
qed

text \<open>A counter loses nothing: over any sequence of reads and writes, refused and
sleeping ones included, what was in it and what was added is what was read and what is
left, as numbers without wrap-around.\<close>
lemma eventfd_conserves:
  assumes "counter_run fd xs s = (r, w, t)" "io_data s fd = Eventfd c" "c \<noteq> - 1"
  shows "\<exists>d. io_data t fd = Eventfd d \<and> d \<noteq> - 1 \<and> unat c + w = r + unat d"
  using assms
proof (induction xs arbitrary: c r w s)
  case (Cons x xs)
  obtain r1 w1 s1 where x: "counter_step fd x s = (r1, w1, s1)" by (cases "counter_step fd x s")
  obtain r2 w2 where xs: "counter_run fd xs s1 = (r2, w2, t)" "r = r1 + r2" "w = w1 + w2"
    using Cons.prems(1) x by (auto split: prod.splits)
  from counter_step_total[OF x Cons.prems(2,3)] Cons.IH[OF xs(1)] show ?case using xs by fastforce
qed simp

text \<open>A read that sleeps cannot be interrupted: with a signal pending it never returns,
whatever the other threads do.\<close>

lemma eventfd_read_ignores_signals:
  "counter fd s = 0 \<Longrightarrow> \<not> fd_nonblocking fd s \<Longrightarrow> io_pending s \<Longrightarrow> 8 \<le> n \<Longrightarrow> eventfd_read others fd n s = None"
  by (simp add: eventfd_read_def counter_wait.simps)

subsection \<open>What epoll reports\<close>

definition ready_event :: "poll_ops \<Rightarrow> io \<Rightarrow> nat \<Rightarrow> (dword_t \<times> qword_t) option" where
  "ready_event other s e =
    (case io_entries s e of
       None \<Rightarrow> None
     | Some x \<Rightarrow> (let t = fd_poll other (pf_fd x) (pf_types x) s in if t = 0 then None else Some (t, pf_info x)))"

definition ready_events :: "poll_ops \<Rightarrow> nat \<Rightarrow> io \<Rightarrow> (dword_t \<times> qword_t) list" where
  "ready_events other p s = List.map_filter (ready_event other s) (poll_of p s)"

definition never_invalid :: "poll_ops \<Rightarrow> bool" where
  "never_invalid other \<longleftrightarrow> (\<forall>fd types s. other fd types s AND POLL_NVAL = 0)"

lemma fd_poll_valid:
  assumes "never_invalid other" shows "fd_poll other fd types s AND POLL_NVAL = 0"
proof -
  have "eventfd_poll v AND POLL_NVAL = 0" "timerfd_poll v AND POLL_NVAL = 0" for v
    by (simp_all add: eventfd_poll_def timerfd_poll_def)
  then have "(eventfd_poll v AND types) AND POLL_NVAL = 0" "(timerfd_poll v AND types) AND POLL_NVAL = 0" for v
    by (metis and.assoc and.commute and_zero_eq)+
  then show ?thesis using assms by (simp add: fd_poll_def never_invalid_def split: fd_data.splits)
qed

lemma epoll_callback_app:
  "epoll_callback s (evs, m) fd t i = (if m \<le> length evs then (False, (evs, m)) else (True, (evs @ [(t, i)], m)))"
  by (simp add: epoll_callback_def)

lemma poll_scan_epoll:
  assumes "never_invalid other" "\<forall>e \<in> set es. io_entries s e \<noteq> None"
  shows "poll_scan other epoll_callback es n (evs, m) s =
    (n + min (length (List.map_filter (ready_event other s) es)) (m - length evs),
     (evs @ take (m - length evs) (List.map_filter (ready_event other s) es), m), s)"
  using assms(2)
proof (induction es arbitrary: n evs)
  case Nil
  then show ?case by (simp add: List.map_filter_simps)
next
  case (Cons e es)
  then obtain x where x: "io_entries s e = Some x" by auto
  define t where "t = fd_poll other (pf_fd x) (pf_types x) s"
  have r: "ready_event other s e = (if t = 0 then None else Some (t, pf_info x))" by (simp add: ready_event_def x t_def Let_def)
  have v: "t AND POLL_NVAL = 0" using fd_poll_valid[OF assms(1)] by (simp add: t_def)
  have IH: "poll_scan other epoll_callback es n (evs, m) s =
    (n + min (length (List.map_filter (ready_event other s) es)) (m - length evs),
     (evs @ take (m - length evs) (List.map_filter (ready_event other s) es), m), s)" for n evs
    using Cons by simp
  show ?case
  proof (cases "t = 0 \<or> m \<le> length evs")
    case True
    then show ?thesis using v
      by (auto simp: x t_def[symmetric] r IH List.map_filter_simps Let_def epoll_callback_app)
  next
    case False
    then have "m - length evs = Suc (m - Suc (length evs))" by auto
    then show ?thesis using v False
      by (simp add: x t_def[symmetric] r IH List.map_filter_simps Let_def epoll_callback_app)
  qed
qed

lemma poll_entries_live:
  assumes "polls_ok s" shows "\<forall>e \<in> set (poll_of p s). io_entries s e \<noteq> None"
  using polls_okD(6)[OF assms, of p] by (cases "io_polls s p") (auto simp: poll_of_def poll_list_def)

lemma poll_scan_ready:
  assumes "never_invalid other" "polls_ok s"
  shows "poll_scan other epoll_callback (poll_of p s) 0 ([], m) s =
    (min (length (ready_events other p s)) m, (take m (ready_events other p s), m), s)"
  using poll_scan_epoll[OF assms(1) poll_entries_live[OF assms(2)], of p 0 "[]" m] by (simp add: ready_events_def)

text \<open>C12. \<open>epoll_wait\<close> reports what is ready: when files of the set are ready it returns at
once, whatever it could sleep through, with the events of exactly the first of them that
there is room for, each with the types that are ready and the data of its entry.\<close>
theorem epoll_wait_reports:
  assumes "polls_ok s" "never_invalid (out_poll w)"
    and "io_f_get epoll_f s = Some epoll" "io_data s epoll = Epoll (Some p)" "0 < sint max_events"
    and "poll_enter (out_pipe w) p s = (0, s1)" "ready_events (out_poll w) p s1 = evs" "evs \<noteq> []"
    and "io_write addr (bytes_of_events (take (nat (sint max_events)) evs)) (poll_leave p s1) = (0, s2)"
  shows "sys_epoll_wait w epoll_f addr max_events timeout s = Some (min (int (length evs)) (sint max_events), s2)"
proof -
  let ?m = "nat (sint max_events)"
  have ok: "polls_ok s1" using same_polls_ok[OF same_polls_enter assms(1), of "out_pipe w" p] assms(6) by simp
  have "0 < min (length evs) ?m" using assms(5,8) by simp
  then have "poll_loop (out_poll w) epoll_callback p (timeout_millis t) (out_wakes w) ([], ?m) s1 =
      Some (int (min (length evs) ?m), (take ?m evs, ?m), s1)" for t
    by (subst poll_loop.simps) (simp add: poll_scan_ready[OF assms(2) ok] assms(7))
  then have "poll_wait (out_poll w) (out_pipe w) (out_wakes w) epoll_callback p t ([], ?m) s =
      Some (int (min (length evs) ?m), (take ?m evs, ?m), poll_leave p s1)" for t
    by (simp add: poll_wait_def assms(6))
  moreover have "take (nat (int (min (length evs) ?m))) (take ?m evs) = take ?m evs"
    by (simp add: min_def)
  ultimately show ?thesis using assms(3-5,9) by (simp add: sys_epoll_wait_def)
qed

text \<open>An epoll file that watches a counter, in the concrete kernel: file 5 is open as
descriptor 1 of the table, file 1 as descriptor 0.\<close>

definition io_demo :: io where
  "io_demo = \<lparr>io_kern = kern_demo\<lparr>k_fds := fds_demo
       \<lparr>fd_heap := [1 \<mapsto> \<lparr>fd_refcount = 1, fd_flags = 0\<rparr>, 5 \<mapsto> \<lparr>fd_refcount = 1, fd_flags = 0\<rparr>],
        fd_tables := [0 \<mapsto> \<lparr>ft_refcount = 1, ft_size = 3, ft_files = [0 \<mapsto> 1, 1 \<mapsto> 5], ft_cloexec = (\<lambda>_. False)\<rparr>]\<rparr>\<rparr>,
     io_data = (\<lambda>_. Other)(1 := Eventfd 3, 5 := Epoll (Some 60)),
     io_polls = [60 \<mapsto> \<lparr>po_fds = [61], po_waiters = 0, po_pipe = False, po_notes = 0\<rparr>],
     io_entries = [61 \<mapsto> \<lparr>pf_fd = 1, pf_poll = 60, pf_types = POLL_READ, pf_info = 77\<rparr>],
     io_watch = (\<lambda>_. [])(1 := [61]), io_next = 62, io_asked = []\<rparr>"

definition outside_demo :: outside where
  "outside_demo = \<lparr>out_poll = (\<lambda>_ _ _. 0), out_pipe = 0, out_wakes = []\<rparr>"

lemma io_demo_ok: "polls_ok io_demo"
  by (auto simp: polls_ok_def poll_list_def io_demo_def split: if_splits)

lemma io_demo_files: "io_f_get 0 io_demo = Some 1" "io_f_get 1 io_demo = Some 5"
  by (simp_all add: io_f_get_def f_get_def cur_def task_fds_def io_demo_def cur_task_def get_task_def fds_demo_def)

lemma demo_write_12: "length bs = 12 \<Longrightarrow> \<exists>w. user_write_task 0 0x10000 bs vm_demo = (0, w)"
proof (rule user_write_succeeds[OF vm_demo_ok])
  fix i
  assume "i < length bs" "length bs = 12"
  then have "i \<in> {0, 1, 2, 3, 4, 5, 6, 7, 8, 9, 10, 11}" by simp presburger
  then show "can_write vm_demo 0 (0x10000 + of_nat i)"
    by (intro demo_can_write) (auto simp: PAGE_def)
qed simp

lemma eventfd_conserves_witness:
  "\<exists>t. counter_run 1 [Add 4, Get, Add 9] io_demo = (7, 13, t) \<and>
     (\<exists>d. io_data t 1 = Eventfd d \<and> d \<noteq> - 1 \<and> unat (3 :: qword_t) + 13 = 7 + unat d)"
proof -
  have d: "io_data io_demo 1 = Eventfd 3" "io_data io_demo (Suc 0) = Eventfd 3" by (simp_all add: io_demo_def)
  have "\<exists>t. counter_run 1 [Add 4, Get, Add 9] io_demo = (7, 13, t)"
    by (simp add: eventfd_read_def eventfd_write_def counter_wait.simps counter_def d word_less_nat_alt)
  then obtain t where t: "counter_run 1 [Add 4, Get, Add 9] io_demo = (7, 13, t)" by blast
  from eventfd_conserves[OF t d(1)] t show ?thesis by simp
qed

theorem epoll_wait_reports_witness:
  "\<exists>s2. sys_epoll_wait outside_demo 1 0x10000 8 0xffffffff io_demo = Some (1, s2)"
proof -
  let ?s1 = "snd (poll_enter 0 60 io_demo)"
  have e: "poll_enter (out_pipe outside_demo) 60 io_demo = (0, ?s1)"
    by (simp add: poll_enter_def io_demo_def outside_demo_def upd_poll_def)
  have f: "io_entries ?s1 = io_entries io_demo" "io_data ?s1 = io_data io_demo" "poll_of 60 ?s1 = [61]"
      "io_kern (poll_leave 60 ?s1) = io_kern io_demo"
    by (simp_all add: poll_enter_def poll_leave_def io_demo_def upd_poll_def poll_of_def)
  have r: "ready_events (out_poll outside_demo) 60 ?s1 = [(POLL_READ, 77)]"
  proof -
    have "io_entries io_demo 61 = Some \<lparr>pf_fd = 1, pf_poll = 60, pf_types = POLL_READ, pf_info = 77\<rparr>"
      "io_data io_demo 1 = Eventfd 3" by (simp_all add: io_demo_def)
    then show ?thesis
      by (simp add: ready_events_def f ready_event_def List.map_filter_simps fd_poll_def eventfd_poll_def)
  qed
  have k: "k_vm (io_kern io_demo) = vm_demo" "t_mem (cur_task (io_kern io_demo)) = 0"
    by (simp_all add: io_demo_def cur_task_def get_task_def)
  let ?bs = "bytes_of_events (take (nat (sint (8 :: dword_t))) [(POLL_READ, 77)])"
  have "length ?bs = 12" by (simp add: bytes_of_events_def numeral_eq_Suc)
  from demo_write_12[OF this] obtain s2 where "io_write 0x10000 ?bs (poll_leave 60 ?s1) = (0, s2)"
    by (auto simp: io_write_def f k)
  from epoll_wait_reports[OF io_demo_ok _ io_demo_files(2) _ _ e r _ this]
  show ?thesis by (auto simp: never_invalid_def outside_demo_def) (simp add: io_demo_def)
qed

subsection \<open>No wakeup is lost\<close>

definition notices :: "nat \<Rightarrow> io \<Rightarrow> nat" where
  "notices p s = (case io_polls s p of None \<Rightarrow> 0 | Some x \<Rightarrow> po_notes x)"

definition pipe_open :: "nat \<Rightarrow> io \<Rightarrow> bool" where
  "pipe_open p s \<longleftrightarrow> (case io_polls s p of None \<Rightarrow> False | Some x \<Rightarrow> po_pipe x)"

lemma notify_entry_notes:
  "notices p s \<le> notices p (notify_entry e s)" "pipe_open p (notify_entry e s) = pipe_open p s"
  "io_entries (notify_entry e s) = io_entries s"
  "io_entries s e = Some y \<Longrightarrow> pf_poll y = p \<Longrightarrow> pipe_open p s \<Longrightarrow> notices p s < notices p (notify_entry e s)"
  by (auto simp: notify_entry_def upd_poll_def iobad_def notices_def pipe_open_def split: option.splits)

lemma fold_notify:
  "notices p s \<le> notices p (fold notify_entry es s)" "pipe_open p (fold notify_entry es s) = pipe_open p s"
  "io_entries (fold notify_entry es s) = io_entries s"
  by (induction es arbitrary: s) (auto simp: notify_entry_notes intro: order_trans[OF notify_entry_notes(1)])

lemma wake_notes:
  assumes "e \<in> set (io_watch s fd)" "io_entries s e = Some y" "pf_poll y = p" "pipe_open p s"
  shows "notices p s < notices p (poll_wake fd s)"
proof -
  from split_list[OF assms(1)] obtain xs ys where w: "io_watch s fd = xs @ e # ys" by blast
  let ?t = "fold notify_entry xs s"
  have "notices p ?t < notices p (notify_entry e ?t)"
    using assms(2-4) notify_entry_notes(4)[of ?t e y p] by (simp add: fold_notify)
  then show ?thesis using fold_notify(1)[of p s xs] fold_notify(1)[of p "notify_entry e ?t" ys]
    by (simp add: poll_wake_def w)
qed

lemma readable_counter:
  assumes "types AND POLL_READ \<noteq> 0" "n \<noteq> 0" shows "eventfd_poll n AND types \<noteq> 0"
proof
  assume "eventfd_poll n AND types = 0"
  then have "\<not> bit (eventfd_poll n AND types) 0" by simp
  moreover have "bit types 0" using assms(1) by (simp add: and_one_eq bit_0 odd_iff_mod_2_eq_one)
  moreover have "bit (eventfd_poll n) 0" using assms(2) by (simp add: eventfd_poll_def word_neq_0_conv bit_0)
  ultimately show False by (simp add: bit_and_iff)
qed

text \<open>C13. A sleeping \<open>epoll_wait\<close> is woken: when another thread adds to a counter that the set
watches for reading while the call sleeps with nothing ready, the notification pipe gets a
byte, and the call that is woken by it returns with an event, whatever comes after.\<close>
theorem epoll_wait_woken:
  assumes "polls_ok s" "never_invalid other" "io_polls s p = Some x" "po_pipe x" "e \<in> set (po_fds x)"
    and "io_entries s e = Some y" "pf_types y AND POLL_READ \<noteq> 0" "io_data s (pf_fd y) = Eventfd 0"
    and "n \<noteq> 0" "n \<noteq> - 1" "0 < max_events" "ready_events other p s = []"
  defines "add \<equiv> \<lambda>s. snd (the (eventfd_write [] (pf_fd y) n 8 s))"
  shows "notices p s < notices p (add s) \<and>
    (\<exists>r c t. poll_loop other epoll_callback p millis ((add, Notified) # wakes) ([], max_events) s = Some (r, c, t) \<and> 0 < r)"
proof -
  let ?fd = "pf_fd y"
  have c: "counter ?fd s = 0" "(0 :: qword_t) < - 1 - n"
    using assms(8,10) by (simp_all add: counter_def word_neq_0_conv[symmetric])
  have add: "add u = poll_wake ?fd (u\<lparr>io_data := (io_data u)(?fd := Eventfd n)\<rparr>)" if "io_data u ?fd = Eventfd 0" for u
    using that c(2) assms(10) by (simp add: add_def eventfd_write_def counter_wait.simps counter_def)
  have pl: "pf_poll y = p" using polls_okD(6)[OF assms(1), of p "po_fds x" e] assms(3,5,6) by (auto simp: poll_list_def)
  have w: "e \<in> set (io_watch s ?fd)" using polls_okD(7)[OF assms(1)] assms(6) by blast
  have up: "notices p s < notices p (add s)"
    using wake_notes[of e "s\<lparr>io_data := (io_data s)(?fd := Eventfd n)\<rparr>" ?fd y p] w assms(3,4,6,8) pl
    by (simp add: add pipe_open_def notices_def)
  moreover
  let ?s1 = "s\<lparr>io_asked := millis # io_asked s\<rparr>"
  let ?s2 = "take_note p (add ?s1)"
  have same: "same_polls (s\<lparr>io_asked := a, io_data := d\<rparr>) (take_note p (poll_wake ?fd (s\<lparr>io_asked := a, io_data := d\<rparr>)))" for a d
    by (rule same_polls_trans[OF same_polls_wake same_polls_take_note(1)])
  have "same_polls s ?s2"
    using same[where d = "(io_data s)(?fd := Eventfd n)"] assms(8) by (simp add: add same_polls_def poll_list_def fun_eq_iff)
  then have ok: "polls_ok ?s2" and e: "io_entries ?s2 e = Some y" and l: "poll_list ?s2 = poll_list s"
    using same_polls_ok[OF _ assms(1)] assms(6) by (auto simp: same_polls_def)
  have mem: "e \<in> set (poll_of p ?s2)"
    using fun_cong[OF l, of p] assms(3,5) by (auto simp: poll_of_def poll_list_def split: option.splits)
  have "io_data ?s2 ?fd = Eventfd n"
    using assms(8) by (simp add: add) (simp add: take_note_def upd_poll_def iobad_def split: option.splits)
  then have "ready_event other ?s2 e \<noteq> None"
    using readable_counter[OF assms(7,9)] e by (simp add: ready_event_def Let_def fd_poll_def)
  then have "ready_events other p ?s2 \<noteq> []"
    using mem by (auto simp: ready_events_def List.map_filter_def filter_empty_conv)
  then have "0 < min (length (ready_events other p ?s2)) max_events" using assms(11) by simp
  then have "\<exists>r c t. poll_loop other epoll_callback p millis wakes ([], max_events) ?s2 = Some (r, c, t) \<and> 0 < r"
    by (subst poll_loop.simps) (simp add: poll_scan_ready[OF assms(2) ok])
  then show ?thesis
    using up by (subst poll_loop.simps) (simp add: poll_scan_ready[OF assms(2,1)] assms(12))
qed

definition io_asleep :: io where
  "io_asleep = io_demo\<lparr>io_data := (\<lambda>_. Other)(1 := Eventfd 0, 5 := Epoll (Some 60)),
     io_polls := [60 \<mapsto> \<lparr>po_fds = [61], po_waiters = 1, po_pipe = True, po_notes = 0\<rparr>]\<rparr>"

theorem epoll_wait_woken_witness:
  "\<exists>r c t. poll_loop (\<lambda>_ _ _. 0) epoll_callback 60 (- 1)
     [(\<lambda>s. snd (the (eventfd_write [] 1 2 8 s)), Notified)] ([], 8) io_asleep = Some (r, c, t) \<and> 0 < r"
proof -
  let ?y = "\<lparr>pf_fd = 1, pf_poll = 60, pf_types = POLL_READ, pf_info = 77\<rparr>"
  let ?x = "\<lparr>po_fds = [61], po_waiters = 1, po_pipe = True, po_notes = 0\<rparr>"
  have "polls_ok io_asleep"
    by (auto simp: polls_ok_def poll_list_def io_asleep_def io_demo_def split: if_splits)
  moreover have "never_invalid (\<lambda>_ _ _. 0)" by (simp add: never_invalid_def)
  moreover have "ready_events (\<lambda>_ _ _. 0) 60 io_asleep = []"
    by (simp add: ready_events_def poll_of_def io_asleep_def io_demo_def List.map_filter_simps ready_event_def
        fd_poll_def eventfd_poll_def)
  ultimately show ?thesis
    using epoll_wait_woken[of io_asleep "\<lambda>_ _ _. 0" 60 ?x 61 ?y 2 8 "- 1" "[]"]
    by (simp add: io_asleep_def io_demo_def)
qed

subsection \<open>Closing\<close>

text \<open>C21. A file that is closed for good is forgotten by everyone who waits for it: after the
last reference is given up no set has an entry for the file, and every set and list is
still consistent.\<close>
theorem close_leaves_no_entry:
  assumes "polls_ok s" "io_f_get f s = Some fd" "fd_heap (k_fds (io_kern s)) fd = Some x" "fd_refcount x = 1"
    and "\<And>p. io_data s fd = Epoll (Some p) \<Longrightarrow> io_polls s p \<noteq> None"
  shows "polls_ok (snd (io_close f s)) \<and>
    (\<forall>e y. io_entries (snd (io_close f s)) e = Some y \<longrightarrow> pf_fd y \<noteq> fd)"
proof -
  have p: "\<And>p. io_data s fd = Epoll (Some p) \<Longrightarrow> poll_list s p \<noteq> None"
    using assms(5) by (simp add: poll_list_def)
  have "\<exists>k. snd (io_close f s) = (forget_fd fd s)\<lparr>io_kern := k\<rparr>"
    using assms(2-4) by (auto simp: io_close_def io_f_get_def io_close_fd_def Let_def split: prod.splits)
  then show ?thesis
    using ok_forget[OF assms(1) p] same_polls_ok[OF same_polls_updates(1)] by fastforce
qed

theorem close_leaves_no_entry_witness:
  "map_option pf_fd (io_entries io_demo 61) = Some 1 \<and> polls_ok (snd (io_close 0 io_demo)) \<and>
   map_option pf_fd (io_entries (snd (io_close 0 io_demo)) 61) \<noteq> Some 1"
proof -
  have "polls_ok (snd (io_close 0 io_demo)) \<and>
      (\<forall>e y. io_entries (snd (io_close 0 io_demo)) e = Some y \<longrightarrow> pf_fd y \<noteq> 1)"
    using close_leaves_no_entry[OF io_demo_ok io_demo_files(1)] by (simp add: io_demo_def)
  then show ?thesis by (auto simp: io_demo_def)
qed

end
