(* ===== verification/Futex.thy ===== *)
theory Futex
  imports Utilities Tlb
begin

text \<open>
  Futexes (\<open>src/kernel/futex.c\<close>): words of the guest's memory that threads wait on.
  A structure exists while threads are in a call on it; it is found by address space
  and address in a table of 4096 lists. A thread that waits sleeps on the
  structure's condition: \<open>fx_sleepers\<close> are the threads that sleep and the futex of
  each. A call of \<open>wait\<close> is two steps, the way to sleep and the way out of it;
  which sleeper \<open>notify_once\<close> wakes is a parameter.
\<close>

record futex =
  fu_refcount :: nat
  fu_mem :: mem_id
  fu_addr :: addr_t

text \<open>\<open>fx_ptr\<close> is the address of a \<open>struct mem\<close>, which goes into the hash.\<close>

record futexes =
  fx_kern :: kern
  fx_heap :: "nat \<Rightarrow> futex option"
  fx_hash :: "nat \<Rightarrow> nat list"
  fx_ptr :: "mem_id \<Rightarrow> nat"
  fx_sleepers :: "(nat \<times> nat) list"
  fx_next :: nat

definition fxbad :: "futexes \<Rightarrow> futexes" where
  "fxbad s = s\<lparr>fx_kern := kbad (fx_kern s)\<rparr>"

definition cur_mem :: "futexes \<Rightarrow> mem_id" where
  "cur_mem s = t_mem (cur_task (fx_kern s))"

definition futex_bucket :: "addr_t \<Rightarrow> mem_id \<Rightarrow> futexes \<Rightarrow> nat" where
  "futex_bucket addr m s = nat ((uint addr XOR int (fx_ptr s m)) mod 4096)"

definition futex_find :: "addr_t \<Rightarrow> futexes \<Rightarrow> nat option" where
  "futex_find addr s =
    find (\<lambda>f. case fx_heap s f of None \<Rightarrow> False | Some x \<Rightarrow> fu_addr x = addr \<and> fu_mem x = cur_mem s)
      (fx_hash s (futex_bucket addr (cur_mem s) s))"

definition futex_get :: "addr_t \<Rightarrow> futexes \<Rightarrow> nat option \<times> futexes" where
  "futex_get addr s =
    (case futex_find addr s of
       Some f \<Rightarrow>
         (Some f, s\<lparr>fx_heap := (fx_heap s)(f := map_option (\<lambda>x. x\<lparr>fu_refcount := Suc (fu_refcount x)\<rparr>) (fx_heap s f))\<rparr>)
     | None \<Rightarrow>
         (case kmalloc (fx_kern s) of
            (False, k) \<Rightarrow> (None, s\<lparr>fx_kern := k\<rparr>)
          | (True, k) \<Rightarrow>
              (let f = fx_next s; b = futex_bucket addr (cur_mem s) s
               in (Some f,
                   s\<lparr>fx_kern := k, fx_next := Suc f,
                     fx_heap := (fx_heap s)(f \<mapsto> \<lparr>fu_refcount = 1, fu_mem = cur_mem s, fu_addr = addr\<rparr>),
                     fx_hash := (fx_hash s)(b := f # fx_hash s b)\<rparr>))))"

definition futex_put :: "nat \<Rightarrow> futexes \<Rightarrow> futexes" where
  "futex_put f s =
    (case fx_heap s f of
       None \<Rightarrow> fxbad s
     | Some x \<Rightarrow>
         if fu_refcount x = 1
         then (let b = futex_bucket (fu_addr x) (fu_mem x) s
               in s\<lparr>fx_heap := (fx_heap s)(f := None), fx_hash := (fx_hash s)(b := remove1 f (fx_hash s b))\<rparr>)
         else s\<lparr>fx_heap := (fx_heap s)(f \<mapsto> x\<lparr>fu_refcount := fu_refcount x - 1\<rparr>)\<rparr>)"

text \<open>The word is loaded through one pointer.\<close>

definition futex_load :: "nat \<Rightarrow> futexes \<Rightarrow> dword_t option \<times> futexes" where
  "futex_load f s =
    (case fx_heap s f of
       None \<Rightarrow> (None, fxbad s)
     | Some x \<Rightarrow>
         (case mem_ptr (cur_mem s) (fu_addr x) MEM_READ (k_vm (fx_kern s)) of
            (p, v) \<Rightarrow>
              (map_option (\<lambda>p. word_of_bytes (host_loads p 4 v)) p,
               let s = s\<lparr>fx_kern := (fx_kern s)\<lparr>k_vm := v\<rparr>\<rparr> in if fu_mem x = cur_mem s then s else fxbad s)))"

text \<open>The way to sleep: the call ends with an error, or the current thread is asleep on
the futex. A null pointer is followed when there is no memory.\<close>

definition futex_wait_begin :: "addr_t \<Rightarrow> dword_t \<Rightarrow> futexes \<Rightarrow> int option \<times> futexes" where
  "futex_wait_begin uaddr val s =
    (case futex_get uaddr s of
       (None, s) \<Rightarrow> (Some 0, fxbad s)
     | (Some f, s) \<Rightarrow>
         (case futex_load f s of
            (None, s) \<Rightarrow> (Some EFAULT, futex_put f s)
          | (Some w, s) \<Rightarrow>
              if w \<noteq> val then (Some EAGAIN, futex_put f s)
              else if task_pending (fx_kern s) then (Some EINTR, futex_put f s)
              else (None, s\<lparr>fx_sleepers := fx_sleepers s @ [(k_current (fx_kern s), f)]\<rparr>)))"

text \<open>The way out, when the host has ended the sleep: by the timeout, or by a wake-up, which
may come with a signal.\<close>

definition futex_wait_end :: "nat \<Rightarrow> bool \<Rightarrow> futexes \<Rightarrow> int \<times> futexes" where
  "futex_wait_end f timed_out s =
    (if timed_out then ETIMEDOUT else if task_pending (fx_kern s) then EINTR else 0, futex_put f s)"

text \<open>The sleepers that a call of \<open>wake\<close> ends, \<open>pick\<close> being the choice of the host among
them; other numbers than 1 and the greatest are fatal. The result is the number that
was asked for.\<close>

definition futex_wake :: "((nat \<times> nat) list \<Rightarrow> nat \<times> nat) \<Rightarrow> addr_t \<Rightarrow> dword_t \<Rightarrow> futexes \<Rightarrow> (nat \<times> nat) list \<times> int \<times> futexes" where
  "futex_wake pick uaddr val s =
    (case futex_get uaddr s of
       (None, s) \<Rightarrow> ([], 0, fxbad s)
     | (Some f, s) \<Rightarrow>
         (let mine = filter (\<lambda>x. snd x = f) (fx_sleepers s);
              woken = (if val = 1 then (if mine = [] then [] else [pick mine]) else if val = 0x7fffffff then mine else []);
              s = (if val = 1 \<or> val = 0x7fffffff then s else fxbad s)
          in (woken, sint val, futex_put f (s\<lparr>fx_sleepers := filter (\<lambda>x. x \<notin> set woken) (fx_sleepers s)\<rparr>))))"

text \<open>The call. The test for \<open>FUTEX_WAIT\<close>, whose number is 0, is never true, so the timeout
is not read: it is zero, unless there is none.\<close>

datatype futex_result = Returns int | Waits "(int \<times> int) option" | Wakes "(nat \<times> nat) list" int

definition sys_futex ::
  "((nat \<times> nat) list \<Rightarrow> nat \<times> nat) \<Rightarrow> addr_t \<Rightarrow> dword_t \<Rightarrow> dword_t \<Rightarrow> addr_t \<Rightarrow> futexes \<Rightarrow> futex_result \<times> futexes"
where
  "sys_futex pick uaddr op_nr val timeout_or_val2 s =
    (let cmd = op_nr AND NOT 128
     in if cmd = 0
        then (case futex_wait_begin uaddr val s of
                (Some err, s) \<Rightarrow> (Returns err, s)
              | (None, s) \<Rightarrow> (Waits (if timeout_or_val2 = 0 then None else Some (0, 0)), s))
        else if cmd = 1
        then (case futex_wake pick uaddr val s of (woken, r, s) \<Rightarrow> (Wakes woken r, s))
        else (Returns ENOSYS, s))"

end
