(* ===== verification/Futex_Facts.thy ===== *)
theory Futex_Facts
  imports Futex
begin

text \<open>
  The table of futexes over time. A structure exists exactly while a thread sleeps
  on it or is on its way out of a call; there is one for each word that is waited
  on, and it is in the list of its hash.
\<close>

subsection \<open>The invariant\<close>

text \<open>\<open>w\<close> lists the futexes of the threads that have been woken and not yet returned, one
entry for each thread.\<close>

definition users :: "nat list \<Rightarrow> futexes \<Rightarrow> nat \<Rightarrow> nat" where
  "users w s f = count_list (map snd (fx_sleepers s)) f + count_list w f"

definition counts_users :: "nat list \<Rightarrow> futexes \<Rightarrow> bool" where
  "counts_users w s \<longleftrightarrow> (\<forall>f. users w s f = (case fx_heap s f of None \<Rightarrow> 0 | Some x \<Rightarrow> fu_refcount x)) \<and>
     (\<forall>f x. fx_heap s f = Some x \<longrightarrow> 0 < fu_refcount x)"

definition hashed :: "futexes \<Rightarrow> bool" where
  "hashed s \<longleftrightarrow> (\<forall>b. distinct (fx_hash s b)) \<and> (\<forall>b f. f \<in> set (fx_hash s b) \<longleftrightarrow>
     (\<exists>x. fx_heap s f = Some x \<and> futex_bucket (fu_addr x) (fu_mem x) s = b))"

definition one_each :: "futexes \<Rightarrow> bool" where
  "one_each s \<longleftrightarrow> (\<forall>f g x y. fx_heap s f = Some x \<longrightarrow> fx_heap s g = Some y \<longrightarrow> fu_addr x = fu_addr y \<longrightarrow>
     fu_mem x = fu_mem y \<longrightarrow> f = g)"

definition futex_ok :: "nat list \<Rightarrow> futexes \<Rightarrow> bool" where
  "futex_ok w s \<longleftrightarrow> counts_users w s \<and> hashed s \<and> one_each s \<and>
    (\<forall>f. fx_heap s f \<noteq> None \<longrightarrow> f < fx_next s) \<and> distinct (map fst (fx_sleepers s))"

lemma futex_bucket_cong [simp]:
  "futex_bucket a m (s\<lparr>fx_kern := k\<rparr>) = futex_bucket a m s" "futex_bucket a m (s\<lparr>fx_heap := h\<rparr>) = futex_bucket a m s"
  "futex_bucket a m (s\<lparr>fx_hash := t\<rparr>) = futex_bucket a m s" "futex_bucket a m (s\<lparr>fx_sleepers := l\<rparr>) = futex_bucket a m s"
  "futex_bucket a m (s\<lparr>fx_next := n\<rparr>) = futex_bucket a m s"
  by (simp_all add: futex_bucket_def)

lemma users_cong: "fx_sleepers t = fx_sleepers s \<Longrightarrow> users w t = users w s"
  by (simp add: users_def fun_eq_iff)

lemma futex_ok_kern: "futex_ok w (s\<lparr>fx_kern := k\<rparr>) = futex_ok w s"
  using users_cong[of "s\<lparr>fx_kern := k\<rparr>" s w]
  by (simp add: futex_ok_def counts_users_def hashed_def one_each_def)

lemma futex_find_Some:
  assumes "futex_ok w s"
  shows "futex_find addr s = Some f \<longleftrightarrow> (\<exists>x. fx_heap s f = Some x \<and> fu_addr x = addr \<and> fu_mem x = cur_mem s)"
proof
  assume "futex_find addr s = Some f"
  then show "\<exists>x. fx_heap s f = Some x \<and> fu_addr x = addr \<and> fu_mem x = cur_mem s"
    by (auto simp: futex_find_def find_Some_iff split: option.splits)
next
  assume "\<exists>x. fx_heap s f = Some x \<and> fu_addr x = addr \<and> fu_mem x = cur_mem s"
  then obtain x where x: "fx_heap s f = Some x" "fu_addr x = addr" "fu_mem x = cur_mem s" by blast
  let ?P = "\<lambda>g. case fx_heap s g of None \<Rightarrow> False | Some y \<Rightarrow> fu_addr y = addr \<and> fu_mem y = cur_mem s"
  have mem: "f \<in> set (fx_hash s (futex_bucket addr (cur_mem s) s))" using assms x by (auto simp: futex_ok_def hashed_def)
  have "futex_find addr s \<noteq> None" using mem x by (auto simp: futex_find_def find_None_iff)
  then obtain g where g: "futex_find addr s = Some g" by blast
  then obtain y where "fx_heap s g = Some y" "fu_addr y = addr" "fu_mem y = cur_mem s"
    by (auto simp: futex_find_def find_Some_iff split: option.splits)
  then have "g = f" using assms x by (simp add: futex_ok_def one_each_def)
  then show "futex_find addr s = Some f" using g by simp
qed

subsection \<open>Taking and giving back a reference\<close>

lemma ok_more_refs:
  assumes "futex_ok w s" "fx_heap s f = Some x"
  shows "futex_ok (f # w) (s\<lparr>fx_heap := (fx_heap s)(f \<mapsto> x\<lparr>fu_refcount := Suc (fu_refcount x)\<rparr>)\<rparr>)"
proof -
  let ?s = "s\<lparr>fx_heap := (fx_heap s)(f \<mapsto> x\<lparr>fu_refcount := Suc (fu_refcount x)\<rparr>)\<rparr>"
  have o: "counts_users w s" "hashed s" "one_each s" using assms(1) by (simp_all add: futex_ok_def)
  have "users (f # w) ?s g = (if g = f then Suc (users w s f) else users w s g)" for g by (simp add: users_def)
  then have "counts_users (f # w) ?s" using o(1) assms(2) by (simp add: counts_users_def)
  moreover have "hashed ?s" using o(2) assms(2) by (auto simp: hashed_def)
  moreover have "one_each ?s" using o(3) assms(2) by (auto simp: one_each_def)
  ultimately show ?thesis using assms by (simp add: futex_ok_def)
qed

lemma ok_new:
  assumes ok: "futex_ok w s" and new: "futex_find addr s = None"
  defines "f \<equiv> fx_next s" and "b \<equiv> futex_bucket addr (cur_mem s) s"
  shows "futex_ok (f # w) (s\<lparr>fx_next := Suc f, fx_heap := (fx_heap s)(f \<mapsto> \<lparr>fu_refcount = 1, fu_mem = cur_mem s, fu_addr = addr\<rparr>),
      fx_hash := (fx_hash s)(b := f # fx_hash s b)\<rparr>)" (is "futex_ok _ ?s")
proof -
  have o: "counts_users w s" "hashed s" "one_each s" "\<And>g. fx_heap s g \<noteq> None \<Longrightarrow> g < fx_next s"
    using ok by (simp_all add: futex_ok_def)
  have fresh: "fx_heap s f = None" using o(4)[of f] by (cases "fx_heap s f") (auto simp: f_def)
  have other: "\<not> (fu_addr x = addr \<and> fu_mem x = cur_mem s)" if "fx_heap s g = Some x" for g x
    using futex_find_Some[OF ok, of addr g] new that by auto
  have "users w s f = 0" using o(1) fresh by (simp add: counts_users_def)
  then have "users (f # w) ?s g = (if g = f then 1 else users w s g)" for g by (simp add: users_def)
  then have "counts_users (f # w) ?s" using o(1) by (simp add: counts_users_def)
  moreover have "f \<notin> set (fx_hash s c)" for c using o(2) fresh by (simp add: hashed_def)
  then have "hashed ?s" using o(2) fresh by (auto simp: hashed_def b_def)
  moreover have "one_each ?s"
    using o(3) other fresh unfolding one_each_def by (auto; metis)
  ultimately show ?thesis using ok o(4) by (auto simp: futex_ok_def f_def less_Suc_eq)
qed

lemma kmalloc_current: "kmalloc k = (b, k') \<Longrightarrow> cur_task k' = cur_task k \<and> k_current k' = k_current k"
  by (auto simp: kmalloc_def cur_task_def get_task_def split: prod.splits)

lemma get_spec:
  assumes ok: "futex_ok w s" and g: "futex_get addr s = (Some f, s')"
  shows "futex_ok (f # w) s' \<and> (\<exists>x. fx_heap s' f = Some x \<and> fu_addr x = addr \<and> fu_mem x = cur_mem s) \<and>
    fx_sleepers s' = fx_sleepers s \<and> cur_mem s' = cur_mem s \<and> k_current (fx_kern s') = k_current (fx_kern s) \<and>
    (\<forall>h. futex_find addr s = Some h \<longrightarrow> f = h)"
proof (cases "futex_find addr s")
  case (Some h')
  then obtain x where x: "fx_heap s h' = Some x" "fu_addr x = addr" "fu_mem x = cur_mem s"
    using futex_find_Some[OF ok] by blast
  have "f = h'" "s' = s\<lparr>fx_heap := (fx_heap s)(h' \<mapsto> x\<lparr>fu_refcount := Suc (fu_refcount x)\<rparr>)\<rparr>"
    using g Some x(1) by (auto simp: futex_get_def)
  then show ?thesis using ok_more_refs[OF ok x(1)] x Some by (simp add: cur_mem_def)
next
  case None
  then obtain k where k: "kmalloc (fx_kern s) = (True, k)" and f: "f = fx_next s"
      "s' = (s\<lparr>fx_next := Suc f, fx_heap := (fx_heap s)(f \<mapsto> \<lparr>fu_refcount = 1, fu_mem = cur_mem s, fu_addr = addr\<rparr>),
          fx_hash := (fx_hash s)(futex_bucket addr (cur_mem s) s := f # fx_hash s (futex_bucket addr (cur_mem s) s))\<rparr>)
          \<lparr>fx_kern := k\<rparr>"
    using g by (auto simp: futex_get_def Let_def split: prod.splits bool.splits)
  show ?thesis
    using ok_new[OF ok None] kmalloc_current[OF k] None unfolding f(2) futex_ok_kern
    by (simp add: f(1) cur_mem_def)
qed

lemmas ok_get = conjunct1[OF get_spec] get_spec[THEN conjunct2, THEN conjunct1]
  get_spec[THEN conjunct2, THEN conjunct2, THEN conjunct1]
  get_spec[THEN conjunct2, THEN conjunct2, THEN conjunct2, THEN conjunct1]
  get_spec[THEN conjunct2, THEN conjunct2, THEN conjunct2, THEN conjunct2]

lemma ok_put:
  assumes ok: "futex_ok w s" and f: "f \<in> set w"
  shows "futex_ok (remove1 f w) (futex_put f s)" "fx_sleepers (futex_put f s) = fx_sleepers s"
proof -
  have o: "counts_users w s" "hashed s" "one_each s" "\<And>g. fx_heap s g \<noteq> None \<Longrightarrow> g < fx_next s"
    using ok by (simp_all add: futex_ok_def)
  have c: "count_list w f \<noteq> 0" using f by (simp add: count_list_0_iff)
  then have "0 < users w s f" by (simp add: users_def)
  then obtain x where x: "fx_heap s f = Some x" "fu_refcount x = users w s f"
    using o(1) by (cases "fx_heap s f") (auto simp: counts_users_def)
  have u: "users (remove1 f w) t g = (if g = f then users w s f - 1 else users w s g)" if "fx_sleepers t = fx_sleepers s" for g t
    using f c that by (auto simp: users_def count_list_remove1)
  have b: "f \<in> set (fx_hash s c) \<longleftrightarrow> c = futex_bucket (fu_addr x) (fu_mem x) s" for c
    using o(2) x(1) by (auto simp: hashed_def)
  show "futex_ok (remove1 f w) (futex_put f s)"
  proof (cases "fu_refcount x = 1")
    case True
    let ?s = "s\<lparr>fx_heap := (fx_heap s)(f := None), fx_hash := (fx_hash s)(futex_bucket (fu_addr x) (fu_mem x) s :=
        remove1 f (fx_hash s (futex_bucket (fu_addr x) (fu_mem x) s)))\<rparr>"
    have "counts_users (remove1 f w) ?s" using o(1) x True by (auto simp: counts_users_def u)
    moreover have "hashed ?s" using o(2) x(1) by (auto simp: hashed_def set_remove1_eq)
    moreover have "one_each ?s" using o(3) by (auto simp: one_each_def)
    ultimately show ?thesis using x True ok by (simp add: futex_put_def futex_ok_def Let_def)
  next
    case False
    let ?s = "s\<lparr>fx_heap := (fx_heap s)(f \<mapsto> x\<lparr>fu_refcount := fu_refcount x - 1\<rparr>)\<rparr>"
    have "counts_users (remove1 f w) ?s"
    proof -
      have "1 < fu_refcount x" using False x(2) \<open>0 < users w s f\<close> by simp
      then show ?thesis using o(1) x by (simp add: counts_users_def u)
    qed
    moreover have "hashed ?s" using o(2) x(1) by (auto simp: hashed_def)
    moreover have "one_each ?s" using o(3) x(1) by (auto simp: one_each_def)
    ultimately show ?thesis using x False ok by (simp add: futex_put_def futex_ok_def)
  qed
  show "fx_sleepers (futex_put f s) = fx_sleepers s" by (simp add: futex_put_def fxbad_def Let_def split: option.splits)
qed

subsection \<open>The calls\<close>

lemma load_keeps:
  assumes "futex_load f s = (r, s')"
  shows "futex_ok w s' = futex_ok w s" "fx_sleepers s' = fx_sleepers s" "k_current (fx_kern s') = k_current (fx_kern s)"
  using assms
  by (auto simp: futex_load_def fxbad_def kbad_def Let_def futex_ok_kern split: option.splits prod.splits if_splits)

lemma ok_sleep:
  assumes "futex_ok (f # w) s" "t \<notin> fst ` set (fx_sleepers s)"
  shows "futex_ok w (s\<lparr>fx_sleepers := fx_sleepers s @ [(t, f)]\<rparr>)"
proof -
  have "users w (s\<lparr>fx_sleepers := fx_sleepers s @ [(t, f)]\<rparr>) = users (f # w) s"
    by (auto simp: users_def fun_eq_iff)
  then show ?thesis using assms
    by (auto simp: futex_ok_def counts_users_def hashed_def one_each_def)
qed

lemma ok_wait_begin:
  assumes "futex_ok w s" "k_current (fx_kern s) \<notin> fst ` set (fx_sleepers s)"
    and r: "futex_wait_begin a val s = (r, s')"
  shows "futex_ok w s'"
proof (cases "futex_get a s")
  case (Pair g s1)
  show ?thesis
  proof (cases g)
    case None
    have "futex_ok w s1" "futex_ok w (fxbad s1)"
      using Pair None assms(1)
      by (auto simp: futex_get_def fxbad_def futex_ok_kern Let_def split: option.splits prod.splits bool.splits)
    then show ?thesis using r Pair None by (simp add: futex_wait_begin_def)
  next
    case (Some f)
    note g = ok_get[OF assms(1) Pair[unfolded Some]]
    obtain l s2 where l: "futex_load f s1 = (l, s2)" by (cases "futex_load f s1")
    note k = load_keeps[OF l]
    have "futex_ok (f # w) s2" using g(1) k(1) by simp
    then have "futex_ok w (futex_put f s2)" "futex_ok w (s2\<lparr>fx_sleepers := fx_sleepers s2 @ [(k_current (fx_kern s2), f)]\<rparr>)"
      using ok_put[of "f # w" s2 f] ok_sleep[of f w s2] g(3,5) k assms(2) by auto
    then show ?thesis
      using r Pair Some l by (auto simp: futex_wait_begin_def split: option.splits if_splits)
  qed
qed

lemma ok_order: "futex_ok (as @ b # bs) s = futex_ok (b # as @ bs) s"
proof -
  have "users (as @ b # bs) s f = users (b # as @ bs) s f" for f by (simp add: users_def)
  then show ?thesis by (simp add: futex_ok_def counts_users_def)
qed

lemma count_remove1: "x \<in> set xs \<Longrightarrow>
    count_list (map snd (remove1 x xs)) f + (if f = snd x then 1 else 0) = count_list (map snd xs) f"
proof (induction xs)
  case (Cons a xs)
  then show ?case by (cases "x = a") (simp_all split: if_splits)
qed simp

lemma ok_awake:
  assumes ok: "futex_ok w s" and x: "x \<in> set (fx_sleepers s)"
  shows "futex_ok (snd x # w) (s\<lparr>fx_sleepers := remove1 x (fx_sleepers s)\<rparr>)" (is "futex_ok _ ?s")
proof -
  have u: "users (snd x # w) ?s f = users w s f" for f
    using count_remove1[OF x, of f] by (simp add: users_def split: if_splits)
  have "counts_users (snd x # w) ?s" using ok by (simp add: futex_ok_def counts_users_def u)
  moreover have "hashed ?s" "one_each ?s" using ok by (simp_all add: futex_ok_def hashed_def one_each_def)
  moreover have "distinct (map fst (remove1 x (fx_sleepers s)))"
    using ok unfolding futex_ok_def distinct_map by (meson distinct_remove1 inj_on_subset set_remove1_subset)
  ultimately show ?thesis using ok by (simp add: futex_ok_def)
qed

lemma ok_awake_all:
  "futex_ok w s \<Longrightarrow> distinct xs \<Longrightarrow> set xs \<subseteq> set (fx_sleepers s) \<Longrightarrow>
   futex_ok (map snd xs @ w) (s\<lparr>fx_sleepers := filter (\<lambda>x. x \<notin> set xs) (fx_sleepers s)\<rparr>)"
proof (induction xs arbitrary: w s)
  case (Cons x xs)
  have d: "distinct (fx_sleepers s)" using Cons.prems(1) by (simp add: futex_ok_def distinct_map)
  let ?s = "s\<lparr>fx_sleepers := remove1 x (fx_sleepers s)\<rparr>"
  have "futex_ok (snd x # w) ?s" using ok_awake[OF Cons.prems(1)] Cons.prems(3) by simp
  then have "futex_ok (map snd xs @ snd x # w) (?s\<lparr>fx_sleepers := filter (\<lambda>x. x \<notin> set xs) (fx_sleepers ?s)\<rparr>)"
    using Cons.IH[of "snd x # w" ?s] Cons.prems(2,3) d by (auto simp: set_remove1_eq)
  moreover have "filter (\<lambda>x. x \<notin> set xs) (remove1 x (fx_sleepers s)) = filter (\<lambda>y. y \<notin> set (x # xs)) (fx_sleepers s)"
    using d by (auto simp: distinct_remove1_removeAll removeAll_filter_not_eq intro: filter_cong)
  ultimately show ?case by (simp add: ok_order)
qed simp

lemma wake_woken:
  assumes "futex_wake pick a val s = (woken, r, s')" "\<And>xs. xs \<noteq> [] \<Longrightarrow> pick xs \<in> set xs" "distinct (fx_sleepers s)"
    and "futex_get a s = (Some f, s1)" "fx_sleepers s1 = fx_sleepers s"
  shows "distinct woken" "set woken \<subseteq> set (fx_sleepers s)" "\<forall>x \<in> set woken. snd x = f"
proof -
  have "woken = [] \<or> (woken = [pick (filter (\<lambda>x. snd x = f) (fx_sleepers s))] \<and> filter (\<lambda>x. snd x = f) (fx_sleepers s) \<noteq> []) \<or>
      woken = filter (\<lambda>x. snd x = f) (fx_sleepers s)"
    using assms(1,4,5) by (auto simp: futex_wake_def Let_def split: if_splits)
  then show "distinct woken" "set woken \<subseteq> set (fx_sleepers s)" "\<forall>x \<in> set woken. snd x = f"
    using assms(2)[of "filter (\<lambda>x. snd x = f) (fx_sleepers s)"] assms(3) by auto
qed

lemma ok_wake:
  assumes ok: "futex_ok w s" and r: "futex_wake pick a val s = (woken, r, s')"
    and pick: "\<And>xs. xs \<noteq> [] \<Longrightarrow> pick xs \<in> set xs"
  shows "futex_ok (map snd woken @ w) s'"
proof (cases "futex_get a s")
  case (Pair g s1)
  show ?thesis
  proof (cases g)
    case None
    have "futex_ok w (fxbad s1)"
      using Pair None ok
      by (auto simp: futex_get_def fxbad_def futex_ok_kern Let_def split: option.splits prod.splits bool.splits)
    then show ?thesis using r Pair None by (simp add: futex_wake_def)
  next
    case (Some f)
    note g = ok_get[OF ok Pair[unfolded Some]]
    have d: "distinct (fx_sleepers s)" using ok by (simp add: futex_ok_def distinct_map)
    note k = wake_woken[OF r pick d Pair[unfolded Some] g(3)]
    let ?t = "\<lambda>s. s\<lparr>fx_sleepers := filter (\<lambda>x. x \<notin> set woken) (fx_sleepers s)\<rparr>"
    have "futex_ok (map snd woken @ f # w) (?t s1)"
      using ok_awake_all[OF g(1) k(1)] k(2) by (simp add: g(3))
    then have t: "futex_ok (f # map snd woken @ w) (?t s1)"
      by (simp only: ok_order)
    then have t': "futex_ok (f # map snd woken @ w) (?t (fxbad s1))"
    proof -
      have "?t (fxbad s1) = (?t s1)\<lparr>fx_kern := kbad (fx_kern s1)\<rparr>" by (simp add: fxbad_def)
      then show ?thesis using t by (simp only: futex_ok_kern)
    qed
    have "s' = futex_put f (?t s1) \<or> s' = futex_put f (?t (fxbad s1))"
      using r Pair Some by (auto simp: futex_wake_def Let_def split: if_splits)
    then show ?thesis using ok_put(1)[OF t, of f] ok_put(1)[OF t', of f] by auto
  qed
qed

subsection \<open>All that can happen\<close>

text \<open>The steps: a thread starts to wait, wakes others, stops sleeping on its own (because of
the timeout or a signal), returns from the sleep, or the kernel does something else.\<close>

inductive futex_step :: "nat list \<times> futexes \<Rightarrow> nat list \<times> futexes \<Rightarrow> bool" where
  start: "k_current (fx_kern s) \<notin> fst ` set (fx_sleepers s) \<Longrightarrow> futex_wait_begin a val s = (r, s') \<Longrightarrow>
    futex_step (w, s) (w, s')"
| wake: "futex_wake pick a val s = (woken, r, s') \<Longrightarrow> (\<And>xs. xs \<noteq> [] \<Longrightarrow> pick xs \<in> set xs) \<Longrightarrow>
    futex_step (w, s) (map snd woken @ w, s')"
| stop: "x \<in> set (fx_sleepers s) \<Longrightarrow> futex_step (w, s) (snd x # w, s\<lparr>fx_sleepers := remove1 x (fx_sleepers s)\<rparr>)"
| return: "f \<in> set w \<Longrightarrow> futex_wait_end f timed_out s = (r, s') \<Longrightarrow> futex_step (w, s) (remove1 f w, s')"
| kernel: "futex_step (w, s) (w, s\<lparr>fx_kern := k\<rparr>)"

lemma futex_step_ok: "futex_step x y \<Longrightarrow> futex_ok (fst x) (snd x) \<Longrightarrow> futex_ok (fst y) (snd y)"
  by (induction rule: futex_step.induct)
    (auto simp: futex_ok_kern futex_wait_end_def intro: ok_wait_begin ok_wake ok_awake ok_put)

lemma futex_steps_ok: "futex_step\<^sup>*\<^sup>* x y \<Longrightarrow> futex_ok (fst x) (snd x) \<Longrightarrow> futex_ok (fst y) (snd y)"
  by (induction rule: rtranclp_induct) (auto intro: futex_step_ok)

end
