(* ===== verification/Futex_Props.thy ===== *)
theory Futex_Props
  imports Futex_Facts Kern_Demo
begin

text \<open>
  Properties of futexes: who is woken, what stays in the table, and the timeout
  that is never read.
\<close>

definition futexes_demo :: futexes where
  "futexes_demo = \<lparr>fx_kern = kern_demo, fx_heap = (\<lambda>_. None), fx_hash = (\<lambda>_. []), fx_ptr = (\<lambda>_. 0),
     fx_sleepers = [], fx_next = 0\<rparr>"

lemma futexes_demo_ok: "futex_ok [] futexes_demo"
  by (simp add: futexes_demo_def futex_ok_def counts_users_def users_def hashed_def one_each_def)

text \<open>Thread 9 sleeps on the word at 0x10000 of the demo task's memory.\<close>

definition futexes_asleep :: futexes where
  "futexes_asleep = futexes_demo\<lparr>fx_heap := [4 \<mapsto> \<lparr>fu_refcount = 1, fu_mem = 0, fu_addr = 0x10000\<rparr>],
     fx_hash := (\<lambda>_. [])(0 := [4]), fx_sleepers := [(9, 4)], fx_next := 5\<rparr>"

lemma futexes_asleep_ok: "futex_ok [] futexes_asleep"
  by (auto simp: futexes_asleep_def futexes_demo_def futex_ok_def counts_users_def users_def hashed_def one_each_def
      futex_bucket_def split: if_splits)

text \<open>C22. The table of futexes is exact: after any sequence of waits, wakes, timeouts, signals
and returns from them, there is a structure for a word just when a thread sleeps on it or
is on its way out, with as many references as there are such threads, and no two
structures are for the same word.\<close>
theorem futexes_counted:
  assumes "futex_step\<^sup>*\<^sup>* ([], s0) (w, s)" "\<And>f. fx_heap s0 f = None" "\<And>b. fx_hash s0 b = []" "fx_sleepers s0 = []"
  shows "(\<forall>f. users w s f = (case fx_heap s f of None \<Rightarrow> 0 | Some x \<Rightarrow> fu_refcount x)) \<and>
    (\<forall>f x. fx_heap s f = Some x \<longrightarrow> 0 < fu_refcount x) \<and>
    (\<forall>f g x y. fx_heap s f = Some x \<longrightarrow> fx_heap s g = Some y \<longrightarrow> fu_addr x = fu_addr y \<longrightarrow> fu_mem x = fu_mem y \<longrightarrow> f = g)"
proof -
  have "futex_ok [] s0" using assms(2-4)
    by (simp add: futex_ok_def counts_users_def users_def hashed_def one_each_def)
  then have "futex_ok w s" using futex_steps_ok[OF assms(1)] by simp
  then show ?thesis by (simp add: futex_ok_def counts_users_def one_each_def)
qed

theorem futexes_counted_witness:
  "\<exists>val s. futex_wait_begin 0x10000 val futexes_demo = (None, s) \<and> users [] s 0 = 1 \<and> fx_heap s 0 \<noteq> None"
proof -
  obtain k where k: "kmalloc kern_demo = (True, k)" "k_vm k = vm_demo" "cur_task k = task_demo" "k_current k = 10"
    using kmalloc_current[of kern_demo] demo_malloc
    by (cases "kmalloc kern_demo") (auto simp: kmalloc_def split: prod.splits)
  have "\<not> faults vm_demo 0 0x10000 MEM_READ" by (simp add: faults_def vm_demo_facts PAGE_def)
  then have "fst (mem_ptr 0 0x10000 MEM_READ vm_demo) \<noteq> None"
    using mem_ptr_faults(1)[of vm_demo 0 "0x10000" MEM_READ] vm_demo_ok[of 0] task_ok_ready[of 0 vm_demo]
    by (simp add: task_ok_def)
  then obtain p v where p: "mem_ptr 0 0x10000 MEM_READ vm_demo = (Some p, v)"
    by (cases "mem_ptr 0 0x10000 MEM_READ vm_demo") auto
  let ?val = "word_of_bytes (host_loads p 4 v)"
  have "\<exists>s. futex_wait_begin 0x10000 ?val futexes_demo = (None, s) \<and> fx_sleepers s = [(10, 0)]"
    using k p
    by (simp add: futex_wait_begin_def futex_get_def futex_find_def futexes_demo_def Let_def futex_load_def cur_mem_def
        task_pending_def) (simp add: cur_task_def get_task_def)
  then obtain s where s: "futex_wait_begin 0x10000 ?val futexes_demo = (None, s)" "fx_sleepers s = [(10, 0)]" by blast
  have "futex_step ([], futexes_demo) ([], s)" by (rule futex_step.start[OF _ s(1)]) (simp add: futexes_demo_def)
  then have "futex_step\<^sup>*\<^sup>* ([], futexes_demo) ([], s)" by (rule r_into_rtranclp)
  from futexes_counted[OF this] have "users [] s 0 = (case fx_heap s 0 of None \<Rightarrow> 0 | Some x \<Rightarrow> fu_refcount x)"
    by (simp add: futexes_demo_def)
  moreover have "users [] s 0 = 1" by (simp add: users_def s(2))
  ultimately show ?thesis using s(1) by (intro exI[of _ ?val]) (auto split: option.splits)
qed

text \<open>C23. A wake finds its sleepers: waking all threads on a word ends the sleep of every
thread that sleeps on that word of the caller's address space and of no other thread,
and waking one ends the sleep of exactly one of them when there is any.\<close>
theorem wake_reaches_sleepers:
  assumes "futex_ok w s" "fx_heap s f = Some x" "fu_addr x = a" "fu_mem x = cur_mem s"
    and "\<And>xs. xs \<noteq> [] \<Longrightarrow> pick xs \<in> set xs" "futex_wake pick a val s = (woken, r, s')"
  shows "(val = 0x7fffffff \<longrightarrow> set woken = {y \<in> set (fx_sleepers s). snd y = f} \<and>
            set (fx_sleepers s') = {y \<in> set (fx_sleepers s). snd y \<noteq> f}) \<and>
    (val = 1 \<longrightarrow> (\<exists>y \<in> set (fx_sleepers s). snd y = f) \<longrightarrow>
       (\<exists>y \<in> set (fx_sleepers s). snd y = f \<and> woken = [y] \<and> set (fx_sleepers s') = set (fx_sleepers s) - {y}))"
proof -
  have "futex_find a s = Some f" using futex_find_Some[OF assms(1)] assms(2-4) by blast
  then obtain s1 where g: "futex_get a s = (Some f, s1)" "fx_sleepers s1 = fx_sleepers s"
    using assms(2) by (auto simp: futex_get_def)
  let ?mine = "filter (\<lambda>y. snd y = f) (fx_sleepers s)"
  have put: "fx_sleepers (futex_put f t) = fx_sleepers t" for t
    by (simp add: futex_put_def fxbad_def Let_def split: option.splits)
  have w: "woken = (if val = 1 then (if ?mine = [] then [] else [pick ?mine]) else if val = 0x7fffffff then ?mine else [])"
      "fx_sleepers s' = filter (\<lambda>y. y \<notin> set woken) (fx_sleepers s)"
    using assms(6) g by (auto simp: futex_wake_def Let_def put fxbad_def)
  show ?thesis
  proof (intro conjI impI)
    assume v: "val = 1" and ex: "\<exists>y \<in> set (fx_sleepers s). snd y = f"
    then have "?mine \<noteq> []" by (auto simp: filter_empty_conv)
    from assms(5)[OF this] have "pick ?mine \<in> set (fx_sleepers s)" "snd (pick ?mine) = f" "woken = [pick ?mine]"
      using v \<open>?mine \<noteq> []\<close> by (auto simp: w(1))
    then show "\<exists>y \<in> set (fx_sleepers s). snd y = f \<and> woken = [y] \<and> set (fx_sleepers s') = set (fx_sleepers s) - {y}"
      by (auto simp: w(2))
  qed (auto simp: w)
qed

theorem wake_reaches_sleepers_witness:
  "\<exists>woken r s'. futex_wake hd 0x10000 1 futexes_asleep = (woken, r, s') \<and> woken = [(9, 4)]"
proof -
  obtain woken r s' where k: "futex_wake hd 0x10000 1 futexes_asleep = (woken, r, s')"
    by (cases "futex_wake hd 0x10000 1 futexes_asleep")
  have "fx_heap futexes_asleep 4 = Some \<lparr>fu_refcount = 1, fu_mem = 0, fu_addr = 0x10000\<rparr>" "cur_mem futexes_asleep = 0"
    by (simp_all add: futexes_asleep_def futexes_demo_def cur_mem_def)
  from wake_reaches_sleepers[OF futexes_asleep_ok this(1) _ _ _ k] this(2) k show ?thesis
    by (auto simp: futexes_asleep_def)
qed

text \<open>The timeout of a wait is never read: with any timeout the sleep has none left.\<close>

lemma futex_timeout_is_zero:
  "sys_futex pick a 0 val t s = (Waits x, s') \<Longrightarrow> x = (if t = 0 then None else Some (0, 0))"
  by (auto simp: sys_futex_def split: prod.splits option.splits)

end
