(* ===== verification/Time.thy ===== *)
theory Time
  imports Utilities "HOL-Library.Signed_Division"
begin

text \<open>
  Time (\<open>src/kernel/time.c\<close>) and the timers behind it (\<open>src/util/timer.c\<close>). The
  clocks of the host answer from parameters. A time is a pair of integers, as
  wide as the host's. A timer is a record that its thread and \<open>timer_set\<close> share;
  the thread is a function of the readings of the clock.
\<close>

subsection \<open>Times\<close>

record timespec =
  tv_s :: int
  tv_ns :: int

definition timespec_add :: "timespec \<Rightarrow> timespec \<Rightarrow> timespec" where
  "timespec_add x y =
    (let s = tv_s x + tv_s y; n = tv_ns x + tv_ns y
     in if n \<ge> 1000000000 then \<lparr>tv_s = s + 1, tv_ns = n - 1000000000\<rparr> else \<lparr>tv_s = s, tv_ns = n\<rparr>)"

definition timespec_subtract :: "timespec \<Rightarrow> timespec \<Rightarrow> timespec" where
  "timespec_subtract x y =
    (let x = (if tv_ns x < tv_ns y then \<lparr>tv_s = tv_s x - 1, tv_ns = tv_ns x + 1000000000\<rparr> else x)
     in \<lparr>tv_s = tv_s x - tv_s y, tv_ns = tv_ns x - tv_ns y\<rparr>)"

definition timespec_is_zero :: "timespec \<Rightarrow> bool" where
  "timespec_is_zero t \<longleftrightarrow> tv_s t = 0 \<and> tv_ns t = 0"

definition timespec_positive :: "timespec \<Rightarrow> bool" where
  "timespec_positive t \<longleftrightarrow> tv_s t > 0 \<or> (tv_s t = 0 \<and> tv_ns t > 0)"

subsection \<open>Timers\<close>

record timer =
  tm_start :: timespec
  tm_end :: timespec
  tm_interval :: timespec
  tm_running :: bool

record timer_spec =
  sp_value :: timespec
  sp_interval :: timespec

text \<open>What \<open>timer_set\<close> does to the thread: nothing, start a new one, or interrupt it.\<close>

datatype thread_action = Leave | Spawn | Interrupt

definition timer_set :: "timespec \<Rightarrow> timer_spec \<Rightarrow> timer \<Rightarrow> timer_spec \<times> thread_action \<times> timer" where
  "timer_set now spec tm =
    (let old = \<lparr>sp_value = timespec_subtract (tm_end tm) now, sp_interval = tm_interval tm\<rparr>;
         tm' = tm\<lparr>tm_start := now, tm_end := timespec_add now (sp_value spec), tm_interval := sp_interval spec\<rparr>
     in if \<not> timespec_is_zero (sp_value spec)
        then (old, if tm_running tm then Leave else Spawn, tm'\<lparr>tm_running := True\<rparr>)
        else (old, if tm_running tm then Interrupt else Leave, tm'\<lparr>tm_running := False\<rparr>))"

text \<open>One look of the thread at the clock: it sleeps for the time that remains, or leaves the
inner loop, calls back if the timer runs, and goes on to the next period or ends.\<close>

datatype timer_look = Sleep timespec | Next bool | End bool

definition timer_step :: "timespec \<Rightarrow> timer \<Rightarrow> timer_look \<times> timer" where
  "timer_step now tm =
    (let remaining = timespec_subtract (tm_end tm) now
     in if tm_running tm \<and> timespec_positive remaining then (Sleep remaining, tm)
        else if timespec_positive (tm_interval tm)
        then (Next (tm_running tm), tm\<lparr>tm_start := tm_end tm, tm_end := timespec_add (tm_end tm) (tm_interval tm)\<rparr>)
        else (End (tm_running tm), tm\<lparr>tm_running := False\<rparr>))"

text \<open>The thread over successive readings of the clock: the readings at which it called back
together with the deadlines, and the timer. The lock is given up only to sleep.\<close>

fun timer_thread :: "timespec list \<Rightarrow> timer \<Rightarrow> (timespec \<times> timespec) list \<times> timer" where
  "timer_thread [] tm = ([], tm)"
| "timer_thread (now # clock) tm =
    (case timer_step now tm of
       (Sleep _, tm) \<Rightarrow> timer_thread clock tm
     | (Next fires, tm') \<Rightarrow>
         (case timer_thread clock tm' of (xs, t) \<Rightarrow> (if fires then (now, tm_end tm) # xs else xs, t))
     | (End fires, tm') \<Rightarrow> (if fires then [(now, tm_end tm)] else [], tm'))"

subsection \<open>Calls that read a clock\<close>

text \<open>\<open>clock\<close> is the answer of the host: an error it reports, already translated, or a
time. The clocks are known by number.\<close>

definition put_timespec :: "addr_t \<Rightarrow> timespec \<Rightarrow> kern \<Rightarrow> int \<times> kern" where
  "put_timespec a t k =
    (case kput a [word_of_int (tv_s t), word_of_int (tv_ns t)] k of (err, k) \<Rightarrow> (if err \<noteq> 0 then EFAULT else 0, k))"

definition sys_time :: "int \<Rightarrow> addr_t \<Rightarrow> kern \<Rightarrow> int \<times> kern" where
  "sys_time now time_out k =
    (if time_out = 0 then (uint (word_of_int now :: dword_t), k)
     else case kput time_out [word_of_int now] k of
            (err, k) \<Rightarrow> (if err \<noteq> 0 then EFAULT else uint (word_of_int now :: dword_t), k))"

definition sys_clock_gettime :: "(nat \<Rightarrow> int + timespec) \<Rightarrow> dword_t \<Rightarrow> addr_t \<Rightarrow> kern \<Rightarrow> int \<times> kern" where
  "sys_clock_gettime host clock tp k =
    (if clock = 2
     then (case rusage_get_current k of
             (r, k) \<Rightarrow> put_timespec tp \<lparr>tv_s = uint (tv_sec (ru_utime r)), tv_ns = uint (tv_usec (ru_utime r) * 1000)\<rparr> k)
     else if clock = 0 \<or> clock = 1
     then (case host (unat clock) of Inl err \<Rightarrow> (err, k) | Inr t \<Rightarrow> put_timespec tp t k)
     else (EINVAL, k))"

definition sys_clock_getres :: "(nat \<Rightarrow> int + timespec) \<Rightarrow> dword_t \<Rightarrow> addr_t \<Rightarrow> kern \<Rightarrow> int \<times> kern" where
  "sys_clock_getres host clock res_addr k =
    (if clock = 0 \<or> clock = 1
     then (case host (unat clock) of Inl err \<Rightarrow> (err, k) | Inr t \<Rightarrow> put_timespec res_addr t k)
     else (EINVAL, k))"

definition sys_clock_settime :: "dword_t \<Rightarrow> addr_t \<Rightarrow> int" where
  "sys_clock_settime clock tp = EPERM"

definition sys_settimeofday :: "addr_t \<Rightarrow> addr_t \<Rightarrow> int" where
  "sys_settimeofday tv tz = EPERM"

text \<open>All four times are the user time.\<close>

definition sys_times :: "addr_t \<Rightarrow> kern \<Rightarrow> int \<times> kern" where
  "sys_times tbuf k =
    (if tbuf = 0 then (0, k)
     else case rusage_get_current k of
            (r, k) \<Rightarrow>
              (let t = tv_sec (ru_utime r) * 100 + tv_usec (ru_utime r) div 10000
               in case kput tbuf [t, t, t, t] k of (err, k) \<Rightarrow> (if err \<noteq> 0 then EFAULT else 0, k)))"

definition sys_gettimeofday :: "int + (int \<times> int) \<times> (int \<times> int) \<Rightarrow> addr_t \<Rightarrow> addr_t \<Rightarrow> kern \<Rightarrow> int \<times> kern" where
  "sys_gettimeofday host tv tz k =
    (case host of
       Inl err \<Rightarrow> (err, k)
     | Inr ((sec, usec), (west, dst)) \<Rightarrow>
         (case (if tv = 0 then (0, k) else kput tv [word_of_int sec, word_of_int usec] k) of
            (err, k) \<Rightarrow>
              if err \<noteq> 0 then (EFAULT, k)
              else (case (if tz = 0 then (0, k) else kput tz [word_of_int west, word_of_int dst] k) of
                      (err, k) \<Rightarrow> (if err \<noteq> 0 then EFAULT else 0, k))))"

text \<open>The host sleeps and says what remains.\<close>

definition sys_nanosleep :: "(timespec \<Rightarrow> int + timespec) \<Rightarrow> addr_t \<Rightarrow> addr_t \<Rightarrow> kern \<Rightarrow> int \<times> kern" where
  "sys_nanosleep host req_addr rem_addr k =
    (case kget req_addr 2 k of
       (None, k) \<Rightarrow> (EFAULT, k)
     | (Some ws, k) \<Rightarrow>
         (case host \<lparr>tv_s = uint (ws ! 0), tv_ns = uint (ws ! 1)\<rparr> of
            Inl err \<Rightarrow> (err, k)
          | Inr rem \<Rightarrow> if rem_addr = 0 then (0, k) else put_timespec rem_addr rem k))"

subsection \<open>The timer of a process\<close>

text \<open>Timers are in a heap; \<open>ck_owner\<close> is the task that gets \<open>SIGALRM\<close>, fixed when the timer
is made. A new timer has garbage in it apart from \<open>running\<close>.\<close>

record clocks =
  ck_kern :: kern
  ck_timers :: "nat \<Rightarrow> timer option"
  ck_owner :: "nat \<Rightarrow> nat"
  ck_next :: nat
  ck_actions :: "(nat \<times> thread_action) list"

definition timer_new :: "timer \<Rightarrow> nat \<Rightarrow> clocks \<Rightarrow> nat \<times> clocks" where
  "timer_new garbage owner s =
    (ck_next s, s\<lparr>ck_next := Suc (ck_next s), ck_timers := (ck_timers s)(ck_next s \<mapsto> garbage\<lparr>tm_running := False\<rparr>),
                  ck_owner := (ck_owner s)(ck_next s := owner)\<rparr>)"

definition itimer_notify :: "nat \<Rightarrow> clocks \<Rightarrow> clocks" where
  "itimer_notify t s = s\<lparr>ck_kern := send_signal (ck_owner s t) SIGALRM (ck_kern s)\<rparr>"

definition usec_timespec :: "dword_t \<Rightarrow> dword_t \<Rightarrow> timespec" where
  "usec_timespec sec usec = \<lparr>tv_s = uint sec, tv_ns = uint (usec * 1000)\<rparr>"

definition group_timer :: "timer \<Rightarrow> clocks \<Rightarrow> (nat option) \<times> clocks" where
  "group_timer garbage s =
    (let k = ck_kern s; gid = t_group (cur_task k)
     in case k_groups k gid of
          None \<Rightarrow> (None, s\<lparr>ck_kern := kbad k\<rparr>)
        | Some g \<Rightarrow>
            if g_has_timer g then (g_timer g, s)
            else (case timer_new garbage (k_current k) s of
                    (t, s) \<Rightarrow> (Some t, s\<lparr>ck_kern := upd_group gid (\<lambda>g. g\<lparr>g_timer := Some t, g_has_timer := True\<rparr>) k\<rparr>)))"

definition sys_setitimer :: "timespec \<Rightarrow> timer \<Rightarrow> dword_t \<Rightarrow> addr_t \<Rightarrow> addr_t \<Rightarrow> clocks \<Rightarrow> int \<times> clocks" where
  "sys_setitimer now garbage which new_val_addr old_val_addr s =
    (if which \<noteq> 0 then (EINVAL, s)
     else case kget new_val_addr 4 (ck_kern s) of
            (None, k) \<Rightarrow> (EFAULT, s\<lparr>ck_kern := k\<rparr>)
          | (Some ws, k) \<Rightarrow>
              (case group_timer garbage (s\<lparr>ck_kern := k\<rparr>) of
                 (None, s) \<Rightarrow> (0, s\<lparr>ck_kern := kbad (ck_kern s)\<rparr>)
               | (Some t, s) \<Rightarrow>
                   (case ck_timers s t of
                      None \<Rightarrow> (0, s\<lparr>ck_kern := kbad (ck_kern s)\<rparr>)
                    | Some tm \<Rightarrow>
                        (case timer_set now \<lparr>sp_value = usec_timespec (ws ! 2) (ws ! 3),
                                             sp_interval = usec_timespec (ws ! 0) (ws ! 1)\<rparr> tm of
                           (old, act, tm) \<Rightarrow>
                             (let s = s\<lparr>ck_timers := (ck_timers s)(t \<mapsto> tm), ck_actions := (t, act) # ck_actions s\<rparr>
                              in if old_val_addr = 0 then (0, s)
                                 else case kput old_val_addr
                                        [word_of_int (tv_s (sp_interval old)), word_of_int (tv_ns (sp_interval old) sdiv 1000),
                                         word_of_int (tv_s (sp_value old)), word_of_int (tv_ns (sp_value old) sdiv 1000)]
                                        (ck_kern s) of
                                        (err, k) \<Rightarrow> (if err \<noteq> 0 then EFAULT else 0, s\<lparr>ck_kern := k\<rparr>))))))"

section \<open>Properties\<close>

text \<open>
  Arithmetic on normal times is arithmetic on numbers of nanoseconds, and a timer
  neither fires early nor drifts.
\<close>

definition nanos :: "timespec \<Rightarrow> int" where
  "nanos t = tv_s t * 1000000000 + tv_ns t"

definition normal :: "timespec \<Rightarrow> bool" where
  "normal t \<longleftrightarrow> 0 \<le> tv_ns t \<and> tv_ns t < 1000000000"

lemma nanos_add [simp]: "nanos (timespec_add x y) = nanos x + nanos y"
  by (simp add: nanos_def timespec_add_def Let_def algebra_simps)

lemma nanos_subtract [simp]: "nanos (timespec_subtract x y) = nanos x - nanos y"
  by (simp add: nanos_def timespec_subtract_def Let_def algebra_simps)

lemma normal_arith: "normal x \<Longrightarrow> normal y \<Longrightarrow> normal (timespec_add x y)"
  "normal x \<Longrightarrow> normal y \<Longrightarrow> normal (timespec_subtract x y)"
  by (auto simp: normal_def timespec_add_def timespec_subtract_def Let_def)

lemma normal_eqI: "normal x \<Longrightarrow> normal y \<Longrightarrow> nanos x = nanos y \<Longrightarrow> x = y"
proof -
  assume a: "normal x" "normal y" "nanos x = nanos y"
  then have "tv_s x = tv_s y"
    unfolding normal_def nanos_def by (cases "tv_s x" "tv_s y" rule: linorder_cases) auto
  then show "x = y" using a by (simp add: nanos_def)
qed

lemma positive_nanos: "normal t \<Longrightarrow> timespec_positive t \<longleftrightarrow> 0 < nanos t"
  unfolding normal_def nanos_def timespec_positive_def
  by (cases "tv_s t" "0 :: int" rule: linorder_cases) auto

text \<open>Times add and subtract as numbers: on normal times the result is normal, adding and
taking away again gives back the same time, and a difference is positive just when the
first time is the later one.\<close>
lemma timespec_arithmetic:
  assumes "normal x" "normal y"
  shows "normal (timespec_add x y) \<and> timespec_subtract (timespec_add x y) y = x \<and>
    timespec_add (timespec_subtract x y) y = x \<and> (timespec_positive (timespec_subtract x y) \<longleftrightarrow> nanos y < nanos x)"
  using assms normal_arith positive_nanos[of "timespec_subtract x y"]
  by (auto intro!: normal_eqI)

lemma timespec_arithmetic_witness:
  "timespec_subtract (timespec_add \<lparr>tv_s = 1, tv_ns = 600000000\<rparr> \<lparr>tv_s = 2, tv_ns = 700000000\<rparr>) \<lparr>tv_s = 2, tv_ns = 700000000\<rparr> =
     \<lparr>tv_s = 1, tv_ns = 600000000\<rparr>"
  using timespec_arithmetic[of "\<lparr>tv_s = 1, tv_ns = 600000000\<rparr>" "\<lparr>tv_s = 2, tv_ns = 700000000\<rparr>"]
  by (simp add: normal_def)

lemma timer_step_cases:
  assumes "tm_running tm" "timespec_positive (tm_interval tm)" "normal (tm_end tm)" "normal now"
  shows "timer_step now tm =
    (if nanos now < nanos (tm_end tm) then (Sleep (timespec_subtract (tm_end tm) now), tm)
     else (Next True, tm\<lparr>tm_start := tm_end tm, tm_end := timespec_add (tm_end tm) (tm_interval tm)\<rparr>))"
  using assms positive_nanos[OF normal_arith(2)[OF assms(3,4)]] by (simp add: timer_step_def Let_def)

text \<open>C33. A periodic timer keeps time: whatever the clock shows when its thread looks, the
callback number \<open>i\<close> is never made before the first deadline plus \<open>i\<close> periods, none is left
out, and lateness is not carried on, since the deadlines depend on the first one only.\<close>
theorem timer_keeps_time:
  assumes "timer_thread clock tm = (xs, t)" "tm_running tm" "timespec_positive (tm_interval tm)"
    and "normal (tm_end tm)" "normal (tm_interval tm)" "\<forall>now \<in> set clock. normal now"
  shows "(\<forall>i < length xs. nanos (snd (xs ! i)) = nanos (tm_end tm) + int i * nanos (tm_interval tm) \<and>
      nanos (snd (xs ! i)) \<le> nanos (fst (xs ! i))) \<and>
    nanos (tm_end t) = nanos (tm_end tm) + int (length xs) * nanos (tm_interval tm) \<and> tm_running t"
  using assms
proof (induction clock arbitrary: tm xs)
  case (Cons now clock)
  have n: "normal now" "\<forall>now \<in> set clock. normal now" using Cons.prems(6) by simp_all
  note step = timer_step_cases[OF Cons.prems(2-4) n(1)]
  show ?case
  proof (cases "nanos now < nanos (tm_end tm)")
    case True
    then have "timer_thread clock tm = (xs, t)" using Cons.prems(1) step by simp
    then show ?thesis using Cons.IH Cons.prems(2-5) n(2) by blast
  next
    case False
    let ?tm = "tm\<lparr>tm_start := tm_end tm, tm_end := timespec_add (tm_end tm) (tm_interval tm)\<rparr>"
    obtain ys where ys: "timer_thread clock ?tm = (ys, t)" "xs = (now, tm_end tm) # ys"
      using Cons.prems(1) step False by (auto split: prod.splits)
    have "normal (tm_end ?tm)" using normal_arith(1)[OF Cons.prems(4,5)] by simp
    then have IH: "(\<forall>i < length ys. nanos (snd (ys ! i)) = nanos (tm_end ?tm) + int i * nanos (tm_interval tm) \<and>
        nanos (snd (ys ! i)) \<le> nanos (fst (ys ! i))) \<and>
      nanos (tm_end t) = nanos (tm_end ?tm) + int (length ys) * nanos (tm_interval tm) \<and> tm_running t"
      using Cons.IH[OF ys(1)] Cons.prems(2,3,5) n(2) by auto
    have "nanos (snd (xs ! i)) = nanos (tm_end tm) + int i * nanos (tm_interval tm) \<and>
        nanos (snd (xs ! i)) \<le> nanos (fst (xs ! i))" if "i < length xs" for i
      using that False IH[THEN conjunct1, rule_format, of "i - 1"]
      by (cases i) (simp_all add: ys(2) algebra_simps)
    moreover have "nanos (tm_end t) = nanos (tm_end tm) + int (length xs) * nanos (tm_interval tm)"
      using IH by (simp add: ys(2) algebra_simps)
    ultimately show ?thesis using IH by blast
  qed
qed simp

theorem timer_keeps_time_witness:
  "\<exists>xs t. timer_thread [\<lparr>tv_s = 4, tv_ns = 0\<rparr>, \<lparr>tv_s = 9, tv_ns = 0\<rparr>, \<lparr>tv_s = 9, tv_ns = 1\<rparr>]
     \<lparr>tm_start = \<lparr>tv_s = 0, tv_ns = 0\<rparr>, tm_end = \<lparr>tv_s = 5, tv_ns = 0\<rparr>, tm_interval = \<lparr>tv_s = 2, tv_ns = 500000000\<rparr>,
      tm_running = True\<rparr> = (xs, t) \<and> length xs = 2 \<and> nanos (snd (xs ! 1)) = 7500000000"
proof -
  let ?tm = "\<lparr>tm_start = \<lparr>tv_s = 0, tv_ns = 0\<rparr>, tm_end = \<lparr>tv_s = 5, tv_ns = 0\<rparr>,
    tm_interval = \<lparr>tv_s = 2, tv_ns = 500000000\<rparr>, tm_running = True\<rparr>"
  let ?clock = "[\<lparr>tv_s = 4, tv_ns = 0\<rparr>, \<lparr>tv_s = 9, tv_ns = 0\<rparr>, \<lparr>tv_s = 9, tv_ns = 1\<rparr>]"
  obtain xs t where r: "timer_thread ?clock ?tm = (xs, t)" by (cases "timer_thread ?clock ?tm")
  then have "length xs = 2"
    by (auto simp: timer_step_def timespec_subtract_def timespec_positive_def timespec_add_def)
  moreover have "nanos (snd (xs ! 1)) = 7500000000"
    using timer_keeps_time[OF r] \<open>length xs = 2\<close> by (simp add: normal_def timespec_positive_def) (simp add: nanos_def)
  ultimately show ?thesis using r by blast
qed

text \<open>A thread that was told to stop but has a period spins with the lock taken: it looks at the
clock again and again, calls nobody back, sleeps never and ends never.\<close>

lemma stopped_timer_spins:
  assumes "\<not> tm_running tm" "timespec_positive (tm_interval tm)"
  shows "\<exists>tm'. timer_step now tm = (Next False, tm') \<and> \<not> tm_running tm' \<and> tm_interval tm' = tm_interval tm"
  using assms by (simp add: timer_step_def Let_def)

end
