(* ===== verification/Vfs.thy ===== *)
theory Vfs
  imports Process Path
begin

text \<open>
  Files by path (\<open>src/fs/generic.c\<close>, \<open>src/fs/mount.c\<close>), device files
  (\<open>src/fs/dev.c\<close>, \<open>src/fs/dev.h\<close>, \<open>src/fs/mem.c\<close>) and files of the kernel's own
  (\<open>src/fs/adhoc.c\<close>). A file system is a record of its operations on a world of its
  own, which is the parameter of the state. The state extends the kernel by the
  mounts, which live in a heap and in the order of the list of mounts, and by what
  \<open>struct fd\<close> holds besides counter and flags. \<open>k_bad\<close> of the kernel records
  undefined behaviour and failed assertions.
\<close>

abbreviation (input) ENOSPC :: int where "ENOSPC \<equiv> - 28"
abbreviation (input) EOVERFLOW :: int where "EOVERFLOW \<equiv> - 75"
abbreviation (input) ELIBBAD :: int where "ELIBBAD \<equiv> - 80"
abbreviation (input) ENOTSUP :: int where "ENOTSUP \<equiv> - 95"

subsection \<open>Device numbers\<close>

definition dev_make :: "dword_t \<Rightarrow> dword_t \<Rightarrow> dword_t" where
  "dev_make major minor = push_bit 12 (minor AND 0xfff00) OR push_bit 8 major OR (minor AND 0xff)"

definition dev_major :: "dword_t \<Rightarrow> dword_t" where
  "dev_major dev = drop_bit 8 (dev AND 0xfff00)"

definition dev_minor :: "dword_t \<Rightarrow> dword_t" where
  "dev_minor dev = drop_bit 12 (dev AND 0xfff00000) OR (dev AND 0xff)"

subsection \<open>Operations of file systems and files\<close>

record statbuf =
  st_dev :: qword_t
  st_inode :: dword_t
  st_mode :: dword_t
  st_nlink :: dword_t
  st_uid :: dword_t
  st_gid :: dword_t
  st_rdev :: qword_t
  st_size :: qword_t
  st_blksize :: dword_t
  st_blocks :: qword_t
  st_atime :: dword_t
  st_atime_nsec :: dword_t
  st_mtime :: dword_t
  st_mtime_nsec :: dword_t
  st_ctime :: dword_t
  st_ctime_nsec :: dword_t

datatype attr = Attr_uid dword_t | Attr_gid dword_t | Attr_mode word_t | Attr_size qword_t

definition S_ISLNK :: "dword_t \<Rightarrow> bool" where "S_ISLNK mode \<longleftrightarrow> mode AND 0xf000 = 0xa000"
definition S_ISBLK :: "dword_t \<Rightarrow> bool" where "S_ISBLK mode \<longleftrightarrow> mode AND 0xf000 = 0x6000"
definition S_ISCHR :: "dword_t \<Rightarrow> bool" where "S_ISCHR mode \<longleftrightarrow> mode AND 0xf000 = 0x2000"
definition S_ISDIR :: "dword_t \<Rightarrow> bool" where "S_ISDIR mode \<longleftrightarrow> mode AND 0xf000 = 0x4000"

text \<open>\<open>struct fs_ops\<close>. A mount is known by its name, an open file by that of its
\<open>struct fd\<close>; \<open>open\<close> gets the name that the new file will have and returns an error or
the number of the table of operations it gives it. An operation that a
file system may lack is an option; most are called without a test. Asking for a status, the target of a link or a path changes
nothing.\<close>

record 'w fs_ops =
  fs_name :: string
  fs_magic :: dword_t
  fs_mount :: "(nat \<Rightarrow> string \<Rightarrow> string \<Rightarrow> 'w \<Rightarrow> int \<times> 'w) option"
  fs_umount :: "(nat \<Rightarrow> 'w \<Rightarrow> 'w) option"
  fs_statfs :: "(nat \<Rightarrow> 'w \<Rightarrow> int \<times> byte_t list) option"
  fs_open :: "nat \<Rightarrow> nat \<Rightarrow> string \<Rightarrow> dword_t \<Rightarrow> word_t \<Rightarrow> 'w \<Rightarrow> (int + nat) \<times> 'w"
  fs_readlinkat :: "nat \<Rightarrow> string \<Rightarrow> nat \<Rightarrow> 'w \<Rightarrow> int + string"
  fs_link :: "(nat \<Rightarrow> string \<Rightarrow> string \<Rightarrow> 'w \<Rightarrow> int \<times> 'w) option"
  fs_unlink :: "(nat \<Rightarrow> string \<Rightarrow> 'w \<Rightarrow> int \<times> 'w) option"
  fs_rmdir :: "(nat \<Rightarrow> string \<Rightarrow> 'w \<Rightarrow> int \<times> 'w) option"
  fs_rename :: "(nat \<Rightarrow> string \<Rightarrow> string \<Rightarrow> 'w \<Rightarrow> int \<times> 'w) option"
  fs_symlink :: "(nat \<Rightarrow> string \<Rightarrow> string \<Rightarrow> 'w \<Rightarrow> int \<times> 'w) option"
  fs_mknod :: "(nat \<Rightarrow> string \<Rightarrow> word_t \<Rightarrow> dword_t \<Rightarrow> 'w \<Rightarrow> int \<times> 'w) option"
  fs_stat :: "nat \<Rightarrow> string \<Rightarrow> bool \<Rightarrow> 'w \<Rightarrow> int + statbuf"
  fs_fstat :: "nat \<Rightarrow> 'w \<Rightarrow> int + statbuf"
  fs_setattr :: "(nat \<Rightarrow> string \<Rightarrow> attr \<Rightarrow> 'w \<Rightarrow> int \<times> 'w) option"
  fs_fsetattr :: "(nat \<Rightarrow> attr \<Rightarrow> 'w \<Rightarrow> int \<times> 'w) option"
  fs_utime :: "(nat \<Rightarrow> string \<Rightarrow> dword_t \<times> dword_t \<Rightarrow> dword_t \<times> dword_t \<Rightarrow> 'w \<Rightarrow> int \<times> 'w) option"
  fs_getpath :: "(nat \<Rightarrow> 'w \<Rightarrow> int + string) option"
  fs_mkdir :: "(nat \<Rightarrow> string \<Rightarrow> word_t \<Rightarrow> 'w \<Rightarrow> int \<times> 'w) option"
  fs_flock :: "(nat \<Rightarrow> dword_t \<Rightarrow> 'w \<Rightarrow> int \<times> 'w) option"

text \<open>\<open>struct fd_ops\<close>, less those that belong to \<open>poll\<close>, \<open>close\<close> and \<open>fcntl\<close>. What is read
comes with the result; an \<open>ioctl\<close> takes its argument or the bytes it points to and
returns those bytes. A call that has not returned has no value here.\<close>

record dir_entry =
  de_inode :: qword_t
  de_name :: string

record 'w fd_ops =
  fo_read :: "(nat \<Rightarrow> nat \<Rightarrow> 'w \<Rightarrow> int \<times> byte_t list \<times> 'w) option"
  fo_write :: "(nat \<Rightarrow> byte_t list \<Rightarrow> 'w \<Rightarrow> int \<times> 'w) option"
  fo_lseek :: "(nat \<Rightarrow> qword_t \<Rightarrow> dword_t \<Rightarrow> 'w \<Rightarrow> int \<times> 'w) option"
  fo_readdir :: "(nat \<Rightarrow> 'w \<Rightarrow> (int + dir_entry option) \<times> 'w) option"
  fo_telldir :: "nat \<Rightarrow> 'w \<Rightarrow> qword_t"
  fo_seekdir :: "nat \<Rightarrow> qword_t \<Rightarrow> 'w \<Rightarrow> 'w"
  fo_mmap :: "(nat \<Rightarrow> mem_id \<Rightarrow> page_t \<Rightarrow> pages_t \<Rightarrow> qword_t \<Rightarrow> dword_t \<Rightarrow> dword_t \<Rightarrow> 'w \<Rightarrow> vm \<Rightarrow> int \<times> vm) option"
  fo_ioctl_size :: "(nat \<Rightarrow> dword_t \<Rightarrow> int) option"
  fo_ioctl :: "nat \<Rightarrow> dword_t \<Rightarrow> dword_t + byte_t list \<Rightarrow> 'w \<Rightarrow> int \<times> byte_t list \<times> 'w"
  fo_fsync :: "(nat \<Rightarrow> 'w \<Rightarrow> int \<times> 'w) option"

subsection \<open>State\<close>

text \<open>Which table of operations a file has: that of its file system, or of a device.
\<open>Mem_dev\<close> is the table of \<open>mem_dev\<close>, all null pointers.\<close>

datatype file_kind = Fs_file nat | Mem_dev | Null_dev | Zero_dev | Full_dev | Random_dev | Tty_dev

text \<open>A file without mount belongs to \<open>adhoc_mount\<close>, and has its status in \<open>fl_stat\<close>.
\<open>fl_real\<close> is the descriptor of the host, for files that were made from one.\<close>

record file_info =
  fl_mount :: "nat option"
  fl_kind :: file_kind
  fl_stat :: statbuf
  fl_real :: "nat option"

record 'w vfs =
  vf_kern :: kern
  vf_mounts :: "nat list"
  vf_mount :: "nat \<Rightarrow> mount option"
  vf_file :: "nat \<Rightarrow> file_info option"
  vf_world :: 'w
  vf_next :: nat
  vf_closed :: "nat list"

text \<open>What is outside. \<open>en_fs\<close> and \<open>en_ops\<close> are the tables by number, \<open>en_links\<close> how deep
links may be nested before the stack of the host overflows, \<open>en_real\<close> the number of
\<open>realfs_fdops\<close>, \<open>en_tty_open\<close> the opening of a terminal.\<close>

record 'w env =
  en_links :: nat
  en_fs :: "nat \<Rightarrow> 'w fs_ops"
  en_ops :: "nat \<Rightarrow> 'w fd_ops"
  en_real :: nat
  en_tty :: "'w fd_ops"
  en_tty_open :: "nat \<Rightarrow> nat \<Rightarrow> nat \<Rightarrow> kern \<Rightarrow> int \<times> kern"
  en_random :: "nat \<Rightarrow> 'w \<Rightarrow> byte_t list \<times> 'w"

definition vbad :: "'w vfs \<Rightarrow> 'w vfs" where
  "vbad s = s\<lparr>vf_kern := kbad (vf_kern s)\<rparr>"

definition on_kernel :: "(kern \<Rightarrow> 'a \<times> kern) \<Rightarrow> 'w vfs \<Rightarrow> 'a \<times> 'w vfs" where
  "on_kernel f s = (case f (vf_kern s) of (r, k) \<Rightarrow> (r, s\<lparr>vf_kern := k\<rparr>))"

definition on_world :: "('w \<Rightarrow> 'a \<times> 'w) \<Rightarrow> 'w vfs \<Rightarrow> 'a \<times> 'w vfs" where
  "on_world f s = (case f (vf_world s) of (r, w) \<Rightarrow> (r, s\<lparr>vf_world := w\<rparr>))"

definition mount_ops :: "'w env \<Rightarrow> nat \<Rightarrow> 'w vfs \<Rightarrow> 'w fs_ops option" where
  "mount_ops env i s = map_option (\<lambda>m. en_fs env (mnt_fs m)) (vf_mount s i)"

text \<open>The file system of a file that is not adhoc.\<close>

definition file_fs :: "'w env \<Rightarrow> nat \<Rightarrow> 'w vfs \<Rightarrow> 'w fs_ops option" where
  "file_fs env fd s =
    (case vf_file s fd of
       None \<Rightarrow> None
     | Some x \<Rightarrow> (case fl_mount x of None \<Rightarrow> None | Some i \<Rightarrow> mount_ops env i s))"

subsection \<open>Devices without hardware\<close>

definition null_ops :: "'w fd_ops" where
  "null_ops = \<lparr>fo_read = None, fo_write = None, fo_lseek = None, fo_readdir = None, fo_telldir = (\<lambda>_ _. 0),
     fo_seekdir = (\<lambda>_ _ w. w), fo_mmap = None, fo_ioctl_size = None, fo_ioctl = (\<lambda>_ _ _ w. (0, [], w)), fo_fsync = None\<rparr>"

definition null_read :: "nat \<Rightarrow> nat \<Rightarrow> 'w \<Rightarrow> int \<times> byte_t list \<times> 'w" where
  "null_read fd n w = (0, [], w)"

definition null_write :: "nat \<Rightarrow> byte_t list \<Rightarrow> 'w \<Rightarrow> int \<times> 'w" where
  "null_write fd bs w = (int (length bs), w)"

definition zero_read :: "nat \<Rightarrow> nat \<Rightarrow> 'w \<Rightarrow> int \<times> byte_t list \<times> 'w" where
  "zero_read fd n w = (int n, replicate n 0, w)"

definition full_write :: "nat \<Rightarrow> byte_t list \<Rightarrow> 'w \<Rightarrow> int \<times> 'w" where
  "full_write fd bs w = (ENOSPC, w)"

definition random_read :: "'w env \<Rightarrow> nat \<Rightarrow> nat \<Rightarrow> 'w \<Rightarrow> int \<times> byte_t list \<times> 'w" where
  "random_read env fd n w = (case en_random env n w of (bs, w) \<Rightarrow> (int n, bs, w))"

definition kind_ops :: "'w env \<Rightarrow> file_kind \<Rightarrow> 'w fd_ops" where
  "kind_ops env x =
    (case x of
       Fs_file n \<Rightarrow> en_ops env n
     | Mem_dev \<Rightarrow> null_ops
     | Null_dev \<Rightarrow> null_ops\<lparr>fo_read := Some null_read, fo_write := Some null_write\<rparr>
     | Zero_dev \<Rightarrow> null_ops\<lparr>fo_read := Some zero_read, fo_write := Some null_write\<rparr>
     | Full_dev \<Rightarrow> null_ops\<lparr>fo_read := Some zero_read, fo_write := Some full_write\<rparr>
     | Random_dev \<Rightarrow> null_ops\<lparr>fo_read := Some (random_read env), fo_write := Some null_write\<rparr>
     | Tty_dev \<Rightarrow> en_tty env)"

definition file_ops_of :: "'w env \<Rightarrow> nat \<Rightarrow> 'w vfs \<Rightarrow> 'w fd_ops" where
  "file_ops_of env fd s = (case vf_file s fd of None \<Rightarrow> null_ops | Some x \<Rightarrow> kind_ops env (fl_kind x))"

text \<open>The device is looked up by its major number, then by its minor number where the
first table says so. Both indices are unchecked; the tables have 256 elements.\<close>

definition set_kind :: "nat \<Rightarrow> file_kind \<Rightarrow> 'w vfs \<Rightarrow> 'w vfs" where
  "set_kind fd x s = s\<lparr>vf_file := (vf_file s)(fd := map_option (\<lambda>f. f\<lparr>fl_kind := x\<rparr>) (vf_file s fd))\<rparr>"

definition mem_devs :: "nat \<Rightarrow> file_kind option" where
  "mem_devs minor =
    (if minor = 3 then Some Null_dev else if minor = 5 then Some Zero_dev else if minor = 7 then Some Full_dev
     else if minor = 8 \<or> minor = 9 then Some Random_dev else None)"

definition mem_open :: "nat \<Rightarrow> nat \<Rightarrow> 'w vfs \<Rightarrow> int \<times> 'w vfs" where
  "mem_open minor fd s =
    (if minor > 255 then (0, vbad s)
     else case mem_devs minor of None \<Rightarrow> (ENXIO, s) | Some x \<Rightarrow> (0, set_kind fd x s))"

definition dev_open :: "'w env \<Rightarrow> nat \<Rightarrow> nat \<Rightarrow> bool \<Rightarrow> nat \<Rightarrow> 'w vfs \<Rightarrow> int \<times> 'w vfs" where
  "dev_open env major minor char fd s =
    (if major > 255 then (0, vbad s)
     else if char \<and> major = 1 then mem_open minor fd (set_kind fd Mem_dev s)
     else if char \<and> (major = 4 \<or> major = 5) then on_kernel (en_tty_open env major minor fd) (set_kind fd Tty_dev s)
     else (ENXIO, s))"

subsection \<open>The mount of a path\<close>

definition mount_at :: "string \<Rightarrow> 'w vfs \<Rightarrow> nat option" where
  "mount_at path s =
    find (\<lambda>i. case vf_mount s i of None \<Rightarrow> False | Some m \<Rightarrow> under_mount path m) (vf_mounts s)"

definition ref_mount :: "(dword_t \<Rightarrow> dword_t) \<Rightarrow> nat \<Rightarrow> 'w vfs \<Rightarrow> 'w vfs" where
  "ref_mount f i s =
    s\<lparr>vf_mount := (vf_mount s)(i := map_option (\<lambda>m. m\<lparr>mnt_refcount := f (mnt_refcount m)\<rparr>) (vf_mount s i))\<rparr>"

text \<open>\<open>find_mount_and_trim_path\<close> with the reference it takes. No mount, or a path that is
not normalized, fails an assertion or follows a bad pointer.\<close>

definition take_mount :: "string \<Rightarrow> 'w vfs \<Rightarrow> (nat \<times> string) option \<times> 'w vfs" where
  "take_mount path s =
    (if \<not> path_is_normalized path then (None, vbad s)
     else case mount_at path s of
            None \<Rightarrow> (None, vbad s)
          | Some i \<Rightarrow>
              (case vf_mount s i of
                 None \<Rightarrow> (None, vbad s)
               | Some m \<Rightarrow> (Some (i, drop (length (mnt_point m)) path), ref_mount ((+) 1) i s)))"

definition mount_release :: "nat \<Rightarrow> 'w vfs \<Rightarrow> 'w vfs" where
  "mount_release i s = ref_mount (\<lambda>n. n - 1) i s"

definition mount_list :: "'w vfs \<Rightarrow> mount list" where
  "mount_list s = List.map_filter (vf_mount s) (vf_mounts s)"

subsection \<open>Normalized paths\<close>

text \<open>The base of a relative path: a null pointer, the working directory or a file.\<close>

datatype at_file = Null_at | Pwd_at | Fd_at nat

definition dir_of :: "'w env \<Rightarrow> nat \<Rightarrow> 'w vfs \<Rightarrow> open_dir option" where
  "dir_of env fd s =
    (case vf_file s fd of
       None \<Rightarrow> None
     | Some x \<Rightarrow>
         (case fl_mount x of
            None \<Rightarrow> None
          | Some i \<Rightarrow>
              (case vf_mount s i of
                 None \<Rightarrow> None
               | Some m \<Rightarrow>
                   map_option (\<lambda>f. \<lparr>dir_path = f fd (vf_world s), dir_mount = mnt_point m\<rparr>) (fs_getpath (en_fs env (mnt_fs m))))))"

definition cur_fs :: "'w vfs \<Rightarrow> fs_info option" where
  "cur_fs s = k_fsinfos (vf_kern s) (t_fs (cur_task (vf_kern s)))"

definition path_env :: "'w env \<Rightarrow> 'w vfs \<Rightarrow> fs_env" where
  "path_env env s =
    \<lparr>fs_root = (case cur_fs s of None \<Rightarrow> None | Some f \<Rightarrow> dir_of env (fi_root f) s),
     fs_pwd = (case cur_fs s of None \<Rightarrow> None | Some f \<Rightarrow> dir_of env (fi_pwd f) s),
     fs_mounts = mount_list s,
     fs_readlink = (\<lambda>m path room.
       case find (\<lambda>i. vf_mount s i = Some m) (vf_mounts s) of
         None \<Rightarrow> None
       | Some i \<Rightarrow> (case fs_readlinkat (en_fs env (mnt_fs m)) i path room (vf_world s) of
                      Inl _ \<Rightarrow> None | Inr l \<Rightarrow> Some l))\<rparr>"

definition at_dir :: "'w env \<Rightarrow> at_file \<Rightarrow> 'w vfs \<Rightarrow> at_fd option" where
  "at_dir env at s =
    (case at of Null_at \<Rightarrow> None | Pwd_at \<Rightarrow> Some At_pwd | Fd_at fd \<Rightarrow> map_option At_dir (dir_of env fd s))"

text \<open>A base that is not a directory of a mounted file system, where one is needed, is a
null pointer that is followed.\<close>

definition normalize :: "'w env \<Rightarrow> at_file \<Rightarrow> string \<Rightarrow> bool \<Rightarrow> 'w vfs \<Rightarrow> (int + string) \<times> 'w vfs" where
  "normalize env at path follow s =
    (if at = Null_at then (Inl 0, vbad s)
     else case (if path \<noteq> [] \<and> hd path = slash then Some At_pwd else at_dir env at s) of
            None \<Rightarrow> (Inl 0, vbad s)
          | Some d \<Rightarrow>
              if base_dir (path_env env s) d path = None then (Inl 0, vbad s)
              else case path_normalize (path_env env s) (en_links env) d path follow of
                     Path p \<Rightarrow> (Inr p, s)
                   | Path_err err \<Rightarrow> (Inl err, s)
                   | Bad \<Rightarrow> (Inl 0, vbad s)
                   | Too_many_links \<Rightarrow> (Inl 0, vbad s))"

subsection \<open>Open files\<close>

text \<open>\<open>fd_close\<close> with what belongs to the file here. The mount of the file keeps the
reference that opening it has taken.\<close>

definition drop_file :: "nat \<Rightarrow> 'w vfs \<Rightarrow> 'w vfs" where
  "drop_file fd s =
    (case vf_file s fd of
       None \<Rightarrow> s
     | Some x \<Rightarrow>
         s\<lparr>vf_closed := (case fl_real x of None \<Rightarrow> [] | Some h \<Rightarrow> [h]) @ vf_closed s,
           vf_file := (vf_file s)(fd := None)\<rparr>)"

definition last_ref :: "nat \<Rightarrow> 'w vfs \<Rightarrow> bool" where
  "last_ref fd s \<longleftrightarrow> map_option fd_refcount (fd_heap (k_fds (vf_kern s)) fd) = Some 1"

definition close_file :: "nat \<Rightarrow> 'w vfs \<Rightarrow> int \<times> 'w vfs" where
  "close_file fd s =
    on_kernel (on_fds (fd_close (k_ops (vf_kern s)) fd)) (if last_ref fd s then drop_file fd s else s)"

definition fstat :: "'w env \<Rightarrow> nat \<Rightarrow> 'w vfs \<Rightarrow> (int + statbuf) \<times> 'w vfs" where
  "fstat env fd s =
    (case vf_file s fd of
       None \<Rightarrow> (Inl 0, vbad s)
     | Some x \<Rightarrow>
         (case fl_mount x of
            None \<Rightarrow> (Inr (fl_stat x), s)
          | Some i \<Rightarrow>
              (case mount_ops env i s of
                 None \<Rightarrow> (Inl 0, vbad s) | Some fs \<Rightarrow> (fs_fstat fs fd (vf_world s), s))))"

definition zero_stat :: statbuf where
  "zero_stat = \<lparr>st_dev = 0, st_inode = 0, st_mode = 0, st_nlink = 0, st_uid = 0, st_gid = 0, st_rdev = 0,
     st_size = 0, st_blksize = 0, st_blocks = 0, st_atime = 0, st_atime_nsec = 0, st_mtime = 0,
     st_mtime_nsec = 0, st_ctime = 0, st_ctime_nsec = 0\<rparr>"

definition new_file :: "nat option \<Rightarrow> file_kind \<Rightarrow> 'w vfs \<Rightarrow> nat \<times> 'w vfs" where
  "new_file m x s =
    (case on_kernel (on_fds fd_create) s of
       (fd, s) \<Rightarrow> (fd, s\<lparr>vf_file := (vf_file s)(fd \<mapsto> \<lparr>fl_mount = m, fl_kind = x, fl_stat = zero_stat, fl_real = None\<rparr>)\<rparr>))"

definition open_device :: "'w env \<Rightarrow> nat \<Rightarrow> statbuf \<Rightarrow> 'w vfs \<Rightarrow> (int + nat) \<times> 'w vfs" where
  "open_device env fd st s =
    (if S_ISLNK (st_mode st) then (Inr fd, vbad s)
     else if S_ISBLK (st_mode st) \<or> S_ISCHR (st_mode st)
     then (let dev = ucast (st_rdev st)
           in case dev_open env (unat (dev_major dev)) (unat (dev_minor dev)) (S_ISCHR (st_mode st)) fd s of
                (err, s) \<Rightarrow> if err < 0 then (Inl err, snd (close_file fd s)) else (Inr fd, s))
     else (Inr fd, s))"

definition generic_openat :: "'w env \<Rightarrow> at_file \<Rightarrow> string \<Rightarrow> dword_t \<Rightarrow> word_t \<Rightarrow> 'w vfs \<Rightarrow> (int + nat) \<times> 'w vfs" where
  "generic_openat env at path flags mode s =
    (case normalize env at path True s of
       (Inl err, s) \<Rightarrow> (Inl err, s)
     | (Inr path, s) \<Rightarrow>
         (case take_mount path s of
            (None, s) \<Rightarrow> (Inl 0, s)
          | (Some (m, path), s) \<Rightarrow>
              (case mount_ops env m s of
                 None \<Rightarrow> (Inl 0, vbad s)
               | Some fs \<Rightarrow>
                   (case on_world (fs_open fs m (fd_next (k_fds (vf_kern s))) path flags mode) s of
                      (Inl err, s) \<Rightarrow> (Inl err, s)
                    | (Inr ops, s) \<Rightarrow>
                        (case new_file (Some m) (Fs_file ops) s of
                           (fd, s) \<Rightarrow>
                             (case fstat env fd s of
                                (Inl _, s) \<Rightarrow> (Inr fd, s)
                              | (Inr st, s) \<Rightarrow> open_device env fd st s))))))"

definition generic_open :: "'w env \<Rightarrow> string \<Rightarrow> dword_t \<Rightarrow> word_t \<Rightarrow> 'w vfs \<Rightarrow> (int + nat) \<times> 'w vfs" where
  "generic_open env = generic_openat env Pwd_at"

subsection \<open>Operations on paths\<close>

text \<open>An operation of the file system that a normalized path is on. A missing one is called
all the same.\<close>

definition with_mount ::
  "'w env \<Rightarrow> string \<Rightarrow> ('w fs_ops \<Rightarrow> (nat \<Rightarrow> string \<Rightarrow> 'w \<Rightarrow> int \<times> 'w) option) \<Rightarrow> 'w vfs \<Rightarrow> int \<times> 'w vfs"
where
  "with_mount env path f s =
    (case take_mount path s of
       (None, s) \<Rightarrow> (0, s)
     | (Some (m, path), s) \<Rightarrow>
         (case mount_ops env m s of
            None \<Rightarrow> (0, vbad s)
          | Some fs \<Rightarrow>
              (case (case f fs of None \<Rightarrow> (0, vbad s) | Some g \<Rightarrow> on_world (g m path) s) of
                 (err, s) \<Rightarrow> (err, mount_release m s))))"

definition with_path ::
  "'w env \<Rightarrow> at_file \<Rightarrow> string \<Rightarrow> bool \<Rightarrow> (string \<Rightarrow> 'w vfs \<Rightarrow> int \<times> 'w vfs) \<Rightarrow> 'w vfs \<Rightarrow> int \<times> 'w vfs"
where
  "with_path env at path follow f s =
    (case normalize env at path follow s of (Inl err, s) \<Rightarrow> (err, s) | (Inr path, s) \<Rightarrow> f path s)"

text \<open>A status is asked for without effect; the result goes to the caller.\<close>

definition generic_statat :: "'w env \<Rightarrow> at_file \<Rightarrow> string \<Rightarrow> bool \<Rightarrow> 'w vfs \<Rightarrow> (int + statbuf) \<times> 'w vfs" where
  "generic_statat env at path follow s =
    (case normalize env at path follow s of
       (Inl err, s) \<Rightarrow> (Inl err, s)
     | (Inr path, s) \<Rightarrow>
         (case take_mount path s of
            (None, s) \<Rightarrow> (Inl 0, s)
          | (Some (m, path), s) \<Rightarrow>
              (case mount_ops env m s of
                 None \<Rightarrow> (Inl 0, vbad s)
               | Some fs \<Rightarrow> (fs_stat fs m path follow (vf_world s), mount_release m s))))"

definition generic_accessat :: "'w env \<Rightarrow> at_file \<Rightarrow> string \<Rightarrow> word_t \<Rightarrow> 'w vfs \<Rightarrow> int \<times> 'w vfs" where
  "generic_accessat env at path mode s =
    (case generic_statat env at path True s of (Inl err, s) \<Rightarrow> (err, s) | (Inr _, s) \<Rightarrow> (0, s))"

text \<open>Two paths: both are normalized before a mount is looked up, and both mounts must be
the same.\<close>

definition with_mounts ::
  "'w env \<Rightarrow> string \<Rightarrow> string \<Rightarrow> ('w fs_ops \<Rightarrow> (nat \<Rightarrow> string \<Rightarrow> string \<Rightarrow> 'w \<Rightarrow> int \<times> 'w) option) \<Rightarrow>
   'w vfs \<Rightarrow> int \<times> 'w vfs"
where
  "with_mounts env src dst f s =
    (case take_mount src s of
       (None, s) \<Rightarrow> (0, s)
     | (Some (m, src), s) \<Rightarrow>
         (case take_mount dst s of
            (None, s) \<Rightarrow> (0, s)
          | (Some (m', dst), s) \<Rightarrow>
              (case (if m \<noteq> m' then (EXDEV, s)
                     else case mount_ops env m s of
                            None \<Rightarrow> (0, vbad s)
                          | Some fs \<Rightarrow> (case f fs of None \<Rightarrow> (0, vbad s) | Some g \<Rightarrow> on_world (g m src dst) s)) of
                 (err, s) \<Rightarrow> (err, mount_release m' (mount_release m s)))))"

definition generic_linkat :: "'w env \<Rightarrow> at_file \<Rightarrow> string \<Rightarrow> at_file \<Rightarrow> string \<Rightarrow> 'w vfs \<Rightarrow> int \<times> 'w vfs" where
  "generic_linkat env src_at src dst_at dst =
    with_path env src_at src False (\<lambda>src. with_path env dst_at dst False (\<lambda>dst. with_mounts env src dst fs_link))"

definition generic_unlinkat :: "'w env \<Rightarrow> at_file \<Rightarrow> string \<Rightarrow> 'w vfs \<Rightarrow> int \<times> 'w vfs" where
  "generic_unlinkat env at path = with_path env at path False (\<lambda>path. with_mount env path fs_unlink)"

definition generic_renameat :: "'w env \<Rightarrow> at_file \<Rightarrow> string \<Rightarrow> at_file \<Rightarrow> string \<Rightarrow> 'w vfs \<Rightarrow> int \<times> 'w vfs" where
  "generic_renameat env src_at src dst_at dst =
    with_path env src_at src False (\<lambda>src. with_path env dst_at dst False (\<lambda>dst s.
      if contains_mount_point (mount_list s) src then (EBUSY, s) else with_mounts env src dst fs_rename s))"

definition generic_symlinkat :: "'w env \<Rightarrow> string \<Rightarrow> at_file \<Rightarrow> string \<Rightarrow> 'w vfs \<Rightarrow> int \<times> 'w vfs" where
  "generic_symlinkat env target at link =
    with_path env at link False (\<lambda>link. with_mount env link (\<lambda>fs. map_option (\<lambda>g m. g m target) (fs_symlink fs)))"

definition generic_mknod :: "'w env \<Rightarrow> string \<Rightarrow> word_t \<Rightarrow> dword_t \<Rightarrow> 'w vfs \<Rightarrow> int \<times> 'w vfs" where
  "generic_mknod env path mode dev s =
    (if S_ISDIR (ucast mode) \<or> S_ISLNK (ucast mode) then (EINVAL, s)
     else if \<not> superuser (t_creds (cur_task (vf_kern s))) \<and> (S_ISBLK (ucast mode) \<or> S_ISCHR (ucast mode)) then (EPERM, s)
     else with_path env Pwd_at path False (\<lambda>path. with_mount env path (\<lambda>fs. Some (\<lambda>m path w.
            case fs_mknod fs of None \<Rightarrow> (EPERM, w) | Some g \<Rightarrow> g m path mode dev w))) s)"

definition generic_setattrat :: "'w env \<Rightarrow> at_file \<Rightarrow> string \<Rightarrow> attr \<Rightarrow> bool \<Rightarrow> 'w vfs \<Rightarrow> int \<times> 'w vfs" where
  "generic_setattrat env at path attr follow =
    with_path env at path follow (\<lambda>path. with_mount env path (\<lambda>fs. map_option (\<lambda>g m path. g m path attr) (fs_setattr fs)))"

definition generic_utime ::
  "'w env \<Rightarrow> at_file \<Rightarrow> string \<Rightarrow> dword_t \<times> dword_t \<Rightarrow> dword_t \<times> dword_t \<Rightarrow> bool \<Rightarrow> 'w vfs \<Rightarrow> int \<times> 'w vfs"
where
  "generic_utime env at path atime mtime follow =
    with_path env at path follow (\<lambda>path. with_mount env path (\<lambda>fs. map_option (\<lambda>g m path. g m path atime mtime) (fs_utime fs)))"

definition generic_readlinkat ::
  "'w env \<Rightarrow> at_file \<Rightarrow> string \<Rightarrow> nat \<Rightarrow> 'w vfs \<Rightarrow> (int + string) \<times> 'w vfs"
where
  "generic_readlinkat env at path bufsize s =
    (case normalize env at path False s of
       (Inl err, s) \<Rightarrow> (Inl err, s)
     | (Inr path, s) \<Rightarrow>
         (case take_mount path s of
            (None, s) \<Rightarrow> (Inl 0, s)
          | (Some (m, path), s) \<Rightarrow>
              (case mount_ops env m s of
                 None \<Rightarrow> (Inl 0, vbad s)
               | Some fs \<Rightarrow> (fs_readlinkat fs m path bufsize (vf_world s), mount_release m s))))"

text \<open>The last two follow a link at the end of the path.\<close>

definition generic_mkdirat :: "'w env \<Rightarrow> at_file \<Rightarrow> string \<Rightarrow> word_t \<Rightarrow> 'w vfs \<Rightarrow> int \<times> 'w vfs" where
  "generic_mkdirat env at path mode =
    with_path env at path True (\<lambda>path. with_mount env path (\<lambda>fs. map_option (\<lambda>g m path. g m path mode) (fs_mkdir fs)))"

definition generic_rmdirat :: "'w env \<Rightarrow> at_file \<Rightarrow> string \<Rightarrow> 'w vfs \<Rightarrow> int \<times> 'w vfs" where
  "generic_rmdirat env at path =
    with_path env at path True (\<lambda>path s.
      if contains_mount_point (mount_list s) path then (EBUSY, s) else with_mount env path fs_rmdir s)"

end
