(* ===== verification/Files.thy ===== *)
theory Files
  imports Vfs
begin

text \<open>
  The system calls on files: \<open>src/kernel/fs.c\<close>, \<open>src/fs/stat.c\<close>, \<open>src/fs/dir.c\<close>,
  the calls of \<open>src/fs/mount.c\<close>, and \<open>src/fs/pipe.c\<close>. A call returns the number that
  its C function computes, before the conversion to \<open>dword_t\<close>. Bytes of the stack
  that are copied to the guest without having been set are parameters.
\<close>

subsection \<open>Access to the guest\<close>

definition text_of :: "byte_t list \<Rightarrow> string" where
  "text_of bs = map (\<lambda>b. char_of (unat b)) bs"

definition bytes_of_text :: "string \<Rightarrow> byte_t list" where
  "bytes_of_text t = map of_char t"

definition cur_vm :: "(mem_id \<Rightarrow> vm \<Rightarrow> 'a \<times> vm) \<Rightarrow> 'w vfs \<Rightarrow> 'a \<times> 'w vfs" where
  "cur_vm f s = on_kernel (on_vm (f (t_mem (cur_task (vf_kern s))))) s"

definition vread :: "addr_t \<Rightarrow> nat \<Rightarrow> 'w vfs \<Rightarrow> byte_t list option \<times> 'w vfs" where
  "vread a n = cur_vm (\<lambda>m v. case user_read_task m a n v of (err, bs, v) \<Rightarrow> (if err \<noteq> 0 then None else Some bs, v))"

definition vwrite :: "addr_t \<Rightarrow> byte_t list \<Rightarrow> 'w vfs \<Rightarrow> int \<times> 'w vfs" where
  "vwrite a bs = cur_vm (\<lambda>m. user_write_task m a bs)"

text \<open>A string that fills the buffer has no terminator, and is then read past its end.\<close>

definition vstring :: "addr_t \<Rightarrow> nat \<Rightarrow> 'w vfs \<Rightarrow> string option \<times> 'w vfs" where
  "vstring a n s =
    (case cur_vm (\<lambda>m v. case user_read_string m a n v of (err, bs, v) \<Rightarrow> ((err, bs), v)) s of
       ((err, bs), s) \<Rightarrow>
         if err \<noteq> 0 then (None, s)
         else (Some (text_of (takeWhile (\<lambda>b. b \<noteq> 0) bs)), if 0 \<in> set bs then s else vbad s))"

definition vf_get :: "dword_t \<Rightarrow> 'w vfs \<Rightarrow> nat option" where
  "vf_get f s = f_get f (task_fds (vf_kern s))"

abbreviation (input) AT_FDCWD :: dword_t where "AT_FDCWD \<equiv> - 100"
abbreviation (input) AT_SYMLINK_NOFOLLOW :: dword_t where "AT_SYMLINK_NOFOLLOW \<equiv> 0x100"
abbreviation (input) AT_REMOVEDIR :: dword_t where "AT_REMOVEDIR \<equiv> 0x200"
abbreviation (input) O_CREAT :: dword_t where "O_CREAT \<equiv> 0x40"

definition at_of :: "dword_t \<Rightarrow> 'w vfs \<Rightarrow> at_file option" where
  "at_of f s = (if f = AT_FDCWD then Some Pwd_at else map_option Fd_at (vf_get f s))"

definition apply_umask :: "word_t \<Rightarrow> 'w vfs \<Rightarrow> word_t" where
  "apply_umask mode s = (case cur_fs s of None \<Rightarrow> mode | Some fs \<Rightarrow> mode AND NOT (fi_umask fs))"

text \<open>The beginning of the calls that take a path: first the path, then the descriptor it is
relative to.\<close>

definition path_call :: "dword_t \<Rightarrow> addr_t \<Rightarrow> (at_file \<Rightarrow> string \<Rightarrow> 'w vfs \<Rightarrow> int \<times> 'w vfs) \<Rightarrow> 'w vfs \<Rightarrow> int \<times> 'w vfs" where
  "path_call at_f path_addr call s =
    (case vstring path_addr MAX_PATH s of
       (None, s) \<Rightarrow> (EFAULT, s)
     | (Some path, s) \<Rightarrow> (case at_of at_f s of None \<Rightarrow> (EBADF, s) | Some at \<Rightarrow> call at path s))"

definition paths_call ::
  "dword_t \<Rightarrow> addr_t \<Rightarrow> dword_t \<Rightarrow> addr_t \<Rightarrow> (at_file \<Rightarrow> string \<Rightarrow> at_file \<Rightarrow> string \<Rightarrow> 'w vfs \<Rightarrow> int \<times> 'w vfs) \<Rightarrow>
   'w vfs \<Rightarrow> int \<times> 'w vfs"
where
  "paths_call src_f src_addr dst_f dst_addr call s =
    (case vstring src_addr MAX_PATH s of
       (None, s) \<Rightarrow> (EFAULT, s)
     | (Some src, s) \<Rightarrow>
         (case vstring dst_addr MAX_PATH s of
            (None, s) \<Rightarrow> (EFAULT, s)
          | (Some dst, s) \<Rightarrow>
              (case (at_of src_f s, at_of dst_f s) of
                 (Some a, Some b) \<Rightarrow> call a src b dst s
               | _ \<Rightarrow> (EBADF, s))))"

definition with_fd :: "dword_t \<Rightarrow> (nat \<Rightarrow> 'w vfs \<Rightarrow> int \<times> 'w vfs) \<Rightarrow> 'w vfs \<Rightarrow> int \<times> 'w vfs" where
  "with_fd f call s = (case vf_get f s of None \<Rightarrow> (EBADF, s) | Some fd \<Rightarrow> call fd s)"

subsection \<open>Opening and closing\<close>

text \<open>\<open>f_install\<close> of a new file: without a free descriptor it is closed again.\<close>

definition install_new :: "(kern \<Rightarrow> int \<times> kern) \<Rightarrow> nat \<Rightarrow> 'w vfs \<Rightarrow> int \<times> 'w vfs" where
  "install_new install fd s =
    (case on_kernel install s of (f, s) \<Rightarrow> (f, if f < 0 then drop_file fd s else s))"

definition sys_openat :: "'w env \<Rightarrow> dword_t \<Rightarrow> addr_t \<Rightarrow> dword_t \<Rightarrow> word_t \<Rightarrow> 'w vfs \<Rightarrow> int \<times> 'w vfs" where
  "sys_openat env at_f path_addr flags mode =
    path_call at_f path_addr (\<lambda>at path s.
      case generic_openat env at path flags (if has flags O_CREAT then apply_umask mode s else mode) s of
        (Inl err, s) \<Rightarrow> (err, s)
      | (Inr fd, s) \<Rightarrow>
          (case install_new (on_fds (f_install (k_ops (vf_kern s)) fd)) fd s of
             (f, s) \<Rightarrow>
               (f, if f \<ge> 0 \<and> has flags O_CLOEXEC
                   then s\<lparr>vf_kern := do_fds (put_cloexec (word_of_int f) True) (vf_kern s)\<rparr> else s)))"

definition sys_open :: "'w env \<Rightarrow> addr_t \<Rightarrow> dword_t \<Rightarrow> word_t \<Rightarrow> 'w vfs \<Rightarrow> int \<times> 'w vfs" where
  "sys_open env = sys_openat env AT_FDCWD"

definition vf_close :: "dword_t \<Rightarrow> 'w vfs \<Rightarrow> int \<times> 'w vfs" where
  "vf_close f =
    with_fd f (\<lambda>fd s. on_kernel (on_fds (f_close (k_ops (vf_kern s)) f)) (if last_ref fd s then drop_file fd s else s))"

subsection \<open>Calls on paths\<close>

definition sys_faccessat :: "'w env \<Rightarrow> dword_t \<Rightarrow> addr_t \<Rightarrow> word_t \<Rightarrow> dword_t \<Rightarrow> 'w vfs \<Rightarrow> int \<times> 'w vfs" where
  "sys_faccessat env at_f path_addr mode flags =
    path_call at_f path_addr (\<lambda>at path. generic_accessat env at path mode)"

definition sys_access :: "'w env \<Rightarrow> addr_t \<Rightarrow> dword_t \<Rightarrow> 'w vfs \<Rightarrow> int \<times> 'w vfs" where
  "sys_access env path_addr mode = sys_faccessat env AT_FDCWD path_addr (ucast mode) 0"

text \<open>\<open>readlink\<close> does not terminate what it writes, but the result is copied as a string:
\<open>junk\<close> is what the stack holds behind it, up to the first zero.\<close>

definition sys_readlinkat ::
  "'w env \<Rightarrow> byte_t list \<Rightarrow> dword_t \<Rightarrow> addr_t \<Rightarrow> addr_t \<Rightarrow> dword_t \<Rightarrow> 'w vfs \<Rightarrow> int \<times> 'w vfs"
where
  "sys_readlinkat env junk at_f path_addr buf_addr bufsize =
    path_call at_f path_addr (\<lambda>at path s.
      case generic_readlinkat env at path (unat bufsize) s of
        (Inl err, s) \<Rightarrow> (err, s)
      | (Inr target, s) \<Rightarrow>
          (case cur_vm (\<lambda>m. user_write_string m buf_addr (bytes_of_text target @ junk)) s of
             (err, s) \<Rightarrow> (if err \<noteq> 0 then EFAULT else int (length target), s)))"

definition sys_readlink :: "'w env \<Rightarrow> byte_t list \<Rightarrow> addr_t \<Rightarrow> addr_t \<Rightarrow> dword_t \<Rightarrow> 'w vfs \<Rightarrow> int \<times> 'w vfs" where
  "sys_readlink env junk = sys_readlinkat env junk AT_FDCWD"

definition sys_linkat :: "'w env \<Rightarrow> dword_t \<Rightarrow> addr_t \<Rightarrow> dword_t \<Rightarrow> addr_t \<Rightarrow> 'w vfs \<Rightarrow> int \<times> 'w vfs" where
  "sys_linkat env src_f src_addr dst_f dst_addr = paths_call src_f src_addr dst_f dst_addr (generic_linkat env)"

definition sys_link :: "'w env \<Rightarrow> addr_t \<Rightarrow> addr_t \<Rightarrow> 'w vfs \<Rightarrow> int \<times> 'w vfs" where
  "sys_link env src_addr dst_addr = sys_linkat env AT_FDCWD src_addr AT_FDCWD dst_addr"

definition sys_unlinkat :: "'w env \<Rightarrow> dword_t \<Rightarrow> addr_t \<Rightarrow> dword_t \<Rightarrow> 'w vfs \<Rightarrow> int \<times> 'w vfs" where
  "sys_unlinkat env at_f path_addr flags =
    path_call at_f path_addr (\<lambda>at path.
      if has flags AT_REMOVEDIR then generic_rmdirat env at path else generic_unlinkat env at path)"

definition sys_unlink :: "'w env \<Rightarrow> addr_t \<Rightarrow> 'w vfs \<Rightarrow> int \<times> 'w vfs" where
  "sys_unlink env path_addr = sys_unlinkat env AT_FDCWD path_addr 0"

definition sys_renameat :: "'w env \<Rightarrow> dword_t \<Rightarrow> addr_t \<Rightarrow> dword_t \<Rightarrow> addr_t \<Rightarrow> 'w vfs \<Rightarrow> int \<times> 'w vfs" where
  "sys_renameat env src_f src_addr dst_f dst_addr = paths_call src_f src_addr dst_f dst_addr (generic_renameat env)"

definition sys_rename :: "'w env \<Rightarrow> addr_t \<Rightarrow> addr_t \<Rightarrow> 'w vfs \<Rightarrow> int \<times> 'w vfs" where
  "sys_rename env src_addr dst_addr = sys_renameat env AT_FDCWD src_addr AT_FDCWD dst_addr"

definition sys_symlinkat :: "'w env \<Rightarrow> addr_t \<Rightarrow> dword_t \<Rightarrow> addr_t \<Rightarrow> 'w vfs \<Rightarrow> int \<times> 'w vfs" where
  "sys_symlinkat env target_addr at_f link_addr s =
    (case vstring target_addr MAX_PATH s of
       (None, s) \<Rightarrow> (EFAULT, s)
     | (Some target, s) \<Rightarrow> path_call at_f link_addr (generic_symlinkat env target) s)"

definition sys_symlink :: "'w env \<Rightarrow> addr_t \<Rightarrow> addr_t \<Rightarrow> 'w vfs \<Rightarrow> int \<times> 'w vfs" where
  "sys_symlink env target_addr link_addr = sys_symlinkat env target_addr AT_FDCWD link_addr"

definition sys_mknod :: "'w env \<Rightarrow> addr_t \<Rightarrow> word_t \<Rightarrow> dword_t \<Rightarrow> 'w vfs \<Rightarrow> int \<times> 'w vfs" where
  "sys_mknod env path_addr mode dev s =
    (case vstring path_addr MAX_PATH s of
       (None, s) \<Rightarrow> (EFAULT, s)
     | (Some path, s) \<Rightarrow> generic_mknod env path (apply_umask mode s) dev s)"

definition sys_mkdirat :: "'w env \<Rightarrow> dword_t \<Rightarrow> addr_t \<Rightarrow> word_t \<Rightarrow> 'w vfs \<Rightarrow> int \<times> 'w vfs" where
  "sys_mkdirat env at_f path_addr mode =
    path_call at_f path_addr (\<lambda>at path s. generic_mkdirat env at path (apply_umask mode s) s)"

definition sys_mkdir :: "'w env \<Rightarrow> addr_t \<Rightarrow> word_t \<Rightarrow> 'w vfs \<Rightarrow> int \<times> 'w vfs" where
  "sys_mkdir env = sys_mkdirat env AT_FDCWD"

definition sys_rmdir :: "'w env \<Rightarrow> addr_t \<Rightarrow> 'w vfs \<Rightarrow> int \<times> 'w vfs" where
  "sys_rmdir env path_addr s =
    (case vstring path_addr MAX_PATH s of
       (None, s) \<Rightarrow> (EFAULT, s) | (Some path, s) \<Rightarrow> generic_rmdirat env Pwd_at path s)"

text \<open>Times are seconds and nanoseconds; \<open>now\<close> is the answer of the host's clock.\<close>

definition sys_utimensat ::
  "'w env \<Rightarrow> int + dword_t \<times> dword_t \<Rightarrow> dword_t \<Rightarrow> addr_t \<Rightarrow> addr_t \<Rightarrow> dword_t \<Rightarrow> 'w vfs \<Rightarrow> int \<times> 'w vfs"
where
  "sys_utimensat env now at_f path_addr times_addr flags s =
    (case (if times_addr = 0 then (case now of Inl err \<Rightarrow> (Inl err, s) | Inr t \<Rightarrow> (Inr (t, t), s))
           else case on_kernel (kget times_addr 4) s of
                  (None, s) \<Rightarrow> (Inl EFAULT, s)
                | (Some ws, s) \<Rightarrow> (Inr ((ws ! 0, ws ! 1), (ws ! 2, ws ! 3)), s)) of
       (Inl err, s) \<Rightarrow> (err, s)
     | (Inr (atime, mtime), s) \<Rightarrow>
         (let call = (\<lambda>at path. generic_utime env at path atime mtime (\<not> has flags AT_SYMLINK_NOFOLLOW))
          in if path_addr \<noteq> 0 then path_call at_f path_addr call s
             else case at_of at_f s of None \<Rightarrow> (EBADF, s) | Some at \<Rightarrow> call at ''.'' s))"

definition sys_fchmodat :: "'w env \<Rightarrow> dword_t \<Rightarrow> addr_t \<Rightarrow> dword_t \<Rightarrow> dword_t \<Rightarrow> 'w vfs \<Rightarrow> int \<times> 'w vfs" where
  "sys_fchmodat env at_f path_addr mode flags =
    path_call at_f path_addr (\<lambda>at path.
      generic_setattrat env at path (Attr_mode (ucast mode)) (\<not> has flags AT_SYMLINK_NOFOLLOW))"

definition sys_chmod :: "'w env \<Rightarrow> addr_t \<Rightarrow> dword_t \<Rightarrow> 'w vfs \<Rightarrow> int \<times> 'w vfs" where
  "sys_chmod env path_addr mode = sys_fchmodat env AT_FDCWD path_addr mode 0"

text \<open>An owner and a grp are set one after the other, where they are not \<open>-1\<close>.\<close>

definition set_owner :: "(attr \<Rightarrow> 'w vfs \<Rightarrow> int \<times> 'w vfs) \<Rightarrow> dword_t \<Rightarrow> dword_t \<Rightarrow> 'w vfs \<Rightarrow> int \<times> 'w vfs" where
  "set_owner setattr owner grp s =
    (case (if owner \<noteq> - 1 then setattr (Attr_uid owner) s else (0, s)) of
       (err, s) \<Rightarrow>
         if err < 0 then (err, s)
         else (case (if grp \<noteq> - 1 then setattr (Attr_gid grp) s else (0, s)) of
                 (err, s) \<Rightarrow> (if err < 0 then err else 0, s)))"

definition sys_fchownat :: "'w env \<Rightarrow> dword_t \<Rightarrow> addr_t \<Rightarrow> dword_t \<Rightarrow> dword_t \<Rightarrow> dword_t \<Rightarrow> 'w vfs \<Rightarrow> int \<times> 'w vfs" where
  "sys_fchownat env at_f path_addr owner grp flags =
    path_call at_f path_addr (\<lambda>at path.
      set_owner (\<lambda>a. generic_setattrat env at path a (\<not> has flags AT_SYMLINK_NOFOLLOW)) owner grp)"

definition sys_chown32 :: "'w env \<Rightarrow> addr_t \<Rightarrow> dword_t \<Rightarrow> dword_t \<Rightarrow> 'w vfs \<Rightarrow> int \<times> 'w vfs" where
  "sys_chown32 env path_addr owner grp = sys_fchownat env AT_FDCWD path_addr owner grp 0"

definition sys_lchown :: "'w env \<Rightarrow> addr_t \<Rightarrow> dword_t \<Rightarrow> dword_t \<Rightarrow> 'w vfs \<Rightarrow> int \<times> 'w vfs" where
  "sys_lchown env path_addr owner grp = sys_fchownat env AT_FDCWD path_addr owner grp AT_SYMLINK_NOFOLLOW"

definition qword_of_parts :: "dword_t \<Rightarrow> dword_t \<Rightarrow> qword_t" where
  "qword_of_parts hi lo = push_bit 32 (ucast hi) OR ucast lo"

text \<open>The base is a null pointer, which \<open>path_normalize\<close> asserts it is not.\<close>

definition sys_truncate64 :: "'w env \<Rightarrow> addr_t \<Rightarrow> dword_t \<Rightarrow> dword_t \<Rightarrow> 'w vfs \<Rightarrow> int \<times> 'w vfs" where
  "sys_truncate64 env path_addr size_low size_high s =
    (case vstring path_addr MAX_PATH s of
       (None, s) \<Rightarrow> (EFAULT, s)
     | (Some path, s) \<Rightarrow>
         generic_setattrat env Null_at path (Attr_size (qword_of_parts size_high size_low)) True s)"

definition statfs_mount :: "'w env \<Rightarrow> nat \<Rightarrow> addr_t \<Rightarrow> 'w vfs \<Rightarrow> int \<times> 'w vfs" where
  "statfs_mount env m buf_addr s =
    (case mount_ops env m s of
       None \<Rightarrow> (0, vbad s)
     | Some fs \<Rightarrow>
         (case fs_statfs fs of
            None \<Rightarrow> (0, s)
          | Some f \<Rightarrow>
              (case f m (vf_world s) of
                 (err, stat) \<Rightarrow>
                   if err \<ge> 0 then (case vwrite buf_addr stat s of (e, s) \<Rightarrow> (if e \<noteq> 0 then EFAULT else err, s))
                   else (err, s))))"

definition sys_statfs64 :: "'w env \<Rightarrow> addr_t \<Rightarrow> addr_t \<Rightarrow> 'w vfs \<Rightarrow> int \<times> 'w vfs" where
  "sys_statfs64 env path_addr buf_addr s =
    (case vstring path_addr MAX_PATH s of
       (None, s) \<Rightarrow> (EFAULT, s)
     | (Some path, s) \<Rightarrow>
         with_path env Pwd_at path False (\<lambda>path s.
           case take_mount path s of
             (None, s) \<Rightarrow> (0, s)
           | (Some (m, _), s) \<Rightarrow> (case statfs_mount env m buf_addr s of (err, s) \<Rightarrow> (err, mount_release m s))) s)"

subsection \<open>Reading and writing\<close>

text \<open>The buffer has one byte more than is asked for, computed without a test: asking for
the greatest number allocates nothing.\<close>

definition sys_read :: "'w env \<Rightarrow> dword_t \<Rightarrow> addr_t \<Rightarrow> dword_t \<Rightarrow> 'w vfs \<Rightarrow> int \<times> 'w vfs" where
  "sys_read env fd_no buf_addr n s =
    (case on_kernel kmalloc s of
       (False, s) \<Rightarrow> (ENOMEM, s)
     | (True, s) \<Rightarrow>
         with_fd fd_no (\<lambda>fd s.
           case fo_read (file_ops_of env fd s) of
             None \<Rightarrow> (EBADF, s)
           | Some rd \<Rightarrow>
               (case rd fd (unat n) (vf_world s) of
                  (res, bs, w) \<Rightarrow>
                    (let s = s\<lparr>vf_world := w\<rparr>; s = (if n = - 1 \<and> bs \<noteq> [] then vbad s else s)
                     in if res \<ge> 0
                        then case vwrite buf_addr (take (nat res) bs) s of (err, s) \<Rightarrow> (if err \<noteq> 0 then EFAULT else res, s)
                        else (res, s)))) s)"

definition sys_write :: "'w env \<Rightarrow> dword_t \<Rightarrow> addr_t \<Rightarrow> dword_t \<Rightarrow> 'w vfs \<Rightarrow> int \<times> 'w vfs" where
  "sys_write env fd_no buf_addr n s =
    (case on_kernel kmalloc s of
       (False, s) \<Rightarrow> (ENOMEM, s)
     | (True, s) \<Rightarrow>
         (case vread buf_addr (unat n) s of
            (None, s) \<Rightarrow> (EFAULT, s)
          | (Some bs, s) \<Rightarrow>
              with_fd fd_no (\<lambda>fd s.
                case fo_write (file_ops_of env fd s) of
                  None \<Rightarrow> (EBADF, s) | Some wr \<Rightarrow> on_world (wr fd bs) s) (if n = - 1 then vbad s else s)))"

text \<open>The vectors. The result of one read is an unsigned number, which is never negative:
an error is added to the count, and is not less than the length of the buffer.\<close>

fun readv_loop :: "'w env \<Rightarrow> dword_t \<Rightarrow> (addr_t \<times> dword_t) list \<Rightarrow> dword_t \<Rightarrow> 'w vfs \<Rightarrow> dword_t \<times> 'w vfs" where
  "readv_loop env fd_no [] count s = (count, s)"
| "readv_loop env fd_no ((base, len) # iov) count s =
    (case sys_read env fd_no base len s of
       (r, s) \<Rightarrow>
         (let res = word_of_int r
          in if res < len then (count + res, s) else readv_loop env fd_no iov (count + res) s))"

fun writev_loop :: "'w env \<Rightarrow> dword_t \<Rightarrow> (addr_t \<times> dword_t) list \<Rightarrow> dword_t \<Rightarrow> 'w vfs \<Rightarrow> int \<times> 'w vfs" where
  "writev_loop env fd_no [] count s = (uint count, s)"
| "writev_loop env fd_no ((base, len) # iov) count s =
    (case sys_write env fd_no base len s of
       (r, s) \<Rightarrow>
         (let res = word_of_int r :: dword_t
          in if sint res < 0 then (sint res, s)
             else if res < len then (uint (count + res), s)
             else writev_loop env fd_no iov (count + res) s))"

fun pairs :: "dword_t list \<Rightarrow> (addr_t \<times> dword_t) list" where
  "pairs (a # b # ws) = (a, b) # pairs ws"
| "pairs _ = []"

definition read_iovecs :: "addr_t \<Rightarrow> dword_t \<Rightarrow> 'w vfs \<Rightarrow> (int + (addr_t \<times> dword_t) list) \<times> 'w vfs" where
  "read_iovecs iovec_addr iovec_count s =
    (case on_kernel kmalloc s of
       (False, s) \<Rightarrow> (Inl ENOMEM, s)
     | (True, s) \<Rightarrow>
         (let n = 2 * (unat (8 * iovec_count) div 8)
          in case on_kernel (kget iovec_addr n) s of
               (None, s) \<Rightarrow> (Inl EFAULT, s)
             | (Some ws, s) \<Rightarrow> (Inr (pairs ws), if n < 2 * unat iovec_count then vbad s else s)))"

definition sys_readv :: "'w env \<Rightarrow> dword_t \<Rightarrow> addr_t \<Rightarrow> dword_t \<Rightarrow> 'w vfs \<Rightarrow> int \<times> 'w vfs" where
  "sys_readv env fd_no iovec_addr iovec_count s =
    (case read_iovecs iovec_addr iovec_count s of
       (Inl err, s) \<Rightarrow> (err, s)
     | (Inr iov, s) \<Rightarrow> (case readv_loop env fd_no iov 0 s of (count, s) \<Rightarrow> (uint count, s)))"

definition sys_writev :: "'w env \<Rightarrow> dword_t \<Rightarrow> addr_t \<Rightarrow> dword_t \<Rightarrow> 'w vfs \<Rightarrow> int \<times> 'w vfs" where
  "sys_writev env fd_no iovec_addr iovec_count s =
    (case read_iovecs iovec_addr iovec_count s of
       (Inl err, s) \<Rightarrow> (err, s)
     | (Inr iov, s) \<Rightarrow> writev_loop env fd_no iov 0 s)"

definition sys_llseek :: "'w env \<Rightarrow> dword_t \<Rightarrow> dword_t \<Rightarrow> dword_t \<Rightarrow> addr_t \<Rightarrow> dword_t \<Rightarrow> 'w vfs \<Rightarrow> int \<times> 'w vfs" where
  "sys_llseek env f off_high off_low res_addr whence =
    with_fd f (\<lambda>fd s.
      case fo_lseek (file_ops_of env fd s) of
        None \<Rightarrow> (ESPIPE, s)
      | Some seek \<Rightarrow>
          (case on_world (seek fd (qword_of_parts off_high off_low) whence) s of
             (res, s) \<Rightarrow>
               if res < 0 then (res, s)
               else case vwrite res_addr (bytes_of_word 8 (word_of_int res :: qword_t)) s of
                      (err, s) \<Rightarrow> (if err \<noteq> 0 then EFAULT else 0, s)))"

text \<open>The offset is extended without its sign, and a result that does not fit in 32 bits, as
every negative one, is an overflow. A missing \<open>lseek\<close> is called.\<close>

definition sys_lseek :: "'w env \<Rightarrow> dword_t \<Rightarrow> dword_t \<Rightarrow> dword_t \<Rightarrow> 'w vfs \<Rightarrow> int \<times> 'w vfs" where
  "sys_lseek env f off whence =
    with_fd f (\<lambda>fd s.
      case fo_lseek (file_ops_of env fd s) of
        None \<Rightarrow> (0, vbad s)
      | Some seek \<Rightarrow>
          (case on_world (seek fd (ucast off) whence) s of
             (res, s) \<Rightarrow> (if 0 \<le> res \<and> res < 2 ^ 32 then res else EOVERFLOW, s)))"

definition sys_pread :: "'w env \<Rightarrow> dword_t \<Rightarrow> addr_t \<Rightarrow> dword_t \<Rightarrow> qword_t \<Rightarrow> 'w vfs \<Rightarrow> int \<times> 'w vfs" where
  "sys_pread env f buf_addr n off =
    with_fd f (\<lambda>fd s.
      case on_kernel kmalloc s of
        (False, s) \<Rightarrow> (EFAULT, s)
      | (True, s) \<Rightarrow>
          (case (fo_lseek (file_ops_of env fd s), fo_read (file_ops_of env fd s)) of
             (Some seek, rd) \<Rightarrow>
               (case on_world (seek fd off 0) s of
                  (res, s) \<Rightarrow>
                    (let res = sint (word_of_int res :: dword_t)
                     in if res < 0 then (res, s)
                        else case rd of
                               None \<Rightarrow> (0, vbad s)
                             | Some rd \<Rightarrow>
                                 (case rd fd (unat n) (vf_world s) of
                                    (res, bs, w) \<Rightarrow>
                                      (let s = s\<lparr>vf_world := w\<rparr>; s = (if n = - 1 \<and> bs \<noteq> [] then vbad s else s)
                                       in if res \<ge> 0
                                          then case vwrite buf_addr (take (nat res) bs) s of
                                                 (err, s) \<Rightarrow> (if err \<noteq> 0 then EFAULT else res, s)
                                          else (res, s)))))
           | (None, _) \<Rightarrow> (0, vbad s)))"

definition fd_ioctl :: "'w env \<Rightarrow> nat \<Rightarrow> dword_t \<Rightarrow> dword_t \<Rightarrow> 'w vfs \<Rightarrow> int \<times> 'w vfs" where
  "fd_ioctl env fd cmd arg s =
    (let fo = file_ops_of env fd s
     in case fo_ioctl_size fo of
          None \<Rightarrow> (EINVAL, s)
        | Some sz \<Rightarrow>
            if sz fd cmd < 0 then (EINVAL, s)
            else if sz fd cmd = 0
            then (case fo_ioctl fo fd cmd (Inl arg) (vf_world s) of (res, _, w) \<Rightarrow> (res, s\<lparr>vf_world := w\<rparr>))
            else (case vread arg (nat (sz fd cmd)) s of
                    (None, s) \<Rightarrow> (EFAULT, s)
                  | (Some buf, s) \<Rightarrow>
                      (case fo_ioctl fo fd cmd (Inr buf) (vf_world s) of
                         (res, buf, w) \<Rightarrow>
                           (let s = s\<lparr>vf_world := w\<rparr>
                            in if res < 0 then (res, s)
                               else case vwrite arg buf s of (err, s) \<Rightarrow> (if err \<noteq> 0 then EFAULT else res, s)))))"

text \<open>\<open>FIONBIO\<close> sets the flag whatever its argument says.\<close>

definition sys_ioctl :: "'w env \<Rightarrow> dword_t \<Rightarrow> dword_t \<Rightarrow> dword_t \<Rightarrow> 'w vfs \<Rightarrow> int \<times> 'w vfs" where
  "sys_ioctl env f cmd arg =
    with_fd f (\<lambda>fd s.
      if cmd = 0x5421
      then (0, s\<lparr>vf_kern := (vf_kern s)\<lparr>k_fds := upd_fd fd (\<lambda>x. x\<lparr>fd_flags := fd_flags x OR O_NONBLOCK\<rparr>) (k_fds (vf_kern s))\<rparr>\<rparr>)
      else fd_ioctl env fd cmd arg s)"

definition sys_fsync :: "'w env \<Rightarrow> dword_t \<Rightarrow> 'w vfs \<Rightarrow> int \<times> 'w vfs" where
  "sys_fsync env f =
    with_fd f (\<lambda>fd s. case fo_fsync (file_ops_of env fd s) of None \<Rightarrow> (0, s) | Some g \<Rightarrow> on_world (g fd) s)"

subsection \<open>Calls on open files\<close>

definition adhoc_fsetattr :: "attr \<Rightarrow> statbuf \<Rightarrow> int \<times> statbuf" where
  "adhoc_fsetattr a st =
    (case a of
       Attr_uid u \<Rightarrow> (0, st\<lparr>st_uid := u\<rparr>)
     | Attr_gid g \<Rightarrow> (0, st\<lparr>st_gid := g\<rparr>)
     | Attr_mode m \<Rightarrow> (0, st\<lparr>st_mode := (st_mode st AND 0xf000) OR (ucast m AND NOT 0xf000)\<rparr>)
     | Attr_size _ \<Rightarrow> (EINVAL, st))"

definition fsetattr :: "'w env \<Rightarrow> nat \<Rightarrow> attr \<Rightarrow> 'w vfs \<Rightarrow> int \<times> 'w vfs" where
  "fsetattr env fd a s =
    (case vf_file s fd of
       None \<Rightarrow> (0, vbad s)
     | Some x \<Rightarrow>
         (case fl_mount x of
            None \<Rightarrow> (case adhoc_fsetattr a (fl_stat x) of
                       (err, st) \<Rightarrow> (err, s\<lparr>vf_file := (vf_file s)(fd \<mapsto> x\<lparr>fl_stat := st\<rparr>)\<rparr>))
          | Some m \<Rightarrow> (case mount_ops env m s of
                         None \<Rightarrow> (0, vbad s)
                       | Some fs \<Rightarrow> (case fs_fsetattr fs of None \<Rightarrow> (0, vbad s) | Some g \<Rightarrow> on_world (g fd a) s))))"

definition sys_fchmod :: "'w env \<Rightarrow> dword_t \<Rightarrow> dword_t \<Rightarrow> 'w vfs \<Rightarrow> int \<times> 'w vfs" where
  "sys_fchmod env f mode = with_fd f (\<lambda>fd. fsetattr env fd (Attr_mode (ucast (mode AND NOT 0xf000))))"

definition sys_fchown32 :: "'w env \<Rightarrow> dword_t \<Rightarrow> dword_t \<Rightarrow> dword_t \<Rightarrow> 'w vfs \<Rightarrow> int \<times> 'w vfs" where
  "sys_fchown32 env f owner grp = with_fd f (\<lambda>fd. set_owner (fsetattr env fd) owner grp)"

definition sys_ftruncate64 :: "'w env \<Rightarrow> dword_t \<Rightarrow> dword_t \<Rightarrow> dword_t \<Rightarrow> 'w vfs \<Rightarrow> int \<times> 'w vfs" where
  "sys_ftruncate64 env f size_low size_high =
    with_fd f (\<lambda>fd. fsetattr env fd (Attr_size (qword_of_parts size_high size_low)))"

definition sys_fallocate ::
  "'w env \<Rightarrow> dword_t \<Rightarrow> dword_t \<Rightarrow> dword_t \<Rightarrow> dword_t \<Rightarrow> dword_t \<Rightarrow> dword_t \<Rightarrow> 'w vfs \<Rightarrow> int \<times> 'w vfs"
where
  "sys_fallocate env f mode offset_low offset_high len_low len_high =
    with_fd f (\<lambda>fd s.
      let sz = qword_of_parts offset_high offset_low + qword_of_parts len_high len_low
      in case fstat env fd s of
           (Inl err, s) \<Rightarrow> (err, s)
         | (Inr st, s) \<Rightarrow> if sz > st_size st then fsetattr env fd (Attr_size sz) s else (0, s))"

text \<open>A descriptor that is not open is followed as a null pointer; files of \<open>adhoc_mount\<close>
have no \<open>statfs\<close>, and no \<open>flock\<close>, which is called nevertheless.\<close>

definition sys_fstatfs64 :: "'w env \<Rightarrow> dword_t \<Rightarrow> addr_t \<Rightarrow> 'w vfs \<Rightarrow> int \<times> 'w vfs" where
  "sys_fstatfs64 env f buf_addr s =
    (case vf_get f s of
       None \<Rightarrow> (0, vbad s)
     | Some fd \<Rightarrow>
         (case vf_file s fd of
            None \<Rightarrow> (0, vbad s)
          | Some x \<Rightarrow> (case fl_mount x of None \<Rightarrow> (0, s) | Some m \<Rightarrow> statfs_mount env m buf_addr s)))"

definition sys_flock :: "'w env \<Rightarrow> dword_t \<Rightarrow> dword_t \<Rightarrow> 'w vfs \<Rightarrow> int \<times> 'w vfs" where
  "sys_flock env f op_nr =
    with_fd f (\<lambda>fd s.
      case file_fs env fd s of
        None \<Rightarrow> (0, vbad s)
      | Some fs \<Rightarrow> (case fs_flock fs of None \<Rightarrow> (0, vbad s) | Some g \<Rightarrow> on_world (g fd op_nr) s))"

subsection \<open>Directories of a process\<close>

definition upd_fs :: "(fs_info \<Rightarrow> fs_info) \<Rightarrow> 'w vfs \<Rightarrow> 'w vfs" where
  "upd_fs f s =
    (let i = t_fs (cur_task (vf_kern s))
     in case cur_fs s of
          None \<Rightarrow> vbad s
        | Some x \<Rightarrow> s\<lparr>vf_kern := (vf_kern s)\<lparr>k_fsinfos := (k_fsinfos (vf_kern s))(i \<mapsto> f x)\<rparr>\<rparr>)"

definition sys_getcwd :: "'w env \<Rightarrow> addr_t \<Rightarrow> dword_t \<Rightarrow> 'w vfs \<Rightarrow> int \<times> 'w vfs" where
  "sys_getcwd env buf_addr n s =
    (case (case cur_fs s of None \<Rightarrow> None | Some f \<Rightarrow> dir_of env (fi_pwd f) s) of
       None \<Rightarrow> (0, vbad s)
     | Some d \<Rightarrow>
         (case Path.generic_getpath d of
            Inl err \<Rightarrow> (err, s)
          | Inr pwd \<Rightarrow>
              if length pwd + 1 > unat n then (ERANGE, s)
              else case on_kernel kmalloc s of
                     (False, s) \<Rightarrow> (ENOMEM, s)
                   | (True, s) \<Rightarrow>
                       (case vwrite buf_addr (bytes_of_text pwd @ [0]) s of
                          (err, s) \<Rightarrow> (if err \<noteq> 0 then EFAULT else int (length pwd + 1), s))))"

text \<open>The test for a directory looks at one bit of the type, which block devices have too.\<close>

definition open_directory :: "'w env \<Rightarrow> string \<Rightarrow> 'w vfs \<Rightarrow> (int + nat) \<times> 'w vfs" where
  "open_directory env path s =
    (case generic_statat env Pwd_at path True s of
       (Inl err, s) \<Rightarrow> (Inl err, s)
     | (Inr st, s) \<Rightarrow> if st_mode st AND 0x4000 = 0 then (Inl ENOTDIR, s) else generic_open env path 0 0 s)"

definition fs_chdir :: "nat \<Rightarrow> 'w vfs \<Rightarrow> 'w vfs" where
  "fs_chdir fd s =
    (case cur_fs s of
       None \<Rightarrow> vbad s
     | Some f \<Rightarrow> upd_fs (\<lambda>f. f\<lparr>fi_pwd := fd\<rparr>) (snd (close_file (fi_pwd f) s)))"

definition sys_chdir :: "'w env \<Rightarrow> addr_t \<Rightarrow> 'w vfs \<Rightarrow> int \<times> 'w vfs" where
  "sys_chdir env path_addr s =
    (case vstring path_addr MAX_PATH s of
       (None, s) \<Rightarrow> (EFAULT, s)
     | (Some path, s) \<Rightarrow>
         (case open_directory env path s of (Inl err, s) \<Rightarrow> (err, s) | (Inr fd, s) \<Rightarrow> (0, fs_chdir fd s)))"

definition sys_fchdir :: "dword_t \<Rightarrow> 'w vfs \<Rightarrow> int \<times> 'w vfs" where
  "sys_fchdir f =
    with_fd f (\<lambda>fd s. (0, fs_chdir fd (s\<lparr>vf_kern := do_fds (fd_retain fd) (vf_kern s)\<rparr>)))"

definition sys_chroot :: "'w env \<Rightarrow> addr_t \<Rightarrow> 'w vfs \<Rightarrow> int \<times> 'w vfs" where
  "sys_chroot env path_addr s =
    (case vstring path_addr MAX_PATH s of
       (None, s) \<Rightarrow> (EFAULT, s)
     | (Some path, s) \<Rightarrow>
         (case open_directory env path s of
            (Inl err, s) \<Rightarrow> (err, s)
          | (Inr fd, s) \<Rightarrow>
              (case cur_fs s of
                 None \<Rightarrow> (0, vbad s)
               | Some f \<Rightarrow> (0, upd_fs (\<lambda>f. f\<lparr>fi_root := fd\<rparr>) (snd (close_file (fi_root f) s))))))"

definition sys_umask :: "dword_t \<Rightarrow> 'w vfs \<Rightarrow> int \<times> 'w vfs" where
  "sys_umask mask_nr s =
    (case cur_fs s of
       None \<Rightarrow> (0, vbad s)
     | Some f \<Rightarrow> (uint (fi_umask f), upd_fs (\<lambda>f. f\<lparr>fi_umask := ucast mask_nr AND 0x1ff\<rparr>) s))"

subsection \<open>Status\<close>

text \<open>\<open>struct newstat64\<close>, packed. Its two members of padding are not set.\<close>

definition newstat64_bytes :: "dword_t \<times> dword_t \<Rightarrow> statbuf \<Rightarrow> byte_t list" where
  "newstat64_bytes pad st =
    bytes_of_word 8 (st_dev st) @ bytes_of_word 4 (fst pad) @ bytes_of_word 4 (st_inode st) @
    bytes_of_word 4 (st_mode st) @ bytes_of_word 4 (st_nlink st) @ bytes_of_word 4 (st_uid st) @
    bytes_of_word 4 (st_gid st) @ bytes_of_word 8 (st_rdev st) @ bytes_of_word 4 (snd pad) @
    bytes_of_word 8 (st_size st) @ bytes_of_word 4 (st_blksize st) @ bytes_of_word 8 (st_blocks st) @
    bytes_of_word 4 (st_atime st) @ bytes_of_word 4 (st_atime_nsec st) @ bytes_of_word 4 (st_mtime st) @
    bytes_of_word 4 (st_mtime_nsec st) @ bytes_of_word 4 (st_ctime st) @ bytes_of_word 4 (st_ctime_nsec st) @
    bytes_of_word 8 (ucast (st_inode st) :: qword_t)"

definition put_stat :: "dword_t \<times> dword_t \<Rightarrow> addr_t \<Rightarrow> (int + statbuf) \<times> 'w vfs \<Rightarrow> int \<times> 'w vfs" where
  "put_stat pad statbuf_addr r =
    (case r of
       (Inl err, s) \<Rightarrow> (err, s)
     | (Inr st, s) \<Rightarrow>
         (case vwrite statbuf_addr (newstat64_bytes pad st) s of (err, s) \<Rightarrow> (if err \<noteq> 0 then EFAULT else 0, s)))"

definition sys_stat_path :: "'w env \<Rightarrow> dword_t \<times> dword_t \<Rightarrow> dword_t \<Rightarrow> addr_t \<Rightarrow> addr_t \<Rightarrow> bool \<Rightarrow> 'w vfs \<Rightarrow> int \<times> 'w vfs" where
  "sys_stat_path env pad at_f path_addr statbuf_addr follow =
    path_call at_f path_addr (\<lambda>at path s. put_stat pad statbuf_addr (generic_statat env at path follow s))"

definition sys_stat64 :: "'w env \<Rightarrow> dword_t \<times> dword_t \<Rightarrow> addr_t \<Rightarrow> addr_t \<Rightarrow> 'w vfs \<Rightarrow> int \<times> 'w vfs" where
  "sys_stat64 env pad path_addr statbuf_addr = sys_stat_path env pad AT_FDCWD path_addr statbuf_addr True"

definition sys_lstat64 :: "'w env \<Rightarrow> dword_t \<times> dword_t \<Rightarrow> addr_t \<Rightarrow> addr_t \<Rightarrow> 'w vfs \<Rightarrow> int \<times> 'w vfs" where
  "sys_lstat64 env pad path_addr statbuf_addr = sys_stat_path env pad AT_FDCWD path_addr statbuf_addr False"

definition sys_fstatat64 :: "'w env \<Rightarrow> dword_t \<times> dword_t \<Rightarrow> dword_t \<Rightarrow> addr_t \<Rightarrow> addr_t \<Rightarrow> dword_t \<Rightarrow> 'w vfs \<Rightarrow> int \<times> 'w vfs" where
  "sys_fstatat64 env pad at_f path_addr statbuf_addr flags =
    sys_stat_path env pad at_f path_addr statbuf_addr (\<not> has flags AT_SYMLINK_NOFOLLOW)"

definition sys_fstat64 :: "'w env \<Rightarrow> dword_t \<times> dword_t \<Rightarrow> dword_t \<Rightarrow> addr_t \<Rightarrow> 'w vfs \<Rightarrow> int \<times> 'w vfs" where
  "sys_fstat64 env pad fd_no statbuf_addr = with_fd fd_no (\<lambda>fd s. put_stat pad statbuf_addr (fstat env fd s))"

subsection \<open>Listing directories\<close>

text \<open>\<open>struct linux_dirent64\<close>: a header of 19 bytes, the name and its terminator, and three
bytes that are not set, \<open>junk\<close>.\<close>

definition dirent_bytes :: "byte_t list \<Rightarrow> qword_t \<Rightarrow> dir_entry \<Rightarrow> byte_t list" where
  "dirent_bytes junk off e =
    bytes_of_word 8 (de_inode e) @ bytes_of_word 8 off @ bytes_of_word 2 (of_nat (23 + length (de_name e)) :: word_t) @ [0]
    @ bytes_of_text (de_name e) @ [0] @ junk"

text \<open>An error of \<open>readdir\<close> is returned whatever has been written before.\<close>

function getdents_loop ::
  "'w env \<Rightarrow> byte_t list \<Rightarrow> nat \<Rightarrow> addr_t \<Rightarrow> nat \<Rightarrow> 'w vfs \<Rightarrow> (int + nat) \<times> 'w vfs"
where
  "getdents_loop env junk fd dirents count s =
    (let fo = file_ops_of env fd s; ptr = fo_telldir fo fd (vf_world s)
     in case fo_readdir fo of
          None \<Rightarrow> (Inl ENOTDIR, s)
        | Some rd \<Rightarrow>
            (case on_world (rd fd) s of
               (Inl err, s) \<Rightarrow> (Inl err, s)
             | (Inr None, s) \<Rightarrow> (Inr count, s\<lparr>vf_world := fo_seekdir fo fd ptr (vf_world s)\<rparr>)
             | (Inr (Some e), s) \<Rightarrow>
                 (let reclen = 23 + length (de_name e); off = fo_telldir fo fd (vf_world s)
                  in if reclen > count then (Inr count, s\<lparr>vf_world := fo_seekdir fo fd ptr (vf_world s)\<rparr>)
                     else case vwrite dirents (dirent_bytes junk off e) s of
                            (err, s) \<Rightarrow>
                              if err \<noteq> 0 then (Inl EFAULT, s)
                              else getdents_loop env junk fd (dirents + of_nat reclen) (count - reclen) s)))"
  by auto
termination
  by (relation "measure (\<lambda>(_, _, _, _, count, _). count)") auto

declare getdents_loop.simps [simp del]

definition sys_getdents64 :: "'w env \<Rightarrow> byte_t list \<Rightarrow> dword_t \<Rightarrow> addr_t \<Rightarrow> dword_t \<Rightarrow> 'w vfs \<Rightarrow> int \<times> 'w vfs" where
  "sys_getdents64 env junk f dirents count =
    with_fd f (\<lambda>fd s.
      case getdents_loop env junk fd dirents (unat count) s of
        (Inl err, s) \<Rightarrow> (err, s) | (Inr rest, s) \<Rightarrow> (int (unat count - rest), s))"

subsection \<open>Mounting\<close>

fun insert_id :: "(nat \<Rightarrow> nat) \<Rightarrow> nat \<Rightarrow> nat list \<Rightarrow> nat list" where
  "insert_id len i [] = [i]"
| "insert_id len i (j # js) = (if len j \<le> len i then i # j # js else j # insert_id len i js)"

definition point_length :: "'w vfs \<Rightarrow> nat \<Rightarrow> nat" where
  "point_length s i = (case vf_mount s i of None \<Rightarrow> 0 | Some m \<Rightarrow> length (mnt_point m))"

definition mount_fs :: "'w env \<Rightarrow> nat \<Rightarrow> string \<Rightarrow> string \<Rightarrow> 'w vfs \<Rightarrow> int \<times> 'w vfs" where
  "mount_fs env fs source point s =
    (case on_kernel kmalloc s of
       (False, s) \<Rightarrow> (ENOMEM, s)
     | (True, s) \<Rightarrow>
         (let i = vf_next s; s = s\<lparr>vf_next := Suc i\<rparr>
          in case (case fs_mount (en_fs env fs) of None \<Rightarrow> (0, s) | Some f \<Rightarrow> on_world (f i source point) s) of
               (err, s) \<Rightarrow>
                 if err < 0 then (err, s)
                 else (let s = s\<lparr>vf_mount := (vf_mount s)(i \<mapsto>
                              \<lparr>mnt_point = point, mnt_source = source, mnt_fs = fs, mnt_refcount = 0\<rparr>)\<rparr>
                       in (0, s\<lparr>vf_mounts := insert_id (point_length s) i (vf_mounts s)\<rparr>))))"

definition remove_mount :: "'w env \<Rightarrow> nat \<Rightarrow> 'w vfs \<Rightarrow> int \<times> 'w vfs" where
  "remove_mount env i s =
    (case vf_mount s i of
       None \<Rightarrow> (0, vbad s)
     | Some m \<Rightarrow>
         if mnt_refcount m \<noteq> 0 then (EBUSY, s)
         else (0, s\<lparr>vf_world := (case fs_umount (en_fs env (mnt_fs m)) of None \<Rightarrow> id | Some f \<Rightarrow> f i) (vf_world s),
                    vf_mounts := remove1 i (vf_mounts s), vf_mount := (vf_mount s)(i := None)\<rparr>))"

definition umount_point :: "'w env \<Rightarrow> string \<Rightarrow> 'w vfs \<Rightarrow> int \<times> 'w vfs" where
  "umount_point env point s =
    (case find (\<lambda>i. map_option mnt_point (vf_mount s i) = Some point) (vf_mounts s) of
       None \<Rightarrow> (EINVAL, s) | Some i \<Rightarrow> remove_mount env i s)"

text \<open>The file systems that can be mounted are the first two, \<open>realfs\<close> and \<open>procfs\<close>.\<close>

definition sys_mount :: "'w env \<Rightarrow> addr_t \<Rightarrow> addr_t \<Rightarrow> addr_t \<Rightarrow> dword_t \<Rightarrow> 'w vfs \<Rightarrow> int \<times> 'w vfs" where
  "sys_mount env source_addr point_addr type_addr flags s =
    (case vstring source_addr MAX_PATH s of
       (None, s) \<Rightarrow> (EFAULT, s)
     | (Some source, s) \<Rightarrow>
         (case vstring point_addr MAX_PATH s of
            (None, s) \<Rightarrow> (EFAULT, s)
          | (Some point, s) \<Rightarrow>
              (case vstring type_addr 100 s of
                 (None, s) \<Rightarrow> (EFAULT, s)
               | (Some type, s) \<Rightarrow>
                   if flags AND NOT 0x8000 \<noteq> 0 then (EINVAL, s)
                   else case find (\<lambda>i. fs_name (en_fs env i) = type) [0, 1] of
                          None \<Rightarrow> (EINVAL, s)
                        | Some fs \<Rightarrow>
                            (case generic_statat env Pwd_at point True s of
                               (Inl err, s) \<Rightarrow> (err, s)
                             | (Inr st, s) \<Rightarrow>
                                 if \<not> S_ISDIR (st_mode st) then (ENOTDIR, s)
                                 else with_path env Pwd_at point True (\<lambda>point. mount_fs env fs source point) s))))"

definition sys_umount2 :: "'w env \<Rightarrow> addr_t \<Rightarrow> dword_t \<Rightarrow> 'w vfs \<Rightarrow> int \<times> 'w vfs" where
  "sys_umount2 env target_addr flags s =
    (case vstring target_addr MAX_PATH s of
       (None, s) \<Rightarrow> (EFAULT, s)
     | (Some target, s) \<Rightarrow> with_path env Pwd_at target (\<not> has flags 8) (\<lambda>target. umount_point env target) s)"

subsection \<open>Pipes\<close>

text \<open>Two files around the two ends that the host has made. Closing one of them closes the
descriptor of the host, and so does the path for errors, once more.\<close>

definition pipe_f_create :: "'w env \<Rightarrow> nat \<Rightarrow> dword_t \<Rightarrow> 'w vfs \<Rightarrow> int \<times> 'w vfs" where
  "pipe_f_create env host flags s =
    (case new_file None (Fs_file (en_real env)) s of
       (fd, s) \<Rightarrow>
         install_new (on_fds (f_install_flags (k_ops (vf_kern s)) fd flags)) fd
           (s\<lparr>vf_file := (vf_file s)(fd := map_option (\<lambda>x. x\<lparr>fl_real := Some host\<rparr>) (vf_file s fd))\<rparr>))"

definition sys_pipe2 :: "'w env \<Rightarrow> int + nat \<times> nat \<Rightarrow> addr_t \<Rightarrow> dword_t \<Rightarrow> 'w vfs \<Rightarrow> int \<times> 'w vfs" where
  "sys_pipe2 env host pipe_addr flags s =
    (if flags AND NOT (O_CLOEXEC OR O_NONBLOCK) \<noteq> 0 then (EINVAL, s)
     else case host of
            Inl err \<Rightarrow> (err, s)
          | Inr (p0, p1) \<Rightarrow>
              (let close_pipe = (\<lambda>s. s\<lparr>vf_closed := p1 # p0 # vf_closed s\<rparr>)
               in case pipe_f_create env p0 flags s of
                    (f0, s) \<Rightarrow>
                      if f0 < 0 then (f0, close_pipe s)
                      else case pipe_f_create env p1 flags s of
                             (f1, s) \<Rightarrow>
                               if f1 < 0 then (f1, close_pipe (snd (vf_close (word_of_int f0) s)))
                               else case on_kernel (kput pipe_addr [word_of_int f0, word_of_int f1]) s of
                                      (err, s) \<Rightarrow>
                                        if err \<noteq> 0
                                        then (EFAULT, close_pipe (snd (vf_close (word_of_int f0)
                                                        (snd (vf_close (word_of_int f1) s)))))
                                        else (0, s)))"

definition sys_pipe :: "'w env \<Rightarrow> int + nat \<times> nat \<Rightarrow> addr_t \<Rightarrow> 'w vfs \<Rightarrow> int \<times> 'w vfs" where
  "sys_pipe env host pipe_addr = sys_pipe2 env host pipe_addr 0"

subsection \<open>Stubs\<close>

definition sys_sendfile :: "dword_t \<Rightarrow> dword_t \<Rightarrow> addr_t \<Rightarrow> dword_t \<Rightarrow> int" where
  "sys_sendfile out_fd in_fd offset_addr count = EINVAL"

definition sys_sendfile64 :: "dword_t \<Rightarrow> dword_t \<Rightarrow> addr_t \<Rightarrow> dword_t \<Rightarrow> int" where
  "sys_sendfile64 out_fd in_fd offset_addr count = EINVAL"

definition sys_copy_file_range :: "dword_t \<Rightarrow> addr_t \<Rightarrow> dword_t \<Rightarrow> addr_t \<Rightarrow> dword_t \<Rightarrow> dword_t \<Rightarrow> int" where
  "sys_copy_file_range in_fd in_off out_fd out_off len flags = EPERM"

definition sys_xattr_stub :: "addr_t \<Rightarrow> addr_t \<Rightarrow> addr_t \<Rightarrow> dword_t \<Rightarrow> dword_t \<Rightarrow> int" where
  "sys_xattr_stub path_addr name_addr value_addr n flags = ENOTSUP"

end
