(* ===== verification/Procfs.thy ===== *)
theory Procfs
  imports Files
begin

text \<open>
  The file system \<open>proc\<close> (\<open>src/fs/proc.c\<close>, \<open>src/fs/proc/entry.c\<close>,
  \<open>src/fs/proc/root.c\<close>): a directory with a file \<open>version\<close> and one directory for each
  task. Its world is what the union in \<open>struct fd\<close> holds for its files. The kernel
  it shows is a parameter, as are the texts that the model does not keep: the version
  that is compiled in, the name of a task, number and group of a terminal. A failed
  assertion is \<open>None\<close>.
\<close>

subsection \<open>Entries\<close>

text \<open>The static structures \<open>proc_dir_entry\<close>, by name.\<close>

datatype proc_meta = Proc_root | Proc_version | Proc_pid | Proc_stat

record proc_entry =
  pe_meta :: proc_meta
  pe_pid :: nat

definition meta_inode :: "proc_meta \<Rightarrow> dword_t" where
  "meta_inode m = (case m of Proc_root \<Rightarrow> 1 | Proc_version \<Rightarrow> 2 | Proc_pid \<Rightarrow> 1 | Proc_stat \<Rightarrow> 2)"

definition meta_mode :: "proc_meta \<Rightarrow> dword_t" where
  "meta_mode m = (case m of Proc_root \<Rightarrow> 0x416d | Proc_pid \<Rightarrow> 0x416d | Proc_version \<Rightarrow> 0x8124 | Proc_stat \<Rightarrow> 0x8124)"

definition S_ISREG :: "dword_t \<Rightarrow> bool" where
  "S_ISREG mode \<longleftrightarrow> mode AND 0xf000 = 0x8000"

text \<open>Decimal numbers, as \<open>sprintf\<close> writes them.\<close>

fun nat_dec :: "nat \<Rightarrow> string" where
  "nat_dec n = (if n < 10 then [char_of (48 + n)] else nat_dec (n div 10) @ [char_of (48 + n mod 10)])"

declare nat_dec.simps [simp del]

definition dec :: "int \<Rightarrow> string" where
  "dec n = (if n < 0 then CHR ''-'' # nat_dec (nat (- n)) else nat_dec (nat n))"

definition proc_entry_getname :: "proc_entry \<Rightarrow> string option" where
  "proc_entry_getname e =
    (case pe_meta e of
       Proc_pid \<Rightarrow> Some (nat_dec (pe_pid e))
     | Proc_version \<Rightarrow> Some ''version''
     | Proc_stat \<Rightarrow> Some ''stat''
     | Proc_root \<Rightarrow> None)"

definition proc_entry_stat :: "proc_entry \<Rightarrow> statbuf" where
  "proc_entry_stat e =
    zero_stat\<lparr>st_mode := meta_mode (pe_meta e), st_inode := meta_inode (pe_meta e) OR push_bit 16 (of_nat (pe_pid e))\<rparr>"

text \<open>The next entry of a directory and the index after it. The root shows its file, then
the tasks in the order of their ids.\<close>

definition live_pid :: "kern \<Rightarrow> nat \<Rightarrow> bool" where
  "live_pid k i \<longleftrightarrow> pid_get_task (of_nat i) k \<noteq> None"

definition proc_root_readdir :: "kern \<Rightarrow> nat \<Rightarrow> (proc_entry \<times> nat) option" where
  "proc_root_readdir k index =
    (if index < 1 then Some (\<lparr>pe_meta = Proc_version, pe_pid = 0\<rparr>, index + 1)
     else case find (live_pid k) [Suc (index - 1)..<Suc MAX_PID] of
            None \<Rightarrow> None
          | Some i \<Rightarrow> Some (\<lparr>pe_meta = Proc_pid, pe_pid = i\<rparr>, i + 1))"

definition proc_dir_read :: "kern \<Rightarrow> proc_entry \<Rightarrow> nat \<Rightarrow> (proc_entry \<times> nat) option option" where
  "proc_dir_read k e index =
    (case pe_meta e of
       Proc_root \<Rightarrow> Some (proc_root_readdir k index)
     | Proc_pid \<Rightarrow> Some (if index \<ge> 1 then None else Some (\<lparr>pe_meta = Proc_stat, pe_pid = pe_pid e\<rparr>, index + 1))
     | _ \<Rightarrow> None)"

lemma proc_root_index: "proc_root_readdir k index = Some (e, i) \<Longrightarrow> index < i \<and> i \<le> Suc MAX_PID"
  by (auto simp: proc_root_readdir_def find_Some_iff nth_append split: if_splits option.splits)

lemma proc_dir_index: "proc_dir_read k e index = Some (Some (e', i)) \<Longrightarrow> index < i \<and> i \<le> Suc MAX_PID"
  by (cases "pe_meta e") (auto simp: proc_dir_read_def dest: proc_root_index split: if_splits)

subsection \<open>Looking up a path\<close>

text \<open>The first entry with a name: \<open>Some None\<close> when there is none.\<close>

function proc_find :: "kern \<Rightarrow> proc_entry \<Rightarrow> nat \<Rightarrow> string \<Rightarrow> proc_entry option option" where
  "proc_find k e index name =
    (case proc_dir_read k e index of
       None \<Rightarrow> None
     | Some None \<Rightarrow> Some None
     | Some (Some (next_entry, i)) \<Rightarrow>
         (case proc_entry_getname next_entry of
            None \<Rightarrow> None
          | Some n \<Rightarrow> if n = name then Some (Some next_entry) else proc_find k e i name))"
  by auto
termination
  by (relation "measure (\<lambda>(k, e, index, name). Suc MAX_PID - index)") (auto dest: proc_dir_index)

declare proc_find.simps [simp del]

text \<open>The buffer \<open>component\<close> is cleared once, and is not terminated after a component: what
is left of a longer one before it stays behind the shorter one.\<close>

abbreviation (input) MAX_NAME :: nat where "MAX_NAME \<equiv> 256"

function proc_lookup_from :: "kern \<Rightarrow> string \<Rightarrow> string \<Rightarrow> proc_entry \<Rightarrow> (int + proc_entry) option" where
  "proc_lookup_from k component path e =
    (case path of
       [] \<Rightarrow> Some (Inr e)
     | c # path \<Rightarrow>
         if \<not> S_ISDIR (meta_mode (pe_meta e)) then Some (Inl ENOTDIR)
         else if c \<noteq> slash then None
         else (let w = takeWhile (\<lambda>c. c \<noteq> slash) path; component = w @ drop (length w) component
               in if length w \<ge> MAX_NAME then Some (Inl ENAMETOOLONG)
                  else case proc_find k e 0 component of
                         None \<Rightarrow> None
                       | Some None \<Rightarrow> Some (Inl ENOENT)
                       | Some (Some e) \<Rightarrow> proc_lookup_from k component (dropWhile (\<lambda>c. c \<noteq> slash) path) e))"
  by auto
termination
  by (relation "measure (\<lambda>(k, component, path, e). length path)") (auto simp: less_Suc_eq_le length_dropWhile_le)

declare proc_lookup_from.simps [simp del]

definition proc_lookup :: "kern \<Rightarrow> string \<Rightarrow> (int + proc_entry) option" where
  "proc_lookup k path = proc_lookup_from k [] path \<lparr>pe_meta = Proc_root, pe_pid = 0\<rparr>"

subsection \<open>Contents\<close>

record proc_texts =
  pt_version :: string
  pt_tty :: "nat \<Rightarrow> int \<times> int"

definition proc_show_version :: "proc_texts \<Rightarrow> string" where
  "proc_show_version x = ''Linux version 3.2.0-ish '' @ pt_version x @ [char_of (10 :: nat)]"

definition handler_set :: "(addr_t \<Rightarrow> bool) \<Rightarrow> sighand \<Rightarrow> dword_t" where
  "handler_set P sh = fold (\<lambda>i w. if P (sa_handler (sh_action sh i)) then w OR push_bit i 1 else w) [0..<32] 0"

definition proc_pid_stat_show :: "kern \<Rightarrow> proc_texts \<Rightarrow> proc_entry \<Rightarrow> (int + string) option" where
  "proc_pid_stat_show k x e =
    (case pid_get_task (of_nat (pe_pid e)) k of
       None \<Rightarrow> Some (Inl ESRCH)
     | Some t \<Rightarrow>
         (let y = get_task t k
          in case (k_groups k (t_group y), k_sighands k (t_sighand y)) of
               (Some g, Some sh) \<Rightarrow>
                 (let tty = (case g_tty g of None \<Rightarrow> (0, 0) | Some i \<Rightarrow> pt_tty x i);
                      zeros = (\<lambda>n. replicate n (dec 0));
                      words = [dec (sint (t_pid y)), ''('' @ take 16 (t_comm y) @ '')'', if t_zombie y then ''Z'' else ''R'',
                          dec (case t_parent y of None \<Rightarrow> 0 | Some p \<Rightarrow> sint (t_pid (get_task p k))),
                          dec (sint (g_pgid g)), dec (sint (g_sid g)), dec (fst tty), dec (snd tty)]
                        @ zeros 9 @ [dec 20, dec 0, dec (int (length (g_threads g)))] @ zeros 2 @ zeros 3 @ zeros 5
                        @ [dec (uint (t_pending y AND 0xffffffff)), dec (uint (t_blocked y AND 0xffffffff)),
                           dec (uint (handler_set (\<lambda>h. h = SIG_IGN) sh)),
                           dec (uint (handler_set (\<lambda>h. h \<noteq> SIG_IGN \<and> h \<noteq> SIG_DFL) sh))]
                        @ zeros 3 @ [dec (int (t_exit_signal y))]
                  in Some (Inr (foldr (\<lambda>w r. if r = [] then w @ r else w @ CHR '' '' # r) words [] @ [char_of (10 :: nat)])))
             | _ \<Rightarrow> None))"

definition proc_show :: "kern \<Rightarrow> proc_texts \<Rightarrow> proc_entry \<Rightarrow> (int + string) option" where
  "proc_show k x e =
    (case pe_meta e of
       Proc_version \<Rightarrow> Some (Inr (proc_show_version x))
     | Proc_stat \<Rightarrow> proc_pid_stat_show k x e
     | _ \<Rightarrow> None)"

subsection \<open>Files\<close>

text \<open>The members of \<open>struct fd\<close>; the buffer \<open>proc_data\<close> is filled again for each call, so
only its size stays.\<close>

record proc_fd =
  pd_entry :: proc_entry
  pd_index :: nat
  pd_offset :: int
  pd_size :: nat

type_synonym proc_world = "nat \<Rightarrow> proc_fd option"

text \<open>\<open>ops\<close> is the number of \<open>procfs_fdops\<close>. What the file system does after a failed
assertion has no meaning.\<close>

definition proc_open ::
  "kern \<Rightarrow> nat \<Rightarrow> nat \<Rightarrow> nat \<Rightarrow> string \<Rightarrow> dword_t \<Rightarrow> word_t \<Rightarrow> proc_world \<Rightarrow> (int + nat) \<times> proc_world"
where
  "proc_open k ops m fd path flags mode w =
    (case proc_lookup k path of
       None \<Rightarrow> (Inl 0, w)
     | Some (Inl err) \<Rightarrow> (Inl err, w)
     | Some (Inr e) \<Rightarrow> (Inr ops, w(fd \<mapsto> \<lparr>pd_entry = e, pd_index = 0, pd_offset = 0, pd_size = 0\<rparr>)))"

definition proc_stat :: "kern \<Rightarrow> nat \<Rightarrow> string \<Rightarrow> bool \<Rightarrow> proc_world \<Rightarrow> int + statbuf" where
  "proc_stat k m path follow w =
    (case proc_lookup k path of None \<Rightarrow> Inl 0 | Some (Inl err) \<Rightarrow> Inl err | Some (Inr e) \<Rightarrow> Inr (proc_entry_stat e))"

definition proc_fstat :: "nat \<Rightarrow> proc_world \<Rightarrow> int + statbuf" where
  "proc_fstat fd w = (case w fd of None \<Rightarrow> Inl 0 | Some f \<Rightarrow> Inr (proc_entry_stat (pd_entry f)))"

definition proc_refresh_data :: "kern \<Rightarrow> proc_texts \<Rightarrow> proc_fd \<Rightarrow> int + string \<times> proc_fd" where
  "proc_refresh_data k x f =
    (case proc_show k x (pd_entry f) of
       None \<Rightarrow> Inl 0 | Some (Inl err) \<Rightarrow> Inl err | Some (Inr t) \<Rightarrow> Inr (t, f\<lparr>pd_size := length t\<rparr>))"

text \<open>What is read comes from the beginning of the file, wherever the offset is.\<close>

definition proc_read :: "kern \<Rightarrow> proc_texts \<Rightarrow> nat \<Rightarrow> nat \<Rightarrow> proc_world \<Rightarrow> int \<times> byte_t list \<times> proc_world" where
  "proc_read k x fd n w =
    (case w fd of
       None \<Rightarrow> (0, [], w)
     | Some f \<Rightarrow>
         if \<not> S_ISREG (meta_mode (pe_meta (pd_entry f))) then (EISDIR, [], w)
         else case proc_refresh_data k x f of
                Inl err \<Rightarrow> (err, [], w)
              | Inr (t, f) \<Rightarrow>
                  (let remaining = (if pd_offset f > int (pd_size f) then 0 else nat (int (pd_size f) - pd_offset f));
                       n = min n remaining
                   in (int n, bytes_of_text (take n t), w(fd \<mapsto> f\<lparr>pd_offset := pd_offset f + int n\<rparr>))))"

definition proc_seek :: "kern \<Rightarrow> proc_texts \<Rightarrow> nat \<Rightarrow> qword_t \<Rightarrow> dword_t \<Rightarrow> proc_world \<Rightarrow> int \<times> proc_world" where
  "proc_seek k x fd off whence w =
    (case w fd of
       None \<Rightarrow> (0, w)
     | Some f \<Rightarrow>
         if \<not> S_ISREG (meta_mode (pe_meta (pd_entry f))) then (EISDIR, w)
         else case proc_refresh_data k x f of
                Inl err \<Rightarrow> (err, w)
              | Inr (_, f) \<Rightarrow>
                  if \<not> whence \<in> {0, 1, 2} then (EINVAL, w(fd \<mapsto> f))
                  else (let new = sint off + (if whence = 0 then 0 else if whence = 1 then pd_offset f else int (pd_size f))
                        in if new < 0 then (EINVAL, w(fd \<mapsto> f)) else (new, w(fd \<mapsto> f\<lparr>pd_offset := new\<rparr>))))"

definition proc_readdir :: "kern \<Rightarrow> nat \<Rightarrow> proc_world \<Rightarrow> (int + dir_entry option) \<times> proc_world" where
  "proc_readdir k fd w =
    (case w fd of
       None \<Rightarrow> (Inl 0, w)
     | Some f \<Rightarrow>
         (case proc_dir_read k (pd_entry f) (pd_index f) of
            None \<Rightarrow> (Inl 0, w)
          | Some None \<Rightarrow> (Inr None, w)
          | Some (Some (e, i)) \<Rightarrow>
              (case proc_entry_getname e of
                 None \<Rightarrow> (Inl 0, w)
               | Some n \<Rightarrow> (Inr (Some \<lparr>de_inode = 0, de_name = n\<rparr>), w(fd \<mapsto> f\<lparr>pd_index := i\<rparr>)))))"

definition proc_telldir :: "nat \<Rightarrow> proc_world \<Rightarrow> qword_t" where
  "proc_telldir fd w = (case w fd of None \<Rightarrow> 0 | Some f \<Rightarrow> of_nat (pd_index f))"

definition proc_seekdir :: "nat \<Rightarrow> qword_t \<Rightarrow> proc_world \<Rightarrow> proc_world" where
  "proc_seekdir fd ptr w = w(fd := map_option (\<lambda>f. f\<lparr>pd_index := unat ptr\<rparr>) (w fd))"

definition procfs_fdops :: "kern \<Rightarrow> proc_texts \<Rightarrow> proc_world fd_ops" where
  "procfs_fdops k x = null_ops
    \<lparr>fo_read := Some (proc_read k x), fo_lseek := Some (proc_seek k x), fo_readdir := Some (proc_readdir k),
     fo_telldir := proc_telldir, fo_seekdir := proc_seekdir\<rparr>"

definition proc_readlink :: "nat \<Rightarrow> string \<Rightarrow> nat \<Rightarrow> proc_world \<Rightarrow> int + string" where
  "proc_readlink m path n w = Inl EINVAL"

text \<open>Every other operation is a null pointer.\<close>

definition procfs :: "kern \<Rightarrow> nat \<Rightarrow> proc_world fs_ops" where
  "procfs k ops =
    \<lparr>fs_name = ''proc'', fs_magic = 0x9fa0, fs_mount = None, fs_umount = None, fs_statfs = None,
     fs_open = proc_open k ops, fs_readlinkat = proc_readlink, fs_link = None, fs_unlink = None, fs_rmdir = None,
     fs_rename = None, fs_symlink = None, fs_mknod = None, fs_stat = proc_stat k, fs_fstat = proc_fstat,
     fs_setattr = None, fs_fsetattr = None, fs_utime = None, fs_getpath = None, fs_mkdir = None, fs_flock = None\<rparr>"

end
