(* ===== verification/Vfs_Facts.thy ===== *)
theory Vfs_Facts
  imports Procfs
begin

text \<open>
  Lemmas on files by path: calls on paths give back the references to mounts that
  they take, device numbers, and the directories of \<open>proc\<close>.
\<close>

subsection \<open>Device numbers\<close>

lemma high_bits_zero:
  fixes w :: dword_t
  assumes "uint w < 2 ^ m" "m \<le> n"
  shows "\<not> bit w n"
proof -
  have "uint w = take_bit m (uint w)" using assms(1) by (simp add: take_bit_int_eq_self)
  then have "\<not> bit (uint w) n" using assms(2) by (metis bit_take_bit_iff not_le)
  then show ?thesis using bit_imp_le_length[of w n] by (auto simp: bit_uint_iff)
qed

lemma dev_masks:
  "(0xfff00 :: dword_t) = push_bit 8 (mask 12)" "(0xfff00000 :: dword_t) = push_bit 20 (mask 12)" "(0xff :: dword_t) = mask 8"
  by (simp_all add: mask_eq_exp_minus_1 push_bit_eq_mult)

lemma bit_dev_parts:
  "bit (dev_major d) n \<longleftrightarrow> n < 12 \<and> bit d (n + 8)"
  "bit (dev_minor d) n \<longleftrightarrow> (if n < 8 then bit d n else n < 20 \<and> bit d (n + 12))"
  "bit (dev_make ma mi) n \<longleftrightarrow> n < 32 \<and>
     (n < 8 \<and> bit mi n \<or> 8 \<le> n \<and> bit ma (n - 8) \<or> 20 \<le> n \<and> bit mi (n - 12))"
  unfolding dev_major_def dev_minor_def dev_make_def dev_masks
  by (auto simp: bit_simps add.commute dest: bit_imp_le_length)

lemma dev_parts:
  assumes "major < 0x1000" "minor < 0x100000"
  shows "dev_major (dev_make major minor) = major" "dev_minor (dev_make major minor) = minor"
proof -
  have "bit major n \<Longrightarrow> n < 12" "bit minor n \<Longrightarrow> n < 20" for n
    using high_bits_zero[of major 12 n] high_bits_zero[of minor 20 n] assms not_less by (auto simp: word_less_def)
  then show "dev_major (dev_make major minor) = major" "dev_minor (dev_make major minor) = minor"
    by (auto intro!: bit_word_eqI simp: bit_dev_parts split: if_splits; fastforce)+
qed

lemma dev_whole: "dev_make (dev_major dev) (dev_minor dev) = dev"
  by (rule bit_word_eqI) (auto simp: bit_dev_parts)

subsection \<open>References to mounts\<close>

text \<open>A state that differs only in the world of the file systems, and in being marked bad.\<close>

definition sound :: "kern \<Rightarrow> kern" where
  "sound k = k\<lparr>k_bad := False\<rparr>"

definition only_world :: "'w vfs \<Rightarrow> 'w vfs \<Rightarrow> bool" where
  "only_world s t \<longleftrightarrow> vf_mounts t = vf_mounts s \<and> vf_mount t = vf_mount s \<and> vf_file t = vf_file s \<and>
     vf_next t = vf_next s \<and> vf_closed t = vf_closed s \<and> sound (vf_kern t) = sound (vf_kern s)"

lemma only_world_refl [simp]: "only_world s s"
  by (simp add: only_world_def)

lemma only_world_trans: "only_world s t \<Longrightarrow> only_world t u \<Longrightarrow> only_world s u"
  by (simp add: only_world_def)

lemma good_kbad [simp]: "sound (kbad k) = sound k"
  by (simp add: sound_def kbad_def)

lemma only_world_simps [simp]:
  "only_world s (vbad t) = only_world s t" "only_world s (t\<lparr>vf_world := w\<rparr>) = only_world s t"
  "only_world s (snd (on_world f t)) = only_world s t"
  by (simp_all add: only_world_def vbad_def on_world_def split: prod.split)

lemma only_world_release:
  assumes "vf_mount s m = Some x" "only_world (ref_mount ((+) 1) m s) t"
  shows "only_world s (mount_release m t)"
  using assms by (auto simp: only_world_def mount_release_def ref_mount_def option.map_comp comp_def)

lemma take_mount_cases:
  obtains (None) t where "take_mount path s = (None, t)" "only_world s t"
  | (Some) m x where "vf_mount s m = Some x" "take_mount path s = (Some (m, drop (length (mnt_point x)) path), ref_mount ((+) 1) m s)"
proof (cases "path_is_normalized path")
  case True
  then show ?thesis
  proof (cases "mount_at path s")
    case None
    then show ?thesis using True that(1)[of "vbad s"] by (simp add: take_mount_def)
  next
    case (Some m)
    then show ?thesis using True that(1)[of "vbad s"] that(2)[of m] by (cases "vf_mount s m") (simp_all add: take_mount_def)
  qed
qed (use that(1)[of "vbad s"] in \<open>simp add: take_mount_def\<close>)

lemma normalize_only: "only_world s (snd (normalize env at path follow s))"
  by (auto simp: normalize_def split: option.split path_result.split)

lemma with_path_only:
  assumes "\<And>p t. only_world t (snd (f p t))"
  shows "only_world s (snd (with_path env at path follow f s))"
proof (cases "normalize env at path follow s")
  case (Pair r t)
  then have "only_world s t" using normalize_only[of s env at path follow] by simp
  then show ?thesis using Pair only_world_trans[OF _ assms] by (cases r) (simp_all add: with_path_def)
qed

lemma with_mount_only: "only_world s (snd (with_mount env path f s))"
proof (cases rule: take_mount_cases[of path s])
  case (None t)
  then show ?thesis by (simp add: with_mount_def)
next
  case (Some m x)
  have "only_world (ref_mount ((+) 1) m s) (snd (case f fs of None \<Rightarrow> (0, vbad (ref_mount ((+) 1) m s))
       | Some g \<Rightarrow> on_world (g m p) (ref_mount ((+) 1) m s)))" for fs p
    by (simp split: option.split)
  then have "only_world s (mount_release m (snd (case f fs of None \<Rightarrow> (0, vbad (ref_mount ((+) 1) m s))
       | Some g \<Rightarrow> on_world (g m p) (ref_mount ((+) 1) m s))))" for fs p
    by (rule only_world_release[OF Some(1)])
  moreover have "\<exists>fs. mount_ops env m (ref_mount ((+) 1) m s) = Some fs"
    by (simp add: mount_ops_def ref_mount_def Some(1))
  ultimately show ?thesis
    by (auto simp: with_mount_def Some(2) split: prod.split) (metis snd_conv)
qed



text \<open>With two paths the lookup of the second mount can fail when the first has been found, and
that failure is the end of the program.\<close>

definition unless_bad :: "('w vfs \<Rightarrow> bool) \<Rightarrow> 'w vfs \<Rightarrow> bool" where
  "unless_bad P t \<longleftrightarrow> k_bad (vf_kern t) \<or> P t"

lemma unless_bad_I [intro]: "P t \<Longrightarrow> unless_bad P t"
  by (simp add: unless_bad_def)

lemma bad_vbad [simp]: "k_bad (vf_kern (vbad s))"
  by (simp add: vbad_def kbad_def)

lemma take_mount_bad: "take_mount path s = (None, t) \<Longrightarrow> k_bad (vf_kern t)"
  by (auto simp: take_mount_def split: if_splits option.splits)

lemma with_path_kept:
  assumes "\<And>p t. unless_bad (only_world t) (snd (f p t))"
  shows "unless_bad (only_world s) (snd (with_path env at path follow f s))"
proof (cases "normalize env at path follow s")
  case (Pair r t)
  then have "only_world s t" using normalize_only[of s env at path follow] by simp
  then show ?thesis using Pair assms[of t] only_world_trans[of s t]
    by (cases r) (auto simp: with_path_def unless_bad_def)
qed

lemma with_mounts_cases:
  "only_world s (snd (with_mounts env src dst f s)) \<or>
   (\<exists>m t. take_mount dst (ref_mount ((+) 1) m s) = (None, t) \<and> with_mounts env src dst f s = (0, t))"
proof (cases rule: take_mount_cases[of src s])
  case (None t)
  then show ?thesis by (auto simp: with_mounts_def)
next
  case (Some m x)
  note src = Some
  let ?s = "ref_mount ((+) 1) m s"
  show ?thesis
  proof (cases rule: take_mount_cases[of dst ?s])
    case (None t)
    then show ?thesis by (auto simp: with_mounts_def src)
  next
    case (Some m' y)
    let ?t = "ref_mount ((+) 1) m' ?s"
    have twice: "only_world s (mount_release m' (mount_release m u))" if "only_world ?t u" for u
    proof -
      have "mount_release m' (mount_release m u) = mount_release m (mount_release m' u)"
        by (auto simp: mount_release_def ref_mount_def fun_upd_twist option.map_comp comp_def)
      then show ?thesis using only_world_release[OF src(1) only_world_release[OF Some(1) that]] by simp
    qed
    have "only_world ?t (snd (if m \<noteq> m' then (EXDEV, ?t)
        else case mount_ops env m ?t of None \<Rightarrow> (0, vbad ?t)
             | Some fs \<Rightarrow> (case f fs of None \<Rightarrow> (0, vbad ?t) | Some g \<Rightarrow> on_world (g m p q) ?t)))" for p q
      by (simp split: option.split)
    note twice[OF this]
    then have "only_world s (snd (with_mounts env src dst f s))"
      by (auto simp: with_mounts_def src Some split: prod.split) (metis snd_conv)
    then show ?thesis ..
  qed
qed

lemma with_mounts_kept: "unless_bad (only_world s) (snd (with_mounts env src dst f s))"
  using with_mounts_cases[of s env src dst f] take_mount_bad by (auto simp: unless_bad_def)

lemma look_only:
  "only_world s (snd (case take_mount path s of (None, s) \<Rightarrow> (Inl 0, s)
    | (Some (m, path), s) \<Rightarrow> (case mount_ops env m s of None \<Rightarrow> (Inl 0, vbad s)
         | Some fs \<Rightarrow> (f fs m path s, mount_release m s))))"
proof (cases rule: take_mount_cases[of path s])
  case (Some m x)
  have "\<exists>fs. mount_ops env m (ref_mount ((+) 1) m s) = Some fs"
    by (simp add: mount_ops_def ref_mount_def Some(1))
  then show ?thesis using only_world_release[OF Some(1) only_world_refl] by (auto simp: Some(2))
qed simp

lemma stat_only: "only_world s (snd (generic_statat env at path follow s))"
proof (cases "normalize env at path follow s")
  case (Pair r t)
  then have "only_world s t" using normalize_only[of s env at path follow] by simp
  then show ?thesis
    using Pair only_world_trans[OF _ look_only[where f = "\<lambda>fs m p t. fs_stat fs m p follow (vf_world t)"]] by (cases r) (auto simp: generic_statat_def)
qed

lemma readlink_only: "only_world s (snd (generic_readlinkat env at path n s))"
proof (cases "normalize env at path False s")
  case (Pair r t)
  then have "only_world s t" using normalize_only[of s env at path False] by simp
  then show ?thesis
    using Pair only_world_trans[OF _ look_only[where f = "\<lambda>fs m p t. fs_readlinkat fs m p n (vf_world t)"]] by (cases r) (auto simp: generic_readlinkat_def)
qed

lemma access_only: "only_world s (snd (generic_accessat env at path mode s))"
  using stat_only[of s env at path True] by (auto simp: generic_accessat_def split: prod.split sum.split)

lemma mknod_only: "only_world s (snd (generic_mknod env path mode dev s))"
  by (auto simp: generic_mknod_def intro!: with_path_only with_mount_only)

lemma rmdir_only: "only_world s (snd (generic_rmdirat env at path s))"
  by (auto simp: generic_rmdirat_def intro!: with_path_only with_mount_only)

lemma link_kept: "unless_bad (only_world s) (snd (generic_linkat env a src b dst s))"
  by (auto simp: generic_linkat_def intro!: with_path_kept with_mounts_kept)

lemma rename_kept: "unless_bad (only_world s) (snd (generic_renameat env a src b dst s))"
  unfolding generic_renameat_def
  by (intro with_path_kept) (auto intro: with_mounts_kept)

end
