(* ===== verification/Files_Inv.thy ===== *)
theory Files_Inv
  imports Vfs_Facts
begin

text \<open>
  The invariant of mounts and files, and its preservation by every call: the list of
  mounts is ordered, longest point first, and every file that is not adhoc belongs to a
  mount that is alive and counts at least as many references as it has files.
\<close>

subsection \<open>The invariant\<close>

definition mount_users :: "nat \<Rightarrow> 'w vfs \<Rightarrow> nat set" where
  "mount_users m s = {fd. \<exists>x. vf_file s fd = Some x \<and> fl_mount x = Some m}"

definition files_ok :: "'w vfs \<Rightarrow> bool" where
  "files_ok s \<longleftrightarrow> finite (dom (vf_file s)) \<and> distinct (vf_mounts s) \<and> set (vf_mounts s) = dom (vf_mount s) \<and>
     (\<forall>i \<in> dom (vf_mount s). i < vf_next s) \<and>
     sorted_wrt (\<lambda>i j. point_length s j \<le> point_length s i) (vf_mounts s) \<and>
     (\<forall>m. mount_users m s \<noteq> {} \<longrightarrow> (\<exists>x. vf_mount s m = Some x \<and> card (mount_users m s) \<le> unat (mnt_refcount x)))"

text \<open>What it depends on.\<close>

definition shape :: "'w vfs \<Rightarrow> nat list \<times> (nat \<Rightarrow> mount option) \<times> (nat \<Rightarrow> file_info option) \<times> nat" where
  "shape s = (vf_mounts s, vf_mount s, vf_file s, vf_next s)"

lemma files_ok_shape: "shape t = shape s \<Longrightarrow> files_ok t = files_ok s"
  by (simp add: shape_def files_ok_def mount_users_def point_length_def)

lemma only_world_shape: "only_world s t \<Longrightarrow> shape t = shape s"
  by (simp add: only_world_def shape_def)

named_theorems frames
named_theorems keeps

lemma shape_simps [simp]:
  "shape (vbad s) = shape s" "shape (s\<lparr>vf_world := w\<rparr>) = shape s" "shape (s\<lparr>vf_kern := k\<rparr>) = shape s"
  "shape (s\<lparr>vf_closed := c\<rparr>) = shape s" "shape (upd_fs f s) = shape s"
  by (simp_all add: shape_def vbad_def upd_fs_def Let_def split: option.split)

lemma files_ok_simps [simp]:
  "files_ok (vbad s) = files_ok s" "files_ok (s\<lparr>vf_world := w\<rparr>) = files_ok s" "files_ok (s\<lparr>vf_kern := k\<rparr>) = files_ok s"
  "files_ok (s\<lparr>vf_closed := c\<rparr>) = files_ok s" "files_ok (upd_fs f s) = files_ok s"
  by (rule files_ok_shape, simp)+

named_theorems shapes

lemma shape_on_kernel [shapes]: "on_kernel f s = (r, t) \<Longrightarrow> shape t = shape s"
  by (auto simp: on_kernel_def split: prod.splits)

lemma shape_on_world [shapes]: "on_world f s = (r, t) \<Longrightarrow> shape t = shape s"
  by (auto simp: on_world_def split: prod.splits)

lemma shape_cur_vm [shapes]: "cur_vm f s = (r, t) \<Longrightarrow> shape t = shape s"
  by (auto simp: cur_vm_def dest: shape_on_kernel)

lemma shape_vread [shapes]: "vread a n s = (r, t) \<Longrightarrow> shape t = shape s"
  by (auto simp: vread_def dest: shape_cur_vm)

lemma shape_vwrite [shapes]: "vwrite a bs s = (r, t) \<Longrightarrow> shape t = shape s"
  by (auto simp: vwrite_def dest: shape_cur_vm)

lemma shape_vstring [shapes]: "vstring a n s = (r, t) \<Longrightarrow> shape t = shape s"
  by (auto simp: vstring_def dest: shape_cur_vm split: prod.splits if_splits)

lemma shape_normalize [shapes]: "normalize env at path follow s = (r, t) \<Longrightarrow> shape t = shape s"
  by (metis only_world_shape normalize_only snd_conv)

lemma shape_stat [shapes]: "generic_statat env at path follow s = (r, t) \<Longrightarrow> shape t = shape s"
  by (metis only_world_shape stat_only snd_conv)

lemma shape_readlink [shapes]: "generic_readlinkat env at path n s = (r, t) \<Longrightarrow> shape t = shape s"
  by (metis only_world_shape readlink_only snd_conv)

lemmas [frames] = shapes [THEN files_ok_shape]

lemmas frame_on_kernel = shape_on_kernel [THEN files_ok_shape]
  and frame_on_world = shape_on_world [THEN files_ok_shape]
  and frame_vwrite = shape_vwrite [THEN files_ok_shape]
  and frame_normalize = shape_normalize [THEN files_ok_shape]
  and frame_stat = shape_stat [THEN files_ok_shape]

lemma frame_with_mount: "files_ok (snd (with_mount env path f s)) = files_ok s"
  by (metis files_ok_shape only_world_shape with_mount_only)

lemma frame_snd [simp]:
  "files_ok (snd (on_kernel f s)) = files_ok s" "files_ok (snd (on_world g s)) = files_ok s"
  "files_ok (snd (cur_vm h s)) = files_ok s" "files_ok (snd (vwrite a bs s)) = files_ok s"
  by (metis frames prod.collapse)+

subsection \<open>References to mounts\<close>

lemma users_ref [simp]: "mount_users m (ref_mount f i s) = mount_users m s"
  by (simp add: mount_users_def ref_mount_def)

lemma length_ref [simp]: "point_length (ref_mount f i s) j = point_length s j"
  by (auto simp: point_length_def ref_mount_def split: option.split)

text \<open>No count of references is at its end, so that one more does not wrap around.\<close>

definition unwrapped :: "'w vfs \<Rightarrow> bool" where
  "unwrapped s \<longleftrightarrow> (\<forall>m x. vf_mount s m = Some x \<longrightarrow> mnt_refcount x \<noteq> - 1)"

definition ready :: "'w vfs \<Rightarrow> bool" where
  "ready s \<longleftrightarrow> files_ok s \<and> unwrapped s"

lemma ready_ok: "ready s \<Longrightarrow> files_ok s"
  by (simp add: ready_def)

lemma ready_shape: "shape t = shape s \<Longrightarrow> ready t = ready s"
  unfolding ready_def unwrapped_def using files_ok_shape[of t s] by (simp add: shape_def)

lemmas ready_frames = shapes [THEN ready_shape]

lemma unat_one_more: "(x :: dword_t) \<noteq> - 1 \<Longrightarrow> unat (1 + x) = Suc (unat x)"
  by (metis add.commute add_eq_0_iff unatSuc)

lemma ref_mount_ok: "files_ok s \<Longrightarrow> unwrapped s \<Longrightarrow> files_ok (ref_mount ((+) 1) i s)"
  unfolding files_ok_def users_ref length_ref
  by (auto simp: ref_mount_def dom_def unwrapped_def unat_one_more)

lemma take_mount_ok:
  assumes "take_mount path s = (r, t)" "files_ok s" "unwrapped s"
  shows "files_ok t"
  using assms ref_mount_ok[of s] by (auto simp: take_mount_def split: if_splits option.splits)

lemma take_mount_none: "take_mount path s = (None, t) \<Longrightarrow> shape t = shape s"
  by (auto simp: take_mount_def split: if_splits option.splits)

lemma with_mounts_ok:
  assumes s: "ready s"
  shows "files_ok (snd (with_mounts env src dst f s))"
  using with_mounts_cases[of s env src dst f]
proof
  assume "only_world s (snd (with_mounts env src dst f s))"
  then show ?thesis using s only_world_shape files_ok_shape ready_ok by blast
next
  note s = s[unfolded ready_def]
  assume "\<exists>m t. take_mount dst (ref_mount ((+) 1) m s) = (None, t) \<and> with_mounts env src dst f s = (0, t)"
  then obtain m t where "take_mount dst (ref_mount ((+) 1) m s) = (None, t)" "with_mounts env src dst f s = (0, t)" by blast
  then show ?thesis using ref_mount_ok[OF s[THEN conjunct1] s[THEN conjunct2], of m] files_ok_shape[OF take_mount_none, of dst "ref_mount ((+) 1) m s" t] by simp
qed

lemma with_path_ok:
  assumes "\<And>p t. files_ok t \<Longrightarrow> files_ok (snd (f p t))" "files_ok s"
  shows "files_ok (snd (with_path env at path follow f s))"
  using assms by (auto simp: with_path_def split: prod.split sum.split dest: frame_normalize)

lemma with_path_ready:
  assumes "\<And>p t. ready t \<Longrightarrow> files_ok (snd (f p t))" "ready s"
  shows "files_ok (snd (with_path env at path follow f s))"
  using assms by (auto simp: with_path_def split: prod.split sum.split dest!: ready_frames intro: ready_ok)

lemma release_ok:
  assumes "files_ok s" "vf_mount t = vf_mount (ref_mount ((+) 1) i s)" "vf_mounts t = vf_mounts s" "vf_file t = vf_file s" "vf_next t = vf_next s"
    "vf_mount s i = Some x"
  shows "files_ok (mount_release i t)"
proof -
  have "shape (mount_release i t) = shape s"
    using assms(2-6) by (auto simp: shape_def mount_release_def ref_mount_def)
  then show ?thesis using assms(1) files_ok_shape by blast
qed

subsection \<open>Making and dropping files\<close>

lemma new_file_eq:
  "\<exists>fd k. new_file m x s = (fd, s\<lparr>vf_kern := k, vf_file := (vf_file s)(fd \<mapsto> \<lparr>fl_mount = m, fl_kind = x, fl_stat = zero_stat, fl_real = None\<rparr>)\<rparr>)"
  by (auto simp: new_file_def on_kernel_def split: prod.split)

lemma finite_users: "files_ok s \<Longrightarrow> finite (mount_users m s)"
  by (rule finite_subset[of _ "dom (vf_file s)"]) (auto simp: mount_users_def files_ok_def)

lemma fewer_users:
  assumes "files_ok s" "vf_mounts t = vf_mounts s" "vf_mount t = vf_mount s" "vf_next t = vf_next s"
    "finite (dom (vf_file t))" "\<And>m. mount_users m t \<subseteq> mount_users m s"
  shows "files_ok t"
proof -
  have l: "point_length t = point_length s" using assms(3) by (auto simp: point_length_def fun_eq_iff)
  have "\<exists>x. vf_mount s m = Some x \<and> card (mount_users m t) \<le> unat (mnt_refcount x)" if "mount_users m t \<noteq> {}" for m
  proof -
    have "card (mount_users m t) \<le> card (mount_users m s)" using assms(6) finite_users[OF assms(1)] card_mono by blast
    moreover have "mount_users m s \<noteq> {}" using assms(6)[of m] that by auto
    ultimately show ?thesis using assms(1) unfolding files_ok_def by (meson le_trans)
  qed
  then show ?thesis using assms(1-5) unfolding files_ok_def l by simp
qed

lemma new_file_ok:
  assumes "new_file m x s = (fd, t)" "files_ok s"
    "\<And>i. m = Some i \<Longrightarrow> \<exists>x. vf_mount s i = Some x \<and> card (mount_users i s) < unat (mnt_refcount x)"
  shows "files_ok t"
proof -
  let ?x = "\<lparr>fl_mount = m, fl_kind = x, fl_stat = zero_stat, fl_real = None\<rparr>"
  obtain k where t: "t = s\<lparr>vf_kern := k, vf_file := (vf_file s)(fd \<mapsto> ?x)\<rparr>"
    using new_file_eq[of m x s] assms(1) by auto
  have u: "mount_users i t = (if m = Some i then insert fd (mount_users i s) else mount_users i s - {fd})" for i
    by (auto simp: t mount_users_def)
  have l: "point_length t = point_length s" by (simp add: t point_length_def fun_eq_iff)
  have "\<exists>x. vf_mount s i = Some x \<and> card (mount_users i t) \<le> unat (mnt_refcount x)" if "mount_users i t \<noteq> {}" for i
  proof (cases "m = Some i")
    case True
    then show ?thesis using assms(3) finite_users[OF assms(2), of i] u[of i]
      by (fastforce simp: card_insert_if)
  next
    case False
    then have "card (mount_users i t) \<le> card (mount_users i s)" "mount_users i s \<noteq> {}"
      using u[of i] that finite_users[OF assms(2), of i] by (auto intro: card_mono)
    then show ?thesis using assms(2) unfolding files_ok_def by (meson le_trans)
  qed
  then show ?thesis using assms(2) unfolding files_ok_def l by (simp add: t)
qed

lemma drop_file_ok [keeps]: "files_ok s \<Longrightarrow> files_ok (drop_file fd s)"
  by (rule fewer_users[of s]) (auto simp: drop_file_def mount_users_def files_ok_def split: option.splits)

lemma close_file_ok: "close_file fd s = (r, t) \<Longrightarrow> files_ok s \<Longrightarrow> files_ok t"
  by (auto simp: close_file_def keeps split: if_splits dest: frames)

lemma same_mounts_ok:
  "files_ok s \<Longrightarrow> map_option fl_mount (vf_file s fd) = Some (fl_mount x) \<Longrightarrow> files_ok (s\<lparr>vf_file := (vf_file s)(fd \<mapsto> x)\<rparr>)"
  by (rule fewer_users[of s]) (auto simp: mount_users_def files_ok_def split: if_splits)

lemma set_kind_ok: "files_ok s \<Longrightarrow> files_ok (set_kind fd x s)"
  by (cases "vf_file s fd") (auto simp: set_kind_def fun_upd_idem intro: same_mounts_ok)

lemma dev_open_ok: "dev_open env major minor char fd s = (r, t) \<Longrightarrow> files_ok s \<Longrightarrow> files_ok t"
  by (auto simp: dev_open_def mem_open_def intro: set_kind_ok split: if_splits option.splits dest: frame_on_kernel)

lemma close_file_snd [keeps]: "files_ok s \<Longrightarrow> files_ok (snd (close_file fd s))"
  by (metis close_file_ok prod.collapse)

lemma open_device_ok: "files_ok s \<Longrightarrow> files_ok (snd (open_device env fd st s))"
  by (auto simp: open_device_def Let_def split: prod.split intro!: close_file_snd intro: dev_open_ok)

lemma frame_fstat [frames]: "fstat env fd s = (r, t) \<Longrightarrow> files_ok t = files_ok s"
  by (auto simp: fstat_def split: option.splits)

definition room :: "nat \<Rightarrow> 'w vfs \<Rightarrow> bool" where
  "room m s \<longleftrightarrow> (\<exists>x. vf_mount s m = Some x \<and> card (mount_users m s) < unat (mnt_refcount x))"

lemma room_world: "on_world f s = (r, t) \<Longrightarrow> room m t = room m s"
  by (auto simp: on_world_def room_def mount_users_def split: prod.splits)

lemma take_mount_room:
  assumes "take_mount path s = (Some (m, p), t)" "files_ok s" "unwrapped s"
  shows "room m t"
proof -
  obtain x where "vf_mount s m = Some x" "t = ref_mount ((+) 1) m s"
    using assms(1) by (auto simp: take_mount_def split: if_splits option.splits)
  moreover have "card (mount_users m s) \<le> unat (mnt_refcount x)"
    using assms(2) \<open>vf_mount s m = Some x\<close> unfolding files_ok_def by (metis card.empty le0 option.inject)
  moreover have "mnt_refcount x \<noteq> - 1" using assms(3) \<open>vf_mount s m = Some x\<close> by (simp add: unwrapped_def)
  ultimately show ?thesis by (simp add: room_def ref_mount_def mount_users_def unat_one_more)
qed

lemma openat_tail_ok:
  assumes "files_ok t" "room m t"
  shows "files_ok (snd (case new_file (Some m) (Fs_file ops) t of (fd, s) \<Rightarrow>
      (case fstat env fd s of (Inl _, s) \<Rightarrow> (Inr fd, s) | (Inr st, s) \<Rightarrow> open_device env fd st s)))"
proof -
  obtain fd u where u: "new_file (Some m) (Fs_file ops) t = (fd, u)" by fastforce
  have "files_ok u" using new_file_ok[OF u assms(1)] assms(2) by (simp add: room_def)
  then show ?thesis
    by (auto simp: u split: prod.split sum.split intro!: open_device_ok dest!: frame_fstat)
qed

lemma openat_ok:
  assumes "ready s"
  shows "files_ok (snd (generic_openat env at path flags mode s))"
proof (cases "normalize env at path True s")
  case (Pair r t)
  note n = Pair
  then have t: "files_ok t" "unwrapped t"
    using assms ready_shape[OF shape_normalize[OF Pair]] by (simp_all add: ready_def)
  show ?thesis
  proof (cases r)
    case (Inr p)
    show ?thesis
    proof (cases "take_mount p t")
      case (Pair r u)
      then have u: "files_ok u" using t by (rule take_mount_ok)
      show ?thesis
      proof (cases r)
        case None
        then show ?thesis using n Inr Pair u by (simp add: generic_openat_def)
      next
        case (Some mq)
        obtain m q where "mq = (m, q)" by fastforce
        then have m: "take_mount p t = (Some (m, q), u)" using Some Pair by simp
        then have room: "room m u" by (rule take_mount_room) (rule t)+
        have "files_ok (snd (case on_world g u of (Inl err, s) \<Rightarrow> (Inl err, s)
            | (Inr ops, s) \<Rightarrow> (case new_file (Some m) (Fs_file ops) s of (fd, s) \<Rightarrow>
               (case fstat env fd s of (Inl _, s) \<Rightarrow> (Inr fd, s) | (Inr st, s) \<Rightarrow> open_device env fd st s))))" for g
        proof (cases "on_world g u")
          case (Pair r v)
          have "files_ok v" using u frame_on_world[OF Pair] by simp
          moreover have "room m v" using room room_world[OF Pair] by simp
          ultimately show ?thesis using Pair openat_tail_ok[of v m env] by (cases r) simp_all
        qed
        then show ?thesis using n Inr m u by (simp add: generic_openat_def split: option.split)
      qed
    qed
  qed (use n t in \<open>simp add: generic_openat_def\<close>)
qed

subsection \<open>The calls\<close>

lemma path_call_ok [keeps]:
  "(\<And>at p t. files_ok t \<Longrightarrow> files_ok (snd (call at p t))) \<Longrightarrow> files_ok s \<Longrightarrow> files_ok (snd (path_call f a call s))"
  by (auto simp: path_call_def split: prod.split option.split bool.split dest!: frames)

lemma paths_call_ok [keeps]:
  "(\<And>at p bt q t. files_ok t \<Longrightarrow> files_ok (snd (call at p bt q t))) \<Longrightarrow> files_ok s \<Longrightarrow>
   files_ok (snd (paths_call f a g b call s))"
  by (auto simp: paths_call_def split: prod.split option.split bool.split dest!: frames)

text \<open>Until a call has its path, it has not touched mounts and files.\<close>

lemma path_call_ready:
  "(\<And>at p t. ready t \<Longrightarrow> files_ok (snd (call at p t))) \<Longrightarrow> ready s \<Longrightarrow> files_ok (snd (path_call f a call s))"
  by (auto simp: path_call_def split: prod.split option.split bool.split dest!: ready_frames intro: ready_ok)

lemma paths_call_ready:
  "(\<And>at p bt q t. ready t \<Longrightarrow> files_ok (snd (call at p bt q t))) \<Longrightarrow> ready s \<Longrightarrow>
   files_ok (snd (paths_call f a g b call s))"
  by (auto simp: paths_call_def split: prod.split option.split bool.split dest!: ready_frames intro: ready_ok)

lemma fd_call_ok [keeps]:
  "(\<And>fd. files_ok s \<Longrightarrow> files_ok (snd (call fd s))) \<Longrightarrow> files_ok s \<Longrightarrow> files_ok (snd (with_fd f call s))"
  by (auto simp: with_fd_def split: option.split)

lemma with_mount_ok [keeps]: "files_ok s \<Longrightarrow> files_ok (snd (with_mount env path f s))"
  by (simp add: frame_with_mount)

lemmas [keeps] = with_path_ok

lemma access_ok [keeps]: "files_ok s \<Longrightarrow> files_ok (snd (generic_accessat env at path mode s))"
  by (metis access_only files_ok_shape only_world_shape)

lemma mknod_ok [keeps]: "files_ok s \<Longrightarrow> files_ok (snd (generic_mknod env path mode dev s))"
  by (metis mknod_only files_ok_shape only_world_shape)

lemma rmdir_ok [keeps]: "files_ok s \<Longrightarrow> files_ok (snd (generic_rmdirat env at path s))"
  by (metis rmdir_only files_ok_shape only_world_shape)

lemma link_ok: "ready s \<Longrightarrow> files_ok (snd (generic_linkat env a src b dst s))"
  unfolding generic_linkat_def by (intro with_path_ready with_mounts_ok)

lemma rename_ok: "ready s \<Longrightarrow> files_ok (snd (generic_renameat env a src b dst s))"
  unfolding generic_renameat_def by (intro with_path_ready) (simp_all add: with_mounts_ok ready_ok)

lemma set_owner_ok [keeps]:
  "(\<And>a t. files_ok t \<Longrightarrow> files_ok (snd (f a t))) \<Longrightarrow> files_ok s \<Longrightarrow> files_ok (snd (set_owner f owner grp s))"
  by (auto simp: set_owner_def split: prod.split if_split; metis snd_conv)

lemma fsetattr_ok [keeps]: "files_ok s \<Longrightarrow> files_ok (snd (fsetattr env fd a s))"
  by (auto simp: fsetattr_def split: option.split prod.split intro!: same_mounts_ok dest!: frames)

lemma install_new_ok [keeps]: "files_ok s \<Longrightarrow> files_ok (snd (install_new install fd s))"
  by (auto simp: install_new_def keeps split: prod.split dest!: frames)

lemma install_new_frame: "install_new install fd s = (r, t) \<Longrightarrow> files_ok s \<Longrightarrow> files_ok t"
  by (metis install_new_ok snd_conv)

lemma openat_frame: "generic_openat env at path flags mode s = (r, t) \<Longrightarrow> ready s \<Longrightarrow> files_ok t"
  by (metis openat_ok snd_conv)

lemma sys_openat_ok: "ready s \<Longrightarrow> files_ok (snd (sys_openat env f a flags mode s))"
proof -
  have "files_ok (snd (case generic_openat env at p flags mo t of (Inl err, s) \<Rightarrow> (err, s)
      | (Inr fd, s) \<Rightarrow> (case install_new (h fd s) fd s of (f, s) \<Rightarrow> (f, if P f then s\<lparr>vf_kern := k f s\<rparr> else s))))"
    if "ready t" for at p mo t h P k
    using that by (auto split: prod.split sum.split dest!: install_new_frame openat_frame)
  then show "ready s \<Longrightarrow> ?thesis"
    unfolding sys_openat_def by (intro path_call_ready)
qed

lemma vf_close_ok: "files_ok s \<Longrightarrow> files_ok (snd (vf_close f s))"
  by (auto simp: vf_close_def intro!: keeps)

lemma utimensat_ok: "files_ok s \<Longrightarrow> files_ok (snd (sys_utimensat env now f a ta flags s))"
  by (auto simp: sys_utimensat_def generic_utime_def Let_def keeps split: prod.split sum.split option.split dest!: frames)

lemma readlinkat_ok: "files_ok s \<Longrightarrow> files_ok (snd (sys_readlinkat env junk f a b n s))"
  by (auto simp: sys_readlinkat_def intro!: keeps split: prod.split sum.split dest!: frames)

lemma mkdirat_ok: "files_ok s \<Longrightarrow> files_ok (snd (sys_mkdirat env f a mode s))"
  by (auto simp: sys_mkdirat_def generic_mkdirat_def intro!: keeps)

lemma setattr_ok [keeps]: "files_ok s \<Longrightarrow> files_ok (snd (generic_setattrat env at p a follow s))"
  by (auto simp: generic_setattrat_def intro!: keeps)

lemma statfs_mount_ok: "files_ok s \<Longrightarrow> files_ok (snd (statfs_mount env m a s))"
  by (auto simp: statfs_mount_def split: prod.split option.split bool.split dest!: frames)

lemma take_mount_Some:
  "take_mount path s = (Some (m, p), t) \<Longrightarrow> \<exists>x. vf_mount s m = Some x \<and> t = ref_mount ((+) 1) m s"
  by (auto simp: take_mount_def split: if_splits option.splits)

lemma statfs_mount_shape: "shape (snd (statfs_mount env m a s)) = shape s"
  by (auto simp: statfs_mount_def split: prod.split option.split dest: shape_vwrite)

lemma statfs64_ok: "files_ok s \<Longrightarrow> files_ok (snd (sys_statfs64 env a b s))"
proof -
  have "files_ok (snd (case take_mount p t of (None, s) \<Rightarrow> (0, s)
      | (Some (m, _), s) \<Rightarrow> (case statfs_mount env m b s of (err, s) \<Rightarrow> (err, mount_release m s))))" if t: "files_ok t" for p t
  proof (cases "take_mount p t")
    case (Pair r u)
    show ?thesis
    proof (cases r)
      case (Some mq)
      obtain m q where "mq = (m, q)" by fastforce
      then have m: "take_mount p t = (Some (m, q), u)" using Some Pair by simp
      then obtain x where x: "vf_mount t m = Some x" "u = ref_mount ((+) 1) m t" using take_mount_Some by blast
      obtain e v where v: "statfs_mount env m b u = (e, v)" by fastforce
      then have "shape v = shape (ref_mount ((+) 1) m t)" using statfs_mount_shape[of env m b u] x(2) by simp
      then have "files_ok (mount_release m v)"
        by (intro release_ok[OF t _ _ _ _ x(1)]) (simp_all add: shape_def ref_mount_def)
      then show ?thesis using m v by simp
    qed (use Pair t files_ok_shape[OF take_mount_none] in auto)
  qed
  then show "files_ok s \<Longrightarrow> ?thesis"
    by (auto simp: sys_statfs64_def intro!: with_path_ok split: prod.split option.split dest!: frames)
qed

lemma read_ok [keeps]: "files_ok s \<Longrightarrow> files_ok (snd (sys_read env f a n s))"
  by (auto simp: sys_read_def Let_def intro!: keeps split: prod.split option.split bool.split dest!: frames)

lemma write_ok [keeps]: "files_ok s \<Longrightarrow> files_ok (snd (sys_write env f a n s))"
  by (auto simp: sys_write_def Let_def intro!: keeps split: prod.split option.split bool.split dest!: frames)

lemma readv_ok: "files_ok s \<Longrightarrow> files_ok (snd (readv_loop env f iov count s))"
proof (induction env f iov count s rule: readv_loop.induct)
  case (2 env f base len iov count s)
  obtain r t where r: "sys_read env f base len s = (r, t)" by fastforce
  then have "files_ok t" using 2(2) read_ok[of s env f base len] by simp
  then show ?case using 2(1)[OF r[symmetric] refl] r by (simp add: Let_def)
qed simp

lemma writev_ok: "files_ok s \<Longrightarrow> files_ok (snd (writev_loop env f iov count s))"
proof (induction env f iov count s rule: writev_loop.induct)
  case (2 env f base len iov count s)
  obtain r t where r: "sys_write env f base len s = (r, t)" by fastforce
  then have "files_ok t" using 2(2) write_ok[of s env f base len] by simp
  then show ?case using 2(1)[OF r[symmetric] refl] r by (simp add: Let_def)
qed simp

lemma frame_iovecs [frames]: "read_iovecs a n s = (r, t) \<Longrightarrow> files_ok t = files_ok s"
  by (auto simp: read_iovecs_def Let_def split: prod.splits option.splits if_splits bool.splits dest!: frames)

lemma vectors_ok: "files_ok s \<Longrightarrow> files_ok (snd (sys_readv env f a n s))" "files_ok s \<Longrightarrow> files_ok (snd (sys_writev env f a n s))"
  by (auto simp: sys_readv_def sys_writev_def split: prod.split sum.split intro!: writev_ok dest!: frame_iovecs)
    (metis readv_ok snd_conv)

lemma seek_ok: "files_ok s \<Longrightarrow> files_ok (snd (sys_llseek env f h l a whence s))"
  "files_ok s \<Longrightarrow> files_ok (snd (sys_lseek env f off whence s))"
  by (auto simp: sys_llseek_def sys_lseek_def intro!: keeps split: prod.split option.split bool.split dest!: frames)

lemma pread_ok: "files_ok s \<Longrightarrow> files_ok (snd (sys_pread env f a n off s))"
  by (auto simp: sys_pread_def Let_def intro!: keeps split: prod.split option.split bool.split dest!: frames)

lemma ioctl_ok: "files_ok s \<Longrightarrow> files_ok (snd (sys_ioctl env f cmd arg s))"
  by (auto simp: sys_ioctl_def fd_ioctl_def Let_def intro!: keeps split: prod.split option.split bool.split dest!: frames)

lemma fd_calls_ok:
  assumes "files_ok s"
  shows "files_ok (snd (sys_fsync env f s))" "files_ok (snd (sys_fchmod env f mode s))" "files_ok (snd (sys_fchown32 env f owner grp s))"
    "files_ok (snd (sys_ftruncate64 env f lo hi s))" "files_ok (snd (sys_fallocate env f m ol oh ll lh s))"
    "files_ok (snd (sys_fstatfs64 env f a s))" "files_ok (snd (sys_flock env f op_nr s))" "files_ok (snd (sys_fstat64 env pad f a s))"
  using assms
  by (auto simp: sys_fsync_def sys_fchmod_def sys_fchown32_def sys_ftruncate64_def sys_fallocate_def sys_fstatfs64_def sys_flock_def
      sys_fstat64_def put_stat_def Let_def intro!: keeps statfs_mount_ok split: prod.split sum.split option.split dest!: frames)

lemma getdents_loop_ok: "files_ok s \<Longrightarrow> files_ok (snd (getdents_loop env junk fd a n s))"
proof (induction env junk fd a n s rule: getdents_loop.induct)
  case (1 env junk fd a n s)
  let ?fo = "file_ops_of env fd s"
  show ?case
  proof (cases "fo_readdir ?fo")
    case None
    then show ?thesis using 1(2) by (simp add: getdents_loop.simps[of env junk fd a n s] Let_def)
  next
    case (Some rd)
    obtain r t where r: "on_world (rd fd) s = (r, t)" by fastforce
    then have t: "files_ok t" using 1(2) frame_on_world[OF r] by simp
    have "files_ok (snd (getdents_loop env junk fd b n' u))"
      if "r = Inr (Some e)" "\<not> n < 23 + length (de_name e)"
        "vwrite a (dirent_bytes junk (fo_telldir ?fo fd (vf_world t)) e) t = (0, u)"
        "b = a + of_nat (23 + length (de_name e))" "n' = n - (23 + length (de_name e))" for e u b n'
      using 1(1)[OF refl refl Some r[symmetric] _ _ refl refl] that t frame_vwrite[OF that(3)] by simp
    then show ?thesis
      using t by (auto simp: getdents_loop.simps[of env junk fd a n s] Let_def Some r split: sum.split option.split prod.split
          dest: frame_vwrite)
  qed
qed

lemma getdents_loop_frame: "getdents_loop env junk fd a n s = (r, t) \<Longrightarrow> files_ok s \<Longrightarrow> files_ok t"
  by (metis getdents_loop_ok snd_conv)

lemma getdents_ok: "files_ok s \<Longrightarrow> files_ok (snd (sys_getdents64 env junk f a n s))"
  by (auto simp: sys_getdents64_def intro!: keeps split: prod.split sum.split dest!: getdents_loop_frame)

lemma open_directory_ok: "open_directory env path s = (r, t) \<Longrightarrow> ready s \<Longrightarrow> files_ok t"
  by (auto simp: open_directory_def generic_open_def split: prod.splits sum.splits if_splits
      dest!: ready_frames dest: openat_frame intro: ready_ok)

lemma fs_chdir_ok: "files_ok s \<Longrightarrow> files_ok (fs_chdir fd s)"
  by (auto simp: fs_chdir_def intro: close_file_snd split: option.split)

lemma getcwd_ok: "files_ok s \<Longrightarrow> files_ok (snd (sys_getcwd env a n s))"
  by (auto simp: sys_getcwd_def split: option.split prod.split sum.split bool.split dest!: frames)

lemma chdir_ok: "ready s \<Longrightarrow> files_ok (snd (sys_chdir env a s))"
  by (auto simp: sys_chdir_def split: option.split prod.split sum.split dest!: ready_frames dest: open_directory_ok intro: ready_ok intro!: fs_chdir_ok)

lemma fchdir_ok: "files_ok s \<Longrightarrow> files_ok (snd (sys_fchdir f s))"
  by (auto simp: sys_fchdir_def intro!: keeps fs_chdir_ok)

lemma chroot_ok: "ready s \<Longrightarrow> files_ok (snd (sys_chroot env a s))"
  by (auto simp: sys_chroot_def split: option.split prod.split sum.split dest!: ready_frames dest: open_directory_ok intro: ready_ok intro!: close_file_snd)

lemma umask_ok: "files_ok s \<Longrightarrow> files_ok (snd (sys_umask n s))"
  by (auto simp: sys_umask_def split: option.split)

lemma stat_ok: "files_ok s \<Longrightarrow> files_ok (snd (sys_stat_path env pad f a b follow s))"
  by (auto simp: sys_stat_path_def put_stat_def intro!: keeps split: prod.split sum.split dest!: frames)

subsection \<open>Mounting\<close>

lemma set_insert_id [simp]: "set (insert_id len i js) = insert i (set js)"
  by (induction js) auto

lemma distinct_insert_id: "distinct js \<Longrightarrow> i \<notin> set js \<Longrightarrow> distinct (insert_id len i js)"
  by (induction js) auto

lemma sorted_insert_id:
  "sorted_wrt (\<lambda>i j. len j \<le> len i) js \<Longrightarrow> sorted_wrt (\<lambda>i j. len j \<le> (len i :: nat)) (insert_id len i js)"
  by (induction js) (auto intro: le_trans)

lemma add_mount_ok:
  fixes x :: mount
  assumes s: "files_ok s" and i: "vf_mount s i = None" "i < vf_next s"
  defines "t \<equiv> s\<lparr>vf_mount := (vf_mount s)(i \<mapsto> x)\<rparr>"
  shows "files_ok (t\<lparr>vf_mounts := insert_id (point_length t) i (vf_mounts s)\<rparr>)"
proof -
  let ?u = "t\<lparr>vf_mounts := insert_id (point_length t) i (vf_mounts s)\<rparr>"
  have new: "i \<notin> set (vf_mounts s)" using s i by (auto simp: files_ok_def)
  have l: "point_length ?u = point_length t" by (simp add: point_length_def fun_eq_iff)
  have same: "point_length t j = point_length s j" if "j \<in> set (vf_mounts s)" for j
    using that new by (auto simp: t_def point_length_def)
  have "sorted_wrt (\<lambda>i j. point_length s j \<le> point_length s i) (vf_mounts s)" using s by (simp add: files_ok_def)
  then have "sorted_wrt (\<lambda>i j. point_length t j \<le> point_length t i) (vf_mounts s)"
    by (rule sorted_wrt_mono_rel[rotated]) (simp add: same)
  then have sorted: "sorted_wrt (\<lambda>i j. point_length t j \<le> point_length t i) (vf_mounts ?u)" by (simp add: sorted_insert_id)
  have "mount_users i s = {}" using s i by (auto simp: files_ok_def)
  have u: "mount_users m ?u = mount_users m s" for m by (simp add: mount_users_def t_def)
  have "\<exists>x. vf_mount ?u m = Some x \<and> card (mount_users m ?u) \<le> unat (mnt_refcount x)" if "mount_users m ?u \<noteq> {}" for m
  proof -
    have "m \<noteq> i" using that u \<open>mount_users i s = {}\<close> by auto
    then show ?thesis using s that unfolding u files_ok_def by (simp add: t_def)
  qed
  then show ?thesis
    using s i new sorted unfolding files_ok_def l by (auto simp: t_def distinct_insert_id)
qed

lemma more_names_ok: "files_ok s \<Longrightarrow> n \<ge> vf_next s \<Longrightarrow> files_ok (s\<lparr>vf_next := n\<rparr>)"
  by (auto simp: files_ok_def mount_users_def point_length_def) (meson domI less_le_trans)

lemma fresh_name: "files_ok s \<Longrightarrow> vf_mount s (vf_next s) = None"
  unfolding files_ok_def by (meson domI less_irrefl option.exhaust)

lemma mount_fs_ok [keeps]:
  assumes "files_ok s"
  shows "files_ok (snd (mount_fs env fs source point s))"
proof -
  obtain b t where b: "on_kernel kmalloc s = (b, t)" by fastforce
  then have t: "files_ok t" using assms frame_on_kernel[OF b] by simp
  let ?i = "vf_next t" and ?t = "t\<lparr>vf_next := Suc (vf_next t)\<rparr>"
  let ?m = "\<lparr>mnt_point = point, mnt_source = source, mnt_fs = fs, mnt_refcount = 0\<rparr>"
  have ok: "files_ok (snd (if err < 0 then (err, u) else (let s = u\<lparr>vf_mount := (vf_mount u)(?i \<mapsto> ?m)\<rparr>
      in (0, s\<lparr>vf_mounts := insert_id (point_length s) ?i (vf_mounts s)\<rparr>))))" if "shape u = shape ?t" for err u
  proof -
    have "files_ok u" using more_names_ok[OF t, of "Suc ?i"] that files_ok_shape by auto
    moreover have "vf_mount u ?i = None"
      using fresh_name[OF t] that by (simp add: shape_def)
    moreover have "?i < vf_next u" using that by (simp add: shape_def)
    ultimately show ?thesis using add_mount_ok[of u ?i ?m] by (simp add: Let_def)
  qed
  obtain err u where u: "(case fs_mount (en_fs env fs) of None \<Rightarrow> (0, ?t) | Some f \<Rightarrow> on_world (f ?i source point) ?t) = (err, u)"
    by fastforce
  then have "shape u = shape ?t" by (auto simp: on_world_def split: option.splits prod.splits)
  note ok[OF this, of err]
  moreover have "mount_fs env fs source point s = (if b then if err < 0 then (err, u)
      else (let s = u\<lparr>vf_mount := (vf_mount u)(?i \<mapsto> ?m)\<rparr> in (0, s\<lparr>vf_mounts := insert_id (point_length s) ?i (vf_mounts s)\<rparr>))
      else (ENOMEM, t))"
    using u by (simp add: mount_fs_def b Let_def split: bool.split)
  ultimately show ?thesis using t by simp
qed

lemma remove_mount_ok:
  assumes s: "files_ok s"
  shows "files_ok (snd (remove_mount env i s))"
proof -
  have "files_ok (s\<lparr>vf_world := w, vf_mounts := remove1 i (vf_mounts s), vf_mount := (vf_mount s)(i := None)\<rparr>)"
    (is "files_ok ?t") if "vf_mount s i = Some x" "mnt_refcount x = 0" for w x
  proof -
    have u: "mount_users m ?t = mount_users m s" for m by (simp add: mount_users_def)
    have "mount_users i s = {}"
    proof (rule ccontr)
      assume "mount_users i s \<noteq> {}"
      then have "card (mount_users i s) \<le> unat (mnt_refcount x)" using s that(1) unfolding files_ok_def by fastforce
      then show False using that(2) finite_users[OF s, of i] \<open>mount_users i s \<noteq> {}\<close> by simp
    qed
    then have "\<exists>x. vf_mount ?t m = Some x \<and> card (mount_users m ?t) \<le> unat (mnt_refcount x)" if "mount_users m ?t \<noteq> {}" for m
      using s that unfolding u files_ok_def by auto
    moreover have "sorted_wrt (\<lambda>i j. point_length ?t j \<le> point_length ?t i) (remove1 i (vf_mounts s))"
    proof -
      have "sorted_wrt (\<lambda>i j. point_length s j \<le> point_length s i) (remove1 i (vf_mounts s))"
        using s by (simp add: files_ok_def distinct_remove1_removeAll removeAll_filter_not_eq sorted_wrt_filter)
      moreover have "point_length ?t j = point_length s j" if "j \<in> set (remove1 i (vf_mounts s))" for j
        using that s by (auto simp: point_length_def files_ok_def)
      ultimately show ?thesis by (elim sorted_wrt_mono_rel[rotated]) simp
    qed
    ultimately show ?thesis
      using s by (auto simp: files_ok_def)
  qed
  then show ?thesis using s by (auto simp: remove_mount_def split: option.split)
qed

lemma mount_ok: "files_ok s \<Longrightarrow> files_ok (snd (sys_mount env a b c flags s))"
  by (auto simp: sys_mount_def intro!: keeps split: option.split prod.split sum.split dest!: frames)

lemma umount_ok: "files_ok s \<Longrightarrow> files_ok (snd (sys_umount2 env a flags s))"
  by (auto simp: sys_umount2_def umount_point_def intro!: keeps remove_mount_ok split: option.split prod.split sum.split dest!: frames)

subsection \<open>Pipes\<close>

lemma pipe_create_ok: "pipe_f_create env h flags s = (r, t) \<Longrightarrow> files_ok s \<Longrightarrow> files_ok t"
proof -
  assume p: "pipe_f_create env h flags s = (r, t)" "files_ok s"
  obtain fd u where u: "new_file None (Fs_file (en_real env)) s = (fd, u)" by fastforce
  then have "files_ok u" using new_file_ok p(2) by blast
  then have "files_ok (u\<lparr>vf_file := (vf_file u)(fd := map_option (\<lambda>x. x\<lparr>fl_real := Some h\<rparr>) (vf_file u fd))\<rparr>)"
    by (cases "vf_file u fd") (auto simp: fun_upd_idem intro: same_mounts_ok)
  then show "files_ok t" using p(1) u by (auto simp: pipe_f_create_def dest: install_new_frame)
qed

lemma pipe_ok: "files_ok s \<Longrightarrow> files_ok (snd (sys_pipe2 env host a flags s))"
  by (auto simp: sys_pipe2_def Let_def intro!: vf_close_ok split: option.split prod.split sum.split if_split
      dest: pipe_create_ok dest!: frames)

subsection \<open>Any sequence of calls\<close>

text \<open>One call of a process, or anything that the rest of the system does to the kernel and
to the file systems below. The calls left out are instances of these.\<close>

inductive file_step :: "'w env \<Rightarrow> 'w vfs \<Rightarrow> 'w vfs \<Rightarrow> bool" for env :: "'w env" where
  Others: "file_step env s (s\<lparr>vf_kern := k, vf_world := w\<rparr>)"
| Openat: "file_step env s (snd (sys_openat env f a flags mode s))"
| Close: "file_step env s (snd (vf_close f s))"
| Accessat: "file_step env s (snd (sys_faccessat env f a mode flags s))"
| Readlinkat: "file_step env s (snd (sys_readlinkat env junk f a b n s))"
| Linkat: "file_step env s (snd (sys_linkat env f a g b s))"
| Unlinkat: "file_step env s (snd (sys_unlinkat env f a flags s))"
| Renameat: "file_step env s (snd (sys_renameat env f a g b s))"
| Symlinkat: "file_step env s (snd (sys_symlinkat env a f b s))"
| Mknod: "file_step env s (snd (sys_mknod env a mode dev s))"
| Mkdirat: "file_step env s (snd (sys_mkdirat env f a mode s))"
| Rmdir: "file_step env s (snd (sys_rmdir env a s))"
| Utimensat: "file_step env s (snd (sys_utimensat env now f a b flags s))"
| Fchmodat: "file_step env s (snd (sys_fchmodat env f a wide flags s))"
| Fchownat: "file_step env s (snd (sys_fchownat env f a owner grp flags s))"
| Truncate: "file_step env s (snd (sys_truncate64 env a lo hi s))"
| Statfs: "file_step env s (snd (sys_statfs64 env a b s))"
| Read: "file_step env s (snd (sys_read env f a n s))"
| Write: "file_step env s (snd (sys_write env f a n s))"
| Readv: "file_step env s (snd (sys_readv env f a n s))"
| Writev: "file_step env s (snd (sys_writev env f a n s))"
| Llseek: "file_step env s (snd (sys_llseek env f hi lo a whence s))"
| Lseek: "file_step env s (snd (sys_lseek env f lo whence s))"
| Pread: "file_step env s (snd (sys_pread env f a n off s))"
| Ioctl: "file_step env s (snd (sys_ioctl env f cmd a s))"
| Fsync: "file_step env s (snd (sys_fsync env f s))"
| Fchmod: "file_step env s (snd (sys_fchmod env f wide s))"
| Fchown: "file_step env s (snd (sys_fchown32 env f owner grp s))"
| Ftruncate: "file_step env s (snd (sys_ftruncate64 env f lo hi s))"
| Fallocate: "file_step env s (snd (sys_fallocate env f wide ol oh ll lh s))"
| Fstatfs: "file_step env s (snd (sys_fstatfs64 env f a s))"
| Flock: "file_step env s (snd (sys_flock env f cmd s))"
| Getcwd: "file_step env s (snd (sys_getcwd env a n s))"
| Chdir: "file_step env s (snd (sys_chdir env a s))"
| Fchdir: "file_step env s (snd (sys_fchdir f s))"
| Chroot: "file_step env s (snd (sys_chroot env a s))"
| Umask: "file_step env s (snd (sys_umask wide s))"
| Stat: "file_step env s (snd (sys_stat_path env pad f a b follow s))"
| Fstat: "file_step env s (snd (sys_fstat64 env pad f a s))"
| Getdents: "file_step env s (snd (sys_getdents64 env junk f a n s))"
| Mount: "file_step env s (snd (sys_mount env a b c flags s))"
| Umount: "file_step env s (snd (sys_umount2 env a flags s))"
| Pipe: "file_step env s (snd (sys_pipe2 env host a flags s))"

lemma path_calls_ok:
  assumes "files_ok s"
  shows "files_ok (snd (sys_faccessat env f a mode flags s))" "files_ok (snd (sys_unlinkat env f a flags s))"
    "files_ok (snd (sys_symlinkat env a f b s))" "files_ok (snd (sys_mknod env a mode dev s))" "files_ok (snd (sys_rmdir env a s))"
    "files_ok (snd (sys_fchmodat env f a wide flags s))" "files_ok (snd (sys_fchownat env f a owner grp flags s))"
    "files_ok (snd (sys_truncate64 env a lo hi s))"
  using assms
  by (auto simp: sys_faccessat_def sys_unlinkat_def sys_symlinkat_def sys_mknod_def sys_rmdir_def
      sys_fchmodat_def sys_fchownat_def sys_truncate64_def generic_unlinkat_def generic_symlinkat_def
      intro!: keeps split: prod.split option.split dest!: frames)

lemma paths_calls_ok:
  assumes "ready s"
  shows "files_ok (snd (sys_linkat env f a g b s))" "files_ok (snd (sys_renameat env f a g b s))"
  unfolding sys_linkat_def sys_renameat_def
  by (rule paths_call_ready[OF link_ok assms], assumption) (rule paths_call_ready[OF rename_ok assms], assumption)

lemma file_step_ok: "file_step env s t \<Longrightarrow> ready s \<Longrightarrow> files_ok t"
  by (induction rule: file_step.induct)
    (simp_all add: ready_ok sys_openat_ok vf_close_ok path_calls_ok paths_calls_ok readlinkat_ok mkdirat_ok utimensat_ok statfs64_ok read_ok write_ok
      vectors_ok seek_ok pread_ok ioctl_ok fd_calls_ok getcwd_ok chdir_ok fchdir_ok chroot_ok umask_ok stat_ok getdents_ok
      mount_ok umount_ok pipe_ok)

lemma file_steps_ok: "(\<lambda>s t. unwrapped s \<and> file_step env s t)\<^sup>*\<^sup>* s t \<Longrightarrow> files_ok s \<Longrightarrow> files_ok t"
  by (induction rule: rtranclp_induct) (auto simp: ready_def intro: file_step_ok)

text \<open>Why the counts must not be at their end.\<close>

lemma wrapped_mount_is_freed:
  assumes "files_ok s" "vf_mount s m = Some x" "mnt_refcount x = - 1"
  shows "\<exists>t. remove_mount env m (ref_mount ((+) 1) m s) = (0, t) \<and> vf_mount t m = None \<and> vf_file t = vf_file s"
  using assms by (simp add: remove_mount_def ref_mount_def)

end
