(* ===== verification/Files_Open.thy ===== *)
theory Files_Open
  imports Files_Inv Fd_Facts
begin

text \<open>
  Opening a file, with the descriptor table: the counts of open files stay right, and
  the new file is behind the descriptor that is returned, or has left nothing.
\<close>

definition fds_of :: "'w vfs \<Rightarrow> fds" where
  "fds_of s = task_fds (vf_kern s)"

text \<open>What opening a file leaves alone until there is a file.\<close>

definition hushed :: "'w vfs \<Rightarrow> 'w vfs \<Rightarrow> bool" where
  "hushed s t \<longleftrightarrow> fds_of t = fds_of s \<and> vf_file t = vf_file s"

lemma quiet_trans: "hushed s t \<Longrightarrow> hushed t u \<Longrightarrow> hushed s u"
  by (simp add: hushed_def)

lemma quiet_simps [simp]:
  "hushed s s" "hushed s (vbad t) = hushed s t" "hushed s (t\<lparr>vf_world := w\<rparr>) = hushed s t" "hushed s (ref_mount f i t) = hushed s t"
  by (auto simp: hushed_def fds_of_def vbad_def kbad_def task_fds_def cur_task_def get_task_def cur_group_def ref_mount_def)

lemma vbad_sel [simp]: "vf_mount (vbad s) = vf_mount s" "vf_file (vbad s) = vf_file s" "fds_of (vbad s) = fds_of s"
  using quiet_simps(2)[of s s] by (simp_all add: vbad_def hushed_def)

lemma quiet_vstring: "vstring a n s = (r, t) \<Longrightarrow> hushed s t \<and> vf_mount t = vf_mount s"
  by (auto simp: vstring_def cur_vm_def on_kernel_def on_vm_def hushed_def fds_of_def vbad_def kbad_def task_fds_def cur_task_def
      get_task_def cur_group_def split: prod.splits if_splits)

lemma quiet_world: "on_world f s = (r, t) \<Longrightarrow> hushed s t \<and> vf_mount t = vf_mount s"
  by (auto simp: on_world_def split: prod.splits)

lemma quiet_normalize: "normalize env at path follow s = (r, t) \<Longrightarrow> hushed s t \<and> vf_mount t = vf_mount s"
  by (auto simp: normalize_def split: if_splits option.splits path_result.splits)

lemma quiet_take: "take_mount path s = (r, t) \<Longrightarrow> hushed s t"
  by (auto simp: take_mount_def split: if_splits option.splits)

lemma task_fds_same:
  "fd_current x = fd_current (task_fds k) \<Longrightarrow> fd_nofile x = fd_nofile (task_fds k) \<Longrightarrow> task_fds (k\<lparr>k_fds := x\<rparr>) = x"
  by (simp add: task_fds_def cur_task_def get_task_def cur_group_def)

lemma on_fds_of:
  assumes "on_kernel (on_fds f) s = (r, t)" "f (fds_of s) = (r', x)" "fd_current x = fd_current (fds_of s)" "fd_nofile x = fd_nofile (fds_of s)"
  shows "r = r' \<and> fds_of t = x \<and> vf_file t = vf_file s \<and> vf_mount t = vf_mount s"
  using assms task_fds_same[of x "vf_kern s"] by (auto simp: on_kernel_def on_fds_def fds_of_def)

lemma new_file_fds:
  assumes "new_file m x s = (fd, t)"
  shows "fd_create (fds_of s) = (fd, fds_of t)" "vf_file t = (vf_file s)(fd \<mapsto> \<lparr>fl_mount = m, fl_kind = x, fl_stat = zero_stat, fl_real = None\<rparr>)"
    "vf_mount t = vf_mount s"
proof -
  obtain u where u: "on_kernel (on_fds fd_create) s = (fd, u)" "t = u\<lparr>vf_file := (vf_file u)(fd \<mapsto> \<lparr>fl_mount = m, fl_kind = x, fl_stat = zero_stat, fl_real = None\<rparr>)\<rparr>"
    using assms by (auto simp: new_file_def split: prod.splits)
  obtain fd' y where y: "fd_create (fds_of s) = (fd', y)" by fastforce
  have "fd = fd' \<and> fds_of u = y \<and> vf_file u = vf_file s \<and> vf_mount u = vf_mount s"
    by (rule on_fds_of[OF u(1) y]) (use y in \<open>auto simp: fd_create_def\<close>)
  then show "fd_create (fds_of s) = (fd, fds_of t)" "vf_file t = (vf_file s)(fd \<mapsto> \<lparr>fl_mount = m, fl_kind = x, fl_stat = zero_stat, fl_real = None\<rparr>)"
      "vf_mount t = vf_mount s"
    using y u(2) by (simp_all add: fds_of_def)
qed

text \<open>Opening a terminal leaves the descriptors alone.\<close>

definition tty_quiet :: "'w env \<Rightarrow> bool" where
  "tty_quiet env \<longleftrightarrow> (\<forall>ma mi fd k. task_fds (snd (en_tty_open env ma mi fd k)) = task_fds k)"

lemma set_kind_fds [simp]:
  "fds_of (set_kind fd x s) = fds_of s" "vf_mount (set_kind fd x s) = vf_mount s"
  by (simp_all add: set_kind_def fds_of_def)

lemma dev_open_fds:
  assumes "tty_quiet env" "dev_open env major minor char fd s = (r, t)" "vf_file s fd = Some x"
  shows "fds_of t = fds_of s \<and> vf_mount t = vf_mount s \<and> (\<exists>y. vf_file t = (vf_file s)(fd \<mapsto> y) \<and> fl_mount y = fl_mount x)"
proof -
  have s: "\<exists>y. vf_file (set_kind fd c s) = (vf_file s)(fd \<mapsto> y) \<and> fl_mount y = fl_mount x"
       "\<exists>y. vf_file (set_kind fd d (set_kind fd c s)) = (vf_file s)(fd \<mapsto> y) \<and> fl_mount y = fl_mount x"
       "\<exists>y. vf_file s = (vf_file s)(fd \<mapsto> y) \<and> fl_mount y = fl_mount x" for c d
    using assms(3) fun_upd_idem[of "vf_file s" fd "Some x"] by (auto simp: set_kind_def intro: exI[of _ x])
  have tty: "fds_of (snd (on_kernel (en_tty_open env ma mi fd) u)) = fds_of u \<and> vf_mount (snd (on_kernel (en_tty_open env ma mi fd) u)) = vf_mount u
      \<and> vf_file (snd (on_kernel (en_tty_open env ma mi fd) u)) = vf_file u" for ma mi and u :: "'a vfs"
    using assms(1) by (auto simp: tty_quiet_def on_kernel_def fds_of_def split: prod.split) (metis snd_conv)
  have "t = snd (dev_open env major minor char fd s)" using assms(2) by simp
  then show ?thesis
    using s tty by (auto simp: dev_open_def mem_open_def split: option.split)
qed

lemma close_new:
  assumes "fds_ok (held(fd := 1)) (fds_of s)" "fd_refs (fds_of s) fd = {}"
  shows "fds_ok (held(fd := 0)) (fds_of (snd (close_file fd s)))"
    "vf_file (snd (close_file fd s)) = (vf_file s)(fd := None)" "vf_mount (snd (close_file fd s)) = vf_mount s"
proof -
  have c: "count_at (fd_heap (fds_of s) fd) {} 1"
    using fds_ok_count_at[OF assms(1), of fd] assms(2) by simp
  then obtain y where y: "fd_heap (fds_of s) fd = Some y" "fd_refcount y = 1" by (auto simp: count_at_def split: option.splits)
  then have last: "last_ref fd s" by (simp add: last_ref_def fds_of_def task_fds_def)
  let ?s = "drop_file fd s"
  have d: "fds_of ?s = fds_of s" "vf_file ?s = (vf_file s)(fd := None)" "vf_mount ?s = vf_mount s"
    by (auto simp: drop_file_def fds_of_def fun_upd_idem split: option.split)
  obtain r t where t: "on_kernel (on_fds (fd_close (k_ops (vf_kern s)) fd)) ?s = (r, t)" by fastforce
  obtain r' x where x: "fd_close (k_ops (vf_kern s)) fd (fds_of ?s) = (r', x)" by fastforce
  have x': "x = snd (fd_close (k_ops (vf_kern s)) fd (fds_of s))" using x d(1) by simp
  have "fds_of t = x \<and> vf_file t = vf_file ?s \<and> vf_mount t = vf_mount ?s"
    using on_fds_of[OF t x] fd_close_frame(2,3)[of "k_ops (vf_kern s)" fd "fds_of s"] d(1) x' by simp
  moreover have "fds_ok (held(fd := 0)) x"
    using fd_close_ok[OF assms(1), of fd "k_ops (vf_kern s)"] x' by simp
  ultimately show "fds_ok (held(fd := 0)) (fds_of (snd (close_file fd s)))"
      "vf_file (snd (close_file fd s)) = (vf_file s)(fd := None)" "vf_mount (snd (close_file fd s)) = vf_mount s"
    using t d last by (simp_all add: close_file_def)
qed

lemma close_limit: "limit_ok (fds_of (snd (close_file fd s))) = limit_ok (fds_of s)"
proof -
  let ?s = "if last_ref fd s then drop_file fd s else s"
  have d: "fds_of ?s = fds_of s" by (auto simp: drop_file_def fds_of_def split: option.split)
  obtain r t where t: "on_kernel (on_fds (fd_close (k_ops (vf_kern s)) fd)) ?s = (r, t)" by fastforce
  obtain r' x where x: "fd_close (k_ops (vf_kern s)) fd (fds_of ?s) = (r', x)" by fastforce
  have x': "x = snd (fd_close (k_ops (vf_kern s)) fd (fds_of s))" using x d by simp
  have "fds_of t = x" using on_fds_of[OF t x] d x' by simp
  then show ?thesis using t x' by (simp add: close_file_def limit_ok_def)
qed

text \<open>A file that has just been made, and is nowhere but in the hands of the caller.\<close>

definition made :: "(nat \<Rightarrow> nat) \<Rightarrow> 'w vfs \<Rightarrow> nat \<Rightarrow> nat \<Rightarrow> 'w vfs \<Rightarrow> bool" where
  "made held s m fd t \<longleftrightarrow> fds_ok (held(fd := 1)) (fds_of t) \<and> held fd = 0 \<and> fd_refs (fds_of t) fd = {} \<and>
     fd_heap (fds_of s) fd = None \<and> limit_ok (fds_of t) \<and> vf_mount t = vf_mount (ref_mount ((+) 1) m s) \<and>
     (\<exists>x. vf_file t = (vf_file s)(fd \<mapsto> x) \<and> fl_mount x = Some m)"

definition gone :: "(nat \<Rightarrow> nat) \<Rightarrow> 'w vfs \<Rightarrow> 'w vfs \<Rightarrow> bool" where
  "gone held s t \<longleftrightarrow> fds_ok held (fds_of t) \<and> limit_ok (fds_of t) \<and> vf_file t = vf_file s"

lemma new_made:
  assumes "fds_ok held (fds_of s)" "limit_ok (fds_of s)" "hushed s u" "vf_mount u = vf_mount (ref_mount ((+) 1) m s)"
    "new_file (Some m) k u = (fd, t)"
  shows "made held s m fd t"
proof -
  note new = new_file_fds[OF assms(5)]
  have u: "fds_of u = fds_of s" "vf_file u = vf_file s" using assms(3) by (simp_all add: hushed_def)
  have c: "fd_create (fds_of s) = (fd, fds_of t)" using new(1) u by simp
  then have t: "fds_of t = snd (fd_create (fds_of s))" by simp
  have none: "fd_heap (fds_of s) fd = None" using c assms(1) by (auto simp: fd_create_def fds_ok_def)
  then have "fd_refs (fds_of s) fd = {}" using fds_ok_count_at[OF assms(1), of fd] by (simp add: count_at_def)
  moreover have "fd_refs (fds_of t) = fd_refs (fds_of s)" "limit_ok (fds_of t) = limit_ok (fds_of s)"
    using t by (simp_all add: fd_create_def fd_refs_def limit_ok_def cur_def fun_eq_iff)
  ultimately show ?thesis
    using fd_create_ok[OF assms(1) c] assms(2,4) none new(2,3) u by (auto simp: made_def)
qed

lemma made_dev:
  assumes "made held s m fd t" "tty_quiet env" "dev_open env major minor char fd t = (e, u)"
  shows "made held s m fd u"
proof -
  obtain x where x: "vf_file t = (vf_file s)(fd \<mapsto> x)" "fl_mount x = Some m" using assms(1) by (auto simp: made_def)
  then show ?thesis
    using dev_open_fds[OF assms(2,3), of x] assms(1) by (auto simp: made_def)
qed

lemma made_close:
  assumes "made held s m fd t" "dom (vf_file s) \<subseteq> dom (fd_heap (fds_of s))"
  shows "gone held s (snd (close_file fd t))"
proof -
  have m: "fds_ok (held(fd := 1)) (fds_of t)" "held fd = 0" "fd_refs (fds_of t) fd = {}" "fd_heap (fds_of s) fd = None"
    using assms(1) by (simp_all add: made_def)
  have "held(fd := 0) = held" using m(2) by auto
  moreover have "vf_file s fd = None" using m(4) assms(2) by auto
  ultimately show ?thesis
    using close_new[OF m(1,3)] assms(1) close_limit[of fd t] by (auto simp: gone_def made_def)
qed

lemma made_open:
  assumes "made held s m fd t" "dom (vf_file s) \<subseteq> dom (fd_heap (fds_of s))" "tty_quiet env"
  shows "case open_device env fd st t of (Inl _, u) \<Rightarrow> gone held s u | (Inr fd', u) \<Rightarrow> fd' = fd \<and> made held s m fd u"
proof (cases "\<not> S_ISLNK (st_mode st) \<and> (S_ISBLK (st_mode st) \<or> S_ISCHR (st_mode st))")
  case False
  then show ?thesis using assms(1) by (auto simp: open_device_def made_def)
next
  case True
  let ?dev = "ucast (st_rdev st) :: dword_t"
  obtain e u where u: "dev_open env (unat (dev_major ?dev)) (unat (dev_minor ?dev)) (S_ISCHR (st_mode st)) fd t = (e, u)"
    by fastforce
  note m = made_dev[OF assms(1,3) u]
  have "open_device env fd st t = (if e < 0 then (Inl e, snd (close_file fd u)) else (Inr fd, u))"
    using True u unfolding open_device_def Let_def by simp
  then show ?thesis using m made_close[OF m assms(2)] by simp
qed

lemma gone_quiet: "fds_ok held (fds_of s) \<Longrightarrow> limit_ok (fds_of s) \<Longrightarrow> hushed s t \<Longrightarrow> gone held s t"
  by (simp add: gone_def hushed_def)

lemma openat_made:
  assumes ok: "fds_ok held (fds_of s)" "limit_ok (fds_of s)" "dom (vf_file s) \<subseteq> dom (fd_heap (fds_of s))" "tty_quiet env"
  shows "case generic_openat env at path flags mode s of
     (Inl _, t) \<Rightarrow> gone held s t | (Inr fd, t) \<Rightarrow> \<exists>m. made held s m fd t"
proof (cases "normalize env at path True s")
  case (Pair r t)
  note n = Pair quiet_normalize[OF Pair]
  show ?thesis
  proof (cases r)
    case (Inl e)
    then show ?thesis using n gone_quiet[OF ok(1,2)] by (simp add: generic_openat_def)
  next
    case (Inr p)
    note In = Inr
    obtain r u where p: "take_mount p t = (r, u)" by fastforce
    have u: "hushed s u" using n(2) quiet_take[OF p] quiet_trans by blast
    show ?thesis
    proof (cases r)
      case None
      then show ?thesis using n Inr p gone_quiet[OF ok(1,2) u] by (simp add: generic_openat_def)
    next
      case (Some mq)
      obtain m q where "mq = (m, q)" by fastforce
      then have m: "take_mount p t = (Some (m, q), u)" using Some p by simp
      then have mu: "vf_mount u = vf_mount (ref_mount ((+) 1) m s)"
        using take_mount_Some[OF m] n(2) by (auto simp: ref_mount_def)
      show ?thesis
      proof (cases "mount_ops env m u")
        case None
        then show ?thesis using n Inr m gone_quiet[OF ok(1,2) u] by (simp add: generic_openat_def gone_def)
      next
        case (Some fs)
        obtain r v where v: "on_world (fs_open fs m (fd_next (k_fds (vf_kern u))) q flags mode) u = (r, v)" by fastforce
        have sv: "hushed s v" "vf_mount v = vf_mount (ref_mount ((+) 1) m s)" using quiet_world[OF v] u mu quiet_trans by auto
        show ?thesis
        proof (cases r)
          case (Inl e)
          then show ?thesis using n Inr m Some v gone_quiet[OF ok(1,2) sv(1)] by (simp add: generic_openat_def)
        next
          case Ops: (Inr ops)
          obtain fd w where w: "new_file (Some m) (Fs_file ops) v = (fd, w)" by fastforce
          note made = new_made[OF ok(1,2) sv w]
          obtain r x where x: "fstat env fd w = (r, x)" by fastforce
          have made: "made held s m fd x" using x made by (auto simp: fstat_def made_def split: option.splits)
          show ?thesis
          proof (cases r)
            case (Inl e)
            then show ?thesis using n In m Some v Ops w x made by (auto simp: generic_openat_def)
          next
            case St: (Inr st)
            then show ?thesis
              using n In m Some v Ops w x St made_open[OF made ok(3,4), of st]
              by (auto simp: generic_openat_def split: prod.splits sum.splits)
          qed
        qed
      qed
    qed
  qed
qed

subsection \<open>The call\<close>

definition same_limits :: "fds \<Rightarrow> fds \<Rightarrow> bool" where
  "same_limits s t \<longleftrightarrow> fd_current t = fd_current s \<and> fd_nofile t = fd_nofile s"

lemma same_limits_simps:
  "same_limits s (snd (host_malloc s))" "same_limits s (upd_table i f s)" "same_limits s (bad s)" "same_limits s s"
  "same_limits s (put_slot sl x s)" "same_limits s (put_cloexec sl b s)" "same_limits s (snd (fd_close ops fd s))"
  by (auto simp: same_limits_def host_malloc_def upd_table_def bad_def put_slot_def put_cloexec_def split: option.split)

lemma same_limits_trans: "same_limits s t \<Longrightarrow> same_limits t u \<Longrightarrow> same_limits s u"
  by (simp add: same_limits_def)

lemma malloc_limits: "host_malloc s = (b, t) \<Longrightarrow> fd_current t = fd_current s \<and> fd_nofile t = fd_nofile s"
  by (auto simp: host_malloc_def)

lemma resize_limits: "same_limits s (snd (fdtable_resize i n s))"
  by (auto simp: same_limits_def fdtable_resize_def upd_table_def bad_def split: option.split prod.split bool.split dest!: malloc_limits)

lemma expand_limits: "same_limits s (snd (fdtable_expand hi s))"
  by (auto simp: fdtable_expand_def Let_def same_limits_simps resize_limits split: option.split)

lemma pick_limits: "same_limits s (snd (pick_slot start s))"
  using expand_limits[of s]
  by (auto simp: pick_slot_def Let_def same_limits_simps split: option.split prod.split) (metis snd_conv)+

lemma install_limits: "same_limits s (snd (f_install ops fd s))"
proof -
  obtain r t where t: "pick_slot 0 s = (r, t)" by fastforce
  then have "same_limits s t" using pick_limits[of s 0] by simp
  then show ?thesis
    using t by (auto simp: f_install_def f_install_start_def) (metis same_limits_trans same_limits_simps(5,6,7))+
qed

lemma install_made:
  assumes m: "made held s m fd t" and dom: "dom (vf_file s) \<subseteq> dom (fd_heap (fds_of s))"
    and r: "install_new (on_fds (f_install ops fd)) fd t = (d, u)"
  shows "fds_ok held (fds_of u) \<and> limit_ok (fds_of u) \<and>
    (if d < 0 then vf_file u = vf_file s
     else f_get (word_of_int d) (fds_of u) = Some fd \<and> vf_file u = vf_file t \<and> vf_mount u = vf_mount t)"
proof -
  have ok: "fds_ok (held(fd := 1)) (fds_of t)" "limit_ok (fds_of t)" "held fd = 0" "fd_heap (fds_of s) fd = None"
    using m by (simp_all add: made_def)
  obtain w where w: "on_kernel (on_fds (f_install ops fd)) t = (d, w)" "u = (if d < 0 then drop_file fd w else w)"
    using r by (auto simp: install_new_def split: prod.splits)
  obtain d' x where x: "f_install ops fd (fds_of t) = (d', x)" by fastforce
  have "same_limits (fds_of t) x" using install_limits[of "fds_of t" ops fd] x by simp
  then have k: "d = d'" "fds_of w = x" "vf_file w = vf_file t" "vf_mount w = vf_mount t"
    using on_fds_of[OF w(1) x] by (simp_all add: same_limits_def)
  have "(held(fd := 1))(fd := (held(fd := 1)) fd - 1) = held" using ok(3) by auto
  then have ins: "fds_ok held x \<and> limit_ok x \<and> (d' \<ge> 0 \<longrightarrow> f_get (word_of_int d') x = Some fd)"
    using f_install_start_ok[OF ok(1,2) _ x[unfolded f_install_def]] by simp
  show ?thesis
  proof (cases "d < 0")
    case True
    have none: "vf_file s fd = None" using ok(4) dom by auto
    obtain y where "vf_file t = (vf_file s)(fd \<mapsto> y)" using m by (auto simp: made_def)
    then have "vf_file (drop_file fd w) = vf_file s" "fds_of (drop_file fd w) = fds_of w"
      using k(3) none by (simp_all add: drop_file_def fds_of_def fun_upd_idem)
    then show ?thesis using True w(2) k ins by simp
  qed (use w(2) k ins in simp)
qed

lemma cloexec_made:
  assumes "fds_ok held (fds_of u)" "f_get f (fds_of u) = Some fd"
  defines "v \<equiv> u\<lparr>vf_kern := do_fds (put_cloexec f True) (vf_kern u)\<rparr>"
  shows "fds_of v = put_cloexec f True (fds_of u)" "fds_ok held (fds_of v)" "limit_ok (fds_of v) = limit_ok (fds_of u)"
    "f_get f (fds_of v) = Some fd"
proof -
  have "same_limits (fds_of u) (put_cloexec f True (fds_of u))" by (rule same_limits_simps)
  then show v: "fds_of v = put_cloexec f True (fds_of u)"
    using task_fds_same[of "put_cloexec f True (fds_of u)" "vf_kern u"]
    by (simp add: v_def fds_of_def do_fds_def same_limits_def)
  show "fds_ok held (fds_of v)" "f_get f (fds_of v) = Some fd"
    using put_cloexec_ok[OF assms(1), where b = True] assms(2) v by simp_all
  show "limit_ok (fds_of v) = limit_ok (fds_of u)"
    unfolding v using assms(2) by (auto simp: limit_ok_def put_cloexec_def upd_table_def cur_def f_get_def split: option.splits)
qed

lemma quiet_made:
  assumes "hushed s u" "vf_mount u = vf_mount s"
  shows "gone held u t = gone held s t" "made held u m fd t = made held s m fd t"
  using assms by (simp_all add: hushed_def gone_def made_def ref_mount_def)

lemma sys_openat_opens:
  assumes ok: "fds_ok held (fds_of s)" "limit_ok (fds_of s)" "dom (vf_file s) \<subseteq> dom (fd_heap (fds_of s))" "tty_quiet env"
    and r: "sys_openat env f a flags mode s = (d, t)"
  shows "fds_ok held (fds_of t) \<and> limit_ok (fds_of t) \<and>
    (vf_file t = vf_file s \<or>
     (\<exists>fd m x. 0 \<le> d \<and> f_get (word_of_int d) (fds_of t) = Some fd \<and> fd_heap (fds_of s) fd = None \<and>
        vf_file t = (vf_file s)(fd \<mapsto> x) \<and> fl_mount x = Some m \<and> vf_mount t = vf_mount (ref_mount ((+) 1) m s)))"
proof -
  obtain q u where q: "vstring a MAX_PATH s = (q, u)" by fastforce
  note u = quiet_vstring[OF q]
  have early: ?thesis if "hushed s t"
    using gone_quiet[OF ok(1,2) that] by (simp add: gone_def)
  show ?thesis
  proof (cases q)
    case None
    then show ?thesis using early r q u by (simp add: sys_openat_def path_call_def)
  next
    case (Some path)
    show ?thesis
    proof (cases "at_of f u")
      case None
      then show ?thesis using early r q u Some by (simp add: sys_openat_def path_call_def)
    next
      case at: (Some at)
      define mo where "mo = (if has flags O_CREAT then apply_umask mode u else mode)"
      obtain e v where v: "generic_openat env at path flags mo u = (e, v)" by fastforce
      have u': "fds_ok held (fds_of u)" "limit_ok (fds_of u)" "dom (vf_file u) \<subseteq> dom (fd_heap (fds_of u))"
        using ok u by (simp_all add: hushed_def)
      note o = openat_made[OF u' ok(4), of at path flags mo, unfolded v]
      show ?thesis
      proof (cases e)
        case (Inl err)
        then show ?thesis
          using o r q Some at v quiet_made(1)[of s u held v] u by (simp add: sys_openat_def path_call_def mo_def gone_def)
      next
        case (Inr fd)
        then obtain m where m: "made held s m fd v" using o quiet_made(2)[of s u held _ fd v] u by auto
        obtain d' w where w: "install_new (on_fds (f_install (k_ops (vf_kern v)) fd)) fd v = (d', w)" by fastforce
        note i = install_made[OF m ok(3) w]
        let ?w = "w\<lparr>vf_kern := do_fds (put_cloexec (word_of_int d') True) (vf_kern w)\<rparr>"
        have t: "d = d'" "t = (if d' \<ge> 0 \<and> has flags O_CLOEXEC then ?w else w)"
          using r q Some at v Inr w by (auto simp: sys_openat_def path_call_def mo_def split: if_splits)
        show ?thesis
        proof (cases "d < 0")
          case True
          then show ?thesis using i t by simp
        next
          case False
          then have g: "fds_ok held (fds_of w)" "limit_ok (fds_of w)" "f_get (word_of_int d') (fds_of w) = Some fd"
              "vf_file w = vf_file v" "vf_mount w = vf_mount v" using i t(1) by auto
          note c = cloexec_made[OF g(1,3)]
          have "fds_ok held (fds_of t) \<and> limit_ok (fds_of t) \<and> f_get (word_of_int d) (fds_of t) = Some fd \<and>
              vf_file t = vf_file v \<and> vf_mount t = vf_mount v"
            using t g c by (simp split: if_split)
          then show ?thesis using m False by (auto simp: made_def)
        qed
      qed
    qed
  qed
qed

end
