(* ===== verification/Listing.thy ===== *)
theory Listing
  imports Vfs_Facts Signal_Facts
begin

text \<open>
  Listing a directory. \<open>directory\<close> states what \<open>getdents64\<close> needs of the file system
  below it, and what it then gives its caller: the longest run of entries that fits,
  after which the directory stands before the first one that did not. The
  directories of \<open>proc\<close> satisfy it.
\<close>

subsection \<open>What fits into a buffer\<close>

type_synonym listed = "dir_entry \<times> qword_t"

definition reclen :: "listed \<Rightarrow> nat" where
  "reclen x = 23 + length (de_name (fst x))"

fun fitting :: "nat \<Rightarrow> listed list \<Rightarrow> listed list" where
  "fitting n [] = []"
| "fitting n (x # xs) = (if reclen x \<le> n then x # fitting (n - reclen x) xs else [])"

definition listing_bytes :: "byte_t list \<Rightarrow> listed list \<Rightarrow> byte_t list" where
  "listing_bytes junk xs = concat (map (\<lambda>x. dirent_bytes junk (snd x) (fst x)) xs)"

lemma fitting_prefix: "fitting n xs @ drop (length (fitting n xs)) xs = xs"
  by (induction xs arbitrary: n) auto

lemma length_dirent: "length junk = 3 \<Longrightarrow> length (dirent_bytes junk (snd x) (fst x)) = reclen x"
  by (simp add: dirent_bytes_def reclen_def bytes_of_text_def length_bytes_of_dword)

lemma length_fitting: "length junk = 3 \<Longrightarrow> length (listing_bytes junk (fitting n xs)) \<le> n"
  proof (induction xs arbitrary: n)
  case (Cons x xs)
  show ?case using Cons.IH[of "n - reclen x"] Cons.prems by (auto simp: listing_bytes_def length_dirent)
qed (simp add: listing_bytes_def)

subsection \<open>Writing in pieces\<close>

lemma user_write_append:
  "user_write_task m a (bs @ cs) v =
    (let (r, u) = user_write_task m a bs v
     in if r \<noteq> 0 then (r, u) else user_write_task m (a + of_nat (length bs)) cs u)"
  by (induction bs arbitrary: a v) (simp_all add: ac_simps split: prod.split option.split)

lemma vwrite_append:
  assumes "vwrite a (bs @ cs) s = (0, t)"
  obtains u where "vwrite a bs s = (0, u)" "vwrite (a + of_nat (length bs)) cs u = (0, t)"
proof -
  let ?k = "vf_kern s" and ?m = "t_mem (cur_task (vf_kern s))"
  have "user_write_task ?m a (bs @ cs) (k_vm ?k) = (0, k_vm (vf_kern t))" and t: "t = s\<lparr>vf_kern := ?k\<lparr>k_vm := k_vm (vf_kern t)\<rparr>\<rparr>"
    using assms by (auto simp: vwrite_def cur_vm_def on_kernel_def on_vm_def split: prod.splits)
  then obtain v where "user_write_task ?m a bs (k_vm ?k) = (0, v)"
      "user_write_task ?m (a + of_nat (length bs)) cs v = (0, k_vm (vf_kern t))"
    by (auto simp: user_write_append split: prod.splits if_splits)
  then show thesis
    using t that[of "s\<lparr>vf_kern := ?k\<lparr>k_vm := v\<rparr>\<rparr>"]
    by (simp add: vwrite_def cur_vm_def on_kernel_def on_vm_def cur_task_def get_task_def)
qed

lemma vwrite_frame:
  "vwrite a bs (s\<lparr>vf_world := w\<rparr>) = (let (r, t) = vwrite a bs s in (r, t\<lparr>vf_world := w\<rparr>))"
  "vwrite a bs s = (r, t) \<Longrightarrow> vf_world t = vf_world s"
  "vwrite a bs s = (r, t) \<Longrightarrow> file_ops_of env fd t = file_ops_of env fd s"
  by (auto simp: vwrite_def cur_vm_def on_kernel_def file_ops_of_def split: prod.splits)

subsection \<open>The interface of a directory\<close>

locale directory =
  fixes readdir :: "nat \<Rightarrow> 'w \<Rightarrow> (int + dir_entry option) \<times> 'w"
    and telldir :: "nat \<Rightarrow> 'w \<Rightarrow> qword_t"
    and seekdir :: "nat \<Rightarrow> qword_t \<Rightarrow> 'w \<Rightarrow> 'w"
    and ok :: "nat \<Rightarrow> 'w \<Rightarrow> bool"
    and rest :: "nat \<Rightarrow> 'w \<Rightarrow> listed list"
    and moved :: "nat \<Rightarrow> 'w \<Rightarrow> 'w \<Rightarrow> bool"
  assumes at_end: "ok fd w \<Longrightarrow> rest fd w = [] \<Longrightarrow> readdir fd w = (Inr None, w)"
    and at_entry: "ok fd w \<Longrightarrow> rest fd w = x # xs \<Longrightarrow>
      \<exists>w'. readdir fd w = (Inr (Some (fst x)), w') \<and> telldir fd w' = snd x \<and> ok fd w' \<and> rest fd w' = xs \<and>
           seekdir fd (telldir fd w) w' = w \<and> moved fd w w'"
    and stay: "ok fd w \<Longrightarrow> seekdir fd (telldir fd w) w = w"
    and moved_refl: "moved fd w w"
    and moved_trans: "moved fd w w' \<Longrightarrow> moved fd w' w'' \<Longrightarrow> moved fd w w''"
begin

definition serves :: "'w env \<Rightarrow> nat \<Rightarrow> 'w vfs \<Rightarrow> bool" where
  "serves env fd s \<longleftrightarrow> (let fo = file_ops_of env fd s
     in fo_readdir fo = Some readdir \<and> fo_telldir fo = telldir \<and> fo_seekdir fo = seekdir)"

lemma getdents_fills:
  assumes "length junk = 3"
  shows "serves env fd s \<Longrightarrow> ok fd (vf_world s) \<Longrightarrow>
    vwrite a (listing_bytes junk (fitting n (rest fd (vf_world s)))) s = (0, t) \<Longrightarrow>
    \<exists>w. getdents_loop env junk fd a n s
          = (Inr (n - length (listing_bytes junk (fitting n (rest fd (vf_world s))))), t\<lparr>vf_world := w\<rparr>) \<and>
        ok fd w \<and> rest fd w = drop (length (fitting n (rest fd (vf_world s)))) (rest fd (vf_world s)) \<and>
        moved fd (vf_world s) w"
proof (induction n arbitrary: a s t rule: less_induct)
  case (less n)
  let ?w = "vf_world s"
  have ops: "fo_readdir (file_ops_of env fd s) = Some readdir" "fo_telldir (file_ops_of env fd s) = telldir"
    "fo_seekdir (file_ops_of env fd s) = seekdir"
    using less.prems(1) by (simp_all add: serves_def Let_def)
  show ?case
  proof (cases "rest fd ?w")
    case Nil
    have "t = s" using less.prems(3) by (simp add: Nil listing_bytes_def vwrite_def cur_vm_def on_kernel_def on_vm_def)
    then show ?thesis
      using at_end[OF less.prems(2) Nil] stay[OF less.prems(2)] less.prems(2) moved_refl[of fd ?w]
      by (auto simp: getdents_loop.simps[of env junk fd a n s] ops on_world_def Nil listing_bytes_def intro!: exI[of _ ?w])
  next
    case (Cons x xs)
    obtain w where w: "readdir fd ?w = (Inr (Some (fst x)), w)" "telldir fd w = snd x" "ok fd w" "rest fd w = xs"
        "seekdir fd (telldir fd ?w) w = ?w" "moved fd ?w w"
      using at_entry[OF less.prems(2) Cons] by blast
    show ?thesis
    proof (cases "reclen x \<le> n")
      case False
      then have "t = s" using less.prems(3) by (simp add: Cons listing_bytes_def vwrite_def cur_vm_def on_kernel_def on_vm_def)
      then show ?thesis
        using w False less.prems(2) moved_refl[of fd ?w]
        by (auto simp: getdents_loop.simps[of env junk fd a n s] ops on_world_def Cons listing_bytes_def reclen_def
            intro!: exI[of _ ?w])
    next
      case True
      let ?b = "dirent_bytes junk (snd x) (fst x)" and ?r = "listing_bytes junk (fitting (n - reclen x) xs)"
      have "vwrite a (?b @ ?r) s = (0, t)" using less.prems(3) True by (simp add: Cons listing_bytes_def)
      then obtain u where u: "vwrite a ?b s = (0, u)" "vwrite (a + of_nat (reclen x)) ?r u = (0, t)"
        using vwrite_append length_dirent[OF assms] by metis
      let ?u = "u\<lparr>vf_world := w\<rparr>"
      have serve: "serves env fd ?u"
        using less.prems(1) vwrite_frame(3)[OF u(1), of env fd] by (simp add: serves_def file_ops_of_def)
      have "vwrite (a + of_nat (reclen x)) ?r ?u = (0, t\<lparr>vf_world := w\<rparr>)" using u(2) by (simp add: vwrite_frame(1))
      moreover have "n - reclen x < n" using True by (simp add: reclen_def)
      ultimately obtain w' where "getdents_loop env junk fd (a + of_nat (reclen x)) (n - reclen x) ?u
            = (Inr (n - reclen x - length ?r), t\<lparr>vf_world := w'\<rparr>)" "ok fd w'"
          "rest fd w' = drop (length (fitting (n - reclen x) xs)) xs" "moved fd w w'"
        using less.IH[OF _ serve, of "n - reclen x"] w(3,4) by force
      moreover have "vwrite a ?b (s\<lparr>vf_world := w\<rparr>) = (0, ?u)" using u(1) by (simp add: vwrite_frame(1))
      ultimately show ?thesis
        using w True length_dirent[OF assms, of x] moved_trans[OF w(6)]
        by (auto simp: getdents_loop.simps[of env junk fd a n s] ops on_world_def Cons listing_bytes_def reclen_def Let_def
            intro!: exI[of _ w'])
    qed
  qed
qed

end

subsection \<open>The directories of \<open>proc\<close>\<close>

text \<open>What is left of the root from an index on.\<close>

definition root_rest :: "kern \<Rightarrow> nat \<Rightarrow> listed list" where
  "root_rest k i = (if i < 1 then [(\<lparr>de_inode = 0, de_name = ''version''\<rparr>, 1)] else []) @
     map (\<lambda>p. (\<lparr>de_inode = 0, de_name = nat_dec p\<rparr>, of_nat (p + 1))) (filter (live_pid k) [max 1 i..<Suc MAX_PID])"

definition proc_rest :: "kern \<Rightarrow> nat \<Rightarrow> proc_world \<Rightarrow> listed list" where
  "proc_rest k fd w =
    (case w fd of
       None \<Rightarrow> []
     | Some d \<Rightarrow> if pe_meta (pd_entry d) = Proc_root then root_rest k (pd_index d)
                 else if pd_index d < 1 then [(\<lparr>de_inode = 0, de_name = ''stat''\<rparr>, 1)] else [])"

definition proc_dir :: "nat \<Rightarrow> proc_world \<Rightarrow> bool" where
  "proc_dir fd w \<longleftrightarrow>
    (case w fd of
       None \<Rightarrow> False
     | Some d \<Rightarrow> pe_meta (pd_entry d) \<in> {Proc_root, Proc_pid} \<and> pd_index d \<le> Suc MAX_PID)"

lemma filter_find:
  "find P xs = None \<Longrightarrow> filter P xs = []"
  "find P [i..<n] = Some j \<Longrightarrow> filter P [i..<n] = j # filter P [Suc j..<n]"
proof -
  show "find P xs = None \<Longrightarrow> filter P xs = []" by (simp add: find_None_iff)
  assume "find P [i..<n] = Some j"
  then have j: "i \<le> j" "j < n" "P j" "\<And>l. i \<le> l \<Longrightarrow> l < j \<Longrightarrow> \<not> P l"
    by (auto simp: find_Some_iff) (metis add_diff_inverse_nat less_diff_conv2 not_less add.commute nth_upt less_diff_iff less_imp_le_nat nat_add_left_cancel_less)
  have "[i..<n] = [i..<j] @ j # [Suc j..<n]" using j(1,2) by (metis upt_add_eq_append le_add_diff_inverse less_imp_le_nat upt_conv_Cons)
  moreover have "filter P [i..<j] = []" using j(4) by simp
  ultimately show "filter P [i..<n] = j # filter P [Suc j..<n]" using j(3) by simp
qed

lemma root_readdir_rest:
  "proc_root_readdir k i = None \<Longrightarrow> root_rest k i = []"
  "proc_root_readdir k i = Some (e, j) \<Longrightarrow>
     \<exists>n. proc_entry_getname e = Some n \<and> root_rest k i = (\<lparr>de_inode = 0, de_name = n\<rparr>, of_nat j) # root_rest k j"
  by (auto simp: proc_root_readdir_def root_rest_def proc_entry_getname_def max_def filter_find
      split: if_splits option.splits dest: filter_find)

definition proc_moved :: "nat \<Rightarrow> proc_world \<Rightarrow> proc_world \<Rightarrow> bool" where
  "proc_moved fd w w' \<longleftrightarrow> (\<exists>i. w' = w(fd := map_option (pd_index_update (\<lambda>_. i)) (w fd)))"

interpretation pd: directory "proc_readdir k" proc_telldir proc_seekdir proc_dir "proc_rest k" proc_moved for k
proof unfold_locales
  fix fd :: nat and w w' w'' :: proc_world
  show "proc_moved fd w w"
    by (cases "w fd") (auto simp: proc_moved_def fun_upd_idem intro!: exI[of _ "pd_index (the (w fd))"])
  show "proc_moved fd w w' \<Longrightarrow> proc_moved fd w' w'' \<Longrightarrow> proc_moved fd w w''"
    by (auto simp: proc_moved_def option.map_comp comp_def)
  assume "proc_dir fd w"
  then obtain d where d: "w fd = Some d" "pe_meta (pd_entry d) \<in> {Proc_root, Proc_pid}" "pd_index d \<le> 1025"
    by (auto simp: proc_dir_def split: option.splits)
  then have i: "unat (of_nat (pd_index d) :: qword_t) = pd_index d" by (simp add: unat_of_nat)
  then show "proc_seekdir fd (proc_telldir fd w) w = w" using d(1) by (auto simp: proc_seekdir_def proc_telldir_def)
  show "proc_readdir k fd w = (Inr None, w)" if "proc_rest k fd w = []" for k
  proof (cases "proc_dir_read k (pd_entry d) (pd_index d)")
    case None
    then show ?thesis using d(2) by (auto simp: proc_dir_read_def)
  next
    case (Some r)
    then have "r = None"
      using d(1,2) that root_readdir_rest(2)[of k "pd_index d"]
      by (cases r) (auto simp: proc_dir_read_def proc_rest_def split: if_splits)
    then show ?thesis using d(1) Some by (simp add: proc_readdir_def)
  qed
  show "\<exists>w'. proc_readdir k fd w = (Inr (Some (fst x)), w') \<and> proc_telldir fd w' = snd x \<and> proc_dir fd w' \<and>
      proc_rest k fd w' = xs \<and> proc_seekdir fd (proc_telldir fd w) w' = w \<and> proc_moved fd w w'"
    if x: "proc_rest k fd w = x # xs" for x xs k
  proof -
    obtain e j n where e: "proc_dir_read k (pd_entry d) (pd_index d) = Some (Some (e, j))" "proc_entry_getname e = Some n"
      "x = (\<lparr>de_inode = 0, de_name = n\<rparr>, of_nat j)" "xs = proc_rest k fd (w(fd \<mapsto> d\<lparr>pd_index := j\<rparr>))"
    proof (cases "pe_meta (pd_entry d) = Proc_root")
      case True
      then obtain e j where "proc_root_readdir k (pd_index d) = Some (e, j)"
        using d(1) x root_readdir_rest(1)[of k "pd_index d"] by (cases "proc_root_readdir k (pd_index d)") (auto simp: proc_rest_def)
      then show thesis
        using that[of e j] d(1) x True root_readdir_rest(2)[of k "pd_index d" e j] by (auto simp: proc_dir_read_def proc_rest_def)
    next
      case False
      then show thesis
        using that[of "\<lparr>pe_meta = Proc_stat, pe_pid = pe_pid (pd_entry d)\<rparr>" "pd_index d + 1"] d(1,2) x
        by (auto simp: proc_dir_read_def proc_rest_def proc_entry_getname_def split: if_splits)
    qed
    let ?w = "w(fd \<mapsto> d\<lparr>pd_index := j\<rparr>)"
    have "proc_moved fd w ?w" using d(1) by (auto simp: proc_moved_def)
    moreover have "proc_dir fd ?w" using d proc_dir_index[OF e(1)] by (simp add: proc_dir_def)
    moreover have "proc_seekdir fd (proc_telldir fd w) ?w = w" using d(1) i by (auto simp: proc_seekdir_def proc_telldir_def)
    ultimately show ?thesis using d(1) e by (auto simp: proc_readdir_def proc_telldir_def)
  qed
qed

lemma getdents_root:
  assumes "vf_get f s = Some fd" "file_ops_of env fd s = procfs_fdops k texts" "vf_world s fd = Some d"
    "pe_meta (pd_entry d) = Proc_root" "pd_index d \<le> Suc MAX_PID" "length junk = 3"
    "entries = fitting (unat count) (root_rest k (pd_index d))"
    "vwrite dirents (listing_bytes junk entries) s = (0, t)"
  shows "\<exists>i. sys_getdents64 env junk f dirents count s
      = (int (length (listing_bytes junk entries)), t\<lparr>vf_world := (vf_world s)(fd \<mapsto> d\<lparr>pd_index := i\<rparr>)\<rparr>) \<and>
    length (listing_bytes junk entries) \<le> unat count \<and> entries @ root_rest k i = root_rest k (pd_index d)"
proof -
  let ?w = "vf_world s"
  have "pd.serves k env fd s" using assms(2) by (simp add: pd.serves_def procfs_fdops_def Let_def)
  moreover have "proc_dir fd ?w" using assms(3-5) by (simp add: proc_dir_def)
  moreover have rest: "proc_rest k fd ?w = root_rest k (pd_index d)" using assms(3,4) by (simp add: proc_rest_def)
  ultimately obtain w where w: "getdents_loop env junk fd dirents (unat count) s
        = (Inr (unat count - length (listing_bytes junk entries)), t\<lparr>vf_world := w\<rparr>)"
      "proc_rest k fd w = drop (length entries) (root_rest k (pd_index d))" "proc_moved fd ?w w"
    using pd.getdents_fills[OF assms(6), of k env fd s dirents "unat count" t] assms(7,8) by auto
  then obtain i where i: "w = ?w(fd \<mapsto> d\<lparr>pd_index := i\<rparr>)" using assms(3) by (auto simp: proc_moved_def)
  have "length (listing_bytes junk entries) \<le> unat count" using length_fitting[OF assms(6)] assms(7) by simp
  moreover have "root_rest k i = drop (length entries) (root_rest k (pd_index d))"
    using w(2) assms(4) by (simp add: i proc_rest_def)
  ultimately show ?thesis
    using w(1) i assms(1,7) fitting_prefix[of "unat count" "root_rest k (pd_index d)"]
    by (auto simp: sys_getdents64_def with_fd_def)
qed

end
