(* ===== verification/Proc_Lookup.thy ===== *)
theory Proc_Lookup
  imports Listing
begin

text \<open>
  Looking up a path in \<open>proc\<close> is the walk down a tree, although the buffer for the
  components is not cleared in between: what a shorter component leaves of a longer one
  are digits, and there are at most four of them.
\<close>

subsection \<open>The tree\<close>

definition pid_entry :: "nat \<Rightarrow> proc_entry" where
  "pid_entry p = \<lparr>pe_meta = Proc_pid, pe_pid = p\<rparr>"

definition proc_child :: "kern \<Rightarrow> proc_entry \<Rightarrow> string \<Rightarrow> proc_entry option" where
  "proc_child k e name =
    (case pe_meta e of
       Proc_root \<Rightarrow>
         if name = ''version'' then Some \<lparr>pe_meta = Proc_version, pe_pid = 0\<rparr>
         else map_option pid_entry (find (\<lambda>p. nat_dec p = name) (filter (live_pid k) [1..<Suc MAX_PID]))
     | Proc_pid \<Rightarrow> if name = ''stat'' then Some \<lparr>pe_meta = Proc_stat, pe_pid = pe_pid e\<rparr> else None
     | _ \<Rightarrow> None)"

fun proc_walk :: "kern \<Rightarrow> proc_entry \<Rightarrow> string list \<Rightarrow> int + proc_entry" where
  "proc_walk k e [] = Inr e"
| "proc_walk k e (n # ns) =
    (if pe_meta e \<noteq> Proc_root \<and> pe_meta e \<noteq> Proc_pid then Inl ENOTDIR
     else if length n \<ge> MAX_NAME then Inl ENAMETOOLONG
     else case proc_child k e n of None \<Rightarrow> Inl ENOENT | Some e' \<Rightarrow> proc_walk k e' ns)"

subsection \<open>Searching a directory\<close>

lemma find_root:
  "1 \<le> i \<Longrightarrow> pe_meta e = Proc_root \<Longrightarrow> proc_find k e i name
     = Some (map_option pid_entry (find (\<lambda>p. nat_dec p = name) (filter (live_pid k) [i..<Suc MAX_PID])))"
proof (induction k e i name rule: proc_find.induct)
  case (1 k e i name)
  have i: "Suc (i - 1) = i" using 1(2) by simp
  show ?case
  proof (cases "find (live_pid k) [i..<Suc MAX_PID]")
    case None
    then show ?thesis
      using 1(2,3) i by (simp add: proc_find.simps[of k e i] proc_dir_read_def proc_root_readdir_def filter_find(1))
  next
    case (Some j)
    have d: "proc_dir_read k e i = Some (Some (pid_entry j, j + 1))"
      using 1(2,3) i Some by (simp add: proc_dir_read_def proc_root_readdir_def pid_entry_def)
    have n: "proc_entry_getname (pid_entry j) = Some (nat_dec j)" by (simp add: proc_entry_getname_def pid_entry_def)
    show ?thesis
      using 1(1)[OF d refl refl n] 1(3) filter_find(2)[OF Some]
      by (simp add: proc_find.simps[of k e i] d n)
  qed
qed

lemma find_child:
  assumes "pe_meta e \<in> {Proc_root, Proc_pid}"
  shows "proc_find k e 0 name = Some (proc_child k e name)"
proof (cases "pe_meta e = Proc_root")
  case True
  then show ?thesis
    using find_root[of 1 e k name]
    by (auto simp: proc_find.simps[of k e 0] proc_dir_read_def proc_root_readdir_def proc_entry_getname_def proc_child_def)
next
  case False
  then have "pe_meta e = Proc_pid" using assms by simp
  then show ?thesis
    by (auto simp: proc_find.simps[of k e] proc_dir_read_def proc_entry_getname_def proc_child_def)
qed

subsection \<open>What stays in the buffer\<close>

definition digits :: "string \<Rightarrow> bool" where
  "digits t \<longleftrightarrow> (\<forall>c \<in> set t. of_char c < (58 :: nat))"

lemma nat_dec_digits: "digits (nat_dec n)"
proof (induction n rule: nat_dec.induct)
  case (1 n)
  then show ?case by (auto simp: nat_dec.simps[of n] digits_def)
qed

lemma nat_dec_length: "n < 10000 \<Longrightarrow> length (nat_dec n) \<le> 4"
  by (simp add: nat_dec.simps[of n] nat_dec.simps[of "n div 10"] nat_dec.simps[of "n div 10 div 10"]
      nat_dec.simps[of "n div 10 div 10 div 10"])

lemma stale_stat:
  assumes "digits t" "length t \<le> 4"
  shows "w @ drop (length w) t = ''stat'' \<longleftrightarrow> w = ''stat''"
proof
  assume a: "w @ drop (length w) t = ''stat''"
  have "drop (length w) t = []"
  proof (rule ccontr)
    assume d: "drop (length w) t \<noteq> []"
    then have "last (drop (length w) t) = CHR ''t''" using a by (metis last_appendR last.simps list.distinct(1))
    then have "CHR ''t'' \<in> set t" using d last_in_set in_set_dropD by metis
    then show False using assms(1) by (auto simp: digits_def)
  qed
  then show "w = ''stat''" using a by simp
qed (use assms(2) in simp)

subsection \<open>The walk\<close>

definition stale :: "proc_entry \<Rightarrow> string \<Rightarrow> bool" where
  "stale e t \<longleftrightarrow> (pe_meta e = Proc_root \<longrightarrow> t = []) \<and> (pe_meta e = Proc_pid \<longrightarrow> digits t \<and> length t \<le> 4)"

lemma stale_child: "pe_meta e \<in> {Proc_root, Proc_pid} \<Longrightarrow> stale e t \<Longrightarrow> proc_child k e (w @ drop (length w) t) = proc_child k e w"
  by (auto simp: proc_child_def stale_def stale_stat)

lemma find_is_name: "find (\<lambda>p. nat_dec p = w) ps = Some p \<Longrightarrow> w = nat_dec p"
  by (auto simp: find_Some_iff)

lemma child_stale:
  assumes "proc_child k e w = Some e'" "stale e t"
  shows "stale e' (w @ drop (length w) t)"
proof -
  have short: "length (nat_dec p) \<le> 4" if "find (\<lambda>p. nat_dec p = w) (filter (live_pid k) [1..<Suc MAX_PID]) = Some p" for p
  proof -
    have "p \<in> set (filter (live_pid k) [1..<Suc MAX_PID])" using that by (metis find_Some_iff nth_mem)
    then show ?thesis by (auto intro: nat_dec_length)
  qed
  have "stale e' w" "t = []" if "pe_meta e = Proc_root"
    using assms that nat_dec_digits short
    by (auto simp: proc_child_def stale_def pid_entry_def split: if_splits dest: find_is_name)
  moreover have "pe_meta e' = Proc_stat" if "pe_meta e \<noteq> Proc_root"
    using assms(1) that by (auto simp: proc_child_def split: proc_meta.splits if_splits)
  ultimately show ?thesis by (cases "pe_meta e = Proc_root") (auto simp: stale_def)
qed

lemma components_split:
  assumes "slash \<notin> set n"
  shows "takeWhile (\<lambda>c. c \<noteq> slash) (n @ concat (map ((#) slash) ns)) = n"
    "dropWhile (\<lambda>c. c \<noteq> slash) (n @ concat (map ((#) slash) ns)) = concat (map ((#) slash) ns)"
  using assms by (cases ns; auto simp: takeWhile_append dropWhile_append)+

lemma lookup_walks:
  "\<forall>n \<in> set ns. slash \<notin> set n \<Longrightarrow> stale e t \<Longrightarrow>
   proc_lookup_from k t (concat (map ((#) slash) ns)) e = Some (proc_walk k e ns)"
proof (induction ns arbitrary: e t)
  case Nil
  then show ?case by (simp add: proc_lookup_from.simps[of k t "[]"])
next
  case (Cons n ns)
  let ?p = "n @ concat (map ((#) slash) ns)"
  have d: "S_ISDIR (meta_mode (pe_meta e)) \<longleftrightarrow> pe_meta e = Proc_root \<or> pe_meta e = Proc_pid"
    by (cases "pe_meta e") (simp_all add: S_ISDIR_def meta_mode_def)
  note split = components_split[of n ns]
  show ?case
  proof (cases "(pe_meta e = Proc_root \<or> pe_meta e = Proc_pid) \<and> length n < MAX_NAME")
    case False
    then show ?thesis using Cons.prems split by (auto simp: proc_lookup_from.simps[of k t "slash # ?p"] d Let_def)
  next
    case True
    then have "proc_find k e 0 (n @ drop (length n) t) = Some (proc_child k e n)"
      using find_child stale_child Cons.prems(2) by simp
    then show ?thesis
      using True Cons.prems split Cons.IH child_stale[of k e n _ t]
      by (auto simp: proc_lookup_from.simps[of k t "slash # ?p"] d Let_def split: option.split)
  qed
qed

lemma proc_lookup_walks:
  "\<forall>n \<in> set ns. slash \<notin> set n \<Longrightarrow>
   proc_lookup k (concat (map ((#) slash) ns)) = Some (proc_walk k \<lparr>pe_meta = Proc_root, pe_pid = 0\<rparr> ns)"
  by (simp add: proc_lookup_def lookup_walks stale_def)

end
