(* ===== verification/Files_Props.thy ===== *)
theory Files_Props
  imports Files_Open Proc_Lookup Kern_Demo
begin

text \<open>
  Properties of files, mounts and \<open>proc\<close>, on a system whose root is the file system
  \<open>proc\<close>, given a path of its own, and whose one open file is the root directory.
\<close>

subsection \<open>A system with files\<close>

definition texts_demo :: proc_texts where
  "texts_demo = \<lparr>pt_version = ''1'', pt_tty = (\<lambda>_. (4, 1))\<rparr>"

definition fenv_demo :: "proc_world env" where
  "fenv_demo = \<lparr>en_links = 10,
     en_fs = (\<lambda>n. (procfs kern_demo 0)\<lparr>fs_getpath := if n = 0 then Some (\<lambda>_ _. Inr []) else None\<rparr>),
     en_ops = (\<lambda>_. procfs_fdops kern_demo texts_demo), en_real = 1, en_tty = null_ops,
     en_tty_open = (\<lambda>_ _ _ k. (0, k)), en_random = (\<lambda>n w. (replicate n 4, w))\<rparr>"

definition root_fd :: proc_fd where
  "root_fd = \<lparr>pd_entry = \<lparr>pe_meta = Proc_root, pe_pid = 0\<rparr>, pd_index = 0, pd_offset = 0, pd_size = 0\<rparr>"

definition kern_files :: kern where
  "kern_files = kern_demo\<lparr>k_groups := (k_groups kern_demo)(20 \<mapsto> group_demo\<lparr>g_limits := first_limits\<rparr>)\<rparr>"

lemma kern_files_sel [simp]:
  "k_vm kern_files = vm_demo" "k_fds kern_files = fds_demo" "cur_task kern_files = task_demo"
  by (simp_all add: kern_files_def cur_task_def get_task_def)

definition files_demo :: "proc_world vfs" where
  "files_demo = \<lparr>vf_kern = kern_files, vf_mounts = [7],
     vf_mount = [7 \<mapsto> \<lparr>mnt_point = [], mnt_source = [], mnt_fs = 0, mnt_refcount = 1\<rparr>],
     vf_file = [1 \<mapsto> \<lparr>fl_mount = Some 7, fl_kind = Fs_file 0, fl_stat = zero_stat, fl_real = None\<rparr>],
     vf_world = [1 \<mapsto> root_fd], vf_next = 8, vf_closed = []\<rparr>"

lemma files_demo_sel [simp]:
  "vf_kern files_demo = kern_files" "vf_mounts files_demo = [7]" "vf_world files_demo = [1 \<mapsto> root_fd]"
  "vf_mount files_demo = [7 \<mapsto> \<lparr>mnt_point = [], mnt_source = [], mnt_fs = 0, mnt_refcount = 1\<rparr>]"
  "vf_file files_demo = [1 \<mapsto> \<lparr>fl_mount = Some 7, fl_kind = Fs_file 0, fl_stat = zero_stat, fl_real = None\<rparr>]"
  "vf_next files_demo = 8"
  by (simp_all add: files_demo_def)

lemma files_demo_ok: "files_ok files_demo"
proof -
  have "mount_users m files_demo = (if m = 7 then {1} else {})" for m by (auto simp: mount_users_def split: if_splits)
  then show ?thesis by (simp add: files_ok_def)
qed

lemma demo_slot: "vf_get 0 files_demo = Some 1"
  by (simp add: vf_get_def f_get_def task_fds_def cur_def fds_demo_def)

lemma demo_fds: "fds_ok (\<lambda>_. 0) (fds_of files_demo)" "limit_ok (fds_of files_demo)"
proof -
  have e: "fds_of files_demo = fds_demo\<lparr>fd_nofile := 1024\<rparr>"
    by (simp add: fds_of_def task_fds_def cur_task_def get_task_def fds_demo_def cur_group_def kern_files_def first_limits_def)
  show "fds_ok (\<lambda>_. 0) (fds_of files_demo)" "limit_ok (fds_of files_demo)"
    unfolding e using fds_demo_ok by (auto simp: fds_demo_def)
qed

subsection \<open>Device numbers\<close>

text \<open>A device number keeps a major number of 12 and a minor number of 20 bits, and is
no more than those two.\<close>
lemma device_numbers:
  assumes "major < 0x1000" "minor < 0x100000"
  shows "dev_major (dev_make major minor) = major \<and> dev_minor (dev_make major minor) = minor \<and>
    dev_make (dev_major dev) (dev_minor dev) = dev"
  using dev_parts[OF assms] dev_whole by blast

lemma device_numbers_witness:
  "dev_major (dev_make 4 0x12345) = 4 \<and> dev_minor (dev_make 4 0x12345) = 0x12345 \<and> dev_make (dev_major 0x88001) (dev_minor 0x88001) = 0x88001"
  by (rule device_numbers) simp_all

subsection \<open>Mounts and files\<close>

lemma umount_unwrapped: "unwrapped s \<Longrightarrow> unwrapped (snd (sys_umount2 env a flags s))"
proof -
  have shape: "shape t = shape s \<Longrightarrow> unwrapped t = unwrapped s" for s t :: "'a vfs"
    by (simp add: shape_def unwrapped_def)
  note kept = shape_vstring[THEN shape] shape_normalize[THEN shape]
  have remove: "unwrapped (snd (umount_point env p t))" if "unwrapped t" for p t
    using that by (auto simp: umount_point_def remove_mount_def unwrapped_def split: option.split)
  show "unwrapped s \<Longrightarrow> ?thesis"
    by (auto simp: sys_umount2_def with_path_def remove split: option.split prod.split sum.split dest!: kept)
qed

text \<open>C14. However calls on files follow each other, and whatever other processes do to the
kernel and the file systems in between, the tables stay well formed: the list of
mounts has no mount twice and has the longest point first, every mount in the heap is
in it, and every open file is on a mount that is still mounted and has at least as
many references as files. This holds as long as no mount has \<open>2 ^ 32 - 1\<close> references when
a call begins: every call that opens a file keeps a reference, and where the count
wraps around to 0 a mount in use can be freed (lemma \<open>wrapped_mount_is_freed\<close>).\<close>
theorem files_stay_typed:
  assumes "files_ok s" "(\<lambda>s t. unwrapped s \<and> file_step env s t)\<^sup>*\<^sup>* s t"
  shows "files_ok t"
  by (rule file_steps_ok[OF assms(2,1)])

theorem files_stay_typed_witness:
  "files_ok (snd (sys_openat fenv_demo AT_FDCWD 0x10000 0 0 (snd (sys_umount2 fenv_demo 0x10000 0 files_demo))))"
proof -
  let ?step = "\<lambda>s t. unwrapped s \<and> file_step fenv_demo s t"
  let ?t = "snd (sys_umount2 fenv_demo 0x10000 0 files_demo)"
  have u: "unwrapped files_demo" by (simp add: unwrapped_def)
  then have "?step\<^sup>*\<^sup>* files_demo ?t" using file_step.Umount by (intro r_into_rtranclp) blast
  moreover have "?step ?t (snd (sys_openat fenv_demo AT_FDCWD 0x10000 0 0 ?t))"
    using umount_unwrapped[OF u] file_step.Openat by blast
  ultimately have "?step\<^sup>*\<^sup>* files_demo (snd (sys_openat fenv_demo AT_FDCWD 0x10000 0 0 ?t))"
    by (rule rtranclp.rtrancl_into_rtrancl)
  with files_demo_ok show ?thesis by (rule files_stay_typed)
qed


text \<open>C15. Opening a file: the counts of open files stay right, with the limit of open files.
Either no file has been added, or it is behind the descriptor that is returned, a file
that did not exist, and its mount has got one reference. Opening a terminal must leave
the descriptors alone.\<close>
theorem openat_opens:
  assumes "fds_ok held (fds_of s)" "limit_ok (fds_of s)" "dom (vf_file s) \<subseteq> dom (fd_heap (fds_of s))" "tty_quiet env"
    "sys_openat env f a flags mode s = (d, t)"
  shows "fds_ok held (fds_of t) \<and> limit_ok (fds_of t) \<and>
    (vf_file t = vf_file s \<or>
     (\<exists>fd m x. 0 \<le> d \<and> f_get (word_of_int d) (fds_of t) = Some fd \<and> fd_heap (fds_of s) fd = None \<and>
        vf_file t = (vf_file s)(fd \<mapsto> x) \<and> fl_mount x = Some m \<and> vf_mount t = vf_mount (ref_mount ((+) 1) m s)))"
  by (rule sys_openat_opens[OF assms])

theorem openat_opens_witness:
  "fds_ok (\<lambda>_. 0) (fds_of (snd (sys_openat fenv_demo AT_FDCWD 0x10000 0 0 files_demo)))"
proof -
  have "dom (vf_file files_demo) \<subseteq> dom (fd_heap (fds_of files_demo))" by (simp add: fds_of_def task_fds_def fds_demo_def dom_def)
  moreover have "tty_quiet fenv_demo" by (simp add: tty_quiet_def fenv_demo_def)
  ultimately show ?thesis
    by (rule openat_opens[OF demo_fds, THEN conjunct1]) (rule prod.collapse[symmetric])
qed

text \<open>\<open>truncate64\<close> never truncates anything: unless the path cannot be read, it fails an
assertion, because it has no base for the path.\<close>
lemma truncate64_asserts:
  "sys_truncate64 env a lo hi s = (EFAULT, snd (vstring a MAX_PATH s)) \<or> k_bad (vf_kern (snd (sys_truncate64 env a lo hi s)))"
  by (auto simp: sys_truncate64_def generic_setattrat_def with_path_def normalize_def split: prod.split option.split)

subsection \<open>The file system \<open>proc\<close>\<close>

text \<open>C31. Looking up a path of components without slashes walks down the tree of \<open>proc\<close>: the
first level is \<open>version\<close> and the tasks that live, the second \<open>stat\<close>; a component that
does not exist, is too long, or is below a file is refused with the right error.\<close>
theorem proc_lookup_is_walk:
  assumes "\<forall>n \<in> set ns. slash \<notin> set n"
  shows "proc_lookup k (concat (map ((#) slash) ns)) = Some (proc_walk k \<lparr>pe_meta = Proc_root, pe_pid = 0\<rparr> ns)"
  by (rule proc_lookup_walks[OF assms])

lemma demo_live: "filter (live_pid kern_demo) [1..<Suc MAX_PID] = [1]"
proof -
  have "live_pid kern_demo i \<longleftrightarrow> i = 1" if "i \<in> {1..<Suc MAX_PID}" for i
  proof -
    have "unat (of_nat i :: dword_t) = i" using that by (simp add: unat_of_nat)
    moreover have "(of_nat i :: dword_t) \<le> 1025" using that by (simp add: word_le_nat_alt unat_of_nat)
    ultimately show ?thesis
      using kern_demo_free[of i] kern_demo_sel(14)[unfolded One_nat_def] that
      by (cases "i = 1"; cases "i = 2")
        (auto simp: live_pid_def pid_get_task_def pid_get_task_zombie_def pid_get_def pid_empty_def not_less split: option.split)
  qed
  then have "filter (live_pid kern_demo) [1..<Suc MAX_PID] = filter (\<lambda>i. i = 1) [1..<Suc MAX_PID]"
    by (intro filter_cong) auto
  also have "\<dots> = [1]" by (subst upt_conv_Cons) (auto simp: filter_empty_conv)
  finally show ?thesis .
qed

theorem proc_lookup_is_walk_witness:
  "proc_lookup kern_demo ''/1/stat'' = Some (Inr \<lparr>pe_meta = Proc_stat, pe_pid = 1\<rparr>) \<and>
   proc_lookup kern_demo ''/2/stat'' = Some (Inl ENOENT) \<and> proc_lookup kern_demo ''/version/1'' = Some (Inl ENOTDIR)"
proof -
  have "nat_dec 1 = ''1''" by code_simp
  then show ?thesis
    using proc_lookup_is_walk[of "[''1'', ''stat'']" kern_demo] proc_lookup_is_walk[of "[''2'', ''stat'']" kern_demo]
      proc_lookup_is_walk[of "[''version'', ''1'']" kern_demo] demo_live
    by (simp add: proc_child_def pid_entry_def)
qed

text \<open>C19. \<open>getdents64\<close> on the root of \<open>proc\<close>, where the guest has room for what it writes:
of the entries that are left it writes, one after the other, as many as fit into
\<open>count\<close> bytes and never more, returns how many bytes that were, and goes on with the
first entry it has not written.\<close>
theorem getdents_lists_proc:
  assumes "vf_get f s = Some fd" "file_ops_of env fd s = procfs_fdops k texts" "vf_world s fd = Some d"
    "pe_meta (pd_entry d) = Proc_root" "pd_index d \<le> Suc MAX_PID" "length junk = 3"
    "entries = fitting (unat count) (root_rest k (pd_index d))"
    "vwrite dirents (listing_bytes junk entries) s = (0, t)"
  shows "\<exists>i. sys_getdents64 env junk f dirents count s
      = (int (length (listing_bytes junk entries)), t\<lparr>vf_world := (vf_world s)(fd \<mapsto> d\<lparr>pd_index := i\<rparr>)\<rparr>) \<and>
    length (listing_bytes junk entries) \<le> unat count \<and> entries @ root_rest k i = root_rest k (pd_index d)"
  by (rule getdents_root[OF assms])

lemma demo_rest: "root_rest kern_demo 0 = [(\<lparr>de_inode = 0, de_name = ''version''\<rparr>, 1), (\<lparr>de_inode = 0, de_name = ''1''\<rparr>, 2)]"
proof -
  have "nat_dec 1 = ''1''" by code_simp
  then show ?thesis using demo_live by (simp add: root_rest_def)
qed

lemma demo_vwrite:
  assumes "length bs < 100"
  shows "\<exists>t. vwrite 0x10000 bs files_demo = (0, t)"
proof -
  have "can_write vm_demo 0 (0x10000 + of_nat i)" if "i < 100" for i
  proof -
    have u: "unat (0x10000 + of_nat i :: addr_t) = 0x10000 + i" using that by (simp add: unat_word_ariths unat_of_nat)
    have "unat (PAGE (0x10000 + of_nat i)) = 0x10"
      using that unfolding PAGE_def unsigned_drop_bit_eq u by (simp add: drop_bit_eq_div take_bit_nat_eq_self)
    then have "PAGE (0x10000 + of_nat i) = 0x10" by (simp add: word_unat_eq_iff)
    then show ?thesis by (intro demo_can_write) simp
  qed
  then have "\<exists>w. user_write_task 0 0x10000 bs vm_demo = (0, w)"
    using assms by (intro user_write_succeeds[OF vm_demo_ok]) auto
  then show ?thesis by (auto simp: vwrite_def cur_vm_def on_kernel_def on_vm_def)
qed

theorem getdents_lists_proc_witness:
  "fst (sys_getdents64 fenv_demo [0, 0, 0] 0 0x10000 60 files_demo) = 54"
proof -
  let ?es = "fitting 60 (root_rest kern_demo 0)" and ?j = "[0, 0, 0] :: byte_t list"
  have len: "length (listing_bytes ?j ?es) = 54"
    using length_dirent[of ?j "(e, off)" for e off] by (simp add: demo_rest reclen_def listing_bytes_def)
  then obtain t where "vwrite 0x10000 (listing_bytes ?j ?es) files_demo = (0, t)"
    using demo_vwrite[of "listing_bytes ?j ?es"] by auto
  then show ?thesis
    using getdents_lists_proc[OF demo_slot, where env = fenv_demo and k = kern_demo and texts = texts_demo and d = root_fd
        and junk = ?j and entries = ?es and count = 60 and dirents = "0x10000" and t = t] len
    by (auto simp: root_fd_def file_ops_of_def kind_ops_def fenv_demo_def)
qed

end
