(* ===== verification/Exec.thy ===== *)
theory Exec
  imports Files
begin

text \<open>
  Loading a program (\<open>src/kernel/exec.c\<close>, \<open>src/kernel/elf.h\<close>, \<open>vdso_symbol\<close> of
  \<open>src/kernel/vdso.c\<close>). \<open>host\<close> holds what comes from outside: the random bytes, the
  size of a pointer, the page with the vdso and its entry point, whether \<open>errno\<close> was
  set before a short read, and the value of a variable that is not initialized. At the
  end the first files of the system (\<open>src/kernel/init.c\<close>, whose first process is in
  theory \<open>Process\<close>) and what the kernel tells about the host: \<open>src/kernel/uname.c\<close>,
  \<open>src/kernel/random.c\<close>. The answers of the host are parameters.
\<close>

subsection \<open>Headers\<close>

record elf_header =
  eh_magic :: dword_t
  eh_bitness :: byte_t
  eh_endian :: byte_t
  eh_elfversion1 :: byte_t
  eh_type :: word_t
  eh_machine :: word_t
  eh_entry_point :: dword_t
  eh_prghead_off :: dword_t
  eh_phent_count :: word_t

record prg_header =
  ph_type :: dword_t
  ph_offset :: dword_t
  ph_vaddr :: dword_t
  ph_filesize :: dword_t
  ph_memsize :: dword_t
  ph_flags :: dword_t

definition dword_at :: "byte_t list \<Rightarrow> nat \<Rightarrow> dword_t" where
  "dword_at bs i = word_of_bytes (take 4 (drop i bs))"

definition word_at :: "byte_t list \<Rightarrow> nat \<Rightarrow> word_t" where
  "word_at bs i = word_of_bytes (take 2 (drop i bs))"

definition elf_header_of :: "byte_t list \<Rightarrow> elf_header" where
  "elf_header_of bs =
    \<lparr>eh_magic = dword_at bs 0, eh_bitness = bs ! 4, eh_endian = bs ! 5, eh_elfversion1 = bs ! 6,
     eh_type = word_at bs 16, eh_machine = word_at bs 18, eh_entry_point = dword_at bs 24,
     eh_prghead_off = dword_at bs 28, eh_phent_count = word_at bs 44\<rparr>"

definition prg_header_of :: "byte_t list \<Rightarrow> prg_header" where
  "prg_header_of bs =
    \<lparr>ph_type = dword_at bs 0, ph_offset = dword_at bs 4, ph_vaddr = dword_at bs 8, ph_filesize = dword_at bs 16,
     ph_memsize = dword_at bs 20, ph_flags = dword_at bs 24\<rparr>"

abbreviation (input) PT_LOAD :: dword_t where "PT_LOAD \<equiv> 1"
abbreviation (input) PT_INTERP :: dword_t where "PT_INTERP \<equiv> 3"
abbreviation (input) ELF_EXECUTABLE :: word_t where "ELF_EXECUTABLE \<equiv> 2"
abbreviation (input) ELF_DYNAMIC :: word_t where "ELF_DYNAMIC \<equiv> 3"

record exec_host =
  ex_random :: "byte_t list"
  ex_pointer :: dword_t
  ex_vdso :: hptr
  ex_vdso_entry :: addr_t
  ex_errno :: bool
  ex_junk :: addr_t

subsection \<open>Reading the file\<close>

text \<open>A step that may fail, and what comes after it.\<close>

definition andthen :: "(int + 'a) \<times> 'w vfs \<Rightarrow> ('a \<Rightarrow> 'w vfs \<Rightarrow> (int + 'b) \<times> 'w vfs) \<Rightarrow> (int + 'b) \<times> 'w vfs" where
  "andthen m f = (case m of (Inl err, s) \<Rightarrow> (Inl err, s) | (Inr x, s) \<Rightarrow> f x s)"

text \<open>\<open>lseek\<close> and \<open>read\<close> are called without a test.\<close>

definition file_seek :: "'w env \<Rightarrow> nat \<Rightarrow> dword_t \<Rightarrow> 'w vfs \<Rightarrow> int \<times> 'w vfs" where
  "file_seek env fd off s =
    (case fo_lseek (file_ops_of env fd s) of None \<Rightarrow> (0, vbad s) | Some g \<Rightarrow> on_world (g fd (ucast off) 0) s)"

definition file_read :: "'w env \<Rightarrow> nat \<Rightarrow> nat \<Rightarrow> 'w vfs \<Rightarrow> (int \<times> byte_t list) \<times> 'w vfs" where
  "file_read env fd n s =
    (case fo_read (file_ops_of env fd s) of
       None \<Rightarrow> ((0, []), vbad s)
     | Some g \<Rightarrow> (case g fd n (vf_world s) of (r, bs, w) \<Rightarrow> ((r, bs), s\<lparr>vf_world := w\<rparr>)))"

definition bad_header :: "elf_header \<Rightarrow> bool" where
  "bad_header h \<longleftrightarrow> eh_magic h \<noteq> 0x464c457f \<or> eh_type h \<noteq> ELF_EXECUTABLE \<and> eh_type h \<noteq> ELF_DYNAMIC \<or>
     eh_bitness h \<noteq> 1 \<or> eh_endian h \<noteq> 1 \<or> eh_elfversion1 h \<noteq> 1 \<or> eh_machine h \<noteq> 3"

definition read_header :: "'w env \<Rightarrow> nat \<Rightarrow> 'w vfs \<Rightarrow> (int + elf_header) \<times> 'w vfs" where
  "read_header env fd s =
    (case file_seek env fd 0 s of
       (r, s) \<Rightarrow>
         if r \<noteq> 0 then (Inl EIO, s)
         else case file_read env fd 52 s of
                ((r, bs), s) \<Rightarrow>
                  if r \<noteq> 52 then (Inl (if r < 0 then EIO else ENOEXEC), s)
                  else if bad_header (elf_header_of bs) then (Inl ENOEXEC, s)
                  else (Inr (elf_header_of bs), s))"

definition read_prg_headers :: "'w env \<Rightarrow> exec_host \<Rightarrow> nat \<Rightarrow> elf_header \<Rightarrow> 'w vfs \<Rightarrow> (int + prg_header list) \<times> 'w vfs" where
  "read_prg_headers env h fd header s =
    (let n = unat (eh_phent_count header)
     in case on_kernel kmalloc s of
          (False, s) \<Rightarrow> (Inl ENOMEM, s)
        | (True, s) \<Rightarrow>
            (case file_seek env fd (eh_prghead_off header) s of
               (r, s) \<Rightarrow>
                 if r < 0 then (Inl EIO, s)
                 else case file_read env fd (32 * n) s of
                        ((r, bs), s) \<Rightarrow>
                          if r \<noteq> int (32 * n) then (Inl (if ex_errno h then EIO else ENOEXEC), s)
                          else (Inr (map (\<lambda>i. prg_header_of (drop (32 * i) bs)) [0..<n]), s)))"

text \<open>The interpreter that the headers name, opened and with its headers. The name is used
as a string whether it is terminated or not. After an error nothing stays open.\<close>

type_synonym interp = "nat \<times> elf_header \<times> prg_header list"

definition elibbad :: "(int + 'a) \<times> 'w vfs \<Rightarrow> (int + 'a) \<times> 'w vfs" where
  "elibbad r = (case r of (Inl err, s) \<Rightarrow> (Inl (if err = ENOEXEC then ELIBBAD else err), s) | _ \<Rightarrow> r)"

definition close_on_error :: "nat \<Rightarrow> (int + 'a) \<times> 'w vfs \<Rightarrow> (int + 'a) \<times> 'w vfs" where
  "close_on_error fd r = (case r of (Inl err, s) \<Rightarrow> (Inl err, snd (close_file fd s)) | _ \<Rightarrow> r)"

definition open_interp :: "'w env \<Rightarrow> exec_host \<Rightarrow> nat \<Rightarrow> prg_header \<Rightarrow> 'w vfs \<Rightarrow> (int + interp) \<times> 'w vfs" where
  "open_interp env h fd ph s =
    (case on_kernel kmalloc s of
       (False, s) \<Rightarrow> (Inl ENOMEM, s)
     | (True, s) \<Rightarrow>
         (case file_seek env fd (ph_offset ph) s of
            (r, s) \<Rightarrow>
              if r < 0 then (Inl EIO, s)
              else case file_read env fd (unat (ph_filesize ph)) s of
                     ((r, bs), s) \<Rightarrow>
                       if r \<noteq> uint (ph_filesize ph) then (Inl EIO, s)
                       else andthen (generic_open env (text_of (takeWhile (\<lambda>b. b \<noteq> 0) bs)) 0 0
                                      (if 0 \<in> set bs then s else vbad s)) (\<lambda>ifd s.
                              close_on_error ifd (andthen (elibbad (read_header env ifd s)) (\<lambda>ih s.
                                andthen (elibbad (read_prg_headers env h ifd ih s)) (\<lambda>iph s. (Inr (ifd, ih, iph), s)))))))"

fun find_interp ::
  "'w env \<Rightarrow> exec_host \<Rightarrow> nat \<Rightarrow> prg_header list \<Rightarrow> interp option \<Rightarrow> 'w vfs \<Rightarrow> (int + interp option) \<times> 'w vfs"
where
  "find_interp env h fd [] found s = (Inr found, s)"
| "find_interp env h fd (ph # phs) found s =
    (if ph_type ph \<noteq> PT_INTERP then find_interp env h fd phs found s
     else case found of
            Some (ifd, _) \<Rightarrow> (Inl EINVAL, snd (close_file ifd s))
          | None \<Rightarrow> andthen (open_interp env h fd ph s) (\<lambda>i s. find_interp env h fd phs (Some i) s))"

subsection \<open>Mapping\<close>

definition vm_step :: "(mem_id \<Rightarrow> vm \<Rightarrow> int \<times> vm) \<Rightarrow> 'w vfs \<Rightarrow> (int + unit) \<times> 'w vfs" where
  "vm_step f s = (case cur_vm f s of (err, s) \<Rightarrow> (if err < 0 then Inl err else Inr (), s))"

text \<open>A failure to clear the rest of a page is not noticed.\<close>

definition load_entry :: "'w env \<Rightarrow> prg_header \<Rightarrow> addr_t \<Rightarrow> nat \<Rightarrow> 'w vfs \<Rightarrow> (int + unit) \<times> 'w vfs" where
  "load_entry env ph delta fd s =
    (let addr = ph_vaddr ph + delta; offset = ph_offset ph; memsize = ph_memsize ph; filesize = ph_filesize ph;
         flags = (if ph_flags ph AND 2 \<noteq> 0 then P_READ OR P_WRITE else P_READ)
     in case fo_mmap (file_ops_of env fd s) of
          None \<Rightarrow> (Inr (), vbad s)
        | Some mmap \<Rightarrow>
            andthen (vm_step (\<lambda>m. mmap fd m (PAGE addr) (PAGE_ROUND_UP (filesize + PGOFFSET addr))
                        (ucast (offset - PGOFFSET addr)) flags MMAP_PRIVATE (vf_world s)) s) (\<lambda>_ s.
              if memsize > filesize then
                (let bss_size = memsize - filesize; file_end = addr + filesize;
                     rest = PAGE_SIZE - PGOFFSET file_end; tail_size = (if rest = PAGE_SIZE then 0 else rest);
                     s = (if tail_size \<noteq> 0 then snd (vwrite file_end (replicate (unat tail_size) 0) s) else s);
                     tail_size = (if tail_size > bss_size then bss_size else tail_size)
                 in if bss_size - tail_size \<noteq> 0
                    then vm_step (\<lambda>m. pt_map_nothing m (PAGE_ROUND_UP (addr + filesize)) (PAGE_ROUND_UP (bss_size - tail_size)) flags) s
                    else (Inr (), s))
              else (Inr (), s)))"

definition raise_brk :: "addr_t \<Rightarrow> 'w vfs \<Rightarrow> 'w vfs" where
  "raise_brk brk s =
    snd (cur_vm (\<lambda>m v. ((), upd_mem m (\<lambda>x. if brk > mem_start_brk x
       then x\<lparr>mem_start_brk := BYTES_ROUND_UP brk, mem_brk := BYTES_ROUND_UP brk\<rparr> else x) v)) s)"

text \<open>The segments of the program, with the address of the first one and the bias.\<close>

fun load_program ::
  "'w env \<Rightarrow> nat \<Rightarrow> bool \<Rightarrow> prg_header list \<Rightarrow> addr_t option \<Rightarrow> addr_t \<Rightarrow> 'w vfs \<Rightarrow> (int + addr_t option \<times> addr_t) \<times> 'w vfs"
where
  "load_program env fd dynamic [] load_addr delta s = (Inr (load_addr, delta), s)"
| "load_program env fd dynamic (ph # phs) load_addr delta s =
    (if ph_type ph \<noteq> PT_LOAD then load_program env fd dynamic phs load_addr delta s
     else let delta = (if load_addr = None \<and> dynamic then 0x56555000 else delta)
          in andthen (load_entry env ph delta fd s) (\<lambda>_ s.
               load_program env fd dynamic phs
                 (Some (case load_addr of None \<Rightarrow> delta + ph_vaddr ph - ph_offset ph | Some a \<Rightarrow> a)) delta
                 (raise_brk (delta + ph_vaddr ph + ph_memsize ph) s)))"

fun load_interp :: "'w env \<Rightarrow> nat \<Rightarrow> addr_t \<Rightarrow> prg_header list \<Rightarrow> 'w vfs \<Rightarrow> (int + unit) \<times> 'w vfs" where
  "load_interp env fd base [] s = (Inr (), s)"
| "load_interp env fd base (ph # phs) s =
    (if ph_type ph \<noteq> PT_LOAD then load_interp env fd base phs s
     else andthen (load_entry env ph base fd s) (\<lambda>_. load_interp env fd base phs))"

definition interp_size :: "prg_header list \<Rightarrow> pages_t" where
  "interp_size phs =
    (case filter (\<lambda>ph. ph_type ph = PT_LOAD) phs of
       [] \<Rightarrow> 0
     | first # rest \<Rightarrow>
         (let final = last (first # rest) in PAGE_ROUND_UP (ph_vaddr final + ph_memsize final) - PAGE (ph_vaddr first)))"

definition hole :: "pages_t \<Rightarrow> 'w vfs \<Rightarrow> page_t \<times> 'w vfs" where
  "hole n s =
    (case vm_mems (k_vm (vf_kern s)) (t_mem (cur_task (vf_kern s))) of
       None \<Rightarrow> (0, vbad s) | Some m \<Rightarrow> (pt_find_hole m n, s))"

text \<open>The old address space is released before the new one is made. Without memory for it, a
null pointer is followed.\<close>

definition fresh_mem :: "'w vfs \<Rightarrow> 'w vfs" where
  "fresh_mem s =
    (case cur_vm (\<lambda>m v. mem_new (mem_release m v)) s of
       (None, s) \<Rightarrow> vbad s
     | (Some n, s) \<Rightarrow> s\<lparr>vf_kern := upd_task (k_current (vf_kern s)) (\<lambda>x. x\<lparr>t_mem := n\<rparr>) (vf_kern s)\<rparr>)"

text \<open>There is no test whether a hole for the interpreter has been found.\<close>

record image =
  im_load_addr :: addr_t
  im_bias :: addr_t
  im_entry :: addr_t
  im_interp :: addr_t

definition map_image ::
  "'w env \<Rightarrow> exec_host \<Rightarrow> nat \<Rightarrow> elf_header \<Rightarrow> prg_header list \<Rightarrow> interp option \<Rightarrow> 'w vfs \<Rightarrow> (int + image) \<times> 'w vfs"
where
  "map_image env h fd header ph found s =
    andthen (load_program env fd (eh_type header = ELF_DYNAMIC) ph None 0 s) (\<lambda>(load_addr, delta) s.
      let load_addr = (case load_addr of None \<Rightarrow> ex_junk h | Some a \<Rightarrow> a)
      in case found of
           None \<Rightarrow> (Inr \<lparr>im_load_addr = load_addr, im_bias = delta, im_entry = delta + eh_entry_point header, im_interp = 0\<rparr>, s)
         | Some (ifd, ih, iph) \<Rightarrow>
             (case hole (interp_size iph) s of
                (page, s) \<Rightarrow>
                  (let base = push_bit PAGE_BITS page
                   in andthen (load_interp env ifd base (rev iph) s) (\<lambda>_ s.
                        (Inr \<lparr>im_load_addr = load_addr, im_bias = delta, im_entry = base + eh_entry_point ih, im_interp = base\<rparr>, s)))))"

definition map_vdso :: "exec_host \<Rightarrow> 'w vfs \<Rightarrow> (int + addr_t) \<times> 'w vfs" where
  "map_vdso h s =
    (case hole 2 s of
       (page, s) \<Rightarrow>
         if page = BAD_PAGE then (Inl ENOMEM, s)
         else andthen (vm_step (\<lambda>m. pt_map m page 2 (Inr (ex_vdso h)) 0) s) (\<lambda>_ s.
                let vdso = push_bit PAGE_BITS page;
                    s = snd (cur_vm (\<lambda>m v. ((), upd_mem m (\<lambda>x. x\<lparr>mem_vdso := vdso\<rparr>) v)) s)
                in case hole 3 s of
                     (vvar, s) \<Rightarrow>
                       if vvar = BAD_PAGE then (Inl 0, s)
                       else andthen (vm_step (\<lambda>m. pt_map_nothing m vvar 3 0) s) (\<lambda>_ s.
                              andthen (vm_step (\<lambda>m. pt_map_nothing m 0xffffd 1 (P_WRITE OR P_GROWSDOWN)) s) (\<lambda>_ s.
                                (Inr vdso, s)))))"

subsection \<open>The stack of the program\<close>

definition align_stack :: "addr_t \<Rightarrow> addr_t" where
  "align_stack sp = sp AND NOT 0xf"

text \<open>Both return 0 when the guest has no room.\<close>

definition copy_string :: "addr_t \<Rightarrow> string \<Rightarrow> 'w vfs \<Rightarrow> addr_t \<times> 'w vfs" where
  "copy_string sp t s =
    (let sp = sp - of_nat (length t + 1)
     in case cur_vm (\<lambda>m. user_write_string m sp (bytes_of_text t)) s of (err, s) \<Rightarrow> (if err \<noteq> 0 then 0 else sp, s))"

fun copy_last_first :: "addr_t \<Rightarrow> string list \<Rightarrow> 'w vfs \<Rightarrow> addr_t \<times> 'w vfs" where
  "copy_last_first sp [] s = (sp, s)"
| "copy_last_first sp (t # ts) s =
    (case copy_string sp t s of (sp, s) \<Rightarrow> if sp = 0 then (0, s) else copy_last_first sp ts s)"

definition copy_strings :: "addr_t \<Rightarrow> string list \<Rightarrow> 'w vfs \<Rightarrow> addr_t \<times> 'w vfs" where
  "copy_strings sp ts = copy_last_first sp (rev ts)"

definition placed :: "addr_t \<times> 'w vfs \<Rightarrow> (int + addr_t) \<times> 'w vfs" where
  "placed r = (case r of (sp, s) \<Rightarrow> (if sp = 0 then Inl EFAULT else Inr sp, s))"

text \<open>The length of a string of the guest, \<open>-1\<close> where it cannot be read. An address space
that holds no zero byte is read again and again: after \<open>2^32\<close> bytes that is certain.\<close>

fun strlen_loop :: "nat \<Rightarrow> addr_t \<Rightarrow> dword_t \<Rightarrow> 'w vfs \<Rightarrow> dword_t \<times> 'w vfs" where
  "strlen_loop 0 p i s = (0, vbad s)"
| "strlen_loop (Suc n) p i s =
    (case vread (p + i) 1 s of
       (Some [c], s) \<Rightarrow> if c = 0 then (i, s) else strlen_loop n p (i + 1) s
     | (_, s) \<Rightarrow> (- 1, s))"

definition user_strlen :: "addr_t \<Rightarrow> 'w vfs \<Rightarrow> dword_t \<times> 'w vfs" where
  "user_strlen p = strlen_loop (2 ^ 32) p 0"

text \<open>The strings have been copied one behind the other, and are found again by their
lengths.\<close>

fun put_pointers :: "nat \<Rightarrow> addr_t \<Rightarrow> addr_t \<Rightarrow> 'w vfs \<Rightarrow> (int + addr_t) \<times> 'w vfs" where
  "put_pointers 0 p a s = (Inr p, s)"
| "put_pointers (Suc n) p a s =
    (case vwrite p (bytes_of_word 4 a) s of
       (err, s) \<Rightarrow>
         if err \<noteq> 0 then (Inl EFAULT, s)
         else case user_strlen a s of (len, s) \<Rightarrow> put_pointers n (p + 4) (a + len + 1) s)"

definition aux_vector :: "exec_host \<Rightarrow> elf_header \<Rightarrow> image \<Rightarrow> addr_t \<Rightarrow> addr_t \<Rightarrow> addr_t \<Rightarrow> addr_t \<Rightarrow> (dword_t \<times> dword_t) list" where
  "aux_vector h header im vdso random_addr file_addr platform_addr =
    [(32, vdso + ex_vdso_entry h), (33, vdso), (16, 0), (6, PAGE_SIZE), (17, 0x64),
     (3, im_load_addr im + eh_prghead_off header), (4, 32), (5, ucast (eh_phent_count header)), (7, im_interp im),
     (8, 0), (9, im_bias im + eh_entry_point header), (11, 0), (12, 0), (13, 0), (14, 0), (23, 0),
     (25, random_addr), (26, 0), (31, file_addr), (15, platform_addr), (0, 0)]"

record strings =
  sg_file :: addr_t
  sg_envp :: addr_t
  sg_argv :: addr_t
  sg_platform :: addr_t
  sg_random :: addr_t

definition push_strings :: "exec_host \<Rightarrow> string \<Rightarrow> string list \<Rightarrow> string list \<Rightarrow> 'w vfs \<Rightarrow> (int + strings) \<times> 'w vfs" where
  "push_strings h file argv envp s =
    andthen (placed (copy_string (0xffffe000 - ex_pointer h) file s)) (\<lambda>file_addr s.
    andthen (placed (copy_strings file_addr envp s)) (\<lambda>envp_addr s.
    andthen (placed (copy_strings envp_addr argv s)) (\<lambda>argv_addr s.
    andthen (placed (copy_string (align_stack argv_addr) ''i686'' s)) (\<lambda>platform_addr s.
      let random_addr = platform_addr - 16
      in case vwrite random_addr (ex_random h) s of
           (err, s) \<Rightarrow>
             if err \<noteq> 0 then (Inl EFAULT, s)
             else (Inr \<lparr>sg_file = file_addr, sg_envp = envp_addr, sg_argv = argv_addr, sg_platform = platform_addr,
                         sg_random = random_addr\<rparr>, s)))))"

text \<open>Counts and pointers, downwards from the strings. These errors return at once, without
closing the interpreter.\<close>

definition push_pointers :: "string list \<Rightarrow> string list \<Rightarrow> strings \<Rightarrow> addr_t \<Rightarrow> 'w vfs \<Rightarrow> (int + addr_t) \<times> 'w vfs" where
  "push_pointers argv envp g sp s =
    (case vwrite sp (bytes_of_word 4 (of_nat (length argv) :: dword_t)) s of
       (err, s) \<Rightarrow>
         if err \<noteq> 0 then (Inl EFAULT, s)
         else andthen (put_pointers (length argv) (sp + 4) (sg_argv g) s) (\<lambda>p s.
              andthen (put_pointers (length envp) (p + 4) (sg_envp g) s) (\<lambda>p s. (Inr (p + 4), s))))"

definition stack_top :: "string list \<Rightarrow> string list \<Rightarrow> strings \<Rightarrow> addr_t" where
  "stack_top argv envp g =
    align_stack (sg_random g - 4 * of_nat ((length argv + 1) + (length envp + 1) + 1) - 8 * 21)"

definition start_cpu :: "addr_t \<Rightarrow> addr_t \<Rightarrow> cpu_state \<Rightarrow> cpu_state" where
  "start_cpu sp entry_addr cpu =
    collapse_flags (cpu\<lparr>cpu_regs := (cpu_regs cpu)(reg_esp := sp), cpu_eip := entry_addr, cpu_fcw := 0x37f\<rparr>)"

definition finish_exec ::
  "exec_host \<Rightarrow> elf_header \<Rightarrow> string list \<Rightarrow> string list \<Rightarrow> image \<Rightarrow> addr_t \<Rightarrow> strings \<Rightarrow> addr_t \<Rightarrow> 'w vfs \<Rightarrow> int \<times> 'w vfs"
where
  "finish_exec h header argv envp im vdso g p s =
    (case vwrite p (concat (map (\<lambda>(t, x). bytes_of_word 4 t @ bytes_of_word 4 x)
             (aux_vector h header im vdso (sg_random g) (sg_file g) (sg_platform g)))) s of
       (err, s) \<Rightarrow>
         if err \<noteq> 0 then (EFAULT, s)
         else (0, s\<lparr>vf_kern := upd_task (k_current (vf_kern s))
                (\<lambda>x. x\<lparr>t_cpu := start_cpu (stack_top argv envp g) (im_entry im) (t_cpu x)\<rparr>) (vf_kern s)\<rparr>))"

text \<open>The interpreter is closed at the end, or after an error.\<close>

definition close_interp :: "interp option \<Rightarrow> int \<times> 'w vfs \<Rightarrow> int \<times> 'w vfs" where
  "close_interp found r =
    (case r of (err, s) \<Rightarrow> (err, case found of None \<Rightarrow> s | Some (ifd, _) \<Rightarrow> snd (close_file ifd s)))"

definition elf_exec :: "'w env \<Rightarrow> exec_host \<Rightarrow> nat \<Rightarrow> string \<Rightarrow> string list \<Rightarrow> string list \<Rightarrow> 'w vfs \<Rightarrow> int \<times> 'w vfs" where
  "elf_exec env h fd file argv envp s =
    (case andthen (read_header env fd s) (\<lambda>header s.
          andthen (read_prg_headers env h fd header s) (\<lambda>ph s.
          andthen (find_interp env h fd ph None s) (\<lambda>found s. (Inr (header, ph, found), s)))) of
       (Inl err, s) \<Rightarrow> (err, s)
     | (Inr (header, ph, found), s) \<Rightarrow>
         (case andthen (map_image env h fd header ph found (fresh_mem s)) (\<lambda>im s.
               andthen (map_vdso h s) (\<lambda>vdso s.
               andthen (push_strings h file argv envp s) (\<lambda>g s. (Inr (im, vdso, g), s)))) of
            (Inl err, s) \<Rightarrow> close_interp found (err, s)
          | (Inr (im, vdso, g), s) \<Rightarrow>
              (case push_pointers argv envp g (stack_top argv envp g) s of
                 (Inl err, s) \<Rightarrow> (err, s)
               | (Inr p, s) \<Rightarrow> close_interp found (finish_exec h header argv envp im vdso g p s))))"

subsection \<open>Scripts\<close>

text \<open>The first line of a script: the interpreter and its argument. A line has to be ended by a
newline within 127 bytes and before any zero byte.\<close>

definition strip_end :: "string \<Rightarrow> string" where
  "strip_end t = rev (dropWhile (\<lambda>c. c = CHR '' '') (rev t))"

definition parse_shebang :: "byte_t list \<Rightarrow> (string \<times> string option) option" where
  "parse_shebang bs =
    (let t = text_of (takeWhile (\<lambda>b. b \<noteq> 0) bs); nl = (\<lambda>c. c = char_of (10 :: nat)); blank = (\<lambda>c. c = CHR '' '')
     in if \<not> (\<exists>c \<in> set t. nl c) then None
        else let line = takeWhile (\<lambda>c. \<not> nl c) t
             in if take 2 line \<noteq> ''#!'' then None
                else let p = dropWhile blank (drop 2 line)
                     in if p = [] then None
                        else let interpreter = takeWhile (\<lambda>c. \<not> blank c) p;
                                 argument = strip_end (dropWhile blank (dropWhile (\<lambda>c. \<not> blank c) p))
                             in Some (interpreter, if argument = [] then None else Some argument))"

definition script_args :: "string \<Rightarrow> string option \<Rightarrow> string \<Rightarrow> string list \<Rightarrow> string list" where
  "script_args interpreter argument file argv =
    [interpreter] @ (case argument of None \<Rightarrow> [] | Some a \<Rightarrow> [a]) @ [file] @ tl argv"

definition format_exec :: "'w env \<Rightarrow> exec_host \<Rightarrow> nat \<Rightarrow> string \<Rightarrow> string list \<Rightarrow> string list \<Rightarrow> 'w vfs \<Rightarrow> int \<times> 'w vfs" where
  "format_exec env h fd file argv envp = elf_exec env h fd file argv envp"

text \<open>The arguments of the program are copied from the second one on, and there may be none.
An interpreter that cannot be opened is an error pointer that is followed.\<close>

definition shebang_exec :: "'w env \<Rightarrow> exec_host \<Rightarrow> nat \<Rightarrow> string \<Rightarrow> string list \<Rightarrow> string list \<Rightarrow> 'w vfs \<Rightarrow> int \<times> 'w vfs" where
  "shebang_exec env h fd file argv envp s =
    (case file_seek env fd 0 s of
       (r, s) \<Rightarrow>
         if r \<noteq> 0 then (EIO, s)
         else case file_read env fd 127 s of
                ((r, bs), s) \<Rightarrow>
                  if r < 0 then (EIO, s)
                  else case parse_shebang (take (nat r) bs) of
                         None \<Rightarrow> (ENOEXEC, s)
                       | Some (interpreter, argument) \<Rightarrow>
                           (case generic_open env interpreter 0 0 (if argv = [] then vbad s else s) of
                              (Inl _, s) \<Rightarrow> (0, vbad s)
                            | (Inr ifd, s) \<Rightarrow>
                                (case format_exec env h ifd interpreter (script_args interpreter argument file argv) envp s of
                                   (err, s) \<Rightarrow> (err, snd (close_file ifd s)))))"

subsection \<open>The calls\<close>

definition close_on_exec :: "'w vfs \<Rightarrow> 'w vfs" where
  "close_on_exec s =
    (case cur (task_fds (vf_kern s)) of
       None \<Rightarrow> vbad s
     | Some tb \<Rightarrow>
         fold (\<lambda>f s. if map_option (\<lambda>tb. ft_cloexec tb f) (cur (task_fds (vf_kern s))) = Some True then snd (vf_close f s) else s)
           (map of_nat [0..<unat (ft_size tb)]) s)"

text \<open>The signal actions and the alternate stack of the table that the task uses, even when it
shares it.\<close>

definition reset_actions :: "sighand \<Rightarrow> sighand" where
  "reset_actions sh =
    sh\<lparr>sh_action := (\<lambda>i. if i < NUM_SIGS \<and> sa_handler (sh_action sh i) \<noteq> SIG_IGN
          then (sh_action sh i)\<lparr>sa_handler := SIG_DFL\<rparr> else sh_action sh i),
       sh_altstack := 0\<rparr>"

definition last_component :: "string \<Rightarrow> string" where
  "last_component t = rev (takeWhile (\<lambda>c. c \<noteq> slash) (rev t))"

definition exec_done :: "string \<Rightarrow> 'w vfs \<Rightarrow> 'w vfs" where
  "exec_done file s =
    (let s = close_on_exec s; k = vf_kern s; t = k_current k
     in s\<lparr>vf_kern := upd_task t (\<lambda>x. x\<lparr>t_comm := take 16 (last_component file), t_did_exec := True\<rparr>)
          (upd_sighand (t_sighand (get_task t k)) reset_actions
            (upd_task t (\<lambda>x. x\<lparr>t_vfork_done := True\<rparr>) k))\<rparr>)"

definition sys_execve :: "'w env \<Rightarrow> exec_host \<Rightarrow> string \<Rightarrow> string list \<Rightarrow> string list \<Rightarrow> 'w vfs \<Rightarrow> int \<times> 'w vfs" where
  "sys_execve env h file argv envp s =
    (case generic_open env file 0 0 s of
       (Inl err, s) \<Rightarrow> (err, s)
     | (Inr fd, s) \<Rightarrow>
         (case (case format_exec env h fd file argv envp s of
                  (err, s) \<Rightarrow> if err = ENOEXEC then shebang_exec env h fd file argv envp s else (err, s)) of
            (err, s) \<Rightarrow>
              (let s = snd (close_file fd s) in if err < 0 then (err, s) else (err, exec_done file s))))"

text \<open>The vectors of the guest. 256 strings are accepted, but their array has no room for the
null pointer after them.\<close>

abbreviation (input) MAX_ARGS :: nat where "MAX_ARGS \<equiv> 256"

fun read_vector :: "nat \<Rightarrow> addr_t \<Rightarrow> 'w vfs \<Rightarrow> (int + string list) \<times> 'w vfs" where
  "read_vector 0 a s =
    (case on_kernel (kget a 1) s of
       (None, s) \<Rightarrow> (Inl EFAULT, s)
     | (Some ws, s) \<Rightarrow> if ws = [0] then (Inr [], vbad s) else (Inl E2BIG, s))"
| "read_vector (Suc n) a s =
    (case on_kernel (kget a 1) s of
       (None, s) \<Rightarrow> (Inl EFAULT, s)
     | (Some ws, s) \<Rightarrow>
         if ws = [0] then (Inr [], s)
         else case vstring (hd ws) MAX_PATH s of
                (None, s) \<Rightarrow> (Inl EFAULT, s)
              | (Some t, s) \<Rightarrow> andthen (read_vector n (a + 4) s) (\<lambda>ts s. (Inr (t # ts), s)))"

definition execve_call :: "'w env \<Rightarrow> exec_host \<Rightarrow> addr_t \<Rightarrow> addr_t \<Rightarrow> addr_t \<Rightarrow> 'w vfs \<Rightarrow> int \<times> 'w vfs" where
  "execve_call env h filename_addr argv_addr envp_addr s =
    (case vstring filename_addr MAX_PATH s of
       (None, s) \<Rightarrow> (EFAULT, s)
     | (Some filename, s) \<Rightarrow>
         (case andthen (read_vector MAX_ARGS argv_addr s) (\<lambda>argv s.
               andthen (read_vector MAX_ARGS envp_addr s) (\<lambda>envp s. (Inr (argv, envp), s))) of
            (Inl err, s) \<Rightarrow> (err, s)
          | (Inr (argv, envp), s) \<Rightarrow> sys_execve env h filename argv envp s))"

subsection \<open>Symbols of the vdso\<close>

text \<open>On the bytes of the file, the tags read up to the first zero one. A table that is missing
and a file without dynamic section abort, which is \<open>None\<close>; what a read outside of the
file gives has no meaning.\<close>

function dynamic_tags :: "byte_t list \<Rightarrow> nat \<Rightarrow> (dword_t \<times> dword_t) list" where
  "dynamic_tags v i =
    (if length v \<le> i \<or> dword_at v i = 0 then [] else (dword_at v i, dword_at v (i + 4)) # dynamic_tags v (i + 8))"
  by auto
termination
  by (relation "measure (\<lambda>(v, i). length v - i)") auto

declare dynamic_tags.simps [simp del]

definition last_tag :: "dword_t \<Rightarrow> (dword_t \<times> dword_t) list \<Rightarrow> nat option" where
  "last_tag t xs = map_option (unat \<circ> snd) (find (\<lambda>x. fst x = t) (rev xs))"

definition string_at :: "byte_t list \<Rightarrow> nat \<Rightarrow> string" where
  "string_at v i = text_of (takeWhile (\<lambda>b. b \<noteq> 0) (drop i v))"

definition vdso_symbol :: "byte_t list \<Rightarrow> string \<Rightarrow> dword_t option" where
  "vdso_symbol v name =
    (let header = elf_header_of v;
         ph = map (\<lambda>i. prg_header_of (drop (unat (eh_prghead_off header) + 32 * i) v)) [0..<unat (eh_phent_count header)]
     in case find (\<lambda>p. ph_type p = 2) ph of
          None \<Rightarrow> None
        | Some p \<Rightarrow>
            (let tags = dynamic_tags v (unat (ph_offset p))
             in case (last_tag 5 tags, last_tag 6 tags, last_tag 4 tags) of
                  (Some strs, Some syms, Some hash) \<Rightarrow>
                    (case find (\<lambda>i. string_at v (strs + unat (dword_at v (syms + 16 * i))) = name) [0..<unat (dword_at v (hash + 4))] of
                       None \<Rightarrow> Some 0
                     | Some i \<Rightarrow> Some (dword_at v (syms + 16 * i + 4)))
                | _ \<Rightarrow> None))"

section \<open>Start-up and the host\<close>

subsection \<open>The root and the standard files\<close>

abbreviation (input) SIGPIPE :: nat where "SIGPIPE \<equiv> 13"

text \<open>\<open>errno_map\<close>, with the signal that it sends to the task.\<close>

definition host_error :: "host_errno \<Rightarrow> 'w vfs \<Rightarrow> int \<times> 'w vfs" where
  "host_error e s =
    (case errno_map e of
       (sigpipe, err) \<Rightarrow>
         (err, if sigpipe then s\<lparr>vf_kern := send_signal (k_current (vf_kern s)) SIGPIPE (vf_kern s)\<rparr> else s))"

definition mount_root :: "'w env \<Rightarrow> nat \<Rightarrow> host_errno + string \<Rightarrow> 'w vfs \<Rightarrow> int \<times> 'w vfs" where
  "mount_root env fs source_realpath s =
    (case source_realpath of
       Inl e \<Rightarrow> host_error e s
     | Inr source \<Rightarrow> (case mount_fs env fs source [] s of (err, s) \<Rightarrow> (if err < 0 then err else 0, s)))"

text \<open>The terminal is opened without a descriptor of its own, so an error leaves the file
behind. The first three slots are set without a look at what is in them.\<close>

definition stdio_file :: "nat \<Rightarrow> 'w vfs \<Rightarrow> 'w vfs" where
  "stdio_file fd s =
    s\<lparr>vf_file := (vf_file s)(fd := map_option (\<lambda>x. x\<lparr>fl_stat := (fl_stat x)\<lparr>st_rdev := ucast (dev_make 4 0), st_mode := 0x2100\<rparr>\<rparr>) (vf_file s fd)),
      vf_kern := (vf_kern s)\<lparr>k_fds := upd_fd fd (\<lambda>x. x\<lparr>fd_flags := 2\<rparr>) (k_fds (vf_kern s))\<rparr>\<rparr>"

definition create_stdio :: "'w env \<Rightarrow> 'w vfs \<Rightarrow> int \<times> 'w vfs" where
  "create_stdio env s =
    (case new_file None Mem_dev s of
       (fd, s) \<Rightarrow>
         (case dev_open env 4 0 True fd (stdio_file fd s) of
            (err, s) \<Rightarrow>
              if err < 0 then (err, s)
              else (0, snd (on_kernel (on_fds (\<lambda>x.
                     ((), put_slot 2 (Some fd) (put_slot 1 (Some fd) (put_slot 0 (Some fd)
                            (upd_fd fd (\<lambda>y. y\<lparr>fd_refcount := 3\<rparr>) x)))))) s))))"

subsection \<open>Names and numbers of the system\<close>

definition name_field :: "string \<Rightarrow> byte_t list" where
  "name_field t = bytes_of_text t @ replicate (65 - length t) 0"

text \<open>The names are copied without a test of their length; that of the host has room for its
zero byte.\<close>

definition do_uname :: "string \<Rightarrow> string \<Rightarrow> byte_t list" where
  "do_uname nodename date =
    concat (map name_field [''Linux'', nodename, ''3.2.0-ish'', ''SUPER AWESOME compiled on '' @ date, ''i686'', ''(none)''])"

definition sys_uname :: "string \<Rightarrow> string \<Rightarrow> addr_t \<Rightarrow> 'w vfs \<Rightarrow> int \<times> 'w vfs" where
  "sys_uname nodename date uts_addr s =
    (case vwrite uts_addr (do_uname nodename date) s of (err, s) \<Rightarrow> (if err \<noteq> 0 then EFAULT else 0, s))"

definition sys_sethostname :: "addr_t \<Rightarrow> dword_t \<Rightarrow> int" where
  "sys_sethostname hostname_addr hostname_len = EPERM"

text \<open>\<open>struct sysinfo\<close> of Linux. The three loads are numbers of 64 bits, and are copied with
all their bytes into three numbers of 32: the first one with both halves, and half of
the second one. The memory behind, into which the rest goes, is set afterwards.\<close>

record host_sysinfo =
  hs_loads :: "qword_t list"
  hs_uptime :: qword_t
  hs_totalram :: qword_t
  hs_freeram :: qword_t
  hs_sharedram :: qword_t
  hs_totalswap :: qword_t
  hs_freeswap :: qword_t
  hs_procs :: word_t
  hs_totalhigh :: qword_t
  hs_freehigh :: qword_t
  hs_mem_unit :: dword_t

definition sys_info_bytes :: "host_sysinfo \<Rightarrow> byte_t list" where
  "sys_info_bytes h =
    (let d = (\<lambda>w :: qword_t. bytes_of_word 4 (ucast w :: dword_t))
     in d (hs_uptime h) @ take 12 (concat (map (bytes_of_word 8) (hs_loads h)))
        @ d (hs_totalram h) @ d (hs_freeram h) @ d (hs_sharedram h) @ d 0 @ d (hs_totalswap h) @ d (hs_freeswap h)
        @ bytes_of_word 2 (hs_procs h) @ [0, 0] @ d (hs_totalhigh h) @ d (hs_freehigh h)
        @ bytes_of_word 4 (hs_mem_unit h) @ [0, 0, 0, 0])"

definition sys_sysinfo :: "host_sysinfo \<Rightarrow> addr_t \<Rightarrow> 'w vfs \<Rightarrow> int \<times> 'w vfs" where
  "sys_sysinfo h info_addr s =
    (case vwrite info_addr (sys_info_bytes h) s of (err, s) \<Rightarrow> (if err \<noteq> 0 then EFAULT else 0, s))"

definition sys_getrandom :: "(nat \<Rightarrow> byte_t list option) \<Rightarrow> addr_t \<Rightarrow> dword_t \<Rightarrow> dword_t \<Rightarrow> 'w vfs \<Rightarrow> int \<times> 'w vfs" where
  "sys_getrandom get_random buf_addr len flags s =
    (if len > 256 then (EIO, s)
     else case get_random (unat len) of
            None \<Rightarrow> (EIO, s)
          | Some bs \<Rightarrow> (case vwrite buf_addr bs s of (err, s) \<Rightarrow> (if err \<noteq> 0 then EFAULT else uint len, s)))"

end
