(* ===== verification/Exec_Props.thy ===== *)
theory Exec_Props
  imports Exec Files_Open Files_Props
begin

text \<open>
  Properties of the loading of programs.
\<close>

subsection \<open>What a program inherits\<close>

lemma close_table:
  assumes "cur s = Some tb"
  shows "cur (snd (f_close ops f s)) = Some (if f_get f s = None then tb
      else tb\<lparr>ft_files := (ft_files tb)(f := None), ft_cloexec := (ft_cloexec tb)(f := False)\<rparr>)"
    "fd_current (snd (f_close ops f s)) = fd_current s" "fd_nofile (snd (f_close ops f s)) = fd_nofile s"
proof -
  have "fd_current (snd (f_close ops f s)) = fd_current s \<and> fd_nofile (snd (f_close ops f s)) = fd_nofile s"
  proof (cases "f_get f s")
    case (Some fd)
    then show ?thesis using fd_close_frame(2,3) by (simp add: f_close_empty)
  qed (simp add: f_close_def)
  then show "fd_current (snd (f_close ops f s)) = fd_current s" "fd_nofile (snd (f_close ops f s)) = fd_nofile s" by auto
  show "cur (snd (f_close ops f s)) = Some (if f_get f s = None then tb
      else tb\<lparr>ft_files := (ft_files tb)(f := None), ft_cloexec := (ft_cloexec tb)(f := False)\<rparr>)"
  proof (cases "f_get f s")
    case (Some fd)
    have "cur (snd (fd_close ops fd t)) = cur t" for t by (auto simp: fd_close_def cur_def bad_def split: option.split)
    moreover have "f < ft_size tb" using Some assms by (auto simp: f_get_def split: if_splits)
    ultimately show ?thesis
      using Some assms by (simp add: f_close_empty empty_slot_def put_slot_def put_cloexec_def upd_table_def cur_def)
  qed (use assms in \<open>simp add: f_close_def\<close>)
qed

lemma vf_close_fds:
  assumes "cur (fds_of s) = Some tb"
  shows "fds_of (snd (vf_close f s)) = snd (f_close (k_ops (vf_kern s)) f (fds_of s))"
    "k_tasks (vf_kern (snd (vf_close f s))) = k_tasks (vf_kern s)" "k_current (vf_kern (snd (vf_close f s))) = k_current (vf_kern s)"
    "k_sighands (vf_kern (snd (vf_close f s))) = k_sighands (vf_kern s)"
proof -
  let ?ops = "k_ops (vf_kern s)"
  have "fds_of (snd (vf_close f s)) = snd (f_close ?ops f (fds_of s)) \<and>
    k_tasks (vf_kern (snd (vf_close f s))) = k_tasks (vf_kern s) \<and> k_current (vf_kern (snd (vf_close f s))) = k_current (vf_kern s) \<and>
    k_sighands (vf_kern (snd (vf_close f s))) = k_sighands (vf_kern s)"
  proof (cases "vf_get f s")
    case None
    then show ?thesis by (simp add: vf_close_def with_fd_def f_close_def vf_get_def fds_of_def)
  next
    case (Some fd)
    let ?s = "if last_ref fd s then drop_file fd s else s"
    have k: "vf_kern ?s = vf_kern s" by (auto simp: drop_file_def split: option.split)
    obtain r x where x: "f_close ?ops f (fds_of s) = (r, x)" by fastforce
    have "fd_current x = fd_current (fds_of s)" "fd_nofile x = fd_nofile (fds_of s)"
      using close_table(2,3)[OF assms, of ?ops f] x by simp_all
    then have "task_fds ((vf_kern s)\<lparr>k_fds := x\<rparr>) = x" by (intro task_fds_same) (simp_all add: fds_of_def)
    moreover have "f_close ?ops f (task_fds (vf_kern s)) = (r, x)" using x by (simp add: fds_of_def)
    ultimately have "vf_kern (snd (vf_close f s)) = (vf_kern s)\<lparr>k_fds := x\<rparr>"
      using Some k by (simp add: vf_close_def with_fd_def on_kernel_def on_fds_def)
    then show ?thesis using x \<open>task_fds ((vf_kern s)\<lparr>k_fds := x\<rparr>) = x\<close> by (simp add: fds_of_def)
  qed
  then show "fds_of (snd (vf_close f s)) = snd (f_close ?ops f (fds_of s))"
    "k_tasks (vf_kern (snd (vf_close f s))) = k_tasks (vf_kern s)" "k_current (vf_kern (snd (vf_close f s))) = k_current (vf_kern s)"
    "k_sighands (vf_kern (snd (vf_close f s))) = k_sighands (vf_kern s)" by auto
qed

text \<open>One after the other the descriptors are closed that are marked.\<close>

definition close_marked :: "dword_t \<Rightarrow> 'w vfs \<Rightarrow> 'w vfs" where
  "close_marked f s =
    (if map_option (\<lambda>tb. ft_cloexec tb f) (cur (fds_of s)) = Some True then snd (vf_close f s) else s)"

lemma close_marked_one:
  assumes "cur (fds_of s) = Some tb"
  shows "\<exists>tb'. cur (fds_of (close_marked f s)) = Some tb' \<and> ft_size tb' = ft_size tb \<and>
    (\<forall>g. g \<noteq> f \<longrightarrow> ft_cloexec tb' g = ft_cloexec tb g) \<and>
    (\<forall>g. f_get g (fds_of (close_marked f s)) = (if g = f \<and> ft_cloexec tb f then None else f_get g (fds_of s))) \<and>
    k_tasks (vf_kern (close_marked f s)) = k_tasks (vf_kern s) \<and> k_current (vf_kern (close_marked f s)) = k_current (vf_kern s) \<and>
    k_sighands (vf_kern (close_marked f s)) = k_sighands (vf_kern s)"
proof (cases "ft_cloexec tb f")
  case False
  then show ?thesis using assms by (simp add: close_marked_def)
next
  case True
  then have c: "close_marked f s = snd (vf_close f s)" using assms by (simp add: close_marked_def)
  note v = vf_close_fds[OF assms, of f] and t = close_table(1)[OF assms, of "k_ops (vf_kern s)" f]
  have "f_get g (snd (f_close ops f x)) = (if g = f then None else f_get g x)" if "cur x = Some tb" for g ops x
    using f_get_close_other[of g f ops x] close_table(1)[OF that, of ops f] that
    by (auto simp: f_get_def)
  then show ?thesis using v t True assms unfolding c by (auto split: if_splits)
qed

lemma close_marked_all:
  assumes "cur (fds_of s) = Some tb" "distinct fs"
  shows "\<exists>tb'. cur (fds_of (fold close_marked fs s)) = Some tb' \<and> ft_size tb' = ft_size tb \<and>
    (\<forall>g. f_get g (fds_of (fold close_marked fs s)) = (if g \<in> set fs \<and> ft_cloexec tb g then None else f_get g (fds_of s))) \<and>
    k_tasks (vf_kern (fold close_marked fs s)) = k_tasks (vf_kern s) \<and> k_current (vf_kern (fold close_marked fs s)) = k_current (vf_kern s) \<and>
    k_sighands (vf_kern (fold close_marked fs s)) = k_sighands (vf_kern s)"
  using assms
proof (induction fs arbitrary: s tb)
  case (Cons f fs)
  obtain tb1 where 1: "cur (fds_of (close_marked f s)) = Some tb1" "ft_size tb1 = ft_size tb"
    "\<And>g. g \<noteq> f \<Longrightarrow> ft_cloexec tb1 g = ft_cloexec tb g"
    "\<And>g. f_get g (fds_of (close_marked f s)) = (if g = f \<and> ft_cloexec tb f then None else f_get g (fds_of s))"
    "k_tasks (vf_kern (close_marked f s)) = k_tasks (vf_kern s)" "k_current (vf_kern (close_marked f s)) = k_current (vf_kern s)"
    "k_sighands (vf_kern (close_marked f s)) = k_sighands (vf_kern s)"
    using close_marked_one[OF Cons.prems(1), of f] by blast
  have d: "f \<notin> set fs" "distinct fs" using Cons.prems(2) by auto
  have "(if g \<in> set fs \<and> ft_cloexec tb1 g then None else f_get g (fds_of (close_marked f s))) =
      (if g \<in> set (f # fs) \<and> ft_cloexec tb g then None else f_get g (fds_of s))" for g
    using 1(3)[of g] 1(4)[of g] d(1) by auto
  then show ?case using Cons.IH[OF 1(1) d(2)] 1(2,5-7) by simp
qed simp

lemma close_on_exec_fds:
  assumes "cur (fds_of s) = Some tb"
  shows "f_get g (fds_of (close_on_exec s)) = (if ft_cloexec tb g then None else f_get g (fds_of s))"
    "k_tasks (vf_kern (close_on_exec s)) = k_tasks (vf_kern s)" "k_current (vf_kern (close_on_exec s)) = k_current (vf_kern s)"
    "k_sighands (vf_kern (close_on_exec s)) = k_sighands (vf_kern s)"
proof -
  let ?fs = "map of_nat [0..<unat (ft_size tb)] :: dword_t list"
  have m: "close_on_exec s = fold close_marked ?fs s"
    using assms by (simp add: close_on_exec_def fds_of_def close_marked_def[abs_def])
  have "inj_on (of_nat :: nat \<Rightarrow> dword_t) {0..<unat (ft_size tb)}"
    by (rule inj_onI) (metis (no_types, opaque_lifting) atLeastLessThan_iff less_trans of_nat_inverse unsigned_less)
  then have d: "distinct ?fs" by (simp add: distinct_map)
  obtain tb' where a: "\<And>g. f_get g (fds_of (close_on_exec s)) = (if g \<in> set ?fs \<and> ft_cloexec tb g then None else f_get g (fds_of s))"
      and k: "k_tasks (vf_kern (close_on_exec s)) = k_tasks (vf_kern s)" "k_current (vf_kern (close_on_exec s)) = k_current (vf_kern s)"
      "k_sighands (vf_kern (close_on_exec s)) = k_sighands (vf_kern s)"
    using close_marked_all[OF assms d] unfolding m by blast
  have "g \<in> set ?fs" if "f_get g (fds_of s) \<noteq> None"
  proof -
    have "g < ft_size tb" using that assms by (auto simp: f_get_def split: if_splits)
    then have "unat g \<in> {0..<unat (ft_size tb)}" "of_nat (unat g) = g" by (simp_all add: word_less_nat_alt)
    then show ?thesis by (metis image_eqI list.set_map set_upt)
  qed
  then show "f_get g (fds_of (close_on_exec s)) = (if ft_cloexec tb g then None else f_get g (fds_of s))"
    using a[of g] by (cases "f_get g (fds_of s) = None") auto
  show "k_tasks (vf_kern (close_on_exec s)) = k_tasks (vf_kern s)" "k_current (vf_kern (close_on_exec s)) = k_current (vf_kern s)"
    "k_sighands (vf_kern (close_on_exec s)) = k_sighands (vf_kern s)" by (rule k)+
qed

text \<open>C17. What a program finds when it starts: every descriptor that was marked is closed and
every other one is as before, a signal that was not ignored has its default action, there
is no alternate stack, a parent that waits for \<open>vfork\<close> goes on, and the task bears the
name of the file.\<close>
theorem exec_starts_clean:
  assumes "k_tasks (vf_kern s) (k_current (vf_kern s)) = Some x" "k_sighands (vf_kern s) (t_sighand x) = Some sh"
    "cur (fds_of s) = Some tb"
  shows "f_get f (fds_of (exec_done file s)) = (if ft_cloexec tb f then None else f_get f (fds_of s)) \<and>
    k_tasks (vf_kern (exec_done file s)) = (k_tasks (vf_kern s))(k_current (vf_kern s) \<mapsto>
      x\<lparr>t_comm := take 16 (last_component file), t_did_exec := True, t_vfork_done := True\<rparr>) \<and>
    (\<exists>sh'. k_sighands (vf_kern (exec_done file s)) = (k_sighands (vf_kern s))(t_sighand x \<mapsto> sh') \<and> sh_altstack sh' = 0 \<and>
      (\<forall>i. i < NUM_SIGS \<longrightarrow> sa_handler (sh_action sh' i) = (if sa_handler (sh_action sh i) = SIG_IGN then SIG_IGN else SIG_DFL)))"
proof -
  let ?u = "close_on_exec s"
  note c = close_on_exec_fds[OF assms(3)]
  define k where "k = vf_kern ?u"
  define y where "y = x\<lparr>t_comm := take 16 (last_component file), t_did_exec := True, t_vfork_done := True\<rparr>"
  have k: "k_tasks k (k_current k) = Some x" "k_sighands k (t_sighand x) = Some sh" using c(2-4) assms(1,2) by (simp_all add: k_def)
  have y: "y = x\<lparr>t_vfork_done := True, t_comm := take 16 (last_component file), t_did_exec := True\<rparr>" by (simp add: y_def)
  have e: "vf_kern (exec_done file s) = k\<lparr>k_sighands := (k_sighands k)(t_sighand x \<mapsto> reset_actions sh),
      k_tasks := (k_tasks k)(k_current k \<mapsto> y)\<rparr>"
    unfolding y using k by (simp add: exec_done_def Let_def k_def[symmetric] upd_task_def upd_sighand_def get_task_def)
  then have "fds_of (exec_done file s) = fds_of ?u"
    using k(1) by (simp add: fds_of_def task_fds_def cur_task_def get_task_def cur_group_def k_def[symmetric] y_def)
  moreover have "sh_altstack (reset_actions sh) = 0 \<and> (\<forall>i. i < NUM_SIGS \<longrightarrow>
      sa_handler (sh_action (reset_actions sh) i) = (if sa_handler (sh_action sh i) = SIG_IGN then SIG_IGN else SIG_DFL))"
    by (simp add: reset_actions_def)
  ultimately show ?thesis using c e by (auto simp: y_def k_def)
qed

lemma exec_done_current:
  assumes "cur (fds_of s) = Some tb"
  shows "k_current (vf_kern (exec_done file s)) = k_current (vf_kern s)"
  using close_on_exec_fds(3)[OF assms]
  by (simp add: exec_done_def Let_def upd_task_def upd_sighand_def kbad_def split: option.split)

lemma marked_demo:
  defines "s \<equiv> files_demo\<lparr>vf_kern := do_fds (put_cloexec 0 True) kern_files\<rparr>"
  shows "k_tasks (vf_kern s) (k_current (vf_kern s)) = Some task_demo" "k_sighands (vf_kern s) (t_sighand task_demo) = Some sighand_demo"
    "\<exists>tb. cur (fds_of s) = Some tb \<and> ft_cloexec tb 0"
proof -
  show "k_tasks (vf_kern s) (k_current (vf_kern s)) = Some task_demo" "k_sighands (vf_kern s) (t_sighand task_demo) = Some sighand_demo"
    by (simp_all add: s_def do_fds_def kern_files_def task_demo_def)
  show "\<exists>tb. cur (fds_of s) = Some tb \<and> ft_cloexec tb 0"
    by (simp add: s_def do_fds_def kern_files_def fds_of_def task_fds_def cur_task_def get_task_def
      cur_def put_cloexec_def upd_table_def fds_demo_def task_demo_def zero_task_def cur_group_def)
qed

theorem exec_starts_clean_witness:
  "f_get 0 (fds_of (exec_done ''/bin/sh'' (files_demo\<lparr>vf_kern := do_fds (put_cloexec 0 True) kern_files\<rparr>))) = None \<and>
   t_comm (cur_task (vf_kern (exec_done ''/bin/sh'' (files_demo\<lparr>vf_kern := do_fds (put_cloexec 0 True) kern_files\<rparr>)))) = ''sh''"
proof -
  let ?s = "files_demo\<lparr>vf_kern := do_fds (put_cloexec 0 True) kern_files\<rparr>"
  obtain tb where tb: "cur (fds_of ?s) = Some tb" "ft_cloexec tb 0" using marked_demo(3) by blast
  note e = exec_starts_clean[OF marked_demo(1,2) tb(1), of 0 "''/bin/sh''"]
  have "k_current (vf_kern (exec_done ''/bin/sh'' ?s)) = k_current (vf_kern ?s)"
    using exec_done_current[OF tb(1)] .
  moreover have "last_component ''/bin/sh'' = ''sh''" by code_simp
  ultimately show ?thesis using e tb(2) by (simp add: cur_task_def get_task_def)
qed

subsection \<open>A file that is no program\<close>

lemma file_seek_frame:
  assumes "file_seek env fd off s = (r, t)"
  shows "hushed s t" "vf_mount t = vf_mount s" "k_tasks (vf_kern t) = k_tasks (vf_kern s)" "k_vm (vf_kern t) = k_vm (vf_kern s)"
proof -
  have "hushed s t \<and> vf_mount t = vf_mount s"
  proof (cases "fo_lseek (file_ops_of env fd s)")
    case (Some g)
    then show ?thesis using assms quiet_world[of "g fd (ucast off) 0" s r t] by (simp add: file_seek_def)
  qed (use assms in \<open>auto simp: file_seek_def\<close>)
  then show "hushed s t" "vf_mount t = vf_mount s" by auto
  show "k_tasks (vf_kern t) = k_tasks (vf_kern s)" "k_vm (vf_kern t) = k_vm (vf_kern s)"
    using assms by (auto simp: file_seek_def on_world_def vbad_def kbad_def split: option.splits prod.splits)
qed

lemma file_read_frame:
  assumes "file_read env fd n s = (r, t)"
  shows "hushed s t" "vf_mount t = vf_mount s" "k_tasks (vf_kern t) = k_tasks (vf_kern s)" "k_vm (vf_kern t) = k_vm (vf_kern s)"
  using assms by (auto simp: file_read_def split: option.splits prod.splits) (auto simp: vbad_def kbad_def)

lemma close_file_frame:
  "k_tasks (vf_kern (snd (close_file fd s))) = k_tasks (vf_kern s)" "k_vm (vf_kern (snd (close_file fd s))) = k_vm (vf_kern s)"
  by (auto simp: close_file_def on_kernel_def on_fds_def drop_file_def split: prod.split option.split)

lemma made_quiet:
  assumes "made held s m fd t" "hushed t u" "vf_mount u = vf_mount t"
  shows "made held s m fd u"
  using assms by (simp add: made_def hushed_def)

text \<open>C30. Executing a file that is neither in the format ELF nor a script is refused with
\<open>ENOEXEC\<close>, and the process goes on as it was: the tasks and the memory are as after
opening the file, the file is closed again, and the counts of open files are right.\<close>
theorem exec_unknown_format:
  assumes "fds_ok held (fds_of s)" "limit_ok (fds_of s)" "dom (vf_file s) \<subseteq> dom (fd_heap (fds_of s))" "tty_quiet env"
    "generic_open env file 0 0 s = (Inr fd, s1)"
    "file_seek env fd 0 s1 = (0, s2)" "file_read env fd 52 s2 = ((n, bs), s3)"
    "0 \<le> n" "n = 52 \<Longrightarrow> bad_header (elf_header_of bs)"
    "file_seek env fd 0 s3 = (0, s4)" "file_read env fd 127 s4 = ((n', bs'), s5)"
    "0 \<le> n'" "parse_shebang (take (nat n') bs') = None"
  shows "\<exists>t. sys_execve env h file argv envp s = (ENOEXEC, t) \<and> k_tasks (vf_kern t) = k_tasks (vf_kern s1) \<and>
    k_vm (vf_kern t) = k_vm (vf_kern s1) \<and> fds_ok held (fds_of t) \<and> limit_ok (fds_of t) \<and> vf_file t = vf_file s"
proof -
  have "generic_openat env Pwd_at file 0 0 s = (Inr fd, s1)" using assms(5) by (simp add: generic_open_def)
  then obtain m where m: "made held s m fd s1" using openat_made[OF assms(1-4), where at = Pwd_at and path = "file" and flags = 0 and mode = 0] by auto
  note f = file_seek_frame[OF assms(6)] file_read_frame[OF assms(7)] file_seek_frame[OF assms(10)] file_read_frame[OF assms(11)]
  have "made held s m fd s5"
    by (rule made_quiet[OF made_quiet[OF made_quiet[OF made_quiet[OF m f(1,2)] f(5,6)] f(9,10)] f(13,14)])
  then have g: "gone held s (snd (close_file fd s5))" using made_close assms(3) by blast
  have "read_header env fd s1 = (Inl ENOEXEC, s3)"
    using assms(6-9) by (cases "n = 52") (simp_all add: read_header_def)
  then have "format_exec env h fd file argv envp s1 = (ENOEXEC, s3)"
    by (simp add: format_exec_def elf_exec_def andthen_def)
  moreover have "shebang_exec env h fd file argv envp s3 = (ENOEXEC, s5)"
    using assms(10-13) by (simp add: shebang_exec_def)
  ultimately have "sys_execve env h file argv envp s = (ENOEXEC, snd (close_file fd s5))"
    using assms(5) by (simp add: sys_execve_def)
  moreover have "k_tasks (vf_kern s5) = k_tasks (vf_kern s1)" "k_vm (vf_kern s5) = k_vm (vf_kern s1)"
    using f(3,4,7,8,11,12,15,16) by simp_all
  ultimately show ?thesis using g close_file_frame[of fd s5] by (simp add: gone_def)
qed

text \<open>The file \<open>version\<close> of the demonstration is a text.\<close>

lemma demo_dir: "dir_of fenv_demo 1 files_demo = Some \<lparr>dir_path = Inr [], dir_mount = []\<rparr>"
  by (simp add: dir_of_def fenv_demo_def)

lemma demo_fs: "cur_fs files_demo = Some \<lparr>fi_refcount = 1, fi_umask = 0, fi_pwd = 1, fi_root = 1\<rparr>"
  by (simp only: cur_fs_def files_demo_sel kern_files_sel) (simp add: kern_files_def task_demo_def)

lemma demo_path_env: "path_env fenv_demo files_demo = \<lparr>fs_root = Some \<lparr>dir_path = Inr [], dir_mount = []\<rparr>,
  fs_pwd = Some \<lparr>dir_path = Inr [], dir_mount = []\<rparr>, fs_mounts = [\<lparr>mnt_point = [], mnt_source = [], mnt_fs = 0, mnt_refcount = 1\<rparr>],
  fs_readlink = \<lambda>_ _ _. None\<rparr>"
  by (simp add: path_env_def demo_fs demo_dir[unfolded One_nat_def] mount_list_def fun_eq_iff)
    (simp add: fenv_demo_def procfs_def proc_readlink_def split: option.split)

lemma demo_normalize: "normalize fenv_demo Pwd_at ''/version'' True files_demo = (Inr ''/version'', files_demo)"
  by (simp add: normalize_def path_normalize_def base_dir_def demo_path_env generic_getpath_def path_is_normalized.simps skip_slashes_def)
   (simp add: norm_loop.simps is_dot_def is_dot_dot_def possible_symlink_def find_mount_and_trim_path_def mount_find_def under_mount_def
     path_is_normalized.simps skip_slashes_def)

lemma demo_lookup: "proc_lookup kern_demo ''/version'' = Some (Inr \<lparr>pe_meta = Proc_version, pe_pid = 0\<rparr>)"
  using proc_lookup_walks[of "[''version'']" kern_demo] by (simp add: proc_child_def)

definition version_fd :: proc_fd where
  "version_fd = \<lparr>pd_entry = \<lparr>pe_meta = Proc_version, pe_pid = 0\<rparr>, pd_index = 0, pd_offset = 0, pd_size = 0\<rparr>"

lemma demo_next: "fd_next fds_demo = 2"
  by (simp add: fds_demo_def)

lemma demo_open: "\<exists>s. generic_open fenv_demo ''/version'' 0 0 files_demo = (Inr 2, s) \<and> vf_world s = (vf_world files_demo)(2 \<mapsto> version_fd)
   \<and> file_ops_of fenv_demo 2 s = procfs_fdops kern_demo texts_demo"
  by (simp add: generic_open_def generic_openat_def demo_normalize take_mount_def mount_at_def under_mount_def path_is_normalized.simps
      mount_ops_def ref_mount_def)
    (simp add: fenv_demo_def procfs_def proc_open_def demo_lookup on_world_def new_file_def on_kernel_def on_fds_def fd_create_def task_fds_def
    fstat_def mount_ops_def proc_fstat_def demo_next open_device_def proc_entry_stat_def meta_mode_def S_ISLNK_def S_ISBLK_def S_ISCHR_def
    file_ops_of_def kind_ops_def version_fd_def)

lemma version_text: "proc_show_version texts_demo = ''Linux version 3.2.0-ish 1'' @ [char_of (10 :: nat)]"
  by (simp add: proc_show_version_def texts_demo_def)

lemma version_refresh: "pd_entry d = pd_entry version_fd \<Longrightarrow>
  proc_refresh_data kern_demo texts_demo d = Inr (proc_show_version texts_demo, d\<lparr>pd_size := 26\<rparr>)"
  by (simp add: proc_refresh_data_def proc_show_def version_fd_def version_text)

lemma version_seek:
  assumes "file_ops_of fenv_demo 2 s = procfs_fdops kern_demo texts_demo" "vf_world s 2 = Some d" "pd_entry d = pd_entry version_fd"
  shows "file_seek fenv_demo 2 0 s = (0, s\<lparr>vf_world := (vf_world s)(2 \<mapsto> d\<lparr>pd_size := 26, pd_offset := 0\<rparr>)\<rparr>)"
  using assms version_refresh[OF assms(3)]
  by (simp add: file_seek_def procfs_fdops_def proc_seek_def on_world_def version_fd_def meta_mode_def S_ISREG_def)

lemma version_read:
  assumes "file_ops_of fenv_demo 2 s = procfs_fdops kern_demo texts_demo" "vf_world s 2 = Some d" "pd_entry d = pd_entry version_fd"
    "pd_offset d = 0" "n \<ge> 26"
  shows "\<exists>t. file_read fenv_demo 2 n s = ((26, bytes_of_text (proc_show_version texts_demo)), t) \<and>
    t = s\<lparr>vf_world := (vf_world s)(2 \<mapsto> d\<lparr>pd_size := 26, pd_offset := 26\<rparr>)\<rparr>"
  using assms version_refresh[OF assms(3)]
  by (simp add: file_read_def procfs_fdops_def proc_read_def version_fd_def meta_mode_def S_ISREG_def version_text)
definition host_demo :: exec_host where
  "host_demo = \<lparr>ex_random = replicate 16 4, ex_pointer = 8, ex_vdso = (0, 0), ex_vdso_entry = 0x400, ex_errno = False, ex_junk = 0\<rparr>"

theorem exec_unknown_format_witness:
  "fst (sys_execve fenv_demo host_demo ''/version'' [] [] files_demo) = ENOEXEC"
proof -
  let ?ops = "procfs_fdops kern_demo texts_demo" and ?text = "bytes_of_text (proc_show_version texts_demo)"
  obtain s1 where 1: "generic_open fenv_demo ''/version'' 0 0 files_demo = (Inr 2, s1)" "vf_world s1 2 = Some version_fd"
      "file_ops_of fenv_demo 2 s1 = ?ops"
    using demo_open by auto
  obtain s2 where 2: "file_seek fenv_demo 2 0 s1 = (0, s2)" "file_ops_of fenv_demo 2 s2 = ?ops"
      "vf_world s2 2 = Some (version_fd\<lparr>pd_size := 26, pd_offset := 0\<rparr>)"
    using version_seek[OF 1(3,2) refl] 1(3) by (simp add: file_ops_of_def)
  obtain s3 where 3: "file_read fenv_demo 2 52 s2 = ((26, ?text), s3)" "file_ops_of fenv_demo 2 s3 = ?ops"
      "vf_world s3 2 = Some (version_fd\<lparr>pd_size := 26, pd_offset := 26\<rparr>)"
    using version_read[OF 2(2,3), of 52] 2(2) by (auto simp: file_ops_of_def)
  obtain s4 where 4: "file_seek fenv_demo 2 0 s3 = (0, s4)" "file_ops_of fenv_demo 2 s4 = ?ops"
      "vf_world s4 2 = Some (version_fd\<lparr>pd_size := 26, pd_offset := 0\<rparr>)"
    using version_seek[OF 3(2,3)] 3(2) by (simp add: file_ops_of_def)
  obtain s5 where 5: "file_read fenv_demo 2 127 s4 = ((26, ?text), s5)"
    using version_read[OF 4(2,3), of 127] by auto
  have dom: "dom (vf_file files_demo) \<subseteq> dom (fd_heap (fds_of files_demo))" by (simp add: fds_of_def task_fds_def fds_demo_def dom_def)
  have quiet: "tty_quiet fenv_demo" by (simp add: tty_quiet_def fenv_demo_def)
  have n: "parse_shebang (take (nat 26) ?text) = None" unfolding version_text by code_simp
  have "\<exists>t. sys_execve fenv_demo host_demo ''/version'' [] [] files_demo = (ENOEXEC, t) \<and> k_tasks (vf_kern t) = k_tasks (vf_kern s1) \<and>
      k_vm (vf_kern t) = k_vm (vf_kern s1) \<and> fds_ok (\<lambda>_. 0) (fds_of t) \<and> limit_ok (fds_of t) \<and> vf_file t = vf_file files_demo"
    by (rule exec_unknown_format[OF demo_fds dom quiet 1(1) 2(1) 3(1) _ _ 4(1) 5 _ n]) simp_all
  then show ?thesis by auto
qed

subsection \<open>The first line of a script\<close>

lemma text_of_bytes [simp]: "text_of (bytes_of_text t) = t"
proof -
  have "char_of (unat (of_char c :: byte_t)) = c" for c :: char
  proof -
    have "unat (of_char c :: byte_t) = (of_char c :: nat)"
    proof -
      have "unat (of_char c :: byte_t) = unat (of_nat (of_char c) :: byte_t)" by (simp only: of_nat_of_char)
      also have "\<dots> = (of_char c :: nat)" by (simp add: unat_of_nat take_bit_eq_mod)
      finally show ?thesis .
    qed
    then show ?thesis by simp
  qed
  then show ?thesis by (simp add: text_of_def bytes_of_text_def map_idI)
qed
lemma zero_char: "char_of (0 :: nat) = CHR 0x00" by (simp add: char_of_def)
lemma of_char_zero: "of_char c = (0 :: byte_t) \<Longrightarrow> c = CHR 0x00"
proof -
  assume z: "of_char c = (0 :: byte_t)"
  have "char_of (unat (of_char c :: byte_t)) = c"
    using text_of_bytes[of "[c]"] by (simp only: text_of_def bytes_of_text_def list.map list.inject)
  then show "c = CHR 0x00" by (simp only: z unsigned_0 zero_char)
qed

lemma no_zero_prefix:
  assumes "CHR 0x00 \<notin> set p"
  shows "text_of (takeWhile (\<lambda>b. b \<noteq> 0) (bytes_of_text (p @ q))) = p @ text_of (takeWhile (\<lambda>b. b \<noteq> 0) (bytes_of_text q))"
proof -
  have "\<forall>b \<in> set (bytes_of_text p). b \<noteq> 0"
    unfolding bytes_of_text_def list.set_map by (rule ballI, erule imageE) (use assms of_char_zero in metis)
  then have "takeWhile (\<lambda>b. b \<noteq> 0) (bytes_of_text p @ bs) = bytes_of_text p @ takeWhile (\<lambda>b. b \<noteq> 0) bs" for bs
    by (subst takeWhile_append2) simp_all
  moreover have "bytes_of_text (p @ q) = bytes_of_text p @ bytes_of_text q" by (simp only: bytes_of_text_def map_append)
  moreover have "text_of (bs @ cs) = text_of bs @ text_of cs" for bs cs by (simp only: text_of_def map_append)
  ultimately show ?thesis by (simp only: text_of_bytes)
qed

abbreviation (input) newline :: char where "newline \<equiv> CHR 0x0A"

lemma strip_end_blanks:
  assumes "arg = [] \<or> last arg \<noteq> CHR '' ''"
  shows "strip_end (arg @ replicate n (CHR '' '')) = arg"
proof -
  have "dropWhile (\<lambda>c. c = CHR '' '') (rev arg) = rev arg"
    using assms by (cases arg rule: rev_cases) auto
  then show ?thesis by (simp add: strip_end_def dropWhile_append)
qed

lemma first_line:
  assumes "CHR 0x00 \<notin> set line" "newline \<notin> set line" "take 2 line = ''#!''"
    "dropWhile (\<lambda>c. c = CHR '' '') (drop 2 line) = p" "p \<noteq> []"
  shows "parse_shebang (bytes_of_text (line @ newline # rest)) =
    Some (takeWhile (\<lambda>c. c \<noteq> CHR '' '') p,
      let a = strip_end (dropWhile (\<lambda>c. c = CHR '' '') (dropWhile (\<lambda>c. c \<noteq> CHR '' '') p)) in if a = [] then None else Some a)"
proof -
  have nl: "char_of (10 :: nat) = newline" by (simp add: char_of_def bit_0)
  obtain q where q: "text_of (takeWhile (\<lambda>b. b \<noteq> 0) (bytes_of_text (line @ newline # rest))) = line @ newline # q"
    using no_zero_prefix[of "line @ [newline]" rest] assms(1) by auto
  have "takeWhile (\<lambda>c. c \<noteq> newline) (line @ newline # q) = line" using assms(2) by (subst takeWhile_append2) auto
  then show ?thesis
    using assms(3-5) by (simp add: parse_shebang_def Let_def q nl)
qed

text \<open>C39. The first line of a script, with or without blanks before the interpreter, between it and
its argument, and at the end, is read back as the interpreter and the argument; everything
between the blanks is one argument.\<close>
theorem shebang_parsed:
  assumes "interp \<noteq> []" "set interp \<inter> {CHR '' '', newline, CHR 0x00} = {}"
    "set arg \<inter> {newline, CHR 0x00} = {}" "arg \<noteq> [] \<Longrightarrow> hd arg \<noteq> CHR '' '' \<and> last arg \<noteq> CHR '' '' \<and> 0 < j"
  shows "parse_shebang (bytes_of_text (''#!'' @ replicate i (CHR '' '') @ interp @ replicate j (CHR '' '') @ arg
      @ replicate k (CHR '' '') @ newline # rest)) = Some (interp, if arg = [] then None else Some arg)"
proof -
  let ?b = "\<lambda>n. replicate n (CHR '' '')" and ?blank = "\<lambda>c. c = CHR '' ''"
  let ?p = "interp @ ?b j @ arg @ ?b k"
  let ?line = "''#!'' @ ?b i @ ?p"
  have c: "\<forall>c \<in> set interp. c \<noteq> CHR '' ''" using assms(2) by auto
  have h: "dropWhile ?blank (arg @ ?b k) = (if arg = [] then [] else arg @ ?b k)"
    using assms(4) by (cases arg) auto
  have d: "dropWhile ?blank (drop 2 ?line) = ?p"
    using c assms(1) by (cases interp) (auto simp: dropWhile_append)
  have "parse_shebang (bytes_of_text (?line @ newline # rest)) =
    Some (takeWhile (\<lambda>c. c \<noteq> CHR '' '') ?p,
      let a = strip_end (dropWhile ?blank (dropWhile (\<lambda>c. c \<noteq> CHR '' '') ?p)) in if a = [] then None else Some a)"
    by (rule first_line) (use assms(1-3) d in auto)
  moreover have "takeWhile (\<lambda>c. c \<noteq> CHR '' '') ?p = interp"
  proof -
    have "takeWhile (\<lambda>c. c \<noteq> CHR '' '') (?b j @ arg @ ?b k) = []"
      using assms(4) by (cases j; cases arg; cases k) auto
    then show ?thesis using c by simp
  qed
  moreover have "dropWhile ?blank (dropWhile (\<lambda>c. c \<noteq> CHR '' '') ?p) = (if arg = [] then [] else arg @ ?b k)"
  proof -
    have "dropWhile (\<lambda>c. c \<noteq> CHR '' '') (?b j @ arg @ ?b k) = ?b j @ arg @ ?b k"
      using assms(4) by (cases j; cases arg; cases k) auto
    then show ?thesis using c h by (simp add: dropWhile_append)
  qed
  ultimately show ?thesis using assms(4) strip_end_blanks[of arg k] strip_end_blanks[of "[]" 0] by (simp add: Let_def)
qed

theorem shebang_parsed_witness:
  "parse_shebang (bytes_of_text (''#! /bin/sh -e x '' @ newline # ''exit'')) = Some (''/bin/sh'', Some ''-e x'')"
  using shebang_parsed[of "''/bin/sh''" "''-e x''" 1 1 1 "''exit''"] by simp

end
