(* ===== verification/Sock.thy ===== *)
theory Sock
  imports Exec
begin

text \<open>
  Sockets (\<open>src/fs/sock.c\<close>, \<open>src/fs/sock.h\<close>). A macro of the headers of the host is named by
  a string, and its value is a parameter; the numbers of protocols are the same everywhere.
  The calls of the host are a record of functions on the world: what they write into a
  buffer is the whole buffer after the call. Buffers on the stack have the length that
  the guest asks for, and are assumed to fit. Reading or writing past their end is
  undefined and recorded by \<open>k_bad\<close>.
\<close>

subsection \<open>Translation of constants\<close>

type_synonym host_consts = "string \<Rightarrow> int"

abbreviation (input) PF_LOCAL :: int where "PF_LOCAL \<equiv> 1"
abbreviation (input) PF_INET :: int where "PF_INET \<equiv> 2"
abbreviation (input) PF_INET6 :: int where "PF_INET6 \<equiv> 10"
abbreviation (input) SOCK_STREAM :: int where "SOCK_STREAM \<equiv> 1"
abbreviation (input) SOCK_DGRAM :: int where "SOCK_DGRAM \<equiv> 2"
abbreviation (input) SOCK_RAW :: int where "SOCK_RAW \<equiv> 3"
abbreviation (input) IPPROTO_IP :: int where "IPPROTO_IP \<equiv> 0"
abbreviation (input) IPPROTO_ICMP :: int where "IPPROTO_ICMP \<equiv> 1"
abbreviation (input) IPPROTO_TCP :: int where "IPPROTO_TCP \<equiv> 6"
abbreviation (input) IPPROTO_UDP :: int where "IPPROTO_UDP \<equiv> 17"
abbreviation (input) IPPROTO_IPV6 :: int where "IPPROTO_IPV6 \<equiv> 41"
abbreviation (input) IPPROTO_ICMPV6 :: int where "IPPROTO_ICMPV6 \<equiv> 58"
abbreviation (input) IPPROTO_RAW :: int where "IPPROTO_RAW \<equiv> 255"
abbreviation (input) SOL_SOCKET :: int where "SOL_SOCKET \<equiv> 1"

definition sock_family_to_real :: "host_consts \<Rightarrow> int \<Rightarrow> int" where
  "sock_family_to_real h fake =
    (if fake = PF_LOCAL then h ''PF_LOCAL'' else if fake = PF_INET then h ''PF_INET''
     else if fake = PF_INET6 then h ''PF_INET6'' else - 1)"

definition sock_family_from_real :: "host_consts \<Rightarrow> int \<Rightarrow> int" where
  "sock_family_from_real h real =
    (if real = h ''PF_LOCAL'' then PF_LOCAL else if real = h ''PF_INET'' then PF_INET
     else if real = h ''PF_INET6'' then PF_INET6 else - 1)"

definition sock_type_to_real :: "host_consts \<Rightarrow> dword_t \<Rightarrow> int \<Rightarrow> int" where
  "sock_type_to_real h kind protocol =
    (let t = uint (kind AND 0xff)
     in if t = SOCK_STREAM then (if protocol \<noteq> 0 \<and> protocol \<noteq> IPPROTO_TCP then - 1 else h ''SOCK_STREAM'')
        else if t = SOCK_DGRAM then (if protocol \<noteq> 0 \<and> protocol \<noteq> IPPROTO_UDP then - 1 else h ''SOCK_DGRAM'')
        else if t = SOCK_RAW
        then (if protocol \<noteq> IPPROTO_UDP \<and> protocol \<noteq> IPPROTO_ICMP \<and> protocol \<noteq> IPPROTO_ICMPV6 \<and> protocol \<noteq> IPPROTO_RAW
              then - 1 else h ''SOCK_DGRAM'')
        else - 1)"

definition msg_flags :: "(dword_t \<times> string) list" where
  "msg_flags = [(0x1, ''MSG_OOB''), (0x2, ''MSG_PEEK''), (0x8, ''MSG_CTRUNC''), (0x20, ''MSG_TRUNC''),
     (0x40, ''MSG_DONTWAIT''), (0x80, ''MSG_EOR''), (0x100, ''MSG_WAITALL'')]"

definition host_flag :: "host_consts \<Rightarrow> string \<Rightarrow> dword_t" where
  "host_flag h name = word_of_int (h name)"

definition sock_flags_to_real :: "host_consts \<Rightarrow> dword_t \<Rightarrow> dword_t" where
  "sock_flags_to_real h fake = fold (\<lambda>(b, name) real. if fake AND b \<noteq> 0 then real OR host_flag h name else real) msg_flags 0"

definition sock_flags_from_real :: "host_consts \<Rightarrow> dword_t \<Rightarrow> dword_t" where
  "sock_flags_from_real h real = fold (\<lambda>(b, name) fake. if real AND host_flag h name \<noteq> 0 then fake OR b else fake) msg_flags 0"

definition sock_opts :: "((int \<times> int) \<times> string) list" where
  "sock_opts = [((SOL_SOCKET, 2), ''SO_REUSEADDR''), ((SOL_SOCKET, 3), ''SO_TYPE''), ((SOL_SOCKET, 4), ''SO_ERROR''),
     ((SOL_SOCKET, 6), ''SO_BROADCAST''), ((SOL_SOCKET, 9), ''SO_KEEPALIVE''), ((SOL_SOCKET, 7), ''SO_SNDBUF''),
     ((IPPROTO_TCP, 1), ''TCP_NODELAY''), ((IPPROTO_IP, 1), ''IP_TOS''), ((IPPROTO_IP, 2), ''IP_TTL''),
     ((IPPROTO_IP, 3), ''IP_HDRINCL''), ((IPPROTO_IPV6, 16), ''IPV6_UNICAST_HOPS''), ((IPPROTO_IPV6, 67), ''IPV6_TCLASS''),
     ((IPPROTO_IPV6, 26), ''IPV6_V6ONLY'')]"

definition sock_opt_to_real :: "host_consts \<Rightarrow> int \<Rightarrow> int \<Rightarrow> int" where
  "sock_opt_to_real h fake level = (case map_of sock_opts (level, fake) of None \<Rightarrow> - 1 | Some name \<Rightarrow> h name)"

definition sock_level_to_real :: "host_consts \<Rightarrow> int \<Rightarrow> int" where
  "sock_level_to_real h fake = (if fake = SOL_SOCKET then h ''SOL_SOCKET'' else fake)"

subsection \<open>The host\<close>

text \<open>A control message that has been received: its length, the first bytes of its header and
the bytes from its data on.\<close>

record cmsg =
  cm_len :: dword_t
  cm_header :: "byte_t list"
  cm_data :: "byte_t list"

record received =
  rc_count :: "host_errno + nat"
  rc_name :: "byte_t list"
  rc_namelen :: dword_t
  rc_control :: "cmsg list"
  rc_data :: "byte_t list list"
  rc_flags :: dword_t

text \<open>\<open>nt_table\<close> is the number of \<open>socket_fdops\<close>. The functions that return an address or a value
get the length of the buffer, and return the buffer and the new length.\<close>

record 'w net =
  nt_const :: host_consts
  nt_table :: nat
  nt_socket :: "int \<Rightarrow> int \<Rightarrow> dword_t \<Rightarrow> 'w \<Rightarrow> (host_errno + nat) \<times> 'w"
  nt_socketpair :: "dword_t \<Rightarrow> dword_t \<Rightarrow> dword_t \<Rightarrow> 'w \<Rightarrow> (host_errno + nat \<times> nat) \<times> 'w"
  nt_bind :: "nat \<Rightarrow> byte_t list \<Rightarrow> 'w \<Rightarrow> (host_errno + int) \<times> 'w"
  nt_connect :: "nat \<Rightarrow> byte_t list \<Rightarrow> 'w \<Rightarrow> (host_errno + int) \<times> 'w"
  nt_listen :: "nat \<Rightarrow> dword_t \<Rightarrow> 'w \<Rightarrow> (host_errno + int) \<times> 'w"
  nt_shutdown :: "nat \<Rightarrow> dword_t \<Rightarrow> 'w \<Rightarrow> (host_errno + int) \<times> 'w"
  nt_accept :: "nat \<Rightarrow> dword_t \<Rightarrow> 'w \<Rightarrow> (host_errno + nat \<times> byte_t list \<times> dword_t) \<times> 'w"
  nt_getsockname :: "nat \<Rightarrow> dword_t \<Rightarrow> 'w \<Rightarrow> (host_errno + int \<times> byte_t list \<times> dword_t) \<times> 'w"
  nt_getpeername :: "nat \<Rightarrow> dword_t \<Rightarrow> 'w \<Rightarrow> (host_errno + int \<times> byte_t list \<times> dword_t) \<times> 'w"
  nt_sendto :: "nat \<Rightarrow> byte_t list \<Rightarrow> dword_t \<Rightarrow> byte_t list option \<Rightarrow> dword_t \<Rightarrow> 'w \<Rightarrow> (host_errno + nat) \<times> 'w"
  nt_recvfrom :: "nat \<Rightarrow> dword_t \<Rightarrow> dword_t \<Rightarrow> bool \<Rightarrow> dword_t option \<Rightarrow> 'w \<Rightarrow>
    (host_errno + nat \<times> byte_t list \<times> byte_t list \<times> dword_t) \<times> 'w"
  nt_setsockopt :: "nat \<Rightarrow> int \<Rightarrow> int \<Rightarrow> byte_t list \<Rightarrow> 'w \<Rightarrow> (host_errno + int) \<times> 'w"
  nt_getsockopt :: "nat \<Rightarrow> int \<Rightarrow> int \<Rightarrow> byte_t list \<Rightarrow> 'w \<Rightarrow> (host_errno + byte_t list \<times> dword_t) \<times> 'w"
  nt_recvmsg :: "nat \<Rightarrow> byte_t list option \<Rightarrow> dword_t \<Rightarrow> dword_t list \<Rightarrow> dword_t \<Rightarrow> dword_t \<Rightarrow> 'w \<Rightarrow> received \<times> 'w"

text \<open>A call of the host: its error becomes one of the guest.\<close>

definition on_host :: "('w \<Rightarrow> (host_errno + 'a) \<times> 'w) \<Rightarrow> 'w vfs \<Rightarrow> (int + 'a) \<times> 'w vfs" where
  "on_host f s =
    (case on_world f s of
       (Inl e, s) \<Rightarrow> (case host_error e s of (err, s) \<Rightarrow> (Inl err, s))
     | (Inr x, s) \<Rightarrow> (Inr x, s))"

definition close_host :: "nat \<Rightarrow> 'w vfs \<Rightarrow> 'w vfs" where
  "close_host sock s = s\<lparr>vf_closed := sock # vf_closed s\<rparr>"

subsection \<open>Access to the guest\<close>

definition after :: "(int + 'a) \<times> 'w vfs \<Rightarrow> ('a \<Rightarrow> 'w vfs \<Rightarrow> int \<times> 'w vfs) \<Rightarrow> int \<times> 'w vfs" where
  "after m f = (case m of (Inl err, s) \<Rightarrow> (err, s) | (Inr x, s) \<Rightarrow> f x s)"

definition get_bytes :: "addr_t \<Rightarrow> nat \<Rightarrow> 'w vfs \<Rightarrow> (int + byte_t list) \<times> 'w vfs" where
  "get_bytes a n s = (case vread a n s of (None, s) \<Rightarrow> (Inl EFAULT, s) | (Some bs, s) \<Rightarrow> (Inr bs, s))"

definition put_bytes :: "addr_t \<Rightarrow> byte_t list \<Rightarrow> 'w vfs \<Rightarrow> (int + unit) \<times> 'w vfs" where
  "put_bytes a bs s = (case vwrite a bs s of (err, s) \<Rightarrow> (if err \<noteq> 0 then Inl EFAULT else Inr (), s))"

definition get_dword :: "addr_t \<Rightarrow> 'w vfs \<Rightarrow> (int + dword_t) \<times> 'w vfs" where
  "get_dword a s = andthen (get_bytes a 4 s) (\<lambda>bs s. (Inr (word_of_bytes bs), s))"

definition put_dword :: "addr_t \<Rightarrow> dword_t \<Rightarrow> 'w vfs \<Rightarrow> (int + unit) \<times> 'w vfs" where
  "put_dword a w = put_bytes a (bytes_of_word 4 w)"

text \<open>The first \<open>n\<close> bytes of a buffer, which may be shorter.\<close>

definition out_of :: "byte_t list \<Rightarrow> nat \<Rightarrow> 'w vfs \<Rightarrow> byte_t list \<times> 'w vfs" where
  "out_of bs n s = (take n (bs @ replicate n 0), if length bs < n then vbad s else s)"

text \<open>Addresses are translated in place. A buffer without room for the family is overrun.\<close>

definition set_family :: "int \<Rightarrow> byte_t list \<Rightarrow> byte_t list" where
  "set_family f bs = take (length bs) (bytes_of_word 2 (word_of_int f :: word_t) @ drop 2 bs)"

definition family :: "byte_t list \<Rightarrow> int" where
  "family bs = uint (word_of_bytes (take 2 bs) :: word_t)"

definition sockaddr_read :: "'w net \<Rightarrow> addr_t \<Rightarrow> dword_t \<Rightarrow> 'w vfs \<Rightarrow> (int + byte_t list) \<times> 'w vfs" where
  "sockaddr_read net a len s =
    andthen (get_bytes a (unat len) s) (\<lambda>bs s.
      let s = (if length bs < 2 then vbad s else s);
          real = uint (word_of_int (sock_family_to_real (nt_const net) (family bs)) :: word_t)
      in (if real = nt_const net ''PF_INET'' \<or> real = nt_const net ''PF_INET6'' then Inr (set_family real bs)
          else if real = nt_const net ''PF_LOCAL'' then Inl ENOENT else Inl EINVAL, s))"

definition sockaddr_write :: "'w net \<Rightarrow> addr_t \<Rightarrow> byte_t list \<Rightarrow> dword_t \<Rightarrow> 'w vfs \<Rightarrow> (int + unit) \<times> 'w vfs" where
  "sockaddr_write net a bs len s =
    (let s = (if length bs < 2 then vbad s else s);
         fake = uint (word_of_int (sock_family_from_real (nt_const net) (family bs)) :: word_t)
     in if fake = PF_INET \<or> fake = PF_INET6
        then case out_of (set_family fake bs) (unat len) s of (bs, s) \<Rightarrow> put_bytes a bs s
        else (Inl (if fake = PF_LOCAL then ENOENT else EINVAL), s))"

subsection \<open>Files\<close>

definition sock_fd_create :: "'w net \<Rightarrow> nat \<Rightarrow> dword_t \<Rightarrow> 'w vfs \<Rightarrow> int \<times> 'w vfs" where
  "sock_fd_create net sock flags s =
    (case new_file None (Fs_file (nt_table net)) s of
       (fd, s) \<Rightarrow>
         (case install_new (on_fds (f_install (k_ops (vf_kern s)) fd)) fd
                 (s\<lparr>vf_file := (vf_file s)(fd := map_option (\<lambda>x. x\<lparr>fl_stat := (fl_stat x)\<lparr>st_mode := 0xc1b6\<rparr>,
                     fl_real := Some sock\<rparr>) (vf_file s fd))\<rparr>) of
            (f, s) \<Rightarrow>
              (f, if f \<ge> 0 \<and> flags AND O_CLOEXEC \<noteq> 0
                  then s\<lparr>vf_kern := do_fds (put_cloexec (word_of_int f) True) (vf_kern s)\<rparr> else s)))"

definition sock_getfd :: "'w net \<Rightarrow> dword_t \<Rightarrow> 'w vfs \<Rightarrow> nat option" where
  "sock_getfd net f s =
    (case vf_get f s of
       None \<Rightarrow> None
     | Some fd \<Rightarrow>
         (case vf_file s fd of
            None \<Rightarrow> None
          | Some x \<Rightarrow> if fl_kind x = Fs_file (nt_table net) then fl_real x else None))"

definition with_sock :: "'w net \<Rightarrow> dword_t \<Rightarrow> (nat \<Rightarrow> 'w vfs \<Rightarrow> int \<times> 'w vfs) \<Rightarrow> 'w vfs \<Rightarrow> int \<times> 'w vfs" where
  "with_sock net f g s = (case sock_getfd net f s of None \<Rightarrow> (EBADF, s) | Some sock \<Rightarrow> g sock s)"

subsection \<open>The calls\<close>

text \<open>A descriptor that cannot be installed has been closed with its file, and is closed again.\<close>

definition real_kind :: "'w net \<Rightarrow> dword_t \<Rightarrow> dword_t \<Rightarrow> dword_t \<Rightarrow> (int \<times> int) option" where
  "real_kind net domain kind protocol =
    (let real_domain = sock_family_to_real (nt_const net) (sint domain);
         real_type = sock_type_to_real (nt_const net) kind (sint protocol)
     in if real_domain < 0 \<or> real_type < 0 then None else Some (real_domain, real_type))"

definition sys_socket :: "'w net \<Rightarrow> dword_t \<Rightarrow> dword_t \<Rightarrow> dword_t \<Rightarrow> 'w vfs \<Rightarrow> int \<times> 'w vfs" where
  "sys_socket net domain kind protocol s =
    (case real_kind net domain kind protocol of
       None \<Rightarrow> (EINVAL, s)
     | Some (real_domain, real_type) \<Rightarrow>
         (let protocol = (if kind = 3 \<and> protocol = 255 then 1 else protocol)
          in after (on_host (nt_socket net real_domain real_type protocol) s) (\<lambda>sock s.
               case sock_fd_create net sock kind s of (f, s) \<Rightarrow> (f, if f < 0 then close_host sock s else s))))"

definition sys_bind :: "'w net \<Rightarrow> dword_t \<Rightarrow> addr_t \<Rightarrow> dword_t \<Rightarrow> 'w vfs \<Rightarrow> int \<times> 'w vfs" where
  "sys_bind net f a len =
    with_sock net f (\<lambda>sock s.
      after (sockaddr_read net a len s) (\<lambda>addr s. after (on_host (nt_bind net sock addr) s) (\<lambda>r s. (0, s))))"

definition sys_connect :: "'w net \<Rightarrow> dword_t \<Rightarrow> addr_t \<Rightarrow> dword_t \<Rightarrow> 'w vfs \<Rightarrow> int \<times> 'w vfs" where
  "sys_connect net f a len =
    with_sock net f (\<lambda>sock s. after (sockaddr_read net a len s) (\<lambda>addr s. after (on_host (nt_connect net sock addr) s) Pair))"

definition sys_listen :: "'w net \<Rightarrow> dword_t \<Rightarrow> dword_t \<Rightarrow> 'w vfs \<Rightarrow> int \<times> 'w vfs" where
  "sys_listen net f backlog = with_sock net f (\<lambda>sock s. after (on_host (nt_listen net sock backlog) s) Pair)"

text \<open>When the address cannot be given to the guest, the number of the host is returned, and
nothing holds the connection; the same when the length cannot be given.\<close>

definition sys_accept :: "'w net \<Rightarrow> dword_t \<Rightarrow> addr_t \<Rightarrow> addr_t \<Rightarrow> 'w vfs \<Rightarrow> int \<times> 'w vfs" where
  "sys_accept net f a len_addr =
    with_sock net f (\<lambda>sock s.
      after (get_dword len_addr s) (\<lambda>len s.
      after (on_host (nt_accept net sock len) s) (\<lambda>(client, bs, len) s.
        case sockaddr_write net a bs len s of
          (Inl err, s) \<Rightarrow> (int client, s)
        | (Inr _, s) \<Rightarrow>
            after (put_dword len_addr len s) (\<lambda>_ s.
              case sock_fd_create net client 0 s of (f, s) \<Rightarrow> (f, if f < 0 then close_host client s else s)))))"

definition give_name ::
  "(nat \<Rightarrow> dword_t \<Rightarrow> 'w \<Rightarrow> (host_errno + int \<times> byte_t list \<times> dword_t) \<times> 'w) \<Rightarrow>
   'w net \<Rightarrow> dword_t \<Rightarrow> addr_t \<Rightarrow> addr_t \<Rightarrow> 'w vfs \<Rightarrow> int \<times> 'w vfs"
where
  "give_name name net f a len_addr =
    with_sock net f (\<lambda>sock s.
      after (get_dword len_addr s) (\<lambda>len s.
      after (on_host (name sock len) s) (\<lambda>(r, bs, len) s.
      after (sockaddr_write net a bs len s) (\<lambda>_ s.
      after (put_dword len_addr len s) (\<lambda>_ s. (r, s))))))"

definition sys_getsockname :: "'w net \<Rightarrow> dword_t \<Rightarrow> addr_t \<Rightarrow> addr_t \<Rightarrow> 'w vfs \<Rightarrow> int \<times> 'w vfs" where
  "sys_getsockname net = give_name (nt_getsockname net) net"

definition sys_getpeername :: "'w net \<Rightarrow> dword_t \<Rightarrow> addr_t \<Rightarrow> addr_t \<Rightarrow> 'w vfs \<Rightarrow> int \<times> 'w vfs" where
  "sys_getpeername net = give_name (nt_getpeername net) net"

text \<open>The numbers of the guest are checked, and then passed to the host as they are.\<close>

definition sys_socketpair :: "'w net \<Rightarrow> dword_t \<Rightarrow> dword_t \<Rightarrow> dword_t \<Rightarrow> addr_t \<Rightarrow> 'w vfs \<Rightarrow> int \<times> 'w vfs" where
  "sys_socketpair net domain kind protocol sockets_addr s =
    (case real_kind net domain kind protocol of
       None \<Rightarrow> (EINVAL, s)
     | Some _ \<Rightarrow>
         after (on_host (nt_socketpair net domain kind protocol) s) (\<lambda>(p0, p1) s.
           let close_sockets = (\<lambda>s. close_host p1 (close_host p0 s))
           in case sock_fd_create net p0 kind s of
                (f0, s) \<Rightarrow>
                  if f0 < 0 then (f0, close_sockets s)
                  else case sock_fd_create net p1 kind s of
                         (f1, s) \<Rightarrow>
                           if f1 < 0 then (f1, close_sockets (snd (vf_close (word_of_int f0) s)))
                           else case put_bytes sockets_addr (bytes_of_word 4 (word_of_int f0 :: dword_t)
                                       @ bytes_of_word 4 (word_of_int f1 :: dword_t)) s of
                                  (Inl err, s) \<Rightarrow>
                                    (err, close_sockets (snd (vf_close (word_of_int f0) (snd (vf_close (word_of_int f1) s)))))
                                | (Inr _, s) \<Rightarrow> (0, s)))"

definition sys_sendto ::
  "'w net \<Rightarrow> dword_t \<Rightarrow> addr_t \<Rightarrow> dword_t \<Rightarrow> dword_t \<Rightarrow> addr_t \<Rightarrow> dword_t \<Rightarrow> 'w vfs \<Rightarrow> int \<times> 'w vfs"
where
  "sys_sendto net f buffer_addr len flags a addr_len =
    with_sock net f (\<lambda>sock s.
      after (get_bytes buffer_addr (unat len) s) (\<lambda>buffer s.
        let real_flags = sock_flags_to_real (nt_const net) flags
        in if sint real_flags < 0 then (EINVAL, s)
           else after (if a = 0 then (Inr None, s)
                       else andthen (sockaddr_read net a addr_len s) (\<lambda>bs s. (Inr (Some bs), s))) (\<lambda>addr s.
                after (on_host (nt_sendto net sock buffer real_flags addr addr_len) s) (\<lambda>n s. (int n, s)))))"

text \<open>The whole buffer is copied to the guest, whatever has been received.\<close>

definition sys_recvfrom ::
  "'w net \<Rightarrow> dword_t \<Rightarrow> addr_t \<Rightarrow> dword_t \<Rightarrow> dword_t \<Rightarrow> addr_t \<Rightarrow> addr_t \<Rightarrow> 'w vfs \<Rightarrow> int \<times> 'w vfs"
where
  "sys_recvfrom net f buffer_addr len flags a len_addr =
    with_sock net f (\<lambda>sock s.
      let real_flags = sock_flags_to_real (nt_const net) flags
      in if sint real_flags < 0 then (EINVAL, s)
         else after (if len_addr = 0 then (Inr 0, s) else get_dword len_addr s) (\<lambda>addr_len s.
              after (on_host (nt_recvfrom net sock len real_flags (a \<noteq> 0) (if len_addr = 0 then None else Some addr_len)) s)
                (\<lambda>(n, buffer, addr, new_len) s.
                   let addr_len = (if len_addr = 0 then addr_len else new_len)
                   in case out_of buffer (unat len) s of
                        (bs, s) \<Rightarrow>
                          after (put_bytes buffer_addr bs s) (\<lambda>_ s.
                          after (if a = 0 then (Inr (), s) else sockaddr_write net a addr addr_len s) (\<lambda>_ s.
                          after (if len_addr = 0 then (Inr (), s) else put_dword len_addr addr_len s) (\<lambda>_ s. (int n, s)))))))"

definition sys_shutdown :: "'w net \<Rightarrow> dword_t \<Rightarrow> dword_t \<Rightarrow> 'w vfs \<Rightarrow> int \<times> 'w vfs" where
  "sys_shutdown net f how = with_sock net f (\<lambda>sock s. after (on_host (nt_shutdown net sock how) s) (\<lambda>_ s. (0, s)))"

definition real_option :: "'w net \<Rightarrow> dword_t \<Rightarrow> dword_t \<Rightarrow> (int \<times> int) option" where
  "real_option net level opt =
    (let real_opt = sock_opt_to_real (nt_const net) (sint opt) (sint level);
         real_level = sock_level_to_real (nt_const net) (sint level)
     in if real_opt < 0 \<or> real_level < 0 then None else Some (real_level, real_opt))"

definition sys_setsockopt :: "'w net \<Rightarrow> dword_t \<Rightarrow> dword_t \<Rightarrow> dword_t \<Rightarrow> addr_t \<Rightarrow> dword_t \<Rightarrow> 'w vfs \<Rightarrow> int \<times> 'w vfs" where
  "sys_setsockopt net f level opt value_addr value_len =
    with_sock net f (\<lambda>sock s.
      after (get_bytes value_addr (unat value_len) s) (\<lambda>bs s.
        if level = 58 \<and> opt = 1 then (0, s)
        else case real_option net level opt of
               None \<Rightarrow> (EINVAL, s)
             | Some (real_level, real_opt) \<Rightarrow> after (on_host (nt_setsockopt net sock real_level real_opt bs) s) (\<lambda>_ s. (0, s))))"

definition set_socket_type :: "host_consts \<Rightarrow> byte_t list \<Rightarrow> byte_t list" where
  "set_socket_type h bs =
    (let t = sint (word_of_bytes (take 4 bs) :: dword_t);
         put = (\<lambda>w :: dword_t. take (length bs) (bytes_of_word 4 w @ drop 4 bs))
     in if t = h ''SOCK_STREAM'' then put 1 else if t = h ''SOCK_DGRAM'' then put 2 else bs)"

text \<open>As many bytes as the guest has asked for are copied back, not as many as there are.\<close>

definition sys_getsockopt :: "'w net \<Rightarrow> dword_t \<Rightarrow> dword_t \<Rightarrow> dword_t \<Rightarrow> addr_t \<Rightarrow> addr_t \<Rightarrow> 'w vfs \<Rightarrow> int \<times> 'w vfs" where
  "sys_getsockopt net f level opt value_addr len_addr =
    with_sock net f (\<lambda>sock s.
      after (get_dword len_addr s) (\<lambda>value_len s.
      after (get_bytes value_addr (unat value_len) s) (\<lambda>bs s.
        case real_option net level opt of
          None \<Rightarrow> (EINVAL, s)
        | Some (real_level, real_opt) \<Rightarrow>
            after (on_host (nt_getsockopt net sock real_level real_opt bs) s) (\<lambda>(bs, new_len) s.
              let typed = (level = 1 \<and> opt = 3);
                  s = (if typed \<and> length bs < 4 then vbad s else s);
                  bs = (if typed then set_socket_type (nt_const net) bs else bs)
              in after (put_dword len_addr new_len s) (\<lambda>_ s. after (put_bytes value_addr bs s) (\<lambda>_ s. (0, s)))))))"

subsection \<open>Messages\<close>

text \<open>\<open>struct msghdr_\<close>, seven words.\<close>

record msghdr =
  mh_name :: addr_t
  mh_namelen :: dword_t
  mh_iov :: addr_t
  mh_iovlen :: dword_t
  mh_control :: addr_t
  mh_controllen :: dword_t
  mh_flags :: dword_t

definition msghdr_of :: "byte_t list \<Rightarrow> msghdr" where
  "msghdr_of bs = \<lparr>mh_name = dword_at bs 0, mh_namelen = dword_at bs 4, mh_iov = dword_at bs 8, mh_iovlen = dword_at bs 12,
     mh_control = dword_at bs 16, mh_controllen = dword_at bs 20, mh_flags = dword_at bs 24\<rparr>"

definition msghdr_bytes :: "msghdr \<Rightarrow> byte_t list" where
  "msghdr_bytes m = concat (map (bytes_of_word 4)
     [mh_name m, mh_namelen m, mh_iov m, mh_iovlen m, mh_control m, mh_controllen m, mh_flags m])"

text \<open>The size that is taken for the header of a control message is that of a pointer, 8.\<close>

fun put_control :: "addr_t \<Rightarrow> dword_t \<Rightarrow> cmsg list \<Rightarrow> 'w vfs \<Rightarrow> (int + dword_t) \<times> 'w vfs" where
  "put_control a offset [] s = (Inr offset, s)"
| "put_control a offset (c # cs) s =
    andthen (case out_of (cm_header c) 8 s of (bs, s) \<Rightarrow> put_bytes (a + offset) bs s) (\<lambda>_ s.
    andthen (case out_of (cm_data c) (unat (cm_len c - 8)) s of (bs, s) \<Rightarrow> put_bytes (a + offset + 8) bs s) (\<lambda>_ s.
      put_control a (offset + cm_len c) cs s))"

fun put_parts :: "(addr_t \<times> dword_t) list \<Rightarrow> byte_t list list \<Rightarrow> 'w vfs \<Rightarrow> (int + unit) \<times> 'w vfs" where
  "put_parts ((a, len) # iov) (bs # bss) s =
    andthen (case out_of bs (unat len) s of (bs, s) \<Rightarrow> put_bytes a bs s) (\<lambda>_. put_parts iov bss)"
| "put_parts ((a, len) # iov) [] s = (Inr (), vbad s)"
| "put_parts [] bss s = (Inr (), s)"

text \<open>The address of the sender is not translated; it gets 16 bytes. The buffers for the data are
variables of the body of a loop, so the host fills memory that is no longer theirs.\<close>

definition read_msg :: "addr_t \<Rightarrow> 'w vfs \<Rightarrow> (int + msghdr \<times> byte_t list option \<times> (addr_t \<times> dword_t) list) \<times> 'w vfs" where
  "read_msg msghdr_addr s =
    andthen (get_bytes msghdr_addr 28 s) (\<lambda>bs s.
      let m = msghdr_of bs
      in andthen (if mh_name m \<noteq> 0 \<and> mh_namelen m \<noteq> 0
                  then andthen (get_bytes (mh_name m) 16 s) (\<lambda>bs s. (Inr (Some bs), s)) else (Inr None, s)) (\<lambda>name s.
         andthen (get_bytes (mh_iov m) (8 * unat (mh_iovlen m)) s) (\<lambda>bs s.
           (Inr (m, name, map (\<lambda>i. (dword_at bs (8 * i), dword_at bs (8 * i + 4))) [0..<unat (mh_iovlen m)]),
            if mh_iovlen m \<noteq> 0 then vbad s else s))))"

definition write_msg ::
  "'w net \<Rightarrow> addr_t \<Rightarrow> msghdr \<Rightarrow> bool \<Rightarrow> (addr_t \<times> dword_t) list \<Rightarrow> received \<Rightarrow> 'w vfs \<Rightarrow> (int + unit) \<times> 'w vfs"
where
  "write_msg net msghdr_addr m named iov r s =
    andthen (if named \<and> rc_namelen r \<noteq> 0
             then case out_of (rc_name r) 16 s of
                    (bs, s) \<Rightarrow> andthen (put_bytes (mh_name m) bs s) (\<lambda>_ s. (Inr (m\<lparr>mh_namelen := 16\<rparr>), s))
             else (Inr m, s)) (\<lambda>m s.
    andthen (put_control (mh_control m) 0 (rc_control r) s) (\<lambda>n s.
    andthen (put_parts iov (rc_data r) s) (\<lambda>_ s.
    andthen (put_bytes (mh_iov m) (concat (map (\<lambda>(a, n). bytes_of_word 4 a @ bytes_of_word 4 n) iov)) s) (\<lambda>_ s.
      put_bytes msghdr_addr
        (msghdr_bytes (m\<lparr>mh_controllen := n, mh_flags := sock_flags_from_real (nt_const net) (rc_flags r)\<rparr>)) s))))"

definition sys_recvmsg :: "'w net \<Rightarrow> dword_t \<Rightarrow> addr_t \<Rightarrow> dword_t \<Rightarrow> 'w vfs \<Rightarrow> int \<times> 'w vfs" where
  "sys_recvmsg net f msghdr_addr flags =
    with_sock net f (\<lambda>sock s.
      after (read_msg msghdr_addr s) (\<lambda>(m, name, iov) s.
        let real_flags = sock_flags_to_real (nt_const net) flags
        in if sint real_flags < 0 then (EINVAL, s)
           else case on_world (nt_recvmsg net sock name (mh_controllen m) (map snd iov)
                       (sock_flags_to_real (nt_const net) (mh_flags m)) real_flags) s of
                  (r, s) \<Rightarrow>
                    after (write_msg net msghdr_addr m (name \<noteq> None) iov r s) (\<lambda>_ s.
                      case rc_count r of Inl e \<Rightarrow> host_error e s | Inr n \<Rightarrow> (int n, s))))"

subsection \<open>The multiplexer\<close>

definition socket_calls :: "(nat \<times> string) option list" where
  "socket_calls =
    [None, Some (3, ''sys_socket''), Some (3, ''sys_bind''), Some (3, ''sys_connect''), Some (2, ''sys_listen''),
     Some (3, ''sys_accept''), Some (3, ''sys_getsockname''), Some (3, ''sys_getpeername''), Some (4, ''sys_socketpair''),
     None, None, Some (6, ''sys_sendto''), Some (6, ''sys_recvfrom''), Some (2, ''sys_shutdown''),
     Some (5, ''sys_setsockopt''), Some (5, ''sys_getsockopt''), None, Some (3, ''sys_recvmsg''), None, None, None]"

definition socket_call :: "'w net \<Rightarrow> string \<Rightarrow> (nat \<Rightarrow> dword_t) \<Rightarrow> 'w vfs \<Rightarrow> int \<times> 'w vfs" where
  "socket_call net name a =
    (if name = ''sys_socket'' then sys_socket net (a 0) (a 1) (a 2)
     else if name = ''sys_bind'' then sys_bind net (a 0) (a 1) (a 2)
     else if name = ''sys_connect'' then sys_connect net (a 0) (a 1) (a 2)
     else if name = ''sys_listen'' then sys_listen net (a 0) (a 1)
     else if name = ''sys_accept'' then sys_accept net (a 0) (a 1) (a 2)
     else if name = ''sys_getsockname'' then sys_getsockname net (a 0) (a 1) (a 2)
     else if name = ''sys_getpeername'' then sys_getpeername net (a 0) (a 1) (a 2)
     else if name = ''sys_socketpair'' then sys_socketpair net (a 0) (a 1) (a 2) (a 3)
     else if name = ''sys_sendto'' then sys_sendto net (a 0) (a 1) (a 2) (a 3) (a 4) (a 5)
     else if name = ''sys_recvfrom'' then sys_recvfrom net (a 0) (a 1) (a 2) (a 3) (a 4) (a 5)
     else if name = ''sys_shutdown'' then sys_shutdown net (a 0) (a 1)
     else if name = ''sys_setsockopt'' then sys_setsockopt net (a 0) (a 1) (a 2) (a 3) (a 4)
     else if name = ''sys_getsockopt'' then sys_getsockopt net (a 0) (a 1) (a 2) (a 3) (a 4)
     else sys_recvmsg net (a 0) (a 1) (a 2))"

definition sys_socketcall :: "'w net \<Rightarrow> dword_t \<Rightarrow> addr_t \<Rightarrow> 'w vfs \<Rightarrow> int \<times> 'w vfs" where
  "sys_socketcall net call_num args_addr s =
    (if call_num < 1 \<or> unat call_num \<ge> length socket_calls then (EINVAL, s)
     else case socket_calls ! unat call_num of
            None \<Rightarrow> (ENOSYS, s)
          | Some (n, name) \<Rightarrow>
              after (get_bytes args_addr (4 * n) s) (\<lambda>bs s. socket_call net name (\<lambda>i. dword_at bs (4 * i)) s))"

end
