(* ===== verification/Sock_Props.thy ===== *)
theory Sock_Props
  imports Sock Files_Open Files_Props
begin

text \<open>
  Properties of sockets: the translation of flags, and the descriptor of a new socket.
\<close>

subsection \<open>Flags\<close>

lemma bit_join:
  "bit (fold (\<lambda>(b, c) r. if P b c then r OR g b c else r) xs r0) k \<longleftrightarrow>
   bit r0 k \<or> (\<exists>(b, c) \<in> set xs. P b c \<and> bit (g b c) k)" for r0 :: dword_t
  by (induction xs arbitrary: r0) (auto simp: bit_or_iff split: if_splits)

lemma and_nonzero: "x AND y \<noteq> 0 \<longleftrightarrow> (\<exists>k. bit x k \<and> bit y k)" for x y :: dword_t
proof
  assume "x AND y \<noteq> 0"
  then obtain k where "bit (x AND y) k" by (metis bit_eqI bit_0_eq bot_apply bot_bool_def)
  then show "\<exists>k. bit x k \<and> bit y k" by (auto simp: bit_and_iff)
next
  assume "\<exists>k. bit x k \<and> bit y k"
  then obtain k where "bit (x AND y) k" by (auto simp: bit_and_iff)
  then show "x AND y \<noteq> 0" by auto
qed

definition flags_apart :: "host_consts \<Rightarrow> bool" where
  "flags_apart h \<longleftrightarrow> (\<forall>(b, c) \<in> set msg_flags. host_flag h c \<noteq> 0 \<and>
     (\<forall>(b', c') \<in> set msg_flags. b' \<noteq> b \<longrightarrow> host_flag h c AND host_flag h c' = 0))"

lemma real_flag_set:
  assumes "flags_apart h" "(b, c) \<in> set msg_flags"
  shows "sock_flags_to_real h fake AND host_flag h c \<noteq> 0 \<longleftrightarrow> fake AND b \<noteq> 0"
proof -
  have apart: "b' = b" if "(b', c') \<in> set msg_flags" "bit (host_flag h c') k" "bit (host_flag h c) k" for b' c' k
    using assms that by (fastforce simp: flags_apart_def and_nonzero[symmetric] dest: and_nonzero[THEN iffD2, OF exI, OF conjI])
  obtain k where k: "bit (host_flag h c) k"
    using assms by (fastforce simp: flags_apart_def bit_eq_iff)
  have "sock_flags_to_real h fake AND host_flag h c \<noteq> 0 \<longleftrightarrow>
      (\<exists>k. (\<exists>(b', c') \<in> set msg_flags. fake AND b' \<noteq> 0 \<and> bit (host_flag h c') k) \<and> bit (host_flag h c) k)"
    by (simp add: and_nonzero sock_flags_to_real_def bit_join)
  also have "\<dots> \<longleftrightarrow> fake AND b \<noteq> 0"
    using apart k assms(2) by fast
  finally show ?thesis .
qed

lemma msg_flag_bits: "(b, c) \<in> set msg_flags \<Longrightarrow> \<exists>i. b = 2 ^ i \<and> i \<in> {0, 1, 3, 5, 6, 7, 8}"
proof -
  have e: "set msg_flags = {(2 ^ 0, ''MSG_OOB''), (2 ^ 1, ''MSG_PEEK''), (2 ^ 3, ''MSG_CTRUNC''), (2 ^ 5, ''MSG_TRUNC''),
      (2 ^ 6, ''MSG_DONTWAIT''), (2 ^ 7, ''MSG_EOR''), (2 ^ 8, ''MSG_WAITALL'')}" by (simp add: msg_flags_def)
  show "(b, c) \<in> set msg_flags \<Longrightarrow> \<exists>i. b = 2 ^ i \<and> i \<in> {0, 1, 3, 5, 6, 7, 8}" unfolding e by blast
qed

lemma msg_bits_flag: "i \<in> {0, 1, 3, 5, 6, 7, 8} \<Longrightarrow> \<exists>c. (2 ^ i, c) \<in> set msg_flags"
  by (auto simp: msg_flags_def)

lemma flag_mask: "bit (0x1eb :: dword_t) k \<longleftrightarrow> k \<in> {0, 1, 3, 5, 6, 7, 8}"
proof -
  have "(0x1eb :: dword_t) = 2 ^ 0 OR 2 ^ 1 OR 2 ^ 3 OR 2 ^ 5 OR 2 ^ 6 OR 2 ^ 7 OR 2 ^ 8" by simp
  then show ?thesis by (simp only: bit_or_iff bit_exp_iff) auto
qed

text \<open>Flags of messages survive the way to the host and back, if the flags of the host are
different bits: exactly the seven known flags are kept, and all others are dropped.\<close>
lemma sock_flags_roundtrip:
  assumes "flags_apart h"
  shows "sock_flags_from_real h (sock_flags_to_real h fake) = fake AND 0x1eb"
proof (rule bit_eqI)
  fix k
  assume k: "possible_bit TYPE(dword_t) k"
  have "bit (sock_flags_from_real h (sock_flags_to_real h fake)) k \<longleftrightarrow> (\<exists>(b, c) \<in> set msg_flags. fake AND b \<noteq> 0 \<and> bit b k)"
    using real_flag_set[OF assms] by (simp add: sock_flags_from_real_def bit_join) fastforce
  also have "\<dots> \<longleftrightarrow> bit fake k \<and> k \<in> {0, 1, 3, 5, 6, 7, 8}"
  proof
    assume "\<exists>(b, c) \<in> set msg_flags. fake AND b \<noteq> 0 \<and> bit b k"
    then obtain i where i: "fake AND 2 ^ i \<noteq> 0" "bit (2 ^ i :: dword_t) k" "i \<in> {0, 1, 3, 5, 6, 7, 8}"
      using msg_flag_bits by blast
    then have "i = k" by (simp add: bit_exp_iff)
    then show "bit fake k \<and> k \<in> {0, 1, 3, 5, 6, 7, 8}" using i by (simp add: and_exp_eq_0_iff_not_bit)
  next
    assume a: "bit fake k \<and> k \<in> {0, 1, 3, 5, 6, 7, 8}"
    then obtain c where "(2 ^ k, c) \<in> set msg_flags" using msg_bits_flag by blast
    moreover have "fake AND 2 ^ k \<noteq> 0" using a by (simp add: and_exp_eq_0_iff_not_bit)
    moreover have "bit (2 ^ k :: dword_t) k" using k by (simp add: bit_exp_iff)
    ultimately show "\<exists>(b, c) \<in> set msg_flags. fake AND b \<noteq> 0 \<and> bit b k" by blast
  qed
  also have "\<dots> \<longleftrightarrow> bit (fake AND 0x1eb) k" by (simp only: bit_and_iff flag_mask)
  finally show "bit (sock_flags_from_real h (sock_flags_to_real h fake)) k \<longleftrightarrow> bit (fake AND 0x1eb) k" .
qed

text \<open>The numbers of macOS.\<close>

definition mac_consts :: host_consts where
  "mac_consts name = (case map_of [(''PF_LOCAL'', 1), (''PF_INET'', 2), (''PF_INET6'', 30), (''SOCK_STREAM'', 1), (''SOCK_DGRAM'', 2),
     (''MSG_OOB'', 1), (''MSG_PEEK'', 2), (''MSG_EOR'', 8), (''MSG_TRUNC'', 16), (''MSG_CTRUNC'', 32), (''MSG_WAITALL'', 64),
     (''MSG_DONTWAIT'', 128)] name of None \<Rightarrow> 0 | Some i \<Rightarrow> i)"

lemma mac_flags_apart: "flags_apart mac_consts"
  by (simp add: flags_apart_def msg_flags_def host_flag_def mac_consts_def)

lemma sock_flags_roundtrip_witness:
  "sock_flags_from_real mac_consts (sock_flags_to_real mac_consts 0x4141) = 0x141"
  using sock_flags_roundtrip[OF mac_flags_apart, of "0x4141"] by simp

subsection \<open>A new socket\<close>

lemma upd_task_fds:
  assumes "\<And>x. t_files (f x) = t_files x \<and> t_group (f x) = t_group x"
  shows "task_fds (upd_task t f k) = task_fds k"
  using assms by (auto simp: upd_task_def kbad_def task_fds_def cur_task_def get_task_def cur_group_def split: option.split)

lemma kernel_notes_fds: "task_fds (kbad k) = task_fds k" "task_fds (kevent e k) = task_fds k"
  by (simp_all add: kbad_def kevent_def task_fds_def cur_task_def get_task_def cur_group_def)

lemma send_signal_fds: "task_fds (send_signal t sig k) = task_fds k"
  by (auto simp: send_signal_def deliver_signal_def Let_def upd_task_fds kernel_notes_fds split: option.split)

lemma host_error_quiet: "hushed s (snd (host_error e s))" "fst (host_error e s) = err_map e" "vf_closed (snd (host_error e s)) = vf_closed s"
  by (simp_all add: host_error_def errno_map_def hushed_def fds_of_def send_signal_fds)

lemma sock_create:
  assumes ok: "fds_ok held (fds_of s)" "limit_ok (fds_of s)" "dom (vf_file s) \<subseteq> dom (fd_heap (fds_of s))"
    and r: "sock_fd_create net sock flags s = (f, t)"
  shows "fds_ok held (fds_of t) \<and> limit_ok (fds_of t) \<and>
    (if f < 0 then vf_file t = vf_file s \<and> vf_closed t = sock # vf_closed s
     else sock_getfd net (word_of_int f) t = Some sock \<and> vf_closed t = vf_closed s)"
proof -
  obtain fd u where u: "new_file None (Fs_file (nt_table net)) s = (fd, u)" by fastforce
  note new = new_file_fds[OF u]
  have closed: "vf_closed u = vf_closed s" using u by (auto simp: new_file_def on_kernel_def split: prod.splits)
  have none: "fd_heap (fds_of s) fd = None" using new(1) ok(1) by (auto simp: fd_create_def fds_ok_def)
  then have nofile: "vf_file s fd = None" using ok(3) by auto
  define v where "v = u\<lparr>vf_file := (vf_file u)(fd := map_option (\<lambda>x. x\<lparr>fl_stat := (fl_stat x)\<lparr>st_mode := 0xc1b6\<rparr>,
      fl_real := Some sock\<rparr>) (vf_file u fd))\<rparr>"
  define x where "x = \<lparr>fl_mount = None, fl_kind = Fs_file (nt_table net), fl_stat = zero_stat\<lparr>st_mode := 0xc1b6\<rparr>, fl_real = Some sock\<rparr>"
  have v: "fds_of v = fds_of u" "vf_file v = (vf_file s)(fd \<mapsto> x)" "vf_closed v = vf_closed s"
    using new(2) closed by (simp_all add: v_def x_def fds_of_def)
  have create: "fds_of u = snd (fd_create (fds_of s))" using new(1) by simp
  have made: "fds_ok (held(fd := 1)) (fds_of v)" "held fd = 0" "limit_ok (fds_of v)"
    using fd_create_ok[OF ok(1) new(1)] ok(2) v(1) create by (simp_all add: fd_create_def limit_ok_def cur_def)
  let ?ops = "k_ops (vf_kern v)"
  obtain d w where w: "on_kernel (on_fds (f_install ?ops fd)) v = (d, w)" by fastforce
  obtain d' y where y: "f_install ?ops fd (fds_of v) = (d', y)" by fastforce
  have "same_limits (fds_of v) y" using install_limits[of "fds_of v" ?ops fd] y by simp
  then have k: "d = d'" "fds_of w = y" "vf_file w = vf_file v" using on_fds_of[OF w y] by (simp_all add: same_limits_def)
  have wc: "vf_closed w = vf_closed s" using w v(3) by (auto simp: on_kernel_def split: prod.splits)
  have "(held(fd := 1))(fd := (held(fd := 1)) fd - 1) = held" using made(2) by auto
  then have ins: "fds_ok held (fds_of w) \<and> limit_ok (fds_of w) \<and> (d \<ge> 0 \<longrightarrow> f_get (word_of_int d) (fds_of w) = Some fd)"
    using f_install_start_ok[OF made(1,3) _ y[unfolded f_install_def]] k by simp
  let ?c = "w\<lparr>vf_kern := do_fds (put_cloexec (word_of_int d) True) (vf_kern w)\<rparr>"
  have t: "f = d" "t = (if d < 0 then drop_file fd w else if flags AND O_CLOEXEC \<noteq> 0 then ?c else w)"
    using r u w by (auto simp: sock_fd_create_def install_new_def v_def split: if_splits)
  show ?thesis
  proof (cases "d < 0")
    case True
    have "vf_file (drop_file fd w) = vf_file s" "fds_of (drop_file fd w) = fds_of w" "vf_closed (drop_file fd w) = sock # vf_closed s"
      using k(3) v(2) nofile wc by (simp_all add: drop_file_def fds_of_def fun_upd_idem x_def)
    then show ?thesis using True t ins by simp
  next
    case False
    then have g: "fds_ok held (fds_of w)" "limit_ok (fds_of w)" "f_get (word_of_int d) (fds_of w) = Some fd" using ins by simp_all
    note c = cloexec_made[OF g(1,3)]
    have "vf_file t = (vf_file s)(fd \<mapsto> x)" "vf_closed t = vf_closed s" using t(2) False k(3) v(2) wc by simp_all
    moreover have "fds_ok held (fds_of t) \<and> limit_ok (fds_of t) \<and> f_get (word_of_int d) (fds_of t) = Some fd"
      using t(2) False g c by (simp split: if_split)
    ultimately show ?thesis using False t(1) by (simp add: sock_getfd_def vf_get_def fds_of_def x_def)
  qed
qed

text \<open>C18. Making a socket. An error of the host is translated, and no file is made; otherwise the
counts of open files are right, and either the descriptor that is returned is the socket
of the host, which stays open, or there is no descriptor left: then no file is left
either, but the socket of the host has been closed twice.\<close>
theorem socket_gives_descriptor:
  assumes "fds_ok held (fds_of s)" "limit_ok (fds_of s)" "dom (vf_file s) \<subseteq> dom (fd_heap (fds_of s))"
    "real_kind net domain kind protocol = Some (d, k)"
    "nt_socket net d k (if kind = 3 \<and> protocol = 255 then 1 else protocol) (vf_world s) = (r, w)"
    "sys_socket net domain kind protocol s = (f, t)"
  shows "fds_ok held (fds_of t) \<and> limit_ok (fds_of t) \<and>
    (case r of
       Inl e \<Rightarrow> f = err_map e \<and> vf_file t = vf_file s \<and> vf_closed t = vf_closed s
     | Inr sock \<Rightarrow>
         if f < 0 then vf_file t = vf_file s \<and> vf_closed t = sock # sock # vf_closed s
         else sock_getfd net (word_of_int f) t = Some sock \<and> vf_closed t = vf_closed s)"
proof -
  let ?s = "s\<lparr>vf_world := w\<rparr>"
  have s: "fds_of ?s = fds_of s" by (simp add: fds_of_def)
  have h: "on_host (nt_socket net d k (if kind = 3 \<and> protocol = 255 then 1 else protocol)) s =
      (case r of Inl e \<Rightarrow> (Inl (fst (host_error e ?s)), snd (host_error e ?s)) | Inr x \<Rightarrow> (Inr x, ?s))"
    using assms(5) by (simp add: on_host_def on_world_def split_beta split: sum.split)
  show ?thesis
  proof (cases r)
    case (Inl e)
    then have "f = fst (host_error e ?s)" "t = snd (host_error e ?s)"
      using assms(4,6) h by (simp_all add: sys_socket_def after_def Let_def)
    then show ?thesis using host_error_quiet[where e = e and s = ?s] assms(1,2) s Inl by (simp add: hushed_def)
  next
    case (Inr sock)
    obtain f' u where u: "sock_fd_create net sock kind ?s = (f', u)" by fastforce
    then have t: "f = f'" "t = (if f' < 0 then close_host sock u else u)"
      using assms(4,6) h Inr by (auto simp: sys_socket_def after_def Let_def)
    note c = sock_create[OF _ _ _ u, of held]
    have "fds_of (close_host sock u) = fds_of u" "vf_file (close_host sock u) = vf_file u" "vf_closed (close_host sock u) = sock # vf_closed u"
      by (simp_all add: close_host_def fds_of_def)
    then show ?thesis using c assms(1-3) s t Inr by (auto split: if_splits)
  qed
qed

definition net_demo :: "proc_world net" where
  "net_demo = \<lparr>nt_const = mac_consts, nt_table = 3, nt_socket = (\<lambda>_ _ _ w. (Inr 9, w)), nt_socketpair = (\<lambda>_ _ _ w. (Inr (8, 9), w)),
     nt_bind = (\<lambda>_ _ w. (Inr 0, w)), nt_connect = (\<lambda>_ _ w. (Inr 0, w)), nt_listen = (\<lambda>_ _ w. (Inr 0, w)), nt_shutdown = (\<lambda>_ _ w. (Inr 0, w)),
     nt_accept = (\<lambda>_ n w. (Inr (9, replicate (unat n) 0, 0), w)), nt_getsockname = (\<lambda>_ n w. (Inr (0, replicate (unat n) 0, 0), w)),
     nt_getpeername = (\<lambda>_ n w. (Inr (0, replicate (unat n) 0, 0), w)), nt_sendto = (\<lambda>_ bs _ _ _ w. (Inr (length bs), w)),
     nt_recvfrom = (\<lambda>_ n _ _ _ w. (Inr (0, replicate (unat n) 0, [], 0), w)), nt_setsockopt = (\<lambda>_ _ _ _ w. (Inr 0, w)),
     nt_getsockopt = (\<lambda>_ _ _ bs w. (Inr (bs, 0), w)),
     nt_recvmsg = (\<lambda>_ _ _ _ _ _ w. (\<lparr>rc_count = Inr 0, rc_name = [], rc_namelen = 0, rc_control = [], rc_data = [], rc_flags = 0\<rparr>, w))\<rparr>"

lemma demo_group: "cur_group kern_files = Some (group_demo\<lparr>g_limits := first_limits\<rparr>)"
    "cur_group (kern_files\<lparr>k_fds := x\<rparr>) = Some (group_demo\<lparr>g_limits := first_limits\<rparr>)"
    "cur_task (kern_files\<lparr>k_fds := x\<rparr>) = task_demo" "t_files task_demo = 0"
  by (simp_all add: cur_group_def kern_files_def cur_task_def get_task_def task_demo_def zero_task_def)

lemma demo_socket: "fst (sys_socket net_demo 2 1 0 files_demo) = 1"
proof -
  have slot: "free_slot tb 3 0 = 1" if "ft_files tb = (\<lambda>f. if f = 0 then Some 1 else None)" for tb
    using that by (simp add: free_slot.simps)
  have le: "\<not> (3 :: dword_t) \<le> 1" by (simp add: word_le_def)
  show ?thesis
    by (simp add: sys_socket_def real_kind_def sock_family_to_real_def sock_type_to_real_def net_demo_def mac_consts_def after_def on_host_def
      on_world_def sock_fd_create_def new_file_def on_kernel_def on_fds_def fd_create_def task_fds_def install_new_def f_install_def
      f_install_start_def pick_slot_def cur_def fds_demo_def split_beta Let_def slot_limit_def demo_group first_limits_def slot le)
qed

theorem socket_gives_descriptor_witness:
  "sock_getfd net_demo 1 (snd (sys_socket net_demo 2 1 0 files_demo)) = Some 9"
proof -
  have dom: "dom (vf_file files_demo) \<subseteq> dom (fd_heap (fds_of files_demo))" by (simp add: fds_of_def task_fds_def fds_demo_def dom_def)
  have k: "real_kind net_demo 2 1 0 = Some (2, 1)"
    by (simp add: real_kind_def sock_family_to_real_def sock_type_to_real_def net_demo_def mac_consts_def Let_def)
  have "nt_socket net_demo 2 1 (if (1 :: dword_t) = 3 \<and> (0 :: dword_t) = 255 then 1 else 0) (vf_world files_demo) = (Inr 9, vf_world files_demo)"
    by (simp add: net_demo_def)
  from socket_gives_descriptor[OF demo_fds dom k this prod.collapse[symmetric]] show ?thesis
    by (simp add: demo_socket)
qed

end
