(* ===== verification/Realfs.thy ===== *)
theory Realfs
  imports Sock Path_Facts
begin

text \<open>
  The file system on files of the host (\<open>src/fs/real.c\<close>). The calls of the host are a record
  of functions on its state, which is a part of the world of the file system, next to the
  members of \<open>struct mount\<close> and \<open>struct fd\<close> that belong to it. A macro of the host is named
  by a string, as in theory \<open>Sock\<close>. That \<open>errno_map\<close> sends \<open>SIGPIPE\<close> is noted in the world.
\<close>

subsection \<open>The host\<close>

record host_stat =
  hs_dev :: "dword_t \<times> dword_t"
  hs_ino :: qword_t
  hs_mode :: dword_t
  hs_nlink :: qword_t
  hs_uid :: dword_t
  hs_gid :: dword_t
  hs_rdev :: "dword_t \<times> dword_t"
  hs_size :: qword_t
  hs_blksize :: qword_t
  hs_blocks :: qword_t
  hs_atime :: qword_t
  hs_mtime :: qword_t
  hs_ctime :: qword_t

type_synonym ('h, 'a) host_answer = "'h \<Rightarrow> (host_errno + 'a) \<times> 'h"

text \<open>\<open>hf_opendir\<close> is \<open>dup\<close> with \<open>fdopendir\<close>. \<open>hf_open\<close> and \<open>hf_mkfifo\<close> start at the directory that
the emulator is in, which is a part of the state of the host. \<open>hf_flock\<close> and \<open>hf_getpath\<close> tell
only whether they have failed.\<close>

record 'h host_files =
  hf_const :: host_consts
  hf_page :: qword_t
  hf_open :: "string \<Rightarrow> dword_t \<Rightarrow> ('h, nat) host_answer"
  hf_openat :: "nat \<Rightarrow> string \<Rightarrow> dword_t \<Rightarrow> word_t \<Rightarrow> ('h, nat) host_answer"
  hf_close :: "nat \<Rightarrow> ('h, unit) host_answer"
  hf_closedir :: "nat \<Rightarrow> 'h \<Rightarrow> 'h"
  hf_fstatat :: "nat \<Rightarrow> string \<Rightarrow> bool \<Rightarrow> 'h \<Rightarrow> host_errno + host_stat"
  hf_fstat :: "nat \<Rightarrow> 'h \<Rightarrow> host_errno + host_stat"
  hf_read :: "nat \<Rightarrow> nat \<Rightarrow> ('h, byte_t list) host_answer"
  hf_write :: "nat \<Rightarrow> byte_t list \<Rightarrow> ('h, nat) host_answer"
  hf_opendir :: "nat \<Rightarrow> ('h, unit) host_answer"
  hf_readdir :: "nat \<Rightarrow> ('h, (qword_t \<times> string) option) host_answer"
  hf_telldir :: "nat \<Rightarrow> 'h \<Rightarrow> qword_t"
  hf_seekdir :: "nat \<Rightarrow> qword_t \<Rightarrow> 'h \<Rightarrow> 'h"
  hf_lseek :: "nat \<Rightarrow> qword_t \<Rightarrow> string \<Rightarrow> ('h, nat) host_answer"
  hf_mmap :: "qword_t \<Rightarrow> bool \<Rightarrow> dword_t \<Rightarrow> nat \<Rightarrow> qword_t \<Rightarrow> 'h \<Rightarrow> host_errno + hptr"
  hf_readlinkat :: "nat \<Rightarrow> string \<Rightarrow> nat \<Rightarrow> 'h \<Rightarrow> host_errno + string"
  hf_getpath :: "nat \<Rightarrow> 'h \<Rightarrow> string option"
  hf_linkat :: "nat \<Rightarrow> string \<Rightarrow> nat \<Rightarrow> string \<Rightarrow> ('h, unit) host_answer"
  hf_unlinkat :: "nat \<Rightarrow> string \<Rightarrow> bool \<Rightarrow> ('h, unit) host_answer"
  hf_renameat :: "nat \<Rightarrow> string \<Rightarrow> nat \<Rightarrow> string \<Rightarrow> ('h, unit) host_answer"
  hf_symlinkat :: "string \<Rightarrow> nat \<Rightarrow> string \<Rightarrow> ('h, unit) host_answer"
  hf_fchdir :: "nat \<Rightarrow> ('h, unit) host_answer"
  hf_mkfifo :: "string \<Rightarrow> word_t \<Rightarrow> ('h, unit) host_answer"
  hf_ftruncate :: "nat \<Rightarrow> qword_t \<Rightarrow> ('h, unit) host_answer"
  hf_fchownat :: "nat \<Rightarrow> string \<Rightarrow> dword_t \<Rightarrow> dword_t \<Rightarrow> ('h, unit) host_answer"
  hf_fchmodat :: "nat \<Rightarrow> string \<Rightarrow> word_t \<Rightarrow> ('h, unit) host_answer"
  hf_fchown :: "nat \<Rightarrow> dword_t \<Rightarrow> dword_t \<Rightarrow> ('h, unit) host_answer"
  hf_fchmod :: "nat \<Rightarrow> word_t \<Rightarrow> ('h, unit) host_answer"
  hf_utimensat :: "nat \<Rightarrow> string \<Rightarrow> dword_t \<times> dword_t \<Rightarrow> dword_t \<times> dword_t \<Rightarrow> ('h, unit) host_answer"
  hf_mkdirat :: "nat \<Rightarrow> string \<Rightarrow> word_t \<Rightarrow> ('h, unit) host_answer"
  hf_flock :: "nat \<Rightarrow> dword_t \<Rightarrow> 'h \<Rightarrow> bool \<times> 'h"
  hf_fsync :: "nat \<Rightarrow> ('h, unit) host_answer"
  hf_getfl :: "nat \<Rightarrow> 'h \<Rightarrow> host_errno + dword_t"
  hf_setfl :: "nat \<Rightarrow> dword_t \<Rightarrow> ('h, unit) host_answer"

text \<open>\<open>rw_stat\<close> and \<open>rw_statfs\<close> are what a buffer on the stack holds before it is filled.\<close>

record 'h real_world =
  rw_source :: "nat \<Rightarrow> string"
  rw_root :: "nat \<Rightarrow> nat"
  rw_mount :: "nat \<Rightarrow> nat"
  rw_fd :: "nat \<Rightarrow> nat"
  rw_dir :: "nat \<Rightarrow> bool"
  rw_host :: 'h
  rw_sigpipe :: bool
  rw_stat :: statbuf
  rw_statfs :: "byte_t list"

definition real_error :: "host_errno \<Rightarrow> 'h real_world \<Rightarrow> int \<times> 'h real_world" where
  "real_error e w = (case errno_map e of (p, err) \<Rightarrow> (err, if p then w\<lparr>rw_sigpipe := True\<rparr> else w))"

definition real_do :: "('h, 'a) host_answer \<Rightarrow> ('a \<Rightarrow> int) \<Rightarrow> 'h real_world \<Rightarrow> int \<times> 'h real_world" where
  "real_do f g w =
    (case f (rw_host w) of
       (Inl e, h) \<Rightarrow> real_error e (w\<lparr>rw_host := h\<rparr>)
     | (Inr x, h) \<Rightarrow> (g x, w\<lparr>rw_host := h\<rparr>))"

subsection \<open>Paths and flags\<close>

definition fix_path :: "string \<Rightarrow> string" where
  "fix_path path = (if path = [] then ''.'' else if hd path = slash then tl path else path)"

definition open_flags :: "(dword_t \<times> string) list" where
  "open_flags = [(0, ''O_RDONLY''), (0x1, ''O_WRONLY''), (0x2, ''O_RDWR''), (0x40, ''O_CREAT''), (0x200, ''O_TRUNC''),
     (0x400, ''O_APPEND''), (0x800, ''O_NONBLOCK'')]"

definition open_flags_real_from_fake :: "host_consts \<Rightarrow> dword_t \<Rightarrow> dword_t" where
  "open_flags_real_from_fake h fake =
    fold (\<lambda>(b, name) real. if fake AND b \<noteq> 0 then real OR host_flag h name else real) open_flags 0"

definition open_flags_fake_from_real :: "host_consts \<Rightarrow> dword_t \<Rightarrow> dword_t" where
  "open_flags_fake_from_real h real =
    fold (\<lambda>(b, name) fake. if real AND host_flag h name \<noteq> 0 then fake OR b else fake) open_flags 0"

subsection \<open>Files\<close>

definition realfs_open ::
  "'h host_files \<Rightarrow> nat \<Rightarrow> nat \<Rightarrow> nat \<Rightarrow> string \<Rightarrow> dword_t \<Rightarrow> word_t \<Rightarrow> 'h real_world \<Rightarrow> (int + nat) \<times> 'h real_world"
where
  "realfs_open H ops m fd path flags mode w =
    (case hf_openat H (rw_root w m) (fix_path path) (open_flags_real_from_fake (hf_const H) flags) mode (rw_host w) of
       (Inl e, h) \<Rightarrow> (case real_error e (w\<lparr>rw_host := h\<rparr>) of (err, w) \<Rightarrow> (Inl err, w))
     | (Inr real, h) \<Rightarrow>
         (Inr ops, w\<lparr>rw_host := h, rw_fd := (rw_fd w)(fd := real), rw_dir := (rw_dir w)(fd := False),
                     rw_mount := (rw_mount w)(fd := m)\<rparr>))"

definition realfs_close :: "'h host_files \<Rightarrow> nat \<Rightarrow> 'h real_world \<Rightarrow> int \<times> 'h real_world" where
  "realfs_close H fd w =
    real_do (hf_close H (rw_fd w fd)) (\<lambda>_. 0)
      (if rw_dir w fd then w\<lparr>rw_host := hf_closedir H (rw_fd w fd) (rw_host w)\<rparr> else w)"

definition dev_fake_from_real :: "dword_t \<times> dword_t \<Rightarrow> dword_t" where
  "dev_fake_from_real dev = dev_make (fst dev) (snd dev)"

text \<open>The nanoseconds are not copied.\<close>

definition copy_stat :: "statbuf \<Rightarrow> host_stat \<Rightarrow> statbuf" where
  "copy_stat fake real =
    fake\<lparr>st_dev := ucast (dev_fake_from_real (hs_dev real)), st_inode := ucast (hs_ino real), st_mode := hs_mode real,
      st_nlink := ucast (hs_nlink real), st_uid := hs_uid real, st_gid := hs_gid real,
      st_rdev := ucast (dev_fake_from_real (hs_rdev real)), st_size := hs_size real, st_blksize := ucast (hs_blksize real),
      st_blocks := hs_blocks real, st_atime := ucast (hs_atime real), st_mtime := ucast (hs_mtime real),
      st_ctime := ucast (hs_ctime real)\<rparr>"

definition realfs_stat :: "'h host_files \<Rightarrow> nat \<Rightarrow> string \<Rightarrow> bool \<Rightarrow> 'h real_world \<Rightarrow> int + statbuf" where
  "realfs_stat H m path follow w =
    (case hf_fstatat H (rw_root w m) (fix_path path) follow (rw_host w) of
       Inl e \<Rightarrow> Inl (snd (errno_map e)) | Inr st \<Rightarrow> Inr (copy_stat (rw_stat w) st))"

definition realfs_fstat :: "'h host_files \<Rightarrow> nat \<Rightarrow> 'h real_world \<Rightarrow> int + statbuf" where
  "realfs_fstat H fd w =
    (case hf_fstat H (rw_fd w fd) (rw_host w) of
       Inl e \<Rightarrow> Inl (snd (errno_map e)) | Inr st \<Rightarrow> Inr (copy_stat (rw_stat w) st))"

definition realfs_read :: "'h host_files \<Rightarrow> nat \<Rightarrow> nat \<Rightarrow> 'h real_world \<Rightarrow> int \<times> byte_t list \<times> 'h real_world" where
  "realfs_read H fd n w =
    (case hf_read H (rw_fd w fd) n (rw_host w) of
       (Inl e, h) \<Rightarrow> (case real_error e (w\<lparr>rw_host := h\<rparr>) of (err, w) \<Rightarrow> (err, [], w))
     | (Inr bs, h) \<Rightarrow> (int (length bs), bs, w\<lparr>rw_host := h\<rparr>))"

definition realfs_write :: "'h host_files \<Rightarrow> nat \<Rightarrow> byte_t list \<Rightarrow> 'h real_world \<Rightarrow> int \<times> 'h real_world" where
  "realfs_write H fd bs w = real_do (hf_write H (rw_fd w fd) bs) int w"

definition realfs_opendir :: "'h host_files \<Rightarrow> nat \<Rightarrow> 'h real_world \<Rightarrow> int \<times> 'h real_world" where
  "realfs_opendir H fd w =
    (if rw_dir w fd then (0, w)
     else case hf_opendir H (rw_fd w fd) (rw_host w) of
            (Inl e, h) \<Rightarrow> real_error e (w\<lparr>rw_host := h\<rparr>)
          | (Inr _, h) \<Rightarrow> (0, w\<lparr>rw_host := h, rw_dir := (rw_dir w)(fd := True)\<rparr>))"

definition realfs_readdir :: "'h host_files \<Rightarrow> nat \<Rightarrow> 'h real_world \<Rightarrow> (int + dir_entry option) \<times> 'h real_world" where
  "realfs_readdir H fd w =
    (case realfs_opendir H fd w of
       (err, w) \<Rightarrow>
         if err < 0 then (Inl err, w)
         else case hf_readdir H (rw_fd w fd) (rw_host w) of
                (Inl e, h) \<Rightarrow> (case real_error e (w\<lparr>rw_host := h\<rparr>) of (err, w) \<Rightarrow> (Inl err, w))
              | (Inr x, h) \<Rightarrow> (Inr (map_option (\<lambda>(i, n). \<lparr>de_inode = i, de_name = n\<rparr>) x), w\<lparr>rw_host := h\<rparr>))"

definition realfs_telldir :: "'h host_files \<Rightarrow> nat \<Rightarrow> 'h real_world \<Rightarrow> qword_t \<times> 'h real_world" where
  "realfs_telldir H fd w =
    (case realfs_opendir H fd w of
       (err, w) \<Rightarrow> (if err < 0 then word_of_int err else hf_telldir H (rw_fd w fd) (rw_host w), w))"

definition realfs_seekdir :: "'h host_files \<Rightarrow> nat \<Rightarrow> qword_t \<Rightarrow> 'h real_world \<Rightarrow> int \<times> 'h real_world" where
  "realfs_seekdir H fd ptr w =
    (case realfs_opendir H fd w of
       (err, w) \<Rightarrow> if err < 0 then (err, w) else (0, w\<lparr>rw_host := hf_seekdir H (rw_fd w fd) ptr (rw_host w)\<rparr>))"

definition realfs_lseek :: "'h host_files \<Rightarrow> nat \<Rightarrow> qword_t \<Rightarrow> dword_t \<Rightarrow> 'h real_world \<Rightarrow> int \<times> 'h real_world" where
  "realfs_lseek H fd offset whence w =
    (if whence = 0 then real_do (hf_lseek H (rw_fd w fd) offset ''SEEK_SET'') int w
     else if whence = 1 then real_do (hf_lseek H (rw_fd w fd) offset ''SEEK_CUR'') int w
     else if whence = 2 then real_do (hf_lseek H (rw_fd w fd) offset ''SEEK_END'') int w
     else (EINVAL, w))"

abbreviation (input) MMAP_SHARED :: dword_t where "MMAP_SHARED \<equiv> 1"

text \<open>The memory starts at a page of the host, and the mapping at the offset behind it.\<close>

definition realfs_mmap ::
  "'h host_files \<Rightarrow> nat \<Rightarrow> mem_id \<Rightarrow> page_t \<Rightarrow> pages_t \<Rightarrow> qword_t \<Rightarrow> dword_t \<Rightarrow> dword_t \<Rightarrow> 'h real_world \<Rightarrow> vm \<Rightarrow> int \<times> vm"
where
  "realfs_mmap H fd m start pages offset prot flags w v =
    (if pages = 0 then (0, v)
     else
       (let mmap_flags = (if flags AND MMAP_PRIVATE \<noteq> 0 then host_flag (hf_const H) ''MAP_PRIVATE'' else 0)
              OR (if flags AND MMAP_SHARED \<noteq> 0 then host_flag (hf_const H) ''MAP_SHARED'' else 0);
            real_offset = (offset div hf_page H) * hf_page H;
            correction = offset - real_offset
        in pt_map m start pages
             (case hf_mmap H (ucast (pages * PAGE_SIZE) + correction) (prot AND P_WRITE \<noteq> 0) mmap_flags (rw_fd w fd) real_offset (rw_host w) of
                Inl e \<Rightarrow> Inl e | Inr (i, a) \<Rightarrow> Inr (i, a + correction)) prot v))"

definition realfs_fsync :: "'h host_files \<Rightarrow> nat \<Rightarrow> 'h real_world \<Rightarrow> int \<times> 'h real_world" where
  "realfs_fsync H fd = (\<lambda>w. real_do (hf_fsync H (rw_fd w fd)) (\<lambda>_. 0) w)"

definition realfs_getflags :: "'h host_files \<Rightarrow> 'h real_world \<Rightarrow> nat \<Rightarrow> int" where
  "realfs_getflags H w fd =
    (case hf_getfl H (rw_fd w fd) (rw_host w) of
       Inl e \<Rightarrow> snd (errno_map e) | Inr flags \<Rightarrow> sint (open_flags_fake_from_real (hf_const H) flags))"

definition realfs_setflags :: "'h host_files \<Rightarrow> nat \<Rightarrow> dword_t \<Rightarrow> 'h real_world \<Rightarrow> int \<times> 'h real_world" where
  "realfs_setflags H fd flags w =
    real_do (hf_setfl H (rw_fd w fd) (open_flags_real_from_fake (hf_const H) flags)) (\<lambda>_. 0) w"

subsection \<open>Paths\<close>

definition realfs_readlink :: "'h host_files \<Rightarrow> nat \<Rightarrow> string \<Rightarrow> nat \<Rightarrow> 'h real_world \<Rightarrow> int + string" where
  "realfs_readlink H m path n w =
    (case hf_readlinkat H (rw_root w m) (fix_path path) n (rw_host w) of Inl e \<Rightarrow> Inl (snd (errno_map e)) | Inr t \<Rightarrow> Inr t)"

text \<open>The path that the host knows, without the directory that is mounted. Its failure is
returned as it is, which is \<open>EPERM\<close>.\<close>

definition realfs_getpath :: "'h host_files \<Rightarrow> nat \<Rightarrow> 'h real_world \<Rightarrow> int + string" where
  "realfs_getpath H fd w =
    (case hf_getpath H (rw_fd w fd) (rw_host w) of
       None \<Rightarrow> Inl (- 1)
     | Some buf \<Rightarrow>
         (let source = rw_source w (rw_mount w fd)
          in Inr (if source \<noteq> [slash] \<or> buf = [slash] then drop (length source) buf else buf)))"

definition realfs_link :: "'h host_files \<Rightarrow> nat \<Rightarrow> string \<Rightarrow> string \<Rightarrow> 'h real_world \<Rightarrow> int \<times> 'h real_world" where
  "realfs_link H m src dst w = real_do (hf_linkat H (rw_root w m) (fix_path src) (rw_root w m) (fix_path dst)) (\<lambda>_. 0) w"

definition realfs_unlink :: "'h host_files \<Rightarrow> nat \<Rightarrow> string \<Rightarrow> 'h real_world \<Rightarrow> int \<times> 'h real_world" where
  "realfs_unlink H m path w = real_do (hf_unlinkat H (rw_root w m) (fix_path path) False) (\<lambda>_. 0) w"

definition realfs_rmdir :: "'h host_files \<Rightarrow> nat \<Rightarrow> string \<Rightarrow> 'h real_world \<Rightarrow> int \<times> 'h real_world" where
  "realfs_rmdir H m path w = real_do (hf_unlinkat H (rw_root w m) (fix_path path) True) (\<lambda>_. 0) w"

definition realfs_rename :: "'h host_files \<Rightarrow> nat \<Rightarrow> string \<Rightarrow> string \<Rightarrow> 'h real_world \<Rightarrow> int \<times> 'h real_world" where
  "realfs_rename H m src dst w = real_do (hf_renameat H (rw_root w m) (fix_path src) (rw_root w m) (fix_path dst)) (\<lambda>_. 0) w"

text \<open>The name of the new link is passed as it is: a path from the root of the guest is one
from the root of the host.\<close>

definition realfs_symlink :: "'h host_files \<Rightarrow> nat \<Rightarrow> string \<Rightarrow> string \<Rightarrow> 'h real_world \<Rightarrow> int \<times> 'h real_world" where
  "realfs_symlink H m target link w = real_do (hf_symlinkat H target (rw_root w m) link) (\<lambda>_. 0) w"

text \<open>A fifo has no call that takes a directory: the emulator goes to it, without a test that it
got there.\<close>

definition realfs_mknod :: "'h host_files \<Rightarrow> nat \<Rightarrow> string \<Rightarrow> word_t \<Rightarrow> dword_t \<Rightarrow> 'h real_world \<Rightarrow> int \<times> 'h real_world" where
  "realfs_mknod H m path mode dev w =
    (let perm = mode AND NOT 0xf000; h = hf_const H
     in if mode AND 0xf000 = 0x1000 
        then real_do (hf_mkfifo H (fix_path path) perm) (\<lambda>_. 0) (w\<lparr>rw_host := snd (hf_fchdir H (rw_root w m) (rw_host w))\<rparr>)
        else if mode AND 0xf000 = 0x8000
        then (case hf_openat H (rw_root w m) (fix_path path) (host_flag h ''O_CREAT'' OR host_flag h ''O_EXCL'' OR host_flag h ''O_RDONLY'')
                     perm (rw_host w) of
                (Inl e, x) \<Rightarrow> real_error e (w\<lparr>rw_host := x\<rparr>)
              | (Inr fd, x) \<Rightarrow> real_do (hf_close H fd) (\<lambda>_. 0) (w\<lparr>rw_host := x\<rparr>))
        else (EPERM, w))"

text \<open>Closing the file is not tested.\<close>

definition realfs_truncate :: "'h host_files \<Rightarrow> nat \<Rightarrow> string \<Rightarrow> qword_t \<Rightarrow> 'h real_world \<Rightarrow> int \<times> 'h real_world" where
  "realfs_truncate H m path n w =
    (case hf_openat H (rw_root w m) (fix_path path) (host_flag (hf_const H) ''O_RDWR'') 0 (rw_host w) of
       (Inl e, x) \<Rightarrow> real_error e (w\<lparr>rw_host := x\<rparr>)
     | (Inr fd, x) \<Rightarrow>
         (case real_do (hf_ftruncate H fd n) (\<lambda>_. 0) (w\<lparr>rw_host := x\<rparr>) of
            (err, w) \<Rightarrow> (err, w\<lparr>rw_host := snd (hf_close H fd (rw_host w))\<rparr>)))"

text \<open>A change of the group is made as one of the owner.\<close>

definition realfs_setattr :: "'h host_files \<Rightarrow> nat \<Rightarrow> string \<Rightarrow> attr \<Rightarrow> 'h real_world \<Rightarrow> int \<times> 'h real_world" where
  "realfs_setattr H m path a w =
    (let path = fix_path path; root = rw_root w m
     in case a of
          Attr_uid u \<Rightarrow> real_do (hf_fchownat H root path u (- 1)) (\<lambda>_. 0) w
        | Attr_gid g \<Rightarrow> real_do (hf_fchownat H root path g (- 1)) (\<lambda>_. 0) w
        | Attr_mode mode \<Rightarrow> real_do (hf_fchmodat H root path mode) (\<lambda>_. 0) w
        | Attr_size n \<Rightarrow> realfs_truncate H m path n w)"

definition realfs_fsetattr :: "'h host_files \<Rightarrow> nat \<Rightarrow> attr \<Rightarrow> 'h real_world \<Rightarrow> int \<times> 'h real_world" where
  "realfs_fsetattr H fd a w =
    (case a of
       Attr_uid u \<Rightarrow> real_do (hf_fchown H (rw_fd w fd) u (- 1)) (\<lambda>_. 0) w
     | Attr_gid g \<Rightarrow> real_do (hf_fchown H (rw_fd w fd) g (- 1)) (\<lambda>_. 0) w
     | Attr_mode mode \<Rightarrow> real_do (hf_fchmod H (rw_fd w fd) mode) (\<lambda>_. 0) w
     | Attr_size n \<Rightarrow> real_do (hf_ftruncate H (rw_fd w fd) n) (\<lambda>_. 0) w)"

definition realfs_utime ::
  "'h host_files \<Rightarrow> nat \<Rightarrow> string \<Rightarrow> dword_t \<times> dword_t \<Rightarrow> dword_t \<times> dword_t \<Rightarrow> 'h real_world \<Rightarrow> int \<times> 'h real_world"
where
  "realfs_utime H m path atime mtime w = real_do (hf_utimensat H (rw_root w m) (fix_path path) atime mtime) (\<lambda>_. 0) w"

definition realfs_mkdir :: "'h host_files \<Rightarrow> nat \<Rightarrow> string \<Rightarrow> word_t \<Rightarrow> 'h real_world \<Rightarrow> int \<times> 'h real_world" where
  "realfs_mkdir H m path mode w = real_do (hf_mkdirat H (rw_root w m) (fix_path path) mode) (\<lambda>_. 0) w"

text \<open>The result of the host is returned, not its error.\<close>

definition realfs_flock :: "'h host_files \<Rightarrow> nat \<Rightarrow> dword_t \<Rightarrow> 'h real_world \<Rightarrow> int \<times> 'h real_world" where
  "realfs_flock H fd operation w =
    (let h = hf_const H;
         real_op = fold (\<lambda>(b, name) real. if operation AND b \<noteq> 0 then real OR host_flag h name else real)
           [(1, ''LOCK_SH''), (2, ''LOCK_EX''), (8, ''LOCK_UN''), (4, ''LOCK_NB'')] 0
     in case hf_flock H (rw_fd w fd) real_op (rw_host w) of (ok, x) \<Rightarrow> (if ok then 0 else - 1, w\<lparr>rw_host := x\<rparr>))"

text \<open>\<open>bsize\<close> is at byte 4 and \<open>namelen\<close> at byte 56; the other members are left as they are.\<close>

definition realfs_statfs :: "nat \<Rightarrow> 'h real_world \<Rightarrow> int \<times> byte_t list" where
  "realfs_statfs m w =
    (0, take 4 (rw_statfs w) @ bytes_of_word 4 (PAGE_SIZE :: dword_t) @ take 48 (drop 8 (rw_statfs w))
        @ bytes_of_word 4 (255 :: dword_t) @ drop 60 (rw_statfs w))"

definition realfs_mount :: "'h host_files \<Rightarrow> nat \<Rightarrow> string \<Rightarrow> string \<Rightarrow> 'h real_world \<Rightarrow> int \<times> 'h real_world" where
  "realfs_mount H m source point w =
    (case hf_open H source (host_flag (hf_const H) ''O_DIRECTORY'') (rw_host w) of
       (Inl e, h) \<Rightarrow> real_error e (w\<lparr>rw_host := h\<rparr>)
     | (Inr fd, h) \<Rightarrow>
         (0, w\<lparr>rw_host := h, rw_root := (rw_root w)(m := fd), rw_source := (rw_source w)(m := source)\<rparr>))"

subsection \<open>The tables\<close>

definition realfs :: "'h host_files \<Rightarrow> nat \<Rightarrow> 'h real_world fs_ops" where
  "realfs H ops =
    \<lparr>fs_name = ''real'', fs_magic = 0x7265616c, fs_mount = Some (realfs_mount H), fs_umount = None,
     fs_statfs = Some realfs_statfs, fs_open = realfs_open H ops, fs_readlinkat = realfs_readlink H,
     fs_link = Some (realfs_link H), fs_unlink = Some (realfs_unlink H), fs_rmdir = Some (realfs_rmdir H),
     fs_rename = Some (realfs_rename H), fs_symlink = Some (realfs_symlink H), fs_mknod = Some (realfs_mknod H),
     fs_stat = realfs_stat H, fs_fstat = realfs_fstat H, fs_setattr = Some (realfs_setattr H),
     fs_fsetattr = Some (realfs_fsetattr H), fs_utime = Some (realfs_utime H), fs_getpath = Some (realfs_getpath H),
     fs_mkdir = Some (realfs_mkdir H), fs_flock = Some (realfs_flock H)\<rparr>"

text \<open>In a table, asking for the position of a directory changes nothing: that it opens the
directory is left to the operation that follows.\<close>

definition realfs_fdops :: "'h host_files \<Rightarrow> 'h real_world fd_ops" where
  "realfs_fdops H =
    \<lparr>fo_read = Some (realfs_read H), fo_write = Some (realfs_write H), fo_lseek = Some (realfs_lseek H),
     fo_readdir = Some (realfs_readdir H), fo_telldir = (\<lambda>fd w. fst (realfs_telldir H fd w)),
     fo_seekdir = (\<lambda>fd ptr w. snd (realfs_seekdir H fd ptr w)), fo_mmap = Some (realfs_mmap H), fo_ioctl_size = None,
     fo_ioctl = (\<lambda>_ _ _ w. (0, [], w)), fo_fsync = Some (realfs_fsync H)\<rparr>"

subsection \<open>Below the root\<close>

text \<open>The file that a path names, as the list of its names from the root of the host, for a path that
starts at the directory \<open>d\<close>; a symbolic link on the way is not looked at. An empty path names
nothing.\<close>

fun climb :: "string \<Rightarrow> string list \<Rightarrow> string list" where
  "climb c d = (if c = [dot] then d else if c = [dot, dot] then butlast d else d @ [c])"

definition host_name :: "string list \<Rightarrow> string \<Rightarrow> string list option" where
  "host_name d p =
    (if p = [] then None else Some (fold climb (components p) (if hd p = slash then [] else d)))"

text \<open>A host that has only the files \<open>S\<close>: to every call with a path it refuses what the path names
from the directory \<open>dirs d\<close> of the descriptor, or from its own one, unless it is in \<open>S\<close>.\<close>

definition only :: "(nat \<Rightarrow> string list) \<Rightarrow> ('h \<Rightarrow> string list) \<Rightarrow> string list set \<Rightarrow> 'h host_files \<Rightarrow> 'h host_files" where
  "only dirs cwd S H =
    (let ok = (\<lambda>d p. host_name d p \<in> Some ` S); no = (\<lambda>h. (Inl ''EXDEV'', h))
     in H\<lparr>hf_open := (\<lambda>p f h. if ok (cwd h) p then hf_open H p f h else (Inl ''EXDEV'', h)),
          hf_openat := (\<lambda>d p f mode h. if ok (dirs d) p then hf_openat H d p f mode h else (Inl ''EXDEV'', h)),
          hf_fstatat := (\<lambda>d p f h. if ok (dirs d) p then hf_fstatat H d p f h else Inl ''EXDEV''),
          hf_readlinkat := (\<lambda>d p n h. if ok (dirs d) p then hf_readlinkat H d p n h else Inl ''EXDEV''),
          hf_linkat := (\<lambda>d p e q. if ok (dirs d) p \<and> ok (dirs e) q then hf_linkat H d p e q else no),
          hf_unlinkat := (\<lambda>d p f. if ok (dirs d) p then hf_unlinkat H d p f else no),
          hf_renameat := (\<lambda>d p e q. if ok (dirs d) p \<and> ok (dirs e) q then hf_renameat H d p e q else no),
          hf_symlinkat := (\<lambda>t d p. if ok (dirs d) p then hf_symlinkat H t d p else no),
          hf_mkfifo := (\<lambda>p mode h. if ok (cwd h) p then hf_mkfifo H p mode h else (Inl ''EXDEV'', h)),
          hf_fchownat := (\<lambda>d p u g. if ok (dirs d) p then hf_fchownat H d p u g else no),
          hf_fchmodat := (\<lambda>d p mode. if ok (dirs d) p then hf_fchmodat H d p mode else no),
          hf_utimensat := (\<lambda>d p a b. if ok (dirs d) p then hf_utimensat H d p a b else no),
          hf_mkdirat := (\<lambda>d p mode. if ok (dirs d) p then hf_mkdirat H d p mode else no)\<rparr>)"

lemma fold_climb: "plain ns \<Longrightarrow> fold climb ns d = d @ ns"
  by (induction ns arbitrary: d) (auto simp: plain_def proper_def)

lemma fix_path_join:
  assumes "plain ns"
  shows "host_name d (fix_path (join ns)) = Some (d @ ns)" "fix_path (fix_path (join ns)) = fix_path (join ns)"
proof -
  have "host_name d (fix_path (join ns)) = Some (d @ ns) \<and> fix_path (fix_path (join ns)) = fix_path (join ns)"
  proof (cases ns)
    case Nil
    then show ?thesis by (simp add: fix_path_def host_name_def components_def)
  next
    case (Cons c st)
    then have c: "c \<noteq> []" "no_slash c" using assms by (auto simp: plain_def proper_def)
    then have "hd (c @ join st) \<noteq> slash" using hd_in_set[of c] by (metis hd_append2)
    moreover have "components (c @ join st) = ns"
      using components_join[of ns] assms Cons by (simp add: join_Cons plain_def)
    ultimately show ?thesis using c fold_climb[OF assms] Cons by (simp add: fix_path_def host_name_def join_Cons)
  qed
  then show "host_name d (fix_path (join ns)) = Some (d @ ns)" "fix_path (fix_path (join ns)) = fix_path (join ns)" by simp_all
qed

lemma host_name_join: "plain ns \<Longrightarrow> ns \<noteq> [] \<Longrightarrow> host_name d (join ns) = Some ns"
  using components_join[of ns] fold_climb[of ns "[]"] by (cases ns) (auto simp: host_name_def join_Cons plain_def)

lemma only_same [simp]:
  "hf_const (only dirs cwd S H) = hf_const H" "hf_close (only dirs cwd S H) = hf_close H"
  "hf_ftruncate (only dirs cwd S H) = hf_ftruncate H" "hf_fchdir (only dirs cwd S H) = hf_fchdir H"
  by (simp_all add: only_def Let_def)

lemma only_path:
  assumes "host_name (dirs d) p \<in> Some ` S"
  shows "hf_openat (only dirs cwd S H) d p = hf_openat H d p" "hf_fstatat (only dirs cwd S H) d p = hf_fstatat H d p"
    "hf_readlinkat (only dirs cwd S H) d p = hf_readlinkat H d p" "hf_unlinkat (only dirs cwd S H) d p = hf_unlinkat H d p"
    "hf_fchownat (only dirs cwd S H) d p = hf_fchownat H d p" "hf_fchmodat (only dirs cwd S H) d p = hf_fchmodat H d p"
    "hf_utimensat (only dirs cwd S H) d p = hf_utimensat H d p" "hf_mkdirat (only dirs cwd S H) d p = hf_mkdirat H d p"
  using assms by (simp_all add: only_def Let_def fun_eq_iff)

lemma only_paths:
  assumes "host_name (dirs d) p \<in> Some ` S" "host_name (dirs e) q \<in> Some ` S"
  shows "hf_linkat (only dirs cwd S H) d p e q = hf_linkat H d p e q" "hf_renameat (only dirs cwd S H) d p e q = hf_renameat H d p e q"
  using assms by (simp_all add: only_def Let_def fun_eq_iff)

lemma only_mkfifo: "host_name (cwd h) p \<in> Some ` S \<Longrightarrow> hf_mkfifo (only dirs cwd S H) p mode h = hf_mkfifo H p mode h"
  by (simp add: only_def Let_def)

text \<open>The link itself is not protected: on the path that the callers pass, which starts with a
slash, the host works from its own root.\<close>

lemma realfs_symlink_escapes:
  assumes "plain ns" "ns \<noteq> []" "dirs (rw_root w m) \<noteq> []"
  shows "realfs_symlink (only dirs cwd {dirs (rw_root w m) @ ns} H) m target (join ns) w = real_error ''EXDEV'' w \<and>
    realfs_symlink (only dirs cwd {ns} H) m target (join ns) w = realfs_symlink H m target (join ns) w"
  using host_name_join[OF assms(1,2), of "dirs (rw_root w m)"] assms(3)
  by (simp add: realfs_symlink_def real_do_def only_def Let_def)

text \<open>Nor is a fifo, when the emulator cannot go to the directory: it is made in the one it is in.\<close>

lemma realfs_fifo_escapes:
  assumes "plain ns" "hf_fchdir H (rw_root w m) (rw_host w) = (Inl e, rw_host w)" "mode AND 0xf000 = 0x1000"
  shows "realfs_mknod (only dirs cwd {cwd (rw_host w) @ ns} H) m (join ns) mode dev w = realfs_mknod H m (join ns) mode dev w"
  using assms fix_path_join(1)[OF assms(1), of "cwd (rw_host w)"]
  by (simp add: realfs_mknod_def real_do_def only_mkfifo Let_def)

text \<open>C16. For a path made of the names \<open>ns\<close>, the file system on files of the host names to the host
one file, \<open>ns\<close> below the directory that is mounted, whatever the descriptors and the directory of
the emulator stand for: on a host without any other file (for two paths, any but the two)
every operation but \<open>symlink\<close> does the same. \<open>mknod\<close> does so for a fifo when \<open>fchdir\<close> has led to
the directory, which the code does not test. The names must not be a dot or two, which holds for what
\<open>path_normalize\<close> returns, with symbolic links or not, and for what is left of it behind the point of
a mount (lemmas \<open>path_normalize_plain\<close> and \<open>trim_plain\<close>). Links that the host follows are not
resolved here.\<close>
theorem realfs_stays_below:
  fixes dirs :: "nat \<Rightarrow> string list" and w :: "'h real_world" and m :: nat
  assumes "plain ns" "plain ms"
  defines "f \<equiv> dirs (rw_root w m) @ ns" and "g \<equiv> dirs (rw_root w m) @ ms"
  shows "realfs_open (only dirs cwd {f} H) ops m fd (join ns) flags mode w = realfs_open H ops m fd (join ns) flags mode w \<and>
    realfs_stat (only dirs cwd {f} H) m (join ns) follow w = realfs_stat H m (join ns) follow w \<and>
    realfs_readlink (only dirs cwd {f} H) m (join ns) n w = realfs_readlink H m (join ns) n w \<and>
    realfs_link (only dirs cwd {f, g} H) m (join ns) (join ms) w = realfs_link H m (join ns) (join ms) w \<and>
    realfs_unlink (only dirs cwd {f} H) m (join ns) w = realfs_unlink H m (join ns) w \<and>
    realfs_rmdir (only dirs cwd {f} H) m (join ns) w = realfs_rmdir H m (join ns) w \<and>
    realfs_rename (only dirs cwd {f, g} H) m (join ns) (join ms) w = realfs_rename H m (join ns) (join ms) w \<and>
    ((mode AND 0xf000 = 0x1000 \<longrightarrow> cwd (snd (hf_fchdir H (rw_root w m) (rw_host w))) = dirs (rw_root w m)) \<longrightarrow>
     realfs_mknod (only dirs cwd {f} H) m (join ns) mode dev w = realfs_mknod H m (join ns) mode dev w) \<and>
    realfs_setattr (only dirs cwd {f} H) m (join ns) a w = realfs_setattr H m (join ns) a w \<and>
    realfs_utime (only dirs cwd {f} H) m (join ns) atime mtime w = realfs_utime H m (join ns) atime mtime w \<and>
    realfs_mkdir (only dirs cwd {f} H) m (join ns) mode w = realfs_mkdir H m (join ns) mode w"
proof -
  let ?r = "rw_root w m" and ?p = "fix_path (join ns)" and ?q = "fix_path (join ms)"
  have n: "host_name (dirs ?r) ?p \<in> Some ` {f}" "host_name (dirs ?r) ?p \<in> Some ` {f, g}" "host_name (dirs ?r) ?q \<in> Some ` {f, g}"
    using fix_path_join(1)[OF assms(1)] fix_path_join(1)[OF assms(2)] by (simp_all add: f_def g_def)
  have fifo: "hf_mkfifo (only dirs cwd {f} H) ?p perm h = hf_mkfifo H ?p perm h" if "cwd h = dirs ?r" for perm h
    using n(1) that by (intro only_mkfifo) simp
  note one = only_path[of dirs ?r ?p "{f}", OF n(1)] and two = only_paths[of dirs ?r ?p "{f, g}" ?r ?q, OF n(2,3)]
  note defs = realfs_open_def realfs_stat_def realfs_readlink_def realfs_link_def realfs_unlink_def realfs_rmdir_def
    realfs_rename_def realfs_setattr_def realfs_truncate_def realfs_utime_def realfs_mkdir_def
  show ?thesis
    by (intro conjI) (simp_all add: defs realfs_mknod_def real_do_def fifo fix_path_join(2)[OF assms(1)] one
        two Let_def split: attr.split sum.split prod.split)
qed

text \<open>A host that remembers the paths it is asked for, in order.\<close>

definition log_call :: "string \<Rightarrow> (string list, unit) host_answer" where
  "log_call p ps = (Inr (), ps @ [p])"

definition host_files_demo :: "string list host_files" where
  "host_files_demo = \<lparr>hf_const = (\<lambda>_. 1), hf_page = 0x1000, hf_open = (\<lambda>p _ ps. (Inr 5, ps @ [p])), hf_openat = (\<lambda>_ p _ _ ps. (Inr 6, ps @ [p])),
     hf_close = (\<lambda>_. log_call []), hf_closedir = (\<lambda>_ ps. ps), hf_fstatat = (\<lambda>_ _ _ _. Inl ''ENOENT''), hf_fstat = (\<lambda>_ _. Inl ''EBADF''),
     hf_read = (\<lambda>_ _ ps. (Inr [], ps)), hf_write = (\<lambda>_ bs ps. (Inr (length bs), ps)), hf_opendir = (\<lambda>_. log_call []),
     hf_readdir = (\<lambda>_ ps. (Inr None, ps)), hf_telldir = (\<lambda>_ _. 0), hf_seekdir = (\<lambda>_ _ ps. ps), hf_lseek = (\<lambda>_ _ _ ps. (Inr 0, ps)),
     hf_mmap = (\<lambda>_ _ _ _ _ _. Inl ''ENODEV''), hf_readlinkat = (\<lambda>_ _ _ _. Inl ''EINVAL''), hf_getpath = (\<lambda>_ _. None),
     hf_linkat = (\<lambda>_ p _ q ps. (Inr (), ps @ [p, q])), hf_unlinkat = (\<lambda>_ p _. log_call p), hf_renameat = (\<lambda>_ p _ q ps. (Inr (), ps @ [p, q])),
     hf_symlinkat = (\<lambda>_ _. log_call), hf_fchdir = (\<lambda>_. log_call []), hf_mkfifo = (\<lambda>p _. log_call p), hf_ftruncate = (\<lambda>_ _. log_call []),
     hf_fchownat = (\<lambda>_ p _ _. log_call p), hf_fchmodat = (\<lambda>_ p _. log_call p), hf_fchown = (\<lambda>_ _ _. log_call []), hf_fchmod = (\<lambda>_ _. log_call []),
     hf_utimensat = (\<lambda>_ p _ _. log_call p), hf_mkdirat = (\<lambda>_ p _. log_call p), hf_flock = (\<lambda>_ _ ps. (True, ps)),
     hf_fsync = (\<lambda>_. log_call []), hf_getfl = (\<lambda>_ _. Inr 0), hf_setfl = (\<lambda>_ _. log_call [])\<rparr>"

definition real_demo :: "string list real_world" where
  "real_demo = \<lparr>rw_source = (\<lambda>_. ''/srv''), rw_root = (\<lambda>_. 5), rw_mount = (\<lambda>_. 0), rw_fd = (\<lambda>_. 0), rw_dir = (\<lambda>_. False),
     rw_host = [], rw_sigpipe = False, rw_stat = zero_stat, rw_statfs = replicate 88 0\<rparr>"

theorem realfs_stays_below_witness:
  "realfs_rename (only (\<lambda>_. [''srv'']) (\<lambda>_. []) {[''srv'', ''a''], [''srv'', ''b'', ''c'']} host_files_demo) 0 ''/a'' ''/b/c'' real_demo
   = (0, real_demo\<lparr>rw_host := [''a'', ''b/c'']\<rparr>)"
proof -
  have p: "plain [''a'']" "plain [''b'', ''c'']" by (simp_all add: plain_def proper_def)
  have "realfs_rename (only (\<lambda>_. [''srv'']) (\<lambda>_. []) {[''srv''] @ [''a''], [''srv''] @ [''b'', ''c'']} host_files_demo) 0 (join [''a'']) (join [''b'', ''c'']) real_demo
      = realfs_rename host_files_demo 0 (join [''a'']) (join [''b'', ''c'']) real_demo"
    using realfs_stays_below[OF p, where H = host_files_demo and m = 0 and w = real_demo and dirs = "\<lambda>_. [''srv'']"] by blast
  then show ?thesis by (simp add: realfs_rename_def real_do_def host_files_demo_def fix_path_def real_demo_def join_def)
qed

end
