(* ===== verification/Spec2Isabelle.thy ===== *)
theory Spec2Isabelle
  imports Mmap_Props Arith_Props Kernel_Props Process_Props Tty_Props Poll_Props Futex_Props Time Files_Props Exec_Props Sock_Props Realfs
begin

text \<open>
  A model of iSL, a user-mode Linux emulator: a process of the guest is an
  address space and a CPU whose instructions are interpreted, and a kernel
  written in C that answers its system calls with the means of the host.

  \<^bold>\<open>The program and the theories.\<close>
  \<^item> Vocabulary: \<open>Prelude\<close> (machine integers, results, loops, collections of
    facts), \<open>Errno\<close> (\<open>src/kernel/user-errno.c\<close>: host errors to guest errors).
  \<^item> Address spaces (\<open>src/emu/memory.c\<close>): \<open>Memory\<close> holds the state \<open>vm\<close> (every
    \<open>struct mem\<close>, \<open>struct data\<close> and live host mapping under a name of its own)
    and every \<open>pt_\<close> and \<open>mem_\<close> operation. \<open>Page_Table\<close>, \<open>Refcounts\<close>,
    \<open>Mappings\<close>, \<open>Holes\<close>, \<open>Access\<close>, \<open>Mem_Ptr\<close>, \<open>Cow\<close> and \<open>Lifetime\<close> hold the
    lemmas on the lookup, the reference counts, the guest's view of mapped
    bytes, the search for holes, pointers, copy-on-write and destruction.
  \<^item> Users of address spaces: \<open>Tlb\<close> (\<open>src/emu/tlb.c\<close>, the cache of page
    translations in front of the page table), \<open>Usermem\<close>
    (\<open>src/kernel/user.c\<close>, the copies between kernel and guest), \<open>Mmap\<close>
    (\<open>src/kernel/mmap.c\<close>, the system calls on memory). \<open>Demo\<close> is a concrete
    system; \<open>Memory_Props\<close> and \<open>Mmap_Props\<close> hold the properties.
  \<^item> Arithmetic: \<open>Bitcount\<close> (compiler builtins), \<open>Uint128\<close>
    (\<open>src/emu/uint128.c\<close>), \<open>Float80\<close> and \<open>Float80_Facts\<close>
    (\<open>src/emu/float80.c\<close>), \<open>Arith_Props\<close>.
  \<^item> The CPU: \<open>Cpu\<close> (\<open>struct cpu_state\<close>, registers, lazy flags), \<open>Fpu\<close>
    (\<open>src/emu/fpu.c\<close>), \<open>Machine\<close> (operands, ModRM, faults), \<open>Interp\<close> and
    \<open>Interp_Fpu\<close> (the instruction macros of \<open>src/emu/interp.c\<close> and
    \<open>src/emu/interp/\<close>), \<open>Decode\<close> (\<open>src/emu/decode.h\<close>), \<open>Interp_Facts\<close> and
    \<open>Cpu_Props\<close>.
  \<^item> Confinement: \<open>Confine\<close> states, as the locale \<open>memory_contract\<close>, what a
    relation between the states of memory before and after must satisfy to hold
    of every instruction; \<open>Isolation\<close> interprets it on the TLB and the page
    tables.
  \<^item> Services of the kernel: \<open>Klog\<close> (\<open>src/kernel/log.c\<close>), \<open>Fd_Table\<close> and
    \<open>Fd_Facts\<close> (\<open>src/fs/fd.c\<close>), \<open>Path\<close> and \<open>Path_Facts\<close>
    (\<open>src/fs/path.c\<close>, \<open>src/fs/mount.c\<close>), \<open>Kernel_Props\<close>.
  \<^item> Files: \<open>Vfs\<close> (the calls on paths of \<open>src/fs/generic.c\<close> and
    \<open>src/fs/stat.c\<close>, mounts with their references, the devices of
    \<open>src/fs/dev.c\<close> and \<open>src/fs/mem.c\<close>, files of \<open>src/fs/adhoc.c\<close>), \<open>Files\<close>
    (every system call of \<open>src/kernel/fs.c\<close>, \<open>src/fs/dir.c\<close>,
    \<open>src/fs/pipe.c\<close>, and \<open>mount\<close>, \<open>umount2\<close> and the \<open>stat\<close> calls), \<open>Procfs\<close>
    (\<open>src/fs/proc.c\<close>, \<open>src/fs/proc/\<close>). A file system is a record of operations
    on a world of its own. \<open>Vfs_Facts\<close> holds the lemmas on device numbers and
    references, \<open>Files_Inv\<close> the invariant of mounts and files and its
    preservation by every call, \<open>Files_Open\<close> those on opening a file,
    \<open>Listing\<close> states as the locale \<open>directory\<close> what a listing needs of a file
    system and interprets it on \<open>proc\<close>, \<open>Proc_Lookup\<close> compares its lookup
    with a tree, \<open>Files_Props\<close> holds the properties.
  \<^item> Tasks: \<open>Creds\<close> (\<open>src/kernel/getset.c\<close>), \<open>Task\<close> (\<open>src/kernel/task.c\<close>,
    the state \<open>kern\<close> of the kernel), \<open>Signal\<close> and \<open>Deliver\<close>
    (\<open>src/kernel/user-signal.c\<close>), \<open>Group\<close> (\<open>src/kernel/group.c\<close>,
    \<open>src/kernel/resource.c\<close>), \<open>Process\<close> (\<open>src/kernel/fork.c\<close>,
    \<open>src/kernel/exit.c\<close>, \<open>src/kernel/init.c\<close>), \<open>Syscall\<close>
    (\<open>src/kernel/calls.c\<close>), \<open>Run\<close> (the loop \<open>cpu_run\<close> of
    \<open>src/emu/interp.c\<close>). \<open>Kern_Facts\<close> and \<open>Kern_Steps\<close> hold the
    invariant \<open>kern_ok\<close> and its preservation by every step, \<open>Fork_Facts\<close>,
    \<open>Signal_Facts\<close> and \<open>Wait_Facts\<close> the lemmas on those calls,
    \<open>Kern_Demo\<close> a concrete kernel, \<open>Process_Props\<close> the properties.
  \<^item> Waiting and time: \<open>Utilities\<close> (\<open>wait_for\<close> of \<open>src/util/sync.c\<close>; the
    linked lists of \<open>src/util/list.h\<close>), \<open>Futex\<close>,
    \<open>Futex_Facts\<close> and \<open>Futex_Props\<close> (\<open>src/kernel/futex.c\<close>), \<open>Time\<close>
    (\<open>src/kernel/time.c\<close>, \<open>src/util/timer.c\<close>), \<open>Poll\<close> (sets of
    files: \<open>src/fs/poll.c\<close>, \<open>src/kernel/eventfd.c\<close>, timerfd), \<open>Epoll\<close>
    (\<open>src/kernel/poll.c\<close>, \<open>src/kernel/epoll.c\<close>), \<open>Poll_Facts\<close> and
    \<open>Poll_Props\<close>.
  \<^item> Terminals: \<open>Tty\<close> (\<open>src/fs/tty.c\<close>), \<open>Tty_Facts\<close> (an editor of marked
    text that the line discipline implements), \<open>Tty_Props\<close>.
  \<^item> Programs and the host: \<open>Exec\<close> (\<open>src/kernel/exec.c\<close>, \<open>src/kernel/elf.h\<close>,
    \<open>src/kernel/vdso.c\<close>: loading a program into a new address space, its stack,
    scripts; start-up and facts about the host: \<open>src/kernel/init.c\<close>,
    \<open>src/kernel/uname.c\<close>, \<open>src/kernel/random.c\<close>), \<open>Sock\<close> (\<open>src/fs/sock.c\<close>, \<open>src/fs/sock.h\<close>). They
    work on the state of \<open>Files\<close>; \<open>Exec_Props\<close> and \<open>Sock_Props\<close> hold the
    properties. \<open>Realfs\<close> (\<open>src/fs/real.c\<close>) is a file system for \<open>Vfs\<close> on the files
    of the host.

  \<^bold>\<open>How state and code correspond.\<close> A C structure is a record or datatype with
  the names of its members, a fixed-width integer is a word of its width, and
  a function is a HOL function of the same name that takes the state and
  returns it changed. Errors stay values: a negative number where the C code
  returns one, a sum or option where it returns a pointer, an interrupt number
  where an instruction faults. An assertion that fails, a null pointer that is
  followed and a call of \<open>die\<close> are the value \<open>None\<close>, or set \<open>vm_ub\<close> in the
  memory model. Host services answer from parameters (the oracle \<open>vm_host\<close>, the
  operations of a file or a file system, trigonometric functions).

  \<^bold>\<open>What the lemmas show.\<close> The page table keeps the invariant of counted host
  allocations through mapping, unmapping, fork and access; two address spaces
  that share pages after a fork do not see each other's writes, unless \<open>mprotect\<close>
  has made a shared page forget that it is one; the TLB shows
  what the page table shows; the memory calls place, remove and refuse ranges
  as documented, with exceptions that are stated. Conversions and rounding of
  80-bit numbers are compared with the numbers they stand for, as far as the code
  looks at the bits it drops; the arithmetic
  instructions with signed and unsigned comparison and with sums; a faulting
  plain instruction leaves the registers alone and can be done again, unless it has
  a prefix for the other operand size. Descriptor tables count their
  files; the log is the last bytes of what was printed; a path without links
  is the walk of its components, if it is not too long; with or without links, what comes
  out has no dots left; a path belongs to the mount with the longest
  matching point. Whatever a guest runs, the bytes of other address spaces stay
  as they are; user and group ids, but not supplementary groups, come only from those a
  task has, unless it is the superuser; the table of process ids and the tasks agree after every interrupt;
  a child of \<open>fork\<close> is a copy that gets 0; \<open>wait4\<close> collects a child that has
  ended, and stores its status and usage, or reports it although a store has failed; a handler gets the registers of the interrupted code back on return.
  Futexes are counted by those who use them, and a wake-up reaches the sleepers;
  \<open>epoll_wait\<close> reports what is ready and is woken by what becomes ready; the
  entries of a set of files and of the files themselves agree, and a file that is
  closed leaves none; a counter loses nothing; a periodic timer does not drift;
  a line that is typed is what a process reads, as an editor of a line says, and
  completed lines cannot be changed. A call on a path gives back the references to
  mounts that it takes; whatever calls follow each other, every open file is on a
  mount that is still mounted, as long as no count of references wraps around; opening a file keeps the counts of descriptors and puts
  the file behind the descriptor it returns; a listing writes whole entries, no more
  than fit, and goes on where it stopped. A program starts without the marked
  descriptors and the handlers of the one before it; a file that is no program leaves
  the process as it was; the first line of a script is read back; a socket is behind
  the descriptor that is returned; a path
  on a file system of the host names the one file below the directory that is mounted, except
  for the name of a new link and, when \<open>fchdir\<close> fails, a fifo. The linked
  lists, several of them in one memory, do what lists that are sequences do.

  \<^bold>\<open>Bounds and fuel.\<close> The decoder takes fuel for the prefixes of an instruction,
  which the code bounds by nothing. The loop of a repeated string instruction
  runs at most \<open>ecx\<close> times and gets that much fuel, which is proved enough.
  The search for a free process id gets 1025 rounds, one more than the table
  has slots: it has then seen every slot, and the code's loop would not end.
  \<open>path_normalize\<close> takes the number of symbolic links that may still be
  followed, which the code bounds by nothing. The length of a string of the guest is searched
  for \<open>2 ^ 32\<close> bytes, after which the code would have come round to the first one. Every other loop is structural, or a function
  with a proof of termination.

  \<^bold>\<open>Waiting.\<close> A call that blocks takes a parameter \<open>others\<close>, the list of what the
  rest of the system does to the kernel between its wake-ups; when the list is
  used up the call is \<open>Asleep\<close> or \<open>None\<close>, that is, it has not returned yet.
  Waking a host thread, starting and ending one are events that the state
  records. A futex is different: going to sleep and waking up are two steps, and
  the sleepers are part of the state. The states of terminals, sets of files,
  futexes and timers are records of their own around the kernel; they meet in the
  descriptor table, the tasks and the address spaces that they share with it.

  \<^bold>\<open>Not modelled.\<close> Locks and threads (an operation is atomic); the text of
  messages; the fake file system, whose operations are queries of a database, and
  which is a parameter of the calls on files; terminals of
  the host; replacements of POSIX functions for Windows.
  Files that are closed by \<open>dup2\<close> or the end of a process change the descriptor
  table only; what closing does to sets of files is stated for \<open>close\<close>. A read
  that does not return has no value: the read operation of a file is a function.
\<close>

end
